(* ===== verification/Prelude.thy ===== *)
theory Prelude
  imports Main
begin

text \<open>
  What every component shares: the results of C++ code that may stop (\<open>res\<close>), the
  sequencing of such code (\<open>bnd\<close>), loops over lists (\<open>mapM\<close>, \<open>foldM\<close>), the bounds-checked
  access to an \<open>ArrayRef\<close> or \<open>SmallVector\<close> (\<open>at\<close>, \<open>put\<close>), 64-bit signed arithmetic
  (\<open>i64\<close>), and the hint collections of the component proofs.
\<close>

section \<open>Results\<close>

text \<open>
  \<open>Fatal\<close> is \<open>llvm::report_fatal_error\<close> with its message (the constant part of it), or a
  failed \<open>LogicalResult\<close> with the message it emits; \<open>Undefined\<close> is what C++ leaves undefined
  or guards by an assertion (an index out of range, signed overflow, division by zero, a
  read of uninitialised memory); \<open>OutOfFuel\<close> is no outcome of the code: it marks a run of
  the model that was given too little fuel for a loop or for nested regions.
\<close>

datatype error = Fatal string | Undefined | OutOfFuel

type_synonym 'a res = "error + 'a"

named_theorems res_simps
named_theorems mono_intros

definition bnd :: "'a res \<Rightarrow> ('a \<Rightarrow> 'b res) \<Rightarrow> 'b res" where
  "bnd m f = (case m of Inl e \<Rightarrow> Inl e | Inr x \<Rightarrow> f x)"

lemma bnd_Inr [simp]: "bnd (Inr x) f = f x"
  by (simp add: bnd_def)

lemma bnd_Inl [simp]: "bnd (Inl e) f = Inl e"
  by (simp add: bnd_def)

lemma bnd_eq_Inr [res_simps]: "bnd m f = Inr y \<longleftrightarrow> (\<exists>x. m = Inr x \<and> f x = Inr y)"
  by (cases m) auto

lemma bnd_eq_Inl: "bnd m f = Inl e \<longleftrightarrow> m = Inl e \<or> (\<exists>x. m = Inr x \<and> f x = Inl e)"
  by (cases m) auto

lemma bnd_assoc: "bnd (bnd m f) g = bnd m (\<lambda>x. bnd (f x) g)"
  by (cases m) auto

lemma bnd_unit [simp]: "bnd m Inr = m"
  by (cases m) auto

lemma bnd_cong [fundef_cong]:
  "m = m' \<Longrightarrow> (\<And>x. m' = Inr x \<Longrightarrow> f x = f' x) \<Longrightarrow> bnd m f = bnd m' f'"
  by (cases m') auto

text \<open>\<open>require c e x\<close> continues with \<open>x\<close> when the check \<open>c\<close> of the code holds.\<close>

definition require :: "bool \<Rightarrow> error \<Rightarrow> 'a res \<Rightarrow> 'a res" where
  "require c e x = (if c then x else Inl e)"

lemma require_True [simp]: "require True e x = x"
  by (simp add: require_def)

lemma require_False [simp]: "require False e x = Inl e"
  by (simp add: require_def)

lemma require_eq_Inr [res_simps]: "require c e x = Inr y \<longleftrightarrow> c \<and> x = Inr y"
  by (simp add: require_def)

lemma require_cong [fundef_cong]:
  "c = c' \<Longrightarrow> e = e' \<Longrightarrow> (c' \<Longrightarrow> x = x') \<Longrightarrow> require c e x = require c' e' x'"
  by (simp add: require_def)

definition fails :: "'a res \<Rightarrow> bool" where
  "fails r = (case r of Inl _ \<Rightarrow> True | Inr _ \<Rightarrow> False)"

lemma fails_simps [simp]: "fails (Inl e)" "\<not> fails (Inr x)"
  by (simp_all add: fails_def)

lemma not_fails: "\<not> fails r \<longleftrightarrow> (\<exists>x. r = Inr x)"
  by (cases r) auto

section \<open>Loops over lists\<close>

fun mapM :: "('a \<Rightarrow> 'b res) \<Rightarrow> 'a list \<Rightarrow> 'b list res" where
  "mapM f [] = Inr []"
| "mapM f (x # xs) = bnd (f x) (\<lambda>y. bnd (mapM f xs) (\<lambda>ys. Inr (y # ys)))"

fun foldM :: "('s \<Rightarrow> 'a \<Rightarrow> 's res) \<Rightarrow> 's \<Rightarrow> 'a list \<Rightarrow> 's res" where
  "foldM f s [] = Inr s"
| "foldM f s (x # xs) = bnd (f s x) (\<lambda>t. foldM f t xs)"

lemma mapM_cong [fundef_cong]:
  "xs = ys \<Longrightarrow> (\<And>x. x \<in> set ys \<Longrightarrow> f x = g x) \<Longrightarrow> mapM f xs = mapM g ys"
  by (induction ys arbitrary: xs) auto

lemma foldM_cong [fundef_cong]:
  "s = t \<Longrightarrow> xs = ys \<Longrightarrow> (\<And>u x. x \<in> set ys \<Longrightarrow> f u x = g u x) \<Longrightarrow> foldM f s xs = foldM g t ys"
proof (induction ys arbitrary: xs s t)
  case (Cons y ys)
  then show ?case by (cases "g t y") auto
qed simp

lemma mapM_Inr_map: "(\<And>x. x \<in> set xs \<Longrightarrow> f x = Inr (g x)) \<Longrightarrow> mapM f xs = Inr (map g xs)"
  by (induction xs) auto

lemma mapM_eq_Inr:
  "mapM f xs = Inr ys \<longleftrightarrow> length ys = length xs \<and> (\<forall>i < length xs. f (xs ! i) = Inr (ys ! i))"
proof (induction xs arbitrary: ys)
  case Nil
  then show ?case by auto
next
  case (Cons x xs)
  show ?case
  proof (cases ys)
    case Nil
    then show ?thesis by (auto simp: bnd_eq_Inr)
  next
    case (Cons y ys')
    then show ?thesis
      by (auto simp: bnd_eq_Inr Cons.IH All_less_Suc2)
  qed
qed

lemma mapM_length: "mapM f xs = Inr ys \<Longrightarrow> length ys = length xs"
  by (simp add: mapM_eq_Inr)

lemma mapM_nth: "mapM f xs = Inr ys \<Longrightarrow> i < length xs \<Longrightarrow> f (xs ! i) = Inr (ys ! i)"
  by (simp add: mapM_eq_Inr)

lemma mapM_eq_Inl: "mapM f xs = Inl e \<Longrightarrow> \<exists>x \<in> set xs. f x = Inl e"
  by (induction xs) (auto simp: bnd_eq_Inl)

lemma mapM_total: "(\<And>x. x \<in> set xs \<Longrightarrow> \<exists>y. f x = Inr y) \<Longrightarrow> \<exists>ys. mapM f xs = Inr ys"
proof (induction xs)
  case (Cons x xs)
  then obtain y ys where "f x = Inr y" "mapM f xs = Inr ys" by fastforce
  then show ?case by simp
qed simp

lemma foldM_append: "foldM f s (xs @ ys) = bnd (foldM f s xs) (\<lambda>t. foldM f t ys)"
  by (induction xs arbitrary: s) (auto simp: bnd_assoc)

lemma foldM_map: "foldM f s (map g xs) = foldM (\<lambda>t x. f t (g x)) s xs"
  by (induction xs arbitrary: s) auto

lemma foldM_invariant:
  assumes "foldM f s xs = Inr t" and "P s"
    and "\<And>u x v. x \<in> set xs \<Longrightarrow> P u \<Longrightarrow> f u x = Inr v \<Longrightarrow> P v"
  shows "P t"
  using assms
proof (induction xs arbitrary: s)
  case (Cons x xs)
  then obtain u where u: "f s x = Inr u" "foldM f u xs = Inr t" by (auto simp: bnd_eq_Inr)
  then have "P u" using Cons.prems by auto
  with u Cons show ?case by auto
qed simp

lemma foldM_total:
  assumes "P s" and "\<And>u x. x \<in> set xs \<Longrightarrow> P u \<Longrightarrow> \<exists>v. f u x = Inr v \<and> P v"
  shows "\<exists>t. foldM f s xs = Inr t \<and> P t"
  using assms
proof (induction xs arbitrary: s)
  case (Cons x xs)
  then obtain u where "f s x = Inr u" "P u" by fastforce
  with Cons show ?case by auto
qed auto

section \<open>Bounds-checked access\<close>

definition at :: "'a list \<Rightarrow> int \<Rightarrow> 'a res" where
  "at xs i = (if 0 \<le> i \<and> i < int (length xs) then Inr (xs ! nat i) else Inl Undefined)"

definition put :: "'a list \<Rightarrow> int \<Rightarrow> 'a \<Rightarrow> 'a list res" where
  "put xs i v = (if 0 \<le> i \<and> i < int (length xs) then Inr (xs[nat i := v]) else Inl Undefined)"

lemma at_int [simp]: "i < length xs \<Longrightarrow> at xs (int i) = Inr (xs ! i)"
  by (simp add: at_def)

lemma at_Cons_0 [simp]: "at (x # xs) 0 = Inr x"
  by (simp add: at_def)

lemma at_nonneg: "0 \<le> i \<Longrightarrow> i < int (length xs) \<Longrightarrow> at xs i = Inr (xs ! nat i)"
  by (simp add: at_def)

lemma at_eq_Inr [res_simps]:
  "at xs i = Inr x \<longleftrightarrow> 0 \<le> i \<and> i < int (length xs) \<and> x = xs ! nat i"
  by (auto simp: at_def)

lemma put_nonneg: "0 \<le> i \<Longrightarrow> i < int (length xs) \<Longrightarrow> put xs i v = Inr (xs[nat i := v])"
  by (simp add: put_def)

lemma put_eq_Inr [res_simps]:
  "put xs i v = Inr ys \<longleftrightarrow> 0 \<le> i \<and> i < int (length xs) \<and> ys = xs[nat i := v]"
  by (auto simp: put_def)

section \<open>Signed 64-bit integers\<close>

text \<open>
  \<open>int64_t\<close> values are integers in the range of 64 bits; an operation whose exact result is
  outside it overflows, which C++ leaves undefined.
\<close>

definition i64_ok :: "int \<Rightarrow> bool" where
  "i64_ok v \<longleftrightarrow> - (2 ^ 63) \<le> v \<and> v < 2 ^ 63"

definition i64 :: "int \<Rightarrow> int res" where
  "i64 v = (if i64_ok v then Inr v else Inl Undefined)"

lemma i64_in: "i64_ok v \<Longrightarrow> i64 v = Inr v"
  by (simp add: i64_def)

lemma i64_eq_Inr [res_simps]: "i64 v = Inr w \<longleftrightarrow> i64_ok v \<and> w = v"
  by (auto simp: i64_def)

lemma i64_ok_between: "i64_ok a \<Longrightarrow> i64_ok b \<Longrightarrow> a \<le> v \<Longrightarrow> v \<le> b \<Longrightarrow> i64_ok v"
  by (simp add: i64_ok_def)

lemma i64_ok_0 [simp]: "i64_ok 0" and i64_ok_1 [simp]: "i64_ok 1"
  by (simp_all add: i64_ok_def)

section \<open>Fuel\<close>

text \<open>
  \<open>res_le r r'\<close>: \<open>r'\<close> is \<open>r\<close> unless \<open>r\<close> ran out of fuel. The order in which more fuel
  refines a result.
\<close>

definition res_le :: "'a res \<Rightarrow> 'a res \<Rightarrow> bool" where
  "res_le r r' \<longleftrightarrow> r = Inl OutOfFuel \<or> r = r'"

lemma res_le_refl [mono_intros]: "res_le r r"
  by (simp add: res_le_def)

lemma res_le_trans: "res_le a b \<Longrightarrow> res_le b c \<Longrightarrow> res_le a c"
  by (auto simp: res_le_def)

lemma res_le_fuel [simp]: "res_le (Inl OutOfFuel) r"
  by (simp add: res_le_def)

lemma res_le_bnd [mono_intros]:
  "res_le m m' \<Longrightarrow> (\<And>x. res_le (f x) (f' x)) \<Longrightarrow> res_le (bnd m f) (bnd m' f')"
proof -
  assume m: "res_le m m'" and f: "\<And>x. res_le (f x) (f' x)"
  show ?thesis
  proof (cases m)
    case (Inl e)
    with m show ?thesis by (auto simp: res_le_def)
  next
    case (Inr b)
    with m have "m' = Inr b" by (auto simp: res_le_def)
    with Inr f [of b] show ?thesis by simp
  qed
qed

lemma res_le_require [mono_intros]:
  "res_le x x' \<Longrightarrow> res_le (require c e x) (require c e x')"
  by (auto simp: res_le_def require_def)

lemma res_le_if [mono_intros]:
  "res_le x x' \<Longrightarrow> res_le y y' \<Longrightarrow> res_le (if c then x else y) (if c then x' else y')"
  by auto

lemma res_le_foldM [mono_intros]:
  "(\<And>s x. res_le (f s x) (g s x)) \<Longrightarrow> res_le (foldM f s xs) (foldM g s xs)"
proof (induction xs arbitrary: s)
  case (Cons x xs)
  then show ?case by (auto intro: res_le_bnd)
qed (simp add: res_le_def)

lemma res_le_mapM [mono_intros]:
  "(\<And>x. res_le (f x) (g x)) \<Longrightarrow> res_le (mapM f xs) (mapM g xs)"
  by (induction xs) (auto intro!: mono_intros)

section \<open>Lists\<close>

lemma nth_ext: "length xs = length ys \<Longrightarrow> (\<And>i. i < length xs \<Longrightarrow> xs ! i = ys ! i) \<Longrightarrow> xs = ys"
  by (rule nth_equalityI) auto

lemma upto_map_nth: "map (\<lambda>i. xs ! i) [0..<length xs] = xs"
  by (rule map_nth)

end
