(* ===== verification/MlirTypes.thy ===== *)
theory MlirTypes
  imports Prelude
begin

text \<open>
  The MLIR types the modelled code inspects (\<open>mlir::Type\<close>), the static and dynamic sizes of
  shaped types, and the predicates of \<open>stablehlo/reference/Types.cpp\<close>.
\<close>

section \<open>Types\<close>

text \<open>The floating-point semantics of \<open>llvm::APFloat\<close> that have an MLIR type.\<close>

datatype fsem = F8E4M3B11FNUZ | F8E4M3FN | F8E4M3FNUZ | F8E5M2 | F8E5M2FNUZ
  | F16 | BF16 | F32 | F64 | F80 | F128

datatype signedness = Signless | Signed | Unsigned

text \<open>
  The encoding attribute of a ranked tensor type: none, an attribute that implements
  \<open>BoundedAttrInterface\<close> (\<open>TypeExtensions\<close>, one bound per dimension), or another one (a
  sparsity encoding), of which the code only tests that it is not a bounded attribute.
\<close>

datatype encoding = NoEncoding | Bounds "int list" | OtherEncoding nat

datatype ty =
    IntegerType signedness nat
  | IndexType
  | FloatType fsem
  | ComplexType ty
  | QuantizedType (q_storage: ty) (q_min: int) (q_max: int) (q_expressed: ty)
  | RankedTensorType "int list" ty encoding
  | UnrankedTensorType ty
  | TupleType "ty list"
  | TokenType

definition kDynamic :: int where "kDynamic = - (2 ^ 63)"

definition isDynamicDimSize :: "int \<Rightarrow> bool" where
  "isDynamicDimSize v \<longleftrightarrow> v = kDynamic"

definition isStaticDimSize :: "int \<Rightarrow> bool" where
  "isStaticDimSize v \<longleftrightarrow> \<not> isDynamicDimSize v"

fun is_shaped :: "ty \<Rightarrow> bool" where
  "is_shaped (RankedTensorType _ _ _) = True"
| "is_shaped (UnrankedTensorType _) = True"
| "is_shaped _ = False"

fun has_rank :: "ty \<Rightarrow> bool" where
  "has_rank (RankedTensorType _ _ _) = True"
| "has_rank _ = False"

fun shape_of :: "ty \<Rightarrow> int list" where
  "shape_of (RankedTensorType sh _ _) = sh"
| "shape_of _ = []"

fun element_type :: "ty \<Rightarrow> ty" where
  "element_type (RankedTensorType _ et _) = et"
| "element_type (UnrankedTensorType et) = et"
| "element_type t = t"

fun encoding_of :: "ty \<Rightarrow> encoding" where
  "encoding_of (RankedTensorType _ _ enc) = enc"
| "encoding_of _ = NoEncoding"

definition rank :: "ty \<Rightarrow> int" where
  "rank t = int (length (shape_of t))"

text \<open>A shape with no dynamic and no negative dimension, and its number of elements.\<close>

definition static_shape :: "int list \<Rightarrow> bool" where
  "static_shape sh \<longleftrightarrow> (\<forall>d \<in> set sh. 0 \<le> d)"

definition num_elements :: "int list \<Rightarrow> int" where
  "num_elements sh = prod_list sh"

lemma num_elements_Nil [simp]: "num_elements [] = 1"
  by (simp add: num_elements_def)

lemma num_elements_Cons [simp]: "num_elements (d # ds) = d * num_elements ds"
  by (simp add: num_elements_def)

lemma static_shape_Nil [simp]: "static_shape []"
  by (simp add: static_shape_def)

lemma static_shape_Cons [simp]: "static_shape (d # ds) \<longleftrightarrow> 0 \<le> d \<and> static_shape ds"
  by (auto simp: static_shape_def)

lemma num_elements_nonneg [simp]: "static_shape sh \<Longrightarrow> 0 \<le> num_elements sh"
  by (induction sh) auto

section \<open>Supported element types\<close>

fun isUnsignedInteger :: "ty \<Rightarrow> nat \<Rightarrow> bool" where
  "isUnsignedInteger (IntegerType Unsigned w) n = (w = n)"
| "isUnsignedInteger _ n = False"

fun isSignlessInteger :: "ty \<Rightarrow> nat \<Rightarrow> bool" where
  "isSignlessInteger (IntegerType Signless w) n = (w = n)"
| "isSignlessInteger _ n = False"

definition isSupportedUnsignedIntegerType :: "ty \<Rightarrow> bool" where
  "isSupportedUnsignedIntegerType type \<longleftrightarrow>
     isUnsignedInteger type 4 \<or> isUnsignedInteger type 8 \<or>
     isUnsignedInteger type 16 \<or> isUnsignedInteger type 32 \<or>
     isUnsignedInteger type 64"

definition isSupportedSignedIntegerType :: "ty \<Rightarrow> bool" where
  "isSupportedSignedIntegerType type \<longleftrightarrow>
     isSignlessInteger type 4 \<or> isSignlessInteger type 8 \<or>
     isSignlessInteger type 16 \<or> isSignlessInteger type 32 \<or>
     isSignlessInteger type 64"

definition isSupportedBooleanType :: "ty \<Rightarrow> bool" where
  "isSupportedBooleanType type \<longleftrightarrow> isSignlessInteger type 1"

definition isSupportedIntegerType :: "ty \<Rightarrow> bool" where
  "isSupportedIntegerType type \<longleftrightarrow>
     isSupportedUnsignedIntegerType type \<or> isSupportedSignedIntegerType type"

fun isSupportedFloatType :: "ty \<Rightarrow> bool" where
  "isSupportedFloatType (FloatType s) =
     (s \<in> {F8E4M3B11FNUZ, F8E4M3FN, F8E4M3FNUZ, F8E5M2, F8E5M2FNUZ, F16, BF16, F32, F64})"
| "isSupportedFloatType _ = False"

fun is_float :: "ty \<Rightarrow> bool" where
  "is_float (FloatType _) = True"
| "is_float _ = False"

fun is_complex :: "ty \<Rightarrow> bool" where
  "is_complex (ComplexType _) = True"
| "is_complex _ = False"

fun is_i1 :: "ty \<Rightarrow> bool" where
  "is_i1 (IntegerType s w) \<longleftrightarrow> w = 1"
| "is_i1 _ \<longleftrightarrow> False"

fun isSupportedComplexType :: "ty \<Rightarrow> bool" where
  "isSupportedComplexType (ComplexType e) = (e = FloatType F32 \<or> e = FloatType F64)"
| "isSupportedComplexType _ = False"

definition supported_element_type :: "ty \<Rightarrow> bool" where
  "supported_element_type t \<longleftrightarrow> isSupportedIntegerType t \<or> isSupportedBooleanType t \<or>
     isSupportedFloatType t \<or> isSupportedComplexType t"

lemma isUnsignedInteger_iff: "isUnsignedInteger t n \<longleftrightarrow> t = IntegerType Unsigned n"
  by (cases "(t, n)" rule: isUnsignedInteger.cases) auto

lemma isSignlessInteger_iff: "isSignlessInteger t n \<longleftrightarrow> t = IntegerType Signless n"
  by (cases "(t, n)" rule: isSignlessInteger.cases) auto

lemmas supported_int_defs = isSupportedUnsignedIntegerType_def isSupportedSignedIntegerType_def
  isUnsignedInteger_iff isSignlessInteger_iff

lemma isSupportedIntegerType_cases:
  "isSupportedIntegerType t \<longleftrightarrow>
     (\<exists>s w. t = IntegerType s w \<and> s \<noteq> Signed \<and> w \<in> {4, 8, 16, 32, 64})"
proof
  assume "\<exists>s w. t = IntegerType s w \<and> s \<noteq> Signed \<and> w \<in> {4, 8, 16, 32, 64}"
  then obtain s w where "t = IntegerType s w" "s \<noteq> Signed" "w \<in> {4, 8, 16, 32, 64}" by blast
  then show "isSupportedIntegerType t"
    by (cases s) (auto simp: isSupportedIntegerType_def supported_int_defs)
qed (auto simp: isSupportedIntegerType_def supported_int_defs)

lemma isSupportedBooleanType_iff: "isSupportedBooleanType t \<longleftrightarrow> t = IntegerType Signless 1"
  by (simp add: isSupportedBooleanType_def isSignlessInteger_iff)

text \<open>The four classes of supported element types exclude one another.\<close>

lemma supported_disjoint:
  "isSupportedIntegerType t \<Longrightarrow> \<not> isSupportedBooleanType t \<and> \<not> isSupportedFloatType t \<and>
     \<not> isSupportedComplexType t"
  "isSupportedBooleanType t \<Longrightarrow> \<not> isSupportedFloatType t \<and> \<not> isSupportedComplexType t"
  "isSupportedFloatType t \<Longrightarrow> \<not> isSupportedComplexType t"
  by (auto simp: isSupportedIntegerType_cases isSupportedBooleanType_iff elim: isSupportedFloatType.elims)

end
