(* ===== verification/ApInt.thy ===== *)
theory ApInt
  imports Prelude "HOL-Library.Signed_Division"
begin

unbundle bit_operations_syntax

text \<open>
  Fixed-width integers. The code keeps integer tensor elements in \<open>llvm::APInt\<close>: a bit width
  chosen at run time and a value of that many bits, with two's complement arithmetic that
  wraps around. \<open>APInt w u\<close> is such a value, \<open>u\<close> its unsigned reading (\<open>getZExtValue\<close>) and
  \<open>sval\<close> its signed one (\<open>getSExtValue\<close>). Division by zero is an assertion failure
  (\<open>Undefined\<close>). This theory is the integer arithmetic of the model, not code of the
  repository: no definition of it is in the map.
\<close>

section \<open>Values\<close>

datatype apint = APInt (ap_width: nat) (uval: int)

definition mk_apint :: "nat \<Rightarrow> int \<Rightarrow> apint" where
  "mk_apint w v = APInt w (v mod 2 ^ w)"

definition sval :: "apint \<Rightarrow> int" where
  "sval a = (if 2 ^ (ap_width a - 1) \<le> uval a then uval a - 2 ^ ap_width a else uval a)"

definition wf_apint :: "apint \<Rightarrow> bool" where
  "wf_apint a \<longleftrightarrow> 0 < ap_width a \<and> 0 \<le> uval a \<and> uval a < 2 ^ ap_width a"

definition ap_neg_p :: "apint \<Rightarrow> bool" where
  "ap_neg_p a \<longleftrightarrow> sval a < 0"

lemma ap_width_mk [simp]: "ap_width (mk_apint w v) = w"
  by (simp add: mk_apint_def)

lemma uval_mk [simp]: "uval (mk_apint w v) = v mod 2 ^ w"
  by (simp add: mk_apint_def)

lemma wf_mk_apint [simp]: "0 < w \<Longrightarrow> wf_apint (mk_apint w v)"
  by (simp add: wf_apint_def)

lemma mk_apint_uval: "wf_apint a \<Longrightarrow> mk_apint (ap_width a) (uval a) = a"
  by (cases a) (simp add: mk_apint_def wf_apint_def)

lemma sval_cong_uval: "(sval a - uval a) mod 2 ^ ap_width a = 0"
  by (simp add: sval_def)

lemma mk_apint_sval: "wf_apint a \<Longrightarrow> mk_apint (ap_width a) (sval a) = a"
proof -
  assume "wf_apint a"
  moreover have "sval a mod 2 ^ ap_width a = uval a mod 2 ^ ap_width a"
    by (simp add: sval_def)
  ultimately show ?thesis by (cases a) (simp add: mk_apint_def wf_apint_def)
qed

lemma mk_apint_eq_iff: "mk_apint w v = mk_apint w v' \<longleftrightarrow> v mod 2 ^ w = v' mod 2 ^ w"
  by (simp add: mk_apint_def)

lemma pow2_split: "0 < w \<Longrightarrow> (2::int) ^ w = 2 * 2 ^ (w - 1)"
  by (cases w) simp_all

lemma sval_range: "wf_apint a \<Longrightarrow> - (2 ^ (ap_width a - 1)) \<le> sval a \<and> sval a < 2 ^ (ap_width a - 1)"
  by (auto simp: sval_def wf_apint_def pow2_split)

lemma sval_mk_in:
  assumes "0 < w" and "- (2 ^ (w - 1)) \<le> v" and "v < 2 ^ (w - 1)"
  shows "sval (mk_apint w v) = v"
proof (cases "0 \<le> v")
  case True
  with assms have "v mod 2 ^ w = v" by (simp add: pow2_split)
  with True assms show ?thesis by (simp add: sval_def)
next
  case False
  have "v mod 2 ^ w = (v + 2 ^ w) mod 2 ^ w" by simp
  also have "\<dots> = v + 2 ^ w"
    by (rule mod_pos_pos_trivial) (use False assms in \<open>simp_all add: pow2_split\<close>)
  finally have "v mod 2 ^ w = v + 2 ^ w" .
  with False assms show ?thesis by (simp add: sval_def pow2_split)
qed

lemma uval_mk_in: "0 \<le> v \<Longrightarrow> v < 2 ^ w \<Longrightarrow> uval (mk_apint w v) = v"
  by simp

section \<open>Arithmetic\<close>

definition ap_add :: "apint \<Rightarrow> apint \<Rightarrow> apint" where
  "ap_add a b = mk_apint (ap_width a) (uval a + uval b)"

definition ap_sub :: "apint \<Rightarrow> apint \<Rightarrow> apint" where
  "ap_sub a b = mk_apint (ap_width a) (uval a - uval b)"

definition ap_mul :: "apint \<Rightarrow> apint \<Rightarrow> apint" where
  "ap_mul a b = mk_apint (ap_width a) (uval a * uval b)"

definition ap_neg :: "apint \<Rightarrow> apint" where
  "ap_neg a = mk_apint (ap_width a) (- uval a)"

definition ap_abs :: "apint \<Rightarrow> apint" where
  "ap_abs a = (if ap_neg_p a then ap_neg a else a)"

definition ap_sdiv :: "apint \<Rightarrow> apint \<Rightarrow> apint res" where
  "ap_sdiv a b = (if uval b = 0 then Inl Undefined
                  else Inr (mk_apint (ap_width a) (sval a sdiv sval b)))"

definition ap_udiv :: "apint \<Rightarrow> apint \<Rightarrow> apint res" where
  "ap_udiv a b = (if uval b = 0 then Inl Undefined
                  else Inr (mk_apint (ap_width a) (uval a div uval b)))"

definition ap_srem :: "apint \<Rightarrow> apint \<Rightarrow> apint res" where
  "ap_srem a b = (if uval b = 0 then Inl Undefined
                  else Inr (mk_apint (ap_width a) (sval a smod sval b)))"

definition ap_urem :: "apint \<Rightarrow> apint \<Rightarrow> apint res" where
  "ap_urem a b = (if uval b = 0 then Inl Undefined
                  else Inr (mk_apint (ap_width a) (uval a mod uval b)))"

section \<open>Bitwise operations and shifts\<close>

definition ap_and :: "apint \<Rightarrow> apint \<Rightarrow> apint" where
  "ap_and a b = mk_apint (ap_width a) (uval a AND uval b)"

definition ap_or :: "apint \<Rightarrow> apint \<Rightarrow> apint" where
  "ap_or a b = mk_apint (ap_width a) (uval a OR uval b)"

definition ap_xor :: "apint \<Rightarrow> apint \<Rightarrow> apint" where
  "ap_xor a b = mk_apint (ap_width a) (uval a XOR uval b)"

definition ap_not :: "apint \<Rightarrow> apint" where
  "ap_not a = mk_apint (ap_width a) (NOT (uval a))"

text \<open>A shift amount is read unsigned and limited to the width of the shifted value.\<close>

definition shift_amount :: "apint \<Rightarrow> apint \<Rightarrow> nat" where
  "shift_amount a b = nat (min (uval b) (int (ap_width a)))"

definition ap_shl :: "apint \<Rightarrow> apint \<Rightarrow> apint" where
  "ap_shl a b = mk_apint (ap_width a) (uval a * 2 ^ shift_amount a b)"

definition ap_lshr :: "apint \<Rightarrow> apint \<Rightarrow> apint" where
  "ap_lshr a b = mk_apint (ap_width a) (uval a div 2 ^ shift_amount a b)"

definition ap_ashr :: "apint \<Rightarrow> apint \<Rightarrow> apint" where
  "ap_ashr a b = mk_apint (ap_width a) (sval a div 2 ^ shift_amount a b)"

definition ap_popcount :: "apint \<Rightarrow> int" where
  "ap_popcount a = int (length (filter (\<lambda>i. odd (uval a div 2 ^ i)) [0..<ap_width a]))"

definition ap_clz :: "apint \<Rightarrow> int" where
  "ap_clz a = int (length (takeWhile (\<lambda>i. even (uval a div 2 ^ i)) (rev [0..<ap_width a])))"

section \<open>Comparisons and conversions\<close>

definition ap_ult :: "apint \<Rightarrow> apint \<Rightarrow> bool" where "ap_ult a b \<longleftrightarrow> uval a < uval b"
definition ap_slt :: "apint \<Rightarrow> apint \<Rightarrow> bool" where "ap_slt a b \<longleftrightarrow> sval a < sval b"

definition ap_ext_or_trunc :: "bool \<Rightarrow> nat \<Rightarrow> apint \<Rightarrow> apint" where
  "ap_ext_or_trunc unsigned w a = mk_apint w (if unsigned then uval a else sval a)"

lemma wf_ap_ops:
  assumes "wf_apint a"
  shows "wf_apint (ap_add a b)" "wf_apint (ap_sub a b)" "wf_apint (ap_mul a b)"
    "wf_apint (ap_neg a)" "wf_apint (ap_abs a)" "wf_apint (ap_and a b)" "wf_apint (ap_or a b)"
    "wf_apint (ap_xor a b)" "wf_apint (ap_not a)" "wf_apint (ap_shl a b)"
    "wf_apint (ap_lshr a b)" "wf_apint (ap_ashr a b)"
  using assms
  by (simp_all add: ap_add_def ap_sub_def ap_mul_def ap_neg_def ap_abs_def ap_and_def ap_or_def
      ap_xor_def ap_not_def ap_shl_def ap_lshr_def ap_ashr_def wf_apint_def)

lemma width_ap_ops [simp]:
  "ap_width (ap_add a b) = ap_width a" "ap_width (ap_sub a b) = ap_width a"
  "ap_width (ap_mul a b) = ap_width a" "ap_width (ap_neg a) = ap_width a"
  "ap_width (ap_abs a) = ap_width a" "ap_width (ap_and a b) = ap_width a"
  "ap_width (ap_or a b) = ap_width a" "ap_width (ap_xor a b) = ap_width a"
  "ap_width (ap_not a) = ap_width a" "ap_width (ap_shl a b) = ap_width a"
  "ap_width (ap_lshr a b) = ap_width a" "ap_width (ap_ashr a b) = ap_width a"
  by (simp_all add: ap_add_def ap_sub_def ap_mul_def ap_neg_def ap_abs_def ap_and_def ap_or_def
      ap_xor_def ap_not_def ap_shl_def ap_lshr_def ap_ashr_def)

lemma width_ap_div:
  "ap_sdiv a b = Inr c \<Longrightarrow> ap_width c = ap_width a"
  "ap_udiv a b = Inr c \<Longrightarrow> ap_width c = ap_width a"
  "ap_srem a b = Inr c \<Longrightarrow> ap_width c = ap_width a"
  "ap_urem a b = Inr c \<Longrightarrow> ap_width c = ap_width a"
  by (auto simp: ap_sdiv_def ap_udiv_def ap_srem_def ap_urem_def split: if_splits)

lemma wf_ap_div:
  assumes "wf_apint a"
  shows "ap_sdiv a b = Inr c \<Longrightarrow> wf_apint c" "ap_udiv a b = Inr c \<Longrightarrow> wf_apint c"
    "ap_srem a b = Inr c \<Longrightarrow> wf_apint c" "ap_urem a b = Inr c \<Longrightarrow> wf_apint c"
  using assms
  by (auto simp: ap_sdiv_def ap_udiv_def ap_srem_def ap_urem_def wf_apint_def split: if_splits)

lemma ap_popcount_range: "0 \<le> ap_popcount a \<and> ap_popcount a \<le> int (ap_width a)"
  using length_filter_le [of "\<lambda>i. odd (uval a div 2 ^ i)" "[0..<ap_width a]"]
  by (simp add: ap_popcount_def)

lemma ap_clz_range: "0 \<le> ap_clz a \<and> ap_clz a \<le> int (ap_width a)"
  using length_takeWhile_le [of "\<lambda>i. even (uval a div 2 ^ i)" "rev [0..<ap_width a]"]
  by (simp add: ap_clz_def)

end
