(* ===== verification/Element.thy ===== *)
theory Element
  imports MlirTypes ApInt "HOL-Library.Word"
begin

text \<open>
  \<open>stablehlo/reference/Element.cpp\<close>: one element of a tensor (its type and an integer, a
  boolean, a floating-point number or a pair of them), the operators on elements, the
  conversions and the mathematical functions. Floating-point arithmetic is not code of the
  repository: \<open>llvm::APFloat\<close>, the C math library and \<open>std::complex\<close> are the fields of a
  record \<open>lib\<close>, an argument of every definition that uses them.
\<close>

section \<open>Floating-point values and the external libraries\<close>

text \<open>
  An \<open>APFloat\<close> is a semantics and a bit pattern of its width (\<open>bitcastToAPInt\<close>); a C++ \<open>float\<close>
  or \<open>double\<close> is its bit pattern.
\<close>

datatype apfloat =
    FpF8E4M3B11FNUZ "8 word" | FpF8E4M3FN "8 word" | FpF8E4M3FNUZ "8 word"
  | FpF8E5M2 "8 word" | FpF8E5M2FNUZ "8 word" | FpF16 "16 word" | FpBF16 "16 word"
  | FpF32 "32 word" | FpF64 "64 word" | FpF80 "80 word" | FpF128 "128 word"

type_synonym flt = "32 word"
type_synonym dbl = "64 word"
type_synonym cdbl = "dbl \<times> dbl"

fun fl_sem :: "apfloat \<Rightarrow> fsem" where
  "fl_sem (FpF8E4M3B11FNUZ _) = F8E4M3B11FNUZ"
| "fl_sem (FpF8E4M3FN _) = F8E4M3FN"
| "fl_sem (FpF8E4M3FNUZ _) = F8E4M3FNUZ"
| "fl_sem (FpF8E5M2 _) = F8E5M2"
| "fl_sem (FpF8E5M2FNUZ _) = F8E5M2FNUZ"
| "fl_sem (FpF16 _) = F16"
| "fl_sem (FpBF16 _) = BF16"
| "fl_sem (FpF32 _) = F32"
| "fl_sem (FpF64 _) = F64"
| "fl_sem (FpF80 _) = F80"
| "fl_sem (FpF128 _) = F128"

fun fl_bits :: "apfloat \<Rightarrow> int" where
  "fl_bits (FpF8E4M3B11FNUZ b) = uint b"
| "fl_bits (FpF8E4M3FN b) = uint b"
| "fl_bits (FpF8E4M3FNUZ b) = uint b"
| "fl_bits (FpF8E5M2 b) = uint b"
| "fl_bits (FpF8E5M2FNUZ b) = uint b"
| "fl_bits (FpF16 b) = uint b"
| "fl_bits (FpBF16 b) = uint b"
| "fl_bits (FpF32 b) = uint b"
| "fl_bits (FpF64 b) = uint b"
| "fl_bits (FpF80 b) = uint b"
| "fl_bits (FpF128 b) = uint b"

fun fl_of_bits :: "fsem \<Rightarrow> int \<Rightarrow> apfloat" where
  "fl_of_bits F8E4M3B11FNUZ u = FpF8E4M3B11FNUZ (word_of_int u)"
| "fl_of_bits F8E4M3FN u = FpF8E4M3FN (word_of_int u)"
| "fl_of_bits F8E4M3FNUZ u = FpF8E4M3FNUZ (word_of_int u)"
| "fl_of_bits F8E5M2 u = FpF8E5M2 (word_of_int u)"
| "fl_of_bits F8E5M2FNUZ u = FpF8E5M2FNUZ (word_of_int u)"
| "fl_of_bits F16 u = FpF16 (word_of_int u)"
| "fl_of_bits BF16 u = FpBF16 (word_of_int u)"
| "fl_of_bits F32 u = FpF32 (word_of_int u)"
| "fl_of_bits F64 u = FpF64 (word_of_int u)"
| "fl_of_bits F80 u = FpF80 (word_of_int u)"
| "fl_of_bits F128 u = FpF128 (word_of_int u)"

fun sem_width :: "fsem \<Rightarrow> nat" where
  "sem_width F16 = 16" | "sem_width BF16 = 16" | "sem_width F32 = 32" | "sem_width F64 = 64"
| "sem_width F80 = 80" | "sem_width F128 = 128" | "sem_width _ = 8"

lemma fl_of_bits_bits [simp]: "fl_of_bits (fl_sem f) (fl_bits f) = f"
  by (cases f) simp_all

lemma fl_sem_of_bits [simp]: "fl_sem (fl_of_bits s u) = s"
  by (cases s) simp_all

lemma fl_bits_range: "0 \<le> fl_bits f \<and> fl_bits f < 2 ^ sem_width (fl_sem f)"
  by (cases f) (simp_all add: uint_lt2p [where 'a = 8, simplified] uint_lt2p [where 'a = 16, simplified]
      uint_lt2p [where 'a = 32, simplified] uint_lt2p [where 'a = 64, simplified]
      uint_lt2p [where 'a = 80, simplified] uint_lt2p [where 'a = 128, simplified])

datatype cmp_result = CmpLessThan | CmpEqual | CmpGreaterThan | CmpUnordered

datatype rounding = TowardPositive | TowardNegative | NearestTiesToAway | NearestTiesToEven

record lib =
  fl_add :: "apfloat \<Rightarrow> apfloat \<Rightarrow> apfloat"
  fl_sub :: "apfloat \<Rightarrow> apfloat \<Rightarrow> apfloat"
  fl_mul :: "apfloat \<Rightarrow> apfloat \<Rightarrow> apfloat"
  fl_div :: "apfloat \<Rightarrow> apfloat \<Rightarrow> apfloat"
  fl_mod :: "apfloat \<Rightarrow> apfloat \<Rightarrow> apfloat"
  fl_neg :: "apfloat \<Rightarrow> apfloat"
  fl_abs :: "apfloat \<Rightarrow> apfloat"
  fl_maximum :: "apfloat \<Rightarrow> apfloat \<Rightarrow> apfloat"
  fl_minimum :: "apfloat \<Rightarrow> apfloat \<Rightarrow> apfloat"
  fl_compare :: "apfloat \<Rightarrow> apfloat \<Rightarrow> cmp_result"
  fl_round :: "rounding \<Rightarrow> apfloat \<Rightarrow> apfloat"
  fl_is_nan :: "apfloat \<Rightarrow> bool"
  fl_is_zero :: "apfloat \<Rightarrow> bool"
  fl_is_negative :: "apfloat \<Rightarrow> bool"
  fl_is_finite :: "apfloat \<Rightarrow> bool"
  fl_convert :: "fsem \<Rightarrow> apfloat \<Rightarrow> apfloat"
  fl_of_int :: "fsem \<Rightarrow> bool \<Rightarrow> apint \<Rightarrow> apfloat"
  fl_to_int :: "nat \<Rightarrow> bool \<Rightarrow> apfloat \<Rightarrow> int"
  fl_to_double :: "apfloat \<Rightarrow> dbl"
  fl_to_single :: "apfloat \<Rightarrow> flt"
  fl_nan :: "fsem \<Rightarrow> apfloat"
  fl_zero :: "fsem \<Rightarrow> apfloat"
  d_add :: "dbl \<Rightarrow> dbl \<Rightarrow> dbl"
  d_sub :: "dbl \<Rightarrow> dbl \<Rightarrow> dbl"
  d_div :: "dbl \<Rightarrow> dbl \<Rightarrow> dbl"
  d_le :: "dbl \<Rightarrow> dbl \<Rightarrow> bool"
  d_fabs :: "dbl \<Rightarrow> dbl"
  d_cbrt :: "dbl \<Rightarrow> dbl"
  d_cos :: "dbl \<Rightarrow> dbl"
  d_sin :: "dbl \<Rightarrow> dbl"
  d_exp :: "dbl \<Rightarrow> dbl"
  d_expm1 :: "dbl \<Rightarrow> dbl"
  d_log :: "dbl \<Rightarrow> dbl"
  d_log1p :: "dbl \<Rightarrow> dbl"
  d_sqrt :: "dbl \<Rightarrow> dbl"
  d_tanh :: "dbl \<Rightarrow> dbl"
  d_tan :: "dbl \<Rightarrow> dbl"
  d_pow :: "dbl \<Rightarrow> dbl \<Rightarrow> dbl"
  d_atan2 :: "dbl \<Rightarrow> dbl \<Rightarrow> dbl"
  cd_abs :: "cdbl \<Rightarrow> dbl"
  cd_add :: "cdbl \<Rightarrow> cdbl \<Rightarrow> cdbl"
  cd_sub :: "cdbl \<Rightarrow> cdbl \<Rightarrow> cdbl"
  cd_div :: "cdbl \<Rightarrow> cdbl \<Rightarrow> cdbl"
  cd_scale :: "dbl \<Rightarrow> cdbl \<Rightarrow> cdbl"
  cd_cos :: "cdbl \<Rightarrow> cdbl"
  cd_sin :: "cdbl \<Rightarrow> cdbl"
  cd_exp :: "cdbl \<Rightarrow> cdbl"
  cd_log :: "cdbl \<Rightarrow> cdbl"
  cd_sqrt :: "cdbl \<Rightarrow> cdbl"
  cd_tanh :: "cdbl \<Rightarrow> cdbl"
  cd_pow :: "cdbl \<Rightarrow> cdbl \<Rightarrow> cdbl"
  std_sort :: "(int \<Rightarrow> int \<Rightarrow> bool res) \<Rightarrow> int list \<Rightarrow> int list res"
  std_stable_sort :: "(int \<Rightarrow> int \<Rightarrow> bool res) \<Rightarrow> int list \<Rightarrow> int list res"

text \<open>The \<open>double\<close> literals of the code, as bit patterns.\<close>

definition d_zero :: dbl where "d_zero = 0"
definition d_neg_zero :: dbl where "d_neg_zero = 0x8000000000000000"
definition d_one :: dbl where "d_one = 0x3FF0000000000000"
definition d_neg_one :: dbl where "d_neg_one = 0xBFF0000000000000"
definition d_two :: dbl where "d_two = 0x4000000000000000"
definition d_three :: dbl where "d_three = 0x4008000000000000"
definition d_six :: dbl where "d_six = 0x4018000000000000"
definition d_tolerance :: dbl where "d_tolerance = 0x3F1A36E2EB1C432D"

definition fl_of_double :: "dbl \<Rightarrow> apfloat" where
  "fl_of_double d = FpF64 d"

text \<open>What the code relies on when it stores a float: \<open>convertToFloat\<close> and \<open>convertToDouble\<close>
  keep the bits of a value of their own semantics.\<close>

definition lib_ok :: "lib \<Rightarrow> bool" where
  "lib_ok L \<longleftrightarrow> (\<forall>b. fl_to_single L (FpF32 b) = b) \<and> (\<forall>b. fl_to_double L (FpF64 b) = b)"

section \<open>Elements\<close>

datatype elval = IntV apint | BoolV bool | FloatV apfloat | ComplexV apfloat apfloat

record element =
  e_type :: ty
  e_val :: elval

definition unsupported_element :: error where
  "unsupported_element = Fatal ''Unsupported element type''"

definition types_dont_match :: error where
  "types_dont_match = Fatal ''Element types don't match''"

fun int_or_float_width :: "ty \<Rightarrow> nat" where
  "int_or_float_width (IntegerType _ w) = w"
| "int_or_float_width (FloatType s) = sem_width s"
| "int_or_float_width _ = 0"

fun float_semantics :: "ty \<Rightarrow> fsem option" where
  "float_semantics (FloatType s) = Some s"
| "float_semantics _ = None"

fun complex_element_type :: "ty \<Rightarrow> ty" where
  "complex_element_type (ComplexType e) = e"
| "complex_element_type t = t"

definition mk_int :: "ty \<Rightarrow> apint \<Rightarrow> element res" where
  "mk_int type value =
     require (isSupportedIntegerType type) unsupported_element
       (require (int_or_float_width type = ap_width value) (Fatal ''Bitwidth mismatch.'')
         (Inr \<lparr>e_type = type, e_val = IntV value\<rparr>))"

definition mk_bool :: "ty \<Rightarrow> bool \<Rightarrow> element res" where
  "mk_bool type value =
     require (isSupportedBooleanType type) unsupported_element
       (Inr \<lparr>e_type = type, e_val = BoolV value\<rparr>)"

definition mk_float :: "ty \<Rightarrow> apfloat \<Rightarrow> element res" where
  "mk_float type value =
     require (isSupportedFloatType type) unsupported_element
       (require (float_semantics type = Some (fl_sem value))
          (Fatal ''Semantics mismatch between provided type and float value'')
         (Inr \<lparr>e_type = type, e_val = FloatV value\<rparr>))"

definition mk_complex :: "ty \<Rightarrow> apfloat \<times> apfloat \<Rightarrow> element res" where
  "mk_complex type value =
     require (isSupportedComplexType type) unsupported_element
       (let sem = float_semantics (complex_element_type type) in
        require (\<not> (sem \<noteq> Some (fl_sem (fst value)) \<or> sem \<noteq> Some (fl_sem (snd value))))
          (Fatal ''Semantics mismatch between provided type and complex value'')
         (Inr \<lparr>e_type = type, e_val = ComplexV (fst value) (snd value)\<rparr>))"

definition getIntegerValue :: "element \<Rightarrow> apint res" where
  "getIntegerValue e = require (isSupportedIntegerType (e_type e)) (Fatal ''Element is not an integer'')
     (case e_val e of IntV i \<Rightarrow> Inr i | _ \<Rightarrow> Inl Undefined)"

definition getBooleanValue :: "element \<Rightarrow> bool res" where
  "getBooleanValue e = require (isSupportedBooleanType (e_type e)) (Fatal ''Element is not a boolean'')
     (case e_val e of BoolV b \<Rightarrow> Inr b | _ \<Rightarrow> Inl Undefined)"

definition getFloatValue :: "element \<Rightarrow> apfloat res" where
  "getFloatValue e = require (isSupportedFloatType (e_type e)) (Fatal ''Element is not a floating-point'')
     (case e_val e of FloatV f \<Rightarrow> Inr f | _ \<Rightarrow> Inl Undefined)"

definition getComplexValue :: "element \<Rightarrow> (apfloat \<times> apfloat) res" where
  "getComplexValue e = require (isSupportedComplexType (e_type e)) (Fatal ''Element is not a complex value'')
     (case e_val e of ComplexV re im \<Rightarrow> Inr (re, im) | _ \<Rightarrow> Inl Undefined)"

text \<open>The class invariant the constructors establish.\<close>

definition wf_element :: "element \<Rightarrow> bool" where
  "wf_element e \<longleftrightarrow> (case e_val e of
     IntV i \<Rightarrow> isSupportedIntegerType (e_type e) \<and> int_or_float_width (e_type e) = ap_width i \<and> wf_apint i
   | BoolV b \<Rightarrow> isSupportedBooleanType (e_type e)
   | FloatV f \<Rightarrow> isSupportedFloatType (e_type e) \<and> float_semantics (e_type e) = Some (fl_sem f)
   | ComplexV re im \<Rightarrow> isSupportedComplexType (e_type e) \<and>
       float_semantics (complex_element_type (e_type e)) = Some (fl_sem re) \<and>
       float_semantics (complex_element_type (e_type e)) = Some (fl_sem im))"

section \<open>The generic maps\<close>

definition elem_map1 ::
  "element \<Rightarrow> (apint \<Rightarrow> apint res) \<Rightarrow> (bool \<Rightarrow> bool res) \<Rightarrow> (apfloat \<Rightarrow> apfloat res) \<Rightarrow>
   (apfloat \<times> apfloat \<Rightarrow> (apfloat \<times> apfloat) res) \<Rightarrow> element res" where
  "elem_map1 el integerFn boolFn floatFn complexFn =
     (let type = e_type el in
      if isSupportedIntegerType type then
        bnd (getIntegerValue el) (\<lambda>v. bnd (integerFn v) (mk_int type))
      else if isSupportedBooleanType type then
        bnd (getBooleanValue el) (\<lambda>v. bnd (boolFn v) (mk_bool type))
      else if isSupportedFloatType type then
        bnd (getFloatValue el) (\<lambda>v. bnd (floatFn v) (mk_float type))
      else if isSupportedComplexType type then
        bnd (getComplexValue el) (\<lambda>v. bnd (complexFn v) (mk_complex type))
      else Inl unsupported_element)"

definition elem_map2 ::
  "element \<Rightarrow> element \<Rightarrow> (apint \<Rightarrow> apint \<Rightarrow> apint res) \<Rightarrow> (bool \<Rightarrow> bool \<Rightarrow> bool res) \<Rightarrow>
   (apfloat \<Rightarrow> apfloat \<Rightarrow> apfloat res) \<Rightarrow>
   (apfloat \<times> apfloat \<Rightarrow> apfloat \<times> apfloat \<Rightarrow> (apfloat \<times> apfloat) res) \<Rightarrow> element res" where
  "elem_map2 lhs rhs integerFn boolFn floatFn complexFn =
     (let type = e_type lhs in
      require (e_type lhs = e_type rhs) types_dont_match
      (if isSupportedIntegerType type then
        bnd (getIntegerValue lhs) (\<lambda>a. bnd (getIntegerValue rhs) (\<lambda>b.
          bnd (integerFn a b) (mk_int type)))
      else if isSupportedBooleanType type then
        bnd (getBooleanValue lhs) (\<lambda>a. bnd (getBooleanValue rhs) (\<lambda>b.
          bnd (boolFn a b) (mk_bool type)))
      else if isSupportedFloatType type then
        bnd (getFloatValue lhs) (\<lambda>a. bnd (getFloatValue rhs) (\<lambda>b.
          bnd (floatFn a b) (mk_float type)))
      else if isSupportedComplexType type then
        bnd (getComplexValue lhs) (\<lambda>a. bnd (getComplexValue rhs) (\<lambda>b.
          bnd (complexFn a b) (mk_complex type)))
      else Inl unsupported_element))"

section \<open>Conversions\<close>

text \<open>\<open>convert(Type, APSInt)\<close>, \<open>convert(Type, APFloat)\<close> and \<open>convert(Type, complex)\<close>.\<close>

function convert_apfloat :: "lib \<Rightarrow> ty \<Rightarrow> apfloat \<Rightarrow> element res"
  and convert_complex :: "lib \<Rightarrow> ty \<Rightarrow> apfloat \<times> apfloat \<Rightarrow> element res" where
  "convert_apfloat L type value =
     (if isSupportedBooleanType type then mk_bool type (\<not> fl_is_zero L value)
      else if isSupportedIntegerType type then
        (let w = int_or_float_width type in
         mk_int type (mk_apint w (fl_to_int L w (isSupportedUnsignedIntegerType type) value)))
      else if isSupportedFloatType type then
        (case float_semantics type of
           Some sem \<Rightarrow> mk_float type (fl_convert L sem value)
         | None \<Rightarrow> Inl Undefined)
      else if isSupportedComplexType type then
        convert_complex L type (value, fl_of_double d_zero)
      else Inl unsupported_element)"
| "convert_complex L type value =
     (if isSupportedComplexType type then
        (let elementType = complex_element_type type in
         bnd (convert_apfloat L elementType (fst value)) (\<lambda>realElement.
         bnd (convert_apfloat L elementType (snd value)) (\<lambda>imagElement.
         bnd (getFloatValue realElement) (\<lambda>re. bnd (getFloatValue imagElement) (\<lambda>im.
           mk_complex type (re, im))))))
      else convert_apfloat L type (fst value))"
  by pat_completeness auto
termination
proof (relation "measure (\<lambda>x. case x of Inl (L, t, v) \<Rightarrow> if isSupportedComplexType t then 3 else 1
                                      | Inr (L, t, v) \<Rightarrow> 2)")
qed (auto elim: isSupportedComplexType.elims)

declare convert_apfloat.simps [simp del] convert_complex.simps [simp del]

fun convert_apsint :: "lib \<Rightarrow> ty \<Rightarrow> bool \<Rightarrow> apint \<Rightarrow> element res" where
  "convert_apsint L type isUnsigned value =
     (if isSupportedBooleanType type then mk_bool type (uval value \<noteq> 0)
      else if isSupportedIntegerType type then
        mk_int type (ap_ext_or_trunc isUnsigned (int_or_float_width type) value)
      else if isSupportedFloatType type then
        (case float_semantics type of
           Some sem \<Rightarrow> mk_float type (fl_of_int L sem (\<not> isUnsigned) value)
         | None \<Rightarrow> Inl Undefined)
      else (case type of
          ComplexType et \<Rightarrow>
            if isSupportedComplexType type then
              bnd (convert_apsint L et isUnsigned value) (\<lambda>floatResult.
              bnd (getFloatValue floatResult) (convert_apfloat L type))
            else Inl unsupported_element
        | _ \<Rightarrow> Inl unsupported_element))"

declare convert_apsint.simps [simp del]

definition convert_i64 :: "lib \<Rightarrow> ty \<Rightarrow> int \<Rightarrow> element res" where
  "convert_i64 L type value = convert_apsint L type False (mk_apint 64 value)"

definition convert_u64 :: "lib \<Rightarrow> ty \<Rightarrow> int \<Rightarrow> element res" where
  "convert_u64 L type value = convert_apsint L type True (mk_apint 64 value)"

definition convert_bool :: "lib \<Rightarrow> ty \<Rightarrow> bool \<Rightarrow> element res" where
  "convert_bool L type value =
     (if isSupportedBooleanType type then mk_bool type value
      else convert_u64 L type (if value then 1 else 0))"

definition convert_double :: "lib \<Rightarrow> ty \<Rightarrow> dbl \<Rightarrow> element res" where
  "convert_double L type value = convert_apfloat L type (fl_of_double value)"

definition convert_cdouble :: "lib \<Rightarrow> ty \<Rightarrow> cdbl \<Rightarrow> element res" where
  "convert_cdouble L type value =
     convert_complex L type (fl_of_double (fst value), fl_of_double (snd value))"

end
