(* ===== verification/ElementOps.thy ===== *)
theory ElementOps
  imports Element
begin

text \<open>
  \<open>stablehlo/reference/Element.cpp\<close>, the operators and functions on elements: arithmetic,
  bitwise and logical operators, comparisons, and the mathematical functions that go through
  \<open>double\<close>.
\<close>

section \<open>Maps through double\<close>

definition cfl_to_double :: "lib \<Rightarrow> apfloat \<times> apfloat \<Rightarrow> cdbl" where
  "cfl_to_double L z = (fl_to_double L (fst z), fl_to_double L (snd z))"

definition elem_map_double1 :: "lib \<Rightarrow> element \<Rightarrow> (dbl \<Rightarrow> dbl) \<Rightarrow> (cdbl \<Rightarrow> cdbl) \<Rightarrow> element res" where
  "elem_map_double1 L el floatFn complexFn =
     (let type = e_type el in
      if isSupportedFloatType type then
        bnd (getFloatValue el) (\<lambda>f. convert_double L type (floatFn (fl_to_double L f)))
      else if isSupportedComplexType type then
        bnd (getComplexValue el) (\<lambda>z. convert_cdouble L type (complexFn (cfl_to_double L z)))
      else Inl unsupported_element)"

definition elem_map_double2 ::
  "lib \<Rightarrow> element \<Rightarrow> element \<Rightarrow> (dbl \<Rightarrow> dbl \<Rightarrow> dbl) \<Rightarrow> (cdbl \<Rightarrow> cdbl \<Rightarrow> cdbl) \<Rightarrow> element res" where
  "elem_map_double2 L lhs rhs floatFn complexFn =
     (let type = e_type lhs in
      require (e_type lhs = e_type rhs) types_dont_match
      (if isSupportedFloatType type then
        bnd (getFloatValue lhs) (\<lambda>f. bnd (getFloatValue rhs) (\<lambda>g.
          convert_double L type (floatFn (fl_to_double L f) (fl_to_double L g))))
      else if isSupportedComplexType type then
        bnd (getComplexValue lhs) (\<lambda>y. bnd (getComplexValue rhs) (\<lambda>z.
          convert_cdouble L type (complexFn (cfl_to_double L y) (cfl_to_double L z))))
      else Inl unsupported_element))"

section \<open>Comparison of floats\<close>

definition fl_lt :: "lib \<Rightarrow> apfloat \<Rightarrow> apfloat \<Rightarrow> bool" where
  "fl_lt L f g \<longleftrightarrow> fl_compare L f g = CmpLessThan"
definition fl_gt :: "lib \<Rightarrow> apfloat \<Rightarrow> apfloat \<Rightarrow> bool" where
  "fl_gt L f g \<longleftrightarrow> fl_compare L f g = CmpGreaterThan"
definition fl_eq :: "lib \<Rightarrow> apfloat \<Rightarrow> apfloat \<Rightarrow> bool" where
  "fl_eq L f g \<longleftrightarrow> fl_compare L f g = CmpEqual"
definition fl_finite_nonzero :: "lib \<Rightarrow> apfloat \<Rightarrow> bool" where
  "fl_finite_nonzero L f \<longleftrightarrow> fl_is_finite L f \<and> \<not> fl_is_zero L f"

definition fl_approximately_equal :: "lib \<Rightarrow> apfloat \<Rightarrow> apfloat \<Rightarrow> bool" where
  "fl_approximately_equal L f g =
     (if fl_sem f \<noteq> fl_sem g then False
      else let cmpResult = fl_compare L f g in
        if cmpResult = CmpEqual then True
        else if cmpResult = CmpUnordered then fl_is_nan L f = fl_is_nan L g
        else if (\<not> fl_finite_nonzero L f \<or> \<not> fl_finite_nonzero L g) \<and>
                \<not> fl_is_zero L f \<and> \<not> fl_is_zero L g then False
        else if fl_is_negative L f \<noteq> fl_is_negative L g then False
        else d_le L (d_fabs L (d_sub L (fl_to_double L f) (fl_to_double L g))) d_tolerance)"

section \<open>Operators\<close>

definition i1 :: ty where "i1 = IntegerType Signless 1"

definition lnot :: "element \<Rightarrow> element res" where
  "lnot el = bnd (getBooleanValue el) (\<lambda>b. mk_bool i1 (\<not> b))"

definition elem_and :: "element \<Rightarrow> element \<Rightarrow> element res" where
  "elem_and lhs rhs = elem_map2 lhs rhs (\<lambda>a b. Inr (ap_and a b)) (\<lambda>a b. Inr (a \<and> b))
     (\<lambda>_ _. Inl (Fatal ''float & float is unsupported''))
     (\<lambda>_ _. Inl (Fatal ''complex & complex is unsupported''))"

definition elem_mul :: "lib \<Rightarrow> element \<Rightarrow> element \<Rightarrow> element res" where
  "elem_mul L lhs rhs = elem_map2 lhs rhs (\<lambda>a b. Inr (ap_mul a b)) (\<lambda>a b. Inr (a \<and> b))
     (\<lambda>f g. Inr (fl_mul L f g))
     (\<lambda>(lr, li) (rr, ri).
        Inr (fl_sub L (fl_mul L lr rr) (fl_mul L li ri),
             fl_add L (fl_mul L lr ri) (fl_mul L li rr)))"

definition elem_add :: "lib \<Rightarrow> element \<Rightarrow> element \<Rightarrow> element res" where
  "elem_add L lhs rhs = elem_map2 lhs rhs (\<lambda>a b. Inr (ap_add a b)) (\<lambda>a b. Inr (a \<or> b))
     (\<lambda>f g. Inr (fl_add L f g))
     (\<lambda>(lr, li) (rr, ri). Inr (fl_add L lr rr, fl_add L li ri))"

definition elem_neg :: "lib \<Rightarrow> element \<Rightarrow> element res" where
  "elem_neg L el = elem_map1 el (\<lambda>a. Inr (ap_neg a))
     (\<lambda>_. Inl (Fatal ''-bool is unsupported''))
     (\<lambda>f. Inr (fl_neg L f)) (\<lambda>(re, im). Inr (fl_neg L re, fl_neg L im))"

definition elem_sub :: "lib \<Rightarrow> element \<Rightarrow> element \<Rightarrow> element res" where
  "elem_sub L lhs rhs = elem_map2 lhs rhs (\<lambda>a b. Inr (ap_sub a b))
     (\<lambda>_ _. Inl (Fatal ''bool - bool is unsupported''))
     (\<lambda>f g. Inr (fl_sub L f g))
     (\<lambda>(lr, li) (rr, ri). Inr (fl_sub L lr rr, fl_sub L li ri))"

definition elem_div :: "lib \<Rightarrow> element \<Rightarrow> element \<Rightarrow> element res" where
  "elem_div L lhs rhs =
     (let type = e_type lhs in
      require (e_type lhs = e_type rhs) types_dont_match
      (if isSupportedIntegerType type then
        bnd (getIntegerValue lhs) (\<lambda>a. bnd (getIntegerValue rhs) (\<lambda>b.
          bnd (if isSupportedSignedIntegerType type then ap_sdiv a b else ap_udiv a b) (mk_int type)))
      else if isSupportedFloatType type then
        bnd (getFloatValue lhs) (\<lambda>f. bnd (getFloatValue rhs) (\<lambda>g. mk_float type (fl_div L f g)))
      else if isSupportedComplexType type then
        bnd (getComplexValue lhs) (\<lambda>y. bnd (getComplexValue rhs) (\<lambda>z.
          (let elSemantics = fl_sem (fst y);
               resultVal = cd_div L (cfl_to_double L y) (cfl_to_double L z)
           in mk_complex type
                (fl_convert L elSemantics (fl_of_double (fst resultVal)),
                 fl_convert L elSemantics (fl_of_double (snd resultVal))))))
      else Inl unsupported_element))"

definition elem_lt :: "lib \<Rightarrow> element \<Rightarrow> element \<Rightarrow> element res" where
  "elem_lt L lhs other =
     (let type = e_type other in
      require (e_type lhs = type) types_dont_match
      (if isSupportedIntegerType type then
        bnd (getIntegerValue lhs) (\<lambda>a. bnd (getIntegerValue other) (\<lambda>b.
          mk_bool i1 (if isSupportedSignedIntegerType type then ap_slt a b else ap_ult a b)))
      else if isSupportedBooleanType type then
        bnd (getBooleanValue lhs) (\<lambda>a. bnd (getBooleanValue other) (\<lambda>b. mk_bool i1 (\<not> a \<and> b)))
      else if isSupportedFloatType type then
        bnd (getFloatValue lhs) (\<lambda>f. bnd (getFloatValue other) (\<lambda>g. mk_bool i1 (fl_lt L f g)))
      else Inl unsupported_element))"

definition elem_eq :: "lib \<Rightarrow> element \<Rightarrow> element \<Rightarrow> element res" where
  "elem_eq L lhs other =
     (let type = e_type other in
      require (e_type lhs = type) types_dont_match
      (if isSupportedIntegerType type then
        bnd (getIntegerValue lhs) (\<lambda>a. bnd (getIntegerValue other) (\<lambda>b. mk_bool i1 (a = b)))
      else if isSupportedBooleanType type then
        bnd (getBooleanValue lhs) (\<lambda>a. bnd (getBooleanValue other) (\<lambda>b. mk_bool i1 (a = b)))
      else if isSupportedFloatType type then
        bnd (getFloatValue lhs) (\<lambda>f. bnd (getFloatValue other) (\<lambda>g. mk_bool i1 (fl_eq L f g)))
      else if isSupportedComplexType type then
        bnd (getComplexValue lhs) (\<lambda>y. bnd (getComplexValue other) (\<lambda>z.
          mk_bool i1 (fl_eq L (fst y) (fst z) \<and> fl_eq L (snd y) (snd z))))
      else Inl unsupported_element))"

definition elem_gt :: "lib \<Rightarrow> element \<Rightarrow> element \<Rightarrow> element res" where
  "elem_gt L lhs other =
     (let type = e_type other in
      require (e_type lhs = type) types_dont_match
      (if isSupportedIntegerType type then
        bnd (getIntegerValue lhs) (\<lambda>a. bnd (getIntegerValue other) (\<lambda>b.
          mk_bool i1 (if isSupportedSignedIntegerType type then ap_slt b a else ap_ult b a)))
      else if isSupportedBooleanType type then
        bnd (getBooleanValue lhs) (\<lambda>a. bnd (getBooleanValue other) (\<lambda>b. mk_bool i1 (a \<and> \<not> b)))
      else if isSupportedFloatType type then
        bnd (getFloatValue lhs) (\<lambda>f. bnd (getFloatValue other) (\<lambda>g. mk_bool i1 (fl_gt L f g)))
      else Inl unsupported_element))"

text \<open>
  \<open>operator||\<close> is overloaded, so both elements are computed before the call; the built-in \<open>||\<close>
  in its body reads the second one only when the first is false.
\<close>

definition elem_lor :: "element \<Rightarrow> element \<Rightarrow> element res" where
  "elem_lor lhs other =
     bnd (getBooleanValue lhs) (\<lambda>a. if a then mk_bool i1 True
        else bnd (getBooleanValue other) (\<lambda>b. mk_bool i1 b))"

definition elem_ne :: "lib \<Rightarrow> element \<Rightarrow> element \<Rightarrow> element res" where
  "elem_ne L lhs other = bnd (elem_eq L lhs other) lnot"

definition elem_le :: "lib \<Rightarrow> element \<Rightarrow> element \<Rightarrow> element res" where
  "elem_le L lhs other =
     bnd (elem_lt L lhs other) (\<lambda>a. bnd (elem_eq L lhs other) (\<lambda>b. elem_lor a b))"

definition elem_ge :: "lib \<Rightarrow> element \<Rightarrow> element \<Rightarrow> element res" where
  "elem_ge L lhs other =
     bnd (elem_gt L lhs other) (\<lambda>a. bnd (elem_eq L lhs other) (\<lambda>b. elem_lor a b))"

definition elem_xor :: "element \<Rightarrow> element \<Rightarrow> element res" where
  "elem_xor lhs rhs = elem_map2 lhs rhs (\<lambda>a b. Inr (ap_xor a b)) (\<lambda>a b. Inr (a \<noteq> b))
     (\<lambda>_ _. Inl (Fatal ''float ^ float is unsupported''))
     (\<lambda>_ _. Inl (Fatal ''complex ^ complex is unsupported''))"

definition elem_or :: "element \<Rightarrow> element \<Rightarrow> element res" where
  "elem_or lhs rhs = elem_map2 lhs rhs (\<lambda>a b. Inr (ap_or a b)) (\<lambda>a b. Inr (a \<or> b))
     (\<lambda>_ _. Inl (Fatal ''float | float is unsupported''))
     (\<lambda>_ _. Inl (Fatal ''complex | complex is unsupported''))"

definition elem_not :: "element \<Rightarrow> element res" where
  "elem_not el = elem_map1 el (\<lambda>a. Inr (ap_not a)) (\<lambda>b. Inr (\<not> b))
     (\<lambda>_. Inl (Fatal ''~float is unsupported''))
     (\<lambda>_. Inl (Fatal ''~complex is unsupported''))"

section \<open>Functions\<close>

definition elem_abs :: "lib \<Rightarrow> element \<Rightarrow> element res" where
  "elem_abs L el =
     (let type = e_type el in
      if isSupportedIntegerType type then
        bnd (getIntegerValue el) (\<lambda>v. mk_int type (ap_abs v))
      else if isSupportedFloatType type then
        bnd (getFloatValue el) (\<lambda>f. mk_float type (fl_abs L f))
      else if isSupportedComplexType type then
        bnd (getComplexValue el) (\<lambda>z.
          convert_double L (complex_element_type type) (cd_abs L (cfl_to_double L z)))
      else Inl unsupported_element)"

definition elem_approx_eq :: "lib \<Rightarrow> element \<Rightarrow> element \<Rightarrow> element res" where
  "elem_approx_eq L e1 e2 =
     (let type = e_type e1 in
      require (type = e_type e2) types_dont_match
      (if isSupportedFloatType type then
        bnd (getFloatValue e1) (\<lambda>f. bnd (getFloatValue e2) (\<lambda>g.
          mk_bool i1 (fl_approximately_equal L f g)))
      else if isSupportedComplexType type then
        bnd (getComplexValue e1) (\<lambda>y. bnd (getComplexValue e2) (\<lambda>z.
          mk_bool i1 (fl_approximately_equal L (fst y) (fst z) \<and>
                      fl_approximately_equal L (snd y) (snd z))))
      else Inl unsupported_element))"

definition elem_log :: "lib \<Rightarrow> element \<Rightarrow> element res" where
  "elem_log L el = elem_map_double1 L el (d_log L) (cd_log L)"

definition elem_sqrt :: "lib \<Rightarrow> element \<Rightarrow> element res" where
  "elem_sqrt L el = elem_map_double1 L el (d_sqrt L) (cd_sqrt L)"

definition elem_atan2 :: "lib \<Rightarrow> element \<Rightarrow> element \<Rightarrow> element res" where
  "elem_atan2 L e1 e2 =
     (let type = e_type e1 in
      if isSupportedFloatType (e_type e1) then
        bnd (getFloatValue e1) (\<lambda>f. bnd (getFloatValue e2) (\<lambda>g.
          convert_double L type (d_atan2 L (fl_to_double L f) (fl_to_double L g))))
      else if isSupportedComplexType type then
        bnd (convert_cdouble L type (d_zero, d_one)) (\<lambda>i.
        bnd (elem_neg L i) (\<lambda>mi.
        bnd (elem_mul L i e1) (\<lambda>ie1. bnd (elem_add L e2 ie1) (\<lambda>num.
        bnd (elem_mul L e2 e2) (\<lambda>xx. bnd (elem_mul L e1 e1) (\<lambda>yy.
        bnd (elem_add L xx yy) (\<lambda>s. bnd (elem_sqrt L s) (\<lambda>den.
        bnd (elem_div L num den) (\<lambda>q. bnd (elem_log L q) (elem_mul L mi))))))))))
      else Inl unsupported_element)"

definition elem_cbrt :: "lib \<Rightarrow> element \<Rightarrow> element res" where
  "elem_cbrt L el = elem_map_double1 L el (d_cbrt L)
     (\<lambda>(re, im). let theta = d_div L (d_atan2 L im re) d_three in
        cd_scale L
          (d_pow L (d_add L (d_pow L re d_two) (d_pow L im d_two)) (d_div L d_one d_six))
          (d_cos L theta, d_sin L theta))"

definition elem_ceil :: "lib \<Rightarrow> element \<Rightarrow> element res" where
  "elem_ceil L el = bnd (getFloatValue el) (\<lambda>v. mk_float (e_type el) (fl_round L TowardPositive v))"

definition elem_complex :: "element \<Rightarrow> element \<Rightarrow> element res" where
  "elem_complex e1 e2 =
     (let complexType = ComplexType (e_type e1) in
      if isSupportedComplexType complexType then
        bnd (getFloatValue e1) (\<lambda>f. bnd (getFloatValue e2) (\<lambda>g. mk_complex complexType (f, g)))
      else Inl unsupported_element)"

definition elem_exponential :: "lib \<Rightarrow> element \<Rightarrow> element res" where
  "elem_exponential L el = elem_map_double1 L el (d_exp L) (cd_exp L)"

definition elem_expm1 :: "lib \<Rightarrow> element \<Rightarrow> element res" where
  "elem_expm1 L el = elem_map_double1 L el (d_expm1 L)
     (\<lambda>z. cd_sub L (cd_exp L z) (d_one, d_zero))"

definition elem_floor :: "lib \<Rightarrow> element \<Rightarrow> element res" where
  "elem_floor L el = bnd (getFloatValue el) (\<lambda>v. mk_float (e_type el) (fl_round L TowardNegative v))"

definition elem_imag :: "lib \<Rightarrow> element \<Rightarrow> element res" where
  "elem_imag L el =
     (if isSupportedFloatType (e_type el) then
        bnd (getFloatValue el) (\<lambda>f.
          mk_float (e_type el) (fl_convert L (fl_sem f) (fl_of_double d_zero)))
      else if isSupportedComplexType (e_type el) then
        bnd (getComplexValue el) (\<lambda>z. mk_float (complex_element_type (e_type el)) (snd z))
      else Inl unsupported_element)"

definition elem_is_finite :: "lib \<Rightarrow> element \<Rightarrow> element res" where
  "elem_is_finite L el = bnd (getFloatValue el) (\<lambda>f. mk_bool i1 (fl_is_finite L f))"

definition elem_cosine :: "lib \<Rightarrow> element \<Rightarrow> element res" where
  "elem_cosine L el = elem_map_double1 L el (d_cos L) (cd_cos L)"

definition elem_log_plus_one :: "lib \<Rightarrow> element \<Rightarrow> element res" where
  "elem_log_plus_one L el = elem_map_double1 L el (d_log1p L)
     (\<lambda>z. cd_log L (cd_add L z (d_one, d_zero)))"

definition elem_logistic :: "lib \<Rightarrow> element \<Rightarrow> element res" where
  "elem_logistic L el =
     bnd (convert_double L (e_type el) d_one) (\<lambda>one.
     bnd (elem_neg L el) (\<lambda>m. bnd (elem_exponential L m) (\<lambda>ex.
     bnd (elem_add L one ex) (elem_div L one))))"

definition elem_max :: "lib \<Rightarrow> element \<Rightarrow> element \<Rightarrow> element res" where
  "elem_max L e1 e2 = elem_map2 e1 e2
     (\<lambda>a b. Inr (if isSupportedSignedIntegerType (e_type e1)
                 then (if ap_slt b a then a else b) else (if ap_ult b a then a else b)))
     (\<lambda>a b. Inr (a \<or> b))
     (\<lambda>f g. Inr (fl_maximum L f g))
     (\<lambda>y z. let cmpRes = (if fl_compare L (fst y) (fst z) = CmpEqual
                          then fl_gt L (snd y) (snd z) else fl_gt L (fst y) (fst z))
            in Inr (if cmpRes then y else z))"

definition elem_min :: "lib \<Rightarrow> element \<Rightarrow> element \<Rightarrow> element res" where
  "elem_min L e1 e2 = elem_map2 e1 e2
     (\<lambda>a b. Inr (if isSupportedSignedIntegerType (e_type e1)
                 then (if ap_slt a b then a else b) else (if ap_ult a b then a else b)))
     (\<lambda>a b. Inr (a \<and> b))
     (\<lambda>f g. Inr (fl_minimum L f g))
     (\<lambda>y z. let cmpRes = (if fl_compare L (fst y) (fst z) = CmpEqual
                          then fl_lt L (snd y) (snd z) else fl_lt L (fst y) (fst z))
            in Inr (if cmpRes then y else z))"

definition elem_popcnt :: "lib \<Rightarrow> element \<Rightarrow> element res" where
  "elem_popcnt L el = bnd (getIntegerValue el) (\<lambda>v. convert_u64 L (e_type el) (ap_popcount v))"

text \<open>The loop of \<open>power\<close>: \<open>while (!exponent.isZero())\<close>, on the unsigned exponent.\<close>

function power_loop :: "apint \<Rightarrow> nat \<Rightarrow> apint \<Rightarrow> apint" where
  "power_loop base exponent result =
     (if exponent = 0 then result
      else power_loop (ap_mul base base) (exponent div 2)
             (if odd exponent then ap_mul result base else result))"
  by pat_completeness auto
termination by (relation "measure (\<lambda>(b, e, r). e)") auto

declare power_loop.simps [simp del]

definition elem_power :: "lib \<Rightarrow> element \<Rightarrow> element \<Rightarrow> element res" where
  "elem_power L e1 e2 =
     (let type = e_type e1 in
      if isSupportedIntegerType type then
        (let isSigned = isSupportedSignedIntegerType type in
         bnd (getIntegerValue e1) (\<lambda>base. bnd (getIntegerValue e2) (\<lambda>exponent.
           if isSigned \<and> ap_neg_p exponent \<and> \<not> uval (ap_abs base) = 1
           then convert_i64 L type 0
           else (let exponent = (if isSigned \<and> ap_neg_p exponent then ap_abs exponent else exponent)
                 in mk_int type
                      (power_loop base (nat (uval exponent)) (mk_apint (ap_width base) 1))))))
      else elem_map_double2 L e1 e2 (d_pow L) (cd_pow L))"

definition elem_real :: "element \<Rightarrow> element res" where
  "elem_real el =
     (if isSupportedFloatType (e_type el) then Inr el
      else if isSupportedComplexType (e_type el) then
        bnd (getComplexValue el) (\<lambda>z. mk_float (complex_element_type (e_type el)) (fst z))
      else Inl unsupported_element)"

definition elem_rem :: "lib \<Rightarrow> element \<Rightarrow> element \<Rightarrow> element res" where
  "elem_rem L e1 e2 = elem_map2 e1 e2
     (\<lambda>a b. if isSupportedSignedIntegerType (e_type e1) then ap_srem a b else ap_urem a b)
     (\<lambda>_ _. Inl (Fatal ''rem(bool, bool) is unsupported''))
     (\<lambda>f g. Inr (fl_mod L f g))
     (\<lambda>_ _. Inl (Fatal ''rem(complex, complex) is not implemented''))"

definition elem_round_nearest_afz :: "lib \<Rightarrow> element \<Rightarrow> element res" where
  "elem_round_nearest_afz L el =
     bnd (getFloatValue el) (\<lambda>v. mk_float (e_type el) (fl_round L NearestTiesToAway v))"

definition elem_round_nearest_even :: "lib \<Rightarrow> element \<Rightarrow> element res" where
  "elem_round_nearest_even L el =
     bnd (getFloatValue el) (\<lambda>v. mk_float (e_type el) (fl_round L NearestTiesToEven v))"

definition elem_rsqrt :: "lib \<Rightarrow> element \<Rightarrow> element res" where
  "elem_rsqrt L el = elem_map_double1 L el (\<lambda>e. d_div L d_one (d_sqrt L e))
     (\<lambda>z. cd_div L (d_one, d_zero) (cd_sqrt L z))"

definition elem_shift_left :: "element \<Rightarrow> element \<Rightarrow> element res" where
  "elem_shift_left e1 e2 = bnd (getIntegerValue e1) (\<lambda>a. bnd (getIntegerValue e2) (\<lambda>b.
     mk_int (e_type e1) (ap_shl a b)))"

definition elem_shift_right_logical :: "element \<Rightarrow> element \<Rightarrow> element res" where
  "elem_shift_right_logical e1 e2 = bnd (getIntegerValue e1) (\<lambda>a. bnd (getIntegerValue e2) (\<lambda>b.
     mk_int (e_type e1) (ap_lshr a b)))"

definition elem_shift_right_arithmetic :: "element \<Rightarrow> element \<Rightarrow> element res" where
  "elem_shift_right_arithmetic e1 e2 = bnd (getIntegerValue e1) (\<lambda>a. bnd (getIntegerValue e2) (\<lambda>b.
     mk_int (e_type e1) (ap_ashr a b)))"

definition elem_sign :: "lib \<Rightarrow> element \<Rightarrow> element res" where
  "elem_sign L el =
     (let type = e_type el in
      if isSupportedIntegerType type then
        bnd (getIntegerValue el) (\<lambda>v.
          if ap_neg_p v then convert_i64 L type (-1)
          else if uval v = 0 then convert_i64 L type 0
          else convert_i64 L type 1)
      else if isSupportedFloatType type then
        bnd (getFloatValue el) (\<lambda>v.
          if fl_is_nan L v then Inr el
          else if fl_is_zero L v \<and> fl_is_negative L v then convert_double L type d_neg_zero
          else if fl_is_zero L v \<and> \<not> fl_is_negative L v then convert_double L type d_zero
          else if fl_is_negative L v then convert_double L type d_neg_one
          else convert_double L type d_one)
      else if isSupportedComplexType type then
        bnd (getComplexValue el) (\<lambda>(re, im).
          (let elSemantics = fl_sem re in
           if fl_is_nan L re \<or> fl_is_nan L im
           then mk_complex type (fl_nan L elSemantics, fl_nan L elSemantics)
           else if fl_is_zero L re \<and> fl_is_zero L im
           then mk_complex type (fl_zero L elSemantics, fl_zero L elSemantics)
           else bnd (elem_abs L el) (\<lambda>m. bnd (getFloatValue m) (\<lambda>f.
                bnd (convert_apfloat L type f) (elem_div L el)))))
      else Inl unsupported_element)"

definition elem_sine :: "lib \<Rightarrow> element \<Rightarrow> element res" where
  "elem_sine L el = elem_map_double1 L el (d_sin L) (cd_sin L)"

definition elem_tanh :: "lib \<Rightarrow> element \<Rightarrow> element res" where
  "elem_tanh L el = elem_map_double1 L el (d_tanh L) (cd_tanh L)"

end
