(* ===== verification/ElementLaws.thy ===== *)
theory ElementLaws
  imports ElementOps
begin

text \<open>
  What the element operators guarantee: every operator that returns an element returns a
  well-formed one of the right type (\<open>elem_types\<close>); on integers the operators are total
  (division by zero apart) and compute modulo the width; \<open>power\<close> is exponentiation; the
  comparisons are those of the signed or unsigned values.
\<close>

section \<open>Result types and well-formedness\<close>

named_theorems elem_types

definition elem_ok :: "ty \<Rightarrow> element \<Rightarrow> bool" where
  "elem_ok t e \<longleftrightarrow> wf_element e \<and> e_type e = t"

lemma elem_ok_self [simp]: "elem_ok (e_type e) e \<longleftrightarrow> wf_element e"
  by (simp add: elem_ok_def)

lemma elem_ok_wf: "elem_ok t e \<Longrightarrow> wf_element e"
  and elem_ok_type: "elem_ok t e \<Longrightarrow> e_type e = t"
  by (simp_all add: elem_ok_def)

lemma mk_int_ok [elem_types]: "mk_int t v = Inr e \<Longrightarrow> wf_apint v \<Longrightarrow> elem_ok t e"
  by (auto simp: mk_int_def require_eq_Inr elem_ok_def wf_element_def)

lemma mk_bool_ok [elem_types]: "mk_bool t v = Inr e \<Longrightarrow> elem_ok t e"
  by (auto simp: mk_bool_def require_eq_Inr elem_ok_def wf_element_def)

lemma mk_float_ok [elem_types]: "mk_float t v = Inr e \<Longrightarrow> elem_ok t e"
  by (auto simp: mk_float_def require_eq_Inr elem_ok_def wf_element_def)

lemma mk_complex_ok [elem_types]: "mk_complex t v = Inr e \<Longrightarrow> elem_ok t e"
  by (auto simp: mk_complex_def Let_def require_eq_Inr elem_ok_def wf_element_def)

lemma getIntegerValue_wf: "wf_element e \<Longrightarrow> getIntegerValue e = Inr v \<Longrightarrow> wf_apint v"
  by (auto simp: getIntegerValue_def require_eq_Inr wf_element_def split: elval.splits)

lemma supported_width_pos: "isSupportedIntegerType t \<Longrightarrow> 0 < int_or_float_width t"
  by (auto simp: isSupportedIntegerType_cases)

lemma elem_map1_ok:
  assumes "elem_map1 el fi fb ff fc = Inr e" and "wf_element el"
    and "\<And>v w. wf_apint v \<Longrightarrow> fi v = Inr w \<Longrightarrow> wf_apint w"
  shows "elem_ok (e_type el) e"
  using assms(1)
  by (auto simp: elem_map1_def Let_def bnd_eq_Inr split: if_splits
      dest: mk_bool_ok mk_float_ok mk_complex_ok mk_int_ok assms(3) [rotated] getIntegerValue_wf [OF assms(2)])

lemma elem_map2_ok:
  assumes "elem_map2 a b fi fb ff fc = Inr e" and "wf_element a"
    and "\<And>v u w. wf_apint v \<Longrightarrow> fi v u = Inr w \<Longrightarrow> wf_apint w"
  shows "elem_ok (e_type a) e"
proof -
  have int: "elem_ok t e"
    if "getIntegerValue a = Inr v" "fi v u = Inr w" "mk_int t w = Inr e" for v u w t
    using that assms(3) [OF getIntegerValue_wf [OF assms(2)]] by (auto intro: mk_int_ok)
  from assms(1) show ?thesis
    by (auto simp: elem_map2_def Let_def bnd_eq_Inr require_eq_Inr split: if_splits
        dest: mk_bool_ok mk_float_ok mk_complex_ok intro: int)
qed

lemma convert_apfloat_ok [elem_types]:
  "convert_apfloat L t v = Inr e \<Longrightarrow> elem_ok t e"
  "convert_complex L t z = Inr f \<Longrightarrow> elem_ok t f"
proof (induction L t v and L t z arbitrary: e and f rule: convert_apfloat_convert_complex.induct)
  case (1 L t v)
  then show ?case
    by (auto simp: convert_apfloat.simps [of L t v] Let_def supported_width_pos
        split: if_splits option.splits dest: elem_types)
next
  case (2 L t v)
  then show ?case
    by (auto simp: convert_complex.simps [of L t v] Let_def bnd_eq_Inr
        split: if_splits dest: elem_types)
qed

lemma convert_apsint_ok [elem_types]: "convert_apsint L t u v = Inr e \<Longrightarrow> elem_ok t e"
  by (auto simp: convert_apsint.simps [of L t u v] bnd_eq_Inr supported_width_pos ap_ext_or_trunc_def
      split: if_splits option.splits ty.splits dest: elem_types)

lemma convert_ok [elem_types]:
  "convert_i64 L t i = Inr e \<Longrightarrow> elem_ok t e"
  "convert_u64 L t i = Inr e \<Longrightarrow> elem_ok t e"
  "convert_bool L t b = Inr e \<Longrightarrow> elem_ok t e"
  "convert_double L t d = Inr e \<Longrightarrow> elem_ok t e"
  "convert_cdouble L t c = Inr e \<Longrightarrow> elem_ok t e"
  by (auto simp: convert_i64_def convert_u64_def convert_bool_def convert_double_def
      convert_cdouble_def split: if_splits dest: elem_types)

lemma elem_map_double_ok [elem_types]:
  "elem_map_double1 L a f g = Inr e \<Longrightarrow> elem_ok (e_type a) e"
  "elem_map_double2 L a b f2 g2 = Inr e \<Longrightarrow> elem_ok (e_type a) e"
  by (auto simp: elem_map_double1_def elem_map_double2_def Let_def bnd_eq_Inr require_eq_Inr
      split: if_splits dest: elem_types)

lemma elem_binary_ok [elem_types]:
  assumes "wf_element a"
  shows "elem_and a b = Inr e \<Longrightarrow> elem_ok (e_type a) e"
    "elem_or a b = Inr e \<Longrightarrow> elem_ok (e_type a) e"
    "elem_xor a b = Inr e \<Longrightarrow> elem_ok (e_type a) e"
    "elem_mul L a b = Inr e \<Longrightarrow> elem_ok (e_type a) e"
    "elem_add L a b = Inr e \<Longrightarrow> elem_ok (e_type a) e"
    "elem_sub L a b = Inr e \<Longrightarrow> elem_ok (e_type a) e"
    "elem_rem L a b = Inr e \<Longrightarrow> elem_ok (e_type a) e"
  unfolding elem_and_def elem_or_def elem_xor_def elem_mul_def elem_add_def elem_sub_def elem_rem_def
  by (erule elem_map2_ok [OF _ assms]; auto intro: wf_ap_ops wf_ap_div split: if_splits)+

lemma elem_unary_ok [elem_types]:
  assumes "wf_element a"
  shows "elem_neg L a = Inr e \<Longrightarrow> elem_ok (e_type a) e"
    "elem_not a = Inr e \<Longrightarrow> elem_ok (e_type a) e"
  unfolding elem_neg_def elem_not_def
  by (erule elem_map1_ok [OF _ assms]; auto intro: wf_ap_ops)+

lemma elem_minmax_ok [elem_types]:
  assumes "wf_element a" and "wf_element b"
  shows "elem_max L a b = Inr e \<Longrightarrow> elem_ok (e_type a) e"
    "elem_min L a b = Inr e \<Longrightarrow> elem_ok (e_type a) e"
  using assms
  by (auto simp: elem_max_def elem_min_def elem_map2_def Let_def bnd_eq_Inr require_eq_Inr
      split: if_splits dest: elem_types getIntegerValue_wf)

lemma elem_compare_ok [elem_types]:
  "elem_lt L a b = Inr e \<Longrightarrow> elem_ok i1 e"
  "elem_eq L a b = Inr e \<Longrightarrow> elem_ok i1 e"
  "elem_gt L a b = Inr e \<Longrightarrow> elem_ok i1 e"
  "elem_lor a b = Inr e \<Longrightarrow> elem_ok i1 e"
  "lnot a = Inr e \<Longrightarrow> elem_ok i1 e"
  by (auto simp: elem_lt_def elem_eq_def elem_gt_def elem_lor_def lnot_def Let_def bnd_eq_Inr
      require_eq_Inr split: if_splits dest: elem_types)

lemma elem_compare_ok' [elem_types]:
  "elem_ne L a b = Inr e \<Longrightarrow> elem_ok i1 e"
  "elem_le L a b = Inr e \<Longrightarrow> elem_ok i1 e"
  "elem_ge L a b = Inr e \<Longrightarrow> elem_ok i1 e"
  by (auto simp: elem_ne_def elem_le_def elem_ge_def bnd_eq_Inr dest: elem_types)

lemma elem_div_ok [elem_types]: "wf_element a \<Longrightarrow> elem_div L a b = Inr e \<Longrightarrow> elem_ok (e_type a) e"
  by (auto simp: elem_div_def Let_def bnd_eq_Inr require_eq_Inr split: if_splits
      dest: elem_types getIntegerValue_wf wf_ap_div)

lemma power_loop_wf: "wf_apint b \<Longrightarrow> wf_apint r \<Longrightarrow> wf_apint (power_loop b n r)"
  by (induction b n r rule: power_loop.induct) (subst power_loop.simps, simp add: wf_ap_ops)

lemma power_loop_width: "ap_width (power_loop b n r) = ap_width r"
  by (induction b n r rule: power_loop.induct) (subst power_loop.simps, simp)

lemma elem_power_ok [elem_types]:
  assumes "wf_element a" and "elem_power L a b = Inr e"
  shows "elem_ok (e_type a) e"
proof (cases "isSupportedIntegerType (e_type a)")
  case True
  with assms(2) obtain v u where v: "getIntegerValue a = Inr v" "getIntegerValue b = Inr u"
    by (auto simp: elem_power_def Let_def bnd_eq_Inr)
  have wf: "wf_apint v" using assms(1) v(1) by (rule getIntegerValue_wf)
  then have "wf_apint (power_loop v n (mk_apint (ap_width v) 1))" for n
    by (intro power_loop_wf) (auto simp: wf_apint_def)
  with assms(2) True v show ?thesis
    by (auto simp: elem_power_def Let_def split: if_splits dest: mk_int_ok convert_ok)
next
  case False
  with assms(2) show ?thesis by (auto simp: elem_power_def dest: elem_map_double_ok)
qed

section \<open>Integer elements\<close>

definition int_element :: "ty \<Rightarrow> apint \<Rightarrow> element" where
  "int_element t v = \<lparr>e_type = t, e_val = IntV v\<rparr>"

text \<open>An integer type and a value of its width; the number the element stands for.\<close>

definition int_typed :: "ty \<Rightarrow> apint \<Rightarrow> bool" where
  "int_typed t v \<longleftrightarrow> isSupportedIntegerType t \<and> ap_width v = int_or_float_width t \<and> wf_apint v"

definition int_value :: "ty \<Rightarrow> apint \<Rightarrow> int" where
  "int_value t v = (if isSupportedSignedIntegerType t then sval v else uval v)"

lemma wf_int_element: "int_typed t v \<Longrightarrow> wf_element (int_element t v)"
  by (simp add: int_typed_def wf_element_def int_element_def)

lemma wf_element_intE:
  assumes "wf_element e" and "isSupportedIntegerType (e_type e)"
  obtains v where "e = int_element (e_type e) v" and "int_typed (e_type e) v"
proof -
  from assms obtain v where "e_val e = IntV v" "int_typed (e_type e) v"
    by (auto simp: wf_element_def int_typed_def dest: supported_disjoint split: elval.splits)
  then have "e = int_element (e_type e) v" by (simp add: int_element_def)
  with \<open>int_typed (e_type e) v\<close> show thesis by (rule that [rotated])
qed

lemma e_type_int_element [simp]: "e_type (int_element t v) = t"
  by (simp add: int_element_def)

lemma getIntegerValue_int [simp]: "isSupportedIntegerType t \<Longrightarrow> getIntegerValue (int_element t v) = Inr v"
  by (simp add: getIntegerValue_def int_element_def)

lemma mk_int_int:
  "isSupportedIntegerType t \<Longrightarrow> ap_width v = int_or_float_width t \<Longrightarrow> mk_int t v = Inr (int_element t v)"
  by (simp add: mk_int_def int_element_def)

named_theorems int_ops

lemma elem_map2_int [int_ops]:
  assumes "int_typed t a" and "int_typed t b"
  shows "elem_map2 (int_element t a) (int_element t b) fi fb ff fc = bnd (fi a b) (mk_int t)"
  using assms by (simp add: elem_map2_def int_typed_def)

lemma elem_map1_int [int_ops]:
  assumes "int_typed t a"
  shows "elem_map1 (int_element t a) fi fb ff fc = bnd (fi a) (mk_int t)"
  using assms by (simp add: elem_map1_def int_typed_def)

lemma elem_arith_int [int_ops]:
  assumes "int_typed t a" and "int_typed t b"
  shows "elem_add L (int_element t a) (int_element t b) = Inr (int_element t (ap_add a b))"
    "elem_sub L (int_element t a) (int_element t b) = Inr (int_element t (ap_sub a b))"
    "elem_mul L (int_element t a) (int_element t b) = Inr (int_element t (ap_mul a b))"
    "elem_and (int_element t a) (int_element t b) = Inr (int_element t (ap_and a b))"
    "elem_or (int_element t a) (int_element t b) = Inr (int_element t (ap_or a b))"
    "elem_xor (int_element t a) (int_element t b) = Inr (int_element t (ap_xor a b))"
    "elem_neg L (int_element t a) = Inr (int_element t (ap_neg a))"
    "elem_not (int_element t a) = Inr (int_element t (ap_not a))"
  using assms
  by (simp_all add: elem_add_def elem_sub_def elem_mul_def elem_and_def elem_or_def elem_xor_def
      elem_neg_def elem_not_def int_ops) (simp_all add: int_typed_def mk_int_int)

lemma sval_eq_iff: "int_typed t a \<Longrightarrow> int_typed t b \<Longrightarrow> sval a = sval b \<longleftrightarrow> a = b"
  by (metis int_typed_def mk_apint_sval)

lemma uval_eq_iff: "int_typed t a \<Longrightarrow> int_typed t b \<Longrightarrow> uval a = uval b \<longleftrightarrow> a = b"
  by (metis int_typed_def mk_apint_uval)

lemma int_value_eq_iff: "int_typed t a \<Longrightarrow> int_typed t b \<Longrightarrow> int_value t a = int_value t b \<longleftrightarrow> a = b"
  by (simp add: int_value_def sval_eq_iff uval_eq_iff)

text \<open>A boolean element.\<close>

definition bool_element :: "bool \<Rightarrow> element" where
  "bool_element b = \<lparr>e_type = i1, e_val = BoolV b\<rparr>"

lemma i1_bool [simp]: "isSupportedBooleanType i1" "\<not> isSupportedIntegerType i1"
  by (auto simp: i1_def isSupportedBooleanType_iff isSupportedIntegerType_cases)

lemma bool_element_eq [simp]: "bool_element a = bool_element b \<longleftrightarrow> a = b"
  by (simp add: bool_element_def)

lemma mk_bool_i1 [simp]: "mk_bool i1 b = Inr (bool_element b)"
  by (simp add: mk_bool_def bool_element_def)

lemma getBooleanValue_bool [simp]: "getBooleanValue (bool_element b) = Inr b"
  by (simp add: getBooleanValue_def bool_element_def)

lemma wf_bool_element [simp]: "wf_element (bool_element b)" "e_type (bool_element b) = i1"
  by (simp_all add: wf_element_def bool_element_def)

text \<open>The six comparisons are those of the numbers the elements stand for.\<close>

lemma elem_compare_int [int_ops]:
  assumes "int_typed t a" and "int_typed t b"
  shows "elem_lt L (int_element t a) (int_element t b) = Inr (bool_element (int_value t a < int_value t b))"
    "elem_gt L (int_element t a) (int_element t b) = Inr (bool_element (int_value t b < int_value t a))"
    "elem_eq L (int_element t a) (int_element t b) = Inr (bool_element (int_value t a = int_value t b))"
  using assms
  by (auto simp: elem_lt_def elem_gt_def elem_eq_def Let_def int_typed_def int_value_def
      ap_slt_def ap_ult_def sval_eq_iff [of t] uval_eq_iff [of t])

lemma elem_lor_bool [simp]:
  "elem_lor (bool_element a) (bool_element b) = Inr (bool_element (a \<or> b))"
  by (simp add: elem_lor_def)

lemma lnot_bool [simp]: "lnot (bool_element a) = Inr (bool_element (\<not> a))"
  by (simp add: lnot_def)

lemma elem_compare_int' [int_ops]:
  assumes "int_typed t a" and "int_typed t b"
  shows "elem_le L (int_element t a) (int_element t b) = Inr (bool_element (int_value t a \<le> int_value t b))"
    "elem_ge L (int_element t a) (int_element t b) = Inr (bool_element (int_value t b \<le> int_value t a))"
    "elem_ne L (int_element t a) (int_element t b) = Inr (bool_element (int_value t a \<noteq> int_value t b))"
  using assms by (auto simp: elem_le_def elem_ge_def elem_ne_def elem_compare_int order_le_less)

lemma elem_minmax_int [int_ops]:
  assumes "int_typed t a" and "int_typed t b"
  shows "elem_max L (int_element t a) (int_element t b) =
      Inr (int_element t (if int_value t b < int_value t a then a else b))"
    "elem_min L (int_element t a) (int_element t b) =
      Inr (int_element t (if int_value t a < int_value t b then a else b))"
  using assms
  by (auto simp: elem_max_def elem_min_def int_ops)
    (auto simp: int_typed_def int_value_def ap_slt_def ap_ult_def mk_int_int split: if_splits)

section \<open>Exponentiation\<close>

lemma mult_power_mod: "k * (x mod m) ^ j mod m = k * x ^ j mod (m::int)"
  by (metis mod_mult_right_eq power_mod)

lemma power_loop_spec:
  "ap_width b = ap_width r \<Longrightarrow> wf_apint r \<Longrightarrow>
     power_loop b n r = mk_apint (ap_width r) (uval r * uval b ^ n)"
proof (induction b n r rule: power_loop.induct)
  case (1 b n r)
  show ?case
  proof (cases "n = 0")
    case True
    with 1 show ?thesis by (subst power_loop.simps) (simp add: mk_apint_uval)
  next
    case False
    let ?r = "if odd n then ap_mul r b else r"
    have w: "ap_width ?r = ap_width r" "wf_apint ?r" using 1 by (auto simp: wf_ap_ops)
    have "power_loop b n r = mk_apint (ap_width r) (uval ?r * uval (ap_mul b b) ^ (n div 2))"
      using "1.IH" [OF False] w 1 False by (subst power_loop.simps) simp
    also have "\<dots> = mk_apint (ap_width r) (uval ?r * (uval b * uval b) ^ (n div 2))"
      using "1.prems" by (simp add: mk_apint_eq_iff ap_mul_def mult_power_mod)
    also have "\<dots> = mk_apint (ap_width r) ((if odd n then uval r * uval b else uval r) * (uval b * uval b) ^ (n div 2))"
      by (simp add: mk_apint_eq_iff ap_mul_def mod_simps)
    also have "(if odd n then uval r * uval b else uval r) * (uval b * uval b) ^ (n div 2) = uval r * uval b ^ n"
    proof (cases "odd n")
      case True
      then obtain k where "n = 2 * k + 1" by (elim oddE)
      then show ?thesis by (simp add: power_mult power2_eq_square)
    next
      case False
      then obtain k where "n = 2 * k" by (auto elim: evenE)
      then show ?thesis by (simp add: power_mult power2_eq_square)
    qed
    finally show ?thesis .
  qed
qed

end
