(* ===== verification/Sizes.thy ===== *)
theory Sizes
  imports MlirTypes
begin

text \<open>
  \<open>stablehlo/reference/Sizes.cpp\<close>: lists of per-axis integers (shapes, indices, strides) with
  element-wise arithmetic, clamping, permutation and the bounds check. Every arithmetic
  operation works on \<open>int64_t\<close> and is undefined when it overflows.
\<close>

section \<open>Operations\<close>

type_synonym sizes = "int list"
type_synonym axes = "int list"

definition size_mismatch :: error where
  "size_mismatch = Fatal ''expected same size''"

definition inBounds :: "sizes \<Rightarrow> sizes \<Rightarrow> bool" where
  "inBounds x bounds \<longleftrightarrow> length x = length bounds \<and>
     list_all (\<lambda>(size, bound). \<not> (size < 0 \<or> size \<ge> bound)) (zip x bounds)"

definition permute :: "sizes \<Rightarrow> axes \<Rightarrow> sizes res" where
  "permute x permutation =
     foldM (\<lambda>result i. bnd (at permutation i) (\<lambda>p. bnd (at x p) (\<lambda>v. put result i v)))
       (replicate (length x) 0) [0..int (length permutation) - 1]"

definition zip_i64 :: "(int \<Rightarrow> int \<Rightarrow> int) \<Rightarrow> sizes \<Rightarrow> sizes \<Rightarrow> sizes res" where
  "zip_i64 f x y = mapM (\<lambda>(a, b). i64 (f a b)) (zip x y)"

definition sizes_add :: "sizes \<Rightarrow> sizes \<Rightarrow> sizes res" where
  "sizes_add x y = require (length x = length y) size_mismatch (zip_i64 (+) x y)"

definition sizes_add_int :: "sizes \<Rightarrow> int \<Rightarrow> sizes res" where
  "sizes_add_int x y = sizes_add x (replicate (length x) y)"

definition int_add_sizes :: "int \<Rightarrow> sizes \<Rightarrow> sizes res" where
  "int_add_sizes x y = sizes_add_int y x"

definition sizes_sub :: "sizes \<Rightarrow> sizes \<Rightarrow> sizes res" where
  "sizes_sub x y = require (length x = length y) size_mismatch (zip_i64 (-) x y)"

definition sizes_sub_int :: "sizes \<Rightarrow> int \<Rightarrow> sizes res" where
  "sizes_sub_int x y = sizes_sub x (replicate (length x) y)"

definition int_sub_sizes :: "int \<Rightarrow> sizes \<Rightarrow> sizes res" where
  "int_sub_sizes x y = sizes_sub (replicate (length y) x) y"

definition sizes_mul :: "sizes \<Rightarrow> sizes \<Rightarrow> sizes res" where
  "sizes_mul x y = require (length x = length y) size_mismatch (zip_i64 (*) x y)"

definition sizes_mul_int :: "sizes \<Rightarrow> int \<Rightarrow> sizes res" where
  "sizes_mul_int x y = sizes_mul x (replicate (length x) y)"

text \<open>The source's body for \<open>int64_t * Sizes\<close> is \<open>y + x\<close>, as translated here.\<close>

definition int_mul_sizes :: "int \<Rightarrow> sizes \<Rightarrow> sizes res" where
  "int_mul_sizes x y = sizes_add_int y x"

definition clamp :: "sizes \<Rightarrow> sizes \<Rightarrow> sizes \<Rightarrow> sizes res" where
  "clamp mn x mx = require (\<not> (length mn \<noteq> length x \<or> length x \<noteq> length mx)) size_mismatch
     (Inr (map (\<lambda>(a, lo, hi). min (max a lo) hi) (zip x (zip mn mx))))"

definition clamp_int_int :: "int \<Rightarrow> sizes \<Rightarrow> int \<Rightarrow> sizes res" where
  "clamp_int_int mn x mx = clamp (replicate (length x) mn) x (replicate (length x) mx)"

definition clamp_int :: "int \<Rightarrow> sizes \<Rightarrow> sizes \<Rightarrow> sizes res" where
  "clamp_int mn x mx = clamp (replicate (length x) mn) x mx"

definition clamp_upper_int :: "sizes \<Rightarrow> sizes \<Rightarrow> int \<Rightarrow> sizes res" where
  "clamp_upper_int mn x mx = clamp mn x (replicate (length x) mx)"

section \<open>Laws\<close>

lemma inBounds_Nil [simp]: "inBounds [] sh \<longleftrightarrow> sh = []" "inBounds idx [] \<longleftrightarrow> idx = []"
  by (auto simp: inBounds_def)

lemma inBounds_Cons [simp]:
  "inBounds (i # is) (d # ds) \<longleftrightarrow> 0 \<le> i \<and> i < d \<and> inBounds is ds"
  by (auto simp: inBounds_def)

lemma inBounds_length: "inBounds idx sh \<Longrightarrow> length idx = length sh"
  by (simp add: inBounds_def)

lemma inBounds_nth_iff:
  "inBounds idx sh \<longleftrightarrow> length idx = length sh \<and>
     (\<forall>k < length sh. 0 \<le> idx ! k \<and> idx ! k < sh ! k)"
  by (auto simp: inBounds_def list_all_length)

lemma inBounds_static: "inBounds idx sh \<Longrightarrow> static_shape sh"
  by (fastforce simp: inBounds_nth_iff static_shape_def in_set_conv_nth)

lemma zip_i64_eq_Inr:
  assumes "length x = length y"
  shows "zip_i64 f x y = Inr z \<longleftrightarrow> length z = length x \<and>
     (\<forall>k < length x. i64_ok (f (x ! k) (y ! k)) \<and> z ! k = f (x ! k) (y ! k))"
  using assms by (auto simp: zip_i64_def mapM_eq_Inr i64_eq_Inr)

lemma sizes_add_eq_Inr [res_simps]:
  "sizes_add x y = Inr z \<longleftrightarrow> length x = length y \<and> length z = length x \<and>
     (\<forall>k < length x. i64_ok (x ! k + y ! k) \<and> z ! k = x ! k + y ! k)"
  by (auto simp: sizes_add_def require_eq_Inr zip_i64_eq_Inr)

lemma sizes_sub_eq_Inr [res_simps]:
  "sizes_sub x y = Inr z \<longleftrightarrow> length x = length y \<and> length z = length x \<and>
     (\<forall>k < length x. i64_ok (x ! k - y ! k) \<and> z ! k = x ! k - y ! k)"
  by (auto simp: sizes_sub_def require_eq_Inr zip_i64_eq_Inr)

lemma sizes_mul_eq_Inr [res_simps]:
  "sizes_mul x y = Inr z \<longleftrightarrow> length x = length y \<and> length z = length x \<and>
     (\<forall>k < length x. i64_ok (x ! k * y ! k) \<and> z ! k = x ! k * y ! k)"
  by (auto simp: sizes_mul_def require_eq_Inr zip_i64_eq_Inr)

lemma sizes_add_int_eq_Inr [res_simps]:
  "sizes_add_int x c = Inr z \<longleftrightarrow> length z = length x \<and>
     (\<forall>k < length x. i64_ok (x ! k + c) \<and> z ! k = x ! k + c)"
  by (auto simp: sizes_add_int_def sizes_add_eq_Inr)

lemma sizes_sub_int_eq_Inr [res_simps]:
  "sizes_sub_int x c = Inr z \<longleftrightarrow> length z = length x \<and>
     (\<forall>k < length x. i64_ok (x ! k - c) \<and> z ! k = x ! k - c)"
  by (auto simp: sizes_sub_int_def sizes_sub_eq_Inr)

lemma sizes_add_map2:
  assumes "length x = length y" and "\<And>k. k < length x \<Longrightarrow> i64_ok (x ! k + y ! k)"
  shows "sizes_add x y = Inr (map2 (+) x y)"
  using assms by (simp add: sizes_add_eq_Inr)

lemma sizes_mul_map2:
  assumes "length x = length y" and "\<And>k. k < length x \<Longrightarrow> i64_ok (x ! k * y ! k)"
  shows "sizes_mul x y = Inr (map2 (*) x y)"
  using assms by (simp add: sizes_mul_eq_Inr)

lemma sizes_sub_map2:
  assumes "length x = length y" and "\<And>k. k < length x \<Longrightarrow> i64_ok (x ! k - y ! k)"
  shows "sizes_sub x y = Inr (map2 (-) x y)"
  using assms by (simp add: sizes_sub_eq_Inr)

lemma clamp_eq_Inr [res_simps]:
  "clamp mn x mx = Inr z \<longleftrightarrow> length mn = length x \<and> length mx = length x \<and> length z = length x \<and>
     (\<forall>k < length x. z ! k = min (max (x ! k) (mn ! k)) (mx ! k))"
  by (auto simp: clamp_def require_eq_Inr intro: nth_equalityI)

lemma clamp_int_eq_Inr [res_simps]:
  "clamp_int c x mx = Inr z \<longleftrightarrow> length mx = length x \<and> length z = length x \<and>
     (\<forall>k < length x. z ! k = min (max (x ! k) c) (mx ! k))"
  by (auto simp: clamp_int_def clamp_eq_Inr)

text \<open>
  The loop of \<open>permute\<close>, for a permutation of the full length: it stops before the first
  step that goes out of range, and otherwise builds the reordered list.
\<close>

lemma foldM_put_upto:
  assumes "\<And>i. 0 \<le> i \<Longrightarrow> i < int n \<Longrightarrow> g i = Inr (v i)" and "n \<le> length r"
  shows "foldM (\<lambda>r i. bnd (g i) (\<lambda>w. put r i w)) r [0..int n - 1] =
    Inr (map (\<lambda>i. v (int i)) [0..<n] @ drop n r)"
  using assms
proof (induction n)
  case (Suc n)
  have split: "[0..int n] = [0..int n - 1] @ [int n]"
    by (simp add: upto_rec2)
  have "foldM (\<lambda>r i. bnd (g i) (\<lambda>w. put r i w)) r [0..int n - 1] =
      Inr (map (\<lambda>i. v (int i)) [0..<n] @ drop n r)"
    using Suc by simp
  moreover have "(map (\<lambda>i. v (int i)) [0..<n] @ drop n r)[n := v (int n)] =
      map (\<lambda>i. v (int i)) [0..<Suc n] @ drop (Suc n) r"
    using Suc.prems(2) by (simp add: list_update_append Cons_nth_drop_Suc [symmetric])
  ultimately show ?case
    using Suc.prems by (simp add: split foldM_append put_nonneg)
qed simp

lemma permute_full:
  assumes "length p = length x" and "\<And>i. i < length p \<Longrightarrow> 0 \<le> p ! i \<and> p ! i < int (length x)"
  shows "permute x p = Inr (map (\<lambda>a. x ! nat a) p)"
proof -
  have "permute x p = foldM (\<lambda>r i. bnd (bnd (at p i) (at x)) (\<lambda>v. put r i v))
      (replicate (length x) 0) [0..int (length p) - 1]"
    by (simp add: permute_def bnd_assoc)
  also have "\<dots> = Inr (map (\<lambda>i. x ! nat (p ! nat (int i))) [0..<length p] @ drop (length p) (replicate (length x) 0))"
    by (rule foldM_put_upto) (use assms in \<open>auto simp: at_nonneg\<close>)
  also have "map (\<lambda>i. x ! nat (p ! nat (int i))) [0..<length p] = map (\<lambda>a. x ! nat a) p"
    by (rule nth_equalityI) auto
  finally show ?thesis using assms(1) by simp
qed

end
