(* ===== verification/IndexSpace.thy ===== *)
theory IndexSpace
  imports Sizes
begin

text \<open>
  \<open>stablehlo/reference/Index.cpp\<close>: the iterator over the index space of a shape, the loop
  \<open>for (it = index_begin(); it != index_end(); ++it)\<close> of every evaluator, and the enumeration
  this loop goes through. \<open>flat\<close> is the position of an index in row-major order, \<open>unflat\<close> its
  inverse.
\<close>

section \<open>The iterator\<close>

record iter =
  it_shape :: sizes
  it_index :: "sizes option"

definition mk_iter :: "sizes \<Rightarrow> sizes option \<Rightarrow> iter res" where
  "mk_iter shape index =
     (case index of
        None \<Rightarrow> Inr \<lparr>it_shape = shape, it_index = None\<rparr>
      | Some idx \<Rightarrow> require (inBounds idx shape)
          (Fatal ''Incompatible index and shape found while creating an IndexSpaceIterator'')
          (Inr \<lparr>it_shape = shape, it_index = Some idx\<rparr>))"

definition iter_deref :: "iter \<Rightarrow> sizes res" where
  "iter_deref it = (case it_index it of
     None \<Rightarrow> Inl (Fatal ''Dereferencing a past-the-end iterator.'')
   | Some idx \<Rightarrow> Inr idx)"

text \<open>The loop of \<open>operator++\<close>, at axis \<open>i\<close> (counted from 1): carry to the left.\<close>

fun incr_loop :: "sizes \<Rightarrow> sizes \<Rightarrow> nat \<Rightarrow> sizes option" where
  "incr_loop shape index 0 = Some index"
| "incr_loop shape index (Suc i) =
     (let index = index[i := index ! i + 1] in
      if index ! i \<ge> shape ! i
      then (let index = index[i := 0] in
            if i = 0 then None else incr_loop shape index i)
      else Some index)"

definition iter_incr :: "iter \<Rightarrow> iter res" where
  "iter_incr it = (case it_index it of
     None \<Rightarrow> Inl (Fatal ''Incrementing a past-the-end iterator.'')
   | Some idx \<Rightarrow>
       Inr (it\<lparr>it_index := (if it_shape it = [] then None
                           else incr_loop (it_shape it) idx (length (it_shape it)))\<rparr>))"

definition iter_eq :: "iter \<Rightarrow> iter \<Rightarrow> bool" where
  "iter_eq a b \<longleftrightarrow> it_shape a = it_shape b \<and> it_index a = it_index b"

text \<open>\<open>Tensor::index_begin\<close> and \<open>Tensor::index_end\<close>, which depend on the shape only.\<close>

definition index_begin :: "sizes \<Rightarrow> iter res" where
  "index_begin shape =
     (if list_ex (\<lambda>dimSize. dimSize = 0) shape then mk_iter shape None
      else mk_iter shape (Some (replicate (length shape) 0)))"

definition index_end :: "sizes \<Rightarrow> iter" where
  "index_end shape = \<lparr>it_shape = shape, it_index = None\<rparr>"

text \<open>
  The loop over an index space. Its fuel bounds the number of iterations; \<open>for_each_index\<close>
  gives it the number of elements of the shape, which \<open>for_each_index_eq\<close> shows to be what
  the loop needs.
\<close>

fun for_iter :: "nat \<Rightarrow> ('s \<Rightarrow> sizes \<Rightarrow> 's res) \<Rightarrow> iter \<Rightarrow> iter \<Rightarrow> 's \<Rightarrow> 's res" where
  "for_iter 0 body it it_end s = (if iter_eq it it_end then Inr s else Inl OutOfFuel)"
| "for_iter (Suc n) body it it_end s =
     (if iter_eq it it_end then Inr s
      else bnd (iter_deref it) (\<lambda>idx. bnd (body s idx) (\<lambda>t.
           bnd (iter_incr it) (\<lambda>it'. for_iter n body it' it_end t))))"

definition for_each_index :: "sizes \<Rightarrow> ('s \<Rightarrow> sizes \<Rightarrow> 's res) \<Rightarrow> 's \<Rightarrow> 's res" where
  "for_each_index shape body s =
     bnd (index_begin shape) (\<lambda>it. for_iter (nat (num_elements shape)) body it (index_end shape) s)"

section \<open>Row-major positions\<close>

fun flat :: "sizes \<Rightarrow> sizes \<Rightarrow> int" where
  "flat (d # ds) (i # is) = i * num_elements ds + flat ds is"
| "flat _ _ = 0"

fun unflat :: "sizes \<Rightarrow> int \<Rightarrow> sizes" where
  "unflat [] k = []"
| "unflat (d # ds) k = (k div num_elements ds) # unflat ds (k mod num_elements ds)"

definition index_space :: "sizes \<Rightarrow> sizes list" where
  "index_space shape = map (unflat shape) [0..num_elements shape - 1]"

lemma div_less_of_mult:
  assumes "0 < (m::int)" and "k < d * m"
  shows "k div m < d"
proof (rule ccontr)
  assume "\<not> k div m < d"
  then have "d * m \<le> k div m * m" using assms(1) by (intro mult_right_mono) auto
  also have "\<dots> \<le> k" using assms(1) by (simp add: minus_mod_eq_div_mult [symmetric])
  finally show False using assms(2) by simp
qed

lemma num_elements_pos_iff: "static_shape sh \<Longrightarrow> 0 < num_elements sh \<longleftrightarrow> num_elements sh \<noteq> 0"
  using num_elements_nonneg [of sh] by linarith

lemma num_elements_pos: "inBounds idx sh \<Longrightarrow> 0 < num_elements sh"
proof (induction sh arbitrary: idx)
  case (Cons d ds)
  then show ?case by (cases idx) (auto simp: mult_pos_pos)
qed simp

lemma flat_bounds: "inBounds idx sh \<Longrightarrow> 0 \<le> flat sh idx \<and> flat sh idx < num_elements sh"
proof (induction sh arbitrary: idx)
  case (Cons d ds)
  then obtain i js where idx: "idx = i # js" "0 \<le> i" "i < d" "inBounds js ds"
    by (cases idx) auto
  from Cons.IH [OF idx(4)] have IH: "0 \<le> flat ds js" "flat ds js < num_elements ds" by auto
  have "i * num_elements ds + flat ds js < (i + 1) * num_elements ds"
    using IH by (simp add: distrib_right)
  also have "\<dots> \<le> d * num_elements ds"
    using idx IH by (intro mult_right_mono) auto
  finally show ?case using idx IH by simp
qed simp

lemma unflat_flat: "inBounds idx sh \<Longrightarrow> unflat sh (flat sh idx) = idx"
proof (induction sh arbitrary: idx)
  case (Cons d ds)
  then obtain i js where idx: "idx = i # js" "inBounds js ds" by (cases idx) auto
  with flat_bounds [OF idx(2)] Cons.IH [OF idx(2)] show ?case by simp
qed simp

lemma unflat_inBounds: "static_shape sh \<Longrightarrow> 0 \<le> k \<Longrightarrow> k < num_elements sh \<Longrightarrow> inBounds (unflat sh k) sh"
proof (induction sh arbitrary: k)
  case (Cons d ds)
  have pos: "0 < num_elements ds"
    using Cons.prems by (cases "num_elements ds = 0") (auto simp: num_elements_pos_iff)
  moreover have "k div num_elements ds < d"
    using Cons.prems pos by (intro div_less_of_mult) simp_all
  ultimately show ?case using Cons by (simp add: pos_imp_zdiv_nonneg_iff)
qed simp

lemma flat_unflat: "static_shape sh \<Longrightarrow> 0 \<le> k \<Longrightarrow> k < num_elements sh \<Longrightarrow> flat sh (unflat sh k) = k"
proof (induction sh arbitrary: k)
  case (Cons d ds)
  have pos: "0 < num_elements ds"
    using Cons.prems by (cases "num_elements ds = 0") (auto simp: num_elements_pos_iff)
  then show ?case using Cons by simp
qed simp

lemma flat_inj: "inBounds a sh \<Longrightarrow> inBounds b sh \<Longrightarrow> flat sh a = flat sh b \<Longrightarrow> a = b"
  by (metis unflat_flat)

lemma index_space_set: "static_shape sh \<Longrightarrow> set (index_space sh) = {idx. inBounds idx sh}"
proof (intro set_eqI iffI)
  fix idx assume "static_shape sh" and "idx \<in> set (index_space sh)"
  then show "idx \<in> {idx. inBounds idx sh}" by (auto simp: index_space_def unflat_inBounds)
next
  fix idx assume sh: "static_shape sh" and "idx \<in> {idx. inBounds idx sh}"
  then have "inBounds idx sh" by simp
  then have "idx = unflat sh (flat sh idx)" "flat sh idx \<in> {0..num_elements sh - 1}"
    using flat_bounds [of idx sh] by (auto simp: unflat_flat)
  then show "idx \<in> set (index_space sh)" by (auto simp: index_space_def)
qed

lemma index_space_distinct: "static_shape sh \<Longrightarrow> distinct (index_space sh)"
  by (auto simp: index_space_def distinct_map inj_on_def) (metis flat_unflat zle_diff1_eq)

lemma index_space_length: "length (index_space sh) = nat (num_elements sh)"
  by (simp add: index_space_def)

lemma index_space_nth:
  "k < length (index_space sh) \<Longrightarrow> index_space sh ! k = unflat sh (int k)"
  by (simp add: index_space_def)

section \<open>The loop enumerates the index space in row-major order\<close>

text \<open>The successor of an index, or none after the last one; \<open>incr_loop\<close> computes it.\<close>

definition next_index :: "sizes \<Rightarrow> sizes \<Rightarrow> sizes option" where
  "next_index sh idx =
     (if flat sh idx + 1 < num_elements sh then Some (unflat sh (flat sh idx + 1)) else None)"

lemma num_elements_append: "num_elements (a @ b) = num_elements a * num_elements b"
  by (simp add: num_elements_def)

lemma flat_append:
  "length p = length a \<Longrightarrow> flat (a @ b) (p @ q) = flat a p * num_elements b + flat b q"
proof (induction a p rule: flat.induct)
  case (1 d ds i "is")
  then show ?case by (simp add: num_elements_append algebra_simps)
qed auto

lemma unflat_snoc:
  assumes "static_shape (ds @ [d])" and "0 \<le> k" and "k < num_elements (ds @ [d])"
  shows "unflat (ds @ [d]) k = unflat ds (k div d) @ [k mod d]"
proof (rule flat_inj)
  have nz: "num_elements ds * d \<noteq> 0" using assms by (auto simp: num_elements_append)
  then have d: "0 < d" "0 \<le> num_elements ds"
    using assms(1) by (auto simp: static_shape_def intro!: num_elements_nonneg)
  have div: "0 \<le> k div d" "k div d < num_elements ds"
    using assms d by (auto simp: num_elements_append pos_imp_zdiv_nonneg_iff intro: div_less_of_mult)
  have ds: "static_shape ds" using assms by (simp add: static_shape_def)
  have len: "length (unflat ds (k div d)) = length ds"
    using unflat_inBounds [OF ds div] by (rule inBounds_length)
  show "inBounds (unflat (ds @ [d]) k) (ds @ [d])" using assms by (rule unflat_inBounds)
  show "inBounds (unflat ds (k div d) @ [k mod d]) (ds @ [d])"
    using unflat_inBounds [OF ds div] pos_mod_sign [OF d(1), of k] pos_mod_bound [OF d(1), of k]
    by (auto simp: inBounds_def simp del: pos_mod_sign pos_mod_bound)
  show "flat (ds @ [d]) (unflat (ds @ [d]) k) = flat (ds @ [d]) (unflat ds (k div d) @ [k mod d])"
    using len by (simp add: flat_append flat_unflat [OF assms] flat_unflat [OF ds div])
qed

lemma inBounds_snoc: "inBounds idx (ds @ [d]) \<Longrightarrow>
   \<exists>q i. idx = q @ [i] \<and> inBounds q ds \<and> 0 \<le> i \<and> i < d"
  by (cases idx rule: rev_cases) (auto simp: inBounds_def)

lemma next_index_snoc:
  assumes "inBounds q ds" and "0 \<le> i" and "i < d"
  shows "next_index (ds @ [d]) (q @ [i]) =
     (if i + 1 < d then Some (q @ [i + 1])
      else map_option (\<lambda>q. q @ [0]) (next_index ds q))"
proof -
  let ?k = "flat ds q * d + i + 1"
  have flat: "flat (ds @ [d]) (q @ [i]) = flat ds q * d + i"
    using assms inBounds_length [OF assms(1)] by (simp add: flat_append)
  have fb: "0 \<le> flat ds q" "flat ds q < num_elements ds" using flat_bounds [OF assms(1)] by auto
  have sh: "static_shape (ds @ [d])"
    using inBounds_static [OF assms(1)] assms by (simp add: static_shape_def)
  have k0: "0 \<le> ?k" using fb assms by simp
  show ?thesis
  proof (cases "i + 1 < d")
    case True
    have div: "?k div d = flat ds q" "?k mod d = i + 1"
      using True assms by (simp_all add: add.assoc div_mult_self3)
    have "?k < (flat ds q + 1) * d" using True by (simp add: distrib_right)
    also have "\<dots> \<le> num_elements ds * d" using fb assms by (intro mult_right_mono) auto
    finally have lt: "?k < num_elements (ds @ [d])" by (simp add: num_elements_append)
    then show ?thesis
      using True flat unflat_snoc [OF sh k0 lt] div assms
      by (simp add: next_index_def unflat_flat)
  next
    case False
    with assms have i: "i + 1 = d" by simp
    then have k: "?k = (flat ds q + 1) * d" by (simp add: distrib_right add.assoc)
    have iff: "?k < num_elements (ds @ [d]) \<longleftrightarrow> flat ds q + 1 < num_elements ds"
      using assms by (simp only: k) (simp add: num_elements_append)
    have "unflat (ds @ [d]) ?k = unflat ds (flat ds q + 1) @ [0]"
      if lt: "?k < num_elements (ds @ [d])"
      using unflat_snoc [OF sh k0 lt] assms by (simp add: k)
    with iff flat i False show ?thesis by (auto simp: next_index_def)
  qed
qed

lemma incr_loop_append:
  assumes "inBounds p sh" and "p \<noteq> []"
  shows "incr_loop (sh @ t) (p @ z) (length p) = map_option (\<lambda>q. q @ z) (next_index sh p)"
  using assms
proof (induction p arbitrary: sh t z rule: rev_induct)
  case (snoc i q)
  obtain ds d where sh: "sh = ds @ [d]" "inBounds q ds" "0 \<le> i" "i < d"
    using snoc.prems by (cases sh rule: rev_cases) (auto simp: inBounds_def)
  have len: "length q = length ds" using sh(2) by (rule inBounds_length)
  show ?case
  proof (cases "i + 1 < d")
    case True
    then show ?thesis
      using sh len by (simp add: Let_def nth_append next_index_snoc list_update_append)
  next
    case False
    show ?thesis
    proof (cases "q = []")
      case True
      with len have "ds = []" by simp
      with False True sh show ?thesis by (simp add: Let_def next_index_snoc next_index_def)
    next
      case ne: False
      then have "ds \<noteq> []" using len by auto
      moreover
      have "incr_loop (ds @ d # t) (q @ 0 # z) (length q) =
          map_option (\<lambda>p. p @ 0 # z) (next_index ds q)"
        using snoc.IH [OF sh(2) ne, of "d # t" "0 # z"] .
      ultimately show ?thesis using False ne sh len
        by (simp add: Let_def nth_append next_index_snoc list_update_append
            option.map_comp comp_def)
    qed
  qed
qed simp

lemma iter_incr_next:
  assumes "inBounds idx sh"
  shows "iter_incr \<lparr>it_shape = sh, it_index = Some idx\<rparr> =
    Inr \<lparr>it_shape = sh, it_index = next_index sh idx\<rparr>"
proof (cases "sh = []")
  case True
  with assms show ?thesis by (simp add: iter_incr_def next_index_def)
next
  case False
  with assms have "idx \<noteq> []" by auto
  with incr_loop_append [of idx sh "[]" "[]"] assms False show ?thesis
    by (simp add: iter_incr_def inBounds_length option.map_ident)
qed

lemma for_iter_from:
  assumes "static_shape sh" and "0 \<le> k" and "k \<le> num_elements sh"
    and "n = nat (num_elements sh - k)"
  shows "for_iter n body
      \<lparr>it_shape = sh, it_index = (if k < num_elements sh then Some (unflat sh k) else None)\<rparr>
      (index_end sh) s =
    foldM body s (map (unflat sh) [k..num_elements sh - 1])"
  using assms
proof (induction n arbitrary: k s)
  case 0
  then show ?case by (simp add: iter_eq_def index_end_def)
next
  case (Suc n)
  then have k: "k < num_elements sh" by simp
  with Suc.prems have ib: "inBounds (unflat sh k) sh" "flat sh (unflat sh k) = k"
    by (auto intro: unflat_inBounds flat_unflat)
  have "next_index sh (unflat sh k) =
      (if k + 1 < num_elements sh then Some (unflat sh (k + 1)) else None)"
    using ib by (simp add: next_index_def)
  moreover have "[k..num_elements sh - 1] = k # [k + 1..num_elements sh - 1]"
    using k by (simp add: upto_rec1)
  moreover have "n = nat (num_elements sh - (k + 1))" using Suc.prems by linarith
  ultimately show ?case
    using k Suc.prems(1,2,3) Suc.IH [of "k + 1"]
    by (simp add: iter_eq_def index_end_def iter_deref_def iter_incr_next [OF ib(1)])
qed

lemma unflat_0: "static_shape sh \<Longrightarrow> 0 < num_elements sh \<Longrightarrow> unflat sh 0 = replicate (length sh) 0"
proof (induction sh)
  case (Cons d ds)
  then have "0 < num_elements ds" by (cases "num_elements ds = 0") (auto simp: num_elements_pos_iff)
  with Cons show ?case by simp
qed simp

lemma num_elements_0_iff: "num_elements sh = 0 \<longleftrightarrow> 0 \<in> set sh"
  by (simp add: num_elements_def prod_list_zero_iff)

lemma index_begin_static:
  assumes "static_shape sh"
  shows "index_begin sh = Inr \<lparr>it_shape = sh,
    it_index = (if 0 < num_elements sh then Some (unflat sh 0) else None)\<rparr>"
proof (cases "0 \<in> set sh")
  case True
  then show ?thesis
    by (auto simp: index_begin_def list_ex_iff mk_iter_def num_elements_0_iff [symmetric])
next
  case False
  with assms have pos: "0 < num_elements sh"
    using num_elements_nonneg [of sh] num_elements_0_iff [of sh] by linarith
  then have "inBounds (unflat sh 0) sh" using assms by (intro unflat_inBounds) auto
  with False assms pos show ?thesis
    by (auto simp: index_begin_def list_ex_iff mk_iter_def unflat_0)
qed

theorem for_each_index_eq:
  "static_shape sh \<Longrightarrow> for_each_index sh body s = foldM body s (index_space sh)"
  using for_iter_from [of sh 0 "nat (num_elements sh)" body s] num_elements_nonneg [of sh]
  by (simp add: for_each_index_def index_begin_static index_space_def)

lemma index_begin_negative:
  "\<not> static_shape sh \<Longrightarrow> 0 \<notin> set sh \<Longrightarrow> \<exists>msg. index_begin sh = Inl (Fatal msg)"
  by (auto simp: index_begin_def list_ex_iff mk_iter_def require_def dest: inBounds_static)

end
