(* ===== verification/Tensor.thy ===== *)
theory Tensor
  imports ElementLaws IndexSpace
begin

text \<open>
  \<open>stablehlo/reference/Tensor.cpp\<close>: a tensor is a shaped type and a buffer of bytes; \<open>get\<close> and
  \<open>set\<close> compute the byte offset of a multi-dimensional index and decode or encode one element
  there. A byte that was never written is \<open>None\<close>: the buffer of a new tensor is uninitialised,
  and reading it is undefined. Multi-byte elements are stored little-endian, as on the hosts
  the interpreter runs on. Tensors are reference-counted in the code; the evaluators only
  write to tensors they have just created and not yet copied, so a tensor is a value here.
\<close>

section \<open>Bytes\<close>

type_synonym buffer = "int option list"

fun to_le :: "nat \<Rightarrow> int \<Rightarrow> int list" where
  "to_le 0 v = []"
| "to_le (Suc n) v = (v mod 256) # to_le n (v div 256)"

fun from_le :: "int list \<Rightarrow> int" where
  "from_le [] = 0"
| "from_le (b # bs) = b + 256 * from_le bs"

definition load_bytes :: "buffer \<Rightarrow> int \<Rightarrow> nat \<Rightarrow> int list res" where
  "load_bytes buf off n =
     require (0 \<le> off \<and> off + int n \<le> int (length buf)) Undefined
       (mapM (\<lambda>b. case b of None \<Rightarrow> Inl Undefined | Some v \<Rightarrow> Inr v) (take n (drop (nat off) buf)))"

definition load_uint :: "buffer \<Rightarrow> int \<Rightarrow> nat \<Rightarrow> int res" where
  "load_uint buf off n = bnd (load_bytes buf off n) (\<lambda>bs. Inr (from_le bs))"

text \<open>The value of an \<open>int8_t\<close>, \<open>int16_t\<close>, ... read from \<open>n\<close> bytes.\<close>

definition load_sint :: "buffer \<Rightarrow> int \<Rightarrow> nat \<Rightarrow> int res" where
  "load_sint buf off n = bnd (load_uint buf off n)
     (\<lambda>u. Inr (if 2 ^ (8 * n - 1) \<le> u then u - 2 ^ (8 * n) else u))"

definition store_int :: "buffer \<Rightarrow> int \<Rightarrow> nat \<Rightarrow> int \<Rightarrow> buffer res" where
  "store_int buf off n v =
     require (0 \<le> off \<and> off + int n \<le> int (length buf)) Undefined
       (Inr (take (nat off) buf @ map Some (to_le n v) @ drop (nat off + n) buf))"

section \<open>Sizes and offsets\<close>

fun getSizeInBytes :: "ty \<Rightarrow> int res" where
  "getSizeInBytes (RankedTensorType sh et enc) =
     require (static_shape sh) Undefined
       (bnd (getSizeInBytes et) (\<lambda>n. i64 (num_elements sh * n)))"
| "getSizeInBytes (UnrankedTensorType et) = Inl Undefined"
| "getSizeInBytes (IntegerType s w) = Inr (int (max w 8 div 8))"
| "getSizeInBytes (FloatType s) = Inr (int (max (sem_width s) 8 div 8))"
| "getSizeInBytes (ComplexType et) = bnd (getSizeInBytes et) (\<lambda>n. i64 (n * 2))"
| "getSizeInBytes _ = Inl (Fatal ''Unsupported type'')"

text \<open>The strides of a shape, computed from the last axis to the first.\<close>

fun mk_strides :: "sizes \<Rightarrow> sizes res" where
  "mk_strides [] = Inr []"
| "mk_strides [d] = Inr [1]"
| "mk_strides (d # e # ds) =
     bnd (mk_strides (e # ds)) (\<lambda>strides. bnd (i64 (hd strides * e)) (\<lambda>s. Inr (s # strides)))"

definition flattenIndex :: "sizes \<Rightarrow> sizes \<Rightarrow> int res" where
  "flattenIndex shape index =
     require (inBounds index shape)
       (Fatal ''Incompatible index and shape found while flattening index'')
       (if shape = [] then Inr 0
        else bnd (mk_strides shape) (\<lambda>strides.
          foldM (\<lambda>idx (s, i). bnd (i64 (s * i)) (\<lambda>p. i64 (idx + p))) 0 (zip strides index)))"

section \<open>Tensors\<close>

record tensor =
  t_type :: ty
  t_data :: buffer

definition new_tensor :: "ty \<Rightarrow> tensor res" where
  "new_tensor type = bnd (getSizeInBytes type)
     (\<lambda>n. Inr \<lparr>t_type = type, t_data = replicate (nat n) None\<rparr>)"

abbreviation t_shape :: "tensor \<Rightarrow> sizes" where
  "t_shape t \<equiv> shape_of (t_type t)"

abbreviation t_elem :: "tensor \<Rightarrow> ty" where
  "t_elem t \<equiv> element_type (t_type t)"

definition read_element :: "ty \<Rightarrow> buffer \<Rightarrow> int \<Rightarrow> element res" where
  "read_element et buf p =
     (case et of
        FloatType s \<Rightarrow>
          if isSupportedFloatType et then
            bnd (load_uint buf p (sem_width s div 8)) (\<lambda>u. mk_float et (fl_of_bits s u))
          else Inl unsupported_element
      | IntegerType s w \<Rightarrow>
          if isSupportedIntegerType et then
            (if isSignlessInteger et 4 \<or> isSignlessInteger et 8
             then bnd (load_sint buf p 1) (\<lambda>v. mk_int et (mk_apint w v))
             else if isSignlessInteger et 16
             then bnd (load_sint buf p 2) (\<lambda>v. mk_int et (mk_apint w v))
             else if isSignlessInteger et 32
             then bnd (load_sint buf p 4) (\<lambda>v. mk_int et (mk_apint w v))
             else if isSignlessInteger et 64
             then bnd (load_sint buf p 8) (\<lambda>v. mk_int et (mk_apint w v))
             else if isUnsignedInteger et 4 \<or> isUnsignedInteger et 8
             then bnd (load_uint buf p 1) (\<lambda>v. mk_int et (mk_apint w v))
             else if isUnsignedInteger et 16
             then bnd (load_uint buf p 2) (\<lambda>v. mk_int et (mk_apint w v))
             else if isUnsignedInteger et 32
             then bnd (load_uint buf p 4) (\<lambda>v. mk_int et (mk_apint w v))
             else bnd (load_uint buf p 8) (\<lambda>v. mk_int et (mk_apint w v)))
          else if isSupportedBooleanType et then
            bnd (load_uint buf p 1) (\<lambda>v.
              if v = 0 then mk_bool et False
              else if v = 1 then mk_bool et True
              else Inl (Fatal ''Unsupported boolean value''))
          else Inl unsupported_element
      | ComplexType ct \<Rightarrow>
          if ct = FloatType F32 then
            bnd (load_uint buf p 4) (\<lambda>re. bnd (load_uint buf (p + 4) 4) (\<lambda>im.
              mk_complex et (fl_of_bits F32 re, fl_of_bits F32 im)))
          else if ct = FloatType F64 then
            bnd (load_uint buf p 8) (\<lambda>re. bnd (load_uint buf (p + 8) 8) (\<lambda>im.
              mk_complex et (fl_of_bits F64 re, fl_of_bits F64 im)))
          else Inl unsupported_element
      | _ \<Rightarrow> Inl unsupported_element)"

definition write_element :: "lib \<Rightarrow> ty \<Rightarrow> buffer \<Rightarrow> int \<Rightarrow> element \<Rightarrow> buffer res" where
  "write_element L et buf p e =
     (case et of
        FloatType s \<Rightarrow>
          if s \<in> {F8E4M3B11FNUZ, F8E4M3FN, F8E4M3FNUZ, F8E5M2, F8E5M2FNUZ} then
            bnd (getFloatValue e) (\<lambda>v. store_int buf p 1 (fl_bits v))
          else if s = F16 \<or> s = BF16 then
            bnd (getFloatValue e) (\<lambda>v. store_int buf p 2 (fl_bits v))
          else if s = F32 then
            bnd (getFloatValue e) (\<lambda>v. store_int buf p 4 (uint (fl_to_single L v)))
          else if s = F64 then
            bnd (getFloatValue e) (\<lambda>v. store_int buf p 8 (uint (fl_to_double L v)))
          else Inl unsupported_element
      | IntegerType s w \<Rightarrow>
          if isSignlessInteger et 4 \<or> isSignlessInteger et 8 then
            bnd (getIntegerValue e) (\<lambda>v. store_int buf p 1 (sval v))
          else if isSignlessInteger et 16 then
            bnd (getIntegerValue e) (\<lambda>v. store_int buf p 2 (sval v))
          else if isSignlessInteger et 32 then
            bnd (getIntegerValue e) (\<lambda>v. store_int buf p 4 (sval v))
          else if isSignlessInteger et 64 then
            bnd (getIntegerValue e) (\<lambda>v. store_int buf p 8 (sval v))
          else if isUnsignedInteger et 4 \<or> isUnsignedInteger et 8 then
            bnd (getIntegerValue e) (\<lambda>v. store_int buf p 1 (uval v))
          else if isUnsignedInteger et 16 then
            bnd (getIntegerValue e) (\<lambda>v. store_int buf p 2 (uval v))
          else if isUnsignedInteger et 32 then
            bnd (getIntegerValue e) (\<lambda>v. store_int buf p 4 (uval v))
          else if isUnsignedInteger et 64 then
            bnd (getIntegerValue e) (\<lambda>v. store_int buf p 8 (uval v))
          else if isSupportedBooleanType et then
            bnd (getBooleanValue e) (\<lambda>v. store_int buf p 1 (if v then 1 else 0))
          else Inl unsupported_element
      | ComplexType ct \<Rightarrow>
          bnd (getComplexValue e) (\<lambda>(re, im).
            if ct = FloatType F32 then
              bnd (store_int buf p 4 (uint (fl_to_single L re))) (\<lambda>buf'.
                store_int buf' (p + 4) 4 (uint (fl_to_single L im)))
            else if ct = FloatType F64 then
              bnd (store_int buf p 8 (uint (fl_to_double L re))) (\<lambda>buf'.
                store_int buf' (p + 8) 8 (uint (fl_to_double L im)))
            else Inl unsupported_element)
      | _ \<Rightarrow> Inl unsupported_element)"

definition element_offset :: "tensor \<Rightarrow> sizes \<Rightarrow> int res" where
  "element_offset t index =
     bnd (getSizeInBytes (t_elem t)) (\<lambda>n. bnd (flattenIndex (t_shape t) index) (\<lambda>k. i64 (n * k)))"

definition tensor_get :: "tensor \<Rightarrow> sizes \<Rightarrow> element res" where
  "tensor_get t index = bnd (element_offset t index) (read_element (t_elem t) (t_data t))"

definition tensor_set :: "lib \<Rightarrow> tensor \<Rightarrow> sizes \<Rightarrow> element \<Rightarrow> tensor res" where
  "tensor_set L t index e =
     bnd (element_offset t index) (\<lambda>p.
     bnd (write_element L (t_elem t) (t_data t) p e) (\<lambda>buf. Inr (t\<lparr>t_data := buf\<rparr>)))"

text \<open>The loop shared by most evaluators: a new tensor, every element of it set in index order.\<close>

definition fill :: "lib \<Rightarrow> tensor \<Rightarrow> (sizes \<Rightarrow> element res) \<Rightarrow> tensor res" where
  "fill L result f =
     for_each_index (t_shape result) (\<lambda>result idx. bnd (f idx) (tensor_set L result idx)) result"

definition compute :: "lib \<Rightarrow> ty \<Rightarrow> (sizes \<Rightarrow> element res) \<Rightarrow> tensor res" where
  "compute L resultType f = bnd (new_tensor resultType) (\<lambda>result. fill L result f)"

definition filled_tensor :: "lib \<Rightarrow> ty \<Rightarrow> element \<Rightarrow> tensor res" where
  "filled_tensor L type initValue =
     bnd (new_tensor type) (\<lambda>t. for_each_index (shape_of type) (\<lambda>t idx. tensor_set L t idx initValue) t)"

section \<open>Tensors from attributes\<close>

text \<open>
  A \<open>DenseElementsAttr\<close>: its type and its values in row-major order, as \<open>getValues\<close> returns
  them (a splat repeated for every element).
\<close>

record dense_attr =
  d_type :: ty
  d_values :: "elval list"

definition attr_int :: "elval \<Rightarrow> apint res" where
  "attr_int v = (case v of IntV i \<Rightarrow> Inr i | _ \<Rightarrow> Inl Undefined)"
definition attr_bool :: "elval \<Rightarrow> bool res" where
  "attr_bool v = (case v of BoolV b \<Rightarrow> Inr b | _ \<Rightarrow> Inl Undefined)"
definition attr_float :: "elval \<Rightarrow> apfloat res" where
  "attr_float v = (case v of FloatV f \<Rightarrow> Inr f | _ \<Rightarrow> Inl Undefined)"
definition attr_complex :: "elval \<Rightarrow> (apfloat \<times> apfloat) res" where
  "attr_complex v = (case v of ComplexV re im \<Rightarrow> Inr (re, im) | _ \<Rightarrow> Inl Undefined)"

definition blob :: "('a \<Rightarrow> 'b res) \<Rightarrow> ('b \<Rightarrow> int list) \<Rightarrow> 'a list \<Rightarrow> buffer res" where
  "blob getv enc values = bnd (mapM getv values) (\<lambda>vs. Inr (concat (map (\<lambda>v. map Some (enc v)) vs)))"

definition attr_blob :: "lib \<Rightarrow> ty \<Rightarrow> elval list \<Rightarrow> buffer res" where
  "attr_blob L et values =
     (case et of
        FloatType s \<Rightarrow>
          if s \<in> {F8E4M3B11FNUZ, F8E4M3FN, F8E4M3FNUZ, F8E5M2, F8E5M2FNUZ} then
            blob attr_float (\<lambda>v. to_le 1 (fl_bits v)) values
          else if s = F16 \<or> s = BF16 then blob attr_float (\<lambda>v. to_le 2 (fl_bits v)) values
          else if s = F32 then blob attr_float (\<lambda>v. to_le 4 (uint (fl_to_single L v))) values
          else if s = F64 then blob attr_float (\<lambda>v. to_le 8 (uint (fl_to_double L v))) values
          else Inl unsupported_element
      | IntegerType s w \<Rightarrow>
          if isSignlessInteger et 4 \<or> isSignlessInteger et 8 then blob attr_int (\<lambda>v. to_le 1 (sval v)) values
          else if isSignlessInteger et 16 then blob attr_int (\<lambda>v. to_le 2 (sval v)) values
          else if isSignlessInteger et 32 then blob attr_int (\<lambda>v. to_le 4 (sval v)) values
          else if isSignlessInteger et 64 then blob attr_int (\<lambda>v. to_le 8 (sval v)) values
          else if isUnsignedInteger et 4 \<or> isUnsignedInteger et 8 then blob attr_int (\<lambda>v. to_le 1 (uval v)) values
          else if isUnsignedInteger et 16 then blob attr_int (\<lambda>v. to_le 2 (uval v)) values
          else if isUnsignedInteger et 32 then blob attr_int (\<lambda>v. to_le 4 (uval v)) values
          else if isUnsignedInteger et 64 then blob attr_int (\<lambda>v. to_le 8 (uval v)) values
          else if isSupportedBooleanType et then blob attr_bool (\<lambda>v. to_le 1 (if v then 1 else 0)) values
          else Inl unsupported_element
      | ComplexType ct \<Rightarrow>
          if ct = FloatType F32 then
            blob attr_complex (\<lambda>(re, im). to_le 4 (uint (fl_to_single L re)) @ to_le 4 (uint (fl_to_single L im))) values
          else if ct = FloatType F64 then
            blob attr_complex (\<lambda>(re, im). to_le 8 (uint (fl_to_double L re)) @ to_le 8 (uint (fl_to_double L im))) values
          else Inl unsupported_element
      | _ \<Rightarrow> Inl unsupported_element)"

definition makeTensor :: "lib \<Rightarrow> dense_attr \<Rightarrow> tensor res" where
  "makeTensor L attr =
     bnd (attr_blob L (element_type (d_type attr)) (d_values attr)) (\<lambda>buf.
       Inr \<lparr>t_type = d_type attr, t_data = buf\<rparr>)"

end
