(* ===== verification/TensorLaws.thy ===== *)
theory TensorLaws
  imports Tensor
begin

text \<open>
  The contract of the tensor store. \<open>flattenIndex\<close> computes the row-major position without
  overflow; an element that is written is read bk, and no other element changes. The
  contract is stated as a locale \<open>element_store\<close> over \<open>get\<close> and \<open>set\<close>, whose lemmas give the
  result of the loops that fill a tensor; its interpretation on the byte-level tensors
  discharges the laws.
\<close>

section \<open>Flat positions\<close>

fun strides_of :: "sizes \<Rightarrow> sizes" where
  "strides_of [] = []"
| "strides_of (d # ds) = num_elements ds # strides_of ds"

lemma num_elements_pos_all: "(\<forall>d \<in> set sh. 0 < d) \<Longrightarrow> 0 < num_elements sh"
  by (induction sh) auto

lemma num_elements_tl_le: "(\<forall>d \<in> set (d # ds). 0 < d) \<Longrightarrow> num_elements ds \<le> num_elements (d # ds)"
  using num_elements_pos_all [of ds] mult_right_mono [of 1 d "num_elements ds"] by simp

lemma mk_strides_eq:
  "(\<forall>d \<in> set sh. 0 < d) \<Longrightarrow> i64_ok (num_elements sh) \<Longrightarrow> mk_strides sh = Inr (strides_of sh)"
proof (induction sh rule: mk_strides.induct)
  case (3 d e ds)
  have le: "num_elements (e # ds) \<le> num_elements (d # e # ds)"
    by (rule num_elements_tl_le) (use "3.prems" in simp)
  have "0 < num_elements (e # ds)" by (rule num_elements_pos_all) (use "3.prems" in simp)
  with le "3.prems"(2) have ok: "i64_ok (num_elements (e # ds))"
    by (simp add: i64_ok_def)
  have "mk_strides (e # ds) = Inr (strides_of (e # ds))"
    by (rule "3.IH" [OF _ ok]) (use "3.prems" in simp)
  with ok show ?case by (simp add: i64_in mult.commute)
qed simp_all

lemma flatten_sum:
  assumes "inBounds idx sh" and "0 \<le> acc" and "i64_ok (acc + flat sh idx)"
  shows "foldM (\<lambda>idx (s, i). bnd (i64 (s * i)) (\<lambda>p. i64 (idx + p))) acc (zip (strides_of sh) idx) =
    Inr (acc + flat sh idx)"
  using assms
proof (induction sh arbitrary: idx acc)
  case (Cons d ds)
  then obtain i js where idx: "idx = i # js" "0 \<le> i" "i < d" "inBounds js ds" by (cases idx) auto
  have nn: "0 \<le> num_elements ds * i"
    using idx inBounds_static [OF idx(4)] by (intro mult_nonneg_nonneg) auto
  have fl: "0 \<le> flat ds js" using flat_bounds [OF idx(4)] by simp
  have tot: "acc + flat (d # ds) idx = (acc + num_elements ds * i) + flat ds js"
    using idx by (simp add: mult.commute)
  have ok: "i64_ok (acc + num_elements ds * i)" "i64_ok (num_elements ds * i)"
    using Cons.prems(2,3) nn fl unfolding tot by (auto simp: i64_ok_def)
  have "foldM (\<lambda>idx (s, i). bnd (i64 (s * i)) (\<lambda>p. i64 (idx + p))) (acc + num_elements ds * i)
      (zip (strides_of ds) js) = Inr ((acc + num_elements ds * i) + flat ds js)"
    using Cons.prems nn unfolding tot by (intro Cons.IH idx(4)) simp_all
  with idx ok show ?case by (simp add: i64_in mult.commute add.assoc)
qed simp

lemma flattenIndex_eq:
  assumes "inBounds idx sh" and "i64_ok (num_elements sh)"
  shows "flattenIndex sh idx = Inr (flat sh idx)"
proof -
  have pos: "\<forall>d \<in> set sh. 0 < d"
    using assms(1) by (fastforce simp: inBounds_nth_iff in_set_conv_nth)
  have fb: "0 \<le> flat sh idx" "flat sh idx < num_elements sh" using flat_bounds [OF assms(1)] by auto
  then have "i64_ok (flat sh idx)" using assms(2) by (auto simp: i64_ok_def)
  with flatten_sum [OF assms(1), of 0] show ?thesis
    using assms pos by (cases "sh = []") (simp_all add: flattenIndex_def mk_strides_eq)
qed

lemma flattenIndex_out: "\<not> inBounds idx sh \<Longrightarrow> fails (flattenIndex sh idx)"
  by (simp add: flattenIndex_def)

section \<open>Bytes\<close>

lemma length_to_le [simp]: "length (to_le n v) = n"
  by (induction n arbitrary: v) auto

lemma from_to_le: "from_le (to_le n v) = v mod 2 ^ (8 * n)"
proof (induction n arbitrary: v)
  case (Suc n)
  have "v mod 2 ^ (8 * Suc n) = v mod (256 * 2 ^ (8 * n))" by (simp add: power_add)
  also have "\<dots> = 256 * (v div 256 mod 2 ^ (8 * n)) + v mod 256"
    by (simp add: zmod_zmult2_eq)
  finally show ?case using Suc by simp
qed simp

lemma signed_bytes:
  fixes v :: int
  assumes "- (2 ^ (8 * n - 1)) \<le> v" and "v < 2 ^ (8 * n - 1)" and "0 < n"
  shows "(if 2 ^ (8 * n - 1) \<le> v mod 2 ^ (8 * n) then v mod 2 ^ (8 * n) - 2 ^ (8 * n)
          else v mod 2 ^ (8 * n)) = v"
  using sval_mk_in [of "8 * n" v] assms unfolding sval_def ap_width_mk uval_mk by simp

definition splice :: "buffer \<Rightarrow> int \<Rightarrow> int list \<Rightarrow> buffer" where
  "splice buf p bs = take (nat p) buf @ map Some bs @ drop (nat p + length bs) buf"

definition in_buffer :: "buffer \<Rightarrow> int \<Rightarrow> nat \<Rightarrow> bool" where
  "in_buffer buf p n \<longleftrightarrow> 0 \<le> p \<and> p + int n \<le> int (length buf)"

lemma length_splice [simp]: "in_buffer buf p (length bs) \<Longrightarrow> length (splice buf p bs) = length buf"
  by (auto simp: splice_def in_buffer_def)

lemma store_int_eq:
  "store_int buf p n v = (if in_buffer buf p n then Inr (splice buf p (to_le n v)) else Inl Undefined)"
  by (simp add: store_int_def in_buffer_def splice_def require_def)

lemma splice_nth:
  assumes "in_buffer buf p (length bs)" and "k < length buf"
  shows "splice buf p bs ! k =
    (if nat p \<le> k \<and> k < nat p + length bs then Some (bs ! (k - nat p)) else buf ! k)"
  using assms by (auto simp: splice_def in_buffer_def nth_append min_def)

lemma splice_append:
  assumes "in_buffer buf p (length (a @ b))"
  shows "splice buf p (a @ b) = splice (splice buf p a) (p + int (length a)) b"
proof (rule nth_equalityI)
  have ib: "in_buffer buf p (length a)" "in_buffer (splice buf p a) (p + int (length a)) (length b)"
    using assms by (auto simp: in_buffer_def splice_def)
  then show "length (splice buf p (a @ b)) = length (splice (splice buf p a) (p + int (length a)) b)"
    using assms by (simp only: length_splice)
  fix k assume "k < length (splice buf p (a @ b))"
  then have k: "k < length buf" using assms by (simp only: length_splice)
  have "nat (p + int (length a)) = nat p + length a" using ib by (auto simp: in_buffer_def)
  with k ib assms show "splice buf p (a @ b) ! k = splice (splice buf p a) (p + int (length a)) b ! k"
    by (simp only: splice_nth length_splice) (auto simp: nth_append)
qed

lemma load_bytes_splice_same:
  assumes "in_buffer buf p (length bs)"
  shows "load_bytes (splice buf p bs) p (length bs) = Inr bs"
proof -
  have "nat p \<le> length buf" using assms by (auto simp: in_buffer_def)
  then have "take (length bs) (drop (nat p) (splice buf p bs)) = map Some bs"
    by (simp add: splice_def)
  moreover have "mapM (\<lambda>b. case b of None \<Rightarrow> Inl Undefined | Some v \<Rightarrow> Inr v) (map Some bs) = Inr bs"
    by (induction bs) auto
  ultimately show ?thesis
    using assms length_splice [OF assms] by (simp add: load_bytes_def in_buffer_def)
qed

lemma load_bytes_splice_other:
  assumes "in_buffer buf p (length bs)" and "0 \<le> q"
    and "q + int n \<le> p \<or> p + int (length bs) \<le> q"
  shows "load_bytes (splice buf p bs) q n = load_bytes buf q n"
proof -
  have "take n (drop (nat q) (splice buf p bs)) = take n (drop (nat q) buf)"
  proof (rule nth_equalityI)
    show "length (take n (drop (nat q) (splice buf p bs))) = length (take n (drop (nat q) buf))"
      using assms(1) by simp
    fix k assume "k < length (take n (drop (nat q) (splice buf p bs)))"
    then have k: "k < n" "nat q + k < length buf" using assms(1) by auto
    have "\<not> (nat p \<le> nat q + k \<and> nat q + k < nat p + length bs)"
      using assms k by (auto simp: in_buffer_def)
    with k assms(1) show "take n (drop (nat q) (splice buf p bs)) ! k = take n (drop (nat q) buf) ! k"
      by (auto simp: splice_nth)
  qed
  then show ?thesis using assms(1) by (simp add: load_bytes_def)
qed

lemma mapM_append:
  "mapM f (xs @ ys) = bnd (mapM f xs) (\<lambda>a. bnd (mapM f ys) (\<lambda>b. Inr (a @ b)))"
  by (induction xs) (auto simp: bnd_assoc)

lemma load_bytes_error: "load_bytes buf p n = Inl e \<Longrightarrow> e = Undefined"
  by (auto simp: load_bytes_def require_def split: if_splits option.splits dest!: mapM_eq_Inl)

lemma load_bytes_length: "load_bytes buf p n = Inr bs \<Longrightarrow> length bs = n"
  by (auto simp: load_bytes_def require_eq_Inr dest!: mapM_length)

lemma load_bytes_append:
  "bnd (load_bytes buf p m) (\<lambda>a. bnd (load_bytes buf (p + int m) n) (\<lambda>b. f (a @ b))) =
   bnd (load_bytes buf p (m + n)) f"
proof (cases "0 \<le> p \<and> p + int (m + n) \<le> int (length buf)")
  case True
  let ?r = "\<lambda>b. case b of None \<Rightarrow> Inl Undefined | Some v \<Rightarrow> Inr v"
  have "take (m + n) (drop (nat p) buf) =
      take m (drop (nat p) buf) @ take n (drop (nat (p + int m)) buf)"
    using True by (simp add: take_add nat_add_distrib add.commute)
  with True show ?thesis by (simp add: load_bytes_def mapM_append bnd_assoc)
next
  case False
  then have "load_bytes buf p (m + n) = Inl Undefined" by (auto simp: load_bytes_def require_def)
  moreover have "bnd (load_bytes buf p m) (\<lambda>a. bnd (load_bytes buf (p + int m) n) (\<lambda>b. f (a @ b))) = Inl Undefined"
  proof (cases "load_bytes buf p m")
    case (Inl e)
    then show ?thesis using load_bytes_error by auto
  next
    case (Inr a)
    then have "0 \<le> p" by (simp add: load_bytes_def require_eq_Inr)
    with False Inr show ?thesis by (simp add: load_bytes_def require_def)
  qed
  ultimately show ?thesis by simp
qed

section \<open>Encoding of elements\<close>

fun et_bytes :: "ty \<Rightarrow> nat" where
  "et_bytes (IntegerType s w) = max w 8 div 8"
| "et_bytes (FloatType s) = sem_width s div 8"
| "et_bytes (ComplexType et) = 2 * et_bytes et"
| "et_bytes _ = 0"

lemma supported_element_type_cases:
  assumes "supported_element_type et"
  obtains (int) s w where "et = IntegerType s w" "s \<noteq> Signed" "w \<in> {4, 8, 16, 32, 64}"
  | (bool) "et = IntegerType Signless 1"
  | (float) s where "et = FloatType s" "isSupportedFloatType et"
  | (complex) s where "et = ComplexType (FloatType s)" "s = F32 \<or> s = F64"
  using assms unfolding supported_element_type_def
  by (auto simp: isSupportedIntegerType_cases isSupportedBooleanType_iff
      elim!: isSupportedFloatType.elims isSupportedComplexType.elims)

lemma sem_width_max [simp]: "max (sem_width s) 8 = sem_width s"
  by (cases s) simp_all

lemma et_bytes_size:
  "supported_element_type et \<Longrightarrow> getSizeInBytes et = Inr (int (et_bytes et)) \<and> 1 \<le> et_bytes et"
  by (erule supported_element_type_cases) (auto simp: i64_def i64_ok_def)

definition encode :: "element \<Rightarrow> int list" where
  "encode e = (case e_val e of
     IntV v \<Rightarrow> to_le (et_bytes (e_type e)) (int_value (e_type e) v)
   | BoolV b \<Rightarrow> to_le 1 (if b then 1 else 0)
   | FloatV f \<Rightarrow> to_le (et_bytes (e_type e)) (fl_bits f)
   | ComplexV re im \<Rightarrow> (let k = et_bytes (complex_element_type (e_type e)) in
       to_le k (fl_bits re) @ to_le k (fl_bits im)))"

definition decode :: "ty \<Rightarrow> int list \<Rightarrow> element res" where
  "decode et bs =
     (case et of
        FloatType s \<Rightarrow> mk_float et (fl_of_bits s (from_le bs))
      | IntegerType s w \<Rightarrow>
          if isSupportedIntegerType et then
            (let u = from_le bs; n = et_bytes et in
             mk_int et (mk_apint w (if isSupportedSignedIntegerType et \<and> 2 ^ (8 * n - 1) \<le> u
                                    then u - 2 ^ (8 * n) else u)))
          else (if from_le bs = 0 then mk_bool et False
                else if from_le bs = 1 then mk_bool et True
                else Inl (Fatal ''Unsupported boolean value''))
      | ComplexType ct \<Rightarrow>
          (let k = et_bytes ct; s = (if ct = FloatType F32 then F32 else F64) in
           mk_complex et (fl_of_bits s (from_le (take k bs)), fl_of_bits s (from_le (drop k bs))))
      | _ \<Rightarrow> Inl unsupported_element)"

lemma load_uint_bnd: "bnd (load_uint buf p n) f = bnd (load_bytes buf p n) (\<lambda>bs. f (from_le bs))"
  by (simp add: load_uint_def bnd_assoc)

lemma load_sint_bnd:
  "bnd (load_sint buf p n) f = bnd (load_bytes buf p n)
     (\<lambda>bs. f (if 2 ^ (8 * n - 1) \<le> from_le bs then from_le bs - 2 ^ (8 * n) else from_le bs))"
  by (simp add: load_sint_def load_uint_def bnd_assoc)

lemma load_bytes_halves:
  "bnd (load_bytes buf p k) (\<lambda>a. bnd (load_bytes buf (p + int k) k) (\<lambda>b. f (from_le a) (from_le b))) =
   bnd (load_bytes buf p (2 * k)) (\<lambda>bs. f (from_le (take k bs)) (from_le (drop k bs)))"
proof -
  have "bnd (load_bytes buf p k) (\<lambda>a. bnd (load_bytes buf (p + int k) k) (\<lambda>b. f (from_le a) (from_le b))) =
      bnd (load_bytes buf p k) (\<lambda>a. bnd (load_bytes buf (p + int k) k)
        (\<lambda>b. f (from_le (take k (a @ b))) (from_le (drop k (a @ b)))))"
    by (intro bnd_cong refl) (simp add: load_bytes_length)
  also have "\<dots> = bnd (load_bytes buf p (k + k)) (\<lambda>bs. f (from_le (take k bs)) (from_le (drop k bs)))"
    by (rule load_bytes_append)
  finally show ?thesis by (simp add: mult_2)
qed

lemma signless_supported: "isSupportedSignedIntegerType (IntegerType s w) \<longleftrightarrow> s = Signless \<and> w \<in> {4, 8, 16, 32, 64}"
  by (cases s) (auto simp: isSupportedSignedIntegerType_def isSignlessInteger_iff)

lemma read_element_eq:
  assumes "supported_element_type et"
  shows "read_element et buf p = bnd (load_bytes buf p (et_bytes et)) (decode et)"
  using assms
proof (cases rule: supported_element_type_cases)
  case (int s w)
  then have "isSupportedIntegerType et" by (auto simp: isSupportedIntegerType_cases)
  with int show ?thesis
    by (cases s)
      (auto simp: read_element_def decode_def [abs_def] isSignlessInteger_iff isUnsignedInteger_iff
        load_uint_bnd load_sint_bnd signless_supported Let_def cong: if_cong)
next
  case bool
  then show ?thesis
    by (simp add: read_element_def decode_def [abs_def] load_uint_bnd isSupportedBooleanType_iff
        isSupportedIntegerType_cases)
next
  case (float s)
  then show ?thesis by (simp add: read_element_def decode_def [abs_def] load_uint_bnd)
next
  case (complex s)
  let ?mk = "\<lambda>k a b. mk_complex et (fl_of_bits s a, fl_of_bits s b)"
  from complex load_bytes_halves [of buf p "et_bytes (FloatType s)" "?mk s"] show ?thesis
    by (auto simp: read_element_def decode_def [abs_def] load_uint_bnd Let_def)
qed

lemma to_le_mod: "to_le n (v mod 2 ^ (8 * n)) = to_le n v"
proof (induction n arbitrary: v)
  case (Suc n)
  have "v mod 2 ^ (8 * Suc n) = v mod (256 * 2 ^ (8 * n))" by (simp add: power_add)
  also have "\<dots> = 256 * (v div 256 mod 2 ^ (8 * n)) + v mod 256"
    by (simp add: zmod_zmult2_eq)
  finally show ?case using Suc.IH [of "v div 256"] by simp
qed simp

lemma int_value_uval_mod: "w \<le> n \<Longrightarrow> ap_width v = w \<Longrightarrow> int_value t v mod 2 ^ w = uval v mod 2 ^ w"
  by (simp add: int_value_def sval_def)

lemma decode_encode:
  assumes "elem_ok et e"
  shows "decode et (encode e) = Inr e"
proof -
  have et: "e_type e = et" and wf: "wf_element e" using assms by (simp_all add: elem_ok_def)
  show ?thesis
  proof (cases "e_val e")
    case (IntV v)
    with wf et have t: "int_typed et v" by (simp add: wf_element_def int_typed_def)
    then obtain s w where sw: "et = IntegerType s w" "s \<noteq> Signed" "w \<in> {4, 8, 16, 32, 64}"
      by (auto simp: int_typed_def isSupportedIntegerType_cases)
    let ?n = "et_bytes et"
    have w: "ap_width v = w" "0 < w" "w \<le> 8 * ?n" "wf_apint v" "0 < ?n"
      using t sw by (auto simp: int_typed_def)
    have e: "e = int_element et v" using IntV et by (simp add: int_element_def)
    have dec: "decode et (encode e) = mk_int et (mk_apint w (if isSupportedSignedIntegerType et \<and>
        2 ^ (8 * ?n - 1) \<le> int_value et v mod 2 ^ (8 * ?n)
        then int_value et v mod 2 ^ (8 * ?n) - 2 ^ (8 * ?n) else int_value et v mod 2 ^ (8 * ?n)))"
      using t IntV et sw(1)
      by (simp only: decode_def encode_def ty.case elval.case from_to_le Let_def int_typed_def simp_thms if_True)
    have bk: "mk_int et v = Inr e" using t e by (simp add: int_typed_def mk_int_int)
    show ?thesis
    proof (cases "isSupportedSignedIntegerType et")
      case True
      have r: "- (2 ^ (w - 1)) \<le> sval v" "sval v < 2 ^ (w - 1)" using sval_range [OF w(4)] w(1) by auto
      have "(2::int) ^ (w - 1) \<le> 2 ^ (8 * ?n - 1)" using w by (intro power_increasing) auto
      with r have "- (2 ^ (8 * ?n - 1)) \<le> sval v" "sval v < 2 ^ (8 * ?n - 1)" by linarith+
      then have sb: "(if isSupportedSignedIntegerType et \<and>
          2 ^ (8 * ?n - 1) \<le> int_value et v mod 2 ^ (8 * ?n)
          then int_value et v mod 2 ^ (8 * ?n) - 2 ^ (8 * ?n) else int_value et v mod 2 ^ (8 * ?n)) = sval v"
        using signed_bytes [OF _ _ w(5), of "sval v"] True by (simp only: int_value_def simp_thms if_True)
      show ?thesis unfolding dec sb using bk w(1) mk_apint_sval [OF w(4)] by simp
    next
      case False
      have "(2::int) ^ w \<le> 2 ^ (8 * ?n)" using w by (intro power_increasing) auto
      moreover have r: "0 \<le> uval v" "uval v < 2 ^ w" using w by (simp_all add: wf_apint_def)
      ultimately have "uval v mod 2 ^ (8 * ?n) = uval v" by (intro mod_pos_pos_trivial) linarith+
      with False bk w mk_apint_uval [OF w(4)] show ?thesis
        unfolding dec by (simp add: int_value_def)
    qed
  next
    case (BoolV b)
    with wf et have "et = IntegerType Signless 1" "\<not> isSupportedIntegerType et"
      by (auto simp: wf_element_def isSupportedBooleanType_iff isSupportedIntegerType_cases)
    with BoolV et show ?thesis
      by (cases e) (simp add: decode_def encode_def mk_bool_def isSupportedBooleanType_iff)
  next
    case (FloatV f)
    with wf et obtain s where s: "et = FloatType s" "s = fl_sem f" "isSupportedFloatType et"
      by (cases et) (auto simp: wf_element_def)
    have "fl_bits f mod 2 ^ (8 * (sem_width s div 8)) = fl_bits f"
      using fl_bits_range [of f] s by (cases s) auto
    with FloatV et s show ?thesis
      by (cases e) (simp add: decode_def encode_def mk_float_def from_to_le)
  next
    case (ComplexV re im)
    with wf et obtain s where s: "et = ComplexType (FloatType s)" "s = F32 \<or> s = F64"
      "fl_sem re = s" "fl_sem im = s"
      by (auto simp: wf_element_def elim!: isSupportedComplexType.elims)
    have "fl_bits re mod 2 ^ (8 * (sem_width s div 8)) = fl_bits re"
      "fl_bits im mod 2 ^ (8 * (sem_width s div 8)) = fl_bits im"
      using fl_bits_range [of re] fl_bits_range [of im] s by auto
    moreover have "fl_of_bits s (fl_bits re) = re" "fl_of_bits s (fl_bits im) = im"
      using fl_of_bits_bits [of re] fl_of_bits_bits [of im] s(3,4) by (simp_all only:)
    ultimately show ?thesis using ComplexV et s(1,2)
      by (cases e; elim disjE)
        (simp_all add: decode_def encode_def mk_complex_def from_to_le Let_def del: fl_of_bits.simps)
  qed
qed

lemma length_encode: "elem_ok et e \<Longrightarrow> length (encode e) = et_bytes et"
  by (auto simp: elem_ok_def wf_element_def encode_def Let_def isSupportedBooleanType_iff
      split: elval.splits elim!: isSupportedComplexType.elims)

lemma to_le_cong: "v mod 2 ^ (8 * n) = w mod 2 ^ (8 * n) \<Longrightarrow> to_le n v = to_le n w"
  by (metis to_le_mod)

lemma store_two:
  "bnd (store_int buf p m v) (\<lambda>buf'. store_int buf' (p + int m) n w) =
   (if in_buffer buf p (m + n) then Inr (splice buf p (to_le m v @ to_le n w)) else Inl Undefined)"
proof (cases "in_buffer buf p m")
  case True
  then have l: "length (splice buf p (to_le m v)) = length buf" by simp
  from True have "in_buffer (splice buf p (to_le m v)) (p + int m) n \<longleftrightarrow> in_buffer buf p (m + n)"
    unfolding in_buffer_def l by auto
  with True splice_append [of buf p "to_le m v" "to_le n w"] show ?thesis
    by (simp add: store_int_eq)
next
  case False
  then have "\<not> in_buffer buf p (m + n)" by (auto simp: in_buffer_def)
  with False show ?thesis by (simp add: store_int_eq)
qed

lemma lib_ok_single: "lib_ok L \<Longrightarrow> fl_sem f = F32 \<Longrightarrow> uint (fl_to_single L f) = fl_bits f"
  by (cases f) (simp_all add: lib_ok_def)

lemma lib_ok_double: "lib_ok L \<Longrightarrow> fl_sem f = F64 \<Longrightarrow> uint (fl_to_double L f) = fl_bits f"
  by (cases f) (simp_all add: lib_ok_def)

lemma write_element_eq:
  assumes "lib_ok L" and "elem_ok et e"
  shows "write_element L et buf p e =
    (if in_buffer buf p (et_bytes et) then Inr (splice buf p (encode e)) else Inl Undefined)"
proof -
  have et: "e_type e = et" and wf: "wf_element e" using assms(2) by (simp_all add: elem_ok_def)
  show ?thesis
  proof (cases "e_val e")
    case (IntV v)
    with wf et have t: "int_typed et v" by (simp add: wf_element_def int_typed_def)
    then obtain s w where sw: "et = IntegerType s w" "s \<noteq> Signed" "w \<in> {4, 8, 16, 32, 64}"
      by (auto simp: int_typed_def isSupportedIntegerType_cases)
    have g: "getIntegerValue e = Inr v"
      using t IntV et by (simp add: getIntegerValue_def int_typed_def)
    show ?thesis using sw g IntV et
      by (cases s) (auto simp: write_element_def encode_def isSignlessInteger_iff isUnsignedInteger_iff
          store_int_eq int_value_def signless_supported)
  next
    case (BoolV b)
    with wf et have "et = IntegerType Signless 1" by (auto simp: wf_element_def isSupportedBooleanType_iff)
    with BoolV et show ?thesis
      by (simp add: write_element_def encode_def getBooleanValue_def store_int_eq
          isSupportedBooleanType_iff isSignlessInteger_iff isUnsignedInteger_iff)
  next
    case (FloatV f)
    with wf et obtain s where s: "et = FloatType s" "s = fl_sem f" "isSupportedFloatType et"
      by (cases et) (auto simp: wf_element_def)
    with FloatV et show ?thesis
      by (cases s) (simp_all add: write_element_def encode_def getFloatValue_def store_int_eq
          lib_ok_single [OF assms(1)] lib_ok_double [OF assms(1)])
  next
    case (ComplexV re im)
    with wf et obtain s where s: "et = ComplexType (FloatType s)" "s = F32 \<or> s = F64"
      "fl_sem re = s" "fl_sem im = s"
      by (auto simp: wf_element_def elim!: isSupportedComplexType.elims)
    have "isSupportedComplexType et" using s by auto
    with s ComplexV et store_two [of buf p 4 _ 4] store_two [of buf p 8 _ 8] show ?thesis
      by (elim disjE) (simp_all add: write_element_def encode_def getComplexValue_def Let_def
          lib_ok_single [OF assms(1)] lib_ok_double [OF assms(1)])
  qed
qed

section \<open>Well-formed tensors\<close>

text \<open>
  A type the interpreter can hold: ranked, static, of a supported element type, its size in
  bytes within 64 bits. A well-formed tensor has such a type and as many bytes as it takes.
\<close>

fun storable :: "ty \<Rightarrow> bool" where
  "storable (RankedTensorType sh et enc) \<longleftrightarrow>
     static_shape sh \<and> (\<forall>d \<in> set sh. i64_ok d) \<and> supported_element_type et \<and>
     i64_ok (num_elements sh * int (et_bytes et))"
| "storable _ \<longleftrightarrow> False"

definition wf_tensor :: "tensor \<Rightarrow> bool" where
  "wf_tensor t \<longleftrightarrow> storable (t_type t) \<and>
     length (t_data t) = nat (num_elements (t_shape t)) * et_bytes (t_elem t)"

lemma storableD:
  assumes "storable T"
  shows "static_shape (shape_of T)" "supported_element_type (element_type T)"
    "i64_ok (num_elements (shape_of T) * int (et_bytes (element_type T)))"
    "i64_ok (num_elements (shape_of T))"
    "getSizeInBytes T = Inr (num_elements (shape_of T) * int (et_bytes (element_type T)))"
    "1 \<le> et_bytes (element_type T)" "\<And>k. k < length (shape_of T) \<Longrightarrow> i64_ok (shape_of T ! k)"
proof -
  obtain sh et enc where T: "T = RankedTensorType sh et enc" "static_shape sh"
    "supported_element_type et" "i64_ok (num_elements sh * int (et_bytes et))" "\<forall>d \<in> set sh. i64_ok d"
    using assms by (cases T) auto
  note b = et_bytes_size [OF T(3)]
  have nn: "0 \<le> num_elements sh" using T(2) by simp
  with b have "num_elements sh * 1 \<le> num_elements sh * int (et_bytes et)"
    by (intro mult_left_mono) auto
  then have "i64_ok (num_elements sh)" using T(4) nn by (auto simp: i64_ok_def)
  with T b show "static_shape (shape_of T)" "supported_element_type (element_type T)"
    "i64_ok (num_elements (shape_of T) * int (et_bytes (element_type T)))"
    "i64_ok (num_elements (shape_of T))"
    "getSizeInBytes T = Inr (num_elements (shape_of T) * int (et_bytes (element_type T)))"
    "1 \<le> et_bytes (element_type T)" "\<And>k. k < length (shape_of T) \<Longrightarrow> i64_ok (shape_of T ! k)"
    by (auto simp: i64_in)
qed

lemma wf_tensor_storable: "wf_tensor t \<Longrightarrow> storable (t_type t)"
  by (simp add: wf_tensor_def)

lemma new_tensor_ok: "storable T \<Longrightarrow> \<exists>t. new_tensor T = Inr t \<and> t_type t = T \<and> wf_tensor t"
  by (simp add: new_tensor_def storableD wf_tensor_def nat_mult_distrib)

lemma element_offset_eq:
  assumes "wf_tensor t" and "inBounds idx (t_shape t)"
  shows "element_offset t idx = Inr (int (et_bytes (t_elem t)) * flat (t_shape t) idx)"
    and "in_buffer (t_data t) (int (et_bytes (t_elem t)) * flat (t_shape t) idx) (et_bytes (t_elem t))"
proof -
  let ?n = "int (et_bytes (t_elem t))" and ?k = "flat (t_shape t) idx" and ?m = "num_elements (t_shape t)"
  note s = storableD [OF wf_tensor_storable [OF assms(1)]]
  have k: "0 \<le> ?k" "?k < ?m" using flat_bounds [OF assms(2)] by auto
  have le: "?n * ?k + ?n \<le> ?m * ?n"
    using mult_left_mono [of "?k + 1" ?m ?n] k by (simp add: algebra_simps)
  have nn: "0 \<le> ?n * ?k" using k by simp
  with le s(3,6) have "i64_ok (?n * ?k)" by (simp add: i64_ok_def)
  with et_bytes_size [OF s(2)] flattenIndex_eq [OF assms(2) s(4)]
  show "element_offset t idx = Inr (?n * ?k)" by (simp add: element_offset_def i64_in)
  show "in_buffer (t_data t) (?n * ?k) (et_bytes (t_elem t))"
    using assms(1) le nn k by (simp add: in_buffer_def wf_tensor_def)
qed

lemma element_offset_out:
  assumes "wf_tensor t" and "\<not> inBounds idx (t_shape t)"
  shows "element_offset t idx = Inl (Fatal ''Incompatible index and shape found while flattening index'')"
  using assms(2) et_bytes_size [OF storableD(2) [OF wf_tensor_storable [OF assms(1)]]]
  by (simp add: element_offset_def flattenIndex_def)

lemma tensor_set_eq:
  assumes "lib_ok L" and "wf_tensor t" and "inBounds idx (t_shape t)" and "elem_ok (t_elem t) e"
  shows "tensor_set L t idx e =
    Inr (t\<lparr>t_data := splice (t_data t) (int (et_bytes (t_elem t)) * flat (t_shape t) idx) (encode e)\<rparr>)"
  using element_offset_eq [OF assms(2,3)] write_element_eq [OF assms(1,4)]
  by (simp add: tensor_set_def)

lemma tensor_get_eq:
  assumes "wf_tensor t" and "inBounds idx (t_shape t)"
  shows "tensor_get t idx = bnd (load_bytes (t_data t)
    (int (et_bytes (t_elem t)) * flat (t_shape t) idx) (et_bytes (t_elem t))) (decode (t_elem t))"
  using element_offset_eq(1) [OF assms] storableD(2) [OF wf_tensor_storable [OF assms(1)]]
  by (simp add: tensor_get_def read_element_eq)

lemma tensor_set_ok:
  assumes "lib_ok L" and "wf_tensor t" and "inBounds idx (t_shape t)" and "elem_ok (t_elem t) e"
  shows "\<exists>t'. tensor_set L t idx e = Inr t' \<and> wf_tensor t' \<and> t_type t' = t_type t"
  using tensor_set_eq [OF assms] element_offset_eq(2) [OF assms(2,3)] assms(2) length_encode [OF assms(4)]
  by (simp add: wf_tensor_def)

lemma tensor_get_set_same:
  assumes "lib_ok L" and "wf_tensor t" and "inBounds idx (t_shape t)" and "elem_ok (t_elem t) e"
    and "tensor_set L t idx e = Inr t'"
  shows "tensor_get t' idx = Inr e"
proof -
  have t': "wf_tensor t'" "t_type t' = t_type t" using tensor_set_ok [OF assms(1-4)] assms(5) by auto
  have "load_bytes (splice (t_data t) (int (et_bytes (t_elem t)) * flat (t_shape t) idx) (encode e))
      (int (et_bytes (t_elem t)) * flat (t_shape t) idx) (et_bytes (t_elem t)) = Inr (encode e)"
    using load_bytes_splice_same [of "t_data t" _ "encode e"] element_offset_eq(2) [OF assms(2,3)]
    by (simp add: length_encode [OF assms(4)])
  then show ?thesis
    using tensor_get_eq [OF t'(1), of idx] assms(3,5) t'(2) tensor_set_eq [OF assms(1-4)]
      decode_encode [OF assms(4)] by auto
qed

lemma separate_offsets: "(a::int) \<noteq> b \<Longrightarrow> 0 \<le> n \<Longrightarrow> n * a + n \<le> n * b \<or> n * b + n \<le> n * a"
proof -
  assume "a \<noteq> b" "0 \<le> n"
  then consider "a + 1 \<le> b" | "b + 1 \<le> a" by linarith
  then have "n * (a + 1) \<le> n * b \<or> n * (b + 1) \<le> n * a"
    by cases (use \<open>0 \<le> n\<close> mult_left_mono in blast)+
  then show ?thesis by (simp add: algebra_simps)
qed

lemma tensor_get_set_other:
  assumes "lib_ok L" and "wf_tensor t" and "inBounds idx (t_shape t)" and "elem_ok (t_elem t) e"
    and "tensor_set L t idx e = Inr t'" and "inBounds j (t_shape t)" and "j \<noteq> idx"
  shows "tensor_get t' j = tensor_get t j"
proof -
  let ?n = "int (et_bytes (t_elem t))"
  have t': "wf_tensor t'" "t_type t' = t_type t" using tensor_set_ok [OF assms(1-4)] assms(5) by auto
  have "flat (t_shape t) j \<noteq> flat (t_shape t) idx" using flat_inj assms(3,6,7) by blast
  from separate_offsets [OF this, of ?n]
  have sep: "?n * flat (t_shape t) j + ?n \<le> ?n * flat (t_shape t) idx \<or>
      ?n * flat (t_shape t) idx + int (length (encode e)) \<le> ?n * flat (t_shape t) j"
    by (simp add: length_encode [OF assms(4)])
  have nn: "0 \<le> ?n * flat (t_shape t) j" using flat_bounds [OF assms(6)] by simp
  have ib: "in_buffer (t_data t) (?n * flat (t_shape t) idx) (length (encode e))"
    using element_offset_eq(2) [OF assms(2,3)] by (simp add: length_encode [OF assms(4)])
  show ?thesis
    using tensor_get_eq [OF t'(1), of j] tensor_get_eq [OF assms(2,6)] assms(5,6) t'(2)
      tensor_set_eq [OF assms(1-4)] load_bytes_splice_other [OF ib nn sep] by auto
qed

section \<open>The store as an interface\<close>

text \<open>
  What the evaluators use of a tensor: reading and writing one element. The laws make a
  tensor a map from the indices of its shape to elements; the lemmas give the result of the
  loops that fill it.
\<close>

locale element_store =
  fixes getv :: "'t \<Rightarrow> sizes \<Rightarrow> 'e res"
    and setv :: "'t \<Rightarrow> sizes \<Rightarrow> 'e \<Rightarrow> 't res"
    and type_of :: "'t \<Rightarrow> 'y"
    and dims :: "'y \<Rightarrow> sizes"
    and fits :: "'y \<Rightarrow> 'e \<Rightarrow> bool"
    and good :: "'t \<Rightarrow> bool"
  assumes static_dims: "good t \<Longrightarrow> static_shape (dims (type_of t))"
    and set_ok: "good t \<Longrightarrow> inBounds idx (dims (type_of t)) \<Longrightarrow> fits (type_of t) e \<Longrightarrow>
      \<exists>t'. setv t idx e = Inr t' \<and> good t' \<and> type_of t' = type_of t"
    and get_set_same: "good t \<Longrightarrow> inBounds idx (dims (type_of t)) \<Longrightarrow> fits (type_of t) e \<Longrightarrow>
      setv t idx e = Inr t' \<Longrightarrow> getv t' idx = Inr e"
    and get_set_other: "good t \<Longrightarrow> inBounds idx (dims (type_of t)) \<Longrightarrow> fits (type_of t) e \<Longrightarrow>
      setv t idx e = Inr t' \<Longrightarrow> inBounds j (dims (type_of t)) \<Longrightarrow> j \<noteq> idx \<Longrightarrow> getv t' j = getv t j"
begin

lemma set_some:
  assumes "good t" and "\<forall>i \<in> set idxs. inBounds i (dims (type_of t)) \<and> f i = Inr (g i) \<and> fits (type_of t) (g i)"
    and "distinct idxs"
  shows "\<exists>t'. foldM (\<lambda>t i. bnd (f i) (setv t i)) t idxs = Inr t' \<and> good t' \<and> type_of t' = type_of t \<and>
    (\<forall>i. inBounds i (dims (type_of t)) \<longrightarrow> getv t' i = (if i \<in> set idxs then Inr (g i) else getv t i))"
  using assms
proof (induction idxs arbitrary: t)
  case (Cons i idxs)
  then have i: "inBounds i (dims (type_of t))" "f i = Inr (g i)" "fits (type_of t) (g i)" by auto
  from set_ok [OF Cons.prems(1) i(1,3)] obtain u where
    u: "setv t i (g i) = Inr u" "good u" "type_of u = type_of t" by auto
  have "\<exists>t'. foldM (\<lambda>t i. bnd (f i) (setv t i)) u idxs = Inr t' \<and> good t' \<and> type_of t' = type_of u \<and>
    (\<forall>i. inBounds i (dims (type_of u)) \<longrightarrow> getv t' i = (if i \<in> set idxs then Inr (g i) else getv u i))"
    using Cons.prems u by (intro Cons.IH) auto
  then obtain t' where t': "foldM (\<lambda>t i. bnd (f i) (setv t i)) u idxs = Inr t'" "good t'"
    "type_of t' = type_of u"
    "\<And>j. inBounds j (dims (type_of u)) \<Longrightarrow> getv t' j = (if j \<in> set idxs then Inr (g j) else getv u j)"
    by blast
  have "getv t' j = (if j \<in> set (i # idxs) then Inr (g j) else getv t j)"
    if "inBounds j (dims (type_of t))" for j
    using t'(4) [of j] that u(3) get_set_same [OF Cons.prems(1) i(1,3) u(1)]
      get_set_other [OF Cons.prems(1) i(1,3) u(1) that] by auto
  with t' u i show ?case by auto
qed auto

lemma set_all:
  assumes "good t"
    and "\<And>i. inBounds i (dims (type_of t)) \<Longrightarrow> f i = Inr (g i) \<and> fits (type_of t) (g i)"
  shows "\<exists>t'. for_each_index (dims (type_of t)) (\<lambda>t i. bnd (f i) (setv t i)) t = Inr t' \<and> good t' \<and>
    type_of t' = type_of t \<and> (\<forall>i. inBounds i (dims (type_of t)) \<longrightarrow> getv t' i = Inr (g i))"
proof -
  note s = static_dims [OF assms(1)]
  have "\<forall>i \<in> set (index_space (dims (type_of t))). inBounds i (dims (type_of t)) \<and> f i = Inr (g i) \<and>
      fits (type_of t) (g i)"
    using assms(2) by (simp add: index_space_set [OF s])
  from set_some [OF assms(1) this index_space_distinct [OF s]] show ?thesis
    by (simp add: for_each_index_eq [OF s] index_space_set [OF s])
qed

text \<open>A loop that writes the value of \<open>i\<close> at the position \<open>p i\<close>, where it has one.\<close>

lemma scatter:
  assumes "good t"
    and "\<And>u i. good u \<Longrightarrow> type_of u = type_of t \<Longrightarrow> i \<in> set idxs \<Longrightarrow>
      body u i = (case p i of None \<Rightarrow> Inr u | Some j \<Rightarrow> setv u j (v i))"
    and "\<And>i j. i \<in> set idxs \<Longrightarrow> p i = Some j \<Longrightarrow> inBounds j (dims (type_of t)) \<and> fits (type_of t) (v i)"
    and "\<And>i i' j. i \<in> set idxs \<Longrightarrow> i' \<in> set idxs \<Longrightarrow> p i = Some j \<Longrightarrow> p i' = Some j \<Longrightarrow> v i = v i'"
  shows "\<exists>t'. foldM body t idxs = Inr t' \<and> good t' \<and> type_of t' = type_of t \<and>
    (\<forall>i \<in> set idxs. \<forall>j. p i = Some j \<longrightarrow> getv t' j = Inr (v i)) \<and>
    (\<forall>j. inBounds j (dims (type_of t)) \<longrightarrow> (\<forall>i \<in> set idxs. p i \<noteq> Some j) \<longrightarrow> getv t' j = getv t j)"
  using assms
proof (induction idxs arbitrary: t)
  case (Cons i idxs)
  have "\<exists>u. body t i = Inr u \<and> good u \<and> type_of u = type_of t \<and>
      (\<forall>j. p i = Some j \<longrightarrow> getv u j = Inr (v i)) \<and>
      (\<forall>j. inBounds j (dims (type_of t)) \<longrightarrow> p i \<noteq> Some j \<longrightarrow> getv u j = getv t j)"
  proof (cases "p i")
    case None
    with Cons.prems(1,2) show ?thesis by auto
  next
    case (Some j)
    with Cons.prems(3) have ib: "inBounds j (dims (type_of t))" "fits (type_of t) (v i)" by auto
    with Cons.prems(1) obtain u where u: "setv t j (v i) = Inr u" "good u" "type_of u = type_of t"
      using set_ok by blast
    with Some Cons.prems(1,2) get_set_same [OF Cons.prems(1) ib u(1)]
      get_set_other [OF Cons.prems(1) ib u(1)] show ?thesis by auto
  qed
  then obtain u where u: "body t i = Inr u" "good u" "type_of u = type_of t"
    "\<And>j. p i = Some j \<Longrightarrow> getv u j = Inr (v i)"
    "\<And>j. inBounds j (dims (type_of t)) \<Longrightarrow> p i \<noteq> Some j \<Longrightarrow> getv u j = getv t j" by blast
  have "\<exists>t'. foldM body u idxs = Inr t' \<and> good t' \<and> type_of t' = type_of u \<and>
    (\<forall>i \<in> set idxs. \<forall>j. p i = Some j \<longrightarrow> getv t' j = Inr (v i)) \<and>
    (\<forall>j. inBounds j (dims (type_of u)) \<longrightarrow> (\<forall>i \<in> set idxs. p i \<noteq> Some j) \<longrightarrow> getv t' j = getv u j)"
  proof (rule Cons.IH [OF u(2)])
    fix w i' assume "good w" "type_of w = type_of u" "i' \<in> set idxs"
    then show "body w i' = (case p i' of None \<Rightarrow> Inr w | Some j \<Rightarrow> setv w j (v i'))"
      using Cons.prems(2) u(3) by simp
  next
    fix i' j assume "i' \<in> set idxs" "p i' = Some j"
    then show "inBounds j (dims (type_of u)) \<and> fits (type_of u) (v i')"
      using Cons.prems(3) [of i' j] u(3) by simp
  next
    fix i' i'' j assume "i' \<in> set idxs" "i'' \<in> set idxs" "p i' = Some j" "p i'' = Some j"
    then show "v i' = v i''" using Cons.prems(4) [of i' i'' j] by simp
  qed
  then obtain t' where t': "foldM body u idxs = Inr t'" "good t'" "type_of t' = type_of u"
    "\<And>i j. i \<in> set idxs \<Longrightarrow> p i = Some j \<Longrightarrow> getv t' j = Inr (v i)"
    "\<And>j. inBounds j (dims (type_of u)) \<Longrightarrow> (\<forall>i \<in> set idxs. p i \<noteq> Some j) \<Longrightarrow> getv t' j = getv u j"
    by blast
  have "getv t' j = Inr (v i)" if j: "p i = Some j" for j
  proof (cases "\<exists>i' \<in> set idxs. p i' = Some j")
    case True
    then obtain i' where "i' \<in> set idxs" "p i' = Some j" by blast
    with t'(4) j Cons.prems(4) [of i i' j] show ?thesis by auto
  next
    case False
    with t'(5) [of j] j u(3,4) Cons.prems(3) [of i j] show ?thesis by auto
  qed
  moreover have "foldM body t (i # idxs) = Inr t'" using u(1) t'(1) by simp
  moreover have "getv t' j = getv t j"
    if "inBounds j (dims (type_of t))" "\<forall>i' \<in> set (i # idxs). p i' \<noteq> Some j" for j
    using that t'(5) [of j] u(5) [of j] u(3) by simp
  ultimately show ?case using t'(2,3,4) u(3) by auto
next
  case Nil
  show ?case using Nil.prems(1) by simp
qed

end

interpretation store: element_store tensor_get "tensor_set L" t_type shape_of
    "\<lambda>T e. elem_ok (element_type T) e" "\<lambda>t. lib_ok L \<and> wf_tensor t" for L
proof
  fix t assume "lib_ok L \<and> wf_tensor t"
  then show "static_shape (t_shape t)" by (blast dest: wf_tensor_storable storableD(1))
qed (use tensor_set_ok tensor_get_set_same tensor_get_set_other in \<open>blast+\<close>)

section \<open>What a tensor denotes\<close>

text \<open>
  The abstract view of a tensor: its type and the element at every index. \<open>denotes t T g\<close> says
  that \<open>t\<close> is well formed, of type \<open>T\<close>, and holds \<open>g idx\<close> at every index in bounds.
\<close>

definition denotes :: "tensor \<Rightarrow> ty \<Rightarrow> (sizes \<Rightarrow> element) \<Rightarrow> bool" where
  "denotes t T g \<longleftrightarrow> wf_tensor t \<and> t_type t = T \<and>
     (\<forall>idx. inBounds idx (shape_of T) \<longrightarrow> tensor_get t idx = Inr (g idx))"

lemma denotes_type: "denotes t T g \<Longrightarrow> t_type t = T"
  and denotes_wf: "denotes t T g \<Longrightarrow> wf_tensor t"
  and denotes_get: "denotes t T g \<Longrightarrow> inBounds idx (shape_of T) \<Longrightarrow> tensor_get t idx = Inr (g idx)"
  by (auto simp: denotes_def)

lemma denotes_storable: "denotes t T g \<Longrightarrow> storable T"
  by (auto simp: denotes_def wf_tensor_def)

lemma denotes_static: "denotes t T g \<Longrightarrow> static_shape (shape_of T)"
  by (blast dest: denotes_storable storableD(1))

lemma decode_ok: "decode et bs = Inr e \<Longrightarrow> supported_element_type et \<Longrightarrow> elem_ok et e"
  by (erule supported_element_type_cases)
    (auto simp: decode_def Let_def split: if_splits dest!: mk_int_ok mk_bool_ok mk_float_ok mk_complex_ok)

lemma tensor_get_ok:
  assumes "wf_tensor t" and "tensor_get t idx = Inr e"
  shows "elem_ok (t_elem t) e" "inBounds idx (t_shape t)"
proof -
  show ib: "inBounds idx (t_shape t)"
    using assms element_offset_out [of t idx] by (cases "inBounds idx (t_shape t)") (auto simp: tensor_get_def)
  obtain bs where "decode (t_elem t) bs = Inr e"
    using assms(2) unfolding tensor_get_eq [OF assms(1) ib] bnd_eq_Inr by blast
  with decode_ok storableD(2) [OF wf_tensor_storable [OF assms(1)]]
  show "elem_ok (t_elem t) e" by blast
qed

lemma denotes_ok: "denotes t T g \<Longrightarrow> inBounds idx (shape_of T) \<Longrightarrow> elem_ok (element_type T) (g idx)"
  using tensor_get_ok(1) by (auto simp: denotes_def)

lemma tensor_get_out: "wf_tensor t \<Longrightarrow> \<not> inBounds idx (t_shape t) \<Longrightarrow> fails (tensor_get t idx)"
  by (simp add: tensor_get_def element_offset_out)

lemma compute_denotes:
  assumes "lib_ok L" and "storable T"
    and "\<And>idx. inBounds idx (shape_of T) \<Longrightarrow> f idx = Inr (g idx) \<and> elem_ok (element_type T) (g idx)"
  shows "\<exists>t. compute L T f = Inr t \<and> denotes t T g"
proof -
  from new_tensor_ok [OF assms(2)] obtain r where r: "new_tensor T = Inr r" "t_type r = T" "wf_tensor r"
    by auto
  with assms store.set_all [of L r f g] show ?thesis by (auto simp: compute_def fill_def denotes_def)
qed

lemma computeE:
  assumes "lib_ok L" and "storable T"
    and "\<And>idx. inBounds idx (shape_of T) \<Longrightarrow> f idx = Inr (g idx) \<and> elem_ok (element_type T) (g idx)"
  obtains t where "compute L T f = Inr t" "denotes t T g"
proof -
  have "\<exists>t. compute L T f = Inr t \<and> denotes t T g" by (rule compute_denotes) (use assms in auto)
  with that show ?thesis by blast
qed

lemma filled_tensor_compute: "filled_tensor L T e = compute L T (\<lambda>idx. Inr e)"
  unfolding filled_tensor_def compute_def fill_def
  by (rule bnd_cong [OF refl]) (auto simp: new_tensor_def bnd_eq_Inr)

lemma filled_tensor_denotes:
  "lib_ok L \<Longrightarrow> storable T \<Longrightarrow> elem_ok (element_type T) e \<Longrightarrow>
    \<exists>t. filled_tensor L T e = Inr t \<and> denotes t T (\<lambda>idx. e)"
  unfolding filled_tensor_compute by (rule compute_denotes) auto

end
