(* ===== verification/OpsElementwise.thy ===== *)
theory OpsElementwise
  imports TensorLaws
begin

text \<open>
  The element-wise evaluators of \<open>stablehlo/reference/Ops.cpp\<close>: each allocates a tensor of the
  result type and sets every element of it, in index order, from the elements of the operands
  at the same index. \<open>evalClampOp\<close> and \<open>evalSelectOp\<close> also take a tensor of rank 0 for some
  operands. \<open>pointwise1\<close> and \<open>pointwise2\<close> are the loop of the unary and of the binary ones.
\<close>

section \<open>Evaluators\<close>

definition pointwise1 :: "lib \<Rightarrow> (element \<Rightarrow> element res) \<Rightarrow> tensor \<Rightarrow> ty \<Rightarrow> tensor res" where
  "pointwise1 L f operand resultType =
     compute L resultType (\<lambda>idx. bnd (tensor_get operand idx) f)"

definition pointwise2 ::
  "lib \<Rightarrow> (element \<Rightarrow> element \<Rightarrow> element res) \<Rightarrow> tensor \<Rightarrow> tensor \<Rightarrow> ty \<Rightarrow> tensor res" where
  "pointwise2 L f lhs rhs resultType =
     compute L resultType (\<lambda>idx. bnd (tensor_get lhs idx) (\<lambda>l. bnd (tensor_get rhs idx) (\<lambda>r. f l r)))"

definition evalAbsOp :: "lib \<Rightarrow> tensor \<Rightarrow> ty \<Rightarrow> tensor res" where
  "evalAbsOp L operand resultType = pointwise1 L (elem_abs L) operand resultType"

definition evalCbrtOp :: "lib \<Rightarrow> tensor \<Rightarrow> ty \<Rightarrow> tensor res" where
  "evalCbrtOp L operand resultType = pointwise1 L (elem_cbrt L) operand resultType"

definition evalCeilOp :: "lib \<Rightarrow> tensor \<Rightarrow> ty \<Rightarrow> tensor res" where
  "evalCeilOp L operand resultType = pointwise1 L (elem_ceil L) operand resultType"

definition evalCosineOp :: "lib \<Rightarrow> tensor \<Rightarrow> ty \<Rightarrow> tensor res" where
  "evalCosineOp L operand resultType = pointwise1 L (elem_cosine L) operand resultType"

definition evalExpm1Op :: "lib \<Rightarrow> tensor \<Rightarrow> ty \<Rightarrow> tensor res" where
  "evalExpm1Op L operand resultType = pointwise1 L (elem_expm1 L) operand resultType"

definition evalExponentialOp :: "lib \<Rightarrow> tensor \<Rightarrow> ty \<Rightarrow> tensor res" where
  "evalExponentialOp L operand resultType = pointwise1 L (elem_exponential L) operand resultType"

definition evalFloorOp :: "lib \<Rightarrow> tensor \<Rightarrow> ty \<Rightarrow> tensor res" where
  "evalFloorOp L operand resultType = pointwise1 L (elem_floor L) operand resultType"

definition evalImagOp :: "lib \<Rightarrow> tensor \<Rightarrow> ty \<Rightarrow> tensor res" where
  "evalImagOp L operand resultType = pointwise1 L (elem_imag L) operand resultType"

definition evalIsFiniteOp :: "lib \<Rightarrow> tensor \<Rightarrow> ty \<Rightarrow> tensor res" where
  "evalIsFiniteOp L operand resultType = pointwise1 L (elem_is_finite L) operand resultType"

definition evalLog1pOp :: "lib \<Rightarrow> tensor \<Rightarrow> ty \<Rightarrow> tensor res" where
  "evalLog1pOp L operand resultType = pointwise1 L (elem_log_plus_one L) operand resultType"

definition evalLogOp :: "lib \<Rightarrow> tensor \<Rightarrow> ty \<Rightarrow> tensor res" where
  "evalLogOp L operand resultType = pointwise1 L (elem_log L) operand resultType"

definition evalLogisticOp :: "lib \<Rightarrow> tensor \<Rightarrow> ty \<Rightarrow> tensor res" where
  "evalLogisticOp L operand resultType = pointwise1 L (elem_logistic L) operand resultType"

definition evalNegOp :: "lib \<Rightarrow> tensor \<Rightarrow> ty \<Rightarrow> tensor res" where
  "evalNegOp L operand resultType = pointwise1 L (elem_neg L) operand resultType"

definition evalNotOp :: "lib \<Rightarrow> tensor \<Rightarrow> ty \<Rightarrow> tensor res" where
  "evalNotOp L operand resultType = pointwise1 L elem_not operand resultType"

definition evalPopulationCountOp :: "lib \<Rightarrow> tensor \<Rightarrow> ty \<Rightarrow> tensor res" where
  "evalPopulationCountOp L operand resultType = pointwise1 L (elem_popcnt L) operand resultType"

definition evalRealOp :: "lib \<Rightarrow> tensor \<Rightarrow> ty \<Rightarrow> tensor res" where
  "evalRealOp L operand resultType = pointwise1 L elem_real operand resultType"

definition evalRoundOp :: "lib \<Rightarrow> tensor \<Rightarrow> ty \<Rightarrow> tensor res" where
  "evalRoundOp L operand resultType = pointwise1 L (elem_round_nearest_afz L) operand resultType"

definition evalRoundNearestEvenOp :: "lib \<Rightarrow> tensor \<Rightarrow> ty \<Rightarrow> tensor res" where
  "evalRoundNearestEvenOp L operand resultType = pointwise1 L (elem_round_nearest_even L) operand resultType"

definition evalRsqrtOp :: "lib \<Rightarrow> tensor \<Rightarrow> ty \<Rightarrow> tensor res" where
  "evalRsqrtOp L operand resultType = pointwise1 L (elem_rsqrt L) operand resultType"

definition evalSignOp :: "lib \<Rightarrow> tensor \<Rightarrow> ty \<Rightarrow> tensor res" where
  "evalSignOp L operand resultType = pointwise1 L (elem_sign L) operand resultType"

definition evalSineOp :: "lib \<Rightarrow> tensor \<Rightarrow> ty \<Rightarrow> tensor res" where
  "evalSineOp L operand resultType = pointwise1 L (elem_sine L) operand resultType"

definition evalSqrtOp :: "lib \<Rightarrow> tensor \<Rightarrow> ty \<Rightarrow> tensor res" where
  "evalSqrtOp L operand resultType = pointwise1 L (elem_sqrt L) operand resultType"

definition evalTanhOp :: "lib \<Rightarrow> tensor \<Rightarrow> ty \<Rightarrow> tensor res" where
  "evalTanhOp L operand resultType = pointwise1 L (elem_tanh L) operand resultType"

definition evalAddOp :: "lib \<Rightarrow> tensor \<Rightarrow> tensor \<Rightarrow> ty \<Rightarrow> tensor res" where
  "evalAddOp L lhs rhs resultType = pointwise2 L (elem_add L) lhs rhs resultType"

definition evalAndOp :: "lib \<Rightarrow> tensor \<Rightarrow> tensor \<Rightarrow> ty \<Rightarrow> tensor res" where
  "evalAndOp L lhs rhs resultType = pointwise2 L elem_and lhs rhs resultType"

definition evalAtan2Op :: "lib \<Rightarrow> tensor \<Rightarrow> tensor \<Rightarrow> ty \<Rightarrow> tensor res" where
  "evalAtan2Op L lhs rhs resultType = pointwise2 L (elem_atan2 L) lhs rhs resultType"

definition evalComplexOp :: "lib \<Rightarrow> tensor \<Rightarrow> tensor \<Rightarrow> ty \<Rightarrow> tensor res" where
  "evalComplexOp L lhs rhs resultType = pointwise2 L elem_complex lhs rhs resultType"

definition evalDivideOp :: "lib \<Rightarrow> tensor \<Rightarrow> tensor \<Rightarrow> ty \<Rightarrow> tensor res" where
  "evalDivideOp L lhs rhs resultType = pointwise2 L (elem_div L) lhs rhs resultType"

definition evalMaxOp :: "lib \<Rightarrow> tensor \<Rightarrow> tensor \<Rightarrow> ty \<Rightarrow> tensor res" where
  "evalMaxOp L lhs rhs resultType = pointwise2 L (elem_max L) lhs rhs resultType"

definition evalMinOp :: "lib \<Rightarrow> tensor \<Rightarrow> tensor \<Rightarrow> ty \<Rightarrow> tensor res" where
  "evalMinOp L lhs rhs resultType = pointwise2 L (elem_min L) lhs rhs resultType"

definition evalMultiplyOp :: "lib \<Rightarrow> tensor \<Rightarrow> tensor \<Rightarrow> ty \<Rightarrow> tensor res" where
  "evalMultiplyOp L lhs rhs resultType = pointwise2 L (elem_mul L) lhs rhs resultType"

definition evalOrOp :: "lib \<Rightarrow> tensor \<Rightarrow> tensor \<Rightarrow> ty \<Rightarrow> tensor res" where
  "evalOrOp L lhs rhs resultType = pointwise2 L elem_or lhs rhs resultType"

definition evalPowerOp :: "lib \<Rightarrow> tensor \<Rightarrow> tensor \<Rightarrow> ty \<Rightarrow> tensor res" where
  "evalPowerOp L lhs rhs resultType = pointwise2 L (elem_power L) lhs rhs resultType"

definition evalRemOp :: "lib \<Rightarrow> tensor \<Rightarrow> tensor \<Rightarrow> ty \<Rightarrow> tensor res" where
  "evalRemOp L lhs rhs resultType = pointwise2 L (elem_rem L) lhs rhs resultType"

definition evalShiftLeftOp :: "lib \<Rightarrow> tensor \<Rightarrow> tensor \<Rightarrow> ty \<Rightarrow> tensor res" where
  "evalShiftLeftOp L lhs rhs resultType = pointwise2 L elem_shift_left lhs rhs resultType"

definition evalShiftRightArithmeticOp :: "lib \<Rightarrow> tensor \<Rightarrow> tensor \<Rightarrow> ty \<Rightarrow> tensor res" where
  "evalShiftRightArithmeticOp L lhs rhs resultType = pointwise2 L elem_shift_right_arithmetic lhs rhs resultType"

definition evalShiftRightLogicalOp :: "lib \<Rightarrow> tensor \<Rightarrow> tensor \<Rightarrow> ty \<Rightarrow> tensor res" where
  "evalShiftRightLogicalOp L lhs rhs resultType = pointwise2 L elem_shift_right_logical lhs rhs resultType"

definition evalSubtractOp :: "lib \<Rightarrow> tensor \<Rightarrow> tensor \<Rightarrow> ty \<Rightarrow> tensor res" where
  "evalSubtractOp L lhs rhs resultType = pointwise2 L (elem_sub L) lhs rhs resultType"

definition evalXorOp :: "lib \<Rightarrow> tensor \<Rightarrow> tensor \<Rightarrow> ty \<Rightarrow> tensor res" where
  "evalXorOp L lhs rhs resultType = pointwise2 L elem_xor lhs rhs resultType"

text \<open>An operand that may be a scalar: its element at \<open>idx\<close>, or its only element.\<close>

definition get_or_scalar :: "tensor \<Rightarrow> sizes \<Rightarrow> element res" where
  "get_or_scalar t idx = (if rank (t_type t) \<noteq> 0 then tensor_get t idx else tensor_get t [])"

definition evalClampOp :: "lib \<Rightarrow> tensor \<Rightarrow> tensor \<Rightarrow> tensor \<Rightarrow> ty \<Rightarrow> tensor res" where
  "evalClampOp L minT operand maxT resultType =
     compute L resultType (\<lambda>idx.
       bnd (get_or_scalar minT idx) (\<lambda>minElement.
       bnd (get_or_scalar maxT idx) (\<lambda>maxElement.
       bnd (tensor_get operand idx) (\<lambda>e.
       bnd (elem_max L e minElement) (\<lambda>m. elem_min L m maxElement)))))"

datatype comparison_direction = EQ | NE | GE | GT | LE | LT

fun elem_cmp :: "lib \<Rightarrow> comparison_direction \<Rightarrow> element \<Rightarrow> element \<Rightarrow> element res" where
  "elem_cmp L EQ = elem_eq L"
| "elem_cmp L NE = elem_ne L"
| "elem_cmp L GE = elem_ge L"
| "elem_cmp L GT = elem_gt L"
| "elem_cmp L LE = elem_le L"
| "elem_cmp L LT = elem_lt L"

definition evalCompareOp :: "lib \<Rightarrow> tensor \<Rightarrow> tensor \<Rightarrow> comparison_direction \<Rightarrow> ty \<Rightarrow> tensor res" where
  "evalCompareOp L lhs rhs comparisonDirection resultType =
     pointwise2 L (elem_cmp L comparisonDirection) lhs rhs resultType"

definition evalConvertOp :: "lib \<Rightarrow> tensor \<Rightarrow> ty \<Rightarrow> tensor res" where
  "evalConvertOp L operand resultType =
     (let operandElementType = t_elem operand; resultElementType = element_type resultType in
      compute L resultType (\<lambda>idx.
        if isSupportedBooleanType operandElementType then
          bnd (tensor_get operand idx) (\<lambda>e. bnd (getBooleanValue e) (convert_bool L resultElementType))
        else if isSupportedSignedIntegerType operandElementType then
          bnd (tensor_get operand idx) (\<lambda>e. bnd (getIntegerValue e) (\<lambda>v. convert_i64 L resultElementType (sval v)))
        else if isSupportedUnsignedIntegerType operandElementType then
          bnd (tensor_get operand idx) (\<lambda>e. bnd (getIntegerValue e) (\<lambda>v. convert_u64 L resultElementType (uval v)))
        else if isSupportedFloatType operandElementType then
          bnd (tensor_get operand idx) (\<lambda>e. bnd (getFloatValue e) (convert_apfloat L resultElementType))
        else if isSupportedComplexType operandElementType then
          bnd (tensor_get operand idx) (\<lambda>e. bnd (getComplexValue e) (convert_complex L resultElementType))
        else Inl unsupported_element))"

definition evalClzOp :: "lib \<Rightarrow> tensor \<Rightarrow> ty \<Rightarrow> tensor res" where
  "evalClzOp L operand resultType =
     compute L resultType (\<lambda>idx. bnd (tensor_get operand idx) (\<lambda>e. bnd (getIntegerValue e)
       (\<lambda>v. convert_u64 L (element_type resultType) (ap_clz v))))"

definition evalSelectOp :: "lib \<Rightarrow> tensor \<Rightarrow> tensor \<Rightarrow> tensor \<Rightarrow> ty \<Rightarrow> tensor res" where
  "evalSelectOp L pred onTrue onFalse resultType =
     compute L resultType (\<lambda>idx.
       bnd (get_or_scalar pred idx) (\<lambda>predValue.
       bnd (getBooleanValue predValue) (\<lambda>p. if p then tensor_get onTrue idx else tensor_get onFalse idx)))"

definition evalConstantOp :: "lib \<Rightarrow> dense_attr \<Rightarrow> tensor res" where
  "evalConstantOp L val = makeTensor L val"

lemmas pointwise_defs = evalAbsOp_def evalCbrtOp_def evalCeilOp_def evalCosineOp_def evalExpm1Op_def
  evalExponentialOp_def evalFloorOp_def evalImagOp_def evalIsFiniteOp_def evalLog1pOp_def
  evalLogOp_def evalLogisticOp_def evalNegOp_def evalNotOp_def evalPopulationCountOp_def
  evalRealOp_def evalRoundOp_def evalRoundNearestEvenOp_def evalRsqrtOp_def evalSignOp_def
  evalSineOp_def evalSqrtOp_def evalTanhOp_def evalAddOp_def evalAndOp_def evalAtan2Op_def
  evalComplexOp_def evalDivideOp_def evalMaxOp_def evalMinOp_def evalMultiplyOp_def
  evalOrOp_def evalPowerOp_def evalRemOp_def evalShiftLeftOp_def evalShiftRightArithmeticOp_def
  evalShiftRightLogicalOp_def evalSubtractOp_def evalXorOp_def evalCompareOp_def

section \<open>Laws\<close>

lemma pointwise1_denotes:
  assumes "lib_ok L" and "storable R" and "denotes a T g" and "shape_of R = shape_of T"
    and "\<And>idx. inBounds idx (shape_of R) \<Longrightarrow> f (g idx) = Inr (h idx) \<and> elem_ok (element_type R) (h idx)"
  shows "\<exists>t. pointwise1 L f a R = Inr t \<and> denotes t R h"
  unfolding pointwise1_def
  by (rule compute_denotes [OF assms(1,2)]) (use assms denotes_get [OF assms(3)] in simp)

lemma pointwise2_denotes:
  assumes "lib_ok L" and "storable R" and "denotes a T g" and "denotes b T' g'"
    and "shape_of R = shape_of T" and "shape_of R = shape_of T'"
    and "\<And>idx. inBounds idx (shape_of R) \<Longrightarrow>
      f (g idx) (g' idx) = Inr (h idx) \<and> elem_ok (element_type R) (h idx)"
  shows "\<exists>t. pointwise2 L f a b R = Inr t \<and> denotes t R h"
  unfolding pointwise2_def
  by (rule compute_denotes [OF assms(1,2)])
    (use assms denotes_get [OF assms(3)] denotes_get [OF assms(4)] in simp)

text \<open>An evaluator that returns has evaluated every element.\<close>

lemma foldM_Inr_each: "foldM f s xs = Inr t \<Longrightarrow> x \<in> set xs \<Longrightarrow> \<exists>u v. f u x = Inr v"
  by (induction xs arbitrary: s) (auto simp: bnd_eq_Inr)

lemma compute_each:
  assumes "compute L T f = Inr t" and "inBounds idx (shape_of T)"
  shows "\<exists>e. f idx = Inr e"
proof -
  from assms(1) obtain r where r: "new_tensor T = Inr r"
    "for_each_index (t_shape r) (\<lambda>r i. bnd (f i) (tensor_set L r i)) r = Inr t"
    by (auto simp: compute_def fill_def bnd_eq_Inr)
  then have "t_shape r = shape_of T" by (auto simp: new_tensor_def bnd_eq_Inr)
  with r(2) assms(2) inBounds_static [OF assms(2)] foldM_Inr_each
  show ?thesis by (fastforce simp: for_each_index_eq index_space_set bnd_eq_Inr)
qed

lemma compute_sound:
  assumes "lib_ok L" and "storable T" and "compute L T f = Inr t"
    and "\<And>idx e. inBounds idx (shape_of T) \<Longrightarrow> f idx = Inr e \<Longrightarrow> elem_ok (element_type T) e"
  shows "denotes t T (\<lambda>idx. projr (f idx))"
proof -
  have "\<exists>t. compute L T f = Inr t \<and> denotes t T (\<lambda>idx. projr (f idx))"
    by (rule compute_denotes [OF assms(1,2)]) (use compute_each [OF assms(3)] assms(4) in force)
  with assms(3) show ?thesis by simp
qed

lemma pointwise1_sound:
  assumes "lib_ok L" and "storable R" and "wf_tensor a" and "pointwise1 L f a R = Inr t"
    and "\<And>e r. elem_ok (t_elem a) e \<Longrightarrow> f e = Inr r \<Longrightarrow> elem_ok (element_type R) r"
  shows "denotes t R (\<lambda>idx. projr (f (projr (tensor_get a idx))))"
proof -
  have "denotes t R (\<lambda>idx. projr (bnd (tensor_get a idx) f))"
    by (rule compute_sound [OF assms(1,2) assms(4) [unfolded pointwise1_def]])
      (use assms(5) tensor_get_ok(1) [OF assms(3)] in \<open>auto simp: bnd_eq_Inr\<close>)
  moreover have "\<exists>e. tensor_get a idx = Inr e" if "inBounds idx (shape_of R)" for idx
    using compute_each [OF assms(4) [unfolded pointwise1_def] that] by (auto simp: bnd_eq_Inr)
  ultimately show ?thesis by (fastforce simp: denotes_def)
qed

lemma pointwise2_sound:
  assumes "lib_ok L" and "storable R" and "wf_tensor a" and "wf_tensor b"
    and "pointwise2 L f a b R = Inr t"
    and "\<And>d e r. elem_ok (t_elem a) d \<Longrightarrow> elem_ok (t_elem b) e \<Longrightarrow> f d e = Inr r \<Longrightarrow> elem_ok (element_type R) r"
  shows "denotes t R (\<lambda>idx. projr (f (projr (tensor_get a idx)) (projr (tensor_get b idx))))"
proof -
  have "denotes t R (\<lambda>idx. projr (bnd (tensor_get a idx) (\<lambda>l. bnd (tensor_get b idx) (\<lambda>r. f l r))))"
    by (rule compute_sound [OF assms(1,2) assms(5) [unfolded pointwise2_def]])
      (unfold bnd_eq_Inr, use assms(6) tensor_get_ok(1) [OF assms(3)] tensor_get_ok(1) [OF assms(4)] in blast)
  moreover have "\<exists>d e. tensor_get a idx = Inr d \<and> tensor_get b idx = Inr e" if "inBounds idx (shape_of R)" for idx
    using compute_each [OF assms(5) [unfolded pointwise2_def] that] by (auto simp: bnd_eq_Inr)
  ultimately show ?thesis by (fastforce simp: denotes_def)
qed

end
