(* ===== verification/OpsMovement.thy ===== *)
theory OpsMovement
  imports OpsElementwise
begin

text \<open>
  The evaluators of \<open>stablehlo/reference/Ops.cpp\<close> that move elements between indices:
  broadcasting, concatenation, slices (static, dynamic and updating), padding, reshapes,
  reversal and transposition, and the operations on shapes. \<open>evalBatchNormInferenceOp\<close> is
  composed of them and of element-wise ones.
\<close>

section \<open>Evaluators\<close>

definition evalIndices :: "tensor list \<Rightarrow> sizes res" where
  "evalIndices indices =
     mapM (\<lambda>t. bnd (tensor_get t []) (\<lambda>e. bnd (getIntegerValue e) (\<lambda>v. Inr (sval v)))) indices"

definition broadcast_index :: "sizes \<Rightarrow> axes \<Rightarrow> sizes \<Rightarrow> sizes res" where
  "broadcast_index operandShape broadcastDimensions resultIdx =
     foldM (\<lambda>operandIdx (operandDim, resultDim).
         bnd (at operandShape operandDim) (\<lambda>d.
         bnd (if d = 1 then Inr 0 else at resultIdx resultDim) (put operandIdx operandDim)))
       (replicate (length operandShape) 0)
       (zip [0..int (length broadcastDimensions) - 1] broadcastDimensions)"

definition evalBroadcastInDimOp :: "lib \<Rightarrow> tensor \<Rightarrow> axes \<Rightarrow> ty \<Rightarrow> tensor res" where
  "evalBroadcastInDimOp L operand broadcastDimensions resultType =
     compute L resultType (\<lambda>resultIdx.
       bnd (broadcast_index (t_shape operand) broadcastDimensions resultIdx) (tensor_get operand))"

definition evalBatchNormInferenceOp ::
  "lib \<Rightarrow> tensor \<Rightarrow> tensor \<Rightarrow> tensor \<Rightarrow> tensor \<Rightarrow> tensor \<Rightarrow> apfloat \<Rightarrow> int \<Rightarrow> ty \<Rightarrow> tensor res" where
  "evalBatchNormInferenceOp L operand scale offset mean variance epsilon featureIndex resultType =
     (let T = t_type operand in
      bnd (evalBroadcastInDimOp L scale [featureIndex] T) (\<lambda>scaleBroadcast.
      bnd (evalBroadcastInDimOp L offset [featureIndex] T) (\<lambda>offsetBroadcast.
      bnd (evalBroadcastInDimOp L mean [featureIndex] T) (\<lambda>meanBroadcast.
      bnd (evalBroadcastInDimOp L variance [featureIndex] T) (\<lambda>varianceBroadcast.
      bnd (makeTensor L \<lparr>d_type = RankedTensorType [] (element_type T) NoEncoding,
                         d_values = [FloatV epsilon]\<rparr>) (\<lambda>epsilonTensor.
      bnd (evalBroadcastInDimOp L epsilonTensor [] T) (\<lambda>epsilonBroadcast.
      bnd (evalSubtractOp L operand meanBroadcast T) (\<lambda>centeredOperand.
      bnd (evalAddOp L varianceBroadcast epsilonBroadcast T) (\<lambda>shifted.
      bnd (evalSqrtOp L shifted T) (\<lambda>standardDeviation.
      bnd (evalDivideOp L centeredOperand standardDeviation T) (\<lambda>normalizedOperand.
      bnd (evalMultiplyOp L scaleBroadcast normalizedOperand T) (\<lambda>scaled.
      evalAddOp L scaled offsetBroadcast T))))))))))))"

definition evalConcatenateOp :: "lib \<Rightarrow> tensor list \<Rightarrow> int \<Rightarrow> ty \<Rightarrow> tensor res" where
  "evalConcatenateOp L inputs dimension resultType =
     bnd (new_tensor resultType) (\<lambda>result.
     bnd (foldM (\<lambda>(result, dimensionOffset) input.
         bnd (for_each_index (t_shape input) (\<lambda>result inputIdx.
             bnd (at inputIdx dimension) (\<lambda>i. bnd (i64 (i + dimensionOffset)) (\<lambda>j.
             bnd (put inputIdx dimension j) (\<lambda>resultIdx.
             bnd (tensor_get input inputIdx) (tensor_set L result resultIdx))))) result) (\<lambda>result.
         bnd (at (t_shape input) dimension) (\<lambda>d. bnd (i64 (dimensionOffset + d)) (\<lambda>offset.
         Inr (result, offset))))) (result, 0) inputs) (\<lambda>(result, _). Inr result))"

definition evalDynamicSliceOp :: "lib \<Rightarrow> tensor \<Rightarrow> tensor list \<Rightarrow> sizes \<Rightarrow> ty \<Rightarrow> tensor res" where
  "evalDynamicSliceOp L operand startIndices sliceSizes resultType =
     bnd (new_tensor resultType) (\<lambda>result.
     bnd (evalIndices startIndices) (\<lambda>starts.
     bnd (sizes_sub (t_shape operand) sliceSizes) (\<lambda>limit.
     bnd (clamp_int 0 starts limit) (\<lambda>adjustedStartIndices.
     fill L result (\<lambda>resultIdx.
       bnd (sizes_add adjustedStartIndices resultIdx) (tensor_get operand))))))"

definition evalDynamicUpdateSliceOp :: "lib \<Rightarrow> tensor \<Rightarrow> tensor \<Rightarrow> tensor list \<Rightarrow> ty \<Rightarrow> tensor res" where
  "evalDynamicUpdateSliceOp L operand update startIndices resultType =
     bnd (new_tensor resultType) (\<lambda>result.
     bnd (evalIndices startIndices) (\<lambda>starts.
     bnd (sizes_sub (t_shape operand) (t_shape update)) (\<lambda>limit.
     bnd (clamp_int 0 starts limit) (\<lambda>adjustedStartIndices.
     bnd (fill L result (tensor_get operand)) (\<lambda>result.
     for_each_index (t_shape update) (\<lambda>result updateIdx.
       bnd (sizes_add updateIdx adjustedStartIndices) (\<lambda>resultIdx.
       bnd (tensor_get update updateIdx) (tensor_set L result resultIdx))) result)))))"

definition evalGetDimensionSizeOp :: "lib \<Rightarrow> tensor \<Rightarrow> int \<Rightarrow> ty \<Rightarrow> tensor res" where
  "evalGetDimensionSizeOp L operand dimension resultType =
     bnd (new_tensor resultType) (\<lambda>result.
     bnd (at (t_shape operand) dimension) (\<lambda>d.
     bnd (convert_i64 L (element_type resultType) d) (tensor_set L result [])))"

definition evalIotaOp :: "lib \<Rightarrow> int \<Rightarrow> ty \<Rightarrow> tensor res" where
  "evalIotaOp L iotaDimension resultType =
     compute L resultType (\<lambda>idx.
       bnd (at idx iotaDimension) (convert_i64 L (element_type resultType)))"

definition evalPadOp :: "lib \<Rightarrow> tensor \<Rightarrow> tensor \<Rightarrow> sizes \<Rightarrow> sizes \<Rightarrow> ty \<Rightarrow> tensor res" where
  "evalPadOp L operand paddingValue edgePaddingLow interiorPadding resultType =
     bnd (new_tensor resultType) (\<lambda>result.
     bnd (fill L result (\<lambda>resultIdx. tensor_get paddingValue [])) (\<lambda>result.
     for_each_index (t_shape operand) (\<lambda>result operandIdx.
       bnd (sizes_add_int interiorPadding 1) (\<lambda>steps.
       bnd (sizes_mul operandIdx steps) (\<lambda>spread.
       bnd (sizes_add edgePaddingLow spread) (\<lambda>resultIdx.
       if inBounds resultIdx (t_shape result)
       then bnd (tensor_get operand operandIdx) (tensor_set L result resultIdx)
       else Inr result)))) result))"

text \<open>Two iterators in lock step; only the one over the result is tested.\<close>

definition evalReshapeOp :: "lib \<Rightarrow> tensor \<Rightarrow> ty \<Rightarrow> tensor res" where
  "evalReshapeOp L operand resultType =
     bnd (new_tensor resultType) (\<lambda>result.
     bnd (index_begin (t_shape operand)) (\<lambda>operandIt.
     bnd (for_each_index (t_shape result) (\<lambda>(result, operandIt) resultIdx.
         bnd (iter_deref operandIt) (\<lambda>operandIdx.
         bnd (tensor_get operand operandIdx) (\<lambda>e.
         bnd (tensor_set L result resultIdx e) (\<lambda>result.
         bnd (iter_incr operandIt) (\<lambda>operandIt. Inr (result, operandIt)))))) (result, operandIt))
       (\<lambda>(result, _). Inr result)))"

definition reverse_index :: "sizes \<Rightarrow> axes \<Rightarrow> sizes \<Rightarrow> sizes res" where
  "reverse_index resultShape dimensions resultIdx =
     foldM (\<lambda>operandIdx dim.
         bnd (at resultShape dim) (\<lambda>d. bnd (at operandIdx dim) (\<lambda>i.
         bnd (i64 ((d - 1) - i)) (put operandIdx dim)))) resultIdx dimensions"

definition evalReverseOp :: "lib \<Rightarrow> tensor \<Rightarrow> axes \<Rightarrow> ty \<Rightarrow> tensor res" where
  "evalReverseOp L operand dimensions resultType =
     compute L resultType (\<lambda>resultIdx.
       bnd (reverse_index (shape_of resultType) dimensions resultIdx) (tensor_get operand))"

definition evalSliceOp :: "lib \<Rightarrow> tensor \<Rightarrow> sizes \<Rightarrow> sizes \<Rightarrow> ty \<Rightarrow> tensor res" where
  "evalSliceOp L operand startIndices strides resultType =
     compute L resultType (\<lambda>resultIdx.
       bnd (sizes_mul resultIdx strides) (\<lambda>step.
       bnd (sizes_add startIndices step) (tensor_get operand)))"

definition evalTransposeOp :: "lib \<Rightarrow> tensor \<Rightarrow> axes \<Rightarrow> ty \<Rightarrow> tensor res" where
  "evalTransposeOp L operand permutation resultType =
     bnd (new_tensor resultType) (\<lambda>result.
     for_each_index (t_shape operand) (\<lambda>result operandIdx.
       bnd (permute operandIdx permutation) (\<lambda>resultIdx.
       bnd (tensor_get operand operandIdx) (tensor_set L result resultIdx))) result)"

end
