(* ===== verification/MovementLaws.thy ===== *)
theory MovementLaws
  imports OpsMovement
begin

text \<open>
  What the evaluators of \<open>OpsMovement\<close> compute, in terms of what their operands denote: the
  element of the result at an index is the element of an operand at an index given by a
  closed formula. The side conditions are those the verifier of the operation establishes.
\<close>

section \<open>Indices and overflow\<close>

lemma dim_le_num_elements: "inBounds j sh \<Longrightarrow> k < length sh \<Longrightarrow> sh ! k \<le> num_elements sh"
proof (induction sh arbitrary: j k)
  case (Cons d ds)
  then obtain i js where j: "j = i # js" "0 \<le> i" "i < d" "inBounds js ds" by (cases j) auto
  have pos: "0 < num_elements ds" by (rule num_elements_pos [OF j(4)])
  show ?case
  proof (cases k)
    case 0
    then show ?thesis using pos j mult_left_mono [of 1 "num_elements ds" d] by simp
  next
    case (Suc m)
    then have "ds ! m \<le> num_elements ds" using Cons j by auto
    also have "\<dots> \<le> d * num_elements ds"
      using pos j mult_right_mono [of 1 d "num_elements ds"] by simp
    finally show ?thesis using Suc by simp
  qed
qed simp

lemma inBounds_i64:
  assumes "inBounds j sh" and "i64_ok (num_elements sh)" and "k < length sh" and "0 \<le> v" and "v \<le> sh ! k"
  shows "i64_ok v"
  using dim_le_num_elements [OF assms(1,3)] assms(2,4,5) by (simp add: i64_ok_def)

lemma inBoundsI:
  "length j = length sh \<Longrightarrow> (\<And>k. k < length sh \<Longrightarrow> 0 \<le> j ! k \<and> j ! k < sh ! k) \<Longrightarrow> inBounds j sh"
  by (simp add: inBounds_nth_iff)

lemma inBoundsD: "inBounds j sh \<Longrightarrow> k < length sh \<Longrightarrow> 0 \<le> j ! k \<and> j ! k < sh ! k"
  by (simp add: inBounds_nth_iff)

section \<open>Slice\<close>

definition slice_index :: "sizes \<Rightarrow> sizes \<Rightarrow> sizes \<Rightarrow> sizes" where
  "slice_index starts strides idx = map2 (+) starts (map2 (*) idx strides)"

definition slice_fits :: "sizes \<Rightarrow> sizes \<Rightarrow> sizes \<Rightarrow> sizes \<Rightarrow> bool" where
  "slice_fits sh starts strides rsh \<longleftrightarrow> length starts = length sh \<and> length strides = length sh \<and>
     length rsh = length sh \<and>
     (\<forall>k < length sh. 0 \<le> starts ! k \<and> 0 < strides ! k \<and>
        (0 < rsh ! k \<longrightarrow> starts ! k + (rsh ! k - 1) * strides ! k < sh ! k))"

lemma slice_index_in:
  assumes "slice_fits sh starts strides rsh" and "inBounds idx rsh"
  shows "inBounds (slice_index starts strides idx) sh"
proof (rule inBoundsI)
  have len: "length idx = length sh" using assms by (auto simp: slice_fits_def inBounds_length)
  with assms show "length (slice_index starts strides idx) = length sh"
    by (simp add: slice_index_def slice_fits_def)
  fix k assume k: "k < length sh"
  have i: "0 \<le> idx ! k" "idx ! k \<le> rsh ! k - 1" "0 < rsh ! k"
    using inBoundsD [OF assms(2), of k] k assms(1) by (auto simp: slice_fits_def)
  have s: "0 \<le> starts ! k" "0 < strides ! k" "starts ! k + (rsh ! k - 1) * strides ! k < sh ! k"
    using assms(1) k i by (auto simp: slice_fits_def)
  have "idx ! k * strides ! k \<le> (rsh ! k - 1) * strides ! k" by (rule mult_right_mono) (use i s in auto)
  with s(3) have "starts ! k + idx ! k * strides ! k < sh ! k" by linarith
  moreover have "0 \<le> idx ! k * strides ! k" using i s by simp
  ultimately show "0 \<le> slice_index starts strides idx ! k \<and> slice_index starts strides idx ! k < sh ! k"
    using s k len assms(1) by (simp add: slice_index_def slice_fits_def)
qed

lemma slice_index_eq:
  assumes "slice_fits sh starts strides rsh" and "inBounds idx rsh" and "i64_ok (num_elements sh)"
  shows "bnd (sizes_mul idx strides) (\<lambda>step. bnd (sizes_add starts step) f) = f (slice_index starts strides idx)"
proof -
  have len: "length idx = length sh" "length strides = length sh" "length starts = length sh"
    using assms by (auto simp: slice_fits_def inBounds_length)
  have "0 \<le> starts ! k \<and> 0 \<le> idx ! k * strides ! k \<and> i64_ok (starts ! k + idx ! k * strides ! k) \<and>
      i64_ok (idx ! k * strides ! k)" if k: "k < length sh" for k
  proof -
    have b: "starts ! k + idx ! k * strides ! k < sh ! k"
      using inBoundsD [OF slice_index_in [OF assms(1,2)] k] k len by (simp add: slice_index_def)
    have nn: "0 \<le> idx ! k * strides ! k" "0 \<le> starts ! k"
      using inBoundsD [OF assms(2), of k] assms(1) k by (auto simp: slice_fits_def)
    with b show ?thesis
      using inBounds_i64 [OF slice_index_in [OF assms(1,2)] assms(3) k] by simp
  qed
  with len show ?thesis
    by (simp add: sizes_mul_map2 sizes_add_map2 slice_index_def)
qed

lemma evalSliceOp_denotes:
  assumes "lib_ok L" and "denotes a T g" and "storable R" and "element_type R = element_type T"
    and "slice_fits (shape_of T) starts strides (shape_of R)"
  shows "\<exists>r. evalSliceOp L a starts strides R = Inr r \<and> denotes r R (\<lambda>idx. g (slice_index starts strides idx))"
  unfolding evalSliceOp_def
proof (rule compute_denotes [OF assms(1,3)])
  fix idx assume ib: "inBounds idx (shape_of R)"
  note si = slice_index_in [OF assms(5) ib]
  show "bnd (sizes_mul idx strides) (\<lambda>step. bnd (sizes_add starts step) (tensor_get a)) =
      Inr (g (slice_index starts strides idx)) \<and>
    elem_ok (element_type R) (g (slice_index starts strides idx))"
    using slice_index_eq [OF assms(5) ib storableD(4) [OF denotes_storable [OF assms(2)]], of "tensor_get a"]
      denotes_get [OF assms(2) si] denotes_ok [OF assms(2) si] assms(4) by simp
qed

section \<open>Reverse\<close>

definition reverse_at :: "sizes \<Rightarrow> axes \<Rightarrow> sizes \<Rightarrow> sizes" where
  "reverse_at sh dims idx =
     map (\<lambda>k. if int k \<in> set dims then sh ! k - 1 - idx ! k else idx ! k) [0..<length idx]"

definition axes_ok :: "axes \<Rightarrow> nat \<Rightarrow> bool" where
  "axes_ok dims n \<longleftrightarrow> distinct dims \<and> (\<forall>d \<in> set dims. 0 \<le> d \<and> d < int n)"

lemma reverse_at_in: "inBounds idx sh \<Longrightarrow> inBounds (reverse_at sh dims idx) sh"
  by (auto simp: inBounds_nth_iff reverse_at_def)

lemma reverse_at_twice [simp]: "reverse_at sh dims (reverse_at sh dims idx) = idx"
  by (rule nth_equalityI) (auto simp: reverse_at_def)

lemma reverse_index_eq:
  assumes "axes_ok dims (length sh)" and "inBounds idx sh" and "i64_ok (num_elements sh)"
  shows "reverse_index sh dims idx = Inr (reverse_at sh dims idx)"
  using assms
  unfolding reverse_index_def
proof (induction dims arbitrary: idx)
  case Nil
  then show ?case by (simp add: reverse_at_def map_nth)
next
  case (Cons d dims)
  then have d: "0 \<le> d" "d < int (length sh)" "nat d < length idx" and ne: "d \<notin> set dims"
    and rest: "axes_ok dims (length sh)"
    by (auto simp: axes_ok_def inBounds_length)
  let ?v = "sh ! nat d - 1 - idx ! nat d"
  have "nat d < length sh" using d by simp
  from inBoundsD [OF Cons.prems(2) this] have v: "0 \<le> ?v" "?v < sh ! nat d" by auto
  then have "i64_ok ?v" using inBounds_i64 [OF Cons.prems(2,3), of "nat d" ?v] d by simp
  moreover have "inBounds (idx[nat d := ?v]) sh"
    using Cons.prems(2) v d by (auto simp: inBounds_nth_iff nth_list_update)
  moreover have "reverse_at sh dims (idx[nat d := ?v]) = reverse_at sh (d # dims) idx"
    using d ne by (intro nth_equalityI) (auto simp: reverse_at_def nth_list_update)
  ultimately show ?case
    using Cons.IH [OF rest _ Cons.prems(3)] d inBounds_length [OF Cons.prems(2)]
    by (simp add: at_nonneg put_nonneg i64_in)
qed

lemma evalReverseOp_denotes:
  assumes "lib_ok L" and "denotes a T g" and "storable R" and "element_type R = element_type T"
    and "shape_of R = shape_of T" and "axes_ok dims (length (shape_of T))"
  shows "\<exists>r. evalReverseOp L a dims R = Inr r \<and> denotes r R (\<lambda>idx. g (reverse_at (shape_of T) dims idx))"
  unfolding evalReverseOp_def
proof (rule compute_denotes [OF assms(1,3)])
  fix idx assume "inBounds idx (shape_of R)"
  then have ib: "inBounds idx (shape_of T)" using assms(5) by simp
  note si = reverse_at_in [OF ib, of dims]
  show "bnd (reverse_index (shape_of R) dims idx) (tensor_get a) = Inr (g (reverse_at (shape_of T) dims idx)) \<and>
    elem_ok (element_type R) (g (reverse_at (shape_of T) dims idx))"
    using reverse_index_eq [OF assms(6) ib storableD(4) [OF denotes_storable [OF assms(2)]]]
      denotes_get [OF assms(2) si] denotes_ok [OF assms(2) si] assms(4,5) by simp
qed

section \<open>Broadcast and iota\<close>

definition broadcast_fits :: "sizes \<Rightarrow> axes \<Rightarrow> sizes \<Rightarrow> bool" where
  "broadcast_fits sh bd rsh \<longleftrightarrow> length bd = length sh \<and>
     (\<forall>k < length sh. 0 \<le> bd ! k \<and> bd ! k < int (length rsh) \<and>
        (sh ! k = 1 \<or> sh ! k = rsh ! nat (bd ! k)))"

definition broadcast_at :: "sizes \<Rightarrow> axes \<Rightarrow> sizes \<Rightarrow> sizes" where
  "broadcast_at sh bd idx = map (\<lambda>k. if sh ! k = 1 then 0 else idx ! nat (bd ! k)) [0..<length sh]"

lemma zip_upto: "zip [0..int (length xs) - 1] xs = map (\<lambda>i. (i, xs ! nat i)) [0..int (length xs) - 1]"
  by (rule nth_equalityI) auto

lemma broadcast_index_eq:
  assumes "broadcast_fits sh bd rsh" and "inBounds idx rsh"
  shows "broadcast_index sh bd idx = Inr (broadcast_at sh bd idx)"
proof -
  have len: "length bd = length sh" using assms(1) by (simp add: broadcast_fits_def)
  have "broadcast_index sh bd idx = foldM (\<lambda>r i. bnd (bnd (at sh i)
      (\<lambda>d. if d = 1 then Inr 0 else at idx (bd ! nat i))) (\<lambda>w. put r i w))
      (replicate (length sh) 0) [0..int (length sh) - 1]"
    using zip_upto [of bd] by (simp add: broadcast_index_def foldM_map len bnd_assoc)
  also have "\<dots> = Inr (map (\<lambda>i. if sh ! nat (int i) = 1 then 0 else idx ! nat (bd ! nat (int i)))
      [0..<length sh] @ drop (length sh) (replicate (length sh) 0))"
  proof (rule foldM_put_upto)
    fix i assume i: "0 \<le> i" "i < int (length sh)"
    then have "nat i < length sh" by simp
    with assms(1) have "0 \<le> bd ! nat i" "bd ! nat i < int (length rsh)"
      unfolding broadcast_fits_def by blast+
    with i inBounds_length [OF assms(2)]
    show "bnd (at sh i) (\<lambda>d. if d = 1 then Inr 0 else at idx (bd ! nat i)) =
        Inr (if sh ! nat i = 1 then 0 else idx ! nat (bd ! nat i))"
      by (simp add: at_nonneg)
  qed simp
  finally show ?thesis by (simp add: broadcast_at_def)
qed

lemma broadcast_at_in:
  assumes "broadcast_fits sh bd rsh" and "inBounds idx rsh"
  shows "inBounds (broadcast_at sh bd idx) sh"
proof (rule inBoundsI)
  fix k assume k: "k < length sh"
  with assms(1) have b: "0 \<le> bd ! k" "bd ! k < int (length rsh)" "sh ! k = 1 \<or> sh ! k = rsh ! nat (bd ! k)"
    by (auto simp: broadcast_fits_def)
  then have "nat (bd ! k) < length rsh" by simp
  from inBoundsD [OF assms(2) this] b k
  show "0 \<le> broadcast_at sh bd idx ! k \<and> broadcast_at sh bd idx ! k < sh ! k"
    by (auto simp: broadcast_at_def)
qed (simp add: broadcast_at_def)

lemma evalBroadcastInDimOp_denotes:
  assumes "lib_ok L" and "denotes a T g" and "storable R" and "element_type R = element_type T"
    and "broadcast_fits (shape_of T) bd (shape_of R)"
  shows "\<exists>r. evalBroadcastInDimOp L a bd R = Inr r \<and> denotes r R (\<lambda>idx. g (broadcast_at (shape_of T) bd idx))"
  unfolding evalBroadcastInDimOp_def
proof (rule compute_denotes [OF assms(1,3)])
  fix idx assume ib: "inBounds idx (shape_of R)"
  note si = broadcast_at_in [OF assms(5) ib]
  show "bnd (broadcast_index (t_shape a) bd idx) (tensor_get a) = Inr (g (broadcast_at (shape_of T) bd idx)) \<and>
    elem_ok (element_type R) (g (broadcast_at (shape_of T) bd idx))"
    using broadcast_index_eq [OF assms(5) ib] denotes_get [OF assms(2) si] denotes_ok [OF assms(2) si]
      assms(4) denotes_type [OF assms(2)] by simp
qed

lemma evalIotaOp_denotes:
  assumes "lib_ok L" and "storable R" and "0 \<le> d" and "d < int (length (shape_of R))"
    and "\<And>v. 0 \<le> v \<Longrightarrow> v < shape_of R ! nat d \<Longrightarrow> \<exists>e. convert_i64 L (element_type R) v = Inr e"
  shows "\<exists>r. evalIotaOp L d R = Inr r \<and>
    denotes r R (\<lambda>idx. projr (convert_i64 L (element_type R) (idx ! nat d)))"
  unfolding evalIotaOp_def
proof (rule compute_denotes [OF assms(1,2)])
  fix idx assume ib: "inBounds idx (shape_of R)"
  then have "at idx d = Inr (idx ! nat d)"
    using assms(3,4) by (simp add: at_nonneg inBounds_length)
  moreover have "nat d < length (shape_of R)" using assms(3,4) by simp
  with inBoundsD [OF ib] assms(5) obtain e where "convert_i64 L (element_type R) (idx ! nat d) = Inr e"
    by blast
  ultimately show "bnd (at idx d) (convert_i64 L (element_type R)) =
      Inr (projr (convert_i64 L (element_type R) (idx ! nat d))) \<and>
    elem_ok (element_type R) (projr (convert_i64 L (element_type R) (idx ! nat d)))"
    by (auto dest: convert_ok)
qed

section \<open>Loops over the operand\<close>

lemma scatter_tensor:
  assumes "lib_ok L" and "wf_tensor t" and "static_shape S"
    and "\<And>u i. wf_tensor u \<Longrightarrow> t_type u = t_type t \<Longrightarrow> inBounds i S \<Longrightarrow>
      body u i = (case p i of None \<Rightarrow> Inr u | Some j \<Rightarrow> tensor_set L u j (v i))"
    and "\<And>i j. inBounds i S \<Longrightarrow> p i = Some j \<Longrightarrow> inBounds j (t_shape t) \<and> elem_ok (t_elem t) (v i)"
    and "\<And>i i' j. inBounds i S \<Longrightarrow> inBounds i' S \<Longrightarrow> p i = Some j \<Longrightarrow> p i' = Some j \<Longrightarrow> v i = v i'"
  shows "\<exists>t'. for_each_index S body t = Inr t' \<and> wf_tensor t' \<and> t_type t' = t_type t \<and>
    (\<forall>i j. inBounds i S \<longrightarrow> p i = Some j \<longrightarrow> tensor_get t' j = Inr (v i)) \<and>
    (\<forall>j. inBounds j (t_shape t) \<longrightarrow> (\<forall>i. inBounds i S \<longrightarrow> p i \<noteq> Some j) \<longrightarrow> tensor_get t' j = tensor_get t j)"
proof -
  note s = index_space_set [OF assms(3)]
  have "\<exists>t'. foldM body t (index_space S) = Inr t' \<and> (lib_ok L \<and> wf_tensor t') \<and> t_type t' = t_type t \<and>
    (\<forall>i \<in> set (index_space S). \<forall>j. p i = Some j \<longrightarrow> tensor_get t' j = Inr (v i)) \<and>
    (\<forall>j. inBounds j (t_shape t) \<longrightarrow> (\<forall>i \<in> set (index_space S). p i \<noteq> Some j) \<longrightarrow> tensor_get t' j = tensor_get t j)"
  proof (rule store.scatter)
    fix i i' j assume "i \<in> set (index_space S)" "i' \<in> set (index_space S)" "p i = Some j" "p i' = Some j"
    then show "v i = v i'" using assms(6) [of i i' j] s by simp
  next
    fix i j assume "i \<in> set (index_space S)" "p i = Some j"
    then show "inBounds j (t_shape t) \<and> elem_ok (t_elem t) (v i)" using assms(5) s by simp
  qed (use assms(1,2,4) s in auto)
  then show ?thesis unfolding for_each_index_eq [OF assms(3)] s mem_Collect_eq Ball_def by blast
qed

section \<open>Transpose\<close>

definition is_perm :: "axes \<Rightarrow> nat \<Rightarrow> bool" where
  "is_perm p n \<longleftrightarrow> length p = n \<and> distinct p \<and> set p = {0..<int n}"

definition permuted :: "axes \<Rightarrow> sizes \<Rightarrow> sizes" where
  "permuted p idx = map (\<lambda>a. idx ! nat a) p"

definition inv_perm :: "axes \<Rightarrow> axes" where
  "inv_perm p = map (\<lambda>k. int (length (takeWhile (\<lambda>a. a \<noteq> int k) p))) [0..<length p]"

lemma is_perm_nth: "is_perm p n \<Longrightarrow> k < n \<Longrightarrow> 0 \<le> p ! k \<and> p ! k < int n"
  using nth_mem [of k p] by (auto simp: is_perm_def simp del: nth_mem)

lemma inv_perm_nth:
  assumes "is_perm p n" and "k < n"
  shows "0 \<le> inv_perm p ! k" "inv_perm p ! k < int n" "p ! nat (inv_perm p ! k) = int k"
proof -
  let ?m = "length (takeWhile (\<lambda>a. a \<noteq> int k) p)"
  have "int k \<in> set p" using assms by (auto simp: is_perm_def)
  then have "?m < length p"
    by (metis (mono_tags, lifting) length_takeWhile_le nat_less_le takeWhile_eq_all_conv
        takeWhile_eq_take take_all_iff order_refl)
  with nth_length_takeWhile [OF this] assms show "0 \<le> inv_perm p ! k" "inv_perm p ! k < int n"
    "p ! nat (inv_perm p ! k) = int k"
    by (auto simp: inv_perm_def is_perm_def)
qed

lemma inv_perm_left: "is_perm p n \<Longrightarrow> i < n \<Longrightarrow> inv_perm p ! nat (p ! i) = int i"
proof -
  assume p: "is_perm p n" and i: "i < n"
  then have k: "nat (p ! i) < n" "p ! i \<ge> 0" using is_perm_nth [OF p i] by auto
  note iv = inv_perm_nth [OF p k(1)]
  then have "p ! nat (inv_perm p ! nat (p ! i)) = p ! i" using k by simp
  then have "nat (inv_perm p ! nat (p ! i)) = i"
    using p i iv(1,2) by (simp add: is_perm_def nth_eq_iff_index_eq)
  with iv(1) show ?thesis by linarith
qed

lemma is_perm_inv: "is_perm p n \<Longrightarrow> is_perm (inv_perm p) n"
proof -
  assume p: "is_perm p n"
  then have len: "length (inv_perm p) = n" by (simp add: inv_perm_def is_perm_def)
  have d: "distinct (inv_perm p)"
    unfolding distinct_conv_nth
  proof (intro allI impI)
    fix i j assume "i < length (inv_perm p)" "j < length (inv_perm p)" "i \<noteq> j"
    then show "inv_perm p ! i \<noteq> inv_perm p ! j"
      using inv_perm_nth(3) [OF p, of i] inv_perm_nth(3) [OF p, of j] len by auto
  qed
  have "set (inv_perm p) \<subseteq> {0..<int n}"
    using inv_perm_nth(1,2) [OF p] len by (auto simp: in_set_conv_nth)
  moreover have "card (set (inv_perm p)) = card {0..<int n}"
    using d len by (simp add: distinct_card)
  ultimately have "set (inv_perm p) = {0..<int n}" by (intro card_subset_eq) auto
  with d len show ?thesis by (simp add: is_perm_def)
qed

lemma permuted_inv: "is_perm p n \<Longrightarrow> length x = n \<Longrightarrow> permuted (inv_perm p) (permuted p x) = x"
proof -
  assume p: "is_perm p n" and x: "length x = n"
  then have l: "length p = n" "length (inv_perm p) = n" by (simp_all add: is_perm_def inv_perm_def)
  show ?thesis
  proof (rule nth_equalityI)
    fix k assume "k < length (permuted (inv_perm p) (permuted p x))"
    then have k: "k < n" using l by (simp add: permuted_def)
    with inv_perm_nth [OF p k] l show "permuted (inv_perm p) (permuted p x) ! k = x ! k"
      by (auto simp: permuted_def)
  qed (use x l in \<open>simp add: permuted_def\<close>)
qed

lemma permuted_inv': "is_perm p n \<Longrightarrow> length x = n \<Longrightarrow> permuted p (permuted (inv_perm p) x) = x"
proof -
  assume p: "is_perm p n" and x: "length x = n"
  then have l: "length p = n" by (simp add: is_perm_def)
  show ?thesis
  proof (rule nth_equalityI)
    fix i assume "i < length (permuted p (permuted (inv_perm p) x))"
    then have i: "i < n" using l by (simp add: permuted_def)
    with is_perm_nth [OF p i] inv_perm_left [OF p i] l
    show "permuted p (permuted (inv_perm p) x) ! i = x ! i"
      by (auto simp: permuted_def inv_perm_def is_perm_def)
  qed (use x l in \<open>simp add: permuted_def\<close>)
qed

lemma permuted_in:
  assumes "is_perm p (length sh)" and "inBounds idx sh"
  shows "inBounds (permuted p idx) (permuted p sh)"
proof (rule inBoundsI)
  fix k assume "k < length (permuted p sh)"
  then have k: "k < length p" "k < length sh" using assms(1) by (auto simp: permuted_def is_perm_def)
  then have "nat (p ! k) < length sh" using is_perm_nth [OF assms(1) k(2)] by auto
  from inBoundsD [OF assms(2) this] k
  show "0 \<le> permuted p idx ! k \<and> permuted p idx ! k < permuted p sh ! k" by (simp add: permuted_def)
qed (simp add: permuted_def)

lemma permute_eq: "is_perm p (length sh) \<Longrightarrow> inBounds idx sh \<Longrightarrow> permute idx p = Inr (permuted p idx)"
  unfolding permuted_def
  by (rule permute_full) (auto simp: is_perm_def inBounds_length dest: is_perm_nth [unfolded is_perm_def])

lemma evalTransposeOp_denotes:
  assumes "lib_ok L" and "denotes a T g" and "storable R" and "element_type R = element_type T"
    and "is_perm p (length (shape_of T))" and "shape_of R = permuted p (shape_of T)"
  shows "\<exists>r. evalTransposeOp L a p R = Inr r \<and> denotes r R (\<lambda>idx. g (permuted (inv_perm p) idx))"
proof -
  let ?S = "shape_of T"
  note a = denotes_type [OF assms(2)]
  from new_tensor_ok [OF assms(3)] obtain r0 where r0: "new_tensor R = Inr r0" "t_type r0 = R" "wf_tensor r0"
    by auto
  have "\<exists>r. for_each_index ?S (\<lambda>r i. bnd (permute i p) (\<lambda>j. bnd (tensor_get a i) (tensor_set L r j))) r0 = Inr r \<and>
    wf_tensor r \<and> t_type r = t_type r0 \<and>
    (\<forall>i j. inBounds i ?S \<longrightarrow> Some (permuted p i) = Some j \<longrightarrow> tensor_get r j = Inr (g i)) \<and>
    (\<forall>j. inBounds j (t_shape r0) \<longrightarrow> (\<forall>i. inBounds i ?S \<longrightarrow> Some (permuted p i) \<noteq> Some j) \<longrightarrow>
      tensor_get r j = tensor_get r0 j)"
  proof (rule scatter_tensor [OF assms(1) r0(3) denotes_static [OF assms(2)]])
    fix i i' j assume "inBounds i ?S" "inBounds i' ?S" "Some (permuted p i) = Some j" "Some (permuted p i') = Some j"
    then have "permuted p i = permuted p i'" "length i = length ?S" "length i' = length ?S"
      by (simp_all add: inBounds_length)
    then show "g i = g i'" by (metis permuted_inv [OF assms(5)])
  qed (use assms permute_eq permuted_in r0(2) denotes_get denotes_ok in auto)
  then obtain r where r: "evalTransposeOp L a p R = Inr r" "wf_tensor r" "t_type r = R"
    "\<And>i. inBounds i ?S \<Longrightarrow> tensor_get r (permuted p i) = Inr (g i)"
    using r0 a by (auto simp: evalTransposeOp_def)
  have "tensor_get r j = Inr (g (permuted (inv_perm p) j))" if j: "inBounds j (shape_of R)" for j
  proof -
    have len: "length j = length ?S" "length (shape_of R) = length ?S"
      using j assms(5,6) by (auto simp: inBounds_length permuted_def is_perm_def)
    have "inBounds (permuted (inv_perm p) j) (permuted (inv_perm p) (shape_of R))"
      using permuted_in [of "inv_perm p" "shape_of R" j] is_perm_inv [OF assms(5)] len j by simp
    then have "inBounds (permuted (inv_perm p) j) ?S"
      using permuted_inv [OF assms(5), of ?S] assms(6) by simp
    from r(4) [OF this] permuted_inv' [OF assms(5) len(1)] show ?thesis by simp
  qed
  with r show ?thesis by (auto simp: denotes_def)
qed

end
