(* ===== verification/ReshapeLaws.thy ===== *)
theory ReshapeLaws
  imports MovementLaws
begin

text \<open>
  The evaluators of \<open>OpsMovement\<close> whose loops do more than copy one tensor in one pass:
  reshapes (two iterators in lock step), dynamic slices and updates, padding, concatenation.
\<close>

section \<open>Reshape\<close>

definition it_at :: "sizes \<Rightarrow> int \<Rightarrow> iter" where
  "it_at sh k = \<lparr>it_shape = sh, it_index = (if k < num_elements sh then Some (unflat sh k) else None)\<rparr>"

lemma iter_incr_at:
  assumes "static_shape sh" and "0 \<le> k" and "k < num_elements sh"
  shows "iter_incr (it_at sh k) = Inr (it_at sh (k + 1))"
proof -
  have ib: "inBounds (unflat sh k) sh" "flat sh (unflat sh k) = k"
    using assms by (auto intro: unflat_inBounds flat_unflat)
  with assms(3) show ?thesis
    by (simp add: it_at_def iter_incr_next next_index_def)
qed

lemma reshape_loop:
  assumes "static_shape S" and "0 \<le> k" and "k \<le> N" and "N = num_elements S"
  shows "foldM (\<lambda>(t, it) j. bnd (iter_deref it) (\<lambda>i. bnd (tensor_get a i) (\<lambda>e.
      bnd (tensor_set L t j e) (\<lambda>t. bnd (iter_incr it) (\<lambda>it. Inr (t, it)))))) (t, it_at S k)
      (map (unflat R) [k..N - 1]) =
    bnd (foldM (\<lambda>t k. bnd (tensor_get a (unflat S k)) (tensor_set L t (unflat R k))) t [k..N - 1])
      (\<lambda>t. Inr (t, it_at S N))"
  using assms(2,3)
proof (induction "nat (N - k)" arbitrary: k t)
  case (Suc n)
  then have k: "k < N" "[k..N - 1] = k # [k + 1..N - 1]" by (auto simp: upto_rec1)
  have "iter_deref (it_at S k) = Inr (unflat S k)"
    using k assms(4) by (simp add: it_at_def iter_deref_def)
  moreover have "iter_incr (it_at S k) = Inr (it_at S (k + 1))"
    using iter_incr_at [OF assms(1) Suc.prems(1)] k assms(4) by simp
  moreover have "n = nat (N - (k + 1))" using Suc.hyps(2) by linarith
  ultimately show ?case
    using k Suc.hyps(1) [of "k + 1"] Suc.prems by (simp add: bnd_assoc)
qed (use assms in auto)

lemma evalReshapeOp_denotes:
  assumes "lib_ok L" and "denotes a T g" and "storable R" and "element_type R = element_type T"
    and "num_elements (shape_of R) = num_elements (shape_of T)"
  shows "\<exists>r. evalReshapeOp L a R = Inr r \<and>
    denotes r R (\<lambda>idx. g (unflat (shape_of T) (flat (shape_of R) idx)))"
proof -
  let ?S = "shape_of T" and ?R = "shape_of R"
  let ?N = "num_elements ?S"
  note sS = denotes_static [OF assms(2)] and sR = storableD(1) [OF assms(3)]
  let ?f = "\<lambda>k. tensor_get a (unflat ?S (flat ?R k))"
  from new_tensor_ok [OF assms(3)] obtain r0 where r0: "new_tensor R = Inr r0" "t_type r0 = R" "wf_tensor r0"
    by auto
  have in': "inBounds (unflat ?S (flat ?R j)) ?S" if "inBounds j ?R" for j
    using unflat_inBounds [OF sS] flat_bounds [OF that] assms(5) by simp
  have "\<exists>r. for_each_index ?R (\<lambda>t j. bnd (?f j) (tensor_set L t j)) r0 = Inr r \<and> (lib_ok L \<and> wf_tensor r) \<and>
      t_type r = t_type r0 \<and> (\<forall>j. inBounds j ?R \<longrightarrow> tensor_get r j = Inr (g (unflat ?S (flat ?R j))))"
    using store.set_all [of L r0 ?f "\<lambda>j. g (unflat ?S (flat ?R j))"] assms r0 in' denotes_get denotes_ok by auto
  then obtain r where r: "foldM (\<lambda>t j. bnd (?f j) (tensor_set L t j)) r0 (map (unflat ?R) [0..?N - 1]) = Inr r"
    "wf_tensor r" "t_type r = R" "\<And>j. inBounds j ?R \<Longrightarrow> tensor_get r j = Inr (g (unflat ?S (flat ?R j)))"
    using r0(2) assms(5) by (auto simp: for_each_index_eq [OF sR] index_space_def)
  have "foldM (\<lambda>t k. bnd (tensor_get a (unflat ?S k)) (tensor_set L t (unflat ?R k))) r0 [0..?N - 1] = Inr r"
  proof -
    have "foldM (\<lambda>t k. bnd (?f (unflat ?R k)) (tensor_set L t (unflat ?R k))) r0 [0..?N - 1] =
        foldM (\<lambda>t k. bnd (tensor_get a (unflat ?S k)) (tensor_set L t (unflat ?R k))) r0 [0..?N - 1]"
      by (rule foldM_cong) (use flat_unflat [OF sR] assms(5) in auto)
    with r(1) show ?thesis by (simp add: foldM_map)
  qed
  with reshape_loop [OF sS, of 0 ?N a L r0 ?R] r0 assms(5) sS denotes_type [OF assms(2)]
  have "evalReshapeOp L a R = Inr r"
    by (simp add: evalReshapeOp_def index_begin_static it_at_def [symmetric] for_each_index_eq [OF sR]
        index_space_def)
  with r show ?thesis by (auto simp: denotes_def)
qed

section \<open>Dynamic slices\<close>

definition adjusted :: "sizes \<Rightarrow> sizes \<Rightarrow> sizes \<Rightarrow> sizes" where
  "adjusted sh sizes starts = map (\<lambda>k. min (max (starts ! k) 0) (sh ! k - sizes ! k)) [0..<length sh]"

definition window_fits :: "sizes \<Rightarrow> sizes \<Rightarrow> sizes \<Rightarrow> bool" where
  "window_fits sh sizes starts \<longleftrightarrow> length sizes = length sh \<and> length starts = length sh \<and>
     (\<forall>k < length sh. 0 \<le> sizes ! k \<and> sizes ! k \<le> sh ! k)"

lemma adjusted_eq:
  assumes "window_fits sh sizes starts" and "\<And>k. k < length sh \<Longrightarrow> i64_ok (sh ! k)"
  shows "bnd (sizes_sub sh sizes) (\<lambda>limit. bnd (clamp_int 0 starts limit) f) = f (adjusted sh sizes starts)"
proof -
  have "sizes_sub sh sizes = Inr (map2 (-) sh sizes)"
  proof (rule sizes_sub_map2)
    fix k assume "k < length sh"
    with assms(1) assms(2) [of k] show "i64_ok (sh ! k - sizes ! k)"
      unfolding window_fits_def i64_ok_def by (elim conjE allE [of _ k]) linarith
  qed (use assms(1) in \<open>simp add: window_fits_def\<close>)
  moreover have "clamp_int 0 starts (map2 (-) sh sizes) = Inr (adjusted sh sizes starts)"
    using assms(1) by (auto simp: clamp_int_eq_Inr adjusted_def window_fits_def)
  ultimately show ?thesis by simp
qed

lemma adjusted_in:
  assumes "window_fits sh sizes starts" and "inBounds idx sizes"
  shows "inBounds (map2 (+) (adjusted sh sizes starts) idx) sh"
proof (rule inBoundsI)
  have len: "length idx = length sh" "length sizes = length sh"
    using assms by (auto simp: window_fits_def inBounds_length)
  then show "length (map2 (+) (adjusted sh sizes starts) idx) = length sh" by (simp add: adjusted_def)
  fix k assume k: "k < length sh"
  then have "sizes ! k \<le> sh ! k" using assms(1) by (simp add: window_fits_def)
  with inBoundsD [OF assms(2), of k] k len
  show "0 \<le> map2 (+) (adjusted sh sizes starts) idx ! k \<and> map2 (+) (adjusted sh sizes starts) idx ! k < sh ! k"
    by (simp add: adjusted_def) linarith
qed

lemma adjusted_add:
  assumes "window_fits sh sizes starts" and "inBounds idx sizes" and "\<And>k. k < length sh \<Longrightarrow> i64_ok (sh ! k)"
  shows "sizes_add (adjusted sh sizes starts) idx = Inr (map2 (+) (adjusted sh sizes starts) idx)"
    and "sizes_add idx (adjusted sh sizes starts) = Inr (map2 (+) (adjusted sh sizes starts) idx)"
proof -
  let ?adj = "adjusted sh sizes starts"
  have len: "length idx = length sh" "length ?adj = length sh"
    using assms by (auto simp: window_fits_def inBounds_length adjusted_def)
  have ok: "i64_ok (?adj ! k + idx ! k)" if k: "k < length sh" for k
    using inBoundsD [OF adjusted_in [OF assms(1,2)] k] assms(3) [OF k] len k by (simp add: i64_ok_def)
  show "sizes_add ?adj idx = Inr (map2 (+) ?adj idx)"
    by (rule sizes_add_map2) (use len ok in auto)
  show "sizes_add idx ?adj = Inr (map2 (+) ?adj idx)"
    using len ok by (simp add: sizes_add_eq_Inr add.commute)
qed

lemma evalDynamicSliceOp_denotes:
  assumes "lib_ok L" and "denotes a T g" and "storable R" and "element_type R = element_type T"
    and "evalIndices is = Inr starts" and "window_fits (shape_of T) (shape_of R) starts"
  shows "\<exists>r. evalDynamicSliceOp L a is (shape_of R) R = Inr r \<and>
    denotes r R (\<lambda>idx. g (map2 (+) (adjusted (shape_of T) (shape_of R) starts) idx))"
proof -
  let ?adj = "adjusted (shape_of T) (shape_of R) starts"
  note ok = storableD(7) [OF denotes_storable [OF assms(2)]]
  have eq: "evalDynamicSliceOp L a is (shape_of R) R =
      compute L R (\<lambda>idx. bnd (sizes_add ?adj idx) (tensor_get a))"
    using assms(5) denotes_type [OF assms(2)]
    by (simp add: evalDynamicSliceOp_def compute_def adjusted_eq [OF assms(6) ok])
  show ?thesis unfolding eq
  proof (rule compute_denotes [OF assms(1,3)])
    fix idx assume ib: "inBounds idx (shape_of R)"
    note si = adjusted_in [OF assms(6) ib]
    show "bnd (sizes_add ?adj idx) (tensor_get a) = Inr (g (map2 (+) ?adj idx)) \<and>
      elem_ok (element_type R) (g (map2 (+) ?adj idx))"
      using adjusted_add(1) [OF assms(6) ib ok] denotes_get [OF assms(2) si] denotes_ok [OF assms(2) si] assms(4)
      by simp
  qed
qed

lemma evalDynamicUpdateSliceOp_denotes:
  assumes "lib_ok L" and "denotes a T g" and "denotes u U h" and "storable R"
    and "element_type R = element_type T" and "element_type U = element_type T" and "shape_of R = shape_of T"
    and "evalIndices is = Inr starts" and "window_fits (shape_of T) (shape_of U) starts"
  defines "adj \<equiv> adjusted (shape_of T) (shape_of U) starts"
  shows "\<exists>r. evalDynamicUpdateSliceOp L a u is R = Inr r \<and>
    denotes r R (\<lambda>idx. if inBounds (map2 (-) idx adj) (shape_of U) then h (map2 (-) idx adj) else g idx)"
proof -
  let ?U = "shape_of U"
  note ok = storableD(7) [OF denotes_storable [OF assms(2)]]
  have len: "length adj = length (shape_of T)" "length ?U = length (shape_of T)"
    using assms(9) by (simp_all add: adj_def adjusted_def window_fits_def)
  obtain r0 where r0: "compute L R (tensor_get a) = Inr r0" "denotes r0 R g"
    by (rule computeE [OF assms(1,4), of "tensor_get a" g])
      (use assms(5,7) denotes_get [OF assms(2)] denotes_ok [OF assms(2)] in auto)
  let ?body = "\<lambda>r i. bnd (sizes_add i adj) (\<lambda>j. bnd (tensor_get u i) (tensor_set L r j))"
  have "\<exists>r. for_each_index ?U ?body r0 = Inr r \<and> wf_tensor r \<and> t_type r = t_type r0 \<and>
    (\<forall>i j. inBounds i ?U \<longrightarrow> Some (map2 (+) adj i) = Some j \<longrightarrow> tensor_get r j = Inr (h i)) \<and>
    (\<forall>j. inBounds j (t_shape r0) \<longrightarrow> (\<forall>i. inBounds i ?U \<longrightarrow> Some (map2 (+) adj i) \<noteq> Some j) \<longrightarrow>
      tensor_get r j = tensor_get r0 j)"
  proof (rule scatter_tensor [OF assms(1) denotes_wf [OF r0(2)] denotes_static [OF assms(3)]])
    fix i i' j assume i: "inBounds i ?U" "inBounds i' ?U" "Some (map2 (+) adj i) = Some j" "Some (map2 (+) adj i') = Some j"
    then have "length i = length adj" "length i' = length adj" "map2 (+) adj i = map2 (+) adj i'"
      using len by (simp_all add: inBounds_length)
    then have "i = i'" by (auto simp: list_eq_iff_nth_eq)
    then show "h i = h i'" by simp
  next
    fix w i assume "inBounds i ?U"
    with adjusted_add(2) [OF assms(9) _ ok] denotes_get [OF assms(3)]
    show "?body w i = (case Some (map2 (+) adj i) of None \<Rightarrow> Inr w | Some j \<Rightarrow> tensor_set L w j (h i))"
      by (simp add: adj_def)
  next
    fix i j assume "inBounds i ?U" "Some (map2 (+) adj i) = Some j"
    with adjusted_in [OF assms(9)] denotes_ok [OF assms(3)] denotes_type [OF r0(2)] assms(5,6,7)
    show "inBounds j (t_shape r0) \<and> elem_ok (t_elem r0) (h i)" by (auto simp: adj_def)
  qed
  then obtain r where r: "for_each_index ?U ?body r0 = Inr r" "wf_tensor r" "t_type r = R"
    "\<And>i. inBounds i ?U \<Longrightarrow> tensor_get r (map2 (+) adj i) = Inr (h i)"
    "\<And>j. inBounds j (shape_of R) \<Longrightarrow> (\<forall>i. inBounds i ?U \<longrightarrow> map2 (+) adj i \<noteq> j) \<Longrightarrow>
      tensor_get r j = tensor_get r0 j"
    using denotes_type [OF r0(2)] by auto
  have "tensor_get r j = Inr (if inBounds (map2 (-) j adj) ?U then h (map2 (-) j adj) else g j)"
    if j: "inBounds j (shape_of R)" for j
  proof (cases "inBounds (map2 (-) j adj) ?U")
    case True
    have "map2 (+) adj (map2 (-) j adj) = j"
      using len j assms(7) by (intro nth_equalityI) (auto simp: inBounds_length)
    with r(4) [OF True] True show ?thesis by simp
  next
    case False
    have "map2 (-) (map2 (+) adj i) adj = i" if "inBounds i ?U" for i
      using len that by (intro nth_equalityI) (auto simp: inBounds_length)
    with False have "\<forall>i. inBounds i ?U \<longrightarrow> map2 (+) adj i \<noteq> j" by auto
    with r(5) [OF j] False denotes_get [OF r0(2) j] show ?thesis by simp
  qed
  moreover have "evalDynamicUpdateSliceOp L a u is R = Inr r"
    using r(1) r0(1) assms(8) denotes_type [OF assms(2)] denotes_type [OF assms(3)]
    by (auto simp: evalDynamicUpdateSliceOp_def compute_def adj_def adjusted_eq [OF assms(9) ok] bnd_eq_Inr)
  ultimately show ?thesis using r(2,3) by (auto simp: denotes_def)
qed

section \<open>Pad\<close>

definition pad_index :: "sizes \<Rightarrow> sizes \<Rightarrow> sizes \<Rightarrow> sizes" where
  "pad_index low interior idx = map (\<lambda>k. low ! k + idx ! k * (interior ! k + 1)) [0..<length idx]"

text \<open>The operand index a result index comes from, and whether there is one.\<close>

definition pad_source :: "sizes \<Rightarrow> sizes \<Rightarrow> sizes \<Rightarrow> sizes" where
  "pad_source low interior idx = map (\<lambda>k. (idx ! k - low ! k) div (interior ! k + 1)) [0..<length idx]"

definition from_operand :: "sizes \<Rightarrow> sizes \<Rightarrow> sizes \<Rightarrow> sizes \<Rightarrow> bool" where
  "from_operand sh low interior idx \<longleftrightarrow> inBounds (pad_source low interior idx) sh \<and>
     pad_index low interior (pad_source low interior idx) = idx"

definition pad_fits :: "sizes \<Rightarrow> sizes \<Rightarrow> sizes \<Rightarrow> sizes \<Rightarrow> bool" where
  "pad_fits sh low interior rsh \<longleftrightarrow> length low = length sh \<and> length interior = length sh \<and>
     length rsh = length sh \<and>
     (\<forall>k < length sh. 0 \<le> interior ! k \<and> i64_ok (interior ! k + 1) \<and> i64_ok (low ! k) \<and>
        i64_ok ((sh ! k - 1) * (interior ! k + 1)) \<and> i64_ok (low ! k + (sh ! k - 1) * (interior ! k + 1)))"

lemma pad_step_eq:
  assumes "pad_fits sh low interior rsh" and "inBounds idx sh"
  shows "bnd (sizes_add_int interior 1) (\<lambda>steps. bnd (sizes_mul idx steps) (\<lambda>spread. bnd (sizes_add low spread) f)) =
    f (pad_index low interior idx)"
proof -
  have len: "length idx = length sh" "length low = length sh" "length interior = length sh"
    using assms by (auto simp: pad_fits_def inBounds_length)
  have each: "i64_ok (interior ! k + 1)" "i64_ok (idx ! k * (interior ! k + 1))"
    "i64_ok (low ! k + idx ! k * (interior ! k + 1))" if k: "k < length sh" for k
  proof -
    have p: "0 \<le> interior ! k" "i64_ok (interior ! k + 1)" "i64_ok (low ! k)"
      "i64_ok ((sh ! k - 1) * (interior ! k + 1))" "i64_ok (low ! k + (sh ! k - 1) * (interior ! k + 1))"
      using assms(1) k by (auto simp: pad_fits_def)
    have i: "0 \<le> idx ! k" "idx ! k \<le> sh ! k - 1" using inBoundsD [OF assms(2) k] by auto
    have m: "0 \<le> idx ! k * (interior ! k + 1)" "idx ! k * (interior ! k + 1) \<le> (sh ! k - 1) * (interior ! k + 1)"
      using i p(1) by (auto intro: mult_right_mono)
    show "i64_ok (interior ! k + 1)" by (rule p(2))
    show "i64_ok (idx ! k * (interior ! k + 1))" using p(4) m unfolding i64_ok_def by linarith
    show "i64_ok (low ! k + idx ! k * (interior ! k + 1))" using p(3,5) m unfolding i64_ok_def by linarith
  qed
  have "sizes_add_int interior 1 = Inr (map (\<lambda>x. x + 1) interior)"
    using each(1) len by (simp add: sizes_add_int_eq_Inr)
  moreover have "sizes_mul idx (map (\<lambda>x. x + 1) interior) = Inr (map2 (*) idx (map (\<lambda>x. x + 1) interior))"
    by (rule sizes_mul_map2) (use each(2) len in auto)
  moreover have "sizes_add low (map2 (*) idx (map (\<lambda>x. x + 1) interior)) =
      Inr (map2 (+) low (map2 (*) idx (map (\<lambda>x. x + 1) interior)))"
    by (rule sizes_add_map2) (use each(3) len in auto)
  moreover have "map2 (+) low (map2 (*) idx (map (\<lambda>x. x + 1) interior)) = pad_index low interior idx"
    using len by (intro nth_equalityI) (auto simp: pad_index_def)
  ultimately show ?thesis by simp
qed

lemma pad_source_index:
  assumes "pad_fits sh low interior rsh" and "inBounds idx sh"
  shows "pad_source low interior (pad_index low interior idx) = idx"
proof (rule nth_equalityI)
  have len: "length idx = length sh" using assms(2) by (simp add: inBounds_length)
  fix k assume "k < length (pad_source low interior (pad_index low interior idx))"
  then have k: "k < length idx" by (simp add: pad_source_def pad_index_def)
  then have "0 < interior ! k + 1" using assms(1) len by (force simp: pad_fits_def)
  with k show "pad_source low interior (pad_index low interior idx) ! k = idx ! k"
    by (simp add: pad_source_def pad_index_def)
qed (simp add: pad_source_def pad_index_def)

lemma evalPadOp_denotes:
  assumes "lib_ok L" and "denotes a T g" and "denotes pv P h" and "shape_of P = []" and "storable R"
    and "element_type R = element_type T" and "element_type P = element_type T"
    and "pad_fits (shape_of T) low interior (shape_of R)"
  shows "\<exists>r. evalPadOp L a pv low interior R = Inr r \<and>
    denotes r R (\<lambda>idx. if from_operand (shape_of T) low interior idx then g (pad_source low interior idx) else h [])"
proof -
  let ?S = "shape_of T" and ?p = "pad_index low interior"
  have pv: "tensor_get pv [] = Inr (h [])" "elem_ok (element_type R) (h [])"
    using denotes_get [OF assms(3), of "[]"] denotes_ok [OF assms(3), of "[]"] assms(4,6,7) by auto
  obtain r0 where r0: "compute L R (\<lambda>idx. tensor_get pv []) = Inr r0" "denotes r0 R (\<lambda>idx. h [])"
    by (rule computeE [OF assms(1,5), of "\<lambda>idx. tensor_get pv []" "\<lambda>idx. h []"]) (use pv in auto)
  let ?body = "\<lambda>r i. bnd (sizes_add_int interior 1) (\<lambda>steps. bnd (sizes_mul i steps) (\<lambda>spread.
    bnd (sizes_add low spread) (\<lambda>j. if inBounds j (t_shape r) then bnd (tensor_get a i) (tensor_set L r j) else Inr r)))"
  let ?pos = "\<lambda>i. if inBounds (?p i) (shape_of R) then Some (?p i) else None"
  have "\<exists>r. for_each_index ?S ?body r0 = Inr r \<and> wf_tensor r \<and> t_type r = t_type r0 \<and>
    (\<forall>i j. inBounds i ?S \<longrightarrow> ?pos i = Some j \<longrightarrow> tensor_get r j = Inr (g i)) \<and>
    (\<forall>j. inBounds j (t_shape r0) \<longrightarrow> (\<forall>i. inBounds i ?S \<longrightarrow> ?pos i \<noteq> Some j) \<longrightarrow>
      tensor_get r j = tensor_get r0 j)"
  proof (rule scatter_tensor [OF assms(1) denotes_wf [OF r0(2)] denotes_static [OF assms(2)]])
    fix i i' j assume i: "inBounds i ?S" "inBounds i' ?S" "?pos i = Some j" "?pos i' = Some j"
    then have "?p i = ?p i'" by (auto split: if_splits)
    with i(1,2) have "i = i'" by (metis pad_source_index [OF assms(8)])
    then show "g i = g i'" by simp
  next
    fix w :: tensor and i assume "inBounds i ?S" "t_type w = t_type r0"
    with denotes_get [OF assms(2)] denotes_type [OF r0(2)]
    show "?body w i = (case ?pos i of None \<Rightarrow> Inr w | Some j \<Rightarrow> tensor_set L w j (g i))"
      by (simp add: pad_step_eq [OF assms(8)])
  next
    fix i j assume "inBounds i ?S" "?pos i = Some j"
    with denotes_ok [OF assms(2)] denotes_type [OF r0(2)] assms(6)
    show "inBounds j (t_shape r0) \<and> elem_ok (t_elem r0) (g i)" by (auto split: if_splits)
  qed
  then obtain r where r: "for_each_index ?S ?body r0 = Inr r" "wf_tensor r" "t_type r = R"
    "\<And>i. inBounds i ?S \<Longrightarrow> inBounds (?p i) (shape_of R) \<Longrightarrow> tensor_get r (?p i) = Inr (g i)"
    "\<And>j. inBounds j (shape_of R) \<Longrightarrow> (\<forall>i. inBounds i ?S \<longrightarrow> ?pos i \<noteq> Some j) \<Longrightarrow>
      tensor_get r j = Inr (h [])"
    using denotes_type [OF r0(2)] denotes_get [OF r0(2)] by auto
  have "tensor_get r j = Inr (if from_operand ?S low interior j then g (pad_source low interior j) else h [])"
    if j: "inBounds j (shape_of R)" for j
  proof (cases "from_operand ?S low interior j")
    case True
    then have "inBounds (pad_source low interior j) ?S" "?p (pad_source low interior j) = j"
      by (simp_all add: from_operand_def)
    with r(4) [of "pad_source low interior j"] j True show ?thesis by simp
  next
    case False
    have "?pos i \<noteq> Some j" if "inBounds i ?S" for i
      using False pad_source_index [OF assms(8) that] that by (auto simp: from_operand_def split: if_splits)
    with r(5) [OF j] False show ?thesis by simp
  qed
  moreover have "evalPadOp L a pv low interior R = Inr r"
    using r(1) r0(1) denotes_type [OF assms(2)] by (auto simp: evalPadOp_def compute_def bnd_eq_Inr)
  ultimately show ?thesis using r(2,3) by (auto simp: denotes_def)
qed

section \<open>Concatenate\<close>

fun concat_at :: "nat \<Rightarrow> (ty \<times> (sizes \<Rightarrow> element)) list \<Rightarrow> sizes \<Rightarrow> element" where
  "concat_at d [(T, g)] idx = g idx"
| "concat_at d ((T, g) # x # xs) idx =
     (if idx ! d < shape_of T ! d then g idx else concat_at d (x # xs) (idx[d := idx ! d - shape_of T ! d]))"

definition concat_fits :: "nat \<Rightarrow> ty list \<Rightarrow> ty \<Rightarrow> bool" where
  "concat_fits d Ts R \<longleftrightarrow> d < length (shape_of R) \<and>
     (\<forall>T \<in> set Ts. element_type T = element_type R \<and> length (shape_of T) = length (shape_of R) \<and>
        (\<forall>k < length (shape_of R). k \<noteq> d \<longrightarrow> shape_of T ! k = shape_of R ! k))"

lemma concat_input:
  assumes "lib_ok L" and "denotes a T g" and "wf_tensor r0" and "t_type r0 = R" and "concat_fits d [T] R"
    and "0 \<le> off" and "off + shape_of T ! d \<le> shape_of R ! d"
  shows "\<exists>r. for_each_index (shape_of T) (\<lambda>r i. bnd (at i (int d)) (\<lambda>x. bnd (i64 (x + off)) (\<lambda>y.
        bnd (put i (int d) y) (\<lambda>j. bnd (tensor_get a i) (tensor_set L r j))))) r0 = Inr r \<and>
    wf_tensor r \<and> t_type r = R \<and>
    (\<forall>j. inBounds j (shape_of R) \<longrightarrow> tensor_get r j =
      (if off \<le> j ! d \<and> j ! d < off + shape_of T ! d then Inr (g (j[d := j ! d - off])) else tensor_get r0 j))"
proof -
  let ?S = "shape_of T" and ?R = "shape_of R" and ?p = "\<lambda>i::sizes. i[d := i ! d + off]"
  have d: "d < length ?R" "d < length ?S" "length ?S = length ?R" "element_type T = element_type R"
    and same: "\<And>k. k < length ?R \<Longrightarrow> k \<noteq> d \<Longrightarrow> ?S ! k = ?R ! k"
    using assms(5) by (auto simp: concat_fits_def)
  have in': "inBounds (?p i) ?R" if "inBounds i ?S" for i
  proof (rule inBoundsI)
    fix k assume k: "k < length ?R"
    with inBoundsD [OF that, of k] inBoundsD [OF that d(2)] same [of k] d assms(6,7) inBounds_length [OF that]
    show "0 \<le> ?p i ! k \<and> ?p i ! k < ?R ! k" by (cases "k = d") auto
  qed (use d inBounds_length [OF that] in simp)
  have ok: "i64_ok (i ! d + off)" if "inBounds i ?S" for i
    using inBoundsD [OF in' [OF that] d(1)] storableD(7) [OF wf_tensor_storable [OF assms(3)], of d] d(1,2)
      assms(4) inBounds_length [OF that] by (simp add: i64_ok_def)
  have "\<exists>r. for_each_index ?S (\<lambda>r i. bnd (at i (int d)) (\<lambda>x. bnd (i64 (x + off)) (\<lambda>y.
        bnd (put i (int d) y) (\<lambda>j. bnd (tensor_get a i) (tensor_set L r j))))) r0 = Inr r \<and>
    wf_tensor r \<and> t_type r = t_type r0 \<and>
    (\<forall>i j. inBounds i ?S \<longrightarrow> Some (?p i) = Some j \<longrightarrow> tensor_get r j = Inr (g i)) \<and>
    (\<forall>j. inBounds j (t_shape r0) \<longrightarrow> (\<forall>i. inBounds i ?S \<longrightarrow> Some (?p i) \<noteq> Some j) \<longrightarrow>
      tensor_get r j = tensor_get r0 j)"
  proof (rule scatter_tensor [OF assms(1,3) denotes_static [OF assms(2)]])
    fix i i' j assume i: "inBounds i ?S" "inBounds i' ?S" "Some (?p i) = Some j" "Some (?p i') = Some j"
    then have "(?p i)[d := ?p i ! d - off] = (?p i')[d := ?p i' ! d - off]" by simp
    then have "i = i'" using d i(1,2) by (simp add: inBounds_length)
    then show "g i = g i'" by simp
  next
    fix w :: tensor and i assume i: "inBounds i ?S"
    with ok [OF i] d denotes_get [OF assms(2) i]
    show "bnd (at i (int d)) (\<lambda>x. bnd (i64 (x + off)) (\<lambda>y. bnd (put i (int d) y)
        (\<lambda>j. bnd (tensor_get a i) (tensor_set L w j)))) =
      (case Some (?p i) of None \<Rightarrow> Inr w | Some j \<Rightarrow> tensor_set L w j (g i))"
      by (simp add: inBounds_length i64_in put_nonneg)
  next
    fix i j assume "inBounds i ?S" "Some (?p i) = Some j"
    with in' denotes_ok [OF assms(2)] assms(4) d(4)
    show "inBounds j (t_shape r0) \<and> elem_ok (t_elem r0) (g i)" by auto
  qed
  then obtain r where r: "for_each_index ?S (\<lambda>r i. bnd (at i (int d)) (\<lambda>x. bnd (i64 (x + off)) (\<lambda>y.
        bnd (put i (int d) y) (\<lambda>j. bnd (tensor_get a i) (tensor_set L r j))))) r0 = Inr r"
    "wf_tensor r" "t_type r = R"
    "\<And>i. inBounds i ?S \<Longrightarrow> tensor_get r (?p i) = Inr (g i)"
    "\<And>j. inBounds j ?R \<Longrightarrow> (\<forall>i. inBounds i ?S \<longrightarrow> ?p i \<noteq> j) \<Longrightarrow> tensor_get r j = tensor_get r0 j"
    using assms(4) by auto
  have "tensor_get r j = (if off \<le> j ! d \<and> j ! d < off + ?S ! d then Inr (g (j[d := j ! d - off]))
      else tensor_get r0 j)" if j: "inBounds j ?R" for j
  proof (cases "off \<le> j ! d \<and> j ! d < off + ?S ! d")
    case True
    let ?i = "j[d := j ! d - off]"
    have len: "d < length j" "length j = length ?S" using j d by (auto simp: inBounds_length)
    have "inBounds ?i ?S"
    proof (rule inBoundsI)
      fix k assume "k < length ?S"
      with inBoundsD [OF j, of k] same [of k] d True len
      show "0 \<le> ?i ! k \<and> ?i ! k < ?S ! k" by (cases "k = d") auto
    qed (use len in simp)
    from r(4) [OF this] True len show ?thesis by simp
  next
    case False
    have "?p i \<noteq> j" if "inBounds i ?S" for i
      using False inBoundsD [OF that d(2)] d inBounds_length [OF that] by auto
    with r(5) [OF j] False show ?thesis by auto
  qed
  with r show ?thesis by blast
qed

lemma concat_loop:
  assumes "lib_ok L" and "list_all2 (\<lambda>a (T, g). denotes a T g) as Ts" and "wf_tensor r0" and "t_type r0 = R"
    and "concat_fits d (map fst Ts) R" and "0 \<le> off"
    and "off + (\<Sum>(T, g) \<leftarrow> Ts. shape_of T ! d) \<le> shape_of R ! d"
  shows "\<exists>r off'. foldM (\<lambda>(result, dimensionOffset) input.
         bnd (for_each_index (t_shape input) (\<lambda>result inputIdx.
             bnd (at inputIdx (int d)) (\<lambda>i. bnd (i64 (i + dimensionOffset)) (\<lambda>j.
             bnd (put inputIdx (int d) j) (\<lambda>resultIdx.
             bnd (tensor_get input inputIdx) (tensor_set L result resultIdx))))) result) (\<lambda>result.
         bnd (at (t_shape input) (int d)) (\<lambda>d. bnd (i64 (dimensionOffset + d)) (\<lambda>offset.
         Inr (result, offset))))) (r0, off) as = Inr (r, off') \<and> wf_tensor r \<and> t_type r = R \<and>
    (\<forall>j. inBounds j (shape_of R) \<longrightarrow> tensor_get r j =
      (if off \<le> j ! d \<and> j ! d < off + (\<Sum>(T, g) \<leftarrow> Ts. shape_of T ! d)
       then Inr (concat_at d Ts (j[d := j ! d - off])) else tensor_get r0 j))"
  using assms
proof (induction as arbitrary: Ts r0 off)
  case Nil
  then show ?case by auto
next
  case (Cons a as)
  from Cons.prems(2) obtain T g Us where Ts: "Ts = (T, g) # Us" "denotes a T g"
    "list_all2 (\<lambda>a (T, g). denotes a T g) as Us" by (cases Ts) auto
  let ?w = "shape_of T ! d" and ?sum = "\<Sum>(T, g) \<leftarrow> Us. shape_of T ! d"
  have fit: "concat_fits d [T] R" "concat_fits d (map fst Us) R" using Cons.prems(5) Ts by (auto simp: concat_fits_def)
  have d: "d < length (shape_of R)" "d < length (shape_of T)" using fit(1) by (auto simp: concat_fits_def)
  have static: "0 \<le> shape_of V ! d" if "(V, h) \<in> set Ts" for V h
  proof -
    from that Cons.prems(2) obtain b where "denotes b V h" by (auto simp: list_all2_conv_all_nth in_set_conv_nth)
    from denotes_static [OF this] have "\<forall>x \<in> set (shape_of V). 0 \<le> x" by (simp add: static_shape_def list_all_iff)
    moreover have "d < length (shape_of V)" using that Cons.prems(5) by (force simp: concat_fits_def)
    ultimately show ?thesis by simp
  qed
  have w: "0 \<le> ?w" by (rule static [of T g]) (simp add: Ts(1))
  have "0 \<le> x" if "x \<in> set (map (\<lambda>(T, g). shape_of T ! d) Us)" for x
    using that static Ts(1) by auto
  then have "0 \<le> ?sum" by (rule sum_list_nonneg)
  note sums = w this
  from concat_input [OF Cons.prems(1) Ts(2) Cons.prems(3,4) fit(1) Cons.prems(6)] sums Cons.prems(7) Ts(1)
  obtain r1 where r1: "for_each_index (shape_of T) (\<lambda>r i. bnd (at i (int d)) (\<lambda>x. bnd (i64 (x + off)) (\<lambda>y.
        bnd (put i (int d) y) (\<lambda>j. bnd (tensor_get a i) (tensor_set L r j))))) r0 = Inr r1"
    "wf_tensor r1" "t_type r1 = R"
    "\<And>j. inBounds j (shape_of R) \<Longrightarrow> tensor_get r1 j =
      (if off \<le> j ! d \<and> j ! d < off + ?w then Inr (g (j[d := j ! d - off])) else tensor_get r0 j)"
    by auto
  have "i64_ok (shape_of R ! d)"
    using storableD(7) [OF wf_tensor_storable [OF Cons.prems(3)], of d] d Cons.prems(4) by simp
  then have ok: "i64_ok (off + ?w)" using sums Cons.prems(6,7) Ts(1) by (simp add: i64_ok_def)
  from Cons.IH [OF Cons.prems(1) Ts(3) r1(2,3) fit(2), of "off + ?w"] sums Cons.prems(6,7) Ts(1)
  obtain r off' where r: "foldM (\<lambda>(result, dimensionOffset) input.
         bnd (for_each_index (t_shape input) (\<lambda>result inputIdx.
             bnd (at inputIdx (int d)) (\<lambda>i. bnd (i64 (i + dimensionOffset)) (\<lambda>j.
             bnd (put inputIdx (int d) j) (\<lambda>resultIdx.
             bnd (tensor_get input inputIdx) (tensor_set L result resultIdx))))) result) (\<lambda>result.
         bnd (at (t_shape input) (int d)) (\<lambda>d. bnd (i64 (dimensionOffset + d)) (\<lambda>offset.
         Inr (result, offset))))) (r1, off + ?w) as = Inr (r, off')" "wf_tensor r" "t_type r = R"
    "\<And>j. inBounds j (shape_of R) \<Longrightarrow> tensor_get r j =
      (if off + ?w \<le> j ! d \<and> j ! d < off + ?w + ?sum then Inr (concat_at d Us (j[d := j ! d - (off + ?w)]))
       else tensor_get r1 j)" by (auto simp: add.assoc)
  have "tensor_get r j = (if off \<le> j ! d \<and> j ! d < off + (?w + ?sum)
      then Inr (concat_at d Ts (j[d := j ! d - off])) else tensor_get r0 j)"
    if j: "inBounds j (shape_of R)" for j
  proof -
    have len: "d < length j" using d(1) inBounds_length [OF j] by simp
    show ?thesis
      using r(4) [OF j] r1(4) [OF j] Ts(1) sums len by (cases Us) (auto simp: diff_diff_eq)
  qed
  with r(1-3) r1(1) ok d(2) denotes_type [OF Ts(2)] show ?case by (simp add: Ts(1) i64_in)
qed

lemma evalConcatenateOp_denotes:
  assumes "lib_ok L" and "list_all2 (\<lambda>a (T, g). denotes a T g) as Ts" and "storable R"
    and "concat_fits d (map fst Ts) R" and "(\<Sum>(T, g) \<leftarrow> Ts. shape_of T ! d) = shape_of R ! d"
  shows "\<exists>r. evalConcatenateOp L as (int d) R = Inr r \<and> denotes r R (concat_at d Ts)"
proof -
  from new_tensor_ok [OF assms(3)] obtain r0 where r0: "new_tensor R = Inr r0" "t_type r0 = R" "wf_tensor r0"
    by auto
  have d: "d < length (shape_of R)" using assms(4) by (simp add: concat_fits_def)
  from concat_loop [OF assms(1,2) r0(3,2) assms(4), of 0] assms(5)
  obtain r off' where r: "evalConcatenateOp L as (int d) R = Inr r" "wf_tensor r" "t_type r = R"
    "\<And>j. inBounds j (shape_of R) \<Longrightarrow> tensor_get r j = (if 0 \<le> j ! d \<and> j ! d < shape_of R ! d
       then Inr (concat_at d Ts j) else tensor_get r0 j)"
    using r0(1) by (auto simp: evalConcatenateOp_def)
  with inBoundsD [OF _ d] show ?thesis by (auto simp: denotes_def)
qed

end
