(* ===== verification/HloBase.thy ===== *)
theory HloBase
  imports MlirTypes
begin

text \<open>
  \<open>stablehlo/dialect/Base.cpp\<close> and \<open>Base.h\<close>: compatibility of types up to dynamism and
  quantization, inference of dimensions with bounds, merging of types, tuples, and the two
  traits defined over them. A \<open>LogicalResult\<close> is a \<open>unit res\<close> and a \<open>FailureOr<T>\<close> a \<open>T res\<close>;
  a failure carries the constant part of the message the code emits.
\<close>

section \<open>MLIR interfaces\<close>

text \<open>
  A \<open>DenseIntElementsAttr\<close> (shape, element type, values), an operand with the constant it is
  known to be, if any (what \<open>matchPattern(value, m_Constant(&attr))\<close> finds), and
  \<open>ShapedTypeComponents\<close>.
\<close>

record dense_int =
  di_shape :: "int list"
  di_elem :: ty
  di_values :: "int list"

record operand =
  o_type :: ty
  o_const :: "dense_int option"

record components =
  c_dims :: "int list option"
  c_elem :: "ty option"
  c_attr :: encoding

definition ok :: "unit res" where "ok = Inr ()"

definition fail :: "string \<Rightarrow> 'a res" where "fail msg = Inl (Fatal msg)"

lemma fail_simps [simp]: "fails (fail m)" "\<not> fails ok" "fail m \<noteq> Inr x" "bnd (fail m) f = fail m" "bnd ok f = f ()"
  by (simp_all add: fail_def ok_def)

lemma ok_iff: "r = ok \<longleftrightarrow> \<not> fails r"
  by (cases r) (auto simp: ok_def)

definition components_of :: "ty \<Rightarrow> components" where
  "components_of t = \<lparr>c_dims = (if has_rank t then Some (shape_of t) else None),
     c_elem = Some (element_type t), c_attr = encoding_of t\<rparr>"

text \<open>
  \<open>mlir::verifyCompatibleShape\<close>, as the comment in \<open>isCompatibleForHloTypeInference\<close> documents
  it: at least one shape is unranked, or the ranks agree and so do, dimension by dimension,
  the sizes that are not dynamic.
\<close>

definition verifyCompatibleDims :: "int \<Rightarrow> int \<Rightarrow> bool" where
  "verifyCompatibleDims dimSize1 dimSize2 \<longleftrightarrow>
     isDynamicDimSize dimSize1 \<or> isDynamicDimSize dimSize2 \<or> dimSize1 = dimSize2"

definition verifyCompatibleShape :: "ty \<Rightarrow> ty \<Rightarrow> bool" where
  "verifyCompatibleShape type1 type2 \<longleftrightarrow> is_shaped type1 = is_shaped type2 \<and>
     (is_shaped type1 \<longrightarrow> has_rank type1 \<longrightarrow> has_rank type2 \<longrightarrow>
       length (shape_of type1) = length (shape_of type2) \<and>
       list_all (\<lambda>(a, b). verifyCompatibleDims a b) (zip (shape_of type1) (shape_of type2)))"

section \<open>Compatibility\<close>

fun getExpressedTypeOrSelf :: "ty \<Rightarrow> ty" where
  "getExpressedTypeOrSelf (QuantizedType st mn mx ex) = ex"
| "getExpressedTypeOrSelf t = t"

definition encodingToBounds :: "encoding \<Rightarrow> int list" where
  "encodingToBounds encoding = (case encoding of Bounds bs \<Rightarrow> bs | _ \<Rightarrow> [])"

definition verifyCompatibleShapeWithBounds :: "ty \<Rightarrow> ty \<Rightarrow> bool" where
  "verifyCompatibleShapeWithBounds type1 type2 =
     (if \<not> verifyCompatibleShape type1 type2 then False
      else let isCompatible = (\<lambda>shape boundedAttr.
             if shape = [] \<or> (case boundedAttr of Bounds _ \<Rightarrow> False | _ \<Rightarrow> True) then True
             else list_all (\<lambda>(dim_size, bound). \<not> (\<not> isDynamicDimSize bound \<and> bound < dim_size))
                    (zip shape (encodingToBounds boundedAttr))) in
           if has_rank type1 \<and> has_rank type2
           then isCompatible (shape_of type1) (encoding_of type2) \<and>
                isCompatible (shape_of type2) (encoding_of type1)
           else True)"

fun element_compatible :: "ty \<Rightarrow> ty \<Rightarrow> bool" where
  "element_compatible (QuantizedType st1 mn1 mx1 ex1) (QuantizedType st2 mn2 mx2 ex2) \<longleftrightarrow>
     st1 = st2 \<and> mn1 = mn2 \<and> mx1 = mx2 \<and> ex1 = ex2"
| "element_compatible tp1 tp2 \<longleftrightarrow> getExpressedTypeOrSelf tp1 = getExpressedTypeOrSelf tp2"

function isCompatibleForHloTypeInference :: "ty \<Rightarrow> ty \<Rightarrow> bool" where
  "isCompatibleForHloTypeInference tp1 tp2 =
     (if is_shaped tp1 \<and> is_shaped tp2 then
        verifyCompatibleShapeWithBounds tp1 tp2 \<and>
        isCompatibleForHloTypeInference (element_type tp1) (element_type tp2)
      else element_compatible tp1 tp2)"
  by pat_completeness auto
termination
proof (relation "measure (\<lambda>(t, _). size t)")
  fix t u assume "is_shaped t \<and> is_shaped u"
  then show "((element_type t, element_type u), (t, u)) \<in> measure (\<lambda>(t, _). size t)"
    by (cases t) auto
qed simp

declare isCompatibleForHloTypeInference.simps [simp del]

definition compatible_ranges :: "ty list \<Rightarrow> ty list \<Rightarrow> bool" where
  "compatible_ranges tp1 tp2 \<longleftrightarrow> length tp1 = length tp2 \<and>
     list_all (\<lambda>(lt, rt). isCompatibleForHloTypeInference lt rt) (zip tp1 tp2)"

definition compatible_shape :: "int list \<Rightarrow> ty \<Rightarrow> bool" where
  "compatible_shape shape1 tp2 \<longleftrightarrow> is_shaped tp2 \<and>
     isCompatibleForHloTypeInference (RankedTensorType shape1 (element_type tp2) NoEncoding) tp2"

definition matchInts :: "operand \<Rightarrow> int list res" where
  "matchInts v = (case o_const v of None \<Rightarrow> fail ''not a constant'' | Some attr \<Rightarrow> Inr (di_values attr))"

definition compatible_value :: "operand \<Rightarrow> ty \<Rightarrow> bool" where
  "compatible_value shape1 tp2 =
     (case matchInts shape1 of
        Inl _ \<Rightarrow> True
      | Inr shapeVec1 \<Rightarrow>
          if list_ex (\<lambda>x. x < 0) shapeVec1 then False
          else if \<not> is_shaped tp2 then False
          else isCompatibleForHloTypeInference (RankedTensorType shapeVec1 (element_type tp2) NoEncoding) tp2)"

definition getSameShapeTensorType :: "ty \<Rightarrow> ty \<Rightarrow> ty res" where
  "getSameShapeTensorType shapedType elementType =
     (case shapedType of
        RankedTensorType sh et enc \<Rightarrow> Inr (RankedTensorType sh elementType enc)
      | UnrankedTensorType et \<Rightarrow> Inr (UnrankedTensorType elementType)
      | _ \<Rightarrow> fail ''unsupported type'')"

definition createRealType :: "ty \<Rightarrow> ty res" where
  "createRealType type =
     (let elementTy = element_type type in
      getSameShapeTensorType type (case elementTy of ComplexType et \<Rightarrow> et | _ \<Rightarrow> elementTy))"

section \<open>Bounds\<close>

definition verifyBounds :: "int list \<Rightarrow> ty \<Rightarrow> unit res" where
  "verifyBounds bounds type =
     require (int (length bounds) = rank type) (Fatal ''Bounds length'')
       (foldM (\<lambda>_ (bound, dimSize). require (\<not> (bound \<noteq> kDynamic \<and> dimSize \<noteq> kDynamic))
            (Fatal ''Static dimension cannot have a bound'') ok) () (zip bounds (shape_of type)))"

definition boundsToEncoding :: "encoding \<Rightarrow> int list \<Rightarrow> encoding res" where
  "boundsToEncoding prototype bounds =
     (if bounds = [] then Inr prototype
      else if list_all isDynamicDimSize bounds then Inr NoEncoding
      else case prototype of
          NoEncoding \<Rightarrow> fail ''Expect an prototype attribute to obtain the underlying dialect but got none''
        | Bounds _ \<Rightarrow> Inr (Bounds bounds)
        | OtherEncoding _ \<Rightarrow> Inl Undefined)"

definition inferConcatenatedDimAndBound :: "int \<Rightarrow> int \<Rightarrow> int \<Rightarrow> int \<Rightarrow> (int \<times> int) res" where
  "inferConcatenatedDimAndBound leftSize rightSize leftBound rightBound =
     (let isLeftStaticDim = \<not> isDynamicDimSize leftSize; isRightStaticDim = \<not> isDynamicDimSize rightSize in
      if isLeftStaticDim \<and> isRightStaticDim then
        bnd (i64 (leftSize + rightSize)) (\<lambda>s. Inr (s, kDynamic))
      else
        (let leftSizeOrBound = if isLeftStaticDim then leftSize else leftBound;
             rightSizeOrBound = if isRightStaticDim then rightSize else rightBound in
         if \<not> isDynamicDimSize leftSizeOrBound \<and> \<not> isDynamicDimSize rightSizeOrBound then
           bnd (i64 (leftSizeOrBound + rightSizeOrBound)) (\<lambda>b. Inr (kDynamic, b))
         else Inr (kDynamic, kDynamic)))"

definition inferMostSpecificDimAndBound :: "int \<Rightarrow> int \<Rightarrow> int \<Rightarrow> int \<Rightarrow> (int \<times> int) res" where
  "inferMostSpecificDimAndBound leftSize rightSize leftBound rightBound =
     (let isLeftStaticDim = \<not> isDynamicDimSize leftSize; isRightStaticDim = \<not> isDynamicDimSize rightSize;
          isLeftStaticBound = \<not> isDynamicDimSize leftBound; isRightStaticBound = \<not> isDynamicDimSize rightBound in
      if isLeftStaticDim \<or> isRightStaticDim then
        if isLeftStaticDim \<and> isRightStaticDim \<and> leftSize \<noteq> rightSize then fail ''Mismatched dimension sizes''
        else let inferredSize = if isLeftStaticDim then leftSize else rightSize in
          if (isLeftStaticBound \<or> isRightStaticBound) \<and>
             inferredSize > (if isLeftStaticBound then leftBound else rightBound)
          then fail ''Mismatched dimension size and bound''
          else Inr (inferredSize, kDynamic)
      else if isLeftStaticBound \<and> isRightStaticBound then Inr (kDynamic, min leftBound rightBound)
      else Inr (kDynamic, if isLeftStaticBound then leftBound else rightBound))"

definition inferLeastSpecificDimAndBound :: "int \<Rightarrow> int \<Rightarrow> int \<Rightarrow> int \<Rightarrow> (int \<times> int) res" where
  "inferLeastSpecificDimAndBound leftSize rightSize leftBound rightBound =
     (let isLeftStaticDim = \<not> isDynamicDimSize leftSize; isRightStaticDim = \<not> isDynamicDimSize rightSize;
          isLeftStaticBound = \<not> isDynamicDimSize leftBound; isRightStaticBound = \<not> isDynamicDimSize rightBound in
      if isLeftStaticDim \<or> isRightStaticDim then
        if isLeftStaticDim \<and> isRightStaticDim then
          if leftSize \<noteq> rightSize then fail ''Mismatched dimension sizes'' else Inr (leftSize, kDynamic)
        else if isLeftStaticBound \<or> isRightStaticBound then
          Inr (kDynamic, if isLeftStaticDim then max leftSize rightBound else max rightSize leftBound)
        else Inr (kDynamic, kDynamic)
      else if isLeftStaticBound \<and> isRightStaticBound then Inr (kDynamic, max leftBound rightBound)
      else Inr (kDynamic, kDynamic))"

section \<open>Merging types\<close>

type_synonym dim_fn = "int \<Rightarrow> int \<Rightarrow> int \<Rightarrow> int \<Rightarrow> (int \<times> int) res"

text \<open>One pass of the loop over the types: all dimensions of the next type.\<close>

definition infer_step :: "dim_fn \<Rightarrow> (int \<times> int) list \<Rightarrow> ty \<Rightarrow> (int \<times> int) list res" where
  "infer_step inferDimAndBoundFn inferred type =
     (let bounds = encodingToBounds (encoding_of type) in
      mapM (\<lambda>dim. bnd (at inferred dim) (\<lambda>(size, bound). bnd (at (shape_of type) dim) (\<lambda>rightSize.
          bnd (if bounds = [] then Inr kDynamic else at bounds dim) (\<lambda>rightBound.
            inferDimAndBoundFn size rightSize bound rightBound))))
        [0..int (length inferred) - 1])"

definition inferTypeWithCustomFn :: "ty list \<Rightarrow> dim_fn \<Rightarrow> ty res" where
  "inferTypeWithCustomFn rankedTypes inferDimAndBoundFn =
     bnd (at rankedTypes 0) (\<lambda>type0.
     require (list_all (\<lambda>type. \<not> rank type \<noteq> rank type0) rankedTypes) (Fatal ''Mismatched ranks of types'')
       (let bounds = encodingToBounds (encoding_of type0);
            inferredBounds = if bounds \<noteq> [] then bounds else replicate (length (shape_of type0)) kDynamic;
            anyInputHaveBounds = (bounds \<noteq> []) in
        bnd (foldM (infer_step inferDimAndBoundFn) (zip (shape_of type0) inferredBounds) (tl rankedTypes)) (\<lambda>inferred.
        bnd (boundsToEncoding (encoding_of type0) (if anyInputHaveBounds then map snd inferred else [])) (\<lambda>enc.
          Inr (RankedTensorType (map fst inferred) (element_type type0) enc)))))"

definition inferLeastSpecificShapedType :: "ty list \<Rightarrow> ty res" where
  "inferLeastSpecificShapedType inputTypes =
     (case filter (\<lambda>t. \<not> has_rank t) inputTypes of
        inputType # _ \<Rightarrow> Inr inputType
      | [] \<Rightarrow> inferTypeWithCustomFn inputTypes inferLeastSpecificDimAndBound)"

definition inferMostSpecificShapedType :: "ty list \<Rightarrow> ty res" where
  "inferMostSpecificShapedType inputTypes =
     (let rankedTypes = filter has_rank inputTypes in
      if rankedTypes = [] then at inputTypes 0
      else inferTypeWithCustomFn rankedTypes inferMostSpecificDimAndBound)"

fun tuple_types :: "ty \<Rightarrow> ty list option" where
  "tuple_types (TupleType ts) = Some ts"
| "tuple_types _ = None"

definition mapOverTupleElements :: "(ty list \<Rightarrow> ty res) \<Rightarrow> ty list \<Rightarrow> ty res" where
  "mapOverTupleElements fn inputTypes =
     (let tupleTypes = List.map_filter tuple_types inputTypes in
      if tupleTypes \<noteq> [] then
        if length tupleTypes \<noteq> length inputTypes then
          fail ''Mismatched type kinds: either all types must be tuples, or no types must be tuples''
        else let size = length (hd tupleTypes) in
          if \<not> list_all (\<lambda>tupleType. \<not> length tupleType \<noteq> size) tupleTypes then
            fail ''Mismatched tuple sizes: all tuple sizes must be the same''
          else bnd (mapM (\<lambda>i. fn (map (\<lambda>tupleType. tupleType ! i) tupleTypes)) [0..<size]) (\<lambda>results.
            Inr (TupleType results))
      else fn inputTypes)"

definition inferLeastSpecificType :: "ty list \<Rightarrow> ty res" where
  "inferLeastSpecificType inputTypes = mapOverTupleElements inferLeastSpecificShapedType inputTypes"

definition inferMostSpecificType :: "ty list \<Rightarrow> ty res" where
  "inferMostSpecificType inputTypes = mapOverTupleElements inferMostSpecificShapedType inputTypes"

definition inferMostSpecificTypeComponents :: "ty list \<Rightarrow> components res" where
  "inferMostSpecificTypeComponents inputTypes =
     bnd (inferMostSpecificType inputTypes) (\<lambda>t.
       if has_rank t then Inr \<lparr>c_dims = Some (shape_of t), c_elem = Some (element_type t), c_attr = encoding_of t\<rparr>
       else if is_shaped t then Inr (components_of t)
       else fail ''not a shaped type'')"

definition createShapedType :: "components \<Rightarrow> ty option" where
  "createShapedType components =
     (case c_elem components of
        None \<Rightarrow> None
      | Some et \<Rightarrow> (case c_dims components of
            Some dims \<Rightarrow> Some (RankedTensorType dims et (c_attr components))
          | None \<Rightarrow> Some (UnrankedTensorType et)))"

section \<open>Tuples and refinements\<close>

fun flattenTupleTypes :: "ty list \<Rightarrow> ty list" where
  "flattenTupleTypes [] = []"
| "flattenTupleTypes (TupleType ts # rest) = flattenTupleTypes ts @ flattenTupleTypes rest"
| "flattenTupleTypes (t # rest) = t # flattenTupleTypes rest"

text \<open>
  The recursive function of \<open>unflattenTupleTypes\<close>, with the result vector it appends to. It
  returns the vector, which keeps what was appended before a failure, and the number of
  consumed types, \<open>None\<close> for a failure.
\<close>

function (sequential) unflatten_loop :: "ty list \<Rightarrow> ty list \<Rightarrow> ty list \<Rightarrow> ty list \<times> nat option" where
  "unflatten_loop [] types result = (result, if types = [] then Some 0 else None)"
| "unflatten_loop prototype [] result = (result, None)"
| "unflatten_loop (TupleType ts # prototype) types result =
     (case unflatten_loop ts types [] of
        (tupleResult, None) \<Rightarrow> (result, None)
      | (tupleResult, Some consumedFront) \<Rightarrow>
          (case unflatten_loop prototype (drop consumedFront types) result of
             (result', None) \<Rightarrow> (result', None)
           | (result', Some consumedRest) \<Rightarrow> (result' @ [TupleType tupleResult], Some (consumedFront + consumedRest))))"
| "unflatten_loop (p # prototype) (t # types) result =
     (case unflatten_loop prototype types (result @ [t]) of
        (result', None) \<Rightarrow> (result', None)
      | (result', Some consumed) \<Rightarrow> (result', Some (consumed + 1)))"
  by pat_completeness auto
termination by (relation "measure (\<lambda>(p, _, _). size_list size p)") auto

text \<open>
  The success is that of \<open>consumed != -1\<close> on a \<open>FailureOr<int64_t>\<close>, an \<open>std::optional\<close>: an
  empty one differs from every number.
\<close>

definition unflattenTupleTypes :: "ty list \<Rightarrow> ty list \<Rightarrow> ty list \<Rightarrow> bool \<times> ty list" where
  "unflattenTupleTypes prototype types result =
     (case unflatten_loop prototype types result of
        (result', consumed) \<Rightarrow> (map_option int consumed \<noteq> Some (- 1), result'))"

definition getShapeRefinements :: "dense_int option \<Rightarrow> operand list \<Rightarrow> ty list \<Rightarrow> int list list res" where
  "getShapeRefinements indicesAttr operands resultTypes =
     (case indicesAttr of
        None \<Rightarrow> fail ''no indices_of_shape_operands''
      | Some attr \<Rightarrow>
          (let flattenedResultTypes = flattenTupleTypes resultTypes in
           require (\<not> length (di_values attr) \<noteq> length flattenedResultTypes)
             (Fatal ''indices_of_shape_operands: number of elements must be equal to the number of operation results'')
           (require (\<not> length (di_shape attr) \<noteq> 1) (Fatal ''indices_of_shape_operands: must have rank = 1'')
           (require (case di_elem attr of IntegerType s w \<Rightarrow> w = 64 | _ \<Rightarrow> False)
             (Fatal ''indices_of_shape_operands: must have i64 element type'')
           (mapM (\<lambda>(operandIndex, resultType).
              require (\<not> (operandIndex < 0 \<or> operandIndex \<ge> int (length operands)))
                (Fatal ''indices_of_shape_operands: index must be within bounds for operation operands'')
              (bnd (at operands operandIndex) (\<lambda>operand.
               bnd (matchInts operand) (\<lambda>refinement.
               require (compatible_value operand resultType)
                 (Fatal ''indices_of_shape_operands: refinement must be compatible with operation result'')
               (Inr refinement)))))
             (zip (di_values attr) flattenedResultTypes))))))"

section \<open>Traits\<close>

definition verify_pairwise_same :: "ty list \<Rightarrow> ty list \<Rightarrow> unit res" where
  "verify_pairwise_same operandTypes resultTypes =
     require (\<not> length operandTypes \<noteq> length resultTypes)
       (Fatal ''requires the same number of operands and results'')
       (require (list_all (\<lambda>(a, b). \<not> a \<noteq> b) (zip operandTypes resultTypes))
         (Fatal ''requires the same type for operand and result'') ok)"

definition verify_compatible_types :: "ty list \<Rightarrow> ty list \<Rightarrow> unit res" where
  "verify_compatible_types operandTypes resultTypes =
     (let expected = if operandTypes \<noteq> [] then Some (hd operandTypes)
                     else if resultTypes \<noteq> [] then Some (hd resultTypes) else None in
      case expected of
        None \<Rightarrow> fail ''no operand and no result''
      | Some expected \<Rightarrow>
          require (list_all (\<lambda>actual. isCompatibleForHloTypeInference actual expected) operandTypes \<and>
                   list_all (\<lambda>actual. isCompatibleForHloTypeInference actual expected) resultTypes)
            (Fatal ''requires compatible types for all operands and results'') ok)"

definition infer_compatible_return :: "ty list \<Rightarrow> ty res" where
  "infer_compatible_return operandTypes =
     (if operandTypes = [] then
        fail ''Expected non-empty operands for [CompatibleOperandsAndResultType]''
      else inferMostSpecificType operandTypes)"

definition infer_compatible_components :: "ty list \<Rightarrow> components res" where
  "infer_compatible_components operandTypes =
     bnd (infer_compatible_return operandTypes) (\<lambda>inferredReturnType.
       if is_shaped inferredReturnType then Inr (components_of inferredReturnType)
       else fail ''not a shaped type'')"

end
