(* ===== verification/WindowInference.thy ===== *)
theory WindowInference
  imports HloBase
begin

text \<open>
  The shared utilities of \<open>stablehlo/dialect/TypeInference.cpp\<close>: element types and attributes,
  dilation and stride arithmetic, batch normalisation, window attributes and the shape of a
  window operation, replica groups.
\<close>

section \<open>Element types and attributes\<close>

text \<open>\<open>type.cast<ShapedType>()\<close> and \<open>type.cast<RankedTensorType>()\<close> assert the kind of the type.\<close>

definition cast_shaped :: "ty \<Rightarrow> 'a res \<Rightarrow> 'a res" where
  "cast_shaped t x = require (is_shaped t) Undefined x"

definition cast_ranked :: "ty \<Rightarrow> 'a res \<Rightarrow> 'a res" where
  "cast_ranked t x = require (has_rank t) Undefined x"

definition hasDuplicates :: "int list \<Rightarrow> bool" where
  "hasDuplicates nums \<longleftrightarrow> card (set nums) \<noteq> length nums"

definition tensorsHaveSameElType :: "ty list \<Rightarrow> bool \<Rightarrow> bool" where
  "tensorsHaveSameElType types ignoreFpPrecision =
     (case types of
        [] \<Rightarrow> True
      | type1 # rest \<Rightarrow>
          list_all (\<lambda>type2. ignoreFpPrecision \<and> is_float (element_type type1) \<and> is_float (element_type type2)
              \<or> element_type type1 = element_type type2) rest)"

definition compatibleShapeAndElementType :: "ty \<Rightarrow> ty \<Rightarrow> bool \<Rightarrow> bool" where
  "compatibleShapeAndElementType type1 type2 ignoreFpPrecision \<longleftrightarrow>
     verifyCompatibleShape type1 type2 \<and> tensorsHaveSameElType [type1, type2] ignoreFpPrecision"

definition convert1DAttribute :: "dense_int option \<Rightarrow> int list res" where
  "convert1DAttribute optionalAttr =
     (case optionalAttr of
        None \<Rightarrow> Inr []
      | Some attr \<Rightarrow> require (\<not> length (di_shape attr) \<noteq> 1)
          (Fatal ''expects the shape of attribute to be 1-D'') (Inr (di_values attr)))"

fun pairs_of :: "int list \<Rightarrow> (int \<times> int) list" where
  "pairs_of (a # b # xs) = (a, b) # pairs_of xs"
| "pairs_of _ = []"

definition convertPaddingAttribute :: "dense_int option \<Rightarrow> (int \<times> int) list res" where
  "convertPaddingAttribute optionalAttr =
     (case optionalAttr of
        None \<Rightarrow> Inr []
      | Some attr \<Rightarrow> require (\<not> (length (di_shape attr) \<noteq> 2 \<or> di_shape attr ! 1 \<noteq> 2))
          (Fatal ''expects the shape of padding-attribute to be {N, 2}'') (Inr (pairs_of (di_values attr))))"

definition convertWindowReversalAttribute :: "dense_int option \<Rightarrow> bool list res" where
  "convertWindowReversalAttribute optionalAttr =
     (case optionalAttr of
        None \<Rightarrow> Inr []
      | Some attr \<Rightarrow> require (\<not> length (di_shape attr) \<noteq> 1)
          (Fatal ''expects the shape of attribute to be 1-D'') (Inr (map (\<lambda>v. v \<noteq> 0) (di_values attr))))"

section \<open>Dilation and strides\<close>

definition dilatedBound :: "int \<Rightarrow> int \<Rightarrow> int res" where
  "dilatedBound bound dilation = require (bound \<ge> 0) Undefined
     (if bound = 0 then Inr 0
      else bnd (i64 ((bound - 1) * dilation)) (\<lambda>m. i64 (m + 1)))"

text \<open>C++ division truncates; it is \<open>div\<close> here, since the dividend is not negative and the
  stride positive where the code divides, and it is undefined for a stride of 0.\<close>

definition stridedBound :: "int \<Rightarrow> int \<Rightarrow> int \<Rightarrow> int res" where
  "stridedBound bound windowSize stride =
     require (windowSize \<ge> 0) Undefined (require (bound \<ge> 0) Undefined
       (if bound = 0 \<or> windowSize > bound then Inr 0
        else require (stride \<noteq> 0) Undefined
          (i64 (sgn stride * ((bound - windowSize) div \<bar>stride\<bar>) + 1))))"

section \<open>Batch normalisation\<close>

definition verifyPairwiseCompatibleShapes :: "ty list \<Rightarrow> bool" where
  "verifyPairwiseCompatibleShapes values \<longleftrightarrow>
     list_all (\<lambda>type1. list_all (\<lambda>type2. verifyCompatibleShape type1 type2) values) values"

definition verifyBatchNorm :: "ty list \<Rightarrow> ty list \<Rightarrow> int \<Rightarrow> unit res" where
  "verifyBatchNorm multiDimOperands singleDimOperands featureIndex =
     require (verifyPairwiseCompatibleShapes multiDimOperands)
       (Fatal ''expects multi-dimensional operands to have compatible shapes.'')
     (require (verifyPairwiseCompatibleShapes singleDimOperands)
       (Fatal ''expects single-dimensional operands to have compatible shapes.'')
     (bnd (at multiDimOperands 0) (\<lambda>multiDimType. cast_ranked multiDimType
     (require (\<not> featureIndex \<ge> rank multiDimType)
       (Fatal ''expects featureIndex to be smaller than the rank of multi-dimensional operands'')
     (require (\<not> featureIndex < 0) (Fatal ''expects featureIndex to be a non-negative number'')
     (bnd (at (shape_of multiDimType) featureIndex) (\<lambda>featureCount.
      bnd (at singleDimOperands 0) (\<lambda>singleDimType. cast_ranked singleDimType
     (bnd (at (shape_of singleDimType) 0) (\<lambda>singleDimSize.
      require (verifyCompatibleDims singleDimSize featureCount)
       (Fatal ''expects the size of single-dimensional operands to be compatible with feature count'') ok))))))))))"

definition inferBatchNormOp :: "ty list \<Rightarrow> ty list \<Rightarrow> int \<Rightarrow> bool \<Rightarrow> components list res" where
  "inferBatchNormOp multiDimOperands singleDimOperands featureIndex is_inference =
     bnd (verifyBatchNorm multiDimOperands singleDimOperands featureIndex) (\<lambda>_.
     bnd (at multiDimOperands 0) (\<lambda>multiDimType. cast_ranked multiDimType
       (let multi = \<lparr>c_dims = Some (shape_of multiDimType), c_elem = Some (element_type multiDimType),
                     c_attr = encoding_of multiDimType\<rparr> in
        if is_inference then Inr [multi]
        else bnd (at (shape_of multiDimType) featureIndex) (\<lambda>featureCount.
          let multiDimBounds = encodingToBounds (encoding_of multiDimType) in
          bnd (if multiDimBounds \<noteq> [] then bnd (at multiDimBounds featureIndex) (\<lambda>b. Inr [b]) else Inr [])
            (\<lambda>singleDimBounds.
          bnd (if singleDimBounds = [] then Inr NoEncoding
               else boundsToEncoding (encoding_of multiDimType) singleDimBounds) (\<lambda>enc.
          let single = \<lparr>c_dims = Some [featureCount], c_elem = Some (element_type multiDimType), c_attr = enc\<rparr> in
          Inr [multi, single, single]))))))"

definition inferBatchNormGradOp :: "ty \<Rightarrow> ty \<Rightarrow> ty \<Rightarrow> ty \<Rightarrow> ty \<Rightarrow> int \<Rightarrow> components list res" where
  "inferBatchNormGradOp operand scale mean variance gradOutput featureIndex =
     inferBatchNormOp [operand, gradOutput] [scale, mean, variance] featureIndex False"

definition inferBatchNormInferenceOp :: "ty \<Rightarrow> ty \<Rightarrow> ty \<Rightarrow> ty \<Rightarrow> ty \<Rightarrow> int \<Rightarrow> components list res" where
  "inferBatchNormInferenceOp operand scale offset mean variance featureIndex =
     inferBatchNormOp [operand] [scale, offset, mean, variance] featureIndex True"

definition inferBatchNormTrainingOp :: "ty \<Rightarrow> ty \<Rightarrow> ty \<Rightarrow> int \<Rightarrow> components list res" where
  "inferBatchNormTrainingOp operand scale offset featureIndex =
     inferBatchNormOp [operand] [scale, offset] featureIndex False"

section \<open>Windows\<close>

record window_dimension =
  w_size :: int
  w_stride :: int
  w_paddingLow :: int
  w_paddingHigh :: int
  w_windowDilation :: int
  w_baseDilation :: int
  w_windowReversal :: bool

definition window_default :: window_dimension where
  "window_default = \<lparr>w_size = 0, w_stride = 1, w_paddingLow = 0, w_paddingHigh = 0,
     w_windowDilation = 1, w_baseDilation = 1, w_windowReversal = False\<rparr>"

definition attr_or :: "'a list \<Rightarrow> nat \<Rightarrow> 'a \<Rightarrow> 'a" where
  "attr_or xs i d = (if xs \<noteq> [] then xs ! i else d)"

definition infer_window_dimension ::
  "int list \<Rightarrow> int list \<Rightarrow> (int \<times> int) list \<Rightarrow> int list \<Rightarrow> int list \<Rightarrow> nat \<Rightarrow> window_dimension res" where
  "infer_window_dimension windowDimensions windowStrides padding lhsDilation rhsDilation i =
     (let wsize = windowDimensions ! i;
          stride = attr_or windowStrides i (w_stride window_default);
          baseDilation = attr_or lhsDilation i (w_baseDilation window_default);
          windowDilation = attr_or rhsDilation i (w_windowDilation window_default);
          (low, high) = attr_or padding i (w_paddingLow window_default, w_paddingHigh window_default) in
      require (\<not> (\<not> isDynamicDimSize wsize \<and> wsize \<le> 0)) (Fatal ''expects window to have positive value'')
     (require (\<not> stride \<le> 0) (Fatal ''expects window to have positive stride'')
     (require (\<not> baseDilation \<le> 0) (Fatal ''expects window to have positive base dilation factor'')
     (require (\<not> windowDilation \<le> 0) (Fatal ''expects window to have positive window dilation factor'')
       (Inr \<lparr>w_size = wsize, w_stride = stride, w_paddingLow = low, w_paddingHigh = high,
             w_windowDilation = windowDilation, w_baseDilation = baseDilation,
             w_windowReversal = w_windowReversal window_default\<rparr>)))))"

definition verifyWindowAttributesAndInferWindowDimensions ::
  "int list \<Rightarrow> int list \<Rightarrow> (int \<times> int) list \<Rightarrow> int list \<Rightarrow> int list \<Rightarrow> bool list \<Rightarrow> window_dimension list res" where
  "verifyWindowAttributesAndInferWindowDimensions windowDimensions windowStrides padding lhsDilation rhsDilation
     windowReversal =
     (let verifySize = (\<lambda>attrSize. attrSize = 0 \<or> attrSize = length windowDimensions) in
      require (verifySize (length windowStrides)) (Fatal ''expects window-strides to have same dimension-size'')
     (require (verifySize (length lhsDilation)) (Fatal ''expects base-dilation factors to have same dimension-size'')
     (require (verifySize (length rhsDilation)) (Fatal ''expects window-dilation factors to have same dimension-size'')
     (require (verifySize (length padding)) (Fatal ''expects padding-entries to have same dimension-size'')
     (require (verifySize (length windowReversal)) (Fatal ''expects window-reversal to have same dimension-size'')
       (mapM (infer_window_dimension windowDimensions windowStrides padding lhsDilation rhsDilation)
         [0..<length windowDimensions]))))))"

definition infer_window_size :: "int \<Rightarrow> window_dimension \<Rightarrow> int res" where
  "infer_window_size base dim =
     (if isDynamicDimSize base \<or> isDynamicDimSize (w_size dim) then Inr kDynamic
      else bnd (dilatedBound base (w_baseDilation dim)) (\<lambda>dilatedBase.
           bnd (i64 (w_paddingLow dim + dilatedBase)) (\<lambda>paddedLow.
           bnd (i64 (paddedLow + w_paddingHigh dim)) (\<lambda>paddedDilatedBase.
           bnd (dilatedBound (w_size dim) (w_windowDilation dim)) (\<lambda>dilatedWindow.
             stridedBound paddedDilatedBase dilatedWindow (w_stride dim))))))"

definition inferWindowOutputShape :: "int list \<Rightarrow> window_dimension list \<Rightarrow> int list res" where
  "inferWindowOutputShape baseShape window =
     require (length baseShape = length window) Undefined
       (mapM (\<lambda>(base, dim). infer_window_size base dim) (zip baseShape window))"

section \<open>Replica groups\<close>

definition replica_step :: "bool \<Rightarrow> int list \<Rightarrow> int \<Rightarrow> int list res" where
  "replica_step allGroupsMustHaveSameSize replicaIdsSeen replicaId =
     (if replicaId = - 1 then
        if \<not> allGroupsMustHaveSameSize then Inr replicaIdsSeen else fail ''Invalid replica id -1''
      else if replicaId \<in> set replicaIdsSeen then fail ''replica id seen more than once''
      else Inr (replicaId # replicaIdsSeen))"

definition verifyReplicaGroups :: "dense_int \<Rightarrow> bool \<Rightarrow> bool \<Rightarrow> nat option \<Rightarrow> unit res" where
  "verifyReplicaGroups replicaGroups allGroupsMustHaveSameSize useGlobalDeviceIds expectedGroupSize =
     (let shape = di_shape replicaGroups; replicaIds = di_values replicaGroups in
      require (\<not> length shape \<noteq> 2) (Fatal ''replica groups should be a rank 2 tensor'')
     (require (\<not> (useGlobalDeviceIds \<and> shape ! 0 * shape ! 1 = 0))
       (Fatal ''if `use_global_device_ids` is set, the replica groups cannot be empty'')
     (bnd (foldM (replica_step allGroupsMustHaveSameSize) [] replicaIds) (\<lambda>replicaIdsSeen.
      require (list_all (\<lambda>id. int id \<in> set replicaIdsSeen) [0..<length replicaIdsSeen])
       (Fatal ''replica id not seen in replica groups'')
     (case expectedGroupSize of
        None \<Rightarrow> ok
      | Some groupSize \<Rightarrow>
          if allGroupsMustHaveSameSize then
            require (shape ! 0 \<noteq> 0) Undefined
              (require (\<not> int (length replicaIds) div shape ! 0 \<noteq> int groupSize)
                (Fatal ''group size of replica_groups must be the expected size'') ok)
          else ok)))))"

section \<open>Laws\<close>

lemma dilatedBound_eq:
  "0 \<le> b \<Longrightarrow> 0 < d \<Longrightarrow> i64_ok ((b - 1) * d + 1) \<Longrightarrow> dilatedBound b d = Inr (if b = 0 then 0 else (b - 1) * d + 1)"
proof -
  assume a: "0 \<le> b" "0 < d" "i64_ok ((b - 1) * d + 1)"
  have "0 \<le> (b - 1) * d" if "b \<noteq> 0" using a that by simp
  then have "b \<noteq> 0 \<Longrightarrow> i64_ok ((b - 1) * d)" using a(3) unfolding i64_ok_def by linarith
  with a show ?thesis by (auto simp: dilatedBound_def i64_in)
qed

lemma stridedBound_eq:
  assumes "0 \<le> b" and "0 \<le> w" and "0 < s" and "i64_ok b" and "b < 2 ^ 63 - 1"
  shows "stridedBound b w s = Inr (if b = 0 \<or> b < w then 0 else (b - w) div s + 1)"
proof -
  have "(b - w) div s + 1 \<le> b + 1 \<and> 0 \<le> (b - w) div s" if "w \<le> b"
  proof -
    have "(b - w) div s \<le> (b - w) div 1" using zdiv_mono2 [of "b - w" 1 s] that assms(3) by simp
    moreover have "0 \<le> (b - w) div s" using that assms(3) by (simp add: pos_imp_zdiv_nonneg_iff)
    ultimately show ?thesis using assms(2) by simp
  qed
  with assms show ?thesis by (auto simp: stridedBound_def i64_def i64_ok_def)
qed

text \<open>The offsets at which a window of size \<open>w\<close> fits into \<open>b\<close> elements, in steps of \<open>s\<close>.\<close>

definition valid_offsets :: "int \<Rightarrow> int \<Rightarrow> int \<Rightarrow> int list" where
  "valid_offsets b w s = filter (\<lambda>off. off mod s = 0 \<and> off + w \<le> b) [0..b - 1]"

lemma multiples_upto:
  assumes "0 < (s::int)" and "0 \<le> m"
  shows "{off \<in> {0..m}. off mod s = 0} = (\<lambda>q. q * s) ` {0..m div s}"
proof (intro set_eqI iffI)
  fix off assume "off \<in> {off \<in> {0..m}. off mod s = 0}"
  then have off: "0 \<le> off" "off \<le> m" "off = off div s * s" by (auto simp: mod_0_imp_dvd)
  then have "off div s \<in> {0..m div s}"
    using assms by (auto simp: pos_imp_zdiv_nonneg_iff intro: zdiv_mono1)
  with off(3) show "off \<in> (\<lambda>q. q * s) ` {0..m div s}" by blast
next
  fix off assume "off \<in> (\<lambda>q. q * s) ` {0..m div s}"
  then obtain q where q: "off = q * s" "0 \<le> q" "q \<le> m div s"
    by (elim imageE) (rule that, assumption, auto)
  then have "q * s \<le> m div s * s" using assms by (intro mult_right_mono) auto
  also have "\<dots> \<le> m" using assms by (metis div_mult_mod_eq le_add_same_cancel1 pos_mod_sign)
  finally show "off \<in> {off \<in> {0..m}. off mod s = 0}" using q assms by simp
qed

lemma valid_offsets_length:
  assumes "0 < s" and "0 \<le> b" and "0 < w"
  shows "int (length (valid_offsets b w s)) = (if b < w then 0 else (b - w) div s + 1)"
proof -
  have "set (valid_offsets b w s) = {off \<in> {0..b - w}. off mod s = 0}"
    using assms by (auto simp: valid_offsets_def)
  then have "length (valid_offsets b w s) = card {off \<in> {0..b - w}. off mod s = 0}"
    by (metis valid_offsets_def distinct_card distinct_filter distinct_upto)
  also have "int \<dots> = (if b < w then 0 else (b - w) div s + 1)"
  proof (cases "b < w")
    case False
    have "inj_on (\<lambda>q. q * s) {0..(b - w) div s}" using assms(1) by (intro inj_onI) simp
    moreover have "{off \<in> {0..b - w}. off mod s = 0} = (\<lambda>q. q * s) ` {0..(b - w) div s}"
      by (rule multiples_upto) (use assms False in auto)
    ultimately have "card {off \<in> {0..b - w}. off mod s = 0} = card {0..(b - w) div s}"
      by (simp only: card_image)
    moreover have "0 \<le> (b - w) div s" using False assms(1) by (simp add: pos_imp_zdiv_nonneg_iff)
    ultimately show ?thesis using False by simp
  qed simp
  finally show ?thesis .
qed

text \<open>The ids of well-formed replica groups are distinct; \<open>-1\<close> marks an absent id.\<close>

lemma replica_step_Inr [res_simps]:
  "replica_step same seen i = Inr seen' \<longleftrightarrow>
    (if i = - 1 then \<not> same \<and> seen' = seen else i \<notin> set seen \<and> seen' = i # seen)"
  by (auto simp: replica_step_def)

lemma replica_fold:
  "foldM (replica_step same) seen ids = Inr seen' \<Longrightarrow> distinct seen \<Longrightarrow>
    seen' = rev (filter (\<lambda>i. i \<noteq> - 1) ids) @ seen \<and> distinct seen' \<and> (same \<longrightarrow> - 1 \<notin> set ids)"
proof (induction ids arbitrary: seen)
  case (Cons i ids)
  then obtain u where u: "replica_step same seen i = Inr u" "foldM (replica_step same) u ids = Inr seen'"
    by (auto simp: bnd_eq_Inr)
  then have "distinct u" using Cons.prems(2) by (auto simp: replica_step_Inr split: if_splits)
  from Cons.IH [OF u(2) this] u(1) show ?case by (auto simp: replica_step_Inr split: if_splits)
qed simp

lemma replica_fold_ok:
  "distinct (filter (\<lambda>i. i \<noteq> - 1) ids @ seen) \<Longrightarrow> (same \<longrightarrow> - 1 \<notin> set ids) \<Longrightarrow>
    foldM (replica_step same) seen ids = Inr (rev (filter (\<lambda>i. i \<noteq> - 1) ids) @ seen)"
  by (induction ids arbitrary: seen) (auto simp: replica_step_def)

lemma distinct_covers:
  assumes "distinct ids" and "\<forall>k < length ids. int k \<in> set ids"
  shows "set ids = {0..<int (length ids)}"
proof -
  have "int ` {0..<length ids} \<subseteq> set ids" using assms(2) by auto
  moreover have "card (int ` {0..<length ids}) = card (set ids)"
    using assms(1) by (simp add: card_image distinct_card)
  ultimately have "int ` {0..<length ids} = set ids" by (intro card_subset_eq) auto
  then show ?thesis by (metis image_int_atLeastLessThan of_nat_0)
qed

end
