(* ===== verification/ReduceInference.thy ===== *)
theory ReduceInference
  imports WindowInference
begin

text \<open>
  \<open>stablehlo/dialect/TypeInference.cpp\<close>: inference and verification of \<open>reduce\<close>,
  \<open>reduce_window\<close>, \<open>pad\<close> and \<open>slice\<close>, the operations whose inference functions the interpreter
  also calls.
\<close>

section \<open>Reduce\<close>

text \<open>The index of the first ranked type, \<open>-1\<close> if there is none.\<close>

definition ranked_input_idx :: "ty list \<Rightarrow> int" where
  "ranked_input_idx types =
     (let pre = takeWhile (\<lambda>t. \<not> has_rank t) types in
      if length pre = length types then - 1 else int (length pre))"

text \<open>
  The check of one dimension. The error message of an out-of-bounds dimension reads
  \<open>inputArgTypes[rankedInputIdx]\<close>, which is out of range when no input is ranked.
\<close>

definition reduce_dim_step :: "ty list \<Rightarrow> int \<Rightarrow> int list \<Rightarrow> int \<Rightarrow> int list res" where
  "reduce_dim_step inputArgTypes rankedInputIdx seen dimension =
     (let allInputsUnranked = (rankedInputIdx = - 1) in
      bnd (if allInputsUnranked then Inr False
           else bnd (at inputArgTypes rankedInputIdx) (\<lambda>t. Inr (dimension \<ge> rank t))) (\<lambda>tooLarge.
      if tooLarge \<or> dimension < 0 then
        bnd (at inputArgTypes rankedInputIdx) (\<lambda>_. fail ''Out-of-bounds dimension'')
      else if dimension \<in> set seen then fail ''Duplicate reduction dimension''
      else Inr (dimension # seen)))"

definition verifyReduceOpInputsAndInferShape ::
  "ty list \<Rightarrow> ty list \<Rightarrow> dense_int \<Rightarrow> (int list \<times> encoding) res" where
  "verifyReduceOpInputsAndInferShape inputArgTypes initValueTypes dimensions =
     require (\<not> length (di_shape dimensions) \<noteq> 1) (Fatal ''dimensions must be rank 1'')
      (let rankedInputIdx = ranked_input_idx inputArgTypes;
           allInputsUnranked = (rankedInputIdx = - 1) in
       bnd (if allInputsUnranked then ok
            else bnd (at inputArgTypes rankedInputIdx) (\<lambda>rankedInput.
              require (list_all (\<lambda>t. verifyCompatibleShape rankedInput t) inputArgTypes)
                (Fatal ''expects all inputs to have compatible shapes.'') ok)) (\<lambda>_.
       bnd (foldM (reduce_dim_step inputArgTypes rankedInputIdx) [] (di_values dimensions)) (\<lambda>dimensionsToReduceSet.
       if allInputsUnranked then Inr ([], NoEncoding)
       else bnd (at inputArgTypes rankedInputIdx) (\<lambda>rankedInput.
         let inputBounds = encodingToBounds (encoding_of rankedInput);
             kept = filter (\<lambda>inputIdx. inputIdx \<notin> set dimensionsToReduceSet) [0..rank rankedInput - 1] in
         bnd (mapM (at (shape_of rankedInput)) kept) (\<lambda>newDimensions.
         bnd (if inputBounds \<noteq> [] then mapM (at inputBounds) kept else Inr []) (\<lambda>newBounds.
         bnd (if newBounds \<noteq> [] then boundsToEncoding (encoding_of rankedInput) newBounds else Inr NoEncoding)
           (\<lambda>encoding. Inr (newDimensions, encoding))))))))"

text \<open>A region as the verifiers see it: the types of its arguments and of what it returns.\<close>

record block =
  b_args :: "ty list"
  b_ret :: "ty list"

fun match_dims :: "int list \<Rightarrow> int list \<Rightarrow> int list" where
  "match_dims (allowed # allowedDimensions) (arg # argShape) =
     (if verifyCompatibleDims allowed arg then match_dims allowedDimensions argShape
      else match_dims allowedDimensions (arg # argShape))"
| "match_dims _ argShape = argShape"

text \<open>
  The checks of one input; the flag tells whether the code goes on to the next input or
  returns success at once.
\<close>

definition verify_reducer_input ::
  "block \<Rightarrow> ty list \<Rightarrow> ty list \<Rightarrow> nat \<Rightarrow> int list \<Rightarrow> bool \<Rightarrow> nat \<Rightarrow> bool res" where
  "verify_reducer_input block inputArgTypes initValueTypes numInputs allowedDimensions allInputsUnranked inputIdx =
     bnd (at (b_ret block) (int inputIdx)) (\<lambda>accumulator.
     bnd (at (b_args block) (int inputIdx)) (\<lambda>arg1.
     bnd (at (b_args block) (int (numInputs + inputIdx))) (\<lambda>arg2.
     require (compatibleShapeAndElementType accumulator arg1 False)
       (Fatal ''The type of reduction-region's parameter is different than the corresponding result type'')
    (require (compatibleShapeAndElementType accumulator arg2 True)
       (Fatal ''The type of reduction-region's parameter is different than the corresponding result type'')
    (bnd (at initValueTypes (int inputIdx)) (\<lambda>initValueType.
     require (compatibleShapeAndElementType accumulator initValueType True)
       (Fatal ''The type of reduction-region's result type differs from the op's corresponding init-value type'')
    (bnd (at inputArgTypes (int inputIdx)) (\<lambda>inputArgType.
     require (tensorsHaveSameElType [inputArgType, arg2] True)
       (Fatal ''The element-type of reduction-region's argument is not the expected one'')
    (if allInputsUnranked \<or> \<not> has_rank arg2 then Inr True
     else let argShape = shape_of arg2 in
       require (\<not> length argShape > length allowedDimensions)
         (Fatal ''The rank of reduction-region's argument is too large'')
      (require (match_dims allowedDimensions argShape = [])
         (Fatal ''The shape of reduction-region's argument is not compatible with that of reduce-op's input-parameter'')
         (Inr False)))))))))))"

fun verify_reducer_inputs :: "(nat \<Rightarrow> bool res) \<Rightarrow> nat list \<Rightarrow> unit res" where
  "verify_reducer_inputs check [] = ok"
| "verify_reducer_inputs check (i # is) =
     bnd (check i) (\<lambda>done'. if done' then ok else verify_reducer_inputs check is)"

definition verifyReducerShape ::
  "block \<Rightarrow> ty list \<Rightarrow> ty list \<Rightarrow> nat \<Rightarrow> int list \<Rightarrow> bool \<Rightarrow> unit res" where
  "verifyReducerShape block inputArgTypes initValueTypes numInputs allowedDimensions allInputsUnranked =
     require (\<not> length (b_args block) \<noteq> numInputs * 2) (Fatal ''Reduction-region must take parameters'')
    (require (b_ret block \<noteq> []) (Fatal ''The reduction-region expected to return some value(s)'')
    (require (\<not> length (b_ret block) \<noteq> numInputs) (Fatal ''Reduction-region here must produce tensors'')
    (require (list_all is_shaped (b_ret block)) (Fatal ''Reduction-region here must produce tensor-typed result(s)'')
      (verify_reducer_inputs (verify_reducer_input block inputArgTypes initValueTypes numInputs allowedDimensions
          allInputsUnranked) [0..<numInputs]))))"

definition inferReduceOp :: "ty list \<Rightarrow> ty list \<Rightarrow> dense_int \<Rightarrow> components list res" where
  "inferReduceOp inputTypes initValueTypes dimensions =
     require (list_all is_shaped inputTypes \<and> list_all is_shaped initValueTypes) Undefined
      (bnd (verifyReduceOpInputsAndInferShape inputTypes initValueTypes dimensions) (\<lambda>(newDimensions, encoding).
       Inr (map (\<lambda>inputType.
          if has_rank inputType
          then \<lparr>c_dims = Some newDimensions, c_elem = Some (element_type inputType), c_attr = encoding\<rparr>
          else \<lparr>c_dims = None, c_elem = Some (element_type inputType), c_attr = NoEncoding\<rparr>) inputTypes)))"

definition verifyReduceOp :: "ty list \<Rightarrow> ty list \<Rightarrow> dense_int \<Rightarrow> block \<Rightarrow> unit res" where
  "verifyReduceOp inputs initValues dimensions body =
     require (list_all is_shaped inputs \<and> list_all is_shaped initValues) Undefined
      (bnd (verifyReduceOpInputsAndInferShape inputs initValues dimensions) (\<lambda>(newDimensions, encoding).
         verifyReducerShape body inputs initValues (length inputs) newDimensions (ranked_input_idx inputs = - 1)))"

section \<open>Reduce window\<close>

record window_attrs =
  wa_dimensions :: dense_int
  wa_strides :: "dense_int option"
  wa_baseDilations :: "dense_int option"
  wa_windowDilations :: "dense_int option"
  wa_padding :: "dense_int option"

definition verifyReduceWindowOpInputsAndInferWindow ::
  "ty list \<Rightarrow> ty list \<Rightarrow> window_attrs \<Rightarrow> (int list \<times> window_dimension list) res" where
  "verifyReduceWindowOpInputsAndInferWindow inputArgTypes initValueTypes attrs =
     require (inputArgTypes \<noteq> []) (Fatal ''requires at least 1 input value'')
      (let rankedInputIdx = ranked_input_idx inputArgTypes in
       bnd (if rankedInputIdx = - 1 then ok
            else bnd (at inputArgTypes rankedInputIdx) (\<lambda>rankedInput.
              require (list_all (\<lambda>t. verifyCompatibleShape rankedInput t) inputArgTypes)
                (Fatal ''expects all inputs to have compatible shapes.'') ok)) (\<lambda>_.
       bnd (convert1DAttribute (Some (wa_dimensions attrs))) (\<lambda>windowDims.
       bnd (convert1DAttribute (wa_strides attrs)) (\<lambda>windowStrides.
       bnd (convert1DAttribute (wa_baseDilations attrs)) (\<lambda>baseDilations.
       bnd (convert1DAttribute (wa_windowDilations attrs)) (\<lambda>windowDilations.
       bnd (convertPaddingAttribute (wa_padding attrs)) (\<lambda>padding.
       require (list_all (\<lambda>t. \<not> has_rank t \<or> \<not> rank t \<noteq> int (length windowDims)) inputArgTypes)
         (Fatal ''expects window-dimensions size == input rank'')
      (bnd (verifyWindowAttributesAndInferWindowDimensions windowDims windowStrides padding baseDilations
             windowDilations []) (\<lambda>window.
       Inr (windowDims, window))))))))))"

definition inferReduceWindowOp :: "ty list \<Rightarrow> ty list \<Rightarrow> window_attrs \<Rightarrow> components list res" where
  "inferReduceWindowOp inputs initValues attrs =
     require (list_all is_shaped inputs \<and> list_all is_shaped initValues) Undefined
      (bnd (verifyReduceWindowOpInputsAndInferWindow inputs initValues attrs) (\<lambda>(windowDims, inferredWindow).
       mapM (\<lambda>input.
         if \<not> has_rank input then Inr \<lparr>c_dims = None, c_elem = Some (element_type input), c_attr = NoEncoding\<rparr>
         else bnd (inferWindowOutputShape (shape_of input) inferredWindow) (\<lambda>resultShape.
           let inputBounds = encodingToBounds (encoding_of input) in
           if inputBounds = []
           then Inr \<lparr>c_dims = Some resultShape, c_elem = Some (element_type input), c_attr = NoEncoding\<rparr>
           else bnd (inferWindowOutputShape inputBounds inferredWindow) (\<lambda>resultBounds.
             bnd (boundsToEncoding (encoding_of input) resultBounds) (\<lambda>enc.
             Inr \<lparr>c_dims = Some resultShape, c_elem = Some (element_type input), c_attr = enc\<rparr>)))) inputs))"

definition verifyReduceWindowOp :: "ty list \<Rightarrow> ty list \<Rightarrow> window_attrs \<Rightarrow> block \<Rightarrow> unit res" where
  "verifyReduceWindowOp inputs initValues attrs body =
     require (list_all is_shaped inputs \<and> list_all is_shaped initValues) Undefined
      (bnd (verifyReduceWindowOpInputsAndInferWindow inputs initValues attrs) (\<lambda>(windowDims, inferredWindow).
         verifyReducerShape body inputs initValues (length inputs) windowDims (ranked_input_idx inputs = - 1)))"

section \<open>Pad\<close>

text \<open>
  One dimension of the result: its size and, where the operand has bounds, its bound, from the
  size and bound of the operand.
\<close>

definition infer_pad_dim :: "int \<Rightarrow> int option \<Rightarrow> int \<Rightarrow> int \<Rightarrow> int \<Rightarrow> (int \<times> int) res" where
  "infer_pad_dim dimSize bound low high interior =
     require (\<not> interior < 0) (Fatal ''Interior padding cannot be negative'')
      (let isStaticDim = \<not> isDynamicDimSize dimSize;
           isStaticBound = (case bound of None \<Rightarrow> False | Some b \<Rightarrow> \<not> isDynamicDimSize b) in
       if isStaticDim \<or> isStaticBound then
         (let operandSizeOrBound = if isStaticDim then dimSize else the bound in
          bnd (i64 (operandSizeOrBound + low)) (\<lambda>a.
          bnd (i64 (a + high)) (\<lambda>b.
          bnd (i64 (operandSizeOrBound - 1)) (\<lambda>m.
          bnd (i64 (max m 0 * interior)) (\<lambda>c.
          bnd (i64 (b + c)) (\<lambda>resultSizeOrBound.
            require (\<not> resultSizeOrBound < 0) (Fatal ''Padding result in negative size or bound'')
              (Inr (if isStaticDim then (resultSizeOrBound, kDynamic) else (kDynamic, resultSizeOrBound)))))))))
       else Inr (kDynamic, kDynamic))"

definition inferPadOp :: "ty \<Rightarrow> ty \<Rightarrow> dense_int \<Rightarrow> dense_int \<Rightarrow> dense_int \<Rightarrow> ty res" where
  "inferPadOp inputType padType edgePaddingLow edgePaddingHigh interiorPadding =
     cast_ranked inputType (cast_ranked padType
      (require (\<not> rank padType \<noteq> 0) (Fatal ''padding value type should be a rank-0 tensor'')
      (require (\<not> length (di_shape edgePaddingLow) \<noteq> 1) (Fatal ''edge_padding_low has wrong rank'')
      (require (\<not> int (length (di_values edgePaddingLow)) \<noteq> rank inputType)
         (Fatal ''edge_padding_low length must match operand rank'')
       (let inputBounds = encodingToBounds (encoding_of inputType) in
        bnd (mapM (\<lambda>i.
            bnd (at (di_values edgePaddingLow) i) (\<lambda>low.
            bnd (at (di_values edgePaddingHigh) i) (\<lambda>high.
            bnd (at (di_values interiorPadding) i) (\<lambda>interior.
            bnd (at (shape_of inputType) i) (\<lambda>dimSize.
            bnd (if inputBounds = [] then Inr None else bnd (at inputBounds i) (\<lambda>b. Inr (Some b))) (\<lambda>bound.
              infer_pad_dim dimSize bound low high interior)))))) [0..rank inputType - 1]) (\<lambda>dims.
        bnd (boundsToEncoding (encoding_of inputType) (if inputBounds = [] then [] else map snd dims)) (\<lambda>enc.
        Inr (RankedTensorType (map fst dims) (element_type inputType) enc))))))))"

section \<open>Slice\<close>

definition divideCeil :: "int \<Rightarrow> int \<Rightarrow> int" where
  "divideCeil n d = (n + d - 1) div d"

definition infer_slice_dim :: "int \<Rightarrow> int option \<Rightarrow> int \<Rightarrow> int res \<Rightarrow> int res \<Rightarrow> int res" where
  "infer_slice_dim dimSize bound start limit_i stride_i =
     require (\<not> start < 0) (Fatal ''negative start index'')
      (bnd limit_i (\<lambda>limit.
       let isStaticDim = \<not> isDynamicDimSize dimSize;
           isStaticBound = (case bound of None \<Rightarrow> False | Some b \<Rightarrow> \<not> isDynamicDimSize b) in
       require (\<not> ((isStaticDim \<or> isStaticBound) \<and> limit > (if isStaticDim then dimSize else the bound)))
         (Fatal ''limit index is larger than dimension'')
      (require (\<not> start > limit) (Fatal ''start index is larger than limit index'')
      (bnd stride_i (\<lambda>stride.
       require (\<not> stride \<le> 0) (Fatal ''stride must be positive'')
        (Inr (divideCeil (limit - start) stride)))))))"

definition inferSliceOp :: "ty \<Rightarrow> dense_int \<Rightarrow> dense_int \<Rightarrow> dense_int \<Rightarrow> ty res" where
  "inferSliceOp operandType startIndices limitIndices strides =
     (if \<not> has_rank operandType then Inr operandType
      else
       require (\<not> length (di_shape startIndices) \<noteq> 1) (Fatal ''start_indices has wrong rank'')
      (require (\<not> int (length (di_values startIndices)) \<noteq> rank operandType)
         (Fatal ''the number of elements in start_indices does not match the rank of the operand'')
       (let inputBounds = encodingToBounds (encoding_of operandType) in
        bnd (mapM (\<lambda>i.
            bnd (at (di_values startIndices) i) (\<lambda>start.
            bnd (at (shape_of operandType) i) (\<lambda>dimSize.
            bnd (if inputBounds = [] then Inr None else bnd (at inputBounds i) (\<lambda>b. Inr (Some b))) (\<lambda>bound.
              infer_slice_dim dimSize bound start (at (di_values limitIndices) i) (at (di_values strides) i)))))
            [0..rank operandType - 1]) (\<lambda>shape.
        bnd (boundsToEncoding (encoding_of operandType) (replicate (length inputBounds) kDynamic)) (\<lambda>enc.
        Inr (RankedTensorType shape (element_type operandType) enc))))))"

end
