(* ===== verification/OpInference.thy ===== *)
theory OpInference
  imports ReduceInference
begin

text \<open>
  \<open>stablehlo/dialect/TypeInference.cpp\<close>: the inference functions and verifiers of the other
  operations the reference interpreter evaluates, of the collective operations and of the
  operations on dynamic shapes. The operands are given by their types, and by the constant
  they are known to be where the code asks for it; an operation's result, where the code
  appends it to a vector, is the value returned.
\<close>

section \<open>Helpers\<close>

definition ranked :: "int list \<Rightarrow> ty \<Rightarrow> encoding \<Rightarrow> components" where
  "ranked dims et enc = \<lparr>c_dims = Some dims, c_elem = Some et, c_attr = enc\<rparr>"

definition unranked :: "ty \<Rightarrow> components" where
  "unranked et = \<lparr>c_dims = None, c_elem = Some et, c_attr = NoEncoding\<rparr>"

definition verifyDimInBounds :: "ty \<Rightarrow> int \<Rightarrow> unit res" where
  "verifyDimInBounds type dim =
     require (\<not> dim < 0) (Fatal ''requires non-negative dimension attribute'')
       (require (\<not> (has_rank type \<and> dim \<ge> rank type)) (Fatal ''requires dimension attribute in range'') ok)"

text \<open>A region that may have no block.\<close>

definition verifyRegionNotEmpty :: "block option \<Rightarrow> unit res" where
  "verifyRegionNotEmpty region = require (region \<noteq> None) (Fatal ''expect non-empty region'') ok"

section \<open>Conditionals and loops\<close>

definition inferConditionalOp :: "ty \<Rightarrow> block option list \<Rightarrow> ty list res" where
  "inferConditionalOp operand branches =
     require (\<not> (has_rank operand \<and> rank operand \<noteq> 0)) (Fatal ''operand should be rank 0 tensor'')
    (require (branches \<noteq> []) (Fatal ''expect at least one branch'')
    (bnd (mapM (\<lambda>region. bnd (verifyRegionNotEmpty region) (\<lambda>_. Inr (the region))) branches) (\<lambda>blocks.
     let branch0ResultTypes = b_ret (hd blocks) in
     bnd (foldM (\<lambda>_ region.
            require (\<not> length (b_args region) \<noteq> 0) (Fatal ''branch must have 0 arguments'')
           (require (compatible_ranges branch0ResultTypes (b_ret region))
              (Fatal ''branches have mismatched return types'') ok)) () blocks) (\<lambda>_.
     mapM (\<lambda>i. bnd (mapM (\<lambda>branch. at (b_ret branch) (int i)) blocks) inferLeastSpecificType)
       [0..<length branch0ResultTypes]))))"

definition inferCaseOp :: "ty \<Rightarrow> block option list \<Rightarrow> ty list res" where
  "inferCaseOp index branches = inferConditionalOp index branches"

definition inferIfOp :: "ty \<Rightarrow> block option list \<Rightarrow> ty list res" where
  "inferIfOp pred branches = inferConditionalOp pred branches"

definition inferWhileOp :: "ty list \<Rightarrow> ty list res" where
  "inferWhileOp operand = Inr operand"

definition verifyWhileOp :: "ty list \<Rightarrow> block \<Rightarrow> block \<Rightarrow> unit res" where
  "verifyWhileOp operandTypes cond body =
     require (compatible_ranges operandTypes (b_args cond))
       (Fatal ''expect operands to be compatible with condition block arguments'')
    (require (compatible_ranges operandTypes (b_args body))
       (Fatal ''expect operands to be compatible with body block arguments'')
    (require (compatible_ranges operandTypes (b_ret body))
       (Fatal ''expect operands to be compatible with body block return types'')
    (require (\<not> length (b_ret cond) \<noteq> 1) (Fatal ''expect condition body returns a single value'')
    (bnd (at (b_ret cond) 0) (\<lambda>operandType. cast_shaped operandType
      (require (\<not> (has_rank operandType \<and> rank operandType \<noteq> 0 \<or> \<not> is_i1 (element_type operandType)))
        (Fatal ''expect condition block return a zero-ranked tensor of i1'') ok))))))"

section \<open>Element-wise operations\<close>

definition inferAbsOp :: "ty \<Rightarrow> ty res" where
  "inferAbsOp operand = cast_shaped operand
     (let elementTy = (case element_type operand of ComplexType et \<Rightarrow> et | et \<Rightarrow> et) in
      if has_rank operand then Inr (RankedTensorType (shape_of operand) elementTy (encoding_of operand))
      else Inr (UnrankedTensorType elementTy))"

definition inferClampOp :: "ty \<Rightarrow> ty \<Rightarrow> ty \<Rightarrow> components res" where
  "inferClampOp minType operandType maxType =
     cast_ranked operandType (cast_ranked minType
      (require (\<not> (\<not> verifyCompatibleShape minType operandType \<and> rank minType \<noteq> 0))
        (Fatal ''min shape is not scalar and is not compatible to operand shape'')
      (cast_ranked maxType
      (require (\<not> (\<not> verifyCompatibleShape maxType operandType \<and> rank maxType \<noteq> 0))
        (Fatal ''max shape is not scalar and is not compatible to operand shape'')
        (Inr (components_of operandType))))))"

definition inferCompareOp :: "ty \<Rightarrow> components res" where
  "inferCompareOp lhs = cast_shaped lhs
     (Inr (if has_rank lhs then ranked (shape_of lhs) (IntegerType Signless 1) NoEncoding
           else unranked (IntegerType Signless 1)))"

definition inferComplexOp :: "ty \<Rightarrow> ty res" where
  "inferComplexOp lhs = cast_shaped lhs (getSameShapeTensorType lhs (ComplexType (element_type lhs)))"

definition inferRealOp :: "ty \<Rightarrow> ty res" where
  "inferRealOp operand = cast_shaped operand (createRealType operand)"

definition inferImagOp :: "ty \<Rightarrow> ty res" where
  "inferImagOp operand = cast_shaped operand (createRealType operand)"

definition inferIsFiniteOp :: "ty \<Rightarrow> ty res" where
  "inferIsFiniteOp x = cast_shaped x (getSameShapeTensorType x (IntegerType Signless 1))"

definition inferConvertOp :: "ty \<Rightarrow> components res" where
  "inferConvertOp operand = cast_shaped operand
     (Inr \<lparr>c_dims = Some (if has_rank operand then shape_of operand else []), c_elem = None, c_attr = NoEncoding\<rparr>)"

definition inferSelectOp :: "ty \<Rightarrow> ty \<Rightarrow> ty \<Rightarrow> components res" where
  "inferSelectOp predType trueType falseType =
     cast_shaped predType (cast_shaped trueType (cast_shaped falseType
      (require (compatibleShapeAndElementType trueType falseType False)
        (Fatal ''requires compatible types for non-predicate operands'')
      (let predCannotBeScalar = has_rank predType \<and> rank predType \<noteq> 0 in
       require (\<not> (predCannotBeScalar \<and> \<not> verifyCompatibleShape predType trueType))
        (Fatal ''requires the same shape for all operands'')
        (inferMostSpecificTypeComponents [trueType, falseType])))))"

section \<open>Operations on shapes\<close>

definition inferBroadcastOp :: "ty \<Rightarrow> dense_int \<Rightarrow> components res" where
  "inferBroadcastOp operandType broadcastSizes =
     (if \<not> has_rank operandType then fail ''unranked operand''
      else require (\<not> length (di_shape broadcastSizes) \<noteq> 1) (Fatal ''broadcast_sizes has wrong rank'')
       (require (list_all (\<lambda>s. \<not> s < 0) (di_values broadcastSizes))
         (Fatal ''Broadcast with negative dimension size'')
         (Inr (ranked (di_values broadcastSizes @ shape_of operandType) (element_type operandType) NoEncoding))))"

definition inferCholeskyOp :: "ty \<Rightarrow> components res" where
  "inferCholeskyOp a =
     (if \<not> has_rank a then cast_shaped a (Inr (unranked (element_type a)))
      else let aShape = shape_of a; n = length aShape in
        require (\<not> n < 2) (Fatal ''argument 'a' must have rank >= 2'')
       (require (verifyCompatibleDims (aShape ! (n - 2)) (aShape ! (n - 1)))
         (Fatal ''minor dimensions of 'a' must have equal size'')
         (Inr (ranked aShape (element_type a) (encoding_of a)))))"

text \<open>The first loop of \<open>inferConcatenateOp\<close>; its state is \<open>firstRankedType\<close>.\<close>

definition concat_check :: "int \<Rightarrow> ty option \<Rightarrow> ty \<Rightarrow> ty option res" where
  "concat_check dimension firstRankedType secondType = cast_shaped secondType
     (if \<not> has_rank secondType then Inr firstRankedType
      else case firstRankedType of
        None \<Rightarrow>
          require (\<not> rank secondType = 0) (Fatal ''rank-0 values cannot be concatenated'')
         (require (\<not> dimension \<ge> rank secondType) (Fatal ''dimension is out-of-bounds for input rank'')
           (Inr (Some secondType)))
      | Some firstType \<Rightarrow>
          require (\<not> rank firstType \<noteq> rank secondType) (Fatal ''operands do not match rank'')
         (require (list_all (\<lambda>(d, a, b). \<not> (d \<noteq> dimension \<and> \<not> verifyCompatibleDims a b))
              (zip [0..rank firstType - 1] (zip (shape_of firstType) (shape_of secondType))))
            (Fatal ''shapes of operands do not match at non-concat index'')
           (Inr (Some firstType))))"

definition concat_dims :: "int \<Rightarrow> int \<Rightarrow> (int \<times> int) list \<Rightarrow> ty \<Rightarrow> (int \<times> int) list res" where
  "concat_dims dimension rank' inferred inputType =
     (let bounds = (if has_rank inputType then encodingToBounds (encoding_of inputType) else []) in
      mapM (\<lambda>dim.
        bnd (at inferred dim) (\<lambda>(leftSize, leftBound).
        bnd (if has_rank inputType then at (shape_of inputType) dim else Inr kDynamic) (\<lambda>rightSize.
        bnd (if bounds = [] then Inr kDynamic else at bounds dim) (\<lambda>rightBound.
          if dim = dimension then inferConcatenatedDimAndBound leftSize rightSize leftBound rightBound
          else inferMostSpecificDimAndBound leftSize rightSize leftBound rightBound)))) [0..rank' - 1])"

definition inferConcatenateOp :: "ty list \<Rightarrow> int \<Rightarrow> ty res" where
  "inferConcatenateOp inputTypes dimension =
     require (\<not> dimension < 0) (Fatal ''dimension is negative'')
      (bnd (foldM (concat_check dimension) None inputTypes) (\<lambda>firstRankedType.
       bnd (at inputTypes 0) (\<lambda>type0.
       case firstRankedType of
         None \<Rightarrow> Inr (UnrankedTensorType (element_type type0))
       | Some firstType \<Rightarrow>
           let rank' = rank firstType;
               start = (replicate (nat rank') (kDynamic, kDynamic))[nat dimension := (0, kDynamic)];
               anyInputHaveBounds = list_ex (\<lambda>t. has_rank t \<and> encodingToBounds (encoding_of t) \<noteq> []) inputTypes in
           bnd (foldM (concat_dims dimension rank') start inputTypes) (\<lambda>inferred.
           bnd (boundsToEncoding (encoding_of firstType) (if anyInputHaveBounds then map snd inferred else [])) (\<lambda>enc.
           Inr (RankedTensorType (map fst inferred) (element_type type0) enc))))))"

definition inferDynamicSliceOp :: "ty \<Rightarrow> ty list \<Rightarrow> dense_int \<Rightarrow> components res" where
  "inferDynamicSliceOp operandType startIndicesTypes sliceSizes =
     require (\<not> length (di_shape sliceSizes) \<noteq> 1) (Fatal ''slice_sizes should be rank 1'')
    (require (\<not> length startIndicesTypes \<noteq> length (di_values sliceSizes))
       (Fatal ''has mismatched number of slice sizes and number of start indices'')
    (if \<not> has_rank operandType then fail ''unranked operand''
     else require (\<not> rank operandType \<noteq> int (length startIndicesTypes))
       (Fatal ''has mismatched number of start indices and the rank of operand'')
    (require (tensorsHaveSameElType startIndicesTypes True) (Fatal ''start indices must have same element type'')
    (bnd (foldM (\<lambda>_ (sliceSize, dimSize).
            require (\<not> sliceSize < 0) (Fatal ''has negative size index to dynamic slice'')
           (require (\<not> (\<not> isDynamicDimSize dimSize \<and> sliceSize > dimSize))
              (Fatal ''has slice size greater than dimension size'') ok)) ()
          (zip (di_values sliceSizes) (shape_of operandType))) (\<lambda>_.
     Inr (ranked (di_values sliceSizes) (element_type operandType) NoEncoding))))))"

definition inferDynamicUpdateSliceOp :: "ty \<Rightarrow> ty \<Rightarrow> ty list \<Rightarrow> components res" where
  "inferDynamicUpdateSliceOp operandType updateType startIndices =
     cast_shaped operandType (cast_shaped updateType
      (require (\<not> (has_rank updateType \<and> has_rank operandType \<and> rank updateType \<noteq> rank operandType))
        (Fatal ''update rank does not match operand rank'')
      (require (\<not> (has_rank operandType \<and> int (length startIndices) \<noteq> rank operandType))
        (Fatal ''expects number of start_indices to match operand rank'')
      (require (tensorsHaveSameElType startIndices True) (Fatal ''start indices must have same element type'')
      (bnd (if has_rank operandType \<and> has_rank updateType then
              foldM (\<lambda>_ (operandDim, updateDim).
                if isDynamicDimSize updateDim then ok
                else if isStaticDimSize operandDim then
                  require (\<not> (updateDim < 0 \<or> updateDim > operandDim)) (Fatal ''expects size of update to be in range'') ok
                else require (\<not> updateDim < 0) (Fatal ''expects size of update to be non-negative'') ok) ()
                (zip (shape_of operandType) (shape_of updateType))
            else ok) (\<lambda>_.
       Inr (if has_rank operandType
            then ranked (shape_of operandType) (element_type operandType) (encoding_of operandType)
            else unranked (element_type operandType))))))))"

definition inferGetDimensionSizeOp :: "ty \<Rightarrow> int \<Rightarrow> components res" where
  "inferGetDimensionSizeOp operandType dimension = cast_shaped operandType
     (bnd (verifyDimInBounds operandType dimension) (\<lambda>_. Inr (ranked [] (IntegerType Signless 32) NoEncoding)))"

definition inferReverseOp :: "ty \<Rightarrow> components res" where
  "inferReverseOp operandType = inferMostSpecificTypeComponents [operandType]"

definition inferSetDimensionSizeOp :: "ty \<Rightarrow> operand \<Rightarrow> int \<Rightarrow> components res" where
  "inferSetDimensionSizeOp operandType sizeOp dimension =
     require (\<not> (has_rank (o_type sizeOp) \<and> rank (o_type sizeOp) \<noteq> 0)) (Fatal ''size operand should be of rank-0'')
    (cast_shaped operandType (bnd (verifyDimInBounds operandType dimension) (\<lambda>_.
     if \<not> has_rank operandType then Inr (unranked (element_type operandType))
     else require (\<not> (dimension < 0 \<or> dimension \<ge> rank operandType)) (Fatal ''expects dimension to be in range'')
      (let shape0 = shape_of operandType;
           inputBounds = encodingToBounds (encoding_of operandType);
           bounds0 = (if inputBounds \<noteq> [] then inputBounds else replicate (length shape0) kDynamic) in
       bnd (at shape0 dimension) (\<lambda>dimSize.
       bnd (if \<not> isDynamicDimSize dimSize then put bounds0 dimension dimSize else Inr bounds0) (\<lambda>bounds1.
       bnd (put shape0 dimension kDynamic) (\<lambda>shape1.
       bnd (case o_const sizeOp of
              None \<Rightarrow> Inr (shape1, bounds1)
            | Some sizeAttr \<Rightarrow>
                bnd (at (di_values sizeAttr) 0) (\<lambda>splat. bnd (at bounds1 dimension) (\<lambda>bound.
                if splat = bound
                then bnd (put shape1 dimension splat) (\<lambda>s. bnd (put bounds1 dimension kDynamic) (\<lambda>b. Inr (s, b)))
                else Inr (shape1, bounds1)))) (\<lambda>(shape, bounds).
       Inr (ranked shape (element_type operandType)
             (if list_all isDynamicDimSize bounds then NoEncoding else Bounds bounds))))))))))"

definition inferSortOp :: "ty list \<Rightarrow> components list res" where
  "inferSortOp inputs =
     mapM (\<lambda>resultType.
       if has_rank resultType then Inr (ranked (shape_of resultType) (element_type resultType) (encoding_of resultType))
       else cast_shaped resultType (Inr (components_of resultType))) inputs"

definition is_permutation :: "int list \<Rightarrow> int list \<Rightarrow> bool" where
  "is_permutation xs ys \<longleftrightarrow> length xs = length ys \<and> list_all (\<lambda>x. count_list xs x = count_list ys x) xs"

definition inferTransposeOp :: "ty \<Rightarrow> dense_int \<Rightarrow> ty res" where
  "inferTransposeOp operand permutation =
     (if \<not> has_rank operand then Inr operand
      else
       require (\<not> length (di_shape permutation) \<noteq> 1) (Fatal ''TransposeOp permutation has wrong rank'')
      (require (\<not> int (length (di_values permutation)) \<noteq> rank operand)
        (Fatal ''TransposeOp operand rank does not match permutation size'')
      (require (is_permutation [0..rank operand - 1] (di_values permutation))
        (Fatal ''attribute permutation must be a permutation'')
       (let inputBounds = encodingToBounds (encoding_of operand) in
        bnd (mapM (at (shape_of operand)) (di_values permutation)) (\<lambda>resultShape.
        bnd (if inputBounds \<noteq> [] then mapM (at inputBounds) (di_values permutation) else Inr []) (\<lambda>resultBounds.
        bnd (boundsToEncoding (encoding_of operand) resultBounds) (\<lambda>enc.
        Inr (RankedTensorType resultShape (element_type operand) enc))))))))"

text \<open>
  \<open>inferRngOp\<close> stores the dimension of a shape operand that is not a constant in an \<open>int\<close> of
  32 bits, which loses the value \<open>kDynamic\<close>.
\<close>

definition to_int32 :: "int \<Rightarrow> int" where
  "to_int32 v = (v + 2 ^ 31) mod 2 ^ 32 - 2 ^ 31"

definition inferRngOp :: "ty \<Rightarrow> ty \<Rightarrow> operand \<Rightarrow> bool \<Rightarrow> components res" where
  "inferRngOp a b shape isRngDistributionUniform =
     bnd (if \<not> isRngDistributionUniform then
            cast_shaped a (cast_shaped b
              (require (\<not> (\<not> is_float (element_type a) \<or> \<not> is_float (element_type b)))
                (Fatal ''mu and sigma must be floats'') ok))
          else ok) (\<lambda>_.
     cast_shaped (o_type shape)
      (let elementType = element_type b in
       case o_const shape of
         None \<Rightarrow>
           cast_ranked (o_type shape) (bnd (at (shape_of (o_type shape)) 0) (\<lambda>d.
             let sz = to_int32 d in
             if isDynamicDimSize sz then Inr (unranked elementType)
             else require (0 \<le> sz) Undefined
                    (Inr (ranked (replicate (nat sz) kDynamic) elementType NoEncoding))))
       | Some shapeAttr \<Rightarrow> Inr (ranked (di_values shapeAttr) elementType NoEncoding)))"

section \<open>Verifiers\<close>

definition verifyBroadcastInDimOp :: "ty \<Rightarrow> dense_int \<Rightarrow> ty \<Rightarrow> unit res" where
  "verifyBroadcastInDimOp operandType broadcastDimensions resultType =
     (if \<not> has_rank operandType then ok
      else
       require (\<not> length (di_shape broadcastDimensions) \<noteq> 1) (Fatal ''broadcast_dimensions has wrong rank'')
      (let dimensions = di_values broadcastDimensions in
       require (\<not> int (length dimensions) \<noteq> rank operandType)
         (Fatal ''broadcast_dimensions size does not match operand rank'')
      (require (\<not> hasDuplicates dimensions) (Fatal ''broadcast_dimensions should not have duplicates'')
      (cast_ranked resultType
      (foldM (\<lambda>_ (dimIndex, dimSize).
          require (\<not> (dimIndex < 0 \<or> dimIndex \<ge> rank resultType))
            (Fatal ''broadcast_dimensions contains invalid value'')
         (if isDynamicDimSize dimSize then ok
          else bnd (at (shape_of resultType) dimIndex) (\<lambda>resultDimSize.
            require (\<not> (dimSize \<noteq> 1 \<and> dimSize \<noteq> resultDimSize))
              (Fatal ''size of operand dimension is not equal to 1 or size of result dimension'') ok))) ()
        (zip dimensions (shape_of operandType)))))))"

definition verifyIotaOp :: "int \<Rightarrow> ty \<Rightarrow> unit res" where
  "verifyIotaOp iotaDimension result = cast_shaped result
     (if \<not> has_rank result then ok
      else require (\<not> rank result = 0) (Fatal ''does not support scalars.'')
       (require (\<not> (iotaDimension \<ge> rank result \<or> iotaDimension < 0))
         (Fatal ''iota dimension cannot go beyond the output rank or be negative.'') ok))"

definition verifyReshapeOp :: "ty \<Rightarrow> ty \<Rightarrow> unit res" where
  "verifyReshapeOp operandTy resultTy =
     (if \<not> has_rank operandTy \<or> \<not> static_shape (shape_of operandTy) then ok
      else cast_ranked resultTy (require (static_shape (shape_of resultTy)) Undefined
       (require (\<not> num_elements (shape_of resultTy) \<noteq> num_elements (shape_of operandTy))
         (Fatal ''number of output elements doesn't match expected number of elements'') ok)))"

definition verifyReverseOp :: "ty \<Rightarrow> dense_int \<Rightarrow> unit res" where
  "verifyReverseOp operandTy dimensions =
     require (\<not> length (di_shape dimensions) \<noteq> 1) (Fatal ''dimensions has wrong rank'')
    (require (\<not> hasDuplicates (di_values dimensions)) (Fatal ''dimensions should be unique.'')
    (foldM (\<lambda>_ dim.
        require (\<not> dim < 0) (Fatal ''all dimensions should be non-negative.'')
       (require (\<not> (has_rank operandTy \<and> dim \<ge> rank operandTy)) (Fatal ''all dimensions should be in range'') ok))
      () (di_values dimensions)))"

definition verifySortOp :: "ty list \<Rightarrow> int \<Rightarrow> block \<Rightarrow> unit res" where
  "verifySortOp operandTypes dimension comparator =
     require (list_all is_shaped operandTypes) Undefined
    (require (case filter has_rank operandTypes of [] \<Rightarrow> True | t # _ \<Rightarrow> \<not> (dimension < - rank t \<or> dimension \<ge> rank t))
       (Fatal ''dimension attribute value must be in range'')
    (require (\<not> length (b_args comparator) \<noteq> 2 * length operandTypes) (Fatal ''comparator block should have arguments'')
    (require (list_all (\<lambda>(index, operandType). list_all (\<lambda>i. \<not> b_args comparator ! i \<noteq>
           RankedTensorType [] (element_type operandType) NoEncoding) [2 * index, 2 * index + 1])
         (zip [0..<length operandTypes] operandTypes))
       (Fatal ''comparator block argument has the wrong type'')
    (require (\<not> length (b_ret comparator) \<noteq> 1) (Fatal ''comparator must return single output'')
    (bnd (at (b_ret comparator) 0) (\<lambda>t. cast_shaped t
      (require (\<not> (has_rank t \<and> rank t \<noteq> 0 \<or> \<not> is_i1 (element_type t)))
        (Fatal ''comparator must return tensor<i1>'') ok)))))))"

section \<open>Collective operations\<close>

text \<open>C++ integer division and remainder truncate toward zero.\<close>

definition c_div :: "int \<Rightarrow> int \<Rightarrow> int" where
  "c_div a b = sgn a * sgn b * (\<bar>a\<bar> div \<bar>b\<bar>)"

definition c_rem :: "int \<Rightarrow> int \<Rightarrow> int" where
  "c_rem a b = a - c_div a b * b"

definition inferAllToAllOp :: "ty \<Rightarrow> int \<Rightarrow> int \<Rightarrow> int \<Rightarrow> dense_int \<Rightarrow> components res" where
  "inferAllToAllOp operandType splitDimension concatDimension splitCount replicaGroups =
     require (\<not> splitCount \<le> 0) (Fatal ''AllToAll split_count must be > 0'')
    (bnd (verifyReplicaGroups replicaGroups True False (Some (nat splitCount))) (\<lambda>_.
     require (\<not> splitDimension < 0) (Fatal ''AllToAll split_dimension cannot be negative'')
    (require (\<not> concatDimension < 0) (Fatal ''AllToAll concat_dimension cannot be negative'')
    (if \<not> has_rank operandType then cast_shaped operandType (Inr (unranked (element_type operandType)))
     else
      require (\<not> splitDimension \<ge> rank operandType) (Fatal ''AllToAll split_dimension is out-of-bounds for input rank'')
     (require (\<not> concatDimension \<ge> rank operandType) (Fatal ''AllToAll concat_dimension is out-of-bounds for input rank'')
     (let split = (\<lambda>xs. bnd (at xs splitDimension) (\<lambda>d.
            if isStaticDimSize d then put xs splitDimension (c_div d splitCount) else Inr xs));
          join = (\<lambda>xs. bnd (at xs concatDimension) (\<lambda>d.
            if isStaticDimSize d then bnd (i64 (d * splitCount)) (put xs concatDimension) else Inr xs)) in
      bnd (at (shape_of operandType) splitDimension) (\<lambda>splitSize.
      require (\<not> (isStaticDimSize splitSize \<and> c_rem splitSize splitCount \<noteq> 0))
        (Fatal ''split dimension has a size that is not a multiple of split_count'')
     (bnd (bnd (split (shape_of operandType)) join) (\<lambda>resultShape.
      bnd (let bounds = encodingToBounds (encoding_of operandType) in
           if bounds \<noteq> [] then bnd (split bounds) join else Inr []) (\<lambda>resultBounds.
      bnd (boundsToEncoding (encoding_of operandType) resultBounds) (\<lambda>enc.
      Inr (ranked resultShape (element_type operandType) enc))))))))))))"

definition verifyAllGatherOp :: "ty \<Rightarrow> int \<Rightarrow> dense_int \<Rightarrow> bool \<Rightarrow> ty \<Rightarrow> unit res" where
  "verifyAllGatherOp operandType allGatherDim replicaGroups useGlobalDeviceIds resultType =
     bnd (verifyReplicaGroups replicaGroups True useGlobalDeviceIds None) (\<lambda>_.
     require (\<not> allGatherDim < 0) (Fatal ''all_gather_dim cannot be negative'')
    (bnd (if has_rank operandType then
            require (\<not> allGatherDim \<ge> rank operandType) (Fatal ''all_gather_dim must be a valid index of operand'')
           (bnd (at (shape_of operandType) allGatherDim) (\<lambda>d.
            require (\<not> d = 0) (Fatal ''dimension size of operand at all_gather_dim cannot be zero'') ok))
          else ok) (\<lambda>_.
     if has_rank operandType \<and> has_rank resultType then
       require (\<not> rank resultType \<noteq> rank operandType) (Fatal ''operand and return must have the same rank'')
      (require (list_all (\<lambda>(i, r, d). i = allGatherDim \<or> verifyCompatibleDims r d)
           (zip [0..rank operandType - 1] (zip (shape_of resultType) (shape_of operandType))))
         (Fatal ''operand and result should have the same shape except for the dimension size at all_gather_dim'')
      (bnd (at (shape_of operandType) allGatherDim) (\<lambda>d. bnd (at (shape_of resultType) allGatherDim) (\<lambda>r.
       if isDynamicDimSize d \<or> isDynamicDimSize r then ok
       else require (\<not> c_rem r d \<noteq> 0)
         (Fatal ''result gather dimension is not a multiple of operand gather dimension size'') ok))))
     else ok)))"

definition verifyAllReduceOp :: "ty \<Rightarrow> dense_int \<Rightarrow> bool \<Rightarrow> block \<Rightarrow> unit res" where
  "verifyAllReduceOp operandType replicaGroups useGlobalDeviceIds computation =
     bnd (verifyReplicaGroups replicaGroups False useGlobalDeviceIds None) (\<lambda>_. cast_shaped operandType
       (verifyReducerShape computation [operandType] [RankedTensorType [] (element_type operandType) NoEncoding]
         1 [] (\<not> has_rank operandType)))"

definition verifyCollectivePermuteOp :: "dense_int \<Rightarrow> unit res" where
  "verifyCollectivePermuteOp sourceTargetPairs =
     require (\<not> length (di_shape sourceTargetPairs) \<noteq> 2)
       (Fatal ''expect source_target_pairs attribute to be of rank 2'')
    (require (\<not> di_shape sourceTargetPairs ! 1 \<noteq> 2)
       (Fatal ''expect source_target_pairs attribute of shape (N, 2)'')
    (bnd (foldM (\<lambda>(sources, targets) (i, val).
         require (\<not> val < 0) (Fatal ''replica ids in source_target_pairs must be >= 0.'')
        (if i mod 2 = 0
         then require (val \<notin> set sources) (Fatal ''duplicate sources not allowed.'') (Inr (val # sources, targets))
         else require (val \<notin> set targets) (Fatal ''duplicate targets not allowed.'') (Inr (sources, val # targets))))
       ([], []) (zip [0..<length (di_values sourceTargetPairs)] (di_values sourceTargetPairs))) (\<lambda>_. ok)))"

definition verifyReduceScatterOp :: "ty \<Rightarrow> int \<Rightarrow> dense_int \<Rightarrow> bool \<Rightarrow> block \<Rightarrow> ty \<Rightarrow> unit res" where
  "verifyReduceScatterOp operandType scatterDimension replicaGroups useGlobalDeviceIds computation resultType =
     bnd (verifyReplicaGroups replicaGroups True useGlobalDeviceIds None) (\<lambda>_. cast_shaped operandType
    (bnd (verifyReducerShape computation [operandType] [RankedTensorType [] (element_type operandType) NoEncoding]
         1 [] (\<not> has_rank operandType)) (\<lambda>_. cast_shaped resultType
    (if \<not> has_rank operandType \<or> \<not> has_rank resultType then ok
     else
      require (\<not> rank operandType \<noteq> rank resultType) (Fatal ''operand and result should have same rank'')
     (require (\<not> scatterDimension < 0) (Fatal ''expects scatter_dimension >= 0'')
     (require (\<not> scatterDimension \<ge> rank operandType) (Fatal ''scatter dim should be less than operand/result rank'')
     (bnd (at (shape_of operandType) scatterDimension) (\<lambda>operandSize.
      bnd (at (shape_of resultType) scatterDimension) (\<lambda>resultSize.
      if isDynamicDimSize operandSize \<or> isDynamicDimSize resultSize then ok
      else
       require (\<not> operandSize = 0) (Fatal ''operand scatter dimension cannot be zero'')
      (require (\<not> resultSize = 0) (Fatal ''result scatter dimension cannot be zero'')
      (require (\<not> (isStaticDimSize operandSize \<and> isStaticDimSize resultSize \<and> c_rem operandSize resultSize \<noteq> 0))
        (Fatal ''operand scatter dimension is not a multiple of result scatter dimension size'')
      (require (list_all (\<lambda>(i, a, b). i = scatterDimension \<or> verifyCompatibleDims a b)
          (zip [0..rank operandType - 1] (zip (shape_of operandType) (shape_of resultType))))
        (Fatal ''non scatter dimensions should be same for operand and result'') ok))))))))))))"

end
