(* ===== verification/Scope.thy ===== *)
theory Scope
  imports TensorLaws
begin

text \<open>
  \<open>stablehlo/reference/Scope.cpp\<close> and \<open>Scope.h\<close>: the environment of a region. A scope holds a
  stack frame (a \<open>DenseMap\<close> from SSA values to tensors) and a pointer to the scope of the
  enclosing region; it is a list of frames here, the innermost first. Only the innermost frame
  is ever written. An SSA value is its identity and its type.
\<close>

record ssa =
  s_id :: nat
  s_type :: ty

type_synonym frame = "nat \<rightharpoonup> tensor"
type_synonym scope = "frame list"

definition not_found :: error where
  "not_found = Fatal ''value not found in scope''"

definition scope_new :: "scope \<Rightarrow> scope" where
  "scope_new parent = Map.empty # parent"

fun scope_add :: "scope \<Rightarrow> ssa \<Rightarrow> tensor \<Rightarrow> scope res" where
  "scope_add [] ssaValue runtimeValue = Inl Undefined"
| "scope_add (stack_frame # parent) ssaValue runtimeValue =
     (if stack_frame (s_id ssaValue) \<noteq> None then
        Inl (Fatal ''Duplicate SSA register found in scope'')
      else if s_type ssaValue \<noteq> t_type runtimeValue then
        Inl (Fatal ''Expected same type for an SSA register and its evaluated value'')
      else Inr (stack_frame(s_id ssaValue \<mapsto> runtimeValue) # parent))"

definition scope_add_all :: "scope \<Rightarrow> ssa list \<Rightarrow> tensor list \<Rightarrow> scope res" where
  "scope_add_all scope ssaValues runtimeValues =
     require (length ssaValues = length runtimeValues) Undefined
       (foldM (\<lambda>scope (ssaValue, runtimeValue). scope_add scope ssaValue runtimeValue) scope
         (zip ssaValues runtimeValues))"

fun scope_find :: "scope \<Rightarrow> ssa \<Rightarrow> tensor res" where
  "scope_find [] ssaValue = Inl not_found"
| "scope_find (stack_frame # parent) ssaValue =
     (case stack_frame (s_id ssaValue) of Some t \<Rightarrow> Inr t | None \<Rightarrow> scope_find parent ssaValue)"

definition scope_find_all :: "scope \<Rightarrow> ssa list \<Rightarrow> tensor list res" where
  "scope_find_all scope ssaValues = mapM (scope_find scope) ssaValues"

section \<open>Laws\<close>

text \<open>The binding a scope gives to an SSA value: that of the innermost frame that has one.\<close>

fun binding :: "scope \<Rightarrow> nat \<Rightarrow> tensor option" where
  "binding [] i = None"
| "binding (f # fs) i = (case f i of Some t \<Rightarrow> Some t | None \<Rightarrow> binding fs i)"

lemma scope_find_binding:
  "scope_find s v = (case binding s (s_id v) of Some t \<Rightarrow> Inr t | None \<Rightarrow> Inl not_found)"
  by (induction s) (auto split: option.splits)

lemma scope_add_eq_Inr [res_simps]:
  "scope_add s v t = Inr s' \<longleftrightarrow>
    (\<exists>f p. s = f # p \<and> f (s_id v) = None \<and> s_type v = t_type t \<and> s' = f(s_id v \<mapsto> t) # p)"
  by (cases s) auto

lemma scope_add_binding:
  "scope_add s v t = Inr s' \<Longrightarrow> binding s' i = (if i = s_id v then Some t else binding s i)"
  by (auto simp: scope_add_eq_Inr)

text \<open>Every binding has the type of the SSA value it was added for, as recorded in \<open>\<Gamma>\<close>.\<close>

definition scope_typed :: "(nat \<Rightarrow> ty) \<Rightarrow> scope \<Rightarrow> bool" where
  "scope_typed \<Gamma> s \<longleftrightarrow> (\<forall>f \<in> set s. \<forall>i t. f i = Some t \<longrightarrow> t_type t = \<Gamma> i \<and> wf_tensor t)"

lemma scope_typed_new [simp]: "scope_typed \<Gamma> (scope_new s) \<longleftrightarrow> scope_typed \<Gamma> s"
  by (auto simp: scope_typed_def scope_new_def)

lemma scope_typed_add:
  "scope_typed \<Gamma> s \<Longrightarrow> scope_add s v t = Inr s' \<Longrightarrow> wf_tensor t \<Longrightarrow> s_type v = \<Gamma> (s_id v) \<Longrightarrow> scope_typed \<Gamma> s'"
  by (fastforce simp: scope_typed_def scope_add_eq_Inr split: if_splits)

lemma scope_typed_binding: "scope_typed \<Gamma> s \<Longrightarrow> binding s i = Some t \<Longrightarrow> t_type t = \<Gamma> i \<and> wf_tensor t"
  by (induction s) (auto simp: scope_typed_def split: option.splits)

lemma scope_typed_find: "scope_typed \<Gamma> s \<Longrightarrow> scope_find s v = Inr t \<Longrightarrow> t_type t = \<Gamma> (s_id v) \<and> wf_tensor t"
  by (auto simp: scope_find_binding split: option.splits dest: scope_typed_binding)

lemma scope_typed_add_all:
  assumes "scope_typed \<Gamma> s" and "scope_add_all s vs ts = Inr s'" and "\<forall>t \<in> set ts. wf_tensor t"
    and "\<forall>v \<in> set vs. s_type v = \<Gamma> (s_id v)"
  shows "scope_typed \<Gamma> s'"
proof -
  from assms(2) have "foldM (\<lambda>s (v, t). scope_add s v t) s (zip vs ts) = Inr s'"
    by (simp add: scope_add_all_def require_eq_Inr)
  then show ?thesis
    by (rule foldM_invariant [where P = "scope_typed \<Gamma>"])
      (use assms in \<open>auto elim!: scope_typed_add dest: set_zip_leftD set_zip_rightD\<close>)
qed

lemma scope_add_frames: "scope_add s v t = Inr s' \<Longrightarrow> tl s' = tl s \<and> s \<noteq> [] \<and> s' \<noteq> []"
  by (auto simp: scope_add_eq_Inr)

end
