(* ===== verification/OpsRegion.thy ===== *)
theory OpsRegion
  imports ReshapeLaws OpInference Scope
begin

text \<open>
  The program a region holds, and the evaluators of \<open>stablehlo/reference/Ops.cpp\<close> that evaluate
  regions: conditionals, \<open>map\<close>, reductions, sorting, loops. Such an evaluator takes the function
  that evaluates a region on arguments, in the scope of the operation, as an argument \<open>ev\<close>.
\<close>

section \<open>Programs\<close>

text \<open>The operations \<open>eval\<close> tells apart, each with the attributes it reads; every other
  operation is an \<open>OtherOp\<close>.\<close>

datatype (plugins only: ) opcode =
    AbsOp | AddOp | AndOp | Atan2Op | BatchNormInferenceOp apfloat int | BroadcastInDimOp axes | CaseOp
  | CbrtOp | CeilOp | ClampOp | ClzOp | CompareOp comparison_direction | ComplexOp | ConcatenateOp int
  | ConstantOp dense_attr | ConvertOp | CosineOp | DivOp | DynamicSliceOp sizes | DynamicUpdateSliceOp
  | ExpOp | Expm1Op | FloorOp | GetDimensionSizeOp int | IfOp | ImagOp | IotaOp int | IsFiniteOp | LogOp
  | Log1pOp | LogisticOp | MapOp | MaxOp | MinOp | MulOp | NegOp | NotOp | OrOp | PadOp sizes sizes
  | PopulationCountOp | PowOp | RealOp | ReduceOp axes | ReduceWindowOp window_attrs | RemOp | ReshapeOp
  | FuncReturnOp | ReturnOp | ReverseOp axes | RoundOp | RoundNearestEvenOp | RsqrtOp | SelectOp
  | ShiftLeftOp | ShiftRightArithmeticOp | ShiftRightLogicalOp | SignOp | SineOp | SliceOp sizes sizes
  | SortOp int bool | SqrtOp | SubtractOp | TanhOp | TransposeOp axes | WhileOp | XorOp | OtherOp nat

text \<open>An operation: its operands, its results, its regions. A region has one block.\<close>

datatype (plugins only: size) operation =
    Operation (op_code: opcode) (op_operands: "ssa list") (op_results: "ssa list") (op_regions: "region list")
  and region = Region (region_args: "ssa list") (region_ops: "operation list")

type_synonym evaluator = "region \<Rightarrow> tensor list \<Rightarrow> tensor list res"

section \<open>Operations that infer their result type\<close>

definition i64_attr :: "int list \<Rightarrow> dense_int" where
  "i64_attr vs = \<lparr>di_shape = [int (length vs)], di_elem = IntegerType Signless 64, di_values = vs\<rparr>"

text \<open>A failed inference is reported as a fatal error with a message of its own.\<close>

definition or_fatal :: "string \<Rightarrow> 'a res \<Rightarrow> 'a res" where
  "or_fatal msg r = (case r of Inl (Fatal _) \<Rightarrow> Inl (Fatal msg) | _ \<Rightarrow> r)"

definition evalPadOp_infer :: "lib \<Rightarrow> tensor \<Rightarrow> tensor \<Rightarrow> sizes \<Rightarrow> sizes \<Rightarrow> sizes \<Rightarrow> tensor res" where
  "evalPadOp_infer L operand paddingValue edgePaddingLow edgePaddingHigh interiorPadding =
     bnd (or_fatal ''Could not infer PadOp's return type''
           (inferPadOp (t_type operand) (t_type paddingValue) (i64_attr edgePaddingLow)
             (i64_attr edgePaddingHigh) (i64_attr interiorPadding)))
       (\<lambda>inferredType. evalPadOp L operand paddingValue edgePaddingLow interiorPadding inferredType)"

definition evalSliceOp_infer :: "lib \<Rightarrow> tensor \<Rightarrow> sizes \<Rightarrow> sizes \<Rightarrow> sizes \<Rightarrow> tensor res" where
  "evalSliceOp_infer L operand startIndices limitIndices strides =
     bnd (or_fatal ''Could not infer SliceOp's return type''
           (inferSliceOp (t_type operand) (i64_attr startIndices) (i64_attr limitIndices) (i64_attr strides)))
       (\<lambda>inferredType. evalSliceOp L operand startIndices strides inferredType)"

section \<open>Conditionals\<close>

definition evalCaseOp :: "evaluator \<Rightarrow> tensor \<Rightarrow> region list \<Rightarrow> tensor list res" where
  "evalCaseOp ev index branches =
     bnd (tensor_get index []) (\<lambda>e. bnd (getIntegerValue e) (\<lambda>v.
       let idx = sval v; n = int (length branches) in
       bnd (at branches (if idx < 0 \<or> idx \<ge> n then n - 1 else idx)) (\<lambda>branch. ev branch [])))"

definition evalIfOp :: "evaluator \<Rightarrow> tensor \<Rightarrow> region \<Rightarrow> region \<Rightarrow> tensor list res" where
  "evalIfOp ev pred trueBranch falseBranch =
     bnd (tensor_get pred []) (\<lambda>e. bnd (getBooleanValue e) (\<lambda>b. if b then ev trueBranch [] else ev falseBranch []))"

section \<open>Map and reductions\<close>

definition scalar_of :: "lib \<Rightarrow> ty \<Rightarrow> element res \<Rightarrow> tensor res" where
  "scalar_of L type el = bnd (new_tensor type) (\<lambda>t. bnd el (tensor_set L t []))"

definition evalMapOp :: "lib \<Rightarrow> evaluator \<Rightarrow> tensor list \<Rightarrow> region \<Rightarrow> ty \<Rightarrow> tensor res" where
  "evalMapOp L ev inputs computation resultType =
     compute L resultType (\<lambda>idx.
       bnd (mapM (\<lambda>(i, input). bnd (at (region_args computation) i) (\<lambda>arg.
              scalar_of L (s_type arg) (tensor_get input idx))) (zip [0..int (length inputs) - 1] inputs)) (\<lambda>args.
       bnd (ev computation args) (\<lambda>results. bnd (at results 0) (\<lambda>r. tensor_get r []))))"

text \<open>\<open>result.set(idx, value.get({}))\<close> for the pairs of results and values.\<close>

fun set_each :: "lib \<Rightarrow> sizes \<Rightarrow> tensor list \<Rightarrow> tensor list \<Rightarrow> tensor list res" where
  "set_each L idx (result # results) (val # vals) =
     bnd (tensor_get val []) (\<lambda>e. bnd (tensor_set L result idx e) (\<lambda>r.
       bnd (set_each L idx results vals) (\<lambda>rs. Inr (r # rs))))"
| "set_each L idx results _ = Inr results"

definition initial_results :: "lib \<Rightarrow> ty list \<Rightarrow> tensor list \<Rightarrow> tensor list res" where
  "initial_results L resultTypes initValues =
     mapM (\<lambda>(resultType, initValue). bnd (tensor_get initValue []) (filled_tensor L resultType))
       (zip resultTypes initValues)"

definition reduce_step ::
  "lib \<Rightarrow> evaluator \<Rightarrow> tensor list \<Rightarrow> tensor list \<Rightarrow> axes \<Rightarrow> region \<Rightarrow> tensor list \<Rightarrow> sizes \<Rightarrow> tensor list res" where
  "reduce_step L ev inputs initValues dimensions body results inputIdx =
     (let resultIndex = map snd (filter (\<lambda>(axis, i). axis \<notin> set dimensions)
                          (zip [0..int (length inputIdx) - 1] inputIdx)) in
      bnd (mapM (\<lambda>(result, initValue). scalar_of L (t_type initValue) (tensor_get result resultIndex))
            (zip results initValues)) (\<lambda>args1.
      bnd (mapM (\<lambda>(input, initValue). scalar_of L (t_type initValue) (tensor_get input inputIdx))
            (zip inputs initValues)) (\<lambda>args2.
      bnd (ev body (args1 @ args2)) (set_each L resultIndex results))))"

definition evalReduceOp ::
  "lib \<Rightarrow> evaluator \<Rightarrow> tensor list \<Rightarrow> tensor list \<Rightarrow> axes \<Rightarrow> region \<Rightarrow> ty list \<Rightarrow> tensor list res" where
  "evalReduceOp L ev inputs initValues dimensions body resultTypes =
     bnd (initial_results L resultTypes initValues) (\<lambda>results.
     bnd (at inputs 0) (\<lambda>input0.
     for_each_index (t_shape input0) (reduce_step L ev inputs initValues dimensions body) results))"

definition evalReduceOp_infer ::
  "lib \<Rightarrow> evaluator \<Rightarrow> tensor list \<Rightarrow> tensor list \<Rightarrow> axes \<Rightarrow> region \<Rightarrow> tensor list res" where
  "evalReduceOp_infer L ev inputs initValues dimensions body =
     bnd (at inputs 0) (\<lambda>_.
     bnd (or_fatal ''Could not infer ReduceOp's return type''
           (inferReduceOp (map t_type inputs) (map t_type initValues) (i64_attr dimensions)))
       (\<lambda>inferredReduceTypes.
     bnd (mapM (\<lambda>c. case createShapedType c of Some t \<Rightarrow> Inr t
                     | None \<Rightarrow> Inl (Fatal ''Could not infer ReduceOp's return type'')) inferredReduceTypes)
       (evalReduceOp L ev inputs initValues dimensions body)))"

definition reduce_window_step ::
  "lib \<Rightarrow> evaluator \<Rightarrow> int \<Rightarrow> tensor list \<Rightarrow> tensor list \<Rightarrow> sizes \<Rightarrow> sizes \<Rightarrow> sizes \<Rightarrow> region \<Rightarrow>
     tensor list \<Rightarrow> sizes \<Rightarrow> tensor list res" where
  "reduce_window_step L ev inputRank paddedInputs initValues windowDimensions windowStrides windowDilations body
     results resultIdx =
     bnd (sizes_mul resultIdx windowStrides) (\<lambda>windowStart.
     bnd (mapM (\<lambda>paddedInput. bnd (sizes_add windowStart windowDimensions) (\<lambda>windowEnd.
            evalSliceOp_infer L paddedInput windowStart windowEnd windowDilations)) paddedInputs) (\<lambda>windows.
     bnd (evalReduceOp_infer L ev windows initValues [0..inputRank - 1] body) (set_each L resultIdx results)))"

definition evalReduceWindowOp ::
  "lib \<Rightarrow> evaluator \<Rightarrow> tensor list \<Rightarrow> tensor list \<Rightarrow> sizes \<Rightarrow> sizes \<Rightarrow> sizes \<Rightarrow> sizes \<Rightarrow> sizes \<Rightarrow> sizes \<Rightarrow> region \<Rightarrow>
     ty list \<Rightarrow> tensor list res" where
  "evalReduceWindowOp L ev inputs initValues windowDimensions windowStrides baseDilations windowDilations
     paddingLow paddingHigh body resultTypes =
     bnd (initial_results L resultTypes initValues) (\<lambda>results.
     bnd (mapM (\<lambda>(input, initValue). bnd (sizes_sub_int baseDilations 1) (\<lambda>interior.
            evalPadOp_infer L input initValue paddingLow paddingHigh interior)) (zip inputs initValues)) (\<lambda>paddedInputs.
     bnd (at results 0) (\<lambda>result0. bnd (at inputs 0) (\<lambda>input0.
     for_each_index (t_shape result0)
       (reduce_window_step L ev (rank (t_type input0)) paddedInputs initValues windowDimensions windowStrides
          windowDilations body) results))))"

section \<open>Sort\<close>

definition sort_args ::
  "lib \<Rightarrow> tensor list \<Rightarrow> int \<Rightarrow> sizes \<Rightarrow> int \<Rightarrow> int \<Rightarrow> tensor list res" where
  "sort_args L inputs adjustedDimension resultIdx lhsHandle rhsHandle =
     bnd (put resultIdx adjustedDimension lhsHandle) (\<lambda>lhsIndex.
     bnd (put resultIdx adjustedDimension rhsHandle) (\<lambda>rhsIndex.
     bnd (mapM (\<lambda>input.
         let argType = RankedTensorType [] (t_elem input) NoEncoding in
         bnd (scalar_of L argType (tensor_get input lhsIndex)) (\<lambda>lhsEl.
         bnd (scalar_of L argType (tensor_get input rhsIndex)) (\<lambda>rhsEl. Inr [lhsEl, rhsEl]))) inputs)
       (\<lambda>args. Inr (concat args))))"

definition comparatorTogether ::
  "lib \<Rightarrow> evaluator \<Rightarrow> tensor list \<Rightarrow> int \<Rightarrow> region \<Rightarrow> sizes \<Rightarrow> int \<Rightarrow> int \<Rightarrow> bool res" where
  "comparatorTogether L ev inputs adjustedDimension comparator resultIdx lhsHandle rhsHandle =
     bnd (sort_args L inputs adjustedDimension resultIdx lhsHandle rhsHandle) (\<lambda>args.
     bnd (ev comparator args) (\<lambda>cmpResult.
     bnd (at cmpResult 0) (\<lambda>r. bnd (tensor_get r []) getBooleanValue)))"

text \<open>The loop that reshuffles the slice of every input through the sorted handles.\<close>

definition reshuffle ::
  "lib \<Rightarrow> tensor list \<Rightarrow> int \<Rightarrow> sizes \<Rightarrow> int list \<Rightarrow> tensor list \<Rightarrow> tensor list res" where
  "reshuffle L inputs adjustedDimension resultIdx inputsTogether results =
     foldM (\<lambda>results (inputHandle, resultHandle).
       mapM (\<lambda>(input, result).
         bnd (put resultIdx adjustedDimension inputHandle) (\<lambda>inputIdx.
         bnd (put resultIdx adjustedDimension resultHandle) (\<lambda>resIdx.
         bnd (tensor_get input inputIdx) (tensor_set L result resIdx)))) (zip inputs results))
       results (zip [0..int (length inputsTogether) - 1] inputsTogether)"

definition sort_step ::
  "lib \<Rightarrow> evaluator \<Rightarrow> tensor list \<Rightarrow> int \<Rightarrow> bool \<Rightarrow> region \<Rightarrow> tensor list \<Rightarrow> sizes \<Rightarrow> tensor list res" where
  "sort_step L ev inputs adjustedDimension isStable comparator results resultIdx =
     bnd (at resultIdx adjustedDimension) (\<lambda>i.
     if i \<noteq> 0 then Inr results
     else
       bnd (at inputs 0) (\<lambda>input0. bnd (at (t_shape input0) adjustedDimension) (\<lambda>n.
       let handles = [0..n - 1];
           cmp = comparatorTogether L ev inputs adjustedDimension comparator resultIdx in
       bnd (if isStable then std_stable_sort L cmp handles else std_sort L cmp handles) (\<lambda>inputsTogether.
       reshuffle L inputs adjustedDimension resultIdx inputsTogether results))))"

definition evalSortOp :: "lib \<Rightarrow> evaluator \<Rightarrow> tensor list \<Rightarrow> int \<Rightarrow> bool \<Rightarrow> region \<Rightarrow> tensor list res" where
  "evalSortOp L ev inputs dimension isStable comparator =
     bnd (mapM (\<lambda>input. new_tensor (t_type input)) inputs) (\<lambda>results.
     bnd (at inputs 0) (\<lambda>input0.
     bnd (at results 0) (\<lambda>result0.
     let adjustedDimension = (if dimension \<ge> 0 then dimension else dimension + rank (t_type input0)) in
     for_each_index (t_shape result0) (sort_step L ev inputs adjustedDimension isStable comparator) results)))"

section \<open>While\<close>

text \<open>The loop may not end; its fuel bounds the number of tests of the condition.\<close>

fun while_loop :: "nat \<Rightarrow> evaluator \<Rightarrow> region \<Rightarrow> region \<Rightarrow> tensor list \<Rightarrow> tensor list \<Rightarrow> tensor list res" where
  "while_loop 0 ev cond body results condResults = Inl OutOfFuel"
| "while_loop (Suc n) ev cond body results condResults =
     bnd (at condResults 0) (\<lambda>c. bnd (tensor_get c []) (\<lambda>e. bnd (getBooleanValue e) (\<lambda>b.
     if b then
       bnd (ev body results) (\<lambda>results.
       bnd (ev cond results) (\<lambda>condResults.
       require (\<not> length condResults \<noteq> 1) (Fatal ''Failed to evaluate cond'')
         (while_loop n ev cond body results condResults)))
     else Inr results)))"

definition evalWhileOp :: "nat \<Rightarrow> evaluator \<Rightarrow> tensor list \<Rightarrow> region \<Rightarrow> region \<Rightarrow> tensor list res" where
  "evalWhileOp fuel ev operand cond body =
     bnd (ev cond operand) (\<lambda>condResults.
     require (\<not> length condResults \<noteq> 1) (Fatal ''Failed to evaluate cond'')
       (while_loop fuel ev cond body operand condResults))"

end
