(* ===== verification/Eval.thy ===== *)
theory Eval
  imports OpsRegion
begin

text \<open>
  \<open>eval\<close> of \<open>stablehlo/reference/Ops.cpp\<close>: the interpreter of a region. It opens a scope, binds
  the arguments of the block, and evaluates its operations in order until a terminator. The
  chain of \<open>dyn_cast\<close>s is \<open>dispatch\<close>, in four parts that follow the chain; \<open>find\<close> of the operands
  and \<open>add\<close> of the results, which every branch does, are in \<open>eval_op\<close>. Operations in nested
  regions are evaluated without the fallback, as in the code. Fuel bounds the nesting of
  regions and, in a \<open>while\<close>, the number of iterations.
\<close>

section \<open>Dispatch\<close>

type_synonym handler = "tensor list \<Rightarrow> tensor list res"

definition one :: "tensor res \<Rightarrow> tensor list res" where
  "one r = bnd r (\<lambda>t. Inr [t])"

definition unary :: "(tensor \<Rightarrow> tensor res) \<Rightarrow> handler" where
  "unary f args = (case args of [a] \<Rightarrow> one (f a) | _ \<Rightarrow> Inl Undefined)"

definition binary :: "(tensor \<Rightarrow> tensor \<Rightarrow> tensor res) \<Rightarrow> handler" where
  "binary f args = (case args of [a, b] \<Rightarrow> one (f a b) | _ \<Rightarrow> Inl Undefined)"

definition ternary :: "(tensor \<Rightarrow> tensor \<Rightarrow> tensor \<Rightarrow> tensor res) \<Rightarrow> handler" where
  "ternary f args = (case args of [a, b, c] \<Rightarrow> one (f a b c) | _ \<Rightarrow> Inl Undefined)"

text \<open>The two operand groups of an operation with as many inputs as initial values.\<close>

definition first_half :: "'a list \<Rightarrow> 'a list" where
  "first_half xs = take (length xs div 2) xs"

definition second_half :: "'a list \<Rightarrow> 'a list" where
  "second_half xs = drop (length xs div 2) xs"

text \<open>An optional attribute, or \<open>rank\<close> copies of its default.\<close>

definition sizes_or :: "dense_int option \<Rightarrow> nat \<Rightarrow> int \<Rightarrow> sizes" where
  "sizes_or attr n d = (case attr of Some a \<Rightarrow> di_values a | None \<Rightarrow> replicate n d)"

definition eval_reduce_window ::
  "lib \<Rightarrow> evaluator \<Rightarrow> tensor list \<Rightarrow> tensor list \<Rightarrow> window_attrs \<Rightarrow> region \<Rightarrow> ty list \<Rightarrow> tensor list res" where
  "eval_reduce_window L ev inputs initValues attrs body resultTypes =
     bnd (at inputs 0) (\<lambda>input0.
     let n = length (t_shape input0) in
     bnd (case wa_padding attrs of
            None \<Rightarrow> Inr (replicate n 0, replicate n 0)
          | Some padding \<Rightarrow>
              bnd (or_fatal ''Invalid padding format found.'' (convertPaddingAttribute (Some padding))) (\<lambda>pairs.
                foldM (\<lambda>(low, high) (i, l, h). bnd (put low i l) (\<lambda>low. bnd (put high i h) (\<lambda>high. Inr (low, high))))
                  (replicate n 0, replicate n 0) (zip [0..int (length pairs) - 1] pairs))) (\<lambda>(paddingLow, paddingHigh).
     evalReduceWindowOp L ev inputs initValues (di_values (wa_dimensions attrs))
       (sizes_or (wa_strides attrs) n 1) (sizes_or (wa_baseDilations attrs) n 1)
       (sizes_or (wa_windowDilations attrs) n 1) paddingLow paddingHigh body resultTypes))"

definition dispatch1 :: "lib \<Rightarrow> nat \<Rightarrow> evaluator \<Rightarrow> opcode \<Rightarrow> ty list \<Rightarrow> region list \<Rightarrow> handler option" where
  "dispatch1 L fuel ev code tys regions =
     (let ty0 = hd tys in
      case code of
        AbsOp \<Rightarrow> Some (unary (\<lambda>operand. evalAbsOp L operand ty0))
      | AddOp \<Rightarrow> Some (binary (\<lambda>lhs rhs. evalAddOp L lhs rhs ty0))
      | AndOp \<Rightarrow> Some (binary (\<lambda>lhs rhs. evalAndOp L lhs rhs ty0))
      | Atan2Op \<Rightarrow> Some (binary (\<lambda>lhs rhs. evalAtan2Op L lhs rhs ty0))
      | BatchNormInferenceOp epsilon featureIndex \<Rightarrow> Some (\<lambda>args. case args of
            [operand, scale, offset, mean, variance] \<Rightarrow>
              one (evalBatchNormInferenceOp L operand scale offset mean variance epsilon featureIndex ty0)
          | _ \<Rightarrow> Inl Undefined)
      | BroadcastInDimOp dims \<Rightarrow> Some (unary (\<lambda>operand. evalBroadcastInDimOp L operand dims ty0))
      | CaseOp \<Rightarrow> Some (\<lambda>args. case args of [index] \<Rightarrow> evalCaseOp ev index regions | _ \<Rightarrow> Inl Undefined)
      | CbrtOp \<Rightarrow> Some (unary (\<lambda>operand. evalCbrtOp L operand ty0))
      | CeilOp \<Rightarrow> Some (unary (\<lambda>operand. evalCeilOp L operand ty0))
      | ClampOp \<Rightarrow> Some (ternary (\<lambda>lo operand hi. evalClampOp L lo operand hi ty0))
      | ClzOp \<Rightarrow> Some (unary (\<lambda>operand. evalClzOp L operand ty0))
      | CompareOp direction \<Rightarrow> Some (binary (\<lambda>lhs rhs. evalCompareOp L lhs rhs direction ty0))
      | ComplexOp \<Rightarrow> Some (binary (\<lambda>lhs rhs. evalComplexOp L lhs rhs ty0))
      | ConcatenateOp dim \<Rightarrow> Some (\<lambda>args. one (evalConcatenateOp L args dim ty0))
      | ConstantOp val \<Rightarrow> Some (\<lambda>args. one (evalConstantOp L val))
      | ConvertOp \<Rightarrow> Some (unary (\<lambda>operand. evalConvertOp L operand ty0))
      | CosineOp \<Rightarrow> Some (unary (\<lambda>operand. evalCosineOp L operand ty0))
      | _ \<Rightarrow> None)"

definition dispatch2 :: "lib \<Rightarrow> nat \<Rightarrow> evaluator \<Rightarrow> opcode \<Rightarrow> ty list \<Rightarrow> region list \<Rightarrow> handler option" where
  "dispatch2 L fuel ev code tys regions =
     (let ty0 = hd tys in
      case code of
        DivOp \<Rightarrow> Some (binary (\<lambda>lhs rhs. evalDivideOp L lhs rhs ty0))
      | DynamicSliceOp sliceSizes \<Rightarrow> Some (\<lambda>args. case args of
            operand # startIndices \<Rightarrow> one (evalDynamicSliceOp L operand startIndices sliceSizes ty0)
          | _ \<Rightarrow> Inl Undefined)
      | DynamicUpdateSliceOp \<Rightarrow> Some (\<lambda>args. case args of
            operand # update # startIndices \<Rightarrow> one (evalDynamicUpdateSliceOp L operand update startIndices ty0)
          | _ \<Rightarrow> Inl Undefined)
      | ExpOp \<Rightarrow> Some (unary (\<lambda>operand. evalExponentialOp L operand ty0))
      | Expm1Op \<Rightarrow> Some (unary (\<lambda>operand. evalExpm1Op L operand ty0))
      | FloorOp \<Rightarrow> Some (unary (\<lambda>operand. evalFloorOp L operand ty0))
      | GetDimensionSizeOp dim \<Rightarrow> Some (unary (\<lambda>operand. evalGetDimensionSizeOp L operand dim ty0))
      | IfOp \<Rightarrow> Some (\<lambda>args. case (args, regions) of
            ([pred], [trueBranch, falseBranch]) \<Rightarrow> evalIfOp ev pred trueBranch falseBranch
          | _ \<Rightarrow> Inl Undefined)
      | ImagOp \<Rightarrow> Some (unary (\<lambda>operand. evalImagOp L operand ty0))
      | IotaOp dim \<Rightarrow> Some (\<lambda>args. one (evalIotaOp L dim ty0))
      | IsFiniteOp \<Rightarrow> Some (unary (\<lambda>operand. evalIsFiniteOp L operand ty0))
      | LogOp \<Rightarrow> Some (unary (\<lambda>operand. evalLogOp L operand ty0))
      | Log1pOp \<Rightarrow> Some (unary (\<lambda>operand. evalLog1pOp L operand ty0))
      | LogisticOp \<Rightarrow> Some (unary (\<lambda>operand. evalLogisticOp L operand ty0))
      | MapOp \<Rightarrow> Some (\<lambda>args. case regions of
            [computation] \<Rightarrow> one (evalMapOp L ev args computation ty0)
          | _ \<Rightarrow> Inl Undefined)
      | MaxOp \<Rightarrow> Some (binary (\<lambda>lhs rhs. evalMaxOp L lhs rhs ty0))
      | MinOp \<Rightarrow> Some (binary (\<lambda>lhs rhs. evalMinOp L lhs rhs ty0))
      | MulOp \<Rightarrow> Some (binary (\<lambda>lhs rhs. evalMultiplyOp L lhs rhs ty0))
      | NegOp \<Rightarrow> Some (unary (\<lambda>operand. evalNegOp L operand ty0))
      | NotOp \<Rightarrow> Some (unary (\<lambda>operand. evalNotOp L operand ty0))
      | OrOp \<Rightarrow> Some (binary (\<lambda>lhs rhs. evalOrOp L lhs rhs ty0))
      | PadOp edgePaddingLow interiorPadding \<Rightarrow> Some (binary (\<lambda>operand paddingValue.
            evalPadOp L operand paddingValue edgePaddingLow interiorPadding ty0))
      | PopulationCountOp \<Rightarrow> Some (unary (\<lambda>operand. evalPopulationCountOp L operand ty0))
      | PowOp \<Rightarrow> Some (binary (\<lambda>lhs rhs. evalPowerOp L lhs rhs ty0))
      | RealOp \<Rightarrow> Some (unary (\<lambda>operand. evalRealOp L operand ty0))
      | _ \<Rightarrow> None)"

definition dispatch3 :: "lib \<Rightarrow> nat \<Rightarrow> evaluator \<Rightarrow> opcode \<Rightarrow> ty list \<Rightarrow> region list \<Rightarrow> handler option" where
  "dispatch3 L fuel ev code tys regions =
     (let ty0 = hd tys in
      case code of
        ReduceOp dimensions \<Rightarrow> Some (\<lambda>args. case regions of
            [body] \<Rightarrow> evalReduceOp L ev (first_half args) (second_half args) dimensions body tys
          | _ \<Rightarrow> Inl Undefined)
      | ReduceWindowOp attrs \<Rightarrow> Some (\<lambda>args. case regions of
            [body] \<Rightarrow> eval_reduce_window L ev (first_half args) (second_half args) attrs body tys
          | _ \<Rightarrow> Inl Undefined)
      | RemOp \<Rightarrow> Some (binary (\<lambda>lhs rhs. evalRemOp L lhs rhs ty0))
      | ReshapeOp \<Rightarrow> Some (unary (\<lambda>operand. evalReshapeOp L operand ty0))
      | ReverseOp dims \<Rightarrow> Some (unary (\<lambda>operand. evalReverseOp L operand dims ty0))
      | RoundOp \<Rightarrow> Some (unary (\<lambda>operand. evalRoundOp L operand ty0))
      | RoundNearestEvenOp \<Rightarrow> Some (unary (\<lambda>operand. evalRoundNearestEvenOp L operand ty0))
      | RsqrtOp \<Rightarrow> Some (unary (\<lambda>operand. evalRsqrtOp L operand ty0))
      | _ \<Rightarrow> None)"

definition dispatch4 :: "lib \<Rightarrow> nat \<Rightarrow> evaluator \<Rightarrow> opcode \<Rightarrow> ty list \<Rightarrow> region list \<Rightarrow> handler option" where
  "dispatch4 L fuel ev code tys regions =
     (let ty0 = hd tys in
      case code of
        SelectOp \<Rightarrow> Some (ternary (\<lambda>pred onTrue onFalse. evalSelectOp L pred onTrue onFalse ty0))
      | ShiftLeftOp \<Rightarrow> Some (binary (\<lambda>lhs rhs. evalShiftLeftOp L lhs rhs ty0))
      | ShiftRightArithmeticOp \<Rightarrow> Some (binary (\<lambda>lhs rhs. evalShiftRightArithmeticOp L lhs rhs ty0))
      | ShiftRightLogicalOp \<Rightarrow> Some (binary (\<lambda>lhs rhs. evalShiftRightLogicalOp L lhs rhs ty0))
      | SignOp \<Rightarrow> Some (unary (\<lambda>operand. evalSignOp L operand ty0))
      | SineOp \<Rightarrow> Some (unary (\<lambda>operand. evalSineOp L operand ty0))
      | SliceOp startIndices strides \<Rightarrow>
          Some (unary (\<lambda>operand. evalSliceOp L operand startIndices strides ty0))
      | SortOp dimension isStable \<Rightarrow> Some (\<lambda>args. case regions of
            [comparator] \<Rightarrow> evalSortOp L ev args dimension isStable comparator
          | _ \<Rightarrow> Inl Undefined)
      | SqrtOp \<Rightarrow> Some (unary (\<lambda>operand. evalSqrtOp L operand ty0))
      | SubtractOp \<Rightarrow> Some (binary (\<lambda>lhs rhs. evalSubtractOp L lhs rhs ty0))
      | TanhOp \<Rightarrow> Some (unary (\<lambda>operand. evalTanhOp L operand ty0))
      | TransposeOp permutation \<Rightarrow> Some (unary (\<lambda>operand. evalTransposeOp L operand permutation ty0))
      | WhileOp \<Rightarrow> Some (\<lambda>args. case regions of
            [cond, body] \<Rightarrow> evalWhileOp fuel ev args cond body
          | _ \<Rightarrow> Inl Undefined)
      | XorOp \<Rightarrow> Some (binary (\<lambda>lhs rhs. evalXorOp L lhs rhs ty0))
      | _ \<Rightarrow> None)"

fun first_some :: "'a option list \<Rightarrow> 'a option" where
  "first_some [] = None"
| "first_some (Some x # xs) = Some x"
| "first_some (None # xs) = first_some xs"

definition dispatch :: "lib \<Rightarrow> nat \<Rightarrow> evaluator \<Rightarrow> opcode \<Rightarrow> ty list \<Rightarrow> region list \<Rightarrow> handler option" where
  "dispatch L fuel ev code tys regions =
     first_some [dispatch1 L fuel ev code tys regions, dispatch2 L fuel ev code tys regions,
                 dispatch3 L fuel ev code tys regions, dispatch4 L fuel ev code tys regions]"

section \<open>Regions\<close>

type_synonym fallback = "operation \<Rightarrow> scope \<Rightarrow> scope res"

definition is_terminator :: "opcode \<Rightarrow> bool" where
  "is_terminator code = (case code of FuncReturnOp \<Rightarrow> True | ReturnOp \<Rightarrow> True | _ \<Rightarrow> False)"

definition eval_op ::
  "lib \<Rightarrow> nat \<Rightarrow> (region \<Rightarrow> tensor list \<Rightarrow> scope \<Rightarrow> tensor list res) \<Rightarrow> fallback option \<Rightarrow> operation \<Rightarrow> scope \<Rightarrow> scope res" where
  "eval_op L fuel ev fb op scope =
     (case dispatch L fuel (\<lambda>region args. ev region args scope) (op_code op) (map s_type (op_results op)) (op_regions op) of
        Some handler \<Rightarrow>
          bnd (scope_find_all scope (op_operands op)) (\<lambda>args.
          bnd (handler args) (\<lambda>results. scope_add_all scope (op_results op) results))
      | None \<Rightarrow>
          (case fb of
             None \<Rightarrow> Inl (Fatal ''Unsupported op'')
           | Some fallback \<Rightarrow> fallback op scope))"

fun eval_ops ::
  "lib \<Rightarrow> nat \<Rightarrow> (region \<Rightarrow> tensor list \<Rightarrow> scope \<Rightarrow> tensor list res) \<Rightarrow> fallback option \<Rightarrow> operation list \<Rightarrow> scope \<Rightarrow>
     tensor list res" where
  "eval_ops L fuel ev fb [] scope = Inl (Fatal ''Expected a terminator when evaluating a region'')"
| "eval_ops L fuel ev fb (op # ops) scope =
     (if is_terminator (op_code op) then scope_find_all scope (op_operands op)
      else bnd (eval_op L fuel ev fb op scope) (eval_ops L fuel ev fb ops))"

definition eval_block ::
  "lib \<Rightarrow> nat \<Rightarrow> (region \<Rightarrow> tensor list \<Rightarrow> scope \<Rightarrow> tensor list res) \<Rightarrow> fallback option \<Rightarrow> region \<Rightarrow> tensor list \<Rightarrow> scope \<Rightarrow>
     tensor list res" where
  "eval_block L fuel ev fb region args parent =
     require (\<not> length (region_args region) \<noteq> length args)
       (Fatal ''Expected same number of block arguments and runtime arguments'')
       (bnd (scope_add_all (scope_new parent) (region_args region) args)
         (eval_ops L fuel ev fb (region_ops region)))"

primrec eval_nested :: "nat \<Rightarrow> lib \<Rightarrow> region \<Rightarrow> tensor list \<Rightarrow> scope \<Rightarrow> tensor list res" where
  "eval_nested 0 L region args parent = Inl OutOfFuel"
| "eval_nested (Suc n) L region args parent = eval_block L n (eval_nested n L) None region args parent"

definition eval :: "nat \<Rightarrow> lib \<Rightarrow> fallback option \<Rightarrow> region \<Rightarrow> tensor list \<Rightarrow> scope \<Rightarrow> tensor list res" where
  "eval n L fb region args parent = eval_block L n (eval_nested n L) fb region args parent"

end
