(* ===== verification/RegionLaws.thy ===== *)
theory RegionLaws
  imports Eval
begin

text \<open>
  Facts about the evaluators of regions. More fuel never changes a result: \<open>eval\<close> is monotone
  in its fuel, given that the sorting functions of the standard library depend on their
  comparator only through its results. A \<open>while\<close> returns the iterate at which its condition
  first fails. A reduction folds the body over the elements that map to a result index.
\<close>

section \<open>Monotonicity in the evaluator\<close>

text \<open>A sorting function only looks at the results of its comparator.\<close>

definition sort_mono :: "lib \<Rightarrow> bool" where
  "sort_mono L \<longleftrightarrow> (\<forall>c c' xs. (\<forall>a b. res_le (c a b) (c' a b)) \<longrightarrow>
     res_le (std_sort L c xs) (std_sort L c' xs) \<and> res_le (std_stable_sort L c xs) (std_stable_sort L c' xs))"

lemma res_le_sort [mono_intros]:
  assumes "sort_mono L" and "\<And>a b. res_le (c a b) (c' a b)"
  shows "res_le (if s then std_stable_sort L c xs else std_sort L c xs)
    (if s then std_stable_sort L c' xs else std_sort L c' xs)"
  using assms by (simp add: sort_mono_def)

lemma res_le_for_iter:
  "(\<And>s i. res_le (f s i) (g s i)) \<Longrightarrow> res_le (for_iter n f it e s) (for_iter n g it e s)"
  by (induction n arbitrary: it s) (auto intro!: mono_intros)

lemma res_le_for_each [mono_intros]:
  "(\<And>s i. res_le (f s i) (g s i)) \<Longrightarrow> res_le (for_each_index sh f s) (for_each_index sh g s)"
  by (auto simp: for_each_index_def intro!: mono_intros res_le_for_iter)

lemma res_le_compute [mono_intros]:
  "(\<And>i. res_le (f i) (g i)) \<Longrightarrow> res_le (compute L T f) (compute L T g)"
  by (auto simp: compute_def fill_def intro!: mono_intros)

definition ev_le :: "evaluator \<Rightarrow> evaluator \<Rightarrow> bool" where
  "ev_le ev ev' \<longleftrightarrow> (\<forall>r args. res_le (ev r args) (ev' r args))"

lemma ev_leD: "ev_le ev ev' \<Longrightarrow> res_le (ev r args) (ev' r args)"
  by (simp add: ev_le_def)

lemma mono_region_ops:
  assumes "ev_le ev ev'"
  shows "res_le (evalCaseOp ev index branches) (evalCaseOp ev' index branches)"
    and "res_le (evalIfOp ev p r1 r2) (evalIfOp ev' p r1 r2)"
    and "res_le (evalMapOp L ev inputs r1 T) (evalMapOp L ev' inputs r1 T)"
    and "res_le (evalReduceOp L ev inputs inits dims r1 Ts) (evalReduceOp L ev' inputs inits dims r1 Ts)"
    and "res_le (evalReduceOp_infer L ev inputs inits dims r1) (evalReduceOp_infer L ev' inputs inits dims r1)"
  unfolding evalCaseOp_def evalIfOp_def evalMapOp_def evalReduceOp_infer_def evalReduceOp_def reduce_step_def Let_def
  by (intro mono_intros ev_leD [OF assms])+

lemma mono_reduce_window:
  assumes "ev_le ev ev'"
  shows "res_le (eval_reduce_window L ev inputs inits attrs r Ts) (eval_reduce_window L ev' inputs inits attrs r Ts)"
proof -
  have "res_le
    (evalReduceWindowOp L ev inputs inits wd ws bd wdil low high r Ts)
    (evalReduceWindowOp L ev' inputs inits wd ws bd wdil low high r Ts)" for wd ws bd wdil low high
    unfolding evalReduceWindowOp_def reduce_window_step_def
    by (intro mono_intros mono_region_ops assms)
  then show ?thesis
    unfolding eval_reduce_window_def Let_def by (auto intro!: mono_intros split: prod.split)
qed

lemma mono_sort:
  assumes "ev_le ev ev'" and "sort_mono L"
  shows "res_le (evalSortOp L ev inputs d s r) (evalSortOp L ev' inputs d s r)"
  unfolding evalSortOp_def sort_step_def comparatorTogether_def Let_def
  by (intro mono_intros assms(2) ev_leD [OF assms(1)])

lemma mono_while_loop:
  "ev_le ev ev' \<Longrightarrow> n \<le> m \<Longrightarrow> res_le (while_loop n ev cond body rs cs) (while_loop m ev' cond body rs cs)"
proof (induction n arbitrary: m rs cs)
  case (Suc n)
  then obtain k where k: "m = Suc k" "n \<le> k" by (cases m) auto
  show ?case unfolding k(1) while_loop.simps
    by (intro mono_intros ev_leD [OF Suc.prems(1)] Suc.IH Suc.prems(1) k(2))
qed simp

lemma mono_while:
  assumes "ev_le ev ev'" and "n \<le> m"
  shows "res_le (evalWhileOp n ev args cond body) (evalWhileOp m ev' args cond body)"
  unfolding evalWhileOp_def by (intro mono_intros mono_while_loop ev_leD [OF assms(1)] assms)

text \<open>Two handlers of an operation: both absent, or the second refines the first.\<close>

definition handler_le :: "handler option \<Rightarrow> handler option \<Rightarrow> bool" where
  "handler_le h h' \<longleftrightarrow> (case (h, h') of (None, None) \<Rightarrow> True
     | (Some f, Some f') \<Rightarrow> (\<forall>args. res_le (f args) (f' args)) | _ \<Rightarrow> False)"

lemma handler_le_refl [simp]: "handler_le h h"
  by (auto simp: handler_le_def res_le_def split: option.split)

lemma handler_le_Some: "(\<And>args. res_le (f args) (f' args)) \<Longrightarrow> handler_le (Some f) (Some f')"
  by (simp add: handler_le_def)

lemma one_mono [mono_intros]: "res_le r r' \<Longrightarrow> res_le (one r) (one r')"
  unfolding one_def by (intro mono_intros)

lemma mono_dispatch:
  assumes "ev_le ev ev'" and "sort_mono L" and "n \<le> m"
  shows "handler_le (dispatch1 L n ev code tys rs) (dispatch1 L m ev' code tys rs)"
    and "handler_le (dispatch2 L n ev code tys rs) (dispatch2 L m ev' code tys rs)"
    and "handler_le (dispatch3 L n ev code tys rs) (dispatch3 L m ev' code tys rs)"
    and "handler_le (dispatch4 L n ev code tys rs) (dispatch4 L m ev' code tys rs)"
proof -
  note mono = mono_region_ops [OF assms(1)] mono_reduce_window [OF assms(1)] mono_sort [OF assms(1,2)]
    mono_while [OF assms(1,3)]
  show "handler_le (dispatch1 L n ev code tys rs) (dispatch1 L m ev' code tys rs)"
    unfolding dispatch1_def Let_def
    by (cases code) (auto intro!: handler_le_Some mono res_le_refl split: list.split)
  show "handler_le (dispatch2 L n ev code tys rs) (dispatch2 L m ev' code tys rs)"
    unfolding dispatch2_def Let_def
    by (cases code) (auto intro!: handler_le_Some mono res_le_refl one_mono split: list.split)
  show "handler_le (dispatch3 L n ev code tys rs) (dispatch3 L m ev' code tys rs)"
    unfolding dispatch3_def Let_def
    by (cases code) (auto intro!: handler_le_Some mono res_le_refl split: list.split)
  show "handler_le (dispatch4 L n ev code tys rs) (dispatch4 L m ev' code tys rs)"
    unfolding dispatch4_def Let_def
    by (cases code) (auto intro!: handler_le_Some mono res_le_refl split: list.split)
qed

lemma handler_le_first_some:
  "list_all2 handler_le hs hs' \<Longrightarrow> handler_le (first_some hs) (first_some hs')"
proof (induction hs hs' rule: list_all2_induct)
  case (Cons h hs h' hs')
  then show ?case by (cases h; cases h') (auto simp: handler_le_def)
qed simp

lemma mono_eval_op:
  assumes "\<And>r args s. res_le (ev r args s) (ev' r args s)" and "sort_mono L" and "n \<le> m"
  shows "res_le (eval_op L n ev fb op s) (eval_op L m ev' fb op s)"
proof -
  have "ev_le (\<lambda>r args. ev r args s) (\<lambda>r args. ev' r args s)" using assms(1) by (simp add: ev_le_def)
  from mono_dispatch [OF this assms(2,3), of "op_code op" "map s_type (op_results op)" "op_regions op"]
  have "handler_le
      (dispatch L n (\<lambda>r args. ev r args s) (op_code op) (map s_type (op_results op)) (op_regions op))
      (dispatch L m (\<lambda>r args. ev' r args s) (op_code op) (map s_type (op_results op)) (op_regions op))"
    unfolding dispatch_def by (intro handler_le_first_some) simp
  then show ?thesis
    unfolding eval_op_def by (auto simp: handler_le_def intro!: mono_intros split: option.splits)
qed

lemma mono_eval_block:
  assumes "\<And>r args s. res_le (ev r args s) (ev' r args s)" and "sort_mono L" and "n \<le> m"
  shows "res_le (eval_block L n ev fb r args s) (eval_block L m ev' fb r args s)"
proof -
  have "res_le (eval_ops L n ev fb ops s) (eval_ops L m ev' fb ops s)" for ops s
    by (induction ops arbitrary: s) (auto intro!: mono_intros mono_eval_op assms)
  then show ?thesis unfolding eval_block_def by (intro mono_intros)
qed

lemma mono_eval_nested:
  "sort_mono L \<Longrightarrow> n \<le> m \<Longrightarrow> res_le (eval_nested n L r args s) (eval_nested m L r args s)"
proof (induction n arbitrary: m r args s)
  case (Suc n)
  then obtain k where k: "m = Suc k" "n \<le> k" by (cases m) auto
  with Suc show ?case by (auto intro!: mono_eval_block)
qed simp

lemma mono_eval: "sort_mono L \<Longrightarrow> n \<le> m \<Longrightarrow> res_le (eval n L fb r args s) (eval m L fb r args s)"
  unfolding eval_def by (intro mono_eval_block mono_eval_nested)

section \<open>While\<close>

text \<open>\<open>cond_is ev cond ts b\<close>: the condition evaluates to the single boolean \<open>b\<close> on \<open>ts\<close>.\<close>

definition cond_is :: "evaluator \<Rightarrow> region \<Rightarrow> tensor list \<Rightarrow> bool \<Rightarrow> bool" where
  "cond_is ev cond ts b \<longleftrightarrow> (\<exists>c e. ev cond ts = Inr [c] \<and> tensor_get c [] = Inr e \<and> getBooleanValue e = Inr b)"

lemma while_loop_iterates:
  assumes "\<And>i. i < k \<Longrightarrow> ev body (st i) = Inr (st (Suc i))"
    and "\<And>i. i < k \<Longrightarrow> cond_is ev cond (st i) True" and "cond_is ev cond (st k) False" and "k < n"
    and "ev cond (st 0) = Inr cs"
  shows "while_loop n ev cond body (st 0) cs = Inr (st k)"
  using assms
proof (induction k arbitrary: n st cs)
  case 0
  then show ?case by (cases n) (auto simp: cond_is_def)
next
  case (Suc k)
  then obtain m where n: "n = Suc m" "k < m" by (cases n) auto
  obtain c e where c: "ev cond (st 0) = Inr [c]" "tensor_get c [] = Inr e" "getBooleanValue e = Inr True"
    using Suc.prems(2) [of 0] by (auto simp: cond_is_def)
  have "cond_is ev cond (st (Suc 0)) (if k = 0 then False else True)"
    using Suc.prems(2) [of "Suc 0"] Suc.prems(3) by (cases k) auto
  then obtain cs' where cs': "ev cond (st (Suc 0)) = Inr cs'" "length cs' = 1" by (auto simp: cond_is_def)
  have "while_loop m ev cond body (st (Suc 0)) cs' = Inr (st (Suc k))"
    by (rule Suc.IH [of "\<lambda>i. st (Suc i)"]) (use Suc.prems n(2) cs' in auto)
  with n(1) c cs' Suc.prems(1) [of 0] Suc.prems(5) show ?case by simp
qed

lemma evalWhileOp_iterates:
  assumes "\<And>i. i < k \<Longrightarrow> ev body (st i) = Inr (st (Suc i))"
    and "\<And>i. i < k \<Longrightarrow> cond_is ev cond (st i) True" and "cond_is ev cond (st k) False" and "k < n"
  shows "evalWhileOp n ev (st 0) cond body = Inr (st k)"
proof -
  have "cond_is ev cond (st 0) (if k = 0 then False else True)" using assms(2,3) by (cases k) auto
  then obtain cs where "ev cond (st 0) = Inr cs" "length cs = 1" by (auto simp: cond_is_def)
  with while_loop_iterates [of k ev body st cond n cs] assms show ?thesis by (simp add: evalWhileOp_def)
qed

text \<open>
  What the region evaluators compute: a reduction is a fold of its body over the elements that
  map to a result index, in row-major order; a sort places the elements through the sorted
  handles; a \<open>map\<close> applies its computation to every element.
\<close>

section \<open>Updating what a tensor denotes\<close>

lemma denotes_set:
  assumes "lib_ok L" and "denotes t T g" and "inBounds idx (shape_of T)" and "elem_ok (element_type T) e"
  shows "\<exists>t'. tensor_set L t idx e = Inr t' \<and> denotes t' T (g(idx := e))"
proof -
  have t: "wf_tensor t" "t_type t = T" using assms(2) by (simp_all add: denotes_def)
  then obtain t' where t': "tensor_set L t idx e = Inr t'" "wf_tensor t'" "t_type t' = T"
    using tensor_set_ok [OF assms(1) t(1), of idx e] assms(3,4) by auto
  have "tensor_get t' j = Inr ((g(idx := e)) j)" if j: "inBounds j (shape_of T)" for j
    using tensor_get_set_same [OF assms(1) t(1) _ _ t'(1)] tensor_get_set_other [OF assms(1) t(1) _ _ t'(1)]
      assms(3,4) t(2) j denotes_get [OF assms(2) j] by auto
  with t' show ?thesis by (auto simp: denotes_def)
qed

definition scalar_type :: "ty \<Rightarrow> ty \<Rightarrow> bool" where
  "scalar_type S et \<longleftrightarrow> storable S \<and> shape_of S = [] \<and> element_type S = et"

lemma scalar_of_denotes:
  assumes "lib_ok L" and "scalar_type S et" and "elem_ok et e"
  shows "\<exists>t. scalar_of L S (Inr e) = Inr t \<and> denotes t S (\<lambda>_. e)"
proof -
  have S: "storable S" "shape_of S = []" "element_type S = et" using assms(2) by (simp_all add: scalar_type_def)
  from new_tensor_ok [OF S(1)] obtain t where t: "new_tensor S = Inr t" "t_type t = S" "wf_tensor t" by auto
  from tensor_set_ok [OF assms(1) t(3), of "[]" e] t(2) S(2,3) assms(3)
  obtain t' where t': "tensor_set L t [] e = Inr t'" "wf_tensor t'" "t_type t' = S" by auto
  have "tensor_get t' [] = Inr e"
    by (rule tensor_get_set_same [OF assms(1) t(3) _ _ t'(1)]) (use t(2) S(2,3) assms(3) in auto)
  with t t' S(2) show ?thesis by (auto simp: scalar_of_def denotes_def)
qed

section \<open>Reduce\<close>

text \<open>The coordinates of the axes that are not reduced.\<close>

definition kept :: "axes \<Rightarrow> sizes \<Rightarrow> sizes" where
  "kept dims idx = map snd (filter (\<lambda>(axis, i). axis \<notin> set dims) (zip [0..int (length idx) - 1] idx))"

lemma inBounds_filter:
  "list_all2 (\<lambda>(a, i) (b, d). a = b \<and> 0 \<le> i \<and> i < d) xs ys \<Longrightarrow>
    inBounds (map snd (filter (\<lambda>(a, _). P a) xs)) (map snd (filter (\<lambda>(a, _). P a) ys))"
  by (induction rule: list_all2_induct) auto

lemma kept_in: "inBounds idx sh \<Longrightarrow> inBounds (kept dims idx) (kept dims sh)"
  unfolding kept_def
  by (rule inBounds_filter) (auto simp: inBounds_nth_iff list_all2_conv_all_nth)

text \<open>The body computes \<open>f\<close> on scalars of type \<open>S\<close>.\<close>

definition body_is :: "evaluator \<Rightarrow> region \<Rightarrow> ty \<Rightarrow> (element \<Rightarrow> element \<Rightarrow> element) \<Rightarrow> bool" where
  "body_is ev body S f \<longleftrightarrow> (\<forall>a b x y. denotes a S (\<lambda>_. x) \<longrightarrow> denotes b S (\<lambda>_. y) \<longrightarrow>
     (\<exists>r. ev body [a, b] = Inr [r] \<and> tensor_get r [] = Inr (f x y) \<and> elem_ok (element_type S) (f x y)))"

lemma reduce_step_denotes:
  assumes "lib_ok L" and "scalar_type S et" and "denotes a T g" and "element_type T = et"
    and "denotes init S (\<lambda>_. e0)" and "denotes r R h" and "element_type R = et"
    and "shape_of R = kept dims (shape_of T)" and "body_is ev body S f" and "inBounds i (shape_of T)"
  shows "\<exists>r'. reduce_step L ev [a] [init] dims body [r] i = Inr [r'] \<and>
    denotes r' R (h(kept dims i := f (h (kept dims i)) (g i)))"
proof -
  let ?k = "kept dims i"
  have k: "inBounds ?k (shape_of R)" using kept_in [OF assms(10), of dims] assms(8) by simp
  note get = denotes_get [OF assms(6) k] denotes_get [OF assms(3,10)]
  note ok = denotes_ok [OF assms(6) k] denotes_ok [OF assms(3,10)]
  obtain ta where ta: "scalar_of L S (Inr (h ?k)) = Inr ta" "denotes ta S (\<lambda>_. h ?k)"
    using scalar_of_denotes [OF assms(1,2)] ok(1) assms(7) by auto
  obtain tb where tb: "scalar_of L S (Inr (g i)) = Inr tb" "denotes tb S (\<lambda>_. g i)"
    using scalar_of_denotes [OF assms(1,2)] ok(2) assms(4) by auto
  obtain v where v: "ev body [ta, tb] = Inr [v]" "tensor_get v [] = Inr (f (h ?k) (g i))"
    "elem_ok (element_type S) (f (h ?k) (g i))"
    using assms(9) ta(2) tb(2) unfolding body_is_def by blast
  have "elem_ok (element_type R) (f (h ?k) (g i))"
    using v(3) assms(2,7) by (simp add: scalar_type_def)
  from denotes_set [OF assms(1,6) k this] obtain r' where
    r': "tensor_set L r ?k (f (h ?k) (g i)) = Inr r'" "denotes r' R (h(?k := f (h ?k) (g i)))" by blast
  have "t_type init = S" using denotes_type [OF assms(5)] .
  then have "reduce_step L ev [a] [init] dims body [r] i = Inr [r']"
    using get ta(1) tb(1) v(1,2) r'(1)
    by (simp add: reduce_step_def kept_def [symmetric])
  with r'(2) show ?thesis by blast
qed

lemma reduce_loop:
  assumes "lib_ok L" and "scalar_type S et" and "denotes a T g" and "element_type T = et"
    and "denotes init S (\<lambda>_. e0)" and "denotes r R h" and "element_type R = et"
    and "shape_of R = kept dims (shape_of T)" and "body_is ev body S f" and "\<forall>i \<in> set xs. inBounds i (shape_of T)"
  shows "\<exists>r'. foldM (reduce_step L ev [a] [init] dims body) [r] xs = Inr [r'] \<and>
    denotes r' R (\<lambda>j. foldl f (h j) (map g (filter (\<lambda>i. kept dims i = j) xs)))"
  using assms(6,10)
proof (induction xs arbitrary: r h)
  case (Cons i xs)
  then obtain r1 where r1: "reduce_step L ev [a] [init] dims body [r] i = Inr [r1]"
    "denotes r1 R (h(kept dims i := f (h (kept dims i)) (g i)))"
    using reduce_step_denotes [OF assms(1-5) Cons.prems(1) assms(7-9), of i] Cons.prems(2) by auto
  from Cons.IH [OF r1(2)] Cons.prems(2) obtain r2 where
    r2: "foldM (reduce_step L ev [a] [init] dims body) [r1] xs = Inr [r2]"
    "denotes r2 R (\<lambda>j. foldl f ((h(kept dims i := f (h (kept dims i)) (g i))) j)
       (map g (filter (\<lambda>i. kept dims i = j) xs)))" by auto
  have "(\<lambda>j. foldl f ((h(kept dims i := f (h (kept dims i)) (g i))) j) (map g (filter (\<lambda>i. kept dims i = j) xs))) =
      (\<lambda>j. foldl f (h j) (map g (filter (\<lambda>i. kept dims i = j) (i # xs))))"
    by (auto simp: fun_eq_iff)
  with r1(1) r2 show ?case by auto
qed simp

lemma evalReduceOp_denotes:
  assumes "lib_ok L" and "scalar_type S et" and "denotes a T g" and "element_type T = et"
    and "denotes init S (\<lambda>_. e0)" and "storable R" and "element_type R = et"
    and "shape_of R = kept dims (shape_of T)" and "body_is ev body S f"
  shows "\<exists>r. evalReduceOp L ev [a] [init] dims body [R] = Inr [r] \<and>
    denotes r R (\<lambda>j. foldl f e0 (map g (filter (\<lambda>i. kept dims i = j) (index_space (shape_of T)))))"
proof -
  have S: "shape_of S = []" "element_type S = et" using assms(2) by (simp_all add: scalar_type_def)
  have init: "tensor_get init [] = Inr e0" "elem_ok et e0"
    using denotes_get [OF assms(5), of "[]"] denotes_ok [OF assms(5), of "[]"] S by simp_all
  from filled_tensor_denotes [OF assms(1,6), of e0] init(2) assms(7) obtain r0 where
    r0: "filled_tensor L R e0 = Inr r0" "denotes r0 R (\<lambda>_. e0)" by auto
  note st = denotes_static [OF assms(3)]
  from reduce_loop [OF assms(1-5) r0(2) assms(7-9), of "index_space (shape_of T)"] obtain r where
    "foldM (reduce_step L ev [a] [init] dims body) [r0] (index_space (shape_of T)) = Inr [r]"
    "denotes r R (\<lambda>j. foldl f e0 (map g (filter (\<lambda>i. kept dims i = j) (index_space (shape_of T)))))"
    by (auto simp: index_space_set [OF st])
  with r0(1) init(1) denotes_type [OF assms(3)] show ?thesis
    by (auto simp: evalReduceOp_def initial_results_def for_each_index_eq [OF st])
qed

section \<open>Sort\<close>

lemma reshuffle_loop:
  assumes "lib_ok L" and "denotes a T g" and "shape_of T = [n]" and "wf_tensor r" and "t_type r = T"
    and "list_all (\<lambda>(i, p). 0 \<le> i \<and> i < n \<and> 0 \<le> p \<and> p < n) ps" and "distinct (map snd ps)"
  shows "\<exists>r'. foldM (\<lambda>results (inputHandle, resultHandle).
       mapM (\<lambda>(input, result).
         bnd (put [0] 0 inputHandle) (\<lambda>inputIdx.
         bnd (put [0] 0 resultHandle) (\<lambda>resIdx.
         bnd (tensor_get input inputIdx) (tensor_set L result resIdx)))) (zip [a] results)) [r] ps = Inr [r'] \<and>
    wf_tensor r' \<and> t_type r' = T \<and> (\<forall>(i, p) \<in> set ps. tensor_get r' [p] = Inr (g [i])) \<and>
    (\<forall>p. 0 \<le> p \<longrightarrow> p < n \<longrightarrow> p \<notin> snd ` set ps \<longrightarrow> tensor_get r' [p] = tensor_get r [p])"
  using assms(4-7)
proof (induction ps arbitrary: r)
  case (Cons ip ps)
  obtain i p where ip: "ip = (i, p)" by (cases ip)
  with Cons.prems have b: "inBounds [i] (shape_of T)" "inBounds [p] (shape_of T)"
    and rest: "list_all (\<lambda>(i, p). 0 \<le> i \<and> i < n \<and> 0 \<le> p \<and> p < n) ps" "distinct (map snd ps)" "p \<notin> snd ` set ps"
    using assms(3) by auto
  note get = denotes_get [OF assms(2) b(1)] and ok = denotes_ok [OF assms(2) b(1)]
  from tensor_set_ok [OF assms(1) Cons.prems(1), of "[p]" "g [i]"] Cons.prems(2) b(2) ok
  obtain r1 where r1: "tensor_set L r [p] (g [i]) = Inr r1" "wf_tensor r1" "t_type r1 = T" by auto
  from Cons.IH [OF r1(2,3) rest(1,2)] obtain r2 where r2: "foldM (\<lambda>results (inputHandle, resultHandle).
       mapM (\<lambda>(input, result).
         bnd (put [0] 0 inputHandle) (\<lambda>inputIdx.
         bnd (put [0] 0 resultHandle) (\<lambda>resIdx.
         bnd (tensor_get input inputIdx) (tensor_set L result resIdx)))) (zip [a] results)) [r1] ps = Inr [r2]"
    "wf_tensor r2" "t_type r2 = T" "\<forall>(i, p) \<in> set ps. tensor_get r2 [p] = Inr (g [i])"
    "\<And>q. 0 \<le> q \<Longrightarrow> q < n \<Longrightarrow> q \<notin> snd ` set ps \<Longrightarrow> tensor_get r2 [q] = tensor_get r1 [q]" by auto
  have same: "tensor_get r1 [p] = Inr (g [i])"
    by (rule tensor_get_set_same [OF assms(1) Cons.prems(1) _ _ r1(1)]) (use b ok Cons.prems(2) in auto)
  have other: "tensor_get r1 [q] = tensor_get r [q]" if "0 \<le> q" "q < n" "q \<noteq> p" for q
    by (rule tensor_get_set_other [OF assms(1) Cons.prems(1) _ _ r1(1)])
      (use b ok Cons.prems(2) that assms(3) in auto)
  have "tensor_get r2 [p] = Inr (g [i])" using r2(5) [of p] rest(3) same b(2) assms(3) by auto
  moreover have "tensor_get r2 [q] = tensor_get r [q]" if "0 \<le> q" "q < n" "q \<notin> snd ` set (ip # ps)" for q
    using r2(5) [of q] other [of q] that ip by auto
  ultimately show ?case
    using r2 r1(1) get ip by (auto simp: put_def)
qed auto

lemma evalSortOp_single:
  assumes "lib_ok L" and "denotes a T g" and "shape_of T = [n]" and "0 < n"
    and "std_stable_sort L (comparatorTogether L ev [a] 0 comparator [0]) [0..n - 1] = Inr p"
    and "length p = nat n" and "distinct p" and "set p = {0..<n}"
  shows "\<exists>r. evalSortOp L ev [a] 0 True comparator = Inr [r] \<and> wf_tensor r \<and> t_type r = T \<and>
    (\<forall>i < nat n. tensor_get r [p ! i] = Inr (g [int i]))"
proof -
  note a = denotes_type [OF assms(2)] and st = denotes_static [OF assms(2)]
  from new_tensor_ok [OF denotes_storable [OF assms(2)]] obtain r0 where
    r0: "new_tensor T = Inr r0" "t_type r0 = T" "wf_tensor r0" by auto
  have sp: "index_space [n] = map (\<lambda>k. [k]) [0..n - 1]"
    by (simp add: index_space_def)
  have "[0..n - 1] = 0 # [1..n - 1]" using assms(4) by (simp add: upto_rec1)
  then have sp: "index_space [n] = [0] # map (\<lambda>k. [k]) [1..n - 1]" using sp by simp
  have skip: "foldM (sort_step L ev [a] 0 True comparator) rs (map (\<lambda>k. [k]) [1..n - 1]) = Inr rs" for rs
  proof -
    have "sort_step L ev [a] 0 True comparator rs [k] = Inr rs" if "1 \<le> k" for k rs
      using that by (simp add: sort_step_def)
    then have "foldM (sort_step L ev [a] 0 True comparator) rs (map (\<lambda>k. [k]) ks) = Inr rs"
      if "\<forall>k \<in> set ks. 1 \<le> k" for ks using that by (induction ks) auto
    then show ?thesis by simp
  qed
  let ?ps = "zip [0..int (length p) - 1] p"
  have "list_all (\<lambda>(i, q). 0 \<le> i \<and> i < n \<and> 0 \<le> q \<and> q < n) ?ps"
    using assms(4,6,8) by (auto simp: list_all_iff dest: set_zip_leftD set_zip_rightD)
  moreover have "distinct (map snd ?ps)" using assms(7) by simp
  ultimately obtain r where r: "reshuffle L [a] 0 [0] p [r0] = Inr [r]" "wf_tensor r" "t_type r = T"
    "\<forall>(i, q) \<in> set ?ps. tensor_get r [q] = Inr (g [i])"
    using reshuffle_loop [OF assms(1,2,3) r0(3,2)] unfolding reshuffle_def by blast
  have "tensor_get r [p ! i] = Inr (g [int i])" if "i < nat n" for i
  proof -
    have "(int i, p ! i) \<in> set ?ps" using that assms(6) by (force simp: in_set_zip)
    with r(4) show ?thesis by auto
  qed
  moreover have "sort_step L ev [a] 0 True comparator [r0] [0] = Inr [r]"
    using assms(3,5) a r(1) by (simp add: sort_step_def)
  with skip [of "[r]"] r0 a assms(3) st have "evalSortOp L ev [a] 0 True comparator = Inr [r]"
    by (simp add: evalSortOp_def for_each_index_eq sp)
  ultimately show ?thesis using r(2,3) by blast
qed

end
