(* ===== verification/DialectLaws.thy ===== *)
theory DialectLaws
  imports OpInference
begin

text \<open>
  What the inference functions guarantee: merging of dimensions with bounds is the meet
  (\<open>inferMostSpecificDimAndBound\<close>) or an upper bound (\<open>inferLeastSpecificDimAndBound\<close>) of the sets
  of sizes they admit; compatibility is symmetric; the inferred shape of \<open>slice\<close>, \<open>pad\<close>,
  \<open>transpose\<close> and \<open>reduce\<close>; what accepted replica groups are.
\<close>

section \<open>Dimensions with bounds\<close>

text \<open>The sizes a dimension with a bound admits at run time.\<close>

definition admits :: "int \<Rightarrow> int \<Rightarrow> int \<Rightarrow> bool" where
  "admits dimSize bound n \<longleftrightarrow> 0 \<le> n \<and>
     (if isDynamicDimSize dimSize then isDynamicDimSize bound \<or> n \<le> bound else n = dimSize)"

text \<open>What \<open>verifyBounds\<close> checks, for one dimension: a static one has no bound.\<close>

definition dim_ok :: "int \<Rightarrow> int \<Rightarrow> bool" where
  "dim_ok dimSize bound \<longleftrightarrow> (isDynamicDimSize dimSize \<or> 0 \<le> dimSize \<and> isDynamicDimSize bound) \<and>
     (isDynamicDimSize bound \<or> 0 \<le> bound)"

lemma kDynamic_simps [simp]: "isDynamicDimSize kDynamic" "\<not> 0 \<le> kDynamic"
  by (simp_all add: isDynamicDimSize_def kDynamic_def)

lemma dyn_not_nonneg: "isDynamicDimSize d \<Longrightarrow> d < 0"
  by (simp add: isDynamicDimSize_def kDynamic_def)

lemma most_specific_meet:
  assumes "dim_ok ls lb" and "dim_ok rs rb" and "inferMostSpecificDimAndBound ls rs lb rb = Inr (s, b)"
  shows "admits s b n \<longleftrightarrow> admits ls lb n \<and> admits rs rb n" and "dim_ok s b"
  using assms
  by (auto simp: inferMostSpecificDimAndBound_def admits_def dim_ok_def Let_def min_def split: if_splits
      dest: dyn_not_nonneg)

lemma most_specific_fails:
  assumes "dim_ok ls lb" and "dim_ok rs rb" and "fails (inferMostSpecificDimAndBound ls rs lb rb)"
  shows "\<not> (admits ls lb n \<and> admits rs rb n)"
  using assms
  by (auto simp: inferMostSpecificDimAndBound_def admits_def dim_ok_def Let_def split: if_splits)

lemma least_specific_upper:
  assumes "dim_ok ls lb" and "dim_ok rs rb" and "inferLeastSpecificDimAndBound ls rs lb rb = Inr (s, b)"
    and "admits ls lb n \<or> admits rs rb n"
  shows "admits s b n"
  using assms
  by (auto simp: inferLeastSpecificDimAndBound_def admits_def dim_ok_def Let_def max_def split: if_splits
      dest: dyn_not_nonneg)

lemma concatenated_sum:
  assumes "dim_ok ls lb" and "dim_ok rs rb" and "inferConcatenatedDimAndBound ls rs lb rb = Inr (s, b)"
    and "admits ls lb m" and "admits rs rb n"
  shows "admits s b (m + n)"
  using assms
  by (auto simp: inferConcatenatedDimAndBound_def admits_def dim_ok_def Let_def i64_def split: if_splits
      dest: dyn_not_nonneg)

section \<open>Compatibility\<close>

lemma verifyCompatibleDims_sym: "verifyCompatibleDims a b \<longleftrightarrow> verifyCompatibleDims b a"
  by (auto simp: verifyCompatibleDims_def)

lemma dims_compatible_sym:
  "length xs = length ys \<Longrightarrow> list_all (\<lambda>(a, b). verifyCompatibleDims a b) (zip xs ys) \<longleftrightarrow>
    list_all (\<lambda>(a, b). verifyCompatibleDims a b) (zip ys xs)"
  by (induction xs ys rule: list_induct2) (auto simp: verifyCompatibleDims_sym)

lemma verifyCompatibleShape_sym: "verifyCompatibleShape t u \<longleftrightarrow> verifyCompatibleShape u t"
  unfolding verifyCompatibleShape_def
  by (cases "length (shape_of t) = length (shape_of u)")
    (auto simp: dims_compatible_sym [of "shape_of t" "shape_of u"])

lemma verifyCompatibleShapeWithBounds_sym:
  "verifyCompatibleShapeWithBounds t u \<longleftrightarrow> verifyCompatibleShapeWithBounds u t"
  by (auto simp: verifyCompatibleShapeWithBounds_def Let_def verifyCompatibleShape_sym)

lemma element_compatible_sym: "element_compatible t u \<longleftrightarrow> element_compatible u t"
  by (cases t; cases u) auto

lemma compatible_sym: "isCompatibleForHloTypeInference t u \<longleftrightarrow> isCompatibleForHloTypeInference u t"
proof (induction t u rule: isCompatibleForHloTypeInference.induct)
  case (1 t u)
  then show ?case
    by (subst (1 2) isCompatibleForHloTypeInference.simps)
      (auto simp: verifyCompatibleShapeWithBounds_sym element_compatible_sym)
qed

section \<open>Tuples\<close>

lemma unflatten_no_tuples:
  "length types = length prototype \<Longrightarrow> \<forall>t \<in> set prototype. tuple_types t = None \<Longrightarrow>
    unflatten_loop prototype types result = (result @ types, Some (length types))"
proof (induction prototype arbitrary: types result)
  case (Cons p prototype)
  then obtain t ts where types: "types = t # ts" "length ts = length prototype" by (cases types) auto
  from Cons.prems(2) have "unflatten_loop (p # prototype) (t # ts) result =
      (case unflatten_loop prototype ts (result @ [t]) of
        (result', None) \<Rightarrow> (result', None) | (result', Some consumed) \<Rightarrow> (result', Some (Suc consumed)))"
    by (cases p) simp_all
  with Cons.IH [OF types(2)] Cons.prems(2) types(1) show ?case by simp
qed simp

lemma flatten_no_tuples: "\<forall>t \<in> set (flattenTupleTypes ts). tuple_types t = None"
  by (induction ts rule: flattenTupleTypes.induct) auto

section \<open>Slice\<close>

lemma infer_dims:
  assumes "mapM f [0..int n - 1] = Inr ys"
  shows "length ys = n" "\<And>k. k < n \<Longrightarrow> f (int k) = Inr (ys ! k)"
proof -
  show "length ys = n" using mapM_length [OF assms] by simp
  fix k assume "k < n"
  with mapM_nth [OF assms, of k] show "f (int k) = Inr (ys ! k)" by simp
qed

lemma rank_length: "rank t = int (length (shape_of t))"
  by (simp add: rank_def)

lemma inferSliceOp_shape:
  assumes "inferSliceOp T starts limits strides = Inr R" and "has_rank T"
  shows "has_rank R" "element_type R = element_type T" "length (shape_of R) = length (shape_of T)"
    "length (di_values starts) = length (shape_of T)"
    "\<And>k. k < length (shape_of T) \<Longrightarrow>
      k < length (di_values limits) \<and> k < length (di_values strides) \<and>
      0 \<le> di_values starts ! k \<and> di_values starts ! k \<le> di_values limits ! k \<and> 0 < di_values strides ! k \<and>
      (\<not> isDynamicDimSize (shape_of T ! k) \<longrightarrow> di_values limits ! k \<le> shape_of T ! k) \<and>
      shape_of R ! k = divideCeil (di_values limits ! k - di_values starts ! k) (di_values strides ! k)"
proof -
  from assms obtain shape enc where
    R: "R = RankedTensorType shape (element_type T) enc" and
    len: "int (length (di_values starts)) = rank T" and
    dims: "mapM (\<lambda>i. bnd (at (di_values starts) i) (\<lambda>start. bnd (at (shape_of T) i) (\<lambda>dimSize.
        bnd (if encodingToBounds (encoding_of T) = [] then Inr None
             else bnd (at (encodingToBounds (encoding_of T)) i) (\<lambda>b. Inr (Some b))) (\<lambda>bound.
          infer_slice_dim dimSize bound start (at (di_values limits) i) (at (di_values strides) i)))))
        [0..int (length (shape_of T)) - 1] = Inr shape"
    by (auto simp: inferSliceOp_def require_eq_Inr bnd_eq_Inr Let_def rank_length split: if_splits)
  show "has_rank R" "element_type R = element_type T" using R by simp_all
  show "length (shape_of R) = length (shape_of T)" using infer_dims(1) [OF dims] R by simp
  show "length (di_values starts) = length (shape_of T)" using len by (simp add: rank_length)
  fix k assume "k < length (shape_of T)"
  from infer_dims(2) [OF dims this] len R
  show "k < length (di_values limits) \<and> k < length (di_values strides) \<and>
      0 \<le> di_values starts ! k \<and> di_values starts ! k \<le> di_values limits ! k \<and> 0 < di_values strides ! k \<and>
      (\<not> isDynamicDimSize (shape_of T ! k) \<longrightarrow> di_values limits ! k \<le> shape_of T ! k) \<and>
      shape_of R ! k = divideCeil (di_values limits ! k - di_values starts ! k) (di_values strides ! k)"
    by (auto simp: infer_slice_dim_def bnd_eq_Inr require_eq_Inr at_eq_Inr Let_def rank_length split: if_splits)
qed

lemma divideCeil_last:
  assumes "0 < s" and "0 < divideCeil n s"
  shows "(divideCeil n s - 1) * s < n"
proof -
  have "divideCeil n s * s \<le> n + s - 1"
    using assms(1) unfolding divideCeil_def by (metis div_mult_mod_eq le_add_same_cancel1 pos_mod_sign)
  then show ?thesis by (simp add: algebra_simps)
qed

section \<open>Pad\<close>

lemma inferPadOp_shape:
  assumes "inferPadOp T P low high interior = Inr R" and "static_shape (shape_of T)"
  shows "has_rank R" "shape_of P = []" "element_type R = element_type T" "length (shape_of R) = length (shape_of T)"
    "length (di_values low) = length (shape_of T)"
    "\<And>k. k < length (shape_of T) \<Longrightarrow>
      k < length (di_values high) \<and> k < length (di_values interior) \<and> 0 \<le> di_values interior ! k \<and>
      shape_of R ! k = shape_of T ! k + di_values low ! k + di_values high ! k +
        max (shape_of T ! k - 1) 0 * di_values interior ! k \<and> 0 \<le> shape_of R ! k \<and>
      i64_ok (max (shape_of T ! k - 1) 0 * di_values interior ! k)"
proof -
  from assms(1) obtain ds enc where
    R: "R = RankedTensorType (map fst ds) (element_type T) enc" and
    P: "rank P = 0" and len: "int (length (di_values low)) = rank T" and
    dims: "mapM (\<lambda>i. bnd (at (di_values low) i) (\<lambda>low. bnd (at (di_values high) i) (\<lambda>high.
            bnd (at (di_values interior) i) (\<lambda>interior. bnd (at (shape_of T) i) (\<lambda>dimSize.
            bnd (if encodingToBounds (encoding_of T) = [] then Inr None
                 else bnd (at (encodingToBounds (encoding_of T)) i) (\<lambda>b. Inr (Some b))) (\<lambda>bound.
              infer_pad_dim dimSize bound low high interior)))))) [0..int (length (shape_of T)) - 1] = Inr ds"
    by (auto simp: inferPadOp_def require_eq_Inr bnd_eq_Inr Let_def rank_length cast_ranked_def split: if_splits)
  show "has_rank R" "element_type R = element_type T" using R by simp_all
  show "shape_of P = []" using P by (simp add: rank_length)
  show "length (shape_of R) = length (shape_of T)" using infer_dims(1) [OF dims] R by simp
  show "length (di_values low) = length (shape_of T)" using len by (simp add: rank_length)
  fix k assume k: "k < length (shape_of T)"
  then have "0 \<le> shape_of T ! k" using assms(2) by (simp add: static_shape_def)
  then have st: "\<not> isDynamicDimSize (shape_of T ! k)" using dyn_not_nonneg [of "shape_of T ! k"] by linarith
  from infer_dims(2) [OF dims k] st len R k infer_dims(1) [OF dims]
  show "k < length (di_values high) \<and> k < length (di_values interior) \<and> 0 \<le> di_values interior ! k \<and>
      shape_of R ! k = shape_of T ! k + di_values low ! k + di_values high ! k +
        max (shape_of T ! k - 1) 0 * di_values interior ! k \<and> 0 \<le> shape_of R ! k \<and>
      i64_ok (max (shape_of T ! k - 1) 0 * di_values interior ! k)"
    by (cases "ds ! k") (auto simp: infer_pad_dim_def bnd_eq_Inr require_eq_Inr at_eq_Inr Let_def i64_eq_Inr)
qed

section \<open>Transpose and reduce\<close>

lemma count_distinct: "distinct xs \<Longrightarrow> x \<in> set xs \<Longrightarrow> count_list xs x = 1"
  by (induction xs) (auto simp: count_list_0_iff)

lemma is_permutation_mset: "is_permutation xs ys \<Longrightarrow> distinct xs \<Longrightarrow> distinct ys \<and> set ys = set xs"
proof -
  assume p: "is_permutation xs ys" "distinct xs"
  then have c: "count_list ys x = 1" if "x \<in> set xs" for x
    using that by (simp add: is_permutation_def list_all_iff count_distinct)
  then have sub: "set xs \<subseteq> set ys" by (metis count_list_0_iff subsetI zero_neq_one)
  have "card (set ys) \<le> length ys" by (rule card_length)
  moreover have "card (set xs) = length ys" using p by (simp add: is_permutation_def distinct_card)
  ultimately have "set xs = set ys" using sub by (intro card_seteq) auto
  with \<open>card (set xs) = length ys\<close> show ?thesis by (simp add: card_distinct)
qed

lemma inferTransposeOp_shape:
  assumes "inferTransposeOp T perm = Inr R" and "has_rank T"
  shows "distinct (di_values perm)" "set (di_values perm) = {0..<rank T}"
    "shape_of R = map (\<lambda>a. shape_of T ! nat a) (di_values perm)" "element_type R = element_type T" "has_rank R"
proof -
  let ?bounds = "encodingToBounds (encoding_of T)"
  have eq: "inferTransposeOp T perm = require (\<not> length (di_shape perm) \<noteq> 1) (Fatal ''TransposeOp permutation has wrong rank'')
      (require (\<not> int (length (di_values perm)) \<noteq> rank T) (Fatal ''TransposeOp operand rank does not match permutation size'')
      (require (is_permutation [0..rank T - 1] (di_values perm)) (Fatal ''attribute permutation must be a permutation'')
      (bnd (mapM (at (shape_of T)) (di_values perm)) (\<lambda>shape.
       bnd (if ?bounds \<noteq> [] then mapM (at ?bounds) (di_values perm) else Inr []) (\<lambda>bs.
       bnd (boundsToEncoding (encoding_of T) bs) (\<lambda>enc. Inr (RankedTensorType shape (element_type T) enc)))))))"
    using assms(2) by (simp only: inferTransposeOp_def Let_def not_True_eq_False if_False)
  from assms(1) have p: "is_permutation [0..rank T - 1] (di_values perm)"
    unfolding eq require_eq_Inr by (elim conjE)
  from assms(1) obtain shape bs enc where s: "mapM (at (shape_of T)) (di_values perm) = Inr shape"
    and R: "Inr (RankedTensorType shape (element_type T) enc) = (Inr R :: ty res)"
    unfolding eq require_eq_Inr bnd_eq_Inr by (elim conjE exE) (rule that)
  then have R: "R = RankedTensorType shape (element_type T) enc" by simp
  have "distinct (di_values perm) \<and> set (di_values perm) = set [0..rank T - 1]"
    by (rule is_permutation_mset [OF p distinct_upto])
  moreover have "set [0..rank T - 1] = {0..<rank T}" unfolding set_upto by (rule set_eqI) simp
  ultimately show "distinct (di_values perm)" "set (di_values perm) = {0..<rank T}" by simp_all
  have "shape = map (\<lambda>a. shape_of T ! nat a) (di_values perm)"
  proof (rule nth_equalityI)
    show "length shape = length (map (\<lambda>a. shape_of T ! nat a) (di_values perm))" using mapM_length [OF s] by simp
    fix k assume "k < length shape"
    then have "k < length (di_values perm)" using mapM_length [OF s] by simp
    with mapM_nth [OF s this] show "shape ! k = map (\<lambda>a. shape_of T ! nat a) (di_values perm) ! k"
      by (simp add: at_eq_Inr)
  qed
  with R show "shape_of R = map (\<lambda>a. shape_of T ! nat a) (di_values perm)" "element_type R = element_type T"
    "has_rank R" by simp_all
qed

section \<open>Replica groups\<close>

lemma verifyReplicaGroups_iff:
  assumes "length (di_shape g) = 2" and "di_shape g ! 0 \<noteq> 0 \<and> di_shape g ! 1 \<noteq> 0"
  shows "verifyReplicaGroups g same use_ids None = ok \<longleftrightarrow>
    (let ids = filter (\<lambda>i. i \<noteq> - 1) (di_values g) in
     (same \<longrightarrow> - 1 \<notin> set (di_values g)) \<and> distinct ids \<and> set ids = {0..<int (length ids)})"
proof -
  let ?ids = "filter (\<lambda>i. i \<noteq> - 1) (di_values g)"
  have eq: "verifyReplicaGroups g same use_ids None =
      bnd (foldM (replica_step same) [] (di_values g)) (\<lambda>seen.
        require (list_all (\<lambda>id. int id \<in> set seen) [0..<length seen]) (Fatal ''replica id not seen in replica groups'') ok)"
    using assms by (simp add: verifyReplicaGroups_def)
  show ?thesis
  proof
    assume "verifyReplicaGroups g same use_ids None = ok"
    then obtain seen where seen: "foldM (replica_step same) [] (di_values g) = Inr seen"
      "\<forall>k < length seen. int k \<in> set seen"
      by (auto simp: eq ok_def bnd_eq_Inr require_eq_Inr list_all_iff)
    from replica_fold [OF seen(1)] have "seen = rev ?ids" "distinct ?ids" "same \<longrightarrow> - 1 \<notin> set (di_values g)"
      by auto
    with seen(2) distinct_covers [of ?ids]
    show "let ids = ?ids in (same \<longrightarrow> - 1 \<notin> set (di_values g)) \<and> distinct ids \<and> set ids = {0..<int (length ids)}"
      by (simp add: Let_def)
  next
    assume a: "let ids = ?ids in (same \<longrightarrow> - 1 \<notin> set (di_values g)) \<and> distinct ids \<and> set ids = {0..<int (length ids)}"
    then have "foldM (replica_step same) [] (di_values g) = Inr (rev ?ids)"
      using replica_fold_ok [of "di_values g" "[]" same] by (simp add: Let_def)
    with a show "verifyReplicaGroups g same use_ids None = ok"
      by (auto simp: eq Let_def list_all_iff)
  qed
qed

end
