(* ===== verification/BridgeLaws.thy ===== *)
theory BridgeLaws
  imports RegionLaws DialectLaws "HOL-Library.Multiset"
begin

text \<open>
  Between the dialect and the interpreter: what the verifier of an operation accepts meets the
  side conditions under which its evaluator is total, so a verified operation never ends in a
  fatal error and never leaves the defined range of the C++ arithmetic.
\<close>

section \<open>Checks in a loop\<close>

lemma foldM_checks: "foldM (\<lambda>_. c) () xs = Inr () \<longleftrightarrow> (\<forall>x \<in> set xs. c x = Inr ())"
  by (induction xs) (auto simp: bnd_eq_Inr)

lemma zip_checks:
  "length ys = length xs \<Longrightarrow> (\<forall>x \<in> set (zip xs ys). P x) \<longleftrightarrow> (\<forall>k < length xs. P (xs ! k, ys ! k))"
  by (auto simp: set_zip)

lemma num_elements_mono:
  "list_all2 (\<lambda>a b. 0 \<le> a \<and> a \<le> b) xs ys \<Longrightarrow> 0 \<le> num_elements xs \<and> num_elements xs \<le> num_elements ys"
  by (induction rule: list_all2_induct) (auto intro!: mult_mono)

lemma storable_smaller:
  assumes "storable T" and "has_rank R" and "element_type R = element_type T"
    and "list_all2 (\<lambda>a b. 0 \<le> a \<and> a \<le> b) (shape_of R) (shape_of T)"
  shows "storable R"
proof -
  obtain rsh enc where R: "R = RankedTensorType rsh (element_type T) enc"
    using assms(2,3) by (cases R) auto
  have dims: "0 \<le> rsh ! k \<and> rsh ! k \<le> shape_of T ! k \<and> k < length (shape_of T)" if "k < length rsh" for k
    using assms(4) that R by (auto simp: list_all2_conv_all_nth)
  have "i64_ok (num_elements rsh * int (et_bytes (element_type T)))"
    using storableD(3) [OF assms(1)] num_elements_mono [OF assms(4)] R
      mult_right_mono [of "num_elements rsh" "num_elements (shape_of T)" "int (et_bytes (element_type T))"]
    by (auto simp: i64_ok_def zero_le_mult_iff intro: order_trans [of _ 0])
  moreover have "i64_ok d" if "d \<in> set rsh" for d
  proof -
    from that obtain k where k: "k < length rsh" "d = rsh ! k" by (auto simp: in_set_conv_nth)
    with dims [OF k(1)] storableD(7) [OF assms(1), of k] show ?thesis
      by (auto intro: i64_ok_between [OF i64_ok_0])
  qed
  moreover have "static_shape rsh" using dims by (auto simp: static_shape_def in_set_conv_nth)
  ultimately show ?thesis using R storableD(2) [OF assms(1)] by simp
qed

lemma static_not_dynamic: "static_shape sh \<Longrightarrow> k < length sh \<Longrightarrow> \<not> isDynamicDimSize (sh ! k)"
  using dyn_not_nonneg [of "sh ! k"] nth_mem [of k sh] unfolding static_shape_def
  by (metis linorder_not_less)

section \<open>Slice\<close>

lemma divideCeil_bounds:
  assumes "0 \<le> n" and "0 < s"
  shows "0 \<le> divideCeil n s" and "divideCeil n s \<le> n"
proof -
  show "0 \<le> divideCeil n s" using assms by (simp add: divideCeil_def pos_imp_zdiv_nonneg_iff)
  show "divideCeil n s \<le> n"
  proof (cases "divideCeil n s > 0")
    case True
    then have "(divideCeil n s - 1) * 1 \<le> (divideCeil n s - 1) * s"
      using assms by (intro mult_left_mono) auto
    then have "divideCeil n s - 1 \<le> (divideCeil n s - 1) * s" by (simp only: mult_1_right)
    with divideCeil_last [OF assms(2) True] show ?thesis by linarith
  qed (use assms in simp)
qed

lemma inferSliceOp_fits:
  assumes "inferSliceOp T starts limits strides = Inr R" and "storable T"
    and "length (di_values strides) = length (shape_of T)"
  shows "slice_fits (shape_of T) (di_values starts) (di_values strides) (shape_of R)"
    and "storable R" and "element_type R = element_type T"
proof -
  have T: "has_rank T" using assms(2) by (cases T) auto
  note s = inferSliceOp_shape [OF assms(1) T] and st = storableD(1) [OF assms(2)]
  have d: "0 \<le> di_values starts ! k" "di_values starts ! k \<le> di_values limits ! k" "0 < di_values strides ! k"
    "di_values limits ! k \<le> shape_of T ! k"
    "shape_of R ! k = divideCeil (di_values limits ! k - di_values starts ! k) (di_values strides ! k)"
    if "k < length (shape_of T)" for k
    using s(5) [OF that] static_not_dynamic [OF st that] by auto
  show "slice_fits (shape_of T) (di_values starts) (di_values strides) (shape_of R)"
    unfolding slice_fits_def
  proof (intro conjI allI impI)
    fix k assume k: "k < length (shape_of T)" and pos: "0 < shape_of R ! k"
    have "(shape_of R ! k - 1) * di_values strides ! k < di_values limits ! k - di_values starts ! k"
      using divideCeil_last [OF d(3) [OF k]] pos d(5) [OF k] by simp
    with d(4) [OF k] show "di_values starts ! k + (shape_of R ! k - 1) * di_values strides ! k < shape_of T ! k"
      by linarith
  qed (use s assms(3) d in auto)
  show "element_type R = element_type T" by (rule s(2))
  have "0 \<le> shape_of R ! k \<and> shape_of R ! k \<le> shape_of T ! k" if "k < length (shape_of T)" for k
    using divideCeil_bounds [of "di_values limits ! k - di_values starts ! k" "di_values strides ! k"] d [OF that]
    by linarith
  then show "storable R"
    using s(3) by (intro storable_smaller [OF assms(2) s(1,2)]) (simp add: list_all2_conv_all_nth)
qed

section \<open>Pad\<close>

text \<open>Sizes and paddings of at most 31 bits: no intermediate result leaves 64 bits.\<close>

definition small :: "int list \<Rightarrow> bool" where
  "small vs \<longleftrightarrow> (\<forall>v \<in> set vs. - (2 ^ 31) \<le> v \<and> v < 2 ^ 31)"

lemma small_nth: "small vs \<Longrightarrow> k < length vs \<Longrightarrow> - (2 ^ 31) \<le> vs ! k \<and> vs ! k < 2 ^ 31"
  by (auto simp: small_def)

lemma inferPadOp_fits:
  assumes "inferPadOp T P low high interior = Inr R" and "storable T"
    and "length (di_values interior) = length (shape_of T)"
    and "small (shape_of T)" and "small (di_values low)" and "small (di_values interior)"
  shows "pad_fits (shape_of T) (di_values low) (di_values interior) (shape_of R)"
proof -
  note p = inferPadOp_shape [OF assms(1) storableD(1) [OF assms(2)]]
  have "i64_ok (di_values interior ! k + 1) \<and> i64_ok (di_values low ! k) \<and>
      i64_ok ((shape_of T ! k - 1) * (di_values interior ! k + 1)) \<and>
      i64_ok (di_values low ! k + (shape_of T ! k - 1) * (di_values interior ! k + 1))"
    if k: "k < length (shape_of T)" for k
  proof -
    have i: "0 \<le> di_values interior ! k" "di_values interior ! k < 2 ^ 31"
      using p(6) [OF k] small_nth [OF assms(6), of k] k assms(3) by auto
    have l: "- (2 ^ 31) \<le> di_values low ! k" "di_values low ! k < 2 ^ 31"
      using small_nth [OF assms(5), of k] k p(5) by auto
    have t: "0 \<le> shape_of T ! k" "shape_of T ! k < 2 ^ 31"
      using storableD(1) [OF assms(2)] small_nth [OF assms(4) k] k by (auto simp: static_shape_def)
    have "(shape_of T ! k - 1) * (di_values interior ! k + 1) \<le> 2 ^ 31 * 2 ^ 31"
    proof (cases "shape_of T ! k = 0")
      case False
      then have "0 \<le> shape_of T ! k - 1" using t by linarith
      then show ?thesis using i t by (intro mult_mono) auto
    qed (use i in simp)
    moreover have "- 1 * (2 ^ 31) \<le> (shape_of T ! k - 1) * (di_values interior ! k + 1)"
    proof (cases "shape_of T ! k = 0")
      case False
      then have "0 \<le> shape_of T ! k - 1" using t by linarith
      then have "0 \<le> (shape_of T ! k - 1) * (di_values interior ! k + 1)" using i by simp
      then show ?thesis by simp
    qed (use i in simp)
    ultimately show ?thesis using i l by (simp add: i64_ok_def)
  qed
  with p assms(3) show ?thesis by (auto simp: pad_fits_def)
qed

section \<open>Broadcast, reverse, reshape, iota, transpose\<close>

lemma verifyBroadcastInDimOp_fits:
  assumes "verifyBroadcastInDimOp T dims R = ok" and "storable T"
  shows "broadcast_fits (shape_of T) (di_values dims) (shape_of R)"
proof -
  have T: "has_rank T" using assms(2) by (cases T) auto
  note st = static_not_dynamic [OF storableD(1) [OF assms(2)]]
  from assms(1) T have len: "length (di_values dims) = length (shape_of T)"
    and each: "\<forall>(dimIndex, dimSize) \<in> set (zip (di_values dims) (shape_of T)).
        require (\<not> (dimIndex < 0 \<or> dimIndex \<ge> rank R)) (Fatal ''broadcast_dimensions contains invalid value'')
         (if isDynamicDimSize dimSize then ok
          else bnd (at (shape_of R) dimIndex) (\<lambda>resultDimSize.
            require (\<not> (dimSize \<noteq> 1 \<and> dimSize \<noteq> resultDimSize))
              (Fatal ''size of operand dimension is not equal to 1 or size of result dimension'') ok)) = Inr ()"
    unfolding verifyBroadcastInDimOp_def ok_def cast_ranked_def Let_def
    by (auto simp: require_eq_Inr foldM_checks rank_length case_prod_beta)
  have "0 \<le> di_values dims ! k \<and> di_values dims ! k < rank R \<and>
      (shape_of T ! k = 1 \<or> shape_of T ! k = shape_of R ! nat (di_values dims ! k))"
    if k: "k < length (shape_of T)" for k
  proof -
    have "(di_values dims ! k, shape_of T ! k) \<in> set (zip (di_values dims) (shape_of T))"
      using k len by (auto simp: set_zip)
    with each st [OF k] show ?thesis by (fastforce simp: require_eq_Inr bnd_eq_Inr at_eq_Inr)
  qed
  with len show ?thesis by (auto simp: broadcast_fits_def rank_length)
qed

lemma distinct_iff_hasDuplicates: "hasDuplicates xs \<longleftrightarrow> \<not> distinct xs"
  using card_distinct distinct_card by (auto simp: hasDuplicates_def)

lemma verifyReverseOp_axes:
  assumes "verifyReverseOp T dims = ok" and "has_rank T"
  shows "axes_ok (di_values dims) (length (shape_of T))"
  using assms unfolding verifyReverseOp_def ok_def
  by (auto simp: require_eq_Inr foldM_checks axes_ok_def distinct_iff_hasDuplicates rank_length)

lemma verifyReshapeOp_count:
  assumes "verifyReshapeOp T R = ok" and "storable T"
  shows "num_elements (shape_of R) = num_elements (shape_of T)"
proof -
  have "has_rank T" "static_shape (shape_of T)" using assms(2) by (cases T; auto)+
  with assms(1) show ?thesis by (auto simp: verifyReshapeOp_def cast_ranked_def require_eq_Inr ok_def)
qed

lemma verifyIotaOp_dim:
  assumes "verifyIotaOp d R = ok" and "has_rank R"
  shows "0 \<le> d" and "d < int (length (shape_of R))"
  using assms by (auto simp: verifyIotaOp_def cast_shaped_def require_eq_Inr ok_def rank_length)

lemma inferTransposeOp_perm:
  assumes "inferTransposeOp T perm = Inr R" and "storable T"
  shows "is_perm (di_values perm) (length (shape_of T))"
    and "shape_of R = permuted (di_values perm) (shape_of T)"
    and "element_type R = element_type T" and "storable R"
proof -
  have T: "has_rank T" using assms(2) by (cases T) auto
  note p = inferTransposeOp_shape [OF assms(1) T]
  have "length (di_values perm) = length (shape_of T)"
    using distinct_card [OF p(1)] p(2) by (simp add: rank_length)
  with p(1,2) show perm: "is_perm (di_values perm) (length (shape_of T))"
    by (simp add: is_perm_def rank_length)
  show sh: "shape_of R = permuted (di_values perm) (shape_of T)" using p(3) by (simp add: permuted_def)
  show el: "element_type R = element_type T" by (rule p(4))
  let ?n = "length (shape_of T)"
  have "mset (di_values perm) = mset (map int [0..<?n])"
    using perm by (intro iffD1 [OF set_eq_iff_mset_eq_distinct]) (auto simp: is_perm_def image_int_atLeastLessThan distinct_map)
  then have "image_mset (\<lambda>a. shape_of T ! nat a) (mset (di_values perm)) =
      image_mset (\<lambda>a. shape_of T ! nat a) (mset (map int [0..<?n]))" by simp
  then have m: "mset (shape_of R) = mset (shape_of T)"
    by (simp add: p(3) multiset.map_comp comp_def map_nth flip: mset_map)
  then have "num_elements (shape_of R) = num_elements (shape_of T)"
    by (metis num_elements_def prod_mset_prod_list)
  moreover obtain rsh enc where "R = RankedTensorType rsh (element_type T) enc"
    using p(5) el by (cases R) auto
  moreover have "set (shape_of R) = set (shape_of T)" using m by (rule mset_eq_setD)
  ultimately show "storable R"
    using storableD [OF assms(2)] assms(2) by (cases T) (auto simp: static_shape_def)
qed

end
