(* ===== verification/ProgramLaws.thy ===== *)
theory ProgramLaws
  imports BridgeLaws
begin

text \<open>
  The interpreter on whole regions: every value a region returns has the type its SSA value
  declares; a region that applies one operation to its two arguments is that operation, so a
  reduction over it is a fold of the operation's function on elements.
\<close>

section \<open>Types of the values a region returns\<close>

text \<open>\<open>\<Gamma>\<close> gives every SSA value its type; a scope conforms to it when its bindings do.\<close>

definition conforms :: "(nat \<Rightarrow> ty) \<Rightarrow> scope \<Rightarrow> bool" where
  "conforms \<Gamma> s \<longleftrightarrow> (\<forall>f \<in> set s. \<forall>i t. f i = Some t \<longrightarrow> t_type t = \<Gamma> i)"

definition declares :: "(nat \<Rightarrow> ty) \<Rightarrow> ssa list \<Rightarrow> bool" where
  "declares \<Gamma> vs \<longleftrightarrow> (\<forall>v \<in> set vs. s_type v = \<Gamma> (s_id v))"

definition region_declares :: "(nat \<Rightarrow> ty) \<Rightarrow> region \<Rightarrow> bool" where
  "region_declares \<Gamma> r \<longleftrightarrow> declares \<Gamma> (region_args r) \<and>
     (\<forall>op \<in> set (region_ops r). declares \<Gamma> (op_operands op) \<and> declares \<Gamma> (op_results op))"

text \<open>The operands of the terminator of a region.\<close>

fun returned :: "operation list \<Rightarrow> ssa list" where
  "returned [] = []"
| "returned (op # ops) = (if is_terminator (op_code op) then op_operands op else returned ops)"

lemma conforms_new: "conforms \<Gamma> s \<Longrightarrow> conforms \<Gamma> (scope_new s)"
  by (auto simp: conforms_def scope_new_def)

lemma conforms_add: "conforms \<Gamma> s \<Longrightarrow> s_type v = \<Gamma> (s_id v) \<Longrightarrow> scope_add s v t = Inr s' \<Longrightarrow> conforms \<Gamma> s'"
  by (fastforce simp: conforms_def scope_add_eq_Inr split: if_splits)

lemma conforms_add_all:
  assumes "conforms \<Gamma> s" and "declares \<Gamma> vs" and "scope_add_all s vs ts = Inr s'"
  shows "conforms \<Gamma> s'"
proof -
  from assms(3) have "foldM (\<lambda>s (v, t). scope_add s v t) s (zip vs ts) = Inr s'"
    by (simp add: scope_add_all_def require_eq_Inr)
  then show ?thesis
    by (rule foldM_invariant [where P = "conforms \<Gamma>"])
      (use assms in \<open>auto simp: declares_def elim!: conforms_add dest: set_zip_leftD\<close>)
qed

lemma conforms_find: "conforms \<Gamma> s \<Longrightarrow> scope_find s v = Inr t \<Longrightarrow> t_type t = \<Gamma> (s_id v)"
proof (induction s)
  case (Cons f s)
  then show ?case by (auto simp: conforms_def split: option.splits)
qed simp

lemma conforms_find_all:
  assumes "conforms \<Gamma> s" and "declares \<Gamma> vs" and "scope_find_all s vs = Inr ts"
  shows "map t_type ts = map s_type vs"
proof (rule nth_equalityI)
  show "length (map t_type ts) = length (map s_type vs)"
    using mapM_length [OF assms(3) [unfolded scope_find_all_def]] by simp
  fix k assume "k < length (map t_type ts)"
  then have k: "k < length vs" "k < length ts"
    using mapM_length [OF assms(3) [unfolded scope_find_all_def]] by simp_all
  have "scope_find s (vs ! k) = Inr (ts ! k)" using mapM_nth [OF assms(3) [unfolded scope_find_all_def] k(1)] .
  with conforms_find [OF assms(1) this] k assms(2) show "map t_type ts ! k = map s_type vs ! k"
    by (simp add: declares_def)
qed

definition keeps_types :: "(nat \<Rightarrow> ty) \<Rightarrow> fallback option \<Rightarrow> bool" where
  "keeps_types \<Gamma> fb \<longleftrightarrow>
     (\<forall>fallback op s s'. fb = Some fallback \<longrightarrow> conforms \<Gamma> s \<longrightarrow> fallback op s = Inr s' \<longrightarrow> conforms \<Gamma> s')"

lemma eval_op_conforms:
  assumes "conforms \<Gamma> s" and "declares \<Gamma> (op_results op)" and "keeps_types \<Gamma> fb"
    and "eval_op L n ev fb op s = Inr s'"
  shows "conforms \<Gamma> s'"
  using assms
  by (auto simp: eval_op_def bnd_eq_Inr keeps_types_def split: option.splits intro: conforms_add_all)

lemma eval_ops_types:
  assumes "conforms \<Gamma> s" and "keeps_types \<Gamma> fb"
    and "\<forall>op \<in> set ops. declares \<Gamma> (op_operands op) \<and> declares \<Gamma> (op_results op)"
    and "eval_ops L n ev fb ops s = Inr ts"
  shows "map t_type ts = map s_type (returned ops)"
  using assms
proof (induction ops arbitrary: s)
  case (Cons op ops)
  show ?case
  proof (cases "is_terminator (op_code op)")
    case True
    with Cons.prems conforms_find_all [of \<Gamma> s "op_operands op" ts] show ?thesis by simp
  next
    case False
    with Cons.prems(4) obtain s' where s': "eval_op L n ev fb op s = Inr s'" "eval_ops L n ev fb ops s' = Inr ts"
      by (auto simp: bnd_eq_Inr)
    have "conforms \<Gamma> s'" using eval_op_conforms [OF Cons.prems(1) _ Cons.prems(2) s'(1)] Cons.prems(3) by simp
    from Cons.IH [OF this Cons.prems(2) _ s'(2)] Cons.prems(3) False show ?thesis by simp
  qed
qed simp

lemma eval_block_types:
  assumes "conforms \<Gamma> parent" and "keeps_types \<Gamma> fb" and "region_declares \<Gamma> r"
    and "eval_block L n ev fb r args parent = Inr ts"
  shows "map t_type ts = map s_type (returned (region_ops r))"
proof -
  from assms(4) obtain s where s: "scope_add_all (scope_new parent) (region_args r) args = Inr s"
    "eval_ops L n ev fb (region_ops r) s = Inr ts"
    by (auto simp: eval_block_def require_eq_Inr bnd_eq_Inr)
  have "conforms \<Gamma> s"
    using conforms_add_all [OF conforms_new [OF assms(1)] _ s(1)] assms(3) by (simp add: region_declares_def)
  with eval_ops_types [OF _ assms(2) _ s(2)] assms(3) show ?thesis by (auto simp: region_declares_def)
qed

section \<open>A region that applies one operation\<close>

definition ssa_of :: "nat \<Rightarrow> ty \<Rightarrow> ssa" where
  "ssa_of i t = \<lparr>s_id = i, s_type = t\<rparr>"

definition binary_region :: "opcode \<Rightarrow> ty \<Rightarrow> ty \<Rightarrow> region" where
  "binary_region code S R =
     Region [ssa_of 0 S, ssa_of 1 S]
       [Operation code [ssa_of 0 S, ssa_of 1 S] [ssa_of 2 R] [], Operation ReturnOp [ssa_of 2 R] [] []]"

lemma binary_region_eval:
  assumes "t_type a = S" and "t_type b = S" and "\<And>ev'. dispatch L n ev' code [R] [] = Some (binary f)"
    and "f a b = Inr t" and "t_type t = R" and "\<not> is_terminator code"
  shows "eval_block L n ev None (binary_region code S R) [a, b] s = Inr [t]"
  using assms
  by (simp add: eval_block_def binary_region_def ssa_of_def scope_add_all_def scope_new_def eval_op_def
      scope_find_all_def binary_def one_def is_terminator_def)

lemma add_region:
  assumes "lib_ok L" and "isSupportedIntegerType et" and "scalar_type S et"
    and "denotes a S (\<lambda>_. int_element et v)" and "denotes b S (\<lambda>_. int_element et w)"
  shows "\<exists>r. eval_block L n ev None (binary_region AddOp S S) [a, b] s = Inr [r] \<and>
    denotes r S (\<lambda>_. int_element et (ap_add v w))"
proof -
  have S: "storable S" "shape_of S = []" "element_type S = et" using assms(3) by (simp_all add: scalar_type_def)
  have typed: "int_typed et v" "int_typed et w"
    using denotes_ok [OF assms(4), of "[]"] denotes_ok [OF assms(5), of "[]"] S assms(2)
    by (auto simp: elem_ok_def wf_element_def int_element_def int_typed_def)
  have "int_typed et (ap_add v w)" using typed by (auto simp: int_typed_def wf_ap_ops)
  then have ok: "elem_ok et (int_element et (ap_add v w))" using wf_int_element by (simp add: elem_ok_def)
  have "\<exists>t. pointwise2 L (elem_add L) a b S = Inr t \<and> denotes t S (\<lambda>_. int_element et (ap_add v w))"
    by (rule pointwise2_denotes [OF assms(1) S(1) assms(4,5)])
      (use S ok elem_arith_int(1) [OF typed] in auto)
  then obtain t where t: "evalAddOp L a b S = Inr t" "denotes t S (\<lambda>_. int_element et (ap_add v w))"
    by (auto simp: evalAddOp_def)
  have "eval_block L n ev None (binary_region AddOp S S) [a, b] s = Inr [t]"
    by (rule binary_region_eval [where f = "\<lambda>lhs rhs. evalAddOp L lhs rhs S"])
      (use t(1) denotes_type [OF assms(4)] denotes_type [OF assms(5)] denotes_type [OF t(2)] in
        \<open>simp_all add: dispatch_def dispatch1_def Let_def is_terminator_def\<close>)
  with t(2) show ?thesis by blast
qed

section \<open>Sums\<close>

lemma add_region_body:
  assumes "lib_ok L" and "isSupportedIntegerType et" and "scalar_type S et"
  shows "body_is (\<lambda>r args. eval_nested (Suc n) L r args s) (binary_region AddOp S S) S
    (\<lambda>x y. projr (elem_add L x y))"
  unfolding body_is_def
proof (intro allI impI)
  fix a b :: tensor and x y
  assume a: "denotes a S (\<lambda>_. x)" and b: "denotes b S (\<lambda>_. y)"
  have S: "shape_of S = []" "element_type S = et" using assms(3) by (simp_all add: scalar_type_def)
  have "elem_ok et x" "elem_ok et y" using denotes_ok [OF a, of "[]"] denotes_ok [OF b, of "[]"] S by simp_all
  then obtain v w where v: "x = int_element et v" "int_typed et v" and w: "y = int_element et w" "int_typed et w"
    using assms(2) wf_element_intE [of x] wf_element_intE [of y] unfolding elem_ok_def by metis
  from add_region [OF assms a [unfolded v] b [unfolded w], of n "eval_nested n L" s] obtain r where
    r: "eval_block L n (eval_nested n L) None (binary_region AddOp S S) [a, b] s = Inr [r]"
    "denotes r S (\<lambda>_. int_element et (ap_add v w))" by blast
  with denotes_get [OF r(2), of "[]"] denotes_ok [OF r(2), of "[]"] S elem_arith_int(1) [OF v(2) w(2), of L] v w
  show "\<exists>r. eval_nested (Suc n) L (binary_region AddOp S S) [a, b] s = Inr [r] \<and>
      tensor_get r [] = Inr (projr (elem_add L x y)) \<and> elem_ok (element_type S) (projr (elem_add L x y))"
    by simp
qed

lemma foldl_add:
  assumes "int_typed et v0" and "\<forall>i \<in> set xs. int_typed et (v i)"
  shows "foldl (\<lambda>x y. projr (elem_add L x y)) (int_element et v0) (map (\<lambda>i. int_element et (v i)) xs) =
    int_element et (mk_apint (int_or_float_width et) (uval v0 + (\<Sum>i \<leftarrow> xs. uval (v i))))"
  using assms
proof (induction xs arbitrary: v0)
  case Nil
  then show ?case using mk_apint_uval [of v0] by (simp add: int_typed_def)
next
  case (Cons i xs)
  then have t: "int_typed et v0" "int_typed et (v i)" "int_typed et (ap_add v0 (v i))"
    by (auto simp: int_typed_def wf_ap_ops)
  have w: "ap_width v0 = int_or_float_width et" using t(1) by (simp add: int_typed_def)
  show ?case
    using Cons.IH [OF t(3)] Cons.prems(2) elem_arith_int(1) [OF t(1,2), of L] w
    by (simp add: ap_add_def) (simp add: mk_apint_def mod_simps add.assoc)
qed

lemma reduce_add:
  assumes "lib_ok L" and "isSupportedIntegerType et" and "scalar_type S et"
    and "denotes a T (\<lambda>i. int_element et (v i))" and "element_type T = et"
    and "denotes init S (\<lambda>_. int_element et v0)" and "storable R" and "element_type R = et"
    and "shape_of R = kept dims (shape_of T)"
  shows "\<exists>r. evalReduceOp L (\<lambda>r args. eval_nested (Suc n) L r args s) [a] [init] dims (binary_region AddOp S S) [R] = Inr [r] \<and>
    denotes r R (\<lambda>j. int_element et (mk_apint (int_or_float_width et)
      (uval v0 + (\<Sum>i \<leftarrow> filter (\<lambda>i. kept dims i = j) (index_space (shape_of T)). uval (v i)))))"
proof -
  have "elem_ok et (int_element et v0)"
    using denotes_ok [OF assms(6), of "[]"] assms(3) by (simp add: scalar_type_def)
  then have v0: "int_typed et v0"
    using assms(2) by (auto simp: elem_ok_def wf_element_def int_element_def int_typed_def)
  have "int_typed et (v i)" if "i \<in> set (index_space (shape_of T))" for i
  proof -
    have "inBounds i (shape_of T)" using that index_space_set [OF denotes_static [OF assms(4)]] by simp
    from denotes_ok [OF assms(4) this] assms(2,5) show ?thesis
      by (auto simp: elem_ok_def wf_element_def int_element_def int_typed_def)
  qed
  then have "foldl (\<lambda>x y. projr (elem_add L x y)) (int_element et v0)
        (map (\<lambda>i. int_element et (v i)) (filter (\<lambda>i. kept dims i = j) (index_space (shape_of T)))) =
      int_element et (mk_apint (int_or_float_width et)
        (uval v0 + (\<Sum>i \<leftarrow> filter (\<lambda>i. kept dims i = j) (index_space (shape_of T)). uval (v i))))" for j
    by (intro foldl_add [OF v0]) auto
  then show ?thesis
    using evalReduceOp_denotes [OF assms(1,3,4,5,6,7,8,9) add_region_body [OF assms(1,2,3), of n s]] by simp
qed

end
