(* ===== verification/SortLaws.thy ===== *)
theory SortLaws
  imports ProgramLaws
begin

text \<open>
  Sorting with a comparator region that compares two integers: the comparison of two handles is
  the comparison of the elements they stand for, so the handles come back sorted by element.
\<close>

section \<open>The comparator\<close>

text \<open>What \<open>std::sort\<close> and \<open>std::stable_sort\<close> document: for a comparator that orders the items by
  a key, they return the items reordered, with increasing keys.\<close>

definition sorts :: "((int \<Rightarrow> int \<Rightarrow> bool res) \<Rightarrow> int list \<Rightarrow> int list res) \<Rightarrow> bool" where
  "sorts srt \<longleftrightarrow> (\<forall>cmp key xs. (\<forall>x \<in> set xs. \<forall>y \<in> set xs. cmp x y = Inr ((key x :: int) < key y)) \<longrightarrow>
     (\<exists>ys. srt cmp xs = Inr ys \<and> mset ys = mset xs \<and> sorted (map key ys)))"

lemma sortsD:
  assumes "sorts srt" and "\<forall>x \<in> set xs. \<forall>y \<in> set xs. cmp x y = Inr ((key x :: int) < key y)"
  shows "\<exists>ys. srt cmp xs = Inr ys \<and> mset ys = mset xs \<and> sorted (map key ys)"
  using assms unfolding sorts_def by blast

text \<open>The region \<open>return compare LT, %0, %1\<close>.\<close>

definition lt_region :: "ty \<Rightarrow> region" where
  "lt_region et = binary_region (CompareOp LT) (RankedTensorType [] et NoEncoding) (RankedTensorType [] i1 NoEncoding)"

lemma scalar_ranked:
  assumes "supported_element_type et"
  shows "scalar_type (RankedTensorType [] et NoEncoding) et"
proof -
  have "int (et_bytes et) \<le> 16"
    using assms by (cases rule: supported_element_type_cases) (auto simp: isSupportedIntegerType_cases)
  then have "i64_ok (int (et_bytes et))" by (simp add: i64_ok_def)
  with assms show ?thesis by (simp add: scalar_type_def)
qed

lemma i1_supported [simp]: "supported_element_type i1"
  by (simp add: supported_element_type_def)

lemma lt_region_eval:
  assumes "lib_ok L" and "isSupportedIntegerType et"
    and "denotes a (RankedTensorType [] et NoEncoding) (\<lambda>_. int_element et v)"
    and "denotes b (RankedTensorType [] et NoEncoding) (\<lambda>_. int_element et w)"
  shows "\<exists>r. eval_nested (Suc n) L (lt_region et) [a, b] s = Inr [r] \<and>
    tensor_get r [] = Inr (bool_element (int_value et v < int_value et w))"
proof -
  let ?S = "RankedTensorType [] et NoEncoding" and ?B = "RankedTensorType [] i1 NoEncoding"
  let ?h = "\<lambda>_::sizes. bool_element (int_value et v < int_value et w)"
  have typed: "int_typed et v" "int_typed et w"
    using denotes_ok [OF assms(3), of "[]"] denotes_ok [OF assms(4), of "[]"] assms(2)
    by (auto simp: elem_ok_def wf_element_def int_element_def int_typed_def)
  have B: "storable ?B" using scalar_ranked [OF i1_supported] by (simp add: scalar_type_def)
  have "\<exists>t. pointwise2 L (elem_cmp L LT) a b ?B = Inr t \<and> denotes t ?B ?h"
    by (rule pointwise2_denotes [OF assms(1) B assms(3,4)])
      (use elem_compare_int(1) [OF typed] in \<open>auto simp: elem_ok_def\<close>)
  then obtain t where t: "evalCompareOp L a b LT ?B = Inr t" "denotes t ?B ?h"
    by (auto simp: evalCompareOp_def)
  have "eval_block L n (eval_nested n L) None (lt_region et) [a, b] s = Inr [t]"
    unfolding lt_region_def
    by (rule binary_region_eval [where f = "\<lambda>lhs rhs. evalCompareOp L lhs rhs LT ?B"])
      (use t(1) denotes_type [OF assms(3)] denotes_type [OF assms(4)] denotes_type [OF t(2)] in
        \<open>simp_all add: dispatch_def dispatch1_def Let_def is_terminator_def\<close>)
  with denotes_get [OF t(2), of "[]"] show ?thesis by simp
qed

lemma comparator_lt:
  assumes "lib_ok L" and "isSupportedIntegerType et" and "element_type T = et" and "shape_of T = [m]"
    and "denotes a T (\<lambda>i. int_element et (v i))" and "0 \<le> l" and "l < m" and "0 \<le> r" and "r < m"
  shows "comparatorTogether L (\<lambda>r args. eval_nested (Suc n) L r args s) [a] 0 (lt_region et) [0] l r =
    Inr (int_value et (v [l]) < int_value et (v [r]))"
proof -
  let ?S = "RankedTensorType [] et NoEncoding"
  have S: "scalar_type ?S et"
    using assms(2) by (intro scalar_ranked) (simp add: supported_element_type_def)
  have ib: "inBounds [l] (shape_of T)" "inBounds [r] (shape_of T)" using assms(4,6-9) by simp_all
  have ta: "t_elem a = et" using denotes_type [OF assms(5)] assms(3) by simp
  from scalar_of_denotes [OF assms(1) S] denotes_ok [OF assms(5) ib(1)] assms(3)
  obtain tl where l: "scalar_of L ?S (Inr (int_element et (v [l]))) = Inr tl"
    "denotes tl ?S (\<lambda>_. int_element et (v [l]))" by blast
  from scalar_of_denotes [OF assms(1) S] denotes_ok [OF assms(5) ib(2)] assms(3)
  obtain tr where r: "scalar_of L ?S (Inr (int_element et (v [r]))) = Inr tr"
    "denotes tr ?S (\<lambda>_. int_element et (v [r]))" by blast
  have "sort_args L [a] 0 [0] l r = Inr [tl, tr]"
    using denotes_get [OF assms(5) ib(1)] denotes_get [OF assms(5) ib(2)] ta l(1) r(1)
    by (simp add: sort_args_def put_def)
  with lt_region_eval [OF assms(1,2) l(2) r(2), of n s] show ?thesis
    by (auto simp: comparatorTogether_def)
qed

section \<open>One-dimensional sorts\<close>

lemma sort_ints:
  assumes "lib_ok L" and "sorts (std_stable_sort L)" and "isSupportedIntegerType et" and "element_type T = et"
    and "shape_of T = [m]" and "0 < m" and "denotes a T (\<lambda>i. int_element et (v i))"
  shows "\<exists>p r. mset p = mset [0..m - 1] \<and> sorted (map (\<lambda>h. int_value et (v [h])) p) \<and>
    evalSortOp L (\<lambda>r args. eval_nested (Suc n) L r args s) [a] 0 True (lt_region et) = Inr [r] \<and>
    wf_tensor r \<and> t_type r = T \<and> (\<forall>i < nat m. tensor_get r [p ! i] = Inr (int_element et (v [int i])))"
proof -
  define cmp where "cmp = comparatorTogether L (\<lambda>r args. eval_nested (Suc n) L r args s) [a] 0 (lt_region et) [0]"
  define key where "key h = int_value et (v [h])" for h
  have "\<forall>x \<in> set [0..m - 1]. \<forall>y \<in> set [0..m - 1]. cmp x y = Inr (key x < key y)"
    unfolding cmp_def key_def by (intro ballI comparator_lt [OF assms(1,3,4,5,7)]) simp_all
  from sortsD [OF assms(2) this] obtain p where p: "std_stable_sort L cmp [0..m - 1] = Inr p"
    "mset p = mset [0..m - 1]" "sorted (map key p)" by blast
  have "length p = nat m" using mset_eq_length [OF p(2)] by simp
  moreover have "{0..m - 1} = {0..<m}" by (rule set_eqI) simp
  then have "set p = {0..<m}" using mset_eq_setD [OF p(2)] unfolding set_upto by (rule trans [rotated])
  moreover have "distinct p" using mset_eq_imp_distinct_iff [OF p(2)] by simp
  ultimately obtain r where
    "evalSortOp L (\<lambda>r args. eval_nested (Suc n) L r args s) [a] 0 True (lt_region et) = Inr [r]"
    "wf_tensor r" "t_type r = T" "\<forall>i < nat m. tensor_get r [p ! i] = Inr (int_element et (v [int i]))"
    using evalSortOp_single [OF assms(1,7,5,6) p(1) [unfolded cmp_def]] by blast
  with p(2,3) show ?thesis unfolding key_def by blast
qed

end
