(* ===== verification/ConstantLaws.thy ===== *)
theory ConstantLaws
  imports SortLaws
begin

text \<open>
  \<open>makeTensor\<close> of \<open>stablehlo/reference/Tensor.cpp\<close>: the buffer a dense attribute is copied to
  holds its values in row-major order, each in the encoding that \<open>Tensor::get\<close> reads.
\<close>

lemma blob_eq:
  assumes "\<forall>v \<in> set vs. \<exists>x. getv v = Inr x \<and> enc x = bytes v"
  shows "blob getv enc vs = Inr (concat (map (\<lambda>v. map Some (bytes v)) vs))"
proof -
  from assms obtain h where h: "\<forall>v \<in> set vs. getv v = Inr (h v) \<and> enc (h v) = bytes v" by metis
  then have "mapM getv vs = Inr (map h vs)" by (intro mapM_Inr_map) auto
  moreover have "map (\<lambda>v. map Some (enc (h v))) vs = map (\<lambda>v. map Some (bytes v)) vs"
    using h by (intro map_cong) auto
  ultimately show ?thesis by (simp add: blob_def comp_def cong: map_cong)
qed

lemma concat_uniform:
  assumes "\<forall>x \<in> set xs. length (f x) = n" and "k < length xs"
  shows "take n (drop (n * k) (concat (map f xs))) = f (xs ! k)"
  using assms
proof (induction xs arbitrary: k)
  case (Cons x xs)
  then show ?case
    by (cases k) (simp_all flip: drop_drop add: add.commute)
qed simp

lemma length_concat_uniform: "\<forall>x \<in> set xs. length (f x) = n \<Longrightarrow> length (concat (map f xs)) = length xs * n"
  by (induction xs) auto

lemma mapM_Some: "mapM (\<lambda>b. case b of None \<Rightarrow> Inl e | Some v \<Rightarrow> Inr v) (map Some xs) = Inr xs"
  by (induction xs) auto

definition value_ok :: "ty \<Rightarrow> elval \<Rightarrow> bool" where
  "value_ok et v \<longleftrightarrow> elem_ok et \<lparr>e_type = et, e_val = v\<rparr>"

abbreviation value_bytes :: "ty \<Rightarrow> elval \<Rightarrow> int list" where
  "value_bytes et v \<equiv> encode \<lparr>e_type = et, e_val = v\<rparr>"

lemma value_int:
  "value_ok (IntegerType s w) v \<Longrightarrow> w \<noteq> 1 \<Longrightarrow>
    \<exists>i. v = IntV i \<and> value_bytes (IntegerType s w) v = to_le (et_bytes (IntegerType s w)) (int_value (IntegerType s w) i)"
  by (cases v) (auto simp: value_ok_def elem_ok_def wf_element_def encode_def isSupportedBooleanType_iff)

lemma value_bool: "value_ok (IntegerType Signless 1) v \<Longrightarrow> \<exists>b. v = BoolV b"
  by (cases v) (auto simp: value_ok_def elem_ok_def wf_element_def isSupportedIntegerType_cases)

lemma value_float: "value_ok (FloatType s) v \<Longrightarrow> \<exists>f. v = FloatV f \<and> fl_sem f = s"
  by (cases v) (auto simp: value_ok_def elem_ok_def wf_element_def isSupportedBooleanType_iff isSupportedIntegerType_cases)

lemma value_complex:
  "value_ok (ComplexType (FloatType s)) v \<Longrightarrow> \<exists>re im. v = ComplexV re im \<and> fl_sem re = s \<and> fl_sem im = s"
  by (cases v) (auto simp: value_ok_def elem_ok_def wf_element_def isSupportedBooleanType_iff isSupportedIntegerType_cases)

lemma attr_blob_eq:
  assumes "lib_ok L" and "supported_element_type et" and "\<forall>v \<in> set vs. value_ok et v"
  shows "attr_blob L et vs = Inr (concat (map (\<lambda>v. map Some (value_bytes et v)) vs))"
  using assms(2)
proof (cases rule: supported_element_type_cases)
  case (int s w)
  then have "\<forall>v \<in> set vs. \<exists>i. v = IntV i \<and> value_bytes et v = to_le (et_bytes et) (int_value et i)"
    using assms(3) value_int by fastforce
  with int show ?thesis
    by (cases s) (auto simp: attr_blob_def isSignlessInteger_iff isUnsignedInteger_iff int_value_def
        signless_supported attr_int_def intro!: blob_eq)
next
  case bool
  then have "\<forall>v \<in> set vs. \<exists>b. v = BoolV b" using assms(3) value_bool by blast
  with bool show ?thesis
    by (auto simp: attr_blob_def isSignlessInteger_iff isUnsignedInteger_iff isSupportedBooleanType_iff
        attr_bool_def encode_def intro!: blob_eq)
next
  case (float s)
  then have "\<forall>v \<in> set vs. \<exists>f. v = FloatV f \<and> fl_sem f = s" using assms(3) value_float by blast
  with float show ?thesis
    by (cases s) (fastforce simp: attr_blob_def attr_float_def encode_def lib_ok_single [OF assms(1)]
        lib_ok_double [OF assms(1)] intro!: blob_eq)+
next
  case (complex s)
  then have "\<forall>v \<in> set vs. \<exists>re im. v = ComplexV re im \<and> fl_sem re = s \<and> fl_sem im = s"
    using assms(3) value_complex by blast
  with complex show ?thesis
    by (elim disjE) (fastforce simp: attr_blob_def attr_complex_def encode_def Let_def lib_ok_single [OF assms(1)]
        lib_ok_double [OF assms(1)] intro!: blob_eq)+
qed

lemma makeTensor_denotes:
  assumes "lib_ok L" and "storable (d_type attr)" and "\<forall>v \<in> set (d_values attr). value_ok (element_type (d_type attr)) v"
    and "int (length (d_values attr)) = num_elements (shape_of (d_type attr))"
  shows "\<exists>t. makeTensor L attr = Inr t \<and> denotes t (d_type attr)
    (\<lambda>idx. \<lparr>e_type = element_type (d_type attr), e_val = d_values attr ! nat (flat (shape_of (d_type attr)) idx)\<rparr>)"
proof -
  let ?T = "d_type attr" and ?vs = "d_values attr"
  let ?et = "element_type ?T"
  let ?n = "et_bytes ?et"
  note et = storableD(2) [OF assms(2)]
  have len: "\<forall>v \<in> set ?vs. length (map Some (value_bytes ?et v)) = ?n"
    using assms(3) length_encode by (auto simp: value_ok_def)
  define t :: tensor where "t = \<lparr>t_type = ?T, t_data = concat (map (\<lambda>v. map Some (value_bytes ?et v)) ?vs)\<rparr>"
  have mk: "makeTensor L attr = Inr t"
    using attr_blob_eq [OF assms(1) et assms(3)] by (simp add: makeTensor_def t_def)
  have dl: "length (t_data t) = length ?vs * ?n" using length_concat_uniform [OF len] by (simp add: t_def)
  with assms(2,4) have wf: "wf_tensor t" by (simp add: wf_tensor_def t_def flip: assms(4))
  have "tensor_get t idx = Inr \<lparr>e_type = ?et, e_val = ?vs ! nat (flat (shape_of ?T) idx)\<rparr>"
    if ib: "inBounds idx (shape_of ?T)" for idx
  proof -
    let ?k = "nat (flat (shape_of ?T) idx)"
    have k: "?k < length ?vs" "flat (shape_of ?T) idx = int ?k" using flat_bounds [OF ib] assms(4) by auto
    have off: "nat (int ?n * flat (shape_of ?T) idx) = ?n * ?k" using k(2) by (metis nat_int of_nat_mult)
    have "?n * ?k + ?n \<le> ?n * length ?vs" using k(1) by (metis Suc_leI mult_Suc_right mult_le_mono2 add.commute)
    then have "0 \<le> int ?n * flat (shape_of ?T) idx \<and>
        int ?n * flat (shape_of ?T) idx + int ?n \<le> int (length (t_data t))"
      using dl k(2) by (metis of_nat_0_le_iff of_nat_add of_nat_le_iff of_nat_mult mult.commute)
    moreover have "take ?n (drop (?n * ?k) (t_data t)) = map Some (value_bytes ?et (?vs ! ?k))"
      using concat_uniform [OF len k(1)] by (simp add: t_def)
    ultimately have "load_bytes (t_data t) (int ?n * flat (shape_of ?T) idx) ?n = Inr (value_bytes ?et (?vs ! ?k))"
      by (simp add: load_bytes_def off mapM_Some)
    moreover have "elem_ok ?et \<lparr>e_type = ?et, e_val = ?vs ! ?k\<rparr>"
      using assms(3) k(1) by (simp add: value_ok_def)
    ultimately show ?thesis
      using tensor_get_eq [OF wf, of idx] ib decode_encode by (simp add: t_def)
  qed
  with wf mk show ?thesis by (auto simp: denotes_def t_def)
qed

end
