(* ===== verification/Samples.thy ===== *)
theory Samples
  imports RegionLaws DialectLaws
begin

text \<open>
  Concrete values at which the theorems are applied: an instance of the parameters that stand
  for LLVM's floating point, the C math library and the sorting functions (an insertion sort,
  stable, which meets what is assumed of them), and tensors of unsigned bytes.
\<close>

section \<open>A library\<close>

fun insert_handle :: "(int \<Rightarrow> int \<Rightarrow> bool res) \<Rightarrow> int \<Rightarrow> int list \<Rightarrow> int list res" where
  "insert_handle lt x [] = Inr [x]"
| "insert_handle lt x (y # ys) =
     bnd (lt y x) (\<lambda>b. if b then bnd (insert_handle lt x ys) (\<lambda>zs. Inr (y # zs)) else Inr (x # y # ys))"

fun insertion_sort :: "(int \<Rightarrow> int \<Rightarrow> bool res) \<Rightarrow> int list \<Rightarrow> int list res" where
  "insertion_sort lt [] = Inr []"
| "insertion_sort lt (x # xs) = bnd (insertion_sort lt xs) (insert_handle lt x)"

definition sample_lib :: lib where
  "sample_lib = \<lparr>
     fl_add = (\<lambda>a _. a),
     fl_sub = (\<lambda>a _. a),
     fl_mul = (\<lambda>a _. a),
     fl_div = (\<lambda>a _. a),
     fl_mod = (\<lambda>a _. a),
     fl_neg = (\<lambda>a. a),
     fl_abs = (\<lambda>a. a),
     fl_maximum = (\<lambda>a _. a),
     fl_minimum = (\<lambda>a _. a),
     fl_compare = (\<lambda>a b. CmpEqual),
     fl_round = (\<lambda>_ f. f),
     fl_is_nan = (\<lambda>_. False),
     fl_is_zero = (\<lambda>_. False),
     fl_is_negative = (\<lambda>_. False),
     fl_is_finite = (\<lambda>_. False),
     fl_convert = (\<lambda>s f. FpF32 0),
     fl_of_int = (\<lambda>s sg v. FpF32 0),
     fl_to_int = (\<lambda>w u f. 0),
     fl_to_double = (\<lambda>f. case f of FpF64 b \<Rightarrow> b | _ \<Rightarrow> 0),
     fl_to_single = (\<lambda>f. case f of FpF32 b \<Rightarrow> b | _ \<Rightarrow> 0),
     fl_nan = (\<lambda>s. FpF32 0),
     fl_zero = (\<lambda>s. FpF32 0),
     d_add = (\<lambda>a _. a),
     d_sub = (\<lambda>a _. a),
     d_div = (\<lambda>a _. a),
     d_le = (\<lambda>_ _. False),
     d_fabs = (\<lambda>a. a),
     d_cbrt = (\<lambda>a. a),
     d_cos = (\<lambda>a. a),
     d_sin = (\<lambda>a. a),
     d_exp = (\<lambda>a. a),
     d_expm1 = (\<lambda>a. a),
     d_log = (\<lambda>a. a),
     d_log1p = (\<lambda>a. a),
     d_sqrt = (\<lambda>a. a),
     d_tanh = (\<lambda>a. a),
     d_tan = (\<lambda>a. a),
     d_pow = (\<lambda>a _. a),
     d_atan2 = (\<lambda>a _. a),
     cd_abs = (fst),
     cd_add = (\<lambda>a _. a),
     cd_sub = (\<lambda>a _. a),
     cd_div = (\<lambda>a _. a),
     cd_scale = (\<lambda>d c. c),
     cd_cos = (\<lambda>a. a),
     cd_sin = (\<lambda>a. a),
     cd_exp = (\<lambda>a. a),
     cd_log = (\<lambda>a. a),
     cd_sqrt = (\<lambda>a. a),
     cd_tanh = (\<lambda>a. a),
     cd_pow = (\<lambda>a _. a),
     std_sort = (insertion_sort),
     std_stable_sort = (insertion_sort)\<rparr>"

lemma sample_lib_ok [simp]: "lib_ok sample_lib"
  by (simp add: lib_ok_def sample_lib_def)

lemma insert_handle_mono:
  "(\<And>a b. res_le (c a b) (c' a b)) \<Longrightarrow> res_le (insert_handle c x xs) (insert_handle c' x xs)"
  by (induction xs) (auto intro!: mono_intros)

lemma insertion_sort_mono:
  "(\<And>a b. res_le (c a b) (c' a b)) \<Longrightarrow> res_le (insertion_sort c xs) (insertion_sort c' xs)"
  by (induction xs) (auto intro!: mono_intros insert_handle_mono)

lemma sample_sort_mono [simp]: "sort_mono sample_lib"
  by (simp add: sort_mono_def sample_lib_def insertion_sort_mono)

lemma sample_sorts [simp]: "std_sort sample_lib = insertion_sort" "std_stable_sort sample_lib = insertion_sort"
  by (simp_all add: sample_lib_def)

section \<open>Tensors of bytes\<close>

definition ui8 :: ty where "ui8 = IntegerType Unsigned 8"

definition byte_type :: "sizes \<Rightarrow> ty" where
  "byte_type sh = RankedTensorType sh ui8 NoEncoding"

definition byte :: "int \<Rightarrow> element" where
  "byte v = int_element ui8 (APInt 8 v)"

definition byte_tensor :: "sizes \<Rightarrow> int list \<Rightarrow> tensor" where
  "byte_tensor sh bs = \<lparr>t_type = byte_type sh, t_data = map Some bs\<rparr>"

lemma ui8_facts [simp]: "supported_element_type ui8" "isSupportedIntegerType ui8" "et_bytes ui8 = 1"
  "\<not> isSupportedSignedIntegerType ui8" "isSupportedUnsignedIntegerType ui8" "\<not> isSupportedBooleanType ui8"
  by (auto simp: ui8_def supported_element_type_def isSupportedIntegerType_cases signless_supported
      isSupportedUnsignedIntegerType_def isUnsignedInteger_iff isSupportedBooleanType_iff)

lemma byte_type_facts [simp]: "shape_of (byte_type sh) = sh" "element_type (byte_type sh) = ui8"
  "has_rank (byte_type sh)" "is_shaped (byte_type sh)" "encoding_of (byte_type sh) = NoEncoding"
  by (simp_all add: byte_type_def)

lemma storable_byte_type [simp]:
  "storable (byte_type sh) \<longleftrightarrow> static_shape sh \<and> (\<forall>d \<in> set sh. i64_ok d) \<and> i64_ok (num_elements sh)"
  by (simp add: byte_type_def)

lemma byte_ok [simp]: "elem_ok ui8 (byte v) \<longleftrightarrow> 0 \<le> v \<and> v < 256"
  by (auto simp: byte_def elem_ok_def int_element_def wf_element_def wf_apint_def ui8_def isSupportedIntegerType_cases)

lemma ui8_width [simp]: "int_or_float_width ui8 = 8"
  by (simp add: ui8_def)

lemma int_value_ui8 [simp]: "int_value ui8 (APInt 8 v) = v"
  by (simp add: int_value_def)

lemma int_typed_ui8 [simp]: "int_typed ui8 (APInt 8 v) \<longleftrightarrow> 0 \<le> v \<and> v < 256"
  by (simp add: int_typed_def wf_apint_def)

lemma decode_byte:
  assumes "0 \<le> b" and "b < 256"
  shows "decode ui8 [b] = Inr (byte b)"
proof -
  have "from_le [b] = b" "b mod 256 = b" using assms by simp_all
  then show ?thesis
    using ui8_facts
    by (simp add: decode_def ui8_def mk_int_def byte_def int_element_def mk_apint_def)
qed

lemma byte_tensor_denotes:
  assumes "static_shape sh" and "\<forall>d \<in> set sh. i64_ok d" and "i64_ok (num_elements sh)"
    and "length bs = nat (num_elements sh)" and "\<forall>b \<in> set bs. 0 \<le> b \<and> b < 256"
  shows "denotes (byte_tensor sh bs) (byte_type sh) (\<lambda>idx. byte (bs ! nat (flat sh idx)))"
proof -
  have wf: "wf_tensor (byte_tensor sh bs)"
    using assms by (simp add: wf_tensor_def byte_tensor_def)
  have "tensor_get (byte_tensor sh bs) idx = Inr (byte (bs ! nat (flat sh idx)))" if ib: "inBounds idx sh" for idx
  proof -
    let ?k = "nat (flat sh idx)"
    have k: "0 \<le> flat sh idx" "?k < length bs" using flat_bounds [OF ib] assms(4) by auto
    have "take 1 (drop ?k (map Some bs)) = [Some (bs ! ?k)]"
      using k by (simp add: take_Suc_conv_app_nth flip: drop_map)
    then have "load_bytes (map Some bs) (flat sh idx) 1 = Inr [bs ! ?k]"
      using k by (simp add: load_bytes_def require_def)
    moreover have "0 \<le> bs ! ?k" "bs ! ?k < 256" using assms(5) k by auto
    ultimately show ?thesis
      using tensor_get_eq [OF wf, of idx] ib decode_byte [of "bs ! ?k"]
      by (simp add: byte_tensor_def)
  qed
  with wf show ?thesis by (auto simp: denotes_def byte_tensor_def)
qed

section \<open>Evaluating type inference\<close>

lemmas infer_defs = inferSliceOp_def infer_slice_dim_def inferPadOp_def infer_pad_dim_def inferTransposeOp_def
  is_permutation_def divideCeil_def boundsToEncoding_def encodingToBounds_def rank_def cast_ranked_def
  i64_def i64_ok_def isDynamicDimSize_def kDynamic_def i64_attr_def at_def Let_def

lemma i64_attr_values [simp]: "di_values (i64_attr vs) = vs" "di_shape (i64_attr vs) = [int (length vs)]"
  by (simp_all add: i64_attr_def)

end
