(* ===== verification/TensorProperties.thy ===== *)
theory TensorProperties
  imports ConstantLaws Samples
begin

text \<open>
  The properties of index spaces, tensors, elements and scopes
  (\<open>stablehlo/reference/Index.cpp\<close>, \<open>Tensor.cpp\<close>, \<open>Element.cpp\<close>, \<open>Scope.cpp\<close>).
\<close>

section \<open>Index spaces\<close>

fun lex_before :: "sizes \<Rightarrow> sizes \<Rightarrow> bool" where
  "lex_before (i # is) (j # js) \<longleftrightarrow> i < j \<or> i = j \<and> lex_before is js"
| "lex_before _ _ \<longleftrightarrow> False"

lemma unflat_lex:
  assumes "static_shape sh" and "0 \<le> k" and "k < l" and "l < num_elements sh"
  shows "lex_before (unflat sh k) (unflat sh l)"
  using assms
proof (induction sh arbitrary: k l)
  case (Cons d ds)
  have ne: "0 < num_elements ds"
    using Cons.prems by (cases "num_elements ds = 0") (auto simp: num_elements_pos_iff)
  let ?m = "num_elements ds"
  show ?case
  proof (cases "k div ?m = l div ?m")
    case True
    have "k = k div ?m * ?m + k mod ?m" "l = k div ?m * ?m + l mod ?m"
      unfolding True by simp_all (simp flip: True)
    with Cons.prems(3) have "k mod ?m < l mod ?m" by linarith
    then have "lex_before (unflat ds (k mod ?m)) (unflat ds (l mod ?m))"
      using Cons.IH [of "k mod ?m" "l mod ?m"] Cons.prems(1) ne by simp
    with True show ?thesis by simp
  next
    case False
    moreover have "k div ?m \<le> l div ?m" using Cons.prems(3) ne by (intro zdiv_mono1) auto
    ultimately show ?thesis by simp
  qed
qed simp

lemma index_space_sorted: "static_shape sh \<Longrightarrow> sorted_wrt (lex_before) (index_space sh)"
  by (auto simp: sorted_wrt_iff_nth_less index_space_length index_space_nth intro!: unflat_lex)

text \<open>
  C1: A loop over the index space of a static shape (\<open>index_begin\<close>, \<open>!=\<close>, \<open>*\<close>, \<open>++\<close>) ends and
  runs its body exactly once for every index within the bounds, in increasing lexicographical
  order, stopping at the first error of the body.
\<close>

theorem index_loop_visits_each_once:
  assumes "static_shape sh"
  shows "for_each_index sh body s = foldM body s (index_space sh) \<and> distinct (index_space sh) \<and>
    set (index_space sh) = {idx. inBounds idx sh} \<and> sorted_wrt (lex_before) (index_space sh)"
  by (intro conjI for_each_index_eq index_space_distinct index_space_set index_space_sorted assms)

theorem index_loop_visits_each_once_witness:
  "for_each_index [2, 3] (\<lambda>xs idx. Inr (xs @ [idx])) [] =
    (Inr [[0, 0], [0, 1], [0, 2], [1, 0], [1, 1], [1, 2]] :: sizes list res)"
proof -
  have "index_space [2, 3] = [[0, 0], [0, 1], [0, 2], [1, 0], [1, 1], [1, 2]]"
    by (simp add: index_space_def upto.simps)
  then show ?thesis using index_loop_visits_each_once [of "[2, 3]" "\<lambda>xs idx. Inr (xs @ [idx])" "[]"] by simp
qed

text \<open>
  C2: \<open>flattenIndex\<close> maps the indices within the bounds of a shape one to one onto the positions
  \<open>0, ..., n - 1\<close> of its \<open>n\<close> elements, without overflow when \<open>n\<close> fits 64 bits, and every other
  index is a fatal error.
\<close>

theorem flattenIndex_bijective:
  assumes "static_shape sh" and "i64_ok (num_elements sh)"
  shows "(\<forall>k. 0 \<le> k \<and> k < num_elements sh \<longrightarrow> (\<exists>!idx. flattenIndex sh idx = Inr k)) \<and>
    (\<forall>idx. inBounds idx sh \<longrightarrow> (\<exists>k. flattenIndex sh idx = Inr k \<and> 0 \<le> k \<and> k < num_elements sh)) \<and>
    (\<forall>idx. \<not> inBounds idx sh \<longrightarrow> fails (flattenIndex sh idx))"
proof (intro conjI allI impI)
  fix k assume k: "0 \<le> k \<and> k < num_elements sh"
  then have u: "inBounds (unflat sh k) sh" "flat sh (unflat sh k) = k"
    using unflat_inBounds [OF assms(1)] flat_unflat [OF assms(1)] by auto
  show "\<exists>!idx. flattenIndex sh idx = Inr k"
  proof (rule ex1I)
    show "flattenIndex sh (unflat sh k) = Inr k" using flattenIndex_eq [OF u(1) assms(2)] u(2) by simp
    fix idx assume f: "flattenIndex sh idx = Inr k"
    then have "inBounds idx sh" using flattenIndex_out [of idx sh] by auto
    with f u flattenIndex_eq [OF _ assms(2)] flat_inj show "idx = unflat sh k" by auto
  qed
qed (use flattenIndex_eq [OF _ assms(2)] flat_bounds flattenIndex_out in auto)

theorem flattenIndex_bijective_witness:
  "(\<exists>!idx. flattenIndex [2, 3, 4] idx = Inr 17) \<and> fails (flattenIndex [2, 3, 4] [0, 3, 0])"
  using flattenIndex_bijective [of "[2, 3, 4]"] by (simp add: i64_ok_def)

section \<open>Tensors\<close>

text \<open>
  C3: \<open>Tensor::set\<close> refines the update of a map from indices to elements: on a well-formed tensor
  that holds \<open>g\<close>, setting an element of the tensor's element type at an index within the bounds
  succeeds, and the bytes of the result hold \<open>g\<close> updated at that index and nowhere else.
\<close>

theorem tensor_set_is_update:
  assumes "lib_ok L" and "denotes t T g" and "inBounds idx (shape_of T)" and "elem_ok (element_type T) e"
  shows "\<exists>t'. tensor_set L t idx e = Inr t' \<and> denotes t' T (g(idx := e))"
  by (rule denotes_set [OF assms])

theorem tensor_set_is_update_witness:
  "\<exists>t'. tensor_set sample_lib (byte_tensor [2] [7, 9]) [1] (byte 255) = Inr t' \<and>
    tensor_get t' [0] = Inr (byte 7) \<and> tensor_get t' [1] = Inr (byte 255)"
proof -
  have "denotes (byte_tensor [2] [7, 9]) (byte_type [2]) (\<lambda>idx. byte ([7, 9] ! nat (flat [2] idx)))"
    by (rule byte_tensor_denotes) (simp_all add: i64_ok_def)
  from tensor_set_is_update [OF sample_lib_ok this, of "[1]" "byte 255"]
  show ?thesis by (auto simp: denotes_def)
qed

text \<open>
  Reading is typed and total: \<open>Tensor::get\<close> on a well-formed tensor returns only elements of
  the tensor's element type, and an index outside the bounds is an error, never a value.
\<close>

theorem tensor_get_typed:
  assumes "wf_tensor t"
  shows "(\<forall>e. tensor_get t idx = Inr e \<longrightarrow> elem_ok (t_elem t) e \<and> inBounds idx (t_shape t)) \<and>
    (\<not> inBounds idx (t_shape t) \<longrightarrow> fails (tensor_get t idx))"
  using tensor_get_ok [OF assms] tensor_get_out [OF assms] by blast

theorem tensor_get_typed_witness:
  "wf_tensor (byte_tensor [2] [7, 9]) \<and> fails (tensor_get (byte_tensor [2] [7, 9]) [2])"
proof -
  have "denotes (byte_tensor [2] [7, 9]) (byte_type [2]) (\<lambda>idx. byte ([7, 9] ! nat (flat [2] idx)))"
    by (rule byte_tensor_denotes) (simp_all add: i64_ok_def)
  then have "wf_tensor (byte_tensor [2] [7, 9])" by (rule denotes_wf)
  with tensor_get_typed [OF this, of "[2]"] show ?thesis by (simp add: byte_tensor_def)
qed

text \<open>
  Round trip through the buffer: an element written at an offset whose bytes lie within the
  buffer is read back unchanged, for every supported element type (signed, unsigned and 4-bit
  integers, booleans, all floating-point formats, complex numbers).
\<close>

theorem element_bytes_round_trip:
  assumes "lib_ok L" and "elem_ok et e" and "supported_element_type et" and "in_buffer buf p (et_bytes et)"
  shows "\<exists>buf'. write_element L et buf p e = Inr buf' \<and> length buf' = length buf \<and>
    read_element et buf' p = Inr e"
proof -
  have b: "in_buffer buf p (length (encode e))" using assms(4) length_encode [OF assms(2)] by simp
  have "write_element L et buf p e = Inr (splice buf p (encode e))"
    using write_element_eq [OF assms(1,2), of buf p] assms(4) by simp
  moreover have "read_element et (splice buf p (encode e)) p = Inr e"
    using load_bytes_splice_same [OF b] length_encode [OF assms(2)] decode_encode [OF assms(2)]
    by (simp add: read_element_eq [OF assms(3)])
  ultimately show ?thesis using b by simp
qed

theorem element_bytes_round_trip_witness:
  "\<exists>buf'. write_element sample_lib ui8 [None, None, None] 1 (byte 200) = Inr buf' \<and> length buf' = 3 \<and>
    read_element ui8 buf' 1 = Inr (byte 200)"
  using element_bytes_round_trip [OF sample_lib_ok, of ui8 "byte 200" "[None, None, None]" 1]
  by (simp add: in_buffer_def eval_nat_numeral)

text \<open>
  \<open>makeTensor\<close> copies a dense attribute: the element of the tensor at an index is the value of
  the attribute at the row-major position of that index.
\<close>

theorem makeTensor_row_major:
  assumes "lib_ok L" and "storable (d_type attr)" and "\<forall>v \<in> set (d_values attr). value_ok (element_type (d_type attr)) v"
    and "int (length (d_values attr)) = num_elements (shape_of (d_type attr))"
  shows "\<exists>t. makeTensor L attr = Inr t \<and> denotes t (d_type attr)
    (\<lambda>idx. \<lparr>e_type = element_type (d_type attr), e_val = d_values attr ! nat (flat (shape_of (d_type attr)) idx)\<rparr>)"
  by (rule makeTensor_denotes [OF assms])

theorem makeTensor_row_major_witness:
  "\<exists>t. makeTensor sample_lib \<lparr>d_type = byte_type [2, 2], d_values = map (\<lambda>v. IntV (APInt 8 v)) [1, 2, 3, 4]\<rparr> = Inr t \<and>
    tensor_get t [1, 0] = Inr (byte 3)"
proof -
  have "value_ok ui8 (IntV (APInt 8 v))" if "0 \<le> v" "v < 256" for v
    using that byte_ok [of v] by (simp add: value_ok_def byte_def int_element_def)
  then show ?thesis
    using makeTensor_row_major [OF sample_lib_ok,
        of "\<lparr>d_type = byte_type [2, 2], d_values = map (\<lambda>v. IntV (APInt 8 v)) [1, 2, 3, 4]\<rparr>"]
    by (auto simp: denotes_def i64_ok_def byte_def int_element_def)
qed

section \<open>Scopes\<close>

text \<open>
  \<open>Scope::add\<close> binds an SSA value once per scope: after it, looking the value up yields the
  tensor just added even when an enclosing scope binds it too, every other value is looked up as
  before, and the enclosing scopes are unchanged.
\<close>

theorem scope_add_shadows:
  assumes "scope_add s v t = Inr s'"
  shows "scope_find s' v = Inr t \<and> (\<forall>u. s_id u \<noteq> s_id v \<longrightarrow> scope_find s' u = scope_find s u) \<and>
    tl s' = tl s \<and> s_type v = t_type t \<and> fails (scope_add s' v t)"
  using assms scope_add_binding [OF assms] scope_add_frames [OF assms]
  by (auto simp: scope_find_binding scope_add_eq_Inr)

theorem scope_add_shadows_witness:
  "\<exists>s'. scope_add [Map.empty, [3 \<mapsto> byte_tensor [1] [5]]] \<lparr>s_id = 3, s_type = byte_type [1]\<rparr> (byte_tensor [1] [6]) = Inr s' \<and>
    scope_find s' \<lparr>s_id = 3, s_type = byte_type [1]\<rparr> = Inr (byte_tensor [1] [6])"
proof -
  obtain s' where s': "scope_add [Map.empty, [3 \<mapsto> byte_tensor [1] [5]]] \<lparr>s_id = 3, s_type = byte_type [1]\<rparr>
      (byte_tensor [1] [6]) = Inr s'"
    by (simp add: byte_tensor_def)
  with scope_add_shadows [OF s'] show ?thesis by blast
qed

end
