(* ===== verification/ElementProperties.thy ===== *)
theory ElementProperties
  imports ConstantLaws Samples
begin

text \<open>
  The properties of the operators on elements (\<open>stablehlo/reference/Element.cpp\<close>) and of the
  evaluators that apply them to every element of their operands (\<open>Ops.cpp\<close>).
\<close>

section \<open>Types\<close>

lemma elem_shift_ok [elem_types]:
  "wf_element a \<Longrightarrow> elem_shift_left a b = Inr e \<Longrightarrow> elem_ok (e_type a) e"
  "wf_element a \<Longrightarrow> elem_shift_right_logical a b = Inr e \<Longrightarrow> elem_ok (e_type a) e"
  "wf_element a \<Longrightarrow> elem_shift_right_arithmetic a b = Inr e \<Longrightarrow> elem_ok (e_type a) e"
  by (auto simp: elem_shift_left_def elem_shift_right_logical_def elem_shift_right_arithmetic_def bnd_eq_Inr
      intro!: mk_int_ok wf_ap_ops dest: getIntegerValue_wf)

lemma elem_atan2_ok [elem_types]:
  assumes "elem_atan2 L a b = Inr e"
  shows "elem_ok (e_type a) e"
proof (cases "isSupportedFloatType (e_type a)")
  case True
  with assms show ?thesis by (auto simp: elem_atan2_def bnd_eq_Inr dest: convert_ok)
next
  case False
  with assms obtain i mi x where i: "convert_cdouble L (e_type a) (d_zero, d_one) = Inr i" "elem_neg L i = Inr mi"
    "elem_mul L mi x = Inr e"
    by (auto simp: elem_atan2_def Let_def bnd_eq_Inr split: if_splits)
  have "elem_ok (e_type a) i" using i(1) by (rule convert_ok)
  then have "elem_ok (e_type a) mi" using elem_unary_ok(1) [OF _ i(2)] by (auto simp: elem_ok_def)
  then show ?thesis using elem_binary_ok(4) [OF _ i(3)] by (auto simp: elem_ok_def)
qed

text \<open>The evaluators of the binary operations whose result has the type of the first operand, each
  with its operator on elements.\<close>

definition binary_evaluators ::
  "lib \<Rightarrow> ((tensor \<Rightarrow> tensor \<Rightarrow> ty \<Rightarrow> tensor res) \<times> (element \<Rightarrow> element \<Rightarrow> element res)) list" where
  "binary_evaluators L =
     [(evalAddOp L, elem_add L), (evalAndOp L, elem_and), (evalAtan2Op L, elem_atan2 L),
      (evalDivideOp L, elem_div L), (evalMaxOp L, elem_max L), (evalMinOp L, elem_min L),
      (evalMultiplyOp L, elem_mul L), (evalOrOp L, elem_or), (evalPowerOp L, elem_power L),
      (evalRemOp L, elem_rem L), (evalShiftLeftOp L, elem_shift_left),
      (evalShiftRightArithmeticOp L, elem_shift_right_arithmetic),
      (evalShiftRightLogicalOp L, elem_shift_right_logical), (evalSubtractOp L, elem_sub L),
      (evalXorOp L, elem_xor)]"

lemma binary_evaluators_pointwise:
  "(ev, f) \<in> set (binary_evaluators L) \<Longrightarrow> ev a b R = pointwise2 L f a b R"
  by (auto simp: binary_evaluators_def pointwise_defs)

lemma binary_evaluators_typed:
  "(ev, f) \<in> set (binary_evaluators L) \<Longrightarrow> wf_element a \<Longrightarrow> wf_element b \<Longrightarrow> f a b = Inr e \<Longrightarrow> elem_ok (e_type a) e"
  by (auto simp: binary_evaluators_def intro: elem_types)

text \<open>
  C8: Type soundness of the binary element-wise evaluators. On well-formed operands, an evaluator
  that returns has computed a well-formed tensor of the result type whose elements are the
  operator applied to the elements of the operands, every one a valid element of its type; in
  particular no operator ever produces an element of another type or of another bit width.
\<close>

theorem binary_evaluators_sound:
  assumes "lib_ok L" and "(ev, f) \<in> set (binary_evaluators L)" and "wf_tensor a" and "wf_tensor b"
    and "storable R" and "element_type R = t_elem a" and "ev a b R = Inr t"
  shows "denotes t R (\<lambda>idx. projr (f (projr (tensor_get a idx)) (projr (tensor_get b idx))))"
proof (rule pointwise2_sound [OF assms(1,5,3,4)])
  show "pointwise2 L f a b R = Inr t" using assms(7) binary_evaluators_pointwise [OF assms(2)] by simp
  fix d e r assume "elem_ok (t_elem a) d" "elem_ok (t_elem b) e" "f d e = Inr r"
  with binary_evaluators_typed [OF assms(2), of d e r] assms(6) show "elem_ok (element_type R) r"
    by (auto simp: elem_ok_def)
qed

theorem binary_evaluators_sound_witness:
  "\<exists>t. evalAddOp sample_lib (byte_tensor [1] [200]) (byte_tensor [1] [100]) (byte_type [1]) = Inr t \<and>
    tensor_get t [0] = Inr (byte 44)"
proof -
  have one: "idx = [0]" if "inBounds idx [1]" for idx
    using that by (cases idx) (auto simp: inBounds_nth_iff)
  have d: "denotes (byte_tensor [1] [x]) (byte_type [1]) (\<lambda>i. byte ([x] ! nat (flat [1] i)))" if "0 \<le> x" "x < 256" for x
    using byte_tensor_denotes [of "[1]" "[x]"] that by (simp add: i64_ok_def)
  have add: "elem_add L (byte 200) (byte 100) = Inr (byte 44)" for L
    using elem_arith_int(1) [of ui8 "APInt 8 200" "APInt 8 100" L] by (simp add: byte_def ap_add_def mk_apint_def)
  have "\<exists>t. pointwise2 sample_lib (elem_add sample_lib) (byte_tensor [1] [200]) (byte_tensor [1] [100]) (byte_type [1]) = Inr t \<and>
      denotes t (byte_type [1]) (\<lambda>i. byte 44)"
    by (rule pointwise2_denotes [OF sample_lib_ok _ d [of 200] d [of 100]])
      (auto simp: add i64_ok_def dest!: one)
  then obtain t where t: "evalAddOp sample_lib (byte_tensor [1] [200]) (byte_tensor [1] [100]) (byte_type [1]) = Inr t"
    by (auto simp: evalAddOp_def)
  have "denotes t (byte_type [1]) (\<lambda>idx. projr (elem_add sample_lib
      (projr (tensor_get (byte_tensor [1] [200]) idx)) (projr (tensor_get (byte_tensor [1] [100]) idx))))"
    using binary_evaluators_sound [of sample_lib "evalAddOp sample_lib" "elem_add sample_lib" "byte_tensor [1] [200]"
        "byte_tensor [1] [100]" "byte_type [1]" t]
      sample_lib_ok denotes_wf [OF d [of 200]] denotes_wf [OF d [of 100]] t
    by (simp add: binary_evaluators_def i64_ok_def byte_tensor_def)
  from denotes_get [OF this, of "[0]"] denotes_get [OF d [of 200], of "[0]"] denotes_get [OF d [of 100], of "[0]"] t
  show ?thesis by (simp add: add)
qed

section \<open>Integers\<close>

lemma int_element_eq [simp]: "int_element t a = int_element t b \<longleftrightarrow> a = b"
  by (simp add: int_element_def)

lemma int_value_range:
  assumes "int_typed t a"
  shows "int_value t a mod 2 ^ int_or_float_width t = uval a"
  using assms by (auto simp: int_typed_def wf_apint_def int_value_def sval_def)

lemma int_value_mk:
  assumes "isSupportedIntegerType t"
  shows "int_value t (mk_apint (int_or_float_width t) v) mod 2 ^ int_or_float_width t = v mod 2 ^ int_or_float_width t"
  using assms by (auto simp: int_value_def sval_def)

text \<open>The numbers an integer type represents.\<close>

definition in_type :: "ty \<Rightarrow> int \<Rightarrow> bool" where
  "in_type t v \<longleftrightarrow>
     (if isSupportedSignedIntegerType t
      then - (2 ^ (int_or_float_width t - 1)) \<le> v \<and> v < 2 ^ (int_or_float_width t - 1)
      else 0 \<le> v \<and> v < 2 ^ int_or_float_width t)"

lemma int_value_in_type: "int_typed t a \<Longrightarrow> in_type t (int_value t a)"
  using sval_range [of a] by (auto simp: int_typed_def wf_apint_def int_value_def in_type_def)

lemma int_value_exact:
  "isSupportedIntegerType t \<Longrightarrow> in_type t v \<Longrightarrow> int_value t (mk_apint (int_or_float_width t) v) = v"
  using sval_mk_in [of "int_or_float_width t" v] supported_width_pos [of t]
  by (auto simp: in_type_def int_value_def split: if_splits)

lemma wrap_eq:
  assumes "isSupportedIntegerType t" and "x mod 2 ^ int_or_float_width t = y mod 2 ^ int_or_float_width t"
  shows "mk_apint (int_or_float_width t) x = mk_apint (int_or_float_width t) y"
  using assms(2) by (simp add: mk_apint_def)

lemma ap_arith_value:
  assumes "int_typed t a" and "int_typed t b"
  shows "ap_add a b = mk_apint (int_or_float_width t) (int_value t a + int_value t b)"
    "ap_sub a b = mk_apint (int_or_float_width t) (int_value t a - int_value t b)"
    "ap_mul a b = mk_apint (int_or_float_width t) (int_value t a * int_value t b)"
    "ap_neg a = mk_apint (int_or_float_width t) (- int_value t a)"
proof -
  have "uval a = int_value t a mod 2 ^ int_or_float_width t" "uval b = int_value t b mod 2 ^ int_or_float_width t"
    "ap_width a = int_or_float_width t"
    using int_value_range [OF assms(1)] int_value_range [OF assms(2)] assms by (simp_all add: int_typed_def)
  then show "ap_add a b = mk_apint (int_or_float_width t) (int_value t a + int_value t b)"
    "ap_sub a b = mk_apint (int_or_float_width t) (int_value t a - int_value t b)"
    "ap_mul a b = mk_apint (int_or_float_width t) (int_value t a * int_value t b)"
    "ap_neg a = mk_apint (int_or_float_width t) (- int_value t a)"
    by (simp_all add: ap_add_def ap_sub_def ap_mul_def ap_neg_def mk_apint_def mod_simps)
qed

text \<open>A result that is the residue of a number modulo two to the width of the type.\<close>

definition wraps_to :: "ty \<Rightarrow> element res \<Rightarrow> int \<Rightarrow> bool" where
  "wraps_to t r exact \<longleftrightarrow> (\<exists>c. r = Inr (int_element t c) \<and> int_typed t c \<and>
     int_value t c mod 2 ^ int_or_float_width t = exact mod 2 ^ int_or_float_width t \<and>
     (in_type t exact \<longrightarrow> int_value t c = exact))"

lemma wraps_to_mk:
  "isSupportedIntegerType t \<Longrightarrow> wraps_to t (Inr (int_element t (mk_apint (int_or_float_width t) v))) v"
  using int_value_mk [of t v] int_value_exact [of t v] supported_width_pos [of t]
  by (auto simp: wraps_to_def int_typed_def)

text \<open>
  C9: Integer addition, subtraction, multiplication and negation are those of the numbers the
  elements stand for, signed or unsigned, modulo two to the width: the result is the element
  of that residue, and the exact result whenever the type can represent it.
\<close>

theorem integer_arithmetic_wraps:
  assumes "int_typed t a" and "int_typed t b"
  shows "wraps_to t (elem_add L (int_element t a) (int_element t b)) (int_value t a + int_value t b) \<and>
    wraps_to t (elem_sub L (int_element t a) (int_element t b)) (int_value t a - int_value t b) \<and>
    wraps_to t (elem_mul L (int_element t a) (int_element t b)) (int_value t a * int_value t b) \<and>
    wraps_to t (elem_neg L (int_element t a)) (- int_value t a)"
proof -
  have "isSupportedIntegerType t" using assms(1) by (simp add: int_typed_def)
  then show ?thesis by (simp add: elem_arith_int [OF assms] ap_arith_value [OF assms] wraps_to_mk)
qed

theorem integer_arithmetic_wraps_witness:
  "\<exists>c. elem_add sample_lib (byte 200) (byte 100) = Inr (int_element ui8 c) \<and> int_value ui8 c mod 256 = 44"
  using integer_arithmetic_wraps [of ui8 "APInt 8 200" "APInt 8 100" sample_lib]
  by (auto simp: byte_def wraps_to_def simp del: ui8_facts)

lemma uval_zero:
  assumes "int_typed t b"
  shows "uval b = 0 \<longleftrightarrow> int_value t b = 0"
  using assms by (auto simp: int_typed_def wf_apint_def int_value_def sval_def)

lemma sdiv_nonneg: "0 \<le> x \<Longrightarrow> 0 < y \<Longrightarrow> x sdiv y = x div y" for x y :: int
  by (cases "x = 0") (simp_all add: signed_divide_int_def)

lemma smod_nonneg: "0 \<le> x \<Longrightarrow> 0 < y \<Longrightarrow> x smod y = x mod y" for x y :: int
  by (simp add: smod_mod_positive)

lemma elem_div_int:
  assumes "int_typed t a" and "int_typed t b"
  shows "elem_div L (int_element t a) (int_element t b) = (if int_value t b = 0 then Inl Undefined
    else Inr (int_element t (mk_apint (int_or_float_width t) (int_value t a sdiv int_value t b))))"
proof -
  have t: "isSupportedIntegerType t" "ap_width a = int_or_float_width t" "0 \<le> uval a" "0 \<le> uval b"
    using assms by (simp_all add: int_typed_def wf_apint_def)
  then have "elem_div L (int_element t a) (int_element t b) =
      bnd (if isSupportedSignedIntegerType t then ap_sdiv a b else ap_udiv a b) (mk_int t)"
    by (simp add: elem_div_def Let_def)
  with t uval_zero [OF assms(2)] show ?thesis
    by (cases "uval b = 0")
      (simp_all add: ap_sdiv_def ap_udiv_def mk_int_int sdiv_nonneg int_value_def)
qed

lemma elem_rem_int:
  assumes "int_typed t a" and "int_typed t b"
  shows "elem_rem L (int_element t a) (int_element t b) = (if int_value t b = 0 then Inl Undefined
    else Inr (int_element t (mk_apint (int_or_float_width t) (int_value t a smod int_value t b))))"
proof -
  have t: "isSupportedIntegerType t" "ap_width a = int_or_float_width t" "0 \<le> uval a" "0 \<le> uval b"
    using assms by (simp_all add: int_typed_def wf_apint_def)
  with uval_zero [OF assms(2)] elem_map2_int [OF assms] show ?thesis
    by (cases "uval b = 0")
      (simp_all add: elem_rem_def ap_srem_def ap_urem_def mk_int_int smod_nonneg int_value_def)
qed

lemma smod_bounds:
  assumes "y \<noteq> (0::int)"
  shows "0 \<le> x \<Longrightarrow> 0 \<le> x smod y \<and> x smod y \<le> x" "x \<le> 0 \<Longrightarrow> x \<le> x smod y \<and> x smod y \<le> 0"
proof -
  have m: "0 \<le> \<bar>x\<bar> mod \<bar>y\<bar>" "\<bar>x\<bar> mod \<bar>y\<bar> \<le> \<bar>x\<bar>"
    using assms by (simp_all add: zmod_le_nonneg_dividend)
  show "0 \<le> x \<Longrightarrow> 0 \<le> x smod y \<and> x smod y \<le> x"
    using m by (cases "x = 0") (simp_all add: smod_int_alt_def)
  show "x \<le> 0 \<Longrightarrow> x \<le> x smod y \<and> x smod y \<le> 0"
    using m by (cases "x = 0") (simp_all add: smod_int_alt_def)
qed

text \<open>
  C10: Integer division and remainder truncate toward zero for signed types and are the
  unsigned quotient and remainder otherwise; a zero divisor is not defined. The only quotient
  that is not exact is the smallest signed number divided by minus one, which wraps.
\<close>

theorem integer_division_truncates:
  assumes "int_typed t a" and "int_typed t b"
  defines "x \<equiv> int_value t a" and "y \<equiv> int_value t b"
  shows "(y = 0 \<longrightarrow> elem_div L (int_element t a) (int_element t b) = Inl Undefined \<and>
      elem_rem L (int_element t a) (int_element t b) = Inl Undefined) \<and>
    (y \<noteq> 0 \<longrightarrow> (\<exists>q r. elem_div L (int_element t a) (int_element t b) = Inr (int_element t q) \<and>
      elem_rem L (int_element t a) (int_element t b) = Inr (int_element t r) \<and>
      q = mk_apint (int_or_float_width t) (x sdiv y) \<and> int_value t r = x smod y \<and>
      (in_type t (x sdiv y) \<longrightarrow> int_value t q = x sdiv y \<and> x = int_value t q * y + int_value t r)))"
proof -
  have t: "isSupportedIntegerType t" and w: "ap_width a = int_or_float_width t" using assms(1) by (auto simp: int_typed_def)
  have pos: "0 < int_or_float_width t" by (rule supported_width_pos [OF t])
  note rx = int_value_in_type [OF assms(1), folded x_def] and ry = int_value_in_type [OF assms(2), folded y_def]
  note div = elem_div_int [OF assms(1,2), of L, folded x_def y_def]
    and rem = elem_rem_int [OF assms(1,2), of L, folded x_def y_def]
  have "in_type t (x smod y)" if "y \<noteq> 0"
  proof -
    note b = smod_bounds [OF that, of x]
    from rx b show ?thesis by (cases "0 \<le> x") (auto simp: in_type_def)
  qed
  then show ?thesis
    using div rem int_value_exact [OF t, of "x sdiv y"] int_value_exact [OF t, of "x smod y"] sdiv_mult_smod_eq [of x y]
    by auto
qed

theorem integer_division_truncates_witness:
  "\<exists>q. elem_div sample_lib (byte 200) (byte 7) = Inr (int_element ui8 q) \<and> q = mk_apint 8 28"
  using integer_division_truncates [of ui8 "APInt 8 200" "APInt 8 7" sample_lib]
  by (auto simp: byte_def signed_divide_int_def)

section \<open>Powers\<close>

lemma uval_abs:
  assumes "wf_apint a"
  shows "uval (ap_abs a) = \<bar>sval a\<bar>"
proof (cases "sval a < 0")
  case True
  then have big: "2 ^ (ap_width a - 1) \<le> uval a" and s: "sval a = uval a - 2 ^ ap_width a"
    using assms by (auto simp: sval_def wf_apint_def split: if_splits)
  have "(- uval a) mod 2 ^ ap_width a = (2 ^ ap_width a - uval a) mod 2 ^ ap_width a"
    by (metis minus_mod_self1 uminus_add_conv_diff add.commute mod_add_self2)
  also have "\<dots> = 2 ^ ap_width a - uval a"
  proof (rule mod_pos_pos_trivial)
    have "(0::int) < 2 ^ (ap_width a - 1)" by simp
    with big have "0 < uval a" by linarith
    then show "2 ^ ap_width a - uval a < 2 ^ ap_width a" by simp
  qed (use assms in \<open>simp add: wf_apint_def\<close>)
  finally show ?thesis using True s by (simp add: ap_abs_def ap_neg_p_def ap_neg_def)
next
  case False
  then show ?thesis using assms by (auto simp: ap_abs_def ap_neg_p_def sval_def wf_apint_def split: if_splits)
qed

lemma convert_zero:
  "isSupportedIntegerType t \<Longrightarrow> convert_i64 L t 0 = Inr (int_element t (mk_apint (int_or_float_width t) 0))"
  by (auto simp: convert_i64_def convert_apsint.simps ap_ext_or_trunc_def mk_int_int sval_def dest: supported_disjoint)

lemma elem_power_int:
  assumes "int_typed t a" and "int_typed t b"
  shows "elem_power L (int_element t a) (int_element t b) = Inr (int_element t (mk_apint (int_or_float_width t)
    (if 0 \<le> int_value t b then int_value t a ^ nat (int_value t b)
     else if \<bar>int_value t a\<bar> = 1 then int_value t a ^ nat (- int_value t b) else 0)))"
proof -
  have t: "isSupportedIntegerType t" and w: "ap_width a = int_or_float_width t"
    and wf: "wf_apint a" "wf_apint b" using assms by (auto simp: int_typed_def)
  have pos: "0 < int_or_float_width t" by (rule supported_width_pos [OF t])
  have loop: "power_loop a n (mk_apint (ap_width a) 1) = mk_apint (int_or_float_width t) (int_value t a ^ n)" for n
  proof -
    have one: "(1::int) mod 2 ^ int_or_float_width t = 1" using pos by (simp add: mod_pos_pos_trivial)
    have "uval a ^ n mod 2 ^ int_or_float_width t = int_value t a ^ n mod 2 ^ int_or_float_width t"
      unfolding int_value_range [OF assms(1), symmetric] by (rule power_mod)
    moreover have "wf_apint (mk_apint (ap_width a) 1)" using w pos by simp
    ultimately show ?thesis using power_loop_spec [of a "mk_apint (ap_width a) 1" n] w one by (simp add: mk_apint_def)
  qed
  show ?thesis
  proof (cases "isSupportedSignedIntegerType t")
    case True
    then have v: "int_value t a = sval a" "int_value t b = sval b" by (simp_all add: int_value_def)
    have "0 \<le> sval b \<Longrightarrow> uval b = sval b"
      using wf(2) by (auto simp: sval_def wf_apint_def split: if_splits)
    then show ?thesis
      using True t loop v uval_abs [OF wf(1)] uval_abs [OF wf(2)] convert_zero [OF t, of L] mk_int_int [OF t]
      by (auto simp: elem_power_def Let_def ap_neg_p_def)
  next
    case False
    then have "int_value t b = uval b" "0 \<le> uval b" using wf(2) by (simp_all add: int_value_def wf_apint_def)
    then show ?thesis
      using False t loop mk_int_int [OF t] by (simp add: elem_power_def Let_def)
  qed
qed

text \<open>
  C11: \<open>power\<close> on integers: for a non-negative exponent the square-and-multiply loop computes
  the power modulo two to the width, whatever the size of the exponent; for a negative one the
  result is the exact reciprocal of a base of magnitude one, and zero for every other base.
\<close>

theorem integer_power:
  assumes "int_typed t a" and "int_typed t b"
  shows "elem_power L (int_element t a) (int_element t b) = Inr (int_element t (mk_apint (int_or_float_width t)
    (if 0 \<le> int_value t b then int_value t a ^ nat (int_value t b)
     else if \<bar>int_value t a\<bar> = 1 then int_value t a ^ nat (- int_value t b) else 0)))"
  by (rule elem_power_int [OF assms])

theorem integer_power_witness:
  "elem_power sample_lib (byte 3) (byte 7) = Inr (byte 139)"
  using integer_power [of ui8 "APInt 8 3" "APInt 8 7" sample_lib] by (simp add: byte_def mk_apint_def)

section \<open>Comparison, clamping, conversion\<close>

definition compares :: "comparison_direction \<Rightarrow> int \<Rightarrow> int \<Rightarrow> bool" where
  "compares d x y = (case d of EQ \<Rightarrow> x = y | NE \<Rightarrow> x \<noteq> y | GE \<Rightarrow> y \<le> x | GT \<Rightarrow> y < x | LE \<Rightarrow> x \<le> y | LT \<Rightarrow> x < y)"

lemma elem_cmp_int:
  "int_typed t a \<Longrightarrow> int_typed t b \<Longrightarrow>
    elem_cmp L d (int_element t a) (int_element t b) = Inr (bool_element (compares d (int_value t a) (int_value t b)))"
  by (cases d) (simp_all add: compares_def int_ops)

lemma denotes_int_typed:
  assumes "denotes a T (\<lambda>i. int_element et (v i))" and "isSupportedIntegerType et" and "element_type T = et"
    and "inBounds i (shape_of T)"
  shows "int_typed et (v i)"
  using denotes_ok [OF assms(1,4)] assms(2,3)
  by (auto simp: elem_ok_def wf_element_def int_element_def int_typed_def)

text \<open>
  \<open>evalCompareOp\<close> on integer tensors of the same shape succeeds and yields, at every index,
  the boolean that compares the two numbers in the requested direction, as signed numbers for
  signed types and as unsigned numbers otherwise.
\<close>

theorem compare_integers:
  assumes "lib_ok L" and "isSupportedIntegerType et" and "element_type T = et" and "element_type U = et"
    and "denotes a T (\<lambda>i. int_element et (v i))" and "denotes b U (\<lambda>i. int_element et (w i))"
    and "storable R" and "shape_of R = shape_of T" and "shape_of R = shape_of U" and "element_type R = i1"
  shows "\<exists>r. evalCompareOp L a b d R = Inr r \<and>
    denotes r R (\<lambda>i. bool_element (compares d (int_value et (v i)) (int_value et (w i))))"
  unfolding evalCompareOp_def
proof (rule pointwise2_denotes [OF assms(1,7,5,6,8,9)])
  fix i assume "inBounds i (shape_of R)"
  with denotes_int_typed [OF assms(5,2,3)] denotes_int_typed [OF assms(6,2,4)] assms(8,9)
  have "int_typed et (v i)" "int_typed et (w i)" by auto
  with assms(10) show "elem_cmp L d (int_element et (v i)) (int_element et (w i)) =
      Inr (bool_element (compares d (int_value et (v i)) (int_value et (w i)))) \<and>
    elem_ok (element_type R) (bool_element (compares d (int_value et (v i)) (int_value et (w i))))"
    by (simp add: elem_cmp_int elem_ok_def)
qed

theorem compare_integers_witness:
  "\<exists>r. evalCompareOp sample_lib (byte_tensor [2] [7, 200]) (byte_tensor [2] [8, 100]) LT
      (RankedTensorType [2] i1 NoEncoding) = Inr r \<and>
    tensor_get r [0] = Inr (bool_element True) \<and> tensor_get r [1] = Inr (bool_element False)"
proof -
  have d: "denotes (byte_tensor [2] [x, y]) (byte_type [2]) (\<lambda>i. int_element ui8 (APInt 8 ([x, y] ! nat (flat [2] i))))"
    if "0 \<le> x" "x < 256" "0 \<le> y" "y < 256" for x y
    using byte_tensor_denotes [of "[2]" "[x, y]"] that by (simp add: i64_ok_def byte_def)
  have "storable (RankedTensorType [2] i1 NoEncoding)"
    by (simp add: i64_ok_def) (simp add: i1_def i64_ok_def)
  from compare_integers [OF sample_lib_ok _ _ _ d [of 7 200] d [of 8 100] this, of LT] show ?thesis
    by (fastforce simp: denotes_def compares_def)
qed

text \<open>
  \<open>evalClampOp\<close> on integers: each element is the operand's number brought into the interval
  of the two limits, which are tensors of the operand's shape or scalars.
\<close>

theorem clamp_integers:
  assumes "lib_ok L" and "isSupportedIntegerType et" and "element_type T = et"
    and "denotes a T (\<lambda>i. int_element et (v i))"
    and "denotes lo LoT (\<lambda>i. int_element et (l i))" and "element_type LoT = et" and "shape_of LoT = shape_of T \<or> shape_of LoT = []"
    and "denotes hi HiT (\<lambda>i. int_element et (h i))" and "element_type HiT = et" and "shape_of HiT = shape_of T \<or> shape_of HiT = []"
    and "storable R" and "element_type R = et" and "shape_of R = shape_of T"
  shows "\<exists>r c. evalClampOp L lo a hi R = Inr r \<and> denotes r R (\<lambda>i. int_element et (c i)) \<and>
    (\<forall>i. inBounds i (shape_of T) \<longrightarrow> int_value et (c i) =
      min (max (int_value et (v i)) (int_value et (l (if shape_of LoT = [] then [] else i))))
        (int_value et (h (if shape_of HiT = [] then [] else i))))"
proof -
  let ?l = "\<lambda>i. l (if shape_of LoT = [] then [] else i)" and ?h = "\<lambda>i. h (if shape_of HiT = [] then [] else i)"
  define m where "m i = (if int_value et (?l i) < int_value et (v i) then v i else ?l i)" for i
  define c where "c i = (if int_value et (m i) < int_value et (?h i) then m i else ?h i)" for i
  have get: "get_or_scalar lo i = Inr (int_element et (?l i)) \<and> int_typed et (?l i)"
    "get_or_scalar hi i = Inr (int_element et (?h i)) \<and> int_typed et (?h i)"
    "tensor_get a i = Inr (int_element et (v i)) \<and> int_typed et (v i)" if "inBounds i (shape_of T)" for i
    using that assms(7,10) denotes_get [OF assms(5)] denotes_get [OF assms(8)] denotes_get [OF assms(4) that]
      denotes_int_typed [OF assms(5,2,6)] denotes_int_typed [OF assms(8,2,9)] denotes_int_typed [OF assms(4,2,3) that]
      denotes_type [OF assms(5)] denotes_type [OF assms(8)]
    by (auto simp: get_or_scalar_def rank_length)
  have "\<exists>r. evalClampOp L lo a hi R = Inr r \<and> denotes r R (\<lambda>i. int_element et (c i))"
    unfolding evalClampOp_def
  proof (rule compute_denotes [OF assms(1,11)])
    fix i assume "inBounds i (shape_of R)"
    then have ib: "inBounds i (shape_of T)" using assms(13) by simp
    note g = get [OF ib]
    have m: "int_typed et (m i)" using g by (simp add: m_def)
    have c: "int_typed et (c i)" using g m by (simp add: c_def)
    have "elem_max L (int_element et (v i)) (int_element et (?l i)) = Inr (int_element et (m i))"
      using elem_minmax_int(1) [of et "v i" "?l i" L] g by (simp add: m_def)
    moreover have "elem_min L (int_element et (m i)) (int_element et (?h i)) = Inr (int_element et (c i))"
      using elem_minmax_int(2) [of et "m i" "?h i" L] g m by (simp add: c_def)
    ultimately show "bnd (get_or_scalar lo i) (\<lambda>minElement. bnd (get_or_scalar hi i) (\<lambda>maxElement.
          bnd (tensor_get a i) (\<lambda>e. bnd (elem_max L e minElement) (\<lambda>m. elem_min L m maxElement)))) =
        Inr (int_element et (c i)) \<and> elem_ok (element_type R) (int_element et (c i))"
      using g wf_int_element [OF c] assms(12) by (simp add: elem_ok_def)
  qed
  moreover have "int_value et (c i) = min (max (int_value et (v i)) (int_value et (?l i))) (int_value et (?h i))" for i
    by (auto simp: c_def m_def)
  ultimately show ?thesis by blast
qed

theorem clamp_integers_witness:
  "\<exists>r. evalClampOp sample_lib (byte_tensor [] [10]) (byte_tensor [2] [7, 200]) (byte_tensor [] [100]) (byte_type [2]) = Inr r \<and>
    tensor_get r [0] = Inr (byte 10) \<and> tensor_get r [1] = Inr (byte 100)"
proof -
  have v: "denotes (byte_tensor [2] [7, 200]) (byte_type [2]) (\<lambda>i. int_element ui8 (APInt 8 ([7, 200] ! nat (flat [2] i))))"
    using byte_tensor_denotes [of "[2]" "[7, 200]"] by (simp add: i64_ok_def byte_def)
  have s: "denotes (byte_tensor [] [x]) (byte_type []) (\<lambda>i. int_element ui8 (APInt 8 ([x] ! nat (flat [] i))))"
    if "0 \<le> x" "x < 256" for x
    using byte_tensor_denotes [of "[]" "[x]"] that by (simp add: i64_ok_def byte_def)
  from clamp_integers [OF sample_lib_ok _ _ v s [of 10] _ _ s [of 100], of "byte_type [2]"] obtain r c where
    r: "evalClampOp sample_lib (byte_tensor [] [10]) (byte_tensor [2] [7, 200]) (byte_tensor [] [100]) (byte_type [2]) = Inr r"
      "denotes r (byte_type [2]) (\<lambda>i. int_element ui8 (c i))"
      "\<And>i. inBounds i [2] \<Longrightarrow> int_value ui8 (c i) = min (max ([7, 200] ! nat (flat [2] i)) 10) 100"
    by (auto simp: i64_ok_def)
  have "c [0] = APInt 8 10" "c [1] = APInt 8 100"
    using denotes_int_typed [OF r(2), of "[0]"] denotes_int_typed [OF r(2), of "[1]"] r(3) [of "[0]"] r(3) [of "[1]"]
      int_value_eq_iff [of ui8 "c [0]" "APInt 8 10"] int_value_eq_iff [of ui8 "c [1]" "APInt 8 100"] by simp_all
  with denotes_get [OF r(2), of "[0]"] denotes_get [OF r(2), of "[1]"] r(1) show ?thesis by (simp add: byte_def)
qed

lemma convert_int_int:
  assumes "isSupportedIntegerType t" and "int_typed et v"
  shows "isSupportedSignedIntegerType et \<Longrightarrow>
      convert_i64 L t (sval v) = Inr (int_element t (mk_apint (int_or_float_width t) (int_value et v)))"
    "\<not> isSupportedSignedIntegerType et \<Longrightarrow>
      convert_u64 L t (uval v) = Inr (int_element t (mk_apint (int_or_float_width t) (int_value et v)))"
proof -
  have nb: "\<not> isSupportedBooleanType t" using supported_disjoint(1) [OF assms(1)] by simp
  have wf: "wf_apint v" "ap_width v \<le> 64" "0 < ap_width v"
    using assms(2) by (auto simp: int_typed_def isSupportedIntegerType_cases)
  have "(2::int) ^ (ap_width v - 1) \<le> 2 ^ 63" "(2::int) ^ ap_width v \<le> 2 ^ 64"
    using wf by (intro power_increasing; simp)+
  then have "- (2 ^ 63) \<le> sval v" "sval v < 2 ^ 63" "0 \<le> uval v" "uval v < 2 ^ 64"
    using sval_range [OF wf(1)] wf(1) unfolding wf_apint_def by linarith+
  then have "sval (mk_apint 64 (sval v)) = sval v" "uval (mk_apint 64 (uval v)) = uval v"
    by (simp_all add: sval_mk_in)
  then show "isSupportedSignedIntegerType et \<Longrightarrow>
      convert_i64 L t (sval v) = Inr (int_element t (mk_apint (int_or_float_width t) (int_value et v)))"
    "\<not> isSupportedSignedIntegerType et \<Longrightarrow>
      convert_u64 L t (uval v) = Inr (int_element t (mk_apint (int_or_float_width t) (int_value et v)))"
    using assms(1) nb by (simp_all add: convert_i64_def convert_u64_def convert_apsint.simps ap_ext_or_trunc_def
        mk_int_int int_value_def)
qed

text \<open>
  \<open>evalConvertOp\<close> between integer types of any widths and signedness keeps the number when
  the result type can represent it and its residue modulo two to the new width otherwise: the
  detour through 64 bits loses nothing.
\<close>

theorem convert_integers:
  assumes "lib_ok L" and "isSupportedIntegerType et" and "element_type T = et"
    and "denotes a T (\<lambda>i. int_element et (v i))"
    and "isSupportedIntegerType t" and "storable R" and "element_type R = t" and "shape_of R = shape_of T"
  shows "\<exists>r. evalConvertOp L a R = Inr r \<and>
    denotes r R (\<lambda>i. int_element t (mk_apint (int_or_float_width t) (int_value et (v i)))) \<and>
    (\<forall>i. in_type t (int_value et (v i)) \<longrightarrow>
      int_value t (mk_apint (int_or_float_width t) (int_value et (v i))) = int_value et (v i))"
proof -
  let ?h = "\<lambda>i. int_element t (mk_apint (int_or_float_width t) (int_value et (v i)))"
  have nb: "\<not> isSupportedBooleanType et" using supported_disjoint(1) [OF assms(2)] by simp
  have ta: "t_elem a = et" using denotes_type [OF assms(4)] assms(3) by simp
  have "\<exists>r. evalConvertOp L a R = Inr r \<and> denotes r R ?h"
    unfolding evalConvertOp_def Let_def
  proof (rule compute_denotes [OF assms(1,6)])
    fix i assume "inBounds i (shape_of R)"
    then have ib: "inBounds i (shape_of T)" using assms(8) by simp
    note v = denotes_int_typed [OF assms(4,2,3) ib] and g = denotes_get [OF assms(4) ib]
    have "int_typed t (mk_apint (int_or_float_width t) (int_value et (v i)))"
      using assms(5) supported_width_pos [OF assms(5)] by (simp add: int_typed_def)
    then have ok: "elem_ok (element_type R) (?h i)" using wf_int_element assms(7) by (simp add: elem_ok_def)
    show "(if isSupportedBooleanType (t_elem a) then bnd (tensor_get a i) (\<lambda>e. bnd (getBooleanValue e) (convert_bool L (element_type R)))
        else if isSupportedSignedIntegerType (t_elem a) then
          bnd (tensor_get a i) (\<lambda>e. bnd (getIntegerValue e) (\<lambda>v. convert_i64 L (element_type R) (sval v)))
        else if isSupportedUnsignedIntegerType (t_elem a) then
          bnd (tensor_get a i) (\<lambda>e. bnd (getIntegerValue e) (\<lambda>v. convert_u64 L (element_type R) (uval v)))
        else if isSupportedFloatType (t_elem a) then
          bnd (tensor_get a i) (\<lambda>e. bnd (getFloatValue e) (convert_apfloat L (element_type R)))
        else if isSupportedComplexType (t_elem a) then
          bnd (tensor_get a i) (\<lambda>e. bnd (getComplexValue e) (convert_complex L (element_type R)))
        else Inl unsupported_element) = Inr (?h i) \<and> elem_ok (element_type R) (?h i)"
      using convert_int_int [OF assms(5) v, of L] ok g ta nb assms(2,7)
      by (auto simp: isSupportedIntegerType_def)
  qed
  with int_value_exact [OF assms(5)] show ?thesis by blast
qed

theorem convert_integers_witness:
  "\<exists>r. evalConvertOp sample_lib (byte_tensor [1] [200]) (RankedTensorType [1] (IntegerType Signless 8) NoEncoding) = Inr r \<and>
    tensor_get r [0] = Inr (int_element (IntegerType Signless 8) (mk_apint 8 200))"
proof -
  have v: "denotes (byte_tensor [1] [200]) (byte_type [1]) (\<lambda>i. int_element ui8 (APInt 8 ([200] ! nat (flat [1] i))))"
    using byte_tensor_denotes [of "[1]" "[200]"] by (simp add: i64_ok_def byte_def)
  have "isSupportedIntegerType (IntegerType Signless 8)" by (simp add: isSupportedIntegerType_cases)
  with convert_integers [OF sample_lib_ok _ _ v, of "IntegerType Signless 8" "RankedTensorType [1] (IntegerType Signless 8) NoEncoding"]
  show ?thesis by (auto simp: i64_ok_def supported_element_type_def denotes_def)
qed

end
