(* ===== verification/MovementProperties.thy ===== *)
theory MovementProperties
  imports ConstantLaws Samples
begin

text \<open>
  Properties of the evaluators that move elements (\<open>stablehlo/reference/Ops.cpp\<close>), most of them
  together with the inference function or the verifier of the operation
  (\<open>stablehlo/dialect/TypeInference.cpp\<close>): an operation that passes its verifier is evaluated
  without a fatal error and without leaving the defined range of C++ arithmetic, and its result
  is the documented one, element by element.
\<close>

section \<open>Evaluating the samples\<close>

lemma bytes_denote:
  "n = int (length bs) \<Longrightarrow> n < 2 ^ 32 \<Longrightarrow> \<forall>b \<in> set bs. 0 \<le> b \<and> b < 256 \<Longrightarrow>
    denotes (byte_tensor [n] bs) (byte_type [n]) (\<lambda>idx. byte (bs ! nat (flat [n] idx)))"
  by (rule byte_tensor_denotes) (auto simp: i64_ok_def)

section \<open>Slices\<close>

text \<open>
  C15: A verified slice cannot fail. When \<open>inferSliceOp\<close> accepts a static operand type, the
  start, limit and stride attributes (the strides one per dimension), then \<open>evalSliceOp\<close> with the
  inferred type reads only elements within the operand, computes no index outside 64 bits, and
  returns the tensor whose element at \<open>idx\<close> is the operand's at \<open>start + idx * stride\<close>.
\<close>

theorem verified_slice_total:
  assumes "lib_ok L" and "denotes a T g" and "inferSliceOp T starts limits strides = Inr R"
    and "length (di_values strides) = length (shape_of T)"
  shows "\<exists>r. evalSliceOp L a (di_values starts) (di_values strides) R = Inr r \<and>
    denotes r R (\<lambda>idx. g (map2 (+) (di_values starts) (map2 (*) idx (di_values strides))))"
proof -
  note fits = inferSliceOp_fits [OF assms(3) denotes_storable [OF assms(2)] assms(4)]
  from evalSliceOp_denotes [OF assms(1,2) fits(2,3,1)] show ?thesis by (simp add: slice_index_def)
qed

theorem verified_slice_total_witness:
  "\<exists>R r. inferSliceOp (byte_type [4]) (i64_attr [1]) (i64_attr [4]) (i64_attr [2]) = Inr R \<and>
    evalSliceOp sample_lib (byte_tensor [4] [10, 20, 30, 40]) [1] [2] R = Inr r \<and>
    tensor_get r [0] = Inr (byte 20) \<and> tensor_get r [1] = Inr (byte 40)"
proof -
  have R: "inferSliceOp (byte_type [4]) (i64_attr [1]) (i64_attr [4]) (i64_attr [2]) = Inr (byte_type [2])"
    by (simp add: infer_defs) (simp add: byte_type_def)
  have d: "denotes (byte_tensor [4] [10, 20, 30, 40]) (byte_type [4])
      (\<lambda>idx. byte ([10, 20, 30, 40] ! nat (flat [4] idx)))"
    by (rule bytes_denote) auto
  from verified_slice_total [OF sample_lib_ok d R] obtain r where
    r: "evalSliceOp sample_lib (byte_tensor [4] [10, 20, 30, 40]) [1] [2] (byte_type [2]) = Inr r"
      "denotes r (byte_type [2]) (\<lambda>idx. byte ([10, 20, 30, 40] ! nat (flat [4] (map2 (+) [1] (map2 (*) idx [2])))))"
    by auto
  with R denotes_get [OF r(2), of "[0]"] denotes_get [OF r(2), of "[1]"] show ?thesis by (auto simp: numeral_2_eq_2)
qed

section \<open>Padding\<close>

text \<open>
  C16: A verified pad cannot fail. When \<open>inferPadOp\<close> accepts the operand and the paddings (sizes
  and paddings of at most 31 bits), \<open>evalPadOp\<close> returns the tensor that holds at \<open>idx\<close> the operand's
  element that the low and the interior padding move there, if there is one, and the padding
  value everywhere else; negative paddings drop elements.
\<close>

theorem verified_pad_total:
  assumes "lib_ok L" and "denotes a T g" and "denotes pv P h" and "element_type P = element_type T"
    and "inferPadOp T P low high interior = Inr R" and "storable R"
    and "length (di_values interior) = length (shape_of T)"
    and "small (shape_of T)" and "small (di_values low)" and "small (di_values interior)"
  shows "\<exists>r. evalPadOp L a pv (di_values low) (di_values interior) R = Inr r \<and>
    denotes r R (\<lambda>idx. if from_operand (shape_of T) (di_values low) (di_values interior) idx
      then g (pad_source (di_values low) (di_values interior) idx) else h [])"
proof -
  note st = denotes_storable [OF assms(2)]
  note p = inferPadOp_shape [OF assms(5) storableD(1) [OF st]]
  from inferPadOp_fits [OF assms(5) st assms(7-10)]
    evalPadOp_denotes [OF assms(1-3) p(2) assms(6) p(3) assms(4)] show ?thesis by blast
qed

theorem verified_pad_total_witness:
  "\<exists>R r. inferPadOp (byte_type [2]) (byte_type []) (i64_attr [1]) (i64_attr [-1]) (i64_attr [1]) = Inr R \<and>
    evalPadOp sample_lib (byte_tensor [2] [7, 8]) (byte_tensor [] [0]) [1] [1] R = Inr r \<and>
    tensor_get r [0] = Inr (byte 0) \<and> tensor_get r [1] = Inr (byte 7) \<and> tensor_get r [2] = Inr (byte 0)"
proof -
  have R: "inferPadOp (byte_type [2]) (byte_type []) (i64_attr [1]) (i64_attr [-1]) (i64_attr [1]) = Inr (byte_type [3])"
    by (simp add: infer_defs) (simp add: byte_type_def)
  have d: "denotes (byte_tensor [2] [7, 8]) (byte_type [2]) (\<lambda>idx. byte ([7, 8] ! nat (flat [2] idx)))"
    by (rule bytes_denote) auto
  have e: "denotes (byte_tensor [] [0]) (byte_type []) (\<lambda>idx. byte ([0] ! nat (flat [] idx)))"
    by (rule byte_tensor_denotes) auto
  from verified_pad_total [OF sample_lib_ok d e _ R, unfolded i64_attr_values byte_type_facts] obtain r where
    r: "evalPadOp sample_lib (byte_tensor [2] [7, 8]) (byte_tensor [] [0]) [1] [1] (byte_type [3]) = Inr r"
      "denotes r (byte_type [3]) (\<lambda>idx. if from_operand [2] [1] [1] idx
        then byte ([7, 8] ! nat (flat [2] (pad_source [1] [1] idx))) else byte ([0] ! nat (flat [] [])))"
    by (auto simp: small_def i64_ok_def)
  with R denotes_get [OF r(2), of "[0]"] denotes_get [OF r(2), of "[1]"] denotes_get [OF r(2), of "[2]"]
  show ?thesis by (auto simp: from_operand_def pad_source_def pad_index_def)
qed

section \<open>Broadcasts\<close>

text \<open>
  A verified broadcast cannot fail. When \<open>verifyBroadcastInDimOp\<close> accepts the dimensions,
  \<open>evalBroadcastInDimOp\<close> returns the tensor that repeats the operand along the other dimensions of
  the result and along the operand's dimensions of size one.
\<close>

theorem verified_broadcast_total:
  assumes "lib_ok L" and "denotes a T g" and "verifyBroadcastInDimOp T dims R = ok"
    and "storable R" and "element_type R = element_type T"
  shows "\<exists>r. evalBroadcastInDimOp L a (di_values dims) R = Inr r \<and>
    denotes r R (\<lambda>idx. g (map (\<lambda>k. if shape_of T ! k = 1 then 0 else idx ! nat (di_values dims ! k))
      [0..<length (shape_of T)]))"
  using evalBroadcastInDimOp_denotes [OF assms(1,2,4,5)
      verifyBroadcastInDimOp_fits [OF assms(3) denotes_storable [OF assms(2)]]]
  by (simp add: broadcast_at_def)

theorem verified_broadcast_total_witness:
  "\<exists>r. verifyBroadcastInDimOp (byte_type [2]) (i64_attr [1]) (byte_type [3, 2]) = ok \<and>
    evalBroadcastInDimOp sample_lib (byte_tensor [2] [7, 8]) [1] (byte_type [3, 2]) = Inr r \<and>
    tensor_get r [2, 1] = Inr (byte 8)"
proof -
  have v: "verifyBroadcastInDimOp (byte_type [2]) (i64_attr [1]) (byte_type [3, 2]) = ok"
    by (simp add: verifyBroadcastInDimOp_def i64_attr_def hasDuplicates_def rank_def cast_ranked_def at_def
        isDynamicDimSize_def kDynamic_def Let_def)
  have d: "denotes (byte_tensor [2] [7, 8]) (byte_type [2]) (\<lambda>idx. byte ([7, 8] ! nat (flat [2] idx)))"
    by (rule bytes_denote) auto
  from verified_broadcast_total [OF sample_lib_ok d v] obtain r where
    r: "evalBroadcastInDimOp sample_lib (byte_tensor [2] [7, 8]) [1] (byte_type [3, 2]) = Inr r"
      "denotes r (byte_type [3, 2]) (\<lambda>idx. byte ([7, 8] ! nat (flat [2] [idx ! 1])))"
    by (auto simp: i64_ok_def cong: if_cong)
  with v denotes_get [OF r(2), of "[2, 1]"] show ?thesis by auto
qed

section \<open>Transposition\<close>

text \<open>
  Transposing by an accepted permutation and then by its inverse gives the operand back: the
  first transposition has at \<open>idx\<close> the operand's element at the inversely permuted index, the second
  one restores every element.
\<close>

theorem transpose_round_trip:
  assumes "lib_ok L" and "denotes a T g" and "inferTransposeOp T perm = Inr R"
  shows "\<exists>r s. evalTransposeOp L a (di_values perm) R = Inr r \<and>
    denotes r R (\<lambda>idx. g (permuted (inv_perm (di_values perm)) idx)) \<and>
    evalTransposeOp L r (inv_perm (di_values perm)) T = Inr s \<and>
    (\<forall>idx. inBounds idx (shape_of T) \<longrightarrow> tensor_get s idx = tensor_get a idx)"
proof -
  let ?p = "di_values perm" and ?n = "length (shape_of T)"
  note p = inferTransposeOp_perm [OF assms(3) denotes_storable [OF assms(2)]]
  note inv = is_perm_inv [OF p(1)]
  have len: "length (shape_of R) = ?n" using p(1,2) by (simp add: permuted_def is_perm_def)
  obtain r where r: "evalTransposeOp L a ?p R = Inr r" "denotes r R (\<lambda>idx. g (permuted (inv_perm ?p) idx))"
    using evalTransposeOp_denotes [OF assms(1,2) p(4,3,1,2)] by blast
  have "shape_of T = permuted (inv_perm ?p) (shape_of R)" using permuted_inv [OF p(1)] p(2) by simp
  from evalTransposeOp_denotes [OF assms(1) r(2) denotes_storable [OF assms(2)] p(3) [symmetric] inv [folded len] this]
  obtain s where s: "evalTransposeOp L r (inv_perm ?p) T = Inr s"
    "denotes s T (\<lambda>idx. g (permuted (inv_perm ?p) (permuted (inv_perm (inv_perm ?p)) idx)))" by blast
  have "tensor_get s idx = tensor_get a idx" if ib: "inBounds idx (shape_of T)" for idx
    using denotes_get [OF s(2) ib] denotes_get [OF assms(2) ib] permuted_inv' [OF inv, of idx] inBounds_length [OF ib]
    by simp
  with r s(1) show ?thesis by blast
qed

theorem transpose_round_trip_witness:
  "\<exists>r s. inferTransposeOp (byte_type [1, 2]) (i64_attr [1, 0]) = Inr (byte_type [2, 1]) \<and>
    evalTransposeOp sample_lib (byte_tensor [1, 2] [7, 8]) [1, 0] (byte_type [2, 1]) = Inr r \<and>
    evalTransposeOp sample_lib r [1, 0] (byte_type [1, 2]) = Inr s \<and> tensor_get s [0, 1] = Inr (byte 8)"
proof -
  have R: "inferTransposeOp (byte_type [1, 2]) (i64_attr [1, 0]) = Inr (byte_type [2, 1])"
    by (simp add: infer_defs upto_rec1) (simp add: byte_type_def)
  have d: "denotes (byte_tensor [1, 2] [7, 8]) (byte_type [1, 2]) (\<lambda>idx. byte ([7, 8] ! nat (flat [1, 2] idx)))"
    by (rule byte_tensor_denotes) (auto simp: i64_ok_def)
  have inv: "inv_perm [1, 0] = [1, 0]" by (simp add: inv_perm_def upt_rec)
  from transpose_round_trip [OF sample_lib_ok d R] obtain r s where
    "evalTransposeOp sample_lib (byte_tensor [1, 2] [7, 8]) [1, 0] (byte_type [2, 1]) = Inr r"
    "evalTransposeOp sample_lib r [1, 0] (byte_type [1, 2]) = Inr s"
    "\<forall>idx. inBounds idx [1, 2] \<longrightarrow> tensor_get s idx = tensor_get (byte_tensor [1, 2] [7, 8]) idx"
    by (auto simp: inv)
  with R denotes_get [OF d, of "[0, 1]"] show ?thesis by auto
qed

section \<open>Reversal\<close>

text \<open>
  Reversal is an involution: for dimensions that \<open>verifyReverseOp\<close> accepts, \<open>evalReverseOp\<close>
  mirrors the index along exactly those dimensions, and applied twice it gives the operand back.
\<close>

theorem reverse_round_trip:
  assumes "lib_ok L" and "denotes a T g" and "verifyReverseOp T dims = ok"
  shows "\<exists>r s. evalReverseOp L a (di_values dims) T = Inr r \<and>
    denotes r T (\<lambda>idx. g (map (\<lambda>k. if int k \<in> set (di_values dims) then shape_of T ! k - 1 - idx ! k else idx ! k)
      [0..<length idx])) \<and>
    evalReverseOp L r (di_values dims) T = Inr s \<and> denotes s T g"
proof -
  note st = denotes_storable [OF assms(2)]
  have "has_rank T" using st by (cases T) auto
  note ax = verifyReverseOp_axes [OF assms(3) this]
  obtain r where r: "evalReverseOp L a (di_values dims) T = Inr r"
    "denotes r T (\<lambda>idx. g (reverse_at (shape_of T) (di_values dims) idx))"
    using evalReverseOp_denotes [OF assms(1,2) st refl refl ax] by blast
  obtain s where "evalReverseOp L r (di_values dims) T = Inr s" "denotes s T g"
    using evalReverseOp_denotes [OF assms(1) r(2) st refl refl ax] by auto
  with r show ?thesis unfolding reverse_at_def by blast
qed

theorem reverse_round_trip_witness:
  "\<exists>r. verifyReverseOp (byte_type [2]) (i64_attr [0]) = ok \<and>
    evalReverseOp sample_lib (byte_tensor [2] [7, 8]) [0] (byte_type [2]) = Inr r \<and> tensor_get r [0] = Inr (byte 8)"
proof -
  have v: "verifyReverseOp (byte_type [2]) (i64_attr [0]) = ok"
    by (simp add: verifyReverseOp_def i64_attr_def hasDuplicates_def rank_def Let_def)
  have d: "denotes (byte_tensor [2] [7, 8]) (byte_type [2]) (\<lambda>idx. byte ([7, 8] ! nat (flat [2] idx)))"
    by (rule bytes_denote) auto
  from reverse_round_trip [OF sample_lib_ok d v, unfolded i64_attr_values byte_type_facts] obtain r where
    r: "evalReverseOp sample_lib (byte_tensor [2] [7, 8]) [0] (byte_type [2]) = Inr r"
      "denotes r (byte_type [2]) (\<lambda>idx. byte ([7, 8] ! nat (flat [2]
        (map (\<lambda>k. if int k \<in> set [0] then [2] ! k - 1 - idx ! k else idx ! k) [0..<length idx]))))" by blast
  with v denotes_get [OF r(2), of "[0]"] show ?thesis by auto
qed

section \<open>Reshapes\<close>

text \<open>
  A verified reshape keeps the elements in row-major order: at equal row-major positions
  \<open>flat\<close> the result and the operand hold the same element, and reshaping back to the type of the
  operand gives the operand back.
\<close>

theorem reshape_keeps_order:
  assumes "lib_ok L" and "denotes a T g" and "verifyReshapeOp T R = ok" and "storable R"
    and "element_type R = element_type T"
  shows "\<exists>r s. evalReshapeOp L a R = Inr r \<and> evalReshapeOp L r T = Inr s \<and> denotes s T g \<and>
    (\<forall>i j. inBounds i (shape_of T) \<longrightarrow> inBounds j (shape_of R) \<longrightarrow> flat (shape_of T) i = flat (shape_of R) j \<longrightarrow>
      tensor_get r j = tensor_get a i)"
proof -
  note st = denotes_storable [OF assms(2)]
  note n = verifyReshapeOp_count [OF assms(3) st]
  obtain r where r: "evalReshapeOp L a R = Inr r"
    "denotes r R (\<lambda>idx. g (unflat (shape_of T) (flat (shape_of R) idx)))"
    using evalReshapeOp_denotes [OF assms(1,2,4,5) n] by blast
  obtain s where s: "evalReshapeOp L r T = Inr s"
    "denotes s T (\<lambda>idx. g (unflat (shape_of T) (flat (shape_of R) (unflat (shape_of R) (flat (shape_of T) idx)))))"
    using evalReshapeOp_denotes [OF assms(1) r(2) st assms(5) [symmetric] n [symmetric]] by blast
  note sR = storableD(1) [OF assms(4)] and sT = storableD(1) [OF st]
  have "tensor_get s idx = Inr (g idx)" if ib: "inBounds idx (shape_of T)" for idx
    using denotes_get [OF s(2) ib] flat_bounds [OF ib] flat_unflat [OF sR] n unflat_flat [OF ib] by simp
  with s(2) have "denotes s T g" by (auto simp: denotes_def)
  moreover have "tensor_get r j = tensor_get a i"
    if "inBounds i (shape_of T)" "inBounds j (shape_of R)" "flat (shape_of T) i = flat (shape_of R) j" for i j
    using denotes_get [OF r(2) that(2)] denotes_get [OF assms(2) that(1)] unflat_flat [OF that(1)] that(3) by simp
  ultimately show ?thesis using r(1) s(1) by blast
qed

theorem reshape_keeps_order_witness:
  "\<exists>r. verifyReshapeOp (byte_type [2, 2]) (byte_type [4]) = ok \<and>
    evalReshapeOp sample_lib (byte_tensor [2, 2] [5, 6, 7, 8]) (byte_type [4]) = Inr r \<and>
    tensor_get r [2] = Inr (byte 7)"
proof -
  have v: "verifyReshapeOp (byte_type [2, 2]) (byte_type [4]) = ok"
    by (simp add: verifyReshapeOp_def cast_ranked_def ok_def)
  have d: "denotes (byte_tensor [2, 2] [5, 6, 7, 8]) (byte_type [2, 2])
      (\<lambda>idx. byte ([5, 6, 7, 8] ! nat (flat [2, 2] idx)))"
    by (rule byte_tensor_denotes) (auto simp: i64_ok_def)
  from reshape_keeps_order [OF sample_lib_ok d v] obtain r where
    r: "evalReshapeOp sample_lib (byte_tensor [2, 2] [5, 6, 7, 8]) (byte_type [4]) = Inr r"
      "\<forall>i j. inBounds i [2, 2] \<longrightarrow> inBounds j [4] \<longrightarrow> flat [2, 2] i = flat [4] j \<longrightarrow>
        tensor_get r j = tensor_get (byte_tensor [2, 2] [5, 6, 7, 8]) i"
    by (auto simp: i64_ok_def)
  then have "tensor_get r [2] = tensor_get (byte_tensor [2, 2] [5, 6, 7, 8]) [1, 0]" by simp
  with v r(1) denotes_get [OF d, of "[1, 0]"] show ?thesis by (auto simp: numeral_2_eq_2)
qed

section \<open>Dynamic slices\<close>

text \<open>
  C21: Updating a slice and reading it back. With start indices that may lie anywhere,
  \<open>evalDynamicUpdateSliceOp\<close> and \<open>evalDynamicSliceOp\<close> clamp them to the same window; the slice read
  back is the update, and every element outside the window is the operand's.
\<close>

theorem updated_slice_reads_back:
  assumes "lib_ok L" and "denotes a T g" and "denotes u U h" and "element_type U = element_type T"
    and "evalIndices is = Inr starts" and "window_fits (shape_of T) (shape_of U) starts"
  shows "\<exists>r s. evalDynamicUpdateSliceOp L a u is T = Inr r \<and>
    evalDynamicSliceOp L r is (shape_of U) U = Inr s \<and> denotes s U h \<and>
    (\<forall>idx. inBounds idx (shape_of T) \<longrightarrow>
      \<not> inBounds (map2 (-) idx (adjusted (shape_of T) (shape_of U) starts)) (shape_of U) \<longrightarrow>
      tensor_get r idx = tensor_get a idx)"
proof -
  let ?adj = "adjusted (shape_of T) (shape_of U) starts"
  note sT = denotes_storable [OF assms(2)] and sU = denotes_storable [OF assms(3)]
  obtain r where r: "evalDynamicUpdateSliceOp L a u is T = Inr r"
    "denotes r T (\<lambda>idx. if inBounds (map2 (-) idx ?adj) (shape_of U) then h (map2 (-) idx ?adj) else g idx)"
    using evalDynamicUpdateSliceOp_denotes [OF assms(1,2,3) sT refl assms(4) refl assms(5,6)] by blast
  obtain s where s: "evalDynamicSliceOp L r is (shape_of U) U = Inr s"
    "denotes s U (\<lambda>idx. if inBounds (map2 (-) (map2 (+) ?adj idx) ?adj) (shape_of U)
       then h (map2 (-) (map2 (+) ?adj idx) ?adj) else g (map2 (+) ?adj idx))"
    using evalDynamicSliceOp_denotes [OF assms(1) r(2) sU assms(4,5,6)] by blast
  have "map2 (-) (map2 (+) ?adj idx) ?adj = idx" if "inBounds idx (shape_of U)" for idx
    using assms(6) that
    by (intro nth_equalityI) (auto simp: inBounds_length window_fits_def adjusted_def)
  then have "denotes s U h" using s(2) by (auto simp: denotes_def)
  with r s(1) denotes_get [OF r(2)] denotes_get [OF assms(2)] show ?thesis by auto
qed

theorem updated_slice_reads_back_witness:
  "\<exists>r s. evalDynamicUpdateSliceOp sample_lib (byte_tensor [4] [1, 2, 3, 4]) (byte_tensor [2] [7, 8])
      [byte_tensor [] [100]] (byte_type [4]) = Inr r \<and>
    evalDynamicSliceOp sample_lib r [byte_tensor [] [100]] [2] (byte_type [2]) = Inr s \<and>
    tensor_get s [1] = Inr (byte 8) \<and> tensor_get r [1] = Inr (byte 2)"
proof -
  have d: "denotes (byte_tensor [4] [1, 2, 3, 4]) (byte_type [4]) (\<lambda>idx. byte ([1, 2, 3, 4] ! nat (flat [4] idx)))"
    "denotes (byte_tensor [2] [7, 8]) (byte_type [2]) (\<lambda>idx. byte ([7, 8] ! nat (flat [2] idx)))"
    by (rule bytes_denote; auto)+
  have "denotes (byte_tensor [] [100]) (byte_type []) (\<lambda>idx. byte ([100] ! nat (flat [] idx)))"
    by (rule byte_tensor_denotes) auto
  from denotes_get [OF this, of "[]"] have i: "evalIndices [byte_tensor [] [100]] = Inr [100]"
    by (simp add: evalIndices_def byte_def int_element_def getIntegerValue_def sval_def)
  from updated_slice_reads_back [OF sample_lib_ok d _ i, unfolded byte_type_facts] obtain r s where
    r: "evalDynamicUpdateSliceOp sample_lib (byte_tensor [4] [1, 2, 3, 4]) (byte_tensor [2] [7, 8])
        [byte_tensor [] [100]] (byte_type [4]) = Inr r"
      "evalDynamicSliceOp sample_lib r [byte_tensor [] [100]] [2] (byte_type [2]) = Inr s"
      "denotes s (byte_type [2]) (\<lambda>idx. byte ([7, 8] ! nat (flat [2] idx)))"
      "\<forall>idx. inBounds idx [4] \<longrightarrow> \<not> inBounds (map2 (-) idx (adjusted [4] [2] [100])) [2] \<longrightarrow>
        tensor_get r idx = tensor_get (byte_tensor [4] [1, 2, 3, 4]) idx"
    by (auto simp: window_fits_def)
  from r(4) have "tensor_get r [1] = tensor_get (byte_tensor [4] [1, 2, 3, 4]) [1]" by (simp add: adjusted_def)
  with r denotes_get [OF r(3), of "[1]"] denotes_get [OF d(1), of "[1]"] show ?thesis by auto
qed

section \<open>Concatenation\<close>

text \<open>
  \<open>evalConcatenateOp\<close> lays the inputs side by side: with input shapes that agree with the
  result's outside the dimension and whose sizes add up along it, the element at \<open>idx\<close> is found by
  subtracting the sizes of the inputs before it, with no fatal error and no overflow.
\<close>

theorem concatenate_side_by_side:
  assumes "lib_ok L" and "list_all2 (\<lambda>a (T, g). denotes a T g) as Ts" and "storable R"
    and "concat_fits d (map fst Ts) R" and "(\<Sum>(T, g) \<leftarrow> Ts. shape_of T ! d) = shape_of R ! d"
  shows "\<exists>r. evalConcatenateOp L as (int d) R = Inr r \<and> denotes r R (concat_at d Ts)"
  by (rule evalConcatenateOp_denotes [OF assms])

theorem concatenate_side_by_side_witness:
  "\<exists>r. evalConcatenateOp sample_lib [byte_tensor [2] [7, 8], byte_tensor [1] [9]] 0 (byte_type [3]) = Inr r \<and>
    tensor_get r [0] = Inr (byte 7) \<and> tensor_get r [2] = Inr (byte 9)"
proof -
  let ?Ts = "[(byte_type [2], \<lambda>idx. byte ([7, 8] ! nat (flat [2] idx))),
    (byte_type [1], \<lambda>idx. byte ([9] ! nat (flat [1] idx)))]"
  have d: "denotes (byte_tensor [2] [7, 8]) (byte_type [2]) (\<lambda>idx. byte ([7, 8] ! nat (flat [2] idx)))"
    "denotes (byte_tensor [1] [9]) (byte_type [1]) (\<lambda>idx. byte ([9] ! nat (flat [1] idx)))"
    by (rule bytes_denote; auto)+
  from concatenate_side_by_side [of sample_lib "[byte_tensor [2] [7, 8], byte_tensor [1] [9]]" ?Ts "byte_type [3]" 0] d
  obtain r where r: "evalConcatenateOp sample_lib [byte_tensor [2] [7, 8], byte_tensor [1] [9]] 0 (byte_type [3]) = Inr r"
    "denotes r (byte_type [3]) (concat_at 0 ?Ts)"
    by (auto simp: concat_fits_def i64_ok_def)
  with denotes_get [OF r(2), of "[0]"] denotes_get [OF r(2), of "[2]"] show ?thesis by auto
qed

end
