(* ===== verification/RegionProperties.thy ===== *)
theory RegionProperties
  imports ConstantLaws Samples
begin

text \<open>
  Properties of the evaluator of regions (\<open>eval\<close> of \<open>stablehlo/reference/Ops.cpp\<close> with its scopes)
  and of the operations that hold regions: conditionals, loops, reductions, sorts.
\<close>

section \<open>Regions\<close>

text \<open>
  C23: Type soundness of the interpreter. In a scope whose bindings have the declared types, and
  with a fallback that keeps that so, the values a region returns have the types its terminator
  declares, whatever the operations in it, nested regions included.
\<close>

theorem eval_returns_declared_types:
  assumes "conforms \<Gamma> parent" and "keeps_types \<Gamma> fb" and "region_declares \<Gamma> r"
    and "eval n L fb r args parent = Inr ts"
  shows "map t_type ts = map s_type (returned (region_ops r))"
  using eval_block_types [OF assms(1-3)] assms(4) by (simp add: eval_def)

lemma byte_scalar: "scalar_type (byte_type []) ui8"
  by (simp add: scalar_type_def)

lemma scalar_byte:
  "0 \<le> v \<Longrightarrow> v < 256 \<Longrightarrow> denotes (byte_tensor [] [v]) (byte_type []) (\<lambda>_. int_element ui8 (APInt 8 v))"
proof -
  assume "0 \<le> v" "v < 256"
  then have d: "denotes (byte_tensor [] [v]) (byte_type []) (\<lambda>idx. byte ([v] ! nat (flat [] idx)))"
    by (intro byte_tensor_denotes) auto
  then show ?thesis by (auto simp: denotes_def byte_def)
qed

theorem eval_returns_declared_types_witness:
  "\<exists>t. eval 1 sample_lib None (binary_region AddOp (byte_type []) (byte_type []))
      [byte_tensor [] [200], byte_tensor [] [100]] [] = Inr [t] \<and> t_type t = byte_type []"
proof -
  let ?r = "binary_region AddOp (byte_type []) (byte_type [])"
  let ?args = "[byte_tensor [] [200], byte_tensor [] [100]]"
  from add_region [OF sample_lib_ok _ byte_scalar scalar_byte [of 200] scalar_byte [of 100], of 1 "eval_nested 1 sample_lib" "[]"]
  obtain t where t: "eval 1 sample_lib None ?r ?args [] = Inr [t]" by (auto simp: eval_def)
  have "map t_type [t] = map s_type (returned (region_ops ?r))"
    by (rule eval_returns_declared_types [OF _ _ _ t, of "\<lambda>_. byte_type []"])
      (simp_all add: conforms_def keeps_types_def region_declares_def declares_def binary_region_def ssa_of_def)
  with t show ?thesis by (simp add: binary_region_def is_terminator_def ssa_of_def)
qed

lemma add_all_extends:
  assumes "scope_add_all (f # p) vs ts = Inr s'"
  shows "\<exists>f'. s' = f' # p \<and> f \<subseteq>\<^sub>m f' \<and> dom f' = dom f \<union> s_id ` set vs"
  using assms
proof (induction vs arbitrary: f ts)
  case Nil
  then show ?case by (auto simp: scope_add_all_def require_eq_Inr)
next
  case (Cons v vs)
  then obtain t ts' where ts: "ts = t # ts'" by (cases ts) (auto simp: scope_add_all_def require_eq_Inr)
  from Cons.prems have new: "f (s_id v) = None" and rest: "scope_add_all (f(s_id v \<mapsto> t) # p) vs ts' = Inr s'"
    by (auto simp: ts scope_add_all_def require_eq_Inr bnd_eq_Inr scope_add_eq_Inr split: if_splits)
  from Cons.IH [OF rest] obtain f' where
    "s' = f' # p" "f(s_id v \<mapsto> t) \<subseteq>\<^sub>m f'" "dom f' = dom (f(s_id v \<mapsto> t)) \<union> s_id ` set vs" by blast
  moreover have "f \<subseteq>\<^sub>m f(s_id v \<mapsto> t)" using new by (auto simp: map_le_def)
  ultimately show ?case by (auto intro: map_le_trans)
qed

text \<open>
  C24: The scope invariant of one operation. Evaluating an operation in a scope whose bindings
  have the declared types leaves such a scope; the frames of the enclosing regions are as they
  were, the innermost frame keeps every binding it had and gains exactly those of the results of
  the operation: nested regions leave no binding behind.
\<close>

theorem operation_extends_scope:
  assumes "conforms \<Gamma> (f # p)" and "declares \<Gamma> (op_results op)" and "eval_op L n ev None op (f # p) = Inr s'"
  shows "conforms \<Gamma> s' \<and>
    (\<exists>f'. s' = f' # p \<and> f \<subseteq>\<^sub>m f' \<and> dom f' = dom f \<union> s_id ` set (op_results op))"
proof -
  have "conforms \<Gamma> s'"
    by (rule eval_op_conforms [OF assms(1,2) _ assms(3)]) (simp add: keeps_types_def)
  moreover from assms(3) obtain results where "scope_add_all (f # p) (op_results op) results = Inr s'"
    by (auto simp: eval_op_def bnd_eq_Inr split: option.splits)
  ultimately show ?thesis using add_all_extends by blast
qed

theorem operation_extends_scope_witness:
  "\<exists>s'. eval_op sample_lib 1 (\<lambda>_ _ _. Inl OutOfFuel) None
      (Operation AddOp [ssa_of 0 (byte_type []), ssa_of 0 (byte_type [])] [ssa_of 1 (byte_type [])] [])
      [[0 \<mapsto> byte_tensor [] [5]]] = Inr s' \<and> dom (hd s') = {0, 1}"
proof -
  let ?S = "byte_type []" and ?f = "[0 \<mapsto> byte_tensor [] [5]]"
  let ?op = "Operation AddOp [ssa_of 0 ?S, ssa_of 0 ?S] [ssa_of 1 ?S] []"
  have d: "denotes (byte_tensor [] [5]) ?S (\<lambda>_. int_element ui8 (APInt 8 5))" by (rule scalar_byte) auto
  have "\<exists>t. pointwise2 sample_lib (elem_add sample_lib) (byte_tensor [] [5]) (byte_tensor [] [5]) ?S = Inr t \<and>
      denotes t ?S (\<lambda>_. byte 10)"
    by (rule pointwise2_denotes [OF sample_lib_ok _ d d])
      (use elem_arith_int(1) [of ui8 "APInt 8 5" "APInt 8 5" sample_lib] byte_ok [of 10] in
        \<open>auto simp: i64_ok_def byte_def ap_add_def mk_apint_def\<close>)
  then obtain t where t: "evalAddOp sample_lib (byte_tensor [] [5]) (byte_tensor [] [5]) ?S = Inr t" "t_type t = ?S"
    by (auto simp: evalAddOp_def dest: denotes_type)
  then obtain s' where s': "eval_op sample_lib 1 (\<lambda>_ _ _. Inl OutOfFuel) None ?op [?f] = Inr s'"
    by (auto simp: eval_op_def dispatch_def dispatch1_def Let_def scope_find_all_def ssa_of_def binary_def one_def
        scope_add_all_def)
  have "conforms (\<lambda>_. ?S) [?f]" by (simp add: conforms_def byte_tensor_def)
  from operation_extends_scope [OF this _ s'] obtain f' where "s' = [f']" "dom f' = {1, 0}"
    by (auto simp: declares_def ssa_of_def)
  with s' show ?thesis by (simp add: insert_commute)
qed

text \<open>
  Malformed regions are reported, never evaluated to a value: a region applied to a wrong
  number of arguments, or one that holds no terminator, ends in an error at any fuel.
\<close>

theorem malformed_region_fails:
  assumes "length (region_args r) \<noteq> length args \<or> (\<forall>op \<in> set (region_ops r). \<not> is_terminator (op_code op))"
  shows "fails (eval n L fb r args s)"
proof -
  have no_value: "eval_ops L n ev fb ops s \<noteq> Inr ts"
    if "\<forall>op \<in> set ops. \<not> is_terminator (op_code op)" for ev ops s ts
    using that by (induction ops arbitrary: s) (auto simp: bnd_eq_Inr)
  have "eval n L fb r args s \<noteq> Inr ts" for ts
    using assms no_value by (auto simp: eval_def eval_block_def require_eq_Inr bnd_eq_Inr)
  then show ?thesis by (metis not_fails)
qed

theorem malformed_region_fails_witness: "fails (eval 3 sample_lib None (Region [] []) [] [])"
  by (rule malformed_region_fails) simp

text \<open>
  More fuel never changes a result: a run that does not exhaust the fuel of nested regions
  and loops returns the same value or the same error with any larger fuel, for every library
  whose sorting functions depend on their comparator only through its results.
\<close>

theorem eval_fuel_monotone:
  assumes "sort_mono L" and "n \<le> m" and "eval n L fb r args s \<noteq> Inl OutOfFuel"
  shows "eval m L fb r args s = eval n L fb r args s"
  using mono_eval [OF assms(1,2), of fb r args s] assms(3) by (auto simp: res_le_def)

theorem eval_fuel_monotone_witness:
  "eval 5 sample_lib None (Region [] [Operation ReturnOp [] [] []]) [] [] = Inr []"
proof -
  have "eval 0 sample_lib None (Region [] [Operation ReturnOp [] [] []]) [] [] = Inr []"
    by (simp add: eval_def eval_block_def scope_add_all_def is_terminator_def scope_find_all_def)
  with eval_fuel_monotone [OF sample_sort_mono, of 0 5 None "Region [] [Operation ReturnOp [] [] []]" "[]" "[]"]
  show ?thesis by simp
qed

section \<open>Conditionals\<close>

text \<open>
  \<open>evalCaseOp\<close> evaluates the branch its index selects, and the last one for every index that is
  negative or too large; it evaluates no other branch, and fails only where that branch does.
\<close>

theorem case_selects_branch:
  assumes "tensor_get index [] = Inr e" and "getIntegerValue e = Inr v" and "branches \<noteq> []"
  shows "evalCaseOp ev index branches =
    ev (if 0 \<le> sval v \<and> sval v < int (length branches) then branches ! nat (sval v) else last branches) []"
proof -
  have "last branches = branches ! nat (int (length branches) - 1)"
    using assms(3) by (cases branches rule: rev_cases) auto
  with assms show ?thesis by (auto simp: evalCaseOp_def Let_def at_def)
qed

theorem case_selects_branch_witness:
  "evalCaseOp (\<lambda>r _. Inr [byte_tensor [] [int (length (region_ops r))]]) (byte_tensor [] [7])
      [Region [] [Operation ReturnOp [] [] []], Region [] []] = Inr [byte_tensor [] [0]]"
proof -
  have d: "tensor_get (byte_tensor [] [7]) [] = Inr (int_element ui8 (APInt 8 7))"
    using denotes_get [OF scalar_byte [of 7], of "[]"] by simp
  show ?thesis
    by (subst case_selects_branch [OF d, of "APInt 8 7"]) (simp_all add: int_element_def getIntegerValue_def sval_def)
qed

section \<open>Loops\<close>

text \<open>
  The specification of a loop, with no fuel: \<open>while_runs ev cond body ts us\<close> when the loop started in
  \<open>ts\<close> leaves with \<open>us\<close>.
\<close>

inductive while_runs :: "evaluator \<Rightarrow> region \<Rightarrow> region \<Rightarrow> tensor list \<Rightarrow> tensor list \<Rightarrow> bool"
  for ev cond body where
  while_exit: "cond_is ev cond ts False \<Longrightarrow> while_runs ev cond body ts ts"
| while_iterate: "cond_is ev cond ts True \<Longrightarrow> ev body ts = Inr ts' \<Longrightarrow> while_runs ev cond body ts' us \<Longrightarrow>
    while_runs ev cond body ts us"

inductive_cases while_runsE: "while_runs ev cond body ts us"

lemma cond_is_result: "cond_is ev cond ts b \<Longrightarrow> \<exists>cs. ev cond ts = Inr cs \<and> length cs = 1"
  by (auto simp: cond_is_def)

lemma evalWhileOp_loop:
  "cond_is ev cond ts b \<Longrightarrow> ev cond ts = Inr cs \<Longrightarrow> evalWhileOp n ev ts cond body = while_loop n ev cond body ts cs"
  by (auto simp: evalWhileOp_def cond_is_def)

lemma while_loop_step:
  assumes "cond_is ev cond ts b" and "ev cond ts = Inr cs"
  shows "while_loop (Suc n) ev cond body ts cs =
    (if b then bnd (ev body ts) (\<lambda>ts'. evalWhileOp n ev ts' cond body) else Inr ts)"
  using assms by (auto simp: cond_is_def evalWhileOp_def)

lemma evalWhileOp_sound: "evalWhileOp n ev ts cond body = Inr us \<Longrightarrow> while_runs ev cond body ts us"
proof (induction n arbitrary: ts)
  case 0
  then show ?case by (auto simp: evalWhileOp_def bnd_eq_Inr require_eq_Inr)
next
  case (Suc n)
  then obtain c e b where c: "ev cond ts = Inr [c]" "tensor_get c [] = Inr e" "getBooleanValue e = Inr b"
    by (auto simp: evalWhileOp_def bnd_eq_Inr require_eq_Inr length_Suc_conv)
  then have b: "cond_is ev cond ts b" by (simp add: cond_is_def)
  have "while_loop (Suc n) ev cond body ts [c] = Inr us" using Suc.prems evalWhileOp_loop [OF b c(1)] by simp
  with while_loop_step [OF b c(1)] Suc.IH b show ?case
    by (auto simp: bnd_eq_Inr split: if_splits intro: while_runs.intros)
qed

lemma evalWhileOp_complete: "while_runs ev cond body ts us \<Longrightarrow> \<exists>n. evalWhileOp n ev ts cond body = Inr us"
proof (induction rule: while_runs.induct)
  case (while_exit ts)
  then obtain cs where cs: "ev cond ts = Inr cs" using cond_is_result by blast
  have "evalWhileOp (Suc 0) ev ts cond body = Inr ts"
    unfolding evalWhileOp_loop [OF while_exit cs] while_loop_step [OF while_exit cs] by simp
  then show ?case by blast
next
  case (while_iterate ts ts' us)
  then obtain n where "evalWhileOp n ev ts' cond body = Inr us" by blast
  moreover obtain cs where cs: "ev cond ts = Inr cs" using cond_is_result while_iterate.hyps(1) by blast
  ultimately have "evalWhileOp (Suc n) ev ts cond body = Inr us"
    unfolding evalWhileOp_loop [OF while_iterate.hyps(1) cs] while_loop_step [OF while_iterate.hyps(1) cs]
    using while_iterate.hyps(2) by simp
  then show ?case by blast
qed

text \<open>
  C28: The loop of \<open>evalWhileOp\<close> refines its specification: it returns a value with some fuel exactly
  when the condition and the body, applied in turn, lead from the operands to that value.
\<close>

theorem while_refines:
  shows "(\<exists>n. evalWhileOp n ev ts cond body = Inr us) \<longleftrightarrow> while_runs ev cond body ts us"
  using evalWhileOp_sound evalWhileOp_complete by blast

text \<open>
  C29: Termination of a loop with a variant. If in every state of the invariant \<open>P n\<close> the condition
  evaluates to a boolean, and the body, where it is true, leads to the invariant with a smaller
  \<open>n\<close>, then the loop ends within \<open>n + 1\<close> tests of its condition, in a state of the invariant where
  the condition is false.
\<close>

theorem while_terminates:
  assumes "\<And>n ts. P n ts \<Longrightarrow> cond_is ev cond ts False \<or>
      cond_is ev cond ts True \<and> (\<exists>m ts'. ev body ts = Inr ts' \<and> m < n \<and> P m ts')"
    and "P n ts"
  shows "\<exists>m us. evalWhileOp (Suc n) ev ts cond body = Inr us \<and> P m us \<and> cond_is ev cond us False"
  using assms(2)
proof (induction n arbitrary: ts rule: less_induct)
  case (less n)
  have ev: "\<exists>cs. ev cond ts = Inr cs" using assms(1) [OF less.prems] cond_is_result by blast
  then obtain cs where cs: "ev cond ts = Inr cs" by blast
  show ?case
  proof (cases "cond_is ev cond ts False")
    case True
    then have "evalWhileOp (Suc n) ev ts cond body = Inr ts"
      unfolding evalWhileOp_loop [OF True cs] while_loop_step [OF True cs] by simp
    with True less.prems show ?thesis by blast
  next
    case False
    with assms(1) [OF less.prems] obtain m ts' where
      t: "cond_is ev cond ts True" "ev body ts = Inr ts'" "m < n" "P m ts'" by blast
    from less.IH [OF t(3,4)] obtain k us where
      us: "evalWhileOp (Suc m) ev ts' cond body = Inr us" "P k us" "cond_is ev cond us False" by blast
    have "res_le (evalWhileOp (Suc m) ev ts' cond body) (evalWhileOp n ev ts' cond body)"
      by (rule mono_while) (use t(3) in \<open>auto simp: ev_le_def res_le_def\<close>)
    with us(1) have "evalWhileOp n ev ts' cond body = Inr us" by (simp add: res_le_def)
    then have "evalWhileOp (Suc n) ev ts cond body = Inr us"
      unfolding evalWhileOp_loop [OF t(1) cs] while_loop_step [OF t(1) cs] using t(2) by simp
    with us(2,3) show ?thesis by blast
  qed
qed

text \<open>The loop \<open>while (x < limit) x += x\<close>, with the limit captured from the enclosing scope.\<close>

definition below_limit :: region where
  "below_limit = Region [ssa_of 0 (byte_type [])]
     [Operation (CompareOp LT) [ssa_of 0 (byte_type []), ssa_of 9 (byte_type [])]
        [ssa_of 2 (RankedTensorType [] i1 NoEncoding)] [],
      Operation ReturnOp [ssa_of 2 (RankedTensorType [] i1 NoEncoding)] [] []]"

definition double_it :: region where
  "double_it = Region [ssa_of 0 (byte_type [])]
     [Operation AddOp [ssa_of 0 (byte_type []), ssa_of 0 (byte_type [])] [ssa_of 2 (byte_type [])] [],
      Operation ReturnOp [ssa_of 2 (byte_type [])] [] []]"

lemma below_limit_eval:
  assumes "denotes x (byte_type []) (\<lambda>_. byte v)"
  shows "cond_is (\<lambda>r args. eval_nested 1 sample_lib r args [[9 \<mapsto> byte_tensor [] [6]]]) below_limit [x] (v < 6)"
proof -
  let ?B = "RankedTensorType [] i1 NoEncoding"
  have v: "0 \<le> v" "v < 256" using denotes_ok [OF assms, of "[]"] by auto
  have d: "denotes (byte_tensor [] [6]) (byte_type []) (\<lambda>_. byte 6)"
    using scalar_byte [of 6] by (simp add: byte_def)
  have B: "storable ?B" using scalar_ranked [OF i1_supported] by (simp add: scalar_type_def)
  have "\<exists>t. pointwise2 sample_lib (elem_cmp sample_lib LT) x (byte_tensor [] [6]) ?B = Inr t \<and>
      denotes t ?B (\<lambda>_. bool_element (v < 6))"
    by (rule pointwise2_denotes [OF sample_lib_ok B assms d])
      (use elem_compare_int(1) [of ui8 "APInt 8 v" "APInt 8 6" sample_lib] v in
        \<open>auto simp: elem_ok_def byte_def\<close>)
  then obtain t where t: "evalCompareOp sample_lib x (byte_tensor [] [6]) LT ?B = Inr t"
    "denotes t ?B (\<lambda>_. bool_element (v < 6))"
    by (auto simp: evalCompareOp_def)
  with denotes_type [OF assms] denotes_type [OF t(2)] denotes_get [OF t(2), of "[]"]
  show ?thesis
    by (simp add: cond_is_def below_limit_def eval_block_def scope_new_def scope_add_all_def scope_find_all_def
        eval_op_def ssa_of_def dispatch_def dispatch1_def Let_def is_terminator_def binary_def one_def)
qed

lemma double_it_eval:
  assumes "denotes x (byte_type []) (\<lambda>_. byte v)" and "v < 128"
  shows "\<exists>y. eval_nested 1 sample_lib double_it [x] s = Inr [y] \<and> denotes y (byte_type []) (\<lambda>_. byte (v + v))"
proof -
  have v: "0 \<le> v" using denotes_ok [OF assms(1), of "[]"] by auto
  have "\<exists>t. pointwise2 sample_lib (elem_add sample_lib) x x (byte_type []) = Inr t \<and>
      denotes t (byte_type []) (\<lambda>_. byte (v + v))"
    by (rule pointwise2_denotes [OF sample_lib_ok _ assms(1,1)])
      (use elem_arith_int(1) [of ui8 "APInt 8 v" "APInt 8 v" sample_lib] v assms(2) byte_ok [of "v + v"] in
        \<open>auto simp: byte_def ap_add_def mk_apint_def\<close>)
  then obtain t where t: "evalAddOp sample_lib x x (byte_type []) = Inr t" "denotes t (byte_type []) (\<lambda>_. byte (v + v))"
    by (auto simp: evalAddOp_def)
  with denotes_type [OF assms(1)] denotes_type [OF t(2)]
  show ?thesis
    by (simp add: double_it_def eval_block_def scope_new_def scope_add_all_def scope_find_all_def
        eval_op_def ssa_of_def dispatch_def dispatch1_def Let_def is_terminator_def binary_def one_def)
qed

theorem while_terminates_witness:
  "\<exists>y. evalWhileOp 4 (\<lambda>r args. eval_nested 1 sample_lib r args [[9 \<mapsto> byte_tensor [] [6]]])
      [byte_tensor [] [1]] below_limit double_it = Inr [y] \<and> tensor_get y [] = Inr (byte 8)"
proof -
  let ?ev = "\<lambda>r args. eval_nested 1 sample_lib r args [[9 \<mapsto> byte_tensor [] [6]]]"
  let ?P = "\<lambda>n ts. \<exists>x v. ts = [x] \<and> denotes x (byte_type []) (\<lambda>_. byte v) \<and>
    (n, v) \<in> {(3 :: nat, 1), (2, 2), (1, 4), (0, 8)}"
  have step: "cond_is ?ev below_limit ts False \<or> cond_is ?ev below_limit ts True \<and>
      (\<exists>m ts'. ?ev double_it ts = Inr ts' \<and> m < n \<and> ?P m ts')" if P: "?P n ts" for n ts
  proof -
    from P obtain x v where x: "ts = [x]" "denotes x (byte_type []) (\<lambda>_. byte v)"
      "(n, v) \<in> {(3, 1), (2, 2), (1, 4), (0, 8)}" by blast
    then have "v < 128" by auto
    with double_it_eval [OF x(2)] obtain y where y: "?ev double_it [x] = Inr [y]"
      "denotes y (byte_type []) (\<lambda>_. byte (v + v))" by blast
    show ?thesis
    proof (cases "v < 6")
      case True
      then have "n \<noteq> 0" "(n - 1, v + v) \<in> {(3, 1), (2, 2), (1, 4), (0, 8)}" using x(3) by auto
      with True below_limit_eval [OF x(2)] y x(1) show ?thesis
        by (intro disjI2 conjI exI [of _ "n - 1"] exI [of _ "[y]"] exI [of _ y] exI [of _ "v + v"]) simp_all
    next
      case False
      with below_limit_eval [OF x(2)] x(1) show ?thesis by simp
    qed
  qed
  have "?P 3 [byte_tensor [] [1]]" using scalar_byte [of 1] by (auto simp: byte_def)
  from while_terminates [of ?P ?ev below_limit double_it 3, OF step this] obtain m us where
    us: "evalWhileOp (Suc 3) ?ev [byte_tensor [] [1]] below_limit double_it = Inr us" "?P m us"
      "cond_is ?ev below_limit us False" by blast
  then obtain x v where x: "us = [x]" "denotes x (byte_type []) (\<lambda>_. byte v)"
      "(m, v) \<in> {(3, 1), (2, 2), (1, 4), (0, 8)}" by blast
  have "\<not> v < 6" using below_limit_eval [OF x(2)] us(3) x(1) by (auto simp: cond_is_def)
  then have "v = 8" using x(3) by auto
  with us(1) x denotes_get [OF x(2), of "[]"] show ?thesis by (simp add: numeral_eq_Suc)
qed

section \<open>Reductions\<close>

text \<open>
  C30: Reducing with an addition region computes sums. On an integer tensor, \<open>evalReduceOp\<close> with the
  region that adds its two arguments returns at \<open>j\<close> the initial value plus the sum, modulo two to
  the width, of all elements whose index has \<open>j\<close> as its coordinates outside the reduced dimensions;
  the initial value alone where there are none.
\<close>

theorem reduce_computes_sums:
  assumes "lib_ok L" and "isSupportedIntegerType et" and "scalar_type S et"
    and "denotes a T (\<lambda>i. int_element et (v i))" and "element_type T = et"
    and "denotes init S (\<lambda>_. int_element et v0)" and "storable R" and "element_type R = et"
    and "shape_of R = kept dims (shape_of T)"
  shows "\<exists>r. evalReduceOp L (\<lambda>r args. eval_nested (Suc n) L r args s) [a] [init] dims (binary_region AddOp S S) [R] = Inr [r] \<and>
    denotes r R (\<lambda>j. int_element et (mk_apint (int_or_float_width et)
      (uval v0 + (\<Sum>i \<leftarrow> filter (\<lambda>i. kept dims i = j) (index_space (shape_of T)). uval (v i)))))"
  by (rule reduce_add [OF assms])

theorem reduce_computes_sums_witness:
  "\<exists>r. evalReduceOp sample_lib (\<lambda>r args. eval_nested 1 sample_lib r args []) [byte_tensor [2, 2] [100, 200, 3, 4]]
      [byte_tensor [] [1]] [1] (binary_region AddOp (byte_type []) (byte_type [])) [byte_type [2]] = Inr [r] \<and>
    tensor_get r [0] = Inr (byte 45) \<and> tensor_get r [1] = Inr (byte 8)"
proof -
  let ?v = "\<lambda>idx. APInt 8 ([100, 200, 3, 4] ! nat (flat [2, 2] idx))"
  have d: "denotes (byte_tensor [2, 2] [100, 200, 3, 4]) (byte_type [2, 2]) (\<lambda>i. int_element ui8 (?v i))"
    using byte_tensor_denotes [of "[2, 2]" "[100, 200, 3, 4]"] by (simp add: i64_ok_def byte_def)
  have sp: "index_space [2, 2] = [[0, 0], [0, 1], [1, 0], [1, 1]]"
    by (simp add: index_space_def upto_rec1)
  have k: "kept [1] [x, y] = [x]" for x y :: int by (simp add: kept_def upto_rec1)
  from reduce_computes_sums [OF sample_lib_ok _ byte_scalar d _ scalar_byte [of 1], of "byte_type [2]" "[1]" 0 "[]"]
  obtain r where r: "evalReduceOp sample_lib (\<lambda>r args. eval_nested 1 sample_lib r args [])
      [byte_tensor [2, 2] [100, 200, 3, 4]] [byte_tensor [] [1]] [1]
      (binary_region AddOp (byte_type []) (byte_type [])) [byte_type [2]] = Inr [r]"
    "denotes r (byte_type [2]) (\<lambda>j. int_element ui8 (mk_apint 8
      (1 + (\<Sum>i \<leftarrow> filter (\<lambda>i. kept [1] i = j) [[0, 0], [0, 1], [1, 0], [1, 1]]. uval (?v i)))))"
    by (auto simp: sp k i64_ok_def)
  with denotes_get [OF r(2), of "[0]"] denotes_get [OF r(2), of "[1]"] show ?thesis
    by (auto simp: k byte_def mk_apint_def)
qed

section \<open>Sorting\<close>

lemma insert_handle_sorts:
  assumes "\<forall>y \<in> set (x # ys). \<forall>z \<in> set (x # ys). cmp y z = Inr ((key y :: int) < key z)" and "sorted (map key ys)"
  shows "\<exists>zs. insert_handle cmp x ys = Inr zs \<and> mset zs = add_mset x (mset ys) \<and> sorted (map key zs)"
  using assms
proof (induction ys)
  case (Cons y ys)
  then obtain zs where zs: "insert_handle cmp x ys = Inr zs" "mset zs = add_mset x (mset ys)" "sorted (map key zs)"
    by auto
  have "set zs = insert x (set ys)" using mset_eq_setD [of zs "x # ys"] zs(2) by simp
  with zs Cons.prems show ?case by (cases "key y < key x") auto
qed simp

lemma insertion_sort_sorts: "sorts insertion_sort"
  unfolding sorts_def
proof (intro allI impI)
  fix cmp :: "int \<Rightarrow> int \<Rightarrow> bool res" and key :: "int \<Rightarrow> int" and xs
  assume "\<forall>x \<in> set xs. \<forall>y \<in> set xs. cmp x y = Inr (key x < key y)"
  then show "\<exists>ys. insertion_sort cmp xs = Inr ys \<and> mset ys = mset xs \<and> sorted (map key ys)"
  proof (induction xs)
    case (Cons x xs)
    then obtain ys where ys: "insertion_sort cmp xs = Inr ys" "mset ys = mset xs" "sorted (map key ys)" by auto
    have eq: "set (x # ys) = set (x # xs)" using mset_eq_setD [OF ys(2)] by simp
    from insert_handle_sorts [OF Cons.prems [folded eq] ys(3)] ys(1,2) show ?case by auto
  qed simp
qed

text \<open>
  C31: What \<open>evalSortOp\<close> returns for a vector of integers and a less-than comparator. The handles are
  ordered by element, as the sorting function promises; the result has at position \<open>p ! i\<close>, the \<open>i\<close>-th
  handle in that order, the input's element \<open>i\<close>. It thus is the input moved by the inverse of the
  sorting permutation, and is not sorted in general: the code exchanges the two handles of a pair.
\<close>

theorem sort_moves_by_inverse:
  assumes "lib_ok L" and "sorts (std_stable_sort L)" and "isSupportedIntegerType et" and "element_type T = et"
    and "shape_of T = [m]" and "0 < m" and "denotes a T (\<lambda>i. int_element et (v i))"
  shows "\<exists>p r. mset p = mset [0..m - 1] \<and> sorted (map (\<lambda>h. int_value et (v [h])) p) \<and>
    evalSortOp L (\<lambda>r args. eval_nested (Suc n) L r args s) [a] 0 True (lt_region et) = Inr [r] \<and>
    wf_tensor r \<and> t_type r = T \<and> (\<forall>i < nat m. tensor_get r [p ! i] = Inr (int_element et (v [int i])))"
  by (rule sort_ints [OF assms])

lemma only_order:
  assumes "mset p = mset [0..2]" and "sorted (map (\<lambda>h. [3, 1, 2] ! nat h) p :: int list)"
  shows "p = [1, 2, 0]"
proof -
  have u: "[0..2] = [0, 1, 2 :: int]" by (simp add: upto_rec1)
  have "length p = 3" using mset_eq_length [OF assms(1)] u by simp
  then obtain x y z where p: "p = [x, y, z]" by (auto simp: numeral_3_eq_3 length_Suc_conv)
  have "set p = {0, 1, 2}" "distinct p"
    using mset_eq_setD [OF assms(1)] mset_eq_imp_distinct_iff [OF assms(1)] u by simp_all
  with p have "x \<in> {0, 1, 2} \<and> y \<in> {0, 1, 2} \<and> z \<in> {0, 1, 2} \<and> x \<noteq> y \<and> x \<noteq> z \<and> y \<noteq> z" by auto
  with assms(2) p show ?thesis by (auto simp: numeral_2_eq_2)
qed

theorem sort_moves_by_inverse_witness:
  "\<exists>r. evalSortOp sample_lib (\<lambda>r args. eval_nested 1 sample_lib r args []) [byte_tensor [3] [3, 1, 2]] 0 True
      (lt_region ui8) = Inr [r] \<and>
    map (\<lambda>k. tensor_get r [k]) [0, 1, 2] = map (Inr \<circ> byte) [2, 3, 1]"
proof -
  let ?v = "\<lambda>idx. APInt 8 ([3, 1, 2] ! nat (flat [3] idx))"
  have d: "denotes (byte_tensor [3] [3, 1, 2]) (byte_type [3]) (\<lambda>i. int_element ui8 (?v i))"
    using byte_tensor_denotes [of "[3]" "[3, 1, 2]"] by (simp add: i64_ok_def byte_def)
  have "sorts (std_stable_sort sample_lib)" by (simp add: insertion_sort_sorts)
  from sort_moves_by_inverse [OF sample_lib_ok this _ _ _ _ d, of 3 0 "[]"] obtain p r where
    r: "mset p = mset [0..2]" "sorted (map (\<lambda>h. [3, 1, 2] ! nat h :: int) p)"
      "evalSortOp sample_lib (\<lambda>r args. eval_nested 1 sample_lib r args []) [byte_tensor [3] [3, 1, 2]] 0 True
        (lt_region ui8) = Inr [r]"
      "\<forall>i < nat 3. tensor_get r [p ! i] = Inr (int_element ui8 (?v [int i]))"
    by auto
  have "p = [1, 2, 0]" using only_order [OF r(1)] r(2) by simp
  with r(4) have "tensor_get r [1] = Inr (byte 3)" "tensor_get r [2] = Inr (byte 1)" "tensor_get r [0] = Inr (byte 2)"
    by (auto simp: byte_def dest: spec [of _ 0] spec [of _ 1] spec [of _ 2])
  with r(3) show ?thesis by simp
qed

end
