(* ===== verification/DialectProperties.thy ===== *)
theory DialectProperties
  imports ConstantLaws Samples
begin

text \<open>
  Properties of shape inference (\<open>stablehlo/dialect/Base.cpp\<close> and \<open>TypeInference.cpp\<close>): merging of
  dimensions with bounds, compatibility, the number of windows, replica groups, tuples.
\<close>

section \<open>Dimensions with bounds\<close>

text \<open>
  C32: \<open>inferMostSpecificDimAndBound\<close> is the meet of two dimensions with bounds: a run-time size is
  admitted by the merged dimension exactly when both admit it, the merged dimension is well formed
  again, and the function fails only where no size is admitted by both.
\<close>

theorem most_specific_is_meet:
  assumes "dim_ok ls lb" and "dim_ok rs rb"
  shows "case inferMostSpecificDimAndBound ls rs lb rb of
      Inr (s, b) \<Rightarrow> dim_ok s b \<and> (\<forall>n. admits s b n \<longleftrightarrow> admits ls lb n \<and> admits rs rb n)
    | Inl e \<Rightarrow> \<forall>n. \<not> (admits ls lb n \<and> admits rs rb n)"
  using most_specific_meet [OF assms] most_specific_fails [OF assms]
  by (auto split: sum.split prod.split)

theorem most_specific_is_meet_witness:
  "inferMostSpecificDimAndBound kDynamic kDynamic 7 5 = Inr (kDynamic, 5) \<and>
    (admits kDynamic 5 4 \<longleftrightarrow> admits kDynamic 7 4 \<and> admits kDynamic 5 4)"
proof -
  have eq: "inferMostSpecificDimAndBound kDynamic kDynamic 7 5 = Inr (kDynamic, 5)"
    by (simp add: inferMostSpecificDimAndBound_def) (simp add: isDynamicDimSize_def kDynamic_def)
  have "dim_ok kDynamic 7" "dim_ok kDynamic 5" by (simp_all add: dim_ok_def)
  from most_specific_is_meet [OF this] eq show ?thesis by simp
qed

text \<open>
  \<open>inferLeastSpecificDimAndBound\<close> is an upper bound of two dimensions with bounds, and
  \<open>inferConcatenatedDimAndBound\<close> admits the sum of any two sizes they admit.
\<close>

theorem merged_dimensions_admit:
  assumes "dim_ok ls lb" and "dim_ok rs rb" and "admits ls lb m" and "admits rs rb n"
  shows "(\<forall>s b. inferLeastSpecificDimAndBound ls rs lb rb = Inr (s, b) \<longrightarrow> admits s b m \<and> admits s b n) \<and>
    (\<forall>s b. inferConcatenatedDimAndBound ls rs lb rb = Inr (s, b) \<longrightarrow> admits s b (m + n))"
  using least_specific_upper [OF assms(1,2)] concatenated_sum [OF assms(1,2) _ assms(3,4)] assms(3,4) by blast

theorem merged_dimensions_admit_witness:
  "inferLeastSpecificDimAndBound 4 kDynamic kDynamic 3 = Inr (kDynamic, 4) \<and> admits kDynamic 4 4 \<and>
    admits kDynamic 4 2 \<and> inferConcatenatedDimAndBound 4 kDynamic kDynamic 3 = Inr (kDynamic, 7) \<and> admits kDynamic 7 6"
proof -
  have d: "dim_ok 4 kDynamic" "dim_ok kDynamic 3" "admits 4 kDynamic 4" "admits kDynamic 3 2"
    by (simp_all add: dim_ok_def admits_def isDynamicDimSize_def kDynamic_def)
  have "inferLeastSpecificDimAndBound 4 kDynamic kDynamic 3 = Inr (kDynamic, 4)"
    "inferConcatenatedDimAndBound 4 kDynamic kDynamic 3 = Inr (kDynamic, 7)"
    by (simp_all add: inferLeastSpecificDimAndBound_def inferConcatenatedDimAndBound_def i64_def i64_ok_def)
      (simp_all add: isDynamicDimSize_def kDynamic_def)
  with merged_dimensions_admit [OF d] show ?thesis by auto
qed

section \<open>Compatibility\<close>

section \<open>Windows\<close>

lemma mult_le_iff_le_div:
  assumes "0 < s"
  shows "k * s \<le> x \<longleftrightarrow> k \<le> x div (s :: int)"
proof
  assume "k * s \<le> x"
  with assms show "k \<le> x div s" using zdiv_mono1 [of "k * s" x s] by simp
next
  assume "k \<le> x div s"
  then have "k * s \<le> (x div s) * s" using assms by (intro mult_right_mono) auto
  also have "\<dots> \<le> x" using assms div_mult_mod_eq [of x s] pos_mod_sign [of s x] by linarith
  finally show "k * s \<le> x" .
qed

lemma card_windows:
  assumes "0 < s" and "0 \<le> (x :: int)"
  shows "int (card {k. 0 \<le> k \<and> k * s \<le> x}) = x div s + 1"
proof -
  have "{k. 0 \<le> k \<and> k * s \<le> x} = {0..x div s}" using assms(1) by (auto simp: mult_le_iff_le_div)
  with assms show ?thesis by (simp add: pos_imp_zdiv_nonneg_iff)
qed

text \<open>The number of positions from the first to the last of \<open>n\<close> points that are \<open>d\<close> apart.\<close>

definition spread :: "int \<Rightarrow> int \<Rightarrow> int" where
  "spread n d = (if n = 0 then 0 else (n - 1) * d + 1)"

lemma dilatedBound_spread: "dilatedBound n d = Inr m \<Longrightarrow> 0 \<le> n \<and> m = spread n d"
  by (auto simp: dilatedBound_def spread_def require_eq_Inr bnd_eq_Inr i64_eq_Inr split: if_splits)

lemma stridedBound_counts:
  assumes "stridedBound b w s = Inr n" and "0 < s" and "0 < w"
  shows "n = int (card {k. 0 \<le> k \<and> k * s + w \<le> b})"
proof (cases "w > b")
  case True
  have "{k. 0 \<le> k \<and> k * s + w \<le> b} = {}"
  proof -
    have "\<not> k * s + w \<le> b" if "0 \<le> k" for k using that assms(2) True mult_nonneg_nonneg [of k s] by linarith
    then show ?thesis by blast
  qed
  then have "card {k. 0 \<le> k \<and> k * s + w \<le> b} = 0" by (simp only: card.empty)
  with assms(1) True show ?thesis by (auto simp: stridedBound_def require_eq_Inr split: if_splits)
next
  case False
  have "{k. 0 \<le> k \<and> k * s + w \<le> b} = {k. 0 \<le> k \<and> k * s \<le> b - w}" by auto
  with False assms card_windows [OF assms(2), of "b - w"] show ?thesis
    by (auto simp: stridedBound_def require_eq_Inr i64_eq_Inr split: if_splits)
qed

text \<open>
  The size \<open>inferWindowOutputShape\<close> computes for a dimension is the number of windows: of the
  offsets, multiples of the stride, at which the dilated window fits into the dilated and padded
  base. So no window of the result ever leaves the padded base, and none is missed.
\<close>

theorem window_size_counts:
  assumes "infer_window_size base dim = Inr n" and "\<not> isDynamicDimSize base" and "\<not> isDynamicDimSize (w_size dim)"
    and "0 < w_stride dim" and "0 < w_size dim" and "0 < w_windowDilation dim"
  shows "n = int (card {k. 0 \<le> k \<and> k * w_stride dim + spread (w_size dim) (w_windowDilation dim) \<le>
    w_paddingLow dim + spread base (w_baseDilation dim) + w_paddingHigh dim})"
proof -
  from assms(1-3) have s: "stridedBound (w_paddingLow dim + spread base (w_baseDilation dim) + w_paddingHigh dim)
      (spread (w_size dim) (w_windowDilation dim)) (w_stride dim) = Inr n"
    by (auto simp: infer_window_size_def bnd_eq_Inr i64_eq_Inr dest!: dilatedBound_spread)
  have "0 < spread (w_size dim) (w_windowDilation dim)"
    using assms(5,6) mult_nonneg_nonneg [of "w_size dim - 1" "w_windowDilation dim"] by (simp add: spread_def)
  from stridedBound_counts [OF s assms(4) this] show ?thesis .
qed

theorem window_size_counts_witness:
  "infer_window_size 5 (window_default\<lparr>w_size := 2, w_stride := 2, w_paddingLow := 1\<rparr>) = Inr 3 \<and>
    card {k :: int. 0 \<le> k \<and> k * 2 + 2 \<le> 6} = 3"
proof -
  let ?d = "window_default\<lparr>w_size := 2, w_stride := 2, w_paddingLow := 1\<rparr>"
  have e: "infer_window_size 5 ?d = Inr 3"
    by (simp add: infer_window_size_def window_default_def dilatedBound_def stridedBound_def i64_def i64_ok_def
        isDynamicDimSize_def kDynamic_def)
  from window_size_counts [OF e] show ?thesis
    using e by (simp add: window_default_def spread_def isDynamicDimSize_def kDynamic_def)
qed

section \<open>Replica groups\<close>

text \<open>
  \<open>verifyReplicaGroups\<close> accepts a non-empty table, with no expected group size, exactly when
  the ids in it other than the padding \<open>-1\<close> are \<open>0, ..., n - 1\<close>, each once, and there is no padding
  where all groups must have the same size.
\<close>

theorem replica_groups_accepted:
  assumes "length (di_shape g) = 2" and "di_shape g ! 0 \<noteq> 0 \<and> di_shape g ! 1 \<noteq> 0"
  shows "verifyReplicaGroups g same use_ids None = ok \<longleftrightarrow>
    (same \<longrightarrow> - 1 \<notin> set (di_values g)) \<and> distinct (filter (\<lambda>i. i \<noteq> - 1) (di_values g)) \<and>
    set (filter (\<lambda>i. i \<noteq> - 1) (di_values g)) = {0..<int (length (filter (\<lambda>i. i \<noteq> - 1) (di_values g)))}"
  using verifyReplicaGroups_iff [OF assms] unfolding Let_def by blast

theorem replica_groups_accepted_witness:
  "verifyReplicaGroups \<lparr>di_shape = [2, 2], di_elem = IntegerType Signless 64, di_values = [0, 2, 1, -1]\<rparr> False True None = ok"
proof -
  have "{0, 1, 2} = {0..<3 :: int}" by auto
  then show ?thesis by (subst replica_groups_accepted) auto
qed

section \<open>Tuples\<close>

text \<open>
  \<open>unflattenTupleTypes\<close> restores what \<open>flattenTupleTypes\<close> took apart when there is no tuple in
  the prototype, but it reports success for every input: the test of its result compares an
  optional with \<open>-1\<close>, which differs from every value it can have, the empty one included.
\<close>

theorem unflatten_always_succeeds:
  "fst (unflattenTupleTypes prototype types result) \<and>
    (length types = length prototype \<and> (\<forall>t \<in> set prototype. tuple_types t = None) \<longrightarrow>
      unflattenTupleTypes prototype types result = (True, result @ types))"
proof -
  have "map_option int c \<noteq> Some (- 1)" for c by (cases c) auto
  then show ?thesis
    using unflatten_no_tuples by (auto simp: unflattenTupleTypes_def split: prod.split)
qed

theorem unflatten_always_succeeds_witness:
  "unflattenTupleTypes [TokenType] [IndexType] [] = (True, [IndexType]) \<and>
    fst (unflattenTupleTypes [TupleType [TokenType], TokenType] [TokenType] [])"
  using unflatten_always_succeeds [of "[TokenType]" "[IndexType]" "[]"]
    unflatten_always_succeeds [of "[TupleType [TokenType], TokenType]" "[TokenType]" "[]"] by simp

end
