(* ===== verification/DotConvInference.thy ===== *)
theory DotConvInference
  imports OpInference
begin

text \<open>
  \<open>stablehlo/dialect/TypeInference.cpp\<close>: inference and verification of convolutions and of the dot
  products. Of a precision configuration only its number of entries matters (\<open>None\<close>: absent).
\<close>

section \<open>Shapes and components\<close>

text \<open>\<open>ShapedTypeComponents\<close> of a shape alone, and of nothing.\<close>

definition shape_only :: "int list \<Rightarrow> components" where
  "shape_only dims = \<lparr>c_dims = Some dims, c_elem = None, c_attr = NoEncoding\<rparr>"

definition no_components :: components where
  "no_components = \<lparr>c_dims = None, c_elem = None, c_attr = NoEncoding\<rparr>"

text \<open>\<open>mlir::verifyCompatibleShape\<close> of two shapes.\<close>

definition compatible_dims :: "int list \<Rightarrow> int list \<Rightarrow> bool" where
  "compatible_dims shape1 shape2 \<longleftrightarrow> length shape1 = length shape2 \<and>
     list_all (\<lambda>(a, b). verifyCompatibleDims a b) (zip shape1 shape2)"

text \<open>The test that ends the verifiers of convolutions and dot products.\<close>

definition verify_inferred_shape :: "components \<Rightarrow> ty \<Rightarrow> unit res" where
  "verify_inferred_shape inferredShape resultType = cast_shaped resultType
     (require (\<not> (case c_dims inferredShape of None \<Rightarrow> False
         | Some dims \<Rightarrow> has_rank resultType \<and> \<not> compatible_dims dims (shape_of resultType)))
       (Fatal ''inferred shape is incompatible with return type of operation'') ok)"

definition verifyPrecisionConfig :: "nat option \<Rightarrow> unit res" where
  "verifyPrecisionConfig maybeArrayAttr =
     (case maybeArrayAttr of
        None \<Rightarrow> ok
      | Some n \<Rightarrow> require (n \<le> 2) (Fatal ''expects precision config to be empty or have <= 2 elements.'') ok)"

section \<open>Convolution\<close>

text \<open>The dimension numbers of a convolution.\<close>

record conv_numbers =
  inputBatchDimension :: int
  inputFeatureDimension :: int
  inputSpatialDimensions :: "int list"
  kernelInputFeatureDimension :: int
  kernelOutputFeatureDimension :: int
  kernelSpatialDimensions :: "int list"
  outputBatchDimension :: int
  outputFeatureDimension :: int
  outputSpatialDimensions :: "int list"

definition inputDimNums :: "conv_numbers \<Rightarrow> int list" where
  "inputDimNums n = inputBatchDimension n # inputFeatureDimension n # inputSpatialDimensions n"

definition windowDimNums :: "conv_numbers \<Rightarrow> int list" where
  "windowDimNums n = kernelInputFeatureDimension n # kernelOutputFeatureDimension n # kernelSpatialDimensions n"

definition outputDimNums :: "conv_numbers \<Rightarrow> int list" where
  "outputDimNums n = outputBatchDimension n # outputFeatureDimension n # outputSpatialDimensions n"

definition isSpatialDimensionsValid :: "ty \<Rightarrow> conv_numbers \<Rightarrow> unit res" where
  "isSpatialDimensionsValid lhsType n =
     (let spatialDimNum = length (inputSpatialDimensions n) in
      require (\<not> (spatialDimNum \<noteq> length (kernelSpatialDimensions n) \<or> spatialDimNum \<noteq> length (outputSpatialDimensions n)))
        (Fatal ''expects the same size for input, kernel and output spatial-dimensions'')
     (cast_ranked lhsType
       (let inRange = (\<lambda>i. 0 \<le> i \<and> i < rank lhsType) in
        require (\<not> (\<not> list_all inRange (inputDimNums n) \<or> \<not> list_all inRange (windowDimNums n) \<or>
            \<not> list_all inRange (outputDimNums n)))
          (Fatal ''expects input, kernel, and output dimension-numbers to be in-range'')
       (require (\<not> hasDuplicates (inputDimNums n)) (Fatal ''expects input dimension-numbers to be unique'')
       (require (\<not> hasDuplicates (windowDimNums n)) (Fatal ''expects kernel dimension-numbers to be unique'')
       (require (\<not> hasDuplicates (outputDimNums n)) (Fatal ''expects output dimension-numbers to be unique'') ok))))))"

definition verifyConvolutionAttributes :: "ty \<Rightarrow> ty \<Rightarrow> conv_numbers \<Rightarrow> int \<Rightarrow> int \<Rightarrow> nat option \<Rightarrow> unit res" where
  "verifyConvolutionAttributes lhsType rhsType n featureGroupCount batchGroupCount precisionConfig =
     bnd (isSpatialDimensionsValid lhsType n) (\<lambda>_.
     require (\<not> featureGroupCount \<le> 0) (Fatal ''expects feature_group_count to be a positive number'')
    (require (\<not> batchGroupCount \<le> 0) (Fatal ''expects batch_group_count to be a positive number'')
    (require (\<not> (batchGroupCount > 1 \<and> featureGroupCount > 1))
      (Fatal ''expects batch_group_count and feature_group_count not to be both greater than 1'')
    (bnd (at (shape_of lhsType) (inputFeatureDimension n)) (\<lambda>inputFeatures.
     bnd (at (shape_of lhsType) (inputBatchDimension n)) (\<lambda>inputBatch. cast_ranked rhsType
    (bnd (at (shape_of rhsType) (kernelInputFeatureDimension n)) (\<lambda>kernelInputFeatures.
     bnd (at (shape_of rhsType) (kernelOutputFeatureDimension n)) (\<lambda>kernelOutputFeatures.
     require (\<not> (\<not> isDynamicDimSize kernelOutputFeatures \<and> c_rem kernelOutputFeatures batchGroupCount \<noteq> 0))
      (Fatal ''expects output feature dimension size to be a multiple of batch_group_count'')
    (require (\<not> (\<not> isDynamicDimSize kernelOutputFeatures \<and> c_rem kernelOutputFeatures featureGroupCount \<noteq> 0))
      (Fatal ''expects kernel output feature dimension to be divisible by feature_group_count'')
    (require (\<not> (\<not> isDynamicDimSize inputFeatures \<and> c_rem inputFeatures featureGroupCount \<noteq> 0))
      (Fatal ''expects input feature dimension to be a multiple of feature_group_count'')
    (require (\<not> (\<not> isDynamicDimSize inputFeatures \<and> \<not> isDynamicDimSize kernelInputFeatures \<and>
         c_div inputFeatures featureGroupCount \<noteq> kernelInputFeatures))
      (Fatal ''expects input feature dimension / feature_group_count = kernel input feature dimension'')
    (require (\<not> (\<not> isDynamicDimSize inputBatch \<and> c_rem inputBatch batchGroupCount \<noteq> 0))
      (Fatal ''expects input batch dimension to be divisible by batch_group_count'')
    (verifyPrecisionConfig precisionConfig))))))))))))))"

definition inferConvolutionOp ::
  "ty \<Rightarrow> ty \<Rightarrow> dense_int option \<Rightarrow> dense_int option \<Rightarrow> dense_int option \<Rightarrow> dense_int option \<Rightarrow> dense_int option \<Rightarrow>
     conv_numbers \<Rightarrow> int \<Rightarrow> int \<Rightarrow> nat option \<Rightarrow> components res" where
  "inferConvolutionOp lhsType rhsType windowStrides padding lhsDilation rhsDilation windowReversal n
     featureGroupCount batchGroupCount precisionConfig =
     (if \<not> has_rank lhsType \<or> \<not> has_rank rhsType then Inr no_components
      else
       let numDims = rank lhsType in
       require (\<not> numDims \<noteq> rank rhsType)
         (Fatal ''expects convolution arguments to have same number of dimensions'')
      (require (\<not> numDims < 2) (Fatal ''expects convolution arguments to have >= 2 dimensions'')
      (bnd (verifyConvolutionAttributes lhsType rhsType n featureGroupCount batchGroupCount precisionConfig) (\<lambda>_.
       require (\<not> numDims \<noteq> int (length (inputSpatialDimensions n) + 2))
         (Fatal ''expects convolution arguments to have spatial + 2 dimensions'')
      (bnd (mapM (at (shape_of rhsType)) (kernelSpatialDimensions n)) (\<lambda>windowDimensions.
       bnd (convertPaddingAttribute padding) (\<lambda>padding'.
       bnd (convert1DAttribute windowStrides) (\<lambda>windowStrides'.
       bnd (convert1DAttribute lhsDilation) (\<lambda>lhsDilation'.
       bnd (convert1DAttribute rhsDilation) (\<lambda>rhsDilation'.
       bnd (convertWindowReversalAttribute windowReversal) (\<lambda>windowReversal'.
       bnd (verifyWindowAttributesAndInferWindowDimensions windowDimensions windowStrides' padding' lhsDilation'
              rhsDilation' windowReversal') (\<lambda>window.
       bnd (verifyPrecisionConfig precisionConfig) (\<lambda>_.
       bnd (mapM (at (shape_of lhsType)) (inputSpatialDimensions n)) (\<lambda>inputSpatialDimVals.
       bnd (inferWindowOutputShape inputSpatialDimVals window) (\<lambda>windowOutputShape.
       bnd (foldM (\<lambda>outputDimensions (d, v). put outputDimensions d v) (replicate (nat numDims) kDynamic)
              (zip (outputSpatialDimensions n) windowOutputShape)) (\<lambda>outputDimensions.
       bnd (at (shape_of lhsType) (inputBatchDimension n)) (\<lambda>inputBatch.
       bnd (at (shape_of rhsType) (kernelOutputFeatureDimension n)) (\<lambda>kernelOutputFeatures.
       bnd (put outputDimensions (outputBatchDimension n)
              (if isDynamicDimSize inputBatch then kDynamic else c_div inputBatch batchGroupCount)) (\<lambda>outputDimensions.
       bnd (put outputDimensions (outputFeatureDimension n) kernelOutputFeatures) (\<lambda>outputDimensions.
       Inr (shape_only outputDimensions)))))))))))))))))))))"

definition verifyConvolutionOp ::
  "ty \<Rightarrow> ty \<Rightarrow> dense_int option \<Rightarrow> dense_int option \<Rightarrow> dense_int option \<Rightarrow> dense_int option \<Rightarrow> dense_int option \<Rightarrow>
     conv_numbers \<Rightarrow> int \<Rightarrow> int \<Rightarrow> nat option \<Rightarrow> ty \<Rightarrow> unit res" where
  "verifyConvolutionOp lhsType rhsType windowStrides padding lhsDilation rhsDilation windowReversal n
     featureGroupCount batchGroupCount precisionConfig resultType =
     bnd (inferConvolutionOp lhsType rhsType windowStrides padding lhsDilation rhsDilation windowReversal n
            featureGroupCount batchGroupCount precisionConfig) (\<lambda>inferredShape.
       verify_inferred_shape inferredShape resultType)"

section \<open>Dot products\<close>

definition inferDotOp :: "ty \<Rightarrow> ty \<Rightarrow> nat option \<Rightarrow> components res" where
  "inferDotOp lhsType rhsType precisionConfig =
     bnd (verifyPrecisionConfig precisionConfig) (\<lambda>_.
     if \<not> has_rank lhsType \<or> \<not> has_rank rhsType then Inr no_components
     else (case (shape_of lhsType, shape_of rhsType) of
         ([k], [k']) \<Rightarrow>
           if verifyCompatibleDims k k' then Inr (shape_only [])
           else fail ''expected both lhs/rhs ranks to be either 1 or 2''
       | ([m, k], [k']) \<Rightarrow>
           if verifyCompatibleDims k k' then Inr (shape_only [m])
           else fail ''expected both lhs/rhs ranks to be either 1 or 2''
       | ([k], [k', n]) \<Rightarrow>
           if verifyCompatibleDims k k' then Inr (shape_only [n])
           else fail ''expected both lhs/rhs ranks to be either 1 or 2''
       | ([m, k], [k', n]) \<Rightarrow>
           if verifyCompatibleDims k k' then Inr (shape_only [m, n])
           else fail ''expected both lhs/rhs ranks to be either 1 or 2''
       | _ \<Rightarrow> fail ''expected both lhs/rhs ranks to be either 1 or 2''))"

definition verifyDotOp :: "ty \<Rightarrow> ty \<Rightarrow> nat option \<Rightarrow> ty \<Rightarrow> unit res" where
  "verifyDotOp lhs rhs precisionConfig result =
     bnd (inferDotOp lhs rhs precisionConfig) (\<lambda>inferredShape. verify_inferred_shape inferredShape result)"

text \<open>The lambda functions of \<open>inferDotGeneralOp\<close>.\<close>

definition checkDimsDistinct :: "int list \<Rightarrow> int list \<Rightarrow> int list res" where
  "checkDimsDistinct batchingDims contractingDims =
     foldM (\<lambda>dimSet dim. require (dim \<notin> set dimSet) (Fatal ''has duplicated dimension'') (Inr (dim # dimSet))) []
       (batchingDims @ contractingDims)"

definition checkDimsInRange :: "int \<Rightarrow> int list \<Rightarrow> unit res" where
  "checkDimsInRange rank' dims =
     require (list_all (\<lambda>i. 0 \<le> i \<and> i < rank') dims) (Fatal ''dimension value is out of range'') ok"

definition check_dim_sizes :: "int list \<Rightarrow> int list \<Rightarrow> string \<Rightarrow> (int \<times> int) list \<Rightarrow> unit res" where
  "check_dim_sizes lhsShape rhsShape msg dims =
     foldM (\<lambda>_ (lhs, rhs). bnd (at lhsShape lhs) (\<lambda>l. bnd (at rhsShape rhs) (\<lambda>r.
       require (verifyCompatibleDims l r) (Fatal msg) ok))) () dims"

definition free_dims :: "int list \<Rightarrow> int list \<Rightarrow> int list \<Rightarrow> int list" where
  "free_dims shape batching contracting =
     map snd (filter (\<lambda>(i, d). i \<notin> set batching \<and> i \<notin> set contracting) (zip [0..int (length shape) - 1] shape))"

definition inferDotGeneralOp ::
  "ty \<Rightarrow> ty \<Rightarrow> int list \<Rightarrow> int list \<Rightarrow> int list \<Rightarrow> int list \<Rightarrow> nat option \<Rightarrow> components res" where
  "inferDotGeneralOp lhsType rhsType lhsBatching rhsBatching lhsContracting rhsContracting precisionConfig =
     bnd (verifyPrecisionConfig precisionConfig) (\<lambda>_.
     require (\<not> length lhsBatching \<noteq> length rhsBatching)
       (Fatal ''lhs and rhs should have the same number of batching dimensions'')
    (require (\<not> length lhsContracting \<noteq> length rhsContracting)
       (Fatal ''lhs and rhs should have the same number of contracting dimensions'')
    (bnd (checkDimsDistinct lhsBatching lhsContracting) (\<lambda>_.
     bnd (checkDimsDistinct rhsBatching rhsContracting) (\<lambda>_.
     bnd (if has_rank lhsType then
            bnd (checkDimsInRange (rank lhsType) lhsBatching) (\<lambda>_. checkDimsInRange (rank lhsType) lhsContracting)
          else ok) (\<lambda>_.
     bnd (if has_rank rhsType then
            bnd (checkDimsInRange (rank rhsType) rhsBatching) (\<lambda>_. checkDimsInRange (rank rhsType) rhsContracting)
          else ok) (\<lambda>_.
     let lhsShape = shape_of lhsType; rhsShape = shape_of rhsType in
     bnd (if has_rank lhsType \<and> has_rank rhsType then
            bnd (check_dim_sizes lhsShape rhsShape ''batching dimension sizes must match for lhs/rhs''
                   (zip lhsBatching rhsBatching)) (\<lambda>_.
            check_dim_sizes lhsShape rhsShape ''contracting dimension sizes must match for lhs/rhs''
              (zip lhsContracting rhsContracting))
          else ok) (\<lambda>_.
     if \<not> has_rank lhsType \<or> \<not> has_rank rhsType then Inr no_components
     else bnd (mapM (at lhsShape) lhsBatching) (\<lambda>batchDims.
       Inr (shape_only (batchDims @ free_dims lhsShape lhsBatching lhsContracting @
              free_dims rhsShape rhsBatching rhsContracting)))))))))))"

definition verifyDotGeneralOp ::
  "ty \<Rightarrow> ty \<Rightarrow> int list \<Rightarrow> int list \<Rightarrow> int list \<Rightarrow> int list \<Rightarrow> nat option \<Rightarrow> ty \<Rightarrow> unit res" where
  "verifyDotGeneralOp lhs rhs lhsBatching rhsBatching lhsContracting rhsContracting precisionConfig result =
     bnd (inferDotGeneralOp lhs rhs lhsBatching rhsBatching lhsContracting rhsContracting precisionConfig)
       (\<lambda>inferredShape. verify_inferred_shape inferredShape result)"

end
