(* ===== verification/GatherInference.thy ===== *)
theory GatherInference
  imports DotConvInference
begin

text \<open>
  \<open>stablehlo/dialect/TypeInference.cpp\<close>: the dimension numbers of gathers and scatters, the shape of
  a gather, the verifiers of \<open>scatter\<close> and \<open>select_and_scatter\<close>. A \<open>ShapeAdaptor\<close> is the type it
  adapts.
\<close>

section \<open>Gather\<close>

text \<open>\<open>hasStaticShape\<close>: ranked, with no dynamic dimension.\<close>

definition hasStaticShape :: "ty \<Rightarrow> bool" where
  "hasStaticShape t \<longleftrightarrow> has_rank t \<and> list_all isStaticDimSize (shape_of t)"

definition verifyGather :: "ty \<Rightarrow> ty \<Rightarrow> ty \<Rightarrow> int list \<Rightarrow> int list \<Rightarrow> int list \<Rightarrow> int \<Rightarrow> unit res" where
  "verifyGather operandShape startIndicesShape sliceSizesShape offsetDims collapsedSliceDims startIndexMap indexVectorDim =
     require (\<not> hasDuplicates startIndexMap) (Fatal ''expects start_index_map to not repeat'')
    (require (list_all (\<lambda>d. \<not> (d < 0 \<or> has_rank operandShape \<and> d \<ge> rank operandShape)) startIndexMap)
      (if has_rank operandShape then Fatal ''start_index_map is out of bounds for operand rank'' else Undefined)
    (bnd (if has_rank startIndicesShape then
            require (\<not> (indexVectorDim > rank startIndicesShape \<or> indexVectorDim < 0))
              (Fatal ''index_vector_dim is out of bounds for start indices'')
             (let impliedTrailingDim = (indexVectorDim = rank startIndicesShape) in
              bnd (if impliedTrailingDim then Inr 1 else at (shape_of startIndicesShape) indexVectorDim) (\<lambda>effectiveDimSize.
              require (\<not> ((impliedTrailingDim \<or> \<not> isDynamicDimSize effectiveDimSize) \<and>
                  effectiveDimSize \<noteq> int (length startIndexMap)))
                (Fatal ''start_index_map size is not equal to size of index dimension'') ok))
          else ok) (\<lambda>_.
     require (sorted offsetDims) (Fatal ''expects offset_dims to be sorted'')
    (require (\<not> hasDuplicates offsetDims) (Fatal ''expects offset_dims to not repeat'')
    (require (sorted collapsedSliceDims) (Fatal ''expects collapsed_slice_dims to be sorted'')
    (require (\<not> hasDuplicates collapsedSliceDims) (Fatal ''expects collapsed_slice_dims to not repeat'')
    (let impliedOperandRank = int (length offsetDims + length collapsedSliceDims) in
     require (\<not> (has_rank operandShape \<and> rank operandShape \<noteq> impliedOperandRank))
       (Fatal ''offset_dims size plus collapse_slice_dims size is not equal to operand rank'')
    (require (\<not> (has_rank sliceSizesShape \<and> rank sliceSizesShape \<noteq> 1)) (Fatal ''slice_sizes.rank != 1'')
    (if hasStaticShape sliceSizesShape then
       let sliceSize = num_elements (shape_of sliceSizesShape) in
       require (\<not> sliceSize \<noteq> impliedOperandRank) (Fatal ''slice_sizes size not equal to (implied) operand rank'')
      (require (list_all (\<lambda>dim. \<not> (dim < 0 \<or> dim \<ge> sliceSize)) collapsedSliceDims)
        (Fatal ''collapsed dimension is out of bounds for slice_sizes.size'') ok)
     else ok)))))))))"

text \<open>The index of the first occurrence of \<open>x\<close> (\<open>std::find\<close> and \<open>std::distance\<close>).\<close>

definition position :: "int \<Rightarrow> int list \<Rightarrow> int" where
  "position x xs = int (length (takeWhile (\<lambda>y. y \<noteq> x) xs))"

definition maxCollapsedDim :: "int list \<Rightarrow> int" where
  "maxCollapsedDim collapsedSliceDims = fold max collapsedSliceDims (- 1)"

definition getAdjustedSliceDim :: "(int \<Rightarrow> 'a res) \<Rightarrow> int list \<Rightarrow> 'a list \<Rightarrow> int \<Rightarrow> 'a res" where
  "getAdjustedSliceDim getSliceDim collapsedSliceDims adjustedSliceSizePrefix index =
     (if index < int (length adjustedSliceSizePrefix) then at adjustedSliceSizePrefix index
      else getSliceDim (index + int (length collapsedSliceDims)))"

definition inferGatherShape ::
  "int \<Rightarrow> (int \<Rightarrow> 'a res) \<Rightarrow> (int \<Rightarrow> 'a res) \<Rightarrow> int list \<Rightarrow> int list \<Rightarrow> int \<Rightarrow> 'a list res" where
  "inferGatherShape resultRank getStartIndicesDim getSliceDim offsetDims collapsedSliceDims indexVectorDim =
     bnd (mapM getSliceDim (filter (\<lambda>dimIndex. dimIndex \<notin> set collapsedSliceDims)
            [0..maxCollapsedDim collapsedSliceDims])) (\<lambda>adjustedSliceSizePrefix.
     let batchDims = filter (\<lambda>dim. dim \<notin> set offsetDims) [0..resultRank - 1] in
     mapM (\<lambda>i.
         if i \<in> set offsetDims
         then getAdjustedSliceDim getSliceDim collapsedSliceDims adjustedSliceSizePrefix (position i offsetDims)
         else let index = position i batchDims in
              getStartIndicesDim (if index \<ge> indexVectorDim then index + 1 else index))
       [0..resultRank - 1])"

text \<open>The loop that propagates the bounds of the start indices; its state is \<open>inferredBounds\<close> and
  \<open>startIndicesDim\<close>.\<close>

definition gather_bounds :: "int list \<Rightarrow> int list \<Rightarrow> int \<Rightarrow> int \<Rightarrow> int list res" where
  "gather_bounds startIndicesBounds offsetDims indexVectorDim resultRank =
     (let inferredBounds = replicate (nat resultRank) kDynamic in
      if startIndicesBounds = [] then Inr inferredBounds
      else bnd (foldM (\<lambda>(inferredBounds, startIndicesDim) resultDim.
                  if resultDim \<in> set offsetDims then Inr (inferredBounds, startIndicesDim)
                  else let startIndicesDim = (if startIndicesDim = indexVectorDim then startIndicesDim + 1 else startIndicesDim) in
                       bnd (at startIndicesBounds startIndicesDim) (\<lambda>b.
                       bnd (put inferredBounds resultDim b) (\<lambda>inferredBounds.
                       Inr (inferredBounds, startIndicesDim + 1))))
                (inferredBounds, 0) [0..resultRank - 1]) (\<lambda>(inferredBounds, _). Inr inferredBounds))"

definition inferGatherReturnTypeComponents ::
  "ty \<Rightarrow> ty \<Rightarrow> (int \<Rightarrow> int res) \<Rightarrow> int list \<Rightarrow> int list \<Rightarrow> int \<Rightarrow> components res" where
  "inferGatherReturnTypeComponents operandShape startIndices getSliceDim offsetDims collapsedSliceDims indexVectorDim =
     (let elementType = element_type operandShape in
      if \<not> has_rank startIndices then Inr (unranked elementType)
      else
       let startIndicesRank = (if indexVectorDim = rank startIndices then rank startIndices + 1 else rank startIndices);
           resultRank = int (length offsetDims) + startIndicesRank - 1 in
       require (list_all (\<lambda>d. \<not> (d < 0 \<or> d \<ge> resultRank)) offsetDims)
         (Fatal ''offset_dims is out of bounds for implied result rank'')
      (bnd (inferGatherShape resultRank (at (shape_of startIndices)) getSliceDim offsetDims collapsedSliceDims
              indexVectorDim) (\<lambda>shape.
       bnd (gather_bounds (encodingToBounds (encoding_of startIndices)) offsetDims indexVectorDim resultRank)
         (\<lambda>inferredBounds.
       bnd (boundsToEncoding (encoding_of startIndices) inferredBounds) (\<lambda>enc.
       Inr (ranked shape elementType enc))))))"

definition inferDynamicGatherOp ::
  "ty \<Rightarrow> ty \<Rightarrow> operand \<Rightarrow> int list \<Rightarrow> int list \<Rightarrow> int list \<Rightarrow> int \<Rightarrow> components res" where
  "inferDynamicGatherOp operand' startIndices sliceSizes offsetDims collapsedSliceDims startIndexMap indexVectorDim =
     bnd (verifyGather operand' startIndices (o_type sliceSizes) offsetDims collapsedSliceDims startIndexMap indexVectorDim)
       (\<lambda>_.
     inferGatherReturnTypeComponents operand' startIndices
       (\<lambda>index. case o_const sliceSizes of None \<Rightarrow> Inr kDynamic | Some attr \<Rightarrow> at (di_values attr) index)
       offsetDims collapsedSliceDims indexVectorDim)"

definition attr_type :: "dense_int \<Rightarrow> ty" where
  "attr_type attr = RankedTensorType (di_shape attr) (di_elem attr) NoEncoding"

definition inferGatherOp ::
  "ty \<Rightarrow> ty \<Rightarrow> int list \<Rightarrow> int list \<Rightarrow> int list \<Rightarrow> int \<Rightarrow> dense_int \<Rightarrow> components res" where
  "inferGatherOp operand' startIndices offsetDims collapsedSliceDims startIndexMap indexVectorDim sliceSizes =
     bnd (verifyGather operand' startIndices (attr_type sliceSizes) offsetDims collapsedSliceDims startIndexMap
            indexVectorDim) (\<lambda>_.
     bnd (foldM (\<lambda>_ dim. bnd (at (di_values sliceSizes) dim) (\<lambda>sliceDimSize.
            require (\<not> sliceDimSize > 1) (Fatal ''slice_sizes collapsed dimension should <= 1'') ok)) ()
            collapsedSliceDims) (\<lambda>_.
     bnd (if has_rank operand' then
            foldM (\<lambda>_ (index, sliceDimSize). bnd (at (shape_of operand') index) (\<lambda>operandDimSize.
              require (\<not> (\<not> isDynamicDimSize operandDimSize \<and> (sliceDimSize < 0 \<or> sliceDimSize > operandDimSize)))
                (Fatal ''slice size is out of bounds for operand dimension'') ok)) ()
              (zip [0..int (length (di_values sliceSizes)) - 1] (di_values sliceSizes))
          else ok) (\<lambda>_.
     inferGatherReturnTypeComponents operand' startIndices (at (di_values sliceSizes)) offsetDims collapsedSliceDims
       indexVectorDim)))"

section \<open>Scatter\<close>

definition validateScatterDimensionNumbers ::
  "ty \<Rightarrow> int list \<Rightarrow> ty \<Rightarrow> bool \<Rightarrow> int list \<Rightarrow> int list \<Rightarrow> int list \<Rightarrow> int \<Rightarrow> unit res" where
  "validateScatterDimensionNumbers operandType scatterIndicesShape updateType scatterIndicesTypeRanked
     updateWindowDims insertedWindowDims scatterDimsToOperandDims indexVectorDim =
     require (sorted updateWindowDims) (Fatal ''Expects update_window_dims to be sorted'')
    (require (\<not> hasDuplicates updateWindowDims) (Fatal ''Expects update_window_dims to not repeat'')
    (require (has_rank updateType \<longrightarrow> list_all (\<lambda>d. \<not> (d < 0 \<or> d \<ge> rank updateType)) updateWindowDims)
      (Fatal ''Expects each element of update_window_dims to be in range'')
    (require (sorted insertedWindowDims) (Fatal ''Expects inserted_window_dims to be sorted'')
    (require (\<not> hasDuplicates insertedWindowDims) (Fatal ''Expects inserted_window_dims to not repeat'')
    (require (has_rank operandType \<longrightarrow> list_all (\<lambda>d. \<not> (d < 0 \<or> d \<ge> rank operandType)) insertedWindowDims)
      (Fatal ''Expects each element of inserted_window_dims to be in range'')
    (require (\<not> (has_rank operandType \<and> rank operandType \<noteq> int (length updateWindowDims + length insertedWindowDims)))
      (Fatal ''Expects rank-of operand to match size-of update_window_dims + size-of inserted_window_dims'')
    (bnd (if scatterIndicesTypeRanked then
            bnd (at scatterIndicesShape indexVectorDim) (\<lambda>d.
              require (\<not> (\<not> isDynamicDimSize d \<and> int (length scatterDimsToOperandDims) \<noteq> d))
                (Fatal ''scatter_dims_to_operand_dims and the bound of dimension index_vector_dim must be equal'') ok)
          else ok) (\<lambda>_.
     require (has_rank operandType \<longrightarrow> list_all (\<lambda>d. \<not> (d < 0 \<or> d \<ge> rank operandType)) scatterDimsToOperandDims)
      (Fatal ''Invalid scatter_dims_to_operand_dims mapping'')
    (require (\<not> hasDuplicates scatterDimsToOperandDims)
      (Fatal ''Expects scatter_dims_to_operand_dims to not repeat'') ok)))))))))"

text \<open>\<open>maxUpdateSliceSizes\<close>: the sizes of the dimensions from \<open>i\<close> on that are not inserted ones.\<close>

fun maxUpdateSliceSizes :: "int \<Rightarrow> int list \<Rightarrow> int list \<Rightarrow> int list" where
  "maxUpdateSliceSizes i operandShape [] = operandShape"
| "maxUpdateSliceSizes i [] insertedWindowDims = []"
| "maxUpdateSliceSizes i (d # operandShape) (w # insertedWindowDims) =
     (if w = i then maxUpdateSliceSizes (i + 1) operandShape insertedWindowDims
      else d # maxUpdateSliceSizes (i + 1) operandShape (w # insertedWindowDims))"

definition verify_update_windows :: "int list \<Rightarrow> int list \<Rightarrow> int list \<Rightarrow> int list \<Rightarrow> unit res" where
  "verify_update_windows operandShape updatesShape updateWindowDims insertedWindowDims =
     (let maxSizes = maxUpdateSliceSizes 0 operandShape insertedWindowDims in
      foldM (\<lambda>_ (i, updateWindowDim). bnd (at updatesShape updateWindowDim) (\<lambda>u.
          if isDynamicDimSize u then ok
          else bnd (at maxSizes i) (\<lambda>m.
            require (\<not> (\<not> isDynamicDimSize m \<and> u > m))
              (Fatal ''expects bounds of the window dimensions of updates to not exceed the bounds of operand'') ok))) ()
        (zip [0..int (length updateWindowDims) - 1] updateWindowDims))"

definition verify_update_scatter_dims :: "int list \<Rightarrow> int list \<Rightarrow> int list \<Rightarrow> int \<Rightarrow> unit res" where
  "verify_update_scatter_dims expandedScatterIndicesShape updatesShape updateWindowDims indexVectorDim =
     bnd (foldM (\<lambda>scatterDimsSeen (i, u).
         if i \<in> set updateWindowDims then Inr scatterDimsSeen
         else let scatterDimsSeen = (if scatterDimsSeen = indexVectorDim then scatterDimsSeen + 1 else scatterDimsSeen) in
           bnd (at expandedScatterIndicesShape scatterDimsSeen) (\<lambda>s.
             require (verifyCompatibleDims u s)
               (Fatal ''expects bounds of the scatter dimensions of updates to be same as those of scatter indices'')
               (Inr (scatterDimsSeen + 1)))) 0 (zip [0..int (length updatesShape) - 1] updatesShape)) (\<lambda>_. ok)"

definition expanded_indices_shape :: "ty \<Rightarrow> int \<Rightarrow> int list" where
  "expanded_indices_shape scatterIndicesType indexVectorDim =
     (if has_rank scatterIndicesType
      then shape_of scatterIndicesType @ (if rank scatterIndicesType = indexVectorDim then [1] else [])
      else [])"

definition verifyScatterOp ::
  "ty list \<Rightarrow> ty \<Rightarrow> ty list \<Rightarrow> int list \<Rightarrow> int list \<Rightarrow> int list \<Rightarrow> int \<Rightarrow> block \<Rightarrow> unit res" where
  "verifyScatterOp operandTypes scatterIndicesType updatesTypes updateWindowDims insertedWindowDims
     scatterDimsToOperandDims indexVectorDim block =
     cast_shaped scatterIndicesType
    (require (list_all is_shaped operandTypes \<and> list_all is_shaped updatesTypes) Undefined
      (let scatterIndicesTypeRanked = has_rank scatterIndicesType;
           expandedShape = expanded_indices_shape scatterIndicesType indexVectorDim in
       require (\<not> (scatterIndicesTypeRanked \<and> (indexVectorDim > rank scatterIndicesType \<or> indexVectorDim < 0)))
         (Fatal ''expects scatter index leaf dimension to be within [0, rank(scatter_indices) + 1'')
      (bnd (mapM (\<lambda>i. bnd (at updatesTypes (int i)) (\<lambda>u. Inr (RankedTensorType [] (element_type u) NoEncoding)))
              [0..<length operandTypes]) (\<lambda>initValueTypes.
       bnd (verifyReducerShape block operandTypes initValueTypes (length operandTypes) []
              (\<not> list_all has_rank operandTypes)) (\<lambda>_.
       let pairs = zip operandTypes updatesTypes in
       require (list_all (\<lambda>(t, u). \<not> (scatterIndicesTypeRanked \<and> has_rank u \<and>
            rank u \<noteq> int (length expandedShape) - 1 + int (length updateWindowDims))) pairs)
         (Fatal ''expects updates tensor must be of rank rank-of scatter_indices - 1 + size-of update_window_dims'')
      (bnd (foldM (\<lambda>_ (t, u). validateScatterDimensionNumbers t expandedShape u scatterIndicesTypeRanked
              updateWindowDims insertedWindowDims scatterDimsToOperandDims indexVectorDim) () pairs) (\<lambda>_.
       foldM (\<lambda>_ (t, u).
           if \<not> has_rank u then ok
           else bnd (if has_rank t then
                       verify_update_windows (shape_of t) (shape_of u) updateWindowDims insertedWindowDims
                     else ok) (\<lambda>_.
                if scatterIndicesTypeRanked
                then verify_update_scatter_dims expandedShape (shape_of u) updateWindowDims indexVectorDim
                else ok)) () pairs)))))))"

section \<open>Select and scatter\<close>

definition inferSelectAndScatterOp :: "ty \<Rightarrow> ty res" where
  "inferSelectAndScatterOp operand' = Inr operand'"

definition verifySelectAndScatterOp ::
  "ty \<Rightarrow> ty \<Rightarrow> ty \<Rightarrow> dense_int option \<Rightarrow> dense_int option \<Rightarrow> dense_int option \<Rightarrow> block \<Rightarrow> block \<Rightarrow> unit res" where
  "verifySelectAndScatterOp operandType sourceType initValueType windowDimensions windowStrides padding select scatter =
     cast_shaped operandType (cast_shaped initValueType (cast_shaped sourceType
    (require (\<not> length (b_args select) \<noteq> 2) (Fatal ''expects the select-region to take 2 parameters'')
    (require (list_all (\<lambda>arg. compatibleShapeAndElementType (RankedTensorType [] (element_type operandType) NoEncoding) arg True)
        (b_args select))
      (Fatal ''expects the type of select-region's parameter'')
    (require (\<not> length (b_ret select) \<noteq> 1) (Fatal ''expects select-region to return single value'')
    (bnd (at (b_ret select) 0) (\<lambda>selectResultType.
     require (\<not> (\<not> is_shaped selectResultType \<or> \<not> is_i1 (element_type selectResultType) \<or>
         has_rank selectResultType \<and> rank selectResultType \<noteq> 0))
      (Fatal ''expects the return-type of select-region to be tensor<i1>'')
    (bnd (verifyReducerShape scatter [RankedTensorType [] (element_type sourceType) NoEncoding] [initValueType] 1 [] False)
      (\<lambda>_.
     bnd (convert1DAttribute windowDimensions) (\<lambda>windowDims.
     require (\<not> (has_rank operandType \<and> rank operandType \<noteq> int (length windowDims)))
      (Fatal ''expects window-dimensions size == operand rank'')
    (bnd (convertPaddingAttribute padding) (\<lambda>padding'.
     bnd (convert1DAttribute windowStrides) (\<lambda>windowStrides'.
     bnd (verifyWindowAttributesAndInferWindowDimensions windowDims windowStrides' padding' [] [] []) (\<lambda>window.
     bnd (if \<not> has_rank operandType then Inr (UnrankedTensorType (element_type operandType))
          else bnd (inferWindowOutputShape (shape_of operandType) window) (\<lambda>shape.
            Inr (RankedTensorType shape (element_type operandType) NoEncoding))) (\<lambda>windowResultType.
     require (compatibleShapeAndElementType windowResultType sourceType True)
      (Fatal ''expects source-type to be the window result type'') ok)))))))))))))))"

end
