(* ===== verification/MiscInference.thy ===== *)
theory MiscInference
  imports GatherInference Element
begin

text \<open>
  \<open>stablehlo/dialect/TypeInference.cpp\<close>: inference and verification of the remaining operations:
  Fourier transforms, \<open>map\<close>, triangular solves, tuples, tokens, quantisation, bitcasts, the
  operations on dynamic shapes, infeed and receive.
\<close>

section \<open>Tokens, tuples and pass-through\<close>

definition inferCreateTokenOp :: "ty res" where
  "inferCreateTokenOp = Inr TokenType"

definition inferOutfeedOp :: "ty res" where
  "inferOutfeedOp = Inr TokenType"

definition inferSendOp :: "ty res" where
  "inferSendOp = Inr TokenType"

definition inferTupleOp :: "ty list \<Rightarrow> ty res" where
  "inferTupleOp val = Inr (TupleType val)"

definition inferGetTupleElementOp :: "ty \<Rightarrow> int \<Rightarrow> ty res" where
  "inferGetTupleElementOp operand' index =
     (case operand' of
        TupleType ts \<Rightarrow>
          require (\<not> (index < 0 \<or> index \<ge> int (length ts)))
            (Fatal ''index is out of bounds of operand'') (at ts index)
      | _ \<Rightarrow> fail ''not a tuple'')"

definition inferOptimizationBarrierOp :: "ty list \<Rightarrow> ty list res" where
  "inferOptimizationBarrierOp operand' = Inr operand'"

text \<open>The type of a token is the last of the results.\<close>

definition verifyRecvOp :: "ty list \<Rightarrow> unit res" where
  "verifyRecvOp resultTypes =
     require (resultTypes \<noteq> []) (Fatal ''result is expected to be at least of size 1'')
    (require (last resultTypes = TokenType) (Fatal ''last element of result types is expected to be of token type'') ok)"

text \<open>
  A layout attribute: absent, null, or an array. A child of the array is \<open>None\<close> where it is no
  array itself, and otherwise says of each leaf whether it is an integer attribute.
\<close>

type_synonym layout = "bool list option list option option"

definition verifyInfeedOp :: "layout \<Rightarrow> ty list \<Rightarrow> unit res" where
  "verifyInfeedOp layout resultTypes =
     require (resultTypes \<noteq> []) (Fatal ''result is expected to be at least of size 1'')
    (require (last resultTypes = TokenType) (Fatal ''last element of result types is expected to be of token type'')
    (case layout of
       None \<Rightarrow> ok
     | Some None \<Rightarrow> fail ''layout-attribute expected to be of array-type.''
     | Some (Some children) \<Rightarrow>
         require (\<not> length children \<noteq> length resultTypes - 1) (Fatal ''layout-attribute size must be op-results - 1'')
           (foldM (\<lambda>_ childLayout.
              case childLayout of
                None \<Rightarrow> fail ''layout-attribute expected to have elements of type array''
              | Some leaves \<Rightarrow> require (list_all id leaves)
                  (Fatal ''layout-attribute's leaf elements are expected to be of type integer'') ok) () children)))"

section \<open>Fourier transforms\<close>

definition inferFftOp :: "ty \<Rightarrow> bool \<Rightarrow> bool \<Rightarrow> dense_int \<Rightarrow> components res" where
  "inferFftOp operandType isFftTypeRfft isFftTypeIrfft fftLength =
     (let fftLengthValues = di_values fftLength; fftRank = length fftLengthValues; elt = element_type operandType in
      require (\<not> (fftRank > 3 \<or> fftRank < 1)) (Fatal ''rank must be between 1 and 3'')
     (cast_shaped operandType
     (require (isFftTypeRfft \<longrightarrow> elt = FloatType F32 \<or> elt = FloatType F64) (Fatal ''RFFT requires f32 or f64 input type'')
     (require (\<not> isFftTypeRfft \<longrightarrow> is_complex elt) (Fatal ''FFT/IFFT/IRFFT take a complex tensor as input'')
     (let resultElementType = (if isFftTypeRfft then ComplexType elt
                               else if isFftTypeIrfft then (case elt of ComplexType et \<Rightarrow> et | _ \<Rightarrow> elt) else elt);
          operandShape = shape_of operandType; n = length operandShape; len = fftLengthValues ! (fftRank - 1) in
      if \<not> has_rank operandType then Inr (unranked resultElementType)
      else
       require (\<not> n < fftRank) (Fatal ''operand rank must not be less than fft rank'')
      (let shapeBack = drop (n - fftRank) operandShape in
       require (isFftTypeRfft \<longrightarrow> list_all (\<lambda>(operandDim, fftDim). verifyCompatibleDims operandDim fftDim)
           (zip shapeBack fftLengthValues))
         (Fatal ''RFFT requires innermost dimensions to be compatible with fft_length'')
      (let shape1 = (if isFftTypeRfft \<and> len \<noteq> 0 then operandShape[n - 1 := c_div len 2 + 1] else operandShape) in
       require (isFftTypeIrfft \<longrightarrow> list_all (\<lambda>(operandDim, fftDim). verifyCompatibleDims operandDim fftDim)
           (zip (butlast shapeBack) fftLengthValues))
         (Fatal ''IRFFT requires non-final dimensions to be compatible with fft_length'')
      (require (\<not> (isFftTypeIrfft \<and> (\<not> verifyCompatibleDims (operandShape ! (n - 1)) 0 \<or> len \<noteq> 0) \<and>
           \<not> verifyCompatibleDims (operandShape ! (n - 1)) (c_div len 2 + 1)))
         (Fatal ''IRFFT requires innermost dimension to be compatible with fft_length[-1]/2+1'')
      (let shape2 = (if isFftTypeIrfft then shape1[n - 1 := len] else shape1);
           bounds = encodingToBounds (encoding_of operandType);
           resultBounds = (if (isFftTypeIrfft \<or> isFftTypeRfft) \<and> bounds \<noteq> []
                           then bounds[length bounds - 1 := kDynamic] else bounds) in
       bnd (boundsToEncoding (encoding_of operandType) resultBounds) (\<lambda>enc.
       Inr (ranked shape2 resultElementType enc)))))))))))"

section \<open>Map and triangular solve\<close>

definition inferMapOp :: "ty list \<Rightarrow> dense_int \<Rightarrow> block option \<Rightarrow> components res" where
  "inferMapOp inputs dimensions computation =
     require (\<not> length (di_shape dimensions) \<noteq> 1) (Fatal ''dimensions should be rank 1'')
    (bnd (verifyRegionNotEmpty computation) (\<lambda>_.
     let block = the computation in
     require (\<not> length inputs \<noteq> length (b_args block))
       (Fatal ''expects number of operands to match the arity of map computation'')
    (bnd (foldM (\<lambda>_ (argType, input).
            require (\<not> (\<not> has_rank argType \<or> rank argType \<noteq> 0)) (Fatal ''computation arguments must be 0-rank tensor'')
           (cast_shaped input
           (require (\<not> element_type argType \<noteq> element_type input)
             (Fatal ''element type of operands and computation arguments must match'') ok))) ()
          (zip (b_args block) inputs)) (\<lambda>_.
     require (\<not> length (b_ret block) \<noteq> 1) (Fatal ''computation must return single output'')
    (bnd (at (b_ret block) 0) (\<lambda>computationOutputType.
     require (\<not> (\<not> has_rank computationOutputType \<or> rank computationOutputType \<noteq> 0))
       (Fatal ''computation must return 0-rank tensor'')
    (require (list_all (\<lambda>(i, v). \<not> v \<noteq> i) (zip [0..int (length (di_values dimensions)) - 1] (di_values dimensions)))
       (Fatal ''requires monotonically increasing dimension numbers'')
    (bnd (foldM (\<lambda>resultShape operandType. cast_shaped operandType
            (if has_rank operandType then
               require (\<not> length (di_values dimensions) \<noteq> length (shape_of operandType))
                 (Fatal ''applied to a subset of dimensions currently not supported'')
                 (Inr (Some (shape_of operandType)))
             else Inr resultShape)) None inputs) (\<lambda>resultShape.
     case resultShape of
       None \<Rightarrow> Inr (unranked (element_type computationOutputType))
     | Some shape \<Rightarrow> Inr (ranked shape (element_type computationOutputType) NoEncoding))))))))))"

definition inferTriangularSolveOp :: "ty \<Rightarrow> ty \<Rightarrow> bool \<Rightarrow> bool \<Rightarrow> components res" where
  "inferTriangularSolveOp aType bType leftSide isTransposeAInvalid = cast_shaped aType
     (let elementType = element_type aType; a = shape_of aType; b = shape_of bType; aRank = length a; bRank = length b in
      if \<not> has_rank aType then Inr (unranked elementType)
      else
       require (\<not> aRank < 2) (Fatal ''operand 'a' must have rank >= 2'')
      (require (verifyCompatibleDims (a ! (aRank - 2)) (a ! (aRank - 1)))
        (Fatal ''two minor dimensions of operand 'a' must be compatible'')
      (if \<not> has_rank bType then Inr (unranked elementType)
       else
        require (\<not> aRank \<noteq> bRank) (Fatal ''operands must have equal rank'')
       (require (verifyCompatibleDims (a ! (aRank - 1)) (b ! (bRank - (if leftSide then 2 else 1))))
         (Fatal ''shared dimension of operands 'a' and 'b' must be compatible'')
       (require (compatible_dims (take (aRank - 2) a) (take (bRank - 2) b))
         (Fatal ''batch dimensions of the operands must be compatible'')
       (require (\<not> isTransposeAInvalid) (Fatal ''Invalid transpose option value for triangular solve'')
         (Inr (ranked b (element_type bType) (encoding_of bType)))))))))"

section \<open>Quantisation and bitcasts\<close>

text \<open>An unranked operand has no shape to read.\<close>

definition inferUniformDequantizeOp :: "ty \<Rightarrow> components res" where
  "inferUniformDequantizeOp operandType = cast_shaped operandType
     (case element_type operandType of
        QuantizedType st mn mx expressed \<Rightarrow>
          require (has_rank operandType) Undefined (Inr (ranked (shape_of operandType) expressed NoEncoding))
      | _ \<Rightarrow> Inl Undefined)"

definition inferUniformQuantizeOp :: "ty \<Rightarrow> components res" where
  "inferUniformQuantizeOp operandType = cast_shaped operandType
     (Inr (shape_only (if has_rank operandType then shape_of operandType else [])))"

fun getIntOrFloatBitWidth :: "ty \<Rightarrow> int res" where
  "getIntOrFloatBitWidth (IntegerType s w) = Inr (int w)"
| "getIntOrFloatBitWidth (FloatType f) = Inr (int (sem_width f))"
| "getIntOrFloatBitWidth _ = Inl Undefined"

definition potentiallyComplexBitwidth :: "ty \<Rightarrow> int res" where
  "potentiallyComplexBitwidth type =
     (case type of
        ComplexType et \<Rightarrow> bnd (getIntOrFloatBitWidth et) (\<lambda>w. Inr (2 * w))
      | _ \<Rightarrow> getIntOrFloatBitWidth type)"

text \<open>\<open>llvm::zip\<close> stops at the end of the shorter of the two shapes.\<close>

definition verifyBitcastConvertOp :: "ty \<Rightarrow> ty \<Rightarrow> unit res" where
  "verifyBitcastConvertOp operandType targetType = cast_shaped operandType (cast_shaped targetType
     (let targetElt = element_type targetType; operandElt = element_type operandType in
      require (\<not> is_complex targetElt \<noteq> is_complex operandElt)
        (Fatal ''cannot convert between real and complex types'')
     (bnd (potentiallyComplexBitwidth targetElt) (\<lambda>targetEltBitwidth.
      bnd (potentiallyComplexBitwidth operandElt) (\<lambda>operandEltBitwidth.
      if \<not> has_rank operandType \<or> \<not> has_rank targetType then ok
      else
       let targetShape = shape_of targetType; operandShape = shape_of operandType;
           (smallerEltShape, biggerEltShape) =
             (if operandEltBitwidth < targetEltBitwidth then (operandShape, targetShape) else (targetShape, operandShape));
           smallerEltBitwidth = min targetEltBitwidth operandEltBitwidth;
           biggerEltBitwidth = max targetEltBitwidth operandEltBitwidth in
       bnd (if operandEltBitwidth \<noteq> targetEltBitwidth then
              require (smallerEltShape \<noteq> []) (Fatal ''does not allow the smaller element type to be part of a 0d tensor'')
             (bnd (if isDynamicDimSize (last smallerEltShape) then Inr biggerEltBitwidth
                   else i64 (last smallerEltShape * smallerEltBitwidth)) (\<lambda>bits.
              require (\<not> bits \<noteq> biggerEltBitwidth) (Fatal ''requires compatible bitwidths'')
                (Inr (butlast smallerEltShape))))
            else Inr smallerEltShape) (\<lambda>smallerEltPrefix.
       require (list_all (\<lambda>(targetDim, operandDim). verifyCompatibleDims targetDim operandDim)
           (zip smallerEltPrefix biggerEltShape))
         (Fatal ''operand and result shapes must match except for the innermost dimension'') ok))))))"

section \<open>Dynamic shapes\<close>

definition known_dims :: "dense_int option \<Rightarrow> int list" where
  "known_dims attr = (case attr of None \<Rightarrow> [] | Some a \<Rightarrow> di_values a)"

definition verifyDynamicBroadcastInDimOp ::
  "ty \<Rightarrow> operand \<Rightarrow> dense_int \<Rightarrow> dense_int option \<Rightarrow> dense_int option \<Rightarrow> ty \<Rightarrow> unit res" where
  "verifyDynamicBroadcastInDimOp operandType outputDimensions broadcastDimensions knownExpandingDimensions
     knownNonexpandingDimensions resultType =
     (if \<not> has_rank operandType \<or> \<not> has_rank resultType then ok
      else cast_ranked (o_type outputDimensions)
       (bnd (at (shape_of (o_type outputDimensions)) 0) (\<lambda>outputDimensionsSize.
        let operandRank = rank operandType; resultRank = rank resultType; dims = di_values broadcastDimensions in
        require (\<not> length (di_shape broadcastDimensions) \<noteq> 1) (Fatal ''broadcast_dimensions has wrong rank'')
       (require (\<not> int (length dims) \<noteq> operandRank) (Fatal ''broadcast_dimensions size does not match operand rank'')
       (require (\<not> resultRank < operandRank) (Fatal ''result rank is less than operand rank'')
       (bnd (foldM (\<lambda>_ (dimIndex, dimSize).
               require (\<not> dimIndex \<ge> resultRank) (Fatal ''broadcast_dimensions contains invalid value'')
              (bnd (at (shape_of resultType) dimIndex) (\<lambda>resultDimSize.
               require (\<not> (dimSize \<noteq> 1 \<and> \<not> verifyCompatibleDims dimSize resultDimSize))
                 (Fatal ''size of operand dimension is not compatible with size of result dimension'') ok))) ()
             (zip dims (shape_of operandType))) (\<lambda>_.
        require (\<not> outputDimensionsSize \<noteq> resultRank)
          (Fatal ''result rank is not equal to number of output dimensions'')
       (let known = known_dims knownExpandingDimensions @ known_dims knownNonexpandingDimensions in
        require (\<not> hasDuplicates known) (Fatal ''duplicate expansion hint for at least one operand dimension'')
       (require (list_all (\<lambda>i. \<not> (i < 0 \<or> i \<ge> operandRank)) known)
          (Fatal ''hint for expanding dimension does not refer to a valid operand dimension'')
       (require (compatible_value outputDimensions resultType)
          (Fatal ''output_dimensions are incompatible with return type of operation'') ok))))))))))"

definition verifyDynamicIotaOp :: "operand \<Rightarrow> int \<Rightarrow> ty \<Rightarrow> unit res" where
  "verifyDynamicIotaOp outputShape outputDimension result =
     require (compatible_value outputShape result)
       (Fatal ''output_shape is incompatible with return type of operation'') ok"

text \<open>\<open>getNumElements\<close> asserts a static shape.\<close>

definition getNumElements :: "ty \<Rightarrow> int res" where
  "getNumElements t = cast_ranked t (require (list_all isStaticDimSize (shape_of t)) Undefined (Inr (num_elements (shape_of t))))"

definition require_count :: "ty \<Rightarrow> int \<Rightarrow> string \<Rightarrow> 'a res \<Rightarrow> 'a res" where
  "require_count t n msg x = bnd (getNumElements t) (\<lambda>k. require (\<not> k \<noteq> n) (Fatal msg) x)"

definition verifyDynamicPadOp :: "ty \<Rightarrow> ty \<Rightarrow> ty \<Rightarrow> ty \<Rightarrow> ty \<Rightarrow> ty \<Rightarrow> unit res" where
  "verifyDynamicPadOp inputType padType edgePaddingLow edgePaddingHigh interiorPadding outputType =
     (if \<not> has_rank inputType then ok
      else
       let inputRank = rank inputType in
       cast_ranked padType
      (require (\<not> rank padType \<noteq> 0) (Fatal ''padding value type should be a rank-0'')
      (require_count edgePaddingLow inputRank ''edge_padding_low length must match operand rank''
      (require_count edgePaddingHigh inputRank ''edge_padding_high length must match operand rank''
      (require_count interiorPadding inputRank ''edge_padding_interior length must match operand rank''
      (if \<not> has_rank outputType then ok
       else require (\<not> inputRank \<noteq> rank outputType) (Fatal ''operand rank must match result'') ok))))))"

definition verifyDynamicReshapeOp :: "operand \<Rightarrow> ty \<Rightarrow> unit res" where
  "verifyDynamicReshapeOp outputShape resultType = cast_shaped resultType (cast_shaped (o_type outputShape)
     (bnd (if has_rank resultType \<and> hasStaticShape (o_type outputShape) then
             bnd (at (shape_of (o_type outputShape)) 0) (\<lambda>d.
               require (\<not> d \<noteq> rank resultType)
                 (Fatal ''output should have a rank equal to the number of elements in output_shape'') ok)
           else ok) (\<lambda>_.
      require (compatible_value outputShape resultType)
        (Fatal ''output_shape is incompatible with return type of operation'') ok)))"

definition verifyRealDynamicSliceOp :: "ty \<Rightarrow> ty \<Rightarrow> ty \<Rightarrow> ty \<Rightarrow> unit res" where
  "verifyRealDynamicSliceOp inputType startType limitType stridesType =
     (if \<not> has_rank inputType then ok
      else cast_ranked startType (cast_ranked limitType (cast_ranked stridesType
       (require_count startType (rank inputType) ''has mismatched number of operand rank and start_indices size''
       (require_count limitType (rank inputType) ''has mismatched number of operand rank and limit_indices size''
       (require_count stridesType (rank inputType) ''has mismatched number of operand rank and strides size'' ok))))))"

section \<open>Precision and random bits\<close>

definition verifyReducePrecisionOp :: "int \<Rightarrow> int \<Rightarrow> unit res" where
  "verifyReducePrecisionOp exponentBits mantissaBits =
     require (\<not> exponentBits < 1) (Fatal ''exponent_bits must be at least 1.'')
    (require (\<not> mantissaBits < 0) (Fatal ''mantissa_bits must be at least 0.'') ok)"

definition verifyRngBitGeneratorOp :: "ty \<Rightarrow> ty \<Rightarrow> unit res" where
  "verifyRngBitGeneratorOp initialState outputState = cast_ranked initialState (cast_ranked outputState
     (require (compatible_dims (shape_of initialState) (shape_of outputState))
       (Fatal ''output state shape must be compatible with initial state shape'') ok))"

end
