(* ===== verification/CycleDetector.thy ===== *)
theory CycleDetector
  imports Prelude
begin

text \<open>
  \<open>utils/cycle_detector.h\<close> and \<open>utils/cycle_detector.cc\<close>: \<open>OrderedSet\<close>, a set with a deterministic
  order of iteration, and \<open>GraphCycles\<close>, a directed graph that refuses the edges that would close
  a cycle (Pearce and Kelly's algorithm: every node has a rank, edges lead from smaller to larger
  ranks, and only the nodes between the ranks of a new edge are searched and reordered). A node is
  its number; a node out of range is undefined. The user data of a node is never read.
\<close>

section \<open>Ordered sets\<close>

record ordered_set =
  value_sequence :: "int list"
  value_to_index :: "int \<rightharpoonup> nat"

definition empty_set :: ordered_set where
  "empty_set = \<lparr>value_sequence = [], value_to_index = Map.empty\<rparr>"

definition Insert :: "int \<Rightarrow> ordered_set \<Rightarrow> ordered_set \<times> bool" where
  "Insert val s =
     (case value_to_index s val of
        Some _ \<Rightarrow> (s, False)
      | None \<Rightarrow> (\<lparr>value_sequence = value_sequence s @ [val],
                   value_to_index = (value_to_index s)(val \<mapsto> length (value_sequence s))\<rparr>, True))"

definition Erase :: "int \<Rightarrow> ordered_set \<Rightarrow> ordered_set res" where
  "Erase val s =
     (case value_to_index s val of
        None \<Rightarrow> Inl Undefined
      | Some i \<Rightarrow>
          require (i < length (value_sequence s)) Undefined
           (let xs = value_sequence s;
                index = (value_to_index s)(last xs \<mapsto> i);
                swapped = xs[i := last xs, length xs - 1 := xs ! i] in
            Inr \<lparr>value_sequence = butlast swapped, value_to_index = index(val := None)\<rparr>))"

definition Contains :: "int \<Rightarrow> ordered_set \<Rightarrow> bool" where
  "Contains val s \<longleftrightarrow> value_to_index s val \<noteq> None"

definition Size :: "ordered_set \<Rightarrow> nat" where
  "Size s = length (value_sequence s)"

section \<open>Graphs\<close>

record node =
  n_rank :: int
  n_visited :: bool
  n_in :: ordered_set
  n_out :: ordered_set

record graph =
  g_nodes :: "node list"
  g_freeNodes :: "int list"
  g_deltaf :: "int list"
  g_deltab :: "int list"
  g_list :: "int list"
  g_merged :: "int list"
  g_stack :: "int list"

definition GraphCycles :: "nat \<Rightarrow> graph" where
  "GraphCycles numNodes =
     \<lparr>g_nodes = map (\<lambda>i. \<lparr>n_rank = int i, n_visited = False, n_in = empty_set, n_out = empty_set\<rparr>) [0..<numNodes],
      g_freeNodes = [], g_deltaf = [], g_deltab = [], g_list = [], g_merged = [], g_stack = []\<rparr>"

definition HasEdge :: "int \<Rightarrow> int \<Rightarrow> graph \<Rightarrow> bool res" where
  "HasEdge x y g = bnd (at (g_nodes g) x) (\<lambda>nx. Inr (Contains y (n_out nx)))"

text \<open>Writing one component of a node.\<close>

definition set_out :: "int \<Rightarrow> (ordered_set \<Rightarrow> ordered_set res) \<Rightarrow> node list \<Rightarrow> node list res" where
  "set_out x f ns = bnd (at ns x) (\<lambda>nx. bnd (f (n_out nx)) (\<lambda>s. put ns x (nx\<lparr>n_out := s\<rparr>)))"

definition set_in :: "int \<Rightarrow> (ordered_set \<Rightarrow> ordered_set res) \<Rightarrow> node list \<Rightarrow> node list res" where
  "set_in x f ns = bnd (at ns x) (\<lambda>nx. bnd (f (n_in nx)) (\<lambda>s. put ns x (nx\<lparr>n_in := s\<rparr>)))"

definition remove_edge :: "int \<Rightarrow> int \<Rightarrow> node list \<Rightarrow> node list res" where
  "remove_edge x y ns = bnd (set_out x (Erase y) ns) (set_in y (Erase x))"

definition RemoveEdge :: "int \<Rightarrow> int \<Rightarrow> graph \<Rightarrow> graph res" where
  "RemoveEdge x y g = bnd (remove_edge x y (g_nodes g)) (\<lambda>ns. Inr (g\<lparr>g_nodes := ns\<rparr>))"

section \<open>Depth-first search\<close>

text \<open>
  The stack is kept with its top first. The inner loop of \<open>forwardDfs\<close> returns whether it met the
  rank \<open>upperBound\<close>, and the stack.
\<close>

fun scan_out :: "int \<Rightarrow> node list \<Rightarrow> int list \<Rightarrow> int list \<Rightarrow> (bool \<times> int list) res" where
  "scan_out upperBound ns [] stack = Inr (False, stack)"
| "scan_out upperBound ns (w # ws) stack =
     bnd (at ns w) (\<lambda>nw.
       if n_rank nw = upperBound then Inr (True, stack)
       else scan_out upperBound ns ws (if \<not> n_visited nw \<and> n_rank nw < upperBound then w # stack else stack))"

definition unvisited :: "node list \<Rightarrow> nat" where
  "unvisited ns = length (filter (\<lambda>n. \<not> n_visited n) ns)"

lemma unvisited_visit:
  assumes "i < length ns" and "\<not> n_visited (ns ! i)"
  shows "unvisited (ns[i := (ns ! i)\<lparr>n_visited := True\<rparr>]) < unvisited ns"
proof -
  have "ns = take i ns @ ns ! i # drop (Suc i) ns" using id_take_nth_drop [OF assms(1)] .
  then have "unvisited ns = unvisited (take i ns) + 1 + unvisited (drop (Suc i) ns)"
    using assms(2) unfolding unvisited_def by (metis (no_types, lifting) Suc_eq_plus1 add_Suc_right filter.simps(2) filter_append length_Cons length_append add_Suc)
  moreover have "unvisited (ns[i := (ns ! i)\<lparr>n_visited := True\<rparr>]) = unvisited (take i ns) + unvisited (drop (Suc i) ns)"
    using assms(1) by (simp add: upd_conv_take_nth_drop unvisited_def)
  ultimately show ?thesis by simp
qed

function forward_loop ::
  "int \<Rightarrow> node list \<Rightarrow> int list \<Rightarrow> int list \<Rightarrow> (bool \<times> node list \<times> int list \<times> int list) res" where
  "forward_loop upperBound ns deltaf [] = Inr (False, ns, deltaf, [])"
| "forward_loop upperBound ns deltaf (n # stack) =
     bnd (at ns n) (\<lambda>nn.
       if n_visited nn then forward_loop upperBound ns deltaf stack
       else
         bnd (scan_out upperBound (ns[nat n := nn\<lparr>n_visited := True\<rparr>]) (value_sequence (n_out nn)) stack)
           (\<lambda>(found, stack').
             if found then Inr (True, ns[nat n := nn\<lparr>n_visited := True\<rparr>], deltaf @ [n], stack')
             else forward_loop upperBound (ns[nat n := nn\<lparr>n_visited := True\<rparr>]) (deltaf @ [n]) stack'))"
  by pat_completeness auto
termination
  by (relation "measures [\<lambda>(_, ns, _, _). unvisited ns, \<lambda>(_, _, _, stack). length stack]")
    (auto simp: at_eq_Inr intro!: unvisited_visit)

text \<open>Returns whether the search met a node of rank \<open>upperBound\<close>.\<close>

definition forwardDfs :: "graph \<Rightarrow> int \<Rightarrow> int \<Rightarrow> (graph \<times> bool) res" where
  "forwardDfs r n upperBound =
     bnd (forward_loop upperBound (g_nodes r) [] [n]) (\<lambda>(found, ns, deltaf, stack).
       Inr (r\<lparr>g_nodes := ns, g_deltaf := deltaf, g_stack := stack\<rparr>, found))"

fun scan_in :: "int \<Rightarrow> node list \<Rightarrow> int list \<Rightarrow> int list \<Rightarrow> int list res" where
  "scan_in lowerBound ns [] stack = Inr stack"
| "scan_in lowerBound ns (w # ws) stack =
     bnd (at ns w) (\<lambda>nw.
       scan_in lowerBound ns ws (if \<not> n_visited nw \<and> lowerBound < n_rank nw then w # stack else stack))"

function backward_loop :: "int \<Rightarrow> node list \<Rightarrow> int list \<Rightarrow> int list \<Rightarrow> (node list \<times> int list) res" where
  "backward_loop lowerBound ns deltab [] = Inr (ns, deltab)"
| "backward_loop lowerBound ns deltab (n # stack) =
     bnd (at ns n) (\<lambda>nn.
       if n_visited nn then backward_loop lowerBound ns deltab stack
       else
         bnd (scan_in lowerBound (ns[nat n := nn\<lparr>n_visited := True\<rparr>]) (value_sequence (n_in nn)) stack)
           (backward_loop lowerBound (ns[nat n := nn\<lparr>n_visited := True\<rparr>]) (deltab @ [n])))"
  by pat_completeness auto
termination
  by (relation "measures [\<lambda>(_, ns, _, _). unvisited ns, \<lambda>(_, _, _, stack). length stack]")
    (auto simp: at_eq_Inr intro!: unvisited_visit)

definition backwardDfs :: "graph \<Rightarrow> int \<Rightarrow> int \<Rightarrow> graph res" where
  "backwardDfs r n lowerBound =
     bnd (backward_loop lowerBound (g_nodes r) [] [n]) (\<lambda>(ns, deltab).
       Inr (r\<lparr>g_nodes := ns, g_deltab := deltab, g_stack := []\<rparr>))"

section \<open>Reordering\<close>

text \<open>\<open>std::sort\<close> by rank; the ranks of the nodes are distinct.\<close>

definition sort_by_rank :: "node list \<Rightarrow> int list \<Rightarrow> int list res" where
  "sort_by_rank ns delta =
     require (list_all (\<lambda>n. 0 \<le> n \<and> n < int (length ns)) delta) Undefined
       (Inr (sort_key (\<lambda>n. n_rank (ns ! nat n)) delta))"

text \<open>Returns the nodes with their marks removed, the ranks that replace \<open>src\<close>, and \<open>dst\<close>.\<close>

fun moveToList :: "node list \<Rightarrow> int list \<Rightarrow> int list \<Rightarrow> (node list \<times> int list \<times> int list) res" where
  "moveToList ns [] dst = Inr (ns, [], dst)"
| "moveToList ns (w # src) dst =
     bnd (at ns w) (\<lambda>nw. bnd (put ns w (nw\<lparr>n_visited := False\<rparr>)) (\<lambda>ns.
     bnd (moveToList ns src (dst @ [w])) (\<lambda>(ns, ranks, dst). Inr (ns, n_rank nw # ranks, dst))))"

text \<open>\<open>std::merge\<close>.\<close>

fun merge :: "int list \<Rightarrow> int list \<Rightarrow> int list" where
  "merge [] ys = ys"
| "merge xs [] = xs"
| "merge (x # xs) (y # ys) = (if y < x then y # merge (x # xs) ys else x # merge xs (y # ys))"

definition assign_ranks :: "node list \<Rightarrow> int list \<Rightarrow> int list \<Rightarrow> node list res" where
  "assign_ranks ns list' merged =
     foldM (\<lambda>ns (n, rank). bnd (at ns n) (\<lambda>nn. put ns n (nn\<lparr>n_rank := rank\<rparr>))) ns (zip list' merged)"

definition reorder :: "graph \<Rightarrow> graph res" where
  "reorder r =
     bnd (sort_by_rank (g_nodes r) (g_deltab r)) (\<lambda>deltab.
     bnd (sort_by_rank (g_nodes r) (g_deltaf r)) (\<lambda>deltaf.
     bnd (moveToList (g_nodes r) deltab []) (\<lambda>(ns, deltab, list').
     bnd (moveToList ns deltaf list') (\<lambda>(ns, deltaf, list').
     let merged = merge deltab deltaf in
     bnd (assign_ranks ns list' merged) (\<lambda>ns.
     Inr (r\<lparr>g_nodes := ns, g_deltaf := deltaf, g_deltab := deltab, g_list := list', g_merged := merged\<rparr>))))))"

definition clearVisitedBits :: "node list \<Rightarrow> int list \<Rightarrow> node list res" where
  "clearVisitedBits ns nodes =
     foldM (\<lambda>ns n. bnd (at ns n) (\<lambda>nn. put ns n (nn\<lparr>n_visited := False\<rparr>))) ns nodes"

section \<open>Edges\<close>

definition InsertEdge :: "int \<Rightarrow> int \<Rightarrow> graph \<Rightarrow> (graph \<times> bool) res" where
  "InsertEdge x y g =
     (if x = y then Inr (g, False)
      else bnd (at (g_nodes g) x) (\<lambda>nx.
        if \<not> snd (Insert y (n_out nx)) then Inr (g, True)
        else
          bnd (set_out x (\<lambda>s. Inr (fst (Insert y s))) (g_nodes g)) (\<lambda>ns.
          bnd (set_in y (\<lambda>s. Inr (fst (Insert x s))) ns) (\<lambda>ns.
          bnd (at ns y) (\<lambda>ny.
          let r = g\<lparr>g_nodes := ns\<rparr> in
          if n_rank nx \<le> n_rank ny then Inr (r, True)
          else
            bnd (forwardDfs r y (n_rank nx)) (\<lambda>(r, found).
            if found then
              bnd (remove_edge x y (g_nodes r)) (\<lambda>ns.
              bnd (clearVisitedBits ns (g_deltaf r)) (\<lambda>ns.
              Inr (r\<lparr>g_nodes := ns\<rparr>, False)))
            else
              bnd (backwardDfs r x (n_rank ny)) (\<lambda>r.
              bnd (reorder r) (\<lambda>r. Inr (r, True)))))))))"

definition IsReachable :: "int \<Rightarrow> int \<Rightarrow> graph \<Rightarrow> (graph \<times> bool) res" where
  "IsReachable x y g =
     (if x = y then Inr (g, True)
      else
        bnd (at (g_nodes g) x) (\<lambda>nx. bnd (at (g_nodes g) y) (\<lambda>ny.
        if n_rank nx \<ge> n_rank ny then Inr (g, False)
        else
          bnd (forwardDfs g x (n_rank ny)) (\<lambda>(g, reachable).
          bnd (clearVisitedBits (g_nodes g) (g_deltaf g)) (\<lambda>ns.
          Inr (g\<lparr>g_nodes := ns\<rparr>, reachable))))))"

definition degree :: "node \<Rightarrow> nat" where
  "degree n = Size (n_in n) + Size (n_out n)"

text \<open>The results of the insertions of the last two loops are not looked at.\<close>

definition move_edges :: "int \<Rightarrow> int \<Rightarrow> graph \<Rightarrow> graph res" where
  "move_edges a b g =
     bnd (at (g_nodes g) b) (\<lambda>nb.
     let out = value_sequence (n_out nb); ins = value_sequence (n_in nb) in
     bnd (put (g_nodes g) b (nb\<lparr>n_in := empty_set, n_out := empty_set\<rparr>)) (\<lambda>ns.
     bnd (foldM (\<lambda>ns y. set_in y (Erase b) ns) ns out) (\<lambda>ns.
     bnd (foldM (\<lambda>ns y. set_out y (Erase b) ns) ns ins) (\<lambda>ns.
     let g = g\<lparr>g_nodes := ns, g_freeNodes := g_freeNodes g @ [b]\<rparr> in
     bnd (foldM (\<lambda>g y. bnd (InsertEdge a y g) (\<lambda>(g, _). Inr g)) g out) (\<lambda>g.
     foldM (\<lambda>g y. bnd (InsertEdge y a g) (\<lambda>(g, _). Inr g)) g ins)))))"

definition ContractEdge :: "int \<Rightarrow> int \<Rightarrow> graph \<Rightarrow> (graph \<times> int option) res" where
  "ContractEdge a b g =
     bnd (HasEdge a b g) (\<lambda>has. require has Undefined
    (bnd (RemoveEdge a b g) (\<lambda>g.
     bnd (IsReachable a b g) (\<lambda>(g, reachable).
     if reachable then bnd (InsertEdge a b g) (\<lambda>(g, _). Inr (g, None))
     else
       bnd (at (g_nodes g) a) (\<lambda>na. bnd (at (g_nodes g) b) (\<lambda>nb.
       let (a, b) = (if degree nb > degree na then (b, a) else (a, b)) in
       bnd (move_edges a b g) (\<lambda>g. Inr (g, Some a))))))))"

definition SuccessorsCopy :: "int \<Rightarrow> graph \<Rightarrow> int list res" where
  "SuccessorsCopy n g = bnd (at (g_nodes g) n) (\<lambda>nn. Inr (value_sequence (n_out nn)))"

definition AllNodesInPostOrder :: "graph \<Rightarrow> int list" where
  "AllNodesInPostOrder g =
     (let allNodes = filter (\<lambda>i. i \<notin> set (g_freeNodes g)) [0..int (length (g_nodes g)) - 1] in
      sort_key (\<lambda>n. - n_rank (g_nodes g ! nat n)) allNodes)"

end
