(* ===== verification/CycleLaws.thy ===== *)
theory CycleLaws
  imports CycleDetector "HOL-Library.Multiset"
begin

text \<open>
  The laws of \<open>CycleDetector\<close>: the ordered set implements a finite set (\<open>locale finite_sets\<close>), the
  two searches compute sets of reachable nodes, \<open>reorder\<close> restores the topological order, and so
  every operation of \<open>GraphCycles\<close> keeps the graph well-formed and acyclic (\<open>graph_ok\<close>).
\<close>

section \<open>Ordered sets\<close>

definition oset_ok :: "ordered_set \<Rightarrow> bool" where
  "oset_ok s \<longleftrightarrow>
     (\<forall>v i. value_to_index s v = Some i \<longleftrightarrow> i < length (value_sequence s) \<and> value_sequence s ! i = v)"

definition elems :: "ordered_set \<Rightarrow> int set" where
  "elems s = set (value_sequence s)"

lemma oset_ok_distinct: "oset_ok s \<Longrightarrow> distinct (value_sequence s)"
  unfolding oset_ok_def distinct_conv_nth by (metis option.inject)

text \<open>What a client of a set relies on.\<close>

locale finite_sets =
  fixes wf :: "'s \<Rightarrow> bool" and members :: "'s \<Rightarrow> 'v set" and none :: 's
    and ins :: "'v \<Rightarrow> 's \<Rightarrow> 's \<times> bool" and del :: "'v \<Rightarrow> 's \<Rightarrow> 's res"
    and mem :: "'v \<Rightarrow> 's \<Rightarrow> bool" and enum :: "'s \<Rightarrow> 'v list"
  assumes none: "wf none" "members none = {}"
    and ins: "wf s \<Longrightarrow> wf (fst (ins v s))" "wf s \<Longrightarrow> members (fst (ins v s)) = insert v (members s)"
      "wf s \<Longrightarrow> snd (ins v s) \<longleftrightarrow> v \<notin> members s"
    and del: "wf s \<Longrightarrow> v \<in> members s \<Longrightarrow> \<exists>t. del v s = Inr t \<and> wf t \<and> members t = members s - {v}"
    and mem: "wf s \<Longrightarrow> mem v s \<longleftrightarrow> v \<in> members s"
    and enum: "wf s \<Longrightarrow> distinct (enum s)" "wf s \<Longrightarrow> set (enum s) = members s"
begin

lemma ins_mem: "wf s \<Longrightarrow> mem w (fst (ins v s)) \<longleftrightarrow> w = v \<or> mem w s"
  by (simp add: ins mem)

lemma del_ins:
  assumes "wf s" and "\<not> mem v s"
  shows "\<exists>t. del v (fst (ins v s)) = Inr t \<and> wf t \<and> members t = members s"
  using del [of "fst (ins v s)" v] assms ins mem by auto

lemma size_card: "wf s \<Longrightarrow> length (enum s) = card (members s)"
  using enum distinct_card by metis

end

lemma Insert_laws:
  assumes "oset_ok s"
  shows "oset_ok (fst (Insert v s))" and "elems (fst (Insert v s)) = insert v (elems s)"
    and "snd (Insert v s) \<longleftrightarrow> v \<notin> elems s"
proof -
  have none: "value_to_index s v = None \<longleftrightarrow> v \<notin> elems s"
    using assms unfolding oset_ok_def elems_def in_set_conv_nth by (metis not_None_eq)
  show "snd (Insert v s) \<longleftrightarrow> v \<notin> elems s" using none by (auto simp: Insert_def split: option.splits)
  show "elems (fst (Insert v s)) = insert v (elems s)"
    using none by (auto simp: Insert_def elems_def split: option.splits)
  show "oset_ok (fst (Insert v s))"
  proof (cases "value_to_index s v")
    case (Some a)
    then show ?thesis using assms by (simp add: Insert_def)
  next
    case None
    then have "value_sequence s ! i \<noteq> v" if "i < length (value_sequence s)" for i
      using assms that unfolding oset_ok_def by (metis option.distinct(1))
    then show ?thesis
      using None assms unfolding oset_ok_def by (auto simp: Insert_def nth_append less_Suc_eq)
  qed
qed

lemma Erase_laws:
  assumes ok: "oset_ok s" and v: "v \<in> elems s"
  shows "\<exists>t. Erase v s = Inr t \<and> oset_ok t \<and> elems t = elems s - {v}"
proof -
  obtain xs m where s: "s = \<lparr>value_sequence = xs, value_to_index = m\<rparr>" by (cases s)
  have m: "m w = Some i \<longleftrightarrow> i < length xs \<and> xs ! i = w" for w i using ok by (simp add: s oset_ok_def)
  have d: "distinct xs" using oset_ok_distinct [OF ok] by (simp add: s)
  obtain i where i: "i < length xs" "xs ! i = v" using v by (auto simp: s elems_def in_set_conv_nth)
  have mv: "m v = Some i" using m i by blast
  define l where "l = length xs - 1"
  have "xs \<noteq> []" using i by auto
  then have l: "l < length xs" "last xs = xs ! l" by (simp_all add: l_def last_conv_nth)
  define ys where "ys = butlast (xs[i := last xs, length xs - 1 := xs ! i])"
  have len: "length ys = l" by (simp add: ys_def l_def)
  have nth: "ys ! j = (if j = i then xs ! l else xs ! j)" if "j < l" for j
    using that i l by (auto simp: ys_def nth_butlast l_def nth_list_update)
  have ne: "xs ! j \<noteq> v" if "j < length xs" "j \<noteq> i" for j
    using d i that by (auto simp: nth_eq_iff_index_eq)
  have set_ys: "set ys = set xs - {v}"
  proof (intro equalityI subsetI)
    fix w assume "w \<in> set ys"
    then obtain j where j: "j < l" "w = ys ! j" by (auto simp: in_set_conv_nth len)
    then show "w \<in> set xs - {v}"
      using nth [OF j(1)] ne [of j] ne [of l] l by (auto split: if_splits)
  next
    fix w assume "w \<in> set xs - {v}"
    then obtain j where j: "j < length xs" "w = xs ! j" "j \<noteq> i" using i by (auto simp: in_set_conv_nth)
    show "w \<in> set ys"
    proof (cases "j = l")
      case True
      then have "i < l" using i j l unfolding l_def by linarith
      then show ?thesis using nth [of i] j True len by (metis nth_mem)
    next
      case False
      then have "j < l" using j unfolding l_def by linarith
      then show ?thesis using nth [of j] j len by (metis nth_mem)
    qed
  qed
  have idx: "((m(last xs \<mapsto> i))(v := None)) w = Some j \<longleftrightarrow> j < length ys \<and> ys ! j = w" for w j
  proof (cases "w = v")
    case True
    then show ?thesis using set_ys by (metis DiffD2 fun_upd_same insertI1 nth_mem option.distinct(1))
  next
    case wv: False
    show ?thesis
    proof (cases "w = xs ! l")
      case True
      then have il: "i < l" using i wv unfolding l_def by (metis Suc_diff_1 Suc_lessI diff_Suc_1 l_def less_nat_zero_code linorder_neqE_nat not_less_eq zero_less_iff_neq_zero)
      have "ys ! j = w \<longleftrightarrow> j = i" if "j < l" for j
        using nth [OF that] True d that l by (auto simp: nth_eq_iff_index_eq)
      then show ?thesis using True wv il l len by auto
    next
      case False
      then have "((m(last xs \<mapsto> i))(v := None)) w = Some j \<longleftrightarrow> j < length xs \<and> xs ! j = w" using wv l m by simp
      also have "\<dots> \<longleftrightarrow> j < length ys \<and> ys ! j = w"
        using False wv len nth [of j] i unfolding l_def by (cases "j < length xs - 1") (auto split: if_splits, (metis Suc_pred less_antisym less_nat_zero_code neq0_conv)+)
      finally show ?thesis .
    qed
  qed
  have "Erase v s = Inr \<lparr>value_sequence = ys, value_to_index = (m(last xs \<mapsto> i))(v := None)\<rparr>"
    using mv i by (simp add: Erase_def s ys_def Let_def)
  then show ?thesis using idx set_ys by (auto simp: oset_ok_def elems_def s)
qed

interpretation os: finite_sets oset_ok elems empty_set Insert Erase Contains value_sequence
proof unfold_locales
  show "oset_ok empty_set" "elems empty_set = {}" by (auto simp: oset_ok_def elems_def empty_set_def)
next
  fix s v assume s: "oset_ok s"
  show "Contains v s \<longleftrightarrow> v \<in> elems s"
    using s unfolding oset_ok_def elems_def Contains_def in_set_conv_nth by (metis not_None_eq)
next
  fix s :: ordered_set
  show "set (value_sequence s) = elems s" by (simp add: elems_def)
qed (simp_all add: Insert_laws Erase_laws oset_ok_distinct)

section \<open>Well-formed graphs\<close>

definition within :: "node list \<Rightarrow> int \<Rightarrow> bool" where
  "within ns x \<longleftrightarrow> 0 \<le> x \<and> x < int (length ns)"

abbreviation nd :: "node list \<Rightarrow> int \<Rightarrow> node" where
  "nd ns x \<equiv> ns ! nat x"

abbreviation node_rank :: "node list \<Rightarrow> int \<Rightarrow> int" where
  "node_rank ns x \<equiv> n_rank (nd ns x)"

definition edges :: "node list \<Rightarrow> (int \<times> int) set" where
  "edges ns = {(x, y). within ns x \<and> y \<in> elems (n_out (nd ns x))}"

text \<open>Successors and predecessors mirror each other.\<close>

definition links_ok :: "node list \<Rightarrow> bool" where
  "links_ok ns \<longleftrightarrow>
     (\<forall>x. within ns x \<longrightarrow> oset_ok (n_in (nd ns x)) \<and> oset_ok (n_out (nd ns x))) \<and>
     (\<forall>(x, y) \<in> edges ns. within ns y) \<and>
     (\<forall>x y. within ns y \<longrightarrow> (x \<in> elems (n_in (nd ns y)) \<longleftrightarrow> (x, y) \<in> edges ns))"

text \<open>The ranks are distinct and edges lead to larger ranks.\<close>

definition ranks_ok :: "node list \<Rightarrow> bool" where
  "ranks_ok ns \<longleftrightarrow>
     (\<forall>x y. within ns x \<longrightarrow> within ns y \<longrightarrow> node_rank ns x = node_rank ns y \<longrightarrow> x = y) \<and>
     (\<forall>(x, y) \<in> edges ns. node_rank ns x < node_rank ns y)"

definition unmarked :: "node list \<Rightarrow> bool" where
  "unmarked ns \<longleftrightarrow> (\<forall>n \<in> set ns. \<not> n_visited n)"

definition graph_ok :: "graph \<Rightarrow> bool" where
  "graph_ok g \<longleftrightarrow> links_ok (g_nodes g) \<and> ranks_ok (g_nodes g) \<and> unmarked (g_nodes g)"

lemma at_within [simp]: "within ns x \<Longrightarrow> at ns x = Inr (nd ns x)"
  by (simp add: within_def at_def)

lemma put_within [simp]: "within ns x \<Longrightarrow> put ns x n = Inr (ns[nat x := n])"
  by (simp add: within_def put_def)

lemma within_upd [simp]: "within (ns[i := n]) x = within ns x"
  by (simp add: within_def)

lemma nd_upd: "within ns x \<Longrightarrow> within ns z \<Longrightarrow> nd (ns[nat x := n]) z = (if z = x then n else nd ns z)"
  by (auto simp: within_def nth_list_update eq_nat_nat_iff)

text \<open>What depends on the edge sets only, and what on the other components only.\<close>

definition same_links :: "node list \<Rightarrow> node list \<Rightarrow> bool" where
  "same_links ns ms \<longleftrightarrow> length ns = length ms \<and>
     (\<forall>x. within ns x \<longrightarrow> n_in (nd ns x) = n_in (nd ms x) \<and> n_out (nd ns x) = n_out (nd ms x))"

definition same_marks :: "node list \<Rightarrow> node list \<Rightarrow> bool" where
  "same_marks ns ms \<longleftrightarrow> length ns = length ms \<and>
     (\<forall>x. within ns x \<longrightarrow> node_rank ns x = node_rank ms x \<and> n_visited (nd ns x) = n_visited (nd ms x))"

lemma same_within: "same_links ns ms \<Longrightarrow> within ms x = within ns x" "same_marks ns ms \<Longrightarrow> within ms x = within ns x"
  by (simp_all add: same_links_def same_marks_def within_def)

lemma same_edges: "same_links ns ms \<Longrightarrow> edges ms = edges ns"
  by (auto simp: edges_def same_links_def within_def)

lemma same_links_ok:
  assumes "same_links ns ms"
  shows "links_ok ms = links_ok ns"
proof -
  have "n_in (nd ms x) = n_in (nd ns x)" "n_out (nd ms x) = n_out (nd ns x)" if "within ns x" for x
    using assms that by (simp_all add: same_links_def)
  then show ?thesis
    unfolding links_ok_def same_edges [OF assms] same_within(1) [OF assms] by auto
qed

lemma same_links_trans: "same_links ns ms \<Longrightarrow> same_links ms ks \<Longrightarrow> same_links ns ks"
  by (simp add: same_links_def within_def)

lemma same_marks_trans: "same_marks ns ms \<Longrightarrow> same_marks ms ks \<Longrightarrow> same_marks ns ks"
  by (simp add: same_marks_def within_def)

lemma unmarked_iff: "unmarked ns \<longleftrightarrow> (\<forall>x. within ns x \<longrightarrow> \<not> n_visited (nd ns x))"
proof -
  have "(\<forall>x. within ns x \<longrightarrow> \<not> n_visited (nd ns x)) \<longleftrightarrow> (\<forall>i < length ns. \<not> n_visited (ns ! i))"
    unfolding within_def by (metis nat_int of_nat_0_le_iff of_nat_less_iff zero_le_imp_eq_int)
  then show ?thesis by (simp add: unmarked_def all_set_conv_all_nth)
qed

lemma same_unmarked: "same_marks ns ms \<Longrightarrow> unmarked ms = unmarked ns"
  using same_within [of ns ms] by (auto simp: unmarked_iff same_marks_def)

lemma links_okD:
  assumes "links_ok ns" and "within ns x"
  shows "oset_ok (n_in (nd ns x))" "oset_ok (n_out (nd ns x))"
    "y \<in> elems (n_out (nd ns x)) \<longleftrightarrow> (x, y) \<in> edges ns"
    "y \<in> elems (n_in (nd ns x)) \<longleftrightarrow> (y, x) \<in> edges ns"
  using assms by (auto simp: links_ok_def edges_def)

lemma edges_within: "links_ok ns \<Longrightarrow> (x, y) \<in> edges ns \<Longrightarrow> within ns x \<and> within ns y"
  by (auto simp: links_ok_def edges_def)

lemma ranks_mono:
  assumes "ranks_ok ns" and "(x, y) \<in> (edges ns)\<^sup>*"
  shows "x = y \<or> node_rank ns x < node_rank ns y"
  using assms(2) by (induction) (use assms(1) in \<open>auto simp: ranks_ok_def\<close>)

lemma graph_acyclic: "ranks_ok ns \<Longrightarrow> acyclic (edges ns)"
  using ranks_mono unfolding acyclic_def ranks_ok_def
  by (metis (no_types, lifting) case_prodD order_less_irrefl order_less_asym trancl_into_rtrancl tranclD)

section \<open>Marks\<close>

definition mark :: "int set \<Rightarrow> node list \<Rightarrow> node list" where
  "mark V ns = map (\<lambda>i. (ns ! i)\<lparr>n_visited := int i \<in> V\<rparr>) [0..<length ns]"

lemma length_mark [simp]: "length (mark V ns) = length ns"
  by (simp add: mark_def)

lemma within_mark [simp]: "within (mark V ns) x = within ns x"
  by (simp add: within_def mark_def)

lemma nd_mark [simp]: "within ns x \<Longrightarrow> nd (mark V ns) x = (nd ns x)\<lparr>n_visited := x \<in> V\<rparr>"
  by (auto simp: within_def mark_def nat_less_iff)

lemma node_marks: "b = c \<Longrightarrow> n\<lparr>n_visited := b\<rparr> = n\<lparr>n_visited := c\<rparr>"
  by simp

lemma mark_insert:
  assumes "within ns x"
  shows "(mark V ns)[nat x := (nd (mark V ns) x)\<lparr>n_visited := True\<rparr>] = mark (insert x V) ns"
  by (rule nth_equalityI) (use assms in \<open>auto simp: mark_def within_def nth_list_update nat_less_iff intro!: node_marks\<close>)

lemma mark_remove:
  assumes "within ns x"
  shows "(mark V ns)[nat x := (nd (mark V ns) x)\<lparr>n_visited := False\<rparr>] = mark (V - {x}) ns"
  by (rule nth_equalityI) (use assms in \<open>auto simp: mark_def within_def nth_list_update nat_less_iff intro!: node_marks\<close>)

lemma mark_none: "unmarked ns \<Longrightarrow> mark {} ns = ns"
  by (rule nth_equalityI) (auto simp: mark_def unmarked_def)

lemma same_links_mark: "same_links ns (mark V ns)"
  by (simp add: same_links_def)

section \<open>The searches\<close>

lemma scan_out_marked:
  assumes "\<forall>w \<in> set ws. within ns w"
  shows "\<exists>stack'. scan_out ub (mark V ns) ws stack = Inr (\<exists>w \<in> set ws. node_rank ns w = ub, stack') \<and>
    ((\<forall>w \<in> set ws. node_rank ns w \<noteq> ub) \<longrightarrow> set stack' = {w \<in> set ws. w \<notin> V \<and> node_rank ns w < ub} \<union> set stack)"
  using assms
proof (induction ws arbitrary: stack)
  case (Cons w ws)
  show ?case
  proof (cases "node_rank ns w = ub")
    case False
    define stack1 where "stack1 = (if w \<notin> V \<and> node_rank ns w < ub then w # stack else stack)"
    have "scan_out ub (mark V ns) (w # ws) stack = scan_out ub (mark V ns) ws stack1"
      using Cons.prems False by (simp add: stack1_def)
    then show ?thesis
      using Cons.IH [of stack1] Cons.prems False by (auto simp: stack1_def)
  qed (use Cons.prems in simp)
qed simp

lemma scan_in_marked:
  assumes "\<forall>w \<in> set ws. within ns w"
  shows "\<exists>stack'. scan_in lb (mark V ns) ws stack = Inr stack' \<and>
    set stack' = {w \<in> set ws. w \<notin> V \<and> lb < node_rank ns w} \<union> set stack"
  using assms
proof (induction ws arbitrary: stack)
  case (Cons w ws)
  define stack1 where "stack1 = (if w \<notin> V \<and> lb < node_rank ns w then w # stack else stack)"
  have "scan_in lb (mark V ns) (w # ws) stack = scan_in lb (mark V ns) ws stack1"
    using Cons.prems by (simp add: stack1_def)
  then show ?case
    using Cons.IH [of stack1] Cons.prems by (auto simp: stack1_def)
qed simp

text \<open>
  What a search that has marked \<open>V\<close> and has \<open>S\<close> left to visit ends with, for the successor
  relation \<open>R\<close>: the marks \<open>V'\<close> are closed under \<open>R\<close> where they are new, hold \<open>S\<close>, and are reachable.
\<close>

definition searched :: "(int \<times> int) set \<Rightarrow> int set \<Rightarrow> int set \<Rightarrow> int set \<Rightarrow> bool" where
  "searched R V S V' \<longleftrightarrow> V \<union> S \<subseteq> V' \<and> V' \<subseteq> V \<union> R\<^sup>* `` S \<and> R `` (V' - V) \<subseteq> V'"

lemma searched_done [simp]: "searched R V {} V"
  by (simp add: searched_def)

lemma searched_skip: "n \<in> V \<Longrightarrow> searched R V S V' \<Longrightarrow> searched R V (insert n S) V'"
  by (auto simp: searched_def)

lemma searched_visit:
  assumes "searched R (insert n V) ({w. (n, w) \<in> R \<and> w \<notin> insert n V} \<union> S) V'"
  shows "searched R V (insert n S) V'"
proof -
  have "R\<^sup>* `` ({w. (n, w) \<in> R \<and> w \<notin> insert n V} \<union> S) \<subseteq> R\<^sup>* `` insert n S"
    by (auto intro: converse_rtrancl_into_rtrancl)
  then show ?thesis using assms unfolding searched_def by blast
qed

definition below :: "node list \<Rightarrow> int \<Rightarrow> (int \<times> int) set" where
  "below ns ub = {(a, b) \<in> edges ns. node_rank ns b < ub}"

definition above :: "node list \<Rightarrow> int \<Rightarrow> (int \<times> int) set" where
  "above ns lb = {(a, b). (b, a) \<in> edges ns \<and> lb < node_rank ns b}"

definition forward_ends :: "node list \<Rightarrow> int \<Rightarrow> int set \<Rightarrow> int set \<Rightarrow>
    (bool \<times> node list \<times> int list \<times> int list) res \<Rightarrow> bool" where
  "forward_ends ns ub V S r \<longleftrightarrow> (\<exists>found V' deltaf stack.
     r = Inr (found, mark V' ns, deltaf, stack) \<and> set deltaf = V' \<and> distinct deltaf \<and>
     V' \<subseteq> V \<union> (below ns ub)\<^sup>* `` S \<and>
     (if found then \<exists>a \<in> V' - V. \<exists>w. (a, w) \<in> edges ns \<and> node_rank ns w = ub
      else searched (below ns ub) V S V' \<and> (\<forall>a \<in> V' - V. \<forall>w. (a, w) \<in> edges ns \<longrightarrow> node_rank ns w \<noteq> ub)))"

lemma forward_ends_skip: "n \<in> V \<Longrightarrow> forward_ends ns ub V S r \<Longrightarrow> forward_ends ns ub V (insert n S) r"
  unfolding forward_ends_def
  by (elim exE conjE, intro exI conjI, assumption+) (auto simp: searched_skip split: if_splits)

lemma forward_ends_found:
  "set deltaf = V' \<Longrightarrow> distinct deltaf \<Longrightarrow> V' \<subseteq> V \<union> (below ns ub)\<^sup>* `` S \<Longrightarrow>
    \<exists>a \<in> V' - V. \<exists>w. (a, w) \<in> edges ns \<and> node_rank ns w = ub \<Longrightarrow>
    forward_ends ns ub V S (Inr (True, mark V' ns, deltaf, stack))"
  unfolding forward_ends_def by (intro exI conjI) auto

lemma forward_ends_visit:
  assumes "forward_ends ns ub (insert n V) ({w. (n, w) \<in> below ns ub \<and> w \<notin> insert n V} \<union> S) r"
    and "\<forall>w. (n, w) \<in> edges ns \<longrightarrow> node_rank ns w \<noteq> ub"
  shows "forward_ends ns ub V (insert n S) r"
proof -
  let ?R = "below ns ub" and ?S = "{w. (n, w) \<in> below ns ub \<and> w \<notin> insert n V} \<union> S"
  have sub: "insert n V \<union> ?R\<^sup>* `` ?S \<subseteq> V \<union> ?R\<^sup>* `` insert n S"
    by (auto intro: converse_rtrancl_into_rtrancl)
  obtain found V' deltaf stack where
    r: "r = Inr (found, mark V' ns, deltaf, stack)" "set deltaf = V'" "distinct deltaf"
      "V' \<subseteq> insert n V \<union> ?R\<^sup>* `` ?S"
    and c: "if found then \<exists>a \<in> V' - insert n V. \<exists>w. (a, w) \<in> edges ns \<and> node_rank ns w = ub
      else searched ?R (insert n V) ?S V' \<and> (\<forall>a \<in> V' - insert n V. \<forall>w. (a, w) \<in> edges ns \<longrightarrow> node_rank ns w \<noteq> ub)"
    using assms(1) unfolding forward_ends_def by blast
  have f: "found \<Longrightarrow> \<exists>a \<in> V' - insert n V. \<exists>w. (a, w) \<in> edges ns \<and> node_rank ns w = ub"
    and u: "\<not> found \<Longrightarrow> searched ?R (insert n V) ?S V'"
      "\<not> found \<Longrightarrow> \<forall>a \<in> V' - insert n V. \<forall>w. (a, w) \<in> edges ns \<longrightarrow> node_rank ns w \<noteq> ub"
    using c by simp_all
  have "V' \<subseteq> V \<union> ?R\<^sup>* `` insert n S" using r(4) sub by blast
  moreover have "found \<Longrightarrow> \<exists>a \<in> V' - V. \<exists>w. (a, w) \<in> edges ns \<and> node_rank ns w = ub" using f by blast
  moreover have "\<not> found \<Longrightarrow> searched ?R V (insert n S) V'" using searched_visit u(1) by simp
  moreover have "\<not> found \<Longrightarrow> \<forall>a \<in> V' - V. \<forall>w. (a, w) \<in> edges ns \<longrightarrow> node_rank ns w \<noteq> ub" using u(2) assms(2) by blast
  ultimately show ?thesis using r unfolding forward_ends_def by auto
qed

lemma successors:
  assumes "links_ok ns" and "within ns n"
  shows "set (value_sequence (n_out (nd ns n))) = {w. (n, w) \<in> edges ns}"
    and "set (value_sequence (n_in (nd ns n))) = {w. (w, n) \<in> edges ns}"
    and "\<forall>w \<in> set (value_sequence (n_out (nd ns n))). within ns w"
    and "\<forall>w \<in> set (value_sequence (n_in (nd ns n))). within ns w"
proof -
  show "set (value_sequence (n_out (nd ns n))) = {w. (n, w) \<in> edges ns}"
    "set (value_sequence (n_in (nd ns n))) = {w. (w, n) \<in> edges ns}"
    using links_okD [OF assms] by (auto simp: elems_def)
  then show "\<forall>w \<in> set (value_sequence (n_out (nd ns n))). within ns w"
    "\<forall>w \<in> set (value_sequence (n_in (nd ns n))). within ns w"
    using edges_within [OF assms(1)] by auto
qed

lemma forward_loop_ends:
  assumes "links_ok ns" and "ms = mark V ns" and "V = set deltaf" and "distinct deltaf"
    and "\<forall>w \<in> set stack. within ns w"
  shows "forward_ends ns ub V (set stack) (forward_loop ub ms deltaf stack)"
  using assms(2-5)
proof (induction ub ms deltaf stack arbitrary: V rule: forward_loop.induct)
  case (1 ub ms deltaf)
  then show ?case by (auto simp: forward_ends_def)
next
  case (2 ub ms deltaf n stack)
  have n: "within ns n" and at: "at ms n = Inr (nd ms n)" using "2.prems" by simp_all
  have visited: "n_visited (nd ms n) \<longleftrightarrow> n \<in> V" using n "2.prems" by simp
  show ?case
  proof (cases "n \<in> V")
    case True
    then have "forward_ends ns ub V (set stack) (forward_loop ub ms deltaf stack)"
      using "2.IH"(1) [OF at] visited "2.prems" by simp
    then show ?thesis using True visited at forward_ends_skip by simp
  next
    case False
    let ?ms = "ms[nat n := (nd ms n)\<lparr>n_visited := True\<rparr>]" and ?ws = "value_sequence (n_out (nd ms n))"
    have ms: "?ms = mark (insert n V) ns" using mark_insert [OF n] "2.prems" by simp
    have ws: "set ?ws = {w. (n, w) \<in> edges ns}" "\<forall>w \<in> set ?ws. within ns w"
      using successors [OF assms(1) n] n "2.prems" by simp_all
    obtain stack' where scan: "scan_out ub ?ms ?ws stack = Inr (\<exists>w \<in> set ?ws. node_rank ns w = ub, stack')"
      and stack': "(\<forall>w \<in> set ?ws. node_rank ns w \<noteq> ub) \<Longrightarrow>
        set stack' = {w \<in> set ?ws. w \<notin> insert n V \<and> node_rank ns w < ub} \<union> set stack"
      using scan_out_marked [OF ws(2), of ub "insert n V" stack] unfolding ms by auto
    show ?thesis
    proof (cases "\<exists>w \<in> set ?ws. node_rank ns w = ub")
      case True
      then have run: "forward_loop ub ms deltaf (n # stack) = Inr (True, mark (insert n V) ns, deltaf @ [n], stack')"
        using False visited at scan ms by simp
      moreover have "\<exists>w. (n, w) \<in> edges ns \<and> node_rank ns w = ub" using True ws by auto
      ultimately show ?thesis using False "2.prems"(2,3) unfolding run
        by (intro forward_ends_found) (auto simp: Image_def)
    next
      case unfound: False
      then have S: "set stack' = {w. (n, w) \<in> below ns ub \<and> w \<notin> insert n V} \<union> set stack"
        using stack' ws by (auto simp: below_def)
      have "\<forall>w \<in> set stack'. within ns w" using S "2.prems" edges_within [OF assms(1)] by (auto simp: below_def)
      then have "forward_ends ns ub (insert n V) (set stack') (forward_loop ub ?ms (deltaf @ [n]) stack')"
        using "2.IH"(2) [OF at _ scan, where V = "insert n V"] visited False unfound ms "2.prems" by simp
      then have "forward_ends ns ub V (insert n (set stack)) (forward_loop ub ?ms (deltaf @ [n]) stack')"
        unfolding S by (rule forward_ends_visit) (use unfound ws in auto)
      then show ?thesis using False unfound visited at scan by simp
    qed
  qed
qed

definition backward_ends :: "node list \<Rightarrow> int \<Rightarrow> int set \<Rightarrow> int set \<Rightarrow> int list \<Rightarrow> (node list \<times> int list) res \<Rightarrow> bool" where
  "backward_ends ns lb V S deltab r \<longleftrightarrow> (\<exists>V' ws. r = Inr (mark V' ns, deltab @ ws) \<and>
     set ws = V' - V \<and> distinct ws \<and> searched (above ns lb) V S V')"

lemma backward_loop_ends:
  assumes "links_ok ns" and "ms = mark V ns" and "\<forall>w \<in> set stack. within ns w"
  shows "backward_ends ns lb V (set stack) deltab (backward_loop lb ms deltab stack)"
  using assms(2-3)
proof (induction lb ms deltab stack arbitrary: V rule: backward_loop.induct)
  case (1 lb ms deltab)
  then show ?case by (auto simp: backward_ends_def)
next
  case (2 lb ms deltab n stack)
  have n: "within ns n" and at: "at ms n = Inr (nd ms n)" using "2.prems" by simp_all
  have visited: "n_visited (nd ms n) \<longleftrightarrow> n \<in> V" using n "2.prems" by simp
  show ?case
  proof (cases "n \<in> V")
    case True
    then have "backward_ends ns lb V (set stack) deltab (backward_loop lb ms deltab stack)"
      using "2.IH"(1) [OF at] visited "2.prems" by simp
    then obtain V' ws where "backward_loop lb ms deltab stack = Inr (mark V' ns, deltab @ ws)"
      "set ws = V' - V" "distinct ws" "searched (above ns lb) V (insert n (set stack)) V'"
      using searched_skip [OF True] unfolding backward_ends_def by blast
    then show ?thesis using True visited at unfolding backward_ends_def by auto
  next
    case False
    let ?ms = "ms[nat n := (nd ms n)\<lparr>n_visited := True\<rparr>]" and ?ws = "value_sequence (n_in (nd ms n))"
    have ms: "?ms = mark (insert n V) ns" using mark_insert [OF n] "2.prems" by simp
    have ws: "set ?ws = {w. (w, n) \<in> edges ns}" "\<forall>w \<in> set ?ws. within ns w"
      using successors [OF assms(1) n] n "2.prems" by simp_all
    obtain stack' where scan: "scan_in lb ?ms ?ws stack = Inr stack'"
      and S: "set stack' = {w. (n, w) \<in> above ns lb \<and> w \<notin> insert n V} \<union> set stack"
      using scan_in_marked [OF ws(2), of lb "insert n V" stack] ws(1) unfolding ms above_def by auto
    have "\<forall>w \<in> set stack'. within ns w" using S "2.prems" edges_within [OF assms(1)] by (auto simp: above_def)
    then have "backward_ends ns lb (insert n V) (set stack') (deltab @ [n]) (backward_loop lb ?ms (deltab @ [n]) stack')"
      using "2.IH"(2) [OF at _ scan, where V = "insert n V"] visited False ms "2.prems" by simp
    then obtain V' ws where "backward_loop lb ?ms (deltab @ [n]) stack' = Inr (mark V' ns, deltab @ n # ws)"
      "set ws = V' - insert n V" "distinct ws" "searched (above ns lb) (insert n V) (set stack') V'"
      unfolding backward_ends_def by auto
    moreover from this have "searched (above ns lb) V (insert n (set stack)) V'"
      using searched_visit [of "above ns lb" n V "set stack" V'] S by simp
    moreover have "n \<in> V'" using calculation by (auto simp: searched_def)
    ultimately show ?thesis using False visited at scan unfolding backward_ends_def by (auto intro!: exI [of _ V'] exI [of _ "n # _"])
  qed
qed

lemma forward_from:
  assumes "links_ok ns" and "within ns x"
  shows "\<exists>found V deltaf stack. forward_loop ub (mark {} ns) [] [x] = Inr (found, mark V ns, deltaf, stack) \<and>
    set deltaf = V \<and> distinct deltaf \<and> V \<subseteq> (below ns ub)\<^sup>* `` {x} \<and>
    (found \<longrightarrow> (\<exists>a \<in> V. \<exists>w. (a, w) \<in> edges ns \<and> node_rank ns w = ub)) \<and>
    (\<not> found \<longrightarrow> x \<in> V \<and> below ns ub `` V \<subseteq> V \<and> (\<forall>a \<in> V. \<forall>w. (a, w) \<in> edges ns \<longrightarrow> node_rank ns w \<noteq> ub))"
proof -
  have "forward_ends ns ub {} (set [x]) (forward_loop ub (mark {} ns) [] [x])"
    using forward_loop_ends [OF assms(1) refl, of "{}" "[]" "[x]"] assms(2) by simp
  then obtain found V deltaf stack where
    "forward_loop ub (mark {} ns) [] [x] = Inr (found, mark V ns, deltaf, stack)" "set deltaf = V" "distinct deltaf"
    "V \<subseteq> {} \<union> (below ns ub)\<^sup>* `` set [x]"
    "if found then \<exists>a \<in> V - {}. \<exists>w. (a, w) \<in> edges ns \<and> node_rank ns w = ub
     else searched (below ns ub) {} (set [x]) V \<and> (\<forall>a \<in> V - {}. \<forall>w. (a, w) \<in> edges ns \<longrightarrow> node_rank ns w \<noteq> ub)"
    unfolding forward_ends_def by blast
  then show ?thesis by (cases found) (auto simp: searched_def)
qed

lemma backward_from:
  assumes "links_ok ns" and "within ns x"
  shows "\<exists>V' deltab. backward_loop lb (mark V ns) [] [x] = Inr (mark V' ns, deltab) \<and>
    set deltab = V' - V \<and> distinct deltab \<and> insert x V \<subseteq> V' \<and>
    V' \<subseteq> V \<union> (above ns lb)\<^sup>* `` {x} \<and> above ns lb `` (V' - V) \<subseteq> V'"
  using backward_loop_ends [OF assms(1) refl, where stack = "[x]" and V = V and lb = lb and deltab = "[]"] assms(2)
  by (auto simp: backward_ends_def searched_def)

lemma below_range:
  assumes "(x, b) \<in> (below ns ub)\<^sup>*" and "node_rank ns x < ub"
  shows "node_rank ns b < ub" and "(x, b) \<in> (edges ns)\<^sup>*"
proof -
  show "node_rank ns b < ub" using assms by (induction) (auto simp: below_def)
  have "below ns ub \<subseteq> edges ns" by (auto simp: below_def)
  then show "(x, b) \<in> (edges ns)\<^sup>*" using assms(1) rtrancl_mono by blast
qed

section \<open>Reachability\<close>

lemma clear_marked:
  assumes "\<forall>w \<in> set ws. within ns w"
  shows "clearVisitedBits (mark V ns) ws = Inr (mark (V - set ws) ns)"
  using assms
proof (induction ws arbitrary: V)
  case (Cons w ws)
  have "clearVisitedBits (mark V ns) (w # ws) = clearVisitedBits (mark (V - {w}) ns) ws"
    using Cons.prems mark_remove [of ns w V] by (simp add: clearVisitedBits_def)
  also have "\<dots> = Inr (mark (V - {w} - set ws) ns)" using Cons by simp
  also have "V - {w} - set ws = V - set (w # ws)" by auto
  finally show ?case .
qed (simp add: clearVisitedBits_def)

text \<open>A search that stops below a rank decides whether the node of that rank is reachable.\<close>

lemma search_decides:
  assumes ok: "links_ok ns" "ranks_ok ns" and x: "within ns x" and y: "within ns y" and xy: "node_rank ns x < node_rank ns y"
    and V: "V \<subseteq> (below ns (node_rank ns y))\<^sup>* `` {x}"
    and found: "found \<longrightarrow> (\<exists>a \<in> V. \<exists>w. (a, w) \<in> edges ns \<and> node_rank ns w = node_rank ns y)"
    and unfound: "\<not> found \<longrightarrow> x \<in> V \<and> below ns (node_rank ns y) `` V \<subseteq> V \<and>
      (\<forall>a \<in> V. \<forall>w. (a, w) \<in> edges ns \<longrightarrow> node_rank ns w \<noteq> node_rank ns y)"
  shows "found \<longleftrightarrow> (x, y) \<in> (edges ns)\<^sup>*"
proof
  assume found
  then obtain a w where "a \<in> V" "(a, w) \<in> edges ns" "node_rank ns w = node_rank ns y" using found by blast
  moreover have "w = y"
    using ok(2) y calculation edges_within [OF ok(1) calculation(2)] unfolding ranks_ok_def by simp
  moreover have "(x, a) \<in> (edges ns)\<^sup>*" using V below_range(2) [OF _ xy] calculation by auto
  ultimately show "(x, y) \<in> (edges ns)\<^sup>*" by (simp add: rtrancl.rtrancl_into_rtrancl)
next
  assume path: "(x, y) \<in> (edges ns)\<^sup>*"
  show found
  proof (rule ccontr)
    assume n: "\<not> found"
    have "a \<in> V \<or> node_rank ns a > node_rank ns y" if "(x, a) \<in> (edges ns)\<^sup>*" for a
      using that
    proof induction
      case base
      then show ?case using unfound n by simp
    next
      case (step a b)
      then have "node_rank ns a < node_rank ns b" using ok by (auto simp: ranks_ok_def)
      then show ?case
        using step unfound n by (cases "node_rank ns b" "node_rank ns y" rule: linorder_cases) (auto simp: below_def)
    qed
    then have "y \<in> V" using path by blast
    then show False using V below_range(1) [of x y ns "node_rank ns y"] xy by auto
  qed
qed

lemma IsReachable_correct:
  assumes ok: "graph_ok g" and x: "within (g_nodes g) x" and y: "within (g_nodes g) y"
  shows "\<exists>h. IsReachable x y g = Inr (h, (x, y) \<in> (edges (g_nodes g))\<^sup>*) \<and> g_nodes h = g_nodes g"
proof -
  let ?ns = "g_nodes g"
  have l: "links_ok ?ns" "ranks_ok ?ns" "mark {} ?ns = ?ns" using ok by (simp_all add: graph_ok_def mark_none)
  show ?thesis
  proof (cases "x = y \<or> node_rank ?ns y \<le> node_rank ?ns x")
    case True
    then show ?thesis using ranks_mono [OF l(2), of x y] x y by (auto simp: IsReachable_def)
  next
    case False
    obtain found V deltaf stack where
      run: "forward_loop (node_rank ?ns y) ?ns [] [x] = Inr (found, mark V ?ns, deltaf, stack)" and d: "set deltaf = V"
      and V: "V \<subseteq> (below ?ns (node_rank ?ns y))\<^sup>* `` {x}"
        "found \<longrightarrow> (\<exists>a \<in> V. \<exists>w. (a, w) \<in> edges ?ns \<and> node_rank ?ns w = node_rank ?ns y)"
        "\<not> found \<longrightarrow> x \<in> V \<and> below ?ns (node_rank ?ns y) `` V \<subseteq> V \<and>
          (\<forall>a \<in> V. \<forall>w. (a, w) \<in> edges ?ns \<longrightarrow> node_rank ?ns w \<noteq> node_rank ?ns y)"
      using forward_from [OF l(1) x, of "node_rank ?ns y"] unfolding l(3) by blast
    have found: "found \<longleftrightarrow> (x, y) \<in> (edges ?ns)\<^sup>*" using search_decides [OF l(1,2) x y _ V] False by simp
    have "\<forall>w \<in> set deltaf. within ?ns w"
    proof
      fix w assume "w \<in> set deltaf"
      then have "(x, w) \<in> (below ?ns (node_rank ?ns y))\<^sup>*" using d V by auto
      then show "within ?ns w" using x edges_within [OF l(1)] by (cases rule: rtrancl.cases) (auto simp: below_def)
    qed
    then have "clearVisitedBits (mark V ?ns) deltaf = Inr ?ns" using clear_marked [of deltaf ?ns V] d l(3) by simp
    then show ?thesis using False x y run found by (simp add: IsReachable_def forwardDfs_def)
  qed
qed

section \<open>Reordering\<close>

lemma merge_mset [simp]: "mset (merge xs ys) = mset xs + mset ys"
  by (induction xs ys rule: merge.induct) auto

lemma merge_set [simp]: "set (merge xs ys) = set xs \<union> set ys"
  by (induction xs ys rule: merge.induct) auto

lemma merge_length [simp]: "length (merge xs ys) = length xs + length ys"
  by (induction xs ys rule: merge.induct) auto

lemma merge_sorted: "sorted xs \<Longrightarrow> sorted ys \<Longrightarrow> sorted (merge xs ys)"
  by (induction xs ys rule: merge.induct) auto

lemma merge_bounds:
  assumes "sorted xs" and "sorted ys"
  shows "k < length xs \<Longrightarrow> merge xs ys ! k \<le> xs ! k"
    and "k < length ys \<Longrightarrow> ys ! k \<le> merge xs ys ! (length xs + k)"
proof -
  have "(k < length xs \<longrightarrow> merge xs ys ! k \<le> xs ! k) \<and> (k < length ys \<longrightarrow> ys ! k \<le> merge xs ys ! (length xs + k))" for k
    using assms
  proof (induction xs ys arbitrary: k rule: merge.induct)
    case (3 x xs y ys)
    show ?case
    proof (cases "y < x")
      case True
      have m: "sorted (y # merge (x # xs) ys)" using merge_sorted [OF "3.prems"] True by simp
      have "merge (x # xs) (y # ys) ! k \<le> (x # xs) ! k" if "k < length (x # xs)"
      proof -
        have "(y # merge (x # xs) ys) ! k \<le> (y # merge (x # xs) ys) ! Suc k"
          using sorted_nth_mono [OF m, of k "Suc k"] that by simp
        also have "\<dots> \<le> (x # xs) ! k" using "3.IH"(1) [OF True, of k] "3.prems" that by simp
        finally show ?thesis using True by simp
      qed
      moreover have "(y # ys) ! k \<le> merge (x # xs) (y # ys) ! (length (x # xs) + k)" if "k < length (y # ys)"
      proof (cases k)
        case 0
        then show ?thesis using sorted_nth_mono [OF m, of 0 "length (x # xs)"] True by simp
      next
        case (Suc j)
        then show ?thesis using "3.IH"(1) [OF True, of j] "3.prems" that True by simp
      qed
      ultimately show ?thesis by blast
    next
      case False
      have m: "sorted (x # merge xs (y # ys))" using merge_sorted [OF "3.prems"] False by simp
      have "merge (x # xs) (y # ys) ! k \<le> (x # xs) ! k" if "k < length (x # xs)"
        using "3.IH"(2) [OF False, of "k - 1"] "3.prems" that False by (cases k) auto
      moreover have "(y # ys) ! k \<le> merge (x # xs) (y # ys) ! (length (x # xs) + k)" if "k < length (y # ys)"
        using "3.IH"(2) [OF False, of k] "3.prems" that False by simp
      ultimately show ?thesis by blast
    qed
  qed auto
  then show "k < length xs \<Longrightarrow> merge xs ys ! k \<le> xs ! k"
    "k < length ys \<Longrightarrow> ys ! k \<le> merge xs ys ! (length xs + k)" by blast+
qed

lemma sort_by_rank_within:
  "\<forall>w \<in> set ws. within ns w \<Longrightarrow> sort_by_rank ns ws = Inr (sort_key (node_rank ns) ws)"
  by (simp add: sort_by_rank_def list_all_iff within_def)

lemma insort_key_agree: "\<forall>y \<in> insert x (set xs). f y = g y \<Longrightarrow> insort_key f x xs = insort_key g x xs"
  by (induction xs) auto

lemma sort_key_agree: "\<forall>y \<in> set xs. f y = g y \<Longrightarrow> sort_key f xs = sort_key g xs"
proof (induction xs)
  case (Cons x xs)
  then show ?case using insort_key_agree [of x "sort_key g xs" f g] by simp
qed simp

lemma sort_by_rank_marked:
  assumes "\<forall>w \<in> set ws. within ns w"
  shows "sort_by_rank (mark V ns) ws = Inr (sort_key (node_rank ns) ws)"
proof -
  have "sort_key (node_rank (mark V ns)) ws = sort_key (node_rank ns) ws"
    using assms by (intro sort_key_agree) auto
  then show ?thesis using assms sort_by_rank_within [of ws "mark V ns"] by simp
qed

lemma moveToList_marked:
  assumes "\<forall>w \<in> set ws. within ns w"
  shows "moveToList (mark V ns) ws dst = Inr (mark (V - set ws) ns, map (node_rank ns) ws, dst @ ws)"
  using assms
proof (induction ws arbitrary: V dst)
  case (Cons w ws)
  have "moveToList (mark V ns) (w # ws) dst =
      bnd (moveToList (mark (V - {w}) ns) ws (dst @ [w])) (\<lambda>(ns', ranks, dst). Inr (ns', node_rank ns w # ranks, dst))"
    using Cons.prems mark_remove [of ns w V] by simp
  also have "\<dots> = Inr (mark (V - {w} - set ws) ns, node_rank ns w # map (node_rank ns) ws, dst @ w # ws)"
    using Cons by simp
  also have "V - {w} - set ws = V - set (w # ws)" by auto
  finally show ?case by simp
qed simp

lemma assign_ranks_given:
  assumes "distinct ws" and "length rs = length ws" and "\<forall>w \<in> set ws. within ns w"
  shows "\<exists>ms. assign_ranks ns ws rs = Inr ms \<and> same_links ns ms \<and>
    (\<forall>k < length ws. node_rank ms (ws ! k) = rs ! k) \<and> (\<forall>z. within ns z \<longrightarrow> z \<notin> set ws \<longrightarrow> node_rank ms z = node_rank ns z) \<and>
    (unmarked ns \<longrightarrow> unmarked ms)"
  using assms
proof (induction ws arbitrary: rs ns)
  case Nil
  then show ?case by (simp add: assign_ranks_def same_links_def)
next
  case (Cons w ws)
  obtain r rs' where rs: "rs = r # rs'" "length rs' = length ws" using Cons.prems by (cases rs) auto
  let ?ns = "ns[nat w := (nd ns w)\<lparr>n_rank := r\<rparr>]"
  have w: "within ns w" using Cons.prems by simp
  obtain ms where ms: "assign_ranks ?ns ws rs' = Inr ms" "same_links ?ns ms"
    "\<forall>k < length ws. node_rank ms (ws ! k) = rs' ! k" "\<forall>z. within ns z \<longrightarrow> z \<notin> set ws \<longrightarrow> node_rank ms z = node_rank ?ns z"
    "unmarked ?ns \<longrightarrow> unmarked ms"
    using Cons.IH [of rs' ?ns] Cons.prems rs by auto
  have "assign_ranks ns (w # ws) rs = Inr ms" using ms(1) w by (simp add: assign_ranks_def rs)
  moreover have "same_links ns ?ns" using w by (auto simp: same_links_def nd_upd)
  moreover have "node_rank ms ((w # ws) ! k) = rs ! k" if "k < length (w # ws)" for k
  proof (cases k)
    case 0
    then show ?thesis using ms(4) w Cons.prems(1) by (simp add: rs nd_upd)
  qed (use that ms(3) in \<open>simp add: rs\<close>)
  moreover have "node_rank ms z = node_rank ns z" if "within ns z" "z \<notin> set (w # ws)" for z
    using ms(4) that w by (simp add: nd_upd)
  moreover have "unmarked ns \<longrightarrow> unmarked ms" using ms(5) w by (simp add: unmarked_iff nd_upd)
  ultimately show ?case using ms(2) same_links_trans by blast
qed

text \<open>
  What the reordering of \<open>B\<close> (the nodes that lead to \<open>x\<close>) before \<open>F\<close> (the nodes that \<open>y\<close> leads
  to) does to the ranks: those of \<open>B\<close> only fall, those of \<open>F\<close> only rise, within their range, the
  order inside each is kept and \<open>B\<close> comes before \<open>F\<close>.
\<close>

definition reordered :: "int set \<Rightarrow> int set \<Rightarrow> node list \<Rightarrow> node list \<Rightarrow> bool" where
  "reordered B F ns ms \<longleftrightarrow>
     same_links ns ms \<and> (\<forall>z. within ns z \<longrightarrow> z \<notin> B \<union> F \<longrightarrow> node_rank ms z = node_rank ns z) \<and>
     node_rank ms ` (B \<union> F) = node_rank ns ` (B \<union> F) \<and> inj_on (node_rank ms) (B \<union> F) \<and>
     (\<forall>b \<in> B. node_rank ms b \<le> node_rank ns b) \<and> (\<forall>f \<in> F. node_rank ns f \<le> node_rank ms f) \<and>
     (\<forall>a \<in> B. \<forall>b \<in> B. node_rank ns a < node_rank ns b \<longrightarrow> node_rank ms a < node_rank ms b) \<and>
     (\<forall>a \<in> F. \<forall>b \<in> F. node_rank ns a < node_rank ns b \<longrightarrow> node_rank ms a < node_rank ms b) \<and>
     (\<forall>b \<in> B. \<forall>f \<in> F. node_rank ms b < node_rank ms f)"

lemma sort_key_order:
  assumes "i < length ws" "j < length ws" "key (sort_key key ws ! i) < key (sort_key key ws ! j)"
  shows "i < j"
proof (rule ccontr)
  assume "\<not> i < j"
  then have "map key (sort_key key ws) ! j \<le> map key (sort_key key ws) ! i"
    using assms by (intro sorted_nth_mono) auto
  then show False using assms by simp
qed

lemma reorder_reordered:
  assumes nodes: "g_nodes g = mark (set (g_deltab g) \<union> set (g_deltaf g)) ns"
    and B: "set (g_deltab g) = B" and F: "set (g_deltaf g) = F" and BF: "B \<inter> F = {}"
    and d: "distinct (g_deltab g)" "distinct (g_deltaf g)" and w: "\<forall>z \<in> B \<union> F. within ns z"
    and inj: "inj_on (node_rank ns) (B \<union> F)" and un: "unmarked ns"
  shows "\<exists>h. reorder g = Inr h \<and> reordered B F ns (g_nodes h) \<and> unmarked (g_nodes h)"
proof -
  define bs where "bs = sort_key (node_rank ns) (g_deltab g)"
  define fs where "fs = sort_key (node_rank ns) (g_deltaf g)"
  define rs where "rs = merge (map (node_rank ns) bs) (map (node_rank ns) fs)"
  have sets: "set bs = B" "set fs = F" and dist: "distinct (bs @ fs)"
    using B F BF d by (auto simp: bs_def fs_def)
  have sorted: "sorted (map (node_rank ns) bs)" "sorted (map (node_rank ns) fs)" by (simp_all add: bs_def fs_def)
  have mset: "mset rs = mset (map (node_rank ns) (bs @ fs))" by (simp add: rs_def)
  have "distinct (map (node_rank ns) (bs @ fs))" using inj dist sets by (subst distinct_map) auto
  then have drs: "distinct rs" and srs: "sorted rs" using mset_eq_imp_distinct_iff [OF mset] merge_sorted [OF sorted]
    by (simp_all add: rs_def)
  have set_rs: "set rs = node_rank ns ` (B \<union> F)" using sets by (auto simp: rs_def)
  have len: "length rs = length (bs @ fs)" by (simp add: rs_def)
  have wbf: "\<forall>z \<in> set (bs @ fs). within ns z" using w sets by simp
  obtain ms where ms: "assign_ranks ns (bs @ fs) rs = Inr ms" "same_links ns ms" "unmarked ms"
    and rank: "\<And>k. k < length (bs @ fs) \<Longrightarrow> node_rank ms ((bs @ fs) ! k) = rs ! k"
    and rest: "\<And>z. within ns z \<Longrightarrow> z \<notin> B \<union> F \<Longrightarrow> node_rank ms z = node_rank ns z"
    using assign_ranks_given [OF dist len wbf] un sets by auto
  have wb: "\<forall>z \<in> set bs. within ns z" "\<forall>z \<in> set fs. within ns z"
    "\<forall>z \<in> set (g_deltab g). within ns z" "\<forall>z \<in> set (g_deltaf g). within ns z"
    using w sets B F by auto
  have marks: "B \<union> F - B - F = {}" by auto
  have run: "reorder g = Inr (g\<lparr>g_nodes := ms, g_deltaf := map (node_rank ns) fs, g_deltab := map (node_rank ns) bs,
      g_list := bs @ fs, g_merged := rs\<rparr>)"
    using sets ms(1)
    by (simp add: reorder_def nodes sort_by_rank_marked wb flip: bs_def fs_def)
       (simp add: moveToList_marked wb B F marks mark_none [OF un] flip: rs_def)
  have inc: "rs ! i < rs ! j" if "i < j" "j < length rs" for i j
    using that srs drs by (metis nth_eq_iff_index_eq order.strict_trans order_less_le order_less_irrefl sorted_nth_mono)
  have rb: "node_rank ms (bs ! i) = rs ! i" if "i < length bs" for i
    using rank [of i] that by (simp add: nth_append)
  have rf: "node_rank ms (fs ! i) = rs ! (length bs + i)" if "i < length fs" for i
    using rank [of "length bs + i"] that by simp
  have pb: "\<exists>i < length bs. b = bs ! i" if "b \<in> B" for b using that sets by (metis in_set_conv_nth)
  have pf: "\<exists>i < length fs. f = fs ! i" if "f \<in> F" for f using that sets by (metis in_set_conv_nth)
  have "map (node_rank ms) (bs @ fs) = rs"
    by (rule nth_equalityI) (simp add: len, metis length_map nth_map rank)
  then have img: "node_rank ms ` (B \<union> F) = node_rank ns ` (B \<union> F)" "inj_on (node_rank ms) (B \<union> F)"
    using set_rs drs sets by (metis set_map set_append, metis distinct_map set_append)
  have down: "node_rank ms b \<le> node_rank ns b" if "b \<in> B" for b
    using pb [OF that] rb merge_bounds(1) [OF sorted] by (auto simp: rs_def)
  have up: "node_rank ns f \<le> node_rank ms f" if "f \<in> F" for f
    using pf [OF that] rf merge_bounds(2) [OF sorted] by (auto simp: rs_def)
  have bb: "node_rank ms a < node_rank ms b" if ab: "a \<in> B" "b \<in> B" "node_rank ns a < node_rank ns b" for a b
  proof -
    obtain i j where ij: "i < length bs" "a = bs ! i" "j < length bs" "b = bs ! j" using pb ab by blast
    then have "i < j" using sort_key_order [of i "g_deltab g" j "node_rank ns"] ab(3) unfolding bs_def by simp
    then show ?thesis using ij rb inc len by simp
  qed
  have ff: "node_rank ms a < node_rank ms b" if ab: "a \<in> F" "b \<in> F" "node_rank ns a < node_rank ns b" for a b
  proof -
    obtain i j where ij: "i < length fs" "a = fs ! i" "j < length fs" "b = fs ! j" using pf ab by blast
    then have "i < j" using sort_key_order [of i "g_deltaf g" j "node_rank ns"] ab(3) unfolding fs_def by simp
    then show ?thesis using ij rf inc len by simp
  qed
  have bf: "node_rank ms b < node_rank ms f" if "b \<in> B" "f \<in> F" for b f
    using pb [OF that(1)] pf [OF that(2)] rb rf inc len by auto
  show ?thesis
    using run ms(2,3) rest img down up bb ff bf unfolding reordered_def by auto
qed

section \<open>Adding and removing an edge\<close>

text \<open>Both write one successor set and the mirrored predecessor set.\<close>

lemma relink:
  assumes ok: "links_ok ns" and x: "within ns x" and y: "within ns y"
    and f: "f (n_out (nd ns x)) = Inr s" "oset_ok s" "\<And>z. z \<in> elems s \<longleftrightarrow> (if z = y then b else (x, z) \<in> edges ns)"
    and f': "f' (n_in (nd ns y)) = Inr t" "oset_ok t" "\<And>z. z \<in> elems t \<longleftrightarrow> (if z = x then b else (z, y) \<in> edges ns)"
  shows "\<exists>ks ms. set_out x f ns = Inr ks \<and> set_in y f' ks = Inr ms \<and> within ks = within ns \<and>
    node_rank ks y = node_rank ns y \<and> same_marks ns ms \<and> links_ok ms \<and>
    edges ms = (if b then insert (x, y) (edges ns) else edges ns - {(x, y)})"
proof -
  let ?ks = "ns[nat x := (nd ns x)\<lparr>n_out := s\<rparr>]"
  let ?ms = "?ks[nat y := (nd ?ks y)\<lparr>n_in := t\<rparr>]"
  have ks: "n_in (nd ?ks y) = n_in (nd ns y)" "node_rank ?ks y = node_rank ns y" using x y by (simp_all add: nd_upd)
  have run: "set_out x f ns = Inr ?ks" "set_in y f' ?ks = Inr ?ms"
    using x y f f' ks by (simp_all add: set_out_def set_in_def)
  have out: "n_out (nd ?ms z) = (if z = x then s else n_out (nd ns z))"
    and "in": "n_in (nd ?ms z) = (if z = y then t else n_in (nd ns z))"
    and marks: "node_rank ?ms z = node_rank ns z" "n_visited (nd ?ms z) = n_visited (nd ns z)" if "within ns z" for z
    using x y that by (auto simp: nd_upd)
  have mem: "(u, v) \<in> edges ?ms \<longleftrightarrow> (if u = x \<and> v = y then b else (u, v) \<in> edges ns)" for u v
  proof (cases "within ns u")
    case True
    then show ?thesis using out [OF True] f(3) [of v] by (auto simp: edges_def)
  next
    case False
    then show ?thesis using x by (auto simp: edges_def)
  qed
  have edges: "edges ?ms = (if b then insert (x, y) (edges ns) else edges ns - {(x, y)})"
    using mem by (auto split: if_splits)
  have "links_ok ?ms"
    unfolding links_ok_def
  proof (intro conjI allI impI ballI)
    fix z assume z: "within ?ms z"
    then show "oset_ok (n_in (nd ?ms z))" "oset_ok (n_out (nd ?ms z))"
      using "in" out f(2) f'(2) links_okD(1,2) [OF ok, of z] by (simp_all del: nd_upd)
  next
    fix e assume "e \<in> edges ?ms"
    then show "case e of (u, v) \<Rightarrow> within ?ms v"
      using mem y edges_within [OF ok] by (cases e) (auto split: if_splits)
  next
    fix u v assume v: "within ?ms v"
    then show "u \<in> elems (n_in (nd ?ms v)) \<longleftrightarrow> (u, v) \<in> edges ?ms"
      using "in" [of v] f'(3) [of u] links_okD(4) [OF ok, of v u] by (simp only: mem within_upd) auto
  qed
  moreover have "same_marks ns ?ms" using marks by (simp add: same_marks_def)
  ultimately show ?thesis using run edges ks(2) by (intro exI [of _ ?ks] exI [of _ ?ms]) (auto simp: fun_eq_iff)
qed

lemma link_edge:
  assumes ok: "links_ok ns" and x: "within ns x" and y: "within ns y"
  shows "\<exists>ks ms. set_out x (\<lambda>s. Inr (fst (Insert y s))) ns = Inr ks \<and>
    set_in y (\<lambda>s. Inr (fst (Insert x s))) ks = Inr ms \<and> same_marks ns ms \<and> links_ok ms \<and>
    edges ms = insert (x, y) (edges ns)"
proof -
  let ?s = "fst (Insert y (n_out (nd ns x)))" and ?t = "fst (Insert x (n_in (nd ns y)))"
  have s: "oset_ok ?s" "\<And>z. z \<in> elems ?s \<longleftrightarrow> (if z = y then True else (x, z) \<in> edges ns)"
    using links_okD [OF ok x] by (auto simp: os.ins)
  have t: "oset_ok ?t" "\<And>z. z \<in> elems ?t \<longleftrightarrow> (if z = x then True else (z, y) \<in> edges ns)"
    using links_okD [OF ok y] by (auto simp: os.ins)
  show ?thesis
    using relink [where f = "\<lambda>s. Inr (fst (Insert y s))" and f' = "\<lambda>s. Inr (fst (Insert x s))",
        OF ok x y refl s refl t] by (auto simp del: Inl_Inr_False)
qed

lemma unlink_edge:
  assumes ok: "links_ok ns" and e: "(x, y) \<in> edges ns"
  shows "\<exists>ms. remove_edge x y ns = Inr ms \<and> same_marks ns ms \<and> links_ok ms \<and> edges ms = edges ns - {(x, y)}"
proof -
  have x: "within ns x" and y: "within ns y" using edges_within [OF ok e] by auto
  obtain s where s: "Erase y (n_out (nd ns x)) = Inr s" "oset_ok s" "elems s = elems (n_out (nd ns x)) - {y}"
    using os.del links_okD [OF ok x] e by blast
  obtain t where t: "Erase x (n_in (nd ns y)) = Inr t" "oset_ok t" "elems t = elems (n_in (nd ns y)) - {x}"
    using os.del links_okD [OF ok y] e by blast
  have ms: "\<And>z. z \<in> elems s \<longleftrightarrow> (if z = y then False else (x, z) \<in> edges ns)"
    "\<And>z. z \<in> elems t \<longleftrightarrow> (if z = x then False else (z, y) \<in> edges ns)"
    using links_okD(3) [OF ok x] links_okD(4) [OF ok y] s(3) t(3) by auto
  show ?thesis
    using relink [where f = "Erase y" and f' = "Erase x", OF ok x y s(1,2) ms(1) t(1,2) ms(2)]
    by (auto simp: remove_edge_def)
qed

lemma ranks_ok_less:
  assumes "same_marks ns ms" and "edges ms \<subseteq> edges ns" and "ranks_ok ns" and "links_ok ns"
  shows "ranks_ok ms"
proof -
  have r: "node_rank ms z = node_rank ns z" if "within ns z" for z using assms(1) that by (simp add: same_marks_def)
  show ?thesis
    using assms(2,3) edges_within [OF assms(4)] unfolding ranks_ok_def same_within(2) [OF assms(1)]
    by (auto simp: r) (metis (no_types, lifting) case_prodD r subsetD)
qed

lemma mark_self:
  assumes "\<forall>x. within ns x \<longrightarrow> (n_visited (nd ns x) \<longleftrightarrow> x \<in> V)"
  shows "mark V ns = ns"
proof (rule nth_equalityI)
  fix i assume i: "i < length (mark V ns)"
  then have "n_visited (ns ! i) \<longleftrightarrow> int i \<in> V" using assms [rule_format, of "int i"] by (simp add: within_def mark_def)
  then show "mark V ns ! i = ns ! i" using i by (simp add: mark_def)
qed (simp add: mark_def)

text \<open>The reordered ranks fit every edge, the new one included.\<close>

lemma reordered_ranks_ok:
  assumes ranks: "ranks_ok ns" and marks: "same_marks ns ms" and ok: "links_ok ms"
    and edges: "edges ms = insert (x, y) (edges ns)"
    and B: "x \<in> B" "\<And>b. b \<in> B \<Longrightarrow> within ns b \<and> node_rank ns y < node_rank ns b \<and> node_rank ns b \<le> node_rank ns x"
      "\<And>a b. b \<in> B \<Longrightarrow> (a, b) \<in> edges ns \<Longrightarrow> node_rank ns y < node_rank ns a \<Longrightarrow> a \<in> B"
    and F: "y \<in> F" "\<And>f. f \<in> F \<Longrightarrow> within ns f \<and> node_rank ns y \<le> node_rank ns f \<and> node_rank ns f < node_rank ns x"
      "\<And>a b. a \<in> F \<Longrightarrow> (a, b) \<in> edges ns \<Longrightarrow> node_rank ns b \<le> node_rank ns x \<Longrightarrow> b \<in> F"
    and BF: "B \<inter> F = {}" and re: "reordered B F ms ks"
  shows "ranks_ok ks"
proof -
  have r: "node_rank ms z = node_rank ns z" if "within ns z" for z using marks that by (simp add: same_marks_def)
  have w: "within ks z \<longleftrightarrow> within ns z" "within ms z \<longleftrightarrow> within ns z" for z
    using re same_within [of ms ks] same_within [OF _, of ns ms] marks unfolding reordered_def by auto
  have eks: "edges ks = insert (x, y) (edges ns)" using re same_edges edges unfolding reordered_def by metis
  have ew: "within ns a \<and> within ns b" if "(a, b) \<in> edges ks" for a b
    using edges_within [OF ok, of a b] that w by (simp add: edges eks)
  have rest: "node_rank ks z = node_rank ns z" if "within ns z" "z \<notin> B \<union> F" for z
    using re that r w by (auto simp: reordered_def)
  have img: "node_rank ks ` (B \<union> F) = node_rank ns ` (B \<union> F)"
  proof -
    have "node_rank ms ` (B \<union> F) = node_rank ns ` (B \<union> F)" using r B(2) F(2) by (intro image_cong) auto
    then show ?thesis using re by (simp add: reordered_def)
  qed
  have range: "node_rank ns y \<le> node_rank ks z \<and> node_rank ks z \<le> node_rank ns x" if "z \<in> B \<union> F" for z
  proof -
    have "node_rank ks z \<in> node_rank ns ` (B \<union> F)" using img that by blast
    then show ?thesis using B(2) F(2) by force
  qed
  have down: "node_rank ks b \<le> node_rank ns b" if "b \<in> B" for b
    using re r [of b] B(2) that unfolding reordered_def by auto
  have up: "node_rank ns f \<le> node_rank ks f" if "f \<in> F" for f
    using re r [of f] F(2) that unfolding reordered_def by auto
  have bb: "node_rank ks a < node_rank ks b" if "a \<in> B" "b \<in> B" "node_rank ns a < node_rank ns b" for a b
    using re r [of a] r [of b] B(2) that unfolding reordered_def by auto
  have ff: "node_rank ks a < node_rank ks b" if "a \<in> F" "b \<in> F" "node_rank ns a < node_rank ns b" for a b
    using re r [of a] r [of b] F(2) that unfolding reordered_def by auto
  have bf: "node_rank ks b < node_rank ks f" if "b \<in> B" "f \<in> F" for b f
    using re that unfolding reordered_def by auto
  have inj: "a = b" if "within ns a" "within ns b" "node_rank ks a = node_rank ks b" for a b
  proof -
    have out: "node_rank ks z = node_rank ns z \<and> node_rank ns z \<notin> node_rank ns ` (B \<union> F)" if "within ns z" "z \<notin> B \<union> F" for z
      using rest [OF that] that ranks B(2) F(2) unfolding ranks_ok_def by auto
    consider "a \<in> B \<union> F" "b \<in> B \<union> F" | "a \<in> B \<union> F" "b \<notin> B \<union> F" | "a \<notin> B \<union> F" "b \<in> B \<union> F"
      | "a \<notin> B \<union> F" "b \<notin> B \<union> F" by blast
    then show ?thesis
    proof cases
      case 1
      then show ?thesis using re that unfolding reordered_def inj_on_def by blast
    next
      case 4
      then show ?thesis using rest that ranks unfolding ranks_ok_def by simp
    qed (use out that img in \<open>metis imageI\<close>)+
  qed
  have mono: "node_rank ks a < node_rank ks b" if e: "(a, b) \<in> edges ns" for a b
  proof -
    have "(a, b) \<in> edges ks" using e by (simp add: eks)
    then have ab: "within ns a" "within ns b" "node_rank ns a < node_rank ns b"
      using e ew ranks unfolding ranks_ok_def by blast+
    have "node_rank ks a < node_rank ks b" if a: "a \<in> B"
    proof -
      consider "b \<in> B" | "b \<in> F" | "b \<notin> B \<union> F" by blast
      then show ?thesis by cases (use a ab bb bf down [OF a] rest [of b] in simp_all)
    qed
    moreover have "node_rank ks a < node_rank ks b" if "a \<in> F"
    proof (cases "b \<in> F")
      case False
      then have "node_rank ns x < node_rank ns b" using F(3) [OF that e] by force
      moreover from this have "b \<notin> B" using B(2) [of b] by auto
      ultimately show ?thesis using range [of a] that rest [of b] False ab by auto
    qed (use ff ab that in blast)
    moreover have "node_rank ks a < node_rank ks b" if a: "a \<notin> B" "a \<notin> F"
    proof -
      consider "b \<in> B" | "b \<in> F" | "b \<notin> B \<union> F" by blast
      then show ?thesis
      proof cases
        case 1
        then have "node_rank ns a \<le> node_rank ns y" using B(3) [OF _ e] a by force
        moreover have "node_rank ns a \<noteq> node_rank ns y" using ranks ab a F(1) F(2) [OF F(1)] unfolding ranks_ok_def by metis
        ultimately show ?thesis using range [of b] 1 rest [of a] a ab by force
      qed (use up ab rest a in fastforce)+
    qed
    ultimately show ?thesis by blast
  qed
  show ?thesis
    unfolding ranks_ok_def w eks using inj mono bf [OF B(1) F(1)] by auto
qed

section \<open>\<open>InsertEdge\<close>\<close>

text \<open>
  The search for a cycle runs on the graph \<open>ms\<close> that has the new edge \<open>(x, y)\<close> already; it never
  leaves \<open>x\<close>, so it does not take it.
\<close>

lemma below_new_edge:
  assumes marks: "same_marks ns ms" and ok: "links_ok ns" and y: "within ns y" and x: "within ns x"
    and edges: "edges ms = insert (x, y) (edges ns)" and yx: "node_rank ns y < node_rank ns x"
    and b: "(y, b) \<in> (below ms (node_rank ns x))\<^sup>*"
  shows "(y, b) \<in> (below ns (node_rank ns x))\<^sup>* \<and> within ns b \<and> node_rank ns b < node_rank ns x \<and> b \<noteq> x"
  using b
proof induction
  case base
  then show ?case using y yx by auto
next
  case (step a b)
  then have e: "(a, b) \<in> edges ns" "node_rank ms b < node_rank ns x" by (auto simp: below_def edges)
  then have "within ns b" "node_rank ns b < node_rank ns x"
    using edges_within [OF ok e(1)] marks by (auto simp: same_marks_def)
  then show ?case using step.IH e by (auto simp: below_def intro: rtrancl.rtrancl_into_rtrancl)
qed

lemma above_new_edge:
  assumes ranks: "ranks_ok ns" and marks: "same_marks ns ms" and ok: "links_ok ns" and x: "within ns x"
    and edges: "edges ms = insert (x, y) (edges ns)" and yx: "node_rank ns y < node_rank ns x"
    and F: "x \<notin> F" "y \<in> F" "\<And>a b. a \<in> F \<Longrightarrow> (a, b) \<in> edges ns \<Longrightarrow> node_rank ns b \<le> node_rank ns x \<Longrightarrow> b \<in> F"
    and b: "(x, b) \<in> (above ms (node_rank ns y))\<^sup>*"
  shows "b \<notin> F \<and> within ns b \<and> node_rank ns y < node_rank ns b \<and> node_rank ns b \<le> node_rank ns x"
  using b
proof induction
  case base
  then show ?case using x yx F by auto
next
  case (step b a)
  then have e: "(a, b) \<in> edges ms" "node_rank ns y < node_rank ms a" by (auto simp: above_def)
  then have e': "(a, b) \<in> edges ns" using step.IH F(2) by (auto simp: edges)
  then have "node_rank ns a < node_rank ns b" "within ns a" using ranks edges_within [OF ok e'] unfolding ranks_ok_def by auto
  then show ?case using step.IH e' e(2) F(3) [OF _ e'] marks by (auto simp: same_marks_def)
qed

lemma InsertEdge_unfound:
  assumes ok: "links_ok ns" "ranks_ok ns" "unmarked ns" and x: "within ns x" and y: "within ns y"
    and ms: "same_marks ns ms" "links_ok ms" "edges ms = insert (x, y) (edges ns)" and yx: "node_rank ns y < node_rank ns x"
    and g: "g_nodes g = mark F ms" "set (g_deltaf g) = F" "distinct (g_deltaf g)"
    and F: "F \<subseteq> (below ms (node_rank ns x))\<^sup>* `` {y}" "y \<in> F" "below ms (node_rank ns x) `` F \<subseteq> F"
      "\<forall>a \<in> F. \<forall>w. (a, w) \<in> edges ms \<longrightarrow> node_rank ms w \<noteq> node_rank ns x"
  shows "\<exists>h k. backwardDfs g x (node_rank ns y) = Inr h \<and> reorder h = Inr k \<and> graph_ok k \<and>
    edges (g_nodes k) = edges ms \<and> length (g_nodes k) = length ns"
proof -
  have r: "node_rank ms z = node_rank ns z" if "within ns z" for z using ms(1) that by (simp add: same_marks_def)
  have w: "within ms z \<longleftrightarrow> within ns z" for z using same_within(2) [OF ms(1)] .
  have inF: "within ns f \<and> node_rank ns f < node_rank ns x \<and> f \<noteq> x" if "f \<in> F" for f
    using below_new_edge [OF ms(1) ok(1) y x ms(3) yx] F(1) that by blast
  have Frange: "node_rank ns y \<le> node_rank ns f" if "f \<in> F" for f
  proof -
    have "(y, f) \<in> (edges ns)\<^sup>*"
      using below_new_edge [OF ms(1) ok(1) y x ms(3) yx] F(1) that below_range(2) [OF _ yx] by blast
    then show ?thesis using ranks_mono [OF ok(2)] by force
  qed
  have Fclosed: "b \<in> F" if "a \<in> F" "(a, b) \<in> edges ns" "node_rank ns b \<le> node_rank ns x" for a b
  proof -
    have "node_rank ms b \<noteq> node_rank ns x" using F(4) that ms(3) by auto
    then have "(a, b) \<in> below ms (node_rank ns x)"
      using that ms(3) r [of b] edges_within [OF ok(1) that(2)] by (simp add: below_def)
    then show ?thesis using F(3) that by blast
  qed
  obtain V deltab where run: "backward_loop (node_rank ns y) (mark F ms) [] [x] = Inr (mark V ms, deltab)"
    and B: "set deltab = V - F" "distinct deltab" "insert x F \<subseteq> V" "V \<subseteq> F \<union> (above ms (node_rank ns y))\<^sup>* `` {x}"
      "above ms (node_rank ns y) `` (V - F) \<subseteq> V"
    using backward_from [OF ms(2), of x "node_rank ns y" F] x w by auto
  have xF: "x \<notin> F" using inF by blast
  have up: "b \<notin> F \<and> within ns b \<and> node_rank ns y < node_rank ns b \<and> node_rank ns b \<le> node_rank ns x"
    if "(x, b) \<in> (above ms (node_rank ns y))\<^sup>*" for b
    by (rule above_new_edge [OF ok(2) ms(1) ok(1) x ms(3) yx xF F(2) Fclosed that])
  have inB: "within ns b \<and> node_rank ns y < node_rank ns b \<and> node_rank ns b \<le> node_rank ns x" if "b \<in> V - F" for b
    using up B(4) that by blast
  have Bclosed: "a \<in> V - F" if "b \<in> V - F" "(a, b) \<in> edges ns" "node_rank ns y < node_rank ns a" for a b
  proof -
    have step: "(b, a) \<in> above ms (node_rank ns y)"
      using that ms(3) r [of a] edges_within [OF ok(1) that(2)] by (simp add: above_def)
    have "(x, b) \<in> (above ms (node_rank ns y))\<^sup>*" using B(4) that(1) by blast
    then have "a \<notin> F" using up step by (meson rtrancl.rtrancl_into_rtrancl)
    then show ?thesis using B(5) step that(1) by blast
  qed
  define h where "h = g\<lparr>g_nodes := mark V ms, g_deltab := deltab, g_stack := []\<rparr>"
  have bwd: "backwardDfs g x (node_rank ns y) = Inr h" using run by (simp add: backwardDfs_def g h_def)
  have "V = (V - F) \<union> F" using B(3) by blast
  then have nodes: "g_nodes h = mark (set (g_deltab h) \<union> set (g_deltaf h)) ms" by (simp add: h_def g B)
  have inj: "inj_on (node_rank ms) (V - F \<union> F)"
    using ok(2) inB inF r unfolding ranks_ok_def inj_on_def by (metis Un_iff)
  have un: "unmarked ms" using same_unmarked [OF ms(1)] ok(3) by simp
  have wBF: "\<forall>z \<in> V - F \<union> F. within ms z" using inB inF w by blast
  have delta: "set (g_deltab h) = V - F" "set (g_deltaf h) = F" "distinct (g_deltab h)" "distinct (g_deltaf h)"
    using B g by (simp_all add: h_def)
  obtain k where k: "reorder h = Inr k" "reordered (V - F) F ms (g_nodes k)" "unmarked (g_nodes k)"
    using reorder_reordered [OF nodes delta(1,2) _ delta(3,4) wBF inj un] by auto
  have "ranks_ok (g_nodes k)"
  proof (rule reordered_ranks_ok [OF ok(2) ms(1,2,3) _ _ Bclosed F(2) _ Fclosed _ k(2)])
    show "x \<in> V - F" using B(3) xF by blast
  qed (use inB inF Frange in auto)
  moreover have "same_links ms (g_nodes k)" using k(2) by (simp add: reordered_def)
  ultimately show ?thesis
    using bwd k same_edges same_links_ok ms unfolding graph_ok_def same_links_def same_marks_def by (metis (no_types, lifting))
qed

lemma InsertEdge_search:
  assumes ok: "links_ok ns" "ranks_ok ns" "unmarked ns" and x: "within ns x" and y: "within ns y"
    and ms: "same_marks ns ms" "links_ok ms" "edges ms = insert (x, y) (edges ns)" and yx: "node_rank ns y < node_rank ns x"
    and V: "V \<subseteq> (below ms (node_rank ns x))\<^sup>* `` {y}"
    and found: "found \<longrightarrow> (\<exists>a \<in> V. \<exists>w. (a, w) \<in> edges ms \<and> node_rank ms w = node_rank ns x)"
    and unfound: "\<not> found \<longrightarrow> y \<in> V \<and> below ms (node_rank ns x) `` V \<subseteq> V \<and>
      (\<forall>a \<in> V. \<forall>w. (a, w) \<in> edges ms \<longrightarrow> node_rank ms w \<noteq> node_rank ns x)"
  shows "found \<longleftrightarrow> (y, x) \<in> (edges ns)\<^sup>*"
proof (rule search_decides [OF ok(1,2) y x yx])
  have inV: "(y, v) \<in> (below ns (node_rank ns x))\<^sup>* \<and> v \<noteq> x" if "v \<in> V" for v
    using below_new_edge [OF ms(1) ok(1) y x ms(3) yx] V that by blast
  have r: "node_rank ms w = node_rank ns w" if "(a, w) \<in> edges ns" for a w
    using edges_within [OF ok(1) that] ms(1) by (simp add: same_marks_def)
  show "V \<subseteq> (below ns (node_rank ns x))\<^sup>* `` {y}" using inV by blast
  show "found \<longrightarrow> (\<exists>a \<in> V. \<exists>w. (a, w) \<in> edges ns \<and> node_rank ns w = node_rank ns x)"
  proof
    assume found
    then obtain a w where aw: "a \<in> V" "(a, w) \<in> edges ms" "node_rank ms w = node_rank ns x" using found by blast
    then have "(a, w) \<in> edges ns" using inV ms(3) by auto
    then show "\<exists>a \<in> V. \<exists>w. (a, w) \<in> edges ns \<and> node_rank ns w = node_rank ns x" using aw r by force
  qed
  show "\<not> found \<longrightarrow> y \<in> V \<and> below ns (node_rank ns x) `` V \<subseteq> V \<and>
      (\<forall>a \<in> V. \<forall>w. (a, w) \<in> edges ns \<longrightarrow> node_rank ns w \<noteq> node_rank ns x)"
  proof
    assume n: "\<not> found"
    have sub: "below ns (node_rank ns x) \<subseteq> below ms (node_rank ns x)" using r ms(3) by (auto simp: below_def)
    have u: "y \<in> V" "below ms (node_rank ns x) `` V \<subseteq> V" "\<forall>a \<in> V. \<forall>w. (a, w) \<in> edges ms \<longrightarrow> node_rank ms w \<noteq> node_rank ns x"
      using unfound n by blast+
    have "node_rank ns w \<noteq> node_rank ns x" if "a \<in> V" "(a, w) \<in> edges ns" for a w
      using u(3) that r [OF that(2)] ms(3) by force
    then show "y \<in> V \<and> below ns (node_rank ns x) `` V \<subseteq> V \<and> (\<forall>a \<in> V. \<forall>w. (a, w) \<in> edges ns \<longrightarrow> node_rank ns w \<noteq> node_rank ns x)"
      using u sub by blast
  qed
qed

lemma InsertEdge_correct:
  assumes ok: "graph_ok g" and x: "within (g_nodes g) x" and y: "within (g_nodes g) y"
  shows "\<exists>h. InsertEdge x y g = Inr (h, (y, x) \<notin> (edges (g_nodes g))\<^sup>*) \<and> graph_ok h \<and>
    length (g_nodes h) = length (g_nodes g) \<and>
    edges (g_nodes h) = (if (y, x) \<in> (edges (g_nodes g))\<^sup>* then edges (g_nodes g) else insert (x, y) (edges (g_nodes g)))"
proof -
  define ns where "ns = g_nodes g"
  have l: "links_ok ns" "ranks_ok ns" "unmarked ns" using ok by (simp_all add: graph_ok_def ns_def)
  have w: "within ns x" "within ns y" using x y by (simp_all add: ns_def)
  have at: "at ns x = Inr (nd ns x)" using w by simp
  have fresh: "snd (Insert y (n_out (nd ns x))) \<longleftrightarrow> (x, y) \<notin> edges ns" using links_okD [OF l(1) w(1)] os.ins by simp
  consider "x = y" | "x \<noteq> y" "(x, y) \<in> edges ns" | "x \<noteq> y" "(x, y) \<notin> edges ns" by blast
  then show ?thesis
  proof cases
    case 1
    then show ?thesis using ok by (simp add: InsertEdge_def)
  next
    case 2
    then have "(y, x) \<notin> (edges ns)\<^sup>*" using ranks_mono [OF l(2), of y x] l(2) unfolding ranks_ok_def by fastforce
    moreover have "InsertEdge x y g = Inr (g, True)" using 2 at fresh by (simp add: InsertEdge_def flip: ns_def)
    ultimately show ?thesis using 2 ok by (auto simp: ns_def)
  next
    case 3
    obtain ks ms where link: "set_out x (\<lambda>s. Inr (fst (Insert y s))) ns = Inr ks"
      "set_in y (\<lambda>s. Inr (fst (Insert x s))) ks = Inr ms"
      and ms: "same_marks ns ms" "links_ok ms" "edges ms = insert (x, y) (edges ns)"
      using link_edge [OF l(1) w] by blast
    have ny: "at ms y = Inr (nd ms y)" "node_rank ms y = node_rank ns y" using w ms(1) same_within(2) [OF ms(1)] by (simp_all add: same_marks_def)
    have un: "mark {} ms = ms" using mark_none same_unmarked [OF ms(1)] l(3) by simp
    have len: "length ms = length ns" using ms(1) by (simp add: same_marks_def)
    show ?thesis
    proof (cases "node_rank ns x \<le> node_rank ns y")
      case True
      then have lt: "node_rank ns x < node_rank ns y" using 3 l(2) w unfolding ranks_ok_def by force
      then have "(y, x) \<notin> (edges ns)\<^sup>*" using ranks_mono [OF l(2), of y x] 3 by force
      moreover have "ranks_ok ms"
      proof -
        have "within ms z \<longleftrightarrow> within ns z" "within ns z \<Longrightarrow> node_rank ms z = node_rank ns z" for z
          using ms(1) same_within(2) [OF ms(1)] by (simp_all add: same_marks_def)
        then show ?thesis using l(2) lt w edges_within [OF l(1)] unfolding ranks_ok_def ms(3) by auto
      qed
      moreover have "InsertEdge x y g = Inr (g\<lparr>g_nodes := ms\<rparr>, True)"
        using 3 at fresh link ny True by (simp add: InsertEdge_def Let_def flip: ns_def)
      ultimately show ?thesis
        using ms(2,3) same_unmarked [OF ms(1)] l(3) len by (simp add: graph_ok_def ns_def)
    next
      case False
      then have yx: "node_rank ns y < node_rank ns x" by simp
      have wy: "within ms y" using w same_within(2) [OF ms(1)] by simp
      obtain found V deltaf stack where
        run: "forward_loop (node_rank ns x) ms [] [y] = Inr (found, mark V ms, deltaf, stack)"
        and d: "set deltaf = V" "distinct deltaf" and V: "V \<subseteq> (below ms (node_rank ns x))\<^sup>* `` {y}"
          "found \<longrightarrow> (\<exists>a \<in> V. \<exists>w. (a, w) \<in> edges ms \<and> node_rank ms w = node_rank ns x)"
          "\<not> found \<longrightarrow> y \<in> V \<and> below ms (node_rank ns x) `` V \<subseteq> V \<and>
            (\<forall>a \<in> V. \<forall>w. (a, w) \<in> edges ms \<longrightarrow> node_rank ms w \<noteq> node_rank ns x)"
        using forward_from [OF ms(2) wy, of "node_rank ns x"] unfolding un by blast
      have fwd: "forwardDfs (g\<lparr>g_nodes := ms\<rparr>) y (node_rank ns x) =
          Inr (g\<lparr>g_nodes := mark V ms, g_deltaf := deltaf, g_stack := stack\<rparr>, found)"
        using run by (simp add: forwardDfs_def del: forward_loop.simps)
      have decides: "found \<longleftrightarrow> (y, x) \<in> (edges ns)\<^sup>*" by (rule InsertEdge_search [OF l w ms yx V])
      let ?g = "g\<lparr>g_nodes := mark V ms, g_deltaf := deltaf, g_stack := stack\<rparr>"
      show ?thesis
      proof (cases found)
        case False
        then obtain h k where "backwardDfs ?g x (node_rank ns y) = Inr h" "reorder h = Inr k" "graph_ok k"
          "edges (g_nodes k) = edges ms" "length (g_nodes k) = length ns"
          using InsertEdge_unfound [OF l w ms yx, of ?g V] d V by auto
        moreover from this have "InsertEdge x y g = Inr (k, True)"
          using 3 at fresh link ny fwd False yx by (simp add: InsertEdge_def Let_def flip: ns_def)
        ultimately show ?thesis using decides False ms(3) by (simp add: ns_def)
      next
        case True
        have lV: "links_ok (mark V ms)" "edges (mark V ms) = edges ms"
          by (simp add: same_links_ok [OF same_links_mark [of ms V]] ms(2), rule same_edges [OF same_links_mark])
        have "(x, y) \<in> edges (mark V ms)" using lV ms(3) by simp
        then obtain rs where rs: "remove_edge x y (mark V ms) = Inr rs" "same_marks (mark V ms) rs" "links_ok rs"
          "edges rs = edges ns"
          using unlink_edge [OF lV(1)] unfolding lV(2) ms(3) by (metis 3(2) Diff_insert_absorb)
        have wrs: "within rs z \<longleftrightarrow> within ns z" for z
          using same_within(2) [OF rs(2)] same_within(2) [OF ms(1)] by simp
        have nrs: "n_visited (nd rs z) \<longleftrightarrow> z \<in> V" "node_rank rs z = node_rank ns z" if "within ns z" for z
          using rs(2) ms(1) that same_within(2) [OF ms(1)] by (auto simp: same_marks_def)
        have "mark V rs = rs" using mark_self nrs wrs by simp
        moreover have "\<forall>z \<in> set deltaf. within rs z"
          using d V below_new_edge [OF ms(1) l(1) w(2,1) ms(3) yx] wrs by blast
        ultimately have clear: "clearVisitedBits rs deltaf = Inr (mark {} rs)"
          using clear_marked [of deltaf rs V] d by simp
        have lrs: "length rs = length ns" using rs(2) len by (simp add: same_marks_def)
        have "ranks_ok (mark {} rs)"
        proof (rule ranks_ok_less [OF _ _ l(2,1)])
          show "same_marks ns (mark {} rs)"
            using nrs wrs l(3) lrs by (simp add: same_marks_def unmarked_iff)
        qed (use same_edges [OF same_links_mark [of rs "{}"]] rs(4) in simp)
        then have "graph_ok (g\<lparr>g_nodes := mark {} rs, g_deltaf := deltaf, g_stack := stack\<rparr>)"
          using same_links_ok [OF same_links_mark [of rs "{}"]] rs(3) by (simp add: graph_ok_def unmarked_iff)
        moreover have "InsertEdge x y g = Inr (g\<lparr>g_nodes := mark {} rs, g_deltaf := deltaf, g_stack := stack\<rparr>, False)"
          using 3 at fresh link ny fwd True yx rs(1) clear by (simp add: InsertEdge_def Let_def flip: ns_def)
        moreover have "length (mark {} rs) = length ns" "edges (mark {} rs) = edges ns"
          using lrs rs(4) same_edges [OF same_links_mark [of rs "{}"]] by simp_all
        ultimately show ?thesis using decides True by (simp add: ns_def)
      qed
    qed
  qed
qed

section \<open>\<open>RemoveEdge\<close> and \<open>ContractEdge\<close>\<close>

lemma RemoveEdge_correct:
  assumes ok: "graph_ok g" and e: "(x, y) \<in> edges (g_nodes g)"
  shows "\<exists>h. RemoveEdge x y g = Inr h \<and> graph_ok h \<and> length (g_nodes h) = length (g_nodes g) \<and>
    edges (g_nodes h) = edges (g_nodes g) - {(x, y)}"
proof -
  let ?ns = "g_nodes g"
  have l: "links_ok ?ns" "ranks_ok ?ns" "unmarked ?ns" using ok by (simp_all add: graph_ok_def)
  obtain ms where ms: "remove_edge x y ?ns = Inr ms" "same_marks ?ns ms" "links_ok ms" "edges ms = edges ?ns - {(x, y)}"
    using unlink_edge [OF l(1) e] by blast
  have "ranks_ok ms" using ranks_ok_less [OF ms(2) _ l(2,1)] ms(4) by blast
  then show ?thesis using ms same_unmarked [OF ms(2)] l(3) by (auto simp: RemoveEdge_def graph_ok_def same_marks_def)
qed

text \<open>
  The graph in which the nodes \<open>a\<close> and \<open>b\<close> are one, \<open>c\<close>. It has no cycle when neither leads to
  the other.
\<close>

definition rename :: "int \<Rightarrow> int \<Rightarrow> int \<Rightarrow> int \<Rightarrow> int" where
  "rename a b c u = (if u = a \<or> u = b then c else u)"

definition contracted :: "int \<Rightarrow> int \<Rightarrow> int \<Rightarrow> (int \<times> int) set \<Rightarrow> (int \<times> int) set" where
  "contracted a b c E = (\<lambda>(u, v). (rename a b c u, rename a b c v)) ` E"

lemma contracted_paths:
  assumes "(u, v) \<in> (contracted a b c E)\<^sup>+" and c: "c = a \<or> c = b"
  shows "(\<exists>s t. rename a b c s = u \<and> rename a b c t = v \<and> (s, t) \<in> E\<^sup>+) \<or>
    (\<exists>s. rename a b c s = u \<and> (\<exists>t \<in> {a, b}. (s, t) \<in> E\<^sup>+)) \<and>
    (\<exists>t. rename a b c t = v \<and> (\<exists>s \<in> {a, b}. (s, t) \<in> E\<^sup>+))"
  using assms(1)
proof induction
  case (base v)
  then show ?case by (auto simp: contracted_def)
next
  case (step v w)
  obtain t' w' where e: "(t', w') \<in> E" "rename a b c t' = v" "rename a b c w' = w"
    using step(2) by (auto simp: contracted_def)
  have join: "t = t' \<or> t \<in> {a, b} \<and> t' \<in> {a, b}" if "rename a b c t = v" for t
    using that e(2) c by (auto simp: rename_def split: if_splits)
  show ?case
    using step.IH
  proof (elim disjE exE conjE bexE)
    fix s t assume st: "rename a b c s = u" "rename a b c t = v" "(s, t) \<in> E\<^sup>+"
    show ?thesis
    proof (cases "t = t'")
      case True
      then have "(s, w') \<in> E\<^sup>+" using st(3) e(1) by (simp add: trancl.trancl_into_trancl)
      then show ?thesis using st(1) e(3) by blast
    next
      case False
      then show ?thesis using st e join [OF st(2)] by blast
    qed
  next
    fix s t s' t'' assume s: "rename a b c s = u" "t'' \<in> {a, b}" "(s, t'') \<in> E\<^sup>+"
      and t: "rename a b c t = v" "s' \<in> {a, b}" "(s', t) \<in> E\<^sup>+"
    have "\<exists>p \<in> {a, b}. (p, w') \<in> E\<^sup>+"
    proof (cases "t = t'")
      case True
      then have "(s', w') \<in> E\<^sup>+" using t(3) e(1) by (simp add: trancl.trancl_into_trancl)
      then show ?thesis using t(2) by blast
    next
      case False
      then have "t' \<in> {a, b}" using join [OF t(1)] by blast
      then show ?thesis using e(1) by blast
    qed
    then show ?thesis using s e(3) by blast
  qed
qed

lemma contracted_acyclic:
  assumes E: "acyclic E" and ab: "(a, b) \<notin> E\<^sup>+" and ba: "(b, a) \<notin> E\<^sup>+" and c: "c = a \<or> c = b"
  shows "acyclic (contracted a b c E)"
proof (rule acyclicI, intro allI notI)
  fix u assume u: "(u, u) \<in> (contracted a b c E)\<^sup>+"
  have no: "(s, t) \<notin> E\<^sup>+" if "s = t \<or> s \<in> {a, b} \<and> t \<in> {a, b}" for s t
    using E ab ba that unfolding acyclic_def by auto
  have same: "s = t \<or> s \<in> {a, b} \<and> t \<in> {a, b}" if "rename a b c s = rename a b c t" for s t
    using that c by (auto simp: rename_def split: if_splits)
  show False
    using contracted_paths [OF u c]
  proof (elim disjE exE conjE bexE)
    fix s t s' t' assume s: "rename a b c s = u" "t' \<in> {a, b}" "(s, t') \<in> E\<^sup>+"
      and t: "rename a b c t = u" "s' \<in> {a, b}" "(s', t) \<in> E\<^sup>+"
    then consider "s = t" | "s \<in> {a, b}" using same [of s t] by auto
    then show False
    proof cases
      case 1
      then have "(s', t') \<in> E\<^sup>+" using s t by (meson trancl_trans)
      then show False using no s t by blast
    qed (use no s in blast)
  qed (use no same in metis)
qed

text \<open>Inserting edges of an acyclic graph into a part of it never fails.\<close>

lemma insert_edges_within:
  assumes ok: "graph_ok g" and C: "acyclic C" and cur: "edges (g_nodes g) \<subseteq> C"
    and es: "\<forall>e \<in> set es. within (g_nodes g) (fst (f e)) \<and> within (g_nodes g) (snd (f e)) \<and> f e \<in> C"
  shows "\<exists>h. foldM (\<lambda>g e. bnd (InsertEdge (fst (f e)) (snd (f e)) g) (\<lambda>(g, _). Inr g)) g es = Inr h \<and> graph_ok h \<and>
    length (g_nodes h) = length (g_nodes g) \<and> edges (g_nodes h) = edges (g_nodes g) \<union> f ` set es"
  using ok cur es
proof (induction es arbitrary: g)
  case (Cons e es)
  obtain x y where e: "f e = (x, y)" by (cases "f e")
  have "(y, x) \<notin> (edges (g_nodes g))\<^sup>*"
  proof
    assume "(y, x) \<in> (edges (g_nodes g))\<^sup>*"
    then have "(y, x) \<in> C\<^sup>*" using Cons.prems(2) rtrancl_mono by blast
    moreover have "(x, y) \<in> C" using Cons.prems(3) e by auto
    ultimately show False using C unfolding acyclic_def by (meson rtrancl_into_trancl2)
  qed
  then obtain h where h: "InsertEdge x y g = Inr (h, True)" "graph_ok h" "length (g_nodes h) = length (g_nodes g)"
    "edges (g_nodes h) = insert (x, y) (edges (g_nodes g))"
    using InsertEdge_correct [OF Cons.prems(1), of x y] Cons.prems(3) e by auto
  have w: "within (g_nodes h) z = within (g_nodes g) z" for z using h(3) by (simp add: within_def)
  show ?case using Cons.IH [OF h(2)] Cons.prems h e by (auto simp: w)
qed auto

lemma erase_preds:
  assumes "distinct ys"
    and "\<forall>y \<in> set ys. within ns y \<and> oset_ok (n_in (nd ns y)) \<and> b \<in> elems (n_in (nd ns y))"
  shows "\<exists>ms. foldM (\<lambda>ns y. set_in y (Erase b) ns) ns ys = Inr ms \<and> same_marks ns ms \<and>
    (\<forall>z. within ns z \<longrightarrow> n_out (nd ms z) = n_out (nd ns z) \<and>
      (oset_ok (n_in (nd ns z)) \<longrightarrow> oset_ok (n_in (nd ms z))) \<and>
      elems (n_in (nd ms z)) = (if z \<in> set ys then elems (n_in (nd ns z)) - {b} else elems (n_in (nd ns z))))"
  using assms
proof (induction ys arbitrary: ns)
  case Nil
  then show ?case by (simp add: same_marks_def)
next
  case (Cons y ys)
  have y: "within ns y" using Cons.prems by simp
  obtain s where s: "Erase b (n_in (nd ns y)) = Inr s" "oset_ok s" "elems s = elems (n_in (nd ns y)) - {b}"
    using os.del [of "n_in (nd ns y)" b] Cons.prems by auto
  let ?ns = "ns[nat y := (nd ns y)\<lparr>n_in := s\<rparr>]"
  have z: "n_in (nd ?ns z) = (if z = y then s else n_in (nd ns z))" "n_out (nd ?ns z) = n_out (nd ns z)"
    "node_rank ?ns z = node_rank ns z" "n_visited (nd ?ns z) = n_visited (nd ns z)" if "within ns z" for z
    using y that by (auto simp: nd_upd)
  have pre: "\<forall>w \<in> set ys. within ?ns w \<and> oset_ok (n_in (nd ?ns w)) \<and> b \<in> elems (n_in (nd ?ns w))"
    using Cons.prems z by auto
  obtain ms where ms: "foldM (\<lambda>ns y. set_in y (Erase b) ns) ?ns ys = Inr ms" "same_marks ?ns ms"
    "\<forall>z. within ns z \<longrightarrow> n_out (nd ms z) = n_out (nd ?ns z) \<and>
      (oset_ok (n_in (nd ?ns z)) \<longrightarrow> oset_ok (n_in (nd ms z))) \<and>
      elems (n_in (nd ms z)) = (if z \<in> set ys then elems (n_in (nd ?ns z)) - {b} else elems (n_in (nd ?ns z)))"
    using Cons.IH [OF _ pre] Cons.prems(1) by auto
  have "same_marks ns ?ns" using z by (simp add: same_marks_def)
  then have "same_marks ns ms" using ms(2) same_marks_trans by blast
  moreover have "foldM (\<lambda>ns y. set_in y (Erase b) ns) ns (y # ys) = Inr ms" using y s ms(1) by (simp add: set_in_def)
  ultimately show ?case using ms(3) z s Cons.prems(1) by (intro exI [of _ ms]) auto
qed

lemma erase_succs:
  assumes "distinct ys"
    and "\<forall>y \<in> set ys. within ns y \<and> oset_ok (n_out (nd ns y)) \<and> b \<in> elems (n_out (nd ns y))"
  shows "\<exists>ms. foldM (\<lambda>ns y. set_out y (Erase b) ns) ns ys = Inr ms \<and> same_marks ns ms \<and>
    (\<forall>z. within ns z \<longrightarrow> n_in (nd ms z) = n_in (nd ns z) \<and>
      (oset_ok (n_out (nd ns z)) \<longrightarrow> oset_ok (n_out (nd ms z))) \<and>
      elems (n_out (nd ms z)) = (if z \<in> set ys then elems (n_out (nd ns z)) - {b} else elems (n_out (nd ns z))))"
  using assms
proof (induction ys arbitrary: ns)
  case Nil
  then show ?case by (simp add: same_marks_def)
next
  case (Cons y ys)
  have y: "within ns y" using Cons.prems by simp
  obtain s where s: "Erase b (n_out (nd ns y)) = Inr s" "oset_ok s" "elems s = elems (n_out (nd ns y)) - {b}"
    using os.del [of "n_out (nd ns y)" b] Cons.prems by auto
  let ?ns = "ns[nat y := (nd ns y)\<lparr>n_out := s\<rparr>]"
  have z: "n_out (nd ?ns z) = (if z = y then s else n_out (nd ns z))" "n_in (nd ?ns z) = n_in (nd ns z)"
    "node_rank ?ns z = node_rank ns z" "n_visited (nd ?ns z) = n_visited (nd ns z)" if "within ns z" for z
    using y that by (auto simp: nd_upd)
  have pre: "\<forall>w \<in> set ys. within ?ns w \<and> oset_ok (n_out (nd ?ns w)) \<and> b \<in> elems (n_out (nd ?ns w))"
    using Cons.prems z by auto
  obtain ms where ms: "foldM (\<lambda>ns y. set_out y (Erase b) ns) ?ns ys = Inr ms" "same_marks ?ns ms"
    "\<forall>z. within ns z \<longrightarrow> n_in (nd ms z) = n_in (nd ?ns z) \<and>
      (oset_ok (n_out (nd ?ns z)) \<longrightarrow> oset_ok (n_out (nd ms z))) \<and>
      elems (n_out (nd ms z)) = (if z \<in> set ys then elems (n_out (nd ?ns z)) - {b} else elems (n_out (nd ?ns z)))"
    using Cons.IH [OF _ pre] Cons.prems(1) by auto
  have "same_marks ns ?ns" using z by (simp add: same_marks_def)
  then have "same_marks ns ms" using ms(2) same_marks_trans by blast
  moreover have "foldM (\<lambda>ns y. set_out y (Erase b) ns) ns (y # ys) = Inr ms" using y s ms(1) by (simp add: set_out_def)
  ultimately show ?case using ms(3) z s Cons.prems(1) by (intro exI [of _ ms]) auto
qed

text \<open>Taking a node out of the graph.\<close>

lemma isolate:
  assumes ok: "links_ok ns" "ranks_ok ns" and b: "within ns b"
  shows "\<exists>ks ms. foldM (\<lambda>ns y. set_in y (Erase b) ns) (ns[nat b := (nd ns b)\<lparr>n_in := empty_set, n_out := empty_set\<rparr>])
      (value_sequence (n_out (nd ns b))) = Inr ks \<and>
    foldM (\<lambda>ns y. set_out y (Erase b) ns) ks (value_sequence (n_in (nd ns b))) = Inr ms \<and>
    same_marks ns ms \<and> links_ok ms \<and> edges ms = {(u, v) \<in> edges ns. u \<noteq> b \<and> v \<noteq> b}"
proof -
  let ?out = "value_sequence (n_out (nd ns b))" and ?in = "value_sequence (n_in (nd ns b))"
  let ?ns = "ns[nat b := (nd ns b)\<lparr>n_in := empty_set, n_out := empty_set\<rparr>]"
  have sets: "set ?out = {y. (b, y) \<in> edges ns}" "set ?in = {y. (y, b) \<in> edges ns}"
    "\<forall>w \<in> set ?out. within ns w" "\<forall>w \<in> set ?in. within ns w"
    using successors [OF ok(1) b] by auto
  have d: "distinct ?out" "distinct ?in" using os.enum(1) links_okD [OF ok(1) b] by blast+
  have irr: "(b, b) \<notin> edges ns" using ok(2) unfolding ranks_ok_def by blast
  have z: "n_in (nd ?ns z) = (if z = b then empty_set else n_in (nd ns z))"
    "n_out (nd ?ns z) = (if z = b then empty_set else n_out (nd ns z))"
    "node_rank ?ns z = node_rank ns z" "n_visited (nd ?ns z) = n_visited (nd ns z)" if "within ns z" for z
    using b that by (auto simp: nd_upd)
  have m0: "same_marks ns ?ns" using z by (simp add: same_marks_def)
  have okz: "oset_ok (n_in (nd ?ns z))" "oset_ok (n_out (nd ?ns z))" if "within ns z" for z
    using z that links_okD(1,2) [OF ok(1) that] os.none by auto
  have pre: "\<forall>y \<in> set ?out. within ?ns y \<and> oset_ok (n_in (nd ?ns y)) \<and> b \<in> elems (n_in (nd ?ns y))"
    using sets irr okz z links_okD(4) [OF ok(1)] by auto
  obtain ks where ks: "foldM (\<lambda>ns y. set_in y (Erase b) ns) ?ns ?out = Inr ks" "same_marks ?ns ks"
    and kz: "\<And>z. within ns z \<Longrightarrow> n_out (nd ks z) = n_out (nd ?ns z)"
      "\<And>z. within ns z \<Longrightarrow> oset_ok (n_in (nd ks z))"
      "\<And>z. within ns z \<Longrightarrow> elems (n_in (nd ks z)) =
        (if z \<in> set ?out then elems (n_in (nd ?ns z)) - {b} else elems (n_in (nd ?ns z)))"
    using erase_preds [OF d(1) pre] okz by auto
  have wk: "within ks z = within ns z" for z using same_within(2) [OF ks(2)] by simp
  have pre': "\<forall>y \<in> set ?in. within ks y \<and> oset_ok (n_out (nd ks y)) \<and> b \<in> elems (n_out (nd ks y))"
    using sets irr okz z kz wk links_okD(3) [OF ok(1)] by auto
  obtain ms where ms: "foldM (\<lambda>ns y. set_out y (Erase b) ns) ks ?in = Inr ms" "same_marks ks ms"
    and mz: "\<And>z. within ns z \<Longrightarrow> n_in (nd ms z) = n_in (nd ks z)"
      "\<And>z. within ns z \<Longrightarrow> oset_ok (n_out (nd ms z))"
      "\<And>z. within ns z \<Longrightarrow> elems (n_out (nd ms z)) =
        (if z \<in> set ?in then elems (n_out (nd ?ns z)) - {b} else elems (n_out (nd ?ns z)))"
    using erase_succs [OF d(2) pre'] okz kz wk by auto
  have marks: "same_marks ns ms" using same_marks_trans [OF same_marks_trans [OF m0 ks(2)] ms(2)] .
  have w: "within ms z = within ns z" for z using same_within(2) [OF marks] .
  have out: "v \<in> elems (n_out (nd ms u)) \<longleftrightarrow> (u, v) \<in> edges ns \<and> u \<noteq> b \<and> v \<noteq> b" if "within ns u" for u v
    using mz(3) [OF that] z [OF that] sets(2) links_okD(3) [OF ok(1) that] os.none by auto
  have "in": "u \<in> elems (n_in (nd ms v)) \<longleftrightarrow> (u, v) \<in> edges ns \<and> u \<noteq> b \<and> v \<noteq> b" if "within ns v" for u v
    using mz(1) [OF that] kz(3) [OF that] z [OF that] sets(1) links_okD(4) [OF ok(1) that] os.none by auto
  have e: "edges ms = {(u, v) \<in> edges ns. u \<noteq> b \<and> v \<noteq> b}"
    using out edges_within [OF ok(1)] by (auto simp: edges_def [of ms] w)
  have "links_ok ms"
    unfolding links_ok_def w using mz(1,2) kz(2) "in" edges_within [OF ok(1)] by (auto simp: e)
  then show ?thesis using ks(1) ms(1) marks e by blast
qed

lemma move_edges_correct:
  assumes ok: "graph_ok g" and a: "within (g_nodes g) a" and b: "within (g_nodes g) b"
    and ab: "(a, b) \<notin> (edges (g_nodes g))\<^sup>*" and ba: "(b, a) \<notin> (edges (g_nodes g))\<^sup>*"
  shows "\<exists>h. move_edges a b g = Inr h \<and> graph_ok h \<and> length (g_nodes h) = length (g_nodes g) \<and>
    edges (g_nodes h) = contracted a b a (edges (g_nodes g))"
proof -
  let ?ns = "g_nodes g" and ?E = "edges (g_nodes g)" and ?C = "contracted a b a (edges (g_nodes g))"
  let ?out = "value_sequence (n_out (nd ?ns b))" and ?in = "value_sequence (n_in (nd ?ns b))"
  have l: "links_ok ?ns" "ranks_ok ?ns" "unmarked ?ns" using ok by (simp_all add: graph_ok_def)
  have sets: "set ?out = {y. (b, y) \<in> ?E}" "set ?in = {y. (y, b) \<in> ?E}"
    "\<forall>w \<in> set ?out. within ?ns w" "\<forall>w \<in> set ?in. within ?ns w"
    using successors [OF l(1) b] by auto
  have irr: "(b, b) \<notin> ?E" using l(2) unfolding ranks_ok_def by blast
  have na: "(a, b) \<notin> ?E" "(b, a) \<notin> ?E" "a \<noteq> b" using ab ba by auto
  have C: "acyclic ?C"
    using contracted_acyclic [OF graph_acyclic [OF l(2)], of a b a] ab ba by (auto dest: trancl_into_rtrancl)
  obtain ks ms where ms: "foldM (\<lambda>ns y. set_in y (Erase b) ns) (?ns[nat b := (nd ?ns b)\<lparr>n_in := empty_set, n_out := empty_set\<rparr>]) ?out = Inr ks"
    "foldM (\<lambda>ns y. set_out y (Erase b) ns) ks ?in = Inr ms" "same_marks ?ns ms" "links_ok ms"
    "edges ms = {(u, v) \<in> ?E. u \<noteq> b \<and> v \<noteq> b}"
    using isolate [OF l(1,2) b] by blast
  define g1 where "g1 = g\<lparr>g_nodes := ms, g_freeNodes := g_freeNodes g @ [b]\<rparr>"
  have "edges ms \<subseteq> ?E" using ms(5) by auto
  then have ok1: "graph_ok g1"
    using ranks_ok_less [OF ms(3) _ l(2,1)] same_unmarked [OF ms(3)] l(3) ms(4) by (simp add: graph_ok_def g1_def)
  have w1: "within (g_nodes g1) z = within ?ns z" for z using same_within(2) [OF ms(3)] by (simp add: g1_def)
  have inC: "(u, v) \<in> ?E \<Longrightarrow> (rename a b a u, rename a b a v) \<in> ?C" for u v by (auto simp: contracted_def)
  have sub: "edges (g_nodes g1) \<subseteq> ?C"
  proof
    fix e assume "e \<in> edges (g_nodes g1)"
    then show "e \<in> ?C" using inC [of "fst e" "snd e"] ms(5) by (auto simp: g1_def rename_def split: if_splits)
  qed
  have outC: "(a, y) \<in> ?C" if "y \<in> set ?out" for y
    using inC [of b y] that sets(1) na irr by (auto simp: rename_def split: if_splits)
  have "inC'": "(y, a) \<in> ?C" if "y \<in> set ?in" for y
    using inC [of y b] that sets(2) na irr by (auto simp: rename_def split: if_splits)
  obtain h where h: "foldM (\<lambda>g y. bnd (InsertEdge a y g) (\<lambda>(g, _). Inr g)) g1 ?out = Inr h" "graph_ok h"
    "length (g_nodes h) = length (g_nodes g1)" "edges (g_nodes h) = edges (g_nodes g1) \<union> Pair a ` set ?out"
    using insert_edges_within [OF ok1 C sub, of ?out "Pair a"] outC a sets(3) w1 by auto
  have wh: "within (g_nodes h) z = within ?ns z" for z using h(3) w1 [of z] by (simp add: within_def)
  have subh: "edges (g_nodes h) \<subseteq> ?C" using sub outC h(4) by auto
  obtain k where k: "foldM (\<lambda>g y. bnd (InsertEdge y a g) (\<lambda>(g, _). Inr g)) h ?in = Inr k" "graph_ok k"
    "length (g_nodes k) = length (g_nodes h)" "edges (g_nodes k) = edges (g_nodes h) \<union> (\<lambda>y. (y, a)) ` set ?in"
    using insert_edges_within [OF h(2) C subh, of ?in "\<lambda>y. (y, a)"] "inC'" a sets(4) wh by auto
  have "move_edges a b g = Inr k"
    using b ms(1,2) h(1) k(1) by (simp add: move_edges_def Let_def flip: g1_def)
  moreover have "?C \<subseteq> edges (g_nodes k)"
  proof
    fix e assume "e \<in> ?C"
    then obtain u v where uv: "(u, v) \<in> ?E" "e = (rename a b a u, rename a b a v)" by (auto simp: contracted_def)
    then show "e \<in> edges (g_nodes k)"
      using na irr k(4) h(4) ms(5) sets by (auto simp: rename_def g1_def split: if_splits)
  qed
  moreover have "edges (g_nodes k) \<subseteq> ?C" using subh "inC'" k(4) by auto
  ultimately show ?thesis using k(2,3) h(3) w1 ms(3) by (auto simp: g1_def same_marks_def)
qed

lemma ContractEdge_correct:
  assumes ok: "graph_ok g" and e: "(a, b) \<in> edges (g_nodes g)"
    and E: "E = edges (g_nodes g) - {(a, b)}"
  shows "if (a, b) \<in> E\<^sup>* then \<exists>h. ContractEdge a b g = Inr (h, None) \<and> graph_ok h \<and>
      length (g_nodes h) = length (g_nodes g) \<and> edges (g_nodes h) = edges (g_nodes g)
    else \<exists>h c. ContractEdge a b g = Inr (h, Some c) \<and> c \<in> {a, b} \<and> graph_ok h \<and>
      length (g_nodes h) = length (g_nodes g) \<and> edges (g_nodes h) = contracted a b c E"
proof -
  have l: "links_ok (g_nodes g)" "ranks_ok (g_nodes g)" using ok by (simp_all add: graph_ok_def)
  have w: "within (g_nodes g) a" "within (g_nodes g) b" using edges_within [OF l(1) e] by auto
  have has: "HasEdge a b g = Inr True" using w links_okD [OF l(1) w(1)] e os.mem by (simp add: HasEdge_def)
  obtain g1 where g1: "RemoveEdge a b g = Inr g1" "graph_ok g1" "length (g_nodes g1) = length (g_nodes g)" "edges (g_nodes g1) = E"
    using RemoveEdge_correct [OF ok e] E by blast
  have w1: "within (g_nodes g1) a" "within (g_nodes g1) b" using w g1(3) by (simp_all add: within_def)
  obtain g2 where g2: "IsReachable a b g1 = Inr (g2, (a, b) \<in> E\<^sup>*)" "g_nodes g2 = g_nodes g1"
    using IsReachable_correct [OF g1(2) w1] g1(4) by auto
  have ok2: "graph_ok g2" and w2: "within (g_nodes g2) a" "within (g_nodes g2) b" and E2: "edges (g_nodes g2) = E"
    using g1 w1 g2(2) by (simp_all add: graph_ok_def)
  have ba: "(b, a) \<notin> E\<^sup>*"
  proof
    assume "(b, a) \<in> E\<^sup>*"
    then have "(b, a) \<in> (edges (g_nodes g))\<^sup>*" using E by (metis Diff_subset rtrancl_mono subsetD)
    then show False using e graph_acyclic [OF l(2)] unfolding acyclic_def by (meson rtrancl_into_trancl2)
  qed
  show ?thesis
  proof (cases "(a, b) \<in> E\<^sup>*")
    case True
    obtain h where "InsertEdge a b g2 = Inr (h, True)" "graph_ok h" "edges (g_nodes h) = insert (a, b) E"
      "length (g_nodes h) = length (g_nodes g2)"
      using InsertEdge_correct [OF ok2 w2] ba E2 by auto
    then show ?thesis using True has g1(1,3) g2 e E by (auto simp: ContractEdge_def)
  next
    case False
    obtain h where h: "move_edges a b g2 = Inr h" "graph_ok h" "length (g_nodes h) = length (g_nodes g2)"
      "edges (g_nodes h) = contracted a b a E"
      using move_edges_correct [OF ok2 w2] False ba E2 by auto
    obtain h' where h': "move_edges b a g2 = Inr h'" "graph_ok h'" "length (g_nodes h') = length (g_nodes g2)"
      "edges (g_nodes h') = contracted b a b E"
      using move_edges_correct [OF ok2 w2(2,1)] False ba E2 by auto
    have "rename b a = rename a b" by (auto simp: rename_def fun_eq_iff)
    then have sym: "contracted b a b E = contracted a b b E" by (simp add: contracted_def)
    show ?thesis
    proof (cases "degree (nd (g_nodes g2) b) > degree (nd (g_nodes g2) a)")
      case True
      then have "ContractEdge a b g = Inr (h', Some b)"
        using False has g1(1) g2(1) w2 h'(1) by (simp add: ContractEdge_def)
      then show ?thesis using False h' sym g2(2) g1(3) by auto
    next
      case nd: False
      then have "ContractEdge a b g = Inr (h, Some a)"
        using False has g1(1) g2(1) w2 h(1) by (simp add: ContractEdge_def)
      then show ?thesis using False h g2(2) g1(3) by auto
    qed
  qed
qed

end
