(* ===== verification/CycleProperties.thy ===== *)
theory CycleProperties
  imports CycleLaws
begin

text \<open>
  The properties of \<open>GraphCycles\<close>, over the graphs that its operations build (\<open>built\<close>).
\<close>

inductive built :: "nat \<Rightarrow> graph \<Rightarrow> bool" for n where
  start: "built n (GraphCycles n)"
| insertion: "built n g \<Longrightarrow> x \<in> {0..<int n} \<Longrightarrow> y \<in> {0..<int n} \<Longrightarrow> InsertEdge x y g = Inr (h, b) \<Longrightarrow> built n h"
| removal: "built n g \<Longrightarrow> HasEdge x y g = Inr True \<Longrightarrow> RemoveEdge x y g = Inr h \<Longrightarrow> built n h"
| query: "built n g \<Longrightarrow> x \<in> {0..<int n} \<Longrightarrow> y \<in> {0..<int n} \<Longrightarrow> IsReachable x y g = Inr (h, b) \<Longrightarrow> built n h"
| contraction: "built n g \<Longrightarrow> ContractEdge x y g = Inr (h, c) \<Longrightarrow> built n h"

lemma HasEdge_iff:
  assumes "graph_ok g"
  shows "HasEdge x y g = Inr True \<longleftrightarrow> (x, y) \<in> edges (g_nodes g)"
proof (cases "within (g_nodes g) x")
  case True
  then show ?thesis using assms links_okD [of "g_nodes g" x] os.mem by (simp add: HasEdge_def graph_ok_def)
next
  case False
  then show ?thesis by (auto simp: HasEdge_def edges_def within_def at_def)
qed

lemma GraphCycles_ok: "graph_ok (GraphCycles n)" "edges (g_nodes (GraphCycles n)) = {}" "length (g_nodes (GraphCycles n)) = n"
proof -
  have nd: "nd (g_nodes (GraphCycles n)) x = \<lparr>n_rank = x, n_visited = False, n_in = empty_set, n_out = empty_set\<rparr>"
    if "within (g_nodes (GraphCycles n)) x" for x
    using that by (auto simp: GraphCycles_def within_def nat_less_iff)
  show e: "edges (g_nodes (GraphCycles n)) = {}" using nd os.none by (auto simp: edges_def)
  show "graph_ok (GraphCycles n)"
    using nd os.none by (simp add: graph_ok_def links_ok_def ranks_ok_def unmarked_iff e)
qed (simp add: GraphCycles_def)

lemma built_ok: "built n g \<Longrightarrow> graph_ok g \<and> length (g_nodes g) = n"
proof (induction rule: built.induct)
  case start
  then show ?case using GraphCycles_ok by simp
next
  case (insertion g x y h b)
  then show ?case using InsertEdge_correct [of g x y] by (auto simp: within_def)
next
  case (removal g x y h)
  then show ?case using RemoveEdge_correct [of g x y] HasEdge_iff by auto
next
  case (query g x y h b)
  then show ?case using IsReachable_correct [of g x y] by (auto simp: within_def graph_ok_def)
next
  case (contraction g x y h c)
  then have "HasEdge x y g = Inr True" by (auto simp: ContractEdge_def res_simps)
  then show ?case
    using contraction ContractEdge_correct [OF _ _ refl, of g x y] HasEdge_iff by (auto split: if_splits)
qed

lemma built_within: "built n g \<Longrightarrow> within (g_nodes g) x \<longleftrightarrow> x \<in> {0..<int n}"
  using built_ok by (auto simp: within_def)

text \<open>A small graph, \<open>0\<close> before \<open>1\<close>.\<close>

lemma sample_insertion: "\<exists>h. InsertEdge 0 1 (GraphCycles 3) = Inr (h, True) \<and> built 3 h \<and> edges (g_nodes h) = {(0, 1)}"
proof -
  have "(0::int) \<in> {0..<int 3}" "(1::int) \<in> {0..<int 3}" by simp_all
  moreover obtain h where "InsertEdge 0 1 (GraphCycles 3) = Inr (h, True)" "edges (g_nodes h) = {(0, 1)}"
    using InsertEdge_correct [OF GraphCycles_ok(1), of 3 0 1] by (auto simp: GraphCycles_ok within_def)
  ultimately show ?thesis using built.insertion [OF built.start] by blast
qed

text \<open>
  C38: \<open>InsertEdge\<close> decides exactly whether the new edge would close a cycle: on every graph built by
  the operations and for any two nodes it returns normally, it returns \<open>false\<close> if and only if the
  target already leads to the source and then the edges are what they were, and otherwise it has
  added the edge and nothing else; the graph stays acyclic.
\<close>

theorem insert_edge_detects_cycles:
  assumes "built n g" and "x \<in> {0..<int n}" and "y \<in> {0..<int n}"
  shows "\<exists>h. InsertEdge x y g = Inr (h, (y, x) \<notin> (edges (g_nodes g))\<^sup>*) \<and>
    edges (g_nodes h) = (if (y, x) \<in> (edges (g_nodes g))\<^sup>* then edges (g_nodes g) else insert (x, y) (edges (g_nodes g))) \<and>
    acyclic (edges (g_nodes h))"
  using InsertEdge_correct [of g x y] built_ok [OF assms(1)] built_within [OF assms(1)] assms(2,3)
  by (auto simp: graph_ok_def graph_acyclic)

theorem insert_edge_detects_cycles_witness:
  "\<exists>h. InsertEdge 2 1 (GraphCycles 3) = Inr (h, True) \<and> edges (g_nodes h) = {(2, 1)} \<and> acyclic (edges (g_nodes h))"
  using insert_edge_detects_cycles [OF built.start, of 2 3 1] by (auto simp: GraphCycles_ok)

text \<open>
  C39: \<open>IsReachable\<close>, which searches only below the rank of the target, decides reachability by the
  edges of the graph, and leaves the nodes (their marks included) as they were.
\<close>

theorem is_reachable_decides:
  assumes "built n g" and "x \<in> {0..<int n}" and "y \<in> {0..<int n}"
  shows "\<exists>h. IsReachable x y g = Inr (h, (x, y) \<in> (edges (g_nodes g))\<^sup>*) \<and> g_nodes h = g_nodes g"
  using IsReachable_correct [of g x y] built_ok [OF assms(1)] built_within [OF assms(1)] assms(2,3) by blast

theorem is_reachable_decides_witness:
  "\<exists>h. IsReachable 0 2 (GraphCycles 3) = Inr (h, False) \<and> g_nodes h = g_nodes (GraphCycles 3)"
  using is_reachable_decides [OF built.start, of 0 3 2] by (auto simp: GraphCycles_ok)

text \<open>
  C40: \<open>ContractEdge\<close> of an existing edge returns no node and keeps the edges when another path joins
  its ends; otherwise it returns one of the two ends and the edges are those of the graph in which
  both ends have become that node, none lost and none added, and still acyclic.
\<close>

theorem contract_edge_merges_nodes:
  assumes "built n g" and "HasEdge a b g = Inr True" and "E = edges (g_nodes g) - {(a, b)}"
  shows "if (a, b) \<in> E\<^sup>*
    then \<exists>h. ContractEdge a b g = Inr (h, None) \<and> edges (g_nodes h) = edges (g_nodes g)
    else \<exists>h c. ContractEdge a b g = Inr (h, Some c) \<and> c \<in> {a, b} \<and> acyclic (edges (g_nodes h)) \<and>
      edges (g_nodes h) = {(if u \<in> {a, b} then c else u, if v \<in> {a, b} then c else v) | u v. (u, v) \<in> E}"
proof -
  have ok: "graph_ok g" using built_ok [OF assms(1)] by blast
  have "contracted a b c E = {(rename a b c u, rename a b c v) | u v. (u, v) \<in> E}" for c
    unfolding contracted_def by force
  moreover have "rename a b c u = (if u \<in> {a, b} then c else u)" for c u by (simp add: rename_def)
  ultimately have C: "contracted a b c E = {(if u \<in> {a, b} then c else u, if v \<in> {a, b} then c else v) | u v. (u, v) \<in> E}" for c
    by simp
  have e: "(a, b) \<in> edges (g_nodes g)" using HasEdge_iff [OF ok] assms(2) by simp
  have acyclic: "graph_ok h \<Longrightarrow> acyclic (edges (g_nodes h))" for h by (simp add: graph_ok_def graph_acyclic)
  show ?thesis
  proof (cases "(a, b) \<in> E\<^sup>*")
    case True
    then show ?thesis using ContractEdge_correct [OF ok e assms(3)] by (simp only: if_True) blast
  next
    case False
    then obtain h c where "ContractEdge a b g = Inr (h, Some c)" "c \<in> {a, b}" "graph_ok h"
      "edges (g_nodes h) = contracted a b c E"
      using ContractEdge_correct [OF ok e assms(3)] by (simp only: if_False) blast
    then have "ContractEdge a b g = Inr (h, Some c) \<and> c \<in> {a, b} \<and> acyclic (edges (g_nodes h)) \<and>
      edges (g_nodes h) = {(if u \<in> {a, b} then c else u, if v \<in> {a, b} then c else v) | u v. (u, v) \<in> E}"
      using acyclic [of h] C [of c] by metis
    then show ?thesis unfolding if_not_P [OF False] by (intro exI)
  qed
qed

theorem contract_edge_merges_nodes_witness:
  "\<exists>g h c. InsertEdge 0 1 (GraphCycles 3) = Inr (g, True) \<and> ContractEdge 0 1 g = Inr (h, Some c) \<and>
    c \<in> {0, 1} \<and> edges (g_nodes h) = {}"
proof -
  obtain g where g: "InsertEdge 0 1 (GraphCycles 3) = Inr (g, True)" "built 3 g" "edges (g_nodes g) = {(0, 1)}"
    using sample_insertion by blast
  then have "HasEdge 0 1 g = Inr True" using HasEdge_iff built_ok by auto
  from contract_edge_merges_nodes [OF g(2) this refl] show ?thesis using g by auto
qed

text \<open>
  \<open>AllNodesInPostOrder\<close> lists every node that has not been contracted away once, and a node
  that leads to another by a path of edges comes after it.
\<close>

theorem post_order_topological:
  assumes "built n g"
  shows "distinct (AllNodesInPostOrder g) \<and>
    set (AllNodesInPostOrder g) = {0..<int n} - set (g_freeNodes g) \<and>
    (\<forall>i j. i < j \<longrightarrow> j < length (AllNodesInPostOrder g) \<longrightarrow>
      (AllNodesInPostOrder g ! i, AllNodesInPostOrder g ! j) \<notin> (edges (g_nodes g))\<^sup>+)"
proof -
  let ?l = "AllNodesInPostOrder g" and ?key = "\<lambda>z. - node_rank (g_nodes g) z"
  have r: "ranks_ok (g_nodes g)" and n: "length (g_nodes g) = n" using built_ok [OF assms] by (auto simp: graph_ok_def)
  have "sorted (map ?key ?l)" unfolding AllNodesInPostOrder_def Let_def by (rule sorted_sort_key)
  then have "(?l ! i, ?l ! j) \<notin> (edges (g_nodes g))\<^sup>+" if "i < j" "j < length ?l" for i j
  proof -
    have "node_rank (g_nodes g) (?l ! j) \<le> node_rank (g_nodes g) (?l ! i)"
      using sorted_nth_mono [OF \<open>sorted (map ?key ?l)\<close>, of i j] that by simp
    moreover have "node_rank (g_nodes g) u < node_rank (g_nodes g) v" if "(u, v) \<in> (edges (g_nodes g))\<^sup>+" for u v
      using that by (induction) (use r in \<open>auto simp: ranks_ok_def\<close>)
    ultimately show ?thesis by force
  qed
  moreover have "distinct ?l" "set ?l = {0..<int n} - set (g_freeNodes g)"
    by (auto simp: AllNodesInPostOrder_def Let_def n)
  ultimately show ?thesis by blast
qed

theorem post_order_topological_witness:
  "set (AllNodesInPostOrder (GraphCycles 3)) = {0, 1, 2}"
  using post_order_topological [OF built.start, of 3] by (auto simp: GraphCycles_def)

end
