(* ===== verification/Folders.thy ===== *)
theory Folders
  imports ElementOps Tensor
begin

unbundle bit_operations_syntax

text \<open>
  The constant folders of \<open>mhlo/IR/hlo_ops.cc\<close>, first part: unary and binary operations, clamp,
  compare, convert (with \<open>utils/convert_op_folder.cc\<close>) and select.

  An operand of the folded operation is a \<open>fold_value\<close>: the identity of the SSA value, its type and,
  when it is a constant, its \<open>DenseElementsAttr\<close> (what \<open>adaptor.getOperands()\<close> and \<open>m_Constant\<close> give).
  A folder returns nothing, an attribute, an existing value, or the operation itself with a new
  operand. The element of an \<open>i1\<close> attribute is a Boolean, which the code reads as an \<open>APInt\<close> of
  width 1.
\<close>

section \<open>Operands, results and attributes\<close>

datatype definer = OtherDef | RealDef nat | ImagDef nat | ComplexDef nat nat | TupleDef "nat list" | ReshapeDef nat

record fold_value =
  v_id :: nat
  v_type :: ty
  v_attr :: "dense_attr option"
  v_def :: definer

datatype fold_result = NoFold | FoldAttr dense_attr | FoldValue nat | FoldUpdated nat

definition fold_attr :: "dense_attr option \<Rightarrow> fold_result" where
  "fold_attr r = (case r of None \<Rightarrow> NoFold | Some a \<Rightarrow> FoldAttr a)"

definition kFoldOpEltLimit :: int where "kFoldOpEltLimit = 65536"

fun has_static_shape :: "ty \<Rightarrow> bool" where
  "has_static_shape (RankedTensorType sh _ _) = static_shape sh"
| "has_static_shape _ = False"

fun is_integer :: "ty \<Rightarrow> bool" where
  "is_integer (IntegerType _ _) = True"
| "is_integer _ = False"

fun is_unsigned :: "ty \<Rightarrow> bool" where
  "is_unsigned (IntegerType Unsigned _) = True"
| "is_unsigned _ = False"

text \<open>\<open>getValues<APInt>\<close>, \<open>getValues<APFloat>\<close>, and what an \<open>APInt\<close> is stored as.\<close>

fun ap_value :: "elval \<Rightarrow> apint res" where
  "ap_value (IntV i) = Inr i"
| "ap_value (BoolV b) = Inr (mk_apint 1 (if b then 1 else 0))"
| "ap_value _ = Inl Undefined"

definition ap_elval :: "ty \<Rightarrow> apint \<Rightarrow> elval" where
  "ap_elval et i = (if isSupportedBooleanType et then BoolV (uval i \<noteq> 0) else IntV i)"

definition num_values :: "dense_attr \<Rightarrow> int" where
  "num_values a = int (length (d_values a))"

definition isSplat :: "dense_attr \<Rightarrow> bool" where
  "isSplat a \<longleftrightarrow> d_values a \<noteq> [] \<and> (\<forall>v \<in> set (d_values a). v = hd (d_values a))"

definition splat_value :: "dense_attr \<Rightarrow> elval res" where
  "splat_value a = require (isSplat a) Undefined (Inr (hd (d_values a)))"

definition as_splat :: "dense_attr option \<Rightarrow> dense_attr option" where
  "as_splat r = (case r of Some a \<Rightarrow> if isSplat a then Some a else None | None \<Rightarrow> None)"

text \<open>\<open>DenseElementsAttr::get\<close>: one value for all elements, or a value for each.\<close>

definition splat_attr :: "ty \<Rightarrow> elval \<Rightarrow> dense_attr res" where
  "splat_attr T v = require (has_static_shape T) Undefined
     (Inr \<lparr>d_type = T, d_values = replicate (nat (num_elements (shape_of T))) v\<rparr>)"

definition dense_get :: "ty \<Rightarrow> elval list \<Rightarrow> dense_attr res" where
  "dense_get T vs = require (has_static_shape T) Undefined
     (if int (length vs) = num_elements (shape_of T) then Inr \<lparr>d_type = T, d_values = vs\<rparr>
      else if length vs = 1 then splat_attr T (hd vs)
      else Inl Undefined)"

section \<open>Unary operations\<close>

definition addSign :: "ty \<Rightarrow> bool" where
  "addSign t \<longleftrightarrow> is_unsigned t \<or> isSignlessInteger t 1"

text \<open>The loop over the values; a failed validation or conversion folds nothing.\<close>

fun unary_loop :: "(elval \<Rightarrow> 'v res) \<Rightarrow> ('v \<Rightarrow> elval) \<Rightarrow> ('v \<Rightarrow> bool) \<Rightarrow> ('v \<Rightarrow> 'v) \<Rightarrow> elval list \<Rightarrow> elval list option res" where
  "unary_loop getv mk validate conv [] = Inr (Some [])"
| "unary_loop getv mk validate conv (v # vs) =
     bnd (getv v) (\<lambda>x.
       if \<not> validate x then Inr None
       else bnd (unary_loop getv mk validate conv vs) (\<lambda>r. Inr (map_option ((#) (mk (conv x))) r)))"

definition UnaryFolder ::
  "(ty \<Rightarrow> bool) \<Rightarrow> (elval \<Rightarrow> 'v res) \<Rightarrow> (ty \<Rightarrow> 'v \<Rightarrow> elval) \<Rightarrow> ('v \<Rightarrow> bool) \<Rightarrow> ('v \<Rightarrow> 'v) \<Rightarrow> ty \<Rightarrow>
   dense_attr option \<Rightarrow> dense_attr option res" where
  "UnaryFolder is_et getv mk validate conv T attr =
     (case attr of
        None \<Rightarrow> Inr None
      | Some val \<Rightarrow>
          if \<not> has_static_shape T then Inr None
          else if \<not> is_et (element_type T) then Inr None
          else if num_values val > kFoldOpEltLimit then Inr None
          else bnd (unary_loop getv (mk (element_type T)) validate conv (d_values val)) (\<lambda>r.
            case r of None \<Rightarrow> Inr None | Some vs \<Rightarrow> bnd (dense_get T vs) (\<lambda>a. Inr (Some a))))"

definition fold_unary_int :: "(apint \<Rightarrow> apint) \<Rightarrow> ty \<Rightarrow> dense_attr option \<Rightarrow> dense_attr option res" where
  "fold_unary_int conv = UnaryFolder is_integer ap_value ap_elval (\<lambda>_. True) conv"

definition fold_unary_float :: "(apfloat \<Rightarrow> bool) \<Rightarrow> (apfloat \<Rightarrow> apfloat) \<Rightarrow> ty \<Rightarrow> dense_attr option \<Rightarrow> dense_attr option res" where
  "fold_unary_float validate conv = UnaryFolder is_float attr_float (\<lambda>_. FloatV) validate conv"

definition sign_float :: "lib \<Rightarrow> apfloat \<Rightarrow> apfloat" where
  "sign_float L f =
     (if fl_is_zero L f \<or> fl_is_nan L f then f
      else fl_convert L (fl_sem f) (fl_of_double (if fl_is_negative L f then d_neg_one else d_one)))"

definition sign_int :: "apint \<Rightarrow> apint" where
  "sign_int i = (if uval i = 0 then i else if ap_neg_p i then mk_apint (ap_width i) (- 1) else mk_apint (ap_width i) 1)"

text \<open>\<open>UNARY_FOLDER\<close>, \<open>UNARY_FOLDER_INT\<close>, \<open>UNARY_FOLDER_FLOAT\<close>, \<open>UNARY_FOLDER_UPCAST_TO_F64\<close>.\<close>

definition unary_folder :: "(apfloat \<Rightarrow> apfloat) \<Rightarrow> (apint \<Rightarrow> apint) \<Rightarrow> ty \<Rightarrow> fold_value \<Rightarrow> fold_result res" where
  "unary_folder ffn ifn T operand =
     (if element_type (v_type operand) \<noteq> element_type T then Inr NoFold
      else if is_float (element_type T) then bnd (fold_unary_float (\<lambda>_. True) ffn T (v_attr operand)) (\<lambda>r. Inr (fold_attr r))
      else if is_integer (element_type T) then bnd (fold_unary_int ifn T (v_attr operand)) (\<lambda>r. Inr (fold_attr r))
      else Inr NoFold)"

definition unary_folder_int :: "(apint \<Rightarrow> apint) \<Rightarrow> ty \<Rightarrow> fold_value \<Rightarrow> fold_result res" where
  "unary_folder_int ifn T operand =
     (if is_integer (element_type T) then bnd (fold_unary_int ifn T (v_attr operand)) (\<lambda>r. Inr (fold_attr r))
      else Inr NoFold)"

definition unary_folder_float :: "(apfloat \<Rightarrow> bool) \<Rightarrow> (apfloat \<Rightarrow> apfloat) \<Rightarrow> ty \<Rightarrow> fold_value \<Rightarrow> fold_result res" where
  "unary_folder_float validate ffn T operand =
     (if is_float (element_type T) then bnd (fold_unary_float validate ffn T (v_attr operand)) (\<lambda>r. Inr (fold_attr r))
      else Inr NoFold)"

definition upcast_to_f64 :: "lib \<Rightarrow> (dbl \<Rightarrow> dbl) \<Rightarrow> apfloat \<Rightarrow> apfloat" where
  "upcast_to_f64 L fn input = fl_convert L (fl_sem input) (fl_of_double (fn (fl_to_double L (fl_convert L F64 input))))"

definition positive_value :: "lib \<Rightarrow> apfloat \<Rightarrow> bool" where
  "positive_value L v \<longleftrightarrow> \<not> fl_is_negative L v \<and> \<not> fl_is_zero L v"

definition non_negative_value :: "lib \<Rightarrow> apfloat \<Rightarrow> bool" where
  "non_negative_value L v \<longleftrightarrow> \<not> fl_is_negative L v"

definition neg_fold :: "lib \<Rightarrow> ty \<Rightarrow> fold_value \<Rightarrow> fold_result res" where
  "neg_fold L = unary_folder (fl_neg L) ap_neg"
definition sign_fold :: "lib \<Rightarrow> ty \<Rightarrow> fold_value \<Rightarrow> fold_result res" where
  "sign_fold L = unary_folder (sign_float L) sign_int"
definition abs_fold :: "lib \<Rightarrow> ty \<Rightarrow> fold_value \<Rightarrow> fold_result res" where
  "abs_fold L = unary_folder (fl_abs L) ap_abs"
definition not_fold :: "ty \<Rightarrow> fold_value \<Rightarrow> fold_result res" where
  "not_fold = unary_folder_int ap_not"
definition round_nearest_even_fold :: "lib \<Rightarrow> ty \<Rightarrow> fold_value \<Rightarrow> fold_result res" where
  "round_nearest_even_fold L = unary_folder_float (\<lambda>_. True) (fl_round L NearestTiesToEven)"
definition round_fold :: "lib \<Rightarrow> ty \<Rightarrow> fold_value \<Rightarrow> fold_result res" where
  "round_fold L = unary_folder_float (\<lambda>_. True) (fl_round L NearestTiesToAway)"
definition cosine_fold :: "lib \<Rightarrow> ty \<Rightarrow> fold_value \<Rightarrow> fold_result res" where
  "cosine_fold L = unary_folder_float (\<lambda>_. True) (upcast_to_f64 L (d_cos L))"
definition exp_fold :: "lib \<Rightarrow> ty \<Rightarrow> fold_value \<Rightarrow> fold_result res" where
  "exp_fold L = unary_folder_float (\<lambda>_. True) (upcast_to_f64 L (d_exp L))"
definition logistic :: "lib \<Rightarrow> dbl \<Rightarrow> dbl" where
  "logistic L d = d_div L d_one (d_add L d_one (d_exp L (d XOR 0x8000000000000000)))"
definition logistic_fold :: "lib \<Rightarrow> ty \<Rightarrow> fold_value \<Rightarrow> fold_result res" where
  "logistic_fold L = unary_folder_float (\<lambda>_. True) (upcast_to_f64 L (logistic L))"
definition log_fold :: "lib \<Rightarrow> ty \<Rightarrow> fold_value \<Rightarrow> fold_result res" where
  "log_fold L = unary_folder_float (positive_value L) (upcast_to_f64 L (d_log L))"
definition rsqrt_fold :: "lib \<Rightarrow> ty \<Rightarrow> fold_value \<Rightarrow> fold_result res" where
  "rsqrt_fold L = unary_folder_float (positive_value L) (upcast_to_f64 L (\<lambda>d. d_div L d_one (d_sqrt L d)))"
definition sine_fold :: "lib \<Rightarrow> ty \<Rightarrow> fold_value \<Rightarrow> fold_result res" where
  "sine_fold L = unary_folder_float (\<lambda>_. True) (upcast_to_f64 L (d_sin L))"
definition sqrt_fold :: "lib \<Rightarrow> ty \<Rightarrow> fold_value \<Rightarrow> fold_result res" where
  "sqrt_fold L = unary_folder_float (non_negative_value L) (upcast_to_f64 L (d_sqrt L))"
definition tan_fold :: "lib \<Rightarrow> ty \<Rightarrow> fold_value \<Rightarrow> fold_result res" where
  "tan_fold L = unary_folder_float (\<lambda>_. True) (upcast_to_f64 L (d_tan L))"
definition tanh_fold :: "lib \<Rightarrow> ty \<Rightarrow> fold_value \<Rightarrow> fold_result res" where
  "tanh_fold L = unary_folder_float (\<lambda>_. True) (upcast_to_f64 L (d_tanh L))"

section \<open>Binary operations\<close>

fun binary_loop :: "(elval \<Rightarrow> 'v res) \<Rightarrow> ('v \<Rightarrow> elval) \<Rightarrow> ('v \<Rightarrow> 'v \<Rightarrow> 'v option) \<Rightarrow> (elval \<times> elval) list \<Rightarrow> elval list option res" where
  "binary_loop getv mk conv [] = Inr (Some [])"
| "binary_loop getv mk conv ((a, b) # vs) =
     bnd (getv a) (\<lambda>x. bnd (getv b) (\<lambda>y.
       case conv x y of
         None \<Rightarrow> Inr None
       | Some r \<Rightarrow> bnd (binary_loop getv mk conv vs) (\<lambda>rs. Inr (map_option ((#) (mk r)) rs))))"

definition BinaryFolder ::
  "(ty \<Rightarrow> bool) \<Rightarrow> (elval \<Rightarrow> 'v res) \<Rightarrow> (ty \<Rightarrow> 'v \<Rightarrow> elval) \<Rightarrow> (ty \<Rightarrow> 'v \<Rightarrow> 'v \<Rightarrow> 'v option) \<Rightarrow> ty \<Rightarrow>
   dense_attr option \<Rightarrow> dense_attr option \<Rightarrow> dense_attr option res" where
  "BinaryFolder is_et getv mk conv T lattr rattr =
     (case (lattr, rattr) of
        (Some lhs, Some rhs) \<Rightarrow>
          if \<not> has_static_shape T then Inr None
          else if \<not> is_et (element_type T) then Inr None
          else if isSplat lhs \<and> isSplat rhs then
            bnd (getv (hd (d_values lhs))) (\<lambda>x. bnd (getv (hd (d_values rhs))) (\<lambda>y.
              case conv (element_type T) x y of
                None \<Rightarrow> Inr None
              | Some r \<Rightarrow> bnd (splat_attr T (mk (element_type T) r)) (\<lambda>a. Inr (Some a))))
          else if num_values lhs > kFoldOpEltLimit then Inr None
          else bnd (binary_loop getv (mk (element_type T)) (conv (element_type T)) (zip (d_values lhs) (d_values rhs))) (\<lambda>r.
            case r of None \<Rightarrow> Inr None | Some vs \<Rightarrow> bnd (dense_get T vs) (\<lambda>a. Inr (Some a)))
      | _ \<Rightarrow> Inr None)"

text \<open>The operations on \<open>APSInt\<close>; the first argument is the type whose signedness they have.\<close>

definition fold_div :: "ty \<Rightarrow> apint \<Rightarrow> apint \<Rightarrow> apint option" where
  "fold_div et a b =
     (if uval b = 0 then None
      else case (if addSign et then ap_udiv a b else ap_sdiv a b) of Inr r \<Rightarrow> Some r | Inl _ \<Rightarrow> None)"

definition fold_rem :: "ty \<Rightarrow> apint \<Rightarrow> apint \<Rightarrow> apint option" where
  "fold_rem et a b =
     (if uval b = 0 then None
      else case (if addSign et then ap_urem a b else ap_srem a b) of Inr r \<Rightarrow> Some r | Inl _ \<Rightarrow> None)"

definition aps_lt :: "ty \<Rightarrow> apint \<Rightarrow> apint \<Rightarrow> bool" where
  "aps_lt et a b = (if addSign et then ap_ult a b else ap_slt a b)"

definition fold_max :: "ty \<Rightarrow> apint \<Rightarrow> apint \<Rightarrow> apint option" where
  "fold_max et a b = Some (if aps_lt et a b then b else a)"

definition fold_min :: "ty \<Rightarrow> apint \<Rightarrow> apint \<Rightarrow> apint option" where
  "fold_min et a b = Some (if aps_lt et b a then b else a)"

definition fold_binary_int :: "(ty \<Rightarrow> apint \<Rightarrow> apint \<Rightarrow> apint option) \<Rightarrow> ty \<Rightarrow> dense_attr option \<Rightarrow> dense_attr option \<Rightarrow> dense_attr option res" where
  "fold_binary_int conv = BinaryFolder is_integer ap_value ap_elval conv"

definition fold_binary_float :: "(apfloat \<Rightarrow> apfloat \<Rightarrow> apfloat) \<Rightarrow> ty \<Rightarrow> dense_attr option \<Rightarrow> dense_attr option \<Rightarrow> dense_attr option res" where
  "fold_binary_float conv = BinaryFolder is_float attr_float (\<lambda>_. FloatV) (\<lambda>_ a b. Some (conv a b))"

text \<open>\<open>BINARY_FOLDER_INTERNAL\<close>.\<close>

definition binary_folder ::
  "(apfloat \<Rightarrow> apfloat \<Rightarrow> apfloat) \<Rightarrow> (ty \<Rightarrow> apint \<Rightarrow> apint \<Rightarrow> apint option) \<Rightarrow> ty \<Rightarrow> fold_value \<Rightarrow> fold_value \<Rightarrow> fold_result res" where
  "binary_folder ffn ifn T lhs rhs =
     (if is_float (element_type T) then bnd (fold_binary_float ffn T (v_attr lhs) (v_attr rhs)) (\<lambda>r. Inr (fold_attr r))
      else if is_integer (element_type T) then bnd (fold_binary_int ifn T (v_attr lhs) (v_attr rhs)) (\<lambda>r. Inr (fold_attr r))
      else Inr NoFold)"

definition sub_fold :: "lib \<Rightarrow> ty \<Rightarrow> fold_value \<Rightarrow> fold_value \<Rightarrow> fold_result res" where
  "sub_fold L = binary_folder (fl_sub L) (\<lambda>_ a b. Some (ap_sub a b))"
definition div_fold :: "lib \<Rightarrow> ty \<Rightarrow> fold_value \<Rightarrow> fold_value \<Rightarrow> fold_result res" where
  "div_fold L = binary_folder (fl_div L) fold_div"
definition rem_fold :: "lib \<Rightarrow> ty \<Rightarrow> fold_value \<Rightarrow> fold_value \<Rightarrow> fold_result res" where
  "rem_fold L = binary_folder (fl_mod L) fold_rem"
definition max_fold :: "lib \<Rightarrow> ty \<Rightarrow> fold_value \<Rightarrow> fold_value \<Rightarrow> fold_result res" where
  "max_fold L = binary_folder (fl_maximum L) fold_max"
definition min_fold :: "lib \<Rightarrow> ty \<Rightarrow> fold_value \<Rightarrow> fold_value \<Rightarrow> fold_result res" where
  "min_fold L = binary_folder (fl_minimum L) fold_min"

definition isSplatZero :: "lib \<Rightarrow> dense_attr option \<Rightarrow> bool res" where
  "isSplatZero L attr =
     (case attr of
        None \<Rightarrow> Inr False
      | Some a \<Rightarrow>
          if is_float (element_type (d_type a)) then bnd (splat_value a) (\<lambda>v. bnd (attr_float v) (\<lambda>f. Inr (fl_is_zero L f)))
          else if is_integer (element_type (d_type a)) then bnd (splat_value a) (\<lambda>v. bnd (ap_value v) (\<lambda>i. Inr (uval i = 0)))
          else Inr False)"

definition isSplatOne :: "lib \<Rightarrow> dense_attr option \<Rightarrow> bool res" where
  "isSplatOne L attr =
     (case attr of
        None \<Rightarrow> Inr False
      | Some a \<Rightarrow>
          if is_float (element_type (d_type a)) then
            bnd (splat_value a) (\<lambda>v. bnd (attr_float v) (\<lambda>f. Inr (fl_to_double L f = d_one)))
          else if is_integer (element_type (d_type a)) then bnd (splat_value a) (\<lambda>v. bnd (ap_value v) (\<lambda>i. Inr (sval i = 1)))
          else Inr False)"

text \<open>
  \<open>AddOp::fold\<close> and \<open>MulOp::fold\<close>: when one operand is a splat of the neutral element the result is
  the other operand (the attribute if it is a splat itself).
\<close>

definition neutral_fold ::
  "(dense_attr option \<Rightarrow> bool res) \<Rightarrow> (apfloat \<Rightarrow> apfloat \<Rightarrow> apfloat) \<Rightarrow> (ty \<Rightarrow> apint \<Rightarrow> apint \<Rightarrow> apint option) \<Rightarrow>
   ty \<Rightarrow> fold_value \<Rightarrow> fold_value \<Rightarrow> fold_result res" where
  "neutral_fold neutral ffn ifn T lhs rhs =
     (let splatLhs = as_splat (v_attr lhs);
          splatRhs = as_splat (v_attr rhs);
          other = (\<lambda>splat v. case splat of Some a \<Rightarrow> FoldAttr a | None \<Rightarrow> FoldValue (v_id v)) in
      bnd (neutral splatLhs) (\<lambda>z.
        if z then Inr (other splatRhs rhs)
        else bnd (neutral splatRhs) (\<lambda>z.
          if z then Inr (other splatLhs lhs)
          else if v_attr lhs \<noteq> None \<and> v_attr rhs \<noteq> None then binary_folder ffn ifn T lhs rhs
          else Inr NoFold)))"

definition add_fold :: "lib \<Rightarrow> ty \<Rightarrow> fold_value \<Rightarrow> fold_value \<Rightarrow> fold_result res" where
  "add_fold L = neutral_fold (isSplatZero L) (fl_add L) (\<lambda>_ a b. Some (ap_add a b))"

definition mul_fold :: "lib \<Rightarrow> ty \<Rightarrow> fold_value \<Rightarrow> fold_value \<Rightarrow> fold_result res" where
  "mul_fold L = neutral_fold (isSplatOne L) (fl_mul L) (\<lambda>_ a b. Some (ap_mul a b))"

section \<open>Logical operations\<close>

definition is_all_ones :: "apint \<Rightarrow> bool" where
  "is_all_ones i \<longleftrightarrow> uval i = 2 ^ ap_width i - 1"

text \<open>The integer of a splat, and \<open>None\<close> when the operand is no splat.\<close>

definition splat_int :: "fold_value \<Rightarrow> apint option res" where
  "splat_int v =
     (case as_splat (v_attr v) of
        None \<Rightarrow> Inr None
      | Some a \<Rightarrow> bnd (splat_value a) (\<lambda>x. bnd (ap_value x) (\<lambda>i. Inr (Some i))))"

definition has_splat :: "(apint \<Rightarrow> bool) \<Rightarrow> apint option \<Rightarrow> bool" where
  "has_splat p r = (case r of None \<Rightarrow> False | Some i \<Rightarrow> p i)"

definition logical_fold :: "(apint \<Rightarrow> apint \<Rightarrow> apint) \<Rightarrow> ty \<Rightarrow> fold_value \<Rightarrow> fold_value \<Rightarrow> fold_result res" where
  "logical_fold fn T lhs rhs = bnd (fold_binary_int (\<lambda>_ a b. Some (fn a b)) T (v_attr lhs) (v_attr rhs)) (\<lambda>r. Inr (fold_attr r))"

definition and_fold :: "ty \<Rightarrow> fold_value \<Rightarrow> fold_value \<Rightarrow> fold_result res" where
  "and_fold T lhs rhs =
     (if v_id lhs = v_id rhs then Inr (FoldValue (v_id lhs))
      else bnd (splat_int lhs) (\<lambda>l. bnd (splat_int rhs) (\<lambda>r.
        if has_splat is_all_ones l then Inr (FoldValue (v_id rhs))
        else if has_splat (\<lambda>i. uval i = 0) l then Inr (fold_attr (v_attr lhs))
        else if has_splat is_all_ones r then Inr (FoldValue (v_id lhs))
        else if has_splat (\<lambda>i. uval i = 0) r then Inr (fold_attr (v_attr rhs))
        else logical_fold ap_and T lhs rhs)))"

definition or_fold :: "ty \<Rightarrow> fold_value \<Rightarrow> fold_value \<Rightarrow> fold_result res" where
  "or_fold T lhs rhs =
     (if v_id lhs = v_id rhs then Inr (FoldValue (v_id lhs))
      else bnd (splat_int lhs) (\<lambda>l. bnd (splat_int rhs) (\<lambda>r.
        if has_splat is_all_ones l then Inr (fold_attr (v_attr lhs))
        else if has_splat (\<lambda>i. uval i = 0) l then Inr (FoldValue (v_id rhs))
        else if has_splat is_all_ones r then Inr (fold_attr (v_attr rhs))
        else if has_splat (\<lambda>i. uval i = 0) r then Inr (FoldValue (v_id lhs))
        else logical_fold ap_or T lhs rhs)))"

text \<open>\<open>Builder::getZeroAttr\<close> of a tensor type; none for a complex element type.\<close>

definition getZeroAttr :: "lib \<Rightarrow> ty \<Rightarrow> dense_attr option res" where
  "getZeroAttr L T =
     (case element_type T of
        IntegerType s w \<Rightarrow> bnd (splat_attr T (ap_elval (IntegerType s w) (mk_apint w 0))) (\<lambda>a. Inr (Some a))
      | FloatType s \<Rightarrow> bnd (splat_attr T (FloatV (fl_zero L s))) (\<lambda>a. Inr (Some a))
      | _ \<Rightarrow> Inr None)"

definition xor_fold :: "lib \<Rightarrow> ty \<Rightarrow> fold_value \<Rightarrow> fold_value \<Rightarrow> fold_result res" where
  "xor_fold L T lhs rhs =
     (if v_id lhs = v_id rhs \<and> has_static_shape T then bnd (getZeroAttr L T) (\<lambda>r. Inr (fold_attr r))
      else bnd (splat_int lhs) (\<lambda>l. bnd (splat_int rhs) (\<lambda>r.
        if has_splat (\<lambda>i. uval i = 0) l then Inr (FoldValue (v_id rhs))
        else if has_splat (\<lambda>i. uval i = 0) r then Inr (FoldValue (v_id lhs))
        else logical_fold ap_xor T lhs rhs)))"

end
