(* ===== verification/FoldersShape.thy ===== *)
theory FoldersShape
  imports Folders OpsElementwise
begin

text \<open>
  The constant folders of \<open>mhlo/IR/hlo_ops.cc\<close>, second part: clamp, compare, convert (with
  \<open>utils/convert_op_folder.cc\<close>), select, and the operations that move elements: slice, concatenate,
  reverse, pad, transpose, reshape, broadcast, iota and the folders that only forward a value.
\<close>

section \<open>Clamp, compare, select\<close>

definition scalar_to :: "ty \<Rightarrow> dense_attr \<Rightarrow> dense_attr res" where
  "scalar_to T a =
     (if shape_of (d_type a) = [] then bnd (at (d_values a) 0) (splat_attr T) else Inr a)"

definition clamp_fold :: "lib \<Rightarrow> ty \<Rightarrow> fold_value \<Rightarrow> fold_value \<Rightarrow> fold_value \<Rightarrow> fold_result res" where
  "clamp_fold L T min' operand max' =
     (case (v_attr operand, v_attr min', v_attr max') of
        (Some x, Some lo, Some hi) \<Rightarrow>
          bnd (scalar_to (d_type x) lo) (\<lambda>lo. bnd (scalar_to (d_type x) hi) (\<lambda>hi.
            if is_float (element_type (d_type x)) then
              bnd (fold_binary_float (fl_maximum L) T (Some lo) (Some x)) (\<lambda>r.
              bnd (fold_binary_float (fl_minimum L) T (Some hi) r) (\<lambda>r. Inr (fold_attr r)))
            else if is_integer (element_type (d_type x)) then
              bnd (fold_binary_int fold_max T (Some lo) (Some x)) (\<lambda>r.
              bnd (fold_binary_int fold_min T (Some hi) r) (\<lambda>r. Inr (fold_attr r)))
            else Inr NoFold))
      | _ \<Rightarrow> Inr NoFold)"

text \<open>The comparisons of \<open>APFloat\<close> and \<open>APSInt\<close> for a direction.\<close>

definition compare_float :: "lib \<Rightarrow> comparison_direction \<Rightarrow> apfloat \<Rightarrow> apfloat \<Rightarrow> bool" where
  "compare_float L dir a b =
     (let c = fl_compare L a b in
      case dir of EQ \<Rightarrow> c = CmpEqual | NE \<Rightarrow> c \<noteq> CmpEqual
      | LT \<Rightarrow> c = CmpLessThan | LE \<Rightarrow> c = CmpLessThan \<or> c = CmpEqual
      | GT \<Rightarrow> c = CmpGreaterThan | GE \<Rightarrow> c = CmpGreaterThan \<or> c = CmpEqual)"

definition compare_int :: "comparison_direction \<Rightarrow> ty \<Rightarrow> apint \<Rightarrow> apint \<Rightarrow> bool" where
  "compare_int dir et a b =
     (case dir of EQ \<Rightarrow> uval a = uval b | NE \<Rightarrow> uval a \<noteq> uval b
      | LT \<Rightarrow> aps_lt et a b | LE \<Rightarrow> \<not> aps_lt et b a
      | GT \<Rightarrow> aps_lt et b a | GE \<Rightarrow> \<not> aps_lt et a b)"

definition CompareFolder ::
  "(ty \<Rightarrow> bool) \<Rightarrow> (elval \<Rightarrow> 'v res) \<Rightarrow> ('v \<Rightarrow> 'v \<Rightarrow> bool) \<Rightarrow> ty \<Rightarrow> ty \<Rightarrow> dense_attr option \<Rightarrow> dense_attr option \<Rightarrow>
   dense_attr option res" where
  "CompareFolder is_et getv conv operandType T lattr rattr =
     (case (lattr, rattr) of
        (Some lhs, Some rhs) \<Rightarrow>
          if \<not> has_static_shape operandType then Inr None
          else if \<not> is_et (element_type operandType) then Inr None
          else if num_values lhs > kFoldOpEltLimit then Inr None
          else
            bnd (mapM (\<lambda>(a, b). bnd (getv a) (\<lambda>x. bnd (getv b) (\<lambda>y. Inr (BoolV (conv x y)))))
                   (zip (d_values lhs) (d_values rhs))) (\<lambda>vs.
            bnd (dense_get T vs) (\<lambda>a. Inr (Some a)))
      | _ \<Rightarrow> Inr None)"

definition bool_splat :: "fold_value \<Rightarrow> bool \<Rightarrow> bool res" where
  "bool_splat v b =
     (case as_splat (v_attr v) of
        None \<Rightarrow> Inr False
      | Some a \<Rightarrow> bnd (splat_value a) (\<lambda>x. bnd (ap_value x) (\<lambda>i. Inr ((uval i \<noteq> 0) = b))))"

text \<open>The comparison type of the operation (total order, unsigned) is not read by the folder.\<close>

definition compare_fold :: "lib \<Rightarrow> comparison_direction \<Rightarrow> ty \<Rightarrow> fold_value \<Rightarrow> fold_value \<Rightarrow> fold_result res" where
  "compare_fold L direction T lhs rhs =
     (let lhsTy = element_type (v_type lhs) in
      if \<not> has_static_shape T then Inr NoFold
      else if v_id lhs = v_id rhs \<and> \<not> is_float lhsTy \<and> (case lhsTy of ComplexType ct \<Rightarrow> \<not> is_float ct | _ \<Rightarrow> True)
      then bnd (splat_attr T (BoolV (direction \<in> {LE, EQ, GE}))) (\<lambda>a. Inr (FoldAttr a))
      else
        bnd (if direction = NE \<and> is_i1 lhsTy then bool_splat lhs False
             else if direction = EQ \<and> is_i1 lhsTy then bool_splat lhs True else Inr False) (\<lambda>l.
        bnd (if direction = NE \<and> is_i1 lhsTy then bool_splat rhs False
             else if direction = EQ \<and> is_i1 lhsTy then bool_splat rhs True else Inr False) (\<lambda>r.
        if l then Inr (FoldValue (v_id rhs))
        else if r then Inr (FoldValue (v_id lhs))
        else
          bnd (CompareFolder is_float attr_float (compare_float L direction) (v_type lhs) T (v_attr lhs) (v_attr rhs)) (\<lambda>f.
          if f \<noteq> None then Inr (fold_attr f)
          else bnd (CompareFolder is_integer ap_value (compare_int direction lhsTy) (v_type lhs) T (v_attr lhs) (v_attr rhs))
                 (\<lambda>r. Inr (fold_attr r))))))"

definition select_fold :: "fold_value \<Rightarrow> fold_value \<Rightarrow> fold_value \<Rightarrow> fold_result res" where
  "select_fold pred onTrue onFalse =
     (if v_id onTrue = v_id onFalse then Inr (FoldValue (v_id onTrue))
      else case v_attr pred of
        None \<Rightarrow> Inr NoFold
      | Some p \<Rightarrow>
          if \<not> is_i1 (element_type (d_type p)) then Inr NoFold
          else if isSplat p then
            bnd (splat_value p) (\<lambda>v. bnd (ap_value v) (\<lambda>i.
              Inr (FoldValue (if uval i \<noteq> 0 then v_id onTrue else v_id onFalse))))
          else Inr NoFold)"

section \<open>Convert\<close>

definition with_element_type :: "ty \<Rightarrow> ty \<Rightarrow> ty" where
  "with_element_type T et = RankedTensorType (shape_of T) et NoEncoding"

definition convertElementsAttr :: "lib \<Rightarrow> dense_attr \<Rightarrow> ty \<Rightarrow> dense_attr option res" where
  "convertElementsAttr L elements newType =
     (let oldType = element_type (d_type elements);
          isOldTypeUnsigned = is_i1 oldType \<or> is_unsigned oldType;
          isNewTypeUnsigned = is_i1 newType \<or> is_unsigned newType;
          bitWidth = int_or_float_width newType;
          mapValues = (\<lambda>f. bnd (mapM f (d_values elements)) (\<lambda>vs.
            Inr (Some \<lparr>d_type = with_element_type (d_type elements) newType, d_values = vs\<rparr>))) in
      if is_complex oldType \<or> is_complex newType then Inr None
      else require (is_integer newType \<or> is_float newType) Undefined
       (case (float_semantics oldType, float_semantics newType) of
          (Some _, Some sem) \<Rightarrow> mapValues (\<lambda>v. bnd (attr_float v) (\<lambda>f. Inr (FloatV (fl_convert L sem f))))
        | (Some _, None) \<Rightarrow> mapValues (\<lambda>v. bnd (attr_float v) (\<lambda>f.
            Inr (ap_elval newType (mk_apint bitWidth (fl_to_int L bitWidth isNewTypeUnsigned f)))))
        | (None, Some sem) \<Rightarrow> mapValues (\<lambda>v. bnd (ap_value v) (\<lambda>i.
            Inr (FloatV (fl_of_int L sem (\<not> isOldTypeUnsigned) i))))
        | (None, None) \<Rightarrow> mapValues (\<lambda>v. bnd (ap_value v) (\<lambda>i.
            Inr (ap_elval newType (ap_ext_or_trunc isOldTypeUnsigned bitWidth i))))))"

definition convert_fold :: "lib \<Rightarrow> ty \<Rightarrow> fold_value \<Rightarrow> fold_result res" where
  "convert_fold L T operand =
     (if v_type operand = T then Inr (FoldValue (v_id operand))
      else if \<not> has_static_shape T then Inr NoFold
      else case v_attr operand of
        None \<Rightarrow> Inr NoFold
      | Some elementsAttr \<Rightarrow>
          if num_values elementsAttr > kFoldOpEltLimit then Inr NoFold
          else bnd (convertElementsAttr L elementsAttr (element_type T)) (\<lambda>r. Inr (fold_attr r)))"

section \<open>Slice\<close>

text \<open>
  \<open>sliceElements\<close>: \<open>values\<close> is an iterator, here a list and an offset into it. The loop of the last
  dimension counts in a 32-bit \<open>int\<close>, the loops of the others in 64 bits; both may run for ever, so
  they have fuel.
\<close>

definition wrap32 :: "int \<Rightarrow> int" where
  "wrap32 v = (v + 2 ^ 31) mod 2 ^ 32 - 2 ^ 31"

fun slice_row :: "nat \<Rightarrow> 'v list \<Rightarrow> int \<Rightarrow> int \<Rightarrow> int \<Rightarrow> int \<Rightarrow> 'v list res" where
  "slice_row 0 vs off i limit stride = Inl OutOfFuel"
| "slice_row (Suc fuel) vs off i limit stride =
     (if i < limit then
        bnd (at vs (off + i)) (\<lambda>v. bnd (i64 (i + stride)) (\<lambda>j.
        bnd (slice_row fuel vs off (wrap32 j) limit stride) (\<lambda>rest. Inr (v # rest))))
      else Inr [])"

fun slice_outer :: "nat \<Rightarrow> (int \<Rightarrow> 'v list res) \<Rightarrow> int \<Rightarrow> int \<Rightarrow> int \<Rightarrow> 'v list res" where
  "slice_outer 0 body start limit stride = Inl OutOfFuel"
| "slice_outer (Suc fuel) body start limit stride =
     (if start < limit then
        bnd (body start) (\<lambda>vs. bnd (i64 (start + stride)) (\<lambda>start.
        bnd (slice_outer fuel body start limit stride) (\<lambda>rest. Inr (vs @ rest))))
      else Inr [])"

fun sliceElements :: "nat \<Rightarrow> 'v list \<Rightarrow> int \<Rightarrow> int list \<Rightarrow> int list \<Rightarrow> int list \<Rightarrow> int list \<Rightarrow> 'v list res" where
  "sliceElements fuel vs off sizes [] limits strides =
     require (limits = [] \<and> strides = []) Undefined (Inr [])"
| "sliceElements fuel vs off sizes (start # starts) limits strides =
     require (length limits = Suc (length starts) \<and> length strides = Suc (length starts)) Undefined
      (if starts = [] then slice_row fuel vs off (wrap32 start) (hd limits) (hd strides)
       else bnd (at sizes 0) (\<lambda>size.
         slice_outer fuel (\<lambda>s. sliceElements fuel vs (off + s * size) (tl sizes) starts (tl limits) (tl strides))
           start (hd limits) (hd strides)))"

text \<open>The striding of each dimension; the division is by the sizes of the shape.\<close>

fun slice_sizes :: "int \<Rightarrow> int list \<Rightarrow> int list" where
  "slice_sizes count [] = []"
| "slice_sizes count (v # shape) = count div v # slice_sizes (count div v) shape"

definition foldSlice :: "nat \<Rightarrow> int list \<Rightarrow> int list \<Rightarrow> int list \<Rightarrow> ty \<Rightarrow> ty \<Rightarrow> elval list \<Rightarrow> dense_attr option res" where
  "foldSlice fuel start limit stride operandType T values =
     (if \<not> has_static_shape operandType then Inr None
      else
        let count = num_elements (shape_of operandType) in
        if count = 0 then bnd (dense_get T []) (\<lambda>a. Inr (Some a))
        else if count > kFoldOpEltLimit then Inr None
        else bnd (sliceElements fuel values 0 (slice_sizes count (shape_of operandType)) start limit stride) (\<lambda>vs.
             bnd (dense_get T vs) (\<lambda>a. Inr (Some a))))"

definition slice_fold :: "nat \<Rightarrow> int list \<Rightarrow> int list \<Rightarrow> int list \<Rightarrow> ty \<Rightarrow> fold_value \<Rightarrow> fold_result res" where
  "slice_fold fuel start limit stride T operand =
     (if has_static_shape (v_type operand) \<and> has_static_shape T \<and> shape_of (v_type operand) = shape_of T
      then Inr (FoldValue (v_id operand))
      else case v_attr operand of
        None \<Rightarrow> Inr NoFold
      | Some elements \<Rightarrow>
          if is_integer (element_type (d_type elements)) \<or> is_float (element_type (d_type elements)) then
            bnd (foldSlice fuel start limit stride (v_type operand) T (d_values elements)) (\<lambda>r. Inr (fold_attr r))
          else Inr NoFold)"

text \<open>\<open>llvm::all_of\<close>, which stops at the first element that fails the test.\<close>

fun all_of :: "('a \<Rightarrow> bool res) \<Rightarrow> 'a list \<Rightarrow> bool res" where
  "all_of p [] = Inr True"
| "all_of p (x # xs) = bnd (p x) (\<lambda>b. if b then all_of p xs else Inr False)"

section \<open>Concatenate\<close>

definition foldConcatenateHelper :: "int \<Rightarrow> ty \<Rightarrow> dense_attr list \<Rightarrow> dense_attr option res" where
  "foldConcatenateHelper axis T operands =
     (let topSize = num_elements (take (nat axis) (shape_of T)) in
      if num_elements (shape_of T) > kFoldOpEltLimit then Inr None
      else
        bnd (mapM (\<lambda>i. mapM (\<lambda>attr.
               let bottomSize = num_values attr div topSize in
               require (i * bottomSize + bottomSize \<le> num_values attr) Undefined
                 (Inr (take (nat bottomSize) (drop (nat (i * bottomSize)) (d_values attr))))) operands)
             [0..topSize - 1]) (\<lambda>values.
        bnd (dense_get T (concat (map concat values))) (\<lambda>a. Inr (Some a))))"

definition foldConcatenate :: "int \<Rightarrow> ty \<Rightarrow> fold_value list \<Rightarrow> dense_attr option res" where
  "foldConcatenate axis T operands =
     (if \<not> list_all (\<lambda>v. v_attr v \<noteq> None) operands then Inr None
      else if is_integer (element_type T) \<or> is_float (element_type T)
      then foldConcatenateHelper axis T (map (\<lambda>v. the (v_attr v)) operands)
      else Inr None)"

definition concatenate_fold :: "int \<Rightarrow> ty \<Rightarrow> fold_value list \<Rightarrow> fold_result res" where
  "concatenate_fold axis T operands =
     (if length operands = 1 then Inr (FoldValue (v_id (hd operands)))
      else if \<not> has_static_shape T then Inr NoFold
      else bnd (foldConcatenate axis T operands) (\<lambda>r.
        case r of
          Some a \<Rightarrow> Inr (FoldAttr a)
        | None \<Rightarrow>
            bnd (all_of (\<lambda>v. bnd (at (shape_of (v_type v)) axis) (\<lambda>size. Inr (size = 0))) operands) (\<lambda>empty.
              if empty then bnd (dense_get T []) (\<lambda>a. Inr (FoldAttr a)) else Inr NoFold)))"

section \<open>Reverse\<close>

text \<open>The number of elements of a block, for every number of leading dimensions.\<close>

fun reverse_strides :: "int \<Rightarrow> int list \<Rightarrow> int list option" where
  "reverse_strides n [] = Some [n]"
| "reverse_strides n (d # shape) =
     (if d = 0 then None else map_option ((#) n) (reverse_strides (n div d) shape))"

definition swap_elements :: "'v list \<Rightarrow> int \<Rightarrow> int \<Rightarrow> 'v list res" where
  "swap_elements vs i j = bnd (at vs i) (\<lambda>a. bnd (at vs j) (\<lambda>b. bnd (put vs i b) (\<lambda>vs. put vs j a)))"

definition reverse_dim :: "int list \<Rightarrow> int list \<Rightarrow> int \<Rightarrow> 'v list \<Rightarrow> int \<Rightarrow> 'v list res" where
  "reverse_dim shape stride numElements result dim =
     bnd (at shape dim) (\<lambda>numWindows. bnd (at stride dim) (\<lambda>blockSize.
     let windowSize = blockSize div numWindows in
     foldM (\<lambda>result index.
       let blockNumber = index div blockSize;
           windowNumber = (index mod blockSize) div windowSize;
           reversedWindowNumber = numWindows - windowNumber - 1 in
       if windowNumber \<ge> reversedWindowNumber then Inr result
       else swap_elements result index
              (blockNumber * blockSize + reversedWindowNumber * windowSize + index mod windowSize))
       result [0..numElements - 1]))"

definition foldReverseHelper :: "dense_attr \<Rightarrow> ty \<Rightarrow> int list \<Rightarrow> dense_attr option res" where
  "foldReverseHelper attr type dims =
     (let numElements = num_values attr in
      if numElements = 0 \<or> numElements > kFoldOpEltLimit then Inr None
      else case reverse_strides numElements (shape_of type) of
        None \<Rightarrow> Inr None
      | Some stride \<Rightarrow>
          bnd (foldM (reverse_dim (shape_of type) stride numElements) (d_values attr) dims) (\<lambda>result.
          bnd (dense_get type result) (\<lambda>a. Inr (Some a))))"

definition reverse_fold :: "int list \<Rightarrow> fold_value \<Rightarrow> fold_result res" where
  "reverse_fold dims input =
     (if dims = [] then Inr (FoldValue (v_id input))
      else bnd (all_of (\<lambda>dim. bnd (at (shape_of (v_type input)) dim) (\<lambda>size. Inr (size = 1))) dims) (\<lambda>ones.
        if ones then Inr (FoldValue (v_id input))
        else case v_attr input of
          None \<Rightarrow> Inr NoFold
        | Some inputAttr \<Rightarrow>
            if has_static_shape (v_type input) \<and>
               (is_integer (element_type (v_type input)) \<or> is_float (element_type (v_type input)))
            then bnd (foldReverseHelper inputAttr (v_type input) dims) (\<lambda>r. Inr (fold_attr r))
            else Inr NoFold))"

section \<open>Pad\<close>

definition u64 :: "int \<Rightarrow> int" where
  "u64 v = v mod 2 ^ 64"

text \<open>\<open>nextIndex\<close>: the index with its last positions first; it rolls over to zeros.\<close>

fun next_rev :: "int list \<Rightarrow> int list \<Rightarrow> int list" where
  "next_rev (i # idx) (d # shape) = (if i + 1 < d then (i + 1) # idx else 0 # next_rev idx shape)"
| "next_rev idx shape = idx"

definition nextIndex :: "int list \<Rightarrow> int list \<Rightarrow> int list" where
  "nextIndex index shape = rev (next_rev (rev index) (rev shape))"

text \<open>The linear index of an element in the padded result, computed from the last dimension.\<close>

fun pad_linear :: "(int \<times> int \<times> int \<times> int) list \<Rightarrow> int \<Rightarrow> int \<Rightarrow> int res" where
  "pad_linear [] resultIdx idxMultiplyer = Inr resultIdx"
| "pad_linear ((index, low, interior, dimSize) # ds) resultIdx idxMultiplyer =
     bnd (i64 (interior + 1)) (\<lambda>step.
       pad_linear ds (u64 (resultIdx + u64 (low + index * step) * idxMultiplyer)) (u64 (idxMultiplyer * dimSize)))"

definition padOpFoldHelper :: "dense_attr \<Rightarrow> dense_attr \<Rightarrow> ty \<Rightarrow> int list \<Rightarrow> int list \<Rightarrow> dense_attr option res" where
  "padOpFoldHelper input padding returnType edgePaddingLow interiorPadding =
     (if num_elements (shape_of returnType) > kFoldOpEltLimit then Inr None
      else bnd (at (d_values padding) 0) (\<lambda>p.
        let shape = shape_of (d_type input);
            result = replicate (nat (num_elements (shape_of returnType))) p;
            index = replicate (length shape) 0 in
        bnd (require (length edgePaddingLow \<ge> length shape \<and> length interiorPadding \<ge> length shape \<and>
                      length (shape_of returnType) \<ge> length shape) Undefined (Inr ())) (\<lambda>_.
        bnd (foldM (\<lambda>(result, index) _.
               bnd (pad_linear (rev (zip index (zip edgePaddingLow (zip interiorPadding (shape_of returnType))))) 0 1) (\<lambda>resultIdx.
               bnd (at (d_values input) (flat shape index)) (\<lambda>v.
               bnd (put result resultIdx v) (\<lambda>result. Inr (result, nextIndex index shape)))))
               (result, index) [0..num_values input - 1]) (\<lambda>(result, _).
        bnd (dense_get returnType result) (\<lambda>a. Inr (Some a))))))"

definition pad_fold :: "int list \<Rightarrow> int list \<Rightarrow> int list \<Rightarrow> ty \<Rightarrow> fold_value \<Rightarrow> fold_value \<Rightarrow> fold_result res" where
  "pad_fold low high interior T operand padding' =
     (if list_all (\<lambda>i. i = 0) low \<and> list_all (\<lambda>i. i = 0) high \<and> list_all (\<lambda>i. i = 0) interior
      then Inr (FoldValue (v_id operand))
      else if list_ex (\<lambda>i. i < 0) low \<or> list_ex (\<lambda>i. i < 0) high \<or> list_ex (\<lambda>i. i < 0) interior then Inr NoFold
      else case (v_attr operand, v_attr padding') of
        (Some input, Some padding) \<Rightarrow>
          if \<not> has_static_shape T then Inr NoFold
          else if is_integer (element_type T) \<or> is_float (element_type T) \<or>
                  (case element_type T of ComplexType ct \<Rightarrow> is_float ct | _ \<Rightarrow> False)
          then bnd (padOpFoldHelper input padding T low interior) (\<lambda>r. Inr (fold_attr r))
          else Inr NoFold
      | _ \<Rightarrow> Inr NoFold)"

section \<open>Reshape, transpose, broadcast\<close>

definition reshape_attr :: "dense_attr \<Rightarrow> ty \<Rightarrow> dense_attr res" where
  "reshape_attr attr newType =
     (if isSplat attr \<and> is_i1 (element_type newType) then bnd (splat_value attr) (splat_attr newType)
      else require (has_static_shape newType \<and> num_elements (shape_of newType) = num_values attr) Undefined
             (Inr \<lparr>d_type = newType, d_values = d_values attr\<rparr>))"

definition reshape_fold :: "ty \<Rightarrow> fold_value \<Rightarrow> fold_result res" where
  "reshape_fold T operand =
     (if v_type operand = T then Inr (FoldValue (v_id operand))
      else case v_def operand of
        ReshapeDef prev \<Rightarrow> Inr (FoldUpdated prev)
      | _ \<Rightarrow>
          (case v_attr operand of
             Some elements \<Rightarrow> bnd (reshape_attr elements T) (\<lambda>a. Inr (FoldAttr a))
           | None \<Rightarrow> Inr NoFold))"

definition transpose_fold :: "int list \<Rightarrow> ty \<Rightarrow> fold_value \<Rightarrow> fold_result res" where
  "transpose_fold permutation T operand =
     (case as_splat (v_attr operand) of
        Some elements \<Rightarrow> bnd (reshape_attr elements T) (\<lambda>a. Inr (FoldAttr a))
      | None \<Rightarrow>
          if permutation = [0..int (length permutation) - 1] then Inr (FoldValue (v_id operand)) else Inr NoFold)"

definition splat_broadcast :: "ty \<Rightarrow> fold_value \<Rightarrow> fold_result res" where
  "splat_broadcast T operand =
     (if v_attr operand = None \<or> \<not> has_static_shape T then Inr NoFold
      else case as_splat (v_attr operand) of
        None \<Rightarrow> Inr NoFold
      | Some splatOperandAttr \<Rightarrow>
          if (case element_type T of ComplexType ct \<Rightarrow> is_float ct \<or> is_integer ct | _ \<Rightarrow> True)
          then bnd (splat_value splatOperandAttr) (\<lambda>v. bnd (splat_attr T v) (\<lambda>a. Inr (FoldAttr a)))
          else Inr NoFold)"

definition broadcast_fold :: "int list \<Rightarrow> ty \<Rightarrow> fold_value \<Rightarrow> fold_result res" where
  "broadcast_fold broadcast_sizes T operand =
     (if broadcast_sizes = [] then Inr (FoldValue (v_id operand)) else splat_broadcast T operand)"

definition broadcast_in_dim_fold :: "int list \<Rightarrow> ty \<Rightarrow> fold_value \<Rightarrow> fold_result res" where
  "broadcast_in_dim_fold broadcast_dimensions T operand =
     (if T = v_type operand then
        if broadcast_dimensions = [0..int (length broadcast_dimensions) - 1]
        then Inr (FoldValue (v_id operand)) else Inr NoFold
      else splat_broadcast T operand)"

section \<open>Folders that forward a value\<close>

definition constant_fold :: "dense_attr \<Rightarrow> fold_result" where
  "constant_fold val = FoldAttr val"

definition copy_fold :: "fold_value \<Rightarrow> fold_result" where
  "copy_fold operand = FoldValue (v_id operand)"

definition complex_fold :: "fold_value \<Rightarrow> fold_value \<Rightarrow> fold_result" where
  "complex_fold lhs rhs =
     (case (v_def lhs, v_def rhs) of
        (RealDef a, ImagDef b) \<Rightarrow> if a = b then FoldValue a else NoFold
      | _ \<Rightarrow> NoFold)"

definition imag_fold :: "fold_value \<Rightarrow> fold_result" where
  "imag_fold operand = (case v_def operand of ComplexDef _ im \<Rightarrow> FoldValue im | _ \<Rightarrow> NoFold)"

definition real_fold :: "fold_value \<Rightarrow> fold_result" where
  "real_fold operand = (case v_def operand of ComplexDef re _ \<Rightarrow> FoldValue re | _ \<Rightarrow> NoFold)"

definition get_tuple_element_fold :: "int \<Rightarrow> fold_value \<Rightarrow> fold_result res" where
  "get_tuple_element_fold index operand =
     (case v_def operand of TupleDef vs \<Rightarrow> bnd (at vs index) (\<lambda>v. Inr (FoldValue v)) | _ \<Rightarrow> Inr NoFold)"

definition bitcast_fold :: "int list option \<Rightarrow> int list option \<Rightarrow> ty \<Rightarrow> fold_value \<Rightarrow> fold_result" where
  "bitcast_fold sourceLayout resultLayout T operand =
     (if T \<noteq> v_type operand then NoFold
      else if sourceLayout = resultLayout then FoldValue (v_id operand) else NoFold)"

definition get_dimension_size_fold :: "int \<Rightarrow> ty \<Rightarrow> fold_value \<Rightarrow> fold_result res" where
  "get_dimension_size_fold dimension T operand =
     (if \<not> has_rank (v_type operand) then Inr NoFold
      else bnd (at (shape_of (v_type operand)) (wrap32 dimension)) (\<lambda>size.
        if isDynamicDimSize size then Inr NoFold
        else bnd (splat_attr T (IntV (mk_apint 32 (wrap32 size)))) (\<lambda>a. Inr (FoldAttr a))))"

definition iota_fold :: "lib \<Rightarrow> int \<Rightarrow> ty \<Rightarrow> fold_result res" where
  "iota_fold L dimension T =
     (if \<not> has_rank T then Inr NoFold
      else bnd (at (shape_of T) dimension) (\<lambda>size.
        if size = 1 then bnd (getZeroAttr L T) (\<lambda>r. Inr (fold_attr r)) else Inr NoFold))"

text \<open>A zero index is a constant whose attribute is a splat of zero.\<close>

definition zero_index :: "fold_value \<Rightarrow> bool res" where
  "zero_index v =
     (case v_attr v of
        Some a \<Rightarrow> if is_integer (element_type (d_type a)) \<or> element_type (d_type a) = IndexType
                  then bnd (splat_value a) (\<lambda>x. bnd (ap_value x) (\<lambda>i. Inr (uval i = 0))) else Inr False
      | None \<Rightarrow> Inr False)"

definition dynamic_update_slice_fold :: "fold_value \<Rightarrow> fold_value \<Rightarrow> fold_value list \<Rightarrow> fold_result res" where
  "dynamic_update_slice_fold operand update startIndices =
     require (has_rank (v_type operand) \<and> has_rank (v_type update)) Undefined
     (if list_ex (\<lambda>dim. dim = 0) (shape_of (v_type update)) then Inr (FoldValue (v_id operand))
      else if v_type operand \<noteq> v_type update \<or> \<not> has_static_shape (v_type operand) then Inr NoFold
      else bnd (all_of zero_index startIndices) (\<lambda>zero.
             Inr (if zero then FoldValue (v_id update) else NoFold)))"

text \<open>\<open>SetDimensionSizeOp::fold\<close> returns a constant input without looking at the size.\<close>

definition set_dimension_size_fold :: "int \<Rightarrow> ty \<Rightarrow> fold_value \<Rightarrow> fold_value \<Rightarrow> fold_result res" where
  "set_dimension_size_fold dimension T operand newSize =
     (case v_attr operand of
        Some input \<Rightarrow> Inr (FoldAttr input)
      | None \<Rightarrow>
          (case as_splat (v_attr newSize) of
             None \<Rightarrow> Inr NoFold
           | Some s \<Rightarrow>
               if \<not> has_rank T then Inr NoFold
               else bnd (at (shape_of T) dimension) (\<lambda>dimSize. bnd (splat_value s) (\<lambda>v. bnd (ap_value v) (\<lambda>i.
                      Inr (if dimSize = sval i then FoldValue (v_id operand) else NoFold))))))"

section \<open>Regions\<close>

text \<open>
  \<open>evaluateMhloRegion\<close>: an operation of the region has operands (values of the region), results and
  its folder; \<open>None\<close> is the terminator. A value that is not known is a null attribute.
\<close>

record region_op =
  r_operands :: "nat list"
  r_results :: "nat list"
  r_fold :: "(dense_attr option list \<Rightarrow> fold_result list option res) option"

record fold_region =
  r_args :: "nat list"
  r_ops :: "region_op list"

fun bind_results :: "nat list \<Rightarrow> fold_result list \<Rightarrow> (nat \<rightharpoonup> dense_attr) \<Rightarrow> (nat \<rightharpoonup> dense_attr) option" where
  "bind_results (v # vs) (r # rs) values =
     (case r of
        FoldAttr a \<Rightarrow> bind_results vs rs (if values v = None then values(v \<mapsto> a) else values)
      | _ \<Rightarrow> None)"
| "bind_results _ _ values = Some values"

fun evaluate_ops :: "region_op list \<Rightarrow> (nat \<rightharpoonup> dense_attr) \<Rightarrow> dense_attr option list res" where
  "evaluate_ops [] values = Inr []"
| "evaluate_ops (op # ops) values =
     (let inputs = map values (r_operands op) in
      case r_fold op of
        None \<Rightarrow> Inr inputs
      | Some folder \<Rightarrow>
          bnd (folder inputs) (\<lambda>r.
            case r of
              None \<Rightarrow> Inr []
            | Some results \<Rightarrow>
                (case bind_results (r_results op) results values of
                   None \<Rightarrow> Inr []
                 | Some values \<Rightarrow> evaluate_ops ops values)))"

definition evaluateMhloRegion :: "fold_region \<Rightarrow> dense_attr list \<Rightarrow> dense_attr option list res" where
  "evaluateMhloRegion region inputs =
     (if length (r_args region) \<noteq> length inputs then Inr []
      else evaluate_ops (r_ops region) (map_of (zip (r_args region) inputs)))"

text \<open>\<open>MapOp::fold\<close>: a computation that only returns one of its arguments.\<close>

definition map_fold :: "fold_region \<Rightarrow> fold_value list \<Rightarrow> fold_result res" where
  "map_fold computation operands =
     (case r_ops computation of
        [] \<Rightarrow> Inl Undefined
      | frontOp # _ \<Rightarrow>
          if r_fold frontOp \<noteq> None \<or> length (r_operands frontOp) \<noteq> 1 then Inr NoFold
          else case find (\<lambda>(i, barg). barg = hd (r_operands frontOp)) (enumerate 0 (r_args computation)) of
            Some (i, _) \<Rightarrow> bnd (at operands (int i)) (\<lambda>v. Inr (FoldValue (v_id v)))
          | None \<Rightarrow> Inr NoFold)"

section \<open>Scatter\<close>

record scatter_dims =
  updateWindowDims :: "int list"
  insertedWindowDims :: "int list"
  scatterDimsToOperandDims :: "int list"
  indexVectorDim :: int

text \<open>The index into the indices tensor for an index of the update, the position of the vector 0.\<close>

fun index_index :: "scatter_dims \<Rightarrow> (int \<times> int) list \<Rightarrow> int list \<Rightarrow> int list" where
  "index_index dims [] indexIndex = indexIndex"
| "index_index dims ((i, u) # updateIndex) indexIndex =
     (let indexIndex = (if i \<in> set (updateWindowDims dims) then indexIndex else indexIndex @ [u]);
          indexIndex = (if int (length indexIndex) = indexVectorDim dims then indexIndex @ [0] else indexIndex) in
      index_index dims updateIndex indexIndex)"

text \<open>The position in the base: the index vector, then the window offsets, then the bounds check.\<close>

definition add_index_vector ::
  "scatter_dims \<Rightarrow> dense_attr \<Rightarrow> int list \<Rightarrow> int list \<Rightarrow> int list \<Rightarrow> int list res" where
  "add_index_vector dims index indexShape indexIndex baseIndex =
     bnd (at indexShape (indexVectorDim dims)) (\<lambda>indexCount.
     foldM (\<lambda>baseIndex i.
       bnd (at (scatterDimsToOperandDims dims) i) (\<lambda>operandDim.
       bnd (put indexIndex (indexVectorDim dims) i) (\<lambda>indexIndex.
       bnd (require (inBounds indexIndex indexShape) Undefined (Inr (flat indexShape indexIndex))) (\<lambda>k.
       bnd (at (d_values index) k) (\<lambda>v. bnd (ap_value v) (\<lambda>n.
       bnd (at baseIndex operandDim) (\<lambda>b. bnd (i64 (b + sval n)) (put baseIndex operandDim))))))))
       baseIndex [0..indexCount - 1])"

fun add_window :: "scatter_dims \<Rightarrow> int list \<Rightarrow> (int \<times> int) list \<Rightarrow> int \<Rightarrow> int list res" where
  "add_window dims updateIndex [] k = Inr []"
| "add_window dims updateIndex ((i, b) # baseIndex) k =
     (if i \<in> set (insertedWindowDims dims) then
        bnd (add_window dims updateIndex baseIndex k) (\<lambda>rest. Inr (b # rest))
      else
        bnd (at (updateWindowDims dims) k) (\<lambda>d. bnd (at updateIndex d) (\<lambda>u. bnd (i64 (b + u)) (\<lambda>c.
        bnd (add_window dims updateIndex baseIndex (k + 1)) (\<lambda>rest. Inr (c # rest))))))"

definition scatter_position ::
  "scatter_dims \<Rightarrow> dense_attr \<Rightarrow> int list \<Rightarrow> int list \<Rightarrow> int list \<Rightarrow> int list res" where
  "scatter_position dims index indexShape baseShape updateIndex =
     (let start = (if indexVectorDim dims = 0 then [0] else []);
          indexIndex = index_index dims (zip [0..int (length updateIndex) - 1] updateIndex) start in
      bnd (add_index_vector dims index indexShape indexIndex (replicate (length baseShape) 0)) (\<lambda>baseIndex.
      add_window dims updateIndex (zip [0..int (length baseIndex) - 1] baseIndex) 0))"

text \<open>
  The full replacement is recognised from a splat index read as \<open>uint32_t\<close>, which only a 32-bit index
  type allows (the access asserts it). One iteration combines the element of the base with the element of the update; \<open>None\<close> is a failed
  fold. The loop is a \<open>do\<close> loop over the index space of the update, so it runs once even when that
  is empty; the number of its iterations is \<open>max 1\<close> the number of elements.
\<close>

definition scatter_step ::
  "fold_region \<Rightarrow> scatter_dims \<Rightarrow> dense_attr \<Rightarrow> int list \<Rightarrow> ty \<Rightarrow> dense_attr \<Rightarrow> int list \<Rightarrow> elval list \<Rightarrow> int list \<Rightarrow>
   elval list option res" where
  "scatter_step computation dims index indexShape baseType update updateShape results updateIndex =
     bnd (scatter_position dims index indexShape (shape_of baseType) updateIndex) (\<lambda>baseIndex.
     if \<not> inBounds baseIndex (shape_of baseType) then Inr None
     else
       let linearBaseIndex = flat (shape_of baseType) baseIndex;
           scalar = RankedTensorType [] (element_type baseType) NoEncoding in
       bnd (at results linearBaseIndex) (\<lambda>l.
       bnd (require (inBounds updateIndex updateShape) Undefined (at (d_values update) (flat updateShape updateIndex))) (\<lambda>u.
       bnd (splat_attr scalar l) (\<lambda>lhs. bnd (splat_attr scalar u) (\<lambda>rhs.
       bnd (evaluateMhloRegion computation [lhs, rhs]) (\<lambda>newValue.
         case newValue of
           [Some a] \<Rightarrow> bnd (at (d_values a) 0) (\<lambda>v. bnd (put results linearBaseIndex v) (\<lambda>results. Inr (Some results)))
         | _ \<Rightarrow> Inr None))))))"

fun scatter_loop ::
  "nat \<Rightarrow> (elval list \<Rightarrow> int list \<Rightarrow> elval list option res) \<Rightarrow> int list \<Rightarrow> elval list \<Rightarrow> int list \<Rightarrow> elval list option res" where
  "scatter_loop 0 step updateShape results updateIndex = Inr (Some results)"
| "scatter_loop (Suc n) step updateShape results updateIndex =
     bnd (step results updateIndex) (\<lambda>r.
       case r of
         None \<Rightarrow> Inr None
       | Some results \<Rightarrow> scatter_loop n step updateShape results (nextIndex updateIndex updateShape))"

definition scatter_fold :: "scatter_dims \<Rightarrow> fold_region \<Rightarrow> fold_value list \<Rightarrow> fold_value \<Rightarrow> fold_value list \<Rightarrow> fold_result res" where
  "scatter_fold dims computation inputs indices updates =
     (if length inputs \<noteq> 1 \<or> length updates \<noteq> 1 then Inr NoFold
      else case v_attr indices of
        None \<Rightarrow> Inr NoFold
      | Some index \<Rightarrow>
          let baseType = v_type (hd inputs); updateType = v_type (hd updates); indexType = d_type index in
          if \<not> has_rank baseType \<or> \<not> has_rank updateType then Inr NoFold
          else if is_complex (element_type baseType) then Inr NoFold
          else
            bnd (if updateType = baseType \<and> has_static_shape updateType \<and> isSplat index
                 then require (element_type indexType = IntegerType Signless 32 \<or> element_type indexType = IntegerType Unsigned 32)
                        Undefined (bnd (splat_value index) (\<lambda>v. bnd (ap_value v) (\<lambda>i. Inr (uval i = 0)))) else Inr False) (\<lambda>zero.
            if zero \<and> length (r_ops computation) = 1 then Inr (FoldValue (v_id (hd updates)))
            else case (v_attr (hd inputs), v_attr (hd updates)) of
              (Some base, Some update) \<Rightarrow>
                (let indexShape = (if indexVectorDim dims = int (length (shape_of indexType))
                                   then shape_of indexType @ [1] else shape_of indexType) in
                 if num_values base > kFoldOpEltLimit then Inr NoFold
                 else
                   bnd (scatter_loop (nat (max 1 (num_elements (shape_of updateType))))
                          (scatter_step computation dims index indexShape baseType update (shape_of updateType))
                          (shape_of updateType) (d_values base) (replicate (length (shape_of updateType)) 0)) (\<lambda>r.
                   case r of
                     None \<Rightarrow> Inr NoFold
                   | Some results \<Rightarrow> bnd (dense_get baseType results) (\<lambda>a. Inr (FoldAttr a))))
            | _ \<Rightarrow> Inr NoFold))"

end
