(* ===== verification/FoldLaws.thy ===== *)
theory FoldLaws
  imports FoldersShape ConstantLaws
begin

text \<open>
  The folders of \<open>mhlo\<close> against the evaluators of the reference interpreter: a constant is the
  tensor \<open>makeTensor\<close> makes of it, and what a folder returns must read like the tensor the evaluator
  computes (\<open>same_tensor\<close>). The operations on the elements are related by \<open>locale folded_operation\<close>.
\<close>

section \<open>Constants\<close>

definition same_tensor :: "tensor \<Rightarrow> tensor \<Rightarrow> bool" where
  "same_tensor t u \<longleftrightarrow> t_shape t = t_shape u \<and> t_elem t = t_elem u \<and>
     (\<forall>idx. inBounds idx (t_shape t) \<longrightarrow> tensor_get t idx = tensor_get u idx)"

lemma denotes_same_shape:
  assumes "denotes t T g" and "denotes u U h" and "shape_of T = shape_of U" and "element_type T = element_type U"
    and "\<And>idx. inBounds idx (shape_of T) \<Longrightarrow> g idx = h idx"
  shows "same_tensor t u"
  using assms by (auto simp: same_tensor_def denotes_def)

lemma denotes_same:
  assumes "denotes t T g" and "denotes u T h" and "\<And>idx. inBounds idx (shape_of T) \<Longrightarrow> g idx = h idx"
  shows "same_tensor t u"
  using denotes_same_shape [OF assms(1,2)] assms(3) by blast

definition attr_ok :: "dense_attr \<Rightarrow> bool" where
  "attr_ok a \<longleftrightarrow> storable (d_type a) \<and> has_static_shape (d_type a) \<and>
     (\<forall>v \<in> set (d_values a). value_ok (element_type (d_type a)) v) \<and>
     int (length (d_values a)) = num_elements (shape_of (d_type a))"

abbreviation attr_element :: "dense_attr \<Rightarrow> sizes \<Rightarrow> element" where
  "attr_element a idx \<equiv>
     \<lparr>e_type = element_type (d_type a), e_val = d_values a ! nat (flat (shape_of (d_type a)) idx)\<rparr>"

lemma attr_denotes: "lib_ok L \<Longrightarrow> attr_ok a \<Longrightarrow> \<exists>t. makeTensor L a = Inr t \<and> denotes t (d_type a) (attr_element a)"
  unfolding attr_ok_def using makeTensor_denotes by blast

lemma attr_position:
  assumes "attr_ok a" and "inBounds idx (shape_of (d_type a))"
  shows "nat (flat (shape_of (d_type a)) idx) < length (d_values a)"
  using flat_bounds [OF assms(2)] assms(1) by (auto simp: attr_ok_def)

section \<open>Integer and Boolean values\<close>

definition foldable :: "ty \<Rightarrow> bool" where
  "foldable et \<longleftrightarrow> isSupportedIntegerType et \<or> isSupportedBooleanType et"

definition ap_ok :: "ty \<Rightarrow> apint \<Rightarrow> bool" where
  "ap_ok et i \<longleftrightarrow> foldable et \<and> ap_width i = int_or_float_width et \<and> wf_apint i"

definition ap_element :: "ty \<Rightarrow> apint \<Rightarrow> element" where
  "ap_element et i = \<lparr>e_type = et, e_val = ap_elval et i\<rparr>"

lemma bool_typed: "isSupportedBooleanType i1" "int_or_float_width i1 = 1"
  by (simp_all add: i1_def isSupportedBooleanType_iff)

lemma foldable_cases:
  assumes "foldable et"
  obtains (integer) s w where "et = IntegerType s w" "isSupportedIntegerType et" "w \<noteq> 1"
    "addSign et \<longleftrightarrow> \<not> isSupportedSignedIntegerType et"
  | (boolean) "et = i1" "addSign et"
proof (cases "isSupportedBooleanType et")
  case True
  then show ?thesis using boolean by (simp add: isSupportedBooleanType_iff i1_def addSign_def)
next
  case False
  then have si: "isSupportedIntegerType et" using assms by (simp add: foldable_def)
  then obtain s w where et: "et = IntegerType s w" by (cases et) (auto simp: isSupportedIntegerType_cases)
  have w: "w \<noteq> 1" and s: "s \<noteq> Signed" using si by (auto simp: et isSupportedIntegerType_cases)
  have "isSupportedSignedIntegerType et \<longleftrightarrow> s = Signless"
    using si unfolding isSupportedIntegerType_def supported_int_defs by (auto simp: et)
  moreover have "addSign et \<longleftrightarrow> s = Unsigned"
    using w s by (cases s) (auto simp: et addSign_def isSignlessInteger_iff)
  ultimately have "addSign et \<longleftrightarrow> \<not> isSupportedSignedIntegerType et" using s by (cases s) auto
  then show ?thesis by (rule integer [OF et si w])
qed

lemma foldable_integer [simp]: "foldable et \<Longrightarrow> is_integer et"
  by (cases rule: foldable_cases) (auto simp: i1_def)

lemma foldable_supported: "foldable et \<Longrightarrow> supported_element_type et"
  by (auto simp: foldable_def supported_element_type_def)

lemma ap_elval_ok:
  assumes "ap_ok et i"
  shows "value_ok et (ap_elval et i)" and "elem_ok et (ap_element et i)" and "ap_value (ap_elval et i) = Inr i"
proof -
  from assms have f: "foldable et" and w: "ap_width i = int_or_float_width et" "wf_apint i" by (auto simp: ap_ok_def)
  have "value_ok et (ap_elval et i) \<and> ap_value (ap_elval et i) = Inr i"
    using f
  proof (cases rule: foldable_cases)
    case (integer s w')
    then have "\<not> isSupportedBooleanType et" by (auto simp: isSupportedBooleanType_iff)
    then show ?thesis using integer w by (simp add: ap_elval_def value_ok_def elem_ok_def wf_element_def)
  next
    case boolean
    then have i: "ap_width i = 1" "uval i = 0 \<or> uval i = 1" using w by (auto simp: i1_def wf_apint_def)
    then have "mk_apint 1 (if uval i \<noteq> 0 then 1 else 0) = i" by (cases i) (auto simp: mk_apint_def)
    then show ?thesis using boolean by (simp add: ap_elval_def value_ok_def elem_ok_def wf_element_def)
  qed
  then show "value_ok et (ap_elval et i)" "ap_value (ap_elval et i) = Inr i" by auto
  then show "elem_ok et (ap_element et i)" by (simp add: value_ok_def ap_element_def)
qed

lemma value_okE:
  assumes "value_ok et v" and "foldable et"
  obtains i where "v = ap_elval et i" and "ap_ok et i" and "ap_value v = Inr i"
  using assms(2)
proof (cases rule: foldable_cases)
  case (integer s w)
  then have nb: "\<not> isSupportedBooleanType et" by (auto simp: isSupportedBooleanType_iff)
  obtain i where "v = IntV i" "ap_width i = int_or_float_width et" "wf_apint i"
    using assms(1) integer nb by (cases v) (auto simp: value_ok_def elem_ok_def wf_element_def)
  then show thesis using that [of i] nb assms(2) by (simp add: ap_elval_def ap_ok_def)
next
  case boolean
  obtain b where v: "v = BoolV b" using assms(1) boolean value_bool by (auto simp: i1_def)
  then show thesis
    using that [of "mk_apint 1 (if b then 1 else 0)"] boolean(1) assms(2) bool_typed
    by (cases b) (auto simp: ap_elval_def ap_ok_def)
qed

definition ival :: "elval \<Rightarrow> apint" where
  "ival v = projr (ap_value v)"

lemma ival_ok:
  assumes "value_ok et v" and "foldable et"
  shows "ap_value v = Inr (ival v)" and "ap_ok et (ival v)" and "ap_elval et (ival v) = v"
  using value_okE [OF assms] by (metis ival_def sum.sel(2))+

section \<open>Binary operations\<close>

definition folds_to :: "(apint \<Rightarrow> apint \<Rightarrow> apint option) \<Rightarrow> ty \<Rightarrow> dense_attr \<Rightarrow> dense_attr \<Rightarrow> dense_attr \<Rightarrow> bool" where
  "folds_to conv T la ra r \<longleftrightarrow> d_type r = T \<and> length (d_values r) = length (d_values la) \<and>
     (\<forall>k < length (d_values la). \<exists>z. conv (ival (d_values la ! k)) (ival (d_values ra ! k)) = Some z \<and>
        d_values r ! k = ap_elval (element_type T) z)"

lemma binary_loop_result:
  assumes "\<forall>(a, b) \<in> set ps. value_ok et a \<and> value_ok et b" and "foldable et"
  shows "\<exists>r. binary_loop ap_value mk conv ps = Inr r \<and>
    (\<forall>vs. r = Some vs \<longrightarrow> length vs = length ps \<and>
      (\<forall>k < length ps. \<exists>z. conv (ival (fst (ps ! k))) (ival (snd (ps ! k))) = Some z \<and> vs ! k = mk z))"
  using assms(1)
proof (induction ps)
  case (Cons p ps)
  obtain a b where p: "p = (a, b)" by (cases p)
  have ab: "ap_value a = Inr (ival a)" "ap_value b = Inr (ival b)"
    using Cons.prems ival_ok(1) [OF _ assms(2)] by (auto simp: p)
  obtain r where r: "binary_loop ap_value mk conv ps = Inr r"
    "\<forall>vs. r = Some vs \<longrightarrow> length vs = length ps \<and>
      (\<forall>k < length ps. \<exists>z. conv (ival (fst (ps ! k))) (ival (snd (ps ! k))) = Some z \<and> vs ! k = mk z)"
    using Cons by auto
  show ?case
  proof (cases "conv (ival a) (ival b)")
    case None
    then show ?thesis by (simp add: p ab)
  next
    case (Some z)
    then show ?thesis using r by (auto simp: p ab All_less_Suc2)
  qed
qed simp

lemma isSplat_nth: "isSplat a \<Longrightarrow> k < length (d_values a) \<Longrightarrow> d_values a ! k = hd (d_values a)"
  by (auto simp: isSplat_def)

lemma BinaryFolder_result:
  assumes la: "attr_ok la" and ra: "attr_ok ra" and T: "has_static_shape T"
    and types: "element_type (d_type la) = element_type T" "element_type (d_type ra) = element_type T"
    and shapes: "shape_of (d_type la) = shape_of T" "shape_of (d_type ra) = shape_of T" and et: "foldable (element_type T)"
  shows "\<exists>r. fold_binary_int conv T (Some la) (Some ra) = Inr r \<and>
    (\<forall>a. r = Some a \<longrightarrow> folds_to (conv (element_type T)) T la ra a)"
proof -
  let ?et = "element_type T"
  have len: "length (d_values la) = length (d_values ra)" "int (length (d_values la)) = num_elements (shape_of T)"
    using la ra shapes by (simp_all add: attr_ok_def)
  have vals: "value_ok ?et v" if "v \<in> set (d_values la) \<union> set (d_values ra)" for v
    using that la ra types by (auto simp: attr_ok_def)
  show ?thesis
  proof (cases "isSplat la \<and> isSplat ra")
    case True
    let ?x = "hd (d_values la)" and ?y = "hd (d_values ra)"
    have xy: "ap_value ?x = Inr (ival ?x)" "ap_value ?y = Inr (ival ?y)"
      using True vals ival_ok(1) [OF _ et] by (auto simp: isSplat_def)
    show ?thesis
    proof (cases "conv ?et (ival ?x) (ival ?y)")
      case None
      then show ?thesis using True T et xy by (simp add: fold_binary_int_def BinaryFolder_def)
    next
      case (Some z)
      let ?a = "\<lparr>d_type = T, d_values = replicate (nat (num_elements (shape_of T))) (ap_elval ?et z)\<rparr>"
      have "fold_binary_int conv T (Some la) (Some ra) = Inr (Some ?a)"
        using True T et xy Some by (simp add: fold_binary_int_def BinaryFolder_def splat_attr_def)
      moreover have "folds_to (conv ?et) T la ra ?a"
        using len True isSplat_nth [of la] isSplat_nth [of ra] Some by (auto simp: folds_to_def)
      ultimately show ?thesis by simp
    qed
  next
    case False
    show ?thesis
    proof (cases "num_values la > kFoldOpEltLimit")
      case True
      then show ?thesis using False T et by (auto simp: fold_binary_int_def BinaryFolder_def)
    next
      case small: False
      have "\<forall>(a, b) \<in> set (zip (d_values la) (d_values ra)). value_ok ?et a \<and> value_ok ?et b"
        using vals by (auto dest: set_zip_leftD set_zip_rightD)
      from binary_loop_result [OF this et, of "ap_elval ?et" "conv ?et"] obtain r where
        r: "binary_loop ap_value (ap_elval ?et) (conv ?et) (zip (d_values la) (d_values ra)) = Inr r"
        and vs: "\<And>vs. r = Some vs \<Longrightarrow> length vs = length (d_values la) \<and>
          (\<forall>k < length (d_values la). \<exists>z. conv ?et (ival (d_values la ! k)) (ival (d_values ra ! k)) = Some z \<and>
            vs ! k = ap_elval ?et z)"
        using len by auto
      have run: "fold_binary_int conv T (Some la) (Some ra) =
          (case r of None \<Rightarrow> Inr None | Some vs \<Rightarrow> bnd (dense_get T vs) (\<lambda>a. Inr (Some a)))"
        using False small T et r by (auto simp: fold_binary_int_def BinaryFolder_def)
      show ?thesis
      proof (cases r)
        case None
        then show ?thesis using run by simp
      next
        case (Some vs')
        then have "dense_get T vs' = Inr \<lparr>d_type = T, d_values = vs'\<rparr>"
          using vs len T by (simp add: dense_get_def)
        then show ?thesis using run Some vs by (simp add: folds_to_def)
      qed
    qed
  qed
qed

text \<open>
  An operation on \<open>APSInt\<close> that computes what an operator on elements computes, for the types \<open>ok\<close>.
\<close>

locale folded_operation =
  fixes ok :: "ty \<Rightarrow> bool" and conv :: "ty \<Rightarrow> apint \<Rightarrow> apint \<Rightarrow> apint option"
    and op :: "lib \<Rightarrow> element \<Rightarrow> element \<Rightarrow> element res" and eval :: "lib \<Rightarrow> tensor \<Rightarrow> tensor \<Rightarrow> ty \<Rightarrow> tensor res"
  assumes ok_foldable: "ok et \<Longrightarrow> foldable et"
    and implements: "ok et \<Longrightarrow> ap_ok et x \<Longrightarrow> ap_ok et y \<Longrightarrow> conv et x y = Some z \<Longrightarrow>
      ap_ok et z \<and> op L (ap_element et x) (ap_element et y) = Inr (ap_element et z)"
    and eval: "eval L a b R = pointwise2 L (op L) a b R"
begin

lemma folded_agrees:
  assumes L: "lib_ok L" and la: "attr_ok la" and ra: "attr_ok ra" and T: "storable T" "has_static_shape T"
    and types: "element_type (d_type la) = element_type T" "element_type (d_type ra) = element_type T"
    and shapes: "shape_of (d_type la) = shape_of T" "shape_of (d_type ra) = shape_of T" and et: "ok (element_type T)"
    and ta: "makeTensor L la = Inr ta" and tb: "makeTensor L ra = Inr tb"
  shows "\<exists>r. fold_binary_int conv T (Some la) (Some ra) = Inr r \<and>
    (\<forall>a. r = Some a \<longrightarrow> (\<exists>t u. eval L ta tb T = Inr t \<and> makeTensor L a = Inr u \<and> same_tensor u t))"
proof -
  let ?et = "element_type T"
  note f = ok_foldable [OF et]
  obtain r where r: "fold_binary_int conv T (Some la) (Some ra) = Inr r"
    "\<And>a. r = Some a \<Longrightarrow> folds_to (conv ?et) T la ra a"
    using BinaryFolder_result [OF la ra T(2) types shapes f, of conv] by blast
  have "\<exists>t u. eval L ta tb T = Inr t \<and> makeTensor L a = Inr u \<and> same_tensor u t" if a: "r = Some a" for a
  proof -
    note fold = r(2) [OF a, unfolded folds_to_def]
    have at: "d_type a = T" "length (d_values a) = length (d_values la)" using fold by auto
    have val: "\<exists>z. d_values a ! k = ap_elval ?et z \<and> ap_ok ?et z \<and>
        op L \<lparr>e_type = ?et, e_val = d_values la ! k\<rparr> \<lparr>e_type = ?et, e_val = d_values ra ! k\<rparr> = Inr (ap_element ?et z)"
      if k: "k < length (d_values la)" for k
    proof -
      have kr: "k < length (d_values ra)" using k la ra shapes by (auto simp: attr_ok_def)
      have v: "value_ok ?et (d_values la ! k)" "value_ok ?et (d_values ra ! k)"
        using k kr la ra types by (auto simp: attr_ok_def)
      obtain z where z: "conv ?et (ival (d_values la ! k)) (ival (d_values ra ! k)) = Some z"
        "d_values a ! k = ap_elval ?et z" using fold k by blast
      have "ap_element ?et (ival (d_values la ! k)) = \<lparr>e_type = ?et, e_val = d_values la ! k\<rparr>"
        "ap_element ?et (ival (d_values ra ! k)) = \<lparr>e_type = ?et, e_val = d_values ra ! k\<rparr>"
        using ival_ok(3) [OF v(1) f] ival_ok(3) [OF v(2) f] by (simp_all add: ap_element_def)
      then show ?thesis using implements [OF et ival_ok(2) [OF v(1) f] ival_ok(2) [OF v(2) f] z(1), of L] z(2) by auto
    qed
    have "\<forall>v \<in> set (d_values a). value_ok ?et v"
      using val at ap_elval_ok(1) by (metis in_set_conv_nth)
    then have aok: "attr_ok a" using la T at shapes by (simp add: attr_ok_def)
    obtain u where u: "makeTensor L a = Inr u" "denotes u T (attr_element a)"
      using attr_denotes [OF L aok] at by auto
    have dl: "denotes ta (d_type la) (attr_element la)" and dr: "denotes tb (d_type ra) (attr_element ra)"
      using attr_denotes [OF L la] attr_denotes [OF L ra] ta tb by auto
    have "\<exists>t. pointwise2 L (op L) ta tb T = Inr t \<and> denotes t T (attr_element a)"
    proof (rule pointwise2_denotes [OF L T(1) dl dr])
      fix idx assume "inBounds idx (shape_of T)"
      then have k: "nat (flat (shape_of T) idx) < length (d_values la)" using attr_position [OF la] shapes by simp
      obtain z where z: "d_values a ! nat (flat (shape_of T) idx) = ap_elval ?et z" "ap_ok ?et z"
        "op L \<lparr>e_type = ?et, e_val = d_values la ! nat (flat (shape_of T) idx)\<rparr>
          \<lparr>e_type = ?et, e_val = d_values ra ! nat (flat (shape_of T) idx)\<rparr> = Inr (ap_element ?et z)"
        using val [OF k] by blast
      then show "op L (attr_element la idx) (attr_element ra idx) = Inr (attr_element a idx) \<and>
          elem_ok (element_type T) (attr_element a idx)"
        using ap_elval_ok(2) [OF z(2)] types shapes at by (simp add: ap_element_def)
    qed (use shapes in simp_all)
    then obtain t where "eval L ta tb T = Inr t" "denotes t T (attr_element a)" using eval by auto
    then show ?thesis using u denotes_same [OF u(2)] by blast
  qed
  then show ?thesis using r by blast
qed

end

end
