(* ===== verification/FoldRun.thy ===== *)
theory FoldRun
  imports FoldLaws
begin

unbundle bit_operations_syntax

text \<open>
  The folders of the binary operations on integers and Booleans, each an interpretation of
  \<open>folded_operation\<close>, and what a folded operation becomes at run time: \<open>agrees\<close> relates the result of
  a folder to the tensor the evaluator computes from the tensors of the operands.
\<close>

section \<open>Operators on \<open>APInt\<close> values\<close>

lemma ap_element_int: "isSupportedIntegerType et \<Longrightarrow> ap_element et i = \<lparr>e_type = et, e_val = IntV i\<rparr>"
  using supported_disjoint(1) by (simp add: ap_element_def ap_elval_def)

lemma ap_element_bool: "ap_element i1 i = \<lparr>e_type = i1, e_val = BoolV (uval i \<noteq> 0)\<rparr>"
  by (simp add: ap_element_def ap_elval_def)

lemma integer_operation:
  assumes "isSupportedIntegerType et" and "ap_ok et x" and "fi x y = Inr z" and "ap_width z = ap_width x" and "wf_apint z"
  shows "ap_ok et z \<and> elem_map2 (ap_element et x) (ap_element et y) fi fb ff fc = Inr (ap_element et z)"
  using assms by (simp add: ap_element_int elem_map2_def getIntegerValue_def mk_int_def ap_ok_def)

lemma boolean_operation:
  assumes "ap_ok i1 x" and "ap_ok i1 y" and "fb (uval x \<noteq> 0) (uval y \<noteq> 0) = Inr (uval z \<noteq> 0)"
    and "ap_width z = ap_width x" and "wf_apint z"
  shows "ap_ok i1 z \<and> elem_map2 (ap_element i1 x) (ap_element i1 y) fi fb ff fc = Inr (ap_element i1 z)"
  using assms by (simp add: ap_element_bool elem_map2_def getBooleanValue_def mk_bool_def ap_ok_def)

lemma ap_okD: "ap_ok et x \<Longrightarrow> wf_apint x" "ap_ok et x \<Longrightarrow> ap_width x = int_or_float_width et"
  by (simp_all add: ap_ok_def)

lemma ap_bit: "ap_ok i1 x \<Longrightarrow> x = APInt 1 0 \<or> x = APInt 1 1"
  by (cases x) (auto simp: ap_ok_def wf_apint_def bool_typed)

text \<open>An integer function, and a Boolean one that computes the same on one bit.\<close>

lemma folded_operator:
  assumes "foldable et" and "ap_ok et x" and "ap_ok et y" and "isSupportedIntegerType et \<Longrightarrow> fi x y = Inr z"
    and "ap_ok i1 x \<Longrightarrow> ap_ok i1 y \<Longrightarrow> et = i1 \<Longrightarrow> fb (uval x \<noteq> 0) (uval y \<noteq> 0) = Inr (uval z \<noteq> 0)"
    and "ap_width z = ap_width x" and "wf_apint z"
  shows "ap_ok et z \<and> elem_map2 (ap_element et x) (ap_element et y) fi fb ff fc = Inr (ap_element et z)"
  using assms(1)
proof (cases rule: foldable_cases)
  case (integer s w)
  show ?thesis using integer_operation [of et x fi y z, OF integer(2) assms(2) assms(4) [OF integer(2)] assms(6,7)] .
next
  case boolean
  then have xy: "ap_ok i1 x" "ap_ok i1 y" using assms(2,3) by auto
  show ?thesis using boolean_operation [of x y fb z, OF xy assms(5) [OF xy boolean(1)] assms(6,7)] boolean(1) by simp
qed

lemma one_bit_logic:
  assumes "ap_ok i1 x" and "ap_ok i1 y"
  shows "uval (ap_mul x y) = 0 \<longleftrightarrow> uval x = 0 \<or> uval y = 0"
    and "uval (ap_and x y) = 0 \<longleftrightarrow> uval x = 0 \<or> uval y = 0"
    and "uval (ap_or x y) = 0 \<longleftrightarrow> uval x = 0 \<and> uval y = 0"
    and "uval (ap_xor x y) = 0 \<longleftrightarrow> (uval x = 0 \<longleftrightarrow> uval y = 0)"
  using ap_bit [OF assms(1)] ap_bit [OF assms(2)]
  by (auto simp: ap_mul_def ap_and_def ap_or_def ap_xor_def)

lemma foldable_signed: "isSupportedIntegerType et \<Longrightarrow> addSign et \<longleftrightarrow> \<not> isSupportedSignedIntegerType et"
  by (rule foldable_cases [of et]) (auto simp: foldable_def)

lemma aps_lt_supported:
  "isSupportedIntegerType et \<Longrightarrow> aps_lt et x y = (if isSupportedSignedIntegerType et then ap_slt x y else ap_ult x y)"
  using foldable_signed by (simp add: aps_lt_def)

lemma aps_lt_bit: "aps_lt i1 x y = ap_ult x y"
  by (simp add: aps_lt_def addSign_def i1_def isSignlessInteger_iff)

lemma aps_lt_asym: "aps_lt et x y \<Longrightarrow> \<not> aps_lt et y x"
  by (auto simp: aps_lt_def ap_slt_def ap_ult_def split: if_splits)

lemma aps_lt_linear:
  assumes "ap_ok et x" and "ap_ok et y" and "\<not> aps_lt et x y" and "\<not> aps_lt et y x"
  shows "x = y"
proof -
  have w: "ap_width x = ap_width y" "wf_apint x" "wf_apint y" using assms by (simp_all add: ap_ok_def)
  have "uval x = uval y \<or> sval x = sval y" using assms(3,4) by (auto simp: aps_lt_def ap_slt_def ap_ult_def split: if_splits)
  then show ?thesis using w mk_apint_uval [of x] mk_apint_uval [of y] mk_apint_sval [of x] mk_apint_sval [of y] by metis
qed

lemma fold_max_min_eq:
  assumes "ap_ok et x" and "ap_ok et y"
  shows "fold_max et x y = Some (if aps_lt et y x then x else y)"
    and "fold_min et x y = Some (if aps_lt et x y then x else y)"
  using aps_lt_asym [of et x y] aps_lt_linear [OF assms] by (auto simp: fold_max_def fold_min_def)

section \<open>The interpretations\<close>

lemmas op_laws = ap_okD wf_ap_ops one_bit_logic foldable_def

interpretation sub: folded_operation isSupportedIntegerType "\<lambda>_ a b. Some (ap_sub a b)" elem_sub evalSubtractOp
proof (unfold_locales, goal_cases)
  case (2 et x y z L)
  then show ?case unfolding elem_sub_def by (intro integer_operation) (auto simp: op_laws)
qed (auto simp: foldable_def evalSubtractOp_def)

interpretation add: folded_operation isSupportedIntegerType "\<lambda>_ a b. Some (ap_add a b)" elem_add evalAddOp
proof (unfold_locales, goal_cases)
  case (2 et x y z L)
  then show ?case unfolding elem_add_def by (intro integer_operation) (auto simp: op_laws)
qed (auto simp: foldable_def evalAddOp_def)

interpretation mul: folded_operation foldable "\<lambda>_ a b. Some (ap_mul a b)" elem_mul evalMultiplyOp
proof (unfold_locales, goal_cases)
  case (2 et x y z L)
  then show ?case unfolding elem_mul_def by (intro folded_operator) (auto simp: ap_okD wf_ap_ops one_bit_logic)
qed (auto simp: evalMultiplyOp_def)

interpretation conj: folded_operation foldable "\<lambda>_ a b. Some (ap_and a b)" "\<lambda>_. elem_and" evalAndOp
proof (unfold_locales, goal_cases)
  case (2 et x y z L)
  then show ?case unfolding elem_and_def by (intro folded_operator) (auto simp: ap_okD wf_ap_ops one_bit_logic)
qed (auto simp: evalAndOp_def)

interpretation disj: folded_operation foldable "\<lambda>_ a b. Some (ap_or a b)" "\<lambda>_. elem_or" evalOrOp
proof (unfold_locales, goal_cases)
  case (2 et x y z L)
  then show ?case unfolding elem_or_def by (intro folded_operator) (auto simp: ap_okD wf_ap_ops one_bit_logic)
qed (auto simp: evalOrOp_def)

interpretation xor: folded_operation foldable "\<lambda>_ a b. Some (ap_xor a b)" "\<lambda>_. elem_xor" evalXorOp
proof (unfold_locales, goal_cases)
  case (2 et x y z L)
  then show ?case unfolding elem_xor_def by (intro folded_operator) (auto simp: ap_okD wf_ap_ops one_bit_logic)
qed (auto simp: evalXorOp_def)

interpretation maxi: folded_operation foldable fold_max elem_max evalMaxOp
proof (unfold_locales, goal_cases)
  case (2 et x y z L)
  show ?case
    unfolding elem_max_def
  proof (rule folded_operator [OF 2(1-3)], goal_cases)
    case 1
    then show ?case
      using 2(4) fold_max_min_eq [OF 2(2,3)] by (cases "isSupportedSignedIntegerType et") (simp_all add: aps_lt_supported [OF 1] ap_element_int)
  next
    case 2
    then show ?case using \<open>fold_max et x y = Some z\<close> ap_bit [of x] ap_bit [of y]
      by (auto simp: fold_max_def aps_lt_bit ap_ult_def split: if_splits)
  qed (use 2 in \<open>auto simp: fold_max_def ap_okD split: if_splits\<close>)
qed (auto simp: evalMaxOp_def)

interpretation mini: folded_operation foldable fold_min elem_min evalMinOp
proof (unfold_locales, goal_cases)
  case (2 et x y z L)
  show ?case
    unfolding elem_min_def
  proof (rule folded_operator [OF 2(1-3)], goal_cases)
    case 1
    then show ?case
      using 2(4) fold_max_min_eq [OF 2(2,3)] by (cases "isSupportedSignedIntegerType et") (simp_all add: aps_lt_supported [OF 1] ap_element_int)
  next
    case 2
    then show ?case using \<open>fold_min et x y = Some z\<close> ap_bit [of x] ap_bit [of y]
      by (auto simp: fold_min_def aps_lt_bit ap_ult_def split: if_splits)
  qed (use 2 in \<open>auto simp: fold_min_def ap_okD split: if_splits\<close>)
qed (auto simp: evalMinOp_def)

interpretation div: folded_operation isSupportedIntegerType fold_div elem_div evalDivideOp
proof (unfold_locales, goal_cases)
  case (2 et x y z L)
  have z: "(if isSupportedSignedIntegerType et then ap_sdiv x y else ap_udiv x y) = Inr z"
    using 2(4) foldable_signed [OF 2(1)] by (cases "uval y = 0") (simp_all add: fold_div_def ap_sdiv_def ap_udiv_def split: if_splits)
  have "ap_ok et z"
  proof (cases "isSupportedSignedIntegerType et")
    case True
    then show ?thesis using z 2(2) width_ap_div(1) [of x y z] wf_ap_div(1) [of x y z] by (simp add: ap_ok_def)
  next
    case False
    then show ?thesis using z 2(2) width_ap_div(2) [of x y z] wf_ap_div(2) [of x y z] by (simp add: ap_ok_def)
  qed
  then show ?case using 2(1) z by (simp add: elem_div_def ap_element_int getIntegerValue_def mk_int_def ap_ok_def)
qed (auto simp: foldable_def evalDivideOp_def)

interpretation rem: folded_operation isSupportedIntegerType fold_rem elem_rem evalRemOp
proof (unfold_locales, goal_cases)
  case (2 et x y z L)
  have z: "(if isSupportedSignedIntegerType et then ap_srem x y else ap_urem x y) = Inr z"
    using 2(4) foldable_signed [OF 2(1)] by (cases "uval y = 0") (simp_all add: fold_rem_def ap_srem_def ap_urem_def split: if_splits)
  have "ap_width z = ap_width x" "wf_apint z"
    using z width_ap_div(3,4) [of x y z] wf_ap_div(3,4) [OF ap_okD(1) [OF 2(2)], of y z]
    by (simp_all split: if_splits)
  then show ?case unfolding elem_rem_def by (intro integer_operation) (use 2 z in \<open>auto simp: ap_element_int\<close>)
qed (auto simp: foldable_def evalRemOp_def)

unbundle bit_operations_syntax

text \<open>
  What a folded operation is at run time. \<open>env\<close> gives the tensor every SSA value has when the
  program runs; a constant operand has the tensor \<open>makeTensor\<close> makes of its attribute. The result of
  a folder \<open>agrees\<close> with a tensor when replacing the operation by it leaves the reader the same
  elements. The locale \<open>operation_with_unit\<close> adds the neutral element some folders look for.
\<close>

section \<open>Operands and results at run time\<close>

definition operand_ok :: "lib \<Rightarrow> (nat \<Rightarrow> tensor) \<Rightarrow> ty \<Rightarrow> fold_value \<Rightarrow> bool" where
  "operand_ok L env T v \<longleftrightarrow> v_type v = T \<and> (\<exists>f. denotes (env (v_id v)) T f) \<and>
     (\<forall>a. v_attr v = Some a \<longrightarrow> attr_ok a \<and> d_type a = T \<and> makeTensor L a = Inr (env (v_id v)))"

definition agrees :: "lib \<Rightarrow> (nat \<Rightarrow> tensor) \<Rightarrow> fold_result \<Rightarrow> tensor \<Rightarrow> bool" where
  "agrees L env r t =
     (case r of
        FoldAttr a \<Rightarrow> (\<exists>u. makeTensor L a = Inr u \<and> same_tensor u t)
      | FoldValue k \<Rightarrow> same_tensor (env k) t
      | _ \<Rightarrow> False)"

text \<open>The folder returns; what it returns, if it folds, is what the evaluator computes.\<close>

definition folds_right :: "lib \<Rightarrow> (nat \<Rightarrow> tensor) \<Rightarrow> fold_result res \<Rightarrow> tensor res \<Rightarrow> bool" where
  "folds_right L env folded result \<longleftrightarrow>
     (\<exists>r. folded = Inr r \<and> (r \<noteq> NoFold \<longrightarrow> (\<exists>t. result = Inr t \<and> agrees L env r t)))"

lemma folds_right_NoFold [simp]: "folds_right L env (Inr NoFold) result"
  by (simp add: folds_right_def)

lemma folds_right_value:
  "result = Inr t \<Longrightarrow> same_tensor (env k) t \<Longrightarrow> folds_right L env (Inr (FoldValue k)) result"
  by (simp add: folds_right_def agrees_def)

lemma folds_right_attr:
  "result = Inr t \<Longrightarrow> makeTensor L a = Inr u \<Longrightarrow> same_tensor u t \<Longrightarrow> folds_right L env (Inr (FoldAttr a)) result"
  by (simp add: folds_right_def agrees_def)

lemma operand_typed: "operand_ok L env T v \<Longrightarrow> v_type v = T"
  by (simp add: operand_ok_def)

text \<open>The values of an operand; those of a constant; those of a splat.\<close>

lemma operand_values:
  assumes "lib_ok L" and v: "operand_ok L env T v" and et: "foldable (element_type T)"
  obtains f where "denotes (env (v_id v)) T (\<lambda>idx. ap_element (element_type T) (f idx))"
    and "\<And>idx. inBounds idx (shape_of T) \<Longrightarrow> ap_ok (element_type T) (f idx)"
    and "\<And>a idx. v_attr v = Some a \<Longrightarrow> isSplat a \<Longrightarrow> inBounds idx (shape_of T) \<Longrightarrow> f idx = ival (hd (d_values a))"
proof -
  obtain g where g: "denotes (env (v_id v)) T g" using v by (auto simp: operand_ok_def)
  let ?f = "\<lambda>idx. ival (e_val (g idx))"
  have ok: "ap_ok (element_type T) (?f idx)" "g idx = ap_element (element_type T) (?f idx)"
    if "inBounds idx (shape_of T)" for idx
  proof -
    have e: "elem_ok (element_type T) (g idx)" using denotes_ok [OF g that] .
    then have "value_ok (element_type T) (e_val (g idx))" by (cases "g idx") (auto simp: value_ok_def elem_ok_def)
    note this = ival_ok [OF this et]
    then show "ap_ok (element_type T) (?f idx)" "g idx = ap_element (element_type T) (?f idx)"
      using e by (simp_all add: ap_element_def elem_ok_def)
  qed
  have d: "denotes (env (v_id v)) T (\<lambda>idx. ap_element (element_type T) (?f idx))"
    using g ok(2) by (simp add: denotes_def)
  have sp: "?f idx = ival (hd (d_values a))"
    if a: "v_attr v = Some a" "isSplat a" and ib: "inBounds idx (shape_of T)" for a idx
  proof -
    have at: "attr_ok a" "d_type a = T" "makeTensor L a = Inr (env (v_id v))" using v a by (auto simp: operand_ok_def)
    then have "denotes (env (v_id v)) T (attr_element a)" using attr_denotes [OF assms(1) at(1)] by auto
    then have "g idx = attr_element a idx" using denotes_get [OF g ib] denotes_get [of _ _ "attr_element a", OF _ ib] by fastforce
    moreover have "nat (flat (shape_of T) idx) < length (d_values a)" using attr_position [OF at(1)] at(2) ib by simp
    ultimately show ?thesis using isSplat_nth [OF a(2)] at(2) by simp
  qed
  show thesis by (rule that [of ?f, OF d ok(1) sp])
qed

lemma constant_splat:
  assumes "operand_ok L env T v" and "v_attr v = Some a" and "isSplat a" and "foldable (element_type T)"
  shows "splat_value a = Inr (hd (d_values a))" and "ap_value (hd (d_values a)) = Inr (ival (hd (d_values a)))"
    and "element_type (d_type a) = element_type T" and "ap_ok (element_type T) (ival (hd (d_values a)))"
proof -
  have a: "attr_ok a" "d_type a = T" using assms(1,2) by (auto simp: operand_ok_def)
  then have "value_ok (element_type T) (hd (d_values a))" using assms(3) by (auto simp: attr_ok_def isSplat_def)
  from ival_ok [OF this assms(4)] a assms(3)
  show "splat_value a = Inr (hd (d_values a))" "ap_value (hd (d_values a)) = Inr (ival (hd (d_values a)))"
    "element_type (d_type a) = element_type T" "ap_ok (element_type T) (ival (hd (d_values a)))"
    by (simp_all add: splat_value_def)
qed

lemma as_splat_Some: "as_splat r = Some a \<longleftrightarrow> r = Some a \<and> isSplat a"
  by (auto simp: as_splat_def split: option.splits)

lemma binary_folder_int:
  assumes "foldable (element_type T)"
  shows "binary_folder ffn ifn T lhs rhs = bnd (fold_binary_int ifn T (v_attr lhs) (v_attr rhs)) (\<lambda>r. Inr (fold_attr r))"
  using foldable_integer [OF assms] by (cases "element_type T") (simp_all add: binary_folder_def)

context folded_operation
begin

lemma folder_agrees:
  assumes L: "lib_ok L" and lhs: "operand_ok L env T lhs" and rhs: "operand_ok L env T rhs"
    and T: "has_static_shape T" and et: "ok (element_type T)"
  shows "folds_right L env (bnd (fold_binary_int conv T (v_attr lhs) (v_attr rhs)) (\<lambda>r. Inr (fold_attr r)))
    (eval L (env (v_id lhs)) (env (v_id rhs)) T)"
proof (cases "v_attr lhs = None \<or> v_attr rhs = None")
  case True
  then show ?thesis by (auto simp: fold_binary_int_def BinaryFolder_def fold_attr_def split: option.splits)
next
  case False
  then obtain a b where ab: "v_attr lhs = Some a" "v_attr rhs = Some b" by auto
  have a: "attr_ok a" "d_type a = T" "makeTensor L a = Inr (env (v_id lhs))"
    and b: "attr_ok b" "d_type b = T" "makeTensor L b = Inr (env (v_id rhs))"
    using lhs rhs ab by (auto simp: operand_ok_def)
  have "storable T" using a by (auto simp: attr_ok_def)
  from folded_agrees [OF L a(1) b(1) this T _ _ _ _ et a(3) b(3)] a(2) b(2) obtain r where
    r: "fold_binary_int conv T (Some a) (Some b) = Inr r"
    and agree: "\<And>c. r = Some c \<Longrightarrow> \<exists>t u. eval L (env (v_id lhs)) (env (v_id rhs)) T = Inr t \<and>
      makeTensor L c = Inr u \<and> same_tensor u t"
    by auto
  show ?thesis
  proof (cases r)
    case None
    then show ?thesis using r ab by (simp add: fold_attr_def)
  next
    case (Some c)
    then show ?thesis using r ab agree [OF Some] by (auto simp: fold_attr_def intro: folds_right_attr)
  qed
qed

text \<open>An operation whose value at every index is given evaluates to those values.\<close>

lemma eval_pointwise:
  assumes L: "lib_ok L" and ta: "denotes ta T (\<lambda>idx. ap_element (element_type T) (f idx))"
    and tb: "denotes tb T (\<lambda>idx. ap_element (element_type T) (g idx))" and et: "ok (element_type T)"
    and f: "\<And>idx. inBounds idx (shape_of T) \<Longrightarrow> ap_ok (element_type T) (f idx)"
    and g: "\<And>idx. inBounds idx (shape_of T) \<Longrightarrow> ap_ok (element_type T) (g idx)"
    and h: "\<And>idx. inBounds idx (shape_of T) \<Longrightarrow> conv (element_type T) (f idx) (g idx) = Some (h idx)"
  shows "\<exists>t. eval L ta tb T = Inr t \<and> denotes t T (\<lambda>idx. ap_element (element_type T) (h idx))"
  unfolding eval
proof (rule pointwise2_denotes [OF L denotes_storable [OF ta] ta tb])
  fix idx assume ib: "inBounds idx (shape_of T)"
  show "op L (ap_element (element_type T) (f idx)) (ap_element (element_type T) (g idx)) = Inr (ap_element (element_type T) (h idx)) \<and>
      elem_ok (element_type T) (ap_element (element_type T) (h idx))"
    using implements [OF et f [OF ib] g [OF ib] h [OF ib], of L] ap_elval_ok(2) by blast
qed simp_all

end

section \<open>Neutral elements\<close>

locale operation_with_unit = folded_operation +
  fixes unit :: "ty \<Rightarrow> apint"
  assumes unit: "ok et \<Longrightarrow> ap_ok et x \<Longrightarrow> conv et x (unit et) = Some x \<and> conv et (unit et) x = Some x"
begin

lemma unit_left:
  assumes "lib_ok L" and lhs: "operand_ok L env T lhs" and rhs: "operand_ok L env T rhs" and et: "ok (element_type T)"
    and a: "v_attr lhs = Some a" "isSplat a" "ival (hd (d_values a)) = unit (element_type T)"
  shows "\<exists>t. eval L (env (v_id lhs)) (env (v_id rhs)) T = Inr t \<and> same_tensor (env (v_id rhs)) t"
proof -
  note f = ok_foldable [OF et]
  obtain x where x: "denotes (env (v_id lhs)) T (\<lambda>idx. ap_element (element_type T) (x idx))"
    "\<And>idx. inBounds idx (shape_of T) \<Longrightarrow> ap_ok (element_type T) (x idx)"
    "\<And>idx. inBounds idx (shape_of T) \<Longrightarrow> x idx = unit (element_type T)"
    using operand_values [OF assms(1) lhs f] a by metis
  obtain y where y: "denotes (env (v_id rhs)) T (\<lambda>idx. ap_element (element_type T) (y idx))"
    "\<And>idx. inBounds idx (shape_of T) \<Longrightarrow> ap_ok (element_type T) (y idx)"
    using operand_values [OF assms(1) rhs f] by metis
  obtain t where "eval L (env (v_id lhs)) (env (v_id rhs)) T = Inr t" "denotes t T (\<lambda>idx. ap_element (element_type T) (y idx))"
    using eval_pointwise [OF assms(1) x(1) y(1) et x(2) y(2), of y] unit [OF et y(2)] x(3) by auto
  then show ?thesis using denotes_same [OF y(1)] by blast
qed

lemma unit_right:
  assumes "lib_ok L" and lhs: "operand_ok L env T lhs" and rhs: "operand_ok L env T rhs" and et: "ok (element_type T)"
    and a: "v_attr rhs = Some a" "isSplat a" "ival (hd (d_values a)) = unit (element_type T)"
  shows "\<exists>t. eval L (env (v_id lhs)) (env (v_id rhs)) T = Inr t \<and> same_tensor (env (v_id lhs)) t"
proof -
  note f = ok_foldable [OF et]
  obtain x where x: "denotes (env (v_id lhs)) T (\<lambda>idx. ap_element (element_type T) (x idx))"
    "\<And>idx. inBounds idx (shape_of T) \<Longrightarrow> ap_ok (element_type T) (x idx)"
    using operand_values [OF assms(1) lhs f] by metis
  obtain y where y: "denotes (env (v_id rhs)) T (\<lambda>idx. ap_element (element_type T) (y idx))"
    "\<And>idx. inBounds idx (shape_of T) \<Longrightarrow> ap_ok (element_type T) (y idx)"
    "\<And>idx. inBounds idx (shape_of T) \<Longrightarrow> y idx = unit (element_type T)"
    using operand_values [OF assms(1) rhs f] a by metis
  obtain t where "eval L (env (v_id lhs)) (env (v_id rhs)) T = Inr t" "denotes t T (\<lambda>idx. ap_element (element_type T) (x idx))"
    using eval_pointwise [OF assms(1) x(1) y(1) et x(2) y(2), of x] unit [OF et x(2)] y(3) by auto
  then show ?thesis using denotes_same [OF x(1)] by blast
qed

text \<open>\<open>neutral\<close> recognises a splat of the unit.\<close>

lemma neutral_agrees:
  assumes L: "lib_ok L" and lhs: "operand_ok L env T lhs" and rhs: "operand_ok L env T rhs"
    and T: "has_static_shape T" and et: "ok (element_type T)"
    and neutral: "\<And>v. operand_ok L env T v \<Longrightarrow> \<exists>z. neutral (as_splat (v_attr v)) = Inr z \<and>
      (z \<longrightarrow> (\<exists>a. v_attr v = Some a \<and> isSplat a \<and> ival (hd (d_values a)) = unit (element_type T)))"
  shows "folds_right L env (neutral_fold neutral ffn conv T lhs rhs) (eval L (env (v_id lhs)) (env (v_id rhs)) T)"
proof -
  have other: "folds_right L env (Inr (case as_splat (v_attr v) of Some a \<Rightarrow> FoldAttr a | None \<Rightarrow> FoldValue (v_id v))) result"
    if "operand_ok L env T v" "result = Inr t" "same_tensor (env (v_id v)) t" for v result t
    using that by (auto simp: operand_ok_def as_splat_Some split: option.split intro: folds_right_value folds_right_attr)
  obtain zl where zl: "neutral (as_splat (v_attr lhs)) = Inr zl"
    "zl \<Longrightarrow> \<exists>a. v_attr lhs = Some a \<and> isSplat a \<and> ival (hd (d_values a)) = unit (element_type T)"
    using neutral [OF lhs] by blast
  obtain zr where zr: "neutral (as_splat (v_attr rhs)) = Inr zr"
    "zr \<Longrightarrow> \<exists>a. v_attr rhs = Some a \<and> isSplat a \<and> ival (hd (d_values a)) = unit (element_type T)"
    using neutral [OF rhs] by blast
  show ?thesis
  proof (cases zl)
    case True
    then show ?thesis using zl unit_left [OF L lhs rhs et] other [OF rhs] by (auto simp: neutral_fold_def Let_def)
  next
    case False
    show ?thesis
    proof (cases zr)
      case True
      then show ?thesis using False zl zr unit_right [OF L lhs rhs et] other [OF lhs] by (auto simp: neutral_fold_def Let_def)
    next
      case no: False
      then show ?thesis
        using False zl(1) zr(1) folder_agrees [OF L lhs rhs T et] binary_folder_int [OF ok_foldable [OF et]]
        by (simp add: neutral_fold_def Let_def)
    qed
  qed
qed

end

section \<open>Units of the operations\<close>

lemma ap_ok_mk: "foldable et \<Longrightarrow> ap_ok et (mk_apint (int_or_float_width et) v)"
  by (cases rule: foldable_cases) (auto simp: ap_ok_def bool_typed isSupportedIntegerType_cases wf_apint_def)

lemma ap_ok_eq: "ap_ok et x \<Longrightarrow> ap_ok et y \<Longrightarrow> uval x = uval y \<Longrightarrow> x = y"
  by (cases x; cases y) (simp add: ap_ok_def)

lemma ap_ok_range: "ap_ok et x \<Longrightarrow> 0 \<le> uval x \<and> uval x < 2 ^ int_or_float_width et"
  by (auto simp: ap_ok_def wf_apint_def)

lemma ap_ok_ops:
  assumes "ap_ok et x"
  shows "ap_ok et (ap_add x y)" "ap_ok et (ap_mul x y)" "ap_ok et (ap_and x y)" "ap_ok et (ap_or x y)" "ap_ok et (ap_xor x y)"
  using assms by (simp_all add: ap_ok_def wf_ap_ops)

definition all_ones :: "ty \<Rightarrow> apint" where
  "all_ones et = mk_apint (int_or_float_width et) (- 1)"

definition no_ones :: "ty \<Rightarrow> apint" where
  "no_ones et = mk_apint (int_or_float_width et) 0"

lemma uval_all_ones: "uval (all_ones et) = mask (int_or_float_width et)"
  by (simp add: all_ones_def mask_eq_exp_minus_1 zmod_minus1)

lemma ap_and_ones:
  assumes "foldable et" and "ap_ok et x"
  shows "ap_and x (all_ones et) = x" and "ap_and (all_ones et) x = x"
proof -
  have o: "ap_ok et (all_ones et)" using assms(1) by (simp add: all_ones_def ap_ok_mk)
  show "ap_and x (all_ones et) = x" "ap_and (all_ones et) x = x"
    using assms o ap_ok_range [OF assms(2)]
    by (intro ap_ok_eq [of et] ap_ok_ops; simp add: ap_and_def uval_all_ones ap_ok_def and.commute [of "mask _"]
        flip: take_bit_eq_mask; simp add: take_bit_eq_mod)+
qed

lemma ap_or_ones:
  assumes "foldable et" and "ap_ok et x"
  shows "ap_or x (all_ones et) = all_ones et" and "ap_or (all_ones et) x = all_ones et"
proof -
  let ?w = "int_or_float_width et"
  have o: "ap_ok et (all_ones et)" using assms(1) by (simp add: all_ones_def ap_ok_mk)
  have "take_bit ?w (uval x) OR mask ?w = mask ?w" by (rule bit_eqI) (auto simp: bit_simps)
  then have "uval x OR mask ?w = mask ?w" using ap_ok_range [OF assms(2)] by (simp add: take_bit_eq_mod)
  then have "uval x OR mask ?w = mask ?w" "mask ?w OR uval x = mask ?w" by (simp_all add: or.commute)
  then show "ap_or x (all_ones et) = all_ones et" "ap_or (all_ones et) x = all_ones et"
    using assms(2) o mk_apint_uval [of "all_ones et"] by (simp_all add: ap_or_def uval_all_ones ap_ok_def)
qed

lemma ap_zero:
  assumes "foldable et" and "ap_ok et x"
  shows "ap_add x (no_ones et) = x" "ap_add (no_ones et) x = x" "ap_or x (no_ones et) = x" "ap_or (no_ones et) x = x"
    "ap_xor x (no_ones et) = x" "ap_xor (no_ones et) x = x" "ap_and x (no_ones et) = no_ones et"
    "ap_and (no_ones et) x = no_ones et" "ap_xor x x = no_ones et"
  using assms(2) mk_apint_uval [of x]
  by (simp_all add: ap_add_def ap_or_def ap_xor_def ap_and_def no_ones_def ap_ok_def)

lemma ap_idem:
  assumes "ap_ok et x"
  shows "ap_and x x = x" "ap_or x x = x"
  using assms mk_apint_uval [of x] by (simp_all add: ap_or_def ap_and_def ap_ok_def)

lemma ap_one:
  assumes "ap_ok et x"
  shows "ap_mul x (mk_apint (int_or_float_width et) 1) = x" "ap_mul (mk_apint (int_or_float_width et) 1) x = x"
proof -
  have "mk_apint (ap_width x) (uval x * (1 mod 2 ^ ap_width x)) = mk_apint (ap_width x) (uval x)"
    by (simp add: mk_apint_eq_iff mod_mult_right_eq)
  then show "ap_mul x (mk_apint (int_or_float_width et) 1) = x" "ap_mul (mk_apint (int_or_float_width et) 1) x = x"
    using assms mk_apint_uval [of x] by (simp_all add: ap_mul_def ap_ok_def mult.commute)
qed

interpretation add: operation_with_unit isSupportedIntegerType "\<lambda>_ a b. Some (ap_add a b)" elem_add evalAddOp no_ones
  by unfold_locales (simp add: foldable_def ap_zero)

interpretation mul: operation_with_unit foldable "\<lambda>_ a b. Some (ap_mul a b)" elem_mul evalMultiplyOp
  "\<lambda>et. mk_apint (int_or_float_width et) 1"
  by unfold_locales (simp add: ap_one)

interpretation conj: operation_with_unit foldable "\<lambda>_ a b. Some (ap_and a b)" "\<lambda>_. elem_and" evalAndOp all_ones
  by unfold_locales (simp add: ap_and_ones)

interpretation disj: operation_with_unit foldable "\<lambda>_ a b. Some (ap_or a b)" "\<lambda>_. elem_or" evalOrOp no_ones
  by unfold_locales (simp add: ap_zero)

interpretation xor: operation_with_unit foldable "\<lambda>_ a b. Some (ap_xor a b)" "\<lambda>_. elem_xor" evalXorOp no_ones
  by unfold_locales (simp add: ap_zero)

end
