(* ===== verification/FoldLogic.thy ===== *)
theory FoldLogic
  imports FoldRun
begin

text \<open>
  Every folder of a binary integer operation agrees with its evaluator: the special cases (a neutral
  or absorbing operand, two equal operands), then the computation on two constants.
\<close>

context folded_operation
begin

lemma left_absorbs:
  assumes "lib_ok L" and lhs: "operand_ok L env T lhs" and rhs: "operand_ok L env T rhs" and et: "ok (element_type T)"
    and a: "v_attr lhs = Some a" "isSplat a"
    and absorb: "\<And>y. ap_ok (element_type T) y \<Longrightarrow> conv (element_type T) (ival (hd (d_values a))) y = Some (ival (hd (d_values a)))"
  shows "\<exists>t. eval L (env (v_id lhs)) (env (v_id rhs)) T = Inr t \<and> same_tensor (env (v_id lhs)) t"
proof -
  note f = ok_foldable [OF et]
  obtain x where x: "denotes (env (v_id lhs)) T (\<lambda>idx. ap_element (element_type T) (x idx))"
    "\<And>idx. inBounds idx (shape_of T) \<Longrightarrow> ap_ok (element_type T) (x idx)"
    "\<And>idx. inBounds idx (shape_of T) \<Longrightarrow> x idx = ival (hd (d_values a))"
    using operand_values [OF assms(1) lhs f] a by metis
  obtain y where y: "denotes (env (v_id rhs)) T (\<lambda>idx. ap_element (element_type T) (y idx))"
    "\<And>idx. inBounds idx (shape_of T) \<Longrightarrow> ap_ok (element_type T) (y idx)"
    using operand_values [OF assms(1) rhs f] by metis
  obtain t where "eval L (env (v_id lhs)) (env (v_id rhs)) T = Inr t" "denotes t T (\<lambda>idx. ap_element (element_type T) (x idx))"
    using eval_pointwise [OF assms(1) x(1) y(1) et x(2) y(2), of x] absorb [OF y(2)] x(3) by auto
  then show ?thesis using denotes_same [OF x(1)] by blast
qed

lemma right_absorbs:
  assumes "lib_ok L" and lhs: "operand_ok L env T lhs" and rhs: "operand_ok L env T rhs" and et: "ok (element_type T)"
    and a: "v_attr rhs = Some a" "isSplat a"
    and absorb: "\<And>x. ap_ok (element_type T) x \<Longrightarrow> conv (element_type T) x (ival (hd (d_values a))) = Some (ival (hd (d_values a)))"
  shows "\<exists>t. eval L (env (v_id lhs)) (env (v_id rhs)) T = Inr t \<and> same_tensor (env (v_id rhs)) t"
proof -
  note f = ok_foldable [OF et]
  obtain x where x: "denotes (env (v_id lhs)) T (\<lambda>idx. ap_element (element_type T) (x idx))"
    "\<And>idx. inBounds idx (shape_of T) \<Longrightarrow> ap_ok (element_type T) (x idx)"
    using operand_values [OF assms(1) lhs f] by metis
  obtain y where y: "denotes (env (v_id rhs)) T (\<lambda>idx. ap_element (element_type T) (y idx))"
    "\<And>idx. inBounds idx (shape_of T) \<Longrightarrow> ap_ok (element_type T) (y idx)"
    "\<And>idx. inBounds idx (shape_of T) \<Longrightarrow> y idx = ival (hd (d_values a))"
    using operand_values [OF assms(1) rhs f] a by metis
  obtain t where "eval L (env (v_id lhs)) (env (v_id rhs)) T = Inr t" "denotes t T (\<lambda>idx. ap_element (element_type T) (y idx))"
    using eval_pointwise [OF assms(1) x(1) y(1) et x(2) y(2), of y] absorb [OF x(2)] y(3) by auto
  then show ?thesis using denotes_same [OF y(1)] by blast
qed

lemma equal_operands:
  assumes "lib_ok L" and lhs: "operand_ok L env T lhs" and et: "ok (element_type T)" and same: "v_id lhs = v_id rhs"
    and h: "\<And>x. ap_ok (element_type T) x \<Longrightarrow> conv (element_type T) x x = Some (h x)"
  obtains x t where "denotes (env (v_id lhs)) T (\<lambda>idx. ap_element (element_type T) (x idx))"
    and "eval L (env (v_id lhs)) (env (v_id rhs)) T = Inr t"
    and "denotes t T (\<lambda>idx. ap_element (element_type T) (h (x idx)))"
proof -
  obtain x where x: "denotes (env (v_id lhs)) T (\<lambda>idx. ap_element (element_type T) (x idx))"
    "\<And>idx. inBounds idx (shape_of T) \<Longrightarrow> ap_ok (element_type T) (x idx)"
    using operand_values [OF assms(1) lhs ok_foldable [OF et]] by metis
  then show thesis
    using eval_pointwise [OF assms(1) x(1) x(1) et x(2) x(2), of "\<lambda>idx. h (x idx)"] h [OF x(2)] that same by auto
qed

end

lemma splat_int_cases:
  assumes "operand_ok L env T v" and "foldable (element_type T)"
  obtains (no) "splat_int v = Inr None"
  | (splat) a i where "splat_int v = Inr (Some i)" "v_attr v = Some a" "isSplat a" "i = ival (hd (d_values a))"
    "ap_ok (element_type T) i"
proof (cases "as_splat (v_attr v)")
  case None
  then show thesis using no by (simp add: splat_int_def)
next
  case (Some a)
  then have a: "v_attr v = Some a" "isSplat a" by (simp_all add: as_splat_Some)
  note c = constant_splat [OF assms(1) a assms(2)]
  show thesis
  proof (rule splat)
    show "splat_int v = Inr (Some (ival (hd (d_values a))))" using Some c(1,2) by (simp add: splat_int_def)
  qed (use a c in simp_all)
qed

lemma is_all_ones_eq: "foldable et \<Longrightarrow> ap_ok et i \<Longrightarrow> is_all_ones i \<longleftrightarrow> i = all_ones et"
  using ap_ok_eq [of et i "all_ones et"] ap_ok_mk [of et "- 1"]
  by (auto simp: is_all_ones_def uval_all_ones mask_eq_exp_minus_1 ap_ok_def all_ones_def [symmetric])

lemma is_zero_eq: "foldable et \<Longrightarrow> ap_ok et i \<Longrightarrow> uval i = 0 \<longleftrightarrow> i = no_ones et"
  using ap_ok_eq [of et i "no_ones et"] ap_ok_mk [of et 0] by (auto simp: no_ones_def)

text \<open>What \<open>has_splat\<close> finds is a constant splat of that value.\<close>

lemma splat_facts:
  assumes v: "operand_ok L env T v" and et: "foldable (element_type T)"
  obtains r where "splat_int v = Inr r"
    and "has_splat is_all_ones r \<Longrightarrow> \<exists>a. v_attr v = Some a \<and> isSplat a \<and> ival (hd (d_values a)) = all_ones (element_type T)"
    and "has_splat (\<lambda>i. uval i = 0) r \<Longrightarrow> \<exists>a. v_attr v = Some a \<and> isSplat a \<and> ival (hd (d_values a)) = no_ones (element_type T)"
  using v et
proof (cases rule: splat_int_cases)
  case no
  then show thesis using that by (simp add: has_splat_def)
next
  case (splat a i)
  then show thesis using that is_all_ones_eq [OF et] is_zero_eq [OF et] by (simp add: has_splat_def)
qed

lemma folds_right_operand:
  assumes "operand_ok L env T v" and "\<exists>t. result = Inr t \<and> same_tensor (env (v_id v)) t"
  shows "folds_right L env (Inr (FoldValue (v_id v))) result"
    and "v_attr v = Some a \<Longrightarrow> folds_right L env (Inr (fold_attr (v_attr v))) result"
  using assms by (auto simp: operand_ok_def fold_attr_def intro: folds_right_value folds_right_attr)

lemma and_agrees:
  assumes L: "lib_ok L" and lhs: "operand_ok L env T lhs" and rhs: "operand_ok L env T rhs"
    and T: "has_static_shape T" and et: "foldable (element_type T)"
  shows "folds_right L env (and_fold T lhs rhs) (evalAndOp L (env (v_id lhs)) (env (v_id rhs)) T)"
proof (cases "v_id lhs = v_id rhs")
  case True
  obtain x t where "denotes (env (v_id lhs)) T (\<lambda>idx. ap_element (element_type T) (x idx))"
    "evalAndOp L (env (v_id lhs)) (env (v_id rhs)) T = Inr t" "denotes t T (\<lambda>idx. ap_element (element_type T) (x idx))"
    by (rule conj.equal_operands [OF L lhs et True, of "\<lambda>x. x"]) (simp_all add: ap_idem)
  then show ?thesis using True denotes_same by (auto simp: and_fold_def intro!: folds_right_value)
next
  case False
  obtain l where l: "splat_int lhs = Inr l"
    "has_splat is_all_ones l \<Longrightarrow> \<exists>a. v_attr lhs = Some a \<and> isSplat a \<and> ival (hd (d_values a)) = all_ones (element_type T)"
    "has_splat (\<lambda>i. uval i = 0) l \<Longrightarrow> \<exists>a. v_attr lhs = Some a \<and> isSplat a \<and> ival (hd (d_values a)) = no_ones (element_type T)"
    using splat_facts [OF lhs et] by blast
  obtain r where r: "splat_int rhs = Inr r"
    "has_splat is_all_ones r \<Longrightarrow> \<exists>a. v_attr rhs = Some a \<and> isSplat a \<and> ival (hd (d_values a)) = all_ones (element_type T)"
    "has_splat (\<lambda>i. uval i = 0) r \<Longrightarrow> \<exists>a. v_attr rhs = Some a \<and> isSplat a \<and> ival (hd (d_values a)) = no_ones (element_type T)"
    using splat_facts [OF rhs et] by blast
  note here = False l(1) r(1)
  show ?thesis
  proof (cases "has_splat is_all_ones l")
    case True
    obtain a where a: "v_attr lhs = Some a" "isSplat a" "ival (hd (d_values a)) = all_ones (element_type T)"
      using l(2) [OF True] by blast
    from folds_right_operand(1) [OF rhs conj.unit_left [OF L lhs rhs et a]]
    show ?thesis using here True  by (simp add: and_fold_def)
  next
    case n0: False
    show ?thesis
    proof (cases "has_splat (\<lambda>i. uval i = 0) l")
      case True
      obtain a where a: "v_attr lhs = Some a" "isSplat a" "ival (hd (d_values a)) = no_ones (element_type T)"
      using l(3) [OF True] by blast
    have "\<exists>t. evalAndOp L (env (v_id lhs)) (env (v_id rhs)) T = Inr t \<and> same_tensor (env (v_id lhs)) t"
      by (rule conj.left_absorbs [OF L lhs rhs et a(1,2)]) (simp add: a(3) ap_zero [OF et])
    from folds_right_operand(2) [OF lhs this a(1)]
    show ?thesis using here True n0 by (simp add: and_fold_def)
    next
      case n1: False
      show ?thesis
      proof (cases "has_splat is_all_ones r")
        case True
        obtain a where a: "v_attr rhs = Some a" "isSplat a" "ival (hd (d_values a)) = all_ones (element_type T)"
      using r(2) [OF True] by blast
    from folds_right_operand(1) [OF lhs conj.unit_right [OF L lhs rhs et a]]
    show ?thesis using here True n0 n1 by (simp add: and_fold_def)
      next
        case n2: False
        show ?thesis
        proof (cases "has_splat (\<lambda>i. uval i = 0) r")
          case True
          obtain a where a: "v_attr rhs = Some a" "isSplat a" "ival (hd (d_values a)) = no_ones (element_type T)"
      using r(3) [OF True] by blast
    have "\<exists>t. evalAndOp L (env (v_id lhs)) (env (v_id rhs)) T = Inr t \<and> same_tensor (env (v_id rhs)) t"
      by (rule conj.right_absorbs [OF L lhs rhs et a(1,2)]) (simp add: a(3) ap_zero [OF et])
    from folds_right_operand(2) [OF rhs this a(1)]
    show ?thesis using here True n0 n1 n2 by (simp add: and_fold_def)
        next
          case n3: False
          show ?thesis
            using here n0 n1 n2 n3 conj.folder_agrees [OF L lhs rhs T et] by (simp add: and_fold_def logical_fold_def)
        qed
      qed
    qed
  qed
qed

lemma or_agrees:
  assumes L: "lib_ok L" and lhs: "operand_ok L env T lhs" and rhs: "operand_ok L env T rhs"
    and T: "has_static_shape T" and et: "foldable (element_type T)"
  shows "folds_right L env (or_fold T lhs rhs) (evalOrOp L (env (v_id lhs)) (env (v_id rhs)) T)"
proof (cases "v_id lhs = v_id rhs")
  case True
  obtain x t where "denotes (env (v_id lhs)) T (\<lambda>idx. ap_element (element_type T) (x idx))"
    "evalOrOp L (env (v_id lhs)) (env (v_id rhs)) T = Inr t" "denotes t T (\<lambda>idx. ap_element (element_type T) (x idx))"
    by (rule disj.equal_operands [OF L lhs et True, of "\<lambda>x. x"]) (simp_all add: ap_idem)
  then show ?thesis using True denotes_same by (auto simp: or_fold_def intro!: folds_right_value)
next
  case False
  obtain l where l: "splat_int lhs = Inr l"
    "has_splat is_all_ones l \<Longrightarrow> \<exists>a. v_attr lhs = Some a \<and> isSplat a \<and> ival (hd (d_values a)) = all_ones (element_type T)"
    "has_splat (\<lambda>i. uval i = 0) l \<Longrightarrow> \<exists>a. v_attr lhs = Some a \<and> isSplat a \<and> ival (hd (d_values a)) = no_ones (element_type T)"
    using splat_facts [OF lhs et] by blast
  obtain r where r: "splat_int rhs = Inr r"
    "has_splat is_all_ones r \<Longrightarrow> \<exists>a. v_attr rhs = Some a \<and> isSplat a \<and> ival (hd (d_values a)) = all_ones (element_type T)"
    "has_splat (\<lambda>i. uval i = 0) r \<Longrightarrow> \<exists>a. v_attr rhs = Some a \<and> isSplat a \<and> ival (hd (d_values a)) = no_ones (element_type T)"
    using splat_facts [OF rhs et] by blast
  note here = False l(1) r(1)
  show ?thesis
  proof (cases "has_splat is_all_ones l")
    case True
    obtain a where a: "v_attr lhs = Some a" "isSplat a" "ival (hd (d_values a)) = all_ones (element_type T)"
      using l(2) [OF True] by blast
    have "\<exists>t. evalOrOp L (env (v_id lhs)) (env (v_id rhs)) T = Inr t \<and> same_tensor (env (v_id lhs)) t"
      by (rule disj.left_absorbs [OF L lhs rhs et a(1,2)]) (simp add: a(3) ap_or_ones [OF et])
    from folds_right_operand(2) [OF lhs this a(1)]
    show ?thesis using here True  by (simp add: or_fold_def)
  next
    case n0: False
    show ?thesis
    proof (cases "has_splat (\<lambda>i. uval i = 0) l")
      case True
      obtain a where a: "v_attr lhs = Some a" "isSplat a" "ival (hd (d_values a)) = no_ones (element_type T)"
      using l(3) [OF True] by blast
    from folds_right_operand(1) [OF rhs disj.unit_left [OF L lhs rhs et a]]
    show ?thesis using here True n0 by (simp add: or_fold_def)
    next
      case n1: False
      show ?thesis
      proof (cases "has_splat is_all_ones r")
        case True
        obtain a where a: "v_attr rhs = Some a" "isSplat a" "ival (hd (d_values a)) = all_ones (element_type T)"
      using r(2) [OF True] by blast
    have "\<exists>t. evalOrOp L (env (v_id lhs)) (env (v_id rhs)) T = Inr t \<and> same_tensor (env (v_id rhs)) t"
      by (rule disj.right_absorbs [OF L lhs rhs et a(1,2)]) (simp add: a(3) ap_or_ones [OF et])
    from folds_right_operand(2) [OF rhs this a(1)]
    show ?thesis using here True n0 n1 by (simp add: or_fold_def)
      next
        case n2: False
        show ?thesis
        proof (cases "has_splat (\<lambda>i. uval i = 0) r")
          case True
          obtain a where a: "v_attr rhs = Some a" "isSplat a" "ival (hd (d_values a)) = no_ones (element_type T)"
      using r(3) [OF True] by blast
    from folds_right_operand(1) [OF lhs disj.unit_right [OF L lhs rhs et a]]
    show ?thesis using here True n0 n1 n2 by (simp add: or_fold_def)
        next
          case n3: False
          show ?thesis
            using here n0 n1 n2 n3 disj.folder_agrees [OF L lhs rhs T et] by (simp add: or_fold_def logical_fold_def)
        qed
      qed
    qed
  qed
qed

text \<open>The attribute of zeros.\<close>

lemma zero_attr:
  assumes "lib_ok L" and T: "has_static_shape T" "storable T" and et: "foldable (element_type T)"
  obtains a u where "getZeroAttr L T = Inr (Some a)" and "makeTensor L a = Inr u"
    and "denotes u T (\<lambda>idx. ap_element (element_type T) (no_ones (element_type T)))"
proof -
  let ?v = "ap_elval (element_type T) (no_ones (element_type T))"
  let ?a = "\<lparr>d_type = T, d_values = replicate (nat (num_elements (shape_of T))) ?v\<rparr>"
  have n: "0 \<le> num_elements (shape_of T)" using T(1) by (cases T) simp_all
  have z: "getZeroAttr L T = Inr (Some ?a)"
    using foldable_integer [OF et] T(1) by (cases "element_type T") (simp_all add: getZeroAttr_def no_ones_def splat_attr_def)
  have v: "ap_ok (element_type T) (no_ones (element_type T))" using et by (simp add: no_ones_def ap_ok_mk)
  have ok: "attr_ok ?a" using T n ap_elval_ok(1) [OF v] by (simp add: attr_ok_def)
  then obtain u where u: "makeTensor L ?a = Inr u" "denotes u T (attr_element ?a)" using attr_denotes [OF assms(1)] by fastforce
  have "denotes u T (\<lambda>idx. ap_element (element_type T) (no_ones (element_type T)))"
    using u(2) attr_position [OF ok] by (simp add: denotes_def ap_element_def)
  then show thesis using that z u(1) by blast
qed

lemma xor_agrees:
  assumes L: "lib_ok L" and lhs: "operand_ok L env T lhs" and rhs: "operand_ok L env T rhs"
    and T: "has_static_shape T" and et: "foldable (element_type T)"
  shows "folds_right L env (xor_fold L T lhs rhs) (evalXorOp L (env (v_id lhs)) (env (v_id rhs)) T)"
proof (cases "v_id lhs = v_id rhs")
  case True
  have "storable T" using lhs denotes_storable by (auto simp: operand_ok_def)
  from zero_attr [OF L T this et] obtain a u where a: "getZeroAttr L T = Inr (Some a)" "makeTensor L a = Inr u"
    "denotes u T (\<lambda>idx. ap_element (element_type T) (no_ones (element_type T)))" .
  obtain x t where "evalXorOp L (env (v_id lhs)) (env (v_id rhs)) T = Inr t"
    "denotes t T (\<lambda>idx. ap_element (element_type T) (no_ones (element_type T)))"
    by (rule xor.equal_operands [OF L lhs et True, of "\<lambda>x. no_ones (element_type T)"]) (simp_all add: ap_zero [OF et])
  then show ?thesis
    using True T a denotes_same [OF a(3)] by (auto simp: xor_fold_def fold_attr_def intro!: folds_right_attr)
next
  case False
  obtain l where l: "splat_int lhs = Inr l"
    "has_splat (\<lambda>i. uval i = 0) l \<Longrightarrow> \<exists>a. v_attr lhs = Some a \<and> isSplat a \<and> ival (hd (d_values a)) = no_ones (element_type T)"
    using splat_facts [OF lhs et] by blast
  obtain r where r: "splat_int rhs = Inr r"
    "has_splat (\<lambda>i. uval i = 0) r \<Longrightarrow> \<exists>a. v_attr rhs = Some a \<and> isSplat a \<and> ival (hd (d_values a)) = no_ones (element_type T)"
    using splat_facts [OF rhs et] by blast
  note here = False l(1) r(1)
  show ?thesis
  proof (cases "has_splat (\<lambda>i. uval i = 0) l")
    case True
    then have "folds_right L env (Inr (FoldValue (v_id rhs))) (evalXorOp L (env (v_id lhs)) (env (v_id rhs)) T)"
      using l(2) folds_right_operand(1) [OF rhs xor.unit_left [OF L lhs rhs et]] by blast
    then show ?thesis using here True by (simp add: xor_fold_def)
  next
    case no: False
    show ?thesis
    proof (cases "has_splat (\<lambda>i. uval i = 0) r")
      case True
      then have "folds_right L env (Inr (FoldValue (v_id lhs))) (evalXorOp L (env (v_id lhs)) (env (v_id rhs)) T)"
        using r(2) folds_right_operand(1) [OF lhs xor.unit_right [OF L lhs rhs et]] by blast
      then show ?thesis using here no True by (simp add: xor_fold_def)
    next
      case False
      then show ?thesis
        using here no xor.folder_agrees [OF L lhs rhs T et] \<open>v_id lhs \<noteq> v_id rhs\<close>
        by (simp add: xor_fold_def logical_fold_def)
    qed
  qed
qed

text \<open>The neutral elements of \<open>AddOp::fold\<close> and \<open>MulOp::fold\<close>.\<close>

lemma splat_zero:
  assumes v: "operand_ok L env T v" and et: "foldable (element_type T)"
  shows "\<exists>z. isSplatZero L (as_splat (v_attr v)) = Inr z \<and>
    (z \<longrightarrow> (\<exists>a. v_attr v = Some a \<and> isSplat a \<and> ival (hd (d_values a)) = no_ones (element_type T)))"
proof (cases "as_splat (v_attr v)")
  case (Some a)
  then have a: "v_attr v = Some a" "isSplat a" by (simp_all add: as_splat_Some)
  note c = constant_splat [OF v a et]
  have i: "is_integer (element_type T)" using et by simp
  then have "\<not> is_float (element_type T)" by (cases "element_type T") simp_all
  then show ?thesis using Some a c i is_zero_eq [OF et c(4)] by (simp add: isSplatZero_def)
next
  case None
  then show ?thesis by (intro exI [of _ False]) (simp add: isSplatZero_def)
qed

lemma splat_one:
  assumes v: "operand_ok L env T v" and et: "foldable (element_type T)"
  shows "\<exists>z. isSplatOne L (as_splat (v_attr v)) = Inr z \<and>
    (z \<longrightarrow> (\<exists>a. v_attr v = Some a \<and> isSplat a \<and> ival (hd (d_values a)) = mk_apint (int_or_float_width (element_type T)) 1))"
proof (cases "as_splat (v_attr v)")
  case (Some a)
  then have a: "v_attr v = Some a" "isSplat a" by (simp_all add: as_splat_Some)
  note c = constant_splat [OF v a et]
  have i: "is_integer (element_type T)" using et by simp
  then have "\<not> is_float (element_type T)" by (cases "element_type T") simp_all
  moreover have "sval (ival (hd (d_values a))) = 1 \<Longrightarrow> ival (hd (d_values a)) = mk_apint (int_or_float_width (element_type T)) 1"
    using mk_apint_sval [OF ap_okD(1) [OF c(4)]] ap_okD(2) [OF c(4)] by simp
  ultimately show ?thesis using Some a c i by (simp add: isSplatOne_def)
next
  case None
  then show ?thesis by (intro exI [of _ False]) (simp add: isSplatOne_def)
qed

lemma add_agrees:
  assumes L: "lib_ok L" and lhs: "operand_ok L env T lhs" and rhs: "operand_ok L env T rhs"
    and T: "has_static_shape T" and et: "isSupportedIntegerType (element_type T)"
  shows "folds_right L env (add_fold L T lhs rhs) (evalAddOp L (env (v_id lhs)) (env (v_id rhs)) T)"
  unfolding add_fold_def
  by (rule add.neutral_agrees [OF L lhs rhs T et splat_zero]) (simp_all add: foldable_def et)

lemma mul_agrees:
  assumes L: "lib_ok L" and lhs: "operand_ok L env T lhs" and rhs: "operand_ok L env T rhs"
    and T: "has_static_shape T" and et: "foldable (element_type T)"
  shows "folds_right L env (mul_fold L T lhs rhs) (evalMultiplyOp L (env (v_id lhs)) (env (v_id rhs)) T)"
  unfolding mul_fold_def
  by (rule mul.neutral_agrees [OF L lhs rhs T et splat_one]) (simp_all add: et)

lemma sub_agrees:
  assumes L: "lib_ok L" and lhs: "operand_ok L env T lhs" and rhs: "operand_ok L env T rhs"
    and T: "has_static_shape T" and et: "isSupportedIntegerType (element_type T)"
  shows "folds_right L env (sub_fold L T lhs rhs) (evalSubtractOp L (env (v_id lhs)) (env (v_id rhs)) T)"
  using sub.folder_agrees [OF L lhs rhs T et] binary_folder_int et by (simp add: sub_fold_def foldable_def)

lemma div_agrees:
  assumes L: "lib_ok L" and lhs: "operand_ok L env T lhs" and rhs: "operand_ok L env T rhs"
    and T: "has_static_shape T" and et: "isSupportedIntegerType (element_type T)"
  shows "folds_right L env (div_fold L T lhs rhs) (evalDivideOp L (env (v_id lhs)) (env (v_id rhs)) T)"
  using div.folder_agrees [OF L lhs rhs T et] binary_folder_int et by (simp add: div_fold_def foldable_def)

lemma rem_agrees:
  assumes L: "lib_ok L" and lhs: "operand_ok L env T lhs" and rhs: "operand_ok L env T rhs"
    and T: "has_static_shape T" and et: "isSupportedIntegerType (element_type T)"
  shows "folds_right L env (rem_fold L T lhs rhs) (evalRemOp L (env (v_id lhs)) (env (v_id rhs)) T)"
  using rem.folder_agrees [OF L lhs rhs T et] binary_folder_int et by (simp add: rem_fold_def foldable_def)

lemma max_agrees:
  assumes L: "lib_ok L" and lhs: "operand_ok L env T lhs" and rhs: "operand_ok L env T rhs"
    and T: "has_static_shape T" and et: "foldable (element_type T)"
  shows "folds_right L env (max_fold L T lhs rhs) (evalMaxOp L (env (v_id lhs)) (env (v_id rhs)) T)"
  using maxi.folder_agrees [OF L lhs rhs T et] binary_folder_int et by (simp add: max_fold_def foldable_def)

lemma min_agrees:
  assumes L: "lib_ok L" and lhs: "operand_ok L env T lhs" and rhs: "operand_ok L env T rhs"
    and T: "has_static_shape T" and et: "foldable (element_type T)"
  shows "folds_right L env (min_fold L T lhs rhs) (evalMinOp L (env (v_id lhs)) (env (v_id rhs)) T)"
  using mini.folder_agrees [OF L lhs rhs T et] binary_folder_int et by (simp add: min_fold_def foldable_def)

end
