(* ===== verification/FoldSlice.thy ===== *)
theory FoldSlice
  imports FoldRun BridgeLaws
begin

text \<open>
  \<open>SliceOp::fold\<close> against \<open>evalSliceOp\<close>: the nested loops of \<open>sliceElements\<close> list the elements of the
  slice in row-major order. A loop of a dimension of size \<open>d\<close> makes at most \<open>d\<close> steps, and constants of
  more than \<open>kFoldOpEltLimit\<close> elements are not folded, so \<open>65537\<close> units of fuel suffice while no
  stride is near \<open>2 ^ 31\<close>; above that the 32-bit counter of the last dimension can wrap.
\<close>

section \<open>Rows\<close>

lemma upto_shift: "map (\<lambda>j. a + j) [0..n - 1] = [a..a + n - 1]"
  by (rule nth_equalityI) auto

lemma upto_product: "0 \<le> m \<Longrightarrow> [0..int n * m - 1] = concat (map (\<lambda>i. map (\<lambda>j. int i * m + j) [0..m - 1]) [0..<n])"
proof (induction n)
  case (Suc n)
  have "[0..int (Suc n) * m - 1] = [0..int n * m - 1] @ [int n * m..int n * m + m - 1]"
  proof (cases "m = 0")
    case False
    then have "0 \<le> int n * m" "int n * m \<le> int n * m + m - 1" using Suc.prems by auto
    from upto_split1 [OF this] show ?thesis by (simp add: algebra_simps)
  qed simp
  then show ?case using Suc upto_shift [of "int n * m" m] by simp
qed simp

lemma index_space_Cons:
  assumes "static_shape rs"
  shows "index_space (int n # rs) = concat (map (\<lambda>i. map ((#) (int i)) (index_space rs)) [0..<n])"
proof -
  have m: "0 \<le> num_elements rs" using assms by (rule num_elements_nonneg)
  have row: "map (\<lambda>j. unflat (int n # rs) (int i * num_elements rs + j)) [0..num_elements rs - 1] =
      map (\<lambda>j. int i # unflat rs j) [0..num_elements rs - 1]" for i
    by (rule map_cong) auto
  have "index_space (int n # rs) = concat (map (\<lambda>i. map (\<lambda>j. unflat (int n # rs) (int i * num_elements rs + j)) [0..num_elements rs - 1]) [0..<n])"
    using upto_product [OF m, of n] by (simp add: index_space_def map_concat o_def del: unflat.simps)
  then show ?thesis by (simp only: row) (simp add: index_space_def o_def)
qed

lemma index_space_Nil: "index_space [] = [[]]"
  by (simp add: index_space_def)

lemma wrap32_id: "- (2 ^ 31) \<le> v \<Longrightarrow> v < 2 ^ 31 \<Longrightarrow> wrap32 v = v"
  by (simp add: wrap32_def)

section \<open>The loops\<close>

definition stride_ok :: "int \<Rightarrow> bool" where
  "stride_ok t \<longleftrightarrow> 0 < t \<and> t + kFoldOpEltLimit \<le> 2 ^ 31"

lemma slice_row_eq:
  assumes "\<forall>k < n. i + int k * t < l" and "l \<le> i + int n * t" and "stride_ok t" and "0 \<le> i" and "l \<le> kFoldOpEltLimit"
    and "n < fuel" and "\<forall>k < n. 0 \<le> off + i + int k * t \<and> off + i + int k * t < int (length vs)"
  shows "slice_row fuel vs off i l t = Inr (map (\<lambda>k. vs ! nat (off + i + int k * t)) [0..<n])"
  using assms
proof (induction n arbitrary: i fuel)
  case 0
  then show ?case by (cases fuel) auto
next
  case (Suc n)
  then obtain fuel' where f: "fuel = Suc fuel'" "n < fuel'" by (cases fuel) auto
  have il: "i < l" "0 \<le> off + i" "off + i < int (length vs)" using Suc.prems(1,7) by (auto dest: spec [of _ 0])
  have t: "0 < t" "i + t < 2 ^ 31" using Suc.prems(3,5) il(1) by (auto simp: stride_ok_def)
  then have j: "i64 (i + t) = Inr (i + t)" "wrap32 (i + t) = i + t" using Suc.prems(4) by (auto simp: i64_in i64_ok_def wrap32_id)
  have "slice_row fuel' vs off (i + t) l t = Inr (map (\<lambda>k. vs ! nat (off + (i + t) + int k * t)) [0..<n])"
  proof (rule Suc.IH)
    show "\<forall>k<n. i + t + int k * t < l"
      using Suc.prems(1) by (auto simp: algebra_simps dest: spec [of _ "Suc _"])
    show "\<forall>k<n. 0 \<le> off + (i + t) + int k * t \<and> off + (i + t) + int k * t < int (length vs)"
      using Suc.prems(7) by (auto simp: algebra_simps dest: spec [of _ "Suc _"])
  qed (use Suc.prems f t in \<open>auto simp: algebra_simps\<close>)
  then show ?case using il j f by (simp add: at_nonneg map_upt_Suc algebra_simps del: upt_Suc)
qed

lemma slice_outer_eq:
  assumes "\<forall>k < n. i + int k * t < l" and "l \<le> i + int n * t" and "stride_ok t" and "0 \<le> i" and "l \<le> kFoldOpEltLimit"
    and "n < fuel" and "\<forall>k < n. body (i + int k * t) = Inr (f k)"
  shows "slice_outer fuel body i l t = Inr (concat (map f [0..<n]))"
  using assms
proof (induction n arbitrary: i fuel f)
  case 0
  then show ?case by (cases fuel) auto
next
  case (Suc n)
  then obtain fuel' where f: "fuel = Suc fuel'" "n < fuel'" by (cases fuel) auto
  have il: "i < l" "body i = Inr (f 0)" using Suc.prems(1,7) by (auto dest: spec [of _ 0])
  have t: "0 < t" "i + t < 2 ^ 31" using Suc.prems(3,5) il(1) by (auto simp: stride_ok_def)
  then have j: "i64 (i + t) = Inr (i + t)" using Suc.prems(4) by (auto simp: i64_in i64_ok_def)
  have "slice_outer fuel' body (i + t) l t = Inr (concat (map (\<lambda>k. f (Suc k)) [0..<n]))"
  proof (rule Suc.IH)
    show "\<forall>k<n. i + t + int k * t < l"
      using Suc.prems(1) by (auto simp: algebra_simps dest: spec [of _ "Suc _"])
    show "\<forall>k<n. body (i + t + int k * t) = Inr (f (Suc k))"
      using Suc.prems(7) by (auto simp: algebra_simps dest: spec [of _ "Suc _"])
  qed (use Suc.prems f t in \<open>auto simp: algebra_simps\<close>)
  then show ?case using il j f by (simp add: map_upt_Suc del: upt_Suc)
qed

text \<open>What the loops rely on: a dimension, its start, limit and stride, and the size of the result.\<close>

fun slice_dims :: "sizes \<Rightarrow> sizes \<Rightarrow> sizes \<Rightarrow> sizes \<Rightarrow> sizes \<Rightarrow> bool" where
  "slice_dims [] [] [] [] [] = True"
| "slice_dims (d # sh) (s # ss) (l # ls) (t # ts) (r # rs) \<longleftrightarrow>
     0 < d \<and> d \<le> kFoldOpEltLimit \<and> 0 \<le> s \<and> s \<le> l \<and> l \<le> d \<and> stride_ok t \<and> 0 \<le> r \<and> r \<le> d \<and>
     l \<le> s + r * t \<and> (0 < r \<longrightarrow> s + (r - 1) * t < l) \<and> slice_dims sh ss ls ts rs"
| "slice_dims _ _ _ _ _ = False"

lemma slice_dims_lengths:
  "slice_dims sh ss ls ts rs \<Longrightarrow> length ss = length sh \<and> length ls = length sh \<and> length ts = length sh \<and> length rs = length sh"
  by (induction sh ss ls ts rs rule: slice_dims.induct) auto

lemma slice_dims_static: "slice_dims sh ss ls ts rs \<Longrightarrow> 0 < num_elements sh \<and> static_shape rs"
  by (induction sh ss ls ts rs rule: slice_dims.induct) auto

lemma slice_steps:
  assumes "0 \<le> r" and "0 < r \<longrightarrow> s + (r - 1) * t < l" and "0 < t" and "k < nat r"
  shows "s + int k * t < l"
proof -
  have "int k * t \<le> (r - 1) * t" using assms by (intro mult_right_mono) auto
  moreover have "0 < r" using assms(4) by simp
  ultimately show ?thesis using assms(2) by linarith
qed

lemma sliceElements_eq:
  assumes "slice_dims sh ss ls ts rs" and "sh \<noteq> []" and "0 \<le> off" and "off + num_elements sh \<le> int (length vs)"
    and "nat kFoldOpEltLimit < fuel"
  shows "sliceElements fuel vs off (slice_sizes (num_elements sh) sh) ss ls ts =
    Inr (map (\<lambda>idx. vs ! nat (off + flat sh (slice_index ss ts idx))) (index_space rs))"
  using assms
proof (induction sh ss ls ts rs arbitrary: off rule: slice_dims.induct)
  case (2 d sh s ss l ls t ts r rs)
  then have d: "0 < d" "d \<le> kFoldOpEltLimit" "0 \<le> s" "s \<le> l" "l \<le> d" "stride_ok t" "0 \<le> r" "r \<le> d" "l \<le> s + r * t"
    "0 < r \<longrightarrow> s + (r - 1) * t < l" and rest: "slice_dims sh ss ls ts rs" by auto
  have t: "0 < t" using d(6) by (simp add: stride_ok_def)
  have steps: "\<forall>k < nat r. s + int k * t < l" using slice_steps [OF d(7,10) t] by blast
  have pos: "\<forall>k < nat r. 0 \<le> s + int k * t \<and> s + int k * t < d" using steps d t by force
  have fuel: "nat r < fuel" using d(2,8) 2(6) by linarith
  have lens: "length ss = length sh" "length ls = length sh" "length ts = length sh" "length rs = length sh"
    using slice_dims_lengths [OF rest] by auto
  note st = slice_dims_static [OF rest]
  have space: "index_space (r # rs) = concat (map (\<lambda>i. map ((#) (int i)) (index_space rs)) [0..<nat r])"
    using index_space_Cons [of rs "nat r"] st d(7) by simp
  have limit: "l \<le> s + int (nat r) * t" "l \<le> kFoldOpEltLimit" using d by auto
  let ?N = "num_elements sh"
  let ?f = "\<lambda>idx. vs ! nat (off + flat (d # sh) (slice_index (s # ss) (t # ts) idx))"
  show ?case
  proof (cases "sh = []")
    case True
    then have nil: "ss = []" "ls = []" "ts = []" "rs = []" using lens by auto
    have w: "wrap32 s = s" using d by (intro wrap32_id) (auto simp: kFoldOpEltLimit_def)
    have "slice_row fuel vs off s l t = Inr (map (\<lambda>k. vs ! nat (off + s + int k * t)) [0..<nat r])"
      by (rule slice_row_eq [OF steps limit(1) d(6,3) limit(2) fuel]) (use pos 2(4,5) True in auto)
    then show ?thesis
      using True nil w space by (simp add: index_space_Nil slice_index_def map_concat o_def algebra_simps)
  next
    case False
    have size: "num_elements (d # sh) div d = ?N" using d(1) by simp
    have body: "\<forall>k < nat r. sliceElements fuel vs (off + (s + int k * t) * ?N) (slice_sizes ?N sh) ss ls ts =
      Inr (map (\<lambda>idx. ?f (int k # idx)) (index_space rs))"
    proof (intro allI impI)
      fix k assume "k < nat r"
      then have p: "0 \<le> s + int k * t" "s + int k * t + 1 \<le> d" using pos by auto
      have "(s + int k * t + 1) * ?N \<le> d * ?N" by (rule mult_right_mono) (use p st in auto)
      then have "off + (s + int k * t) * ?N + ?N \<le> int (length vs)" using 2(5) by (simp add: algebra_simps)
      moreover have "0 \<le> off + (s + int k * t) * ?N" using 2(4) p st by simp
      ultimately have "sliceElements fuel vs (off + (s + int k * t) * ?N) (slice_sizes ?N sh) ss ls ts =
          Inr (map (\<lambda>idx. vs ! nat (off + (s + int k * t) * ?N + flat sh (slice_index ss ts idx))) (index_space rs))"
        using 2(1) [OF rest False _ _ 2(6)] by blast
      then show "sliceElements fuel vs (off + (s + int k * t) * ?N) (slice_sizes ?N sh) ss ls ts =
          Inr (map (\<lambda>idx. ?f (int k # idx)) (index_space rs))"
        by (simp add: slice_index_def algebra_simps)
    qed
    have ne: "ss \<noteq> []" using False lens by auto
    have "slice_outer fuel (\<lambda>s. sliceElements fuel vs (off + s * ?N) (slice_sizes ?N sh) ss ls ts) s l t =
        Inr (concat (map (\<lambda>k. map (\<lambda>idx. ?f (int k # idx)) (index_space rs)) [0..<nat r]))"
      by (rule slice_outer_eq [OF steps limit(1) d(6,3) limit(2) fuel body])
    then show ?thesis
      using ne lens size space by (simp add: map_concat o_def at_nonneg del: flat.simps num_elements_Cons)
  qed
qed auto

section \<open>The folder\<close>

lemma divideCeil_covers: "0 < t \<Longrightarrow> n \<le> divideCeil n t * t"
proof -
  assume t: "0 < t"
  have "n + t - 1 - (n + t - 1) mod t = divideCeil n t * t" by (simp add: divideCeil_def minus_mod_eq_div_mult)
  moreover have "(n + t - 1) mod t < t" using t by simp
  ultimately show ?thesis by linarith
qed

lemma slice_dims_nth:
  "length ss = length sh \<Longrightarrow> length ls = length sh \<Longrightarrow> length ts = length sh \<Longrightarrow> length rs = length sh \<Longrightarrow>
   (\<And>k. k < length sh \<Longrightarrow> 0 < sh ! k \<and> sh ! k \<le> kFoldOpEltLimit \<and> 0 \<le> ss ! k \<and> ss ! k \<le> ls ! k \<and> ls ! k \<le> sh ! k \<and>
     stride_ok (ts ! k) \<and> rs ! k = divideCeil (ls ! k - ss ! k) (ts ! k)) \<Longrightarrow>
   slice_dims sh ss ls ts rs"
proof (induction sh ss ls ts rs rule: slice_dims.induct)
  case (2 d sh s ss l ls t ts r rs)
  have h: "0 < d" "d \<le> kFoldOpEltLimit" "0 \<le> s" "s \<le> l" "l \<le> d" "stride_ok t" "r = divideCeil (l - s) t"
    using 2(6) [of 0] by auto
  then have t: "0 < t" and n: "0 \<le> l - s" by (auto simp: stride_ok_def)
  have "slice_dims sh ss ls ts rs"
  proof (rule 2(1))
    fix k assume "k < length sh"
    then show "0 < sh ! k \<and> sh ! k \<le> kFoldOpEltLimit \<and> 0 \<le> ss ! k \<and> ss ! k \<le> ls ! k \<and> ls ! k \<le> sh ! k \<and>
        stride_ok (ts ! k) \<and> rs ! k = divideCeil (ls ! k - ss ! k) (ts ! k)"
      using 2(6) [of "Suc k"] by simp
  qed (use 2 in simp_all)
  then show ?case
    using h divideCeil_bounds [OF n t] divideCeil_last [OF t, of "l - s"] divideCeil_covers [OF t, of "l - s"] by auto
qed auto

lemma slice_shapes:
  assumes "inferSliceOp T starts limits strides = Inr R" and T: "storable T"
    and len: "length (di_values limits) = length (shape_of T)" "length (di_values strides) = length (shape_of T)"
    and strides: "\<forall>t \<in> set (di_values strides). stride_ok t"
    and n: "0 < num_elements (shape_of T)" "num_elements (shape_of T) \<le> kFoldOpEltLimit"
  shows "slice_dims (shape_of T) (di_values starts) (di_values limits) (di_values strides) (shape_of R)"
proof (rule slice_dims_nth)
  have rank: "has_rank T" using T by (cases T) auto
  note s = inferSliceOp_shape [OF assms(1) rank] and st = storableD(1) [OF T]
  show "length (di_values starts) = length (shape_of T)" "length (di_values limits) = length (shape_of T)"
    "length (di_values strides) = length (shape_of T)" "length (shape_of R) = length (shape_of T)"
    using s len by auto
  fix k assume k: "k < length (shape_of T)"
  have ib: "inBounds (unflat (shape_of T) 0) (shape_of T)" using unflat_inBounds [OF st, of 0] n(1) by simp
  have "0 < shape_of T ! k" "shape_of T ! k \<le> kFoldOpEltLimit"
    using inBoundsD [OF ib k] dim_le_num_elements [OF ib k] n by linarith+
  moreover have "stride_ok (di_values strides ! k)" using strides k len(2) by (metis nth_mem)
  ultimately show "0 < shape_of T ! k \<and> shape_of T ! k \<le> kFoldOpEltLimit \<and> 0 \<le> di_values starts ! k \<and>
      di_values starts ! k \<le> di_values limits ! k \<and> di_values limits ! k \<le> shape_of T ! k \<and>
      stride_ok (di_values strides ! k) \<and>
      shape_of R ! k = divideCeil (di_values limits ! k - di_values starts ! k) (di_values strides ! k)"
    using s(5) [OF k] static_not_dynamic [OF st k] by simp
qed

lemma slice_whole:
  assumes fits: "slice_fits sh starts strides sh" and idx: "inBounds idx sh"
  shows "slice_index starts strides idx = idx"
proof (rule nth_equalityI)
  have len: "length starts = length sh" "length strides = length sh" "length idx = length sh"
    using fits inBounds_length [OF idx] by (auto simp: slice_fits_def)
  then show "length (slice_index starts strides idx) = length idx" by (simp add: slice_index_def)
  fix k assume "k < length (slice_index starts strides idx)"
  then have k: "k < length sh" using len by (simp add: slice_index_def)
  have i: "0 \<le> idx ! k" "idx ! k < sh ! k" using inBoundsD [OF idx k] by auto
  then have f: "0 \<le> starts ! k" "0 < strides ! k" "starts ! k + (sh ! k - 1) * strides ! k < sh ! k"
    using fits k by (auto simp: slice_fits_def)
  have "starts ! k = 0 \<and> (idx ! k = 0 \<or> strides ! k = 1)"
  proof -
    have "(sh ! k - 1) * 1 \<le> (sh ! k - 1) * strides ! k" using f i by (intro mult_left_mono) auto
    then have s: "starts ! k = 0" using f by simp
    moreover have "strides ! k = 1" if "idx ! k \<noteq> 0"
    proof (rule ccontr)
      assume "strides ! k \<noteq> 1"
      then have "(sh ! k - 1) * 2 \<le> (sh ! k - 1) * strides ! k" using f i by (intro mult_left_mono) auto
      then show False using f s that i by simp
    qed
    ultimately show ?thesis by blast
  qed
  then show "slice_index starts strides idx ! k = idx ! k" using k len by (auto simp: slice_index_def)
qed

lemma slice_fold_right:
  assumes L: "lib_ok L" and R: "inferSliceOp T starts limits strides = Inr R"
    and len: "length (di_values limits) = length (shape_of T)" "length (di_values strides) = length (shape_of T)"
    and strides: "\<forall>t \<in> set (di_values strides). stride_ok t"
    and v: "operand_ok L env T v" and fuel: "nat kFoldOpEltLimit < fuel"
  shows "folds_right L env (slice_fold fuel (di_values starts) (di_values limits) (di_values strides) R v)
    (evalSliceOp L (env (v_id v)) (di_values starts) (di_values strides) R)"
proof -
  let ?sh = "shape_of T" and ?rs = "shape_of R" and ?ss = "di_values starts" and ?ts = "di_values strides"
  obtain g where g: "denotes (env (v_id v)) T g" and vt: "v_type v = T" using v by (auto simp: operand_ok_def)
  note T = denotes_storable [OF g]
  note fits = inferSliceOp_fits [OF R T len(2)]
  have static: "has_static_shape T" "has_static_shape R" using T fits(2) storableD(1) by (cases T; cases R; force)+
  obtain r where r: "evalSliceOp L (env (v_id v)) ?ss ?ts R = Inr r" "denotes r R (\<lambda>idx. g (slice_index ?ss ?ts idx))"
    using evalSliceOp_denotes [OF L g fits(2,3,1)] by blast
  show ?thesis
  proof (cases "?sh = ?rs")
    case True
    have "same_tensor (env (v_id v)) r"
      using denotes_same_shape [OF g r(2) True fits(3) [symmetric]] slice_whole fits(1) True by simp
    then show ?thesis using True static vt r(1) by (simp add: slice_fold_def folds_right_value)
  next
    case differ: False
    show ?thesis
    proof (cases "v_attr v")
      case None
      then show ?thesis using differ vt by (simp add: slice_fold_def)
    next
      case (Some a)
      then have a: "attr_ok a" "d_type a = T" "makeTensor L a = Inr (env (v_id v))" using v by (auto simp: operand_ok_def)
      let ?vs = "d_values a"
      have ga: "g idx = attr_element a idx" if "inBounds idx ?sh" for idx
        using attr_denotes [OF L a(1)] a(2,3) denotes_get [OF g that] denotes_get [of _ T "attr_element a", OF _ that] by auto
      have vlen: "int (length ?vs) = num_elements ?sh" using a(1,2) by (simp add: attr_ok_def)
      show ?thesis
      proof (cases "num_elements ?sh > kFoldOpEltLimit \<or> \<not> (is_integer (element_type T) \<or> is_float (element_type T))")
        case True
        then show ?thesis
          using Some differ vt a(2) static by (auto simp: slice_fold_def foldSlice_def fold_attr_def kFoldOpEltLimit_def)
      next
        case False
        let ?new = "map (\<lambda>idx. ?vs ! nat (flat ?sh (slice_index ?ss ?ts idx))) (index_space ?rs)"
        let ?a = "\<lparr>d_type = R, d_values = ?new\<rparr>"
        note rs = storableD(1) [OF fits(2)]
        have nlen: "int (length ?new) = num_elements ?rs" using num_elements_nonneg [OF rs] by (simp add: index_space_length)
        have dense: "dense_get R ?new = Inr ?a" using static(2) nlen by (simp add: dense_get_def)
        have fold: "foldSlice fuel ?ss (di_values limits) ?ts T R ?vs = Inr (Some ?a)"
        proof (cases "num_elements ?sh = 0")
          case True
          have "num_elements ?rs = 0"
            using slice_index_in [OF fits(1) unflat_inBounds [OF rs, of 0]] num_elements_pos [of _ ?sh] True
              num_elements_nonneg [OF rs] by fastforce
          then have "?new = []" by (simp add: index_space_def)
          then show ?thesis using True static(1) dense by (simp add: foldSlice_def)
        next
          case ne: False
          then have n: "0 < num_elements ?sh" "num_elements ?sh \<le> kFoldOpEltLimit"
            using False num_elements_nonneg [OF storableD(1) [OF T]] by auto
          have nil: "?sh \<noteq> []" using differ fits(1) by (auto simp: slice_fits_def)
          have "sliceElements fuel ?vs 0 (slice_sizes (num_elements ?sh) ?sh) ?ss (di_values limits) ?ts = Inr ?new"
            using sliceElements_eq [OF slice_shapes [OF R T len strides n] nil _ _ fuel, of 0 ?vs] vlen by simp
          then show ?thesis using ne False static(1) dense by (simp add: foldSlice_def)
        qed
        have pos: "nat (flat ?sh (slice_index ?ss ?ts idx)) < length ?vs" if "inBounds idx ?rs" for idx
          using flat_bounds [OF slice_index_in [OF fits(1) that]] vlen by linarith
        have "value_ok (element_type R) x" if "x \<in> set ?new" for x
          using that pos a(1,2) fits(3) index_space_set [OF rs] by (auto simp: attr_ok_def)
        then have ok: "attr_ok ?a" using fits(2) static(2) nlen by (simp add: attr_ok_def)
        obtain u where u: "makeTensor L ?a = Inr u" "denotes u R (attr_element ?a)" using attr_denotes [OF L ok] by auto
        have "same_tensor u r"
        proof (rule denotes_same [OF u(2) r(2)])
          fix idx assume ib: "inBounds idx ?rs"
          have "index_space ?rs ! nat (flat ?rs idx) = idx"
            using flat_bounds [OF ib] unflat_flat [OF ib] by (simp add: index_space_nth index_space_length)
          moreover have "nat (flat ?rs idx) < length (index_space ?rs)" using flat_bounds [OF ib] by (simp add: index_space_length)
          ultimately show "attr_element ?a idx = g (slice_index ?ss ?ts idx)"
            using ga [OF slice_index_in [OF fits(1) ib]] a(2) fits(3) by simp
        qed
        then show ?thesis
          using Some differ vt a(2) False fold r(1) u(1) folds_right_attr by (simp add: slice_fold_def fold_attr_def)
      qed
    qed
  qed
qed

end
