(* ===== verification/FoldProperties.thy ===== *)
theory FoldProperties
  imports FoldLogic FoldSlice Samples
begin

text \<open>
  The properties of the constant folders, their concrete instances, and two cases in which a folder
  does not do what the operation does.
\<close>

section \<open>Constants for the instances\<close>

definition byte_attr :: "sizes \<Rightarrow> int list \<Rightarrow> dense_attr" where
  "byte_attr sh bs = \<lparr>d_type = byte_type sh, d_values = map (\<lambda>b. IntV (APInt 8 b)) bs\<rparr>"

definition const_value :: "nat \<Rightarrow> dense_attr \<Rightarrow> fold_value" where
  "const_value i a = \<lparr>v_id = i, v_type = d_type a, v_attr = Some a, v_def = OtherDef\<rparr>"

definition const_env :: "lib \<Rightarrow> (nat \<Rightarrow> dense_attr) \<Rightarrow> nat \<Rightarrow> tensor" where
  "const_env L consts i = projr (makeTensor L (consts i))"

lemma const_operand:
  assumes "lib_ok L" and "attr_ok (consts i)" and "d_type (consts i) = T"
  shows "operand_ok L (const_env L consts) T (const_value i (consts i))"
proof -
  obtain t where "makeTensor L (consts i) = Inr t" "denotes t T (attr_element (consts i))"
    using attr_denotes [OF assms(1,2)] assms(3) by auto
  then show ?thesis using assms by (auto simp: operand_ok_def const_value_def const_env_def)
qed

lemma byte_attr_ok:
  assumes "static_shape sh" and "\<forall>d \<in> set sh. i64_ok d" and "i64_ok (num_elements sh)"
    and "int (length bs) = num_elements sh" and "\<forall>b \<in> set bs. 0 \<le> b \<and> b < 256"
  shows "attr_ok (byte_attr sh bs)" and "d_type (byte_attr sh bs) = byte_type sh"
proof -
  have "value_ok ui8 (IntV (APInt 8 b))" if "b \<in> set bs" for b
    using byte_ok [of b] assms(5) that by (simp add: value_ok_def byte_def int_element_def)
  then show "attr_ok (byte_attr sh bs)" using assms(1-4) by (auto simp: attr_ok_def byte_attr_def byte_type_def [symmetric]) (simp add: byte_type_def)
qed (simp add: byte_attr_def)

section \<open>Binary operations\<close>

text \<open>
  C33: Folding a binary operation on integers, or an operation on Booleans other than addition, does
  not change what the program computes. The folder returns, and unless it declines, its result has
  the elements of the tensor the evaluator computes from the operands at run time: for two constants
  (splat or not, with division declined for a zero divisor) and for the special cases in which only
  one operand is a constant or both operands are the same value.
\<close>

theorem binary_folds_agree:
  assumes "lib_ok L" and "operand_ok L env T lhs" and "operand_ok L env T rhs" and "has_static_shape T"
    and "isSupportedIntegerType (element_type T) \<and> (folder, evaluate) \<in>
          set [(add_fold L, evalAddOp L), (sub_fold L, evalSubtractOp L), (div_fold L, evalDivideOp L), (rem_fold L, evalRemOp L)] \<or>
        foldable (element_type T) \<and> (folder, evaluate) \<in>
          set [(mul_fold L, evalMultiplyOp L), (max_fold L, evalMaxOp L), (min_fold L, evalMinOp L),
               (and_fold, evalAndOp L), (or_fold, evalOrOp L), (xor_fold L, evalXorOp L)]"
  shows "\<exists>r. folder T lhs rhs = Inr r \<and>
    (r \<noteq> NoFold \<longrightarrow> (\<exists>t. evaluate (env (v_id lhs)) (env (v_id rhs)) T = Inr t \<and> agrees L env r t))"
  using assms(5) add_agrees [OF assms(1-4)] sub_agrees [OF assms(1-4)] div_agrees [OF assms(1-4)] rem_agrees [OF assms(1-4)]
    mul_agrees [OF assms(1-4)] max_agrees [OF assms(1-4)] min_agrees [OF assms(1-4)] and_agrees [OF assms(1-4)]
    or_agrees [OF assms(1-4)] xor_agrees [OF assms(1-4)]
  unfolding folds_right_def by auto

theorem binary_folds_agree_witness:
  "\<exists>t u. evalAddOp sample_lib (const_env sample_lib (\<lambda>i. byte_attr [2] (if i = 0 then [250, 2] else [7, 9])) 0)
       (const_env sample_lib (\<lambda>i. byte_attr [2] (if i = 0 then [250, 2] else [7, 9])) 1) (byte_type [2]) = Inr t \<and>
     makeTensor sample_lib (byte_attr [2] [1, 11]) = Inr u \<and> same_tensor u t"
proof -
  let ?c = "\<lambda>i::nat. byte_attr [2] (if i = 0 then [250, 2] else [7, 9])"
  let ?l = "const_value 0 (?c 0)" and ?r = "const_value 1 (?c 1)"
  have ok: "operand_ok sample_lib (const_env sample_lib ?c) (byte_type [2]) ?l"
    "operand_ok sample_lib (const_env sample_lib ?c) (byte_type [2]) ?r"
    by (rule const_operand; simp add: byte_attr_ok i64_ok_def)+
  have s: "has_static_shape (byte_type [2])" by (simp add: byte_type_def)
  have f: "add_fold sample_lib (byte_type [2]) ?l ?r = Inr (FoldAttr (byte_attr [2] [1, 11]))"
    by (simp add: add_fold_def neutral_fold_def as_splat_def isSplat_def const_value_def byte_attr_def isSplatZero_def
        binary_folder_def fold_binary_int_def BinaryFolder_def num_values_def kFoldOpEltLimit_def dense_get_def
        fold_attr_def ap_add_def ap_elval_def mk_apint_def byte_type_def ui8_def isSupportedBooleanType_iff)
  from binary_folds_agree [OF sample_lib_ok ok s, of "add_fold sample_lib" "evalAddOp sample_lib"] f
  show ?thesis by (auto simp: agrees_def const_value_def)
qed

section \<open>Slices\<close>

text \<open>
  C7: Folding a slice of a constant, with strides well below \<open>2 ^ 31\<close>, ends and does not change what
  the program computes: for every slice the type inference accepts, \<open>slice_fold\<close> returns, with the
  fuel of one loop of \<open>kFoldOpEltLimit\<close> steps, and its result has the elements \<open>evalSliceOp\<close>
  computes.
\<close>

theorem slice_fold_agrees:
  assumes "lib_ok L" and "inferSliceOp T starts limits strides = Inr R"
    and "length (di_values limits) = length (shape_of T)" and "length (di_values strides) = length (shape_of T)"
    and "\<forall>t \<in> set (di_values strides). t + kFoldOpEltLimit \<le> 2 ^ 31"
    and "operand_ok L env T v" and "nat kFoldOpEltLimit < fuel"
  shows "\<exists>r. slice_fold fuel (di_values starts) (di_values limits) (di_values strides) R v = Inr r \<and>
    (r \<noteq> NoFold \<longrightarrow> (\<exists>t. evalSliceOp L (env (v_id v)) (di_values starts) (di_values strides) R = Inr t \<and> agrees L env r t))"
proof -
  have "storable T" using assms(6) denotes_storable by (auto simp: operand_ok_def)
  then have "has_rank T" by (cases T) auto
  from inferSliceOp_shape(5) [OF assms(2) this] assms(4,5) have "\<forall>t \<in> set (di_values strides). stride_ok t"
    by (auto simp: stride_ok_def in_set_conv_nth)
  from slice_fold_right [OF assms(1-4) this assms(6,7)] show ?thesis by (simp add: folds_right_def)
qed

theorem slice_fold_agrees_witness:
  "\<exists>R r. inferSliceOp (byte_type [4]) (i64_attr [1]) (i64_attr [4]) (i64_attr [2]) = Inr R \<and>
    slice_fold 65537 [1] [4] [2] R (const_value 0 (byte_attr [4] [10, 20, 30, 40])) = Inr r"
proof -
  have R: "inferSliceOp (byte_type [4]) (i64_attr [1]) (i64_attr [4]) (i64_attr [2]) = Inr (byte_type [2])"
    by (simp add: infer_defs) (simp add: byte_type_def)
  have ok: "operand_ok sample_lib (const_env sample_lib (\<lambda>i. byte_attr [4] [10, 20, 30, 40])) (byte_type [4])
      (const_value 0 (byte_attr [4] [10, 20, 30, 40]))"
    using const_operand [of sample_lib "\<lambda>i. byte_attr [4] [10, 20, 30, 40]" 0] by (simp add: byte_attr_ok i64_ok_def)
  from slice_fold_agrees [OF sample_lib_ok R _ _ _ ok, of 65537] R
  show ?thesis by (auto simp: kFoldOpEltLimit_def i64_attr_def)
qed




section \<open>Where a folder differs from the reference\<close>

text \<open>
  \<open>AddOp::fold\<close> adds Booleans modulo two, the interpreter computes their disjunction; and
  \<open>convertElementsAttr\<close> truncates an integer to one bit, where the interpreter compares it with zero.
\<close>

lemma boolean_add_fold_differs:
  assumes "shape_of T = []" and "has_static_shape T" and "element_type T = i1"
    and "v_attr lhs = Some \<lparr>d_type = T, d_values = [BoolV True]\<rparr>" and "v_attr rhs = Some \<lparr>d_type = T, d_values = [BoolV True]\<rparr>"
  shows "add_fold L T lhs rhs = Inr (FoldAttr \<lparr>d_type = T, d_values = [BoolV False]\<rparr>)"
    and "elem_add L (bool_element True) (bool_element True) = Inr (bool_element True)"
proof -
  show "add_fold L T lhs rhs = Inr (FoldAttr \<lparr>d_type = T, d_values = [BoolV False]\<rparr>)"
    using assms by (simp add: add_fold_def neutral_fold_def as_splat_def isSplat_def isSplatZero_def binary_folder_def
        fold_binary_int_def BinaryFolder_def splat_value_def splat_attr_def fold_attr_def ap_add_def ap_elval_def
        mk_apint_def i1_def isSupportedBooleanType_iff)
  show "elem_add L (bool_element True) (bool_element True) = Inr (bool_element True)"
    by (simp add: elem_add_def elem_map2_def bool_element_def getBooleanValue_def mk_bool_def)
qed

lemma convert_fold_truncates_to_bool:
  shows "convertElementsAttr L \<lparr>d_type = byte_type [], d_values = [IntV (APInt 8 2)]\<rparr> i1 =
      Inr (Some \<lparr>d_type = with_element_type (byte_type []) i1, d_values = [BoolV False]\<rparr>)"
    and "convert_u64 L i1 2 = Inr (bool_element True)"
proof -
  show "convertElementsAttr L \<lparr>d_type = byte_type [], d_values = [IntV (APInt 8 2)]\<rparr> i1 =
      Inr (Some \<lparr>d_type = with_element_type (byte_type []) i1, d_values = [BoolV False]\<rparr>)"
    by (simp add: convertElementsAttr_def i1_def ui8_def ap_elval_def ap_ext_or_trunc_def mk_apint_def isSupportedBooleanType_iff)
  show "convert_u64 L i1 2 = Inr (bool_element True)"
    by (simp add: convert_u64_def convert_apsint.simps bool_element_def mk_bool_def)
qed

end
