(* ===== verification/Intervals.thy ===== *)
theory Intervals
  imports MlirTypes
begin

text \<open>
  \<open>analysis/userange_analysis.h\<close> and \<open>.cc\<close>: the ranges of program positions in which a buffer is used.
  A range is a vector of inclusive intervals of positions; operation number \<open>k\<close> of the program has
  the two positions \<open>2 * k\<close> (it only reads the value) and \<open>2 * k + 1\<close>. Positions are of type
  \<open>size_t\<close>; sums and differences that no guard bounds wrap (\<open>size_t\<close> below). The operations on vectors walk
  two iterators: what iterator \<open>A\<close> has passed is not visited again, so it is the part of the result
  that is already built, and an insertion before \<open>A\<close> becomes the element \<open>A\<close> points to.

  The liveness of values and the aliases come from MLIR: they are arguments here.
\<close>

definition size_t :: "int \<Rightarrow> int" where
  "size_t v = v mod 2 ^ 64"

section \<open>\<open>UseInterval\<close>\<close>

record use_interval =
  iv_start :: int
  iv_end :: int

abbreviation UseInterval :: "int \<Rightarrow> int \<Rightarrow> use_interval" where
  "UseInterval s e \<equiv> \<lparr>iv_start = s, iv_end = e\<rparr>"

definition emptyInterval :: use_interval where
  "emptyInterval = UseInterval (2 ^ 64 - 1) 0"

definition isOverlapping :: "use_interval \<Rightarrow> use_interval \<Rightarrow> bool" where
  "isOverlapping a other \<longleftrightarrow> iv_start a \<le> iv_end other \<and> iv_end a \<ge> iv_start other"

definition isContiguous :: "use_interval \<Rightarrow> use_interval \<Rightarrow> bool" where
  "isContiguous a other \<longleftrightarrow> iv_start a \<le> size_t (iv_end other + 2) \<and> size_t (iv_end a + 2) \<ge> iv_start other"

definition iv_contains :: "use_interval \<Rightarrow> int \<Rightarrow> bool" where
  "iv_contains a position \<longleftrightarrow> iv_start a \<le> position \<and> iv_end a \<ge> position"

text \<open>The merged interval, and whether there was a merge.\<close>

definition mergeWith :: "use_interval \<Rightarrow> use_interval \<Rightarrow> use_interval \<times> bool" where
  "mergeWith a other =
     (if \<not> isContiguous a other then (a, False)
      else (UseInterval (min (iv_start a) (iv_start other)) (max (iv_end a) (iv_end other)), True))"

definition iv_less :: "use_interval \<Rightarrow> use_interval \<Rightarrow> bool" where
  "iv_less a other \<longleftrightarrow> iv_end a < iv_start other"

definition iv_greater :: "use_interval \<Rightarrow> use_interval \<Rightarrow> bool" where
  "iv_greater a other \<longleftrightarrow> iv_start a > iv_end other"

section \<open>Operations on vectors of intervals\<close>

text \<open>
  When an interval of \<open>b\<close> lies inside one of \<open>a\<close>, the part after it is inserted before the part in front
  of it (\<open>a.insert (iterA, ...)\<close>), and the iterator then points to the inserted part.
\<close>

function intervalSubtract :: "use_interval list \<Rightarrow> use_interval list \<Rightarrow> use_interval list" where
  "intervalSubtract [] bs = []"
| "intervalSubtract (a # as) [] = a # as"
| "intervalSubtract (a # as) (b # bs) =
     (if iv_less a b then a # intervalSubtract as (b # bs)
      else if iv_greater a b then intervalSubtract (a # as) bs
      else if iv_start a \<ge> iv_start b \<and> iv_end a > iv_end b
      then intervalSubtract (a\<lparr>iv_start := iv_end b + 1\<rparr> # as) bs
      else if iv_end a \<le> iv_end b \<and> iv_start a < iv_start b
      then a\<lparr>iv_end := iv_start b - 1\<rparr> # intervalSubtract as (b # bs)
      else if iv_start a < iv_start b \<and> iv_end a > iv_end b
      then intervalSubtract (UseInterval (iv_end b + 1) (iv_end a) # a\<lparr>iv_end := iv_start b - 1\<rparr> # as) bs
      else intervalSubtract as bs)"
  by pat_completeness auto
termination
  by (relation "measure (\<lambda>(as, bs). length as + 2 * length bs)") auto

function intervalIntersect :: "use_interval list \<Rightarrow> use_interval list \<Rightarrow> use_interval list" where
  "intervalIntersect [] bs = []"
| "intervalIntersect (a # as) [] = intervalIntersect as []"
| "intervalIntersect (a # as) (b # bs) =
     (if iv_less a b then intervalIntersect as (b # bs)
      else if iv_greater a b then intervalIntersect (a # as) bs
      else
        let currentEndA = iv_end a;
            a' = UseInterval (max (iv_start a) (iv_start b)) (min currentEndA (iv_end b)) in
        if currentEndA > iv_end b
        then a' # intervalIntersect (UseInterval (iv_end b + 1) currentEndA # as) bs
        else a' # intervalIntersect as (b # bs))"
  by pat_completeness auto
termination
  by (relation "measure (\<lambda>(as, bs). length as + length bs)") auto

text \<open>The intervals after \<open>iter\<close> that are contiguous with it are swallowed, one after the other.\<close>

fun eraseContiguous :: "use_interval \<Rightarrow> use_interval list \<Rightarrow> use_interval \<times> use_interval list" where
  "eraseContiguous a [] = (a, [])"
| "eraseContiguous a (n # as) =
     (if isContiguous a n
      then eraseContiguous (if iv_end a < iv_end n then a\<lparr>iv_end := iv_end n\<rparr> else a) as
      else (a, n # as))"

definition mergeAndEraseContiguousIntervals ::
  "use_interval \<Rightarrow> use_interval list \<Rightarrow> use_interval \<Rightarrow> use_interval \<times> use_interval list" where
  "mergeAndEraseContiguousIntervals iter after toMerge = eraseContiguous (fst (mergeWith iter toMerge)) after"

lemma eraseContiguous_length: "length (snd (eraseContiguous a as)) \<le> length as"
  by (induction a as rule: eraseContiguous.induct) auto

lemma mergeAndErase_length: "mergeAndEraseContiguousIntervals a as b = (a', as') \<Longrightarrow> length as' \<le> length as"
  using eraseContiguous_length [of "fst (mergeWith a b)" as] by (simp add: mergeAndEraseContiguousIntervals_def)

function intervalMerge :: "use_interval list \<Rightarrow> use_interval list \<Rightarrow> use_interval list" where
  "intervalMerge [] bs = bs"
| "intervalMerge (a # as) [] = a # as"
| "intervalMerge (a # as) (b # bs) =
     (if iv_less a b then
        if isContiguous a b
        then (case mergeAndEraseContiguousIntervals a as b of (a', as') \<Rightarrow> a' # intervalMerge as' bs)
        else a # intervalMerge as (b # bs)
      else if iv_greater a b then
        if isContiguous b a then intervalMerge (fst (mergeWith a b) # as) bs
        else intervalMerge (b # a # as) bs
      else (case mergeAndEraseContiguousIntervals a as b of (a', as') \<Rightarrow> intervalMerge (a' # as') bs))"
  by pat_completeness auto
termination
  by (relation "measure (\<lambda>(as, bs). length as + 2 * length bs)")
    (auto dest: mergeAndErase_length [OF sym])

section \<open>The analysis\<close>

text \<open>Operation ids and the values an operation reads and writes (when it has memory effects).\<close>

record userange_info =
  operationIds :: "nat \<Rightarrow> int"
  opReadWriteMap :: "nat \<rightharpoonup> nat set \<times> nat set"

definition computeId :: "userange_info \<Rightarrow> nat \<Rightarrow> nat \<Rightarrow> int" where
  "computeId u v oper =
     (let doubledID = (operationIds u oper + 1) * 2 - 1 in
      case opReadWriteMap u oper of
        None \<Rightarrow> doubledID
      | Some (reads, writes) \<Rightarrow> if v \<in> reads \<and> v \<notin> writes then doubledID - 1 else doubledID)"

definition unwrapId :: "int \<Rightarrow> int" where
  "unwrapId i = i div 2"

fun interval_loop :: "int \<Rightarrow> int \<Rightarrow> int list \<Rightarrow> use_interval list" where
  "interval_loop start lastId [] = [UseInterval start lastId]"
| "interval_loop start lastId (current # ids) =
     (if size_t (current - lastId) > 2 then UseInterval start lastId # interval_loop current current ids
      else interval_loop start current ids)"

definition computeInterval :: "userange_info \<Rightarrow> nat \<Rightarrow> nat list \<Rightarrow> use_interval list res" where
  "computeInterval u value operationList =
     (case operationList of
        [] \<Rightarrow> Inl Undefined
      | oper # opers \<Rightarrow>
          let start = computeId u value oper in
          Inr (interval_loop start start (map (computeId u value) opers)))"

text \<open>The scan of two vectors for a common position.\<close>

fun interfere_loop :: "use_interval list \<Rightarrow> use_interval list \<Rightarrow> bool" where
  "interfere_loop (a # as) (b # bs) =
     (if iv_less a b then interfere_loop as (b # bs)
      else if iv_greater a b then interfere_loop (a # as) bs
      else True)"
| "interfere_loop _ _ = False"

text \<open>\<open>commonAliases\<close>: the intervals of the values that alias both items, in the order of the set.\<close>

definition rangesInterfere :: "use_interval list list \<Rightarrow> use_interval list \<Rightarrow> use_interval list \<Rightarrow> bool" where
  "rangesInterfere commonAliases intervalsA intervalsB =
     interfere_loop (foldl intervalSubtract intervalsA commonAliases) intervalsB"

definition unionRanges :: "(nat \<Rightarrow> use_interval list) \<Rightarrow> nat \<Rightarrow> nat \<Rightarrow> nat \<Rightarrow> use_interval list" where
  "unionRanges useIntervalMap itemA itemB =
     useIntervalMap(itemA := intervalMerge (useIntervalMap itemA) (useIntervalMap itemB))"

text \<open>
  Positions of uses. Two uses with the same position are of the same operation, so the pairs are equal
  and the order a sort gives them does not matter.
\<close>

definition computeUsePositions :: "userange_info \<Rightarrow> nat \<Rightarrow> nat list \<Rightarrow> (int \<times> nat) list" where
  "computeUsePositions u v users = sort_key fst (map (\<lambda>oper. (computeId u v oper, oper)) users)"

fun std_unique :: "'a list \<Rightarrow> 'a list" where
  "std_unique (x # y # zs) = (if x = y then std_unique (x # zs) else x # std_unique (y # zs))"
| "std_unique xs = xs"

definition mergeUsePositions :: "(int \<times> nat) list \<Rightarrow> (int \<times> nat) list \<Rightarrow> (int \<times> nat) list" where
  "mergeUsePositions listA listB = std_unique (sort_key fst (listA @ listB))"

text \<open>The range of an allocation: its own interval, then those of its aliases merged in, one by one.\<close>

definition allocInterval :: "use_interval list \<Rightarrow> use_interval list list \<Rightarrow> use_interval list" where
  "allocInterval own aliases = foldl intervalMerge own aliases"

end
