(* ===== verification/BufferPacking.thy ===== *)
theory BufferPacking
  imports Intervals Element
begin

text \<open>
  \<open>transforms/buffer_packing.cc\<close>: allocations whose ranges of use leave gaps are used for other
  allocations that live within a gap. The list of gaps holds, for an interval of positions, the number of free
  segments (of 64 bytes) at the end of the buffer. Also the helpers of \<open>utils/hlo_utils.cc\<close> on types
  and constants, with the size of the memory that is allocated.

  A value is a number; what the user range analysis says of it is an argument. \<open>std::sort\<close> is a parameter,
  since the order it gives to equivalent elements is not specified. The creation of the packed
  allocation and of the views into it is the last step of the pass and is not modelled.
\<close>

section \<open>Sizes\<close>

definition computeUserangeSize :: "use_interval \<Rightarrow> int" where
  "computeUserangeSize interval = size_t (iv_end interval - iv_start interval + 1)"

definition computeByteSize :: "ty \<Rightarrow> int" where
  "computeByteSize type = num_elements (shape_of type) * int (int_or_float_width (element_type type)) div 8"

text \<open>The division is of \<open>double\<close>s, exact for fewer than \<open>2 ^ 53\<close> bytes.\<close>

definition computeAlignedSegments :: "ty \<Rightarrow> int" where
  "computeAlignedSegments type = (computeByteSize type + 63) div 64"

section \<open>Allocations\<close>

record alloc_buffer_offset =
  abo_source :: nat
  abo_offset :: int

record packed_buffer =
  pb_numSegments :: int
  pb_offsets :: "alloc_buffer_offset list"

record allocation_info =
  ai_alloc :: nat
  ai_allocUserangeId :: int
  ai_firstUse :: int
  ai_lastUse :: int
  ai_numSegments :: int
  ai_windowId :: int
  ai_intervals :: "use_interval list"

type_synonym gap = "use_interval \<times> int"

fun gap_loop :: "int \<Rightarrow> int \<Rightarrow> int \<Rightarrow> use_interval list \<Rightarrow> gap list" where
  "gap_loop numSegments maxUserangeId gapEnd [] =
     (if gapEnd < maxUserangeId then [(UseInterval gapEnd maxUserangeId, numSegments)] else [])"
| "gap_loop numSegments maxUserangeId gapEnd (use # uses) =
     (if gapEnd < iv_start use then [(UseInterval gapEnd (iv_start use - 1), numSegments)] else []) @
     gap_loop numSegments maxUserangeId (size_t (iv_end use + 1)) uses"

definition computeGaps :: "int \<Rightarrow> allocation_info \<Rightarrow> gap list" where
  "computeGaps maxUserangeId info = gap_loop (ai_numSegments info) maxUserangeId 0 (ai_intervals info)"

definition getUserangeSize :: "allocation_info \<Rightarrow> int" where
  "getUserangeSize info = size_t (ai_lastUse info - ai_firstUse info + 1)"

definition allocInfoWinIdLess :: "allocation_info \<Rightarrow> allocation_info \<Rightarrow> bool" where
  "allocInfoWinIdLess a b =
     (if ai_windowId a = ai_windowId b then
        if ai_allocUserangeId a = ai_allocUserangeId b then ai_numSegments a > ai_numSegments b
        else ai_allocUserangeId a > ai_allocUserangeId b
      else ai_windowId a < ai_windowId b)"

definition allocInfoMemSizeLess :: "allocation_info \<Rightarrow> allocation_info \<Rightarrow> bool" where
  "allocInfoMemSizeLess a b \<longleftrightarrow> ai_numSegments a > ai_numSegments b"

section \<open>Finding a gap\<close>

text \<open>The gap in which the buffer is packed: what remains of it, and of its memory, for others.\<close>

definition split_gap :: "gap \<Rightarrow> allocation_info \<Rightarrow> gap list" where
  "split_gap g info =
     (let freeContiguousMemory = snd g;
          free = freeContiguousMemory - ai_numSegments info;
          split = computeUserangeSize (fst g) > getUserangeSize info;
          cur = (if split then UseInterval (ai_firstUse info) (ai_lastUse info) else fst g) in
      (if split \<and> ai_firstUse info > iv_start (fst g)
       then [(UseInterval (iv_start (fst g)) (ai_firstUse info - 1), freeContiguousMemory)] else []) @
      (if free \<le> 0 then [] else [(cur, free)]) @
      (if split \<and> ai_lastUse info < iv_end (fst g)
       then [(UseInterval (ai_lastUse info + 1) (iv_end (fst g)), freeContiguousMemory)] else []))"

text \<open>The new list of gaps and the number of free segments of the gap that was found.\<close>

fun find_gap :: "allocation_info \<Rightarrow> gap list \<Rightarrow> (gap list \<times> int) option" where
  "find_gap info [] = None"
| "find_gap info (g # gaps) =
     (if iv_start (fst g) > ai_firstUse info then None
      else if snd g < ai_numSegments info \<or> ai_firstUse info < iv_start (fst g) \<or> ai_lastUse info > iv_end (fst g)
      then map_option (\<lambda>(gaps', free). (g # gaps', free)) (find_gap info gaps)
      else Some (split_gap g info @ gaps, snd g))"

definition findGapAndUpdate ::
  "gap list \<Rightarrow> alloc_buffer_offset list \<Rightarrow> allocation_info \<Rightarrow> allocation_info \<Rightarrow>
   (gap list \<times> alloc_buffer_offset list) option" where
  "findGapAndUpdate gaps allocBufferOffsets allocToPack allocToPackInto =
     (if ai_numSegments allocToPackInto < ai_numSegments allocToPack then None
      else case find_gap allocToPack gaps of
        None \<Rightarrow> None
      | Some (gaps', free) \<Rightarrow>
          Some (gaps', allocBufferOffsets @
            [\<lparr>abo_source = ai_alloc allocToPack, abo_offset = (ai_numSegments allocToPackInto - free) * 64\<rparr>]))"

section \<open>Packing\<close>

text \<open>The allocations behind the current one: those that fit are packed into it and erased.\<close>

fun pack_behind ::
  "allocation_info \<Rightarrow> gap list \<Rightarrow> alloc_buffer_offset list \<Rightarrow> allocation_info list \<Rightarrow>
   alloc_buffer_offset list \<times> allocation_info list" where
  "pack_behind current gaps offsets [] = (offsets, [])"
| "pack_behind current gaps offsets (checked # infos) =
     (case findGapAndUpdate gaps offsets checked current of
        None \<Rightarrow> (case pack_behind current gaps offsets infos of (offsets', rest) \<Rightarrow> (offsets', checked # rest))
      | Some (gaps', offsets') \<Rightarrow> pack_behind current gaps' offsets' infos)"

lemma pack_behind_length: "length (snd (pack_behind current gaps offsets infos)) \<le> length infos"
proof (induction infos arbitrary: gaps offsets)
  case (Cons checked infos)
  then show ?case by (auto split: option.splits prod.splits intro: le_SucI) (metis snd_conv)
qed simp

function pack_all :: "int \<Rightarrow> allocation_info list \<Rightarrow> packed_buffer list" where
  "pack_all maxUserangeId [] = []"
| "pack_all maxUserangeId (current # infos) =
     (let gaps = computeGaps maxUserangeId current in
      if gaps = [] then pack_all maxUserangeId infos
      else
        let (offsets, rest) = pack_behind current gaps [\<lparr>abo_source = ai_alloc current, abo_offset = 0\<rparr>] infos in
        \<lparr>pb_numSegments = ai_numSegments current * 64, pb_offsets = offsets\<rparr> # pack_all maxUserangeId rest)"
  by pat_completeness auto
termination
  by (relation "measure (\<lambda>(_, infos). length infos)") (auto simp: less_Suc_eq_le, metis pack_behind_length snd_conv)

text \<open>The window ids, given to allocations sorted by their position.\<close>

fun window_ids :: "int \<Rightarrow> int \<Rightarrow> int \<Rightarrow> allocation_info list \<Rightarrow> allocation_info list" where
  "window_ids windowSize windowId lastAllocUserangeId [] = []"
| "window_ids windowSize windowId lastAllocUserangeId (info # infos) =
     (let windowId = (if ai_allocUserangeId info > size_t (lastAllocUserangeId + windowSize)
                      then windowId + 1 else windowId) in
      info\<lparr>ai_windowId := windowId\<rparr> # window_ids windowSize windowId (ai_allocUserangeId info) infos)"

text \<open>
  An allocation: its value, its type, the position of its definition and, if known, its range, which
  the analysis never leaves empty.
\<close>

type_synonym alloc_entry = "nat \<times> ty \<times> int \<times> use_interval list option"

definition mk_info :: "alloc_entry \<Rightarrow> allocation_info option" where
  "mk_info e =
     (case e of (v, type, allocUserangeId, userange) \<Rightarrow>
        map_option (\<lambda>intervals.
          \<lparr>ai_alloc = v, ai_allocUserangeId = allocUserangeId, ai_firstUse = iv_start (hd intervals),
           ai_lastUse = iv_end (last intervals), ai_numSegments = computeAlignedSegments type, ai_windowId = 0,
           ai_intervals = intervals\<rparr>) userange)"

definition computeAllocationInfos ::
  "((allocation_info \<Rightarrow> allocation_info \<Rightarrow> bool) \<Rightarrow> allocation_info list \<Rightarrow> allocation_info list) \<Rightarrow>
   int \<Rightarrow> alloc_entry list \<Rightarrow> allocation_info list \<times> int" where
  "computeAllocationInfos srt windowSize allocs =
     (let infos = List.map_filter mk_info allocs;
          maxUserangeId = foldl max 0 (map ai_lastUse infos) in
      if windowSize = 0 then (infos, maxUserangeId)
      else (window_ids windowSize 0 0 (srt (\<lambda>a b. ai_allocUserangeId a < ai_allocUserangeId b) infos), maxUserangeId))"

text \<open>\<open>SortedPackingStrategy::optimze\<close>, with the comparator the pass chooses by the window size.\<close>

definition optimze ::
  "((allocation_info \<Rightarrow> allocation_info \<Rightarrow> bool) \<Rightarrow> allocation_info list \<Rightarrow> allocation_info list) \<Rightarrow>
   int \<Rightarrow> alloc_entry list \<Rightarrow> packed_buffer list" where
  "optimze srt windowSize allocs =
     (case computeAllocationInfos srt windowSize allocs of
        (infos, maxUserangeId) \<Rightarrow>
          pack_all maxUserangeId
            (srt (if windowSize = 0 then allocInfoMemSizeLess else allocInfoWinIdLess) infos))"

section \<open>Helpers on types and constants\<close>

definition kPaddingSize :: int where "kPaddingSize = 64"

text \<open>\<open>computeMemory\<close>: the bytes of all allocations and their number.\<close>

definition computeMemory :: "ty list \<Rightarrow> int \<times> int" where
  "computeMemory allocs =
     (let bytes = (\<lambda>type. (num_elements (shape_of type) * int (int_or_float_width (element_type type)) + 7) div 8);
          size = (\<lambda>type. (bytes type + (kPaddingSize - 1)) div kPaddingSize * kPaddingSize) in
      foldl (\<lambda>(totalSize, allocCounter) type. (size_t (totalSize + size type), allocCounter + 1)) (0, 0) allocs)"

definition getBroadcastDimensionsAttr :: "ty \<Rightarrow> ty \<Rightarrow> bool \<Rightarrow> int list option" where
  "getBroadcastDimensionsAttr xType yType allowEmpty =
     (if \<not> has_rank xType \<or> \<not> has_rank yType then None
      else if allowEmpty \<and> xType = yType then None
      else
        let xRank = rank xType; yRank = rank yType in
        if allowEmpty \<and> xRank = yRank then None
        else
          let maxRank = max xRank yRank; minRank = min xRank yRank in
          Some [maxRank - minRank..maxRank - 1])"

datatype scalar_limit = kLowest | kInfinityLowest | kMax | kInfinityMax

definition getScalarLimitOfIntegerType :: "ty \<Rightarrow> scalar_limit \<Rightarrow> apint" where
  "getScalarLimitOfIntegerType integerTy limit =
     (let width = int_or_float_width integerTy; isBool = (width = 1);
          unsigned = (case integerTy of IntegerType Unsigned _ \<Rightarrow> True | _ \<Rightarrow> False) in
      if limit \<in> {kLowest, kInfinityLowest} then
        if unsigned \<or> isBool then mk_apint width 0 else mk_apint width (- (2 ^ (width - 1)))
      else
        if unsigned \<or> isBool then mk_apint width (2 ^ width - 1) else mk_apint width (2 ^ (width - 1) - 1))"

definition isSequenceStartingWith0 :: "apint list \<Rightarrow> bool" where
  "isSequenceStartingWith0 values' = list_all (\<lambda>(i, v). sval v = int i) (enumerate 0 values')"

end
