(* ===== verification/IntervalLaws.thy ===== *)
theory IntervalLaws
  imports Intervals
begin

text \<open>
  What the operations on vectors of intervals compute, as sets of positions (\<open>covers\<close>). A vector the
  analysis builds is sorted and its intervals are disjoint (\<open>ivs_ok\<close>); positions are small enough that
  two more do not wrap.
\<close>

section \<open>Positions\<close>

definition positions :: "use_interval \<Rightarrow> int set" where
  "positions a = {iv_start a..iv_end a}"

definition covers :: "use_interval list \<Rightarrow> int set" where
  "covers as = (\<Union>a \<in> set as. positions a)"

definition iv_ok :: "use_interval \<Rightarrow> bool" where
  "iv_ok a \<longleftrightarrow> 0 \<le> iv_start a \<and> iv_start a \<le> iv_end a \<and> iv_end a + 2 < 2 ^ 64"

fun ivs_ok :: "use_interval list \<Rightarrow> bool" where
  "ivs_ok [] = True"
| "ivs_ok (a # as) \<longleftrightarrow> iv_ok a \<and> (\<forall>b \<in> set as. iv_less a b) \<and> ivs_ok as"

lemma covers_simps [simp]: "covers [] = {}" "covers (a # as) = positions a \<union> covers as"
  by (auto simp: covers_def)

lemma covers_append [simp]: "covers (as @ bs) = covers as \<union> covers bs"
  by (simp add: covers_def)

lemma in_positions [simp]: "x \<in> positions a \<longleftrightarrow> iv_start a \<le> x \<and> x \<le> iv_end a"
  by (simp add: positions_def)

lemma in_covers: "x \<in> covers as \<longleftrightarrow> (\<exists>a \<in> set as. iv_start a \<le> x \<and> x \<le> iv_end a)"
  by (auto simp: covers_def)

lemma covers_cong: "covers as = A \<longleftrightarrow> (\<forall>x. x \<in> covers as \<longleftrightarrow> x \<in> A)"
  by blast

lemma iv_less_covers: "\<forall>b \<in> set bs. iv_less a b \<Longrightarrow> x \<le> iv_end a \<Longrightarrow> x \<notin> covers bs"
  by (fastforce simp: in_covers iv_less_def)

lemma iv_okD: "iv_ok a \<Longrightarrow> iv_start a \<le> iv_end a"
  by (simp add: iv_ok_def)

lemma iv_less_trans: "iv_less a b \<Longrightarrow> iv_less b c \<Longrightarrow> iv_ok b \<Longrightarrow> iv_less a c"
  by (simp add: iv_less_def iv_ok_def)

lemmas iv_simps = iv_less_def iv_greater_def iv_ok_def

section \<open>Intersection and interference\<close>

lemma intersect_Nil [simp]: "intervalIntersect as [] = []"
  by (induction as) auto

lemma intersect_covers:
  assumes "ivs_ok as" and "ivs_ok bs"
  shows "covers (intervalIntersect as bs) = covers as \<inter> covers bs"
  using assms
proof (induction as bs rule: intervalIntersect.induct)
  case (3 a as b bs)
  consider (less) "iv_less a b" | (greater) "\<not> iv_less a b" "iv_greater a b"
    | (long) "\<not> iv_less a b" "\<not> iv_greater a b" "iv_end a > iv_end b"
    | (short) "\<not> iv_less a b" "\<not> iv_greater a b" "\<not> iv_end a > iv_end b" by blast
  then show ?case
  proof cases
    case less
    then have "positions a \<inter> covers (b # bs) = {}"
      using 3(6) by (auto simp: in_covers iv_simps) fastforce+
    then show ?thesis using less 3(1,5,6) by auto
  next
    case greater
    then have "positions b \<inter> covers (a # as) = {}"
      using 3(5) by (auto simp: in_covers iv_simps) fastforce+
    then show ?thesis using greater 3(2,5,6) by auto
  next
    case long
    let ?rest = "UseInterval (iv_end b + 1) (iv_end a)"
    have ok: "ivs_ok (?rest # as)" using 3(5,6) long by (auto simp: iv_simps)
    have out: "x \<notin> covers bs" if "x \<le> iv_end b" for x using iv_less_covers [of bs b x] 3(6) that by simp
    have out': "x \<notin> covers as" if "x \<le> iv_end a" for x using iv_less_covers [of as a x] 3(5) that by simp
    show ?thesis
      using long 3(3) [OF long(1,2) refl refl long(3) ok] 3(6) out out'
      by (fastforce simp: iv_simps Let_def)
  next
    case short
    have out: "x \<notin> covers bs" if "x \<le> iv_end b" for x using iv_less_covers [of bs b x] 3(6) that by simp
    have out': "x \<notin> covers as" if "x \<le> iv_end a" for x using iv_less_covers [of as a x] 3(5) that by simp
    show ?thesis
      using short 3(4) [OF short(1,2) refl refl short(3)] 3(5,6) out out'
      by (fastforce simp: iv_simps Let_def)
  qed
qed auto

lemma intersect_bounds: "c \<in> set (intervalIntersect as bs) \<Longrightarrow> \<exists>a \<in> set as. iv_start a \<le> iv_start c \<and> iv_end c \<le> iv_end a"
proof (induction as bs rule: intervalIntersect.induct)
  case (3 a as b bs)
  then show ?case by (fastforce simp: Let_def iv_simps split: if_splits)
qed auto

lemma intersect_ok:
  assumes "ivs_ok as" and "ivs_ok bs"
  shows "ivs_ok (intervalIntersect as bs)"
  using assms
proof (induction as bs rule: intervalIntersect.induct)
  case (3 a as b bs)
  have a: "\<forall>c \<in> set as. iv_end a < iv_start c" "iv_ok a" "ivs_ok as" and b: "iv_ok b" "ivs_ok bs" using 3(5,6) by (auto simp: iv_less_def)
  have lt: "iv_end a < iv_start c" if "c \<in> set (intervalIntersect as bs')" for c bs'
    using intersect_bounds [OF that] a(1) by fastforce
  show ?case
  proof (cases "\<not> iv_less a b \<and> \<not> iv_greater a b \<and> iv_end a > iv_end b")
    case True
    let ?rest = "UseInterval (iv_end b + 1) (iv_end a)"
    have "ivs_ok (?rest # as)" using a b True by (auto simp: iv_simps)
    moreover have "iv_end b < iv_start c" if "c \<in> set (intervalIntersect (?rest # as) bs)" for c
      using intersect_bounds [OF that] a(1) True by fastforce
    ultimately show ?thesis using True 3(3) b a by (auto simp: Let_def iv_simps)
  next
    case False
    then show ?thesis using 3(1,2,4) 3(5,6) lt a b by (auto simp: Let_def iv_simps)
  qed
qed auto

lemma interfere_covers:
  assumes "ivs_ok as" and "ivs_ok bs"
  shows "interfere_loop as bs \<longleftrightarrow> covers as \<inter> covers bs \<noteq> {}"
  using assms
proof (induction as bs rule: interfere_loop.induct)
  case (1 a as b bs)
  consider (less) "iv_less a b" | (greater) "\<not> iv_less a b" "iv_greater a b" | (overlap) "\<not> iv_less a b" "\<not> iv_greater a b" by blast
  then show ?case
  proof cases
    case less
    then have "positions a \<inter> covers (b # bs) = {}"
      using 1(4) by (auto simp: in_covers iv_simps) fastforce+
    then show ?thesis using less 1(1,3,4) by auto
  next
    case greater
    then have "positions b \<inter> covers (a # as) = {}"
      using 1(3) by (auto simp: in_covers iv_simps) fastforce+
    then show ?thesis using greater 1(2,3,4) by auto
  next
    case overlap
    then have "max (iv_start a) (iv_start b) \<in> positions a" "max (iv_start a) (iv_start b) \<in> positions b"
      using 1(3,4) by (auto simp: iv_simps)
    then have "covers (a # as) \<inter> covers (b # bs) \<noteq> {}" unfolding covers_simps by blast
    then show ?thesis using overlap by (simp del: covers_simps)
  qed
qed auto

section \<open>Union\<close>

text \<open>
  Contiguous intervals may leave one position free between them, which the union then covers: the
  merged ranges cover the union and at most positions between two of its positions.
\<close>

definition bridged :: "int set \<Rightarrow> int set" where
  "bridged U = U \<union> {x. x - 1 \<in> U \<and> x + 1 \<in> U}"

definition within_union :: "int set \<Rightarrow> use_interval \<Rightarrow> bool" where
  "within_union U a \<longleftrightarrow> iv_ok a \<and> iv_start a \<in> U \<and> iv_end a \<in> U \<and> positions a \<subseteq> bridged U"

lemma size_t_id: "0 \<le> v \<Longrightarrow> v < 2 ^ 64 \<Longrightarrow> size_t v = v"
  by (simp add: size_t_def)

lemma contiguous_iff:
  "iv_ok a \<Longrightarrow> iv_ok b \<Longrightarrow> isContiguous a b \<longleftrightarrow> iv_start a \<le> iv_end b + 2 \<and> iv_start b \<le> iv_end a + 2"
  by (simp add: isContiguous_def iv_ok_def size_t_id)

lemma within_join:
  assumes "within_union U a" and "within_union U b" and "isContiguous a b"
  shows "within_union U (UseInterval (min (iv_start a) (iv_start b)) (max (iv_end a) (iv_end b)))"
proof -
  have ok: "iv_ok a" "iv_ok b" using assms(1,2) by (auto simp: within_union_def)
  have c: "iv_start a \<le> iv_end b + 2" "iv_start b \<le> iv_end a + 2" using assms(3) contiguous_iff [OF ok] by auto
  have "x \<in> bridged U" if x: "min (iv_start a) (iv_start b) \<le> x" "x \<le> max (iv_end a) (iv_end b)" for x
  proof -
    consider "x \<in> positions a" | "x \<in> positions b" | "x = iv_end a + 1" "iv_start b = x + 1" | "x = iv_end b + 1" "iv_start a = x + 1"
      using x c ok unfolding in_positions iv_ok_def by linarith
    then show ?thesis using assms(1,2) by cases (auto simp: within_union_def bridged_def)
  qed
  then show ?thesis using assms(1,2) ok by (auto simp: within_union_def iv_ok_def min_def max_def)
qed

lemma merge_with:
  assumes "within_union U a" and "within_union U b" and "isContiguous a b"
  shows "within_union U (fst (mergeWith a b))" and "positions a \<union> positions b \<subseteq> positions (fst (mergeWith a b))"
  using within_join [OF assms] assms(3) by (auto simp: mergeWith_def)

lemma erase_contiguous:
  assumes "within_union U a" and "\<forall>n \<in> set as. within_union U n" and "\<forall>n \<in> set as. iv_start a \<le> iv_start n"
    and "eraseContiguous a as = (a', as')"
  shows "within_union U a' \<and> iv_start a' = iv_start a \<and> (\<exists>ns. as = ns @ as') \<and>
    positions a \<union> covers as \<subseteq> positions a' \<union> covers as'"
  using assms
proof (induction a as rule: eraseContiguous.induct)
  case (2 a n as)
  show ?case
  proof (cases "isContiguous a n")
    case True
    let ?m = "if iv_end a < iv_end n then a\<lparr>iv_end := iv_end n\<rparr> else a"
    have m: "?m = UseInterval (min (iv_start a) (iv_start n)) (max (iv_end a) (iv_end n))"
      using 2(4) by (auto simp: min_def max_def)
    have "within_union U ?m" using within_join [of U a n] 2(2,3) True m by simp
    moreover have "iv_start ?m = iv_start a" by simp
    ultimately have "within_union U a' \<and> iv_start a' = iv_start a \<and> (\<exists>ns. as = ns @ as') \<and> positions ?m \<union> covers as \<subseteq> positions a' \<union> covers as'"
      using 2(1) [OF True] 2(3-5) True by (simp split: if_splits)
    moreover have "positions a \<union> positions n \<subseteq> positions ?m" using m by auto
    ultimately show ?thesis by (auto simp del: in_positions)
  qed (use 2 in auto)
qed auto

lemma intervalMerge_within:
  assumes "\<forall>a \<in> set as. within_union U a" and "\<forall>b \<in> set bs. within_union U b"
    and "sorted (map iv_start as)" and "sorted (map iv_start bs)"
  shows "(\<forall>c \<in> set (intervalMerge as bs). within_union U c) \<and> covers as \<union> covers bs \<subseteq> covers (intervalMerge as bs)"
  using assms
proof (induction as bs rule: intervalMerge.induct)
  case (3 a as b bs)
  have wa: "within_union U a" "within_union U b" and was: "\<forall>n \<in> set as. within_union U n" using 3(6,7) by auto
  have ok: "iv_ok a" "iv_ok b" using wa by (auto simp: within_union_def)
  have starts: "\<forall>n \<in> set as. iv_start a \<le> iv_start n" "sorted (map iv_start as)" "sorted (map iv_start bs)"
    and bs: "\<forall>b \<in> set bs. within_union U b" using 3(7-9) by auto
  have suffix: "sorted (map iv_start as')" "\<forall>n \<in> set as'. within_union U n" if "as = ns @ as'" for ns as'
    using that starts was by (auto simp: sorted_append)
  note erase = erase_contiguous [OF _ was]
  have merged: "within_union U a' \<and> (\<exists>ns. as = ns @ as') \<and> (\<forall>n \<in> set as'. iv_start a' \<le> iv_start n) \<and>
      positions a \<union> positions b \<union> covers as \<subseteq> positions a' \<union> covers as'"
    if c: "isContiguous a b" and e: "mergeAndEraseContiguousIntervals a as b = (a', as')" for a' as'
  proof -
    let ?m = "fst (mergeWith a b)"
    have "iv_start ?m \<le> iv_start a" using c by (simp add: mergeWith_def)
    then have "\<forall>n \<in> set as. iv_start ?m \<le> iv_start n" using starts(1) by auto
    from erase [OF merge_with(1) [OF wa c] this] e
    have "within_union U a' \<and> iv_start a' = iv_start ?m \<and> (\<exists>ns. as = ns @ as') \<and> positions ?m \<union> covers as \<subseteq> positions a' \<union> covers as'"
      by (simp add: mergeAndEraseContiguousIntervals_def)
    moreover from this have "\<forall>n \<in> set as'. iv_start a' \<le> iv_start n"
      using \<open>\<forall>n \<in> set as. iv_start ?m \<le> iv_start n\<close> by auto
    ultimately show ?thesis using merge_with(2) [OF wa c] by blast
  qed
  consider (less) "iv_less a b" "isContiguous a b" | (less_far) "iv_less a b" "\<not> isContiguous a b"
    | (greater) "\<not> iv_less a b" "iv_greater a b" "isContiguous b a"
    | (greater_far) "\<not> iv_less a b" "iv_greater a b" "\<not> isContiguous b a"
    | (overlap) "\<not> iv_less a b" "\<not> iv_greater a b" by blast
  then show ?case
  proof cases
    case less
    obtain a' as' where e: "mergeAndEraseContiguousIntervals a as b = (a', as')" by force
    note m = merged [OF less(2) e]
    then obtain ns where "as = ns @ as'" by blast
    note s = suffix [OF this]
    have "(\<forall>c \<in> set (intervalMerge as' bs). within_union U c) \<and> covers as' \<union> covers bs \<subseteq> covers (intervalMerge as' bs)"
      using 3(1) [OF less e [symmetric] s(2) bs s(1) starts(3)] .
    then show ?thesis using m less e by (auto simp del: in_positions)
  next
    case less_far
    then show ?thesis using 3(2) [OF less_far was 3(7) starts(2) 3(9)] wa by auto
  next
    case greater
    have c: "isContiguous a b" using greater(3) contiguous_iff ok by blast
    let ?m = "fst (mergeWith a b)"
    have "iv_start ?m \<le> iv_start a" using c by (simp add: mergeWith_def)
    then have "sorted (map iv_start (?m # as))" using starts by auto
    moreover have "\<forall>n \<in> set (?m # as). within_union U n" using merge_with(1) [OF wa c] was by simp
    ultimately have "(\<forall>c \<in> set (intervalMerge (?m # as) bs). within_union U c) \<and>
        covers (?m # as) \<union> covers bs \<subseteq> covers (intervalMerge (?m # as) bs)"
      using 3(3) [OF greater] bs starts(3) by blast
    then show ?thesis using greater merge_with(2) [OF wa c] by (auto simp del: in_positions)
  next
    case greater_far
    have "iv_start b \<le> iv_start a" using greater_far(2) ok by (simp add: iv_greater_def iv_ok_def)
    then have "sorted (map iv_start (b # a # as))" using starts by auto
    moreover have "\<forall>n \<in> set (b # a # as). within_union U n" using wa was by simp
    ultimately have "(\<forall>c \<in> set (intervalMerge (b # a # as) bs). within_union U c) \<and>
        covers (b # a # as) \<union> covers bs \<subseteq> covers (intervalMerge (b # a # as) bs)"
      using 3(4) [OF greater_far] bs starts(3) by blast
    then show ?thesis using greater_far by (auto simp del: in_positions)
  next
    case overlap
    have c: "isContiguous a b" using overlap ok contiguous_iff by (auto simp: iv_less_def iv_greater_def)
    obtain a' as' where e: "mergeAndEraseContiguousIntervals a as b = (a', as')" by force
    note m = merged [OF c e]
    then obtain ns where "as = ns @ as'" by blast
    note s = suffix [OF this]
    have "sorted (map iv_start (a' # as'))" "\<forall>n \<in> set (a' # as'). within_union U n" using m s by auto
    then have "(\<forall>c \<in> set (intervalMerge (a' # as') bs). within_union U c) \<and>
        covers (a' # as') \<union> covers bs \<subseteq> covers (intervalMerge (a' # as') bs)"
      using 3(5) [OF overlap e [symmetric] _ bs _ starts(3)] by blast
    then show ?thesis using overlap m e by (auto simp del: in_positions)
  qed
qed (auto simp: covers_def)

lemma within_self: "ivs_ok as \<Longrightarrow> covers as \<subseteq> U \<Longrightarrow> a \<in> set as \<Longrightarrow> within_union U a"
  by (induction as) (fastforce simp: within_union_def bridged_def iv_ok_def)+

lemma ivs_sorted: "ivs_ok as \<Longrightarrow> sorted (map iv_start as)"
  by (induction as) (auto simp: iv_simps)

lemma intervalMerge_covers:
  assumes "ivs_ok as" and "ivs_ok bs"
  shows "covers as \<union> covers bs \<subseteq> covers (intervalMerge as bs)"
    and "covers (intervalMerge as bs) \<subseteq> bridged (covers as \<union> covers bs)"
proof -
  let ?U = "covers as \<union> covers bs"
  have "\<forall>a \<in> set as. within_union ?U a" "\<forall>b \<in> set bs. within_union ?U b"
    using within_self [OF assms(1), of ?U] within_self [OF assms(2), of ?U] by auto
  from intervalMerge_within [OF this ivs_sorted [OF assms(1)] ivs_sorted [OF assms(2)]]
  show "?U \<subseteq> covers (intervalMerge as bs)" "covers (intervalMerge as bs) \<subseteq> bridged ?U"
    by (auto simp: within_union_def covers_def)
qed

section \<open>Difference\<close>

lemma subtract_Nil [simp]: "intervalSubtract as [] = as"
  by (cases as) auto

lemma subtract_skip:
  "\<forall>l \<in> set ls. \<forall>b \<in> set bs. iv_less l b \<Longrightarrow> intervalSubtract (ls @ as) bs = ls @ intervalSubtract as bs"
proof (induction ls)
  case (Cons l ls)
  then show ?case by (cases bs) auto
qed simp

text \<open>
  An interval to subtract lies within one of the intervals, or all of them are behind it. The pieces
  \<open>ls\<close> that splits have left are before everything that is still to be subtracted.
\<close>

definition subtractable :: "use_interval list \<Rightarrow> use_interval list \<Rightarrow> bool" where
  "subtractable as bs \<longleftrightarrow> (\<forall>b \<in> set bs. (\<exists>a \<in> set as. positions b \<subseteq> positions a) \<or> (\<forall>a \<in> set as. iv_less b a))"

lemma subtractable_rest:
  assumes "subtractable (a # as) bs" and "\<forall>b \<in> set bs. iv_less a b" and "\<forall>b \<in> set bs. iv_ok b"
  shows "subtractable as bs"
  unfolding subtractable_def
proof
  fix b assume b: "b \<in> set bs"
  then have "iv_less a b" "iv_ok b" using assms(2,3) by auto
  then have "\<not> positions b \<subseteq> positions a" by (auto simp: iv_less_def iv_ok_def)
  then show "(\<exists>a \<in> set as. positions b \<subseteq> positions a) \<or> (\<forall>a \<in> set as. iv_less b a)"
    using assms(1) b by (auto simp: subtractable_def)
qed

lemma subtract_covers_gen:
  assumes "ivs_ok as" and "ivs_ok bs" and "subtractable as bs" and "\<forall>l \<in> set ls. \<forall>b \<in> set bs. iv_less l b"
  shows "(\<forall>a as'. as = a # as' \<longrightarrow> covers (intervalSubtract (a # ls @ as') bs) = covers (a # ls @ as') - covers bs) \<and>
    (as = [] \<longrightarrow> covers (intervalSubtract ls bs) = covers ls - covers bs)"
  using assms
proof (induction "length as + length bs" arbitrary: as bs ls rule: less_induct)
  case less
  have before: "covers ls \<inter> covers bs = {}" using less(5) by (fastforce simp: in_covers iv_less_def)
  show ?case
  proof (intro conjI allI impI)
    assume "as = []"
    then show "covers (intervalSubtract ls bs) = covers ls - covers bs"
      using subtract_skip [of ls bs "[]"] less(5) before by auto
  next
    fix a as' assume as: "as = a # as'"
    show "covers (intervalSubtract (a # ls @ as') bs) = covers (a # ls @ as') - covers bs"
    proof (cases bs)
      case (Cons b bs')
      have ok: "iv_ok a" "\<forall>c \<in> set as'. iv_less a c" "ivs_ok as'" "iv_ok b" "\<forall>c \<in> set bs'. iv_less b c" "ivs_ok bs'"
        using less(2,3) as Cons by auto
      have bok: "\<forall>c \<in> set bs. iv_ok c" using less(3) by (induction bs) auto
      have rest: "covers (intervalSubtract (ls @ as') cs) = covers (ls @ as') - covers cs"
        if "subtractable as' cs" "ivs_ok cs" "set cs \<subseteq> set bs" "length cs \<le> length bs" for cs
      proof -
        have "(\<forall>a as''. as' = a # as'' \<longrightarrow> covers (intervalSubtract (a # as'') cs) = covers (a # as'') - covers cs) \<and>
            (as' = [] \<longrightarrow> covers (intervalSubtract [] cs) = covers [] - covers cs)"
          using less(1) [of as' cs "[]"] as ok that by auto
        then have "covers (intervalSubtract as' cs) = covers as' - covers cs" by (cases as') auto
        moreover have "covers ls \<inter> covers cs = {}" using before that(3) by (auto simp: covers_def)
        moreover have "intervalSubtract (ls @ as') cs = ls @ intervalSubtract as' cs"
          by (rule subtract_skip) (use less(5) that(3) in blast)
        ultimately show ?thesis by auto
      qed
      have aout: "x \<notin> covers as'" if "x \<le> iv_end a" for x using iv_less_covers [OF ok(2) that] .
      have bout: "x \<notin> covers bs'" if "x \<le> iv_end b" for x using iv_less_covers [OF ok(5) that] .
      have inside: "iv_start a \<le> iv_start b \<and> iv_end b \<le> iv_end a" if "\<not> iv_less a b" "\<not> iv_greater a b"
      proof -
        have "\<not> iv_less b a" using that ok by (auto simp: iv_simps)
        moreover have "\<not> positions b \<subseteq> positions c" if "c \<in> set as'" for c
        proof -
          have "max (iv_start a) (iv_start b) \<in> positions b" "max (iv_start a) (iv_start b) \<notin> positions c"
            using ok(1,4) ok(2) that \<open>\<not> iv_less a b\<close> \<open>\<not> iv_greater a b\<close> by (auto simp: iv_simps)
          then show ?thesis by blast
        qed
        ultimately have "positions b \<subseteq> positions a" using less(4) as Cons by (auto simp: subtractable_def)
        then show ?thesis using ok(4) by (auto simp: positions_def iv_ok_def)
      qed
      have sub: "(\<exists>d \<in> set (a # as'). positions c \<subseteq> positions d) \<or> (\<forall>d \<in> set (a # as'). iv_less c d)" if "c \<in> set bs'" for c
        using less(4) as Cons that by (auto simp: subtractable_def)
      have bs'ok: "iv_ok c" "iv_end b < iv_start c" if "c \<in> set bs'" for c using bok ok(5) Cons that by (auto simp: iv_less_def)
      have as'far: "iv_end a < iv_start c" if "c \<in> set as'" for c using ok(2) that by (simp add: iv_less_def)
      have later: "subtractable as' cs" if cs: "set cs \<subseteq> set bs" and en: "iv_end a = iv_end b" for cs
        unfolding subtractable_def
      proof
        fix c assume "c \<in> set cs"
        then consider "c = b" | "c \<in> set bs'" using cs Cons by auto
        then show "(\<exists>d \<in> set as'. positions c \<subseteq> positions d) \<or> (\<forall>d \<in> set as'. iv_less c d)"
        proof cases
          case 1
          then show ?thesis using as'far en by (simp add: iv_less_def)
        next
          case 2
          then have "\<not> positions c \<subseteq> positions a" using bs'ok [OF 2] en by (auto simp: positions_def iv_ok_def)
          then show ?thesis using sub [OF 2] by auto
        qed
      qed
      consider (lt) "iv_less a b" | (gt) "\<not> iv_less a b" "iv_greater a b"
        | (front) "\<not> iv_less a b" "\<not> iv_greater a b" "iv_start a \<ge> iv_start b" "iv_end a > iv_end b"
        | (tail) "\<not> iv_less a b" "\<not> iv_greater a b" "iv_end a \<le> iv_end b" "iv_start a < iv_start b"
        | (mid) "\<not> iv_less a b" "\<not> iv_greater a b" "iv_start a < iv_start b" "iv_end a > iv_end b"
        | (all) "\<not> iv_less a b" "\<not> iv_greater a b" "iv_start a \<ge> iv_start b" "iv_end a \<le> iv_end b" by linarith
      then show ?thesis
      proof cases
        case lt
        have far: "\<forall>c \<in> set bs. iv_less a c" using lt ok Cons iv_less_trans by auto
        have "covers [a] \<inter> covers bs = {}" using far by (fastforce simp: in_covers iv_less_def)
        moreover have "subtractable as' bs" using subtractable_rest [OF _ far bok] less(4) as by simp
        ultimately show ?thesis using lt rest [of bs] less(3) Cons by auto
      next
        case gt
        have "covers (intervalSubtract (a # ls @ as') bs') = covers (a # ls @ as') - covers bs'"
          using less(1) [of as bs' ls] less(2,4,5) as Cons ok by (simp add: subtractable_def)
        moreover have "positions b \<inter> covers (a # as') = {}"
          using gt ok by (fastforce simp: in_covers iv_greater_def iv_less_def iv_ok_def)
        ultimately show ?thesis using gt Cons before by auto
      next
        case front
        let ?a = "a\<lparr>iv_start := iv_end b + 1\<rparr>"
        have st: "iv_start a = iv_start b" using inside [OF front(1,2)] front(3) by simp
        have "ivs_ok (?a # as')" using ok front(4) by (auto simp: iv_simps)
        moreover have "subtractable (?a # as') bs'"
          unfolding subtractable_def
        proof
          fix c assume c: "c \<in> set bs'"
          have "positions c \<subseteq> positions a \<Longrightarrow> positions c \<subseteq> positions ?a" using bs'ok [OF c] by (auto simp: positions_def)
          moreover have "iv_less c a \<Longrightarrow> iv_less c ?a" using front(4) st ok(4) by (auto simp: iv_simps)
          ultimately show "(\<exists>d \<in> set (?a # as'). positions c \<subseteq> positions d) \<or> (\<forall>d \<in> set (?a # as'). iv_less c d)"
            using sub [OF c] by auto
        qed
        ultimately have "covers (intervalSubtract (?a # ls @ as') bs') = covers (?a # ls @ as') - covers bs'"
          using less(1) [of "?a # as'" bs' ls] less(5) as Cons ok(6) by simp
        moreover have "positions a = positions b \<union> positions ?a" "positions b \<inter> positions ?a = {}"
          using st front(4) ok(1,4) by (auto simp: positions_def iv_ok_def)
        moreover have "positions b \<inter> covers as' = {}" using aout front(4) by fastforce
        moreover have "positions b \<inter> covers ls = {}" using before Cons by auto
        ultimately show ?thesis using front Cons by (auto simp del: in_positions)
      next
        case tail
        let ?a = "a\<lparr>iv_end := iv_start b - 1\<rparr>"
        have en: "iv_end a = iv_end b" using inside [OF tail(1,2)] tail(3) by simp
        have "covers (intervalSubtract (ls @ as') bs) = covers (ls @ as') - covers bs"
          using rest [of bs] later [OF _ en, of bs] less(3) by simp
        moreover have "positions a = positions ?a \<union> positions b" "positions ?a \<inter> positions b = {}"
          using en tail(4) ok(1,4) by (auto simp: positions_def iv_ok_def)
        moreover have "positions ?a \<inter> covers bs' = {}" using bout ok(4) by (fastforce simp: iv_ok_def)
        ultimately show ?thesis using tail Cons bout by (auto simp del: in_positions)
      next
        case mid
        let ?n = "UseInterval (iv_end b + 1) (iv_end a)" and ?f = "a\<lparr>iv_end := iv_start b - 1\<rparr>"
        have "ivs_ok (?n # as')" using ok mid(4) by (auto simp: iv_simps)
        moreover have "subtractable (?n # as') bs'"
          unfolding subtractable_def
        proof
          fix c assume c: "c \<in> set bs'"
          have "positions c \<subseteq> positions a \<Longrightarrow> positions c \<subseteq> positions ?n" using bs'ok [OF c] by (auto simp: positions_def)
          moreover have "iv_less c a \<Longrightarrow> iv_less c ?n" using mid(3) ok(4) by (auto simp: iv_simps)
          ultimately show "(\<exists>d \<in> set (?n # as'). positions c \<subseteq> positions d) \<or> (\<forall>d \<in> set (?n # as'). iv_less c d)"
            using sub [OF c] by auto
        qed
        moreover have "\<forall>l \<in> set (?f # ls). \<forall>c \<in> set bs'. iv_less l c"
          using less(5) Cons bs'ok ok(4) by (fastforce simp: iv_simps)
        ultimately have "covers (intervalSubtract (?n # (?f # ls) @ as') bs') = covers (?n # (?f # ls) @ as') - covers bs'"
          using less(1) [of "?n # as'" bs' "?f # ls"] as Cons ok(6) by simp
        moreover have "positions a = positions ?f \<union> positions b \<union> positions ?n"
          "positions b \<inter> positions ?n = {}" "positions b \<inter> positions ?f = {}"
          using mid(3,4) ok(1,4) by (auto simp: positions_def iv_ok_def)
        moreover have "positions b \<inter> covers as' = {}" using aout mid(4) by fastforce
        moreover have "positions b \<inter> covers ls = {}" using before Cons by auto
        ultimately show ?thesis using mid Cons by (auto simp del: in_positions)
      next
        case all
        have eq: "iv_start a = iv_start b" "iv_end a = iv_end b" using inside [OF all(1,2)] all(3,4) by simp_all
        have "covers (intervalSubtract (ls @ as') bs') = covers (ls @ as') - covers bs'"
          using rest [of bs'] later [OF _ eq(2), of bs'] ok(6) Cons by auto
        moreover have "positions a = positions b" using eq by (auto simp: positions_def)
        moreover have "positions b \<inter> covers as' = {}" using aout eq by fastforce
        moreover have "positions b \<inter> covers ls = {}" using before Cons by auto
        moreover have "positions b \<inter> covers bs' = {}" using bout by fastforce
        ultimately show ?thesis using all Cons by (auto simp del: in_positions)
      qed
    qed simp
  qed
qed

lemma subtract_covers:
  assumes "ivs_ok as" and "ivs_ok bs" and "\<forall>b \<in> set bs. \<exists>a \<in> set as. positions b \<subseteq> positions a"
  shows "covers (intervalSubtract as bs) = covers as - covers bs"
proof -
  have "subtractable as bs" using assms(3) by (simp add: subtractable_def)
  from subtract_covers_gen [OF assms(1,2) this, of "[]"] show ?thesis by (cases as) auto
qed

section \<open>The interval of an operation list\<close>

lemma interval_loop_covers:
  assumes "iv_ok (UseInterval start m)" and "sorted_wrt (<) (m # ids)" and "\<forall>i \<in> set ids. i + 2 < 2 ^ 64"
  shows "ivs_ok (interval_loop start m ids) \<and> (\<forall>a \<in> set (interval_loop start m ids). start \<le> iv_start a) \<and>
    (\<forall>x. x \<in> covers (interval_loop start m ids) \<longleftrightarrow>
      start \<le> x \<and> x \<le> m \<or> x \<in> set ids \<or> x - 1 \<in> set (m # ids) \<and> x + 1 \<in> set ids)"
  using assms
proof (induction start m ids rule: interval_loop.induct)
  case (1 start m)
  then show ?case by auto
next
  case (2 start m current ids)
  have c: "m < current" "current + 2 < 2 ^ 64" "0 \<le> start" "start \<le> m" "sorted_wrt (<) (current # ids)"
    using 2(3-5) by (auto simp: iv_ok_def)
  have d: "size_t (current - m) = current - m" using c by (intro size_t_id) auto
  show ?case
  proof (cases "current - m > 2")
    case True
    have "iv_ok (UseInterval current current)" using c by (simp add: iv_ok_def)
    note IH = 2(1) [unfolded d, OF True this c(5)]
    have far: "current \<le> i" if "i \<in> set ids" for i using c(5) that by auto
    show ?thesis using IH 2(3,5) True d c far by (auto simp: iv_less_def)
  next
    case False
    have "iv_ok (UseInterval start current)" using c by (simp add: iv_ok_def)
    note IH = 2(2) [unfolded d, OF False this c(5)]
    have far: "current < i" if "i \<in> set ids" for i using c(5) that by auto
    have hole: "x \<le> m \<or> x = current \<or> x - 1 = m \<and> x + 1 = current" if "x \<le> current" for x
      using that False c by linarith
    show ?thesis using IH 2(5) False d c far hole by auto
  qed
qed

end
