(* ===== verification/PackingLaws.thy ===== *)
theory PackingLaws
  imports BufferPacking IntervalLaws "HOL-Library.Multiset"
begin

text \<open>
  Packed buffers do not overlap while both are live. The invariant of the packing of one buffer: the
  gaps are sorted and disjoint; in a gap, the memory below the free segments is all that any buffer
  live there has; any two buffers that may be live at the same time have disjoint memory.
\<close>

section \<open>Allocations\<close>

definition info_ok :: "allocation_info \<Rightarrow> bool" where
  "info_ok i \<longleftrightarrow> ai_intervals i \<noteq> [] \<and> ivs_ok (ai_intervals i) \<and> ai_firstUse i = iv_start (hd (ai_intervals i)) \<and>
     ai_lastUse i = iv_end (last (ai_intervals i)) \<and> 0 \<le> ai_numSegments i"

abbreviation live :: "allocation_info \<Rightarrow> int set" where
  "live i \<equiv> covers (ai_intervals i)"

abbreviation lifetime :: "allocation_info \<Rightarrow> int set" where
  "lifetime i \<equiv> {ai_firstUse i..ai_lastUse i}"

lemma ivs_ok_range:
  "ivs_ok as \<Longrightarrow> as \<noteq> [] \<Longrightarrow> covers as \<subseteq> {iv_start (hd as)..iv_end (last as)} \<and> iv_start (hd as) \<le> iv_end (last as) \<and>
    0 \<le> iv_start (hd as) \<and> iv_end (last as) + 2 < 2 ^ 64"
proof (induction as)
  case (Cons a as)
  then show ?case by (cases as) (auto simp: iv_simps positions_def)
qed simp

lemma info_okD:
  assumes "info_ok i"
  shows "live i \<subseteq> lifetime i" and "0 \<le> ai_firstUse i" and "ai_firstUse i \<le> ai_lastUse i" and "ai_lastUse i + 2 < 2 ^ 64"
    and "getUserangeSize i = ai_lastUse i - ai_firstUse i + 1"
proof -
  show h: "live i \<subseteq> lifetime i" "0 \<le> ai_firstUse i" "ai_firstUse i \<le> ai_lastUse i" "ai_lastUse i + 2 < 2 ^ 64"
    using assms ivs_ok_range [of "ai_intervals i"] by (auto simp: info_ok_def)
  then show "getUserangeSize i = ai_lastUse i - ai_firstUse i + 1" by (simp add: getUserangeSize_def size_t_id)
qed

section \<open>Gaps\<close>

definition gap_ok :: "int \<Rightarrow> gap \<Rightarrow> bool" where
  "gap_ok n g \<longleftrightarrow> 0 \<le> iv_start (fst g) \<and> iv_start (fst g) \<le> iv_end (fst g) \<and> iv_end (fst g) + 1 < 2 ^ 64 \<and> 0 \<le> snd g \<and> snd g \<le> n"

definition gaps_ok :: "int \<Rightarrow> gap list \<Rightarrow> bool" where
  "gaps_ok n gaps \<longleftrightarrow> (\<forall>g \<in> set gaps. gap_ok n g) \<and> sorted_wrt (\<lambda>g h. iv_less (fst g) (fst h)) gaps"

lemma gap_loop_ok:
  assumes "ivs_ok uses" and "0 \<le> gapEnd" and "\<forall>u \<in> set uses. gapEnd \<le> iv_start u" and "m + 1 < 2 ^ 64" and "0 \<le> n"
  shows "gaps_ok n (gap_loop n m gapEnd uses) \<and>
    (\<forall>g \<in> set (gap_loop n m gapEnd uses). gapEnd \<le> iv_start (fst g) \<and> positions (fst g) \<inter> covers uses = {})"
  using assms
proof (induction n m gapEnd uses rule: gap_loop.induct)
  case (1 n m gapEnd)
  then show ?case by (auto simp: gaps_ok_def gap_ok_def)
next
  case (2 n m gapEnd u us)
  have u: "iv_ok u" "\<forall>v \<in> set us. iv_less u v" "ivs_ok us" "gapEnd \<le> iv_start u" using 2(2,4) by auto
  have e: "size_t (iv_end u + 1) = iv_end u + 1" using u(1) by (simp add: iv_ok_def size_t_id)
  have "\<forall>v \<in> set us. iv_end u + 1 \<le> iv_start v" using u(2) by (auto simp: iv_less_def)
  then have IH: "gaps_ok n (gap_loop n m (iv_end u + 1) us)"
    "\<And>g. g \<in> set (gap_loop n m (iv_end u + 1) us) \<Longrightarrow> iv_end u + 1 \<le> iv_start (fst g) \<and> positions (fst g) \<inter> covers us = {}"
    using 2(1) [unfolded e, OF u(3)] u(1) 2(5,6) by (auto simp: iv_ok_def)
  let ?g = "(UseInterval gapEnd (iv_start u - 1), n)"
  have "positions (fst ?g) \<inter> covers us = {}" using iv_less_covers [OF u(2)] u(1) by (fastforce simp: iv_ok_def)
  moreover have "gap_ok n ?g" if "gapEnd < iv_start u" using that 2(3,6) u(1) by (simp add: gap_ok_def iv_ok_def)
  ultimately show ?case
    using IH u(1,4) unfolding gap_loop.simps e
    by (fastforce simp: gaps_ok_def iv_less_def iv_ok_def)
qed

lemma ivs_ok_each: "ivs_ok us \<Longrightarrow> u \<in> set us \<Longrightarrow> iv_ok u"
  by (induction us) auto

lemma computeGaps_ok:
  assumes "info_ok i" and "m + 1 < 2 ^ 64"
  shows "gaps_ok (ai_numSegments i) (computeGaps m i)"
    and "g \<in> set (computeGaps m i) \<Longrightarrow> live i \<inter> positions (fst g) = {}"
proof -
  have "\<forall>u \<in> set (ai_intervals i). 0 \<le> iv_start u"
    using assms(1) ivs_ok_each by (auto simp: info_ok_def iv_ok_def)
  then show "gaps_ok (ai_numSegments i) (computeGaps m i)"
    "g \<in> set (computeGaps m i) \<Longrightarrow> live i \<inter> positions (fst g) = {}"
    using gap_loop_ok [of "ai_intervals i" 0 m "ai_numSegments i"] assms by (auto simp: info_ok_def computeGaps_def)
qed

lemma find_gap_Some:
  "find_gap info gaps = Some (gaps', free) \<Longrightarrow>
    \<exists>pre g post. gaps = pre @ g # post \<and> gaps' = pre @ split_gap g info @ post \<and> free = snd g \<and>
      ai_numSegments info \<le> snd g \<and> iv_start (fst g) \<le> ai_firstUse info \<and> ai_lastUse info \<le> iv_end (fst g)"
proof (induction info gaps arbitrary: gaps' rule: find_gap.induct)
  case (2 info g gaps)
  show ?case
  proof (cases "snd g < ai_numSegments info \<or> ai_firstUse info < iv_start (fst g) \<or> ai_lastUse info > iv_end (fst g)")
    case True
    then obtain gs where gs: "find_gap info gaps = Some (gs, free)" "gaps' = g # gs" and le: "\<not> iv_start (fst g) > ai_firstUse info"
      using 2(2) by (auto split: if_splits)
    from 2(1) [OF le True gs(1)] gs(2) show ?thesis by (metis append_Cons)
  next
    case False
    then have "gaps' = split_gap g info @ gaps \<and> free = snd g" using 2(2) by (auto split: if_splits)
    then show ?thesis using False by (intro exI [of _ "[]"] exI [of _ g] exI [of _ gaps]) auto
  qed
qed simp

text \<open>The pieces a gap is split into.\<close>

lemma split_gap_ok:
  assumes g: "gap_ok n g" and i: "info_ok i" and fits: "ai_numSegments i \<le> snd g" "iv_start (fst g) \<le> ai_firstUse i" "ai_lastUse i \<le> iv_end (fst g)"
  shows "gaps_ok n (split_gap g i)"
    and "h \<in> set (split_gap g i) \<Longrightarrow> positions (fst h) \<subseteq> positions (fst g) \<and>
      (snd h = snd g \<and> lifetime i \<inter> positions (fst h) = {} \<or> snd h = snd g - ai_numSegments i)"
proof -
  note f = info_okD [OF i]
  have n: "0 \<le> ai_numSegments i" using i by (simp add: info_ok_def)
  have size: "computeUserangeSize (fst g) = iv_end (fst g) - iv_start (fst g) + 1"
    using g by (simp add: computeUserangeSize_def size_t_id gap_ok_def)
  have split: "computeUserangeSize (fst g) > getUserangeSize i \<longleftrightarrow> ai_firstUse i > iv_start (fst g) \<or> ai_lastUse i < iv_end (fst g)"
    using fits(2,3) unfolding size f(5) by linarith
  show "gaps_ok n (split_gap g i)"
    using g n f(2,3) fits unfolding split_gap_def Let_def split
    by (auto simp: gaps_ok_def gap_ok_def iv_less_def)
  show "positions (fst h) \<subseteq> positions (fst g) \<and>
      (snd h = snd g \<and> lifetime i \<inter> positions (fst h) = {} \<or> snd h = snd g - ai_numSegments i)"
    if "h \<in> set (split_gap g i)"
    using that f(2,3) fits unfolding split_gap_def Let_def split
    by (auto simp: positions_def split: if_splits)
qed

section \<open>The invariant\<close>

text \<open>A packed buffer: the positions at which it may be live, its allocation, its first segment.\<close>

type_synonym entry = "int set \<times> allocation_info \<times> int"

abbreviation infos_of :: "entry list \<Rightarrow> allocation_info list" where
  "infos_of es \<equiv> map (\<lambda>e. fst (snd e)) es"

definition separate :: "entry \<Rightarrow> entry \<Rightarrow> bool" where
  "separate d e = (case (d, e) of ((s, i, p), (s', i', p')) \<Rightarrow>
     s \<inter> s' = {} \<or> p + ai_numSegments i \<le> p' \<or> p' + ai_numSegments i' \<le> p)"

definition entry_ok :: "int \<Rightarrow> entry \<Rightarrow> bool" where
  "entry_ok n e = (case e of (s, i, p) \<Rightarrow> live i \<subseteq> s \<and> 0 \<le> p \<and> p + ai_numSegments i \<le> n)"

definition below_gap :: "int \<Rightarrow> entry \<Rightarrow> gap \<Rightarrow> bool" where
  "below_gap n e g = (case e of (s, i, p) \<Rightarrow> s \<inter> positions (fst g) = {} \<or> p + ai_numSegments i \<le> n - snd g)"

definition packing :: "int \<Rightarrow> gap list \<Rightarrow> entry list \<Rightarrow> bool" where
  "packing n gaps es \<longleftrightarrow> gaps_ok n gaps \<and> (\<forall>e \<in> set es. entry_ok n e \<and> (\<forall>g \<in> set gaps. below_gap n e g)) \<and>
     sorted_wrt separate es"

lemma packing_start:
  assumes "info_ok i" and "m + 1 < 2 ^ 64"
  shows "packing (ai_numSegments i) (computeGaps m i) [(live i, i, 0)]"
  using computeGaps_ok [OF assms] by (auto simp: packing_def entry_ok_def below_gap_def)

lemma packing_step:
  assumes p: "packing n gaps es" and i: "info_ok i" and found: "find_gap i gaps = Some (gaps', free)"
  shows "packing n gaps' (es @ [(lifetime i, i, n - free)])"
proof -
  from find_gap_Some [OF found] obtain pre g post where
    g: "gaps = pre @ g # post" "gaps' = pre @ split_gap g i @ post" "free = snd g" and
    fits: "ai_numSegments i \<le> snd g" "iv_start (fst g) \<le> ai_firstUse i" "ai_lastUse i \<le> iv_end (fst g)" by blast
  let ?e = "(lifetime i, i, n - free)"
  have gok: "gap_ok n g" and sorted: "gaps_ok n gaps" and
    old: "\<And>e h. e \<in> set es \<Longrightarrow> h \<in> set gaps \<Longrightarrow> below_gap n e h" and es: "\<And>e. e \<in> set es \<Longrightarrow> entry_ok n e" "sorted_wrt separate es"
    using p g(1) by (auto simp: packing_def gaps_ok_def)
  note s = split_gap_ok [OF gok i fits]
  have sub: "lifetime i \<subseteq> positions (fst g)" using fits by (auto simp: positions_def)
  have apart: "lifetime i \<inter> positions (fst h) = {}" if "h \<in> set pre \<union> set post" for h
    using that sub sorted unfolding g(1) gaps_ok_def sorted_wrt_append by (fastforce simp: iv_less_def positions_def)
  have "gaps_ok n gaps'"
  proof -
    have "iv_less (fst a) (fst h)" if "a \<in> set pre" "h \<in> set (split_gap g i)" for a h
    proof -
      have "iv_less (fst a) (fst g)" "positions (fst h) \<subseteq> positions (fst g)" "gap_ok n h"
        using that sorted s unfolding g(1) gaps_ok_def sorted_wrt_append by auto
      then show ?thesis by (auto simp: iv_less_def gap_ok_def positions_def)
    qed
    moreover have "iv_less (fst h) (fst b)" if "b \<in> set post" "h \<in> set (split_gap g i)" for b h
    proof -
      have "iv_less (fst g) (fst b)" "positions (fst h) \<subseteq> positions (fst g)" "gap_ok n h"
        using that sorted s unfolding g(1) gaps_ok_def sorted_wrt_append by auto
      then show ?thesis by (auto simp: iv_less_def gap_ok_def positions_def)
    qed
    ultimately show ?thesis
      using sorted s(1) unfolding g(1,2) gaps_ok_def sorted_wrt_append by auto
  qed
  moreover have "below_gap n e h" if e: "e \<in> set es" and h: "h \<in> set gaps'" for e h
  proof (cases "h \<in> set (split_gap g i)")
    case True
    have "0 \<le> ai_numSegments i" using i by (simp add: info_ok_def)
    then show ?thesis using s(2) [OF True] old [OF e, of g] g(1) by (auto simp: below_gap_def split: prod.splits)
  next
    case False
    then show ?thesis using old [OF e, of h] h g by auto
  qed
  moreover have "below_gap n ?e h" if h: "h \<in> set gaps'" for h
  proof -
    consider "lifetime i \<inter> positions (fst h) = {}" | "snd h = snd g - ai_numSegments i"
      using s(2) [of h] apart [of h] h g(2) by auto
    then show ?thesis using g(3) by cases (auto simp only: below_gap_def prod.case)
  qed
  moreover have "entry_ok n ?e" using info_okD(1) [OF i] fits(1) gok g(3) by (auto simp: entry_ok_def gap_ok_def)
  moreover have "separate e ?e" if "e \<in> set es" for e
    using old [OF that, of g] sub g(1,3) by (auto simp: below_gap_def separate_def split: prod.splits)
  ultimately show ?thesis using es by (auto simp: packing_def sorted_wrt_append)
qed

section \<open>The loops\<close>

definition offsets_of :: "entry list \<Rightarrow> alloc_buffer_offset list" where
  "offsets_of es = map (\<lambda>(_, i, p). \<lparr>abo_source = ai_alloc i, abo_offset = p * 64\<rparr>) es"

lemma pack_behind_packing:
  assumes "packing (ai_numSegments current) gaps es" and "\<forall>i \<in> set infos. info_ok i" and "offsets = offsets_of es"
    and "pack_behind current gaps offsets infos = (offsets', rest)"
  shows "\<exists>gaps' es' packed. packing (ai_numSegments current) gaps' es' \<and> offsets' = offsets_of es' \<and>
    infos_of es' = infos_of es @ packed \<and> mset infos = mset packed + mset rest"
  using assms
proof (induction current gaps offsets infos arbitrary: es rest rule: pack_behind.induct)
  case (1 current gaps offsets)
  then show ?case by (intro exI [of _ gaps] exI [of _ es] exI [of _ "[]"]) auto
next
  case (2 current gaps offsets c infos)
  show ?case
  proof (cases "findGapAndUpdate gaps offsets c current")
    case None
    then obtain rest' where r: "pack_behind current gaps offsets infos = (offsets', rest')" "rest = c # rest'"
      using 2(6) by (auto split: prod.splits)
    from 2(1) [OF None 2(3) _ 2(5) r(1)] 2(4) r(2) show ?thesis by fastforce
  next
    case (Some go)
    then obtain gaps' free where f: "find_gap c gaps = Some (gaps', free)"
      and go: "go = (gaps', offsets @ [\<lparr>abo_source = ai_alloc c, abo_offset = (ai_numSegments current - free) * 64\<rparr>])"
      by (auto simp: findGapAndUpdate_def split: if_splits option.splits)
    let ?es = "es @ [(lifetime c, c, ai_numSegments current - free)]"
    have "packing (ai_numSegments current) gaps' ?es" using packing_step [OF 2(3) _ f] 2(4) by simp
    moreover have "snd go = offsets_of ?es" using go 2(5) by (simp add: offsets_of_def)
    moreover have "pack_behind current gaps' (snd go) infos = (offsets', rest)" using 2(6) Some go by simp
    moreover have "\<forall>i \<in> set infos. info_ok i" using 2(4) by simp
    ultimately have "\<exists>gaps'' es' packed. packing (ai_numSegments current) gaps'' es' \<and> offsets' = offsets_of es' \<and>
      infos_of es' = infos_of ?es @ packed \<and> mset infos = mset packed + mset rest"
      using 2(2) [OF Some, of gaps' "snd go" ?es rest] go by simp
    then obtain gaps'' es' packed where
      "packing (ai_numSegments current) gaps'' es'" "offsets' = offsets_of es'"
      "infos_of es' = infos_of ?es @ packed" "mset infos = mset packed + mset rest" by blast
    then show ?thesis by (intro exI [of _ gaps''] exI [of _ es'] exI [of _ "c # packed"]) auto
  qed
qed

lemma pack_all_packing:
  assumes "\<forall>i \<in> set infos. info_ok i" and "m + 1 < 2 ^ 64"
  shows "\<exists>pss. length pss = length (pack_all m infos) \<and>
    (\<forall>k < length pss. \<exists>gaps. packing (pb_numSegments (pack_all m infos ! k) div 64) gaps (pss ! k) \<and>
       pb_offsets (pack_all m infos ! k) = offsets_of (pss ! k)) \<and>
    mset (infos_of (concat pss)) \<subseteq># mset infos"
  using assms
proof (induction m infos rule: pack_all.induct)
  case (2 m current infos)
  show ?case
  proof (cases "computeGaps m current = []")
    case True
    then have all: "pack_all m (current # infos) = pack_all m infos" by simp
    obtain pss where "length pss = length (pack_all m infos)"
      "\<forall>k < length pss. \<exists>gaps. packing (pb_numSegments (pack_all m infos ! k) div 64) gaps (pss ! k) \<and>
         pb_offsets (pack_all m infos ! k) = offsets_of (pss ! k)"
      "mset (infos_of (concat pss)) \<subseteq># mset infos"
      using 2(1) [OF refl True] 2(3,4) by auto
    moreover have "mset infos \<subseteq># mset (current # infos)" by simp
    ultimately show ?thesis unfolding all by (meson subset_mset.trans)
  next
    case False
    obtain offsets rest where p: "pack_behind current (computeGaps m current) [\<lparr>abo_source = ai_alloc current, abo_offset = 0\<rparr>] infos = (offsets, rest)"
      by force
    have "packing (ai_numSegments current) (computeGaps m current) [(live current, current, 0)]"
      using packing_start 2(3,4) by simp
    from pack_behind_packing [OF this _ _ p] 2(3) obtain gaps' es' packed where
      es': "packing (ai_numSegments current) gaps' es'" "offsets = offsets_of es'"
        "infos_of es' = current # packed" and m: "mset infos = mset packed + mset rest"
      by (auto simp: offsets_of_def)
    have "\<forall>i \<in> set rest. info_ok i" using 2(3) m by (metis UnCI list.set_intros(2) set_mset_mset set_mset_union)
    from 2(2) [OF refl False p [symmetric] refl this 2(4)] obtain pss where
      pss: "length pss = length (pack_all m rest)"
        "\<And>k. k < length pss \<Longrightarrow> \<exists>gaps. packing (pb_numSegments (pack_all m rest ! k) div 64) gaps (pss ! k) \<and>
          pb_offsets (pack_all m rest ! k) = offsets_of (pss ! k)"
        "mset (infos_of (concat pss)) \<subseteq># mset rest" by auto
    have all: "pack_all m (current # infos) = \<lparr>pb_numSegments = ai_numSegments current * 64, pb_offsets = offsets\<rparr> # pack_all m rest"
      using False p by simp
    show ?thesis
    proof (intro exI [of _ "es' # pss"] conjI)
      have "\<exists>gaps. packing (pb_numSegments (pack_all m (current # infos) ! k) div 64) gaps ((es' # pss) ! k) \<and>
          pb_offsets (pack_all m (current # infos) ! k) = offsets_of ((es' # pss) ! k)" if "k < length (es' # pss)" for k
        using es'(1,2) pss(2) that unfolding all by (cases k) auto
      then show "\<forall>k < length (es' # pss). \<exists>gaps. packing (pb_numSegments (pack_all m (current # infos) ! k) div 64) gaps ((es' # pss) ! k) \<and>
          pb_offsets (pack_all m (current # infos) ! k) = offsets_of ((es' # pss) ! k)" by blast
      show "mset (infos_of (concat (es' # pss))) \<subseteq># mset (current # infos)"
        using pss(3) es'(3) m by (simp add: subset_mset.add_mono)
    qed (unfold all, simp add: pss(1))
  qed
qed simp

lemma pack_all_bytes: "pb \<in> set (pack_all m infos) \<Longrightarrow> 64 dvd pb_numSegments pb"
  by (induction m infos rule: pack_all.induct) (auto simp: Let_def split: if_splits prod.splits)

section \<open>The strategy\<close>

definition info_key :: "allocation_info \<Rightarrow> nat \<times> use_interval list \<times> int" where
  "info_key i = (ai_alloc i, ai_intervals i, ai_numSegments i)"

definition entry_valid :: "alloc_entry \<Rightarrow> bool" where
  "entry_valid e \<longleftrightarrow> (case e of (v, type, d, r) \<Rightarrow>
     static_shape (shape_of type) \<and> (case r of None \<Rightarrow> True | Some ivs \<Rightarrow> ivs \<noteq> [] \<and> ivs_ok ivs))"

lemma window_ids_keeps:
  "map info_key (window_ids w k l infos) = map info_key infos"
  "(\<forall>i \<in> set (window_ids w k l infos). info_ok i) \<longleftrightarrow> (\<forall>i \<in> set infos. info_ok i)"
  by (induction w k l infos rule: window_ids.induct) (auto simp: Let_def info_key_def info_ok_def)

lemma mk_info_ok:
  assumes "mk_info e = Some i" and "entry_valid e"
  shows "info_ok i" and "\<exists>v type d ivs. e = (v, type, d, Some ivs) \<and> info_key i = (v, ivs, computeAlignedSegments type)"
proof -
  obtain v type d r where e: "e = (v, type, d, r)" by (cases e)
  have "0 \<le> num_elements (shape_of type)" using assms(2) e by (simp add: entry_valid_def num_elements_nonneg)
  then have "0 \<le> computeAlignedSegments type" by (simp add: computeAlignedSegments_def computeByteSize_def pos_imp_zdiv_nonneg_iff)
  then show "info_ok i" "\<exists>v type d ivs. e = (v, type, d, Some ivs) \<and> info_key i = (v, ivs, computeAlignedSegments type)"
    using assms e by (auto simp: mk_info_def info_ok_def info_key_def entry_valid_def)
qed

lemma foldl_max_less: "k < n \<Longrightarrow> \<forall>x \<in> set xs. x < n \<Longrightarrow> foldl max k xs < (n::int)"
  by (induction xs arbitrary: k) auto

lemma map_filter_infos:
  assumes "\<forall>e \<in> set allocs. entry_valid e" and "distinct (map fst allocs)"
  shows "(\<forall>i \<in> set (List.map_filter mk_info allocs). info_ok i) \<and>
    distinct (map ai_alloc (List.map_filter mk_info allocs)) \<and>
    info_key ` set (List.map_filter mk_info allocs) = {(v, ivs, computeAlignedSegments type) |v type d ivs. (v, type, d, Some ivs) \<in> set allocs}"
  using assms
proof (induction allocs)
  case (Cons e allocs)
  have IH: "\<forall>i \<in> set (List.map_filter mk_info allocs). info_ok i" "distinct (map ai_alloc (List.map_filter mk_info allocs))"
    "info_key ` set (List.map_filter mk_info allocs) = {(v, ivs, computeAlignedSegments type) |v type d ivs. (v, type, d, Some ivs) \<in> set allocs}"
    using Cons by auto
  show ?case
  proof (cases "mk_info e")
    case None
    then obtain v type d where "e = (v, type, d, None)" by (cases e) (auto simp: mk_info_def)
    then show ?thesis using IH None by (auto simp: List.map_filter_simps)
  next
    case (Some i)
    have ev: "entry_valid e" using Cons.prems(1) by simp
    note ok = mk_info_ok [OF Some ev]
    obtain v type d ivs where e: "e = (v, type, d, Some ivs)" "info_key i = (v, ivs, computeAlignedSegments type)" using ok(2) by blast
    have "v \<notin> fst ` set allocs" using Cons.prems(2) e(1) by auto
    moreover have "fst ` info_key ` set (List.map_filter mk_info allocs) \<subseteq> fst ` set allocs"
      unfolding IH(3) by force
    ultimately have "ai_alloc i \<notin> ai_alloc ` set (List.map_filter mk_info allocs)"
      using e(2) by (force simp: info_key_def image_image)
    then show ?thesis using IH Some ok(1) e by (auto simp: List.map_filter_simps)
  qed
qed (simp add: List.map_filter_simps)

lemma optimze_infos:
  assumes perm: "\<forall>c xs. mset (srt c xs) = mset xs" and "\<forall>e \<in> set allocs. entry_valid e" and "distinct (map fst allocs)"
  obtains infos m where "optimze srt w allocs = pack_all m infos" and "\<forall>i \<in> set infos. info_ok i" and "m + 1 < 2 ^ 64"
    and "distinct (map ai_alloc infos)"
    and "info_key ` set infos = {(v, ivs, computeAlignedSegments type) |v type d ivs. (v, type, d, Some ivs) \<in> set allocs}"
proof -
  let ?infos = "List.map_filter mk_info allocs"
  obtain infos m where c: "computeAllocationInfos srt w allocs = (infos, m)" by force
  have s: "set (srt c xs) = set xs" for c xs using perm by (metis set_mset_mset)
  note f = map_filter_infos [OF assms(2,3)]
  have m: "m = foldl max 0 (map ai_lastUse ?infos)" using c by (auto simp: computeAllocationInfos_def Let_def split: if_splits)
  have "\<forall>i \<in> set ?infos. ai_lastUse i < 2 ^ 64 - 1" using f info_okD(4) by fastforce
  then have "m + 1 < 2 ^ 64" using foldl_max_less [of 0 "2 ^ 64 - 1" "map ai_lastUse ?infos"] m by simp
  moreover have "(\<forall>i \<in> set infos. info_ok i) \<and> mset (map info_key infos) = mset (map info_key ?infos)"
  proof (cases "w = 0")
    case True
    then show ?thesis using c f by (simp add: computeAllocationInfos_def Let_def)
  next
    case False
    then have "infos = window_ids w 0 0 (srt (\<lambda>a b. ai_allocUserangeId a < ai_allocUserangeId b) ?infos)"
      using c by (simp add: computeAllocationInfos_def Let_def)
    then show ?thesis using f window_ids_keeps s perm by (simp add: mset_map)
  qed
  moreover have "distinct (map ai_alloc xs) \<longleftrightarrow> distinct (map ai_alloc ys)" if "mset (map info_key xs) = mset (map info_key ys)" for xs ys
  proof -
    have "mset (map fst (map info_key xs)) = mset (map fst (map info_key ys))" using that by (metis mset_map)
    then have "mset (map ai_alloc xs) = mset (map ai_alloc ys)" by (simp add: o_def info_key_def)
    then show ?thesis by (metis distinct_count_atmost_1 set_mset_mset)
  qed
  moreover have "info_key ` set xs = info_key ` set ys" if "mset (map info_key xs) = mset (map info_key ys)" for xs ys
    using that by (metis list.set_map set_mset_mset)
  ultimately show thesis
  proof (intro that [of m "srt (if w = 0 then allocInfoMemSizeLess else allocInfoWinIdLess) infos"], goal_cases)
    case 1
    show ?case using c by (simp add: optimze_def)
  next
    case 2
    then show ?case using s by auto
  next
    case 4
    then show ?case using f perm by (metis mset_map)
  next
    case 5
    then show ?case using f perm by (metis mset_map)
  qed simp
qed

end
