(* ===== verification/PackingProperties.thy ===== *)
theory PackingProperties
  imports PackingLaws Samples
begin

text \<open>
  The properties of the ranges of use and of buffer packing, with concrete instances, and what the
  vector operations get wrong.
\<close>

section \<open>Ranges\<close>

text \<open>
  C36: The operations on ranges of use compute set operations. On sorted vectors of disjoint intervals,
  \<open>intervalIntersect\<close> computes the common positions and returns such a vector; \<open>intervalMerge\<close> covers
  the positions of both vectors and besides them only single positions between two covered ones;
  \<open>intervalSubtract\<close>, for intervals that each lie within one of the minuend's, removes exactly their
  positions; and without common aliases \<open>rangesInterfere\<close> decides whether there is a common position.
\<close>

theorem interval_operations:
  assumes "ivs_ok as" and "ivs_ok bs"
  shows "covers (intervalIntersect as bs) = covers as \<inter> covers bs \<and> ivs_ok (intervalIntersect as bs) \<and>
    covers as \<union> covers bs \<subseteq> covers (intervalMerge as bs) \<and>
    covers (intervalMerge as bs) \<subseteq> bridged (covers as \<union> covers bs) \<and>
    ((\<forall>b \<in> set bs. \<exists>a \<in> set as. positions b \<subseteq> positions a) \<longrightarrow>
      covers (intervalSubtract as bs) = covers as - covers bs) \<and>
    rangesInterfere [] as bs = (covers as \<inter> covers bs \<noteq> {})"
  using intersect_covers [OF assms] intersect_ok [OF assms] intervalMerge_covers [OF assms] subtract_covers [OF assms]
    interfere_covers [OF assms] by (simp add: rangesInterfere_def)

theorem interval_operations_witness:
  "covers (intervalSubtract [UseInterval 2 10] [UseInterval 5 7]) = {2..10} - {5..7} \<and>
    covers (intervalIntersect [UseInterval 2 10] [UseInterval 5 7]) = {5..7}"
proof -
  have ok: "ivs_ok [UseInterval 2 10]" "ivs_ok [UseInterval 5 7]" by (simp_all add: iv_ok_def)
  from interval_operations [OF ok] show ?thesis by (auto simp: positions_def)
qed

text \<open>
  The order of the results is another matter. A subtraction that splits an interval leaves the parts in
  reverse order, and then \<open>rangesInterfere\<close> overlooks a common position; a merge can leave an interval
  behind one that contains it, and then \<open>computeGaps\<close> takes positions of use for a gap.
\<close>

lemma subtract_reverses:
  "intervalSubtract [UseInterval 2 10] [UseInterval 5 7] = [UseInterval 8 10, UseInterval 2 4]"
  by (simp add: iv_less_def iv_greater_def)

lemma interference_overlooked:
  "\<not> rangesInterfere [[UseInterval 5 7]] [UseInterval 2 10] [UseInterval 3 3]"
  by (simp add: rangesInterfere_def iv_less_def iv_greater_def)

lemma merge_not_disjoint:
  "intervalMerge [UseInterval 0 2, UseInterval 6 20] [UseInterval 4 4, UseInterval 8 10] = [UseInterval 0 20, UseInterval 8 10]"
  by (simp add: iv_less_def iv_greater_def isContiguous_def size_t_def mergeAndEraseContiguousIntervals_def mergeWith_def)

lemma gap_within_use:
  "computeGaps 30 \<lparr>ai_alloc = 0, ai_allocUserangeId = 0, ai_firstUse = 0, ai_lastUse = 10, ai_numSegments = 1, ai_windowId = 0,
     ai_intervals = [UseInterval 0 20, UseInterval 8 10]\<rparr> = [(UseInterval 11 30, 1)]"
  by (simp add: computeGaps_def size_t_def)

section \<open>Packing\<close>

lemma distinct_subset:
  assumes "mset xs \<subseteq># mset ys" and "distinct ys"
  shows "distinct xs"
proof -
  obtain zs where "mset ys = mset xs + mset zs" using assms(1) by (metis ex_mset subset_mset.le_iff_add)
  then have "mset ys = mset (xs @ zs)" by simp
  then show ?thesis using assms(2) by (metis distinct_append mset_eq_imp_distinct_iff)
qed

text \<open>
  C19: Buffer packing is sound. From allocations with sorted, disjoint ranges of use, whatever order the
  sorts leave equivalent allocations in, no allocation is packed twice, every packed one lies within
  the memory of its packed buffer, and two allocations packed into the same buffer that have a
  position of use in common occupy disjoint memory.
\<close>

theorem packing_sound:
  assumes "\<forall>c xs. mset (srt c xs) = mset xs" and "\<forall>e \<in> set allocs. entry_valid e" and "distinct (map fst allocs)"
  shows "distinct (map abo_source (concat (map pb_offsets (optimze srt windowSize allocs)))) \<and>
    (\<forall>pb \<in> set (optimze srt windowSize allocs). \<forall>o1 \<in> set (pb_offsets pb). \<forall>o2 \<in> set (pb_offsets pb).
      \<forall>t1 d1 r1 t2 d2 r2. (abo_source o1, t1, d1, Some r1) \<in> set allocs \<longrightarrow> (abo_source o2, t2, d2, Some r2) \<in> set allocs \<longrightarrow>
        0 \<le> abo_offset o1 \<and> abo_offset o1 + 64 * computeAlignedSegments t1 \<le> pb_numSegments pb \<and>
        (abo_source o1 \<noteq> abo_source o2 \<longrightarrow> covers r1 \<inter> covers r2 \<noteq> {} \<longrightarrow>
          abo_offset o1 + 64 * computeAlignedSegments t1 \<le> abo_offset o2 \<or>
          abo_offset o2 + 64 * computeAlignedSegments t2 \<le> abo_offset o1))"
proof -
  obtain infos m where run: "optimze srt windowSize allocs = pack_all m infos" and ok: "\<forall>i \<in> set infos. info_ok i" "m + 1 < 2 ^ 64"
    and d: "distinct (map ai_alloc infos)"
    and keys: "info_key ` set infos = {(v, ivs, computeAlignedSegments type) |v type d ivs. (v, type, d, Some ivs) \<in> set allocs}"
    by (rule optimze_infos [OF assms, where w = windowSize])
  from pack_all_packing [OF ok] obtain pss where all: "length pss = length (pack_all m infos) \<and>
    (\<forall>k < length pss. \<exists>gaps. packing (pb_numSegments (pack_all m infos ! k) div 64) gaps (pss ! k) \<and>
       pb_offsets (pack_all m infos ! k) = offsets_of (pss ! k)) \<and>
    mset (infos_of (concat pss)) \<subseteq># mset infos" ..
  note len = conjunct1 [OF all] and pss = conjunct1 [OF conjunct2 [OF all], rule_format] and sub = conjunct2 [OF conjunct2 [OF all]]
  have "map pb_offsets (pack_all m infos) = map offsets_of pss"
    by (rule nth_equalityI) (use len pss in auto)
  then have src: "map abo_source (concat (map pb_offsets (pack_all m infos))) = map ai_alloc (infos_of (concat pss))"
    by (simp add: map_concat offsets_of_def o_def case_prod_beta)
  have "mset (map ai_alloc (infos_of (concat pss))) \<subseteq># mset (map ai_alloc infos)"
    using image_mset_subseteq_mono [OF sub, of ai_alloc] by (simp only: mset_map)
  then have "distinct (map abo_source (concat (map pb_offsets (pack_all m infos))))"
    unfolding src using d by (rule distinct_subset)
  moreover have in_infos: "i \<in> set infos" if "(s, i, p) \<in> set es" "es \<in> set pss" for s i p es
    using mset_subset_eqD [OF sub, of i] that by force
  have part: "0 \<le> abo_offset o1 \<and> abo_offset o1 + 64 * computeAlignedSegments t1 \<le> pb_numSegments pb \<and>
        (abo_source o1 \<noteq> abo_source o2 \<longrightarrow> covers r1 \<inter> covers r2 \<noteq> {} \<longrightarrow>
          abo_offset o1 + 64 * computeAlignedSegments t1 \<le> abo_offset o2 \<or>
          abo_offset o2 + 64 * computeAlignedSegments t2 \<le> abo_offset o1)"
    if pb: "pb \<in> set (pack_all m infos)" and o: "o1 \<in> set (pb_offsets pb)" "o2 \<in> set (pb_offsets pb)"
      and a: "(abo_source o1, t1, d1, Some r1) \<in> set allocs" "(abo_source o2, t2, d2, Some r2) \<in> set allocs"
    for pb o1 o2 t1 d1 r1 t2 d2 r2
  proof -
    obtain k where k: "k < length pss" "pb = pack_all m infos ! k" using pb len by (metis in_set_conv_nth)
    let ?es = "pss ! k"
    obtain gaps where g: "packing (pb_numSegments pb div 64) gaps ?es" "pb_offsets pb = offsets_of ?es"
      using pss [OF k(1)] k(2) by auto
    have bytes: "pb_numSegments pb = pb_numSegments pb div 64 * 64" using pack_all_bytes [OF pb] by simp
    obtain s1 i1 p1 where e1: "(s1, i1, p1) \<in> set ?es" "o1 = \<lparr>abo_source = ai_alloc i1, abo_offset = p1 * 64\<rparr>"
      using o(1) g(2) by (auto simp: offsets_of_def)
    obtain s2 i2 p2 where e2: "(s2, i2, p2) \<in> set ?es" "o2 = \<lparr>abo_source = ai_alloc i2, abo_offset = p2 * 64\<rparr>"
      using o(2) g(2) by (auto simp: offsets_of_def)
    have es: "?es \<in> set pss" using k(1) by simp
    have key: "ai_intervals i = r \<and> ai_numSegments i = computeAlignedSegments t"
      if "(s, i, p) \<in> set ?es" "(ai_alloc i, t, d', Some r) \<in> set allocs" for s i p t d' r
    proof -
      have "info_key i \<in> info_key ` set infos" using in_infos [OF that(1) es] by blast
      then obtain t' d'' where "(ai_alloc i, t', d'', Some (ai_intervals i)) \<in> set allocs" "ai_numSegments i = computeAlignedSegments t'"
        unfolding keys by (auto simp: info_key_def)
      then show ?thesis using that(2) assms(3) by (metis Pair_inject eq_key_imp_eq_value option.inject)
    qed
    have k1: "ai_intervals i1 = r1" "ai_numSegments i1 = computeAlignedSegments t1" using key [OF e1(1)] a(1) e1(2) by auto
    have k2: "ai_intervals i2 = r2" "ai_numSegments i2 = computeAlignedSegments t2" using key [OF e2(1)] a(2) e2(2) by auto
    have ok1: "live i1 \<subseteq> s1" "0 \<le> p1" "p1 + ai_numSegments i1 \<le> pb_numSegments pb div 64" and ok2: "live i2 \<subseteq> s2"
      using g(1) e1(1) e2(1) by (auto simp: packing_def entry_ok_def)
    have sep: "separate (s1, i1, p1) (s2, i2, p2) \<or> separate (s2, i2, p2) (s1, i1, p1)" if "i1 \<noteq> i2"
      using g(1) e1(1) e2(1) that unfolding packing_def by (metis Pair_inject sorted_wrt_iff_nth_less in_set_conv_nth linorder_neqE_nat)
    show ?thesis
    proof (intro conjI impI)
      assume "abo_source o1 \<noteq> abo_source o2" and c: "covers r1 \<inter> covers r2 \<noteq> {}"
      then have "i1 \<noteq> i2" using e1(2) e2(2) by auto
      from sep [OF this] show "abo_offset o1 + 64 * computeAlignedSegments t1 \<le> abo_offset o2 \<or>
          abo_offset o2 + 64 * computeAlignedSegments t2 \<le> abo_offset o1"
        using c ok1(1) ok2 k1 k2 e1(2) e2(2) by (auto simp: separate_def)
    qed (use ok1 k1 e1(2) bytes in auto)
  qed
  ultimately show ?thesis unfolding run by blast
qed

text \<open>The instance: an allocation used at the positions 0 to 2 and 8 to 9 and one used in between.\<close>

definition packing_sample :: "alloc_entry list" where
  "packing_sample =
     [(0, RankedTensorType [64] (IntegerType Signless 8) NoEncoding, 0, Some [UseInterval 0 2, UseInterval 8 9]),
      (1, RankedTensorType [32] (IntegerType Signless 8) NoEncoding, 3, Some [UseInterval 3 5])]"

lemma packing_sample_optimze:
  "optimze (\<lambda>_ xs. xs) 0 packing_sample =
     [\<lparr>pb_numSegments = 64, pb_offsets = [\<lparr>abo_source = 0, abo_offset = 0\<rparr>, \<lparr>abo_source = 1, abo_offset = 0\<rparr>]\<rparr>]"
  by code_simp

theorem packing_sound_witness:
  "0 + 64 * computeAlignedSegments (RankedTensorType [32] (IntegerType Signless 8) NoEncoding) \<le> 64"
proof -
  have s: "\<forall>e \<in> set packing_sample. entry_valid e" "distinct (map fst packing_sample)"
    by (simp_all add: packing_sample_def entry_valid_def iv_ok_def iv_less_def)
  show ?thesis
    using packing_sound [of "\<lambda>_ xs. xs" packing_sample 0, OF _ s] unfolding packing_sample_optimze
    by (simp add: packing_sample_def)
qed

end
