(* ===== verification/MergeSort.thy ===== *)
theory MergeSort
  imports Prelude
begin

text \<open>
  \<open>mhlo/transforms/legalize_sort/legalize_sort.cc\<close>: the program a sort is lowered to, a bottom-up merge
  sort on blocks that an insertion sort with binary search has sorted. The definitions are the emitted
  loops, as the comments of the code spell them out; the operands of the sort lie in buffers of the
  same size, and a row is the list of their elements at one index.

  A buffer is allocated uninitialised: \<open>None\<close> is an element that was never stored, and loading one is
  undefined, as is an index out of bounds. An index is a natural number: the sums of indices do not wrap
  for buffers that fit in memory.
\<close>

section \<open>Buffers\<close>

type_synonym 'v row = "'v list"
type_synonym 'v buffer = "'v row option list"

definition loadTensorElements :: "'v row list \<Rightarrow> nat \<Rightarrow> 'v row res" where
  "loadTensorElements tensors index = (if index < length tensors then Inr (tensors ! index) else Inl Undefined)"

definition loadMemrefElements :: "'v buffer \<Rightarrow> nat \<Rightarrow> 'v row res" where
  "loadMemrefElements memrefs index =
     (if index < length memrefs then (case memrefs ! index of Some r \<Rightarrow> Inr r | None \<Rightarrow> Inl Undefined)
      else Inl Undefined)"

definition storeMemrefElements :: "'v buffer \<Rightarrow> nat \<Rightarrow> 'v row \<Rightarrow> 'v buffer res" where
  "storeMemrefElements memrefs index values' =
     (if index < length memrefs then Inr (memrefs[index := Some values']) else Inl Undefined)"

section \<open>Comparisons\<close>

text \<open>The arguments of the region alternate between the two rows.\<close>

type_synonym 'v comparator = "'v list \<Rightarrow> bool res"

definition emitComparison :: "'v row \<Rightarrow> 'v row \<Rightarrow> 'v comparator \<Rightarrow> bool res" where
  "emitComparison lhs rhs comparator = comparator (concat (map (\<lambda>(l, r). [l, r]) (zip lhs rhs)))"

section \<open>Insertion sort\<close>

definition kInsertionSortSize :: nat where "kInsertionSortSize = 16"

function emitBinarySearch :: "nat \<Rightarrow> nat \<Rightarrow> 'v row \<Rightarrow> 'v buffer \<Rightarrow> 'v comparator \<Rightarrow> nat res" where
  "emitBinarySearch left right pivots arrayMemrefs comparator =
     (if left < right then
        let mid = (left + right) div 2 in
        bnd (loadMemrefElements arrayMemrefs mid) (\<lambda>arraysAtMid.
        bnd (emitComparison pivots arraysAtMid comparator) (\<lambda>cond.
          if cond then emitBinarySearch left mid pivots arrayMemrefs comparator
          else emitBinarySearch (mid + 1) right pivots arrayMemrefs comparator))
      else Inr left)"
  by pat_completeness auto
termination
  by (relation "measure (\<lambda>(left, right, _). right - left)") auto

declare emitBinarySearch.simps [simp del]

text \<open>The loop in place of a \<open>memmove\<close> of \<open>n\<close> rows up to \<open>start\<close>, by one index up.\<close>

definition move_up :: "nat \<Rightarrow> nat \<Rightarrow> 'v buffer \<Rightarrow> 'v buffer res" where
  "move_up start n outputMemrefs =
     foldM (\<lambda>buf copyLoopIndex.
       let dstIndex = start - copyLoopIndex; srcIndex = dstIndex - 1 in
       bnd (loadMemrefElements buf srcIndex) (storeMemrefElements buf dstIndex)) outputMemrefs [0..<n]"

definition insert_pivot :: "nat \<Rightarrow> 'v row list \<Rightarrow> 'v comparator \<Rightarrow> 'v buffer \<Rightarrow> nat \<Rightarrow> 'v buffer res" where
  "insert_pivot lo inputTensors comparator outputMemrefs start =
     bnd (loadTensorElements inputTensors start) (\<lambda>pivots.
     bnd (emitBinarySearch lo start pivots outputMemrefs comparator) (\<lambda>index.
     bnd (move_up start (start - index) outputMemrefs) (\<lambda>outputMemrefs.
       storeMemrefElements outputMemrefs index pivots)))"

definition emitInsertionSort :: "nat \<Rightarrow> nat \<Rightarrow> 'v row list \<Rightarrow> 'v buffer \<Rightarrow> 'v comparator \<Rightarrow> 'v buffer res" where
  "emitInsertionSort lo hi inputTensors outputMemrefs comparator =
     bnd (loadTensorElements inputTensors lo) (\<lambda>first.
     bnd (storeMemrefElements outputMemrefs lo first) (\<lambda>outputMemrefs.
       foldM (insert_pivot lo inputTensors comparator) outputMemrefs [lo + 1..<hi]))"

section \<open>Merging\<close>

text \<open>The loop until one of the two intervals is used up: the indices written and read next.\<close>

function merge_while ::
  "nat \<Rightarrow> nat \<Rightarrow> 'v buffer \<Rightarrow> 'v comparator \<Rightarrow> 'v buffer \<Rightarrow> nat \<Rightarrow> nat \<Rightarrow> nat \<Rightarrow> ('v buffer \<times> nat \<times> nat \<times> nat) res" where
  "merge_while mid hi readBufs comparator writeBufs iOut i0 i1 =
     (if i0 < mid \<and> i1 < hi then
        bnd (loadMemrefElements readBufs i0) (\<lambda>vals0.
        bnd (loadMemrefElements readBufs i1) (\<lambda>vals1.
        bnd (emitComparison vals1 vals0 comparator) (\<lambda>cmp.
        bnd (storeMemrefElements writeBufs iOut (if cmp then vals1 else vals0)) (\<lambda>writeBufs.
          if cmp then merge_while mid hi readBufs comparator writeBufs (iOut + 1) i0 (i1 + 1)
          else merge_while mid hi readBufs comparator writeBufs (iOut + 1) (i0 + 1) i1))))
      else Inr (writeBufs, iOut, i0, i1))"
  by pat_completeness auto
termination
  by (relation "measure (\<lambda>(mid, hi, _, _, _, _, i0, i1). (mid - i0) + (hi - i1))") auto

declare merge_while.simps [simp del]

definition copy_rest :: "'v buffer \<Rightarrow> 'v buffer \<Rightarrow> nat \<Rightarrow> nat \<Rightarrow> nat \<Rightarrow> 'v buffer res" where
  "copy_rest readBufs writeBufs iOut start n =
     foldM (\<lambda>buf copyIndex.
       bnd (loadMemrefElements readBufs (start + copyIndex)) (storeMemrefElements buf (iOut + copyIndex)))
       writeBufs [0..<n]"

definition emitMerge :: "nat \<Rightarrow> nat \<Rightarrow> nat \<Rightarrow> 'v buffer \<Rightarrow> 'v buffer \<Rightarrow> 'v comparator \<Rightarrow> 'v buffer res" where
  "emitMerge lo mid hi readBufs writeBufs comparator =
     bnd (merge_while mid hi readBufs comparator writeBufs lo lo mid) (\<lambda>(writeBufs, iOut, i0, i1).
       let leftoverIn0 = i0 < mid;
           start = (if leftoverIn0 then i0 else i1);
           end' = (if leftoverIn0 then mid else hi) in
       copy_rest readBufs writeBufs iOut start (end' - start))"

section \<open>The merge sort\<close>

text \<open>The induction values of \<open>scf.for\<close> from \<open>lb\<close> below \<open>ub\<close>.\<close>

definition for_range :: "nat \<Rightarrow> nat \<Rightarrow> nat \<Rightarrow> nat list" where
  "for_range lb ub step = map (\<lambda>k. lb + k * step) [0..<(ub - lb + (step - 1)) div step]"

text \<open>
  The passes over the buffers. A size of zero would stay zero forever; it starts at
  \<open>kInsertionSortSize\<close>. The result is the parity and the buffers read and written last.
\<close>

function merge_passes ::
  "nat \<Rightarrow> 'v comparator \<Rightarrow> nat \<Rightarrow> bool \<Rightarrow> 'v buffer \<Rightarrow> 'v buffer \<Rightarrow> (bool \<times> 'v buffer \<times> 'v buffer) res" where
  "merge_passes size' comparator currentSize parity readBufs writeBufs =
     (if currentSize < size' then
        if currentSize = 0 then Inl OutOfFuel
        else
          let twoCurrentSize = currentSize + currentSize in
          bnd (foldM (\<lambda>writeBufs start.
                 let mid = min size' (start + currentSize);
                     end' = min size' (start + twoCurrentSize) in
                 emitMerge start mid end' readBufs writeBufs comparator)
               writeBufs (for_range 0 size' twoCurrentSize)) (\<lambda>writeBufs.
          merge_passes size' comparator twoCurrentSize (\<not> parity) writeBufs readBufs)
      else Inr (parity, readBufs, writeBufs))"
  by pat_completeness auto
termination
  by (relation "measure (\<lambda>(size', _, currentSize, _). size' - currentSize)") auto

declare merge_passes.simps [simp del]

text \<open>
  The parity, and what the two output buffers hold afterwards; \<open>staticSortDimSize\<close> is negative for a
  dynamic dimension.
\<close>

definition emitBottomUpMergeSort ::
  "nat \<Rightarrow> nat \<Rightarrow> int \<Rightarrow> 'v row list \<Rightarrow> 'v buffer \<Rightarrow> 'v buffer \<Rightarrow> 'v comparator \<Rightarrow>
   (bool \<times> 'v buffer \<times> 'v buffer) res" where
  "emitBottomUpMergeSort lo hi staticSortDimSize inputTensors outputs0 outputs1 comparator =
     (let size' = hi - lo in
      bnd (foldM (\<lambda>outputs0 start.
             let end' = min (start + kInsertionSortSize) size' + lo in
             emitInsertionSort start end' inputTensors outputs0 comparator)
           outputs0 (for_range 0 size' kInsertionSortSize)) (\<lambda>outputs0.
      if staticSortDimSize \<ge> 0 \<and> staticSortDimSize < int kInsertionSortSize
      then Inr (False, outputs0, outputs1)
      else
        bnd (merge_passes size' comparator kInsertionSortSize False outputs0 outputs1) (\<lambda>(parity, readBufs, writeBufs).
          Inr (if parity then (parity, writeBufs, readBufs) else (parity, readBufs, writeBufs)))))"

text \<open>
  The pattern: the nested loops over the other dimensions visit the slices along the sort dimension
  one after the other; each sorts its slice into those of the output and scratch buffers. The parity
  of the last slice is the one that counts.
\<close>

definition sort_slice ::
  "int \<Rightarrow> nat \<Rightarrow> 'v comparator \<Rightarrow> bool \<times> 'v buffer list \<times> 'v buffer list \<Rightarrow> 'v row list \<Rightarrow>
   (bool \<times> 'v buffer list \<times> 'v buffer list) res" where
  "sort_slice staticSortDimSize sortDimSize comparator st input =
     (case st of (_, outputs, scratches) \<Rightarrow>
        let fresh = replicate sortDimSize None in
        bnd (emitBottomUpMergeSort 0 sortDimSize staticSortDimSize input fresh fresh comparator) (\<lambda>(parity, out0, out1).
          Inr (parity, outputs @ [out0], scratches @ [out1])))"

definition SortOpPattern :: "int \<Rightarrow> nat \<Rightarrow> 'v comparator \<Rightarrow> 'v row list list \<Rightarrow> 'v buffer list res" where
  "SortOpPattern staticSortDimSize sortDimSize comparator slices =
     bnd (foldM (sort_slice staticSortDimSize sortDimSize comparator) (False, [], []) slices)
       (\<lambda>(parity, outputMemrefs, scratchMemrefs). Inr (if parity then scratchMemrefs else outputMemrefs))"

end
