(* ===== verification/MergeSortLaws.thy ===== *)
theory MergeSortLaws
  imports MergeSort "HOL-Library.Multiset"
begin

text \<open>
  The lowered sort is a stable sort. A result is described without reference to an algorithm: the rows
  are in order and every class of equivalent rows keeps its order; this determines the list. The
  orders are those C++ asks for, strict weak orders.
\<close>

section \<open>Stable sorts\<close>

locale weak_order =
  fixes lt :: "'a \<Rightarrow> 'a \<Rightarrow> bool"
  assumes asym: "lt x y \<Longrightarrow> \<not> lt y x"
    and negtrans: "lt x z \<Longrightarrow> lt x y \<or> lt y z"

definition equivalent :: "('a \<Rightarrow> 'a \<Rightarrow> bool) \<Rightarrow> 'a \<Rightarrow> 'a \<Rightarrow> bool" where
  "equivalent lt x y \<longleftrightarrow> \<not> lt x y \<and> \<not> lt y x"

definition in_order :: "('a \<Rightarrow> 'a \<Rightarrow> bool) \<Rightarrow> 'a list \<Rightarrow> bool" where
  "in_order lt xs \<longleftrightarrow> sorted_wrt (\<lambda>x y. \<not> lt y x) xs"

definition stable_sort_of :: "('a \<Rightarrow> 'a \<Rightarrow> bool) \<Rightarrow> 'a list \<Rightarrow> 'a list \<Rightarrow> bool" where
  "stable_sort_of lt xs ys \<longleftrightarrow> in_order lt ys \<and> (\<forall>x. filter (equivalent lt x) ys = filter (equivalent lt x) xs)"

lemma in_order_simps [simp]:
  "in_order lt []"
  "in_order lt (x # xs) \<longleftrightarrow> (\<forall>y \<in> set xs. \<not> lt y x) \<and> in_order lt xs"
  "in_order lt (xs @ ys) \<longleftrightarrow> in_order lt xs \<and> in_order lt ys \<and> (\<forall>x \<in> set xs. \<forall>y \<in> set ys. \<not> lt y x)"
  by (auto simp: in_order_def sorted_wrt_append)

text \<open>The merge and the insertion the loops carry out.\<close>

fun merge_rows :: "('a \<Rightarrow> 'a \<Rightarrow> bool) \<Rightarrow> 'a list \<Rightarrow> 'a list \<Rightarrow> 'a list" where
  "merge_rows lt (x # xs) (y # ys) = (if lt y x then y # merge_rows lt (x # xs) ys else x # merge_rows lt xs (y # ys))"
| "merge_rows lt [] ys = ys"
| "merge_rows lt xs [] = xs"

lemma merge_rows_Nil [simp]: "merge_rows lt xs [] = xs"
  by (cases xs) simp_all

lemma length_merge_rows [simp]: "length (merge_rows lt xs ys) = length xs + length ys"
  by (induction lt xs ys rule: merge_rows.induct) auto

lemma set_merge_rows [simp]: "set (merge_rows lt xs ys) = set xs \<union> set ys"
  by (induction lt xs ys rule: merge_rows.induct) auto

definition insert_row :: "('a \<Rightarrow> 'a \<Rightarrow> bool) \<Rightarrow> 'a list \<Rightarrow> 'a \<Rightarrow> 'a list" where
  "insert_row lt xs p = takeWhile (\<lambda>x. \<not> lt p x) xs @ p # dropWhile (\<lambda>x. \<not> lt p x) xs"

context weak_order
begin

lemma equivalent_refl [simp]: "equivalent lt x x"
  using asym by (auto simp: equivalent_def)

lemma equivalent_sym: "equivalent lt x y \<Longrightarrow> equivalent lt y x"
  by (auto simp: equivalent_def)

lemma less_equivalent: "lt x y \<Longrightarrow> equivalent lt z x \<Longrightarrow> lt z y"
  using negtrans by (auto simp: equivalent_def)

lemma lt_trans: "lt x y \<Longrightarrow> lt y z \<Longrightarrow> lt x z"
  using negtrans asym by blast

lemma not_lt_trans: "\<not> lt y x \<Longrightarrow> \<not> lt z y \<Longrightarrow> \<not> lt z x"
  using negtrans by blast

lemma merge_rows_stable:
  "in_order lt xs \<Longrightarrow> in_order lt ys \<Longrightarrow>
    in_order lt (merge_rows lt xs ys) \<and>
    filter (equivalent lt z) (merge_rows lt xs ys) = filter (equivalent lt z) xs @ filter (equivalent lt z) ys"
proof (induction xs ys rule: shuffles.induct)
  case (3 x xs y ys)
  show ?case
  proof (cases "lt y x")
    case True
    have "\<forall>v \<in> set (x # xs). lt y v" using 3(3) True negtrans by auto
    then have "\<forall>v \<in> set (x # xs). \<not> lt v y" "equivalent lt z y \<Longrightarrow> filter (equivalent lt z) (x # xs) = []"
      using asym less_equivalent unfolding filter_empty_conv by (blast, metis equivalent_def)
    then show ?thesis using 3 True by auto
  next
    case False
    then have "\<forall>v \<in> set ys. \<not> lt v x" using 3(4) not_lt_trans by auto
    then show ?thesis using 3 False by auto
  qed
qed simp_all

lemma insert_row_merge: "insert_row lt xs p = merge_rows lt xs [p]"
  by (induction xs) (auto simp: insert_row_def)

lemma stable_sort_of_merge:
  assumes "stable_sort_of lt xs xs'" and "stable_sort_of lt ys ys'"
  shows "stable_sort_of lt (xs @ ys) (merge_rows lt xs' ys')"
  using assms merge_rows_stable [of xs' ys'] by (simp add: stable_sort_of_def)

lemma stable_sort_of_insert: "stable_sort_of lt xs ys \<Longrightarrow> stable_sort_of lt (xs @ [p]) (insert_row lt ys p)"
  unfolding insert_row_merge by (rule stable_sort_of_merge) (simp_all add: stable_sort_of_def)

text \<open>A stable sort is a permutation, and there is only one.\<close>

lemma stable_sort_of_mset:
  assumes "stable_sort_of lt xs ys"
  shows "mset ys = mset xs"
proof (rule multiset_eqI)
  fix x
  have "count (mset (filter (equivalent lt x) zs)) x = count (mset zs) x" for zs by (simp add: mset_filter)
  then show "count (mset ys) x = count (mset xs) x" using assms by (metis stable_sort_of_def)
qed

lemma stable_sort_of_length: "stable_sort_of lt xs ys \<Longrightarrow> length ys = length xs"
  by (metis size_mset stable_sort_of_mset)

lemma stable_sort_of_unique: "stable_sort_of lt xs ys \<Longrightarrow> stable_sort_of lt xs zs \<Longrightarrow> ys = zs"
proof (induction ys arbitrary: xs zs)
  case Nil
  then show ?case by (metis length_0_conv stable_sort_of_length)
next
  case (Cons y ys)
  have eq: "filter (equivalent lt x) (y # ys) = filter (equivalent lt x) zs" for x
    using Cons.prems by (simp add: stable_sort_of_def)
  have sets: "set (y # ys) = set zs" using Cons.prems by (metis set_mset_mset stable_sort_of_mset)
  then obtain z zs' where zs: "zs = z # zs'" by (cases zs) auto
  have mem: "z \<in> set (y # ys)" "y \<in> set (z # zs')" using sets zs by (metis list.set_intros(1))+
  have "\<not> lt z y" using Cons.prems(1) mem(1) asym by (auto simp: stable_sort_of_def)
  moreover have "\<not> lt y z" using Cons.prems(2) mem(2) zs asym by (auto simp: stable_sort_of_def)
  ultimately have e: "equivalent lt y z" by (simp add: equivalent_def)
  then have "y = z" using eq [of y] zs by simp
  moreover have "ys = zs'"
  proof (rule Cons.IH)
    show "stable_sort_of lt ys ys" using Cons.prems(1) by (simp add: stable_sort_of_def)
    have "filter (equivalent lt x) zs' = filter (equivalent lt x) ys" for x
      using eq [of x] zs \<open>y = z\<close> by (auto split: if_splits)
    then show "stable_sort_of lt ys zs'" using Cons.prems(2) zs by (simp add: stable_sort_of_def)
  qed
  ultimately show ?case using zs by simp
qed

end

section \<open>Buffers\<close>

definition holds :: "'v buffer \<Rightarrow> nat \<Rightarrow> 'v row list \<Rightarrow> bool" where
  "holds buf lo rows \<longleftrightarrow> lo + length rows \<le> length buf \<and> (\<forall>i < length rows. buf ! (lo + i) = Some (rows ! i))"

definition splice_rows :: "'v buffer \<Rightarrow> nat \<Rightarrow> 'v row list \<Rightarrow> 'v buffer" where
  "splice_rows buf lo rows = take lo buf @ map Some rows @ drop (lo + length rows) buf"

lemma length_splice_rows [simp]: "lo + length rows \<le> length buf \<Longrightarrow> length (splice_rows buf lo rows) = length buf"
  by (simp add: splice_rows_def)

lemma splice_Nil [simp]: "splice_rows buf lo [] = buf"
  by (simp add: splice_rows_def)

lemma nth_splice:
  "lo + length rows \<le> length buf \<Longrightarrow> i < length buf \<Longrightarrow>
    splice_rows buf lo rows ! i = (if lo \<le> i \<and> i < lo + length rows then Some (rows ! (i - lo)) else buf ! i)"
  by (auto simp: splice_rows_def nth_append)

lemma splice_eqI:
  assumes "lo + length rows \<le> length buf" and "length buf' = length buf"
    and "\<And>i. i < length buf \<Longrightarrow> buf' ! i = (if lo \<le> i \<and> i < lo + length rows then Some (rows ! (i - lo)) else buf ! i)"
  shows "buf' = splice_rows buf lo rows"
  by (rule nth_equalityI) (simp_all add: assms nth_splice [OF assms(1)])

lemma holds_splice [simp]: "lo + length rows \<le> length buf \<Longrightarrow> holds (splice_rows buf lo rows) lo rows"
  by (simp add: holds_def nth_splice)

lemma splice_update:
  "i + length rows < length buf \<Longrightarrow> splice_rows (buf[i := Some r]) (i + 1) rows = splice_rows buf i (r # rows)"
  by (rule splice_eqI) (auto simp: nth_splice nth_list_update nth_Cons')

lemma load_holds: "holds buf lo rows \<Longrightarrow> i < length rows \<Longrightarrow> loadMemrefElements buf (lo + i) = Inr (rows ! i)"
  by (simp add: holds_def loadMemrefElements_def)

lemma load_holds': "holds buf lo rows \<Longrightarrow> lo \<le> i \<Longrightarrow> i < lo + length rows \<Longrightarrow> loadMemrefElements buf i = Inr (rows ! (i - lo))"
  using load_holds [of buf lo rows "i - lo"] by simp

lemma store_ok [simp]: "i < length buf \<Longrightarrow> storeMemrefElements buf i r = Inr (buf[i := Some r])"
  by (simp add: storeMemrefElements_def)

lemma move_up_moves:
  assumes "holds buf lo rows" and "start = lo + length rows" and "start < length buf" and "n \<le> length rows"
  shows "\<exists>buf'. move_up start n buf = Inr buf' \<and> length buf' = length buf \<and>
    (\<forall>j < length buf. buf' ! j = (if start - n < j \<and> j \<le> start then buf ! (j - 1) else buf ! j))"
  using assms(4)
proof (induction n)
  case 0
  then show ?case by (auto simp: move_up_def)
next
  case (Suc n)
  then obtain buf' where IH: "move_up start n buf = Inr buf'" "length buf' = length buf"
    "\<And>j. j < length buf \<Longrightarrow> buf' ! j = (if start - n < j \<and> j \<le> start then buf ! (j - 1) else buf ! j)" by auto
  have le: "n < length rows" using Suc.prems by simp
  have "buf ! (start - n - 1) = Some (rows ! (length rows - n - 1))"
  proof -
    have "start - n - 1 = lo + (length rows - n - 1)" using le assms(2) by simp
    moreover have "length rows - n - 1 < length rows" using le by simp
    ultimately show ?thesis using assms(1) by (metis holds_def)
  qed
  then have "buf' ! (start - n - 1) = buf ! (start - n - 1)" "loadMemrefElements buf' (start - n - 1) = Inr (rows ! (length rows - n - 1))"
    using IH(2) IH(3) [of "start - n - 1"] assms(2,3) le by (auto simp: loadMemrefElements_def)
  then have "move_up start (Suc n) buf = Inr (buf'[start - n := buf ! (start - n - 1)])"
    using IH(1,2) assms(3) \<open>buf ! (start - n - 1) = _\<close> unfolding move_up_def by (simp add: foldM_append Let_def)
  then show ?case using IH(2,3) assms(2,3) le by (auto simp: nth_list_update)
qed

lemma copy_rest_copies:
  assumes "holds rbuf start rows" and "iOut + length rows \<le> length wbuf"
  shows "copy_rest rbuf wbuf iOut start (length rows) = Inr (splice_rows wbuf iOut rows)"
proof -
  have "copy_rest rbuf wbuf iOut start n = Inr (splice_rows wbuf iOut (take n rows))" if "n \<le> length rows" for n
    using that
  proof (induction n)
    case (Suc n)
    let ?w = "splice_rows wbuf iOut (take n rows)"
    have "copy_rest rbuf wbuf iOut start (Suc n) = Inr (?w[iOut + n := Some (rows ! n)])"
      using Suc assms load_holds [OF assms(1), of n] unfolding copy_rest_def by (simp add: foldM_append)
    also have "?w[iOut + n := Some (rows ! n)] = splice_rows wbuf iOut (take (Suc n) rows)"
    proof (rule splice_eqI)
      fix i
      assume "i < length wbuf"
      moreover have "i - iOut < n" if "iOut \<le> i" "i < iOut + n" using that by arith
      ultimately show "?w[iOut + n := Some (rows ! n)] ! i = (if iOut \<le> i \<and> i < iOut + length (take (Suc n) rows)
          then Some (take (Suc n) rows ! (i - iOut)) else wbuf ! i)"
        using Suc.prems assms(2) by (auto simp: nth_splice nth_list_update)
    qed (use Suc.prems assms(2) in auto)
    finally show ?case .
  qed (simp add: copy_rest_def)
  from this [of "length rows"] show ?thesis by simp
qed

section \<open>The loops\<close>

text \<open>What the lowering needs of the comparator region: on the rows of the operands it is the order.\<close>

locale comparator_region = weak_order lt for lt :: "'v row \<Rightarrow> 'v row \<Rightarrow> bool" +
  fixes rows_ok :: "'v row \<Rightarrow> bool" and comparator :: "'v comparator"
  assumes compare: "rows_ok l \<Longrightarrow> rows_ok r \<Longrightarrow> emitComparison l r comparator = Inr (lt l r)"

definition isort :: "('a \<Rightarrow> 'a \<Rightarrow> bool) \<Rightarrow> 'a list \<Rightarrow> 'a list" where
  "isort lt xs = foldl (insert_row lt) [] xs"

lemma isort_snoc: "isort lt (xs @ [x]) = insert_row lt (isort lt xs) x"
  by (simp add: isort_def)

lemma length_insert_row [simp]: "length (insert_row lt xs p) = Suc (length xs)"
  by (metis add_Suc_right insert_row_def length_Cons length_append takeWhile_dropWhile_id)

lemma set_insert_row [simp]: "set (insert_row lt xs p) = insert p (set xs)"
  unfolding insert_row_def by (metis list.simps(15) set_append takeWhile_dropWhile_id Un_insert_right)

lemma length_isort [simp]: "length (isort lt xs) = length xs"
  by (induction xs rule: rev_induct) (simp_all add: isort_snoc, simp add: isort_def)

lemma set_isort [simp]: "set (isort lt xs) = set xs"
  by (induction xs rule: rev_induct) (simp_all add: isort_snoc, simp add: isort_def)

context comparator_region
begin

lemma isort_stable: "stable_sort_of lt xs (isort lt xs)"
proof (induction xs rule: rev_induct)
  case Nil
  then show ?case by (simp add: isort_def stable_sort_of_def)
next
  case (snoc x xs)
  then show ?case by (simp add: isort_snoc stable_sort_of_insert)
qed

lemma search_finds:
  assumes "holds buf lo ys" and "in_order lt ys" and "\<forall>r \<in> set ys. rows_ok r" and "rows_ok p"
    and "lo \<le> left" and "left \<le> right" and "right \<le> lo + length ys"
    and "\<forall>j < left - lo. \<not> lt p (ys ! j)" and "\<forall>j. right - lo \<le> j \<and> j < length ys \<longrightarrow> lt p (ys ! j)"
  shows "emitBinarySearch left right p buf comparator = Inr (lo + length (takeWhile (\<lambda>y. \<not> lt p y) ys))"
  using assms(5-)
proof (induction "right - left" arbitrary: left right rule: less_induct)
  case less
  show ?case
  proof (cases "left < right")
    case False
    then have "left = right" using less.prems(2) by simp
    then have "takeWhile (\<lambda>y. \<not> lt p y) ys = take (left - lo) ys"
      by (intro takeWhile_eq_take_P_nth) (use less.prems in auto)
    then have "length (takeWhile (\<lambda>y. \<not> lt p y) ys) = left - lo" using less.prems by simp
    then show ?thesis using False less.prems(1) by (simp add: emitBinarySearch.simps)
  next
    case True
    define mid where "mid = (left + right) div 2"
    have mid: "left \<le> mid" "mid < right" using True by (auto simp: mid_def)
    define m where "m = mid - lo"
    have m: "m < length ys" "mid = lo + m" using mid less.prems by (auto simp: m_def)
    have load: "loadMemrefElements buf mid = Inr (ys ! m)" unfolding m(2) by (rule load_holds [OF assms(1) m(1)])
    have cmp: "emitComparison p (ys ! m) comparator = Inr (lt p (ys ! m))" using compare assms(3,4) m(1) by simp
    have ord: "\<not> lt (ys ! j) (ys ! i)" if "i < j" "j < length ys" for i j
      using assms(2) that sorted_wrt_nth_less unfolding in_order_def by fastforce
    show ?thesis
    proof (cases "lt p (ys ! m)")
      case lt: True
      have above: "lt p (ys ! j)" if "mid - lo \<le> j" "j < length ys" for j
        using that lt negtrans [OF lt, of "ys ! j"] ord [of m j] by (cases "j = m") (auto simp: m_def)
      have "emitBinarySearch left mid p buf comparator = Inr (lo + length (takeWhile (\<lambda>y. \<not> lt p y) ys))"
        by (rule less.hyps) (use mid less.prems above in auto)
      then show ?thesis
        using True load cmp lt by (subst emitBinarySearch.simps) (simp add: Let_def mid_def [symmetric])
    next
      case nlt: False
      have below: "\<not> lt p (ys ! j)" if "j < mid + 1 - lo" for j
        using that nlt negtrans [of p "ys ! j" "ys ! m"] ord [of j m] m by (cases "j = m") auto
      have "emitBinarySearch (mid + 1) right p buf comparator = Inr (lo + length (takeWhile (\<lambda>y. \<not> lt p y) ys))"
        by (rule less.hyps) (use mid less.prems below in auto)
      then show ?thesis
        using True load cmp nlt by (subst emitBinarySearch.simps) (simp add: Let_def mid_def [symmetric])
    qed
  qed
qed

lemma insert_pivot_inserts:
  assumes "holds buf lo ys" and "in_order lt ys" and "\<forall>r \<in> set ys. rows_ok r" and "rows_ok (inputs ! (lo + length ys))"
    and "lo + length ys < length buf" and "lo + length ys < length inputs"
  shows "insert_pivot lo inputs comparator buf (lo + length ys) =
    Inr (splice_rows buf lo (insert_row lt ys (inputs ! (lo + length ys))))"
proof -
  let ?start = "lo + length ys"
  let ?p = "inputs ! ?start"
  let ?k = "length (takeWhile (\<lambda>y. \<not> lt ?p y) ys)"
  have k: "?k \<le> length ys" by (rule length_takeWhile_le)
  have found: "emitBinarySearch lo ?start ?p buf comparator = Inr (lo + ?k)"
    by (rule search_finds [OF assms(1-4)]) auto
  obtain buf' where move: "move_up ?start (length ys - ?k) buf = Inr buf'" "length buf' = length buf"
    "\<And>j. j < length buf \<Longrightarrow> buf' ! j = (if ?start - (length ys - ?k) < j \<and> j \<le> ?start then buf ! (j - 1) else buf ! j)"
    using move_up_moves [OF assms(1) refl assms(5), of "length ys - ?k"] by auto
  let ?rows = "insert_row lt ys ?p"
  have rows: "?rows ! i = (if i < ?k then ys ! i else if i = ?k then ?p else ys ! (i - 1))" if "i \<le> length ys" for i
  proof -
    have "takeWhile (\<lambda>y. \<not> lt ?p y) ys = take ?k ys" by (rule takeWhile_eq_take)
    moreover have "dropWhile (\<lambda>y. \<not> lt ?p y) ys = drop ?k ys" by (rule dropWhile_eq_drop)
    ultimately show ?thesis using that k
      by (auto simp: insert_row_def nth_append nth_Cons' takeWhile_nth)
  qed
  have old: "buf ! (lo + i) = Some (ys ! i)" if "i < length ys" for i using assms(1) that by (simp add: holds_def)
  have "buf'[lo + ?k := Some ?p] = splice_rows buf lo ?rows"
  proof (rule splice_eqI)
    fix i
    assume i: "i < length buf"
    consider "i < lo" | "lo \<le> i" "i < lo + ?k" | "i = lo + ?k" | "lo + ?k < i" "i \<le> ?start" | "?start < i" by linarith
    then show "buf'[lo + ?k := Some ?p] ! i = (if lo \<le> i \<and> i < lo + length ?rows then Some (?rows ! (i - lo)) else buf ! i)"
    proof cases
      case 2
      then show ?thesis using i k move(2,3) rows [of "i - lo"] old [of "i - lo"] by auto
    next
      case 4
      then obtain d where d: "i = Suc (lo + ?k + d)" using less_imp_Suc_add by blast
      then show ?thesis using 4 i k move(2,3) rows [of "Suc (?k + d)"] old [of "?k + d"] by (simp add: Suc_diff_le add.assoc)
    qed (use i k move(2,3) rows in auto)
  qed (use move(2) assms(5) in auto)
  moreover have "storeMemrefElements buf' (lo + ?k) ?p = Inr (buf'[lo + ?k := Some ?p])"
    using move(2) assms(5) k by simp
  ultimately show ?thesis
    using found move(1) assms(6) by (simp add: insert_pivot_def loadTensorElements_def)
qed

lemma emitInsertionSort_sorts:
  assumes "lo < hi" and "hi \<le> length inputs" and "hi \<le> length buf" and "\<forall>r \<in> set inputs. rows_ok r"
  shows "emitInsertionSort lo hi inputs buf comparator = Inr (splice_rows buf lo (isort lt (take (hi - lo) (drop lo inputs))))"
proof -
  let ?xs = "\<lambda>m. take m (drop lo inputs)"
  have "foldM (insert_pivot lo inputs comparator) (buf[lo := Some (inputs ! lo)]) [lo + 1..<lo + Suc m] =
    Inr (splice_rows buf lo (isort lt (?xs (Suc m))))" if "lo + Suc m \<le> hi" for m
    using that
  proof (induction m)
    case 0
    have "?xs (Suc 0) = [inputs ! lo]" using assms by (simp add: take_Suc_conv_app_nth)
    then show ?case using assms(1,3) splice_update [of lo "[]" buf "inputs ! lo"] by (simp add: isort_def insert_row_def)
  next
    case (Suc m)
    let ?ys = "isort lt (?xs (Suc m))"
    let ?b = "splice_rows buf lo ?ys"
    have len: "length ?ys = Suc m" using Suc.prems assms(2) by simp
    have ok: "\<forall>r \<in> set ?ys. rows_ok r" using assms(4) by (auto dest: in_set_takeD in_set_dropD)
    have "insert_pivot lo inputs comparator ?b (lo + length ?ys) = Inr (splice_rows ?b lo (insert_row lt ?ys (inputs ! (lo + length ?ys))))"
    proof (rule insert_pivot_inserts)
      show "holds ?b lo ?ys" using len Suc.prems assms(3) by simp
      show "in_order lt ?ys" using isort_stable by (simp add: stable_sort_of_def)
    qed (use ok len Suc.prems assms in auto)
    moreover have "splice_rows ?b lo (insert_row lt ?ys p) = splice_rows buf lo (insert_row lt ?ys p)" for p
      by (rule splice_eqI) (use len Suc.prems assms(3) in \<open>auto simp: nth_splice\<close>)
    moreover have "?xs (Suc (Suc m)) = ?xs (Suc m) @ [inputs ! (lo + Suc m)]"
      using Suc.prems assms(2) by (simp add: take_Suc_conv_app_nth)
    ultimately show ?case using Suc len by (simp add: foldM_append isort_snoc)
  qed
  from this [of "hi - lo - 1"] show ?thesis
    using assms(1,2,3) Suc_diff_Suc [OF assms(1)] by (simp add: emitInsertionSort_def loadTensorElements_def)
qed

end

section \<open>Blocks\<close>

text \<open>Both the insertion sort and a merge pass work block by block.\<close>

lemma for_range_rec:
  assumes "0 < step"
  shows "for_range lb ub step = (if lb < ub then lb # for_range (lb + step) ub step else [])"
proof (cases "lb < ub")
  case True
  have "(ub - lb + (step - 1)) div step = Suc ((ub - (lb + step) + (step - 1)) div step)"
  proof (cases "lb + step \<le> ub")
    case le: True
    then have e: "ub - lb + (step - 1) = (ub - (lb + step) + (step - 1)) + step" using assms by simp
    show ?thesis unfolding e using assms by (simp only: div_add_self2 Suc_eq_plus1)
  next
    case False
    then have e: "ub - lb + (step - 1) = (ub - lb - 1) + step" "ub - lb - 1 < step" using True assms by auto
    show ?thesis unfolding e(1) using e(2) False div_add_self2 [of step "ub - lb - 1"] assms by simp
  qed
  then show ?thesis using True by (simp add: for_range_def upt_conv_Cons map_Suc_upt [symmetric] o_def add.assoc del: upt_Suc map_Suc_upt)
next
  case False
  then have "(ub - lb + (step - 1)) div step = 0" using assms by simp
  then show ?thesis using False by (simp add: for_range_def)
qed

function blocks :: "('a list \<Rightarrow> 'a list) \<Rightarrow> nat \<Rightarrow> 'a list \<Rightarrow> 'a list" where
  "blocks f c xs = (if xs = [] \<or> c = 0 then [] else f (take c xs) @ blocks f c (drop c xs))"
  by pat_completeness auto
termination
  by (relation "measure (\<lambda>(f, c, xs). length xs)") auto

declare blocks.simps [simp del]

lemma blocks_Nil [simp]: "blocks f c [] = []"
  by (simp add: blocks.simps)

lemma length_blocks:
  assumes "\<And>b. length (f b) = length b" and "0 < c"
  shows "length (blocks f c xs) = length xs"
proof (induction "length xs" arbitrary: xs rule: less_induct)
  case less
  show ?case
  proof (cases "xs = []")
    case False
    then have "length (blocks f c (drop c xs)) = length (drop c xs)" using less assms(2) by simp
    then show ?thesis using assms by (subst blocks.simps) auto
  qed simp
qed

lemma block_of_blocks:
  assumes "\<And>b. length (f b) = length b" and "0 < c"
  shows "take c (drop (k * c) (blocks f c xs)) = f (take c (drop (k * c) xs))"
proof (induction k arbitrary: xs)
  have nil: "f [] = []" using assms(1) [of "[]"] by simp
  {
    case 0
    show ?case
    proof (cases "xs = []")
      case False
      have "length (f (take c xs)) = min (length xs) c" using assms(1) by simp
      then show ?thesis using False assms(2) by (cases "c \<le> length xs") (simp_all add: blocks.simps [of f c xs])
    qed (use nil in simp)
  next
    case (Suc k)
    show ?case
    proof (cases "c \<le> length xs")
      case True
      then have "xs \<noteq> []" using assms(2) by auto
      moreover have "length (f (take c xs)) = c" using True assms(1) by simp
      ultimately show ?thesis using Suc [of "drop c xs"] assms(2) by (simp add: blocks.simps [of f c xs] add.commute)
    next
      case False
      then show ?thesis using length_blocks [of f c xs] assms nil by simp
    qed
  }
qed

lemma splice_splice:
  "s + length a + length b \<le> length w \<Longrightarrow> splice_rows (splice_rows w s a) (s + length a) b = splice_rows w s (a @ b)"
  by (rule splice_eqI) (auto simp: nth_splice nth_append)

lemma fold_blocks:
  assumes step: "\<And>w s. s < length xs \<Longrightarrow> length w = n \<Longrightarrow> run w s = Inr (splice_rows w s (f (take c (drop s xs))))"
    and "\<And>b. length (f b) = length b" and "0 < c" and "length xs \<le> n"
  shows "length w = n \<Longrightarrow> foldM run w (for_range s (length xs) c) = Inr (splice_rows w s (blocks f c (drop s xs)))"
proof (induction "length xs - s" arbitrary: s w rule: less_induct)
  case less
  show ?case
  proof (cases "s < length xs")
    case False
    then show ?thesis using assms(3) by (simp add: for_range_rec [of c s])
  next
    case True
    let ?b = "f (take c (drop s xs))"
    have len: "length ?b = min (length xs - s) c" using assms(2) by simp
    have w: "length (splice_rows w s ?b) = n" using True less.prems assms(4) len by simp
    have IH: "foldM run (splice_rows w s ?b) (for_range (s + c) (length xs) c) =
      Inr (splice_rows (splice_rows w s ?b) (s + c) (blocks f c (drop (s + c) xs)))"
      by (rule less.hyps) (use True assms(3) w in auto)
    have "splice_rows (splice_rows w s ?b) (s + c) (blocks f c (drop (s + c) xs)) = splice_rows w s (?b @ blocks f c (drop (s + c) xs))"
    proof (cases "s + c \<le> length xs")
      case True
      then have "length ?b = c" using len by simp
      moreover have "length (blocks f c (drop (s + c) xs)) = length xs - (s + c)" using length_blocks [of f c, OF assms(2,3)] by simp
      ultimately show ?thesis using splice_splice [of s ?b "blocks f c (drop (s + c) xs)" w] True less.prems assms(4) by simp
    qed simp
    moreover have "drop s xs \<noteq> []" using True by simp
    ultimately show ?thesis
      using True IH step [OF True less.prems] assms(3)
      by (simp add: for_range_rec [of c s] blocks.simps [of f c "drop s xs"] add.commute)
  qed
qed

end
