(* ===== verification/MergeSortRun.thy ===== *)
theory MergeSortRun
  imports MergeSortLaws
begin

text \<open>
  The whole lowered sort: what a merge and a pass of merges write, how sorted runs grow from pass to
  pass, and that all slices along the sort dimension end with the same parity.
\<close>

section \<open>Runs\<close>

text \<open>Every block of \<open>c\<close> rows is the stable sort of the same block of the input.\<close>

definition runs :: "('a \<Rightarrow> 'a \<Rightarrow> bool) \<Rightarrow> nat \<Rightarrow> 'a list \<Rightarrow> 'a list \<Rightarrow> bool" where
  "runs lt c xs ys \<longleftrightarrow> length ys = length xs \<and>
     (\<forall>k. stable_sort_of lt (take c (drop (k * c) xs)) (take c (drop (k * c) ys)))"

definition merge_halves :: "('a \<Rightarrow> 'a \<Rightarrow> bool) \<Rightarrow> nat \<Rightarrow> 'a list \<Rightarrow> 'a list" where
  "merge_halves lt c b = merge_rows lt (take c b) (drop c b)"

lemma length_merge_halves [simp]: "length (merge_halves lt c b) = length b"
  by (cases "c \<le> length b") (simp_all add: merge_halves_def)

context weak_order
begin

lemma runs_sorted: "runs lt c xs ys \<Longrightarrow> length xs \<le> c \<Longrightarrow> stable_sort_of lt xs ys"
  unfolding runs_def by (metis drop0 mult_0 take_all)

lemma runs_merge:
  assumes "runs lt c xs ys" and "0 < c"
  shows "runs lt (c + c) xs (blocks (merge_halves lt c) (c + c) ys)"
  unfolding runs_def
proof (intro conjI allI)
  show "length (blocks (merge_halves lt c) (c + c) ys) = length xs"
    using assms length_blocks [of "merge_halves lt c" "c + c" ys] by (simp add: runs_def)
  fix k
  have kk: "k * (c + c) = 2 * k * c" by (simp add: mult_2 [symmetric])
  have first: "take c (take (c + c) (drop (k * (c + c)) zs)) = take c (drop (2 * k * c) zs)" for zs :: "'a list"
    unfolding kk by simp
  have second: "drop c (take (c + c) (drop (k * (c + c)) zs)) = take c (drop ((2 * k + 1) * c) zs)" for zs :: "'a list"
    unfolding kk by (simp add: drop_take add.commute)
  have whole: "zs = take c zs @ drop c zs" for zs :: "'a list" by simp
  have "stable_sort_of lt (take c (drop (2 * k * c) xs) @ take c (drop ((2 * k + 1) * c) xs))
    (merge_rows lt (take c (drop (2 * k * c) ys)) (take c (drop ((2 * k + 1) * c) ys)))"
    using assms(1) unfolding runs_def by (intro stable_sort_of_merge) blast+
  moreover have "take (c + c) (drop (k * (c + c)) xs) = take c (drop (2 * k * c) xs) @ take c (drop ((2 * k + 1) * c) xs)"
    using whole [of "take (c + c) (drop (k * (c + c)) xs)"] unfolding first second .
  moreover have "take (c + c) (drop (k * (c + c)) (blocks (merge_halves lt c) (c + c) ys)) =
    merge_rows lt (take c (drop (2 * k * c) ys)) (take c (drop ((2 * k + 1) * c) ys))"
    using block_of_blocks [of "merge_halves lt c" "c + c" k ys] assms(2) unfolding merge_halves_def first second by simp
  ultimately show "stable_sort_of lt (take (c + c) (drop (k * (c + c)) xs))
    (take (c + c) (drop (k * (c + c)) (blocks (merge_halves lt c) (c + c) ys)))" by simp
qed

end

lemma set_blocks:
  assumes "\<And>b. set (f b) = set b" and "0 < c"
  shows "set (blocks f c xs) = set xs"
proof (induction "length xs" arbitrary: xs rule: less_induct)
  case less
  show ?case
  proof (cases "xs = []")
    case False
    then have "set (blocks f c xs) = set (take c xs) \<union> set (drop c xs)"
      using less assms by (simp add: blocks.simps [of f c xs])
    then show ?thesis by (metis append_take_drop_id set_append)
  qed simp
qed

lemma set_merge_halves [simp]: "set (merge_halves lt c b) = set b"
  unfolding merge_halves_def set_merge_rows by (metis append_take_drop_id set_append)

section \<open>The merge\<close>

lemma holds_Cons: "holds buf lo (r # rows) \<Longrightarrow> holds buf (lo + 1) rows"
  by (auto simp: holds_def)

lemma holds_part: "s \<le> length ys \<Longrightarrow> holds (map Some ys) s (take c (drop s ys))"
  by (auto simp: holds_def)

context comparator_region
begin

definition merge_from :: "nat \<Rightarrow> nat \<Rightarrow> 'v buffer \<Rightarrow> 'v buffer \<Rightarrow> nat \<Rightarrow> nat \<Rightarrow> nat \<Rightarrow> 'v buffer res" where
  "merge_from mid hi rbuf wbuf iOut i0 i1 =
     bnd (merge_while mid hi rbuf comparator wbuf iOut i0 i1) (\<lambda>(wbuf, iOut, i0, i1).
       copy_rest rbuf wbuf iOut (if i0 < mid then i0 else i1) ((if i0 < mid then mid else hi) - (if i0 < mid then i0 else i1)))"

lemma merge_from_merges:
  assumes "holds rbuf i0 xs" and "holds rbuf i1 ys" and "\<forall>r \<in> set xs \<union> set ys. rows_ok r"
    and "iOut + length xs + length ys \<le> length wbuf"
  shows "merge_from (i0 + length xs) (i1 + length ys) rbuf wbuf iOut i0 i1 = Inr (splice_rows wbuf iOut (merge_rows lt xs ys))"
  using assms
proof (induction xs ys arbitrary: i0 i1 iOut wbuf rule: shuffles.induct)
  case (1 ys)
  then show ?case using copy_rest_copies [of rbuf i1 ys iOut wbuf] by (simp add: merge_from_def merge_while.simps)
next
  case (2 xs)
  show ?case
  proof (cases xs)
    case Nil
    then show ?thesis using copy_rest_copies [of rbuf i1 "[]" iOut wbuf] 2 by (simp add: merge_from_def merge_while.simps)
  next
    case (Cons x xs')
    then show ?thesis using copy_rest_copies [of rbuf i0 xs iOut wbuf] 2 by (simp add: merge_from_def merge_while.simps)
  qed
next
  case (3 x xs y ys)
  have load: "loadMemrefElements rbuf i0 = Inr x" "loadMemrefElements rbuf i1 = Inr y"
    using load_holds [OF 3(3), of 0] load_holds [OF 3(4), of 0] by simp_all
  have cmp: "emitComparison y x comparator = Inr (lt y x)" using compare 3(5) by simp
  have w: "iOut < length wbuf" using 3(6) by simp
  let ?hi = "i1 + length (y # ys)" and ?mid = "i0 + length (x # xs)"
  have step: "merge_from ?mid ?hi rbuf wbuf iOut i0 i1 =
    (if lt y x then merge_from ?mid ?hi rbuf (wbuf[iOut := Some y]) (iOut + 1) i0 (i1 + 1)
     else merge_from ?mid ?hi rbuf (wbuf[iOut := Some x]) (iOut + 1) (i0 + 1) i1)"
    unfolding merge_from_def merge_while.simps [of ?mid ?hi rbuf comparator wbuf iOut i0 i1] using load cmp w by simp
  show ?case
  proof (cases "lt y x")
    case True
    have "merge_from ?mid (i1 + 1 + length ys) rbuf (wbuf[iOut := Some y]) (iOut + 1) i0 (i1 + 1) =
      Inr (splice_rows (wbuf[iOut := Some y]) (iOut + 1) (merge_rows lt (x # xs) ys))"
      by (rule 3(2)) (use 3(3-) holds_Cons [OF 3(4)] in auto)
    moreover have "splice_rows (wbuf[iOut := Some y]) (iOut + 1) (merge_rows lt (x # xs) ys) = splice_rows wbuf iOut (y # merge_rows lt (x # xs) ys)"
      by (rule splice_update) (use 3(6) in simp)
    ultimately show ?thesis using True step by simp
  next
    case False
    have "merge_from (i0 + 1 + length xs) ?hi rbuf (wbuf[iOut := Some x]) (iOut + 1) (i0 + 1) i1 =
      Inr (splice_rows (wbuf[iOut := Some x]) (iOut + 1) (merge_rows lt xs (y # ys)))"
      by (rule 3(1)) (use 3(3-) holds_Cons [OF 3(3)] in auto)
    moreover have "splice_rows (wbuf[iOut := Some x]) (iOut + 1) (merge_rows lt xs (y # ys)) = splice_rows wbuf iOut (x # merge_rows lt xs (y # ys))"
      by (rule splice_update) (use 3(6) in simp)
    ultimately show ?thesis using False step by simp
  qed
qed

lemma emitMerge_merges:
  assumes "s < length ys" and "0 < c" and "\<forall>r \<in> set ys. rows_ok r" and "length wbuf = length ys"
  shows "emitMerge s (min (length ys) (s + c)) (min (length ys) (s + (c + c))) (map Some ys) wbuf comparator =
    Inr (splice_rows wbuf s (merge_halves lt c (take (c + c) (drop s ys))))"
proof -
  let ?a = "take c (drop s ys)" and ?b = "take c (drop (s + c) ys)"
  let ?mid = "min (length ys) (s + c)"
  have h: "holds (map Some ys) s ?a" "holds (map Some ys) ?mid ?b"
    using assms(1) holds_part [of s ys c] holds_part [of "s + c" ys c] by (auto simp: min_def holds_def)
  have e: "s + length ?a = ?mid" "?mid + length ?b = min (length ys) (s + (c + c))" using assms(1) by auto
  have "merge_from (s + length ?a) (?mid + length ?b) (map Some ys) wbuf s s ?mid = Inr (splice_rows wbuf s (merge_rows lt ?a ?b))"
    by (rule merge_from_merges [OF h]) (use assms in \<open>auto dest: in_set_takeD in_set_dropD\<close>)
  moreover have "merge_rows lt ?a ?b = merge_halves lt c (take (c + c) (drop s ys))"
    by (simp add: merge_halves_def drop_take add.commute)
  ultimately show ?thesis unfolding e by (simp add: emitMerge_def merge_from_def Let_def)
qed

section \<open>The passes\<close>

function parity_after :: "nat \<Rightarrow> nat \<Rightarrow> bool \<Rightarrow> bool" where
  "parity_after n c parity = (if c < n \<and> c \<noteq> 0 then parity_after n (c + c) (\<not> parity) else parity)"
  by pat_completeness auto
termination by (relation "measure (\<lambda>(n, c, _). n - c)") auto

declare parity_after.simps [simp del]

lemma splice_all: "length w = length rows \<Longrightarrow> splice_rows w 0 rows = map Some rows"
  by (simp add: splice_rows_def)

lemma passes_sort:
  assumes "runs lt c xs ys" and "0 < c" and "\<forall>r \<in> set ys. rows_ok r" and "length w = length ys" and "n = length ys"
  shows "\<exists>zs w'. merge_passes n comparator c parity (map Some ys) w = Inr (parity_after n c parity, map Some zs, w') \<and>
    stable_sort_of lt xs zs"
  using assms
proof (induction "n - c" arbitrary: c ys w parity rule: less_induct)
  case less
  show ?case
  proof (cases "c < n")
    case False
    have "length ys = length xs" using less.prems(1) by (simp add: runs_def)
    then have "stable_sort_of lt xs ys" using runs_sorted [OF less.prems(1)] less.prems(5) False by simp
    then show ?thesis using False by (auto simp: merge_passes.simps parity_after.simps)
  next
    case True
    let ?zs = "blocks (merge_halves lt c) (c + c) ys"
    let ?run = "\<lambda>w s. emitMerge s (min n (s + c)) (min n (s + (c + c))) (map Some ys) w comparator"
    have len: "length ?zs = n" using length_blocks [of "merge_halves lt c" "c + c" ys] less.prems by simp
    have "foldM ?run w (for_range 0 (length ys) (c + c)) = Inr (splice_rows w 0 (blocks (merge_halves lt c) (c + c) (drop 0 ys)))"
      by (rule fold_blocks [where n = n]) (use less.prems emitMerge_merges in auto)
    then have fold: "foldM ?run w (for_range 0 n (c + c)) = Inr (map Some ?zs)"
      using less.prems len by (simp add: splice_all)
    have set: "set ?zs = set ys" by (rule set_blocks) (use less.prems(2) in auto)
    have step: "merge_passes n comparator c parity (map Some ys) w = merge_passes n comparator (c + c) (\<not> parity) (map Some ?zs) (map Some ys)"
      using True fold less.prems(2) by (subst merge_passes.simps) (simp add: Let_def)
    have parity: "parity_after n c parity = parity_after n (c + c) (\<not> parity)"
      using True less.prems(2) by (subst parity_after.simps) simp
    show ?thesis unfolding step parity
      by (rule less.hyps) (use True less.prems runs_merge set len in auto)
  qed
qed

section \<open>The sort\<close>

definition final_parity :: "int \<Rightarrow> nat \<Rightarrow> bool" where
  "final_parity st n = (if 0 \<le> st \<and> st < int kInsertionSortSize then False else parity_after n kInsertionSortSize False)"

lemma bottom_up_sorts:
  assumes "\<forall>r \<in> set inputs. rows_ok r" and "length o0 = length inputs" and "length o1 = length inputs"
    and "0 \<le> st \<Longrightarrow> st = int (length inputs)"
  shows "\<exists>b0 b1 ys. emitBottomUpMergeSort 0 (length inputs) st inputs o0 o1 comparator =
      Inr (final_parity st (length inputs), b0, b1) \<and>
    (if final_parity st (length inputs) then b1 else b0) = map Some ys \<and> stable_sort_of lt inputs ys"
proof -
  let ?n = "length inputs"
  let ?run = "\<lambda>buf start. emitInsertionSort start (min (start + kInsertionSortSize) ?n) inputs buf comparator"
  let ?ys = "blocks (isort lt) kInsertionSortSize inputs"
  have k: "0 < kInsertionSortSize" by (simp add: kInsertionSortSize_def)
  have len: "length ?ys = ?n" using length_blocks [of "isort lt" kInsertionSortSize inputs] k by simp
  have "foldM ?run o0 (for_range 0 ?n kInsertionSortSize) = Inr (splice_rows o0 0 (blocks (isort lt) kInsertionSortSize (drop 0 inputs)))"
  proof (rule fold_blocks [where n = ?n])
    fix w :: "'v buffer" and s
    assume s: "s < ?n" and w: "length w = ?n"
    have "take (min (s + kInsertionSortSize) ?n - s) (drop s inputs) = take kInsertionSortSize (drop s inputs)"
      by (cases "s + kInsertionSortSize \<le> ?n") auto
    then show "?run w s = Inr (splice_rows w s (isort lt (take kInsertionSortSize (drop s inputs))))"
      using emitInsertionSort_sorts [of s "min (s + kInsertionSortSize) ?n" inputs w] s w k assms(1) by simp
  qed (use assms(2) k in auto)
  then have fold: "foldM ?run o0 (for_range 0 ?n kInsertionSortSize) = Inr (map Some ?ys)"
    using assms(2) len by (simp add: splice_all)
  have "runs lt kInsertionSortSize inputs ?ys"
    using block_of_blocks [of "isort lt" kInsertionSortSize _ inputs] k len isort_stable by (simp add: runs_def)
  note r = this
  show ?thesis
  proof (cases "0 \<le> st \<and> st < int kInsertionSortSize")
    case True
    then have "stable_sort_of lt inputs ?ys" using runs_sorted [OF r] assms(4) by simp
    then show ?thesis using True fold by (auto simp: emitBottomUpMergeSort_def final_parity_def)
  next
    case False
    have set: "set ?ys = set inputs" by (rule set_blocks) (use k in simp_all)
    have "\<exists>zs w'. merge_passes ?n comparator kInsertionSortSize False (map Some ?ys) o1 =
        Inr (parity_after ?n kInsertionSortSize False, map Some zs, w') \<and> stable_sort_of lt inputs zs"
      by (rule passes_sort [OF r k]) (use set assms(1,3) len in simp_all)
    then obtain zs w' where "merge_passes ?n comparator kInsertionSortSize False (map Some ?ys) o1 =
        Inr (parity_after ?n kInsertionSortSize False, map Some zs, w')" "stable_sort_of lt inputs zs" by blast
    then show ?thesis using False fold by (auto simp: emitBottomUpMergeSort_def final_parity_def)
  qed
qed

lemma pattern_sorts:
  assumes "\<forall>xs \<in> set slices. length xs = n \<and> (\<forall>r \<in> set xs. rows_ok r)" and "0 \<le> st \<Longrightarrow> st = int n"
  shows "\<exists>results. SortOpPattern st n comparator slices = Inr (map (map Some) results) \<and> list_all2 (stable_sort_of lt) slices results"
proof -
  have "\<exists>p outs scrs results. foldM (sort_slice st n comparator) (False, [], []) slices = Inr (p, outs, scrs) \<and>
      (slices \<noteq> [] \<longrightarrow> p = final_parity st n) \<and>
      (if final_parity st n then scrs else outs) = map (map Some) results \<and> list_all2 (stable_sort_of lt) slices results \<and>
      (slices = [] \<longrightarrow> outs = [] \<and> scrs = [])"
    using assms(1)
  proof (induction slices rule: rev_induct)
    case (snoc xs slices)
    obtain p outs scrs results where IH: "foldM (sort_slice st n comparator) (False, [], []) slices = Inr (p, outs, scrs)"
      "(if final_parity st n then scrs else outs) = map (map Some) results" "list_all2 (stable_sort_of lt) slices results"
      using snoc by auto
    have xs: "length xs = n" "\<forall>r \<in> set xs. rows_ok r" using snoc.prems by auto
    obtain b0 b1 ys where "emitBottomUpMergeSort 0 n st xs (replicate n None) (replicate n None) comparator = Inr (final_parity st n, b0, b1)"
      "(if final_parity st n then b1 else b0) = map Some ys" "stable_sort_of lt xs ys"
      using bottom_up_sorts [OF xs(2), of "replicate n None" "replicate n None" st] xs(1) assms(2) by auto
    then have step: "sort_slice st n comparator (p, outs, scrs) xs = Inr (final_parity st n, outs @ [b0], scrs @ [b1])"
      "(if final_parity st n then scrs @ [b1] else outs @ [b0]) = map (map Some) (results @ [ys])"
      "list_all2 (stable_sort_of lt) (slices @ [xs]) (results @ [ys])"
      using IH(2,3) by (auto simp: sort_slice_def list_all2_appendI split: if_splits)
    have "foldM (sort_slice st n comparator) (False, [], []) (slices @ [xs]) = Inr (final_parity st n, outs @ [b0], scrs @ [b1])"
      unfolding foldM_append IH(1) using step(1) by simp
    with step(2,3) show ?case by blast
  qed auto
  then obtain p outs scrs results where r: "foldM (sort_slice st n comparator) (False, [], []) slices = Inr (p, outs, scrs)"
    "slices \<noteq> [] \<longrightarrow> p = final_parity st n" "(if final_parity st n then scrs else outs) = map (map Some) results"
    "list_all2 (stable_sort_of lt) slices results" "slices = [] \<longrightarrow> outs = [] \<and> scrs = []" by blast
  then have "(if p then scrs else outs) = map (map Some) results" by (cases "slices = []") auto
  then show ?thesis using r(1,4) by (auto simp: SortOpPattern_def)
qed

end

end
