(* ===== verification/SortProperties.thy ===== *)
theory SortProperties
  imports MergeSortRun SortLaws Samples
begin

text \<open>
  The properties of the lowered sort, and the sort with a comparator region run by the reference
  interpreter.
\<close>

section \<open>A region as the comparator\<close>

text \<open>
  The elements of a row become scalar tensors (\<open>tensor.from_elements\<close>), the region runs on them, and
  the element of its result is extracted.
\<close>

definition region_comparator :: "lib \<Rightarrow> evaluator \<Rightarrow> region \<Rightarrow> element comparator" where
  "region_comparator L ev comparator args =
     bnd (mapM (\<lambda>e. scalar_of L (RankedTensorType [] (e_type e) NoEncoding) (Inr e)) args) (\<lambda>tensors.
     bnd (ev comparator tensors) (\<lambda>results.
     bnd (at results 0) (\<lambda>r. bnd (tensor_get r []) getBooleanValue)))"

definition int_row :: "ty \<Rightarrow> element row \<Rightarrow> bool" where
  "int_row et r \<longleftrightarrow> isSupportedIntegerType et \<and> (\<exists>v. int_typed et v \<and> r = [int_element et v])"

definition row_number :: "ty \<Rightarrow> element row \<Rightarrow> int" where
  "row_number et r = (case e_val (hd r) of IntV v \<Rightarrow> int_value et v | _ \<Rightarrow> 0)"

definition lt_rows :: "ty \<Rightarrow> element row \<Rightarrow> element row \<Rightarrow> bool" where
  "lt_rows et l r \<longleftrightarrow> row_number et l < row_number et r"

lemma region_comparator_lt:
  assumes "lib_ok L" and "int_row et l" and "int_row et r"
  shows "emitComparison l r (region_comparator L (\<lambda>r args. eval_nested (Suc n) L r args s) (lt_region et)) = Inr (lt_rows et l r)"
proof -
  obtain v w where v: "int_typed et v" "l = [int_element et v]" and w: "int_typed et w" "r = [int_element et w]"
    and et: "isSupportedIntegerType et" using assms(2,3) by (auto simp: int_row_def)
  let ?S = "RankedTensorType [] et NoEncoding"
  have S: "scalar_type ?S et" using et by (intro scalar_ranked) (simp add: supported_element_type_def)
  have ok: "elem_ok et (int_element et v)" "elem_ok et (int_element et w)"
    using wf_int_element [OF v(1)] wf_int_element [OF w(1)] by (simp_all add: elem_ok_def)
  obtain a where a: "scalar_of L ?S (Inr (int_element et v)) = Inr a" "denotes a ?S (\<lambda>_. int_element et v)"
    using scalar_of_denotes [OF assms(1) S ok(1)] by blast
  obtain b where b: "scalar_of L ?S (Inr (int_element et w)) = Inr b" "denotes b ?S (\<lambda>_. int_element et w)"
    using scalar_of_denotes [OF assms(1) S ok(2)] by blast
  obtain t where "eval_nested (Suc n) L (lt_region et) [a, b] s = Inr [t]"
    "tensor_get t [] = Inr (bool_element (int_value et v < int_value et w))"
    using lt_region_eval [OF assms(1) et a(2) b(2)] by blast
  then show ?thesis
    using a(1) b(1) v(2) w(2)
    by (simp add: emitComparison_def region_comparator_def lt_rows_def row_number_def int_element_def)
qed

interpretation lowered_lt: comparator_region "lt_rows et" "\<lambda>r. lib_ok L \<and> int_row et r"
    "region_comparator L (\<lambda>r args. eval_nested (Suc n) L r args s) (lt_region et)" for L et n s
  by unfold_locales (simp_all only: region_comparator_lt, auto simp: lt_rows_def)

text \<open>
  Integers with the less-than region come out in increasing order, equal numbers in their order of the
  input, although the reference interpreter moves them by the inverse permutation.
\<close>

lemma lowered_lt_sorts:
  assumes "lib_ok L" and "\<forall>xs \<in> set slices. length xs = n \<and> (\<forall>r \<in> set xs. int_row et r)" and "0 \<le> st \<Longrightarrow> st = int n"
  shows "\<exists>results. SortOpPattern st n (region_comparator L (\<lambda>r args. eval_nested (Suc k) L r args s) (lt_region et)) slices =
      Inr (map (map Some) results) \<and> list_all2 (stable_sort_of (lt_rows et)) slices results"
  by (rule lowered_lt.pattern_sorts) (use assms in auto)

section \<open>Any comparator\<close>

text \<open>
  C27: A lowered sort is a stable sort. For operands of one size along the sort dimension, static or
  dynamic, and a comparator region that is a strict weak order on their rows, the emitted loops end
  without a load out of bounds or of memory never stored; every slice of the result is a permutation of
  the slice of the operands, in order, with equivalent rows in their original order; and it is the only
  such list.
\<close>

theorem lowered_sort_stable:
  assumes "\<And>x y. lt x y \<Longrightarrow> \<not> lt y x" and "\<And>x y z. lt x z \<Longrightarrow> lt x y \<or> lt y z"
    and "\<And>l r. good l \<Longrightarrow> good r \<Longrightarrow> emitComparison l r comparator = Inr (lt l r)"
    and "\<forall>xs \<in> set slices. length xs = n \<and> (\<forall>r \<in> set xs. good r)" and "0 \<le> st \<Longrightarrow> st = int n"
  shows "\<exists>results. SortOpPattern st n comparator slices = Inr (map (map Some) results) \<and>
    list_all2 (\<lambda>xs ys. mset ys = mset xs \<and> sorted_wrt (\<lambda>x y. \<not> lt y x) ys \<and>
      (\<forall>x. filter (equivalent lt x) ys = filter (equivalent lt x) xs) \<and>
      (\<forall>zs. stable_sort_of lt xs zs \<longrightarrow> zs = ys)) slices results"
proof -
  have loc: "comparator_region lt good comparator" by unfold_locales (use assms(1-3) in blast)+
  then have ord: "weak_order lt" by (simp add: comparator_region_def)
  obtain results where r: "SortOpPattern st n comparator slices = Inr (map (map Some) results)"
    "list_all2 (stable_sort_of lt) slices results"
    using comparator_region.pattern_sorts [OF loc assms(4,5)] by blast
  have "list_all2 (\<lambda>xs ys. mset ys = mset xs \<and> sorted_wrt (\<lambda>x y. \<not> lt y x) ys \<and>
      (\<forall>x. filter (equivalent lt x) ys = filter (equivalent lt x) xs) \<and>
      (\<forall>zs. stable_sort_of lt xs zs \<longrightarrow> zs = ys)) slices results"
  proof (rule list_all2_mono [OF r(2)])
    fix xs ys
    assume s: "stable_sort_of lt xs ys"
    then have "sorted_wrt (\<lambda>x y. \<not> lt y x) ys \<and> (\<forall>x. filter (equivalent lt x) ys = filter (equivalent lt x) xs)"
      by (simp add: stable_sort_of_def in_order_def)
    then show "mset ys = mset xs \<and> sorted_wrt (\<lambda>x y. \<not> lt y x) ys \<and>
      (\<forall>x. filter (equivalent lt x) ys = filter (equivalent lt x) xs) \<and> (\<forall>zs. stable_sort_of lt xs zs \<longrightarrow> zs = ys)"
      using weak_order.stable_sort_of_mset [OF ord s] weak_order.stable_sort_of_unique [OF ord _ s] by blast
  qed
  with r(1) show ?thesis by blast
qed

text \<open>The instance: rows of two elements, ordered by the first; the rows of key 1 keep their order.\<close>

theorem lowered_sort_stable_witness:
  "\<exists>results. SortOpPattern 3 3 (\<lambda>args. Inr (args ! 0 < args ! 1)) [[[2, 0], [1, 5], [1, 4 :: int]]] = Inr (map (map Some) results) \<and>
    (\<exists>ys. results = [ys] \<and> mset ys = {#[2, 0], [1, 5], [1, 4]#} \<and> filter (\<lambda>r. hd r = 1) ys = [[1, 5], [1, 4]])"
proof -
  let ?lt = "\<lambda>l r :: int row. hd l < hd r"
  have e: "equivalent ?lt [1, 5] = (\<lambda>r. hd r = 1)" by (rule ext) (auto simp: equivalent_def)
  have c: "emitComparison l r (\<lambda>args. Inr (args ! 0 < args ! 1)) = Inr (hd l < hd r)"
    if "l \<noteq> [] \<and> r \<noteq> []" for l r :: "int row"
    using that by (cases l; cases r) (simp_all add: emitComparison_def)
  have "\<exists>results. SortOpPattern 3 3 (\<lambda>args. Inr (args ! 0 < args ! 1)) [[[2, 0], [1, 5], [1, 4 :: int]]] = Inr (map (map Some) results) \<and>
    list_all2 (\<lambda>xs ys. mset ys = mset xs \<and> sorted_wrt (\<lambda>x y. \<not> ?lt y x) ys \<and>
      (\<forall>x. filter (equivalent ?lt x) ys = filter (equivalent ?lt x) xs) \<and>
      (\<forall>zs. stable_sort_of ?lt xs zs \<longrightarrow> zs = ys)) [[[2, 0], [1, 5], [1, 4 :: int]]] results"
    by (rule lowered_sort_stable [where good = "\<lambda>r. r \<noteq> []"]) (use c in auto)
  then obtain results ys where r: "SortOpPattern 3 3 (\<lambda>args. Inr (args ! 0 < args ! 1)) [[[2, 0], [1, 5], [1, 4 :: int]]] = Inr (map (map Some) results)"
    "results = [ys]" "mset ys = mset [[2, 0], [1, 5], [1, 4]]"
    "filter (equivalent ?lt [1, 5]) ys = filter (equivalent ?lt [1, 5]) [[2, 0], [1, 5], [1, 4]]"
    unfolding list_all2_Cons1 list_all2_Nil by blast
  then show ?thesis unfolding e by (intro exI [of _ results] conjI exI [of _ ys]) simp_all
qed

text \<open>Without stability the order of the rows of key 1 would be open; the loops give this result.\<close>

lemma lowered_sort_sample:
  "SortOpPattern (- 1) 3 (\<lambda>args. Inr (args ! 0 < args ! 1)) [[[2, 0], [1, 5], [1, 4 :: int]]] =
    Inr [[Some [1, 5], Some [1, 4], Some [2, 0]]]"
  by code_simp

end
