(* ===== verification/ScalarCode.thy ===== *)
theory ScalarCode
  imports OpsElementwise
begin

text \<open>
  The code that \<open>mhlo/transforms/map_mhlo_to_scalar_op.h\<close> emits for an element-wise MHLO operation in the
  body of a loop, an expression of operations of the \<open>arith\<close>, \<open>math\<close> and \<open>complex\<close> dialects on the
  elements, and the tables from operations to operations. The operands are scalars (a splat of a vector
  is the same constant). \<open>nullptr\<close> is a result of the code: no mapping. The dialects are not code of the
  repository: what their operations compute is an argument of \<open>eval_sexp\<close>.
\<close>

section \<open>Emitted code\<close>

datatype (plugins only: code size) cmp_i = Ieq | Ine | Isge | Isgt | Isle | Islt | Iuge | Iugt | Iule | Iult
datatype (plugins only: code size) cmp_f = OEQ | UNE | OGE | OGT | OLE | OLT | ONE | UNO

datatype const_attr =
    IntAttr int | ZeroAttr | OneFloatAttr | PosInfAttr | QNaNAttr

datatype (plugins only: code size) arith_int_op =
    AddI | SubI | MulI | DivSI | DivUI | RemSI | RemUI | AndI | OrI | XOrI | ShLI | ShRSI | ShRUI
  | MaxSI | MaxUI | MinSI | MinUI | TruncI | ExtSI | ExtUI

datatype (plugins only: code size) arith_float_op =
    AddF | SubF | MulF | DivF | RemF | NegF | MaxF | MinF | UIToFP | SIToFP | FPToUI | FPToSI | ExtF | TruncF

datatype (plugins only: code size) math_op =
    MathAbsF | MathCbrt | MathCeil | MathCountLeadingZeros | MathCos | MathExp | MathExpM1 | MathFloor | MathLog
  | MathLog1p | MathCtPop | MathRsqrt | MathRoundEven | MathRound | MathSqrt | MathSin | MathTan | MathAtan2
  | MathTanh | MathPowF | MathCopySign

datatype (plugins only: code size) complex_op =
    ComplexAbs | ComplexAdd | ComplexSub | ComplexMul | ComplexDiv | ComplexNeg | ComplexPow | ComplexSign
  | ComplexCos | ComplexExp | ComplexExpm1 | ComplexLog | ComplexLog1p | ComplexRsqrt | ComplexSqrt | ComplexSin
  | ComplexTan | ComplexAtan2 | ComplexTanh | ComplexCreate | ComplexRe | ComplexIm | ComplexEqual | ComplexNotEqual

datatype std_op =
    Constant const_attr | Select | CmpI cmp_i | CmpF cmp_f | Bitcast | IndexCast
  | ArithI arith_int_op | ArithF arith_float_op | Math math_op | Complex complex_op

text \<open>
  An operand, an operation with the type of its result, the loop-carried value \<open>k\<close> inside the body of
  \<open>scf.for\<close>, and a result of such a loop with constant bounds and step one.
\<close>

datatype sexp =
    Operand nat
  | Create std_op ty "sexp list"
  | IterArg nat
  | ForResult nat nat "sexp list" "sexp list" nat

text \<open>A value of the builder: the expression and its type.\<close>

type_synonym bvalue = "sexp \<times> ty"

definition create :: "std_op \<Rightarrow> ty \<Rightarrow> bvalue list \<Rightarrow> bvalue" where
  "create oper type vs = (Create oper type (map fst vs), type)"

definition nullptr :: "bvalue res" where
  "nullptr = Inl (Fatal ''nullptr'')"

abbreviation i1_type :: ty where "i1_type \<equiv> IntegerType Signless 1"

definition getConstantOrSplat :: "ty \<Rightarrow> const_attr \<Rightarrow> bvalue" where
  "getConstantOrSplat t v = create (Constant v) t []"

definition create_cmpi :: "cmp_i \<Rightarrow> bvalue \<Rightarrow> bvalue \<Rightarrow> bvalue" where
  "create_cmpi predicate lhs rhs = create (CmpI predicate) i1_type [lhs, rhs]"

definition create_cmpf :: "cmp_f \<Rightarrow> bvalue \<Rightarrow> bvalue \<Rightarrow> bvalue" where
  "create_cmpf predicate lhs rhs = create (CmpF predicate) i1_type [lhs, rhs]"

definition create_select :: "bvalue \<Rightarrow> bvalue \<Rightarrow> bvalue \<Rightarrow> bvalue" where
  "create_select c a b = create Select (snd a) [c, a, b]"

text \<open>An operation whose result has the type of its first operand.\<close>

definition create_same :: "std_op \<Rightarrow> bvalue list \<Rightarrow> bvalue" where
  "create_same oper vs = create oper (snd (hd vs)) vs"

section \<open>What the emitted code computes\<close>

datatype scalar = ScInt apint | ScFloat apfloat | ScComplex apfloat apfloat

type_synonym dialects = "std_op \<Rightarrow> ty \<Rightarrow> scalar list \<Rightarrow> scalar res"

fun lookup_arg :: "scalar list \<Rightarrow> nat \<Rightarrow> scalar res" where
  "lookup_arg vs n = (if n < length vs then Inr (vs ! n) else Inl Undefined)"

function (sequential) eval_sexp :: "dialects \<Rightarrow> scalar list \<Rightarrow> scalar list \<Rightarrow> sexp \<Rightarrow> scalar res" where
  "eval_sexp sem env iters (Operand n) = lookup_arg env n"
| "eval_sexp sem env iters (IterArg n) = lookup_arg iters n"
| "eval_sexp sem env iters (Create oper type es) = bnd (mapM (eval_sexp sem env iters) es) (sem oper type)"
| "eval_sexp sem env iters (ForResult lb ub inits body n) =
     bnd (mapM (eval_sexp sem env iters) inits) (\<lambda>start.
     bnd (foldM (\<lambda>vals _. mapM (eval_sexp sem env vals) body) start [lb..<ub]) (\<lambda>vals.
       lookup_arg vals n))"
  by pat_completeness auto
termination
  by (relation "measure (\<lambda>(_, _, _, e). size e)") (auto simp: less_Suc_eq_le size_list_estimation' trans_le_add1 trans_le_add2)

section \<open>Maps from operations to operations\<close>

text \<open>\<open>MhloToScalarOp\<close>; its entry for \<open>CompareOp\<close> is used below, where the predicate is known.\<close>

datatype (plugins only: code size) mhlo_op =
    MhloAbs | MhloAdd | MhloAnd | MhloAtan2 | MhloBitcastConvert | MhloCbrt | MhloCeil | MhloClamp | MhloClz
  | MhloCompare comparison_direction bool | MhloComplex | MhloCopy | MhloCosine | MhloDiv | MhloDot | MhloExp
  | MhloExpm1 | MhloFloor | MhloImag | MhloIsFinite | MhloLog | MhloLog1p | MhloLogistic | MhloMax | MhloMin
  | MhloMul | MhloNeg | MhloNot | MhloOr | MhloPopulationCount | MhloPow | MhloReal | MhloReducePrecision nat nat
  | MhloRem | MhloRound | MhloRoundNearestEven | MhloRsqrt | MhloSelect | MhloShiftLeft
  | MhloShiftRightArithmetic | MhloShiftRightLogical | MhloSign | MhloSine | MhloSqrt | MhloSubtract | MhloTan
  | MhloTanh | MhloXor

fun ScalarFOp :: "mhlo_op \<Rightarrow> std_op option" where
  "ScalarFOp MhloAdd = Some (ArithF AddF)"
| "ScalarFOp MhloCbrt = Some (Math MathCbrt)"
| "ScalarFOp MhloCeil = Some (Math MathCeil)"
| "ScalarFOp MhloCosine = Some (Math MathCos)"
| "ScalarFOp MhloExp = Some (Math MathExp)"
| "ScalarFOp MhloExpm1 = Some (Math MathExpM1)"
| "ScalarFOp MhloFloor = Some (Math MathFloor)"
| "ScalarFOp MhloLog = Some (Math MathLog)"
| "ScalarFOp MhloLog1p = Some (Math MathLog1p)"
| "ScalarFOp MhloMul = Some (ArithF MulF)"
| "ScalarFOp MhloRsqrt = Some (Math MathRsqrt)"
| "ScalarFOp MhloRoundNearestEven = Some (Math MathRoundEven)"
| "ScalarFOp MhloRound = Some (Math MathRound)"
| "ScalarFOp MhloSubtract = Some (ArithF SubF)"
| "ScalarFOp MhloSqrt = Some (Math MathSqrt)"
| "ScalarFOp MhloSine = Some (Math MathSin)"
| "ScalarFOp MhloTan = Some (Math MathTan)"
| "ScalarFOp MhloAtan2 = Some (Math MathAtan2)"
| "ScalarFOp MhloTanh = Some (Math MathTanh)"
| "ScalarFOp _ = None"

fun ScalarIOp :: "mhlo_op \<Rightarrow> std_op option" where
  "ScalarIOp MhloAdd = Some (ArithI AddI)"
| "ScalarIOp MhloAnd = Some (ArithI AndI)"
| "ScalarIOp MhloClz = Some (Math MathCountLeadingZeros)"
| "ScalarIOp MhloMul = Some (ArithI MulI)"
| "ScalarIOp MhloOr = Some (ArithI OrI)"
| "ScalarIOp MhloPopulationCount = Some (Math MathCtPop)"
| "ScalarIOp MhloSubtract = Some (ArithI SubI)"
| "ScalarIOp MhloXor = Some (ArithI XOrI)"
| "ScalarIOp _ = None"

text \<open>The unsigned table has the same operations.\<close>

fun ScalarUOp :: "mhlo_op \<Rightarrow> std_op option" where
  "ScalarUOp MhloAdd = Some (ArithI AddI)"
| "ScalarUOp MhloAnd = Some (ArithI AndI)"
| "ScalarUOp MhloClz = Some (Math MathCountLeadingZeros)"
| "ScalarUOp MhloMul = Some (ArithI MulI)"
| "ScalarUOp MhloOr = Some (ArithI OrI)"
| "ScalarUOp MhloPopulationCount = Some (Math MathCtPop)"
| "ScalarUOp MhloSubtract = Some (ArithI SubI)"
| "ScalarUOp MhloXor = Some (ArithI XOrI)"
| "ScalarUOp _ = None"

fun ScalarCOp :: "mhlo_op \<Rightarrow> std_op option" where
  "ScalarCOp MhloAdd = Some (Complex ComplexAdd)"
| "ScalarCOp MhloCosine = Some (Complex ComplexCos)"
| "ScalarCOp MhloExp = Some (Complex ComplexExp)"
| "ScalarCOp MhloExpm1 = Some (Complex ComplexExpm1)"
| "ScalarCOp MhloLog = Some (Complex ComplexLog)"
| "ScalarCOp MhloLog1p = Some (Complex ComplexLog1p)"
| "ScalarCOp MhloMul = Some (Complex ComplexMul)"
| "ScalarCOp MhloRsqrt = Some (Complex ComplexRsqrt)"
| "ScalarCOp MhloSubtract = Some (Complex ComplexSub)"
| "ScalarCOp MhloSqrt = Some (Complex ComplexSqrt)"
| "ScalarCOp MhloSine = Some (Complex ComplexSin)"
| "ScalarCOp MhloTan = Some (Complex ComplexTan)"
| "ScalarCOp MhloAtan2 = Some (Complex ComplexAtan2)"
| "ScalarCOp MhloTanh = Some (Complex ComplexTanh)"
| "ScalarCOp _ = None"

fun IsAnyIntegerType :: "ty \<Rightarrow> bool" where
  "IsAnyIntegerType (IntegerType _ _) = True"
| "IsAnyIntegerType _ = False"

fun IsSignedIntegerType :: "ty \<Rightarrow> bool" where
  "IsSignedIntegerType (IntegerType s w) = (s \<noteq> Unsigned \<and> \<not> (s = Signless \<and> w = 1))"
| "IsSignedIntegerType _ = False"

fun IsUnsignedIntegerType :: "ty \<Rightarrow> bool" where
  "IsUnsignedIntegerType (IntegerType s w) = (s = Unsigned \<or> s = Signless \<and> w = 1)"
| "IsUnsignedIntegerType _ = False"

text \<open>The first supported entry with an operation; an entry without one (\<open>void\<close>) is skipped.\<close>

fun MapMhloOpToScalarOpImpl :: "((ty \<Rightarrow> bool) \<times> std_op option) list \<Rightarrow> ty \<Rightarrow> ty list \<Rightarrow> bvalue list \<Rightarrow> bvalue res" where
  "MapMhloOpToScalarOpImpl [] resultType argTypes args = nullptr"
| "MapMhloOpToScalarOpImpl ((supported, None) # table) resultType argTypes args =
     MapMhloOpToScalarOpImpl table resultType argTypes args"
| "MapMhloOpToScalarOpImpl ((supported, Some oper) # table) resultType argTypes args =
     (if supported (element_type (hd argTypes)) then Inr (create oper resultType args)
      else MapMhloOpToScalarOpImpl table resultType argTypes args)"

end
