(* ===== verification/ScalarLowering.thy ===== *)
theory ScalarLowering
  imports ScalarCode
begin

text \<open>
  \<open>mhlo/transforms/map_mhlo_to_scalar_op.h\<close>, the specialisations of \<open>mapMhloOpToStdScalarOp\<close>: for every
  element-wise operation the expression that computes an element of its result. \<open>argTypes\<close> are the
  types before the conversion to signless integers, the operands have the types after it.
\<close>

section \<open>Absolute value and comparison\<close>

abbreviation elementType0 :: "ty list \<Rightarrow> ty" where
  "elementType0 argTypes \<equiv> element_type (hd argTypes)"

definition map_AbsOp :: "ty \<Rightarrow> ty list \<Rightarrow> bvalue list \<Rightarrow> bvalue res" where
  "map_AbsOp resultType argTypes args =
     (let elementType = elementType0 argTypes in
      if is_float elementType then
        MapMhloOpToScalarOpImpl [(is_float, Some (Math MathAbsF))] resultType argTypes args
      else if is_complex elementType then
        MapMhloOpToScalarOpImpl [(is_complex, Some (Complex ComplexAbs))] resultType argTypes args
      else case elementType of
        IntegerType s w \<Rightarrow>
          if s = Unsigned then nullptr
          else
            let lhs = hd args;
                zeroIntval = getConstantOrSplat (snd lhs) ZeroAttr;
                lhsGtZero = create_cmpi Isge lhs zeroIntval;
                negVal = create_same (ArithI SubI) [zeroIntval, lhs] in
            Inr (create_select lhsGtZero lhs negVal)
      | _ \<Rightarrow> nullptr)"

fun getCmpPredicateF :: "comparison_direction \<Rightarrow> cmp_f" where
  "getCmpPredicateF EQ = OEQ"
| "getCmpPredicateF NE = UNE"
| "getCmpPredicateF GE = OGE"
| "getCmpPredicateF GT = OGT"
| "getCmpPredicateF LE = OLE"
| "getCmpPredicateF LT = OLT"

fun getCmpPredicateI :: "comparison_direction \<Rightarrow> bool \<Rightarrow> cmp_i" where
  "getCmpPredicateI EQ isSigned = Ieq"
| "getCmpPredicateI NE isSigned = Ine"
| "getCmpPredicateI GE isSigned = (if isSigned then Isge else Iuge)"
| "getCmpPredicateI GT isSigned = (if isSigned then Isgt else Iugt)"
| "getCmpPredicateI LE isSigned = (if isSigned then Isle else Iule)"
| "getCmpPredicateI LT isSigned = (if isSigned then Islt else Iult)"

text \<open>Complex numbers are compared by their real parts first, then by their imaginary parts.\<close>

definition cmpComplex :: "bvalue \<Rightarrow> bvalue \<Rightarrow> comparison_direction \<Rightarrow> bvalue res" where
  "cmpComplex lhs rhs comparisonDirection =
     (case snd lhs of
        ComplexType complexFloatTy \<Rightarrow>
          if is_float complexFloatTy then
            if comparisonDirection = EQ then Inr (create (Complex ComplexEqual) i1_type [lhs, rhs])
            else if comparisonDirection = NE then Inr (create (Complex ComplexNotEqual) i1_type [lhs, rhs])
            else
              let lhsReal = create (Complex ComplexRe) complexFloatTy [lhs];
                  rhsReal = create (Complex ComplexRe) complexFloatTy [rhs];
                  lhsImag = create (Complex ComplexIm) complexFloatTy [lhs];
                  rhsImag = create (Complex ComplexIm) complexFloatTy [rhs];
                  predicate = getCmpPredicateF comparisonDirection;
                  realsAreEq = create_cmpf OEQ lhsReal rhsReal;
                  imagsAreOrdered = create_cmpf predicate lhsImag rhsImag;
                  realsAreOrdered = create_cmpf predicate lhsReal rhsReal;
                  orLhs = create_same (ArithI AndI) [realsAreEq, imagsAreOrdered] in
              Inr (create_same (ArithI OrI) [orLhs, realsAreOrdered])
          else nullptr
      | _ \<Rightarrow> Inl Undefined)"

text \<open>
  The total order of floating-point numbers, on their bits: negative numbers are mirrored so that the
  integers are in the order of the numbers.
\<close>

definition toIntegral :: "ty \<Rightarrow> nat \<Rightarrow> bvalue \<Rightarrow> bvalue" where
  "toIntegral intType width v =
     (let zero = getConstantOrSplat intType ZeroAttr;
          max' = getConstantOrSplat intType (IntAttr (2 ^ (width - 1) - 1));
          x = create Bitcast intType [v];
          cmp = create_cmpi Islt x zero;
          sub = create_same (ArithI SubI) [max', x] in
      create_select cmp sub x)"

definition map_CompareOp :: "comparison_direction \<Rightarrow> bool \<Rightarrow> ty list \<Rightarrow> bvalue list \<Rightarrow> bvalue res" where
  "map_CompareOp comparisonDirection totalOrder argTypes args =
     (let lhs = args ! 0; rhs = args ! 1; elementType = elementType0 argTypes in
      case elementType of
        IntegerType s w \<Rightarrow>
          Inr (create_cmpi (getCmpPredicateI comparisonDirection (\<not> IsUnsignedIntegerType elementType)) lhs rhs)
      | FloatType sem \<Rightarrow>
          if totalOrder then
            let intType = IntegerType Signless (sem_width sem);
                lhsInt = toIntegral intType (sem_width sem) lhs;
                rhsInt = toIntegral intType (sem_width sem) rhs in
            Inr (create_cmpi (getCmpPredicateI comparisonDirection True) lhsInt rhsInt)
          else Inr (create_cmpf (getCmpPredicateF comparisonDirection) lhs rhs)
      | ComplexType _ \<Rightarrow> cmpComplex lhs rhs comparisonDirection
      | _ \<Rightarrow> nullptr)"

section \<open>Reduced precision\<close>

text \<open>\<open>getFPMantissaWidth\<close>, the implicit bit included.\<close>

fun getFPMantissaWidth :: "fsem \<Rightarrow> nat" where
  "getFPMantissaWidth F8E4M3B11FNUZ = 4"
| "getFPMantissaWidth F8E4M3FN = 4"
| "getFPMantissaWidth F8E4M3FNUZ = 4"
| "getFPMantissaWidth F8E5M2 = 3"
| "getFPMantissaWidth F8E5M2FNUZ = 3"
| "getFPMantissaWidth F16 = 11"
| "getFPMantissaWidth BF16 = 8"
| "getFPMantissaWidth F32 = 24"
| "getFPMantissaWidth F64 = 53"
| "getFPMantissaWidth F80 = 64"
| "getFPMantissaWidth F128 = 113"

text \<open>
  The rounding of the mantissa, to nearest with ties to even: the bits the rounding bias is added to
  and the mask that clears the truncated bits.
\<close>

definition round_mantissa :: "ty \<Rightarrow> nat \<Rightarrow> nat \<Rightarrow> bvalue \<Rightarrow> bvalue" where
  "round_mantissa intType srcMantissaBits destMantissaBits xAsInt =
     (let createConstant = (\<lambda>v. getConstantOrSplat intType (IntAttr v));
          lastMantissaBitMask = 2 ^ (srcMantissaBits - destMantissaBits);
          baseRoundingBias = lastMantissaBitMask div 2 - 1;
          mantissaDiff = createConstant (int (srcMantissaBits - destMantissaBits));
          highestMantissaMaskVal = createConstant lastMantissaBitMask;
          baseRoundingBiasVal = createConstant baseRoundingBias;
          xLastMantissaBit = create_same (ArithI ShRUI) [create_same (ArithI AndI) [xAsInt, highestMantissaMaskVal], mantissaDiff];
          xRoundingBias = create_same (ArithI AddI) [xLastMantissaBit, baseRoundingBiasVal];
          truncationMask = - lastMantissaBitMask;
          xRounded = create_same (ArithI AddI) [xAsInt, xRoundingBias] in
      create_same (ArithI AndI) [xRounded, createConstant truncationMask])"

text \<open>Exponents out of the range of the reduced format become an infinity or zero of the same sign.\<close>

definition clamp_exponent :: "ty \<Rightarrow> nat \<Rightarrow> nat \<Rightarrow> nat \<Rightarrow> nat \<Rightarrow> bvalue \<Rightarrow> bvalue" where
  "clamp_exponent intType nbits srcMantissaBits srcExponentBits destExponentBits xAsInt =
     (let createConstant = (\<lambda>v. getConstantOrSplat intType (IntAttr v));
          signBitMask = 2 ^ (nbits - 1);
          expBitsMask = (2 ^ srcExponentBits - 1) * 2 ^ srcMantissaBits;
          exponentBias = 2 ^ (srcExponentBits - 1) - 1;
          reducedExponentBias = 2 ^ (destExponentBits - 1) - 1;
          reducedMaxExponent = exponentBias + reducedExponentBias;
          reducedMinExponent = exponentBias - reducedExponentBias;
          xExponent = create_same (ArithI AndI) [xAsInt, createConstant expBitsMask];
          xOverflows = create_cmpi Iugt xExponent (createConstant (reducedMaxExponent * 2 ^ srcMantissaBits));
          xUnderflows = create_cmpi Iule xExponent (createConstant (reducedMinExponent * 2 ^ srcMantissaBits));
          xSignedZero = create_same (ArithI AndI) [xAsInt, createConstant signBitMask];
          xSignedInf = create_same (ArithI OrI) [xSignedZero, createConstant expBitsMask];
          xAsInt = create_select xOverflows xSignedInf xAsInt in
      create_select xUnderflows xSignedZero xAsInt)"

definition map_ReducePrecisionOp :: "nat \<Rightarrow> nat \<Rightarrow> ty list \<Rightarrow> bvalue list \<Rightarrow> bvalue res" where
  "map_ReducePrecisionOp destExponentBits destMantissaBits argTypes args =
     (case hd argTypes of
        RankedTensorType _ (FloatType sem) _ \<Rightarrow>
          let nbits = sem_width sem; intType = IntegerType Signless nbits; operand = hd args;
              createConstant = (\<lambda>v. getConstantOrSplat intType (IntAttr v));
              xAsInt = create Bitcast intType [operand];
              srcMantissaBits = getFPMantissaWidth sem - 1;
              srcExponentBits = nbits - 1 - srcMantissaBits;
              expBitsMask = (2 ^ srcExponentBits - 1) * 2 ^ srcMantissaBits;
              xAbsBits = create_same (ArithI AndI) [xAsInt, createConstant (2 ^ nbits - 1 - 2 ^ (nbits - 1))];
              xIsNan = create_cmpi Iugt xAbsBits (createConstant expBitsMask);
              xAsInt = (if destMantissaBits < srcMantissaBits
                        then round_mantissa intType srcMantissaBits destMantissaBits xAsInt else xAsInt);
              xAsInt = (if destExponentBits < srcExponentBits
                        then clamp_exponent intType nbits srcMantissaBits srcExponentBits destExponentBits xAsInt
                        else xAsInt);
              result = create Bitcast (FloatType sem) [xAsInt] in
          if nbits \<le> 64 then Inr (create_select xIsNan operand result) else Inl Undefined
      | _ \<Rightarrow> Inl Undefined)"

section \<open>Selections\<close>

definition map_CopyOp :: "bvalue list \<Rightarrow> bvalue res" where
  "map_CopyOp args = Inr (hd args)"

definition map_ComplexOp :: "ty \<Rightarrow> bvalue list \<Rightarrow> bvalue res" where
  "map_ComplexOp resultType args = Inr (create (Complex ComplexCreate) resultType args)"

definition map_MaxOp :: "ty \<Rightarrow> ty list \<Rightarrow> bvalue list \<Rightarrow> bvalue res" where
  "map_MaxOp resultType argTypes args =
     (let lhs = hd args in
      if \<not> is_complex (snd lhs) then
        MapMhloOpToScalarOpImpl
          [(is_float, Some (ArithF MaxF)), (IsSignedIntegerType, Some (ArithI MaxSI)), (IsUnsignedIntegerType, Some (ArithI MaxUI))]
          resultType argTypes args
      else if length args \<noteq> 2 then Inl Undefined
      else
        let rhs = last args in
        bnd (cmpComplex lhs rhs GE) (\<lambda>cond. Inr (create_select cond lhs rhs)))"

definition map_MinOp :: "ty \<Rightarrow> ty list \<Rightarrow> bvalue list \<Rightarrow> bvalue res" where
  "map_MinOp resultType argTypes args =
     (let lhs = hd args in
      if \<not> is_complex (snd lhs) then
        MapMhloOpToScalarOpImpl
          [(is_float, Some (ArithF MinF)), (IsSignedIntegerType, Some (ArithI MinSI)), (IsUnsignedIntegerType, Some (ArithI MinUI))]
          resultType argTypes args
      else if length args \<noteq> 2 then Inl Undefined
      else
        let rhs = last args in
        bnd (cmpComplex lhs rhs LE) (\<lambda>cond. Inr (create_select cond lhs rhs)))"

definition map_RealOp :: "ty \<Rightarrow> bvalue list \<Rightarrow> bvalue res" where
  "map_RealOp resultType args =
     (if \<not> is_complex (snd (hd args)) then Inr (hd args) else Inr (create (Complex ComplexRe) resultType args))"

definition map_ImagOp :: "ty \<Rightarrow> bvalue list \<Rightarrow> bvalue res" where
  "map_ImagOp resultType args =
     (if \<not> is_complex (snd (hd args)) then Inr (getConstantOrSplat (snd (hd args)) ZeroAttr)
      else Inr (create (Complex ComplexIm) resultType args))"

definition map_ClampOp :: "ty \<Rightarrow> ty list \<Rightarrow> bvalue list \<Rightarrow> bvalue res" where
  "map_ClampOp resultType argTypes args =
     bnd (map_MaxOp resultType argTypes [args ! 0, args ! 1]) (\<lambda>maxLbX.
       map_MinOp resultType argTypes [maxLbX, args ! 2])"

definition map_SelectOp :: "ty \<Rightarrow> bvalue list \<Rightarrow> bvalue res" where
  "map_SelectOp resultType args = Inr (create Select resultType args)"

definition mhloAlwaysPropagateNaN :: "bvalue \<Rightarrow> bvalue list \<Rightarrow> bvalue" where
  "mhloAlwaysPropagateNaN v args =
     (if is_float (element_type (snd (hd args))) then
        let isnan = create_cmpf UNO (args ! 0) (args ! 1);
            nan = getConstantOrSplat (snd (args ! 0)) QNaNAttr in
        create_select isnan nan v
      else v)"

section \<open>Conversions\<close>

text \<open>
  \<open>areCastCompatible\<close> of the casts of \<open>arith\<close> between integers and floating-point numbers asks for an
  integer and a floating-point type. The cases up to the conversions of complex numbers; \<open>None\<close> when
  none of them applies.
\<close>

definition convert_float_float :: "fsem \<Rightarrow> fsem \<Rightarrow> ty \<Rightarrow> bvalue \<Rightarrow> bvalue res" where
  "convert_float_float src dst resultType arg =
     (if sem_width src > sem_width dst then Inr (create (ArithF TruncF) resultType [arg])
      else if sem_width src < sem_width dst then Inr (create (ArithF ExtF) resultType [arg])
      else if src \<noteq> dst then
        if src = BF16 \<or> dst = BF16
        then Inr (create (ArithF TruncF) resultType [create (ArithF ExtF) (FloatType F32) [arg]])
        else Inl Undefined
      else Inr arg)"

definition convert_integer :: "ty \<Rightarrow> nat \<Rightarrow> nat \<Rightarrow> ty \<Rightarrow> bvalue \<Rightarrow> bvalue" where
  "convert_integer sourceType w w' resultType arg =
     (if w > w' then create (ArithI TruncI) resultType [arg]
      else if w < w' then create (ArithI (if IsUnsignedIntegerType sourceType then ExtUI else ExtSI)) resultType [arg]
      else arg)"

definition convert_real :: "ty \<Rightarrow> ty \<Rightarrow> ty \<Rightarrow> bvalue \<Rightarrow> bvalue res option" where
  "convert_real targetType resultType sourceType arg =
     (let convertedSourceType = element_type (snd arg) in
      if IsUnsignedIntegerType sourceType \<and> IsAnyIntegerType convertedSourceType \<and> is_float targetType
      then Some (Inr (create (ArithF UIToFP) resultType [arg]))
      else if IsAnyIntegerType sourceType \<and> is_float targetType
      then Some (Inr (create (ArithF SIToFP) resultType [arg]))
      else if is_float sourceType \<and> is_float targetType
      then Some (convert_float_float (the (float_semantics sourceType)) (the (float_semantics targetType)) resultType arg)
      else if is_i1 targetType \<and> (case sourceType of IntegerType s w \<Rightarrow> s \<noteq> Signed | _ \<Rightarrow> False)
      then Some (Inr (create_cmpi Ine arg (getConstantOrSplat (snd arg) ZeroAttr)))
      else if is_i1 targetType \<and> is_float sourceType
      then Some (Inr (create_cmpf UNE arg (getConstantOrSplat (snd arg) ZeroAttr)))
      else if IsAnyIntegerType sourceType \<and> IsAnyIntegerType targetType
      then Some (Inr (convert_integer sourceType (int_or_float_width sourceType) (int_or_float_width targetType) resultType arg))
      else if (case targetType of IntegerType Unsigned _ \<Rightarrow> True | _ \<Rightarrow> False) \<and> is_float convertedSourceType
      then Some (Inr (create (ArithF FPToUI) resultType [arg]))
      else if is_float convertedSourceType \<and> IsAnyIntegerType targetType
      then Some (Inr (create (ArithF FPToSI) resultType [arg]))
      else None)"

text \<open>
  The elements of complex numbers are not complex, so that the conversions of the parts are among the
  cases above.
\<close>

definition convert_part :: "ty \<Rightarrow> ty \<Rightarrow> ty \<Rightarrow> bvalue \<Rightarrow> bvalue res" where
  "convert_part targetType resultType sourceType arg =
     (case convert_real targetType resultType sourceType arg of Some v \<Rightarrow> v | None \<Rightarrow> nullptr)"

definition mapConvertOpToStdScalarOp :: "ty \<Rightarrow> ty \<Rightarrow> ty \<Rightarrow> bvalue \<Rightarrow> bvalue res" where
  "mapConvertOpToStdScalarOp targetType0 resultType argType arg =
     (let sourceType = element_type argType; targetType = element_type targetType0 in
      case convert_real targetType resultType sourceType arg of
        Some v \<Rightarrow> v
      | None \<Rightarrow>
        (case (targetType, sourceType) of
           (ComplexType targetElementType, ComplexType sourceElementType) \<Rightarrow>
             bnd (convert_part targetElementType targetElementType sourceElementType
                    (create (Complex ComplexRe) sourceElementType [arg])) (\<lambda>targetReal.
             bnd (convert_part targetElementType targetElementType sourceElementType
                    (create (Complex ComplexIm) sourceElementType [arg])) (\<lambda>targetImag.
               Inr (create (Complex ComplexCreate) targetType [targetReal, targetImag])))
         | (ComplexType targetElementType, _) \<Rightarrow>
             bnd (convert_part targetElementType targetElementType sourceType arg) (\<lambda>targetReal.
               Inr (create (Complex ComplexCreate) targetType
                      [targetReal, getConstantOrSplat targetElementType ZeroAttr]))
         | (_, ComplexType sourceElementType) \<Rightarrow>
             convert_part targetType resultType sourceElementType (create (Complex ComplexRe) sourceElementType [arg])
         | _ \<Rightarrow> nullptr))"

definition map_BitcastConvertOp :: "ty \<Rightarrow> ty list \<Rightarrow> bvalue list \<Rightarrow> bvalue res" where
  "map_BitcastConvertOp resultType0 argTypes args =
     (let argType = elementType0 argTypes; resultType = element_type resultType0 in
      if int_or_float_width resultType \<noteq> int_or_float_width argType then nullptr
      else Inr (create Bitcast resultType0 args))"

definition map_IsFiniteOp :: "bvalue list \<Rightarrow> bvalue res" where
  "map_IsFiniteOp args =
     (let x = hd args in
      if is_float (snd x) then
        let constPosInf = getConstantOrSplat (snd x) PosInfAttr;
            absX = create_same (Math MathAbsF) [x] in
        Inr (create_cmpf ONE absX constPosInf)
      else nullptr)"

text \<open>Multiply and accumulate.\<close>

definition map_DotOp :: "ty \<Rightarrow> ty list \<Rightarrow> bvalue list \<Rightarrow> bvalue res" where
  "map_DotOp resultType argTypes args =
     (let lhs = args ! 0; rhs = args ! 1; result = args ! 2; elementType = snd lhs in
      if is_float elementType then
        bnd (MapMhloOpToScalarOpImpl [(is_float, Some (ArithF MulF))] resultType argTypes [lhs, rhs]) (\<lambda>floatMul.
          MapMhloOpToScalarOpImpl [(is_float, Some (ArithF AddF))] resultType argTypes [floatMul, result])
      else if IsAnyIntegerType elementType then
        bnd (MapMhloOpToScalarOpImpl [(IsAnyIntegerType, Some (ArithI MulI))] resultType argTypes [lhs, rhs]) (\<lambda>intMul.
          MapMhloOpToScalarOpImpl [(IsAnyIntegerType, Some (ArithI AddI))] resultType argTypes [intMul, result])
      else nullptr)"

section \<open>Division\<close>

text \<open>
  Division with an unsafe divisor replaced by one, and the result that stands for the unsafe cases
  selected afterwards.
\<close>

definition makeSafeIntDiv ::
  "arith_int_op \<Rightarrow> arith_int_op \<Rightarrow> ty \<Rightarrow> bvalue \<Rightarrow> bvalue \<Rightarrow> bvalue \<Rightarrow> bvalue \<Rightarrow> bvalue" where
  "makeSafeIntDiv U S originalType lhs rhs returnedOnZero returnedOnSignedOverflow =
     (let type = snd lhs;
          w = int_or_float_width (element_type type);
          zero = getConstantOrSplat type ZeroAttr;
          makeConstant = (\<lambda>i. getConstantOrSplat type (IntAttr i));
          one = makeConstant 1;
          rhsIsZero = create_cmpi Ieq rhs zero in
      if (case originalType of IntegerType Unsigned _ \<Rightarrow> True | _ \<Rightarrow> False) then
        let safeRhs = create_select rhsIsZero one rhs;
            safeDiv = create_same (ArithI U) [lhs, safeRhs] in
        create_select rhsIsZero returnedOnZero safeDiv
      else
        let smin = makeConstant (- (2 ^ (w - 1)));
            lhsIsSmin = create_cmpi Ieq lhs smin;
            minusOne = makeConstant (- 1);
            rhsIsMinusOne = create_cmpi Ieq rhs minusOne;
            hasIntMinOverflow = create_same (ArithI AndI) [lhsIsSmin, rhsIsMinusOne];
            rhsIsUnsafe = create_same (ArithI OrI) [rhsIsZero, hasIntMinOverflow];
            safeRhs = create_select rhsIsUnsafe one rhs;
            safeDiv = create_same (ArithI S) [lhs, safeRhs];
            safeSmin = create_select hasIntMinOverflow returnedOnSignedOverflow safeDiv in
        create_select rhsIsZero returnedOnZero safeSmin)"

definition map_DivOp :: "ty \<Rightarrow> ty list \<Rightarrow> bvalue list \<Rightarrow> bvalue res" where
  "map_DivOp resultType argTypes args =
     (let originalType = elementType0 argTypes in
      if is_complex originalType \<or> is_float originalType then
        MapMhloOpToScalarOpImpl [(is_float, Some (ArithF DivF)), (is_complex, Some (Complex ComplexDiv))] resultType argTypes args
      else
        let lhs = args ! 0; rhs = args ! 1; type = snd lhs in
        if \<not> IsAnyIntegerType (element_type type) then Inl Undefined
        else
          let minusOne = getConstantOrSplat type (IntAttr (- 1));
              smin = getConstantOrSplat type (IntAttr (- (2 ^ (int_or_float_width (element_type type) - 1)))) in
          Inr (makeSafeIntDiv DivUI DivSI originalType lhs rhs minusOne smin))"

definition map_RemOp :: "ty \<Rightarrow> ty list \<Rightarrow> bvalue list \<Rightarrow> bvalue res" where
  "map_RemOp resultType argTypes args =
     (let originalType = elementType0 argTypes in
      if is_complex originalType \<or> is_float originalType then
        MapMhloOpToScalarOpImpl [(is_float, Some (ArithF RemF))] resultType argTypes args
      else
        let lhs = args ! 0; rhs = args ! 1; type = snd lhs; zero = getConstantOrSplat type ZeroAttr in
        if \<not> IsAnyIntegerType (element_type type) then Inl Undefined
        else Inr (makeSafeIntDiv RemUI RemSI originalType lhs rhs lhs zero))"

section \<open>Negation, sign, power\<close>

definition map_NegOp :: "ty \<Rightarrow> ty list \<Rightarrow> bvalue list \<Rightarrow> bvalue res" where
  "map_NegOp resultType argTypes args =
     (let lhs = hd args; elementType = element_type (snd lhs) in
      if is_complex elementType \<or> is_float elementType then
        MapMhloOpToScalarOpImpl [(is_float, Some (ArithF NegF)), (is_complex, Some (Complex ComplexNeg))] resultType argTypes args
      else if IsAnyIntegerType elementType then
        Inr (create_same (ArithI SubI) [getConstantOrSplat (snd lhs) ZeroAttr, lhs])
      else nullptr)"

definition map_NotOp :: "bvalue list \<Rightarrow> bvalue res" where
  "map_NotOp args =
     (let operand = hd args in
      if IsAnyIntegerType (element_type (snd operand)) then
        Inr (create_same (ArithI XOrI) [getConstantOrSplat (snd operand) (IntAttr (- 1)), operand])
      else nullptr)"

text \<open>One iteration of the exponentiation by squaring: accumulator, base and exponent.\<close>

definition pow_body :: "ty \<Rightarrow> bvalue \<Rightarrow> bvalue list" where
  "pow_body type one =
     (let accum = (IterArg 0, type); base = (IterArg 1, type); exponent = (IterArg 2, type);
          condition = create_cmpi Ieq (create_same (ArithI AndI) [exponent, one]) one;
          multiplied = create_same (ArithI MulI) [accum, base] in
      [create_select condition multiplied accum, create_same (ArithI MulI) [base, base],
       create_same (ArithI ShRUI) [exponent, one]])"

definition map_PowOp :: "ty \<Rightarrow> ty list \<Rightarrow> bvalue list \<Rightarrow> bvalue res" where
  "map_PowOp resultType argTypes args =
     (if is_complex resultType \<or> is_float resultType then
        MapMhloOpToScalarOpImpl [(is_float, Some (Math MathPowF)), (is_complex, Some (Complex ComplexPow))] resultType argTypes args
      else
        let constant = (\<lambda>i. getConstantOrSplat resultType (IntAttr i));
            negOne = constant (- 1); zero = constant 0; one = constant 1; two = constant 2;
            lowerBound = 0; upperBound = 6;
            lhs = args ! 0; rhs = args ! 1;
            accum = (ForResult lowerBound upperBound (map fst [one, lhs, rhs]) (map fst (pow_body resultType one)) 0, resultType);
            rhsIsEven = create_cmpi Ieq (create_same (ArithI RemSI) [rhs, two]) zero;
            rhsIsNegative = create_cmpi Islt rhs zero;
            lhsIsOne = create_cmpi Ieq lhs one;
            lhsIsNegOne = create_cmpi Ieq lhs negOne;
            ifLhsIsOne = create_select lhsIsOne one zero;
            ifLhsIsNegOne = create_select lhsIsNegOne (create_select rhsIsEven one negOne) ifLhsIsOne in
        Inr (create_select rhsIsNegative ifLhsIsNegOne accum))"

definition map_SignOp :: "ty \<Rightarrow> bvalue list \<Rightarrow> bvalue res" where
  "map_SignOp resultType args =
     (let operand = hd args; elementType = element_type (snd operand) in
      if is_float elementType then
        let zero = getConstantOrSplat (snd operand) ZeroAttr;
            ne0I1 = create_cmpf ONE operand zero;
            ne0Float = create (ArithF UIToFP) (snd zero) [ne0I1];
            copySign = create (Math MathCopySign) resultType [ne0Float, operand];
            isNan = create_cmpf UNO operand operand in
        Inr (create_select isNan operand copySign)
      else if IsAnyIntegerType elementType then
        let zero = getConstantOrSplat (snd operand) ZeroAttr;
            bitwidthMinusOne = getConstantOrSplat (snd operand) (IntAttr (int (int_or_float_width elementType) - 1));
            one = getConstantOrSplat (snd operand) (IntAttr 1);
            cmp = create_cmpi Ieq operand zero;
            ashr = create_same (ArithI ShRSI) [operand, bitwidthMinusOne];
            orOp = create_same (ArithI OrI) [ashr, one] in
        Inr (create_select cmp zero orOp)
      else if is_complex elementType then Inr (create (Complex ComplexSign) elementType [operand])
      else nullptr)"

section \<open>Shifts\<close>

definition selectShiftedOrSaturated :: "bvalue \<Rightarrow> bvalue \<Rightarrow> bvalue \<Rightarrow> ty \<Rightarrow> bvalue" where
  "selectShiftedOrSaturated rhs shifted saturated type =
     (let bitWidthInt = int_or_float_width (element_type type);
          bitWidth = getConstantOrSplat type (IntAttr (int bitWidthInt));
          cmp = create_cmpi Iugt bitWidth rhs in
      create_select cmp shifted saturated)"

definition map_ShiftLeftOp :: "bvalue list \<Rightarrow> bvalue res" where
  "map_ShiftLeftOp args =
     (let lhs = args ! 0; rhs = args ! 1; type = snd lhs;
          zero = getConstantOrSplat type ZeroAttr;
          shifted = create_same (ArithI ShLI) [lhs, rhs] in
      Inr (selectShiftedOrSaturated rhs shifted zero type))"

definition map_ShiftRightLogicalOp :: "bvalue list \<Rightarrow> bvalue res" where
  "map_ShiftRightLogicalOp args =
     (let lhs = args ! 0; rhs = args ! 1; type = snd lhs;
          zero = getConstantOrSplat type ZeroAttr;
          shifted = create_same (ArithI ShRUI) [lhs, rhs] in
      Inr (selectShiftedOrSaturated rhs shifted zero type))"

definition map_ShiftRightArithmeticOp :: "bvalue list \<Rightarrow> bvalue res" where
  "map_ShiftRightArithmeticOp args =
     (let lhs = args ! 0; rhs = args ! 1; type = snd lhs;
          bitWidthInt = int_or_float_width (element_type type);
          maxShift = getConstantOrSplat type (IntAttr (int bitWidthInt - 1));
          saturatedShifted = create_same (ArithI ShRSI) [lhs, maxShift];
          shifted = create_same (ArithI ShRSI) [lhs, rhs] in
      Inr (selectShiftedOrSaturated rhs shifted saturatedShifted type))"

section \<open>The dispatch\<close>

text \<open>The general case: the operation of the table for the type of the operands.\<close>

definition map_by_table :: "mhlo_op \<Rightarrow> ty \<Rightarrow> ty list \<Rightarrow> bvalue list \<Rightarrow> bvalue res" where
  "map_by_table oper resultType argTypes args =
     MapMhloOpToScalarOpImpl
       [(IsSignedIntegerType, ScalarIOp oper), (IsUnsignedIntegerType, ScalarUOp oper),
        (is_float, ScalarFOp oper), (is_complex, ScalarCOp oper)] resultType argTypes args"

text \<open>One over one plus the exponential of the negated operand.\<close>

definition map_LogisticOp :: "ty \<Rightarrow> bvalue list \<Rightarrow> bvalue res" where
  "map_LogisticOp resultType args =
     bnd (map_NegOp resultType [resultType] [hd args]) (\<lambda>negX.
     bnd (map_by_table MhloExp resultType [resultType] [negX]) (\<lambda>expNegX.
     let oneFloat = getConstantOrSplat (FloatType F32) OneFloatAttr in
     bnd (mapConvertOpToStdScalarOp resultType resultType (snd oneFloat) oneFloat) (\<lambda>one.
     bnd (map_by_table MhloAdd resultType [resultType] [expNegX, one]) (\<lambda>oneAddExprNegX.
       map_DivOp resultType [resultType] [one, oneAddExprNegX]))))"

fun mapMhloOpToStdScalarOp :: "mhlo_op \<Rightarrow> ty \<Rightarrow> ty list \<Rightarrow> bvalue list \<Rightarrow> bvalue res" where
  "mapMhloOpToStdScalarOp MhloAbs rt ats args = map_AbsOp rt ats args"
| "mapMhloOpToStdScalarOp (MhloCompare d totalOrder) rt ats args = map_CompareOp d totalOrder ats args"
| "mapMhloOpToStdScalarOp (MhloReducePrecision e m) rt ats args = map_ReducePrecisionOp e m ats args"
| "mapMhloOpToStdScalarOp MhloCopy rt ats args = map_CopyOp args"
| "mapMhloOpToStdScalarOp MhloComplex rt ats args = map_ComplexOp rt args"
| "mapMhloOpToStdScalarOp MhloMax rt ats args = map_MaxOp rt ats args"
| "mapMhloOpToStdScalarOp MhloMin rt ats args = map_MinOp rt ats args"
| "mapMhloOpToStdScalarOp MhloReal rt ats args = map_RealOp rt args"
| "mapMhloOpToStdScalarOp MhloImag rt ats args = map_ImagOp rt args"
| "mapMhloOpToStdScalarOp MhloBitcastConvert rt ats args = map_BitcastConvertOp rt ats args"
| "mapMhloOpToStdScalarOp MhloDot rt ats args = map_DotOp rt ats args"
| "mapMhloOpToStdScalarOp MhloIsFinite rt ats args = map_IsFiniteOp args"
| "mapMhloOpToStdScalarOp MhloClamp rt ats args = map_ClampOp rt ats args"
| "mapMhloOpToStdScalarOp MhloDiv rt ats args = map_DivOp rt ats args"
| "mapMhloOpToStdScalarOp MhloRem rt ats args = map_RemOp rt ats args"
| "mapMhloOpToStdScalarOp MhloNeg rt ats args = map_NegOp rt ats args"
| "mapMhloOpToStdScalarOp MhloNot rt ats args = map_NotOp args"
| "mapMhloOpToStdScalarOp MhloLogistic rt ats args = map_LogisticOp rt args"
| "mapMhloOpToStdScalarOp MhloPow rt ats args = map_PowOp rt ats args"
| "mapMhloOpToStdScalarOp MhloSelect rt ats args = map_SelectOp rt args"
| "mapMhloOpToStdScalarOp MhloSign rt ats args = map_SignOp rt args"
| "mapMhloOpToStdScalarOp MhloShiftLeft rt ats args = map_ShiftLeftOp args"
| "mapMhloOpToStdScalarOp MhloShiftRightLogical rt ats args = map_ShiftRightLogicalOp args"
| "mapMhloOpToStdScalarOp MhloShiftRightArithmetic rt ats args = map_ShiftRightArithmeticOp args"
| "mapMhloOpToStdScalarOp oper rt ats args = map_by_table oper rt ats args"

end
