(* ===== verification/ScalarLaws.thy ===== *)
theory ScalarLaws
  imports ScalarLowering ElementLaws
begin

text \<open>
  What the emitted code computes on integers, under the documented behaviour of the \<open>arith\<close> and
  \<open>math\<close> operations: arithmetic wraps; a shift by the width or more gives some value, not a
  particular one; division by zero, and of the least number by minus one, is not specified at all.
\<close>

section \<open>The documented behaviour\<close>

fun cmp_holds :: "cmp_i \<Rightarrow> apint \<Rightarrow> apint \<Rightarrow> bool" where
  "cmp_holds Ieq a b = (uval a = uval b)"
| "cmp_holds Ine a b = (uval a \<noteq> uval b)"
| "cmp_holds Isge a b = (sval b \<le> sval a)"
| "cmp_holds Isgt a b = (sval b < sval a)"
| "cmp_holds Isle a b = (sval a \<le> sval b)"
| "cmp_holds Islt a b = (sval a < sval b)"
| "cmp_holds Iuge a b = (uval b \<le> uval a)"
| "cmp_holds Iugt a b = (uval b < uval a)"
| "cmp_holds Iule a b = (uval a \<le> uval b)"
| "cmp_holds Iult a b = (uval a < uval b)"

definition flag :: "bool \<Rightarrow> apint" where
  "flag c = mk_apint 1 (if c then 1 else 0)"

text \<open>The operations with a result for every two integers of one width.\<close>

fun wrapping :: "arith_int_op \<Rightarrow> (apint \<Rightarrow> apint \<Rightarrow> apint) option" where
  "wrapping AddI = Some ap_add"
| "wrapping SubI = Some ap_sub"
| "wrapping MulI = Some ap_mul"
| "wrapping AndI = Some ap_and"
| "wrapping OrI = Some ap_or"
| "wrapping XOrI = Some ap_xor"
| "wrapping MaxSI = Some (\<lambda>a b. if sval b < sval a then a else b)"
| "wrapping MaxUI = Some (\<lambda>a b. if uval b < uval a then a else b)"
| "wrapping MinSI = Some (\<lambda>a b. if sval a < sval b then a else b)"
| "wrapping MinUI = Some (\<lambda>a b. if uval a < uval b then a else b)"
| "wrapping _ = None"

fun shifting :: "arith_int_op \<Rightarrow> (apint \<Rightarrow> apint \<Rightarrow> apint) option" where
  "shifting ShLI = Some ap_shl"
| "shifting ShRUI = Some ap_lshr"
| "shifting ShRSI = Some ap_ashr"
| "shifting _ = None"

definition same_width :: "apint \<Rightarrow> apint \<Rightarrow> bool" where
  "same_width a b \<longleftrightarrow> wf_apint a \<and> wf_apint b \<and> ap_width a = ap_width b"

definition arith_ok :: "dialects \<Rightarrow> bool" where
  "arith_ok sem \<longleftrightarrow>
     (\<forall>t a b. same_width a b \<longrightarrow>
        (\<forall>f fn. wrapping f = Some fn \<longrightarrow> sem (ArithI f) t [ScInt a, ScInt b] = Inr (ScInt (fn a b))) \<and>
        (\<forall>f fn. shifting f = Some fn \<longrightarrow> (\<exists>c. sem (ArithI f) t [ScInt a, ScInt b] = Inr c) \<and>
           (uval b < int (ap_width a) \<longrightarrow> sem (ArithI f) t [ScInt a, ScInt b] = Inr (ScInt (fn a b)))) \<and>
        (\<forall>p. sem (CmpI p) t [ScInt a, ScInt b] = Inr (ScInt (flag (cmp_holds p a b)))) \<and>
        (uval b \<noteq> 0 \<longrightarrow>
           sem (ArithI DivUI) t [ScInt a, ScInt b] = Inr (ScInt (mk_apint (ap_width a) (uval a div uval b))) \<and>
           sem (ArithI RemUI) t [ScInt a, ScInt b] = Inr (ScInt (mk_apint (ap_width a) (uval a mod uval b))) \<and>
           (\<not> (sval a = - (2 ^ (ap_width a - 1)) \<and> sval b = - 1) \<longrightarrow>
             sem (ArithI DivSI) t [ScInt a, ScInt b] = Inr (ScInt (mk_apint (ap_width a) (sval a sdiv sval b))) \<and>
             sem (ArithI RemSI) t [ScInt a, ScInt b] = Inr (ScInt (mk_apint (ap_width a) (sval a smod sval b)))))) \<and>
     (\<forall>w i. 0 < w \<longrightarrow> sem (Constant (IntAttr i)) (IntegerType Signless w) [] = Inr (ScInt (mk_apint w i)) \<and>
        sem (Constant ZeroAttr) (IntegerType Signless w) [] = Inr (ScInt (mk_apint w 0))) \<and>
     (\<forall>t c x y. sem Select t [ScInt (flag c), x, y] = Inr (if c then x else y)) \<and>
     (\<forall>t a. wf_apint a \<longrightarrow> sem (Math MathCtPop) t [ScInt a] = Inr (ScInt (mk_apint (ap_width a) (ap_popcount a)))) \<and>
     (\<forall>w a. wf_apint a \<longrightarrow>
        (w < ap_width a \<longrightarrow> sem (ArithI TruncI) (IntegerType Signless w) [ScInt a] = Inr (ScInt (mk_apint w (uval a)))) \<and>
        (ap_width a < w \<longrightarrow> sem (ArithI ExtUI) (IntegerType Signless w) [ScInt a] = Inr (ScInt (mk_apint w (uval a))) \<and>
           sem (ArithI ExtSI) (IntegerType Signless w) [ScInt a] = Inr (ScInt (mk_apint w (sval a))))) \<and>
     (\<forall>f. sem Bitcast (IntegerType Signless (sem_width (fl_sem f))) [ScFloat f] = Inr (ScInt (mk_apint (sem_width (fl_sem f)) (fl_bits f)))) \<and>
     (\<forall>s a. ap_width a = sem_width s \<longrightarrow> sem Bitcast (FloatType s) [ScInt a] = Inr (ScFloat (fl_of_bits s (uval a))))"

lemma arith_okD:
  assumes "arith_ok sem"
  shows arith_wrap: "same_width a b \<Longrightarrow> wrapping f = Some fn \<Longrightarrow> sem (ArithI f) t [ScInt a, ScInt b] = Inr (ScInt (fn a b))"
    and arith_shift: "same_width a b \<Longrightarrow> shifting f = Some fn \<Longrightarrow> uval b < int (ap_width a) \<Longrightarrow>
      sem (ArithI f) t [ScInt a, ScInt b] = Inr (ScInt (fn a b))"
    and arith_shift_any: "same_width a b \<Longrightarrow> shifting f = Some fn \<Longrightarrow> \<exists>c. sem (ArithI f) t [ScInt a, ScInt b] = Inr c"
    and arith_cmp: "same_width a b \<Longrightarrow> sem (CmpI p) t [ScInt a, ScInt b] = Inr (ScInt (flag (cmp_holds p a b)))"
    and arith_divu: "same_width a b \<Longrightarrow> uval b \<noteq> 0 \<Longrightarrow>
      sem (ArithI DivUI) t [ScInt a, ScInt b] = Inr (ScInt (mk_apint (ap_width a) (uval a div uval b))) \<and>
      sem (ArithI RemUI) t [ScInt a, ScInt b] = Inr (ScInt (mk_apint (ap_width a) (uval a mod uval b)))"
    and arith_divs: "same_width a b \<Longrightarrow> uval b \<noteq> 0 \<Longrightarrow> \<not> (sval a = - (2 ^ (ap_width a - 1)) \<and> sval b = - 1) \<Longrightarrow>
      sem (ArithI DivSI) t [ScInt a, ScInt b] = Inr (ScInt (mk_apint (ap_width a) (sval a sdiv sval b))) \<and>
      sem (ArithI RemSI) t [ScInt a, ScInt b] = Inr (ScInt (mk_apint (ap_width a) (sval a smod sval b)))"
    and arith_const: "0 < w \<Longrightarrow> sem (Constant (IntAttr i)) (IntegerType Signless w) [] = Inr (ScInt (mk_apint w i))"
      "0 < w \<Longrightarrow> sem (Constant ZeroAttr) (IntegerType Signless w) [] = Inr (ScInt (mk_apint w 0))"
    and arith_select: "sem Select t [ScInt (flag c), x, y] = Inr (if c then x else y)"
    and arith_popcount: "wf_apint a \<Longrightarrow> sem (Math MathCtPop) t [ScInt a] = Inr (ScInt (mk_apint (ap_width a) (ap_popcount a)))"
    and arith_casts: "wf_apint a \<Longrightarrow> w < ap_width a \<Longrightarrow> sem (ArithI TruncI) (IntegerType Signless w) [ScInt a] = Inr (ScInt (mk_apint w (uval a)))"
      "wf_apint a \<Longrightarrow> ap_width a < w \<Longrightarrow> sem (ArithI ExtUI) (IntegerType Signless w) [ScInt a] = Inr (ScInt (mk_apint w (uval a)))"
      "wf_apint a \<Longrightarrow> ap_width a < w \<Longrightarrow> sem (ArithI ExtSI) (IntegerType Signless w) [ScInt a] = Inr (ScInt (mk_apint w (sval a)))"
    and arith_bitcast: "sem Bitcast (IntegerType Signless (sem_width (fl_sem f'))) [ScFloat f'] = Inr (ScInt (mk_apint (sem_width (fl_sem f')) (fl_bits f')))"
      "ap_width a = sem_width s \<Longrightarrow> sem Bitcast (FloatType s) [ScInt a] = Inr (ScFloat (fl_of_bits s (uval a)))"
  using assms unfolding arith_ok_def by simp_all

section \<open>Values of emitted expressions\<close>

text \<open>The value has the type and the integer; or it only has some value.\<close>

definition yields :: "dialects \<Rightarrow> scalar list \<Rightarrow> scalar list \<Rightarrow> bvalue \<Rightarrow> ty \<Rightarrow> apint \<Rightarrow> bool" where
  "yields sem env iters v t c \<longleftrightarrow> snd v = t \<and> eval_sexp sem env iters (fst v) = Inr (ScInt c)"

definition valued :: "dialects \<Rightarrow> scalar list \<Rightarrow> scalar list \<Rightarrow> bvalue \<Rightarrow> bool" where
  "valued sem env iters v \<longleftrightarrow> (\<exists>c. eval_sexp sem env iters (fst v) = Inr c)"

lemma yields_valued: "yields sem env iters v t c \<Longrightarrow> valued sem env iters v"
  by (auto simp: yields_def valued_def)

lemma wf_flag [simp]: "wf_apint (flag c)" "ap_width (flag c) = 1" "uval (flag c) = (if c then 1 else 0)"
  "same_width (flag c) (flag d)"
  by (simp_all add: flag_def same_width_def)

lemma flag_ops [simp]: "ap_and (flag c) (flag d) = flag (c \<and> d)" "ap_or (flag c) (flag d) = flag (c \<or> d)"
  by (simp_all add: ap_and_def ap_or_def, simp_all add: flag_def)

lemma same_width_const [simp]: "0 < w \<Longrightarrow> same_width (mk_apint w i) (mk_apint w j)"
  by (simp add: same_width_def)

lemma create_binary:
  assumes "eval_sexp sem env iters (fst x) = Inr c" and "eval_sexp sem env iters (fst y) = Inr d"
  shows "eval_sexp sem env iters (fst (create oper t [x, y])) = sem oper t [c, d]"
  using assms by (simp add: create_def)


lemma yields_const:
  assumes "arith_ok sem" and "0 < w"
  shows "yields sem env iters (getConstantOrSplat (IntegerType Signless w) (IntAttr i)) (IntegerType Signless w) (mk_apint w i)"
    "yields sem env iters (getConstantOrSplat (IntegerType Signless w) ZeroAttr) (IntegerType Signless w) (mk_apint w 0)"
  using arith_const [OF assms(1)] assms(2) by (simp_all add: yields_def getConstantOrSplat_def create_def)

lemma yields_wrap:
  assumes "arith_ok sem" and "yields sem env iters x t a" and "yields sem env iters y t' b" and "same_width a b"
    and "wrapping f = Some fn" and "c = fn a b"
  shows "yields sem env iters (create_same (ArithI f) [x, y]) t c"
  using assms arith_wrap [OF assms(1,4,5)] by (simp add: yields_def create_same_def create_def)

lemma yields_shift:
  assumes "arith_ok sem" and "yields sem env iters x t a" and "yields sem env iters y t' b" and "same_width a b"
    and "shifting f = Some fn"
  shows "valued sem env iters (create_same (ArithI f) [x, y])"
    and "uval b < int (ap_width a) \<Longrightarrow> c = fn a b \<Longrightarrow> yields sem env iters (create_same (ArithI f) [x, y]) t c"
  using assms arith_shift_any [OF assms(1,4,5)] arith_shift [OF assms(1,4,5)]
  by (auto simp: yields_def valued_def create_same_def create_def)

lemma yields_cmp:
  assumes "arith_ok sem" and "yields sem env iters x t a" and "yields sem env iters y t' b" and "same_width a b"
    and "c = cmp_holds p a b"
  shows "yields sem env iters (create_cmpi p x y) i1_type (flag c)"
  using assms arith_cmp [OF assms(1,4)] by (simp add: yields_def create_cmpi_def create_def)

lemma yields_select:
  assumes "arith_ok sem" and "yields sem env iters k tk (flag c)" and "snd x = t"
    and "valued sem env iters x" and "valued sem env iters y"
    and "c \<Longrightarrow> eval_sexp sem env iters (fst x) = Inr (ScInt r)" and "\<not> c \<Longrightarrow> eval_sexp sem env iters (fst y) = Inr (ScInt r)"
  shows "yields sem env iters (create_select k x y) t r"
  using assms arith_select [OF assms(1)] by (cases c) (auto simp: yields_def valued_def create_select_def create_def)

lemma yields_choice:
  assumes "arith_ok sem" and "yields sem env iters k tk (flag c)" and "yields sem env iters x t a" and "yields sem env iters y t' b"
    and "r = (if c then a else b)"
  shows "yields sem env iters (create_select k x y) t r"
  by (rule yields_select [OF assms(1,2)]) (use assms(3-) in \<open>auto simp: yields_def valued_def\<close>)

end
