(* ===== verification/ScalarRun.thy ===== *)
theory ScalarRun
  imports ScalarLaws ElementProperties
begin

text \<open>
  The lowered operations on integer elements: the value of every emitted expression, as an operation on
  fixed-width integers.
\<close>

section \<open>Running a lowered operation\<close>

fun signless :: "ty \<Rightarrow> ty" where
  "signless (IntegerType s w) = IntegerType Signless w"
| "signless t = t"

definition operands :: "ty list \<Rightarrow> bvalue list" where
  "operands ts = map (\<lambda>(i, t). (Operand i, signless t)) (enumerate 0 ts)"

definition run_scalar :: "dialects \<Rightarrow> mhlo_op \<Rightarrow> ty \<Rightarrow> ty list \<Rightarrow> scalar list \<Rightarrow> scalar res" where
  "run_scalar sem oper resultType argTypes vals =
     bnd (mapMhloOpToStdScalarOp oper (signless resultType) argTypes (operands argTypes)) (\<lambda>v.
       eval_sexp sem vals [] (fst v))"

lemma run_scalar_yields:
  assumes "mapMhloOpToStdScalarOp oper (signless rt) ats (operands ats) = Inr v" and "yields sem vals [] v t c"
  shows "run_scalar sem oper rt ats vals = Inr (ScInt c)"
  using assms by (simp add: run_scalar_def yields_def)

lemma operands_simps [simp]:
  "operands [t] = [(Operand 0, signless t)]"
  "operands [t, u] = [(Operand 0, signless t), (Operand 1, signless u)]"
  "operands [t, u, v] = [(Operand 0, signless t), (Operand 1, signless u), (Operand 2, signless v)]"
  by (simp_all add: operands_def enumerate_eq_zip numeral_2_eq_2)

lemma yields_operand:
  "n < length env \<Longrightarrow> env ! n = ScInt a \<Longrightarrow> yields sem env iters (Operand n, t) t a"
  by (simp add: yields_def)

text \<open>A supported integer type.\<close>

lemma int_typeE:
  assumes "int_typed t a"
  obtains s w where "t = IntegerType s w" and "s \<noteq> Signed" and "3 < w" and "ap_width a = w" and "wf_apint a"
    and "isSupportedSignedIntegerType t \<longleftrightarrow> s = Signless" and "int_or_float_width t = w" and "is_i1 t \<longleftrightarrow> False"
proof -
  obtain s w where t: "t = IntegerType s w" "s \<noteq> Signed" "w \<in> {4, 8, 16, 32, 64}"
    using assms by (auto simp: int_typed_def isSupportedIntegerType_cases)
  then show thesis using that [OF t(1,2)] assms
    by (cases s) (auto simp: int_typed_def isSupportedSignedIntegerType_def supported_int_defs)
qed

lemma uval_eq_const:
  assumes "wf_apint a" and "ap_width a = w" and "0 < w" and "- (2 ^ (w - 1)) \<le> k" and "k < 2 ^ (w - 1)"
  shows "uval a = uval (mk_apint w k) \<longleftrightarrow> sval a = k"
proof
  assume "uval a = uval (mk_apint w k)"
  then have "a = mk_apint w k" using assms(2) by (cases a) (simp add: mk_apint_def)
  then show "sval a = k" using sval_mk_in assms by simp
next
  assume "sval a = k"
  then show "uval a = uval (mk_apint w k)" using mk_apint_sval [OF assms(1)] assms(2) by metis
qed

section \<open>Division\<close>

lemma yields_op:
  assumes "yields sem env iters x t a" and "yields sem env iters y t' b" and "sem oper t [ScInt a, ScInt b] = Inr (ScInt c)"
  shows "yields sem env iters (create_same oper [x, y]) t c"
  using assms by (simp add: yields_def create_same_def create_def)

lemma power_two_small: "1 < w \<Longrightarrow> (2::int) \<le> 2 ^ (w - 1)"
  using power_increasing [of 1 "w - 1" "2 :: int"] by simp

lemma safe_div:
  assumes sem: "arith_ok sem" and w: "1 < w" "wf_apint a" "ap_width a = w" "wf_apint b" "ap_width b = w"
    and x: "yields sem env iters x (IntegerType Signless w) a" and y: "yields sem env iters y (IntegerType Signless w) b"
    and z: "yields sem env iters z (IntegerType Signless w) rz" and o': "yields sem env iters o' (IntegerType Signless w) ro"
    and U: "\<And>t a b. same_width a b \<Longrightarrow> uval b \<noteq> 0 \<Longrightarrow> sem (ArithI U) t [ScInt a, ScInt b] = Inr (ScInt (fu a b))"
    and S: "\<And>t a b. same_width a b \<Longrightarrow> uval b \<noteq> 0 \<Longrightarrow> \<not> (sval a = - (2 ^ (ap_width a - 1)) \<and> sval b = - 1) \<Longrightarrow>
      sem (ArithI S) t [ScInt a, ScInt b] = Inr (ScInt (fs a b))"
  shows "yields sem env iters (makeSafeIntDiv U S ot x y z o') (IntegerType Signless w)
    (if uval b = 0 then rz
     else if (case ot of IntegerType Unsigned _ \<Rightarrow> True | _ \<Rightarrow> False) then fu a b
     else if sval a = - (2 ^ (w - 1)) \<and> sval b = - 1 then ro else fs a b)"
proof -
  let ?t = "IntegerType Signless w"
  have pos: "0 < w" using w(1) by simp
  note const = yields_const [OF sem pos, of env iters]
  note two = power_two_small [OF w(1)]
  have sw: "same_width a b" "same_width a (mk_apint w i)" "same_width b (mk_apint w i)" for i
    using w by (simp_all add: same_width_def)
  have snd: "snd x = ?t" using x by (simp add: yields_def)
  have one: "uval (mk_apint w 1) = 1" "sval (mk_apint w 1) = 1"
    using uval_mk_in [of 1 w] sval_mk_in [of w 1] w(1) two pow2_split [OF pos] by simp_all
  define isz where "isz = create_cmpi Ieq y (getConstantOrSplat ?t ZeroAttr)"
  have isz: "yields sem env iters isz i1_type (flag (uval b = 0))"
    unfolding isz_def by (rule yields_cmp [OF sem y const(2)]) (use sw in simp_all)
  show ?thesis
  proof (cases "case ot of IntegerType Unsigned _ \<Rightarrow> True | _ \<Rightarrow> False")
    case True
    let ?b = "if uval b = 0 then mk_apint w 1 else b"
    have safe: "yields sem env iters (create_select isz (getConstantOrSplat ?t (IntAttr 1)) y) ?t ?b"
      by (rule yields_choice [OF sem isz const(1) y]) simp
    have "yields sem env iters (create_same (ArithI U) [x, create_select isz (getConstantOrSplat ?t (IntAttr 1)) y]) ?t (fu a ?b)"
      by (rule yields_op [OF x safe U]) (use sw one in auto)
    then have "yields sem env iters (create_select isz z (create_same (ArithI U) [x, create_select isz (getConstantOrSplat ?t (IntAttr 1)) y]))
        ?t (if uval b = 0 then rz else fu a b)"
      by (rule yields_choice [OF sem isz z]) simp
    then show ?thesis
      using True snd by (cases "uval b = 0") (simp_all add: makeSafeIntDiv_def Let_def isz_def)
  next
    case False
    define ovf where "ovf \<longleftrightarrow> sval a = - (2 ^ (w - 1)) \<and> sval b = - 1"
    let ?c = "\<lambda>i. getConstantOrSplat ?t (IntAttr i)"
    define ov where "ov = create_same (ArithI AndI) [create_cmpi Ieq x (?c (- (2 ^ (w - 1)))), create_cmpi Ieq y (?c (- 1))]"
    have smin: "yields sem env iters (create_cmpi Ieq x (?c (- (2 ^ (w - 1))))) i1_type (flag (sval a = - (2 ^ (w - 1))))"
      by (rule yields_cmp [OF sem x const(1)])
        (use sw uval_eq_const [OF w(2,3) pos, of "- (2 ^ (w - 1))"] two in simp_all)
    have m1: "yields sem env iters (create_cmpi Ieq y (?c (- 1))) i1_type (flag (sval b = - 1))"
      by (rule yields_cmp [OF sem y const(1)])
        (use sw uval_eq_const [OF w(4,5) pos, of "- 1"] two in simp_all)
    have ov: "yields sem env iters ov i1_type (flag ovf)"
      unfolding ov_def by (rule yields_wrap [OF sem smin m1, where fn = ap_and]) (simp_all add: ovf_def)
    have unsafe: "yields sem env iters (create_same (ArithI OrI) [isz, ov]) i1_type (flag (uval b = 0 \<or> ovf))"
      by (rule yields_wrap [OF sem isz ov, where fn = ap_or]) simp_all
    let ?b = "if uval b = 0 \<or> ovf then mk_apint w 1 else b"
    define sr where "sr = create_select (create_same (ArithI OrI) [isz, ov]) (?c 1) y"
    have safe: "yields sem env iters sr ?t ?b"
      unfolding sr_def by (rule yields_choice [OF sem unsafe const(1) y]) simp
    have div: "yields sem env iters (create_same (ArithI S) [x, sr]) ?t (fs a ?b)"
      by (rule yields_op [OF x safe S]) (use sw one w(3) in \<open>auto simp: ovf_def\<close>)
    have "yields sem env iters (create_select ov o' (create_same (ArithI S) [x, sr])) ?t (if ovf then ro else fs a ?b)"
      by (rule yields_choice [OF sem ov o' div]) simp
    then have "yields sem env iters (create_select isz z (create_select ov o' (create_same (ArithI S) [x, sr])))
        ?t (if uval b = 0 then rz else if ovf then ro else fs a b)"
      by (rule yields_choice [OF sem isz z]) simp
    then show ?thesis
      using False snd by (cases "uval b = 0"; cases ovf) (simp_all add: makeSafeIntDiv_def Let_def isz_def ov_def sr_def ovf_def)
  qed
qed

section \<open>Bits\<close>

lemma minus_one_or_one: "0 < w \<Longrightarrow> ap_or (mk_apint w (- 1)) (mk_apint w 1) = mk_apint w (- 1)"
proof -
  assume "0 < w"
  moreover have "mask w OR (1 :: int) = mask w" if "0 < w"
    by (rule bit_eqI) (use that in \<open>auto simp: bit_or_iff bit_mask_iff bit_1_iff\<close>)
  moreover have m: "(- 1 :: int) mod 2 ^ w = mask w" by (simp add: mask_eq_exp_minus_1 zmod_minus1)
  moreover have "(mask w :: int) mod 2 ^ w = mask w" unfolding m [symmetric] by simp
  moreover have "(1 :: int) mod 2 ^ w = 1" if "0 < w" using that by (intro mod_pos_pos_trivial) simp_all
  ultimately show ?thesis by (simp add: ap_or_def) (simp add: mk_apint_def)
qed

lemma all_ones_xor: "wf_apint a \<Longrightarrow> ap_width a = w \<Longrightarrow> ap_xor (mk_apint w (- 1)) a = ap_not a"
proof -
  assume "wf_apint a" "ap_width a = w"
  have "take_bit w (mask w XOR uval a) = take_bit w (NOT (uval a))"
    by (rule bit_eqI) (auto simp: bit_take_bit_iff bit_xor_iff bit_mask_iff bit_not_iff)
  moreover have "(- 1 :: int) mod 2 ^ w = mask w" by (simp add: mask_eq_exp_minus_1 zmod_minus1)
  ultimately show ?thesis using \<open>ap_width a = w\<close> by (simp add: ap_xor_def ap_not_def mk_apint_eq_iff take_bit_eq_mod)
qed

lemma ashr_sign:
  assumes "wf_apint a"
  shows "sval a div 2 ^ (ap_width a - 1) = (if sval a < 0 then - 1 else 0)"
proof -
  note r = sval_range [OF assms]
  show ?thesis
  proof (cases "sval a < 0")
    case True
    have "sval a div 2 ^ (ap_width a - 1) = - 1 + (sval a + 2 ^ (ap_width a - 1)) div 2 ^ (ap_width a - 1)"
      using div_add_self2 [of "2 ^ (ap_width a - 1)" "sval a"] by simp
    also have "(sval a + 2 ^ (ap_width a - 1)) div 2 ^ (ap_width a - 1) = 0" using r True by (intro div_pos_pos_trivial) auto
    finally show ?thesis using True by simp
  qed (use r in \<open>simp add: div_pos_pos_trivial\<close>)
qed

section \<open>Shifts\<close>

lemma int_less_power: "int w < 2 ^ w"
  using less_exp [of w] by (metis of_nat_less_iff of_nat_numeral of_nat_power)

lemma width_const: "0 < w \<Longrightarrow> uval (mk_apint w (int w)) = int w"
  by (intro uval_mk_in) (simp_all add: int_less_power)

lemma shift_or_saturated:
  assumes sem: "arith_ok sem" and w: "0 < w" "wf_apint a" "ap_width a = w" "wf_apint b" "ap_width b = w"
    and x: "yields sem env iters x (IntegerType Signless w) a" and y: "yields sem env iters y (IntegerType Signless w) b"
    and z: "yields sem env iters z (IntegerType Signless w) c" and f: "shifting f = Some fn"
    and r: "r = (if uval b < int w then fn a b else c)"
  shows "yields sem env iters (selectShiftedOrSaturated y (create_same (ArithI f) [x, y]) z (IntegerType Signless w)) (IntegerType Signless w) r"
proof -
  let ?t = "IntegerType Signless w"
  have sw: "same_width a b" "same_width (mk_apint w (int w)) b" using w by (simp_all add: same_width_def)
  have cmp: "yields sem env iters (create_cmpi Iugt (getConstantOrSplat ?t (IntAttr (int w))) y) i1_type (flag (uval b < int w))"
    by (rule yields_cmp [OF sem yields_const(1) [OF sem w(1)] y]) (use sw width_const [OF w(1)] in simp_all)
  note sh = yields_shift [OF sem x y sw(1) f]
  have "yields sem env iters (create_select (create_cmpi Iugt (getConstantOrSplat ?t (IntAttr (int w))) y) (create_same (ArithI f) [x, y]) z) ?t r"
  proof (rule yields_select [OF sem cmp])
    show "snd (create_same (ArithI f) [x, y]) = ?t" using x by (simp add: yields_def create_same_def create_def)
    show "valued sem env iters (create_same (ArithI f) [x, y])" by (rule sh(1))
    show "valued sem env iters z" by (rule yields_valued [OF z])
    show "eval_sexp sem env iters (fst (create_same (ArithI f) [x, y])) = Inr (ScInt r)" if "uval b < int w"
      using sh(2) [of r] that r w(3) by (simp add: yields_def)
    show "eval_sexp sem env iters (fst z) = Inr (ScInt r)" if "\<not> uval b < int w"
      using z that r by (simp add: yields_def)
  qed
  then show ?thesis by (simp add: selectShiftedOrSaturated_def Let_def)
qed

lemma big_shifts:
  assumes "wf_apint a" and "int (ap_width a) \<le> uval b"
  shows "ap_shl a b = mk_apint (ap_width a) 0" "ap_lshr a b = mk_apint (ap_width a) 0"
    "ap_ashr a b = ap_ashr a (mk_apint (ap_width a) (int (ap_width a) - 1))"
proof -
  have s: "shift_amount a b = ap_width a" using assms(2) by (simp add: shift_amount_def)
  show "ap_shl a b = mk_apint (ap_width a) 0" by (simp add: ap_shl_def s mk_apint_eq_iff)
  show "ap_lshr a b = mk_apint (ap_width a) 0" using assms(1) by (simp add: ap_lshr_def s wf_apint_def div_pos_pos_trivial)
  have pos: "0 < ap_width a" using assms(1) by (simp add: wf_apint_def)
  have "uval (mk_apint (ap_width a) (int (ap_width a) - 1)) = int (ap_width a) - 1"
    using pos int_less_power [of "ap_width a"] by (intro uval_mk_in) linarith+
  then have m: "shift_amount a (mk_apint (ap_width a) (int (ap_width a) - 1)) = ap_width a - 1"
    using pos by (simp add: shift_amount_def nat_diff_distrib)
  have "sval a div 2 ^ ap_width a = (if sval a < 0 then - 1 else 0)"
  proof -
    have "sval a div 2 ^ ap_width a = (sval a div 2 ^ (ap_width a - 1)) div 2"
      using pow2_split [OF pos] zdiv_zmult2_eq [of 2 "sval a" "2 ^ (ap_width a - 1)"] by (simp add: mult.commute)
    then show ?thesis using ashr_sign [OF assms(1)] by simp
  qed
  then show "ap_ashr a b = ap_ashr a (mk_apint (ap_width a) (int (ap_width a) - 1))"
    using ashr_sign [OF assms(1)] by (simp add: ap_ashr_def s m)
qed

section \<open>The operations\<close>

named_theorems lowered

text \<open>The operands of a binary operation on one integer type.\<close>

lemma two_operands:
  assumes "int_typed t a" and "int_typed t b"
  obtains s w where "t = IntegerType s w" and "s \<noteq> Signed" and "3 < w" and "wf_apint a" and "ap_width a = w"
    and "wf_apint b" and "ap_width b = w" and "same_width a b" and "isSupportedSignedIntegerType t \<longleftrightarrow> s = Signless"
    and "signless t = IntegerType Signless w"
    and "yields sem [ScInt a, ScInt b] [] (Operand 0, signless t) (IntegerType Signless w) a"
    and "yields sem [ScInt a, ScInt b] [] (Operand 1, signless t) (IntegerType Signless w) b"
proof -
  from assms(1) obtain s w where t: "t = IntegerType s w" "s \<noteq> Signed" "3 < w" "ap_width a = w" "wf_apint a"
    "isSupportedSignedIntegerType t \<longleftrightarrow> s = Signless" "int_or_float_width t = w" by (rule int_typeE)
  moreover have "ap_width b = w" "wf_apint b" using assms(2) t(7) by (simp_all add: int_typed_def)
  ultimately show thesis using that [OF t(1,2,3,5,4)] by (simp add: same_width_def yields_operand)
qed

lemma run_table:
  assumes sem: "arith_ok sem" and typed: "int_typed t a" "int_typed t b"
    and m: "mapMhloOpToStdScalarOp oper (signless t) [t, t] (operands [t, t]) = Inr (create (ArithI f) (signless t) (operands [t, t]))"
    and f: "wrapping f = Some fn"
  shows "run_scalar sem oper t [t, t] [ScInt a, ScInt b] = Inr (ScInt (fn a b))"
proof -
  from typed obtain s w where t: "same_width a b" "signless t = IntegerType Signless w"
    "yields sem [ScInt a, ScInt b] [] (Operand 0, signless t) (IntegerType Signless w) a"
    "yields sem [ScInt a, ScInt b] [] (Operand 1, signless t) (IntegerType Signless w) b"
    by (rule two_operands [where sem = sem])
  have "create (ArithI f) (signless t) (operands [t, t]) = create_same (ArithI f) (operands [t, t])"
    by (simp add: create_same_def)
  then show ?thesis
    using run_scalar_yields [OF m] yields_wrap [OF sem t(3,4,1) f refl] by simp
qed

lemma run_arith [lowered]:
  assumes "arith_ok sem" and "int_typed t a" and "int_typed t b"
  shows "run_scalar sem MhloAdd t [t, t] [ScInt a, ScInt b] = Inr (ScInt (ap_add a b))"
    "run_scalar sem MhloSubtract t [t, t] [ScInt a, ScInt b] = Inr (ScInt (ap_sub a b))"
    "run_scalar sem MhloMul t [t, t] [ScInt a, ScInt b] = Inr (ScInt (ap_mul a b))"
    "run_scalar sem MhloAnd t [t, t] [ScInt a, ScInt b] = Inr (ScInt (ap_and a b))"
    "run_scalar sem MhloOr t [t, t] [ScInt a, ScInt b] = Inr (ScInt (ap_or a b))"
    "run_scalar sem MhloXor t [t, t] [ScInt a, ScInt b] = Inr (ScInt (ap_xor a b))"
proof -
  from assms(2,3) obtain s w where t: "t = IntegerType s w" "s \<noteq> Signed" "3 < w" by (rule two_operands [where sem = sem])
  then have s: "s = Signless \<or> s = Unsigned" by (cases s) auto
  show "run_scalar sem MhloAdd t [t, t] [ScInt a, ScInt b] = Inr (ScInt (ap_add a b))"
    by (rule run_table [OF assms, where f = AddI]) (use t s in \<open>auto simp: map_by_table_def\<close>)
  show "run_scalar sem MhloSubtract t [t, t] [ScInt a, ScInt b] = Inr (ScInt (ap_sub a b))"
    by (rule run_table [OF assms, where f = SubI]) (use t s in \<open>auto simp: map_by_table_def\<close>)
  show "run_scalar sem MhloMul t [t, t] [ScInt a, ScInt b] = Inr (ScInt (ap_mul a b))"
    by (rule run_table [OF assms, where f = MulI]) (use t s in \<open>auto simp: map_by_table_def\<close>)
  show "run_scalar sem MhloAnd t [t, t] [ScInt a, ScInt b] = Inr (ScInt (ap_and a b))"
    by (rule run_table [OF assms, where f = AndI]) (use t s in \<open>auto simp: map_by_table_def\<close>)
  show "run_scalar sem MhloOr t [t, t] [ScInt a, ScInt b] = Inr (ScInt (ap_or a b))"
    by (rule run_table [OF assms, where f = OrI]) (use t s in \<open>auto simp: map_by_table_def\<close>)
  show "run_scalar sem MhloXor t [t, t] [ScInt a, ScInt b] = Inr (ScInt (ap_xor a b))"
    by (rule run_table [OF assms, where f = XOrI]) (use t s in \<open>auto simp: map_by_table_def\<close>)
qed

lemma run_minmax [lowered]:
  assumes "arith_ok sem" and "int_typed t a" and "int_typed t b"
  shows "run_scalar sem MhloMax t [t, t] [ScInt a, ScInt b] = Inr (ScInt (if int_value t b < int_value t a then a else b))"
    "run_scalar sem MhloMin t [t, t] [ScInt a, ScInt b] = Inr (ScInt (if int_value t a < int_value t b then a else b))"
proof -
  from assms(2,3) obtain s w where t: "t = IntegerType s w" "s \<noteq> Signed" "3 < w" "isSupportedSignedIntegerType t \<longleftrightarrow> s = Signless"
    by (rule two_operands [where sem = sem])
  then consider "s = Signless" "int_value t = sval" | "s = Unsigned" "int_value t = uval" by (cases s) (auto simp: int_value_def fun_eq_iff)
  then show "run_scalar sem MhloMax t [t, t] [ScInt a, ScInt b] = Inr (ScInt (if int_value t b < int_value t a then a else b))"
    using run_table [OF assms, of MhloMax MaxSI] run_table [OF assms, of MhloMax MaxUI] t
    by cases (simp_all add: map_MaxOp_def)
  from \<open>t = IntegerType s w\<close> consider "s = Signless" "int_value t = sval" | "s = Unsigned" "int_value t = uval"
    using t by (cases s) (auto simp: int_value_def fun_eq_iff)
  then show "run_scalar sem MhloMin t [t, t] [ScInt a, ScInt b] = Inr (ScInt (if int_value t a < int_value t b then a else b))"
    using run_table [OF assms, of MhloMin MinSI] run_table [OF assms, of MhloMin MinUI] t
    by cases (simp_all add: map_MinOp_def)
qed

lemma run_compare [lowered]:
  assumes "arith_ok sem" and "int_typed t a" and "int_typed t b"
  shows "run_scalar sem (MhloCompare d total') i1 [t, t] [ScInt a, ScInt b] =
    Inr (ScInt (flag (cmp_holds (getCmpPredicateI d (isSupportedSignedIntegerType t)) a b)))"
proof -
  from assms(2,3) obtain s w where t: "t = IntegerType s w" "s \<noteq> Signed" "3 < w" "same_width a b"
    "isSupportedSignedIntegerType t \<longleftrightarrow> s = Signless"
    "yields sem [ScInt a, ScInt b] [] (Operand 0, signless t) (IntegerType Signless w) a"
    "yields sem [ScInt a, ScInt b] [] (Operand 1, signless t) (IntegerType Signless w) b"
    by (rule two_operands [where sem = sem])
  have "IsUnsignedIntegerType t \<longleftrightarrow> \<not> isSupportedSignedIntegerType t" using t(1-3,5) by (cases s) auto
  then have m: "mapMhloOpToStdScalarOp (MhloCompare d total') (signless i1) [t, t] (operands [t, t]) =
    Inr (create_cmpi (getCmpPredicateI d (isSupportedSignedIntegerType t)) (Operand 0, signless t) (Operand 1, signless t))"
    using t(1) by (simp add: map_CompareOp_def Let_def)
  show ?thesis by (rule run_scalar_yields [OF m yields_cmp [OF assms(1) t(6,7,4) refl]])
qed

lemma run_divide [lowered]:
  assumes "arith_ok sem" and "int_typed t a" and "int_typed t b"
  shows "run_scalar sem MhloDiv t [t, t] [ScInt a, ScInt b] = Inr (ScInt (mk_apint (int_or_float_width t)
      (if int_value t b = 0 then - 1 else int_value t a sdiv int_value t b)))"
    and "run_scalar sem MhloRem t [t, t] [ScInt a, ScInt b] = Inr (ScInt (mk_apint (int_or_float_width t)
      (if int_value t b = 0 then int_value t a else int_value t a smod int_value t b)))"
proof -
  from assms(2,3) obtain s w where t: "t = IntegerType s w" "s \<noteq> Signed" "3 < w" "wf_apint a" "ap_width a = w"
    "wf_apint b" "ap_width b = w" "isSupportedSignedIntegerType t \<longleftrightarrow> s = Signless" "signless t = IntegerType Signless w"
    "yields sem [ScInt a, ScInt b] [] (Operand 0, signless t) (IntegerType Signless w) a"
    "yields sem [ScInt a, ScInt b] [] (Operand 1, signless t) (IntegerType Signless w) b"
    by (rule two_operands [where sem = sem])
  let ?t = "IntegerType Signless w"
  have pos: "0 < w" "1 < w" using t(3) by simp_all
  note const = yields_const [OF assms(1) pos(1), of "[ScInt a, ScInt b]" "[]"]
  have zero: "uval b = 0 \<longleftrightarrow> int_value t b = 0"
    using t(6,7) by (auto simp: int_value_def sval_def wf_apint_def split: if_splits)
  have u: "(case t of IntegerType Unsigned _ \<Rightarrow> True | _ \<Rightarrow> False) \<longleftrightarrow> s = Unsigned" using t(1) by (cases s) simp_all
  have v: "int_value t x = (if s = Unsigned then uval x else sval x)" for x using t(2,8) by (cases s) (simp_all add: int_value_def)
  have nn: "0 \<le> uval a" "0 \<le> uval b" using t(4,6) by (simp_all add: wf_apint_def)
  have self: "mk_apint w (int_value t a) = a" using mk_apint_sval [OF t(4)] mk_apint_uval [OF t(4)] t(5) by (simp add: int_value_def)
  have m: "mapMhloOpToStdScalarOp MhloDiv (signless t) [t, t] (operands [t, t]) =
      Inr (makeSafeIntDiv DivUI DivSI t (Operand 0, signless t) (Operand 1, signless t)
        (getConstantOrSplat ?t (IntAttr (- 1))) (getConstantOrSplat ?t (IntAttr (- (2 ^ (w - 1))))))"
    "mapMhloOpToStdScalarOp MhloRem (signless t) [t, t] (operands [t, t]) =
      Inr (makeSafeIntDiv RemUI RemSI t (Operand 0, signless t) (Operand 1, signless t)
        (Operand 0, signless t) (getConstantOrSplat ?t ZeroAttr))"
    using t(1,9) by (simp_all add: map_DivOp_def map_RemOp_def Let_def)
  have div: "run_scalar sem MhloDiv t [t, t] [ScInt a, ScInt b] = Inr (ScInt
      (if uval b = 0 then mk_apint w (- 1)
       else if s = Unsigned then mk_apint (ap_width a) (uval a div uval b)
       else if sval a = - (2 ^ (w - 1)) \<and> sval b = - 1 then mk_apint w (- (2 ^ (w - 1)))
       else mk_apint (ap_width a) (sval a sdiv sval b)))"
    unfolding u [symmetric]
    by (rule run_scalar_yields [OF m(1)], rule safe_div [OF assms(1) pos(2) t(4-7) t(10,11) const(1) const(1)])
      (use arith_divu [OF assms(1)] arith_divs [OF assms(1)] in auto)
  have rem: "run_scalar sem MhloRem t [t, t] [ScInt a, ScInt b] = Inr (ScInt
      (if uval b = 0 then a
       else if s = Unsigned then mk_apint (ap_width a) (uval a mod uval b)
       else if sval a = - (2 ^ (w - 1)) \<and> sval b = - 1 then mk_apint w 0
       else mk_apint (ap_width a) (sval a smod sval b)))"
    unfolding u [symmetric]
    by (rule run_scalar_yields [OF m(2)], rule safe_div [OF assms(1) pos(2) t(4-7) t(10,11) t(10) const(2)])
      (use arith_divu [OF assms(1)] arith_divs [OF assms(1)] in auto)
  have wrap: "mk_apint w (- (2 ^ (w - 1)) sdiv - 1) = mk_apint w (- (2 ^ (w - 1)))"
  proof -
    have "- (2 ^ (w - 1)) sdiv - 1 = - (2 ^ (w - 1)) + (2 :: int) ^ w"
      using pow2_split [OF pos(1)] by (simp add: signed_divide_int_def)
    then show ?thesis unfolding mk_apint_eq_iff by (simp only: mod_add_self2)
  qed
  have wt: "int_or_float_width t = w" using t(1) by simp
  show "run_scalar sem MhloDiv t [t, t] [ScInt a, ScInt b] = Inr (ScInt (mk_apint (int_or_float_width t)
      (if int_value t b = 0 then - 1 else int_value t a sdiv int_value t b)))"
    "run_scalar sem MhloRem t [t, t] [ScInt a, ScInt b] = Inr (ScInt (mk_apint (int_or_float_width t)
      (if int_value t b = 0 then int_value t a else int_value t a smod int_value t b)))"
  proof (atomize (full), cases "uval b = 0")
    case True
    then have "int_value t b = 0" using zero by simp
    then show "run_scalar sem MhloDiv t [t, t] [ScInt a, ScInt b] = Inr (ScInt (mk_apint (int_or_float_width t)
        (if int_value t b = 0 then - 1 else int_value t a sdiv int_value t b))) \<and>
      run_scalar sem MhloRem t [t, t] [ScInt a, ScInt b] = Inr (ScInt (mk_apint (int_or_float_width t)
        (if int_value t b = 0 then int_value t a else int_value t a smod int_value t b)))"
      unfolding div rem wt using True self by simp
  next
    case False
    then have nz: "int_value t b \<noteq> 0" using zero by simp
    show "run_scalar sem MhloDiv t [t, t] [ScInt a, ScInt b] = Inr (ScInt (mk_apint (int_or_float_width t)
        (if int_value t b = 0 then - 1 else int_value t a sdiv int_value t b))) \<and>
      run_scalar sem MhloRem t [t, t] [ScInt a, ScInt b] = Inr (ScInt (mk_apint (int_or_float_width t)
        (if int_value t b = 0 then int_value t a else int_value t a smod int_value t b)))"
    proof (cases "s = Unsigned")
      case True
      then have "int_value t a = uval a" "int_value t b = uval b" by (simp_all add: v)
      then show ?thesis unfolding div rem wt
        using True False nn sdiv_nonneg [of "uval a" "uval b"] smod_nonneg [of "uval a" "uval b"] t(5) by simp
    next
      case s: False
      then have iv: "int_value t a = sval a" "int_value t b = sval b" by (simp_all add: v)
      show ?thesis unfolding div rem wt iv
        using False nz s wrap t(5) unfolding iv
        by (cases "sval a = - (2 ^ (w - 1)) \<and> sval b = - 1") (simp_all add: signed_modulo_int_def)
    qed
  qed
qed

end
