(* ===== verification/ScalarPower.thy ===== *)
theory ScalarPower
  imports ScalarRun
begin

text \<open>
  The lowered shifts, the unary operations and the conversions on integer elements.
\<close>

section \<open>Shifts\<close>

lemma run_shift [lowered]:
  assumes "arith_ok sem" and "int_typed t a" and "int_typed t b"
  shows "run_scalar sem MhloShiftLeft t [t, t] [ScInt a, ScInt b] = Inr (ScInt (ap_shl a b))"
    "run_scalar sem MhloShiftRightLogical t [t, t] [ScInt a, ScInt b] = Inr (ScInt (ap_lshr a b))"
    "run_scalar sem MhloShiftRightArithmetic t [t, t] [ScInt a, ScInt b] = Inr (ScInt (ap_ashr a b))"
proof -
  from assms(2,3) obtain s w where t: "t = IntegerType s w" "3 < w" "wf_apint a" "ap_width a = w"
    "wf_apint b" "ap_width b = w" "signless t = IntegerType Signless w"
    "yields sem [ScInt a, ScInt b] [] (Operand 0, signless t) (IntegerType Signless w) a"
    "yields sem [ScInt a, ScInt b] [] (Operand 1, signless t) (IntegerType Signless w) b"
    by (rule two_operands [where sem = sem])
  let ?t = "IntegerType Signless w"
  have pos: "0 < w" using t(2) by simp
  note const = yields_const [OF assms(1) pos, of "[ScInt a, ScInt b]" "[]"]
  note big = big_shifts [OF t(3), of b] t(4)
  let ?x = "(Operand 0, ?t)" and ?y = "(Operand 1, ?t)"
  note xy = t(8,9) [unfolded t(7)]
  have l: "yields sem [ScInt a, ScInt b] [] (selectShiftedOrSaturated ?y (create_same (ArithI ShLI) [?x, ?y])
      (getConstantOrSplat ?t ZeroAttr) ?t) ?t (ap_shl a b)"
    by (rule shift_or_saturated [OF assms(1) pos t(3-6) xy const(2), where fn = ap_shl]) (use big in auto)
  have r: "yields sem [ScInt a, ScInt b] [] (selectShiftedOrSaturated ?y (create_same (ArithI ShRUI) [?x, ?y])
      (getConstantOrSplat ?t ZeroAttr) ?t) ?t (ap_lshr a b)"
    by (rule shift_or_saturated [OF assms(1) pos t(3-6) xy const(2), where fn = ap_lshr]) (use big in auto)
  let ?m = "mk_apint w (int w - 1)"
  have m: "uval ?m = int w - 1" using int_less_power [of w] pos by (intro uval_mk_in) linarith+
  have "yields sem [ScInt a, ScInt b] [] (create_same (ArithI ShRSI) [?x, getConstantOrSplat ?t (IntAttr (int w - 1))]) ?t (ap_ashr a ?m)"
    by (rule yields_shift(2) [OF assms(1) xy(1) const(1), where fn = ap_ashr]) (use t(3,4) pos m in \<open>simp_all add: same_width_def\<close>)
  then have a: "yields sem [ScInt a, ScInt b] [] (selectShiftedOrSaturated ?y (create_same (ArithI ShRSI) [?x, ?y])
      (create_same (ArithI ShRSI) [?x, getConstantOrSplat ?t (IntAttr (int w - 1))]) ?t) ?t (ap_ashr a b)"
    by (rule shift_or_saturated [OF assms(1) pos t(3-6) xy, where fn = ap_ashr]) (use big in auto)
  show "run_scalar sem MhloShiftLeft t [t, t] [ScInt a, ScInt b] = Inr (ScInt (ap_shl a b))"
    by (rule run_scalar_yields [OF _ l]) (use t(1,7) in \<open>simp add: map_ShiftLeftOp_def Let_def\<close>)
  show "run_scalar sem MhloShiftRightLogical t [t, t] [ScInt a, ScInt b] = Inr (ScInt (ap_lshr a b))"
    by (rule run_scalar_yields [OF _ r]) (use t(1,7) in \<open>simp add: map_ShiftRightLogicalOp_def Let_def\<close>)
  show "run_scalar sem MhloShiftRightArithmetic t [t, t] [ScInt a, ScInt b] = Inr (ScInt (ap_ashr a b))"
    by (rule run_scalar_yields [OF _ a]) (use t(1,7) in \<open>simp add: map_ShiftRightArithmeticOp_def Let_def\<close>)
qed

section \<open>Unary operations\<close>

lemma one_operand:
  assumes "int_typed t a"
  obtains s w where "t = IntegerType s w" and "s \<noteq> Signed" and "3 < w" and "wf_apint a" and "ap_width a = w"
    and "isSupportedSignedIntegerType t \<longleftrightarrow> s = Signless" and "signless t = IntegerType Signless w"
    and "yields sem [ScInt a] [] (Operand 0, signless t) (IntegerType Signless w) a"
proof -
  from assms obtain s w where t: "t = IntegerType s w" "s \<noteq> Signed" "3 < w" "ap_width a = w" "wf_apint a"
    "isSupportedSignedIntegerType t \<longleftrightarrow> s = Signless" by (rule int_typeE)
  then show thesis using that [OF t(1,2,3,5,4,6)] by (simp add: yields_operand)
qed

lemma run_unary [lowered]:
  assumes "arith_ok sem" and "int_typed t a"
  shows "run_scalar sem MhloNeg t [t] [ScInt a] = Inr (ScInt (ap_neg a))"
    "run_scalar sem MhloNot t [t] [ScInt a] = Inr (ScInt (ap_not a))"
    "isSupportedSignedIntegerType t \<Longrightarrow> run_scalar sem MhloAbs t [t] [ScInt a] = Inr (ScInt (ap_abs a))"
    "run_scalar sem MhloPopulationCount t [t] [ScInt a] = Inr (ScInt (mk_apint (int_or_float_width t) (ap_popcount a)))"
proof -
  from assms(2) obtain s w where t: "t = IntegerType s w" "s \<noteq> Signed" "3 < w" "wf_apint a" "ap_width a = w"
    "isSupportedSignedIntegerType t \<longleftrightarrow> s = Signless" "signless t = IntegerType Signless w"
    "yields sem [ScInt a] [] (Operand 0, signless t) (IntegerType Signless w) a"
    by (rule one_operand [where sem = sem])
  let ?t = "IntegerType Signless w" and ?x = "(Operand 0, IntegerType Signless w)"
  have pos: "0 < w" using t(3) by simp
  note const = yields_const [OF assms(1) pos, of "[ScInt a]" "[]"]
  note x = t(8) [unfolded t(7)]
  have sw: "same_width (mk_apint w i) a" "same_width a (mk_apint w i)" for i using t(4,5) pos by (simp_all add: same_width_def)
  have neg: "ap_sub (mk_apint w 0) a = ap_neg a" using t(5) by (simp add: ap_sub_def ap_neg_def)
  have sub: "yields sem [ScInt a] [] (create_same (ArithI SubI) [getConstantOrSplat ?t ZeroAttr, ?x]) ?t (ap_neg a)"
    by (rule yields_wrap [OF assms(1) const(2) x sw(1), where fn = ap_sub]) (simp_all add: neg)
  show "run_scalar sem MhloNeg t [t] [ScInt a] = Inr (ScInt (ap_neg a))"
    by (rule run_scalar_yields [OF _ sub]) (use t(1,7) in \<open>simp add: map_NegOp_def Let_def\<close>)
  have "yields sem [ScInt a] [] (create_same (ArithI XOrI) [getConstantOrSplat ?t (IntAttr (- 1)), ?x]) ?t (ap_not a)"
    by (rule yields_wrap [OF assms(1) const(1) x sw(1), where fn = ap_xor]) (use all_ones_xor [OF t(4,5)] in simp_all)
  then show "run_scalar sem MhloNot t [t] [ScInt a] = Inr (ScInt (ap_not a))"
    by (rule run_scalar_yields [rotated]) (use t(1,7) in \<open>simp add: map_NotOp_def Let_def\<close>)
  have ge: "yields sem [ScInt a] [] (create_cmpi Isge ?x (getConstantOrSplat ?t ZeroAttr)) i1_type (flag (0 \<le> sval a))"
    by (rule yields_cmp [OF assms(1) x const(2) sw(2)]) (use pos sval_mk_in [of w 0] in simp)
  have "yields sem [ScInt a] [] (create_select (create_cmpi Isge ?x (getConstantOrSplat ?t ZeroAttr)) ?x
      (create_same (ArithI SubI) [getConstantOrSplat ?t ZeroAttr, ?x])) ?t (ap_abs a)"
    by (rule yields_choice [OF assms(1) ge x sub]) (simp add: ap_abs_def ap_neg_p_def)
  then show "run_scalar sem MhloAbs t [t] [ScInt a] = Inr (ScInt (ap_abs a))" if "isSupportedSignedIntegerType t"
    by (rule run_scalar_yields [rotated]) (use t(1,6,7) that in \<open>simp add: map_AbsOp_def Let_def\<close>)
  have "mapMhloOpToStdScalarOp MhloPopulationCount (signless t) [t] (operands [t]) = Inr (create (Math MathCtPop) ?t [?x])"
    using t(1,2,3,7) by (cases s) (simp_all add: map_by_table_def)
  moreover have "yields sem [ScInt a] [] (create (Math MathCtPop) ?t [?x]) ?t (mk_apint w (ap_popcount a))"
    using arith_popcount [OF assms(1) t(4)] t(5) by (simp add: yields_def create_def)
  ultimately show "run_scalar sem MhloPopulationCount t [t] [ScInt a] = Inr (ScInt (mk_apint (int_or_float_width t) (ap_popcount a)))"
    using run_scalar_yields t(1) by simp
qed

text \<open>The sign: the arithmetic shift leaves the sign bit everywhere, and the lowest bit is set.\<close>

lemma run_sign [lowered]:
  assumes "arith_ok sem" and "int_typed t a"
  shows "run_scalar sem MhloSign t [t] [ScInt a] = Inr (ScInt (mk_apint (int_or_float_width t) (sgn (sval a))))"
proof -
  from assms(2) obtain s w where t: "t = IntegerType s w" "s \<noteq> Signed" "3 < w" "wf_apint a" "ap_width a = w"
    "isSupportedSignedIntegerType t \<longleftrightarrow> s = Signless" "signless t = IntegerType Signless w"
    "yields sem [ScInt a] [] (Operand 0, signless t) (IntegerType Signless w) a"
    by (rule one_operand [where sem = sem])
  let ?t = "IntegerType Signless w" and ?x = "(Operand 0, IntegerType Signless w)"
  have pos: "0 < w" using t(3) by simp
  note const = yields_const [OF assms(1) pos, of "[ScInt a]" "[]"]
  note x = t(8) [unfolded t(7)]
  have sw: "same_width a (mk_apint w i)" for i using t(4,5) pos by (simp add: same_width_def)
  define cmp where "cmp = create_cmpi Ieq ?x (getConstantOrSplat ?t ZeroAttr)"
  have cmp: "yields sem [ScInt a] [] cmp i1_type (flag (uval a = 0))"
    unfolding cmp_def by (rule yields_cmp [OF assms(1) x const(2) sw]) simp
  define ashr where "ashr = create_same (ArithI ShRSI) [?x, getConstantOrSplat ?t (IntAttr (int w - 1))]"
  have m: "uval (mk_apint w (int w - 1)) = int w - 1" using int_less_power [of w] pos by (intro uval_mk_in) linarith+
  then have amount: "shift_amount a (mk_apint w (int w - 1)) = w - 1" using t(5) pos by (simp add: shift_amount_def nat_diff_distrib)
  have ashr: "yields sem [ScInt a] [] ashr ?t (mk_apint w (if sval a < 0 then - 1 else 0))"
    unfolding ashr_def
    by (rule yields_shift(2) [OF assms(1) x const(1) sw, where fn = ap_ashr])
      (use t(5) m ashr_sign [OF t(4)] amount in \<open>auto simp: ap_ashr_def\<close>)
  have "ap_or (mk_apint w (if sval a < 0 then - 1 else 0)) (mk_apint w 1) = mk_apint w (if sval a < 0 then - 1 else 1)"
    using minus_one_or_one [OF pos] by (simp add: ap_or_def mk_apint_eq_iff)
  then have or: "yields sem [ScInt a] [] (create_same (ArithI OrI) [ashr, getConstantOrSplat ?t (IntAttr 1)]) ?t
      (mk_apint w (if sval a < 0 then - 1 else 1))"
    by (intro yields_wrap [OF assms(1) ashr const(1), where fn = ap_or]) (use pos in simp_all)
  have zero: "uval a = 0 \<longleftrightarrow> sval a = 0" using t(4) by (auto simp: sval_def wf_apint_def split: if_splits)
  have "yields sem [ScInt a] [] (create_select cmp (getConstantOrSplat ?t ZeroAttr) (create_same (ArithI OrI) [ashr, getConstantOrSplat ?t (IntAttr 1)])) ?t
      (mk_apint w (sgn (sval a)))"
    by (rule yields_choice [OF assms(1) cmp const(2) or]) (use zero in \<open>auto simp: sgn_if\<close>)
  then show ?thesis
    by (intro run_scalar_yields) (use t(1,7) in \<open>simp_all add: map_SignOp_def Let_def cmp_def ashr_def\<close>)
qed

text \<open>
  The lowered power: six steps of square and multiply look at the six lowest bits of the exponent.
  The lowered conversions between integers.
\<close>

section \<open>One iteration\<close>

lemma pow_step:
  assumes "arith_ok sem" and "1 < w" and "wf_apint r" and "ap_width r = w" and "wf_apint b" and "ap_width b = w"
    and "wf_apint e" and "ap_width e = w"
  shows "mapM (eval_sexp sem env [ScInt r, ScInt b, ScInt e])
      (map fst (pow_body (IntegerType Signless w) (getConstantOrSplat (IntegerType Signless w) (IntAttr 1)))) =
    Inr [ScInt (if odd (uval e) then ap_mul r b else r), ScInt (ap_mul b b), ScInt (mk_apint w (uval e div 2))]"
proof -
  let ?t = "IntegerType Signless w" and ?it = "[ScInt r, ScInt b, ScInt e]"
  let ?one = "getConstantOrSplat ?t (IntAttr 1)" and ?o = "mk_apint w 1"
  have pos: "0 < w" using assms(2) by simp
  have iter: "yields sem env ?it (IterArg 0, ?t) ?t r" "yields sem env ?it (IterArg 1, ?t) ?t b"
    "yields sem env ?it (IterArg 2, ?t) ?t e"
    by (simp_all add: yields_def numeral_2_eq_2)
  have one: "yields sem env ?it ?one ?t ?o" by (rule yields_const(1) [OF assms(1) pos])
  have uone: "uval ?o = 1" using power_two_small [OF assms(2)] pow2_split [OF pos] by (intro uval_mk_in) simp_all
  have sw: "same_width e ?o" "same_width (ap_and e ?o) ?o" "same_width r b" "same_width b b"
    using assms(3-) pos by (simp_all add: same_width_def wf_ap_ops)
  have bit: "yields sem env ?it (create_same (ArithI AndI) [(IterArg 2, ?t), ?one]) ?t (ap_and e ?o)"
    by (rule yields_wrap [OF assms(1) iter(3) one sw(1), where fn = ap_and]) simp_all
  have "uval (ap_and e ?o) = uval e mod 2"
  proof -
    have "uval (ap_and e ?o) = (uval e mod 2) mod 2 ^ w" using assms(8) uone by (simp only: ap_and_def uval_mk and_one_eq)
    also have "\<dots> = uval e mod 2"
      using power_two_small [OF assms(2)] pow2_split [OF pos] by (intro mod_pos_pos_trivial) (simp_all add: order_less_le_trans [of _ 2])
    finally show ?thesis .
  qed
  then have odd: "uval (ap_and e ?o) = uval ?o \<longleftrightarrow> odd (uval e)" using uone by presburger
  have cond: "yields sem env ?it (create_cmpi Ieq (create_same (ArithI AndI) [(IterArg 2, ?t), ?one]) ?one) i1_type (flag (odd (uval e)))"
    by (rule yields_cmp [OF assms(1) bit one sw(2)]) (simp only: cmp_holds.simps odd)
  have mul: "yields sem env ?it (create_same (ArithI MulI) [(IterArg 0, ?t), (IterArg 1, ?t)]) ?t (ap_mul r b)"
    by (rule yields_wrap [OF assms(1) iter(1,2) sw(3), where fn = ap_mul]) simp_all
  have acc: "yields sem env ?it (create_select (create_cmpi Ieq (create_same (ArithI AndI) [(IterArg 2, ?t), ?one]) ?one)
      (create_same (ArithI MulI) [(IterArg 0, ?t), (IterArg 1, ?t)]) (IterArg 0, ?t)) ?t (if odd (uval e) then ap_mul r b else r)"
    by (rule yields_choice [OF assms(1) cond mul iter(1) refl])
  have base: "yields sem env ?it (create_same (ArithI MulI) [(IterArg 1, ?t), (IterArg 1, ?t)]) ?t (ap_mul b b)"
    by (rule yields_wrap [OF assms(1) iter(2,2) sw(4), where fn = ap_mul]) simp_all
  have amount: "shift_amount e ?o = 1" using uone assms(2,8) by (simp add: shift_amount_def)
  have exp: "yields sem env ?it (create_same (ArithI ShRUI) [(IterArg 2, ?t), ?one]) ?t (mk_apint w (uval e div 2))"
    by (rule yields_shift(2) [OF assms(1) iter(3) one sw(1), where fn = ap_lshr])
      (use uone assms(2,8) amount in \<open>simp_all add: ap_lshr_def\<close>)
  show ?thesis using acc base exp by (simp add: pow_body_def Let_def yields_def)
qed

section \<open>The loop\<close>

lemma pow_loop:
  assumes "arith_ok sem" and "1 < w" and "wf_apint r" and "ap_width r = w" and "wf_apint b" and "ap_width b = w"
    and "wf_apint e" and "ap_width e = w"
  shows "\<exists>b' e'. foldM (\<lambda>vals _. mapM (eval_sexp sem env vals)
      (map fst (pow_body (IntegerType Signless w) (getConstantOrSplat (IntegerType Signless w) (IntAttr 1)))))
      [ScInt r, ScInt b, ScInt e] [0..<n] = Inr [ScInt (mk_apint w (uval r * uval b ^ nat (uval e mod 2 ^ n))), b', e']"
proof -
  let ?step = "\<lambda>vals (_ :: nat). mapM (eval_sexp sem env vals)
      (map fst (pow_body (IntegerType Signless w) (getConstantOrSplat (IntegerType Signless w) (IntAttr 1))))"
  have "foldM ?step [ScInt r, ScInt b, ScInt e] [0..<n] = Inr
      [ScInt (mk_apint w (uval r * uval b ^ nat (uval e mod 2 ^ n))), ScInt (mk_apint w (uval b ^ (2 ^ n))), ScInt (mk_apint w (uval e div 2 ^ n))]"
  proof (induction n)
    case 0
    show ?case using mk_apint_uval [OF assms(3)] mk_apint_uval [OF assms(5)] mk_apint_uval [OF assms(7)] assms(4,6,8) by simp
  next
    case (Suc n)
    let ?r = "mk_apint w (uval r * uval b ^ nat (uval e mod 2 ^ n))" and ?b = "mk_apint w (uval b ^ (2 ^ n))"
      and ?e = "mk_apint w (uval e div 2 ^ n)"
    have e0: "0 \<le> uval e" "uval e < 2 ^ w" using assms(7,8) by (auto simp: wf_apint_def)
    have ue: "uval ?e = uval e div 2 ^ n"
      using e0 by (intro uval_mk_in) (simp_all add: pos_imp_zdiv_nonneg_iff order_le_less_trans [OF zdiv_mono2 [of "uval e" 1]] int_div_less_self)
    have m: "nat (uval e mod 2 ^ Suc n) = nat (uval e mod 2 ^ n) + (if odd (uval e div 2 ^ n) then 2 ^ n else 0)"
    proof -
      have "uval e mod 2 ^ Suc n = uval e mod 2 ^ n + 2 ^ n * (uval e div 2 ^ n mod 2)"
        using zmod_zmult2_eq [of 2 "uval e" "2 ^ n"] by (simp add: mult.commute)
      then show ?thesis by (auto simp: nat_add_distrib nat_power_eq odd_iff_mod_2_eq_one)
    qed
    have acc: "(if odd (uval ?e) then ap_mul ?r ?b else ?r) = mk_apint w (uval r * uval b ^ nat (uval e mod 2 ^ Suc n))"
      unfolding ue m by (simp add: ap_mul_def mk_apint_eq_iff power_add mod_simps mult.assoc)
    have base: "ap_mul ?b ?b = mk_apint w (uval b ^ (2 ^ Suc n))"
      by (simp add: ap_mul_def mk_apint_eq_iff mod_simps power_add [symmetric] mult_2 [symmetric])
    have exp: "uval ?e div 2 = uval e div 2 ^ Suc n" unfolding ue power_Suc2 using zdiv_zmult2_eq [of 2 "uval e" "2 ^ n"] by simp
    have w0: "0 < w" using assms(2) by simp
    have "?step [ScInt ?r, ScInt ?b, ScInt ?e] n = Inr [ScInt (mk_apint w (uval r * uval b ^ nat (uval e mod 2 ^ Suc n))),
        ScInt (mk_apint w (uval b ^ (2 ^ Suc n))), ScInt (mk_apint w (uval e div 2 ^ Suc n))]"
      using pow_step [OF assms(1,2), of ?r ?b ?e env] w0 unfolding acc base exp by simp
    then show ?case using Suc by (simp add: foldM_append)
  qed
  then show ?thesis by (intro exI)
qed

text \<open>
  The lowered power. The exponent is read as a signed number to see whether it is negative; the power
  itself is taken to the exponent modulo 64.
\<close>

lemma run_power:
  assumes "arith_ok sem" and "int_typed t a" and "int_typed t b"
  shows "run_scalar sem MhloPow t [t, t] [ScInt a, ScInt b] = Inr (ScInt (mk_apint (int_or_float_width t)
    (if sval b < 0 then if sval a = - 1 then if even (sval b) then 1 else - 1 else if sval a = 1 then 1 else 0
     else uval a ^ nat (uval b mod 64))))"
proof -
  from assms(2,3) obtain s w where t: "t = IntegerType s w" "3 < w" "wf_apint a" "ap_width a = w"
    "wf_apint b" "ap_width b = w" "signless t = IntegerType Signless w"
    "yields sem [ScInt a, ScInt b] [] (Operand 0, signless t) (IntegerType Signless w) a"
    "yields sem [ScInt a, ScInt b] [] (Operand 1, signless t) (IntegerType Signless w) b"
    by (rule two_operands [where sem = sem])
  let ?env = "[ScInt a, ScInt b]" and ?t = "IntegerType Signless w"
  let ?x = "(Operand 0, ?t)" and ?y = "(Operand 1, ?t)" and ?c = "\<lambda>i. getConstantOrSplat ?t (IntAttr i)"
  have pos: "0 < w" "1 < w" using t(2) by simp_all
  have big: "(8 :: int) \<le> 2 ^ (w - 1)" using power_increasing [of 3 "w - 1" "2 :: int"] t(2) by simp
  note const = yields_const(1) [OF assms(1) pos(1), of ?env "[]"]
  note xy = t(8,9) [unfolded t(7)]
  have sw: "same_width a (mk_apint w i)" "same_width b (mk_apint w i)" for i using t(3-6) pos by (simp_all add: same_width_def)
  have sv: "sval (mk_apint w i) = i" if "- 2 \<le> i" "i \<le> 2" for i using that big pos by (intro sval_mk_in) simp_all
  have eqc: "uval z = uval (mk_apint w i) \<longleftrightarrow> sval z = i" if "wf_apint z" "ap_width z = w" "- 2 \<le> i" "i \<le> 2" for z i
    by (rule uval_eq_const [OF that(1,2) pos(1)]) (use that big in simp_all)
  define accum where "accum = (ForResult 0 6 (map fst [?c 1, ?x, ?y]) (map fst (pow_body ?t (?c 1))) 0, ?t)"
  have uone: "uval (mk_apint w 1) = 1" using big pow2_split [OF pos(1)] by (intro uval_mk_in) simp_all
  obtain b' e' where loop: "foldM (\<lambda>vals _. mapM (eval_sexp sem ?env vals) (map fst (pow_body ?t (?c 1))))
      [ScInt (mk_apint w 1), ScInt a, ScInt b] [0..<6] = Inr [ScInt (mk_apint w (uval (mk_apint w 1) * uval a ^ nat (uval b mod 2 ^ 6))), b', e']"
    using pow_loop [OF assms(1) pos(2), of "mk_apint w 1" a b ?env 6] t(3-6) pos(1) by auto
  have accum: "yields sem ?env [] accum ?t (mk_apint w (uval a ^ nat (uval b mod 64)))"
  proof -
    have "mapM (eval_sexp sem ?env []) (map fst [?c 1, ?x, ?y]) = Inr [ScInt (mk_apint w 1), ScInt a, ScInt b]"
      using const [of 1] xy by (simp add: yields_def)
    then show ?thesis unfolding accum_def yields_def using loop uone by (simp del: upt_Suc)
  qed
  let ?rem = "create_same (ArithI RemSI) [?y, ?c 2]"
  have two: "uval (mk_apint w 2) = 2" "sval (mk_apint w 2) = 2" using sv big pow2_split [OF pos(1)] by (auto intro!: uval_mk_in)
  have rem: "yields sem ?env [] ?rem ?t (mk_apint w (sval b smod 2))"
    by (rule yields_op [OF xy(2) const]) (use arith_divs [OF assms(1) sw(2), of 2] two t(6) in simp)
  have even: "yields sem ?env [] (create_cmpi Ieq ?rem (?c 0)) i1_type (flag (even (sval b)))"
  proof (rule yields_cmp [OF assms(1) rem const])
    have r: "- 2 \<le> sval b smod 2" "sval b smod 2 \<le> 2"
      using smod_int_range [of 2 "sval b"] by auto
    have "sval b smod 2 = sval b - sval b sdiv 2 * 2" by (rule minus_sdiv_mult_eq_smod [symmetric])
    then have "even (sval b smod 2) \<longleftrightarrow> even (sval b)" by simp
    moreover have "sval b smod 2 = - 1 \<or> sval b smod 2 = 0 \<or> sval b smod 2 = 1" using smod_int_range [of 2 "sval b"] by auto
    ultimately have "even (sval b) \<longleftrightarrow> sval b smod 2 = 0" by auto
    then show "even (sval b) = cmp_holds Ieq (mk_apint w (sval b smod 2)) (mk_apint w 0)"
      using eqc [of "mk_apint w (sval b smod 2)" 0] sv [OF r] pos(1) by simp
  qed (use pos in simp)
  have neg: "yields sem ?env [] (create_cmpi Islt ?y (?c 0)) i1_type (flag (sval b < 0))"
    by (rule yields_cmp [OF assms(1) xy(2) const sw(2)]) (use sv [of 0] in simp)
  have is1: "yields sem ?env [] (create_cmpi Ieq ?x (?c 1)) i1_type (flag (sval a = 1))"
    by (rule yields_cmp [OF assms(1) xy(1) const sw(1)]) (use eqc [OF t(3,4), of 1] in simp)
  have ism1: "yields sem ?env [] (create_cmpi Ieq ?x (?c (- 1))) i1_type (flag (sval a = - 1))"
    by (rule yields_cmp [OF assms(1) xy(1) const sw(1)]) (use eqc [OF t(3,4), of "- 1"] in simp)
  let ?one = "create_select (create_cmpi Ieq ?x (?c 1)) (?c 1) (?c 0)"
  let ?par = "create_select (create_cmpi Ieq ?rem (?c 0)) (?c 1) (?c (- 1))"
  have one: "yields sem ?env [] ?one ?t (mk_apint w (if sval a = 1 then 1 else 0))"
    by (rule yields_choice [OF assms(1) is1 const const]) simp
  have par: "yields sem ?env [] ?par ?t (mk_apint w (if even (sval b) then 1 else - 1))"
    by (rule yields_choice [OF assms(1) even const const]) simp
  have m1: "yields sem ?env [] (create_select (create_cmpi Ieq ?x (?c (- 1))) ?par ?one) ?t
      (mk_apint w (if sval a = - 1 then if even (sval b) then 1 else - 1 else if sval a = 1 then 1 else 0))"
    by (rule yields_choice [OF assms(1) ism1 par one]) simp
  have all: "yields sem ?env [] (create_select (create_cmpi Islt ?y (?c 0)) (create_select (create_cmpi Ieq ?x (?c (- 1))) ?par ?one) accum) ?t
      (mk_apint w (if sval b < 0 then if sval a = - 1 then if even (sval b) then 1 else - 1 else if sval a = 1 then 1 else 0
        else uval a ^ nat (uval b mod 64)))"
    by (rule yields_choice [OF assms(1) neg m1 accum]) simp
  have "int_or_float_width t = w" using t(1) by simp
  then show ?thesis
    using run_scalar_yields [OF _ all, of MhloPow t "[t, t]"] t(1,7) by (simp add: map_PowOp_def Let_def accum_def)
qed

end
