(* ===== verification/ScalarFloats.thy ===== *)
theory ScalarFloats
  imports ScalarPower
begin

text \<open>
  The emitted code that works on the bits of floating-point numbers: the comparison in the total order
  and the rounding of the mantissa. The lowered conversions between integers.
\<close>

section \<open>Conversions\<close>

definition run_convert :: "dialects \<Rightarrow> ty \<Rightarrow> ty \<Rightarrow> scalar \<Rightarrow> scalar res" where
  "run_convert sem targetType argType v =
     bnd (mapConvertOpToStdScalarOp targetType (signless targetType) argType (Operand 0, signless argType)) (\<lambda>x.
       eval_sexp sem [v] [] (fst x))"

lemma run_convert_yields:
  assumes "convert_real (element_type targetType) (signless targetType) (element_type argType) (Operand 0, signless argType) = Some (Inr v)"
    and "yields sem [x] [] v t c"
  shows "run_convert sem targetType argType x = Inr (ScInt c)"
  using assms by (simp add: run_convert_def mapConvertOpToStdScalarOp_def Let_def yields_def)

lemma run_convert_int:
  assumes "arith_ok sem" and "int_typed t a" and "isSupportedIntegerType t'"
  shows "run_convert sem t' t (ScInt a) = Inr (ScInt (mk_apint (int_or_float_width t') (int_value t a)))"
proof -
  from assms(2) obtain s w where t: "t = IntegerType s w" "s \<noteq> Signed" "3 < w" "wf_apint a" "ap_width a = w"
    "isSupportedSignedIntegerType t \<longleftrightarrow> s = Signless" "signless t = IntegerType Signless w"
    "yields sem [ScInt a] [] (Operand 0, signless t) (IntegerType Signless w) a"
    by (rule one_operand [where sem = sem])
  obtain s' w' where t': "t' = IntegerType s' w'" "s' \<noteq> Signed" "w' \<in> {4, 8, 16, 32, 64}"
    using assms(3) by (auto simp: isSupportedIntegerType_cases)
  have unsigned: "IsUnsignedIntegerType t \<longleftrightarrow> s = Unsigned" using t(1-3) by (cases s) auto
  have v: "int_value t a = (if s = Unsigned then uval a else sval a)" using t(2,6) by (cases s) (simp_all add: int_value_def)
  have m: "convert_real t' (signless t') t (Operand 0, signless t) =
      Some (Inr (convert_integer t w w' (signless t') (Operand 0, signless t)))"
    using t(1-3) t' by (cases s) (auto simp: convert_real_def Let_def)
  have "yields sem [ScInt a] [] (convert_integer t w w' (signless t') (Operand 0, signless t)) (IntegerType Signless w') (mk_apint w' (int_value t a))"
  proof (cases rule: linorder_cases [of w w'])
    case less
    then show ?thesis using arith_casts(2,3) [OF assms(1) t(4), of w'] t(5,7) t'(1) unsigned v
      by (simp add: convert_integer_def create_def yields_def)
  next
    case equal
    then show ?thesis using t(5,7,8) v mk_apint_uval [OF t(4)] mk_apint_sval [OF t(4)]
      by (simp add: convert_integer_def)
  next
    case greater
    have "uval a mod 2 ^ w' = sval a mod 2 ^ w'"
    proof -
      have "(2 :: int) ^ w' dvd 2 ^ w" using greater by (simp add: le_imp_power_dvd)
      moreover have "uval a mod 2 ^ w = sval a mod 2 ^ w" using t(5) by (simp add: sval_def)
      ultimately show ?thesis by (metis mod_mod_cancel)
    qed
    then have "mk_apint w' (uval a) = mk_apint w' (int_value t a)" using v by (simp add: mk_apint_eq_iff)
    then show ?thesis using greater arith_casts(1) [OF assms(1) t(4), of w'] t(5,7) t'(1)
      by (simp add: convert_integer_def create_def yields_def)
  qed
  with m t(1) t'(1) show ?thesis
    by (intro run_convert_yields [where v = "convert_integer t w w' (signless t') (Operand 0, signless t)"]) simp_all
qed

lemma run_convert_bool:
  assumes "arith_ok sem" and "int_typed t a"
  shows "run_convert sem i1 t (ScInt a) = Inr (ScInt (flag (uval a \<noteq> 0)))"
    and "run_convert sem t i1 (ScInt (flag c)) = Inr (ScInt (mk_apint (int_or_float_width t) (if c then 1 else 0)))"
proof -
  from assms(2) obtain s w where t: "t = IntegerType s w" "s \<noteq> Signed" "3 < w" "wf_apint a" "ap_width a = w"
    "signless t = IntegerType Signless w" "yields sem [ScInt a] [] (Operand 0, signless t) (IntegerType Signless w) a"
    by (rule one_operand [where sem = sem])
  have pos: "0 < w" using t(3) by simp
  let ?v = "create_cmpi Ine (Operand 0, signless t) (getConstantOrSplat (signless t) ZeroAttr)"
  have const: "yields sem [ScInt a] [] (getConstantOrSplat (signless t) ZeroAttr) (IntegerType Signless w) (mk_apint w 0)"
    using yields_const(2) [OF assms(1) pos] t(6) by simp
  have "yields sem [ScInt a] [] ?v i1_type (flag (uval a \<noteq> 0))"
    by (rule yields_cmp [OF assms(1) t(7) const]) (use t(4,5) pos in \<open>simp_all add: same_width_def\<close>)
  moreover have "convert_real i1 (signless i1) t (Operand 0, signless t) = Some (Inr ?v)"
    using t(1,2) by (cases s) (simp_all add: convert_real_def Let_def i1_def)
  ultimately show "run_convert sem i1 t (ScInt a) = Inr (ScInt (flag (uval a \<noteq> 0)))"
    using t(1) by (intro run_convert_yields [where v = ?v]) (simp_all add: i1_def)
  let ?u = "create (ArithI ExtUI) (signless t) [(Operand 0, i1)]"
  have "convert_real t (signless t) i1 (Operand 0, signless i1) = Some (Inr ?u)"
    using t(1-3) by (simp add: convert_real_def Let_def i1_def convert_integer_def)
  moreover have "yields sem [ScInt (flag c)] [] ?u (signless t) (mk_apint w (if c then 1 else 0))"
    using arith_casts(2) [OF assms(1), of "flag c" w] t(3,6) by (simp add: yields_def create_def)
  ultimately show "run_convert sem t i1 (ScInt (flag c)) = Inr (ScInt (mk_apint (int_or_float_width t) (if c then 1 else 0)))"
    using t(1) by (intro run_convert_yields [where v = ?u]) (simp_all add: i1_def)
qed

section \<open>The total order\<close>

text \<open>A number's place in the total order: its sign and the rest of its bits.\<close>

definition total_order_key :: "apfloat \<Rightarrow> int" where
  "total_order_key f =
     (let w = sem_width (fl_sem f); u = fl_bits f in
      if 2 ^ (w - 1) \<le> u then - (u - 2 ^ (w - 1)) - 1 else u)"

lemma sem_width_ge: "8 \<le> sem_width s"
  by (cases s) simp_all

lemma toIntegral_key:
  assumes "arith_ok sem" and "env ! n = ScFloat f" and "n < length env" and "w = sem_width (fl_sem f)"
  shows "\<exists>c. yields sem env iters (toIntegral (IntegerType Signless w) w (Operand n, t)) (IntegerType Signless w) c \<and>
    wf_apint c \<and> ap_width c = w \<and> sval c = total_order_key f"
proof -
  let ?t = "IntegerType Signless w"
  define u where "u = mk_apint w (fl_bits f)"
  have w8: "8 \<le> w" using sem_width_ge assms(4) by simp
  then have pos: "0 < w" by simp
  have range: "0 \<le> fl_bits f" "fl_bits f < 2 ^ w" using fl_bits_range assms(4) by auto
  have uu: "uval u = fl_bits f" using range by (simp add: u_def)
  note const = yields_const [OF assms(1) pos, of env iters]
  define x where "x = create Bitcast ?t [(Operand n, t)]"
  have x: "yields sem env iters x ?t u"
    using arith_bitcast(1) [OF assms(1), of f] assms(2-4) by (simp add: x_def yields_def create_def u_def)
  have sw: "same_width u (mk_apint w i)" "same_width (mk_apint w i) u" for i using pos by (simp_all add: same_width_def u_def)
  have z: "sval (mk_apint w 0) = 0" using pos by (intro sval_mk_in) simp_all
  have cmp: "yields sem env iters (create_cmpi Islt x (getConstantOrSplat ?t ZeroAttr)) i1_type (flag (sval u < 0))"
    by (rule yields_cmp [OF assms(1) x const(2) sw(1)]) (simp add: z)
  let ?m = "2 ^ (w - 1) - 1"
  have sub: "yields sem env iters (create_same (ArithI SubI) [getConstantOrSplat ?t (IntAttr ?m), x]) ?t (ap_sub (mk_apint w ?m) u)"
    by (rule yields_wrap [OF assms(1) const(1) x sw(2), where fn = ap_sub]) simp_all
  define c where "c = (if sval u < 0 then ap_sub (mk_apint w ?m) u else u)"
  have "yields sem env iters (toIntegral ?t w (Operand n, t)) ?t c"
    unfolding toIntegral_def Let_def x_def [symmetric] by (rule yields_choice [OF assms(1) cmp sub x c_def])
  moreover have "sval c = total_order_key f"
  proof (cases "2 ^ (w - 1) \<le> fl_bits f")
    case True
    then have s: "sval u < 0" using uu range by (simp add: sval_def u_def)
    have "ap_sub (mk_apint w ?m) u = mk_apint w (?m - fl_bits f)"
      using uu by (simp add: ap_sub_def mk_apint_eq_iff mod_simps)
    also have "\<dots> = mk_apint w (?m - fl_bits f + 2 ^ w)" by (simp add: mk_apint_eq_iff)
    also have "?m - fl_bits f + 2 ^ w = - (fl_bits f - 2 ^ (w - 1)) - 1 + 2 ^ w" by simp
    also have "mk_apint w \<dots> = mk_apint w (- (fl_bits f - 2 ^ (w - 1)) - 1)" by (simp only: mk_apint_eq_iff mod_add_self2)
    finally have "c = mk_apint w (- (fl_bits f - 2 ^ (w - 1)) - 1)" using s by (simp add: c_def)
    moreover have "sval (mk_apint w (- (fl_bits f - 2 ^ (w - 1)) - 1)) = - (fl_bits f - 2 ^ (w - 1)) - 1"
      using True range pow2_split [OF pos] pos by (intro sval_mk_in) linarith+
    ultimately show ?thesis using True assms(4) by (simp add: total_order_key_def Let_def)
  next
    case False
    then have "sval u = fl_bits f" using uu by (simp add: sval_def u_def)
    then show ?thesis using False range assms(4) by (simp add: c_def total_order_key_def Let_def)
  qed
  moreover have "wf_apint c" "ap_width c = w" using pos by (simp_all add: c_def u_def wf_ap_ops)
  ultimately show ?thesis by blast
qed

lemma run_total_order:
  assumes "arith_ok sem" and "fl_sem f = s" and "fl_sem g = s"
  shows "run_scalar sem (MhloCompare d True) i1 [FloatType s, FloatType s] [ScFloat f, ScFloat g] =
    Inr (ScInt (flag (case d of EQ \<Rightarrow> total_order_key f = total_order_key g | NE \<Rightarrow> total_order_key f \<noteq> total_order_key g
      | GE \<Rightarrow> total_order_key g \<le> total_order_key f | GT \<Rightarrow> total_order_key g < total_order_key f
      | LE \<Rightarrow> total_order_key f \<le> total_order_key g | LT \<Rightarrow> total_order_key f < total_order_key g)))"
proof -
  let ?w = "sem_width s" and ?env = "[ScFloat f, ScFloat g]"
  let ?t = "IntegerType Signless ?w"
  obtain c where c: "yields sem ?env [] (toIntegral ?t ?w (Operand 0, FloatType s)) ?t c" "wf_apint c" "ap_width c = ?w" "sval c = total_order_key f"
    using toIntegral_key [OF assms(1), of ?env 0 f ?w] assms(2) by auto
  obtain e where e: "yields sem ?env [] (toIntegral ?t ?w (Operand 1, FloatType s)) ?t e" "wf_apint e" "ap_width e = ?w" "sval e = total_order_key g"
    using toIntegral_key [OF assms(1), of ?env 1 g ?w] assms(3) by auto
  have sw: "same_width c e" using c e by (simp add: same_width_def)
  have uv: "uval c = uval e \<longleftrightarrow> total_order_key f = total_order_key g"
    using mk_apint_sval [OF c(2)] mk_apint_sval [OF e(2)] c(3,4) e(3,4) by (metis apint.expand sval_def)
  have m: "mapMhloOpToStdScalarOp (MhloCompare d True) (signless i1) [FloatType s, FloatType s] (operands [FloatType s, FloatType s]) =
      Inr (create_cmpi (getCmpPredicateI d True) (toIntegral ?t ?w (Operand 0, FloatType s)) (toIntegral ?t ?w (Operand 1, FloatType s)))"
    by (simp add: map_CompareOp_def Let_def)
  have "run_scalar sem (MhloCompare d True) i1 [FloatType s, FloatType s] ?env = Inr (ScInt (flag (cmp_holds (getCmpPredicateI d True) c e)))"
    by (rule run_scalar_yields [OF m yields_cmp [OF assms(1) c(1) e(1) sw refl]])
  then show ?thesis using uv c(4) e(4) by (cases d) simp_all
qed

section \<open>Rounding the mantissa\<close>

text \<open>
  Rounding to a multiple of \<open>2 ^ d\<close>: half of it, less one, and one more if the quotient is odd, is
  added before the remainder is dropped.
\<close>

definition round_bits :: "nat \<Rightarrow> int \<Rightarrow> int" where
  "round_bits d u = (u + (u div 2 ^ d mod 2 + (2 ^ d div 2 - 1))) div 2 ^ d * 2 ^ d"

text \<open>It is to nearest, with ties to an even quotient.\<close>

lemma round_bits_nearest:
  assumes "0 < d"
  shows "\<bar>round_bits d u - u\<bar> * 2 \<le> 2 ^ d" and "\<bar>round_bits d u - u\<bar> * 2 = 2 ^ d \<Longrightarrow> even (round_bits d u div 2 ^ d)"
proof -
  define m :: int where "m = 2 ^ (d - 1)"
  have p: "(2 :: int) ^ d = 2 * m" and m: "0 < m" using pow2_split [OF assms] by (simp_all add: m_def)
  define q where "q = u div (2 * m)"
  define r where "r = u mod (2 * m)"
  have u: "u = q * (2 * m) + r" unfolding q_def r_def by (rule div_mult_mod_eq [symmetric])
  have r: "0 \<le> r" "r < 2 * m" using m by (simp_all add: r_def)
  let ?b = "q mod 2"
  have "(u + (?b + (m - 1))) div (2 * m) = q + (r + (?b + (m - 1))) div (2 * m)"
    using m unfolding u by (simp add: add.assoc)
  moreover have "(r + (?b + (m - 1))) div (2 * m) = (if r + ?b + m - 1 < 2 * m then 0 else 1)"
  proof (cases "r + ?b + m - 1 < 2 * m")
    case True
    then show ?thesis using r m by (simp add: div_pos_pos_trivial algebra_simps)
  next
    case False
    let ?s = "r + (?b + (m - 1)) - 2 * m"
    have nz: "2 * m \<noteq> 0" using m by simp
    have "r + (?b + (m - 1)) = ?s + 2 * m" by simp
    then have "(r + (?b + (m - 1))) div (2 * m) = 1 + ?s div (2 * m)"
      using div_add_self2 [OF nz, of ?s] by (simp only: add.commute)
    moreover have "(r + (?b + (m - 1)) - 2 * m) div (2 * m) = 0"
      using False r m pos_mod_bound [of 2 q] by (intro div_pos_pos_trivial) linarith+
    ultimately show ?thesis using False by simp
  qed
  ultimately have q': "(u + (?b + (m - 1))) div (2 * m) = (if r + ?b + m - 1 < 2 * m then q else q + 1)" by simp
  have round: "round_bits d u = (if r + ?b + m - 1 < 2 * m then q * (2 * m) else (q + 1) * (2 * m))"
    unfolding round_bits_def p using q' by (simp add: q_def)
  have dist: "round_bits d u - u = (if r + ?b + m - 1 < 2 * m then - r else 2 * m - r)"
    unfolding round using u by (simp add: algebra_simps)
  have b: "?b = 0 \<or> ?b = 1" by presburger
  show "\<bar>round_bits d u - u\<bar> * 2 \<le> 2 ^ d" unfolding dist p using r b by (auto split: if_splits)
  show "even (round_bits d u div 2 ^ d)" if "\<bar>round_bits d u - u\<bar> * 2 = 2 ^ d"
  proof -
    have "round_bits d u div 2 ^ d = (if r + ?b + m - 1 < 2 * m then q else q + 1)"
      unfolding round p using m by simp
    moreover have "r = m" using that unfolding dist p using r by (auto split: if_splits)
    moreover have "even (if q mod 2 = 0 then q else q + 1)" by presburger
    moreover have "r + ?b + m - 1 < 2 * m \<longleftrightarrow> q mod 2 = 0" if "r = m" using b that by auto
    ultimately show ?thesis by simp
  qed
qed

text \<open>The bit operations of the emitted code.\<close>

lemma tested_bit: "(u AND 2 ^ d) div 2 ^ d = u div 2 ^ d mod (2 :: int)"
proof -
  have "drop_bit d (u AND 2 ^ d) = drop_bit d u AND 1"
    by (rule bit_eqI) (auto simp: bit_drop_bit_eq bit_and_iff bit_exp_iff bit_1_iff)
  then show ?thesis by (simp add: drop_bit_eq_div and_one_eq)
qed

lemma truncated_bits: "take_bit w (v AND - (2 ^ d)) = take_bit w (v div 2 ^ d * 2 ^ d :: int)"
proof -
  have "- (2 ^ d) = (NOT (mask d) :: int)" by (simp add: mask_eq_exp_minus_1 not_eq_complement)
  moreover have "v AND NOT (mask d) = push_bit d (drop_bit d v)"
    by (rule bit_eqI) (auto simp: bit_and_iff bit_not_iff bit_mask_iff bit_push_bit_iff bit_drop_bit_eq)
  ultimately show ?thesis by (simp add: push_bit_eq_mult drop_bit_eq_div)
qed

lemma ap_and_truncation: "ap_and (mk_apint w v) (mk_apint w (- (2 ^ d))) = mk_apint w (v div 2 ^ d * 2 ^ d)"
proof -
  have "take_bit w (take_bit w v AND take_bit w (- (2 ^ d))) = take_bit w (v div 2 ^ d * 2 ^ d)"
    unfolding truncated_bits [symmetric] by (simp add: take_bit_and)
  then show ?thesis by (simp add: ap_and_def mk_apint_eq_iff take_bit_eq_mod)
qed

lemma round_mantissa_yields:
  assumes "arith_ok sem" and "dest < src" and "src < w" and "wf_apint x" and "ap_width x = w"
    and v: "yields sem env iters v (IntegerType Signless w) x"
  shows "yields sem env iters (round_mantissa (IntegerType Signless w) src dest v) (IntegerType Signless w)
    (mk_apint w (round_bits (src - dest) (uval x)))"
proof -
  let ?t = "IntegerType Signless w" and ?c = "\<lambda>i. getConstantOrSplat (IntegerType Signless w) (IntAttr i)"
  define d where "d = src - dest"
  have d: "0 < d" "d < w" using assms(2,3) by (auto simp: d_def)
  then have pos: "0 < w" by simp
  note const = yields_const(1) [OF assms(1) pos, of env iters]
  have pw: "(2 :: int) ^ d < 2 ^ w" using d(2) by simp
  have sw: "same_width x (mk_apint w i)" "same_width (mk_apint w j) (mk_apint w i)" "same_width (ap_and x (mk_apint w i)) (mk_apint w j)"
    for i j using assms(4,5) pos by (simp_all add: same_width_def wf_ap_ops)
  define last where "last = create_same (ArithI AndI) [v, ?c (2 ^ d)]"
  have last: "yields sem env iters last ?t (ap_and x (mk_apint w (2 ^ d)))"
    unfolding last_def by (rule yields_wrap [OF assms(1) v const sw(1), where fn = ap_and]) simp_all
  have ud: "uval (mk_apint w (int d)) = int d" using int_less_power [of w] d by (intro uval_mk_in) linarith+
  then have amount: "shift_amount (ap_and x (mk_apint w (2 ^ d))) (mk_apint w (int d)) = d" using d assms(5) by (simp add: shift_amount_def)
  have u: "0 \<le> uval x" "uval x < 2 ^ w" using assms(4,5) by (auto simp: wf_apint_def)
  have bit: "uval (ap_and x (mk_apint w (2 ^ d))) div 2 ^ d = uval x div 2 ^ d mod 2"
  proof -
    have m: "(2 :: int) ^ d mod 2 ^ w = 2 ^ d" using pw by (intro mod_pos_pos_trivial) simp_all
    have "uval (ap_and x (mk_apint w (2 ^ d))) = take_bit w (uval x AND 2 ^ d)" using assms(5) m by (simp add: ap_and_def take_bit_eq_mod)
    also have "\<dots> = uval x AND 2 ^ d"
      by (rule bit_eqI) (use d(2) in \<open>auto simp: bit_take_bit_iff bit_and_iff bit_exp_iff\<close>)
    finally show ?thesis by (simp add: tested_bit)
  qed
  define shifted where "shifted = create_same (ArithI ShRUI) [last, ?c (int d)]"
  have shifted: "yields sem env iters shifted ?t (mk_apint w (uval x div 2 ^ d mod 2))"
    unfolding shifted_def
    by (rule yields_shift(2) [OF assms(1) last const sw(3), where fn = ap_lshr])
      (use ud d assms(5) amount bit in \<open>simp_all add: ap_lshr_def\<close>)
  define bias where "bias = create_same (ArithI AddI) [shifted, ?c (2 ^ d div 2 - 1)]"
  have bias: "yields sem env iters bias ?t (mk_apint w (uval x div 2 ^ d mod 2 + (2 ^ d div 2 - 1)))"
    unfolding bias_def
    by (rule yields_wrap [OF assms(1) shifted const sw(2), where fn = ap_add]) (simp_all add: ap_add_def mk_apint_eq_iff mod_simps)
  define rounded where "rounded = create_same (ArithI AddI) [v, bias]"
  have rounded: "yields sem env iters rounded ?t (mk_apint w (uval x + (uval x div 2 ^ d mod 2 + (2 ^ d div 2 - 1))))"
    unfolding rounded_def
    by (rule yields_wrap [OF assms(1) v bias sw(1), where fn = ap_add]) (use assms(5) in \<open>simp_all add: ap_add_def mk_apint_eq_iff mod_simps\<close>)
  have "yields sem env iters (create_same (ArithI AndI) [rounded, ?c (- (2 ^ d))]) ?t (mk_apint w (round_bits d (uval x)))"
    by (rule yields_wrap [OF assms(1) rounded const sw(2), where fn = ap_and]) (simp_all add: ap_and_truncation round_bits_def)
  then show ?thesis
    unfolding round_mantissa_def Let_def rounded_def bias_def shifted_def last_def d_def [symmetric] .
qed

section \<open>Clamping the exponent\<close>

lemma int_div_less: "u < k * m \<Longrightarrow> 0 < m \<Longrightarrow> u div m < (k :: int)"
  using mult_div_mod_eq [of m u] pos_mod_sign [of m u] mult_le_cancel_left_pos [of m k "u div m"]
  by (smt (verit) mult.commute)

text \<open>A number of a format, in bits: the sign bit, the exponent and the mantissa.\<close>

definition sign_part :: "nat \<Rightarrow> int \<Rightarrow> int" where
  "sign_part w u = u div 2 ^ (w - 1) * 2 ^ (w - 1)"

definition exponent_part :: "nat \<Rightarrow> nat \<Rightarrow> int \<Rightarrow> int" where
  "exponent_part w m u = u mod 2 ^ (w - 1) div 2 ^ m"

text \<open>
  The exponents a format with \<open>e\<close> exponent bits has are those between the bounds; below them the result
  is a zero, above them an infinity, of the same sign.
\<close>

definition clamp_bits :: "nat \<Rightarrow> nat \<Rightarrow> nat \<Rightarrow> int \<Rightarrow> int" where
  "clamp_bits w m e u =
     (let srcE = w - 1 - m; bias = 2 ^ (srcE - 1) - 1; bias' = 2 ^ (e - 1) - 1 in
      if exponent_part w m u \<le> bias - bias' then sign_part w u
      else if bias + bias' < exponent_part w m u then sign_part w u + (2 ^ srcE - 1) * 2 ^ m
      else u)"

lemma exponent_bits: "u AND (2 ^ e - 1) * 2 ^ m = u mod 2 ^ (m + e) div 2 ^ m * (2 :: int) ^ m"
proof -
  have "(2 ^ e - 1) * 2 ^ m = push_bit m (mask e :: int)" by (simp add: push_bit_eq_mult mask_eq_exp_minus_1)
  moreover have "u AND push_bit m (mask e) = push_bit m (drop_bit m (take_bit (m + e) u))"
    by (rule bit_eqI) (auto simp: bit_and_iff bit_push_bit_iff bit_mask_iff bit_drop_bit_eq bit_take_bit_iff)
  ultimately show ?thesis by (simp add: push_bit_eq_mult drop_bit_eq_div take_bit_eq_mod)
qed

lemma sign_bits:
  assumes "0 \<le> u" and "u < 2 ^ w" and "0 < w"
  shows "u AND 2 ^ (w - 1) = sign_part w u" and "sign_part w u = 0 \<or> sign_part w u = 2 ^ (w - 1)"
proof -
  have a: "u AND 2 ^ (w - 1) = u div 2 ^ (w - 1) * 2 ^ (w - 1)"
    using exponent_bits [of u 1 "w - 1"] assms by simp
  have "u div 2 ^ (w - 1) < 2"
    using assms(2) pow2_split [OF assms(3)] int_div_less [of u 2 "2 ^ (w - 1)"] by simp
  moreover have "0 \<le> u div 2 ^ (w - 1)" using assms by (simp add: pos_imp_zdiv_nonneg_iff)
  ultimately have "u div 2 ^ (w - 1) = 0 \<or> u div 2 ^ (w - 1) = 1" by linarith
  then show "u AND 2 ^ (w - 1) = sign_part w u" and "sign_part w u = 0 \<or> sign_part w u = 2 ^ (w - 1)"
    using a by (auto simp: sign_part_def)
qed

lemma sign_or_exponent:
  assumes "m + e = w - 1" and "sg = 0 \<or> sg = 2 ^ (w - 1)"
  shows "sg OR (2 ^ e - 1) * 2 ^ m = sg + (2 ^ e - 1) * (2 :: int) ^ m"
proof -
  have "(2 ^ e - 1) * 2 ^ m = push_bit m (mask e :: int)" by (simp add: push_bit_eq_mult mask_eq_exp_minus_1)
  moreover have "2 ^ (w - 1) AND push_bit m (mask e) = (0 :: int)"
    by (rule bit_eqI) (use assms(1) in \<open>auto simp: bit_and_iff bit_exp_iff bit_push_bit_iff bit_mask_iff\<close>)
  ultimately show ?thesis using assms(2) by (auto simp flip: disjunctive_add_eq_or)
qed

text \<open>What the code computes of an integer, with its masks.\<close>

lemma and_mask_yields:
  assumes "arith_ok sem" and "0 < w" and "wf_apint x" and "ap_width x = w"
    and "yields sem env iters v (IntegerType Signless w) x" and "0 \<le> k" and "k < 2 ^ w" and "uval x AND k = r"
  shows "yields sem env iters (create_same (ArithI AndI) [v, getConstantOrSplat (IntegerType Signless w) (IntAttr k)])
    (IntegerType Signless w) (mk_apint w r)"
proof -
  have "ap_and x (mk_apint w k) = mk_apint w r" using assms by (simp add: ap_and_def)
  then show ?thesis
    by (intro yields_wrap [OF assms(1,5) yields_const(1) [OF assms(1,2)], where fn = ap_and]) (use assms(2-4) in \<open>simp_all add: same_width_def\<close>)
qed

lemma clamp_exponent_yields:
  assumes "arith_ok sem" and "0 < srcE" and "m + srcE = w - 1" and "0 < e" and "e < srcE" and "wf_apint x" and "ap_width x = w"
    and v: "yields sem env iters v (IntegerType Signless w) x"
  shows "yields sem env iters (clamp_exponent (IntegerType Signless w) w m srcE e v) (IntegerType Signless w)
    (mk_apint w (clamp_bits w m e (uval x)))"
proof -
  let ?t = "IntegerType Signless w" and ?c = "\<lambda>i. getConstantOrSplat (IntegerType Signless w) (IntAttr i)"
  define u where "u = uval x"
  have u: "0 \<le> u" "u < 2 ^ w" using assms(6,7) by (auto simp: u_def wf_apint_def)
  have pos: "0 < w" and src: "w - 1 - m = srcE" using assms(2,3) by auto
  have p: "(2 :: int) ^ w = 2 * 2 ^ (w - 1)" "(2 :: int) ^ (w - 1) = 2 ^ srcE * 2 ^ m"
    using pow2_split [OF pos] assms(3) by (simp_all flip: power_add add: add.commute)
  note const = yields_const(1) [OF assms(1) pos, of env iters]
  define M where "M = (2 ^ srcE - 1) * (2 :: int) ^ m"
  have M: "0 \<le> M" "M < 2 ^ (w - 1)" using p(2) by (simp_all add: M_def algebra_simps)
  define B :: int where "B = 2 ^ (srcE - 1) - 1"
  define B' :: int where "B' = 2 ^ (e - 1) - 1"
  have small: "(2 :: int) ^ (e - 1) \<le> 2 ^ (srcE - 1)" "(2 :: int) ^ srcE = 2 * 2 ^ (srcE - 1)"
    using assms(2,5) pow2_split [OF assms(2)] by simp_all
  have bounds: "0 \<le> B - B'" "B - B' < 2 ^ srcE" "0 \<le> B + B'" "B + B' < 2 ^ srcE"
    using small one_le_power [of "2 :: int" "e - 1"] unfolding B_def B'_def by linarith+
  have scaled: "0 \<le> k * 2 ^ m" "k * 2 ^ m < 2 ^ w" if "0 \<le> k" "k < 2 ^ srcE" for k :: int
  proof -
    have "k * 2 ^ m < 2 ^ srcE * 2 ^ m" using that by simp
    then show "0 \<le> k * 2 ^ m" "k * 2 ^ m < 2 ^ w" using that p by simp_all
  qed
  let ?e = "exponent_part w m u" and ?s = "sign_part w u"
  have e: "0 \<le> ?e" "?e < 2 ^ srcE"
    unfolding exponent_part_def p(2) by (simp_all add: pos_imp_zdiv_nonneg_iff int_div_less)
  have s: "?s = 0 \<or> ?s = 2 ^ (w - 1)" "u AND 2 ^ (w - 1) = ?s" using sign_bits [OF u pos] by simp_all
  have srange: "0 \<le> ?s" "?s < 2 ^ w" using s(1) p(1) by auto
  have wide: "same_width (mk_apint w i) (mk_apint w j)" "same_width x (mk_apint w j)" for i j using pos assms(6,7) by (simp_all add: same_width_def)
  have and_exp: "u AND M = ?e * 2 ^ m"
    using exponent_bits [of u srcE m] assms(3) by (simp add: M_def exponent_part_def)
  have vals: "?e * 2 ^ m mod 2 ^ w = ?e * 2 ^ m" "(B + B') * 2 ^ m mod 2 ^ w = (B + B') * 2 ^ m"
    "(B - B') * 2 ^ m mod 2 ^ w = (B - B') * 2 ^ m" "M mod 2 ^ w = M" "?s mod 2 ^ w = ?s"
    using scaled [OF e] scaled [OF bounds(1,2)] scaled [OF bounds(3,4)] M p(1) srange by (intro mod_pos_pos_trivial; simp)+
  define xExponent where "xExponent = create_same (ArithI AndI) [v, ?c M]"
  have xe: "yields sem env iters xExponent ?t (mk_apint w (?e * 2 ^ m))"
    unfolding xExponent_def by (rule and_mask_yields [OF assms(1) pos assms(6,7) v]) (use M p(1) and_exp in \<open>simp_all add: u_def\<close>)
  define xOverflows where "xOverflows = create_cmpi Iugt xExponent (?c ((B + B') * 2 ^ m))"
  have xo: "yields sem env iters xOverflows i1_type (flag (B + B' < ?e))"
    unfolding xOverflows_def by (rule yields_cmp [OF assms(1) xe const wide(1)]) (simp add: vals)
  define xUnderflows where "xUnderflows = create_cmpi Iule xExponent (?c ((B - B') * 2 ^ m))"
  have xu: "yields sem env iters xUnderflows i1_type (flag (?e \<le> B - B'))"
    unfolding xUnderflows_def by (rule yields_cmp [OF assms(1) xe const wide(1)]) (simp add: vals)
  define xSignedZero where "xSignedZero = create_same (ArithI AndI) [v, ?c (2 ^ (w - 1))]"
  have xz: "yields sem env iters xSignedZero ?t (mk_apint w ?s)"
    unfolding xSignedZero_def by (rule and_mask_yields [OF assms(1) pos assms(6,7) v]) (use p(1) s(2) in \<open>simp_all add: u_def\<close>)
  define xSignedInf where "xSignedInf = create_same (ArithI OrI) [xSignedZero, ?c M]"
  have or: "?s OR M = ?s + M" unfolding M_def by (rule sign_or_exponent [OF assms(3) s(1)])
  have xi: "yields sem env iters xSignedInf ?t (mk_apint w (?s + M))"
    unfolding xSignedInf_def by (rule yields_wrap [OF assms(1) xz const wide(1), where fn = ap_or]) (use or vals in \<open>simp_all add: ap_or_def\<close>)
  have x': "yields sem env iters (create_select xOverflows xSignedInf v) ?t (if B + B' < ?e then mk_apint w (?s + M) else x)"
    by (rule yields_choice [OF assms(1) xo xi v refl])
  have self: "mk_apint w u = x" using mk_apint_uval [OF assms(6)] assms(7) by (simp add: u_def)
  have clamp: "clamp_bits w m e u = (if ?e \<le> B - B' then ?s else if B + B' < ?e then ?s + M else u)"
    unfolding clamp_bits_def Let_def src B_def B'_def M_def ..
  have "yields sem env iters (create_select xUnderflows xSignedZero (create_select xOverflows xSignedInf v)) ?t
      (mk_apint w (clamp_bits w m e u))"
    by (rule yields_choice [OF assms(1) xu xz x']) (use self in \<open>simp add: clamp\<close>)
  then show ?thesis
    by (simp add: clamp_exponent_def Let_def u_def xUnderflows_def xSignedZero_def xOverflows_def xSignedInf_def xExponent_def M_def B_def B'_def)
qed

section \<open>Reduced precision\<close>

definition mantissa_bits :: "fsem \<Rightarrow> nat" where
  "mantissa_bits s = getFPMantissaWidth s - 1"

definition exponent_width :: "fsem \<Rightarrow> nat" where
  "exponent_width s = sem_width s - 1 - mantissa_bits s"

definition nan_bits :: "fsem \<Rightarrow> int \<Rightarrow> bool" where
  "nan_bits s u \<longleftrightarrow> (2 ^ exponent_width s - 1) * 2 ^ mantissa_bits s < u mod 2 ^ (sem_width s - 1)"

definition reduce_bits :: "fsem \<Rightarrow> nat \<Rightarrow> nat \<Rightarrow> int \<Rightarrow> int" where
  "reduce_bits s e m u =
     (let r = (if m < mantissa_bits s then round_bits (mantissa_bits s - m) u mod 2 ^ sem_width s else u) in
      if e < exponent_width s then clamp_bits (sem_width s) (mantissa_bits s) e r else r)"

lemma format_layout:
  "0 < exponent_width s" "mantissa_bits s + exponent_width s = sem_width s - 1" "mantissa_bits s < sem_width s"
  by (cases s; simp add: exponent_width_def mantissa_bits_def)+

lemma fl_of_bits_mod: "fl_of_bits s (u mod 2 ^ sem_width s) = fl_of_bits s u"
  by (cases s) (simp_all add: word_of_int_eq_iff take_bit_eq_mod)

lemma reduce_precision_value:
  assumes "arith_ok sem" and "sem_width s \<le> 64" and "fl_sem f = s" and "0 < e"
    and "map_ReducePrecisionOp e m [RankedTensorType sh (FloatType s) enc] [(Operand 0, FloatType s)] = Inr v"
  shows "eval_sexp sem [ScFloat f] [] (fst v) =
    Inr (ScFloat (if nan_bits s (fl_bits f) then f else fl_of_bits s (reduce_bits s e m (fl_bits f))))"
proof -
  define w where "w = sem_width s"
  let ?t = "IntegerType Signless w" and ?M = "mantissa_bits s" and ?E = "exponent_width s"
  let ?c = "\<lambda>i. getConstantOrSplat (IntegerType Signless w) (IntAttr i)"
  define u where "u = fl_bits f"
  have u: "0 \<le> u" "u < 2 ^ w" using fl_bits_range [of f] assms(3) by (auto simp: u_def w_def)
  have pos: "0 < w" using sem_width_ge [of s] by (simp add: w_def)
  note layout = format_layout [of s, folded w_def]
  have p: "(2 :: int) ^ w = 2 * 2 ^ (w - 1)" by (rule pow2_split [OF pos])
  define x where "x = mk_apint w u"
  have wx: "wf_apint x" "ap_width x = w" "uval x = u" using pos u by (simp_all add: x_def)
  define v1 where "v1 = create Bitcast ?t [(Operand 0, FloatType s)]"
  have v1: "yields sem [ScFloat f] [] v1 ?t x"
    using arith_bitcast(1) [OF assms(1), of f] assms(3) by (simp add: v1_def yields_def create_def x_def u_def w_def)
  have abs: "u AND (2 ^ w - 1 - 2 ^ (w - 1)) = u mod 2 ^ (w - 1)"
  proof -
    have "(2 ^ w - 1 - 2 ^ (w - 1) :: int) = mask (w - 1)" using p by (simp add: mask_eq_exp_minus_1)
    then show ?thesis by (simp flip: take_bit_eq_mask take_bit_eq_mod)
  qed
  have abs': "yields sem [ScFloat f] [] (create_same (ArithI AndI) [v1, ?c (2 ^ w - 1 - 2 ^ (w - 1))]) ?t (mk_apint w (u mod 2 ^ (w - 1)))"
    by (rule and_mask_yields [OF assms(1) pos wx(1,2) v1]) (use p abs one_le_power [of "2 :: int" "w - 1"] in \<open>simp_all only: wx(3), linarith+\<close>)
  have small: "u mod 2 ^ (w - 1) mod 2 ^ w = u mod 2 ^ (w - 1)" "((2 ^ ?E - 1) * 2 ^ ?M) mod 2 ^ w = (2 ^ ?E - 1) * (2 :: int) ^ ?M"
  proof -
    have "(2 :: int) ^ (w - 1) = 2 ^ ?E * 2 ^ ?M" using layout(2) by (simp flip: power_add add: add.commute)
    moreover have "0 \<le> (2 ^ ?E - 1) * (2 :: int) ^ ?M" by simp
    ultimately show "((2 ^ ?E - 1) * 2 ^ ?M) mod 2 ^ w = (2 ^ ?E - 1) * (2 :: int) ^ ?M"
      using p by (intro mod_pos_pos_trivial) (simp_all add: algebra_simps add_pos_pos)
    have "0 \<le> u mod 2 ^ (w - 1)" "u mod 2 ^ (w - 1) < 2 ^ (w - 1)" by simp_all
    then show "u mod 2 ^ (w - 1) mod 2 ^ w = u mod 2 ^ (w - 1)" unfolding p by (intro mod_pos_pos_trivial) linarith+
  qed
  have nan: "yields sem [ScFloat f] [] (create_cmpi Iugt (create_same (ArithI AndI) [v1, ?c (2 ^ w - 1 - 2 ^ (w - 1))])
      (?c ((2 ^ ?E - 1) * 2 ^ ?M))) i1_type (flag (nan_bits s u))"
    by (rule yields_cmp [OF assms(1) abs' yields_const(1) [OF assms(1) pos]]) (use small pos in \<open>simp_all add: nan_bits_def w_def\<close>)
  define r where "r = (if m < ?M then round_bits (?M - m) u mod 2 ^ w else u)"
  define v2 where "v2 = (if m < ?M then round_mantissa ?t ?M m v1 else v1)"
  have v2: "yields sem [ScFloat f] [] v2 ?t (mk_apint w r)"
  proof (cases "m < ?M")
    case True
    have "mk_apint w (round_bits (?M - m) u) = mk_apint w r" using True by (simp add: r_def mk_apint_eq_iff)
    then show ?thesis using round_mantissa_yields [OF assms(1) True layout(3) wx(1,2) v1] True wx(3) by (simp add: v2_def)
  next
    case False
    then show ?thesis using v1 by (simp add: v2_def r_def x_def)
  qed
  have r: "0 \<le> r" "r < 2 ^ w" using u by (auto simp: r_def)
  have reduce: "reduce_bits s e m u = (if e < ?E then clamp_bits w ?M e r else r)"
    unfolding reduce_bits_def Let_def r_def w_def ..
  define v3 where "v3 = (if e < ?E then clamp_exponent ?t w ?M ?E e v2 else v2)"
  have v3: "yields sem [ScFloat f] [] v3 ?t (mk_apint w (reduce_bits s e m u))"
  proof (cases "e < ?E")
    case True
    have wr: "wf_apint (mk_apint w r)" "ap_width (mk_apint w r) = w" using pos by simp_all
    show ?thesis
      using clamp_exponent_yields [OF assms(1) layout(1,2) assms(4) True wr v2] True r
      by (simp add: v3_def reduce)
  next
    case False
    then show ?thesis using v2 by (simp add: v3_def reduce)
  qed
  have "fl_of_bits s (uval (mk_apint w (reduce_bits s e m u))) = fl_of_bits s (reduce_bits s e m u)"
    using pos fl_of_bits_mod [of s] by (simp add: w_def)
  then have result: "eval_sexp sem [ScFloat f] [] (fst (create Bitcast (FloatType s) [v3])) = Inr (ScFloat (fl_of_bits s (reduce_bits s e m u)))"
    using v3 arith_bitcast(2) [OF assms(1), of "mk_apint w (reduce_bits s e m u)" s] pos by (simp add: yields_def create_def w_def)
  have "map_ReducePrecisionOp e m [RankedTensorType sh (FloatType s) enc] [(Operand 0, FloatType s)] = Inr (create_select
      (create_cmpi Iugt (create_same (ArithI AndI) [v1, ?c (2 ^ w - 1 - 2 ^ (w - 1))]) (?c ((2 ^ ?E - 1) * 2 ^ ?M)))
      (Operand 0, FloatType s) (create Bitcast (FloatType s) [v3]))"
    using assms(2) unfolding map_ReducePrecisionOp_def v3_def v2_def v1_def w_def exponent_width_def mantissa_bits_def
    by (simp only: Let_def list.sel ty.case if_True)
  then show ?thesis
    using nan result assms(5) arith_select [OF assms(1), of _ "nan_bits s u"]
    by (auto simp: create_select_def create_def yields_def simp flip: u_def)
qed

end
