(* ===== verification/ScalarAgreement.thy ===== *)
theory ScalarAgreement
  imports ScalarFloats
begin

text \<open>
  The emitted code against the evaluator: for an operation both have, the scalar the code computes is
  the element \<open>Element.cpp\<close> computes. The lowered operations on booleans.
\<close>

section \<open>Scalars of elements\<close>

definition scalar_of_element :: "element \<Rightarrow> scalar" where
  "scalar_of_element e = (case e_val e of IntV v \<Rightarrow> ScInt v | BoolV b \<Rightarrow> ScInt (flag b) | FloatV f \<Rightarrow> ScFloat f | ComplexV x y \<Rightarrow> ScComplex x y)"

lemma scalar_of_element_simps [simp]: "scalar_of_element (int_element t v) = ScInt v" "scalar_of_element (bool_element b) = ScInt (flag b)"
  by (simp_all add: scalar_of_element_def int_element_def bool_element_def)

text \<open>The functions of \<open>Element.cpp\<close> for the operations.\<close>

fun element_unary :: "lib \<Rightarrow> mhlo_op \<Rightarrow> (element \<Rightarrow> element res) option" where
  "element_unary L MhloNeg = Some (elem_neg L)"
| "element_unary L MhloNot = Some elem_not"
| "element_unary L MhloAbs = Some (elem_abs L)"
| "element_unary L MhloSign = Some (elem_sign L)"
| "element_unary L MhloPopulationCount = Some (elem_popcnt L)"
| "element_unary L _ = None"

fun element_binary :: "lib \<Rightarrow> mhlo_op \<Rightarrow> (element \<Rightarrow> element \<Rightarrow> element res) option" where
  "element_binary L MhloAdd = Some (elem_add L)"
| "element_binary L MhloSubtract = Some (elem_sub L)"
| "element_binary L MhloMul = Some (elem_mul L)"
| "element_binary L MhloAnd = Some elem_and"
| "element_binary L MhloOr = Some elem_or"
| "element_binary L MhloXor = Some elem_xor"
| "element_binary L MhloMax = Some (elem_max L)"
| "element_binary L MhloMin = Some (elem_min L)"
| "element_binary L MhloDiv = Some (elem_div L)"
| "element_binary L MhloRem = Some (elem_rem L)"
| "element_binary L MhloShiftLeft = Some elem_shift_left"
| "element_binary L MhloShiftRightLogical = Some elem_shift_right_logical"
| "element_binary L MhloShiftRightArithmetic = Some elem_shift_right_arithmetic"
| "element_binary L (MhloCompare d _) = Some (elem_cmp L d)"
| "element_binary L _ = None"

section \<open>Integers\<close>

lemma convert_int:
  assumes "isSupportedIntegerType t"
  shows "- (2 ^ 63) \<le> i \<Longrightarrow> i < 2 ^ 63 \<Longrightarrow> convert_i64 L t i = Inr (int_element t (mk_apint (int_or_float_width t) i))"
    and "0 \<le> i \<Longrightarrow> i < 2 ^ 64 \<Longrightarrow> convert_u64 L t i = Inr (int_element t (mk_apint (int_or_float_width t) i))"
  using assms sval_mk_in [of 64 i]
  by (auto simp: convert_i64_def convert_u64_def convert_apsint.simps ap_ext_or_trunc_def mk_int_int dest: supported_disjoint)

lemma elem_shift_int [int_ops]:
  assumes "int_typed t a" and "int_typed t b"
  shows "elem_shift_left (int_element t a) (int_element t b) = Inr (int_element t (ap_shl a b))"
    "elem_shift_right_logical (int_element t a) (int_element t b) = Inr (int_element t (ap_lshr a b))"
    "elem_shift_right_arithmetic (int_element t a) (int_element t b) = Inr (int_element t (ap_ashr a b))"
  using assms
  by (simp_all add: int_typed_def elem_shift_left_def elem_shift_right_logical_def elem_shift_right_arithmetic_def
      mk_int_int ap_shl_def ap_lshr_def ap_ashr_def)

lemma elem_unary_int [int_ops]:
  assumes "int_typed t a"
  shows "elem_abs L (int_element t a) = Inr (int_element t (ap_abs a))"
    "elem_sign L (int_element t a) = Inr (int_element t (mk_apint (int_or_float_width t) (sgn (sval a))))"
    "elem_popcnt L (int_element t a) = Inr (int_element t (mk_apint (int_or_float_width t) (ap_popcount a)))"
proof -
  have t: "isSupportedIntegerType t" "ap_width a = int_or_float_width t" "wf_apint a" using assms by (auto simp: int_typed_def)
  have w: "ap_width a \<le> 64" using t(1,2) by (auto simp: isSupportedIntegerType_cases)
  have z: "uval a = 0 \<longleftrightarrow> sval a = 0" using t(3) by (auto simp: sval_def wf_apint_def)
  show "elem_abs L (int_element t a) = Inr (int_element t (ap_abs a))"
    using t by (simp add: elem_abs_def mk_int_int ap_abs_def ap_neg_def)
  show "elem_sign L (int_element t a) = Inr (int_element t (mk_apint (int_or_float_width t) (sgn (sval a))))"
    using t(1) z convert_int(1) [OF t(1)] by (auto simp: elem_sign_def ap_neg_p_def sgn_if)
  show "elem_popcnt L (int_element t a) = Inr (int_element t (mk_apint (int_or_float_width t) (ap_popcount a)))"
    using t(1) w ap_popcount_range [of a] convert_int(2) [OF t(1), of "ap_popcount a"] by (simp add: elem_popcnt_def)
qed

lemma cmp_holds_compares:
  assumes "int_typed t a" and "int_typed t b"
  shows "cmp_holds (getCmpPredicateI d (isSupportedSignedIntegerType t)) a b = compares d (int_value t a) (int_value t b)"
  using sval_eq_iff [OF assms] uval_eq_iff [OF assms]
  by (cases d) (auto simp: compares_def int_value_def)

lemma binary_agrees:
  assumes "arith_ok sem" and "int_typed t a" and "int_typed t b"
    and "element_binary L oper = Some f" and "f (int_element t a) (int_element t b) = Inr e"
  shows "run_scalar sem oper (e_type e) [t, t] [ScInt a, ScInt b] = Inr (scalar_of_element e)"
proof -
  note ops = elem_arith_int [OF assms(2,3)] elem_minmax_int [OF assms(2,3)] elem_div_int [OF assms(2,3)] elem_rem_int [OF assms(2,3)]
    elem_shift_int [OF assms(2,3)] elem_cmp_int [OF assms(2,3)]
  show ?thesis
  proof (cases "oper = MhloDiv \<or> oper = MhloRem")
    case True
    then show ?thesis using assms(4,5) ops(11,12) [of L] run_divide [OF assms(1-3)] by (auto split: if_splits)
  next
    case False
    then show ?thesis
      using assms(4,5) ops run_arith [OF assms(1-3)] run_minmax [OF assms(1-3)] run_shift [OF assms(1-3)]
        run_compare [OF assms(1-3)] cmp_holds_compares [OF assms(2,3)]
      by (cases oper) (auto simp del: ap_width_mk)
  qed
qed

lemma unary_agrees:
  assumes "arith_ok sem" and "int_typed t a" and "element_unary L oper = Some f" and "f (int_element t a) = Inr e"
    and "oper = MhloAbs \<Longrightarrow> isSupportedSignedIntegerType t"
  shows "run_scalar sem oper t [t] [ScInt a] = Inr (scalar_of_element e)"
proof -
  note ops = elem_arith_int(7,8) [OF assms(2,2)] elem_unary_int [OF assms(2)]
  show ?thesis
    using assms(3-5) ops run_unary [OF assms(1,2)] run_sign [OF assms(1,2)] by (cases oper) auto
qed

section \<open>Booleans\<close>

text \<open>
  A boolean is a signless integer of one bit; the tables treat it as unsigned. The addition of the
  evaluator is a disjunction, the addition of the emitted code is the one of one-bit integers.
\<close>

lemma run_bool_table:
  assumes "arith_ok sem" and "wrapping f = Some fn"
    and "mapMhloOpToStdScalarOp oper i1 [i1, i1] [(Operand 0, i1), (Operand 1, i1)] = Inr (create (ArithI f) i1 [(Operand 0, i1), (Operand 1, i1)])"
  shows "run_scalar sem oper i1 [i1, i1] [ScInt (flag x), ScInt (flag y)] = Inr (ScInt (fn (flag x) (flag y)))"
proof -
  have "signless i1 = i1" by (simp add: i1_def)
  then show ?thesis
    using assms(3) arith_wrap [OF assms(1) _ assms(2), of "flag x" "flag y"]
    by (simp add: run_scalar_def create_def)
qed

lemma flag_arith [simp]:
  "ap_add (flag x) (flag y) = flag (x \<noteq> y)" "ap_mul (flag x) (flag y) = flag (x \<and> y)" "ap_xor (flag x) (flag y) = flag (x \<noteq> y)"
  by (simp_all add: ap_add_def ap_mul_def ap_xor_def, simp_all add: flag_def mk_apint_def)

lemma run_bool:
  assumes "arith_ok sem"
  shows "run_scalar sem MhloAdd i1 [i1, i1] [ScInt (flag x), ScInt (flag y)] = Inr (ScInt (flag (x \<noteq> y)))"
    "run_scalar sem MhloMul i1 [i1, i1] [ScInt (flag x), ScInt (flag y)] = Inr (ScInt (flag (x \<and> y)))"
    "run_scalar sem MhloAnd i1 [i1, i1] [ScInt (flag x), ScInt (flag y)] = Inr (ScInt (flag (x \<and> y)))"
    "run_scalar sem MhloOr i1 [i1, i1] [ScInt (flag x), ScInt (flag y)] = Inr (ScInt (flag (x \<or> y)))"
    "run_scalar sem MhloXor i1 [i1, i1] [ScInt (flag x), ScInt (flag y)] = Inr (ScInt (flag (x \<noteq> y)))"
    "run_scalar sem MhloMax i1 [i1, i1] [ScInt (flag x), ScInt (flag y)] = Inr (ScInt (flag (x \<or> y)))"
    "run_scalar sem MhloMin i1 [i1, i1] [ScInt (flag x), ScInt (flag y)] = Inr (ScInt (flag (x \<and> y)))"
  using run_bool_table [OF assms, of AddI ap_add MhloAdd x y] run_bool_table [OF assms, of MulI ap_mul MhloMul x y]
    run_bool_table [OF assms, of AndI ap_and MhloAnd x y] run_bool_table [OF assms, of OrI ap_or MhloOr x y]
    run_bool_table [OF assms, of XOrI ap_xor MhloXor x y] run_bool_table [OF assms, of MaxUI _ MhloMax x y]
    run_bool_table [OF assms, of MinUI _ MhloMin x y]
  by (simp_all add: map_by_table_def map_MaxOp_def map_MinOp_def, simp_all add: i1_def)

lemma run_bool_compare:
  assumes "arith_ok sem"
  shows "run_scalar sem (MhloCompare d total') i1 [i1, i1] [ScInt (flag x), ScInt (flag y)] =
    Inr (ScInt (flag (compares d (of_bool x) (of_bool y))))"
proof -
  have s: "signless i1 = i1" by (simp add: i1_def)
  have m: "mapMhloOpToStdScalarOp (MhloCompare d total') (signless i1) [i1, i1] (operands [i1, i1]) =
      Inr (create_cmpi (getCmpPredicateI d False) (Operand 0, i1) (Operand 1, i1))"
    by (simp add: s map_CompareOp_def Let_def) (simp add: i1_def)
  have o: "yields sem [ScInt (flag x), ScInt (flag y)] [] (Operand 0, i1) i1 (flag x)"
    "yields sem [ScInt (flag x), ScInt (flag y)] [] (Operand 1, i1) i1 (flag y)" by (simp_all add: yields_operand)
  have "compares d (of_bool x) (of_bool y) = cmp_holds (getCmpPredicateI d False) (flag x) (flag y)"
    by (cases d) (auto simp: compares_def)
  then show ?thesis by (intro run_scalar_yields [OF m yields_cmp [OF assms o]]) simp_all
qed

lemma run_bool_not:
  assumes "arith_ok sem"
  shows "run_scalar sem MhloNot i1 [i1] [ScInt (flag x)] = Inr (ScInt (flag (\<not> x)))"
proof -
  have s: "signless i1 = i1" by (simp add: i1_def)
  have m: "mapMhloOpToStdScalarOp MhloNot (signless i1) [i1] (operands [i1]) =
      Inr (create_same (ArithI XOrI) [getConstantOrSplat i1 (IntAttr (- 1)), (Operand 0, i1)])"
    by (simp add: s map_NotOp_def Let_def) (simp add: i1_def)
  have c: "yields sem [ScInt (flag x)] [] (getConstantOrSplat i1 (IntAttr (- 1))) i1 (flag True)"
    using yields_const(1) [OF assms, of 1 "[ScInt (flag x)]" "[]" "- 1"] by (simp add: i1_def flag_def mk_apint_def)
  have o: "yields sem [ScInt (flag x)] [] (Operand 0, i1) i1 (flag x)" by (simp add: yields_operand)
  show ?thesis by (rule run_scalar_yields [OF m yields_wrap [OF assms c o, where fn = ap_xor]]) simp_all
qed

text \<open>The evaluator on booleans.\<close>

lemma elem_bool:
  "elem_add L (bool_element x) (bool_element y) = Inr (bool_element (x \<or> y))"
  "elem_mul L (bool_element x) (bool_element y) = Inr (bool_element (x \<and> y))"
  "elem_and (bool_element x) (bool_element y) = Inr (bool_element (x \<and> y))"
  "elem_or (bool_element x) (bool_element y) = Inr (bool_element (x \<or> y))"
  "elem_xor (bool_element x) (bool_element y) = Inr (bool_element (x \<noteq> y))"
  "elem_max L (bool_element x) (bool_element y) = Inr (bool_element (x \<or> y))"
  "elem_min L (bool_element x) (bool_element y) = Inr (bool_element (x \<and> y))"
  "elem_cmp L d (bool_element x) (bool_element y) = Inr (bool_element (compares d (of_bool x) (of_bool y)))"
  "elem_not (bool_element x) = Inr (bool_element (\<not> x))"
  by (simp_all add: elem_add_def elem_mul_def elem_and_def elem_or_def elem_xor_def elem_max_def elem_min_def elem_not_def
      elem_map2_def elem_map1_def)
    (cases d; auto simp: elem_lt_def elem_gt_def elem_eq_def elem_le_def elem_ge_def elem_ne_def compares_def)

lemma elem_bool_none:
  "elem_sub L (bool_element x) (bool_element y) \<noteq> Inr e" "elem_div L (bool_element x) (bool_element y) \<noteq> Inr e"
  "elem_rem L (bool_element x) (bool_element y) \<noteq> Inr e" "elem_shift_left (bool_element x) (bool_element y) \<noteq> Inr e"
  "elem_shift_right_logical (bool_element x) (bool_element y) \<noteq> Inr e"
  "elem_shift_right_arithmetic (bool_element x) (bool_element y) \<noteq> Inr e"
  by (simp_all add: elem_sub_def elem_rem_def elem_div_def elem_map2_def elem_shift_left_def elem_shift_right_logical_def
      elem_shift_right_arithmetic_def getIntegerValue_def)
    (simp add: i1_def)

lemma bool_agrees:
  assumes "arith_ok sem" and "oper \<noteq> MhloAdd" and "element_binary L oper = Some f"
    and "f (bool_element x) (bool_element y) = Inr e"
  shows "run_scalar sem oper i1 [i1, i1] [ScInt (flag x), ScInt (flag y)] = Inr (scalar_of_element e)"
  using assms(2-4) run_bool [OF assms(1), of x y] run_bool_compare [OF assms(1), of _ _ x y] elem_bool
    elem_bool_none(1-3) [of L x y e] elem_bool_none(4-6) [of x y e]
  by (cases oper) auto

section \<open>Conversions\<close>

text \<open>A step of \<open>evalConvertOp\<close> on an integer.\<close>

definition convert_int_element :: "lib \<Rightarrow> ty \<Rightarrow> ty \<Rightarrow> apint \<Rightarrow> element res" where
  "convert_int_element L t' t a =
     (if isSupportedSignedIntegerType t then convert_i64 L t' (sval a) else convert_u64 L t' (uval a))"

lemma convert_agrees:
  assumes "arith_ok sem" and "int_typed t a"
  shows "isSupportedIntegerType t' \<Longrightarrow> convert_int_element L t' t a = Inr e \<Longrightarrow> run_convert sem t' t (ScInt a) = Inr (scalar_of_element e)"
    and "convert_int_element L i1 t a = Inr e \<Longrightarrow> run_convert sem i1 t (ScInt a) = Inr (scalar_of_element e)"
    and "convert_bool L t c = Inr e \<Longrightarrow> run_convert sem t i1 (ScInt (flag c)) = Inr (scalar_of_element e)"
proof -
  have t: "isSupportedIntegerType t" "ap_width a = int_or_float_width t" "wf_apint a" using assms(2) by (auto simp: int_typed_def)
  have w: "ap_width a \<le> 64" "0 < ap_width a" using t(1,2) by (auto simp: isSupportedIntegerType_cases)
  have p: "(2 :: int) ^ ap_width a \<le> 2 ^ 64" "(2 :: int) ^ (ap_width a - 1) \<le> 2 ^ 63"
    using w by (intro power_increasing; simp)+
  have u: "0 \<le> uval a" "uval a < 2 ^ 64" using t(3) p by (auto simp: wf_apint_def)
  have s: "- (2 ^ 63) \<le> sval a" "sval a < 2 ^ 63" using sval_range [OF t(3)] p by auto
  show "run_convert sem t' t (ScInt a) = Inr (scalar_of_element e)"
    if "isSupportedIntegerType t'" "convert_int_element L t' t a = Inr e"
    using that(2) run_convert_int [OF assms that(1)] convert_int [OF that(1)] u s
    by (auto simp: convert_int_element_def int_value_def split: if_splits)
  have "sval a mod 2 ^ 64 = 0 \<longleftrightarrow> sval a = 0"
    using s sval_mk_in [of 64 "sval a"] by (auto simp: sval_def)
  moreover have "sval a = 0 \<longleftrightarrow> uval a = 0" using t(3) by (auto simp: sval_def wf_apint_def)
  ultimately have z: "sval a mod 2 ^ 64 = 0 \<longleftrightarrow> uval a = 0" by simp
  show "run_convert sem i1 t (ScInt a) = Inr (scalar_of_element e)" if "convert_int_element L i1 t a = Inr e"
    using that run_convert_bool(1) [OF assms] u z
    by (auto simp: convert_int_element_def convert_i64_def convert_u64_def convert_apsint.simps split: if_splits)
  show "run_convert sem t i1 (ScInt (flag c)) = Inr (scalar_of_element e)" if "convert_bool L t c = Inr e"
    using that t(1) run_convert_bool(2) [OF assms] convert_int(2) [OF t(1)]
    by (auto simp: convert_bool_def dest: supported_disjoint split: if_splits)
qed

end
