(* ===== verification/ScalarProperties.thy ===== *)
theory ScalarProperties
  imports ScalarAgreement Samples
begin

text \<open>
  What the scalar lowering guarantees, and an instance of the dialects that has the documented behaviour
  and no more: unsafe divisions have no result.
\<close>

section \<open>An instance of the dialects\<close>

fun sample_division :: "arith_int_op \<Rightarrow> apint \<Rightarrow> apint \<Rightarrow> scalar res" where
  "sample_division DivUI a b = (if uval b = 0 then Inl Undefined else Inr (ScInt (mk_apint (ap_width a) (uval a div uval b))))"
| "sample_division RemUI a b = (if uval b = 0 then Inl Undefined else Inr (ScInt (mk_apint (ap_width a) (uval a mod uval b))))"
| "sample_division DivSI a b =
     (if uval b = 0 \<or> sval a = - (2 ^ (ap_width a - 1)) \<and> sval b = - 1 then Inl Undefined
      else Inr (ScInt (mk_apint (ap_width a) (sval a sdiv sval b))))"
| "sample_division RemSI a b =
     (if uval b = 0 \<or> sval a = - (2 ^ (ap_width a - 1)) \<and> sval b = - 1 then Inl Undefined
      else Inr (ScInt (mk_apint (ap_width a) (sval a smod sval b))))"
| "sample_division _ a b = Inl Undefined"

fun sample_cast :: "arith_int_op \<Rightarrow> nat \<Rightarrow> apint \<Rightarrow> scalar res" where
  "sample_cast TruncI w a = Inr (ScInt (mk_apint w (uval a)))"
| "sample_cast ExtUI w a = Inr (ScInt (mk_apint w (uval a)))"
| "sample_cast ExtSI w a = Inr (ScInt (mk_apint w (sval a)))"
| "sample_cast _ w a = Inl Undefined"

fun sample_const :: "const_attr \<Rightarrow> nat \<Rightarrow> scalar res" where
  "sample_const (IntAttr i) w = Inr (ScInt (mk_apint w i))"
| "sample_const ZeroAttr w = Inr (ScInt (mk_apint w 0))"
| "sample_const _ w = Inl Undefined"

fun sample_select :: "scalar list \<Rightarrow> scalar res" where
  "sample_select [ScInt c, x, y] = Inr (if uval c \<noteq> 0 then x else y)"
| "sample_select _ = Inl Undefined"

fun sample_arith :: "arith_int_op \<Rightarrow> nat \<Rightarrow> scalar list \<Rightarrow> scalar res" where
  "sample_arith f w [ScInt a, ScInt b] =
     (case wrapping f of Some fn \<Rightarrow> Inr (ScInt (fn a b))
      | None \<Rightarrow> (case shifting f of Some fn \<Rightarrow> Inr (ScInt (fn a b)) | None \<Rightarrow> sample_division f a b))"
| "sample_arith f w [ScInt a] = sample_cast f w a"
| "sample_arith f w _ = Inl Undefined"

fun sample_bitcast :: "ty \<Rightarrow> scalar list \<Rightarrow> scalar res" where
  "sample_bitcast (FloatType s) [ScInt a] = Inr (ScFloat (fl_of_bits s (uval a)))"
| "sample_bitcast (IntegerType _ w) [ScFloat f] = Inr (ScInt (mk_apint w (fl_bits f)))"
| "sample_bitcast _ _ = Inl Undefined"

fun sample_compare :: "cmp_i \<Rightarrow> scalar list \<Rightarrow> scalar res" where
  "sample_compare p [ScInt a, ScInt b] = Inr (ScInt (flag (cmp_holds p a b)))"
| "sample_compare p _ = Inl Undefined"

fun sample_popcount :: "scalar list \<Rightarrow> scalar res" where
  "sample_popcount [ScInt a] = Inr (ScInt (mk_apint (ap_width a) (ap_popcount a)))"
| "sample_popcount _ = Inl Undefined"

definition sample_dialects :: dialects where
  "sample_dialects oper t vs =
     (case oper of
        Constant v \<Rightarrow> sample_const v (int_or_float_width t)
      | Select \<Rightarrow> sample_select vs
      | CmpI p \<Rightarrow> sample_compare p vs
      | ArithI f \<Rightarrow> sample_arith f (int_or_float_width t) vs
      | Math f \<Rightarrow> (if f = MathCtPop then sample_popcount vs else Inl Undefined)
      | Bitcast \<Rightarrow> sample_bitcast t vs
      | _ \<Rightarrow> Inl Undefined)"

lemma sample_dialects_ok: "arith_ok sample_dialects"
proof -
  have "wrapping f = Some fn \<Longrightarrow> shifting f = None" for f fn by (cases f) simp_all
  moreover have "shifting f = Some fn \<Longrightarrow> wrapping f = None" for f fn by (cases f) simp_all
  ultimately show ?thesis by (auto simp: arith_ok_def sample_dialects_def)
qed

abbreviation i8_type :: ty where "i8_type \<equiv> IntegerType Signless 8"

section \<open>Integers and booleans\<close>



text \<open>
  C22: The emitted division and remainder always have a result, the dialect's unsafe division is never
  evaluated on an unsafe divisor: a division by zero gives minus one and the remainder of a division by
  zero is the dividend; otherwise they truncate toward zero, and the least number divided by minus one
  is itself.
\<close>

theorem scalar_division_total:
  assumes "arith_ok sem" and "int_typed t a" and "int_typed t b"
  defines "x \<equiv> int_value t a" and "y \<equiv> int_value t b" and "w \<equiv> int_or_float_width t"
  shows "run_scalar sem MhloDiv t [t, t] [ScInt a, ScInt b] = Inr (ScInt (mk_apint w (if y = 0 then - 1 else x sdiv y))) \<and>
    run_scalar sem MhloRem t [t, t] [ScInt a, ScInt b] = Inr (ScInt (mk_apint w (if y = 0 then x else x smod y))) \<and>
    (x = - (2 ^ (w - 1)) \<and> y = - 1 \<longrightarrow>
      run_scalar sem MhloDiv t [t, t] [ScInt a, ScInt b] = Inr (ScInt a) \<and>
      run_scalar sem MhloRem t [t, t] [ScInt a, ScInt b] = Inr (ScInt (mk_apint w 0)))"
proof -
  note run = run_divide [OF assms(1-3), folded x_def y_def w_def]
  have w: "ap_width a = w" "wf_apint a" "0 < w" using assms(2) supported_width_pos by (auto simp: int_typed_def w_def)
  have min: "mk_apint w (x sdiv y) = a \<and> x smod y = 0" if xy: "x = - (2 ^ (w - 1))" "y = - 1"
  proof -
    have "sval a = x" using xy(1) w assms(2) by (auto simp: x_def int_value_def wf_apint_def not_le split: if_splits)
    then have a: "a = mk_apint w x" using mk_apint_sval [OF w(2)] w(1) by simp
    have "x sdiv y = x + 2 ^ w" using xy pow2_split [OF w(3)] by (simp add: signed_divide_int_def)
    moreover have "mk_apint w (x + 2 ^ w) = mk_apint w x" by (simp only: mk_apint_eq_iff mod_add_self2)
    moreover have "x smod y = 0" using xy by (simp add: signed_modulo_int_def)
    ultimately show ?thesis using a by simp
  qed
  show ?thesis using run min by auto
qed

theorem scalar_division_total_witness:
  "run_scalar sample_dialects MhloDiv ui8 [ui8, ui8] [ScInt (APInt 8 7), ScInt (APInt 8 0)] = Inr (ScInt (APInt 8 255)) \<and>
   run_scalar sample_dialects MhloRem ui8 [ui8, ui8] [ScInt (APInt 8 7), ScInt (APInt 8 0)] = Inr (ScInt (APInt 8 7))"
  using scalar_division_total [OF sample_dialects_ok, of ui8 "APInt 8 7" "APInt 8 0"] by (simp add: mk_apint_def int_value_def)

text \<open>
  C6: Powers. The loop of the emitted code runs six times, so it uses the exponent modulo 64. For exponents
  below 64 on signed types, and on unsigned types when the exponent is also below half the range, the
  result is the one of the evaluator; a negative exponent is read as the evaluator reads it. From
  there on they differ: the eight-bit number 2 to the power 64 is one, where the evaluator has zero.
\<close>

theorem scalar_power_agrees:
  assumes "arith_ok sem" and "int_typed t a" and "int_typed t b"
  shows "(sval b < 64 \<and> (isSupportedSignedIntegerType t \<or> 0 \<le> sval b) \<longrightarrow>
      run_scalar sem MhloPow t [t, t] [ScInt a, ScInt b] = map_sum id scalar_of_element (elem_power L (int_element t a) (int_element t b))) \<and>
    (0 \<le> sval b \<longrightarrow>
      run_scalar sem MhloPow t [t, t] [ScInt a, ScInt b] = Inr (ScInt (mk_apint (int_or_float_width t) (uval a ^ nat (uval b mod 64))))) \<and>
    run_scalar sem MhloPow i8_type [i8_type, i8_type] [ScInt (APInt 8 2), ScInt (APInt 8 64)] = Inr (ScInt (APInt 8 1)) \<and>
    elem_power L (int_element i8_type (APInt 8 2)) (int_element i8_type (APInt 8 64)) = Inr (int_element i8_type (APInt 8 0))"
proof (intro conjI impI)
  define w where "w = int_or_float_width t"
  have t: "ap_width a = w" "wf_apint a" "ap_width b = w" "wf_apint b" "0 < w" "isSupportedIntegerType t"
    using assms(2,3) supported_width_pos by (auto simp: int_typed_def w_def)
  note run = run_power [OF assms, folded w_def] and ev = elem_power_int [OF assms(2,3), of L, folded w_def]
  have nonneg: "uval b = sval b" if "0 \<le> sval b" using that t(4) by (auto simp: sval_def wf_apint_def split: if_splits)
  show "run_scalar sem MhloPow t [t, t] [ScInt a, ScInt b] = Inr (ScInt (mk_apint (int_or_float_width t) (uval a ^ nat (uval b mod 64))))"
    if "0 \<le> sval b" using that run by (simp add: w_def)
  show "run_scalar sem MhloPow t [t, t] [ScInt a, ScInt b] = map_sum id scalar_of_element (elem_power L (int_element t a) (int_element t b))"
    if small: "sval b < 64 \<and> (isSupportedSignedIntegerType t \<or> 0 \<le> sval b)"
  proof (cases "0 \<le> sval b")
    case True
    have v: "int_value t b = sval b" using nonneg [OF True] by (simp add: int_value_def)
    have "uval a mod 2 ^ w = int_value t a mod 2 ^ w" using int_value_range [OF assms(2)] t(1,2) by (simp add: w_def wf_apint_def)
    then have "mk_apint w (uval a ^ n) = mk_apint w (int_value t a ^ n)" for n
      by (metis mk_apint_eq_iff power_mod)
    then show ?thesis using run ev v True small nonneg [OF True] by simp
  next
    case False
    then have v: "int_value t b = sval b" "int_value t a = sval a" using small by (simp_all add: int_value_def)
    moreover have "\<bar>x\<bar> = 1 \<longleftrightarrow> x = 1 \<or> x = - 1" for x :: int by linarith
    ultimately show ?thesis using run ev False by (auto simp: minus_one_power_iff even_nat_iff)
  qed
next
  have typed: "int_typed i8_type (APInt 8 2)" "int_typed i8_type (APInt 8 64)"
    by (simp_all add: int_typed_def wf_apint_def isSupportedIntegerType_cases)
  then show "run_scalar sem MhloPow i8_type [i8_type, i8_type] [ScInt (APInt 8 2), ScInt (APInt 8 64)] = Inr (ScInt (APInt 8 1))"
    using run_power [OF assms(1) typed] by (simp add: sval_def mk_apint_def)
  have "int_value i8_type (APInt 8 2) = 2" "int_value i8_type (APInt 8 64) = 64" by (simp_all add: int_value_def sval_def)
  then show "elem_power L (int_element i8_type (APInt 8 2)) (int_element i8_type (APInt 8 64)) = Inr (int_element i8_type (APInt 8 0))"
    using elem_power_int [OF typed, of L] by (simp add: mk_apint_def)
qed

theorem scalar_power_agrees_witness:
  "run_scalar sample_dialects MhloPow ui8 [ui8, ui8] [ScInt (APInt 8 3), ScInt (APInt 8 7)] = Inr (ScInt (APInt 8 139))"
  using scalar_power_agrees [OF sample_dialects_ok, of ui8 "APInt 8 3" "APInt 8 7" sample_lib, THEN conjunct2, THEN conjunct1]
  by (simp add: mk_apint_def sval_def)

text \<open>
  C12: The comparison of floating-point numbers in the total order: the emitted code compares the bits,
  mirrored for numbers with the sign bit, and no two numbers of a format have the same place. Numbers
  with the sign bit come first, those of greater magnitude before those of smaller.
\<close>

theorem total_order_compare:
  assumes "arith_ok sem" and "fl_sem f = s" and "fl_sem g = s"
  defines "half \<equiv> 2 ^ (sem_width s - 1)"
  shows "run_scalar sem (MhloCompare d True) i1 [FloatType s, FloatType s] [ScFloat f, ScFloat g] =
      Inr (ScInt (flag (compares d (total_order_key f) (total_order_key g)))) \<and>
    (total_order_key f = total_order_key g \<longleftrightarrow> f = g) \<and>
    (total_order_key f < total_order_key g \<longleftrightarrow>
      half \<le> fl_bits f \<and> fl_bits g < half \<or> half \<le> fl_bits f \<and> half \<le> fl_bits g \<and> fl_bits g < fl_bits f \<or>
      fl_bits f < half \<and> fl_bits g < half \<and> fl_bits f < fl_bits g)"
proof (intro conjI)
  show "run_scalar sem (MhloCompare d True) i1 [FloatType s, FloatType s] [ScFloat f, ScFloat g] =
      Inr (ScInt (flag (compares d (total_order_key f) (total_order_key g))))"
    using run_total_order [OF assms(1-3)] by (simp add: compares_def)
  have range: "0 \<le> fl_bits f" "0 \<le> fl_bits g" using fl_bits_range by auto
  have bits: "fl_bits f = fl_bits g \<longleftrightarrow> f = g" using fl_of_bits_bits [of f] fl_of_bits_bits [of g] assms(2,3) by metis
  have keys: "total_order_key h = (if half \<le> fl_bits h then - (fl_bits h - half) - 1 else fl_bits h)" if "fl_sem h = s" for h
    using that by (simp add: total_order_key_def Let_def half_def)
  show "total_order_key f = total_order_key g \<longleftrightarrow> f = g"
    unfolding bits [symmetric] keys [OF assms(2)] keys [OF assms(3)] using range by auto
  show "total_order_key f < total_order_key g \<longleftrightarrow>
      half \<le> fl_bits f \<and> fl_bits g < half \<or> half \<le> fl_bits f \<and> half \<le> fl_bits g \<and> fl_bits g < fl_bits f \<or>
      fl_bits f < half \<and> fl_bits g < half \<and> fl_bits f < fl_bits g"
    unfolding keys [OF assms(2)] keys [OF assms(3)] using range by auto
qed

theorem total_order_compare_witness:
  "run_scalar sample_dialects (MhloCompare LT True) i1 [FloatType F16, FloatType F16] [ScFloat (FpF16 0x8000), ScFloat (FpF16 0)] =
    Inr (ScInt (APInt 1 1))"
  using total_order_compare [OF sample_dialects_ok, of "FpF16 0x8000" F16 "FpF16 0" LT]
  by (simp add: compares_def total_order_key_def flag_def mk_apint_def)



end
