(* ===== verification/SerialStream.thy ===== *)
theory SerialStream
  imports Element OpsElementwise
begin

text \<open>
  What the bytecode interfaces of the dialects share. \<open>DialectBytecodeReader\<close> and
  \<open>DialectBytecodeWriter\<close> are classes of MLIR: their operations are the fields of a record
  \<open>stream\<close>, an argument of every definition that uses them, and \<open>stream_ok\<close> states their
  documented behaviour (what was written is read back). The enum attributes and their
  encoding are those of \<open>stablehlo/dialect/Base.h\<close> and of the enum definitions of the
  StableHLO and VHLO dialects.
\<close>

section \<open>Reader and writer\<close>

text \<open>
  A writer appends to a list of units of any type \<open>'b\<close>; a reader takes a value off the front
  and returns the rest. Attributes \<open>'a\<close> and types \<open>'t\<close> inside others are written by MLIR as a
  reference into its own tables, hence a field each. \<open>writeList\<close> and \<open>readList\<close> get the callback for
  one element, here a pair of attributes, which is what the dictionaries pass.
\<close>

record ('b, 'a, 't) stream =
  writeVarInt :: "nat \<Rightarrow> 'b list"
  writeSignedVarInt :: "int \<Rightarrow> 'b list"
  writeSignedVarInts :: "int list \<Rightarrow> 'b list"
  writeAPIntWithKnownWidth :: "apint \<Rightarrow> 'b list"
  writeAPFloatWithKnownSemantics :: "apfloat \<Rightarrow> 'b list"
  writeOwnedString :: "string \<Rightarrow> 'b list"
  writeOwnedBlob :: "8 word list \<Rightarrow> 'b list"
  writeAttributeRef :: "'a \<Rightarrow> 'b list"
  writeAttributes :: "'a list \<Rightarrow> 'b list"
  writeTypeRef :: "'t \<Rightarrow> 'b list"
  writeTypes :: "'t list \<Rightarrow> 'b list"
  writeList :: "('a \<times> 'a \<Rightarrow> 'b list) \<Rightarrow> ('a \<times> 'a) list \<Rightarrow> 'b list"
  readVarInt :: "'b list \<Rightarrow> (nat \<times> 'b list) res"
  readSignedVarInt :: "'b list \<Rightarrow> (int \<times> 'b list) res"
  readSignedVarInts :: "'b list \<Rightarrow> (int list \<times> 'b list) res"
  readAPIntWithKnownWidth :: "nat \<Rightarrow> 'b list \<Rightarrow> (apint \<times> 'b list) res"
  readAPFloatWithKnownSemantics :: "fsem \<Rightarrow> 'b list \<Rightarrow> (apfloat \<times> 'b list) res"
  readString :: "'b list \<Rightarrow> (string \<times> 'b list) res"
  readBlob :: "'b list \<Rightarrow> (8 word list \<times> 'b list) res"
  readAttributeRef :: "'b list \<Rightarrow> ('a \<times> 'b list) res"
  readAttributes :: "'b list \<Rightarrow> ('a list \<times> 'b list) res"
  readTypeRef :: "'b list \<Rightarrow> ('t \<times> 'b list) res"
  readTypes :: "'b list \<Rightarrow> ('t list \<times> 'b list) res"
  readList :: "('b list \<Rightarrow> (('a \<times> 'a) \<times> 'b list) res) \<Rightarrow> 'b list \<Rightarrow> (('a \<times> 'a) list \<times> 'b list) res"

text \<open>
  The documented behaviour: each \<open>read\<close> takes back what the \<open>write\<close> of the same name put
  there, for the values the C++ types can hold (\<open>uint64_t\<close>, \<open>int64_t\<close>, an \<open>APInt\<close> of the given
  width, an \<open>APFloat\<close> of the given semantics), whatever follows.
\<close>

definition reads_back :: "('x \<Rightarrow> 'b list) \<Rightarrow> ('b list \<Rightarrow> ('x \<times> 'b list) res) \<Rightarrow> ('x \<Rightarrow> bool) \<Rightarrow> bool" where
  "reads_back wr rd P \<longleftrightarrow> (\<forall>x rest. P x \<longrightarrow> rd (wr x @ rest) = Inr (x, rest))"

definition stream_ok :: "('b, 'a, 't) stream \<Rightarrow> bool" where
  "stream_ok S \<longleftrightarrow>
     reads_back (writeVarInt S) (readVarInt S) (\<lambda>n. n < 2 ^ 64) \<and>
     reads_back (writeSignedVarInt S) (readSignedVarInt S) i64_ok \<and>
     reads_back (writeSignedVarInts S) (readSignedVarInts S) (\<lambda>vs. \<forall>v \<in> set vs. i64_ok v) \<and>
     (\<forall>w. reads_back (writeAPIntWithKnownWidth S) (readAPIntWithKnownWidth S w)
            (\<lambda>v. wf_apint v \<and> ap_width v = w)) \<and>
     (\<forall>s. reads_back (writeAPFloatWithKnownSemantics S) (readAPFloatWithKnownSemantics S s)
            (\<lambda>f. fl_sem f = s)) \<and>
     reads_back (writeOwnedString S) (readString S) (\<lambda>_. True) \<and>
     reads_back (writeOwnedBlob S) (readBlob S) (\<lambda>_. True) \<and>
     reads_back (writeAttributeRef S) (readAttributeRef S) (\<lambda>_. True) \<and>
     reads_back (writeAttributes S) (readAttributes S) (\<lambda>_. True) \<and>
     reads_back (writeTypeRef S) (readTypeRef S) (\<lambda>_. True) \<and>
     reads_back (writeTypes S) (readTypes S) (\<lambda>_. True) \<and>
     (\<forall>wr rd. reads_back wr rd (\<lambda>_. True) \<longrightarrow>
        reads_back (writeList S wr) (readList S rd) (\<lambda>_. True))"

named_theorems stream_simps

lemma reads_backD: "reads_back wr rd P \<Longrightarrow> P x \<Longrightarrow> rd (wr x @ rest) = Inr (x, rest)"
  by (simp add: reads_back_def)

lemma stream_reads [stream_simps]:
  assumes "stream_ok S"
  shows "n < 2 ^ 64 \<Longrightarrow> readVarInt S (writeVarInt S n @ rest) = Inr (n, rest)"
    and "i64_ok v \<Longrightarrow> readSignedVarInt S (writeSignedVarInt S v @ rest) = Inr (v, rest)"
    and "\<forall>v \<in> set vs. i64_ok v \<Longrightarrow> readSignedVarInts S (writeSignedVarInts S vs @ rest) = Inr (vs, rest)"
    and "wf_apint a \<Longrightarrow> ap_width a = w \<Longrightarrow>
      readAPIntWithKnownWidth S w (writeAPIntWithKnownWidth S a @ rest) = Inr (a, rest)"
    and "fl_sem f = s \<Longrightarrow>
      readAPFloatWithKnownSemantics S s (writeAPFloatWithKnownSemantics S f @ rest) = Inr (f, rest)"
    and "readString S (writeOwnedString S cs @ rest) = Inr (cs, rest)"
    and "readBlob S (writeOwnedBlob S bs @ rest) = Inr (bs, rest)"
    and "readAttributeRef S (writeAttributeRef S a1 @ rest) = Inr (a1, rest)"
    and "readAttributes S (writeAttributes S as1 @ rest) = Inr (as1, rest)"
    and "readTypeRef S (writeTypeRef S t @ rest) = Inr (t, rest)"
    and "readTypes S (writeTypes S ts @ rest) = Inr (ts, rest)"
  using assms unfolding stream_ok_def by (auto intro!: reads_backD)

lemma stream_reads_list:
  assumes "stream_ok S" and "\<And>x rest. rd (wr x @ rest) = Inr (x, rest)"
  shows "readList S rd (writeList S wr xs @ rest) = Inr (xs, rest)"
proof -
  have "reads_back wr rd (\<lambda>_. True)" using assms(2) by (simp add: reads_back_def)
  then have "reads_back (writeList S wr) (readList S rd) (\<lambda>_. True)"
    using assms(1) unfolding stream_ok_def by blast
  then show ?thesis by (rule reads_backD) simp
qed

section \<open>A stream of tokens\<close>

text \<open>A reader and writer of the model: one token per value, a list as its length and its elements.\<close>

datatype ('a, 't) token = TVarInt nat | TSigned int | TAPInt apint | TAPFloat apfloat
  | TString string | TBlob "8 word list" | TAttr 'a | TType 't

definition no_token :: "'x res" where
  "no_token = Inl (Fatal ''unexpected end or kind of data'')"

fun take_list :: "('b list \<Rightarrow> ('x \<times> 'b list) res) \<Rightarrow> nat \<Rightarrow> 'b list \<Rightarrow> ('x list \<times> 'b list) res" where
  "take_list rd 0 st = Inr ([], st)"
| "take_list rd (Suc n) st =
     bnd (rd st) (\<lambda>(x, st1). bnd (take_list rd n st1) (\<lambda>(xs, st2). Inr (x # xs, st2)))"

lemma take_list_back:
  assumes "\<And>x rest. P x \<Longrightarrow> rd (wr x @ rest) = Inr (x, rest)"
  shows "\<forall>x \<in> set xs. P x \<Longrightarrow> take_list rd (length xs) (concat (map wr xs) @ rest) = Inr (xs, rest)"
  by (induction xs) (auto simp: assms)

definition put_list :: "('x \<Rightarrow> ('a, 't) token list) \<Rightarrow> 'x list \<Rightarrow> ('a, 't) token list" where
  "put_list wr xs = TVarInt (length xs) # concat (map wr xs)"

fun get_varint :: "('a, 't) token list \<Rightarrow> (nat \<times> ('a, 't) token list) res" where
  "get_varint (TVarInt n # st) = Inr (n, st)"
| "get_varint _ = no_token"

fun get_signed :: "('a, 't) token list \<Rightarrow> (int \<times> ('a, 't) token list) res" where
  "get_signed (TSigned v # st) = Inr (v, st)"
| "get_signed _ = no_token"

fun get_apint :: "nat \<Rightarrow> ('a, 't) token list \<Rightarrow> (apint \<times> ('a, 't) token list) res" where
  "get_apint w (TAPInt a # st) = (if ap_width a = w then Inr (a, st) else no_token)"
| "get_apint w _ = no_token"

fun get_apfloat :: "fsem \<Rightarrow> ('a, 't) token list \<Rightarrow> (apfloat \<times> ('a, 't) token list) res" where
  "get_apfloat s (TAPFloat f # st) = (if fl_sem f = s then Inr (f, st) else no_token)"
| "get_apfloat s _ = no_token"

fun get_string :: "('a, 't) token list \<Rightarrow> (string \<times> ('a, 't) token list) res" where
  "get_string (TString s # st) = Inr (s, st)"
| "get_string _ = no_token"

fun get_blob :: "('a, 't) token list \<Rightarrow> (8 word list \<times> ('a, 't) token list) res" where
  "get_blob (TBlob b # st) = Inr (b, st)"
| "get_blob _ = no_token"

fun get_attr :: "('a, 't) token list \<Rightarrow> ('a \<times> ('a, 't) token list) res" where
  "get_attr (TAttr a # st) = Inr (a, st)"
| "get_attr _ = no_token"

fun get_type :: "('a, 't) token list \<Rightarrow> ('t \<times> ('a, 't) token list) res" where
  "get_type (TType t # st) = Inr (t, st)"
| "get_type _ = no_token"

definition get_list ::
  "(('a, 't) token list \<Rightarrow> ('x \<times> ('a, 't) token list) res) \<Rightarrow> ('a, 't) token list \<Rightarrow>
   ('x list \<times> ('a, 't) token list) res" where
  "get_list rd st = bnd (get_varint st) (\<lambda>(n, st1). take_list rd n st1)"

definition token_stream :: "(('a, 't) token, 'a, 't) stream" where
  "token_stream = \<lparr>
     writeVarInt = (\<lambda>n. [TVarInt n]), writeSignedVarInt = (\<lambda>v. [TSigned v]),
     writeSignedVarInts = put_list (\<lambda>v. [TSigned v]),
     writeAPIntWithKnownWidth = (\<lambda>a. [TAPInt a]),
     writeAPFloatWithKnownSemantics = (\<lambda>f. [TAPFloat f]),
     writeOwnedString = (\<lambda>s. [TString s]), writeOwnedBlob = (\<lambda>b. [TBlob b]),
     writeAttributeRef = (\<lambda>a. [TAttr a]), writeAttributes = put_list (\<lambda>a. [TAttr a]),
     writeTypeRef = (\<lambda>t. [TType t]), writeTypes = put_list (\<lambda>t. [TType t]),
     writeList = put_list,
     readVarInt = get_varint, readSignedVarInt = get_signed,
     readSignedVarInts = get_list get_signed,
     readAPIntWithKnownWidth = get_apint, readAPFloatWithKnownSemantics = get_apfloat,
     readString = get_string, readBlob = get_blob,
     readAttributeRef = get_attr, readAttributes = get_list get_attr,
     readTypeRef = get_type, readTypes = get_list get_type,
     readList = get_list \<rparr>"

lemma put_get_list:
  assumes "\<And>x rest. P x \<Longrightarrow> rd (wr x @ rest) = Inr (x, rest)"
  shows "reads_back (put_list wr) (get_list rd) (\<lambda>xs. \<forall>x \<in> set xs. P x)"
  using take_list_back [of P rd wr, OF assms]
  by (auto simp: reads_back_def put_list_def get_list_def)

lemma put_get_all: "reads_back wr rd (\<lambda>_. True) \<Longrightarrow> reads_back (put_list wr) (get_list rd) (\<lambda>_. True)"
  using put_get_list [of "\<lambda>_. True" rd wr] by (simp add: reads_back_def)

lemma token_reads_back:
  "reads_back (\<lambda>n. [TVarInt n]) get_varint P"
  "reads_back (\<lambda>v. [TSigned v]) get_signed Q"
  "reads_back (\<lambda>a. [TAPInt a]) (get_apint w) (\<lambda>v. wf_apint v \<and> ap_width v = w)"
  "reads_back (\<lambda>f. [TAPFloat f]) (get_apfloat s) (\<lambda>f. fl_sem f = s)"
  "reads_back (\<lambda>s. [TString s]) get_string (\<lambda>_. True)"
  "reads_back (\<lambda>b. [TBlob b]) get_blob (\<lambda>_. True)"
  "reads_back (\<lambda>a. [TAttr a]) get_attr (\<lambda>_. True)"
  "reads_back (\<lambda>t. [TType t]) get_type (\<lambda>_. True)"
  "reads_back (put_list (\<lambda>v. [TSigned v])) (get_list get_signed) (\<lambda>vs. \<forall>v \<in> set vs. i64_ok v)"
  by (simp_all add: reads_back_def put_get_list [of i64_ok get_signed, unfolded reads_back_def, rule_format])

lemma token_stream_ok: "stream_ok token_stream"
  unfolding stream_ok_def token_stream_def
  by (simp add: token_reads_back put_get_all)

end
