(* ===== verification/VhloData.thy ===== *)
theory VhloData
  imports SerialStream
begin

text \<open>
  The enums of the StableHLO, VHLO and MHLO dialects (\<open>StablehloEnums.td\<close>, \<open>VhloEnums.td\<close>,
  \<open>hlo_ops_enums.td\<close>): for each a table of its cases with their number and name, from which
  TableGen generates \<open>symbolize\<close> and \<open>stringify\<close>; and \<open>readEnumAttribute\<close> and
  \<open>writeEnumAttribute\<close> of \<open>stablehlo/dialect/Base.h\<close>, which write the number.
\<close>

section \<open>Tables of cases\<close>

type_synonym 'e enum_table = "(nat \<times> string \<times> 'e) list"

definition symbolize_code :: "'e enum_table \<Rightarrow> nat \<Rightarrow> 'e option" where
  "symbolize_code tbl c = map_option (\<lambda>(_, _, e). e) (find (\<lambda>(k, _, _). k = c) tbl)"

definition symbolize_name :: "'e enum_table \<Rightarrow> string \<Rightarrow> 'e option" where
  "symbolize_name tbl s = map_option (\<lambda>(_, _, e). e) (find (\<lambda>(_, n, _). n = s) tbl)"

definition code_of :: "'e enum_table \<Rightarrow> 'e \<Rightarrow> nat" where
  "code_of tbl v = (case find (\<lambda>(_, _, e). e = v) tbl of Some (k, _, _) \<Rightarrow> k | None \<Rightarrow> 0)"

definition stringify :: "'e enum_table \<Rightarrow> 'e \<Rightarrow> string" where
  "stringify tbl v = (case find (\<lambda>(_, _, e). e = v) tbl of Some (_, n, _) \<Rightarrow> n | None \<Rightarrow> [])"

text \<open>A table that lists every case once, under a number of 32 bits and a name of its own.\<close>

definition enum_ok :: "'e enum_table \<Rightarrow> bool" where
  "enum_ok tbl \<longleftrightarrow> (\<forall>v. code_of tbl v < 2 ^ 32 \<and> symbolize_code tbl (code_of tbl v) = Some v \<and>
     symbolize_name tbl (stringify tbl v) = Some v)"

lemmas enum_defs = enum_ok_def code_of_def stringify_def symbolize_code_def symbolize_name_def

section \<open>Reading and writing\<close>

text \<open>The reader keeps the low 32 bits of the number (\<open>static_cast<uint32_t>(code)\<close>).\<close>

definition readEnumAttribute ::
  "('b, 'a, 't) stream \<Rightarrow> 'e enum_table \<Rightarrow> ('e \<Rightarrow> 'x) \<Rightarrow> 'b list \<Rightarrow> ('x \<times> 'b list) res" where
  "readEnumAttribute S tbl attr st = bnd (readVarInt S st) (\<lambda>(code, st1).
     case symbolize_code tbl (code mod 2 ^ 32) of
       None \<Rightarrow> Inl (Fatal ''unknown enum value'')
     | Some v \<Rightarrow> Inr (attr v, st1))"

definition writeEnumAttribute :: "('b, 'a, 't) stream \<Rightarrow> 'e enum_table \<Rightarrow> 'e \<Rightarrow> 'b list" where
  "writeEnumAttribute S tbl v = writeVarInt S (code_of tbl v)"

lemma enum_round_trip [stream_simps]:
  assumes "stream_ok S" and "enum_ok tbl"
  shows "readEnumAttribute S tbl attr (writeEnumAttribute S tbl v @ rest) = Inr (attr v, rest)"
proof -
  have c: "code_of tbl v < 2 ^ 32" "symbolize_code tbl (code_of tbl v) = Some v"
    using assms(2) unfolding enum_ok_def by blast+
  then have "code_of tbl v < 2 ^ 64" by simp
  from stream_reads(1) [OF assms(1) this] show ?thesis
    using c unfolding readEnumAttribute_def writeEnumAttribute_def by simp
qed

lemma enum_number_wraps:
  assumes "stream_ok S" and "enum_ok tbl" and "k < 2 ^ 32"
  shows "readEnumAttribute S tbl attr (writeVarInt S (code_of tbl v + 2 ^ 32 * k) @ rest) = Inr (attr v, rest)"
proof -
  have c: "code_of tbl v < 2 ^ 32" "symbolize_code tbl (code_of tbl v) = Some v"
    using assms(2) unfolding enum_ok_def by blast+
  with assms(3) have "code_of tbl v + 2 ^ 32 * k < 2 ^ 64" by simp
  from stream_reads(1) [OF assms(1) this] show ?thesis
    using c unfolding readEnumAttribute_def by simp
qed

section \<open>The enums\<close>

datatype comparison_type = NOTYPE | FLOAT | TOTALORDER | SIGNED | UNSIGNED
datatype api_version = API_VERSION_UNSPECIFIED | API_VERSION_ORIGINAL | API_VERSION_STATUS_RETURNING | API_VERSION_STATUS_RETURNING_UNIFIED
datatype fft_type = FFT | IFFT | RFFT | IRFFT
datatype precision = PREC_DEFAULT | PREC_HIGH | PREC_HIGHEST
datatype rng_algorithm = RNG_DEFAULT | RNG_THREE_FRY | RNG_PHILOX
datatype rng_distribution = RNG_UNIFORM | RNG_NORMAL
datatype transpose = TRANSPOSE_INVALID | NO_TRANSPOSE | TRANSPOSE | ADJOINT

text \<open>The cases MHLO declares beyond those of StableHLO.\<close>

datatype mhlo_precision = M_DEFAULT | M_HIGH | M_HIGHEST | M_PACKED_NIBBLE
datatype domain_kind = Sharding
datatype fusion_kind = kLoop | kInput | kOutput | kCustom

text \<open>\<open>StablehloEnums.td\<close>; CHLO and, but for the precisions, MHLO list the same cases.\<close>

definition hlo_ComparisonDirection :: "comparison_direction enum_table" where
  "hlo_ComparisonDirection =
    [(0, ''EQ'', EQ), (1, ''NE'', NE), (2, ''GE'', GE), (3, ''GT'', GT), (4, ''LE'', LE),
     (5, ''LT'', LT)]"

definition hlo_ComparisonType :: "comparison_type enum_table" where
  "hlo_ComparisonType =
    [(0, ''NOTYPE'', NOTYPE), (1, ''FLOAT'', FLOAT), (2, ''TOTALORDER'', TOTALORDER),
     (3, ''SIGNED'', SIGNED), (4, ''UNSIGNED'', UNSIGNED)]"

definition hlo_CustomCallApiVersion :: "api_version enum_table" where
  "hlo_CustomCallApiVersion =
    [(0, ''API_VERSION_UNSPECIFIED'', API_VERSION_UNSPECIFIED),
     (1, ''API_VERSION_ORIGINAL'', API_VERSION_ORIGINAL),
     (2, ''API_VERSION_STATUS_RETURNING'', API_VERSION_STATUS_RETURNING),
     (3, ''API_VERSION_STATUS_RETURNING_UNIFIED'', API_VERSION_STATUS_RETURNING_UNIFIED)]"

definition hlo_FftType :: "fft_type enum_table" where
  "hlo_FftType =
    [(0, ''FFT'', FFT), (1, ''IFFT'', IFFT), (2, ''RFFT'', RFFT), (3, ''IRFFT'', IRFFT)]"

definition hlo_Precision :: "precision enum_table" where
  "hlo_Precision =
    [(0, ''DEFAULT'', PREC_DEFAULT), (1, ''HIGH'', PREC_HIGH), (2, ''HIGHEST'', PREC_HIGHEST)]"

definition hlo_RngAlgorithm :: "rng_algorithm enum_table" where
  "hlo_RngAlgorithm =
    [(0, ''DEFAULT'', RNG_DEFAULT), (1, ''THREE_FRY'', RNG_THREE_FRY),
     (2, ''PHILOX'', RNG_PHILOX)]"

definition hlo_RngDistribution :: "rng_distribution enum_table" where
  "hlo_RngDistribution =
    [(1, ''UNIFORM'', RNG_UNIFORM), (2, ''NORMAL'', RNG_NORMAL)]"

definition hlo_Transpose :: "transpose enum_table" where
  "hlo_Transpose =
    [(0, ''TRANSPOSE_INVALID'', TRANSPOSE_INVALID), (1, ''NO_TRANSPOSE'', NO_TRANSPOSE),
     (2, ''TRANSPOSE'', TRANSPOSE), (3, ''ADJOINT'', ADJOINT)]"

text \<open>\<open>hlo_ops_enums.td\<close>.\<close>

definition mhlo_Precision :: "mhlo_precision enum_table" where
  "mhlo_Precision =
    [(0, ''DEFAULT'', M_DEFAULT), (1, ''HIGH'', M_HIGH), (2, ''HIGHEST'', M_HIGHEST),
     (3, ''PACKED_NIBBLE'', M_PACKED_NIBBLE)]"

definition mhlo_DomainKind :: "domain_kind enum_table" where
  "mhlo_DomainKind =
    [(0, ''sharding'', Sharding)]"

definition mhlo_FusionKind :: "fusion_kind enum_table" where
  "mhlo_FusionKind =
    [(0, ''kLoop'', kLoop), (1, ''kInput'', kInput), (2, ''kOutput'', kOutput),
     (3, ''kCustom'', kCustom)]"

text \<open>\<open>VhloEnums.td\<close>.\<close>

definition vhlo_ComparisonDirectionV1 :: "comparison_direction enum_table" where
  "vhlo_ComparisonDirectionV1 =
    [(0, ''EQ'', EQ), (1, ''NE'', NE), (2, ''GE'', GE), (3, ''GT'', GT), (4, ''LE'', LE),
     (5, ''LT'', LT)]"

definition vhlo_ComparisonTypeV1 :: "comparison_type enum_table" where
  "vhlo_ComparisonTypeV1 =
    [(0, ''NOTYPE'', NOTYPE), (1, ''FLOAT'', FLOAT), (2, ''TOTALORDER'', TOTALORDER),
     (3, ''SIGNED'', SIGNED), (4, ''UNSIGNED'', UNSIGNED)]"

definition vhlo_CustomCallApiVersionV1 :: "api_version enum_table" where
  "vhlo_CustomCallApiVersionV1 =
    [(0, ''API_VERSION_UNSPECIFIED'', API_VERSION_UNSPECIFIED),
     (1, ''API_VERSION_ORIGINAL'', API_VERSION_ORIGINAL),
     (2, ''API_VERSION_STATUS_RETURNING'', API_VERSION_STATUS_RETURNING),
     (3, ''API_VERSION_STATUS_RETURNING_UNIFIED'', API_VERSION_STATUS_RETURNING_UNIFIED)]"

definition vhlo_FftTypeV1 :: "fft_type enum_table" where
  "vhlo_FftTypeV1 =
    [(0, ''FFT'', FFT), (1, ''IFFT'', IFFT), (2, ''RFFT'', RFFT), (3, ''IRFFT'', IRFFT)]"

definition vhlo_PrecisionV1 :: "precision enum_table" where
  "vhlo_PrecisionV1 =
    [(0, ''DEFAULT'', PREC_DEFAULT), (1, ''HIGH'', PREC_HIGH), (2, ''HIGHEST'', PREC_HIGHEST)]"

definition vhlo_RngAlgorithmV1 :: "rng_algorithm enum_table" where
  "vhlo_RngAlgorithmV1 =
    [(0, ''DEFAULT'', RNG_DEFAULT), (1, ''THREE_FRY'', RNG_THREE_FRY),
     (2, ''PHILOX'', RNG_PHILOX)]"

definition vhlo_RngDistributionV1 :: "rng_distribution enum_table" where
  "vhlo_RngDistributionV1 =
    [(1, ''UNIFORM'', RNG_UNIFORM), (2, ''NORMAL'', RNG_NORMAL)]"

definition vhlo_TransposeV1 :: "transpose enum_table" where
  "vhlo_TransposeV1 =
    [(0, ''TRANSPOSE_INVALID'', TRANSPOSE_INVALID), (1, ''NO_TRANSPOSE'', NO_TRANSPOSE),
     (2, ''TRANSPOSE'', TRANSPOSE), (3, ''ADJOINT'', ADJOINT)]"

lemma enums_ok [simp]:
  "enum_ok hlo_ComparisonDirection"
  "enum_ok hlo_ComparisonType"
  "enum_ok hlo_CustomCallApiVersion"
  "enum_ok hlo_FftType"
  "enum_ok hlo_Precision"
  "enum_ok hlo_RngAlgorithm"
  "enum_ok hlo_RngDistribution"
  "enum_ok hlo_Transpose"
  "enum_ok mhlo_Precision"
  "enum_ok mhlo_DomainKind"
  "enum_ok mhlo_FusionKind"
  "enum_ok vhlo_ComparisonDirectionV1"
  "enum_ok vhlo_ComparisonTypeV1"
  "enum_ok vhlo_CustomCallApiVersionV1"
  "enum_ok vhlo_FftTypeV1"
  "enum_ok vhlo_PrecisionV1"
  "enum_ok vhlo_RngAlgorithmV1"
  "enum_ok vhlo_RngDistributionV1"
  "enum_ok vhlo_TransposeV1"
  unfolding enum_defs hlo_ComparisonDirection_def hlo_ComparisonType_def hlo_CustomCallApiVersion_def hlo_FftType_def hlo_Precision_def hlo_RngAlgorithm_def hlo_RngDistribution_def hlo_Transpose_def mhlo_Precision_def mhlo_DomainKind_def mhlo_FusionKind_def vhlo_ComparisonDirectionV1_def vhlo_ComparisonTypeV1_def vhlo_CustomCallApiVersionV1_def vhlo_FftTypeV1_def vhlo_PrecisionV1_def vhlo_RngAlgorithmV1_def vhlo_RngDistributionV1_def vhlo_TransposeV1_def
  by (intro allI; rename_tac v; case_tac v; simp)+

text \<open>
  The types and attributes of the VHLO dialect (\<open>VhloTypes.td\<close>, \<open>VhloAttrs.td\<close>,
  \<open>VhloEnums.td\<close>). Types and attributes contain each other: a ranked tensor type has an
  encoding attribute, and several attributes have a type.
\<close>

text \<open>The types without parameters.\<close>

datatype (plugins only: code size) simple_type =
    BooleanV1Type | FloatBF16V1Type | FloatF16V1Type | FloatF32V1Type | FloatF64V1Type
  | FloatF8E4M3FNV1Type | FloatF8E5M2V1Type | FloatF8E4M3FNUZV1Type | FloatF8E5M2FNUZV1Type
  | FloatF8E4M3B11FNUZV1Type | IndexV1Type
  | IntegerSI4V1Type | IntegerSI8V1Type | IntegerSI16V1Type | IntegerSI32V1Type | IntegerSI64V1Type
  | IntegerUI4V1Type | IntegerUI8V1Type | IntegerUI16V1Type | IntegerUI32V1Type | IntegerUI64V1Type
  | TokenV1Type | WitnessV1Type

datatype (plugins only: code size) vty =
    Simple simple_type
  | ComplexV1Type vty
  | FunctionV1Type "vty list" "vty list"
  | RankedTensorV1Type "int list" vty "vattr option"
  | TupleV1Type "vty list"
  | UniformQuantizedV1Type nat vty vty apfloat int int int
  | UnrankedTensorV1Type vty
and vattr =
    ArgResultAliasV1Attr "int list" int "int list" bool
  | ArrayV1Attr "vattr list"
  | BooleanV1Attr bool
  | ComparisonDirectionV1Attr comparison_direction
  | ComparisonTypeV1Attr comparison_type
  | CustomCallApiVersionV1Attr api_version
  | DictionaryV1Attr "(vattr \<times> vattr) list"
  | FftTypeV1Attr fft_type
  | FloatV1Attr vty apfloat
  | IntegerV1Attr vty apint
  | OutputOperandAliasV1Attr "int list" int "int list"
  | PrecisionV1Attr precision
  | RngAlgorithmV1Attr rng_algorithm
  | RngDistributionV1Attr rng_distribution
  | StringV1Attr string
  | TensorV1Attr vty "8 word list"
  | TransposeV1Attr transpose
  | TypeV1Attr vty
  | TypeExtensionsV1Attr "int list"

end
