(* ===== verification/VhloBytecode.thy ===== *)
theory VhloBytecode
  imports VhloData
begin

text \<open>
  \<open>stablehlo/dialect/VhloBytecode.cpp\<close>: the bytecode of the VHLO dialect. Every attribute and
  every type is written as a number that tells its class, then its parameters; reading takes
  the number and calls the reader of the class. A null attribute or type, and an error emitted
  by the reader, is a failure \<open>Inl (Fatal _)\<close>.
\<close>

section \<open>The numbers of the classes\<close>

definition kArgResultAliasV1Attr :: nat where "kArgResultAliasV1Attr = 0"
definition kArrayV1Attr :: nat where "kArrayV1Attr = 1"
definition kBooleanV1Attr :: nat where "kBooleanV1Attr = 2"
definition kComparisonDirectionV1Attr :: nat where "kComparisonDirectionV1Attr = 3"
definition kComparisonTypeV1Attr :: nat where "kComparisonTypeV1Attr = 4"
definition kCustomCallApiVersionV1Attr :: nat where "kCustomCallApiVersionV1Attr = 5"
definition kDictionaryV1Attr :: nat where "kDictionaryV1Attr = 6"
definition kFftTypeV1Attr :: nat where "kFftTypeV1Attr = 7"
definition kFloatV1Attr :: nat where "kFloatV1Attr = 8"
definition kIntegerV1Attr :: nat where "kIntegerV1Attr = 9"
definition kOutputOperandAliasV1Attr :: nat where "kOutputOperandAliasV1Attr = 10"
definition kPrecisionV1Attr :: nat where "kPrecisionV1Attr = 11"
definition kRngAlgorithmV1Attr :: nat where "kRngAlgorithmV1Attr = 12"
definition kRngDistributionV1Attr :: nat where "kRngDistributionV1Attr = 13"
definition kStringV1Attr :: nat where "kStringV1Attr = 14"
definition kTensorV1Attr :: nat where "kTensorV1Attr = 15"
definition kTransposeV1Attr :: nat where "kTransposeV1Attr = 16"
definition kTypeV1Attr :: nat where "kTypeV1Attr = 17"
definition kTypeExtensionsV1Attr :: nat where "kTypeExtensionsV1Attr = 18"

definition kBooleanV1Type :: nat where "kBooleanV1Type = 0"
definition kComplexV1Type :: nat where "kComplexV1Type = 1"
definition kFloatBF16V1Type :: nat where "kFloatBF16V1Type = 2"
definition kFloatF16V1Type :: nat where "kFloatF16V1Type = 3"
definition kFloatF32V1Type :: nat where "kFloatF32V1Type = 4"
definition kFloatF64V1Type :: nat where "kFloatF64V1Type = 5"
definition kFloatF8E4M3FNV1Type :: nat where "kFloatF8E4M3FNV1Type = 6"
definition kFloatF8E5M2V1Type :: nat where "kFloatF8E5M2V1Type = 7"
definition kFunctionV1Type :: nat where "kFunctionV1Type = 8"
definition kIndexV1Type :: nat where "kIndexV1Type = 9"
definition kIntegerSI4V1Type :: nat where "kIntegerSI4V1Type = 10"
definition kIntegerSI8V1Type :: nat where "kIntegerSI8V1Type = 11"
definition kIntegerSI16V1Type :: nat where "kIntegerSI16V1Type = 12"
definition kIntegerSI32V1Type :: nat where "kIntegerSI32V1Type = 13"
definition kIntegerSI64V1Type :: nat where "kIntegerSI64V1Type = 14"
definition kIntegerUI4V1Type :: nat where "kIntegerUI4V1Type = 15"
definition kIntegerUI8V1Type :: nat where "kIntegerUI8V1Type = 16"
definition kIntegerUI16V1Type :: nat where "kIntegerUI16V1Type = 17"
definition kIntegerUI32V1Type :: nat where "kIntegerUI32V1Type = 18"
definition kIntegerUI64V1Type :: nat where "kIntegerUI64V1Type = 19"
definition kRankedTensorV1Type :: nat where "kRankedTensorV1Type = 20"
definition kRankedTensorV1TypeWithEncoding :: nat where "kRankedTensorV1TypeWithEncoding = 21"
definition kTokenV1Type :: nat where "kTokenV1Type = 22"
definition kTupleV1Type :: nat where "kTupleV1Type = 23"
definition kUniformQuantizedV1Type :: nat where "kUniformQuantizedV1Type = 24"
definition kUnrankedTensorV1Type :: nat where "kUnrankedTensorV1Type = 25"
definition kWitnessV1Type :: nat where "kWitnessV1Type = 26"
definition kFloatF8E4M3FNUZV1Type :: nat where "kFloatF8E4M3FNUZV1Type = 27"
definition kFloatF8E5M2FNUZV1Type :: nat where "kFloatF8E5M2FNUZV1Type = 28"
definition kFloatF8E4M3B11FNUZV1Type :: nat where "kFloatF8E4M3B11FNUZV1Type = 29"

lemmas vhlo_codes =
  kArgResultAliasV1Attr_def kArrayV1Attr_def kBooleanV1Attr_def
  kComparisonDirectionV1Attr_def kComparisonTypeV1Attr_def kCustomCallApiVersionV1Attr_def
  kDictionaryV1Attr_def kFftTypeV1Attr_def kFloatV1Attr_def
  kIntegerV1Attr_def kOutputOperandAliasV1Attr_def kPrecisionV1Attr_def
  kRngAlgorithmV1Attr_def kRngDistributionV1Attr_def kStringV1Attr_def
  kTensorV1Attr_def kTransposeV1Attr_def kTypeV1Attr_def
  kTypeExtensionsV1Attr_def kBooleanV1Type_def kComplexV1Type_def
  kFloatBF16V1Type_def kFloatF16V1Type_def kFloatF32V1Type_def
  kFloatF64V1Type_def kFloatF8E4M3FNV1Type_def kFloatF8E5M2V1Type_def
  kFunctionV1Type_def kIndexV1Type_def kIntegerSI4V1Type_def
  kIntegerSI8V1Type_def kIntegerSI16V1Type_def kIntegerSI32V1Type_def
  kIntegerSI64V1Type_def kIntegerUI4V1Type_def kIntegerUI8V1Type_def
  kIntegerUI16V1Type_def kIntegerUI32V1Type_def kIntegerUI64V1Type_def
  kRankedTensorV1Type_def kRankedTensorV1TypeWithEncoding_def kTokenV1Type_def
  kTupleV1Type_def kUniformQuantizedV1Type_def kUnrankedTensorV1Type_def
  kWitnessV1Type_def kFloatF8E4M3FNUZV1Type_def kFloatF8E5M2FNUZV1Type_def
  kFloatF8E4M3B11FNUZV1Type_def

section \<open>Attributes\<close>

definition readArgResultAliasV1Attr :: "('b, vattr, vty) stream \<Rightarrow> 'b list \<Rightarrow> (vattr \<times> 'b list) res" where
  "readArgResultAliasV1Attr S st =
     bnd (readSignedVarInts S st) (\<lambda>(argTupleIndices, st1).
     bnd (readSignedVarInt S st1) (\<lambda>(resultIndex, st2).
     bnd (readSignedVarInts S st2) (\<lambda>(resultTupleIndices, st3).
     bnd (readVarInt S st3) (\<lambda>(isMustAliasUint, st4).
     Inr (ArgResultAliasV1Attr argTupleIndices resultIndex resultTupleIndices (isMustAliasUint \<noteq> 0), st4)))))"

definition writeArgResultAliasV1Attr :: "('b, vattr, vty) stream \<Rightarrow> int list \<Rightarrow> int \<Rightarrow> int list \<Rightarrow> bool \<Rightarrow> 'b list" where
  "writeArgResultAliasV1Attr S argTupleIndices resultIndex resultTupleIndices isMustAlias =
     writeVarInt S kArgResultAliasV1Attr @
     writeSignedVarInts S argTupleIndices @
     writeSignedVarInt S resultIndex @
     writeSignedVarInts S resultTupleIndices @
     writeVarInt S (if isMustAlias then 1 else 0)"

definition readArrayV1Attr :: "('b, vattr, vty) stream \<Rightarrow> 'b list \<Rightarrow> (vattr \<times> 'b list) res" where
  "readArrayV1Attr S st =
     bnd (readAttributes S st) (\<lambda>(elements, st1).
     Inr (ArrayV1Attr elements, st1))"

definition writeArrayV1Attr :: "('b, vattr, vty) stream \<Rightarrow> vattr list \<Rightarrow> 'b list" where
  "writeArrayV1Attr S elements =
     writeVarInt S kArrayV1Attr @
     writeAttributes S elements"

definition readBooleanV1Attr :: "('b, vattr, vty) stream \<Rightarrow> 'b list \<Rightarrow> (vattr \<times> 'b list) res" where
  "readBooleanV1Attr S st =
     bnd (readVarInt S st) (\<lambda>(int_value, st1).
       if int_value \<noteq> 0 \<and> int_value \<noteq> 1 then Inl (Fatal ''unsupported value'')
       else Inr (BooleanV1Attr (int_value = 1), st1))"

definition writeBooleanV1Attr :: "('b, vattr, vty) stream \<Rightarrow> bool \<Rightarrow> 'b list" where
  "writeBooleanV1Attr S val =
     writeVarInt S kBooleanV1Attr @
     writeVarInt S (if val then 1 else 0)"

definition readComparisonDirectionV1Attr :: "('b, vattr, vty) stream \<Rightarrow> 'b list \<Rightarrow> (vattr \<times> 'b list) res" where
  "readComparisonDirectionV1Attr S st = readEnumAttribute S vhlo_ComparisonDirectionV1 ComparisonDirectionV1Attr st"

definition writeComparisonDirectionV1Attr :: "('b, vattr, vty) stream \<Rightarrow> comparison_direction \<Rightarrow> 'b list" where
  "writeComparisonDirectionV1Attr S v = writeVarInt S kComparisonDirectionV1Attr @ writeEnumAttribute S vhlo_ComparisonDirectionV1 v"

definition readComparisonTypeV1Attr :: "('b, vattr, vty) stream \<Rightarrow> 'b list \<Rightarrow> (vattr \<times> 'b list) res" where
  "readComparisonTypeV1Attr S st = readEnumAttribute S vhlo_ComparisonTypeV1 ComparisonTypeV1Attr st"

definition writeComparisonTypeV1Attr :: "('b, vattr, vty) stream \<Rightarrow> comparison_type \<Rightarrow> 'b list" where
  "writeComparisonTypeV1Attr S v = writeVarInt S kComparisonTypeV1Attr @ writeEnumAttribute S vhlo_ComparisonTypeV1 v"

definition readCustomCallApiVersionV1Attr :: "('b, vattr, vty) stream \<Rightarrow> 'b list \<Rightarrow> (vattr \<times> 'b list) res" where
  "readCustomCallApiVersionV1Attr S st = readEnumAttribute S vhlo_CustomCallApiVersionV1 CustomCallApiVersionV1Attr st"

definition writeCustomCallApiVersionV1Attr :: "('b, vattr, vty) stream \<Rightarrow> api_version \<Rightarrow> 'b list" where
  "writeCustomCallApiVersionV1Attr S v = writeVarInt S kCustomCallApiVersionV1Attr @ writeEnumAttribute S vhlo_CustomCallApiVersionV1 v"

definition readNamedAttr :: "('b, vattr, vty) stream \<Rightarrow> 'b list \<Rightarrow> ((vattr \<times> vattr) \<times> 'b list) res" where
  "readNamedAttr S st =
     bnd (readAttributeRef S st) (\<lambda>(name, st1).
     bnd (readAttributeRef S st1) (\<lambda>(val, st2). Inr ((name, val), st2)))"

definition readDictionaryV1Attr :: "('b, vattr, vty) stream \<Rightarrow> 'b list \<Rightarrow> (vattr \<times> 'b list) res" where
  "readDictionaryV1Attr S st =
     bnd (readList S (readNamedAttr S) st) (\<lambda>(attrs, st1). Inr (DictionaryV1Attr attrs, st1))"

definition writeDictionaryV1Attr :: "('b, vattr, vty) stream \<Rightarrow> (vattr \<times> vattr) list \<Rightarrow> 'b list" where
  "writeDictionaryV1Attr S attrs =
     writeVarInt S kDictionaryV1Attr @
     writeList S (\<lambda>attrPair. writeAttributeRef S (fst attrPair) @ writeAttributeRef S (snd attrPair)) attrs"

definition readFftTypeV1Attr :: "('b, vattr, vty) stream \<Rightarrow> 'b list \<Rightarrow> (vattr \<times> 'b list) res" where
  "readFftTypeV1Attr S st = readEnumAttribute S vhlo_FftTypeV1 FftTypeV1Attr st"

definition writeFftTypeV1Attr :: "('b, vattr, vty) stream \<Rightarrow> fft_type \<Rightarrow> 'b list" where
  "writeFftTypeV1Attr S v = writeVarInt S kFftTypeV1Attr @ writeEnumAttribute S vhlo_FftTypeV1 v"

text \<open>\<open>getFloatSemantics\<close> and \<open>getBitWidthForIntegerType\<close> stop the program on other types.\<close>

definition getFloatSemantics :: "vty \<Rightarrow> fsem res" where
  "getFloatSemantics type =
     (if type = Simple FloatBF16V1Type then Inr BF16
      else if type = Simple FloatF16V1Type then Inr F16
      else if type = Simple FloatF32V1Type then Inr F32
      else if type = Simple FloatF64V1Type then Inr F64
      else if type = Simple FloatF8E4M3FNUZV1Type then Inr F8E4M3FNUZ
      else if type = Simple FloatF8E4M3B11FNUZV1Type then Inr F8E4M3B11FNUZ
      else if type = Simple FloatF8E4M3FNV1Type then Inr F8E4M3FN
      else if type = Simple FloatF8E5M2FNUZV1Type then Inr F8E5M2FNUZ
      else if type = Simple FloatF8E5M2V1Type then Inr F8E5M2
      else Inl (Fatal ''unsupported floating-point type''))"

definition readFloatV1Attr :: "('b, vattr, vty) stream \<Rightarrow> 'b list \<Rightarrow> (vattr \<times> 'b list) res" where
  "readFloatV1Attr S st =
     bnd (readTypeRef S st) (\<lambda>(type, st1).
     bnd (getFloatSemantics type) (\<lambda>sem.
     bnd (readAPFloatWithKnownSemantics S sem st1) (\<lambda>(val, st2).
     Inr (FloatV1Attr type val, st2))))"

definition writeFloatV1Attr :: "('b, vattr, vty) stream \<Rightarrow> vty \<Rightarrow> apfloat \<Rightarrow> 'b list" where
  "writeFloatV1Attr S type val =
     writeVarInt S kFloatV1Attr @
     writeTypeRef S type @
     writeAPFloatWithKnownSemantics S val"

definition getBitWidthForIntegerType :: "vty \<Rightarrow> nat res" where
  "getBitWidthForIntegerType type =
     (if type = Simple IntegerSI4V1Type \<or> type = Simple IntegerUI4V1Type then Inr 4
      else if type = Simple IntegerSI8V1Type \<or> type = Simple IntegerUI8V1Type then Inr 8
      else if type = Simple IntegerSI16V1Type \<or> type = Simple IntegerUI16V1Type then Inr 16
      else if type = Simple IntegerSI32V1Type \<or> type = Simple IntegerUI32V1Type then Inr 32
      else if type = Simple IntegerSI64V1Type \<or> type = Simple IntegerUI64V1Type then Inr 64
      else Inl (Fatal ''unsupported integer type''))"

text \<open>The width of the value of an integer attribute; an index is stored in 64 bits.\<close>

definition integer_width :: "vty \<Rightarrow> nat res" where
  "integer_width type =
     (if type = Simple IndexV1Type then Inr 64 else getBitWidthForIntegerType type)"

definition readIntegerV1Attr :: "('b, vattr, vty) stream \<Rightarrow> 'b list \<Rightarrow> (vattr \<times> 'b list) res" where
  "readIntegerV1Attr S st =
     bnd (readTypeRef S st) (\<lambda>(type, st1).
     bnd (integer_width type) (\<lambda>bitWidth.
     bnd (readAPIntWithKnownWidth S bitWidth st1) (\<lambda>(val, st2).
     Inr (IntegerV1Attr type val, st2))))"

definition writeIntegerV1Attr :: "('b, vattr, vty) stream \<Rightarrow> vty \<Rightarrow> apint \<Rightarrow> 'b list" where
  "writeIntegerV1Attr S type val =
     writeVarInt S kIntegerV1Attr @
     writeTypeRef S type @
     writeAPIntWithKnownWidth S val"

definition readOutputOperandAliasV1Attr :: "('b, vattr, vty) stream \<Rightarrow> 'b list \<Rightarrow> (vattr \<times> 'b list) res" where
  "readOutputOperandAliasV1Attr S st =
     bnd (readSignedVarInts S st) (\<lambda>(outputTupleIndices, st1).
     bnd (readSignedVarInt S st1) (\<lambda>(operandIndex, st2).
     bnd (readSignedVarInts S st2) (\<lambda>(operandTupleIndices, st3).
     Inr (OutputOperandAliasV1Attr outputTupleIndices operandIndex operandTupleIndices, st3))))"

definition writeOutputOperandAliasV1Attr :: "('b, vattr, vty) stream \<Rightarrow> int list \<Rightarrow> int \<Rightarrow> int list \<Rightarrow> 'b list" where
  "writeOutputOperandAliasV1Attr S outputTupleIndices operandIndex operandTupleIndices =
     writeVarInt S kOutputOperandAliasV1Attr @
     writeSignedVarInts S outputTupleIndices @
     writeSignedVarInt S operandIndex @
     writeSignedVarInts S operandTupleIndices"

definition readPrecisionV1Attr :: "('b, vattr, vty) stream \<Rightarrow> 'b list \<Rightarrow> (vattr \<times> 'b list) res" where
  "readPrecisionV1Attr S st = readEnumAttribute S vhlo_PrecisionV1 PrecisionV1Attr st"

definition writePrecisionV1Attr :: "('b, vattr, vty) stream \<Rightarrow> precision \<Rightarrow> 'b list" where
  "writePrecisionV1Attr S v = writeVarInt S kPrecisionV1Attr @ writeEnumAttribute S vhlo_PrecisionV1 v"

definition readRngAlgorithmV1Attr :: "('b, vattr, vty) stream \<Rightarrow> 'b list \<Rightarrow> (vattr \<times> 'b list) res" where
  "readRngAlgorithmV1Attr S st = readEnumAttribute S vhlo_RngAlgorithmV1 RngAlgorithmV1Attr st"

definition writeRngAlgorithmV1Attr :: "('b, vattr, vty) stream \<Rightarrow> rng_algorithm \<Rightarrow> 'b list" where
  "writeRngAlgorithmV1Attr S v = writeVarInt S kRngAlgorithmV1Attr @ writeEnumAttribute S vhlo_RngAlgorithmV1 v"

definition readRngDistributionV1Attr :: "('b, vattr, vty) stream \<Rightarrow> 'b list \<Rightarrow> (vattr \<times> 'b list) res" where
  "readRngDistributionV1Attr S st = readEnumAttribute S vhlo_RngDistributionV1 RngDistributionV1Attr st"

definition writeRngDistributionV1Attr :: "('b, vattr, vty) stream \<Rightarrow> rng_distribution \<Rightarrow> 'b list" where
  "writeRngDistributionV1Attr S v = writeVarInt S kRngDistributionV1Attr @ writeEnumAttribute S vhlo_RngDistributionV1 v"

definition readStringV1Attr :: "('b, vattr, vty) stream \<Rightarrow> 'b list \<Rightarrow> (vattr \<times> 'b list) res" where
  "readStringV1Attr S st =
     bnd (readString S st) (\<lambda>(val, st1).
     Inr (StringV1Attr val, st1))"

definition writeStringV1Attr :: "('b, vattr, vty) stream \<Rightarrow> string \<Rightarrow> 'b list" where
  "writeStringV1Attr S val =
     writeVarInt S kStringV1Attr @
     writeOwnedString S val"

definition readTensorV1Attr :: "('b, vattr, vty) stream \<Rightarrow> 'b list \<Rightarrow> (vattr \<times> 'b list) res" where
  "readTensorV1Attr S st =
     bnd (readTypeRef S st) (\<lambda>(type, st1).
     bnd (readBlob S st1) (\<lambda>(blob, st2).
     Inr (TensorV1Attr type blob, st2)))"

definition writeTensorV1Attr :: "('b, vattr, vty) stream \<Rightarrow> vty \<Rightarrow> 8 word list \<Rightarrow> 'b list" where
  "writeTensorV1Attr S type data =
     writeVarInt S kTensorV1Attr @
     writeTypeRef S type @
     writeOwnedBlob S data"

definition readTransposeV1Attr :: "('b, vattr, vty) stream \<Rightarrow> 'b list \<Rightarrow> (vattr \<times> 'b list) res" where
  "readTransposeV1Attr S st = readEnumAttribute S vhlo_TransposeV1 TransposeV1Attr st"

definition writeTransposeV1Attr :: "('b, vattr, vty) stream \<Rightarrow> transpose \<Rightarrow> 'b list" where
  "writeTransposeV1Attr S v = writeVarInt S kTransposeV1Attr @ writeEnumAttribute S vhlo_TransposeV1 v"

definition readTypeV1Attr :: "('b, vattr, vty) stream \<Rightarrow> 'b list \<Rightarrow> (vattr \<times> 'b list) res" where
  "readTypeV1Attr S st =
     bnd (readTypeRef S st) (\<lambda>(type, st1).
     Inr (TypeV1Attr type, st1))"

definition writeTypeV1Attr :: "('b, vattr, vty) stream \<Rightarrow> vty \<Rightarrow> 'b list" where
  "writeTypeV1Attr S type =
     writeVarInt S kTypeV1Attr @
     writeTypeRef S type"

definition readTypeExtensionsV1Attr :: "('b, vattr, vty) stream \<Rightarrow> 'b list \<Rightarrow> (vattr \<times> 'b list) res" where
  "readTypeExtensionsV1Attr S st =
     bnd (readSignedVarInts S st) (\<lambda>(bounds, st1).
     Inr (TypeExtensionsV1Attr bounds, st1))"

definition writeTypeExtensionsV1Attr :: "('b, vattr, vty) stream \<Rightarrow> int list \<Rightarrow> 'b list" where
  "writeTypeExtensionsV1Attr S bounds =
     writeVarInt S kTypeExtensionsV1Attr @
     writeSignedVarInts S bounds"

definition readAttribute :: "('b, vattr, vty) stream \<Rightarrow> 'b list \<Rightarrow> (vattr \<times> 'b list) res" where
  "readAttribute S st = bnd (readVarInt S st) (\<lambda>(code, st1).
     if code = kArgResultAliasV1Attr then readArgResultAliasV1Attr S st1
     else if code = kArrayV1Attr then readArrayV1Attr S st1
     else if code = kBooleanV1Attr then readBooleanV1Attr S st1
     else if code = kComparisonDirectionV1Attr then readComparisonDirectionV1Attr S st1
     else if code = kComparisonTypeV1Attr then readComparisonTypeV1Attr S st1
     else if code = kCustomCallApiVersionV1Attr then readCustomCallApiVersionV1Attr S st1
     else if code = kDictionaryV1Attr then readDictionaryV1Attr S st1
     else if code = kFftTypeV1Attr then readFftTypeV1Attr S st1
     else if code = kFloatV1Attr then readFloatV1Attr S st1
     else if code = kIntegerV1Attr then readIntegerV1Attr S st1
     else if code = kOutputOperandAliasV1Attr then readOutputOperandAliasV1Attr S st1
     else if code = kPrecisionV1Attr then readPrecisionV1Attr S st1
     else if code = kRngAlgorithmV1Attr then readRngAlgorithmV1Attr S st1
     else if code = kRngDistributionV1Attr then readRngDistributionV1Attr S st1
     else if code = kStringV1Attr then readStringV1Attr S st1
     else if code = kTensorV1Attr then readTensorV1Attr S st1
     else if code = kTransposeV1Attr then readTransposeV1Attr S st1
     else if code = kTypeV1Attr then readTypeV1Attr S st1
     else if code = kTypeExtensionsV1Attr then readTypeExtensionsV1Attr S st1
     else Inl (Fatal ''unknown vhlo attribute code''))"

fun writeAttribute :: "('b, vattr, vty) stream \<Rightarrow> vattr \<Rightarrow> 'b list" where
  "writeAttribute S (ArgResultAliasV1Attr ai r ri m) = writeArgResultAliasV1Attr S ai r ri m"
| "writeAttribute S (ArrayV1Attr xs) = writeArrayV1Attr S xs"
| "writeAttribute S (BooleanV1Attr b) = writeBooleanV1Attr S b"
| "writeAttribute S (ComparisonDirectionV1Attr v) = writeComparisonDirectionV1Attr S v"
| "writeAttribute S (ComparisonTypeV1Attr v) = writeComparisonTypeV1Attr S v"
| "writeAttribute S (CustomCallApiVersionV1Attr v) = writeCustomCallApiVersionV1Attr S v"
| "writeAttribute S (DictionaryV1Attr xs) = writeDictionaryV1Attr S xs"
| "writeAttribute S (FftTypeV1Attr v) = writeFftTypeV1Attr S v"
| "writeAttribute S (FloatV1Attr t v) = writeFloatV1Attr S t v"
| "writeAttribute S (IntegerV1Attr t v) = writeIntegerV1Attr S t v"
| "writeAttribute S (OutputOperandAliasV1Attr oi i pi) = writeOutputOperandAliasV1Attr S oi i pi"
| "writeAttribute S (PrecisionV1Attr v) = writePrecisionV1Attr S v"
| "writeAttribute S (RngAlgorithmV1Attr v) = writeRngAlgorithmV1Attr S v"
| "writeAttribute S (RngDistributionV1Attr v) = writeRngDistributionV1Attr S v"
| "writeAttribute S (StringV1Attr s) = writeStringV1Attr S s"
| "writeAttribute S (TensorV1Attr t d) = writeTensorV1Attr S t d"
| "writeAttribute S (TransposeV1Attr v) = writeTransposeV1Attr S v"
| "writeAttribute S (TypeV1Attr t) = writeTypeV1Attr S t"
| "writeAttribute S (TypeExtensionsV1Attr bs) = writeTypeExtensionsV1Attr S bs"

section \<open>Types\<close>

definition readComplexV1Type :: "('b, vattr, vty) stream \<Rightarrow> 'b list \<Rightarrow> (vty \<times> 'b list) res" where
  "readComplexV1Type S st =
     bnd (readTypeRef S st) (\<lambda>(elementType, st1).
     Inr (ComplexV1Type elementType, st1))"

definition writeComplexV1Type :: "('b, vattr, vty) stream \<Rightarrow> vty \<Rightarrow> 'b list" where
  "writeComplexV1Type S elementType =
     writeVarInt S kComplexV1Type @
     writeTypeRef S elementType"

definition readFunctionV1Type :: "('b, vattr, vty) stream \<Rightarrow> 'b list \<Rightarrow> (vty \<times> 'b list) res" where
  "readFunctionV1Type S st =
     bnd (readTypes S st) (\<lambda>(inputs, st1).
     bnd (readTypes S st1) (\<lambda>(outputs, st2).
     Inr (FunctionV1Type inputs outputs, st2)))"

definition writeFunctionV1Type :: "('b, vattr, vty) stream \<Rightarrow> vty list \<Rightarrow> vty list \<Rightarrow> 'b list" where
  "writeFunctionV1Type S inputs outputs =
     writeVarInt S kFunctionV1Type @
     writeTypes S inputs @
     writeTypes S outputs"

definition readRankedTensorV1Type ::
  "('b, vattr, vty) stream \<Rightarrow> 'b list \<Rightarrow> bool \<Rightarrow> (vty \<times> 'b list) res" where
  "readRankedTensorV1Type S st hasEncoding =
     bnd (if hasEncoding then bnd (readAttributeRef S st) (\<lambda>(e, st1). Inr (Some e, st1))
          else Inr (None, st)) (\<lambda>(encoding, st2).
     bnd (readSignedVarInts S st2) (\<lambda>(shape, st3).
     bnd (readTypeRef S st3) (\<lambda>(elementType, st4).
     Inr (RankedTensorV1Type shape elementType encoding, st4))))"

definition writeRankedTensorV1Type ::
  "('b, vattr, vty) stream \<Rightarrow> int list \<Rightarrow> vty \<Rightarrow> vattr option \<Rightarrow> 'b list" where
  "writeRankedTensorV1Type S shape elementType encoding =
     (case encoding of
        Some e \<Rightarrow> writeVarInt S kRankedTensorV1TypeWithEncoding @ writeAttributeRef S e
      | None \<Rightarrow> writeVarInt S kRankedTensorV1Type) @
     writeSignedVarInts S shape @
     writeTypeRef S elementType"

definition readTokenV1Type :: "('b, vattr, vty) stream \<Rightarrow> 'b list \<Rightarrow> (vty \<times> 'b list) res" where
  "readTokenV1Type S st = Inr (Simple TokenV1Type, st)"

definition writeTokenV1Type :: "('b, vattr, vty) stream \<Rightarrow> 'b list" where
  "writeTokenV1Type S = writeVarInt S kTokenV1Type"

definition readTupleV1Type :: "('b, vattr, vty) stream \<Rightarrow> 'b list \<Rightarrow> (vty \<times> 'b list) res" where
  "readTupleV1Type S st =
     bnd (readTypes S st) (\<lambda>(elements, st1).
     Inr (TupleV1Type elements, st1))"

definition writeTupleV1Type :: "('b, vattr, vty) stream \<Rightarrow> vty list \<Rightarrow> 'b list" where
  "writeTupleV1Type S elements =
     writeVarInt S kTupleV1Type @
     writeTypes S elements"

text \<open>The flags are read as 64 bits and kept as an \<open>unsigned\<close> of 32.\<close>

definition readUniformQuantizedV1Type :: "('b, vattr, vty) stream \<Rightarrow> 'b list \<Rightarrow> (vty \<times> 'b list) res" where
  "readUniformQuantizedV1Type S st =
     bnd (readVarInt S st) (\<lambda>(flags, st1).
     bnd (readTypeRef S st1) (\<lambda>(storageType, st2).
     bnd (readTypeRef S st2) (\<lambda>(expressedType, st3).
     bnd (readAPFloatWithKnownSemantics S F64 st3) (\<lambda>(scale, st4).
     bnd (readSignedVarInt S st4) (\<lambda>(zeroPoint, st5).
     bnd (readSignedVarInt S st5) (\<lambda>(storageTypeMin, st6).
     bnd (readSignedVarInt S st6) (\<lambda>(storageTypeMax, st7).
     Inr (UniformQuantizedV1Type (flags mod 2 ^ 32) storageType expressedType scale zeroPoint
       storageTypeMin storageTypeMax, st7))))))))"

definition writeUniformQuantizedV1Type :: "('b, vattr, vty) stream \<Rightarrow> nat \<Rightarrow> vty \<Rightarrow> vty \<Rightarrow> apfloat \<Rightarrow> int \<Rightarrow> int \<Rightarrow> int \<Rightarrow> 'b list" where
  "writeUniformQuantizedV1Type S flags storageType expressedType scale zeroPoint storageTypeMin storageTypeMax =
     writeVarInt S kUniformQuantizedV1Type @
     writeVarInt S flags @
     writeTypeRef S storageType @
     writeTypeRef S expressedType @
     writeAPFloatWithKnownSemantics S scale @
     writeSignedVarInt S zeroPoint @
     writeSignedVarInt S storageTypeMin @
     writeSignedVarInt S storageTypeMax"

definition readUnrankedTensorV1Type :: "('b, vattr, vty) stream \<Rightarrow> 'b list \<Rightarrow> (vty \<times> 'b list) res" where
  "readUnrankedTensorV1Type S st =
     bnd (readTypeRef S st) (\<lambda>(elementType, st1).
     Inr (UnrankedTensorV1Type elementType, st1))"

definition writeUnrankedTensorV1Type :: "('b, vattr, vty) stream \<Rightarrow> vty \<Rightarrow> 'b list" where
  "writeUnrankedTensorV1Type S elementType =
     writeVarInt S kUnrankedTensorV1Type @
     writeTypeRef S elementType"

definition readType :: "('b, vattr, vty) stream \<Rightarrow> 'b list \<Rightarrow> (vty \<times> 'b list) res" where
  "readType S st = bnd (readVarInt S st) (\<lambda>(code, st1).
     if code = kBooleanV1Type then Inr (Simple BooleanV1Type, st1)
     else if code = kComplexV1Type then readComplexV1Type S st1
     else if code = kFloatBF16V1Type then Inr (Simple FloatBF16V1Type, st1)
     else if code = kFloatF16V1Type then Inr (Simple FloatF16V1Type, st1)
     else if code = kFloatF32V1Type then Inr (Simple FloatF32V1Type, st1)
     else if code = kFloatF64V1Type then Inr (Simple FloatF64V1Type, st1)
     else if code = kFloatF8E4M3FNV1Type then Inr (Simple FloatF8E4M3FNV1Type, st1)
     else if code = kFloatF8E5M2V1Type then Inr (Simple FloatF8E5M2V1Type, st1)
     else if code = kFunctionV1Type then readFunctionV1Type S st1
     else if code = kIndexV1Type then Inr (Simple IndexV1Type, st1)
     else if code = kIntegerSI4V1Type then Inr (Simple IntegerSI4V1Type, st1)
     else if code = kIntegerSI8V1Type then Inr (Simple IntegerSI8V1Type, st1)
     else if code = kIntegerSI16V1Type then Inr (Simple IntegerSI16V1Type, st1)
     else if code = kIntegerSI32V1Type then Inr (Simple IntegerSI32V1Type, st1)
     else if code = kIntegerSI64V1Type then Inr (Simple IntegerSI64V1Type, st1)
     else if code = kIntegerUI4V1Type then Inr (Simple IntegerUI4V1Type, st1)
     else if code = kIntegerUI8V1Type then Inr (Simple IntegerUI8V1Type, st1)
     else if code = kIntegerUI16V1Type then Inr (Simple IntegerUI16V1Type, st1)
     else if code = kIntegerUI32V1Type then Inr (Simple IntegerUI32V1Type, st1)
     else if code = kIntegerUI64V1Type then Inr (Simple IntegerUI64V1Type, st1)
     else if code = kRankedTensorV1Type then readRankedTensorV1Type S st1 False
     else if code = kRankedTensorV1TypeWithEncoding then readRankedTensorV1Type S st1 True
     else if code = kTokenV1Type then readTokenV1Type S st1
     else if code = kTupleV1Type then readTupleV1Type S st1
     else if code = kUniformQuantizedV1Type then readUniformQuantizedV1Type S st1
     else if code = kUnrankedTensorV1Type then readUnrankedTensorV1Type S st1
     else if code = kWitnessV1Type then Inr (Simple WitnessV1Type, st1)
     else if code = kFloatF8E4M3FNUZV1Type then Inr (Simple FloatF8E4M3FNUZV1Type, st1)
     else if code = kFloatF8E5M2FNUZV1Type then Inr (Simple FloatF8E5M2FNUZV1Type, st1)
     else if code = kFloatF8E4M3B11FNUZV1Type then Inr (Simple FloatF8E4M3B11FNUZV1Type, st1)
     else Inl (Fatal ''unknown vhlo type code''))"

definition simple_type_code :: "simple_type \<Rightarrow> nat" where
  "simple_type_code type = (case type of
      BooleanV1Type \<Rightarrow> kBooleanV1Type
     | FloatBF16V1Type \<Rightarrow> kFloatBF16V1Type
     | FloatF16V1Type \<Rightarrow> kFloatF16V1Type
     | FloatF32V1Type \<Rightarrow> kFloatF32V1Type
     | FloatF64V1Type \<Rightarrow> kFloatF64V1Type
     | FloatF8E4M3FNV1Type \<Rightarrow> kFloatF8E4M3FNV1Type
     | FloatF8E5M2V1Type \<Rightarrow> kFloatF8E5M2V1Type
     | IndexV1Type \<Rightarrow> kIndexV1Type
     | IntegerSI4V1Type \<Rightarrow> kIntegerSI4V1Type
     | IntegerSI8V1Type \<Rightarrow> kIntegerSI8V1Type
     | IntegerSI16V1Type \<Rightarrow> kIntegerSI16V1Type
     | IntegerSI32V1Type \<Rightarrow> kIntegerSI32V1Type
     | IntegerSI64V1Type \<Rightarrow> kIntegerSI64V1Type
     | IntegerUI4V1Type \<Rightarrow> kIntegerUI4V1Type
     | IntegerUI8V1Type \<Rightarrow> kIntegerUI8V1Type
     | IntegerUI16V1Type \<Rightarrow> kIntegerUI16V1Type
     | IntegerUI32V1Type \<Rightarrow> kIntegerUI32V1Type
     | IntegerUI64V1Type \<Rightarrow> kIntegerUI64V1Type
     | TokenV1Type \<Rightarrow> kTokenV1Type
     | WitnessV1Type \<Rightarrow> kWitnessV1Type
     | FloatF8E4M3FNUZV1Type \<Rightarrow> kFloatF8E4M3FNUZV1Type
     | FloatF8E5M2FNUZV1Type \<Rightarrow> kFloatF8E5M2FNUZV1Type
     | FloatF8E4M3B11FNUZV1Type \<Rightarrow> kFloatF8E4M3B11FNUZV1Type)"

text \<open>The types without parameters are written as their number only.\<close>

fun writeType :: "('b, vattr, vty) stream \<Rightarrow> vty \<Rightarrow> 'b list" where
  "writeType S (Simple s) =
     (if s = TokenV1Type then writeTokenV1Type S else writeVarInt S (simple_type_code s))"
| "writeType S (ComplexV1Type e) = writeComplexV1Type S e"
| "writeType S (FunctionV1Type ins outs) = writeFunctionV1Type S ins outs"
| "writeType S (RankedTensorV1Type sh e enc) = writeRankedTensorV1Type S sh e enc"
| "writeType S (TupleV1Type ts) = writeTupleV1Type S ts"
| "writeType S (UniformQuantizedV1Type fl st ex sc zp mn mx) = writeUniformQuantizedV1Type S fl st ex sc zp mn mx"
| "writeType S (UnrankedTensorV1Type e) = writeUnrankedTensorV1Type S e"

end
