(* ===== verification/VhloBytecodeLaws.thy ===== *)
theory VhloBytecodeLaws
  imports VhloBytecode
begin

text \<open>
  What the C++ objects of the VHLO attributes and types can hold (\<open>vattr_ok\<close>, \<open>vty_ok\<close>), and the
  round trip of every class through its writer and reader.
\<close>

definition i64s_ok :: "int list \<Rightarrow> bool" where
  "i64s_ok vs \<longleftrightarrow> (\<forall>v \<in> set vs. i64_ok v)"

text \<open>
  Parameters in the range of their C++ types; a float attribute whose value has the semantics
  of its type, an integer attribute whose value has the width of its type.
\<close>

definition vattr_ok :: "vattr \<Rightarrow> bool" where
  "vattr_ok a = (case a of
     ArgResultAliasV1Attr ai r ri _ \<Rightarrow> i64s_ok ai \<and> i64_ok r \<and> i64s_ok ri
   | FloatV1Attr t v \<Rightarrow> getFloatSemantics t = Inr (fl_sem v)
   | IntegerV1Attr t v \<Rightarrow> wf_apint v \<and> integer_width t = Inr (ap_width v)
   | OutputOperandAliasV1Attr oi i pi \<Rightarrow> i64s_ok oi \<and> i64_ok i \<and> i64s_ok pi
   | TypeExtensionsV1Attr bs \<Rightarrow> i64s_ok bs
   | _ \<Rightarrow> True)"

definition vty_ok :: "vty \<Rightarrow> bool" where
  "vty_ok t = (case t of
     RankedTensorV1Type sh _ _ \<Rightarrow> i64s_ok sh
   | UniformQuantizedV1Type fl _ _ sc zp mn mx \<Rightarrow>
       fl < 2 ^ 32 \<and> fl_sem sc = F64 \<and> i64_ok zp \<and> i64_ok mn \<and> i64_ok mx
   | _ \<Rightarrow> True)"

lemma stream_reads_i64s [stream_simps]:
  "stream_ok S \<Longrightarrow> i64s_ok vs \<Longrightarrow> readSignedVarInts S (writeSignedVarInts S vs @ rest) = Inr (vs, rest)"
  by (simp add: stream_reads(3) i64s_ok_def)

lemma stream_reads_bool [stream_simps]:
  "stream_ok S \<Longrightarrow> readVarInt S (writeVarInt S (if b then 1 else 0) @ rest) = Inr (if b then 1 else 0, rest)"
  by (cases b) (simp_all add: stream_reads(1))

lemma stream_reads_code [stream_simps]:
  "stream_ok S \<Longrightarrow> n < 256 \<Longrightarrow> readVarInt S (writeVarInt S n @ rest) = Inr (n, rest)"
  by (rule stream_reads(1)) auto

section \<open>Each class\<close>

lemma vhlo_alias_back [stream_simps]:
  "stream_ok S \<Longrightarrow> vattr_ok (ArgResultAliasV1Attr ai r ri m) \<Longrightarrow>
     readAttribute S (writeArgResultAliasV1Attr S ai r ri m @ rest) = Inr (ArgResultAliasV1Attr ai r ri m, rest)"
  by (simp add: vattr_ok_def writeArgResultAliasV1Attr_def readArgResultAliasV1Attr_def
      readAttribute_def vhlo_codes stream_simps)

lemma vhlo_output_alias_back [stream_simps]:
  "stream_ok S \<Longrightarrow> vattr_ok (OutputOperandAliasV1Attr oi i pi) \<Longrightarrow>
     readAttribute S (writeOutputOperandAliasV1Attr S oi i pi @ rest) = Inr (OutputOperandAliasV1Attr oi i pi, rest)"
  by (simp add: vattr_ok_def writeOutputOperandAliasV1Attr_def readOutputOperandAliasV1Attr_def
      readAttribute_def vhlo_codes stream_simps)

lemma vhlo_enums_back [stream_simps]:
  assumes "stream_ok S"
  shows
  "readAttribute S (writeComparisonDirectionV1Attr S d @ rest) = Inr (ComparisonDirectionV1Attr d, rest)"
  "readAttribute S (writeComparisonTypeV1Attr S ct @ rest) = Inr (ComparisonTypeV1Attr ct, rest)"
  "readAttribute S (writeCustomCallApiVersionV1Attr S av @ rest) = Inr (CustomCallApiVersionV1Attr av, rest)"
  "readAttribute S (writeFftTypeV1Attr S ft @ rest) = Inr (FftTypeV1Attr ft, rest)"
  "readAttribute S (writePrecisionV1Attr S p @ rest) = Inr (PrecisionV1Attr p, rest)"
  "readAttribute S (writeRngAlgorithmV1Attr S ra @ rest) = Inr (RngAlgorithmV1Attr ra, rest)"
  "readAttribute S (writeRngDistributionV1Attr S rd @ rest) = Inr (RngDistributionV1Attr rd, rest)"
  "readAttribute S (writeTransposeV1Attr S tr @ rest) = Inr (TransposeV1Attr tr, rest)"
  using assms
  by (simp_all add: writeComparisonDirectionV1Attr_def readComparisonDirectionV1Attr_def
      writeComparisonTypeV1Attr_def readComparisonTypeV1Attr_def
      writeCustomCallApiVersionV1Attr_def readCustomCallApiVersionV1Attr_def
      writeFftTypeV1Attr_def readFftTypeV1Attr_def writePrecisionV1Attr_def readPrecisionV1Attr_def
      writeRngAlgorithmV1Attr_def readRngAlgorithmV1Attr_def
      writeRngDistributionV1Attr_def readRngDistributionV1Attr_def
      writeTransposeV1Attr_def readTransposeV1Attr_def readAttribute_def vhlo_codes stream_simps)

lemma vhlo_dictionary_back [stream_simps]:
  assumes "stream_ok S"
  shows "readAttribute S (writeDictionaryV1Attr S xs @ rest) = Inr (DictionaryV1Attr xs, rest)"
proof -
  have "readList S (readNamedAttr S) (writeList S
      (\<lambda>attrPair. writeAttributeRef S (fst attrPair) @ writeAttributeRef S (snd attrPair)) xs @ rest) = Inr (xs, rest)"
    by (rule stream_reads_list [OF assms]) (auto simp: readNamedAttr_def stream_simps assms)
  then show ?thesis
    by (simp add: writeDictionaryV1Attr_def readDictionaryV1Attr_def readAttribute_def vhlo_codes
        stream_simps assms)
qed

lemma vhlo_values_back [stream_simps]:
  assumes "stream_ok S"
  shows
  "readAttribute S (writeArrayV1Attr S xs @ rest) = Inr (ArrayV1Attr xs, rest)"
  "readAttribute S (writeBooleanV1Attr S b @ rest) = Inr (BooleanV1Attr b, rest)"
  "readAttribute S (writeStringV1Attr S s @ rest) = Inr (StringV1Attr s, rest)"
  "readAttribute S (writeTensorV1Attr S t d @ rest) = Inr (TensorV1Attr t d, rest)"
  "readAttribute S (writeTypeV1Attr S t @ rest) = Inr (TypeV1Attr t, rest)"
  using assms
  by (simp_all add: writeArrayV1Attr_def readArrayV1Attr_def writeBooleanV1Attr_def
      readBooleanV1Attr_def writeStringV1Attr_def readStringV1Attr_def writeTensorV1Attr_def
      readTensorV1Attr_def writeTypeV1Attr_def readTypeV1Attr_def readAttribute_def vhlo_codes stream_simps)

lemma vhlo_numbers_back [stream_simps]:
  assumes "stream_ok S"
  shows
  "vattr_ok (FloatV1Attr t f) \<Longrightarrow> readAttribute S (writeFloatV1Attr S t f @ rest) = Inr (FloatV1Attr t f, rest)"
  "vattr_ok (IntegerV1Attr t v) \<Longrightarrow> readAttribute S (writeIntegerV1Attr S t v @ rest) = Inr (IntegerV1Attr t v, rest)"
  "vattr_ok (TypeExtensionsV1Attr bs) \<Longrightarrow>
     readAttribute S (writeTypeExtensionsV1Attr S bs @ rest) = Inr (TypeExtensionsV1Attr bs, rest)"
  using assms
  by (simp_all add: vattr_ok_def writeFloatV1Attr_def readFloatV1Attr_def writeIntegerV1Attr_def
      readIntegerV1Attr_def writeTypeExtensionsV1Attr_def readTypeExtensionsV1Attr_def
      readAttribute_def vhlo_codes stream_simps)

lemma vhlo_attribute_back:
  "stream_ok S \<Longrightarrow> vattr_ok a \<Longrightarrow> readAttribute S (writeAttribute S a @ rest) = Inr (a, rest)"
  by (cases a) (simp_all add: stream_simps)

section \<open>Types\<close>

lemma simple_type_back:
  "stream_ok S \<Longrightarrow> readType S (writeVarInt S (simple_type_code s) @ rest) = Inr (Simple s, rest)"
  by (cases s) (simp_all add: simple_type_code_def readType_def readTokenV1Type_def vhlo_codes stream_simps)

lemma vhlo_type_back:
  assumes "stream_ok S" and "vty_ok t"
  shows "readType S (writeType S t @ rest) = Inr (t, rest)"
proof (cases t)
  case (Simple s)
  have "writeType S t = writeVarInt S (simple_type_code s)"
    by (simp add: Simple writeTokenV1Type_def simple_type_code_def)
  then show ?thesis by (simp add: Simple simple_type_back assms)
next
  case (ComplexV1Type e)
  then show ?thesis using assms
    by (simp add: writeComplexV1Type_def readComplexV1Type_def readType_def vhlo_codes stream_simps)
next
  case (FunctionV1Type ins outs)
  then show ?thesis using assms
    by (simp add: writeFunctionV1Type_def readFunctionV1Type_def readType_def vhlo_codes stream_simps)
next
  case (RankedTensorV1Type sh e enc)
  then show ?thesis using assms
    by (cases enc) (simp_all add: vty_ok_def writeRankedTensorV1Type_def readRankedTensorV1Type_def
        readType_def vhlo_codes stream_simps)
next
  case (TupleV1Type ts)
  then show ?thesis using assms
    by (simp add: writeTupleV1Type_def readTupleV1Type_def readType_def vhlo_codes stream_simps)
next
  case (UniformQuantizedV1Type fl st ex sc zp mn mx)
  with assms have "fl < 2 ^ 64" "fl mod 2 ^ 32 = fl" by (auto simp: vty_ok_def)
  then show ?thesis using assms UniformQuantizedV1Type
    by (simp add: vty_ok_def writeUniformQuantizedV1Type_def readUniformQuantizedV1Type_def
        readType_def vhlo_codes stream_simps)
next
  case (UnrankedTensorV1Type e)
  then show ?thesis using assms
    by (simp add: writeUnrankedTensorV1Type_def readUnrankedTensorV1Type_def readType_def
        vhlo_codes stream_simps)
qed

text \<open>A number that is not the number of a class is an error.\<close>

lemma vhlo_unknown_code:
  assumes "stream_ok S" and "n < 2 ^ 64"
  shows "18 < n \<Longrightarrow> fails (readAttribute S (writeVarInt S n @ rest))"
    and "29 < n \<Longrightarrow> fails (readType S (writeVarInt S n @ rest))"
  by (simp_all add: readAttribute_def readType_def stream_reads(1) [OF assms] vhlo_codes)

end
