(* ===== verification/StablehloBytecode.thy ===== *)
theory StablehloBytecode
  imports VhloBytecodeLaws
begin

text \<open>
  The attribute classes that StableHLO and MHLO both declare (\<open>StablehloAttrs.td\<close>,
  \<open>hlo_ops_attrs.td\<close>), over the type of their precisions, and the further ones of MHLO and CHLO.
\<close>

datatype (plugins only: code size) 'p hlo_attr =
    ArgResultAliasAttr "int list" int "int list" bool
  | ChannelHandleAttr int int
  | ComparisonDirectionAttr comparison_direction
  | ComparisonTypeAttr comparison_type
  | ConvDimensionNumbersAttr int int "int list" int int "int list" int int "int list"
  | DotDimensionNumbersAttr "int list" "int list" "int list" "int list"
  | FftTypeAttr fft_type
  | GatherDimensionNumbersAttr "int list" "int list" "int list" int
  | OutputOperandAliasAttr "int list" int "int list"
  | PrecisionAttr 'p
  | RngAlgorithmAttr rng_algorithm
  | RngDistributionAttr rng_distribution
  | ScatterDimensionNumbersAttr "int list" "int list" "int list" int
  | TransposeAttr transpose
  | TypeExtensionsAttr "int list"

text \<open>
  MHLO: the fusion and domain kinds, and the classes its bytecode interface does not know
  (\<open>CrossProgramPrefetch\<close>, \<open>DynamicParameterBinding\<close>, \<open>CustomCallSchedule\<close>,
  \<open>DequantizeMode\<close>), of which only the class matters here.
\<close>

datatype mhlo_unwritten = CrossProgramPrefetch | DynamicParameterBinding | CustomCallSchedule | DequantizeMode

datatype mhlo_attr =
    HloAttr "mhlo_precision hlo_attr"
  | DomainKindAttr domain_kind
  | FusionKindAttr fusion_kind
  | UnwrittenAttr mhlo_unwritten

datatype chlo_attr = ChloComparisonDirectionAttr comparison_direction | ChloComparisonTypeAttr comparison_type

text \<open>The types of the dialects, with any other type a writer is asked to write.\<close>

datatype 't hlo_type = HloTokenType | AsyncBundleType "'t list" | OtherHloType 't

text \<open>Parameters in the range of \<open>int64_t\<close>.\<close>

definition hlo_attr_ok :: "'p hlo_attr \<Rightarrow> bool" where
  "hlo_attr_ok a = (case a of
     ArgResultAliasAttr a b c _ \<Rightarrow>
       i64s_ok a \<and> i64_ok b \<and> i64s_ok c
   | ChannelHandleAttr a b \<Rightarrow>
       i64_ok a \<and> i64_ok b
   | ConvDimensionNumbersAttr a b c d e f g h i \<Rightarrow>
       i64_ok a \<and> i64_ok b \<and> i64s_ok c \<and> i64_ok d \<and> i64_ok e \<and> i64s_ok f \<and> i64_ok g \<and> i64_ok h \<and> i64s_ok i
   | DotDimensionNumbersAttr a b c d \<Rightarrow>
       i64s_ok a \<and> i64s_ok b \<and> i64s_ok c \<and> i64s_ok d
   | GatherDimensionNumbersAttr a b c d \<Rightarrow>
       i64s_ok a \<and> i64s_ok b \<and> i64s_ok c \<and> i64_ok d
   | OutputOperandAliasAttr a b c \<Rightarrow>
       i64s_ok a \<and> i64_ok b \<and> i64s_ok c
   | ScatterDimensionNumbersAttr a b c d \<Rightarrow>
       i64s_ok a \<and> i64s_ok b \<and> i64s_ok c \<and> i64_ok d
   | TypeExtensionsAttr a \<Rightarrow>
       i64s_ok a
   | _ \<Rightarrow> True)"

text \<open>
  \<open>stablehlo/dialect/StablehloBytecode.cpp\<close>: the bytecode of the StableHLO dialect, in the scheme
  of \<open>VhloBytecode\<close>: the number of the class, then its parameters.
\<close>

section \<open>The numbers of the classes\<close>

definition stablehlo_kArgResultAliasAttr :: nat where "stablehlo_kArgResultAliasAttr = 0"
definition stablehlo_kChannelHandleAttr :: nat where "stablehlo_kChannelHandleAttr = 1"
definition stablehlo_kComparisonDirectionAttr :: nat where "stablehlo_kComparisonDirectionAttr = 2"
definition stablehlo_kComparisonTypeAttr :: nat where "stablehlo_kComparisonTypeAttr = 3"
definition stablehlo_kConvDimensionNumbersAttr :: nat where "stablehlo_kConvDimensionNumbersAttr = 4"
definition stablehlo_kDotDimensionNumbers :: nat where "stablehlo_kDotDimensionNumbers = 5"
definition stablehlo_kFftTypeAttr :: nat where "stablehlo_kFftTypeAttr = 6"
definition stablehlo_kGatherDimensionNumbers :: nat where "stablehlo_kGatherDimensionNumbers = 7"
definition stablehlo_kPrecisionAttr :: nat where "stablehlo_kPrecisionAttr = 8"
definition stablehlo_kRngAlgorithmAttr :: nat where "stablehlo_kRngAlgorithmAttr = 9"
definition stablehlo_kRngDistributionAttr :: nat where "stablehlo_kRngDistributionAttr = 10"
definition stablehlo_kScatterDimensionNumbersAttr :: nat where "stablehlo_kScatterDimensionNumbersAttr = 11"
definition stablehlo_kTransposeAttr :: nat where "stablehlo_kTransposeAttr = 12"
definition stablehlo_kTypeExtensionsAttr :: nat where "stablehlo_kTypeExtensionsAttr = 13"
definition stablehlo_kOutputOperandAlias :: nat where "stablehlo_kOutputOperandAlias = 14"

definition stablehlo_kTokenType :: nat where "stablehlo_kTokenType = 0"

lemmas stablehlo_codes =
  stablehlo_kArgResultAliasAttr_def stablehlo_kChannelHandleAttr_def stablehlo_kComparisonDirectionAttr_def
  stablehlo_kComparisonTypeAttr_def stablehlo_kConvDimensionNumbersAttr_def stablehlo_kDotDimensionNumbers_def
  stablehlo_kFftTypeAttr_def stablehlo_kGatherDimensionNumbers_def stablehlo_kPrecisionAttr_def
  stablehlo_kRngAlgorithmAttr_def stablehlo_kRngDistributionAttr_def stablehlo_kScatterDimensionNumbersAttr_def
  stablehlo_kTransposeAttr_def stablehlo_kTypeExtensionsAttr_def stablehlo_kOutputOperandAlias_def
  stablehlo_kTokenType_def

section \<open>Attributes\<close>

definition stablehlo_readArgResultAliasAttr :: "('b, 'a, 't) stream \<Rightarrow> 'b list \<Rightarrow> (precision hlo_attr \<times> 'b list) res" where
  "stablehlo_readArgResultAliasAttr S st =
     bnd (readSignedVarInts S st) (\<lambda>(argTupleIndices, st1).
     bnd (readSignedVarInt S st1) (\<lambda>(resultIndex, st2).
     bnd (readSignedVarInts S st2) (\<lambda>(resultTupleIndices, st3).
     bnd (readVarInt S st3) (\<lambda>(isMustAliasUint, st4).
     Inr (ArgResultAliasAttr argTupleIndices resultIndex resultTupleIndices
       (isMustAliasUint \<noteq> 0), st4)))))"

definition stablehlo_writeArgResultAliasAttr ::
  "('b, 'a, 't) stream \<Rightarrow> int list \<Rightarrow> int \<Rightarrow> int list \<Rightarrow> bool \<Rightarrow> 'b list" where
  "stablehlo_writeArgResultAliasAttr S argTupleIndices resultIndex
     resultTupleIndices isMustAlias =
     writeVarInt S stablehlo_kArgResultAliasAttr @
     writeSignedVarInts S argTupleIndices @
     writeSignedVarInt S resultIndex @
     writeSignedVarInts S resultTupleIndices @
     writeVarInt S (if isMustAlias then 1 else 0)"

definition stablehlo_readChannelHandleAttr :: "('b, 'a, 't) stream \<Rightarrow> 'b list \<Rightarrow> (precision hlo_attr \<times> 'b list) res" where
  "stablehlo_readChannelHandleAttr S st =
     bnd (readSignedVarInt S st) (\<lambda>(handle, st1).
     bnd (readSignedVarInt S st1) (\<lambda>(type, st2).
     Inr (ChannelHandleAttr handle type, st2)))"

definition stablehlo_writeChannelHandleAttr ::
  "('b, 'a, 't) stream \<Rightarrow> int \<Rightarrow> int \<Rightarrow> 'b list" where
  "stablehlo_writeChannelHandleAttr S handle type =
     writeVarInt S stablehlo_kChannelHandleAttr @
     writeSignedVarInt S handle @
     writeSignedVarInt S type"

definition stablehlo_readComparisonDirectionAttr :: "('b, 'a, 't) stream \<Rightarrow> 'b list \<Rightarrow> (precision hlo_attr \<times> 'b list) res" where
  "stablehlo_readComparisonDirectionAttr S st = readEnumAttribute S hlo_ComparisonDirection ComparisonDirectionAttr st"

definition stablehlo_writeComparisonDirectionAttr :: "('b, 'a, 't) stream \<Rightarrow> comparison_direction \<Rightarrow> 'b list" where
  "stablehlo_writeComparisonDirectionAttr S v = writeVarInt S stablehlo_kComparisonDirectionAttr @ writeEnumAttribute S hlo_ComparisonDirection v"

definition stablehlo_readComparisonTypeAttr :: "('b, 'a, 't) stream \<Rightarrow> 'b list \<Rightarrow> (precision hlo_attr \<times> 'b list) res" where
  "stablehlo_readComparisonTypeAttr S st = readEnumAttribute S hlo_ComparisonType ComparisonTypeAttr st"

definition stablehlo_writeComparisonTypeAttr :: "('b, 'a, 't) stream \<Rightarrow> comparison_type \<Rightarrow> 'b list" where
  "stablehlo_writeComparisonTypeAttr S v = writeVarInt S stablehlo_kComparisonTypeAttr @ writeEnumAttribute S hlo_ComparisonType v"

definition stablehlo_readConvDimensionNumbersAttr :: "('b, 'a, 't) stream \<Rightarrow> 'b list \<Rightarrow> (precision hlo_attr \<times> 'b list) res" where
  "stablehlo_readConvDimensionNumbersAttr S st =
     bnd (readSignedVarInt S st) (\<lambda>(inputBatchDimension, st1).
     bnd (readSignedVarInt S st1) (\<lambda>(inputFeatureDimension, st2).
     bnd (readSignedVarInts S st2) (\<lambda>(inputSpatialDimensions, st3).
     bnd (readSignedVarInt S st3) (\<lambda>(kernelInputFeatureDimension, st4).
     bnd (readSignedVarInt S st4) (\<lambda>(kernelOutputFeatureDimension, st5).
     bnd (readSignedVarInts S st5) (\<lambda>(kernelSpatialDimensions, st6).
     bnd (readSignedVarInt S st6) (\<lambda>(outputBatchDimension, st7).
     bnd (readSignedVarInt S st7) (\<lambda>(outputFeatureDimension, st8).
     bnd (readSignedVarInts S st8) (\<lambda>(outputSpatialDimensions, st9).
     Inr (ConvDimensionNumbersAttr inputBatchDimension inputFeatureDimension inputSpatialDimensions kernelInputFeatureDimension
       kernelOutputFeatureDimension kernelSpatialDimensions outputBatchDimension outputFeatureDimension outputSpatialDimensions, st9))))))))))"

definition stablehlo_writeConvDimensionNumbersAttr ::
  "('b, 'a, 't) stream \<Rightarrow> int \<Rightarrow> int \<Rightarrow> int list \<Rightarrow> int \<Rightarrow> int \<Rightarrow> int list \<Rightarrow> int \<Rightarrow> int \<Rightarrow> int list \<Rightarrow> 'b list" where
  "stablehlo_writeConvDimensionNumbersAttr S inputBatchDimension inputFeatureDimension inputSpatialDimensions kernelInputFeatureDimension
     kernelOutputFeatureDimension kernelSpatialDimensions outputBatchDimension outputFeatureDimension outputSpatialDimensions =
     writeVarInt S stablehlo_kConvDimensionNumbersAttr @
     writeSignedVarInt S inputBatchDimension @
     writeSignedVarInt S inputFeatureDimension @
     writeSignedVarInts S inputSpatialDimensions @
     writeSignedVarInt S kernelInputFeatureDimension @
     writeSignedVarInt S kernelOutputFeatureDimension @
     writeSignedVarInts S kernelSpatialDimensions @
     writeSignedVarInt S outputBatchDimension @
     writeSignedVarInt S outputFeatureDimension @
     writeSignedVarInts S outputSpatialDimensions"

definition stablehlo_readDotDimensionNumbersAttr :: "('b, 'a, 't) stream \<Rightarrow> 'b list \<Rightarrow> (precision hlo_attr \<times> 'b list) res" where
  "stablehlo_readDotDimensionNumbersAttr S st =
     bnd (readSignedVarInts S st) (\<lambda>(lhsBatchingDimensions, st1).
     bnd (readSignedVarInts S st1) (\<lambda>(rhsBatchingDimensions, st2).
     bnd (readSignedVarInts S st2) (\<lambda>(lhsContractingDimensions, st3).
     bnd (readSignedVarInts S st3) (\<lambda>(rhsContractingDimensions, st4).
     Inr (DotDimensionNumbersAttr lhsBatchingDimensions rhsBatchingDimensions
       lhsContractingDimensions rhsContractingDimensions, st4)))))"

definition stablehlo_writeDotDimensionNumbersAttr ::
  "('b, 'a, 't) stream \<Rightarrow> int list \<Rightarrow> int list \<Rightarrow> int list \<Rightarrow> int list \<Rightarrow> 'b list" where
  "stablehlo_writeDotDimensionNumbersAttr S lhsBatchingDimensions rhsBatchingDimensions
     lhsContractingDimensions rhsContractingDimensions =
     writeVarInt S stablehlo_kDotDimensionNumbers @
     writeSignedVarInts S lhsBatchingDimensions @
     writeSignedVarInts S rhsBatchingDimensions @
     writeSignedVarInts S lhsContractingDimensions @
     writeSignedVarInts S rhsContractingDimensions"

definition stablehlo_readFftTypeAttr :: "('b, 'a, 't) stream \<Rightarrow> 'b list \<Rightarrow> (precision hlo_attr \<times> 'b list) res" where
  "stablehlo_readFftTypeAttr S st = readEnumAttribute S hlo_FftType FftTypeAttr st"

definition stablehlo_writeFftTypeAttr :: "('b, 'a, 't) stream \<Rightarrow> fft_type \<Rightarrow> 'b list" where
  "stablehlo_writeFftTypeAttr S v = writeVarInt S stablehlo_kFftTypeAttr @ writeEnumAttribute S hlo_FftType v"

definition stablehlo_readGatherDimensionNumbersAttr :: "('b, 'a, 't) stream \<Rightarrow> 'b list \<Rightarrow> (precision hlo_attr \<times> 'b list) res" where
  "stablehlo_readGatherDimensionNumbersAttr S st =
     bnd (readSignedVarInts S st) (\<lambda>(offsetDims, st1).
     bnd (readSignedVarInts S st1) (\<lambda>(collapsedSliceDims, st2).
     bnd (readSignedVarInts S st2) (\<lambda>(startIndexMap, st3).
     bnd (readSignedVarInt S st3) (\<lambda>(indexVectorDim, st4).
     Inr (GatherDimensionNumbersAttr offsetDims collapsedSliceDims
       startIndexMap indexVectorDim, st4)))))"

definition stablehlo_writeGatherDimensionNumbersAttr ::
  "('b, 'a, 't) stream \<Rightarrow> int list \<Rightarrow> int list \<Rightarrow> int list \<Rightarrow> int \<Rightarrow> 'b list" where
  "stablehlo_writeGatherDimensionNumbersAttr S offsetDims collapsedSliceDims
     startIndexMap indexVectorDim =
     writeVarInt S stablehlo_kGatherDimensionNumbers @
     writeSignedVarInts S offsetDims @
     writeSignedVarInts S collapsedSliceDims @
     writeSignedVarInts S startIndexMap @
     writeSignedVarInt S indexVectorDim"

definition stablehlo_readOutputOperandAliasAttr :: "('b, 'a, 't) stream \<Rightarrow> 'b list \<Rightarrow> (precision hlo_attr \<times> 'b list) res" where
  "stablehlo_readOutputOperandAliasAttr S st =
     bnd (readSignedVarInts S st) (\<lambda>(outputTupleIndices, st1).
     bnd (readSignedVarInt S st1) (\<lambda>(operandIndex, st2).
     bnd (readSignedVarInts S st2) (\<lambda>(operandTupleIndices, st3).
     Inr (OutputOperandAliasAttr outputTupleIndices operandIndex operandTupleIndices, st3))))"

definition stablehlo_writeOutputOperandAliasAttr ::
  "('b, 'a, 't) stream \<Rightarrow> int list \<Rightarrow> int \<Rightarrow> int list \<Rightarrow> 'b list" where
  "stablehlo_writeOutputOperandAliasAttr S outputTupleIndices
     operandIndex operandTupleIndices =
     writeVarInt S stablehlo_kOutputOperandAlias @
     writeSignedVarInts S outputTupleIndices @
     writeSignedVarInt S operandIndex @
     writeSignedVarInts S operandTupleIndices"

definition stablehlo_readPrecisionAttr :: "('b, 'a, 't) stream \<Rightarrow> 'b list \<Rightarrow> (precision hlo_attr \<times> 'b list) res" where
  "stablehlo_readPrecisionAttr S st = readEnumAttribute S hlo_Precision PrecisionAttr st"

definition stablehlo_writePrecisionAttr :: "('b, 'a, 't) stream \<Rightarrow> precision \<Rightarrow> 'b list" where
  "stablehlo_writePrecisionAttr S v = writeVarInt S stablehlo_kPrecisionAttr @ writeEnumAttribute S hlo_Precision v"

definition stablehlo_readRngAlgorithmAttr :: "('b, 'a, 't) stream \<Rightarrow> 'b list \<Rightarrow> (precision hlo_attr \<times> 'b list) res" where
  "stablehlo_readRngAlgorithmAttr S st = readEnumAttribute S hlo_RngAlgorithm RngAlgorithmAttr st"

definition stablehlo_writeRngAlgorithmAttr :: "('b, 'a, 't) stream \<Rightarrow> rng_algorithm \<Rightarrow> 'b list" where
  "stablehlo_writeRngAlgorithmAttr S v = writeVarInt S stablehlo_kRngAlgorithmAttr @ writeEnumAttribute S hlo_RngAlgorithm v"

definition stablehlo_readRngDistributionAttr :: "('b, 'a, 't) stream \<Rightarrow> 'b list \<Rightarrow> (precision hlo_attr \<times> 'b list) res" where
  "stablehlo_readRngDistributionAttr S st = readEnumAttribute S hlo_RngDistribution RngDistributionAttr st"

definition stablehlo_writeRngDistributionAttr :: "('b, 'a, 't) stream \<Rightarrow> rng_distribution \<Rightarrow> 'b list" where
  "stablehlo_writeRngDistributionAttr S v = writeVarInt S stablehlo_kRngDistributionAttr @ writeEnumAttribute S hlo_RngDistribution v"

definition stablehlo_readScatterDimensionNumbersAttr :: "('b, 'a, 't) stream \<Rightarrow> 'b list \<Rightarrow> (precision hlo_attr \<times> 'b list) res" where
  "stablehlo_readScatterDimensionNumbersAttr S st =
     bnd (readSignedVarInts S st) (\<lambda>(updateWindowDims, st1).
     bnd (readSignedVarInts S st1) (\<lambda>(insertedWindowDims, st2).
     bnd (readSignedVarInts S st2) (\<lambda>(scatterDimsToOperandDims, st3).
     bnd (readSignedVarInt S st3) (\<lambda>(indexVectorDim, st4).
     Inr (ScatterDimensionNumbersAttr updateWindowDims insertedWindowDims
       scatterDimsToOperandDims indexVectorDim, st4)))))"

definition stablehlo_writeScatterDimensionNumbersAttr ::
  "('b, 'a, 't) stream \<Rightarrow> int list \<Rightarrow> int list \<Rightarrow> int list \<Rightarrow> int \<Rightarrow> 'b list" where
  "stablehlo_writeScatterDimensionNumbersAttr S updateWindowDims insertedWindowDims
     scatterDimsToOperandDims indexVectorDim =
     writeVarInt S stablehlo_kScatterDimensionNumbersAttr @
     writeSignedVarInts S updateWindowDims @
     writeSignedVarInts S insertedWindowDims @
     writeSignedVarInts S scatterDimsToOperandDims @
     writeSignedVarInt S indexVectorDim"

definition stablehlo_readTransposeAttr :: "('b, 'a, 't) stream \<Rightarrow> 'b list \<Rightarrow> (precision hlo_attr \<times> 'b list) res" where
  "stablehlo_readTransposeAttr S st = readEnumAttribute S hlo_Transpose TransposeAttr st"

definition stablehlo_writeTransposeAttr :: "('b, 'a, 't) stream \<Rightarrow> transpose \<Rightarrow> 'b list" where
  "stablehlo_writeTransposeAttr S v = writeVarInt S stablehlo_kTransposeAttr @ writeEnumAttribute S hlo_Transpose v"

definition stablehlo_readTypeExtensionsAttr :: "('b, 'a, 't) stream \<Rightarrow> 'b list \<Rightarrow> (precision hlo_attr \<times> 'b list) res" where
  "stablehlo_readTypeExtensionsAttr S st =
     bnd (readSignedVarInts S st) (\<lambda>(bounds, st1).
     Inr (TypeExtensionsAttr bounds, st1))"

definition stablehlo_writeTypeExtensionsAttr ::
  "('b, 'a, 't) stream \<Rightarrow> int list \<Rightarrow> 'b list" where
  "stablehlo_writeTypeExtensionsAttr S bounds =
     writeVarInt S stablehlo_kTypeExtensionsAttr @
     writeSignedVarInts S bounds"

definition stablehlo_readAttribute :: "('b, 'a, 't) stream \<Rightarrow> 'b list \<Rightarrow> (precision hlo_attr \<times> 'b list) res" where
  "stablehlo_readAttribute S st = bnd (readVarInt S st) (\<lambda>(code, st1).
     if code = stablehlo_kArgResultAliasAttr then stablehlo_readArgResultAliasAttr S st1
     else if code = stablehlo_kChannelHandleAttr then stablehlo_readChannelHandleAttr S st1
     else if code = stablehlo_kComparisonDirectionAttr then stablehlo_readComparisonDirectionAttr S st1
     else if code = stablehlo_kComparisonTypeAttr then stablehlo_readComparisonTypeAttr S st1
     else if code = stablehlo_kConvDimensionNumbersAttr then stablehlo_readConvDimensionNumbersAttr S st1
     else if code = stablehlo_kDotDimensionNumbers then stablehlo_readDotDimensionNumbersAttr S st1
     else if code = stablehlo_kFftTypeAttr then stablehlo_readFftTypeAttr S st1
     else if code = stablehlo_kGatherDimensionNumbers then stablehlo_readGatherDimensionNumbersAttr S st1
     else if code = stablehlo_kOutputOperandAlias then stablehlo_readOutputOperandAliasAttr S st1
     else if code = stablehlo_kPrecisionAttr then stablehlo_readPrecisionAttr S st1
     else if code = stablehlo_kRngAlgorithmAttr then stablehlo_readRngAlgorithmAttr S st1
     else if code = stablehlo_kRngDistributionAttr then stablehlo_readRngDistributionAttr S st1
     else if code = stablehlo_kScatterDimensionNumbersAttr then stablehlo_readScatterDimensionNumbersAttr S st1
     else if code = stablehlo_kTransposeAttr then stablehlo_readTransposeAttr S st1
     else if code = stablehlo_kTypeExtensionsAttr then stablehlo_readTypeExtensionsAttr S st1
     else Inl (Fatal ''unknown stablehlo attribute code''))"

fun stablehlo_writeAttribute :: "('b, 'a, 't) stream \<Rightarrow> precision hlo_attr \<Rightarrow> 'b list res" where
  "stablehlo_writeAttribute S (ArgResultAliasAttr a b c d) = Inr (stablehlo_writeArgResultAliasAttr S a b c d)"
| "stablehlo_writeAttribute S (ChannelHandleAttr a b) = Inr (stablehlo_writeChannelHandleAttr S a b)"
| "stablehlo_writeAttribute S (ComparisonDirectionAttr v) = Inr (stablehlo_writeComparisonDirectionAttr S v)"
| "stablehlo_writeAttribute S (ComparisonTypeAttr v) = Inr (stablehlo_writeComparisonTypeAttr S v)"
| "stablehlo_writeAttribute S (ConvDimensionNumbersAttr a b c d e f g h i) = Inr (stablehlo_writeConvDimensionNumbersAttr S a b c d e f g h i)"
| "stablehlo_writeAttribute S (DotDimensionNumbersAttr a b c d) = Inr (stablehlo_writeDotDimensionNumbersAttr S a b c d)"
| "stablehlo_writeAttribute S (FftTypeAttr v) = Inr (stablehlo_writeFftTypeAttr S v)"
| "stablehlo_writeAttribute S (GatherDimensionNumbersAttr a b c d) = Inr (stablehlo_writeGatherDimensionNumbersAttr S a b c d)"
| "stablehlo_writeAttribute S (OutputOperandAliasAttr a b c) = Inr (stablehlo_writeOutputOperandAliasAttr S a b c)"
| "stablehlo_writeAttribute S (PrecisionAttr v) = Inr (stablehlo_writePrecisionAttr S v)"
| "stablehlo_writeAttribute S (RngAlgorithmAttr v) = Inr (stablehlo_writeRngAlgorithmAttr S v)"
| "stablehlo_writeAttribute S (RngDistributionAttr v) = Inr (stablehlo_writeRngDistributionAttr S v)"
| "stablehlo_writeAttribute S (ScatterDimensionNumbersAttr a b c d) = Inr (stablehlo_writeScatterDimensionNumbersAttr S a b c d)"
| "stablehlo_writeAttribute S (TransposeAttr v) = Inr (stablehlo_writeTransposeAttr S v)"
| "stablehlo_writeAttribute S (TypeExtensionsAttr a) = Inr (stablehlo_writeTypeExtensionsAttr S a)"

section \<open>Types\<close>

definition stablehlo_readTokenType :: "('b, 'a, 't) stream \<Rightarrow> 'b list \<Rightarrow> ('t hlo_type \<times> 'b list) res" where
  "stablehlo_readTokenType S st = Inr (HloTokenType, st)"

definition stablehlo_writeTokenType :: "('b, 'a, 't) stream \<Rightarrow> 'b list" where
  "stablehlo_writeTokenType S = writeVarInt S stablehlo_kTokenType"

definition stablehlo_readType :: "('b, 'a, 't) stream \<Rightarrow> 'b list \<Rightarrow> ('t hlo_type \<times> 'b list) res" where
  "stablehlo_readType S st = bnd (readVarInt S st) (\<lambda>(code, st1).
     if code = stablehlo_kTokenType then stablehlo_readTokenType S st1
     else Inl (Fatal ''unknown builtin type code''))"

definition stablehlo_writeType :: "('b, 'a, 't) stream \<Rightarrow> 't hlo_type \<Rightarrow> 'b list res" where
  "stablehlo_writeType S type = (case type of
     HloTokenType \<Rightarrow> Inr (stablehlo_writeTokenType S)
   | _ \<Rightarrow> Inl (Fatal []))"

section \<open>Round trips\<close>

lemma stablehlo_attribute_back:
  assumes "stream_ok S" and "hlo_attr_ok a" and "stablehlo_writeAttribute S a = Inr bs"
  shows "stablehlo_readAttribute S (bs @ rest) = Inr (a, rest)"
  using assms
  by (cases "(S, a)" rule: stablehlo_writeAttribute.cases)
    (auto simp: stream_simps hlo_attr_ok_def stablehlo_readAttribute_def stablehlo_codes
      stablehlo_writeArgResultAliasAttr_def stablehlo_readArgResultAliasAttr_def
      stablehlo_writeChannelHandleAttr_def stablehlo_readChannelHandleAttr_def
      stablehlo_writeComparisonDirectionAttr_def stablehlo_readComparisonDirectionAttr_def
      stablehlo_writeComparisonTypeAttr_def stablehlo_readComparisonTypeAttr_def
      stablehlo_writeConvDimensionNumbersAttr_def stablehlo_readConvDimensionNumbersAttr_def
      stablehlo_writeDotDimensionNumbersAttr_def stablehlo_readDotDimensionNumbersAttr_def
      stablehlo_writeFftTypeAttr_def stablehlo_readFftTypeAttr_def
      stablehlo_writeGatherDimensionNumbersAttr_def stablehlo_readGatherDimensionNumbersAttr_def
      stablehlo_writeOutputOperandAliasAttr_def stablehlo_readOutputOperandAliasAttr_def
      stablehlo_writePrecisionAttr_def stablehlo_readPrecisionAttr_def
      stablehlo_writeRngAlgorithmAttr_def stablehlo_readRngAlgorithmAttr_def
      stablehlo_writeRngDistributionAttr_def stablehlo_readRngDistributionAttr_def
      stablehlo_writeScatterDimensionNumbersAttr_def stablehlo_readScatterDimensionNumbersAttr_def
      stablehlo_writeTransposeAttr_def stablehlo_readTransposeAttr_def
      stablehlo_writeTypeExtensionsAttr_def stablehlo_readTypeExtensionsAttr_def)

lemma stablehlo_attribute_written: "\<not> fails (stablehlo_writeAttribute S a)"
  by (cases a) auto

lemma stablehlo_type_back:
  assumes "stream_ok S" and "stablehlo_writeType S type = Inr bs"
  shows "stablehlo_readType S (bs @ rest) = Inr (type, rest)"
  using assms
  by (cases type) (auto simp: stream_simps stablehlo_writeType_def stablehlo_readType_def stablehlo_codes
      stablehlo_writeTokenType_def stablehlo_readTokenType_def)

end
