(* ===== verification/MhloBytecode.thy ===== *)
theory MhloBytecode
  imports StablehloBytecode
begin

text \<open>
  \<open>mhlo/IR/mhlo_bytecode.cc\<close>: the bytecode of the MHLO dialect. Four attribute classes have no
  encoding; their writer fails.
\<close>

section \<open>The numbers of the classes\<close>

definition mhlo_kArgResultAliasAttr :: nat where "mhlo_kArgResultAliasAttr = 0"
definition mhlo_kChannelHandleAttr :: nat where "mhlo_kChannelHandleAttr = 1"
definition mhlo_kComparisonDirectionAttr :: nat where "mhlo_kComparisonDirectionAttr = 2"
definition mhlo_kComparisonTypeAttr :: nat where "mhlo_kComparisonTypeAttr = 3"
definition mhlo_kConvDimensionNumbersAttr :: nat where "mhlo_kConvDimensionNumbersAttr = 4"
definition mhlo_kDotDimensionNumbers :: nat where "mhlo_kDotDimensionNumbers = 5"
definition mhlo_kFftTypeAttr :: nat where "mhlo_kFftTypeAttr = 6"
definition mhlo_kGatherDimensionNumbers :: nat where "mhlo_kGatherDimensionNumbers = 7"
definition mhlo_kPrecisionAttr :: nat where "mhlo_kPrecisionAttr = 8"
definition mhlo_kRngAlgorithmAttr :: nat where "mhlo_kRngAlgorithmAttr = 9"
definition mhlo_kRngDistributionAttr :: nat where "mhlo_kRngDistributionAttr = 10"
definition mhlo_kScatterDimensionNumbersAttr :: nat where "mhlo_kScatterDimensionNumbersAttr = 11"
definition mhlo_kTransposeAttr :: nat where "mhlo_kTransposeAttr = 12"
definition mhlo_kTypeExtensionsAttr :: nat where "mhlo_kTypeExtensionsAttr = 13"
definition mhlo_kDomainKindAttr :: nat where "mhlo_kDomainKindAttr = 14"
definition mhlo_kFusionKindAttr :: nat where "mhlo_kFusionKindAttr = 15"
definition mhlo_kOutputOperandAlias :: nat where "mhlo_kOutputOperandAlias = 16"

definition mhlo_kTokenType :: nat where "mhlo_kTokenType = 0"
definition mhlo_kAsyncBundleType :: nat where "mhlo_kAsyncBundleType = 1"

lemmas mhlo_codes =
  mhlo_kArgResultAliasAttr_def mhlo_kChannelHandleAttr_def mhlo_kComparisonDirectionAttr_def
  mhlo_kComparisonTypeAttr_def mhlo_kConvDimensionNumbersAttr_def mhlo_kDotDimensionNumbers_def
  mhlo_kFftTypeAttr_def mhlo_kGatherDimensionNumbers_def mhlo_kPrecisionAttr_def
  mhlo_kRngAlgorithmAttr_def mhlo_kRngDistributionAttr_def mhlo_kScatterDimensionNumbersAttr_def
  mhlo_kTransposeAttr_def mhlo_kTypeExtensionsAttr_def mhlo_kOutputOperandAlias_def
  mhlo_kDomainKindAttr_def mhlo_kFusionKindAttr_def mhlo_kTokenType_def
  mhlo_kAsyncBundleType_def

section \<open>Attributes\<close>

definition mhlo_readArgResultAliasAttr :: "('b, 'a, 't) stream \<Rightarrow> 'b list \<Rightarrow> (mhlo_attr \<times> 'b list) res" where
  "mhlo_readArgResultAliasAttr S st =
     bnd (readSignedVarInts S st) (\<lambda>(argTupleIndices, st1).
     bnd (readSignedVarInt S st1) (\<lambda>(resultIndex, st2).
     bnd (readSignedVarInts S st2) (\<lambda>(resultTupleIndices, st3).
     bnd (readVarInt S st3) (\<lambda>(isMustAliasUint, st4).
     Inr (HloAttr (ArgResultAliasAttr argTupleIndices resultIndex resultTupleIndices
       (isMustAliasUint \<noteq> 0)), st4)))))"

definition mhlo_writeArgResultAliasAttr ::
  "('b, 'a, 't) stream \<Rightarrow> int list \<Rightarrow> int \<Rightarrow> int list \<Rightarrow> bool \<Rightarrow> 'b list" where
  "mhlo_writeArgResultAliasAttr S argTupleIndices resultIndex
     resultTupleIndices isMustAlias =
     writeVarInt S mhlo_kArgResultAliasAttr @
     writeSignedVarInts S argTupleIndices @
     writeSignedVarInt S resultIndex @
     writeSignedVarInts S resultTupleIndices @
     writeVarInt S (if isMustAlias then 1 else 0)"

definition mhlo_readChannelHandleAttr :: "('b, 'a, 't) stream \<Rightarrow> 'b list \<Rightarrow> (mhlo_attr \<times> 'b list) res" where
  "mhlo_readChannelHandleAttr S st =
     bnd (readSignedVarInt S st) (\<lambda>(handle, st1).
     bnd (readSignedVarInt S st1) (\<lambda>(type, st2).
     Inr (HloAttr (ChannelHandleAttr handle type), st2)))"

definition mhlo_writeChannelHandleAttr ::
  "('b, 'a, 't) stream \<Rightarrow> int \<Rightarrow> int \<Rightarrow> 'b list" where
  "mhlo_writeChannelHandleAttr S handle type =
     writeVarInt S mhlo_kChannelHandleAttr @
     writeSignedVarInt S handle @
     writeSignedVarInt S type"

definition mhlo_readComparisonDirectionAttr :: "('b, 'a, 't) stream \<Rightarrow> 'b list \<Rightarrow> (mhlo_attr \<times> 'b list) res" where
  "mhlo_readComparisonDirectionAttr S st = readEnumAttribute S hlo_ComparisonDirection (\<lambda>v. HloAttr (ComparisonDirectionAttr v)) st"

definition mhlo_writeComparisonDirectionAttr :: "('b, 'a, 't) stream \<Rightarrow> comparison_direction \<Rightarrow> 'b list" where
  "mhlo_writeComparisonDirectionAttr S v = writeVarInt S mhlo_kComparisonDirectionAttr @ writeEnumAttribute S hlo_ComparisonDirection v"

definition mhlo_readComparisonTypeAttr :: "('b, 'a, 't) stream \<Rightarrow> 'b list \<Rightarrow> (mhlo_attr \<times> 'b list) res" where
  "mhlo_readComparisonTypeAttr S st = readEnumAttribute S hlo_ComparisonType (\<lambda>v. HloAttr (ComparisonTypeAttr v)) st"

definition mhlo_writeComparisonTypeAttr :: "('b, 'a, 't) stream \<Rightarrow> comparison_type \<Rightarrow> 'b list" where
  "mhlo_writeComparisonTypeAttr S v = writeVarInt S mhlo_kComparisonTypeAttr @ writeEnumAttribute S hlo_ComparisonType v"

definition mhlo_readConvDimensionNumbersAttr :: "('b, 'a, 't) stream \<Rightarrow> 'b list \<Rightarrow> (mhlo_attr \<times> 'b list) res" where
  "mhlo_readConvDimensionNumbersAttr S st =
     bnd (readSignedVarInt S st) (\<lambda>(inputBatchDimension, st1).
     bnd (readSignedVarInt S st1) (\<lambda>(inputFeatureDimension, st2).
     bnd (readSignedVarInts S st2) (\<lambda>(inputSpatialDimensions, st3).
     bnd (readSignedVarInt S st3) (\<lambda>(kernelInputFeatureDimension, st4).
     bnd (readSignedVarInt S st4) (\<lambda>(kernelOutputFeatureDimension, st5).
     bnd (readSignedVarInts S st5) (\<lambda>(kernelSpatialDimensions, st6).
     bnd (readSignedVarInt S st6) (\<lambda>(outputBatchDimension, st7).
     bnd (readSignedVarInt S st7) (\<lambda>(outputFeatureDimension, st8).
     bnd (readSignedVarInts S st8) (\<lambda>(outputSpatialDimensions, st9).
     Inr (HloAttr (ConvDimensionNumbersAttr inputBatchDimension inputFeatureDimension inputSpatialDimensions kernelInputFeatureDimension
       kernelOutputFeatureDimension kernelSpatialDimensions outputBatchDimension outputFeatureDimension outputSpatialDimensions), st9))))))))))"

definition mhlo_writeConvDimensionNumbersAttr ::
  "('b, 'a, 't) stream \<Rightarrow> int \<Rightarrow> int \<Rightarrow> int list \<Rightarrow> int \<Rightarrow> int \<Rightarrow> int list \<Rightarrow> int \<Rightarrow> int \<Rightarrow> int list \<Rightarrow> 'b list" where
  "mhlo_writeConvDimensionNumbersAttr S inputBatchDimension inputFeatureDimension inputSpatialDimensions kernelInputFeatureDimension
     kernelOutputFeatureDimension kernelSpatialDimensions outputBatchDimension outputFeatureDimension outputSpatialDimensions =
     writeVarInt S mhlo_kConvDimensionNumbersAttr @
     writeSignedVarInt S inputBatchDimension @
     writeSignedVarInt S inputFeatureDimension @
     writeSignedVarInts S inputSpatialDimensions @
     writeSignedVarInt S kernelInputFeatureDimension @
     writeSignedVarInt S kernelOutputFeatureDimension @
     writeSignedVarInts S kernelSpatialDimensions @
     writeSignedVarInt S outputBatchDimension @
     writeSignedVarInt S outputFeatureDimension @
     writeSignedVarInts S outputSpatialDimensions"

definition mhlo_readDotDimensionNumbersAttr :: "('b, 'a, 't) stream \<Rightarrow> 'b list \<Rightarrow> (mhlo_attr \<times> 'b list) res" where
  "mhlo_readDotDimensionNumbersAttr S st =
     bnd (readSignedVarInts S st) (\<lambda>(lhsBatchingDimensions, st1).
     bnd (readSignedVarInts S st1) (\<lambda>(rhsBatchingDimensions, st2).
     bnd (readSignedVarInts S st2) (\<lambda>(lhsContractingDimensions, st3).
     bnd (readSignedVarInts S st3) (\<lambda>(rhsContractingDimensions, st4).
     Inr (HloAttr (DotDimensionNumbersAttr lhsBatchingDimensions rhsBatchingDimensions
       lhsContractingDimensions rhsContractingDimensions), st4)))))"

definition mhlo_writeDotDimensionNumbersAttr ::
  "('b, 'a, 't) stream \<Rightarrow> int list \<Rightarrow> int list \<Rightarrow> int list \<Rightarrow> int list \<Rightarrow> 'b list" where
  "mhlo_writeDotDimensionNumbersAttr S lhsBatchingDimensions rhsBatchingDimensions
     lhsContractingDimensions rhsContractingDimensions =
     writeVarInt S mhlo_kDotDimensionNumbers @
     writeSignedVarInts S lhsBatchingDimensions @
     writeSignedVarInts S rhsBatchingDimensions @
     writeSignedVarInts S lhsContractingDimensions @
     writeSignedVarInts S rhsContractingDimensions"

definition mhlo_readFftTypeAttr :: "('b, 'a, 't) stream \<Rightarrow> 'b list \<Rightarrow> (mhlo_attr \<times> 'b list) res" where
  "mhlo_readFftTypeAttr S st = readEnumAttribute S hlo_FftType (\<lambda>v. HloAttr (FftTypeAttr v)) st"

definition mhlo_writeFftTypeAttr :: "('b, 'a, 't) stream \<Rightarrow> fft_type \<Rightarrow> 'b list" where
  "mhlo_writeFftTypeAttr S v = writeVarInt S mhlo_kFftTypeAttr @ writeEnumAttribute S hlo_FftType v"

definition mhlo_readGatherDimensionNumbersAttr :: "('b, 'a, 't) stream \<Rightarrow> 'b list \<Rightarrow> (mhlo_attr \<times> 'b list) res" where
  "mhlo_readGatherDimensionNumbersAttr S st =
     bnd (readSignedVarInts S st) (\<lambda>(offsetDims, st1).
     bnd (readSignedVarInts S st1) (\<lambda>(collapsedSliceDims, st2).
     bnd (readSignedVarInts S st2) (\<lambda>(startIndexMap, st3).
     bnd (readSignedVarInt S st3) (\<lambda>(indexVectorDim, st4).
     Inr (HloAttr (GatherDimensionNumbersAttr offsetDims collapsedSliceDims
       startIndexMap indexVectorDim), st4)))))"

definition mhlo_writeGatherDimensionNumbersAttr ::
  "('b, 'a, 't) stream \<Rightarrow> int list \<Rightarrow> int list \<Rightarrow> int list \<Rightarrow> int \<Rightarrow> 'b list" where
  "mhlo_writeGatherDimensionNumbersAttr S offsetDims collapsedSliceDims
     startIndexMap indexVectorDim =
     writeVarInt S mhlo_kGatherDimensionNumbers @
     writeSignedVarInts S offsetDims @
     writeSignedVarInts S collapsedSliceDims @
     writeSignedVarInts S startIndexMap @
     writeSignedVarInt S indexVectorDim"

definition mhlo_readOutputOperandAliasAttr :: "('b, 'a, 't) stream \<Rightarrow> 'b list \<Rightarrow> (mhlo_attr \<times> 'b list) res" where
  "mhlo_readOutputOperandAliasAttr S st =
     bnd (readSignedVarInts S st) (\<lambda>(outputTupleIndices, st1).
     bnd (readSignedVarInt S st1) (\<lambda>(operandIndex, st2).
     bnd (readSignedVarInts S st2) (\<lambda>(operandTupleIndices, st3).
     Inr (HloAttr (OutputOperandAliasAttr outputTupleIndices
       operandIndex operandTupleIndices), st3))))"

definition mhlo_writeOutputOperandAliasAttr ::
  "('b, 'a, 't) stream \<Rightarrow> int list \<Rightarrow> int \<Rightarrow> int list \<Rightarrow> 'b list" where
  "mhlo_writeOutputOperandAliasAttr S outputTupleIndices operandIndex operandTupleIndices =
     writeVarInt S mhlo_kOutputOperandAlias @
     writeSignedVarInts S outputTupleIndices @
     writeSignedVarInt S operandIndex @
     writeSignedVarInts S operandTupleIndices"

definition mhlo_readPrecisionAttr :: "('b, 'a, 't) stream \<Rightarrow> 'b list \<Rightarrow> (mhlo_attr \<times> 'b list) res" where
  "mhlo_readPrecisionAttr S st = readEnumAttribute S mhlo_Precision (\<lambda>v. HloAttr (PrecisionAttr v)) st"

definition mhlo_writePrecisionAttr :: "('b, 'a, 't) stream \<Rightarrow> mhlo_precision \<Rightarrow> 'b list" where
  "mhlo_writePrecisionAttr S v = writeVarInt S mhlo_kPrecisionAttr @ writeEnumAttribute S mhlo_Precision v"

definition mhlo_readRngAlgorithmAttr :: "('b, 'a, 't) stream \<Rightarrow> 'b list \<Rightarrow> (mhlo_attr \<times> 'b list) res" where
  "mhlo_readRngAlgorithmAttr S st = readEnumAttribute S hlo_RngAlgorithm (\<lambda>v. HloAttr (RngAlgorithmAttr v)) st"

definition mhlo_writeRngAlgorithmAttr :: "('b, 'a, 't) stream \<Rightarrow> rng_algorithm \<Rightarrow> 'b list" where
  "mhlo_writeRngAlgorithmAttr S v = writeVarInt S mhlo_kRngAlgorithmAttr @ writeEnumAttribute S hlo_RngAlgorithm v"

definition mhlo_readRngDistributionAttr :: "('b, 'a, 't) stream \<Rightarrow> 'b list \<Rightarrow> (mhlo_attr \<times> 'b list) res" where
  "mhlo_readRngDistributionAttr S st = readEnumAttribute S hlo_RngDistribution (\<lambda>v. HloAttr (RngDistributionAttr v)) st"

definition mhlo_writeRngDistributionAttr :: "('b, 'a, 't) stream \<Rightarrow> rng_distribution \<Rightarrow> 'b list" where
  "mhlo_writeRngDistributionAttr S v = writeVarInt S mhlo_kRngDistributionAttr @ writeEnumAttribute S hlo_RngDistribution v"

definition mhlo_readScatterDimensionNumbersAttr :: "('b, 'a, 't) stream \<Rightarrow> 'b list \<Rightarrow> (mhlo_attr \<times> 'b list) res" where
  "mhlo_readScatterDimensionNumbersAttr S st =
     bnd (readSignedVarInts S st) (\<lambda>(updateWindowDims, st1).
     bnd (readSignedVarInts S st1) (\<lambda>(insertedWindowDims, st2).
     bnd (readSignedVarInts S st2) (\<lambda>(scatterDimsToOperandDims, st3).
     bnd (readSignedVarInt S st3) (\<lambda>(indexVectorDim, st4).
     Inr (HloAttr (ScatterDimensionNumbersAttr updateWindowDims insertedWindowDims
       scatterDimsToOperandDims indexVectorDim), st4)))))"

definition mhlo_writeScatterDimensionNumbersAttr ::
  "('b, 'a, 't) stream \<Rightarrow> int list \<Rightarrow> int list \<Rightarrow> int list \<Rightarrow> int \<Rightarrow> 'b list" where
  "mhlo_writeScatterDimensionNumbersAttr S updateWindowDims insertedWindowDims
     scatterDimsToOperandDims indexVectorDim =
     writeVarInt S mhlo_kScatterDimensionNumbersAttr @
     writeSignedVarInts S updateWindowDims @
     writeSignedVarInts S insertedWindowDims @
     writeSignedVarInts S scatterDimsToOperandDims @
     writeSignedVarInt S indexVectorDim"

definition mhlo_readTransposeAttr :: "('b, 'a, 't) stream \<Rightarrow> 'b list \<Rightarrow> (mhlo_attr \<times> 'b list) res" where
  "mhlo_readTransposeAttr S st = readEnumAttribute S hlo_Transpose (\<lambda>v. HloAttr (TransposeAttr v)) st"

definition mhlo_writeTransposeAttr :: "('b, 'a, 't) stream \<Rightarrow> transpose \<Rightarrow> 'b list" where
  "mhlo_writeTransposeAttr S v = writeVarInt S mhlo_kTransposeAttr @ writeEnumAttribute S hlo_Transpose v"

definition mhlo_readTypeExtensionsAttr :: "('b, 'a, 't) stream \<Rightarrow> 'b list \<Rightarrow> (mhlo_attr \<times> 'b list) res" where
  "mhlo_readTypeExtensionsAttr S st =
     bnd (readSignedVarInts S st) (\<lambda>(bounds, st1).
     Inr (HloAttr (TypeExtensionsAttr bounds), st1))"

definition mhlo_writeTypeExtensionsAttr ::
  "('b, 'a, 't) stream \<Rightarrow> int list \<Rightarrow> 'b list" where
  "mhlo_writeTypeExtensionsAttr S bounds =
     writeVarInt S mhlo_kTypeExtensionsAttr @
     writeSignedVarInts S bounds"

definition mhlo_readDomainKindAttr :: "('b, 'a, 't) stream \<Rightarrow> 'b list \<Rightarrow> (mhlo_attr \<times> 'b list) res" where
  "mhlo_readDomainKindAttr S st = readEnumAttribute S mhlo_DomainKind DomainKindAttr st"

definition mhlo_writeDomainKindAttr :: "('b, 'a, 't) stream \<Rightarrow> domain_kind \<Rightarrow> 'b list" where
  "mhlo_writeDomainKindAttr S v = writeVarInt S mhlo_kDomainKindAttr @ writeEnumAttribute S mhlo_DomainKind v"

definition mhlo_readFusionKindAttr :: "('b, 'a, 't) stream \<Rightarrow> 'b list \<Rightarrow> (mhlo_attr \<times> 'b list) res" where
  "mhlo_readFusionKindAttr S st = readEnumAttribute S mhlo_FusionKind FusionKindAttr st"

definition mhlo_writeFusionKindAttr :: "('b, 'a, 't) stream \<Rightarrow> fusion_kind \<Rightarrow> 'b list" where
  "mhlo_writeFusionKindAttr S v = writeVarInt S mhlo_kFusionKindAttr @ writeEnumAttribute S mhlo_FusionKind v"

definition mhlo_readAttribute :: "('b, 'a, 't) stream \<Rightarrow> 'b list \<Rightarrow> (mhlo_attr \<times> 'b list) res" where
  "mhlo_readAttribute S st = bnd (readVarInt S st) (\<lambda>(code, st1).
     if code = mhlo_kArgResultAliasAttr then mhlo_readArgResultAliasAttr S st1
     else if code = mhlo_kChannelHandleAttr then mhlo_readChannelHandleAttr S st1
     else if code = mhlo_kComparisonDirectionAttr then mhlo_readComparisonDirectionAttr S st1
     else if code = mhlo_kComparisonTypeAttr then mhlo_readComparisonTypeAttr S st1
     else if code = mhlo_kConvDimensionNumbersAttr then mhlo_readConvDimensionNumbersAttr S st1
     else if code = mhlo_kDomainKindAttr then mhlo_readDomainKindAttr S st1
     else if code = mhlo_kDotDimensionNumbers then mhlo_readDotDimensionNumbersAttr S st1
     else if code = mhlo_kFftTypeAttr then mhlo_readFftTypeAttr S st1
     else if code = mhlo_kFusionKindAttr then mhlo_readFusionKindAttr S st1
     else if code = mhlo_kGatherDimensionNumbers then mhlo_readGatherDimensionNumbersAttr S st1
     else if code = mhlo_kOutputOperandAlias then mhlo_readOutputOperandAliasAttr S st1
     else if code = mhlo_kPrecisionAttr then mhlo_readPrecisionAttr S st1
     else if code = mhlo_kRngAlgorithmAttr then mhlo_readRngAlgorithmAttr S st1
     else if code = mhlo_kRngDistributionAttr then mhlo_readRngDistributionAttr S st1
     else if code = mhlo_kScatterDimensionNumbersAttr then mhlo_readScatterDimensionNumbersAttr S st1
     else if code = mhlo_kTransposeAttr then mhlo_readTransposeAttr S st1
     else if code = mhlo_kTypeExtensionsAttr then mhlo_readTypeExtensionsAttr S st1
     else Inl (Fatal ''unknown mhlo attribute code''))"

text \<open>A failure makes MLIR write the attribute as text.\<close>

fun mhlo_writeAttribute :: "('b, 'a, 't) stream \<Rightarrow> mhlo_attr \<Rightarrow> 'b list res" where
  "mhlo_writeAttribute S (HloAttr (ArgResultAliasAttr a b c d)) = Inr (mhlo_writeArgResultAliasAttr S a b c d)"
| "mhlo_writeAttribute S (HloAttr (ChannelHandleAttr a b)) = Inr (mhlo_writeChannelHandleAttr S a b)"
| "mhlo_writeAttribute S (HloAttr (ComparisonDirectionAttr v)) = Inr (mhlo_writeComparisonDirectionAttr S v)"
| "mhlo_writeAttribute S (HloAttr (ComparisonTypeAttr v)) = Inr (mhlo_writeComparisonTypeAttr S v)"
| "mhlo_writeAttribute S (HloAttr (ConvDimensionNumbersAttr a b c d e f g h i)) = Inr (mhlo_writeConvDimensionNumbersAttr S a b c d e f g h i)"
| "mhlo_writeAttribute S (HloAttr (DotDimensionNumbersAttr a b c d)) = Inr (mhlo_writeDotDimensionNumbersAttr S a b c d)"
| "mhlo_writeAttribute S (HloAttr (FftTypeAttr v)) = Inr (mhlo_writeFftTypeAttr S v)"
| "mhlo_writeAttribute S (HloAttr (GatherDimensionNumbersAttr a b c d)) = Inr (mhlo_writeGatherDimensionNumbersAttr S a b c d)"
| "mhlo_writeAttribute S (HloAttr (OutputOperandAliasAttr a b c)) = Inr (mhlo_writeOutputOperandAliasAttr S a b c)"
| "mhlo_writeAttribute S (HloAttr (PrecisionAttr v)) = Inr (mhlo_writePrecisionAttr S v)"
| "mhlo_writeAttribute S (HloAttr (RngAlgorithmAttr v)) = Inr (mhlo_writeRngAlgorithmAttr S v)"
| "mhlo_writeAttribute S (HloAttr (RngDistributionAttr v)) = Inr (mhlo_writeRngDistributionAttr S v)"
| "mhlo_writeAttribute S (HloAttr (ScatterDimensionNumbersAttr a b c d)) = Inr (mhlo_writeScatterDimensionNumbersAttr S a b c d)"
| "mhlo_writeAttribute S (HloAttr (TransposeAttr v)) = Inr (mhlo_writeTransposeAttr S v)"
| "mhlo_writeAttribute S (HloAttr (TypeExtensionsAttr a)) = Inr (mhlo_writeTypeExtensionsAttr S a)"
| "mhlo_writeAttribute S (DomainKindAttr v) = Inr (mhlo_writeDomainKindAttr S v)"
| "mhlo_writeAttribute S (FusionKindAttr v) = Inr (mhlo_writeFusionKindAttr S v)"
| "mhlo_writeAttribute S (UnwrittenAttr u) = Inl (Fatal [])"

section \<open>Types\<close>

definition mhlo_readAsyncBundleType :: "('b, 'a, 't) stream \<Rightarrow> 'b list \<Rightarrow> ('t hlo_type \<times> 'b list) res" where
  "mhlo_readAsyncBundleType S st =
     bnd (readTypes S st) (\<lambda>(types, st1). Inr (AsyncBundleType types, st1))"

definition mhlo_writeAsyncBundleType :: "('b, 'a, 't) stream \<Rightarrow> 't list \<Rightarrow> 'b list" where
  "mhlo_writeAsyncBundleType S types = writeVarInt S mhlo_kAsyncBundleType @ writeTypes S types"

definition mhlo_readTokenType :: "('b, 'a, 't) stream \<Rightarrow> 'b list \<Rightarrow> ('t hlo_type \<times> 'b list) res" where
  "mhlo_readTokenType S st = Inr (HloTokenType, st)"

definition mhlo_writeTokenType :: "('b, 'a, 't) stream \<Rightarrow> 'b list" where
  "mhlo_writeTokenType S = writeVarInt S mhlo_kTokenType"

definition mhlo_readType :: "('b, 'a, 't) stream \<Rightarrow> 'b list \<Rightarrow> ('t hlo_type \<times> 'b list) res" where
  "mhlo_readType S st = bnd (readVarInt S st) (\<lambda>(code, st1).
     if code = mhlo_kAsyncBundleType then mhlo_readAsyncBundleType S st1
     else if code = mhlo_kTokenType then mhlo_readTokenType S st1
     else Inl (Fatal ''unknown builtin type code''))"

definition mhlo_writeType :: "('b, 'a, 't) stream \<Rightarrow> 't hlo_type \<Rightarrow> 'b list res" where
  "mhlo_writeType S type = (case type of
     HloTokenType \<Rightarrow> Inr (mhlo_writeTokenType S)
   | AsyncBundleType ts \<Rightarrow> Inr (mhlo_writeAsyncBundleType S ts)
   | _ \<Rightarrow> Inl (Fatal []))"

section \<open>Round trips\<close>

lemma mhlo_attribute_back:
  assumes "stream_ok S" and "(\<forall>h. a = HloAttr h \<longrightarrow> hlo_attr_ok h)" and "mhlo_writeAttribute S a = Inr bs"
  shows "mhlo_readAttribute S (bs @ rest) = Inr (a, rest)"
  using assms
  by (cases "(S, a)" rule: mhlo_writeAttribute.cases)
    (auto simp: stream_simps hlo_attr_ok_def mhlo_readAttribute_def mhlo_codes
      mhlo_writeArgResultAliasAttr_def mhlo_readArgResultAliasAttr_def
      mhlo_writeChannelHandleAttr_def mhlo_readChannelHandleAttr_def
      mhlo_writeComparisonDirectionAttr_def mhlo_readComparisonDirectionAttr_def
      mhlo_writeComparisonTypeAttr_def mhlo_readComparisonTypeAttr_def
      mhlo_writeConvDimensionNumbersAttr_def mhlo_readConvDimensionNumbersAttr_def
      mhlo_writeDotDimensionNumbersAttr_def mhlo_readDotDimensionNumbersAttr_def
      mhlo_writeFftTypeAttr_def mhlo_readFftTypeAttr_def
      mhlo_writeGatherDimensionNumbersAttr_def mhlo_readGatherDimensionNumbersAttr_def
      mhlo_writeOutputOperandAliasAttr_def mhlo_readOutputOperandAliasAttr_def
      mhlo_writePrecisionAttr_def mhlo_readPrecisionAttr_def
      mhlo_writeRngAlgorithmAttr_def mhlo_readRngAlgorithmAttr_def
      mhlo_writeRngDistributionAttr_def mhlo_readRngDistributionAttr_def
      mhlo_writeScatterDimensionNumbersAttr_def mhlo_readScatterDimensionNumbersAttr_def
      mhlo_writeTransposeAttr_def mhlo_readTransposeAttr_def
      mhlo_writeTypeExtensionsAttr_def mhlo_readTypeExtensionsAttr_def
      mhlo_writeDomainKindAttr_def mhlo_readDomainKindAttr_def
      mhlo_writeFusionKindAttr_def mhlo_readFusionKindAttr_def)

lemma mhlo_attribute_written: "fails (mhlo_writeAttribute S a) \<longleftrightarrow> (\<exists>u. a = UnwrittenAttr u)"
  by (cases "(S, a)" rule: mhlo_writeAttribute.cases) auto

lemma mhlo_type_back:
  assumes "stream_ok S" and "mhlo_writeType S type = Inr bs"
  shows "mhlo_readType S (bs @ rest) = Inr (type, rest)"
  using assms
  by (cases type) (auto simp: stream_simps mhlo_writeType_def mhlo_readType_def mhlo_codes
      mhlo_writeTokenType_def mhlo_readTokenType_def mhlo_writeAsyncBundleType_def mhlo_readAsyncBundleType_def)

text \<open>
  \<open>stablehlo/dialect/ChloBytecode.cpp\<close>: the bytecode of the CHLO dialect, which has two enum
  attributes and no type of its own.
\<close>

definition chlo_kComparisonDirectionAttr :: nat where "chlo_kComparisonDirectionAttr = 0"
definition chlo_kComparisonTypeAttr :: nat where "chlo_kComparisonTypeAttr = 1"

definition chlo_readComparisonDirectionAttr ::
  "('b, 'a, 't) stream \<Rightarrow> 'b list \<Rightarrow> (chlo_attr \<times> 'b list) res" where
  "chlo_readComparisonDirectionAttr S st =
     readEnumAttribute S hlo_ComparisonDirection ChloComparisonDirectionAttr st"

definition chlo_readComparisonTypeAttr ::
  "('b, 'a, 't) stream \<Rightarrow> 'b list \<Rightarrow> (chlo_attr \<times> 'b list) res" where
  "chlo_readComparisonTypeAttr S st =
     readEnumAttribute S hlo_ComparisonType ChloComparisonTypeAttr st"

definition chlo_readAttribute :: "('b, 'a, 't) stream \<Rightarrow> 'b list \<Rightarrow> (chlo_attr \<times> 'b list) res" where
  "chlo_readAttribute S st = bnd (readVarInt S st) (\<lambda>(code, st1).
     if code = chlo_kComparisonDirectionAttr then chlo_readComparisonDirectionAttr S st1
     else if code = chlo_kComparisonTypeAttr then chlo_readComparisonTypeAttr S st1
     else Inl (Fatal ''unknown chlo attribute code''))"

definition chlo_writeComparisonDirectionAttr ::
  "('b, 'a, 't) stream \<Rightarrow> comparison_direction \<Rightarrow> 'b list" where
  "chlo_writeComparisonDirectionAttr S v =
     writeVarInt S chlo_kComparisonDirectionAttr @ writeEnumAttribute S hlo_ComparisonDirection v"

definition chlo_writeComparisonTypeAttr ::
  "('b, 'a, 't) stream \<Rightarrow> comparison_type \<Rightarrow> 'b list" where
  "chlo_writeComparisonTypeAttr S v =
     writeVarInt S chlo_kComparisonTypeAttr @ writeEnumAttribute S hlo_ComparisonType v"

fun chlo_writeAttribute :: "('b, 'a, 't) stream \<Rightarrow> chlo_attr \<Rightarrow> 'b list" where
  "chlo_writeAttribute S (ChloComparisonDirectionAttr v) = chlo_writeComparisonDirectionAttr S v"
| "chlo_writeAttribute S (ChloComparisonTypeAttr v) = chlo_writeComparisonTypeAttr S v"

text \<open>No type can be read or written.\<close>

definition chlo_readType :: "('b, 'a, 't) stream \<Rightarrow> 'b list \<Rightarrow> ('t hlo_type \<times> 'b list) res" where
  "chlo_readType S st = bnd (readVarInt S st) (\<lambda>(code, st1). Inl (Fatal ''unknown builtin type code''))"

definition chlo_writeType :: "('b, 'a, 't) stream \<Rightarrow> 't hlo_type \<Rightarrow> 'b list res" where
  "chlo_writeType S type = Inl (Fatal [])"

lemma chlo_attribute_back:
  "stream_ok S \<Longrightarrow> chlo_readAttribute S (chlo_writeAttribute S a @ rest) = Inr (a, rest)"
  by (cases a) (simp_all add: stream_simps chlo_readAttribute_def
      chlo_kComparisonDirectionAttr_def chlo_kComparisonTypeAttr_def
      chlo_readComparisonDirectionAttr_def chlo_readComparisonTypeAttr_def
      chlo_writeComparisonDirectionAttr_def chlo_writeComparisonTypeAttr_def)

end
