(* ===== verification/VhloLegalize.thy ===== *)
theory VhloLegalize
  imports StablehloBytecode "HOL-Library.List_Lexorder" "HOL-Library.Char_ord"
begin

text \<open>
  The conversion of StableHLO types and attributes to VHLO and back: \<open>dialect/VhloTypes.cpp\<close> and the
  generic parts of \<open>transforms/StablehloLegalizeToVhlo.cpp\<close> and
  \<open>transforms/VhloLegalizeToStablehlo.cpp\<close>.
\<close>

section \<open>Types and attributes of MLIR\<close>

text \<open>
  The builtin types and attributes, those of StableHLO and of VHLO, and the rest. A dictionary is sorted
  by its names (\<open>DictionaryAttr::get\<close>). A dense attribute has a shaped type and its raw data: the bytes
  of all elements, or of one when they are equal. \<open>BoolAttr\<close> is the integer attribute of type \<open>i1\<close>, and an
  API version is one of type \<open>i32\<close>.
\<close>

datatype (plugins only: code size) sty =
    IntegerTy signedness nat
  | IndexTy
  | FloatTy fsem
  | ComplexTy sty
  | FunctionTy "sty list" "sty list"
  | RankedTensorTy "int list" sty "sattr option"
  | UnrankedTensorTy sty
  | TupleTy "sty list"
  | UniformQuantizedTy nat sty sty dbl int int int
  | WitnessTy
  | NoneTy
  | HloTokenTy
  | VhloTy vty
  | OtherTy nat
and sattr =
    StablehloAttr "precision hlo_attr"
  | ArrayAttr "sattr list"
  | DenseElementsAttr sty "8 word list"
  | DictionaryAttr "(string \<times> sattr) list"
  | FloatAttr sty apfloat
  | IntegerAttr sty apint
  | StringAttr string sty
  | FlatSymbolRefAttr string
  | TypeAttr sty
  | UnitAttr
  | VhloAttr vattr
  | OtherAttr nat

abbreviation i1_ty :: sty where "i1_ty \<equiv> IntegerTy Signless 1"
abbreviation i32_ty :: sty where "i32_ty \<equiv> IntegerTy Signless 32"
abbreviation i64_ty :: sty where "i64_ty \<equiv> IntegerTy Signless 64"

definition null_attr :: "'a res" where
  "null_attr = Inl (Fatal ''null'')"

section \<open>To VHLO\<close>

definition convertBuiltinIntegerType :: "signedness \<Rightarrow> nat \<Rightarrow> vty res" where
  "convertBuiltinIntegerType s w =
     (if s \<noteq> Signless \<and> s \<noteq> Unsigned then null_attr
      else if w = 1 \<and> s = Signless then Inr (Simple BooleanV1Type)
      else let isSignless = s = Signless in
        if w = 4 then Inr (Simple (if isSignless then IntegerSI4V1Type else IntegerUI4V1Type))
        else if w = 8 then Inr (Simple (if isSignless then IntegerSI8V1Type else IntegerUI8V1Type))
        else if w = 16 then Inr (Simple (if isSignless then IntegerSI16V1Type else IntegerUI16V1Type))
        else if w = 32 then Inr (Simple (if isSignless then IntegerSI32V1Type else IntegerUI32V1Type))
        else if w = 64 then Inr (Simple (if isSignless then IntegerSI64V1Type else IntegerUI64V1Type))
        else null_attr)"

fun convertFloatType :: "fsem \<Rightarrow> vty res" where
  "convertFloatType BF16 = Inr (Simple FloatBF16V1Type)"
| "convertFloatType F16 = Inr (Simple FloatF16V1Type)"
| "convertFloatType F32 = Inr (Simple FloatF32V1Type)"
| "convertFloatType F64 = Inr (Simple FloatF64V1Type)"
| "convertFloatType F8E4M3FN = Inr (Simple FloatF8E4M3FNV1Type)"
| "convertFloatType F8E5M2 = Inr (Simple FloatF8E5M2V1Type)"
| "convertFloatType F8E4M3FNUZ = Inr (Simple FloatF8E4M3FNUZV1Type)"
| "convertFloatType F8E4M3B11FNUZ = Inr (Simple FloatF8E4M3B11FNUZV1Type)"
| "convertFloatType F8E5M2FNUZ = Inr (Simple FloatF8E5M2FNUZV1Type)"
| "convertFloatType _ = null_attr"

definition convertEncoding :: "sattr \<Rightarrow> vattr res" where
  "convertEncoding a = (case a of
     VhloAttr v \<Rightarrow> Inr v
   | StablehloAttr (TypeExtensionsAttr bounds) \<Rightarrow> Inr (TypeExtensionsV1Attr bounds)
   | _ \<Rightarrow> null_attr)"

text \<open>
  The conversion of a complex type does not look whether its element type was converted and makes a
  type without an element type; this is the result \<open>Undefined\<close>.
\<close>

fun to_vhlo_type :: "sty \<Rightarrow> vty res" where
  "to_vhlo_type (VhloTy v) = Inr v"
| "to_vhlo_type HloTokenTy = Inr (Simple TokenV1Type)"
| "to_vhlo_type (FloatTy s) = convertFloatType s"
| "to_vhlo_type (ComplexTy t) = (case to_vhlo_type t of Inl _ \<Rightarrow> Inl Undefined | Inr v \<Rightarrow> Inr (ComplexV1Type v))"
| "to_vhlo_type (FunctionTy ins outs) =
     bnd (mapM to_vhlo_type ins) (\<lambda>ins'. bnd (mapM to_vhlo_type outs) (\<lambda>outs'. Inr (FunctionV1Type ins' outs')))"
| "to_vhlo_type IndexTy = Inr (Simple IndexV1Type)"
| "to_vhlo_type (IntegerTy s w) = convertBuiltinIntegerType s w"
| "to_vhlo_type (RankedTensorTy sh t enc) =
     bnd (case enc of None \<Rightarrow> Inr None | Some a \<Rightarrow> bnd (convertEncoding a) (\<lambda>v. Inr (Some v))) (\<lambda>enc'.
     bnd (to_vhlo_type t) (\<lambda>t'. Inr (RankedTensorV1Type sh t' enc')))"
| "to_vhlo_type (TupleTy ts) = bnd (mapM to_vhlo_type ts) (\<lambda>ts'. Inr (TupleV1Type ts'))"
| "to_vhlo_type (UniformQuantizedTy flags st et scale zp smin smax) =
     bnd (to_vhlo_type st) (\<lambda>st'. bnd (to_vhlo_type et) (\<lambda>et'.
       Inr (UniformQuantizedV1Type flags st' et' (FpF64 scale) zp smin smax)))"
| "to_vhlo_type (UnrankedTensorTy t) = bnd (to_vhlo_type t) (\<lambda>t'. Inr (UnrankedTensorV1Type t'))"
| "to_vhlo_type WitnessTy = Inr (Simple WitnessV1Type)"
| "to_vhlo_type NoneTy = null_attr"
| "to_vhlo_type (OtherTy _) = null_attr"

text \<open>\<open>RETURN_CONVERTED_ENUM_ATTR\<close>: through the name of the case.\<close>

definition convert_enum :: "'e enum_table \<Rightarrow> 'e enum_table \<Rightarrow> ('e \<Rightarrow> 'x) \<Rightarrow> 'e \<Rightarrow> 'x res" where
  "convert_enum src target attr v =
     (case symbolize_name target (stringify src v) of None \<Rightarrow> null_attr | Some w \<Rightarrow> Inr (attr w))"

fun to_vhlo_attr :: "sattr \<Rightarrow> vattr res" where
  "to_vhlo_attr (StablehloAttr a) = (case a of
     ComparisonDirectionAttr v \<Rightarrow>
       convert_enum hlo_ComparisonDirection vhlo_ComparisonDirectionV1 ComparisonDirectionV1Attr v
   | ComparisonTypeAttr v \<Rightarrow> convert_enum hlo_ComparisonType vhlo_ComparisonTypeV1 ComparisonTypeV1Attr v
   | FftTypeAttr v \<Rightarrow> convert_enum hlo_FftType vhlo_FftTypeV1 FftTypeV1Attr v
   | OutputOperandAliasAttr os i is \<Rightarrow> Inr (OutputOperandAliasV1Attr os i is)
   | PrecisionAttr v \<Rightarrow> convert_enum hlo_Precision vhlo_PrecisionV1 PrecisionV1Attr v
   | RngAlgorithmAttr v \<Rightarrow> convert_enum hlo_RngAlgorithm vhlo_RngAlgorithmV1 RngAlgorithmV1Attr v
   | RngDistributionAttr v \<Rightarrow> convert_enum hlo_RngDistribution vhlo_RngDistributionV1 RngDistributionV1Attr v
   | TransposeAttr v \<Rightarrow> convert_enum hlo_Transpose vhlo_TransposeV1 TransposeV1Attr v
   | _ \<Rightarrow> null_attr)"
| "to_vhlo_attr (ArrayAttr as) = bnd (mapM to_vhlo_attr as) (\<lambda>vs. Inr (ArrayV1Attr vs))"
| "to_vhlo_attr (DenseElementsAttr t raw) = bnd (to_vhlo_type t) (\<lambda>t'. Inr (TensorV1Attr t' raw))"
| "to_vhlo_attr (DictionaryAttr es) =
     bnd (mapM (\<lambda>(name, a). bnd (to_vhlo_attr a) (\<lambda>v. Inr (StringV1Attr name, v))) es) (\<lambda>vs.
       Inr (DictionaryV1Attr vs))"
| "to_vhlo_attr (FloatAttr t x) = bnd (to_vhlo_type t) (\<lambda>t'. Inr (FloatV1Attr t' x))"
| "to_vhlo_attr (IntegerAttr t i) =
     (if t = i1_ty then Inr (BooleanV1Attr (uval i \<noteq> 0))
      else bnd (to_vhlo_type t) (\<lambda>t'. Inr (IntegerV1Attr t' i)))"
| "to_vhlo_attr (StringAttr s t) = (if t \<noteq> NoneTy then null_attr else Inr (StringV1Attr s))"
| "to_vhlo_attr (TypeAttr t) = bnd (to_vhlo_type t) (\<lambda>t'. Inr (TypeV1Attr t'))"
| "to_vhlo_attr (FlatSymbolRefAttr _) = null_attr"
| "to_vhlo_attr UnitAttr = null_attr"
| "to_vhlo_attr (VhloAttr _) = null_attr"
| "to_vhlo_attr (OtherAttr _) = null_attr"

section \<open>From VHLO\<close>

definition convertEncoding_back :: "vattr \<Rightarrow> sattr" where
  "convertEncoding_back v = (case v of
     TypeExtensionsV1Attr bounds \<Rightarrow> StablehloAttr (TypeExtensionsAttr bounds)
   | _ \<Rightarrow> VhloAttr v)"

fun from_vhlo_simple :: "simple_type \<Rightarrow> sty" where
  "from_vhlo_simple BooleanV1Type = i1_ty"
| "from_vhlo_simple FloatBF16V1Type = FloatTy BF16"
| "from_vhlo_simple FloatF16V1Type = FloatTy F16"
| "from_vhlo_simple FloatF32V1Type = FloatTy F32"
| "from_vhlo_simple FloatF64V1Type = FloatTy F64"
| "from_vhlo_simple FloatF8E4M3FNV1Type = FloatTy F8E4M3FN"
| "from_vhlo_simple FloatF8E5M2V1Type = FloatTy F8E5M2"
| "from_vhlo_simple FloatF8E4M3FNUZV1Type = FloatTy F8E4M3FNUZ"
| "from_vhlo_simple FloatF8E4M3B11FNUZV1Type = FloatTy F8E4M3B11FNUZ"
| "from_vhlo_simple FloatF8E5M2FNUZV1Type = FloatTy F8E5M2FNUZ"
| "from_vhlo_simple IndexV1Type = IndexTy"
| "from_vhlo_simple IntegerSI4V1Type = IntegerTy Signless 4"
| "from_vhlo_simple IntegerSI8V1Type = IntegerTy Signless 8"
| "from_vhlo_simple IntegerSI16V1Type = IntegerTy Signless 16"
| "from_vhlo_simple IntegerSI32V1Type = IntegerTy Signless 32"
| "from_vhlo_simple IntegerSI64V1Type = IntegerTy Signless 64"
| "from_vhlo_simple IntegerUI4V1Type = IntegerTy Unsigned 4"
| "from_vhlo_simple IntegerUI8V1Type = IntegerTy Unsigned 8"
| "from_vhlo_simple IntegerUI16V1Type = IntegerTy Unsigned 16"
| "from_vhlo_simple IntegerUI32V1Type = IntegerTy Unsigned 32"
| "from_vhlo_simple IntegerUI64V1Type = IntegerTy Unsigned 64"
| "from_vhlo_simple TokenV1Type = HloTokenTy"
| "from_vhlo_simple WitnessV1Type = WitnessTy"

text \<open>Every type of VHLO has a counterpart, so no conversion of an element type fails.\<close>

fun from_vhlo_type :: "lib \<Rightarrow> vty \<Rightarrow> sty" where
  "from_vhlo_type L (Simple s) = from_vhlo_simple s"
| "from_vhlo_type L (ComplexV1Type t) = ComplexTy (from_vhlo_type L t)"
| "from_vhlo_type L (FunctionV1Type ins outs) = FunctionTy (map (from_vhlo_type L) ins) (map (from_vhlo_type L) outs)"
| "from_vhlo_type L (RankedTensorV1Type sh t enc) =
     RankedTensorTy sh (from_vhlo_type L t) (map_option convertEncoding_back enc)"
| "from_vhlo_type L (TupleV1Type ts) = TupleTy (map (from_vhlo_type L) ts)"
| "from_vhlo_type L (UniformQuantizedV1Type flags st et scale zp smin smax) =
     UniformQuantizedTy flags (from_vhlo_type L st) (from_vhlo_type L et) (fl_to_double L scale) zp smin smax"
| "from_vhlo_type L (UnrankedTensorV1Type t) = UnrankedTensorTy (from_vhlo_type L t)"

text \<open>\<open>FloatAttr::get\<close> of a \<open>double\<close>, and \<open>DictionaryAttr::get\<close>.\<close>

definition FloatAttr_get :: "lib \<Rightarrow> sty \<Rightarrow> dbl \<Rightarrow> sattr" where
  "FloatAttr_get L t d = FloatAttr t (case t of
     FloatTy s \<Rightarrow> if s = F64 then FpF64 d else fl_convert L s (FpF64 d)
   | _ \<Rightarrow> FpF64 d)"

definition DictionaryAttr_get :: "(string \<times> sattr) list \<Rightarrow> sattr" where
  "DictionaryAttr_get es = DictionaryAttr (sort_key fst es)"

definition api_version_attr :: "api_version \<Rightarrow> sattr" where
  "api_version_attr v = IntegerAttr i32_ty (APInt 32 (int (code_of hlo_CustomCallApiVersion v)))"

text \<open>
  A tensor of a type that is not a shaped one violates a \<open>cast\<close> (\<open>Undefined\<close>), and a dense attribute
  needs a ranked type.
\<close>

fun from_vhlo_attr :: "lib \<Rightarrow> vattr \<Rightarrow> sattr res" where
  "from_vhlo_attr L (ArrayV1Attr vs) = bnd (mapM (from_vhlo_attr L) vs) (\<lambda>as. Inr (ArrayAttr as))"
| "from_vhlo_attr L (BooleanV1Attr b) = Inr (IntegerAttr i1_ty (APInt 1 (if b then 1 else 0)))"
| "from_vhlo_attr L (ComparisonDirectionV1Attr v) =
     convert_enum vhlo_ComparisonDirectionV1 hlo_ComparisonDirection (StablehloAttr \<circ> ComparisonDirectionAttr) v"
| "from_vhlo_attr L (ComparisonTypeV1Attr v) =
     convert_enum vhlo_ComparisonTypeV1 hlo_ComparisonType (StablehloAttr \<circ> ComparisonTypeAttr) v"
| "from_vhlo_attr L (CustomCallApiVersionV1Attr v) =
     convert_enum vhlo_CustomCallApiVersionV1 hlo_CustomCallApiVersion api_version_attr v"
| "from_vhlo_attr L (DictionaryV1Attr es) =
     bnd (mapM (\<lambda>(n, v). bnd (from_vhlo_attr L n) (\<lambda>n'. bnd (from_vhlo_attr L v) (\<lambda>v'.
       case n' of StringAttr name _ \<Rightarrow> Inr (name, v') | _ \<Rightarrow> null_attr))) es) (\<lambda>as. Inr (DictionaryAttr_get as))"
| "from_vhlo_attr L (FftTypeV1Attr v) = convert_enum vhlo_FftTypeV1 hlo_FftType (StablehloAttr \<circ> FftTypeAttr) v"
| "from_vhlo_attr L (FloatV1Attr t x) = Inr (FloatAttr_get L (from_vhlo_type L t) (fl_to_double L x))"
| "from_vhlo_attr L (IntegerV1Attr t i) = Inr (IntegerAttr (from_vhlo_type L t) i)"
| "from_vhlo_attr L (OutputOperandAliasV1Attr os i is) = Inr (StablehloAttr (OutputOperandAliasAttr os i is))"
| "from_vhlo_attr L (PrecisionV1Attr v) = convert_enum vhlo_PrecisionV1 hlo_Precision (StablehloAttr \<circ> PrecisionAttr) v"
| "from_vhlo_attr L (RngAlgorithmV1Attr v) =
     convert_enum vhlo_RngAlgorithmV1 hlo_RngAlgorithm (StablehloAttr \<circ> RngAlgorithmAttr) v"
| "from_vhlo_attr L (RngDistributionV1Attr v) =
     convert_enum vhlo_RngDistributionV1 hlo_RngDistribution (StablehloAttr \<circ> RngDistributionAttr) v"
| "from_vhlo_attr L (StringV1Attr s) = Inr (StringAttr s NoneTy)"
| "from_vhlo_attr L (TensorV1Attr t raw) = (case from_vhlo_type L t of
     RankedTensorTy sh et enc \<Rightarrow> Inr (DenseElementsAttr (RankedTensorTy sh et enc) raw)
   | _ \<Rightarrow> Inl Undefined)"
| "from_vhlo_attr L (TransposeV1Attr v) = convert_enum vhlo_TransposeV1 hlo_Transpose (StablehloAttr \<circ> TransposeAttr) v"
| "from_vhlo_attr L (TypeV1Attr t) = Inr (TypeAttr (from_vhlo_type L t))"
| "from_vhlo_attr L (ArgResultAliasV1Attr _ _ _ _) = null_attr"
| "from_vhlo_attr L (TypeExtensionsV1Attr _) = null_attr"

section \<open>Types go back and forth\<close>

text \<open>Types and attributes without parts of VHLO.\<close>

fun vhlo_free :: "sty \<Rightarrow> bool" where
  "vhlo_free (VhloTy _) = False"
| "vhlo_free (ComplexTy t) = vhlo_free t"
| "vhlo_free (FunctionTy ins outs) = ((\<forall>t \<in> set ins. vhlo_free t) \<and> (\<forall>t \<in> set outs. vhlo_free t))"
| "vhlo_free (RankedTensorTy sh t enc) = (vhlo_free t \<and> (\<forall>v. enc \<noteq> Some (VhloAttr v)))"
| "vhlo_free (UnrankedTensorTy t) = vhlo_free t"
| "vhlo_free (TupleTy ts) = (\<forall>t \<in> set ts. vhlo_free t)"
| "vhlo_free (UniformQuantizedTy _ st et _ _ _ _) = (vhlo_free st \<and> vhlo_free et)"
| "vhlo_free _ = True"

text \<open>The types with a counterpart in VHLO.\<close>

fun int_counterpart :: "signedness \<Rightarrow> nat \<Rightarrow> bool" where
  "int_counterpart s w \<longleftrightarrow> s \<noteq> Signed \<and> w \<in> {4, 8, 16, 32, 64} \<or> s = Signless \<and> w = 1"

fun has_counterpart :: "sty \<Rightarrow> bool" where
  "has_counterpart (IntegerTy s w) = int_counterpart s w"
| "has_counterpart (FloatTy s) = (s \<noteq> F80 \<and> s \<noteq> F128)"
| "has_counterpart (ComplexTy t) = has_counterpart t"
| "has_counterpart (FunctionTy ins outs) = ((\<forall>t \<in> set ins. has_counterpart t) \<and> (\<forall>t \<in> set outs. has_counterpart t))"
| "has_counterpart (RankedTensorTy sh t enc) = (has_counterpart t \<and>
     (case enc of None \<Rightarrow> True | Some (VhloAttr _) \<Rightarrow> True | Some (StablehloAttr (TypeExtensionsAttr _)) \<Rightarrow> True | _ \<Rightarrow> False))"
| "has_counterpart (UnrankedTensorTy t) = has_counterpart t"
| "has_counterpart (TupleTy ts) = (\<forall>t \<in> set ts. has_counterpart t)"
| "has_counterpart (UniformQuantizedTy _ st et _ _ _ _) = (has_counterpart st \<and> has_counterpart et)"
| "has_counterpart NoneTy = False"
| "has_counterpart (OtherTy _) = False"
| "has_counterpart _ = True"

lemma mapM_Inr_iff: "(\<exists>ys. mapM f xs = Inr ys) \<longleftrightarrow> (\<forall>x \<in> set xs. \<exists>y. f x = Inr y)"
  by (induction xs) (auto simp: bnd_eq_Inr)

lemma convertEncoding_Inr:
  "convertEncoding a = Inr v \<longleftrightarrow> a = VhloAttr v \<or> (\<exists>b. a = StablehloAttr (TypeExtensionsAttr b) \<and> v = TypeExtensionsV1Attr b)"
  by (auto simp: convertEncoding_def null_attr_def split: sattr.splits hlo_attr.splits)

lemma convertFloatType_Inr: "(\<exists>v. convertFloatType s = Inr v) \<longleftrightarrow> s \<noteq> F80 \<and> s \<noteq> F128"
  by (cases s) (simp_all add: null_attr_def)

lemma to_vhlo_type_defined: "(\<exists>v. to_vhlo_type t = Inr v) \<longleftrightarrow> has_counterpart t"
proof (induction t rule: to_vhlo_type.induct)
  case (4 t)
  then show ?case by (auto split: sum.splits)
next
  case (5 ins outs)
  have "(\<exists>v. to_vhlo_type (FunctionTy ins outs) = Inr v) \<longleftrightarrow>
      (\<exists>x. mapM to_vhlo_type ins = Inr x) \<and> (\<exists>x. mapM to_vhlo_type outs = Inr x)"
    by (auto simp: bnd_eq_Inr)
  also have "\<dots> \<longleftrightarrow> (\<exists>x. mapM to_vhlo_type ins = Inr x) \<and> (\<forall>t \<in> set outs. has_counterpart t)"
  proof -
    have "(\<exists>y. mapM to_vhlo_type outs = Inr y) \<longleftrightarrow> (\<forall>t \<in> set outs. has_counterpart t)"
      if "mapM to_vhlo_type ins = Inr x" for x
      using 5(2) [OF that] by (simp add: mapM_Inr_iff)
    then show ?thesis by blast
  qed
  also have "\<dots> \<longleftrightarrow> has_counterpart (FunctionTy ins outs)"
    using 5(1) by (simp add: mapM_Inr_iff)
  finally show ?case .
next
  case (7 s w)
  then show ?case by (cases s) (auto simp: convertBuiltinIntegerType_def null_attr_def Let_def)
next
  case (8 sh t enc)
  let ?e = "case enc of None \<Rightarrow> Inr None | Some a \<Rightarrow> bnd (convertEncoding a) (\<lambda>v. Inr (Some v))"
  have "(\<exists>e. (case enc of None \<Rightarrow> Inr None | Some a \<Rightarrow> bnd (convertEncoding a) (\<lambda>v. Inr (Some v))) = Inr e) \<longleftrightarrow>
      (case enc of None \<Rightarrow> True | Some (VhloAttr _) \<Rightarrow> True | Some (StablehloAttr (TypeExtensionsAttr _)) \<Rightarrow> True | _ \<Rightarrow> False)"
    by (auto simp: bnd_eq_Inr convertEncoding_Inr split: option.splits sattr.splits hlo_attr.splits)
  moreover have "(\<exists>v. to_vhlo_type (RankedTensorTy sh t enc) = Inr v) \<longleftrightarrow>
      (\<exists>e. ?e = Inr e) \<and> (\<exists>v. to_vhlo_type t = Inr v)" by (auto simp: bnd_eq_Inr)
  moreover have "(\<exists>v. to_vhlo_type t = Inr v) \<longleftrightarrow> has_counterpart t" if "?e = Inr e" for e using 8 [OF that] .
  ultimately show ?case by auto
qed (auto simp: bnd_eq_Inr mapM_Inr_iff convertFloatType_Inr null_attr_def)

lemma from_to_integer: "convertBuiltinIntegerType s w = Inr v \<Longrightarrow> from_vhlo_type L v = IntegerTy s w"
  by (cases s) (auto simp: convertBuiltinIntegerType_def null_attr_def Let_def split: if_splits)

lemma from_to_float: "convertFloatType s = Inr v \<Longrightarrow> from_vhlo_type L v = FloatTy s"
  by (cases s) (auto simp: null_attr_def)

lemma mapM_back: "mapM f xs = Inr ys \<Longrightarrow> (\<And>x y. x \<in> set xs \<Longrightarrow> f x = Inr y \<Longrightarrow> g y = x) \<Longrightarrow> map g ys = xs"
  by (induction xs arbitrary: ys) (auto simp: bnd_eq_Inr)

lemma from_to_type:
  assumes "lib_ok L"
  shows "to_vhlo_type t = Inr v \<Longrightarrow> vhlo_free t \<Longrightarrow> from_vhlo_type L v = t"
proof (induction t arbitrary: v rule: to_vhlo_type.induct)
  case (4 t)
  then show ?case by (auto split: sum.splits)
next
  case (5 ins outs)
  then show ?case by (auto simp: bnd_eq_Inr intro!: mapM_back)
next
  case (8 sh t enc)
  then show ?case by (auto simp: bnd_eq_Inr convertEncoding_Inr convertEncoding_back_def split: option.splits)
next
  case (9 ts)
  then show ?case by (auto simp: bnd_eq_Inr intro!: mapM_back)
qed (use assms in \<open>auto simp: bnd_eq_Inr null_attr_def from_to_integer from_to_float lib_ok_def\<close>)

text \<open>Types of VHLO whose scales are of type \<open>double\<close>.\<close>

fun double_scales :: "vty \<Rightarrow> bool" where
  "double_scales (ComplexV1Type t) = double_scales t"
| "double_scales (FunctionV1Type ins outs) = ((\<forall>t \<in> set ins. double_scales t) \<and> (\<forall>t \<in> set outs. double_scales t))"
| "double_scales (RankedTensorV1Type sh t enc) = double_scales t"
| "double_scales (TupleV1Type ts) = (\<forall>t \<in> set ts. double_scales t)"
| "double_scales (UniformQuantizedV1Type _ st et scale _ _ _) = (fl_sem scale = F64 \<and> double_scales st \<and> double_scales et)"
| "double_scales (UnrankedTensorV1Type t) = double_scales t"
| "double_scales _ = True"

lemma encoding_back: "convertEncoding (convertEncoding_back v) = Inr v"
  by (cases v) (simp_all add: convertEncoding_def convertEncoding_back_def)

lemma mapM_forth: "(\<And>x. x \<in> set xs \<Longrightarrow> f (g x) = Inr x) \<Longrightarrow> mapM f (map g xs) = Inr xs"
  by (induction xs) auto

lemma to_from_simple: "to_vhlo_type (from_vhlo_simple s) = Inr (Simple s)"
  by (cases s) (simp_all add: convertBuiltinIntegerType_def)

lemma to_from_type: "lib_ok L \<Longrightarrow> double_scales v \<Longrightarrow> to_vhlo_type (from_vhlo_type L v) = Inr v"
proof (induction L v rule: from_vhlo_type.induct)
  case (6 L flags st et scale zp smin smax)
  then show ?case by (cases scale) (auto simp: lib_ok_def)
qed (auto simp: to_from_simple encoding_back mapM_forth split: option.splits)

section \<open>Attributes go back and forth\<close>

text \<open>
  Attributes without parts of VHLO, with values in the range of their types: a float that is the
  same after it was read as a \<open>double\<close> (every one but a signaling not-a-number), a boolean of one bit, a
  dense attribute of a ranked type of a static shape, a sorted dictionary.
\<close>

fun sattr_ok :: "lib \<Rightarrow> sattr \<Rightarrow> bool" where
  "sattr_ok L (ArrayAttr as) = (\<forall>a \<in> set as. sattr_ok L a)"
| "sattr_ok L (DenseElementsAttr t raw) = (vhlo_free t \<and>
     (\<exists>sh et enc. t = RankedTensorTy sh et enc \<and> (\<forall>d \<in> set sh. 0 \<le> d)))"
| "sattr_ok L (DictionaryAttr es) = (sorted (map fst es) \<and> (\<forall>e \<in> set es. sattr_ok L (snd e)))"
| "sattr_ok L (FloatAttr t x) = (vhlo_free t \<and> FloatAttr_get L t (fl_to_double L x) = FloatAttr t x)"
| "sattr_ok L (IntegerAttr t i) = (vhlo_free t \<and> (t = i1_ty \<longrightarrow> wf_apint i \<and> ap_width i = 1))"
| "sattr_ok L (TypeAttr t) = vhlo_free t"
| "sattr_ok L (VhloAttr _) = False"
| "sattr_ok L _ = True"

lemma convert_enum_ok:
  assumes "enum_ok src" and "enum_ok target" and "\<And>v. stringify src v = stringify target v"
  shows "convert_enum src target attr v = Inr (attr v)"
  using assms(2) unfolding convert_enum_def assms(3) enum_ok_def by simp

lemma same_names:
  "stringify hlo_ComparisonDirection v1 = stringify vhlo_ComparisonDirectionV1 v1"
  "stringify hlo_ComparisonType v2 = stringify vhlo_ComparisonTypeV1 v2"
  "stringify hlo_CustomCallApiVersion v3 = stringify vhlo_CustomCallApiVersionV1 v3"
  "stringify hlo_FftType v4 = stringify vhlo_FftTypeV1 v4"
  "stringify hlo_Precision v5 = stringify vhlo_PrecisionV1 v5"
  "stringify hlo_RngAlgorithm v6 = stringify vhlo_RngAlgorithmV1 v6"
  "stringify hlo_RngDistribution v7 = stringify vhlo_RngDistributionV1 v7"
  "stringify hlo_Transpose v8 = stringify vhlo_TransposeV1 v8"
  by (simp_all add: hlo_ComparisonDirection_def vhlo_ComparisonDirectionV1_def hlo_ComparisonType_def
      vhlo_ComparisonTypeV1_def hlo_CustomCallApiVersion_def vhlo_CustomCallApiVersionV1_def hlo_FftType_def
      vhlo_FftTypeV1_def hlo_Precision_def vhlo_PrecisionV1_def hlo_RngAlgorithm_def vhlo_RngAlgorithmV1_def
      hlo_RngDistribution_def vhlo_RngDistributionV1_def hlo_Transpose_def vhlo_TransposeV1_def)

lemma convert_enums [simp]:
  "convert_enum hlo_ComparisonDirection vhlo_ComparisonDirectionV1 a1 v1 = Inr (a1 v1)"
  "convert_enum hlo_ComparisonType vhlo_ComparisonTypeV1 a2 v2 = Inr (a2 v2)"
  "convert_enum hlo_CustomCallApiVersion vhlo_CustomCallApiVersionV1 a3 v3 = Inr (a3 v3)"
  "convert_enum hlo_FftType vhlo_FftTypeV1 a4 v4 = Inr (a4 v4)"
  "convert_enum hlo_Precision vhlo_PrecisionV1 a5 v5 = Inr (a5 v5)"
  "convert_enum hlo_RngAlgorithm vhlo_RngAlgorithmV1 a6 v6 = Inr (a6 v6)"
  "convert_enum hlo_RngDistribution vhlo_RngDistributionV1 a7 v7 = Inr (a7 v7)"
  "convert_enum hlo_Transpose vhlo_TransposeV1 a8 v8 = Inr (a8 v8)"
  "convert_enum vhlo_ComparisonDirectionV1 hlo_ComparisonDirection b1 v1 = Inr (b1 v1)"
  "convert_enum vhlo_ComparisonTypeV1 hlo_ComparisonType b2 v2 = Inr (b2 v2)"
  "convert_enum vhlo_CustomCallApiVersionV1 hlo_CustomCallApiVersion b3 v3 = Inr (b3 v3)"
  "convert_enum vhlo_FftTypeV1 hlo_FftType b4 v4 = Inr (b4 v4)"
  "convert_enum vhlo_PrecisionV1 hlo_Precision b5 v5 = Inr (b5 v5)"
  "convert_enum vhlo_RngAlgorithmV1 hlo_RngAlgorithm b6 v6 = Inr (b6 v6)"
  "convert_enum vhlo_RngDistributionV1 hlo_RngDistribution b7 v7 = Inr (b7 v7)"
  "convert_enum vhlo_TransposeV1 hlo_Transpose b8 v8 = Inr (b8 v8)"
  by (rule convert_enum_ok; simp add: same_names)+

lemma mapM_round:
  assumes "mapM f xs = Inr ys" and "\<And>x y. x \<in> set xs \<Longrightarrow> f x = Inr y \<Longrightarrow> g y = Inr x"
  shows "mapM g ys = Inr xs"
  using assms by (induction xs arbitrary: ys) (auto simp: bnd_eq_Inr)

lemma sort_key_sorted: "sorted (map f xs) \<Longrightarrow> sort_key f xs = xs"
proof (induction xs)
  case (Cons x xs)
  then show ?case by (cases xs) auto
qed simp

lemma bool_word: "wf_apint i \<Longrightarrow> ap_width i = 1 \<Longrightarrow> APInt 1 (if uval i \<noteq> 0 then 1 else 0) = i"
  by (cases i) (auto simp: wf_apint_def)

lemma from_to_attr:
  assumes "lib_ok L"
  shows "to_vhlo_attr a = Inr v \<Longrightarrow> sattr_ok L a \<Longrightarrow> from_vhlo_attr L v = Inr a"
proof (induction a arbitrary: v rule: to_vhlo_attr.induct)
  case (1 a)
  then show ?case by (cases a) (auto simp: null_attr_def)
next
  case (2 as)
  then obtain vs where vs: "mapM to_vhlo_attr as = Inr vs" "v = ArrayV1Attr vs" by (auto simp: bnd_eq_Inr)
  have "mapM (from_vhlo_attr L) vs = Inr as"
    by (rule mapM_round [OF vs(1)]) (use 2 in auto)
  then show ?case using vs(2) by simp
next
  case (3 t raw)
  then show ?case using from_to_type [OF assms, of t] by (auto simp: bnd_eq_Inr)
next
  case (4 es)
  then obtain vs where vs: "mapM (\<lambda>(name, a). bnd (to_vhlo_attr a) (\<lambda>v. Inr (StringV1Attr name, v))) es = Inr vs"
    "v = DictionaryV1Attr vs" by (auto simp: bnd_eq_Inr)
  have "mapM (\<lambda>(n, v). bnd (from_vhlo_attr L n) (\<lambda>n'. bnd (from_vhlo_attr L v) (\<lambda>v'.
       case n' of StringAttr name _ \<Rightarrow> Inr (name, v') | _ \<Rightarrow> null_attr))) vs = Inr es"
  proof (rule mapM_round [OF vs(1)])
    fix e w assume e: "e \<in> set es" and w: "(case e of (name, a) \<Rightarrow> bnd (to_vhlo_attr a) (\<lambda>v. Inr (StringV1Attr name, v))) = Inr w"
    obtain name a where ea: "e = (name, a)" by fastforce
    then obtain v' where v': "to_vhlo_attr a = Inr v'" "w = (StringV1Attr name, v')" using w by (auto simp: bnd_eq_Inr)
    have "sattr_ok L a" using 4(3) e ea by auto
    then show "(case w of (n, v) \<Rightarrow> bnd (from_vhlo_attr L n) (\<lambda>n'. bnd (from_vhlo_attr L v) (\<lambda>v'.
       case n' of StringAttr name _ \<Rightarrow> Inr (name, v') | _ \<Rightarrow> null_attr))) = Inr e"
      using 4(1) [OF e] ea v' by simp
  qed
  then show ?case using 4(3) vs(2) by (simp add: DictionaryAttr_get_def sort_key_sorted)
next
  case (6 t i)
  then show ?case using from_to_type [OF assms, of t] bool_word [of i] by (auto simp: bnd_eq_Inr split: if_splits)
next
  case (7 s t)
  then show ?case by (auto simp: null_attr_def split: if_splits)
qed (use from_to_type [OF assms] in \<open>auto simp: bnd_eq_Inr null_attr_def\<close>)

end
