(* ===== verification/VhloOps.thy ===== *)
theory VhloOps
  imports VhloLegalize
begin

text \<open>
  The conversion of operations between StableHLO and VHLO: the special cases and the defaults of
  \<open>transforms/StablehloLegalizeToVhlo.cpp\<close> and \<open>transforms/VhloLegalizeToStablehlo.cpp\<close>. The attributes of
  an operation are a dictionary; those of VHLO are all present, those of StableHLO may be left out
  when they have their default value.
\<close>

section \<open>Operations\<close>

text \<open>
  The classes with a treatment of their own, and the other ones_attr of the dialect by their name. The classes of
  VHLO have the names of StableHLO's (\<open>MapStablehloToVhlo.h\<close>); the two returns are one class there.
\<close>

datatype (plugins only: code size) op_class =
    FuncOp | CallOp | FuncReturnOp | HloReturnOp
  | AllGatherOp | AllReduceOp | ReduceScatterOp | AllToAllOp | CollectivePermuteOp
  | CholeskyOp | CompareOp | ConvolutionOp | DynamicConvOp | CustomCallOp | DotGeneralOp | DotOp
  | DynamicBroadcastInDimOp | DynamicGatherOp | GatherOp | InfeedOp | OutfeedOp | RecvOp | SendOp
  | ReduceWindowOp | ScatterOp | SelectAndScatterOp | SortOp | OtherOp string

type_synonym sattrs = "(string \<times> sattr) list"
type_synonym vattrs = "(string \<times> vattr) list"

text \<open>The dictionary of a list of named attributes, and whether an attribute is there.\<close>

definition dictionary :: "(string \<times> 'a) list \<Rightarrow> (string \<times> 'a) list" where
  "dictionary = sort_key fst"

definition has_attr :: "(string \<times> 'a) list \<Rightarrow> string \<Rightarrow> bool" where
  "has_attr attrs name \<longleftrightarrow> map_of attrs name \<noteq> None"

text \<open>Dense attributes of 64-bit integers: one value when all are equal.\<close>

definition i64_bytes :: "int \<Rightarrow> 8 word list" where
  "i64_bytes v = map word_of_int (to_le 8 v)"

definition i64_of_bytes :: "8 word list \<Rightarrow> int" where
  "i64_of_bytes bs = signed_take_bit 63 (from_le (map uint bs))"

definition raw_ints :: "int list \<Rightarrow> 8 word list" where
  "raw_ints xs = (if xs \<noteq> [] \<and> (\<forall>x \<in> set xs. x = hd xs) then i64_bytes (hd xs) else concat (map i64_bytes xs))"

definition dense_ints :: "int list \<Rightarrow> int list \<Rightarrow> sattr" where
  "dense_ints sh xs = DenseElementsAttr (RankedTensorTy sh i64_ty None) (raw_ints xs)"

definition dense_false :: "int \<Rightarrow> sattr" where
  "dense_false n = DenseElementsAttr (RankedTensorTy [n] i1_ty None) (if n = 0 then [] else [0])"

definition getI64TensorAttr :: "int list \<Rightarrow> sattr" where
  "getI64TensorAttr xs = dense_ints [int (length xs)] xs"

fun values_of_raw :: "nat \<Rightarrow> 8 word list \<Rightarrow> int list" where
  "values_of_raw 0 raw = []"
| "values_of_raw (Suc n) raw = i64_of_bytes (take 8 raw) # values_of_raw n (drop 8 raw)"

text \<open>
  \<open>getValues<int64_t>\<close> of a \<open>DenseIntElementsAttr\<close>; reading values of another width violates an assertion.
\<close>

definition dense_values :: "sty \<Rightarrow> 8 word list \<Rightarrow> int list res" where
  "dense_values t raw = (case t of
     RankedTensorTy sh (IntegerTy s w) enc \<Rightarrow>
       if w \<noteq> 64 then Inl Undefined
       else let n = nat (num_elements sh) in
         Inr (if length raw = 8 then replicate n (i64_of_bytes raw) else values_of_raw n raw)
   | _ \<Rightarrow> Inl Undefined)"

section \<open>StableHLO to VHLO\<close>

datatype 'a special = SpecialSuccess 'a | SpecialFailure | NotSpecial

definition convertInt :: "int \<Rightarrow> vattr res" where
  "convertInt dim = to_vhlo_attr (IntegerAttr i64_ty (mk_apint 64 dim))"

definition convertInts :: "int list \<Rightarrow> vattr res" where
  "convertInts dims = to_vhlo_attr (dense_ints [int (length dims)] dims)"

definition convertSymbol :: "sattr \<Rightarrow> vattr res" where
  "convertSymbol a = (case a of FlatSymbolRefAttr s \<Rightarrow> to_vhlo_attr (StringAttr s NoneTy) | _ \<Rightarrow> null_attr)"

text \<open>Named attributes, one after the other, until one cannot be converted.\<close>

fun emplace :: "(string \<times> vattr res) list \<Rightarrow> vattrs special" where
  "emplace [] = SpecialSuccess []"
| "emplace ((name, a) # as) =
     (case a of Inl _ \<Rightarrow> SpecialFailure
      | Inr v \<Rightarrow> (case emplace as of SpecialSuccess vs \<Rightarrow> SpecialSuccess ((name, v) # vs) | s \<Rightarrow> s))"

definition convertChannelHandle :: "sattr \<Rightarrow> vattrs special" where
  "convertChannelHandle a = (case a of
     StablehloAttr (ChannelHandleAttr handle type) \<Rightarrow>
       emplace [(''channel_id'', convertInt handle), (''channel_type'', convertInt type)]
   | _ \<Rightarrow> SpecialFailure)"

definition convertChannelId :: "sattr \<Rightarrow> vattrs special" where
  "convertChannelId a = (case a of
     StablehloAttr (ChannelHandleAttr handle type) \<Rightarrow> emplace [(''channel_id'', convertInt handle)]
   | _ \<Rightarrow> SpecialFailure)"

definition convertConvDimensionNumbers :: "sattr \<Rightarrow> vattrs special" where
  "convertConvDimensionNumbers a = (case a of
     StablehloAttr (ConvDimensionNumbersAttr ib if' is ki ko ks ob of' os) \<Rightarrow>
       emplace [(''input_batch_dimension'', convertInt ib), (''input_feature_dimension'', convertInt if'),
         (''input_spatial_dimensions'', convertInts is), (''kernel_input_feature_dimension'', convertInt ki),
         (''kernel_output_feature_dimension'', convertInt ko), (''kernel_spatial_dimensions'', convertInts ks),
         (''output_batch_dimension'', convertInt ob), (''output_feature_dimension'', convertInt of'),
         (''output_spatial_dimensions'', convertInts os)]
   | _ \<Rightarrow> SpecialFailure)"

text \<open>\<open>CustomCallApiVersionAttr\<close> is a 32-bit integer with the number of a case.\<close>

definition convertCustomCallApiVersion :: "sattr \<Rightarrow> vattrs special" where
  "convertCustomCallApiVersion a = (case a of
     IntegerAttr t i \<Rightarrow>
       (if t = i32_ty then
          (case symbolize_code hlo_CustomCallApiVersion (nat (uval i)) of
             Some v \<Rightarrow> emplace [(''api_version'',
               convert_enum hlo_CustomCallApiVersion vhlo_CustomCallApiVersionV1 CustomCallApiVersionV1Attr v)]
           | None \<Rightarrow> SpecialFailure)
        else SpecialFailure)
   | _ \<Rightarrow> SpecialFailure)"

definition convertCustomCallCalledComputations :: "sattr \<Rightarrow> vattrs special" where
  "convertCustomCallCalledComputations a = (case a of
     ArrayAttr as \<Rightarrow> (case mapM convertSymbol as of
         Inl _ \<Rightarrow> SpecialFailure
       | Inr vs \<Rightarrow> SpecialSuccess [(''called_computations'', ArrayV1Attr vs)])
   | _ \<Rightarrow> SpecialFailure)"

definition convertDotDimensionNumbers :: "sattr \<Rightarrow> vattrs special" where
  "convertDotDimensionNumbers a = (case a of
     StablehloAttr (DotDimensionNumbersAttr lb rb lc rc) \<Rightarrow>
       emplace [(''lhs_batching_dimensions'', convertInts lb), (''rhs_batching_dimensions'', convertInts rb),
         (''lhs_contracting_dimensions'', convertInts lc), (''rhs_contracting_dimensions'', convertInts rc)]
   | _ \<Rightarrow> SpecialFailure)"

definition convertFuncCallee :: "sattr \<Rightarrow> vattrs special" where
  "convertFuncCallee a = emplace [(''callee'', convertSymbol a)]"

definition convertGatherDimensionNumbers :: "sattr \<Rightarrow> vattrs special" where
  "convertGatherDimensionNumbers a = (case a of
     StablehloAttr (GatherDimensionNumbersAttr od cs sm iv) \<Rightarrow>
       emplace [(''offset_dims'', convertInts od), (''collapsed_slice_dims'', convertInts cs),
         (''start_index_map'', convertInts sm), (''index_vector_dim'', convertInt iv)]
   | _ \<Rightarrow> SpecialFailure)"

definition convertScatterDimensionNumbers :: "sattr \<Rightarrow> vattrs special" where
  "convertScatterDimensionNumbers a = (case a of
     StablehloAttr (ScatterDimensionNumbersAttr uw iw sd iv) \<Rightarrow>
       emplace [(''update_window_dims'', convertInts uw), (''inserted_window_dims'', convertInts iw),
         (''scatter_dims_to_operand_dims'', convertInts sd), (''index_vector_dim'', convertInt iv)]
   | _ \<Rightarrow> SpecialFailure)"

definition convertUseGlobalDeviceIds :: "sattr \<Rightarrow> vattrs special" where
  "convertUseGlobalDeviceIds a =
     (if a \<noteq> UnitAttr then SpecialFailure else SpecialSuccess [(''use_global_device_ids'', BooleanV1Attr True)])"

definition convertSpecial :: "op_class \<Rightarrow> string \<Rightarrow> sattr \<Rightarrow> vattrs special" where
  "convertSpecial k name a =
     (if k \<in> {AllGatherOp, AllReduceOp, AllToAllOp, CollectivePermuteOp, ReduceScatterOp} \<and> name = ''channel_handle''
      then convertChannelId a
      else if k \<in> {AllGatherOp, AllReduceOp, AllToAllOp, CollectivePermuteOp, ReduceScatterOp} \<and>
        name = ''use_global_device_ids'' then convertUseGlobalDeviceIds a
      else if k \<in> {ConvolutionOp, DynamicConvOp} \<and> name = ''dimension_numbers'' then convertConvDimensionNumbers a
      else if k = CustomCallOp \<and> name = ''api_version'' then convertCustomCallApiVersion a
      else if k = CustomCallOp \<and> name = ''called_computations'' then convertCustomCallCalledComputations a
      else if k = DotGeneralOp \<and> name = ''dot_dimension_numbers'' then convertDotDimensionNumbers a
      else if k \<in> {DynamicGatherOp, GatherOp} \<and> name = ''dimension_numbers'' then convertGatherDimensionNumbers a
      else if k \<in> {RecvOp, SendOp} \<and> name = ''channel_handle'' then convertChannelHandle a
      else if k = ScatterOp \<and> name = ''scatter_dimension_numbers'' then convertScatterDimensionNumbers a
      else if k = CallOp \<and> name = ''callee'' then convertFuncCallee a
      else NotSpecial)"

text \<open>\<open>addDefaultAttr\<close>, for an attribute that is not there under its StableHLO name.\<close>

definition addDefaultAttr :: "sattrs \<Rightarrow> string \<Rightarrow> string \<Rightarrow> sattr \<Rightarrow> vattrs res" where
  "addDefaultAttr attrs name vhloName a =
     (if has_attr attrs name then Inr [] else bnd (to_vhlo_attr a) (\<lambda>v. Inr [(vhloName, v)]))"

definition add_all :: "vattrs res list \<Rightarrow> vattrs res" where
  "add_all rs = bnd (mapM (\<lambda>r. r) rs) (\<lambda>vs. Inr (concat vs))"

definition getI64IntegerAttr :: "int \<Rightarrow> sattr" where
  "getI64IntegerAttr v = IntegerAttr i64_ty (mk_apint 64 v)"

definition getBoolAttr :: "bool \<Rightarrow> sattr" where
  "getBoolAttr b = IntegerAttr i1_ty (APInt 1 (if b then 1 else 0))"

definition numSpatialDimensions :: "sattrs \<Rightarrow> int res" where
  "numSpatialDimensions attrs = (case map_of attrs ''dimension_numbers'' of
     Some (StablehloAttr (ConvDimensionNumbersAttr _ _ is _ _ _ _ _ _)) \<Rightarrow> Inr (int (length is))
   | _ \<Rightarrow> Inl Undefined)"

definition numWindowDimensions :: "sattrs \<Rightarrow> int res" where
  "numWindowDimensions attrs = (case map_of attrs ''window_dimensions'' of
     Some (DenseElementsAttr (RankedTensorTy sh et enc) raw) \<Rightarrow> Inr (num_elements sh)
   | _ \<Rightarrow> Inl Undefined)"

definition ones_attr :: "int \<Rightarrow> sattr" where
  "ones_attr n = getI64TensorAttr (replicate (nat n) 1)"

definition no_padding :: "int \<Rightarrow> sattr" where
  "no_padding n = dense_ints [n, 2] (replicate (nat (n * 2)) 0)"

definition default_precisions :: sattr where
  "default_precisions = ArrayAttr (replicate 2 (StablehloAttr (PrecisionAttr PREC_DEFAULT)))"

fun addDefaults :: "op_class \<Rightarrow> sattrs \<Rightarrow> vattrs res" where
  "addDefaults FuncOp A = add_all
     [addDefaultAttr A ''sym_visibility'' ''sym_visibility'' (StringAttr [] NoneTy),
      addDefaultAttr A ''arg_attrs'' ''arg_attrs'' (ArrayAttr []),
      addDefaultAttr A ''res_attrs'' ''res_attrs'' (ArrayAttr [])]"
| "addDefaults AllGatherOp A = add_all
     [addDefaultAttr A ''channel_handle'' ''channel_id'' (getI64IntegerAttr 0),
      addDefaultAttr A ''use_global_device_ids'' ''use_global_device_ids'' (getBoolAttr False)]"
| "addDefaults AllReduceOp A = add_all
     [addDefaultAttr A ''channel_handle'' ''channel_id'' (getI64IntegerAttr 0),
      addDefaultAttr A ''use_global_device_ids'' ''use_global_device_ids'' (getBoolAttr False)]"
| "addDefaults ReduceScatterOp A = add_all
     [addDefaultAttr A ''channel_handle'' ''channel_id'' (getI64IntegerAttr 0),
      addDefaultAttr A ''use_global_device_ids'' ''use_global_device_ids'' (getBoolAttr False)]"
| "addDefaults AllToAllOp A = addDefaultAttr A ''channel_handle'' ''channel_id'' (getI64IntegerAttr 0)"
| "addDefaults CollectivePermuteOp A = addDefaultAttr A ''channel_handle'' ''channel_id'' (getI64IntegerAttr 0)"
| "addDefaults CholeskyOp A = addDefaultAttr A ''lower'' ''lower'' (getBoolAttr False)"
| "addDefaults CompareOp A =
     addDefaultAttr A ''compare_type'' ''compare_type'' (StablehloAttr (ComparisonTypeAttr NOTYPE))"
| "addDefaults ConvolutionOp A = bnd (numSpatialDimensions A) (\<lambda>n. add_all
     [addDefaultAttr A ''window_strides'' ''window_strides'' (ones_attr n),
      addDefaultAttr A ''padding'' ''padding'' (no_padding n),
      addDefaultAttr A ''lhs_dilation'' ''lhs_dilation'' (ones_attr n),
      addDefaultAttr A ''rhs_dilation'' ''rhs_dilation'' (ones_attr n),
      addDefaultAttr A ''window_reversal'' ''window_reversal'' (dense_false n),
      addDefaultAttr A ''precision_config'' ''precision_config'' default_precisions])"
| "addDefaults DynamicConvOp A = bnd (numSpatialDimensions A) (\<lambda>n. add_all
     [addDefaultAttr A ''window_strides'' ''window_strides'' (ones_attr n),
      addDefaultAttr A ''padding'' ''padding'' (no_padding n),
      addDefaultAttr A ''lhs_dilation'' ''lhs_dilation'' (ones_attr n),
      addDefaultAttr A ''rhs_dilation'' ''rhs_dilation'' (ones_attr n),
      addDefaultAttr A ''window_reversal'' ''window_reversal'' (dense_false n),
      addDefaultAttr A ''precision_config'' ''precision_config'' default_precisions])"
| "addDefaults CustomCallOp A = add_all
     [addDefaultAttr A ''has_side_effect'' ''has_side_effect'' (getBoolAttr False),
      addDefaultAttr A ''backend_config'' ''backend_config'' (StringAttr [] NoneTy),
      (if has_attr A ''api_version'' then Inr []
       else Inr [(''api_version'', CustomCallApiVersionV1Attr API_VERSION_ORIGINAL)]),
      addDefaultAttr A ''called_computations'' ''called_computations'' (ArrayAttr []),
      addDefaultAttr A ''operand_layouts'' ''operand_layouts'' (ArrayAttr []),
      addDefaultAttr A ''result_layouts'' ''result_layouts'' (ArrayAttr []),
      addDefaultAttr A ''output_operand_aliases'' ''output_operand_aliases'' (ArrayAttr [])]"
| "addDefaults DotGeneralOp A = addDefaultAttr A ''precision_config'' ''precision_config'' default_precisions"
| "addDefaults DotOp A = addDefaultAttr A ''precision_config'' ''precision_config'' default_precisions"
| "addDefaults DynamicBroadcastInDimOp A = add_all
     [addDefaultAttr A ''known_expanding_dimensions'' ''known_expanding_dimensions'' (getI64TensorAttr []),
      addDefaultAttr A ''known_nonexpanding_dimensions'' ''known_nonexpanding_dimensions'' (getI64TensorAttr [])]"
| "addDefaults DynamicGatherOp A = addDefaultAttr A ''indices_are_sorted'' ''indices_are_sorted'' (getBoolAttr False)"
| "addDefaults GatherOp A = addDefaultAttr A ''indices_are_sorted'' ''indices_are_sorted'' (getBoolAttr False)"
| "addDefaults InfeedOp A = add_all
     [addDefaultAttr A ''infeed_config'' ''infeed_config'' (StringAttr [] NoneTy),
      addDefaultAttr A ''layout'' ''layout'' (ArrayAttr [])]"
| "addDefaults OutfeedOp A = addDefaultAttr A ''outfeed_config'' ''outfeed_config'' (StringAttr [] NoneTy)"
| "addDefaults RecvOp A = addDefaultAttr A ''is_host_transfer'' ''is_host_transfer'' (getBoolAttr False)"
| "addDefaults SendOp A = addDefaultAttr A ''is_host_transfer'' ''is_host_transfer'' (getBoolAttr False)"
| "addDefaults ReduceWindowOp A = bnd (numWindowDimensions A) (\<lambda>n. add_all
     [addDefaultAttr A ''window_strides'' ''window_strides'' (ones_attr n),
      addDefaultAttr A ''base_dilations'' ''base_dilations'' (ones_attr n),
      addDefaultAttr A ''window_dilations'' ''window_dilations'' (ones_attr n),
      addDefaultAttr A ''padding'' ''padding'' (no_padding n)])"
| "addDefaults ScatterOp A = add_all
     [addDefaultAttr A ''indices_are_sorted'' ''indices_are_sorted'' (getBoolAttr False),
      addDefaultAttr A ''unique_indices'' ''unique_indices'' (getBoolAttr False)]"
| "addDefaults SelectAndScatterOp A =
     (if \<not> has_attr A ''window_dimensions'' then Inl (Fatal ''failure'')
      else bnd (numWindowDimensions A) (\<lambda>n. add_all
        [addDefaultAttr A ''window_strides'' ''window_strides'' (ones_attr n),
         addDefaultAttr A ''padding'' ''padding'' (no_padding n)]))"
| "addDefaults SortOp A = add_all
     [addDefaultAttr A ''dimension'' ''dimension'' (getI64IntegerAttr (- 1)),
      addDefaultAttr A ''is_stable'' ''is_stable'' (getBoolAttr False)]"
| "addDefaults _ A = Inr []"

text \<open>The attributes of the VHLO operation: the defaults, then those of the StableHLO operation.\<close>

definition legalize_attr :: "op_class \<Rightarrow> string \<times> sattr \<Rightarrow> vattrs res" where
  "legalize_attr k na = (case convertSpecial k (fst na) (snd na) of
     SpecialSuccess vs \<Rightarrow> Inr vs
   | SpecialFailure \<Rightarrow> Inl (Fatal ''failure'')
   | NotSpecial \<Rightarrow> bnd (to_vhlo_attr (snd na)) (\<lambda>v. Inr [(fst na, v)]))"

definition legalize_attrs :: "op_class \<Rightarrow> sattrs \<Rightarrow> vattrs res" where
  "legalize_attrs k A = bnd (addDefaults k A) (\<lambda>ds. bnd (mapM (legalize_attr k) A) (\<lambda>vs.
     Inr (dictionary (ds @ concat vs))))"

section \<open>VHLO to StableHLO\<close>

definition convertInt_back :: "vattr \<Rightarrow> int res" where
  "convertInt_back v = (case v of IntegerV1Attr t i \<Rightarrow> Inr (sval i) | _ \<Rightarrow> Inl (Fatal ''failure''))"

definition convertInts_back :: "lib \<Rightarrow> vattr \<Rightarrow> int list res" where
  "convertInts_back L v = (case v of
     TensorV1Attr _ _ \<Rightarrow> bnd (from_vhlo_attr L v) (\<lambda>a. case a of
         DenseElementsAttr (RankedTensorTy sh (IntegerTy s w) enc) raw \<Rightarrow>
           dense_values (RankedTensorTy sh (IntegerTy s w) enc) raw
       | DenseElementsAttr (RankedTensorTy sh IndexTy enc) raw \<Rightarrow> dense_values (RankedTensorTy sh i64_ty enc) raw
       | _ \<Rightarrow> Inl (Fatal ''failure''))
   | _ \<Rightarrow> Inl (Fatal ''failure''))"

definition convertSymbol_back :: "vattr \<Rightarrow> sattr res" where
  "convertSymbol_back v = (case v of StringV1Attr s \<Rightarrow> Inr (FlatSymbolRefAttr s) | _ \<Rightarrow> null_attr)"

text \<open>An attribute every operation of the class has.\<close>

definition the_attr :: "vattrs \<Rightarrow> string \<Rightarrow> vattr res" where
  "the_attr F name = (case map_of F name of Some v \<Rightarrow> Inr v | None \<Rightarrow> Inl Undefined)"

abbreviation the_int :: "vattrs \<Rightarrow> string \<Rightarrow> int res" where
  "the_int F name \<equiv> bnd (the_attr F name) convertInt_back"

abbreviation the_ints :: "lib \<Rightarrow> vattrs \<Rightarrow> string \<Rightarrow> int list res" where
  "the_ints L F name \<equiv> bnd (the_attr F name) (convertInts_back L)"

definition convertChannelHandle_back :: "vattrs \<Rightarrow> sattr res" where
  "convertChannelHandle_back F = bnd (the_int F ''channel_id'') (\<lambda>h. bnd (the_int F ''channel_type'') (\<lambda>t.
     Inr (StablehloAttr (ChannelHandleAttr h t))))"

definition convertChannelId_back :: "vattr \<Rightarrow> sattr res" where
  "convertChannelId_back v = bnd (convertInt_back v) (\<lambda>h. Inr (StablehloAttr (ChannelHandleAttr h 0)))"

definition convertConvDimensionNumbers_back :: "lib \<Rightarrow> vattrs \<Rightarrow> sattr res" where
  "convertConvDimensionNumbers_back L F =
     bnd (the_int F ''input_batch_dimension'') (\<lambda>ib. bnd (the_int F ''input_feature_dimension'') (\<lambda>if'.
     bnd (the_ints L F ''input_spatial_dimensions'') (\<lambda>is.
     bnd (the_int F ''kernel_input_feature_dimension'') (\<lambda>ki.
     bnd (the_int F ''kernel_output_feature_dimension'') (\<lambda>ko.
     bnd (the_ints L F ''kernel_spatial_dimensions'') (\<lambda>ks.
     bnd (the_int F ''output_batch_dimension'') (\<lambda>ob. bnd (the_int F ''output_feature_dimension'') (\<lambda>of'.
     bnd (the_ints L F ''output_spatial_dimensions'') (\<lambda>os.
       Inr (StablehloAttr (ConvDimensionNumbersAttr ib if' is ki ko ks ob of' os)))))))))))"

definition convertCustomCallCalledComputations_back :: "vattr \<Rightarrow> sattr res" where
  "convertCustomCallCalledComputations_back v = (case v of
     ArrayV1Attr vs \<Rightarrow> bnd (mapM convertSymbol_back vs) (\<lambda>as. Inr (ArrayAttr as)) | _ \<Rightarrow> null_attr)"

definition convertDotDimensionNumbers_back :: "lib \<Rightarrow> vattrs \<Rightarrow> sattr res" where
  "convertDotDimensionNumbers_back L F =
     bnd (the_ints L F ''lhs_batching_dimensions'') (\<lambda>lb. bnd (the_ints L F ''rhs_batching_dimensions'') (\<lambda>rb.
     bnd (the_ints L F ''lhs_contracting_dimensions'') (\<lambda>lc. bnd (the_ints L F ''rhs_contracting_dimensions'') (\<lambda>rc.
       Inr (StablehloAttr (DotDimensionNumbersAttr lb rb lc rc))))))"

definition convertGatherDimensionNumbers_back :: "lib \<Rightarrow> vattrs \<Rightarrow> sattr res" where
  "convertGatherDimensionNumbers_back L F =
     bnd (the_ints L F ''offset_dims'') (\<lambda>od. bnd (the_ints L F ''collapsed_slice_dims'') (\<lambda>cs.
     bnd (the_ints L F ''start_index_map'') (\<lambda>sm. bnd (the_int F ''index_vector_dim'') (\<lambda>iv.
       Inr (StablehloAttr (GatherDimensionNumbersAttr od cs sm iv))))))"

definition convertScatterDimensionNumbers_back :: "lib \<Rightarrow> vattrs \<Rightarrow> sattr res" where
  "convertScatterDimensionNumbers_back L F =
     bnd (the_ints L F ''update_window_dims'') (\<lambda>uw. bnd (the_ints L F ''inserted_window_dims'') (\<lambda>iw.
     bnd (the_ints L F ''scatter_dims_to_operand_dims'') (\<lambda>sd. bnd (the_int F ''index_vector_dim'') (\<lambda>iv.
       Inr (StablehloAttr (ScatterDimensionNumbersAttr uw iw sd iv))))))"

definition eraseAttrs :: "string list \<Rightarrow> vattrs \<Rightarrow> vattrs" where
  "eraseAttrs names F = filter (\<lambda>na. fst na \<notin> set names) F"

text \<open>
  The attributes that several of VHLO make up, read from the operation, and the attributes that are left
  of the list the defaults were removed from.
\<close>

definition implode :: "sattr res \<Rightarrow> string \<Rightarrow> string list \<Rightarrow> vattrs \<Rightarrow> (vattrs \<times> sattrs) res" where
  "implode a name names F1 = bnd a (\<lambda>a. Inr (eraseAttrs names F1, [(name, a)]))"

definition implodeSpecial :: "lib \<Rightarrow> op_class \<Rightarrow> vattrs \<Rightarrow> vattrs \<Rightarrow> (vattrs \<times> sattrs) res" where
  "implodeSpecial L k F F1 =
     (if k \<in> {ConvolutionOp, DynamicConvOp} then
        implode (convertConvDimensionNumbers_back L F) ''dimension_numbers''
          [''input_batch_dimension'', ''input_feature_dimension'', ''input_spatial_dimensions'',
           ''kernel_input_feature_dimension'', ''kernel_output_feature_dimension'', ''kernel_spatial_dimensions'',
           ''output_batch_dimension'', ''output_feature_dimension'', ''output_spatial_dimensions''] F1
      else if k = DotGeneralOp then
        implode (convertDotDimensionNumbers_back L F) ''dot_dimension_numbers''
          [''lhs_batching_dimensions'', ''rhs_batching_dimensions'', ''lhs_contracting_dimensions'',
           ''rhs_contracting_dimensions''] F1
      else if k \<in> {DynamicGatherOp, GatherOp} then
        implode (convertGatherDimensionNumbers_back L F) ''dimension_numbers''
          [''offset_dims'', ''collapsed_slice_dims'', ''start_index_map'', ''index_vector_dim''] F1
      else if k = ScatterOp then
        implode (convertScatterDimensionNumbers_back L F) ''scatter_dimension_numbers''
          [''update_window_dims'', ''inserted_window_dims'', ''scatter_dims_to_operand_dims'', ''index_vector_dim''] F1
      else if k \<in> {RecvOp, SendOp} then
        implode (convertChannelHandle_back F) ''channel_handle'' [''channel_id'', ''channel_type''] F1
      else Inr (F1, []))"

definition special_of :: "string \<Rightarrow> sattr res \<Rightarrow> sattrs special" where
  "special_of name r = (case r of Inl _ \<Rightarrow> SpecialFailure | Inr a \<Rightarrow> SpecialSuccess [(name, a)])"

definition convertSpecial_back :: "op_class \<Rightarrow> string \<Rightarrow> vattr \<Rightarrow> sattrs special" where
  "convertSpecial_back k name v =
     (if k \<in> {AllGatherOp, AllReduceOp, AllToAllOp, CollectivePermuteOp, ReduceScatterOp} \<and> name = ''channel_id''
      then special_of ''channel_handle'' (convertChannelId_back v)
      else if k \<in> {AllGatherOp, AllReduceOp, AllToAllOp, CollectivePermuteOp, ReduceScatterOp} \<and>
        name = ''use_global_device_ids'' then
        (case v of BooleanV1Attr b \<Rightarrow> SpecialSuccess (if b then [(name, UnitAttr)] else []) | _ \<Rightarrow> SpecialFailure)
      else if k = CustomCallOp \<and> name = ''called_computations'' then
        special_of name (convertCustomCallCalledComputations_back v)
      else if k = CallOp \<and> name = ''callee'' then special_of name (convertSymbol_back v)
      else NotSpecial)"

text \<open>The tests of \<open>removeDefaults\<close>, on an attribute of the operation that may be missing.\<close>

definition isBoolean :: "vattr option \<Rightarrow> bool \<Rightarrow> bool" where
  "isBoolean a value = (case a of Some (BooleanV1Attr b) \<Rightarrow> b = value | _ \<Rightarrow> False)"

definition isEmptyArray :: "vattr option \<Rightarrow> bool" where
  "isEmptyArray a = (case a of Some (ArrayV1Attr vs) \<Rightarrow> vs = [] | _ \<Rightarrow> False)"

definition isEmptyString :: "vattr option \<Rightarrow> bool" where
  "isEmptyString a = (case a of Some (StringV1Attr s) \<Rightarrow> s = [] | _ \<Rightarrow> False)"

definition isEmptyTensor :: "vattr option \<Rightarrow> bool" where
  "isEmptyTensor a = (case a of Some (TensorV1Attr t raw) \<Rightarrow> raw = [] | _ \<Rightarrow> False)"

definition isEnum :: "vattr option \<Rightarrow> vattr \<Rightarrow> bool" where
  "isEnum a value \<longleftrightarrow> a = Some value"

definition isIntegerAttr :: "vattr option \<Rightarrow> int \<Rightarrow> bool" where
  "isIntegerAttr a value = (case a of Some (IntegerV1Attr t i) \<Rightarrow> sval i = value | _ \<Rightarrow> False)"

definition isSplatArray :: "vattr option \<Rightarrow> vattr \<Rightarrow> bool" where
  "isSplatArray a splat = (case a of Some (ArrayV1Attr vs) \<Rightarrow> \<forall>v \<in> set vs. v = splat | _ \<Rightarrow> False)"

definition isString :: "vattr option \<Rightarrow> string \<Rightarrow> bool" where
  "isString a value = (case a of Some (StringV1Attr s) \<Rightarrow> s = value | _ \<Rightarrow> False)"

text \<open>
  Raw data of the size of one element is a splat (\<open>DenseElementsAttr::isValidRawBuffer\<close>); for \<open>i1\<close>, whose
  elements are packed, it is a byte of equal bits. Its value can be read as \<open>int64_t\<close> from 64-bit integers and
  as \<open>bool\<close> from \<open>i1\<close>, otherwise an assertion is violated.
\<close>

fun storage_bytes :: "sty \<Rightarrow> nat" where
  "storage_bytes (IntegerTy s w) = (w + 7) div 8"
| "storage_bytes IndexTy = 8"
| "storage_bytes (FloatTy s) = sem_width s div 8"
| "storage_bytes (ComplexTy t) = 2 * storage_bytes t"
| "storage_bytes _ = 0"

definition is_splat :: "sty \<Rightarrow> 8 word list \<Rightarrow> bool" where
  "is_splat et raw \<longleftrightarrow>
     (if (case et of IntegerTy s w \<Rightarrow> w = 1 | _ \<Rightarrow> False) then raw = [0] \<or> raw = [255]
      else raw \<noteq> [] \<and> length raw = storage_bytes et)"

definition isSplatTensor :: "lib \<Rightarrow> (sty \<Rightarrow> 8 word list \<Rightarrow> bool res) \<Rightarrow> vattr option \<Rightarrow> bool res" where
  "isSplatTensor L value_is a = (case a of
     None \<Rightarrow> Inl Undefined
   | Some v \<Rightarrow> (case from_vhlo_attr L v of
         Inl e \<Rightarrow> if e = Undefined then Inl Undefined else Inr False
       | Inr (DenseElementsAttr (RankedTensorTy sh et enc) raw) \<Rightarrow> if is_splat et raw then value_is et raw else Inr False
       | Inr _ \<Rightarrow> Inr False))"

definition i64_value_is :: "int \<Rightarrow> sty \<Rightarrow> 8 word list \<Rightarrow> bool res" where
  "i64_value_is n et raw = (if et = i64_ty \<or> et = IndexTy then Inr (i64_of_bytes raw = n) else Inl Undefined)"

definition bool_value_is :: "bool \<Rightarrow> sty \<Rightarrow> 8 word list \<Rightarrow> bool res" where
  "bool_value_is b et raw = (if et = i1_ty then Inr ((raw = [255]) = b) else Inl Undefined)"

fun remove_all :: "(string \<times> bool res) list \<Rightarrow> vattrs \<Rightarrow> vattrs res" where
  "remove_all [] F = Inr F"
| "remove_all ((name, test) # ts) F = bnd test (\<lambda>b. remove_all ts (if b then eraseAttrs [name] F else F))"

definition default_precision :: vattr where
  "default_precision = PrecisionV1Attr PREC_DEFAULT"

text \<open>For every class the attributes that may be removed, with the test.\<close>

definition window_defaults :: "lib \<Rightarrow> (string \<Rightarrow> vattr option) \<Rightarrow> string list \<Rightarrow> (string \<times> bool res) list" where
  "window_defaults L get names =
     map (\<lambda>name. (name, isSplatTensor L (i64_value_is (if name = ''padding'' then 0 else 1)) (get name))) names"

fun removable :: "lib \<Rightarrow> op_class \<Rightarrow> (string \<Rightarrow> vattr option) \<Rightarrow> (string \<times> bool res) list" where
  "removable L FuncOp get =
     [(''sym_visibility'', Inr (isString (get ''sym_visibility'') [])),
      (''arg_attrs'', Inr (isEmptyArray (get ''arg_attrs''))),
      (''res_attrs'', Inr (isEmptyArray (get ''res_attrs'')))]"
| "removable L AllGatherOp get =
     [(''channel_id'', Inr (isIntegerAttr (get ''channel_id'') 0)),
      (''use_global_device_ids'', Inr (isBoolean (get ''use_global_device_ids'') False))]"
| "removable L AllReduceOp get =
     [(''channel_id'', Inr (isIntegerAttr (get ''channel_id'') 0)),
      (''use_global_device_ids'', Inr (isBoolean (get ''use_global_device_ids'') False))]"
| "removable L ReduceScatterOp get =
     [(''channel_id'', Inr (isIntegerAttr (get ''channel_id'') 0)),
      (''use_global_device_ids'', Inr (isBoolean (get ''use_global_device_ids'') False))]"
| "removable L AllToAllOp get = [(''channel_id'', Inr (isIntegerAttr (get ''channel_id'') 0))]"
| "removable L CollectivePermuteOp get = [(''channel_id'', Inr (isIntegerAttr (get ''channel_id'') 0))]"
| "removable L CholeskyOp get = [(''lower'', Inr (isBoolean (get ''lower'') False))]"
| "removable L CompareOp get = [(''compare_type'', Inr (isEnum (get ''compare_type'') (ComparisonTypeV1Attr NOTYPE)))]"
| "removable L ConvolutionOp get =
     window_defaults L get [''window_strides'', ''padding'', ''lhs_dilation'', ''rhs_dilation''] @
     [(''window_reversal'', isSplatTensor L (bool_value_is False) (get ''window_reversal'')),
      (''precision_config'', Inr (isSplatArray (get ''precision_config'') default_precision))]"
| "removable L DynamicConvOp get =
     window_defaults L get [''window_strides'', ''padding'', ''lhs_dilation'', ''rhs_dilation''] @
     [(''window_reversal'', isSplatTensor L (bool_value_is False) (get ''window_reversal'')),
      (''precision_config'', Inr (isSplatArray (get ''precision_config'') default_precision))]"
| "removable L CustomCallOp get =
     [(''has_side_effect'', Inr (isBoolean (get ''has_side_effect'') False)),
      (''backend_config'', Inr (isEmptyString (get ''backend_config''))),
      (''api_version'', Inr (isEnum (get ''api_version'') (CustomCallApiVersionV1Attr API_VERSION_ORIGINAL))),
      (''called_computations'', Inr (isEmptyArray (get ''called_computations''))),
      (''operand_layouts'', Inr (isEmptyArray (get ''operand_layouts''))),
      (''result_layouts'', Inr (isEmptyArray (get ''result_layouts''))),
      (''output_operand_aliases'', Inr (isEmptyArray (get ''output_operand_aliases'')))]"
| "removable L DotGeneralOp get =
     [(''precision_config'', Inr (isSplatArray (get ''precision_config'') default_precision))]"
| "removable L DotOp get = [(''precision_config'', Inr (isSplatArray (get ''precision_config'') default_precision))]"
| "removable L DynamicBroadcastInDimOp get =
     [(''known_expanding_dimensions'', Inr (isEmptyTensor (get ''known_expanding_dimensions''))),
      (''known_nonexpanding_dimensions'', Inr (isEmptyTensor (get ''known_nonexpanding_dimensions'')))]"
| "removable L DynamicGatherOp get = [(''indices_are_sorted'', Inr (isBoolean (get ''indices_are_sorted'') False))]"
| "removable L GatherOp get = [(''indices_are_sorted'', Inr (isBoolean (get ''indices_are_sorted'') False))]"
| "removable L InfeedOp get =
     [(''infeed_config'', Inr (isEmptyString (get ''infeed_config''))), (''layout'', Inr (isEmptyArray (get ''layout'')))]"
| "removable L OutfeedOp get = [(''outfeed_config'', Inr (isEmptyString (get ''outfeed_config'')))]"
| "removable L RecvOp get = [(''is_host_transfer'', Inr (isBoolean (get ''is_host_transfer'') False))]"
| "removable L SendOp get = [(''is_host_transfer'', Inr (isBoolean (get ''is_host_transfer'') False))]"
| "removable L ReduceWindowOp get =
     window_defaults L get [''window_strides'', ''base_dilations'', ''window_dilations'', ''padding'']"
| "removable L ScatterOp get =
     [(''indices_are_sorted'', Inr (isBoolean (get ''indices_are_sorted'') False)),
      (''unique_indices'', Inr (isBoolean (get ''unique_indices'') False))]"
| "removable L SelectAndScatterOp get = window_defaults L get [''window_strides'', ''padding'']"
| "removable L SortOp get =
     [(''dimension'', Inr (isIntegerAttr (get ''dimension'') (- 1))),
      (''is_stable'', Inr (isBoolean (get ''is_stable'') False))]"
| "removable L _ get = []"

definition removeDefaults :: "lib \<Rightarrow> op_class \<Rightarrow> vattrs \<Rightarrow> vattrs res" where
  "removeDefaults L k F = remove_all (removable L k (map_of F)) F"

definition unlegalize_attr :: "lib \<Rightarrow> op_class \<Rightarrow> string \<times> vattr \<Rightarrow> sattrs res" where
  "unlegalize_attr L k nv = (case convertSpecial_back k (fst nv) (snd nv) of
     SpecialSuccess as \<Rightarrow> Inr as
   | SpecialFailure \<Rightarrow> Inl (Fatal ''failure'')
   | NotSpecial \<Rightarrow> bnd (from_vhlo_attr L (snd nv)) (\<lambda>a. Inr [(fst nv, a)]))"

definition unlegalize_attrs :: "lib \<Rightarrow> op_class \<Rightarrow> vattrs \<Rightarrow> sattrs res" where
  "unlegalize_attrs L k F = bnd (removeDefaults L k F) (\<lambda>F1. bnd (implodeSpecial L k F F1) (\<lambda>(F2, special).
     bnd (mapM (unlegalize_attr L k) F2) (\<lambda>as. Inr (dictionary (special @ concat as)))))"

section \<open>Programs\<close>

text \<open>
  An operation of a class over values by number: operands, results with their types, attributes, and regions of
  blocks with arguments. The conversion driver of MLIR applies the pattern of its class to every operation;
  the pattern converts the types of the results and of the block arguments.
\<close>

datatype (plugins only: code size) ('t, 'a) dialect_op =
    DialectOp op_class "nat list" "(nat \<times> 't) list" "(string \<times> 'a) list" "('t, 'a) dialect_block list list"
and ('t, 'a) dialect_block = DialectBlock "(nat \<times> 't) list" "('t, 'a) dialect_op list"

definition legalize_class :: "op_class \<Rightarrow> op_class" where
  "legalize_class k = (if k = FuncReturnOp then HloReturnOp else k)"

text \<open>A return is one of a function if its parent is.\<close>

definition unlegalize_class :: "op_class \<Rightarrow> op_class \<Rightarrow> op_class" where
  "unlegalize_class parent k = (if k = HloReturnOp \<and> parent = FuncOp then FuncReturnOp else k)"

definition convert_types :: "('s \<Rightarrow> 't res) \<Rightarrow> (nat \<times> 's) list \<Rightarrow> (nat \<times> 't) list res" where
  "convert_types f = mapM (\<lambda>(n, t). bnd (f t) (\<lambda>t'. Inr (n, t')))"

fun legalize_op :: "(sty, sattr) dialect_op \<Rightarrow> (vty, vattr) dialect_op res"
  and legalize_block :: "(sty, sattr) dialect_block \<Rightarrow> (vty, vattr) dialect_block res" where
  "legalize_op (DialectOp k operands results attrs regions) =
     bnd (convert_types to_vhlo_type results) (\<lambda>results'. bnd (legalize_attrs k attrs) (\<lambda>attrs'.
     bnd (mapM (\<lambda>region. mapM legalize_block region) regions) (\<lambda>regions'.
       Inr (DialectOp (legalize_class k) operands results' attrs' regions'))))"
| "legalize_block (DialectBlock args ops) =
     bnd (convert_types to_vhlo_type args) (\<lambda>args'. bnd (mapM legalize_op ops) (\<lambda>ops'. Inr (DialectBlock args' ops')))"

fun unlegalize_op :: "lib \<Rightarrow> op_class \<Rightarrow> (vty, vattr) dialect_op \<Rightarrow> (sty, sattr) dialect_op res"
  and unlegalize_block :: "lib \<Rightarrow> op_class \<Rightarrow> (vty, vattr) dialect_block \<Rightarrow> (sty, sattr) dialect_block res" where
  "unlegalize_op L parent (DialectOp k operands results attrs regions) =
     bnd (unlegalize_attrs L k attrs) (\<lambda>attrs'.
     bnd (mapM (\<lambda>region. mapM (unlegalize_block L k) region) regions) (\<lambda>regions'.
       Inr (DialectOp (unlegalize_class parent k) operands (map (\<lambda>(n, t). (n, from_vhlo_type L t)) results)
         attrs' regions')))"
| "unlegalize_block L parent (DialectBlock args ops) =
     bnd (mapM (unlegalize_op L parent) ops) (\<lambda>ops'.
       Inr (DialectBlock (map (\<lambda>(n, t). (n, from_vhlo_type L t)) args) ops'))"

end
