(* ===== verification/VhloOpsLaws.thy ===== *)
theory VhloOpsLaws
  imports VhloOps
begin

text \<open>
  What a StableHLO operation becomes in VHLO, attribute by attribute, and what comes back.
\<close>

section \<open>Integers and their bytes\<close>

lemma i64_of_bytes_back: "i64_ok v \<Longrightarrow> i64_of_bytes (i64_bytes v) = v"
proof -
  assume v: "i64_ok v"
  have b: "\<forall>b \<in> set (to_le n w). 0 \<le> b \<and> b < 256" for n w
    by (induction n w rule: to_le.induct) auto
  have "map uint (i64_bytes v) = to_le 8 v"
    unfolding i64_bytes_def map_map comp_def using b [of 8 v]
    by (intro map_idI) (simp add: uint_word_of_int_eq take_bit_int_eq_self)
  then have "i64_of_bytes (i64_bytes v) = signed_take_bit 63 (v mod 2 ^ 64)"
    by (simp add: i64_of_bytes_def from_to_le)
  also have "\<dots> = signed_take_bit 63 v"
    by (simp only: take_bit_eq_mod [symmetric] signed_take_bit_take_bit) simp
  also have "\<dots> = v" using v by (intro signed_take_bit_int_eq_self) (simp_all add: i64_ok_def)
  finally show ?thesis .
qed

lemma length_i64_bytes [simp]: "length (i64_bytes v) = 8"
  by (simp add: i64_bytes_def)

lemma values_of_raw_concat: "i64s_ok xs \<Longrightarrow> values_of_raw (length xs) (concat (map i64_bytes xs)) = xs"
  by (induction xs) (auto simp: i64s_ok_def i64_of_bytes_back)

lemma concat_bytes_8: "length (concat (map i64_bytes xs)) = 8 * length xs"
  by (induction xs) auto

lemma dense_values_back:
  assumes "i64s_ok xs" and "num_elements sh = int (length xs)"
  shows "dense_values (RankedTensorTy sh i64_ty enc) (raw_ints xs) = Inr xs"
proof (cases "xs \<noteq> [] \<and> (\<forall>x \<in> set xs. x = hd xs)")
  case True
  then have "xs = replicate (length xs) (hd xs)" by (simp add: replicate_eqI)
  moreover have "i64_ok (hd xs)" using assms(1) True by (auto simp: i64s_ok_def)
  ultimately show ?thesis using True assms(2)
    by (simp add: dense_values_def raw_ints_def i64_of_bytes_back)
next
  case False
  then have r: "raw_ints xs = concat (map i64_bytes xs)" by (auto simp: raw_ints_def)
  have "length xs \<noteq> 1" using False by (cases xs) auto
  then have "length (raw_ints xs) \<noteq> 8" by (simp add: r concat_bytes_8)
  then show ?thesis using assms by (simp add: dense_values_def r values_of_raw_concat)
qed

text \<open>The VHLO attributes of an integer and of a list of integers.\<close>

definition int_v :: "int \<Rightarrow> vattr" where
  "int_v v = IntegerV1Attr (Simple IntegerSI64V1Type) (mk_apint 64 v)"

definition ints_v :: "int list \<Rightarrow> int list \<Rightarrow> vattr" where
  "ints_v sh xs = TensorV1Attr (RankedTensorV1Type sh (Simple IntegerSI64V1Type) None) (raw_ints xs)"

lemma convertInt_v: "convertInt v = Inr (int_v v)"
  by (simp add: convertInt_def int_v_def convertBuiltinIntegerType_def)

lemma dense_ints_v: "to_vhlo_attr (dense_ints sh xs) = Inr (ints_v sh xs)"
  by (simp add: dense_ints_def ints_v_def convertBuiltinIntegerType_def)

lemma convertInts_v: "convertInts xs = Inr (ints_v [int (length xs)] xs)"
  by (simp add: convertInts_def dense_ints_v)

lemma convertInt_back_v: "i64_ok v \<Longrightarrow> convertInt_back (int_v v) = Inr v"
  by (simp add: convertInt_back_def int_v_def sval_mk_in i64_ok_def)

lemma convertInts_back_v:
  "i64s_ok xs \<Longrightarrow> num_elements sh = int (length xs) \<Longrightarrow> convertInts_back L (ints_v sh xs) = Inr xs"
  by (simp add: convertInts_back_def ints_v_def dense_values_back)

section \<open>Names\<close>

text \<open>The names in VHLO of an attribute of StableHLO.\<close>

definition collective :: "op_class \<Rightarrow> bool" where
  "collective k \<longleftrightarrow> k \<in> {AllGatherOp, AllReduceOp, AllToAllOp, CollectivePermuteOp, ReduceScatterOp}"

definition conv_names :: "string list" where
  "conv_names = [''input_batch_dimension'', ''input_feature_dimension'', ''input_spatial_dimensions'',
     ''kernel_input_feature_dimension'', ''kernel_output_feature_dimension'', ''kernel_spatial_dimensions'',
     ''output_batch_dimension'', ''output_feature_dimension'', ''output_spatial_dimensions'']"

definition dot_names :: "string list" where
  "dot_names = [''lhs_batching_dimensions'', ''rhs_batching_dimensions'', ''lhs_contracting_dimensions'',
     ''rhs_contracting_dimensions'']"

definition gather_names :: "string list" where
  "gather_names = [''offset_dims'', ''collapsed_slice_dims'', ''start_index_map'', ''index_vector_dim'']"

definition scatter_names :: "string list" where
  "scatter_names = [''update_window_dims'', ''inserted_window_dims'', ''scatter_dims_to_operand_dims'',
     ''index_vector_dim'']"

definition channel_names :: "string list" where
  "channel_names = [''channel_id'', ''channel_type'']"

lemmas names_defs = conv_names_def dot_names_def gather_names_def scatter_names_def channel_names_def

definition exploded :: "op_class \<Rightarrow> (string \<times> string list) option" where
  "exploded k =
     (if collective k then Some (''channel_handle'', [''channel_id''])
      else if k \<in> {ConvolutionOp, DynamicConvOp} then Some (''dimension_numbers'', conv_names)
      else if k = DotGeneralOp then Some (''dot_dimension_numbers'', dot_names)
      else if k \<in> {DynamicGatherOp, GatherOp} then Some (''dimension_numbers'', gather_names)
      else if k \<in> {RecvOp, SendOp} then Some (''channel_handle'', channel_names)
      else if k = ScatterOp then Some (''scatter_dimension_numbers'', scatter_names)
      else None)"

definition keys :: "op_class \<Rightarrow> string \<Rightarrow> string list" where
  "keys k n = (case exploded k of Some (h, names) \<Rightarrow> if n = h then names else [n] | None \<Rightarrow> [n])"

definition vhlo_only :: "op_class \<Rightarrow> string set" where
  "vhlo_only k = (case exploded k of Some (h, names) \<Rightarrow> set names | None \<Rightarrow> {})"

lemma exploded_names: "exploded k = Some (h, names) \<Longrightarrow> h \<notin> set names \<and> distinct names"
  by (auto simp: exploded_def names_defs split: if_splits)

lemma keys_inj:
  assumes "m \<in> set (keys k n)" and "m \<in> set (keys k n')" and "n \<notin> vhlo_only k" and "n' \<notin> vhlo_only k"
  shows "n = n'"
  using assms by (auto simp: keys_def vhlo_only_def split: option.splits if_splits)

lemma keys_distinct: "distinct (keys k n)"
  using exploded_names by (auto simp: keys_def split: option.splits)

section \<open>Forward\<close>

text \<open>The VHLO attributes of the structured attributes.\<close>

fun parts :: "precision hlo_attr \<Rightarrow> vattr list" where
  "parts (ChannelHandleAttr h t) = [int_v h, int_v t]"
| "parts (ConvDimensionNumbersAttr ib if' is ki ko ks ob of' os) =
     [int_v ib, int_v if', ints_v [int (length is)] is, int_v ki, int_v ko, ints_v [int (length ks)] ks,
      int_v ob, int_v of', ints_v [int (length os)] os]"
| "parts (DotDimensionNumbersAttr lb rb lc rc) =
     [ints_v [int (length lb)] lb, ints_v [int (length rb)] rb, ints_v [int (length lc)] lc, ints_v [int (length rc)] rc]"
| "parts (GatherDimensionNumbersAttr od cs sm iv) =
     [ints_v [int (length od)] od, ints_v [int (length cs)] cs, ints_v [int (length sm)] sm, int_v iv]"
| "parts (ScatterDimensionNumbersAttr uw iw sd iv) =
     [ints_v [int (length uw)] uw, ints_v [int (length iw)] iw, ints_v [int (length sd)] sd, int_v iv]"
| "parts _ = []"

definition special_name :: "op_class \<Rightarrow> string \<Rightarrow> bool" where
  "special_name k n \<longleftrightarrow> (case exploded k of Some (h, names) \<Rightarrow> n = h | None \<Rightarrow> False) \<or>
     (collective k \<and> n = ''use_global_device_ids'') \<or>
     (k = CustomCallOp \<and> n \<in> {''api_version'', ''called_computations''}) \<or> (k = CallOp \<and> n = ''callee'')"

lemma exploded_simps [simp]:
  "collective k \<Longrightarrow> exploded k = Some (''channel_handle'', [''channel_id''])"
  "exploded CustomCallOp = None" "exploded CallOp = None"
  by (simp_all add: exploded_def collective_def)

lemma not_special: "\<not> special_name k n \<Longrightarrow> convertSpecial k n a = NotSpecial"
  by (cases k) (simp_all add: special_name_def exploded_def convertSpecial_def collective_def)

inductive legalized :: "op_class \<Rightarrow> string \<Rightarrow> sattr \<Rightarrow> vattrs \<Rightarrow> bool" where
  generic: "\<not> special_name k n \<Longrightarrow> to_vhlo_attr a = Inr v \<Longrightarrow> legalized k n a [(n, v)]"
| channel: "collective k \<Longrightarrow> legalized k ''channel_handle'' (StablehloAttr (ChannelHandleAttr h t)) [(''channel_id'', int_v h)]"
| device_ids: "collective k \<Longrightarrow> legalized k ''use_global_device_ids'' UnitAttr [(''use_global_device_ids'', BooleanV1Attr True)]"
| structured: "exploded k = Some (n, names) \<Longrightarrow> \<not> collective k \<Longrightarrow> length (parts h) = length names \<Longrightarrow>
    legalized k n (StablehloAttr h) (zip names (parts h))"
| version: "symbolize_code hlo_CustomCallApiVersion (nat (uval i)) = Some v \<Longrightarrow>
    legalized CustomCallOp ''api_version'' (IntegerAttr i32_ty i) [(''api_version'', CustomCallApiVersionV1Attr v)]"
| called: "legalized CustomCallOp ''called_computations'' (ArrayAttr (map FlatSymbolRefAttr ss))
    [(''called_computations'', ArrayV1Attr (map StringV1Attr ss))]"
| callee: "legalized CallOp ''callee'' (FlatSymbolRefAttr s) [(''callee'', StringV1Attr s)]"

lemma convertSymbol_Inr: "convertSymbol a = Inr v \<longleftrightarrow> (\<exists>s. a = FlatSymbolRefAttr s \<and> v = StringV1Attr s)"
  by (cases a) (auto simp: convertSymbol_def null_attr_def)

lemma symbols_Inr: "mapM convertSymbol as = Inr vs \<Longrightarrow> \<exists>ss. as = map FlatSymbolRefAttr ss \<and> vs = map StringV1Attr ss"
proof (induction as arbitrary: vs)
  case (Cons a as)
  then obtain s ss vs' where "a = FlatSymbolRefAttr s" "vs = StringV1Attr s # vs'" "as = map FlatSymbolRefAttr ss"
    "vs' = map StringV1Attr ss" by (fastforce simp: bnd_eq_Inr convertSymbol_Inr)
  then show ?case by (intro exI [of _ "s # ss"]) simp
qed simp

lemmas convert_defs = convertChannelId_def convertChannelHandle_def convertConvDimensionNumbers_def
  convertDotDimensionNumbers_def convertGatherDimensionNumbers_def convertScatterDimensionNumbers_def

lemma convert_structured:
  "convertChannelHandle a = SpecialSuccess vs \<Longrightarrow>
     \<exists>h. a = StablehloAttr h \<and> length (parts h) = 2 \<and> vs = zip channel_names (parts h)"
  "convertConvDimensionNumbers a = SpecialSuccess vs \<Longrightarrow>
     \<exists>h. a = StablehloAttr h \<and> length (parts h) = 9 \<and> vs = zip conv_names (parts h)"
  "convertDotDimensionNumbers a = SpecialSuccess vs \<Longrightarrow>
     \<exists>h. a = StablehloAttr h \<and> length (parts h) = 4 \<and> vs = zip dot_names (parts h)"
  "convertGatherDimensionNumbers a = SpecialSuccess vs \<Longrightarrow>
     \<exists>h. a = StablehloAttr h \<and> length (parts h) = 4 \<and> vs = zip gather_names (parts h)"
  "convertScatterDimensionNumbers a = SpecialSuccess vs \<Longrightarrow>
     \<exists>h. a = StablehloAttr h \<and> length (parts h) = 4 \<and> vs = zip scatter_names (parts h)"
  by (auto simp: convert_defs names_defs convertInt_v convertInts_v split: sattr.splits hlo_attr.splits)

lemma emplace_special: "emplace xs \<noteq> NotSpecial"
  by (induction xs rule: emplace.induct) (auto split: sum.splits special.splits)

lemma special_functions:
  "convertChannelId a \<noteq> NotSpecial" "convertChannelHandle a \<noteq> NotSpecial" "convertConvDimensionNumbers a \<noteq> NotSpecial"
  "convertDotDimensionNumbers a \<noteq> NotSpecial" "convertGatherDimensionNumbers a \<noteq> NotSpecial"
  "convertScatterDimensionNumbers a \<noteq> NotSpecial" "convertUseGlobalDeviceIds a \<noteq> NotSpecial"
  "convertCustomCallApiVersion a \<noteq> NotSpecial" "convertCustomCallCalledComputations a \<noteq> NotSpecial"
  "convertFuncCallee a \<noteq> NotSpecial"
  by (simp_all add: convert_defs convertUseGlobalDeviceIds_def convertCustomCallApiVersion_def
      convertCustomCallCalledComputations_def convertFuncCallee_def emplace_special
      split: sattr.split hlo_attr.split option.split sum.split del: emplace.simps)

lemma special_not_generic: "special_name k n \<Longrightarrow> convertSpecial k n a \<noteq> NotSpecial"
  by (cases k) (auto simp: special_name_def convertSpecial_def exploded_def collective_def special_functions)

lemma legalize_special:
  assumes "legalize_attr k (n, a) = Inr vs" and "special_name k n"
  shows "convertSpecial k n a = SpecialSuccess vs"
proof (cases "convertSpecial k n a")
  case NotSpecial
  then show ?thesis using assms(2) special_not_generic by blast
qed (use assms(1) in \<open>auto simp: legalize_attr_def\<close>)

lemma structured_special:
  assumes "exploded k = Some h" and "\<not> collective k" and "convertSpecial k (fst h) a = SpecialSuccess vs"
  shows "\<exists>h'. a = StablehloAttr h' \<and> length (parts h') = length (snd h) \<and> vs = zip (snd h) (parts h')"
proof -
  have l: "length channel_names = 2" "length conv_names = 9" "length dot_names = 4" "length gather_names = 4"
    "length scatter_names = 4" by (simp_all add: names_defs)
  show ?thesis
    using assms convert_structured [of a vs]
    by (cases k) (auto simp: exploded_def collective_def convertSpecial_def l)
qed

lemma legalize_attr_legalized:
  assumes "legalize_attr k (n, a) = Inr vs"
  shows "legalized k n a vs"
proof (cases "special_name k n")
  case False
  then obtain v where "to_vhlo_attr a = Inr v" "vs = [(n, v)]"
    using assms by (auto simp: legalize_attr_def not_special bnd_eq_Inr)
  then show ?thesis using False by (simp add: legalized.generic)
next
  case True
  note s = legalize_special [OF assms True]
  have "(collective k \<and> n = ''channel_handle'') \<or> (collective k \<and> n = ''use_global_device_ids'') \<or>
      (\<exists>h. exploded k = Some h \<and> \<not> collective k \<and> n = fst h) \<or>
      (k = CustomCallOp \<and> n = ''api_version'') \<or> (k = CustomCallOp \<and> n = ''called_computations'') \<or>
      (k = CallOp \<and> n = ''callee'')"
  proof (cases "collective k")
    case False
    then show ?thesis using True by (cases "exploded k") (auto simp: special_name_def)
  qed (use True in \<open>auto simp: special_name_def\<close>)
  then show ?thesis
  proof (elim disjE conjE exE)
    assume k: "collective k" "n = ''channel_handle''"
    then have "convertSpecial k n a = convertChannelId a" by (simp add: convertSpecial_def collective_def)
    then show ?thesis using s k legalized.channel
      by (auto simp: convertChannelId_def convertInt_v split: sattr.splits hlo_attr.splits)
  next
    assume k: "collective k" "n = ''use_global_device_ids''"
    then have "convertSpecial k n a = convertUseGlobalDeviceIds a" by (simp add: convertSpecial_def collective_def)
    then show ?thesis using s k legalized.device_ids by (auto simp: convertUseGlobalDeviceIds_def split: if_splits)
  next
    fix h assume h: "exploded k = Some h" "\<not> collective k" "n = fst h"
    have "\<exists>h'. a = StablehloAttr h' \<and> length (parts h') = length (snd h) \<and> vs = zip (snd h) (parts h')"
      using structured_special [OF h(1,2), of a] s h(3) by simp
    then show ?thesis using h legalized.structured [of k n "snd h"] by auto
  next
    assume "k = CustomCallOp" "n = ''api_version''"
    then show ?thesis using s legalized.version
      by (auto simp: convertSpecial_def convertCustomCallApiVersion_def split: sattr.splits if_splits option.splits)
  next
    assume "k = CustomCallOp" "n = ''called_computations''"
    then show ?thesis using s legalized.called symbols_Inr
      by (fastforce simp: convertSpecial_def convertCustomCallCalledComputations_def split: sattr.splits sum.splits)
  next
    assume "k = CallOp" "n = ''callee''"
    then show ?thesis using s legalized.callee
      by (auto simp: convertSpecial_def convertFuncCallee_def convertSymbol_Inr split: sum.splits)
  qed
qed

lemma legalized_keys: "legalized k n a vs \<Longrightarrow> map fst vs = keys k n"
proof (induction rule: legalized.induct)
  case (generic k n a v)
  then show ?case by (auto simp: keys_def special_name_def split: option.splits)
next
  case (structured k n names h)
  then show ?case by (simp add: keys_def)
qed (simp_all add: keys_def)

section \<open>Defaults\<close>

text \<open>
  The attributes of a class with a default, the default as an attribute of VHLO, for \<open>n\<close> dimensions, and
  the test for it: all by name.
\<close>

fun erasable :: "op_class \<Rightarrow> string list" where
  "erasable FuncOp = [''sym_visibility'', ''arg_attrs'', ''res_attrs'']"
| "erasable AllGatherOp = [''channel_id'', ''use_global_device_ids'']"
| "erasable AllReduceOp = [''channel_id'', ''use_global_device_ids'']"
| "erasable ReduceScatterOp = [''channel_id'', ''use_global_device_ids'']"
| "erasable AllToAllOp = [''channel_id'']"
| "erasable CollectivePermuteOp = [''channel_id'']"
| "erasable CholeskyOp = [''lower'']"
| "erasable CompareOp = [''compare_type'']"
| "erasable ConvolutionOp = [''window_strides'', ''padding'', ''lhs_dilation'', ''rhs_dilation'', ''window_reversal'',
     ''precision_config'']"
| "erasable DynamicConvOp = [''window_strides'', ''padding'', ''lhs_dilation'', ''rhs_dilation'', ''window_reversal'',
     ''precision_config'']"
| "erasable CustomCallOp = [''has_side_effect'', ''backend_config'', ''api_version'', ''called_computations'',
     ''operand_layouts'', ''result_layouts'', ''output_operand_aliases'']"
| "erasable DotGeneralOp = [''precision_config'']"
| "erasable DotOp = [''precision_config'']"
| "erasable DynamicBroadcastInDimOp = [''known_expanding_dimensions'', ''known_nonexpanding_dimensions'']"
| "erasable DynamicGatherOp = [''indices_are_sorted'']"
| "erasable GatherOp = [''indices_are_sorted'']"
| "erasable InfeedOp = [''infeed_config'', ''layout'']"
| "erasable OutfeedOp = [''outfeed_config'']"
| "erasable RecvOp = [''is_host_transfer'']"
| "erasable SendOp = [''is_host_transfer'']"
| "erasable ReduceWindowOp = [''window_strides'', ''base_dilations'', ''window_dilations'', ''padding'']"
| "erasable ScatterOp = [''indices_are_sorted'', ''unique_indices'']"
| "erasable SelectAndScatterOp = [''window_strides'', ''padding'']"
| "erasable SortOp = [''dimension'', ''is_stable'']"
| "erasable _ = []"

definition hlo_name :: "string \<Rightarrow> string" where
  "hlo_name m = (if m = ''channel_id'' then ''channel_handle'' else m)"

definition string_names :: "string list" where
  "string_names = [''sym_visibility'', ''backend_config'', ''infeed_config'', ''outfeed_config'']"

definition array_names :: "string list" where
  "array_names = [''arg_attrs'', ''res_attrs'', ''called_computations'', ''operand_layouts'', ''result_layouts'',
     ''output_operand_aliases'', ''layout'']"

definition bool_names :: "string list" where
  "bool_names = [''use_global_device_ids'', ''lower'', ''has_side_effect'', ''indices_are_sorted'', ''unique_indices'',
     ''is_host_transfer'', ''is_stable'']"

definition stride_names :: "string list" where
  "stride_names = [''window_strides'', ''lhs_dilation'', ''rhs_dilation'', ''base_dilations'', ''window_dilations'']"

definition known_names :: "string list" where
  "known_names = [''known_expanding_dimensions'', ''known_nonexpanding_dimensions'']"

lemmas default_names = string_names_def array_names_def bool_names_def stride_names_def known_names_def

definition default_v :: "int \<Rightarrow> string \<Rightarrow> vattr" where
  "default_v n m =
     (if m \<in> set string_names then StringV1Attr []
      else if m \<in> set array_names then ArrayV1Attr []
      else if m \<in> set bool_names then BooleanV1Attr False
      else if m \<in> set stride_names then ints_v [int (nat n)] (replicate (nat n) 1)
      else if m \<in> set known_names then ints_v [0] []
      else if m = ''padding'' then ints_v [n, 2] (replicate (nat (n * 2)) 0)
      else if m = ''window_reversal'' then TensorV1Attr (RankedTensorV1Type [n] (Simple BooleanV1Type) None) (if n = 0 then [] else [0])
      else if m = ''channel_id'' then int_v 0
      else if m = ''dimension'' then int_v (- 1)
      else if m = ''compare_type'' then ComparisonTypeV1Attr NOTYPE
      else if m = ''api_version'' then CustomCallApiVersionV1Attr API_VERSION_ORIGINAL
      else ArrayV1Attr [default_precision, default_precision])"

definition default_test :: "lib \<Rightarrow> string \<Rightarrow> vattr option \<Rightarrow> bool res" where
  "default_test L m a =
     (if m \<in> set string_names then Inr (isEmptyString a)
      else if m \<in> set array_names then Inr (isEmptyArray a)
      else if m \<in> set bool_names then Inr (isBoolean a False)
      else if m \<in> set stride_names then isSplatTensor L (i64_value_is 1) a
      else if m \<in> set known_names then Inr (isEmptyTensor a)
      else if m = ''padding'' then isSplatTensor L (i64_value_is 0) a
      else if m = ''window_reversal'' then isSplatTensor L (bool_value_is False) a
      else if m = ''channel_id'' then Inr (isIntegerAttr a 0)
      else if m = ''dimension'' then Inr (isIntegerAttr a (- 1))
      else if m = ''compare_type'' then Inr (isEnum a (ComparisonTypeV1Attr NOTYPE))
      else if m = ''api_version'' then Inr (isEnum a (CustomCallApiVersionV1Attr API_VERSION_ORIGINAL))
      else Inr (isSplatArray a default_precision))"

definition dims :: "op_class \<Rightarrow> sattrs \<Rightarrow> int res" where
  "dims k A = (if k \<in> {ConvolutionOp, DynamicConvOp} then numSpatialDimensions A
     else if k = ReduceWindowOp then numWindowDimensions A
     else if k = SelectAndScatterOp then
       if \<not> has_attr A ''window_dimensions'' then Inl (Fatal ''failure'') else numWindowDimensions A
     else Inr 0)"

lemma removable_tests: "removable L k get = map (\<lambda>m. (m, default_test L m (get m))) (erasable k)"
proof -
  have "isString a [] = isEmptyString a" for a by (simp add: isString_def isEmptyString_def split: option.split vattr.split)
  then show ?thesis
    by (cases k) (simp_all add: default_test_def default_names window_defaults_def)
qed

lemma default_values:
  "to_vhlo_attr (getI64IntegerAttr n) = Inr (int_v n)"
  "to_vhlo_attr (getBoolAttr b) = Inr (BooleanV1Attr b)"
  "to_vhlo_attr (ones_attr n) = Inr (ints_v [int (nat n)] (replicate (nat n) 1))"
  "to_vhlo_attr (no_padding n) = Inr (ints_v [n, 2] (replicate (nat (n * 2)) 0))"
  "to_vhlo_attr (getI64TensorAttr []) = Inr (ints_v [0] [])"
  "to_vhlo_attr (dense_false n) = Inr (TensorV1Attr (RankedTensorV1Type [n] (Simple BooleanV1Type) None) (if n = 0 then [] else [0]))"
  "to_vhlo_attr default_precisions = Inr (ArrayV1Attr [default_precision, default_precision])"
  by (simp_all add: getI64IntegerAttr_def getBoolAttr_def int_v_def ones_attr_def no_padding_def getI64TensorAttr_def dense_ints_v
      dense_false_def default_precisions_def default_precision_def convertBuiltinIntegerType_def numeral_2_eq_2)

lemma addDefaultAttr_Inr: "to_vhlo_attr a = Inr v \<Longrightarrow>
    addDefaultAttr A n m a = Inr (if has_attr A n then [] else [(m, v)])"
  by (simp add: addDefaultAttr_def)

lemma add_all_Nil [simp]: "add_all [] = Inr []"
  by (simp add: add_all_def)

lemma add_all_Cons [simp]: "add_all (Inr xs # rs) = bnd (add_all rs) (\<lambda>ys. Inr (xs @ ys))"
  by (cases "mapM (\<lambda>r. r) rs") (simp_all add: add_all_def)

text \<open>The defaults that are added.\<close>

lemma addDefaults_eq: "addDefaults k A = bnd (dims k A) (\<lambda>n. Inr (concat
    (map (\<lambda>m. if has_attr A (hlo_name m) then [] else [(m, default_v n m)]) (erasable k))))"
  by (cases k) (simp_all add: dims_def default_v_def hlo_name_def default_names default_values addDefaultAttr_Inr
      cong: if_cong)

section \<open>The attributes in VHLO\<close>

text \<open>
  Well-formed attributes of an operation: names that occur once and are not those VHLO uses for the parts of
  another attribute, values in the range of their types, the structured attribute of the class, and 64-bit
  integers where a window is described.
\<close>

definition dim_names :: "string list" where
  "dim_names = stride_names @ [''padding'', ''window_reversal'']"

definition window_typed :: "string \<Rightarrow> sattr \<Rightarrow> bool" where
  "window_typed n a \<longleftrightarrow> (\<exists>sh enc raw. a = DenseElementsAttr
     (RankedTensorTy sh (if n = ''window_reversal'' then i1_ty else i64_ty) enc) raw)"

definition op_attr_ok :: "lib \<Rightarrow> op_class \<Rightarrow> string \<times> sattr \<Rightarrow> bool" where
  "op_attr_ok L k na \<longleftrightarrow> fst na \<notin> vhlo_only k \<and> sattr_ok L (snd na) \<and>
     (case snd na of StablehloAttr h \<Rightarrow> hlo_attr_ok h | IntegerAttr t i \<Rightarrow> t = i32_ty \<longrightarrow> wf_apint i \<and> ap_width i = 32
      | _ \<Rightarrow> True) \<and>
     (fst na \<in> set dim_names \<and> fst na \<in> set (erasable k) \<longrightarrow> window_typed (fst na) (snd na))"

definition op_attrs_ok :: "lib \<Rightarrow> op_class \<Rightarrow> sattrs \<Rightarrow> bool" where
  "op_attrs_ok L k A \<longleftrightarrow> distinct (map fst A) \<and> (\<forall>na \<in> set A. op_attr_ok L k na) \<and>
     (case exploded k of Some (h, _) \<Rightarrow> collective k \<or> has_attr A h | None \<Rightarrow> True)"

lemma has_attr_iff: "has_attr A n \<longleftrightarrow> (\<exists>a. (n, a) \<in> set A)"
  by (force simp: has_attr_def map_of_eq_None_iff)

lemma set_dictionary [simp]: "set (dictionary xs) = set xs"
  by (simp add: dictionary_def)

lemma mapM_concat_set:
  "mapM f xs = Inr yss \<Longrightarrow> y \<in> set (concat yss) \<longleftrightarrow> (\<exists>x \<in> set xs. \<exists>ys. f x = Inr ys \<and> y \<in> set ys)"
  by (induction xs arbitrary: yss) (auto simp: bnd_eq_Inr)

lemma legalize_attrs_set:
  assumes "legalize_attrs k A = Inr F"
  obtains n where "dims k A = Inr n"
    "\<And>m v. (m, v) \<in> set F \<longleftrightarrow> (m \<in> set (erasable k) \<and> \<not> has_attr A (hlo_name m) \<and> v = default_v n m) \<or>
      (\<exists>h a vs. (h, a) \<in> set A \<and> legalized k h a vs \<and> legalize_attr k (h, a) = Inr vs \<and> (m, v) \<in> set vs)"
    "\<And>h a. (h, a) \<in> set A \<Longrightarrow> \<exists>vs. legalize_attr k (h, a) = Inr vs"
proof -
  obtain n vs where n: "dims k A = Inr n" and vs: "mapM (legalize_attr k) A = Inr vs" and
    F: "F = dictionary (concat (map (\<lambda>m. if has_attr A (hlo_name m) then [] else [(m, default_v n m)]) (erasable k)) @ concat vs)"
    using assms by (auto simp: legalize_attrs_def addDefaults_eq bnd_eq_Inr)
  show ?thesis
  proof (rule that [OF n])
    fix m v
    have given: "(\<exists>x \<in> set A. \<exists>ys. legalize_attr k x = Inr ys \<and> (m, v) \<in> set ys) \<longleftrightarrow>
        (\<exists>h a vs. (h, a) \<in> set A \<and> legalized k h a vs \<and> legalize_attr k (h, a) = Inr vs \<and> (m, v) \<in> set vs)"
      by (force dest: legalize_attr_legalized)
    have "(m, v) \<in> set (concat (map (\<lambda>m. if has_attr A (hlo_name m) then [] else [(m, default_v n m)]) (erasable k))) \<longleftrightarrow>
        m \<in> set (erasable k) \<and> \<not> has_attr A (hlo_name m) \<and> v = default_v n m"
      by auto
    then show "(m, v) \<in> set F \<longleftrightarrow> (m \<in> set (erasable k) \<and> \<not> has_attr A (hlo_name m) \<and> v = default_v n m) \<or>
        (\<exists>h a vs. (h, a) \<in> set A \<and> legalized k h a vs \<and> legalize_attr k (h, a) = Inr vs \<and> (m, v) \<in> set vs)"
      using mapM_concat_set [OF vs, of "(m, v)"] by (simp only: F set_dictionary set_append Un_iff given)
  next
    fix h a assume "(h, a) \<in> set A"
    then show "\<exists>vs. legalize_attr k (h, a) = Inr vs" using vs by (metis mapM_Inr_iff)
  qed
qed

lemma erasable_keys: "m \<in> set (erasable k) \<Longrightarrow> keys k (hlo_name m) = [m] \<and> hlo_name m \<notin> vhlo_only k"
  by (cases k) (auto simp: keys_def hlo_name_def vhlo_only_def exploded_def collective_def names_defs)

lemma legalized_attrs_unique:
  assumes ok: "op_attrs_ok L k A" and F: "legalize_attrs k A = Inr F" and v: "(m, v) \<in> set F" "(m, v') \<in> set F"
  shows "v = v'"
proof -
  obtain n where n: "dims k A = Inr n" and set: "\<And>m v. (m, v) \<in> set F \<longleftrightarrow>
      (m \<in> set (erasable k) \<and> \<not> has_attr A (hlo_name m) \<and> v = default_v n m) \<or>
      (\<exists>h a vs. (h, a) \<in> set A \<and> legalized k h a vs \<and> legalize_attr k (h, a) = Inr vs \<and> (m, v) \<in> set vs)"
    by (rule legalize_attrs_set [OF F]) blast
  have key: "m \<in> set (keys k h) \<and> h \<notin> vhlo_only k"
    if "(h, a) \<in> set A" "legalized k h a vs" "(m, v) \<in> set vs" for h a vs v
  proof -
    have "m \<in> set (map fst vs)" using that(3) by force
    then show ?thesis using that(1) ok legalized_keys [OF that(2)] by (auto simp: op_attrs_ok_def op_attr_ok_def)
  qed
  have one: "h = hlo_name m" if "m \<in> set (erasable k)" "(h, a) \<in> set A" "legalized k h a vs" "(m, v) \<in> set vs" for h a vs v
    using keys_inj [of m k h "hlo_name m"] key [OF that(2-4)] erasable_keys [OF that(1)] by simp
  have two: "v = v'" if "(h, a) \<in> set A" "legalize_attr k (h, a) = Inr vs" "(m, v) \<in> set vs" "legalized k h a vs"
      "(h', a') \<in> set A" "legalize_attr k (h', a') = Inr vs'" "(m, v') \<in> set vs'" "legalized k h' a' vs'" for h a vs h' a' vs' v v'
  proof -
    have "h = h'" using keys_inj key [OF that(1,4,3)] key [OF that(5,8,7)] by blast
    then have "a = a'" using ok that(1,5) by (auto simp: op_attrs_ok_def dest: eq_key_imp_eq_value)
    then have "vs = vs'" using that(2,6) \<open>h = h'\<close> by simp
    moreover have "distinct (map fst vs)" using legalized_keys [OF that(4)] keys_distinct by metis
    ultimately show ?thesis using that(3,7) eq_key_imp_eq_value by metis
  qed
  show ?thesis
    using v unfolding set using one two by (metis has_attr_iff)
qed

lemma legalized_attrs_map:
  assumes "op_attrs_ok L k A" and "legalize_attrs k A = Inr F"
  shows "map_of F m = Some v \<longleftrightarrow> (m, v) \<in> set F"
proof
  assume v: "(m, v) \<in> set F"
  then obtain v' where "map_of F m = Some v'" by (cases "map_of F m") (force simp: map_of_eq_None_iff)+
  then show "map_of F m = Some v"
    using legalized_attrs_unique [OF assms v] map_of_SomeD [of F m v'] by simp
qed (rule map_of_SomeD)

section \<open>Removing the defaults\<close>

lemma from_ints_v: "from_vhlo_attr L (ints_v sh xs) = Inr (dense_ints sh xs)"
  by (simp add: ints_v_def dense_ints_def)

lemma from_false_v:
  "from_vhlo_attr L (TensorV1Attr (RankedTensorV1Type [n] (Simple BooleanV1Type) None) raw) =
     Inr (DenseElementsAttr (RankedTensorTy [n] i1_ty None) raw)"
  by simp

lemma erasable_not_special: "m \<in> set (erasable k) \<Longrightarrow> m \<in> set dim_names \<Longrightarrow> \<not> special_name k m \<and> hlo_name m = m"
  by (cases k) (auto simp: special_name_def hlo_name_def exploded_def collective_def dim_names_def stride_names_def)

lemma legalized_generic: "legalized k n a vs \<Longrightarrow> \<not> special_name k n \<Longrightarrow> \<exists>v. vs = [(n, v)] \<and> to_vhlo_attr a = Inr v"
  by (erule legalized.cases) (auto simp: special_name_def)

lemma window_attr:
  assumes "lib_ok L" and ok: "op_attrs_ok L k A" and F: "legalize_attrs k A = Inr F"
    and m: "m \<in> set (erasable k)" "m \<in> set dim_names"
  obtains v where "map_of F m = Some v"
    "\<And>a. (m, a) \<in> set A \<Longrightarrow> from_vhlo_attr L v = Inr a \<and> window_typed m a"
    "\<not> has_attr A m \<Longrightarrow> \<exists>n. dims k A = Inr n \<and> v = default_v n m"
proof -
  obtain n where n: "dims k A = Inr n" and set: "\<And>m v. (m, v) \<in> set F \<longleftrightarrow>
      (m \<in> set (erasable k) \<and> \<not> has_attr A (hlo_name m) \<and> v = default_v n m) \<or>
      (\<exists>h a vs. (h, a) \<in> set A \<and> legalized k h a vs \<and> legalize_attr k (h, a) = Inr vs \<and> (m, v) \<in> set vs)"
    and all: "\<And>h a. (h, a) \<in> set A \<Longrightarrow> \<exists>vs. legalize_attr k (h, a) = Inr vs"
    by (rule legalize_attrs_set [OF F]) blast
  note s = erasable_not_special [OF m]
  show ?thesis
  proof (cases "has_attr A m")
    case False
    then have "(m, default_v n m) \<in> set F" using m(1) s by (simp add: set)
    then show ?thesis using False n has_attr_iff legalized_attrs_map [OF ok F] by (intro that [of "default_v n m"]) auto
  next
    case True
    then obtain a where a: "(m, a) \<in> set A" by (auto simp: has_attr_iff)
    then obtain vs where vs: "legalize_attr k (m, a) = Inr vs" using all by blast
    then obtain v where v: "vs = [(m, v)]" "to_vhlo_attr a = Inr v"
      using legalized_generic legalize_attr_legalized s by blast
    have "(m, v) \<in> set F" unfolding set using a vs v(1) legalize_attr_legalized [OF vs]
      by (intro disjI2 exI [of _ m] exI [of _ a] exI [of _ vs]) simp
    moreover have "from_vhlo_attr L v = Inr a" "window_typed m a"
      using from_to_attr [OF assms(1) v(2)] ok a m by (auto simp: op_attrs_ok_def op_attr_ok_def)
    moreover have "a' = a" if "(m, a') \<in> set A" for a'
      using that a ok by (auto simp: op_attrs_ok_def dest: eq_key_imp_eq_value)
    ultimately show ?thesis using True legalized_attrs_map [OF ok F] by (intro that [of v]) auto
  qed
qed

text \<open>What the test says of a typed window attribute and of a default.\<close>

definition dim_value :: "string \<Rightarrow> sty \<Rightarrow> 8 word list \<Rightarrow> bool res" where
  "dim_value m = (if m = ''padding'' then i64_value_is 0 else if m = ''window_reversal'' then bool_value_is False
     else i64_value_is 1)"

lemma dim_cases: "m \<in> set dim_names \<longleftrightarrow> m \<in> set stride_names \<or> m = ''padding'' \<or> m = ''window_reversal''"
  by (auto simp: dim_names_def)

lemma default_test_dim: "m \<in> set dim_names \<Longrightarrow> default_test L m a = isSplatTensor L (dim_value m) a"
  unfolding dim_cases stride_names_def list.set insert_iff empty_iff
  by (elim disjE) (simp_all add: default_test_def dim_value_def default_names)

lemma splat_test_typed: "from_vhlo_attr L v = Inr a \<Longrightarrow> window_typed m a \<Longrightarrow> m \<in> set dim_names \<Longrightarrow>
    \<exists>b. default_test L m (Some v) = Inr b"
proof -
  assume v: "from_vhlo_attr L v = Inr a" and w: "window_typed m a" and m: "m \<in> set dim_names"
  obtain sh enc raw where a: "a = DenseElementsAttr (RankedTensorTy sh (if m = ''window_reversal'' then i1_ty else i64_ty) enc) raw"
    using w by (auto simp: window_typed_def)
  have "\<exists>b. dim_value m (if m = ''window_reversal'' then i1_ty else i64_ty) raw = Inr b"
    by (simp add: dim_value_def i64_value_is_def bool_value_is_def)
  then show ?thesis using v by (simp add: default_test_dim [OF m] isSplatTensor_def a) blast
qed

lemma raw_replicate: "raw_ints (replicate n v) = (if n = 0 then [] else i64_bytes v)"
  by (simp add: raw_ints_def)

lemma default_dim:
  "m \<in> set stride_names \<Longrightarrow> default_v n m = ints_v [int (nat n)] (replicate (nat n) 1)"
  "default_v n ''padding'' = ints_v [n, 2] (replicate (nat (n * 2)) 0)"
  "default_v n ''window_reversal'' = TensorV1Attr (RankedTensorV1Type [n] (Simple BooleanV1Type) None) (if n = 0 then [] else [0])"
  unfolding stride_names_def list.set insert_iff empty_iff
  by (elim disjE, simp_all add: default_v_def default_names)

lemma default_test_default:
  assumes "m \<in> set (erasable k)" and "0 \<le> n"
  shows "default_test L m (Some (default_v n m)) = Inr (m \<in> set dim_names \<longrightarrow> n \<noteq> 0)"
proof (cases "m \<in> set dim_names")
  case True
  have one: "i64_of_bytes (i64_bytes 1) = 1" "i64_of_bytes (i64_bytes 0) = 0" by (simp_all add: i64_of_bytes_back i64_ok_def)
  have ne: "i64_bytes v \<noteq> []" for v by (metis length_i64_bytes list.size(3) zero_neq_numeral)
  have s: "''padding'' \<notin> set stride_names" "''window_reversal'' \<notin> set stride_names" by (simp_all add: stride_names_def)
  have "isSplatTensor L (dim_value m) (Some (default_v n m)) = Inr (n \<noteq> 0)"
    using True assms(2) s unfolding dim_cases
    by (elim disjE) (auto simp: default_dim isSplatTensor_def from_ints_v dense_ints_def is_splat_def raw_replicate dim_value_def
        i64_value_is_def bool_value_is_def one ne simp del: from_vhlo_attr.simps simp: from_false_v)
  then show ?thesis using True by (simp add: default_test_dim)
next
  case False
  have sv: "sval (mk_apint 64 0) = 0" "sval (mk_apint 64 (- 1)) = - 1" by (simp_all add: sval_mk_in)
  have known: "raw_ints [] = []" by (simp add: raw_ints_def)
  show ?thesis using False assms(1)
    by (cases k) (auto simp: dim_names_def default_test_def default_v_def default_names isEmptyString_def isEmptyArray_def
        isBoolean_def isEmptyTensor_def isIntegerAttr_def isEnum_def isSplatArray_def ints_v_def int_v_def known sv)
qed

end
