(* ===== verification/VhloRoundTrip.thy ===== *)
theory VhloRoundTrip
  imports VhloOpsLaws
begin

text \<open>
  From VHLO back to StableHLO: which attributes come back, with which value, and that a program comes back
  as it was up to attributes that have their default value.
\<close>

section \<open>What removing the defaults leaves\<close>

lemma remove_all_filter:
  assumes "\<And>m. m \<in> set ms \<Longrightarrow> \<exists>b. t m = Inr b"
  shows "remove_all (map (\<lambda>m. (m, t m)) ms) F = Inr (filter (\<lambda>mv. \<not> (fst mv \<in> set ms \<and> t (fst mv) = Inr True)) F)"
  using assms
proof (induction ms arbitrary: F)
  case (Cons m ms)
  obtain b where b: "t m = Inr b" using Cons.prems by auto
  have e: "remove_all (map (\<lambda>m. (m, t m)) ms) G = Inr (filter (\<lambda>mv. \<not> (fst mv \<in> set ms \<and> t (fst mv) = Inr True)) G)"
    for G using Cons by simp
  show ?case using b by (auto simp: e eraseAttrs_def intro!: filter_cong)
qed simp

lemma dims_nonneg:
  assumes "op_attrs_ok L k A" and "dims k A = Inr n"
  shows "0 \<le> n"
proof -
  have w: "0 \<le> n" if d: "numWindowDimensions A = Inr n"
  proof -
    obtain sh et enc raw where a: "map_of A ''window_dimensions'' = Some (DenseElementsAttr (RankedTensorTy sh et enc) raw)"
      and n: "n = num_elements sh"
      using d by (auto simp: numWindowDimensions_def split: option.splits sattr.splits sty.splits)
    have "op_attr_ok L k (''window_dimensions'', DenseElementsAttr (RankedTensorTy sh et enc) raw)"
      using assms(1) map_of_SomeD [OF a] by (auto simp: op_attrs_ok_def)
    then have "\<forall>d \<in> set sh. 0 \<le> d" by (simp add: op_attr_ok_def)
    then show ?thesis unfolding n num_elements_def by (induction sh) auto
  qed
  have "0 \<le> n" if "numSpatialDimensions A = Inr n"
    using that by (auto simp: numSpatialDimensions_def split: option.splits sattr.splits hlo_attr.splits)
  then show ?thesis using w assms(2) by (auto simp: dims_def split: if_splits)
qed

lemma default_test_defined: "m \<notin> set dim_names \<Longrightarrow> \<exists>b. default_test L m a = Inr b"
  by (simp add: default_test_def dim_names_def)

lemma tests_defined:
  assumes "lib_ok L" and "op_attrs_ok L k A" and "legalize_attrs k A = Inr F" and "m \<in> set (erasable k)"
  shows "\<exists>b. default_test L m (map_of F m) = Inr b"
proof (cases "m \<in> set dim_names")
  case True
  obtain v where v: "map_of F m = Some v" "\<And>a. (m, a) \<in> set A \<Longrightarrow> from_vhlo_attr L v = Inr a \<and> window_typed m a"
    "\<not> has_attr A m \<Longrightarrow> \<exists>n. dims k A = Inr n \<and> v = default_v n m"
    using window_attr [OF assms True] by blast
  show ?thesis
  proof (cases "has_attr A m")
    case True
    then show ?thesis using v(1,2) splat_test_typed \<open>m \<in> set dim_names\<close> by (auto simp: has_attr_iff)
  next
    case False
    then obtain n where "dims k A = Inr n" "v = default_v n m" using v(3) by blast
    then show ?thesis using default_test_default [OF assms(4)] dims_nonneg [OF assms(2)] v(1) by auto
  qed
qed (rule default_test_defined)

definition erased :: "lib \<Rightarrow> op_class \<Rightarrow> string \<times> vattr \<Rightarrow> bool" where
  "erased L k mv \<longleftrightarrow> fst mv \<in> set (erasable k) \<and> default_test L (fst mv) (Some (snd mv)) = Inr True"

lemma removeDefaults_eq:
  assumes "lib_ok L" and "op_attrs_ok L k A" and "legalize_attrs k A = Inr F"
  shows "removeDefaults L k F = Inr (filter (\<lambda>mv. \<not> erased L k mv) F)"
proof -
  have "removeDefaults L k F =
      Inr (filter (\<lambda>mv. \<not> (fst mv \<in> set (erasable k) \<and> default_test L (fst mv) (map_of F (fst mv)) = Inr True)) F)"
    unfolding removeDefaults_def removable_tests by (rule remove_all_filter) (rule tests_defined [OF assms])
  also have "\<dots> = Inr (filter (\<lambda>mv. \<not> erased L k mv) F)"
  proof -
    have "default_test L (fst mv) (map_of F (fst mv)) = default_test L (fst mv) (Some (snd mv))" if "mv \<in> set F" for mv
      using legalized_attrs_map [OF assms(2,3), of "fst mv" "snd mv"] that by simp
    then show ?thesis by (auto simp: erased_def intro!: filter_cong)
  qed
  finally show ?thesis .
qed

section \<open>The structured attributes\<close>

lemma the_parts:
  "map_of F m = Some (int_v v) \<Longrightarrow> i64_ok v \<Longrightarrow> the_int F m = Inr v"
  "map_of F m = Some (ints_v [int (length vs)] vs) \<Longrightarrow> i64s_ok vs \<Longrightarrow> the_ints L F m = Inr vs"
  by (simp_all add: the_attr_def convertInt_back_v convertInts_back_v num_elements_def)

lemma structured_back:
  assumes "legalize_attr k (h, a) = Inr vs" and "exploded k = Some (h, names)" and "\<not> collective k"
    and "\<And>m v. (m, v) \<in> set vs \<Longrightarrow> map_of F m = Some v" and "\<And>x. a = StablehloAttr x \<Longrightarrow> hlo_attr_ok x"
  shows "implodeSpecial L k F F1 = Inr (eraseAttrs names F1, [(h, a)])"
proof -
  have "special_name k h" using assms(2) by (simp add: special_name_def)
  then have s: "convertSpecial k h a = SpecialSuccess vs" by (rule legalize_special [OF assms(1)])
  note [simp] = implodeSpecial_def implode_def convertSpecial_def names_defs [symmetric]
  have conv: "convertConvDimensionNumbers_back L F = Inr a" if "convertConvDimensionNumbers a = SpecialSuccess vs"
    using that assms(4,5) by (auto simp: convert_defs convertInt_v convertInts_v convertConvDimensionNumbers_back_def
        hlo_attr_ok_def the_parts split: sattr.splits hlo_attr.splits)
  have dot: "convertDotDimensionNumbers_back L F = Inr a" if "convertDotDimensionNumbers a = SpecialSuccess vs"
    using that assms(4,5) by (auto simp: convert_defs convertInt_v convertInts_v convertDotDimensionNumbers_back_def
        hlo_attr_ok_def the_parts split: sattr.splits hlo_attr.splits)
  have gather: "convertGatherDimensionNumbers_back L F = Inr a" if "convertGatherDimensionNumbers a = SpecialSuccess vs"
    using that assms(4,5) by (auto simp: convert_defs convertInt_v convertInts_v convertGatherDimensionNumbers_back_def
        hlo_attr_ok_def the_parts split: sattr.splits hlo_attr.splits)
  have scatter: "convertScatterDimensionNumbers_back L F = Inr a" if "convertScatterDimensionNumbers a = SpecialSuccess vs"
    using that assms(4,5) by (auto simp: convert_defs convertInt_v convertInts_v convertScatterDimensionNumbers_back_def
        hlo_attr_ok_def the_parts split: sattr.splits hlo_attr.splits)
  have channel: "convertChannelHandle_back F = Inr a" if "convertChannelHandle a = SpecialSuccess vs"
    using that assms(4,5) by (auto simp: convert_defs convertInt_v convertInts_v convertChannelHandle_back_def
        hlo_attr_ok_def the_parts split: sattr.splits hlo_attr.splits)
  show ?thesis using assms(2,3) s conv dot gather scatter channel
    by (cases k) (simp_all add: exploded_def collective_def)
qed

text \<open>The attributes that are made of several.\<close>

definition structured_name :: "op_class \<Rightarrow> string \<Rightarrow> bool" where
  "structured_name k n \<longleftrightarrow> \<not> collective k \<and> (\<exists>names. exploded k = Some (n, names))"

lemma not_structured: "exploded k = None \<or> collective k \<Longrightarrow> implodeSpecial L k F F1 = Inr (F1, [])"
  by (cases k) (simp_all add: exploded_def collective_def implodeSpecial_def)

section \<open>The attributes that come back\<close>

text \<open>
  The default value of an attribute of StableHLO, by its name. A dense attribute of one value for all its
  elements is the default of strides, dilations, padding and reversal, an array of any number of
  \<open>DEFAULT\<close> that of the precisions.
\<close>

definition splat_of :: "sty \<Rightarrow> (8 word list \<Rightarrow> bool) \<Rightarrow> sattr \<Rightarrow> bool" where
  "splat_of et p a = (case a of DenseElementsAttr (RankedTensorTy sh et' enc) raw \<Rightarrow> et' = et \<and> is_splat et raw \<and> p raw | _ \<Rightarrow> False)"

definition is_default_attr :: "string \<Rightarrow> sattr \<Rightarrow> bool" where
  "is_default_attr n a =
     (if n \<in> set string_names then a = StringAttr [] NoneTy
      else if n \<in> set array_names then a = ArrayAttr []
      else if n \<in> set bool_names then a = getBoolAttr False
      else if n \<in> set stride_names then splat_of i64_ty (\<lambda>raw. i64_of_bytes raw = 1) a
      else if n \<in> set known_names then (case a of DenseElementsAttr t raw \<Rightarrow> raw = [] | _ \<Rightarrow> False)
      else if n = ''padding'' then splat_of i64_ty (\<lambda>raw. i64_of_bytes raw = 0) a
      else if n = ''window_reversal'' then splat_of i1_ty (\<lambda>raw. raw = [0]) a
      else if n = ''channel_handle'' then (case a of StablehloAttr (ChannelHandleAttr h t) \<Rightarrow> h = 0 | _ \<Rightarrow> False)
      else if n = ''dimension'' then (case a of IntegerAttr t i \<Rightarrow> t \<noteq> i1_ty \<and> sval i = - 1 | _ \<Rightarrow> False)
      else if n = ''compare_type'' then a = StablehloAttr (ComparisonTypeAttr NOTYPE)
      else if n = ''api_version'' then a = api_version_attr API_VERSION_ORIGINAL
      else (case a of ArrayAttr as \<Rightarrow> \<forall>a \<in> set as. a = StablehloAttr (PrecisionAttr PREC_DEFAULT) | _ \<Rightarrow> False))"

definition defaulted :: "op_class \<Rightarrow> string \<Rightarrow> sattr \<Rightarrow> bool" where
  "defaulted k n a \<longleftrightarrow> n \<in> hlo_name ` set (erasable k) \<and> is_default_attr n a"

text \<open>The type of a channel is not kept for the collective operations.\<close>

definition forget :: "op_class \<Rightarrow> sattr \<Rightarrow> sattr" where
  "forget k a = (case a of
     StablehloAttr (ChannelHandleAttr h t) \<Rightarrow> if collective k then StablehloAttr (ChannelHandleAttr h 0) else a
   | _ \<Rightarrow> a)"

lemma bool_test: "to_vhlo_attr a = Inr v \<Longrightarrow> sattr_ok L a \<Longrightarrow> isBoolean (Some v) False \<longleftrightarrow> a = getBoolAttr False"
  by (cases a) (auto simp: isBoolean_def getBoolAttr_def bnd_eq_Inr null_attr_def wf_apint_def
      split: if_splits hlo_attr.splits intro: apint.expand)

lemma string_test: "to_vhlo_attr a = Inr v \<Longrightarrow> isEmptyString (Some v) \<longleftrightarrow> a = StringAttr [] NoneTy"
  by (cases a) (auto simp: isEmptyString_def bnd_eq_Inr null_attr_def split: if_splits hlo_attr.splits)

lemma mapM_Nil: "mapM f xs = Inr [] \<longleftrightarrow> xs = []"
  by (cases xs) (auto simp: bnd_eq_Inr)

lemma array_test: "to_vhlo_attr a = Inr v \<Longrightarrow> isEmptyArray (Some v) \<longleftrightarrow> a = ArrayAttr []"
  by (cases a) (auto simp: isEmptyArray_def bnd_eq_Inr null_attr_def mapM_Nil split: if_splits hlo_attr.splits)

lemma known_test: "to_vhlo_attr a = Inr v \<Longrightarrow> isEmptyTensor (Some v) \<longleftrightarrow> (case a of DenseElementsAttr t raw \<Rightarrow> raw = [] | _ \<Rightarrow> False)"
  by (cases a) (auto simp: isEmptyTensor_def bnd_eq_Inr null_attr_def split: if_splits hlo_attr.splits)

lemma integer_test: "to_vhlo_attr a = Inr v \<Longrightarrow>
    isIntegerAttr (Some v) n \<longleftrightarrow> (case a of IntegerAttr t i \<Rightarrow> t \<noteq> i1_ty \<and> sval i = n | _ \<Rightarrow> False)"
  by (cases a) (auto simp: isIntegerAttr_def bnd_eq_Inr null_attr_def split: if_splits hlo_attr.splits)

lemma compare_test: "to_vhlo_attr a = Inr v \<Longrightarrow>
    isEnum (Some v) (ComparisonTypeV1Attr NOTYPE) \<longleftrightarrow> a = StablehloAttr (ComparisonTypeAttr NOTYPE)"
  by (cases a) (auto simp: isEnum_def bnd_eq_Inr null_attr_def split: if_splits hlo_attr.splits)

lemma precision_elements: "to_vhlo_attr a = Inr v \<Longrightarrow> v = default_precision \<longleftrightarrow> a = StablehloAttr (PrecisionAttr PREC_DEFAULT)"
  by (cases a) (auto simp: default_precision_def bnd_eq_Inr null_attr_def split: if_splits hlo_attr.splits)

lemma mapM_all: "mapM f xs = Inr ys \<Longrightarrow> (\<And>x y. f x = Inr y \<Longrightarrow> q y \<longleftrightarrow> p x) \<Longrightarrow> (\<forall>y \<in> set ys. q y) \<longleftrightarrow> (\<forall>x \<in> set xs. p x)"
  by (induction xs arbitrary: ys) (auto simp: bnd_eq_Inr)

lemma precision_test: "to_vhlo_attr a = Inr v \<Longrightarrow>
    isSplatArray (Some v) default_precision \<longleftrightarrow>
      (case a of ArrayAttr as \<Rightarrow> \<forall>a \<in> set as. a = StablehloAttr (PrecisionAttr PREC_DEFAULT) | _ \<Rightarrow> False)"
  using mapM_all [where f = to_vhlo_attr and q = "\<lambda>v. v = default_precision", OF _ precision_elements]
  by (cases a) (auto simp: isSplatArray_def bnd_eq_Inr null_attr_def split: if_splits hlo_attr.splits)

lemma splat_test:
  assumes "from_vhlo_attr L v = Inr a" and "window_typed m a" and "m \<in> set dim_names"
  shows "default_test L m (Some v) = Inr (is_default_attr m a)"
proof -
  obtain sh enc raw where a: "a = DenseElementsAttr (RankedTensorTy sh (if m = ''window_reversal'' then i1_ty else i64_ty) enc) raw"
    using assms(2) by (auto simp: window_typed_def)
  have "isSplatTensor L (dim_value m) (Some v) = Inr (is_default_attr m a)"
    using assms(1,3) unfolding a dim_cases stride_names_def list.set insert_iff empty_iff
    by (elim disjE) (auto simp: isSplatTensor_def dim_value_def is_default_attr_def default_names splat_of_def
        i64_value_is_def bool_value_is_def is_splat_def)
  then show ?thesis by (simp add: default_test_dim assms(3))
qed

lemma generic_test:
  assumes "lib_ok L" and "op_attr_ok L k (n, a)" and "to_vhlo_attr a = Inr v" and "\<not> special_name k n" and "n \<in> set (erasable k)"
  shows "default_test L n (Some v) = Inr (is_default_attr n a)"
proof (cases "n \<in> set dim_names")
  case True
  have "from_vhlo_attr L v = Inr a" "window_typed n a"
    using assms from_to_attr True by (auto simp: op_attr_ok_def)
  then show ?thesis by (rule splat_test [OF _ _ True])
next
  case False
  have "sattr_ok L a" using assms(2) by (simp add: op_attr_ok_def)
  note t = bool_test [OF assms(3) this] string_test [OF assms(3)] array_test [OF assms(3)] known_test [OF assms(3)]
    integer_test [OF assms(3)] compare_test [OF assms(3)] precision_test [OF assms(3)]
  have n: "n \<notin> set stride_names" "n \<noteq> ''padding''" "n \<noteq> ''window_reversal''" using False by (simp_all add: dim_cases)
  have "n \<notin> vhlo_only k" using assms(2) by (simp add: op_attr_ok_def)
  then have c: "n \<noteq> ''channel_id''" "n \<noteq> ''channel_handle''" "n \<noteq> ''api_version''" using assms(4,5)
    by (cases k; auto simp: vhlo_only_def special_name_def exploded_def collective_def)+
  show ?thesis using n c by (simp add: default_test_def is_default_attr_def t)
qed

lemma version_test:
  assumes "symbolize_code hlo_CustomCallApiVersion (nat (uval i)) = Some v" and "wf_apint i" and "ap_width i = 32"
  shows "IntegerAttr i32_ty i = api_version_attr v"
proof -
  have "int (code_of hlo_CustomCallApiVersion v) = uval i"
    using assms by (cases v) (auto simp: enum_defs hlo_CustomCallApiVersion_def wf_apint_def split: if_splits)
  then show ?thesis using assms(3) by (cases i) (simp add: api_version_attr_def)
qed

lemma version_inj: "api_version_attr v = api_version_attr w \<longleftrightarrow> v = w"
  by (cases v; cases w) (simp_all add: api_version_attr_def code_of_def hlo_CustomCallApiVersion_def)

lemma structured_not_erasable:
  "exploded k = Some (n, names) \<Longrightarrow> \<not> collective k \<Longrightarrow> m \<in> set names \<Longrightarrow> m \<notin> set (erasable k) \<and> n \<notin> hlo_name ` set (erasable k)"
  by (cases k) (auto simp: exploded_def collective_def names_defs hlo_name_def)

lemma legalized_test:
  assumes "lib_ok L" and "op_attr_ok L k (n, a)" and "legalized k n a vs" and "(m, v) \<in> set vs"
  shows "erased L k (m, v) \<longleftrightarrow> defaulted k n a"
  using assms(3)
proof cases
  case (generic v')
  then have v: "m = n" "v = v'" using assms(4) by auto
  have k: "n \<notin> vhlo_only k" using assms(2) by (simp add: op_attr_ok_def)
  have "n \<in> hlo_name ` set (erasable k) \<longleftrightarrow> n \<in> set (erasable k)"
    using k generic(2) by (cases k) (auto simp: hlo_name_def vhlo_only_def special_name_def exploded_def collective_def)
  then show ?thesis using generic_test [OF assms(1,2) generic(3,2)] v by (auto simp: erased_def defaulted_def)
next
  case (channel h t)
  have "i64_ok h" using assms(2) channel(2) by (simp add: op_attr_ok_def hlo_attr_ok_def)
  then have "isIntegerAttr (Some (int_v h)) 0 \<longleftrightarrow> h = 0" by (simp add: isIntegerAttr_def int_v_def sval_mk_in i64_ok_def)
  moreover have "''channel_id'' \<in> set (erasable k)" using channel(4) by (cases k) (simp_all add: collective_def)
  moreover have "''channel_handle'' \<in> hlo_name ` set (erasable k)"
    using imageI [OF calculation(2), of hlo_name] by (simp add: hlo_name_def)
  ultimately show ?thesis using channel assms(4)
    by (simp add: erased_def defaulted_def default_test_def is_default_attr_def default_names)
next
  case device_ids
  then show ?thesis using assms(4)
    by (simp add: erased_def defaulted_def default_test_def is_default_attr_def default_names isBoolean_def getBoolAttr_def)
next
  case (structured names h)
  then have "m \<in> set names" using assms(4) by (auto dest: set_zip_leftD)
  then show ?thesis using structured_not_erasable [OF structured(3,4)] by (simp add: erased_def defaulted_def)
next
  case (version i w)
  then have "IntegerAttr i32_ty i = api_version_attr w" using version_test assms(2) by (simp add: op_attr_ok_def)
  then show ?thesis using version assms(4) version_inj
    by (auto simp: erased_def defaulted_def default_test_def is_default_attr_def default_names isEnum_def hlo_name_def)
next
  case (called ss)
  then show ?thesis using assms(4)
    by (auto simp: erased_def defaulted_def default_test_def is_default_attr_def default_names isEmptyArray_def hlo_name_def)
next
  case (callee s)
  then show ?thesis by (simp add: erased_def defaulted_def)
qed

lemma back_not_special: "\<not> special_name k n \<Longrightarrow> n \<notin> vhlo_only k \<Longrightarrow> convertSpecial_back k n v = NotSpecial"
  by (cases k) (simp_all add: special_name_def vhlo_only_def exploded_def convertSpecial_back_def collective_def)

lemma symbols_back: "mapM convertSymbol_back (map StringV1Attr ss) = Inr (map FlatSymbolRefAttr ss)"
  by (induction ss) (simp_all add: convertSymbol_back_def)

lemma legalized_back:
  assumes "lib_ok L" and "op_attr_ok L k (n, a)" and "legalized k n a vs" and "(m, v) \<in> set vs"
    and "\<not> structured_name k n"
  shows "unlegalize_attr L k (m, v) = Inr [(n, forget k a)]"
  using assms(3)
proof cases
  case (generic v')
  then have v: "m = n" "v = v'" using assms(4) by auto
  have "n \<notin> vhlo_only k" "sattr_ok L a" using assms(2) by (simp_all add: op_attr_ok_def)
  moreover have "forget k a = a"
    using generic(3) by (auto simp: forget_def null_attr_def split: sattr.split hlo_attr.split)
  ultimately show ?thesis
    using v generic back_not_special from_to_attr [OF assms(1) generic(3)] by (simp add: unlegalize_attr_def)
next
  case (channel h t)
  have "i64_ok h" using assms(2) channel(2) by (simp add: op_attr_ok_def hlo_attr_ok_def)
  moreover have "k \<in> {AllGatherOp, AllReduceOp, AllToAllOp, CollectivePermuteOp, ReduceScatterOp}"
    using channel(4) by (simp add: collective_def)
  ultimately show ?thesis using channel assms(4)
    by (simp add: unlegalize_attr_def convertSpecial_back_def convertChannelId_back_def convertInt_back_v special_of_def forget_def)
next
  case device_ids
  then have "k \<in> {AllGatherOp, AllReduceOp, AllToAllOp, CollectivePermuteOp, ReduceScatterOp}"
    by (simp add: collective_def)
  then show ?thesis using device_ids assms(4) by (simp add: unlegalize_attr_def convertSpecial_back_def forget_def)
next
  case (version i w)
  then have "IntegerAttr i32_ty i = api_version_attr w" using version_test assms(2) by (simp add: op_attr_ok_def)
  moreover have "forget k a = a" using version(3) by (simp add: forget_def)
  ultimately show ?thesis using version assms(4)
    by (simp add: unlegalize_attr_def convertSpecial_back_def)
next
  case (called ss)
  then show ?thesis using assms(4)
    by (simp add: unlegalize_attr_def convertSpecial_back_def special_of_def convertCustomCallCalledComputations_back_def
        symbols_back forget_def)
next
  case (callee s)
  then show ?thesis using assms(4)
    by (simp add: unlegalize_attr_def convertSpecial_back_def special_of_def convertSymbol_back_def forget_def)
qed (use assms(5) in \<open>auto simp: structured_name_def\<close>)

section \<open>The attributes of an operation\<close>

text \<open>
  What comes back under a name: the attribute, unless it has its default value; and for an operation over no
  window dimensions, the empty default.
\<close>

definition empty_default :: "string \<Rightarrow> sattr" where
  "empty_default n = (if n = ''padding'' then no_padding 0 else if n = ''window_reversal'' then dense_false 0 else ones_attr 0)"

definition restored :: "op_class \<Rightarrow> sattrs \<Rightarrow> string \<Rightarrow> sattr option" where
  "restored k A n = (case map_of A n of
     Some a \<Rightarrow> if defaulted k n a then None else Some (forget k a)
   | None \<Rightarrow> if n \<in> set (erasable k) \<and> n \<in> set dim_names \<and> dims k A = Inr 0 then Some (empty_default n) else None)"

lemma empty_default_v: "m \<in> set dim_names \<Longrightarrow> from_vhlo_attr L (default_v 0 m) = Inr (empty_default m)"
proof -
  assume "m \<in> set dim_names"
  moreover have "''padding'' \<notin> set stride_names" "''window_reversal'' \<notin> set stride_names" by (simp_all add: stride_names_def)
  ultimately show ?thesis unfolding dim_cases
    by (elim disjE) (auto simp: default_dim empty_default_def from_ints_v no_padding_def dense_false_def ones_attr_def
        getI64TensorAttr_def simp del: from_vhlo_attr.simps simp: from_false_v)
qed

lemma default_back:
  assumes "m \<in> set (erasable k)" and "0 \<le> n" and "\<not> erased L k (m, default_v n m)"
  shows "m \<in> set dim_names \<and> n = 0 \<and> unlegalize_attr L k (m, default_v n m) = Inr [(m, empty_default m)]"
proof -
  have m: "m \<in> set dim_names" and n: "n = 0"
    using assms default_test_default [of m k n L] by (auto simp: erased_def)
  note s = erasable_not_special [OF assms(1) m]
  moreover have "m \<notin> vhlo_only k" using erasable_keys [OF assms(1)] s by simp
  ultimately have "convertSpecial_back k m (default_v 0 m) = NotSpecial" using back_not_special by blast
  then show ?thesis using m n by (simp add: unlegalize_attr_def empty_default_v)
qed

lemma implode_restored:
  assumes "op_attrs_ok L k A" and "legalize_attrs k A = Inr F"
  obtains F2 special where "implodeSpecial L k F F1 = Inr (F2, special)"
    "set F2 = {mv \<in> set F1. fst mv \<in> vhlo_only k \<longrightarrow> collective k}"
    "\<And>n a. (n, a) \<in> set special \<longleftrightarrow> (n, a) \<in> set A \<and> structured_name k n"
proof (cases "exploded k = None \<or> collective k")
  case True
  then show ?thesis by (intro that [OF not_structured]) (auto simp: vhlo_only_def structured_name_def)
next
  case False
  then obtain h names where h: "exploded k = Some (h, names)" "\<not> collective k" by auto
  obtain a where a: "(h, a) \<in> set A" using assms(1) h by (auto simp: op_attrs_ok_def has_attr_iff)
  obtain n where set: "\<And>m v. (m, v) \<in> set F \<longleftrightarrow>
      (m \<in> set (erasable k) \<and> \<not> has_attr A (hlo_name m) \<and> v = default_v n m) \<or>
      (\<exists>h a vs. (h, a) \<in> set A \<and> legalized k h a vs \<and> legalize_attr k (h, a) = Inr vs \<and> (m, v) \<in> set vs)"
    and all: "\<And>h a. (h, a) \<in> set A \<Longrightarrow> \<exists>vs. legalize_attr k (h, a) = Inr vs"
    by (rule legalize_attrs_set [OF assms(2)]) blast
  obtain vs where vs: "legalize_attr k (h, a) = Inr vs" using all a by blast
  have i: "implodeSpecial L k F F1 = Inr (eraseAttrs names F1, [(h, a)])"
  proof (rule structured_back [OF vs h])
    fix m v assume "(m, v) \<in> set vs"
    then have "(m, v) \<in> set F" unfolding set using a vs legalize_attr_legalized by blast
    then show "map_of F m = Some v" by (simp add: legalized_attrs_map [OF assms])
  next
    fix x assume "a = StablehloAttr x"
    then show "hlo_attr_ok x" using assms(1) a by (auto simp: op_attrs_ok_def op_attr_ok_def)
  qed
  have one: "a' = a" if "(h, a') \<in> set A" for a'
    using that a assms(1) by (auto simp: op_attrs_ok_def dest: eq_key_imp_eq_value)
  have names: "vhlo_only k = set names" "structured_name k x \<longleftrightarrow> x = h" for x
    using h by (auto simp: vhlo_only_def structured_name_def)
  show ?thesis
  proof (rule that [OF i])
    show "set (eraseAttrs names F1) = {mv \<in> set F1. fst mv \<in> vhlo_only k \<longrightarrow> collective k}"
      using h(2) by (auto simp: eraseAttrs_def names)
    show "(n, a') \<in> set [(h, a)] \<longleftrightarrow> (n, a') \<in> set A \<and> structured_name k n" for n a'
    proof -
      have "(n, a') \<in> set [(h, a)] \<longleftrightarrow> n = h \<and> a' = a" by simp
      then show ?thesis unfolding names(2) using a one by blast
    qed
  qed
qed

lemma vhlo_only_keys:
  assumes "legalized k n a vs" and "(m, v) \<in> set vs" and "n \<notin> vhlo_only k"
  shows "(m \<in> vhlo_only k \<and> \<not> collective k) \<longleftrightarrow> structured_name k n"
proof -
  have "m \<in> set (map fst vs)" using assms(2) by force
  then have "m \<in> set (keys k n)" by (simp only: legalized_keys [OF assms(1)])
  then show ?thesis using assms(3) by (auto simp: keys_def vhlo_only_def structured_name_def split: option.splits if_splits)
qed

lemma restored_Some:
  assumes "distinct (map fst A)"
  shows "restored k A n = Some b \<longleftrightarrow> (\<exists>a. (n, a) \<in> set A \<and> \<not> defaulted k n a \<and> b = forget k a) \<or>
    (\<not> has_attr A n \<and> n \<in> set (erasable k) \<and> n \<in> set dim_names \<and> dims k A = Inr 0 \<and> b = empty_default n)"
proof (cases "map_of A n")
  case (Some a)
  have "(n, a') \<in> set A \<longleftrightarrow> a' = a" for a'
    using Some map_of_eq_Some_iff [OF assms, of n a'] by auto
  then have e: "(\<exists>a'. (n, a') \<in> set A \<and> \<not> defaulted k n a' \<and> b = forget k a') \<longleftrightarrow> \<not> defaulted k n a \<and> b = forget k a"
    by metis
  have "has_attr A n" using Some by (simp add: has_attr_def)
  moreover have r: "restored k A n = (if defaulted k n a then None else Some (forget k a))"
    using Some by (simp add: restored_def)
  ultimately show ?thesis unfolding e r by auto
next
  case None
  then have "(n, a) \<notin> set A" for a by (simp add: map_of_eq_None_iff image_iff) force
  then show ?thesis using None by (auto simp: restored_def has_attr_def)
qed

lemma structured_kept: "structured_name k n \<Longrightarrow> \<not> defaulted k n a \<and> forget k a = a"
proof -
  assume "structured_name k n"
  then obtain names where n: "exploded k = Some (n, names)" "\<not> collective k" by (auto simp: structured_name_def)
  then have "names \<noteq> []" by (auto simp: exploded_def names_defs split: if_splits)
  then have "\<not> defaulted k n a"
    using structured_not_erasable [OF n, of "hd names"] by (simp add: defaulted_def)
  moreover have "forget k a = a" using n(2) by (simp add: forget_def split: sattr.split hlo_attr.split)
  ultimately show ?thesis by blast
qed

text \<open>Every attribute that is left comes back as one.\<close>

lemma entry_back:
  assumes "lib_ok L" and ok: "op_attrs_ok L k A" and F: "legalize_attrs k A = Inr F" and mv: "(m, v) \<in> set F"
    and left: "\<not> erased L k (m, v)" "m \<in> vhlo_only k \<longrightarrow> collective k"
  obtains n b where "unlegalize_attr L k (m, v) = Inr [(n, b)]" and "restored k A n = Some b"
proof -
  obtain d where d: "dims k A = Inr d" and set: "\<And>m v. (m, v) \<in> set F \<longleftrightarrow>
      (m \<in> set (erasable k) \<and> \<not> has_attr A (hlo_name m) \<and> v = default_v d m) \<or>
      (\<exists>h a vs. (h, a) \<in> set A \<and> legalized k h a vs \<and> legalize_attr k (h, a) = Inr vs \<and> (m, v) \<in> set vs)"
    by (rule legalize_attrs_set [OF F]) blast
  have dA: "distinct (map fst A)" using ok by (simp add: op_attrs_ok_def)
  show ?thesis
    using mv unfolding set
  proof (elim disjE exE conjE)
    assume m: "m \<in> set (erasable k)" "\<not> has_attr A (hlo_name m)" "v = default_v d m"
    then have b: "m \<in> set dim_names" "d = 0" "unlegalize_attr L k (m, v) = Inr [(m, empty_default m)]"
      using default_back [OF m(1) dims_nonneg [OF ok d]] left(1) by auto
    have "restored k A m = Some (empty_default m)"
      unfolding restored_Some [OF dA] using m b d erasable_not_special [OF m(1)] by simp
    then show ?thesis using b(3) that by blast
  next
    fix n a vs assume a: "(n, a) \<in> set A" "legalized k n a vs" "(m, v) \<in> set vs"
    then have na: "op_attr_ok L k (n, a)" using ok by (simp add: op_attrs_ok_def)
    then have "n \<notin> vhlo_only k" by (simp add: op_attr_ok_def)
    then have "\<not> structured_name k n" using vhlo_only_keys [OF a(2,3)] left(2) by blast
    then have "unlegalize_attr L k (m, v) = Inr [(n, forget k a)]"
      by (rule legalized_back [OF assms(1) na a(2,3)])
    moreover have "restored k A n = Some (forget k a)"
      unfolding restored_Some [OF dA] using a(1) left(1) legalized_test [OF assms(1) na a(2,3)] by blast
    ultimately show ?thesis using that by blast
  qed
qed

text \<open>And every one that should come back does.\<close>

lemma entry_forth:
  assumes "lib_ok L" and ok: "op_attrs_ok L k A" and F: "legalize_attrs k A = Inr F" and r: "restored k A n = Some b"
    and s: "\<not> structured_name k n"
  obtains m v where "(m, v) \<in> set F" and "\<not> erased L k (m, v)" and "m \<in> vhlo_only k \<longrightarrow> collective k"
    and "unlegalize_attr L k (m, v) = Inr [(n, b)]"
proof -
  obtain d where d: "dims k A = Inr d" and set: "\<And>m v. (m, v) \<in> set F \<longleftrightarrow>
      (m \<in> set (erasable k) \<and> \<not> has_attr A (hlo_name m) \<and> v = default_v d m) \<or>
      (\<exists>h a vs. (h, a) \<in> set A \<and> legalized k h a vs \<and> legalize_attr k (h, a) = Inr vs \<and> (m, v) \<in> set vs)"
    and all: "\<And>h a. (h, a) \<in> set A \<Longrightarrow> \<exists>vs. legalize_attr k (h, a) = Inr vs"
    by (rule legalize_attrs_set [OF F]) blast
  have dA: "distinct (map fst A)" using ok by (simp add: op_attrs_ok_def)
  show ?thesis
    using r unfolding restored_Some [OF dA]
  proof (elim disjE exE conjE)
    fix a assume a: "(n, a) \<in> set A" "\<not> defaulted k n a" "b = forget k a"
    obtain vs where vs: "legalize_attr k (n, a) = Inr vs" using all a(1) by blast
    note l = legalize_attr_legalized [OF vs]
    have na: "op_attr_ok L k (n, a)" using ok a(1) by (simp add: op_attrs_ok_def)
    then have n: "n \<notin> vhlo_only k" by (simp add: op_attr_ok_def)
    have "keys k n \<noteq> []" using s by (auto simp: keys_def structured_name_def split: option.split)
    then have "vs \<noteq> []" using legalized_keys [OF l] by auto
    then obtain m v where mv: "(m, v) \<in> set vs" by (cases vs) auto
    show ?thesis
    proof (rule that)
      show "(m, v) \<in> set F" unfolding set using a(1) l vs mv by blast
      show "\<not> erased L k (m, v)" using legalized_test [OF assms(1) na l mv] a(2) by blast
      show "m \<in> vhlo_only k \<longrightarrow> collective k" using vhlo_only_keys [OF l mv n] s by blast
      show "unlegalize_attr L k (m, v) = Inr [(n, b)]" using legalized_back [OF assms(1) na l mv s] a(3) by simp
    qed
  next
    assume n: "\<not> has_attr A n" "n \<in> set (erasable k)" "n \<in> set dim_names" "dims k A = Inr 0" "b = empty_default n"
    note e = erasable_not_special [OF n(2,3)]
    have t: "\<not> erased L k (n, default_v 0 n)"
      using default_test_default [OF n(2), of 0 L] n(3) by (simp add: erased_def)
    show ?thesis
    proof (rule that [OF _ t])
      show "(n, default_v 0 n) \<in> set F" unfolding set using n d e by simp
      show "n \<in> vhlo_only k \<longrightarrow> collective k" using erasable_keys [OF n(2)] e by simp
      show "unlegalize_attr L k (n, default_v 0 n) = Inr [(n, b)]" using default_back [OF n(2) _ t] n(5) by simp
    qed
  qed
qed

lemma attrs_back:
  assumes "lib_ok L" and "op_attrs_ok L k A" and "legalize_attrs k A = Inr F"
  shows "\<exists>B. unlegalize_attrs L k F = Inr B \<and> sorted (map fst B) \<and> (\<forall>n b. (n, b) \<in> set B \<longleftrightarrow> restored k A n = Some b)"
proof -
  let ?F1 = "filter (\<lambda>mv. \<not> erased L k mv) F"
  obtain F2 special where F2: "implodeSpecial L k F ?F1 = Inr (F2, special)"
    "set F2 = {mv \<in> set ?F1. fst mv \<in> vhlo_only k \<longrightarrow> collective k}"
    "\<And>n a. (n, a) \<in> set special \<longleftrightarrow> (n, a) \<in> set A \<and> structured_name k n"
    using implode_restored [OF assms(2,3)] by blast
  have entry: "(m, v) \<in> set F2 \<longleftrightarrow> (m, v) \<in> set F \<and> \<not> erased L k (m, v) \<and> (m \<in> vhlo_only k \<longrightarrow> collective k)" for m v
    using F2(2) by auto
  have each: "\<exists>n b. unlegalize_attr L k (m, v) = Inr [(n, b)] \<and> restored k A n = Some b" if "(m, v) \<in> set F2" for m v
    using entry_back [OF assms] that entry by metis
  then have "\<forall>mv \<in> set F2. \<exists>as. unlegalize_attr L k mv = Inr as" by force
  then obtain bs where bs: "mapM (unlegalize_attr L k) F2 = Inr bs" using mapM_Inr_iff by metis
  have "unlegalize_attrs L k F = Inr (dictionary (special @ concat bs))"
    by (simp add: unlegalize_attrs_def removeDefaults_eq [OF assms] F2(1) bs)
  moreover have "(n, b) \<in> set (dictionary (special @ concat bs)) \<longleftrightarrow> restored k A n = Some b" for n b
  proof
    assume "(n, b) \<in> set (dictionary (special @ concat bs))"
    then consider "(n, b) \<in> set A" "structured_name k n" | m v as where "(m, v) \<in> set F2" "unlegalize_attr L k (m, v) = Inr as" "(n, b) \<in> set as"
      using F2(3) mapM_concat_set [OF bs, of "(n, b)"] by force
    then show "restored k A n = Some b"
    proof cases
      case 1
      have "distinct (map fst A)" using assms(2) by (simp add: op_attrs_ok_def)
      then show ?thesis using 1 structured_kept [of k n b] by (auto simp: restored_Some)
    next
      case 2
      then show ?thesis using each by fastforce
    qed
  next
    assume r: "restored k A n = Some b"
    show "(n, b) \<in> set (dictionary (special @ concat bs))"
    proof (cases "structured_name k n")
      case True
      have "distinct (map fst A)" using assms(2) by (simp add: op_attrs_ok_def)
      moreover have "n \<notin> set (erasable k)"
        using True structured_kept [OF True] by (auto simp: structured_name_def exploded_def split: if_splits)
      ultimately have "(n, b) \<in> set A" using r structured_kept [OF True] by (auto simp: restored_Some)
      then show ?thesis using F2(3) True by simp
    next
      case False
      obtain m v where "(m, v) \<in> set F2" "unlegalize_attr L k (m, v) = Inr [(n, b)]"
        using entry_forth [OF assms r False] entry by metis
      then have "(n, b) \<in> set (concat bs)" using mapM_concat_set [OF bs, of "(n, b)"] by force
      then show ?thesis by simp
    qed
  qed
  moreover have "sorted (map fst (dictionary (special @ concat bs)))" by (simp add: dictionary_def)
  ultimately show ?thesis by blast
qed

section \<open>Programs\<close>

text \<open>
  Well-formed programs: types without parts of VHLO, well-formed attributes, and returns of functions in
  functions only. A program is restored when the operations, values, types and the shape of the regions are the same and
  the attributes are those that come back.
\<close>

fun op_ok :: "lib \<Rightarrow> op_class \<Rightarrow> (sty, sattr) dialect_op \<Rightarrow> bool"
  and block_ok :: "lib \<Rightarrow> op_class \<Rightarrow> (sty, sattr) dialect_block \<Rightarrow> bool" where
  "op_ok L parent (DialectOp k operands results A regions) \<longleftrightarrow>
     (\<forall>r \<in> set results. vhlo_free (snd r)) \<and> op_attrs_ok L k A \<and>
     (k = FuncReturnOp \<longrightarrow> parent = FuncOp) \<and> (k = HloReturnOp \<longrightarrow> parent \<noteq> FuncOp) \<and>
     (\<forall>region \<in> set regions. \<forall>b \<in> set region. block_ok L k b)"
| "block_ok L parent (DialectBlock args ops) \<longleftrightarrow> (\<forall>a \<in> set args. vhlo_free (snd a)) \<and> (\<forall>op \<in> set ops. op_ok L parent op)"

inductive restored_op :: "(sty, sattr) dialect_op \<Rightarrow> (sty, sattr) dialect_op \<Rightarrow> bool"
  and restored_block :: "(sty, sattr) dialect_block \<Rightarrow> (sty, sattr) dialect_block \<Rightarrow> bool" where
  "map_of B = restored k A \<Longrightarrow> list_all2 (list_all2 restored_block) regions regions' \<Longrightarrow>
     restored_op (DialectOp k operands results A regions) (DialectOp k operands results B regions')"
| "list_all2 restored_op ops ops' \<Longrightarrow> restored_block (DialectBlock args ops) (DialectBlock args ops')"
  monos list_all2_mono

inductive_simps restored_op_simps: "restored_op (DialectOp k operands results A regions) op"
inductive_simps restored_block_simps: "restored_block (DialectBlock args ops) b"

lemma map_of_graph: "(\<And>n b. (n, b) \<in> set B \<longleftrightarrow> f n = Some b) \<Longrightarrow> map_of B = f"
proof
  fix n assume B: "\<And>n b. (n, b) \<in> set B \<longleftrightarrow> f n = Some b"
  show "map_of B n = f n"
  proof (cases "map_of B n")
    case None
    then have "\<forall>b. (n, b) \<notin> set B" by (force simp: map_of_eq_None_iff)
    then show ?thesis using None B by (cases "f n") auto
  next
    case (Some b)
    then show ?thesis using B map_of_SomeD by metis
  qed
qed

lemma attrs_round:
  assumes "lib_ok L" and "op_attrs_ok L k A" and "legalize_attrs k A = Inr F"
  shows "\<exists>B. unlegalize_attrs L k F = Inr B \<and> map_of B = restored k A"
proof -
  obtain B where "unlegalize_attrs L k F = Inr B" "\<forall>n b. (n, b) \<in> set B \<longleftrightarrow> restored k A n = Some b"
    using attrs_back [OF assms] by blast
  then show ?thesis using map_of_graph [of B] by blast
qed

lemma returns_alike: "unlegalize_attrs L (legalize_class k) F = unlegalize_attrs L k F"
proof (cases "k = FuncReturnOp")
  case True
  have "unlegalize_attr L HloReturnOp = unlegalize_attr L FuncReturnOp"
    by (intro ext) (simp add: unlegalize_attr_def convertSpecial_back_def)
  then show ?thesis using True
    by (simp add: legalize_class_def unlegalize_attrs_def removeDefaults_def implodeSpecial_def)
qed (simp add: legalize_class_def)

lemma class_back:
  "(k = FuncReturnOp \<longrightarrow> parent = FuncOp) \<Longrightarrow> (k = HloReturnOp \<longrightarrow> parent \<noteq> FuncOp) \<Longrightarrow>
     unlegalize_class (legalize_class parent) (legalize_class k) = k"
  by (auto simp: unlegalize_class_def legalize_class_def)

lemma types_back:
  assumes "lib_ok L" and "convert_types to_vhlo_type rs = Inr rs'" and "\<forall>r \<in> set rs. vhlo_free (snd r)"
  shows "map (\<lambda>(n, t). (n, from_vhlo_type L t)) rs' = rs"
  using assms(2,3) unfolding convert_types_def
  by (intro mapM_back [where f = "\<lambda>(n, t). bnd (to_vhlo_type t) (\<lambda>t'. Inr (n, t'))"])
    (auto simp: bnd_eq_Inr from_to_type [OF assms(1)])

lemma mapM_related:
  assumes "mapM f xs = Inr ys" and "\<And>x y. x \<in> set xs \<Longrightarrow> f x = Inr y \<Longrightarrow> \<exists>z. g y = Inr z \<and> R x z"
  shows "\<exists>zs. mapM g ys = Inr zs \<and> list_all2 R xs zs"
  using assms
proof (induction xs arbitrary: ys)
  case (Cons x xs)
  then obtain y ys' where y: "f x = Inr y" "mapM f xs = Inr ys'" "ys = y # ys'" by (auto simp: bnd_eq_Inr)
  obtain z where "g y = Inr z" "R x z" using Cons.prems(2) y(1) by auto
  moreover obtain zs where "mapM g ys' = Inr zs" "list_all2 R xs zs"
    using Cons.IH [OF y(2)] Cons.prems(2) by auto
  ultimately show ?case using y(3) by auto
qed simp

lemma program_back:
  assumes "lib_ok L"
  shows "legalize_op op = Inr op' \<Longrightarrow> op_ok L parent op \<Longrightarrow>
      \<exists>op''. unlegalize_op L (legalize_class parent) op' = Inr op'' \<and> restored_op op op''"
    and "legalize_block b = Inr b' \<Longrightarrow> block_ok L parent b \<Longrightarrow>
      \<exists>b''. unlegalize_block L (legalize_class parent) b' = Inr b'' \<and> restored_block b b''"
proof (induction op and b arbitrary: op' parent and b' parent rule: legalize_op_legalize_block.induct)
  case (1 k operands results A regions)
  obtain results' F regions' where r: "convert_types to_vhlo_type results = Inr results'" and F: "legalize_attrs k A = Inr F"
    and R: "mapM (\<lambda>region. mapM legalize_block region) regions = Inr regions'"
    and op': "op' = DialectOp (legalize_class k) operands results' F regions'"
    using 1(2) by (auto simp: bnd_eq_Inr)
  obtain B where B: "unlegalize_attrs L k F = Inr B" "map_of B = restored k A"
    using attrs_round [OF assms _ F] 1(3) by auto
  have "\<exists>regions''. mapM (\<lambda>region. mapM (unlegalize_block L (legalize_class k)) region) regions' = Inr regions'' \<and>
      list_all2 (list_all2 restored_block) regions regions''"
  proof (rule mapM_related [OF R])
    fix region region' assume reg: "region \<in> set regions" and m: "mapM legalize_block region = Inr region'"
    show "\<exists>region''. mapM (unlegalize_block L (legalize_class k)) region' = Inr region'' \<and> list_all2 restored_block region region''"
    proof (rule mapM_related [OF m])
      fix b b' assume "b \<in> set region" "legalize_block b = Inr b'"
      then show "\<exists>b''. unlegalize_block L (legalize_class k) b' = Inr b'' \<and> restored_block b b''"
        using 1(1) [OF r F reg] 1(3) reg by auto
    qed
  qed
  then obtain regions'' where "mapM (\<lambda>region. mapM (unlegalize_block L (legalize_class k)) region) regions' = Inr regions''"
    "list_all2 (list_all2 restored_block) regions regions''" by blast
  moreover have "unlegalize_class (legalize_class parent) (legalize_class k) = k" using 1(3) by (intro class_back) simp_all
  moreover have "map (\<lambda>(n, t). (n, from_vhlo_type L t)) results' = results" using types_back [OF assms r] 1(3) by simp
  ultimately show ?case using B by (simp add: op' returns_alike restored_op_simps)
next
  case (2 args ops)
  obtain args' ops' where a: "convert_types to_vhlo_type args = Inr args'" and o: "mapM legalize_op ops = Inr ops'"
    and b': "b' = DialectBlock args' ops'" using 2(2) by (auto simp: bnd_eq_Inr)
  have "\<exists>ops''. mapM (unlegalize_op L (legalize_class parent)) ops' = Inr ops'' \<and> list_all2 restored_op ops ops''"
  proof (rule mapM_related [OF o])
    fix op op' assume "op \<in> set ops" "legalize_op op = Inr op'"
    then show "\<exists>op''. unlegalize_op L (legalize_class parent) op' = Inr op'' \<and> restored_op op op''"
      using 2(1) [OF a] 2(3) by auto
  qed
  moreover have "map (\<lambda>(n, t). (n, from_vhlo_type L t)) args' = args" using types_back [OF assms a] 2(3) by simp
  ultimately show ?case by (auto simp: b' restored_block_simps)
qed

end
