(* ===== verification/VhloVersion.thy ===== *)
theory VhloVersion
  imports VhloRoundTrip
begin

text \<open>
  Versions of the VHLO dialect (\<open>dialect/Version.h\<close>, \<open>dialect/Version.cpp\<close>) and the pass that checks a
  program against a target version (\<open>transforms/VhloToVersion.cpp\<close>).
\<close>

section \<open>Versions\<close>

text \<open>Major, minor and patch number, compared as \<open>std::array\<close> does: lexicographically.\<close>

datatype version = Version (getMajor: int) (getMinor: int) (getPatch: int)

definition version_less_eq :: "version \<Rightarrow> version \<Rightarrow> bool" where
  "version_less_eq v w \<longleftrightarrow> getMajor v < getMajor w \<or> getMajor v = getMajor w \<and>
     (getMinor v < getMinor w \<or> getMinor v = getMinor w \<and> getPatch v \<le> getPatch w)"

definition version_less :: "version \<Rightarrow> version \<Rightarrow> bool" where
  "version_less v w \<longleftrightarrow> getMajor v < getMajor w \<or> getMajor v = getMajor w \<and>
     (getMinor v < getMinor w \<or> getMinor v = getMinor w \<and> getPatch v < getPatch w)"

instantiation version :: linorder
begin

definition less_eq_version :: "version \<Rightarrow> version \<Rightarrow> bool" where
  "less_eq_version = version_less_eq"

definition less_version :: "version \<Rightarrow> version \<Rightarrow> bool" where
  "less_version = version_less"

instance
  by standard (auto simp: less_eq_version_def less_version_def version_less_eq_def version_less_def intro: version.expand)

end

definition getCurrentVersion :: version where
  "getCurrentVersion = Version 0 11 3"

definition getMinimumVersion :: version where
  "getMinimumVersion = Version 0 9 0"

text \<open>\<open>toString\<close>, over the decimal digits of a number.\<close>

definition digit_char :: "nat \<Rightarrow> char" where
  "digit_char d = char_of (48 + d)"

fun nat_string :: "nat \<Rightarrow> string" where
  "nat_string n = (if n < 10 then [digit_char n] else nat_string (n div 10) @ [digit_char (n mod 10)])"

declare nat_string.simps [simp del]

definition int_string :: "int \<Rightarrow> string" where
  "int_string n = (if n < 0 then ''-'' @ nat_string (nat (- n)) else nat_string (nat n))"

definition toString :: "version \<Rightarrow> string" where
  "toString v = int_string (getMajor v) @ ''.'' @ int_string (getMinor v) @ ''.'' @ int_string (getPatch v)"

text \<open>
  The expression \<open>^([0-9]+)\.([0-9]+)\.([0-9]+)$\<close>, and the number of a match; one that is not an
  \<open>int64_t\<close> is a fatal error.
\<close>

definition is_digit :: "char \<Rightarrow> bool" where
  "is_digit c \<longleftrightarrow> 48 \<le> (of_char c :: nat) \<and> (of_char c :: nat) \<le> 57"

definition versionRegex :: "string \<Rightarrow> (string \<times> string \<times> string) option" where
  "versionRegex s = (case (takeWhile is_digit s, dropWhile is_digit s) of
     (x, c # s1) \<Rightarrow> (case (takeWhile is_digit s1, dropWhile is_digit s1) of
         (y, d # z) \<Rightarrow>
           if c = CHR ''.'' \<and> d = CHR ''.'' \<and> list_all is_digit z \<and> x \<noteq> [] \<and> y \<noteq> [] \<and> z \<noteq> [] then Some (x, y, z) else None
       | _ \<Rightarrow> None)
   | _ \<Rightarrow> None)"

definition number_of :: "string \<Rightarrow> nat" where
  "number_of s = foldl (\<lambda>n c. 10 * n + (of_char c - 48)) 0 s"

definition parseNumber :: "string \<Rightarrow> int res" where
  "parseNumber s = (if number_of s < 2 ^ 63 then Inr (int (number_of s)) else Inl (Fatal ''failed to parse version number''))"

definition extractVersionNumbers :: "string \<Rightarrow> (int \<times> int \<times> int) option res" where
  "extractVersionNumbers s = (case versionRegex s of
     None \<Rightarrow> Inr None
   | Some (x, y, z) \<Rightarrow> bnd (parseNumber x) (\<lambda>a. bnd (parseNumber y) (\<lambda>b. bnd (parseNumber z) (\<lambda>c. Inr (Some (a, b, c))))))"

definition fromString :: "string \<Rightarrow> version option res" where
  "fromString s = bnd (extractVersionNumbers s) (\<lambda>m. Inr (map_option (\<lambda>(a, b, c). Version a b c) m))"

section \<open>The target version\<close>

definition parseTargetVersion :: "string \<Rightarrow> version option res" where
  "parseTargetVersion s = (if s = ''current'' then Inr (Some getCurrentVersion) else fromString s)"

definition validateTargetVersion :: "string \<Rightarrow> version res" where
  "validateTargetVersion s = bnd (parseTargetVersion s) (\<lambda>m. case m of
     None \<Rightarrow> if s = [] then Inl (Fatal ''No target version specified'') else Inl (Fatal ''Invalid target version argument'')
   | Some v \<Rightarrow>
       if v < getMinimumVersion then Inl (Fatal ''target version is less than minimum supported'')
       else if getCurrentVersion < v then Inl (Fatal ''target version is greater than current version'')
       else Inr v)"

section \<open>Legal types, attributes and operations\<close>

text \<open>
  The versions that the declarations of the dialect give (\<open>VhloTypes.td\<close>, \<open>VhloAttrs.td\<close>,
  \<open>VhloEnums.td\<close>, \<open>VhloOps.td\<close>): the last one is the current version everywhere, the first one
  0.9.0 for every operation, every attribute and all but three types.
\<close>

fun simple_min_version :: "simple_type \<Rightarrow> version" where
  "simple_min_version FloatF8E4M3FNUZV1Type = Version 0 10 0"
| "simple_min_version FloatF8E5M2FNUZV1Type = Version 0 10 0"
| "simple_min_version FloatF8E4M3B11FNUZV1Type = Version 0 11 0"
| "simple_min_version _ = Version 0 9 0"

definition isLegalVersion :: "version \<Rightarrow> version \<Rightarrow> version \<Rightarrow> bool" where
  "isLegalVersion minVersion maxVersion target \<longleftrightarrow> minVersion \<le> target \<and> target \<le> maxVersion"

abbreviation legal_since_0_9 :: "version \<Rightarrow> bool" where
  "legal_since_0_9 T \<equiv> isLegalVersion (Version 0 9 0) getCurrentVersion T"

fun isLegalType :: "version \<Rightarrow> vty \<Rightarrow> bool"
  and isLegalAttribute :: "version \<Rightarrow> vattr \<Rightarrow> bool" where
  "isLegalType T (Simple s) \<longleftrightarrow> isLegalVersion (simple_min_version s) getCurrentVersion T"
| "isLegalType T (ComplexV1Type t) \<longleftrightarrow> legal_since_0_9 T \<and> isLegalType T t"
| "isLegalType T (FunctionV1Type ins outs) \<longleftrightarrow>
     legal_since_0_9 T \<and> (\<forall>t \<in> set ins. isLegalType T t) \<and> (\<forall>t \<in> set outs. isLegalType T t)"
| "isLegalType T (RankedTensorV1Type sh t enc) \<longleftrightarrow>
     legal_since_0_9 T \<and> (case enc of None \<Rightarrow> True | Some a \<Rightarrow> isLegalAttribute T a) \<and> isLegalType T t"
| "isLegalType T (TupleV1Type ts) \<longleftrightarrow> legal_since_0_9 T \<and> (\<forall>t \<in> set ts. isLegalType T t)"
| "isLegalType T (UniformQuantizedV1Type flags st et scale zp smin smax) \<longleftrightarrow>
     legal_since_0_9 T \<and> isLegalType T st \<and> isLegalType T et"
| "isLegalType T (UnrankedTensorV1Type t) \<longleftrightarrow> legal_since_0_9 T \<and> isLegalType T t"
| "isLegalAttribute T (ArrayV1Attr vs) \<longleftrightarrow> legal_since_0_9 T \<and> (\<forall>v \<in> set vs. isLegalAttribute T v)"
| "isLegalAttribute T (DictionaryV1Attr es) \<longleftrightarrow>
     legal_since_0_9 T \<and> (\<forall>e \<in> set es. isLegalAttribute T (fst e) \<and> isLegalAttribute T (snd e))"
| "isLegalAttribute T (FloatV1Attr t x) \<longleftrightarrow> legal_since_0_9 T \<and> isLegalType T t"
| "isLegalAttribute T (IntegerV1Attr t i) \<longleftrightarrow> legal_since_0_9 T \<and> isLegalType T t"
| "isLegalAttribute T (TensorV1Attr t raw) \<longleftrightarrow> legal_since_0_9 T \<and> isLegalType T t"
| "isLegalAttribute T (TypeV1Attr t) \<longleftrightarrow> legal_since_0_9 T \<and> isLegalType T t"
| "isLegalAttribute T _ \<longleftrightarrow> legal_since_0_9 T"

text \<open>An operation, where \<open>ty\<close> gives the types of the values.\<close>

definition isLegalOperation :: "(nat \<Rightarrow> vty) \<Rightarrow> version \<Rightarrow> (vty, vattr) dialect_op \<Rightarrow> bool" where
  "isLegalOperation ty T op = (case op of DialectOp k operands results attrs regions \<Rightarrow>
     legal_since_0_9 T \<and> (\<forall>na \<in> set attrs. isLegalAttribute T (snd na)) \<and>
     (\<forall>n \<in> set operands. isLegalType T (ty n)) \<and> (\<forall>r \<in> set results. isLegalType T (snd r)))"

fun nested_ops :: "('t, 'a) dialect_op \<Rightarrow> ('t, 'a) dialect_op list"
  and block_ops :: "('t, 'a) dialect_block \<Rightarrow> ('t, 'a) dialect_op list" where
  "nested_ops (DialectOp k operands results attrs regions) =
     DialectOp k operands results attrs regions # concat (map (\<lambda>region. concat (map block_ops region)) regions)"
| "block_ops (DialectBlock args ops) = concat (map nested_ops ops)"

text \<open>
  The pass: there are no patterns, so the program stays as it is or an illegal operation makes the partial
  conversion fail.
\<close>

definition VhloToVersionPass :: "string \<Rightarrow> (nat \<Rightarrow> vty) \<Rightarrow> (vty, vattr) dialect_op \<Rightarrow> (vty, vattr) dialect_op res" where
  "VhloToVersionPass s ty op = bnd (validateTargetVersion s) (\<lambda>T.
     if \<forall>op' \<in> set (nested_ops op). isLegalOperation ty T op' then Inr op else Inl (Fatal ''failure''))"

section \<open>Parsing\<close>

text \<open>Decimal digits.\<close>

definition digits :: "string \<Rightarrow> bool" where
  "digits s \<longleftrightarrow> s \<noteq> [] \<and> list_all is_digit s"

lemma is_digit_char: "d < 10 \<Longrightarrow> is_digit (digit_char d)"
  by (simp add: is_digit_def digit_char_def)

lemma dot_not_digit: "\<not> is_digit CHR ''.''"
  by (simp add: is_digit_def)

lemma digits_nat_string: "digits (nat_string n)"
proof (induction n rule: nat_string.induct)
  case (1 n)
  then show ?case by (cases "n < 10") (simp_all add: nat_string.simps [of n] digits_def is_digit_char)
qed

lemma number_of_snoc: "number_of (s @ [c]) = 10 * number_of s + (of_char c - 48)"
  by (simp add: number_of_def)

lemma number_of_digit: "d < 10 \<Longrightarrow> of_char (digit_char d) - 48 = d"
  by (simp add: digit_char_def)

lemma number_of_nat_string: "number_of (nat_string n) = n"
proof (induction n rule: nat_string.induct)
  case (1 n)
  show ?case
  proof (cases "n < 10")
    case True
    then show ?thesis using number_of_snoc [of "[]"] number_of_digit by (simp add: nat_string.simps [of n] number_of_def)
  next
    case False
    then have "number_of (nat_string n) = 10 * (n div 10) + n mod 10"
      using 1 number_of_digit [of "n mod 10"] by (simp add: nat_string.simps [of n] number_of_snoc)
    then show ?thesis by simp
  qed
qed

lemma take_drop_digits:
  assumes "list_all is_digit x"
  shows "takeWhile is_digit (x @ CHR ''.'' # r) = x" "dropWhile is_digit (x @ CHR ''.'' # r) = CHR ''.'' # r"
  using assms dot_not_digit by (induction x) auto

lemma versionRegex_Some:
  "versionRegex s = Some (x, y, z) \<longleftrightarrow> digits x \<and> digits y \<and> digits z \<and> s = x @ ''.'' @ y @ ''.'' @ z"
proof
  assume r: "versionRegex s = Some (x, y, z)"
  obtain c s1 where 1: "dropWhile is_digit s = c # s1" using r by (auto simp: versionRegex_def split: list.splits)
  obtain d s2 where 2: "dropWhile is_digit s1 = d # s2" using r 1 by (auto simp: versionRegex_def split: list.splits)
  have "takeWhile is_digit s = x" "takeWhile is_digit s1 = y" "s2 = z" "c = CHR ''.''" "d = CHR ''.''"
    "list_all is_digit z" "x \<noteq> []" "y \<noteq> []" "z \<noteq> []"
    using r 1 2 by (auto simp: versionRegex_def split: if_splits)
  moreover have "list_all is_digit (takeWhile is_digit w)" for w by (induction w) auto
  moreover have "s = takeWhile is_digit s @ dropWhile is_digit s" "s1 = takeWhile is_digit s1 @ dropWhile is_digit s1" by simp_all
  ultimately show "digits x \<and> digits y \<and> digits z \<and> s = x @ ''.'' @ y @ ''.'' @ z"
    using 1 2 by (metis append_Cons append_Nil digits_def)
next
  assume r: "digits x \<and> digits y \<and> digits z \<and> s = x @ ''.'' @ y @ ''.'' @ z"
  then show "versionRegex s = Some (x, y, z)"
    using take_drop_digits [of x "y @ CHR ''.'' # z"] take_drop_digits [of y z]
    by (simp add: versionRegex_def digits_def)
qed

lemma parseNumber_Inr: "parseNumber x = Inr n \<longleftrightarrow> n < 2 ^ 63 \<and> n = int (number_of x)"
  by (auto simp: parseNumber_def)

lemma fromString_Some:
  "fromString s = Inr (Some v) \<longleftrightarrow> (\<exists>x y z. digits x \<and> digits y \<and> digits z \<and> s = x @ ''.'' @ y @ ''.'' @ z \<and>
     v = Version (int (number_of x)) (int (number_of y)) (int (number_of z)) \<and>
     getMajor v < 2 ^ 63 \<and> getMinor v < 2 ^ 63 \<and> getPatch v < 2 ^ 63)"
proof (cases "versionRegex s")
  case None
  then have "\<not> (\<exists>x y z. digits x \<and> digits y \<and> digits z \<and> s = x @ ''.'' @ y @ ''.'' @ z)"
    using versionRegex_Some by (metis option.distinct(1))
  then show ?thesis using None by (auto simp: fromString_def extractVersionNumbers_def)
next
  case (Some m)
  obtain x y z where m: "m = (x, y, z)" using prod_cases3 by blast
  have s: "digits x' \<and> digits y' \<and> digits z' \<and> s = x' @ ''.'' @ y' @ ''.'' @ z' \<longleftrightarrow> x' = x \<and> y' = y \<and> z' = z" for x' y' z'
    using Some versionRegex_Some [of s x' y' z'] by (auto simp: m)
  have "fromString s = Inr (Some v) \<longleftrightarrow> v = Version (int (number_of x)) (int (number_of y)) (int (number_of z)) \<and>
     getMajor v < 2 ^ 63 \<and> getMinor v < 2 ^ 63 \<and> getPatch v < 2 ^ 63"
    using Some by (auto simp: fromString_def extractVersionNumbers_def m bnd_eq_Inr parseNumber_Inr)
  also have "\<dots> \<longleftrightarrow> (\<exists>x' y' z'. (digits x' \<and> digits y' \<and> digits z' \<and> s = x' @ ''.'' @ y' @ ''.'' @ z') \<and>
     v = Version (int (number_of x')) (int (number_of y')) (int (number_of z')) \<and>
     getMajor v < 2 ^ 63 \<and> getMinor v < 2 ^ 63 \<and> getPatch v < 2 ^ 63)" unfolding s by blast
  finally show ?thesis by (simp only: conj_assoc)
qed

lemma fromString_None:
  "fromString s = Inr None \<longleftrightarrow> \<not> (\<exists>x y z. digits x \<and> digits y \<and> digits z \<and> s = x @ ''.'' @ y @ ''.'' @ z)"
proof (cases "versionRegex s")
  case None
  then have "\<not> (\<exists>x y z. digits x \<and> digits y \<and> digits z \<and> s = x @ ''.'' @ y @ ''.'' @ z)"
    using versionRegex_Some by (metis option.distinct(1))
  then show ?thesis using None by (auto simp: fromString_def extractVersionNumbers_def)
next
  case (Some m)
  obtain x y z where m: "m = (x, y, z)" using prod_cases3 by blast
  then have "digits x \<and> digits y \<and> digits z \<and> s = x @ ''.'' @ y @ ''.'' @ z" using Some versionRegex_Some by simp
  then show ?thesis using Some by (auto simp: fromString_def extractVersionNumbers_def m bnd_eq_Inr)
qed

lemma string_back:
  assumes "0 \<le> getMajor v" "getMajor v < 2 ^ 63" "0 \<le> getMinor v" "getMinor v < 2 ^ 63" "0 \<le> getPatch v" "getPatch v < 2 ^ 63"
  shows "fromString (toString v) = Inr (Some v)"
  unfolding fromString_Some
proof (intro exI conjI)
  show "toString v = nat_string (nat (getMajor v)) @ ''.'' @ nat_string (nat (getMinor v)) @ ''.'' @ nat_string (nat (getPatch v))"
    using assms by (simp add: toString_def int_string_def)
qed (use assms in \<open>simp_all add: digits_nat_string number_of_nat_string version.expand\<close>)

section \<open>The first version that has everything\<close>

fun required_type :: "vty \<Rightarrow> version"
  and required_attr :: "vattr \<Rightarrow> version" where
  "required_type (Simple s) = simple_min_version s"
| "required_type (ComplexV1Type t) = max (Version 0 9 0) (required_type t)"
| "required_type (FunctionV1Type ins outs) = foldr max (map required_type ins) (foldr max (map required_type outs) (Version 0 9 0))"
| "required_type (RankedTensorV1Type sh t enc) =
     max (case enc of None \<Rightarrow> Version 0 9 0 | Some a \<Rightarrow> required_attr a) (max (Version 0 9 0) (required_type t))"
| "required_type (TupleV1Type ts) = foldr max (map required_type ts) (Version 0 9 0)"
| "required_type (UniformQuantizedV1Type flags st et scale zp smin smax) =
     max (Version 0 9 0) (max (required_type st) (required_type et))"
| "required_type (UnrankedTensorV1Type t) = max (Version 0 9 0) (required_type t)"
| "required_attr (ArrayV1Attr vs) = foldr max (map required_attr vs) (Version 0 9 0)"
| "required_attr (DictionaryV1Attr es) =
     foldr max (map (\<lambda>e. max (required_attr (fst e)) (required_attr (snd e))) es) (Version 0 9 0)"
| "required_attr (FloatV1Attr t x) = max (Version 0 9 0) (required_type t)"
| "required_attr (IntegerV1Attr t i) = max (Version 0 9 0) (required_type t)"
| "required_attr (TensorV1Attr t raw) = max (Version 0 9 0) (required_type t)"
| "required_attr (TypeV1Attr t) = max (Version 0 9 0) (required_type t)"
| "required_attr _ = Version 0 9 0"

lemma foldr_max_le: "foldr max xs (b :: 'a :: linorder) \<le> T \<longleftrightarrow> (\<forall>x \<in> set xs. x \<le> T) \<and> b \<le> T"
  by (induction xs) auto

lemma legal_required:
  shows "isLegalType T t \<longleftrightarrow> required_type t \<le> T \<and> T \<le> getCurrentVersion"
    and "isLegalAttribute T v \<longleftrightarrow> required_attr v \<le> T \<and> T \<le> getCurrentVersion"
proof (induction T t and T v rule: isLegalType_isLegalAttribute.induct)
  case (4 T sh t enc)
  then show ?case by (cases enc) (auto simp: isLegalVersion_def)
qed (auto simp: isLegalVersion_def foldr_max_le)

definition required_op :: "(nat \<Rightarrow> vty) \<Rightarrow> (vty, vattr) dialect_op \<Rightarrow> version" where
  "required_op ty op = (case op of DialectOp k operands results attrs regions \<Rightarrow>
     foldr max (map (\<lambda>na. required_attr (snd na)) attrs @ map (\<lambda>n. required_type (ty n)) operands @
       map (\<lambda>r. required_type (snd r)) results) (Version 0 9 0))"

definition required_program :: "(nat \<Rightarrow> vty) \<Rightarrow> (vty, vattr) dialect_op \<Rightarrow> version" where
  "required_program ty op = foldr max (map (required_op ty) (nested_ops op)) (Version 0 9 0)"

lemma legal_required_op: "isLegalOperation ty T op \<longleftrightarrow> required_op ty op \<le> T \<and> T \<le> getCurrentVersion"
proof (cases op)
  case (DialectOp k operands results attrs regions)
  have "isLegalOperation ty T op \<longleftrightarrow> (Version 0 9 0 \<le> T \<and> T \<le> getCurrentVersion) \<and>
      (\<forall>na \<in> set attrs. required_attr (snd na) \<le> T \<and> T \<le> getCurrentVersion) \<and>
      (\<forall>n \<in> set operands. required_type (ty n) \<le> T \<and> T \<le> getCurrentVersion) \<and>
      (\<forall>r \<in> set results. required_type (snd r) \<le> T \<and> T \<le> getCurrentVersion)"
    unfolding isLegalOperation_def isLegalVersion_def legal_required DialectOp dialect_op.case by simp
  also have "\<dots> \<longleftrightarrow> required_op ty op \<le> T \<and> T \<le> getCurrentVersion"
    unfolding required_op_def DialectOp dialect_op.case foldr_max_le by auto
  finally show ?thesis .
qed

lemma simple_in_current: "simple_min_version s \<le> getCurrentVersion"
  by (cases s) (simp_all add: getCurrentVersion_def less_eq_version_def version_less_eq_def)

lemma first_in_current: "Version 0 9 0 \<le> getCurrentVersion"
  by (simp add: getCurrentVersion_def less_eq_version_def version_less_eq_def)

lemma required_in_current:
  shows "required_type t \<le> getCurrentVersion" and "required_attr v \<le> getCurrentVersion"
proof (induction t and v rule: required_type_required_attr.induct)
  case (4 sh t enc)
  then show ?case by (cases enc) (auto simp: first_in_current)
qed (auto simp: foldr_max_le first_in_current simple_in_current)

lemma required_program_in_current: "required_program ty op \<le> getCurrentVersion"
proof -
  have "required_op ty op' \<le> getCurrentVersion" for op'
    by (cases op') (auto simp: required_op_def foldr_max_le first_in_current required_in_current)
  then show ?thesis by (simp add: required_program_def foldr_max_le first_in_current)
qed

lemma validate_Inr: "validateTargetVersion s = Inr T \<longleftrightarrow>
    parseTargetVersion s = Inr (Some T) \<and> getMinimumVersion \<le> T \<and> T \<le> getCurrentVersion"
proof (cases "parseTargetVersion s")
  case (Inr m)
  then show ?thesis by (cases m) (auto simp: validateTargetVersion_def)
qed (simp add: validateTargetVersion_def)

lemma pass_Inr: "VhloToVersionPass s ty op = Inr op' \<longleftrightarrow> op' = op \<and>
    (\<exists>T. parseTargetVersion s = Inr (Some T) \<and> required_program ty op \<le> T \<and> T \<le> getCurrentVersion)"
proof -
  have "VhloToVersionPass s ty op = Inr op' \<longleftrightarrow>
      op' = op \<and> (\<exists>T. validateTargetVersion s = Inr T \<and> (\<forall>op' \<in> set (nested_ops op). isLegalOperation ty T op'))"
    by (auto simp: VhloToVersionPass_def bnd_eq_Inr split: if_splits)
  also have "\<dots> \<longleftrightarrow> op' = op \<and> (\<exists>T. (parseTargetVersion s = Inr (Some T) \<and> getMinimumVersion \<le> T \<and> T \<le> getCurrentVersion) \<and>
      (\<forall>op' \<in> set (nested_ops op). required_op ty op' \<le> T))"
    unfolding validate_Inr legal_required_op by blast
  also have "\<dots> \<longleftrightarrow> op' = op \<and> (\<exists>T. parseTargetVersion s = Inr (Some T) \<and> required_program ty op \<le> T \<and> T \<le> getCurrentVersion)"
    by (auto simp: required_program_def foldr_max_le getMinimumVersion_def)
  finally show ?thesis .
qed

end
