(* ===== verification/SerializationProperties.thy ===== *)
theory SerializationProperties
  imports MhloBytecode Samples VhloVersion
begin

text \<open>
  The properties of the bytecode of the dialects, over any reader and writer that behave as MLIR
  documents (\<open>stream_ok\<close>), where the witnesses use the stream of tokens of \<open>SerialStream\<close>; and those of
  the conversion between StableHLO and VHLO and of the check of a target version.
\<close>

text \<open>
  C5: What the bytecode of the VHLO dialect writes it reads back. Every attribute and every type
  that the C++ classes can hold (parameters in the range of their types, a float attribute
  whose value has the semantics of its type, an integer attribute whose value has the width of
  its type) is restored by the reader from what the writer put there, and the reader stops
  where the writer did.
\<close>

theorem vhlo_bytecode_round_trip:
  assumes "stream_ok S"
  shows "(vattr_ok a \<longrightarrow> readAttribute S (writeAttribute S a @ rest) = Inr (a, rest)) \<and>
    (vty_ok t \<longrightarrow> readType S (writeType S t @ rest) = Inr (t, rest))"
  using assms by (simp_all add: vhlo_attribute_back vhlo_type_back)

theorem vhlo_bytecode_round_trip_witness:
  "let a = IntegerV1Attr (Simple IntegerSI8V1Type) (APInt 8 200);
       t = RankedTensorV1Type [2, -(2 ^ 63)] (Simple FloatF32V1Type) (Some (TypeExtensionsV1Attr [-1, 7]))
   in readAttribute token_stream (writeAttribute token_stream a @ [TSigned 3]) = Inr (a, [TSigned 3]) \<and>
      readType token_stream (writeType token_stream t @ []) = Inr (t, [])"
proof -
  have a: "vattr_ok (IntegerV1Attr (Simple IntegerSI8V1Type) (APInt 8 200))"
    by (simp add: vattr_ok_def integer_width_def getBitWidthForIntegerType_def wf_apint_def)
  have t: "vty_ok (RankedTensorV1Type [2, -(2 ^ 63)] (Simple FloatF32V1Type) (Some (TypeExtensionsV1Attr [-1, 7])))"
    by (simp add: vty_ok_def i64s_ok_def i64_ok_def)
  show ?thesis
    using vhlo_bytecode_round_trip [OF token_stream_ok, THEN conjunct1, rule_format, OF a, of "[TSigned 3]"]
      vhlo_bytecode_round_trip [OF token_stream_ok, THEN conjunct2, rule_format, OF t, of "[]"]
    by (simp add: Let_def)
qed

text \<open>
  C14: The bytecode of the StableHLO, MHLO and CHLO dialects is read back unchanged. StableHLO and
  CHLO write every attribute of their own; MHLO declines exactly the four classes without an
  encoding, which MLIR then writes as text. The token type, and the bundles of types of MHLO,
  are read back too; any other type is declined.
\<close>

theorem dialect_bytecode_round_trip:
  assumes "stream_ok S"
  shows "(hlo_attr_ok a \<longrightarrow>
      (\<exists>bs. stablehlo_writeAttribute S a = Inr bs \<and> stablehlo_readAttribute S (bs @ rest) = Inr (a, rest))) \<and>
    ((case m of HloAttr h \<Rightarrow> hlo_attr_ok h | _ \<Rightarrow> True) \<longrightarrow>
      (case m of UnwrittenAttr u \<Rightarrow> fails (mhlo_writeAttribute S m)
       | _ \<Rightarrow> \<exists>bs. mhlo_writeAttribute S m = Inr bs \<and> mhlo_readAttribute S (bs @ rest) = Inr (m, rest))) \<and>
    chlo_readAttribute S (chlo_writeAttribute S c @ rest) = Inr (c, rest) \<and>
    (stablehlo_writeType S t = Inr bs \<longrightarrow>
      t = HloTokenType \<and> stablehlo_readType S (bs @ rest) = Inr (t, rest)) \<and>
    (mhlo_writeType S t = Inr bs \<longrightarrow>
      (\<forall>u. t \<noteq> OtherHloType u) \<and> mhlo_readType S (bs @ rest) = Inr (t, rest))"
proof -
  have a: "\<exists>bs. stablehlo_writeAttribute S a = Inr bs \<and> stablehlo_readAttribute S (bs @ rest) = Inr (a, rest)"
    if "hlo_attr_ok a"
    using stablehlo_attribute_back [OF assms that] stablehlo_attribute_written [of S a]
    by (auto simp: not_fails)
  have m: "(case m of UnwrittenAttr u \<Rightarrow> fails (mhlo_writeAttribute S m)
       | _ \<Rightarrow> \<exists>bs. mhlo_writeAttribute S m = Inr bs \<and> mhlo_readAttribute S (bs @ rest) = Inr (m, rest))"
    if "case m of HloAttr h \<Rightarrow> hlo_attr_ok h | _ \<Rightarrow> True"
  proof -
    have ok: "\<forall>h. m = HloAttr h \<longrightarrow> hlo_attr_ok h" using that by auto
    show ?thesis
      using mhlo_attribute_back [OF assms ok] mhlo_attribute_written [of S m]
      by (cases m) (auto simp: not_fails [symmetric], (metis not_fails)+)
  qed
  have t: "t = HloTokenType \<and> stablehlo_readType S (bs @ rest) = Inr (t, rest)"
    if "stablehlo_writeType S t = Inr bs"
    using stablehlo_type_back [OF assms that] that
    by (cases t) (auto simp: stablehlo_writeType_def)
  have u: "(\<forall>u. t \<noteq> OtherHloType u) \<and> mhlo_readType S (bs @ rest) = Inr (t, rest)"
    if "mhlo_writeType S t = Inr bs"
    using mhlo_type_back [OF assms that] that
    by (cases t) (auto simp: mhlo_writeType_def)
  show ?thesis using a m t u chlo_attribute_back [OF assms] by blast
qed

theorem dialect_bytecode_round_trip_witness:
  "(\<exists>bs. stablehlo_writeAttribute (token_stream :: ((nat, nat) token, nat, nat) stream)
        (ChannelHandleAttr 3 (-1)) = Inr bs \<and>
      stablehlo_readAttribute token_stream (bs @ [TVarInt 9]) = Inr (ChannelHandleAttr 3 (-1), [TVarInt 9])) \<and>
   mhlo_readType (token_stream :: ((nat, nat) token, nat, nat) stream)
      (TVarInt 1 # TVarInt 2 # TType 4 # TType 5 # [TVarInt 6]) = Inr (AsyncBundleType [4, 5], [TVarInt 6])"
proof -
  have h: "hlo_attr_ok (ChannelHandleAttr 3 (-1))" by (simp add: hlo_attr_ok_def i64_ok_def)
  have w: "mhlo_writeType (token_stream :: ((nat, nat) token, nat, nat) stream) (AsyncBundleType [4, 5])
      = Inr [TVarInt 1, TVarInt 2, TType 4, TType 5]"
    by (simp add: mhlo_writeType_def mhlo_writeAsyncBundleType_def token_stream_def put_list_def
        mhlo_kAsyncBundleType_def)
  show ?thesis
    using dialect_bytecode_round_trip [OF token_stream_ok, THEN conjunct1, rule_format, OF h, of "[TVarInt 9]"]
      dialect_bytecode_round_trip [OF token_stream_ok, THEN conjunct2, THEN conjunct2, THEN conjunct2,
        THEN conjunct2, rule_format, OF w, of "[TVarInt 6]"] by simp
qed



section \<open>Conversion between StableHLO and VHLO\<close>

text \<open>
  C20: A type of StableHLO is converted to VHLO exactly when it is made of integers of the widths VHLO
  has, floats, and tensors without a foreign encoding. Converting it back gives the type, also when it was
  written as bytecode and read in between; and a type of VHLO whose quantization scales are of type
  \<open>double\<close> is the conversion of its counterpart.
\<close>

theorem vhlo_types_correspond:
  assumes "lib_ok L" and "stream_ok S"
  shows "((\<exists>v. to_vhlo_type t = Inr v) \<longleftrightarrow> has_counterpart t) \<and>
    (to_vhlo_type t = Inr v \<and> vhlo_free t \<longrightarrow> from_vhlo_type L v = t) \<and>
    (to_vhlo_type t = Inr v \<and> vhlo_free t \<and> vty_ok v \<longrightarrow>
      (\<exists>w. readType S (writeType S v @ rest) = Inr (w, rest) \<and> from_vhlo_type L w = t)) \<and>
    (double_scales w \<longrightarrow> to_vhlo_type (from_vhlo_type L w) = Inr w)"
  using assms by (simp add: to_vhlo_type_defined from_to_type to_from_type vhlo_type_back)

theorem vhlo_types_correspond_witness:
  "let t = RankedTensorTy [2, 3] (IntegerTy Unsigned 16) (Some (StablehloAttr (TypeExtensionsAttr [2, 4])));
       v = RankedTensorV1Type [2, 3] (Simple IntegerUI16V1Type) (Some (TypeExtensionsV1Attr [2, 4]))
   in to_vhlo_type t = Inr v \<and> to_vhlo_type (IntegerTy Signed 16) \<noteq> Inr (Simple IntegerSI16V1Type) \<and>
      (\<exists>w. readType token_stream (writeType token_stream v @ []) = Inr (w, []) \<and> from_vhlo_type sample_lib w = t) \<and>
      to_vhlo_type (from_vhlo_type sample_lib v) = Inr v"
proof -
  let ?t = "RankedTensorTy [2, 3] (IntegerTy Unsigned 16) (Some (StablehloAttr (TypeExtensionsAttr [2, 4])))"
  let ?v = "RankedTensorV1Type [2, 3] (Simple IntegerUI16V1Type) (Some (TypeExtensionsV1Attr [2, 4]))"
  have v: "to_vhlo_type ?t = Inr ?v" "to_vhlo_type (IntegerTy Signed 16) \<noteq> Inr (Simple IntegerSI16V1Type)"
    by (simp_all add: convertEncoding_def convertBuiltinIntegerType_def null_attr_def)
  have "vty_ok ?v" by (simp add: vty_ok_def i64s_ok_def i64_ok_def)
  moreover have "double_scales ?v" "vhlo_free ?t" by simp_all
  ultimately show ?thesis
    using v vhlo_types_correspond [OF sample_lib_ok token_stream_ok, of ?t ?v "[]" ?v] by (simp only: Let_def simp_thms)
qed

text \<open>
  C18: A program converted to VHLO and back is the program it was. The conversion back
  succeeds on whatever the conversion to VHLO gives for a well-formed program; the operations, values, types and regions
  are the same; and the attributes under each name are restored: all but those that have
  their default value, which are left out, with the type of the channel of a collective operation forgotten, and with
  an empty attribute added for the defaults of a window without dimensions.
\<close>

theorem vhlo_program_round_trip:
  assumes "lib_ok L" and "op_ok L parent op" and "legalize_op op = Inr op'"
  shows "\<exists>op''. unlegalize_op L (legalize_class parent) op' = Inr op'' \<and> restored_op op op''"
  by (rule program_back(1) [OF assms(1,3,2)])

theorem vhlo_program_round_trip_witness:
  "let compare = DialectOp CompareOp [0, 0] [(1, RankedTensorTy [2] i1_ty None)]
         [(''comparison_direction'', StablehloAttr (ComparisonDirectionAttr LT)),
          (''compare_type'', StablehloAttr (ComparisonTypeAttr NOTYPE))] [];
       gather = DialectOp AllGatherOp [0] [(2, RankedTensorTy [4] i64_ty None)]
         [(''all_gather_dim'', IntegerAttr i64_ty (APInt 64 0)),
          (''channel_handle'', StablehloAttr (ChannelHandleAttr 5 1))] [];
       main = DialectOp FuncOp [] [] [(''sym_name'', StringAttr ''main'' NoneTy)]
         [[DialectBlock [(0, RankedTensorTy [2] i64_ty None)] [compare, gather, DialectOp FuncReturnOp [1, 2] [] [] []]]]
   in \<exists>op' op''. legalize_op main = Inr op' \<and> unlegalize_op sample_lib (OtherOp ''module'') op' = Inr op'' \<and>
      restored_op main op'' \<and>
      restored CompareOp [(''compare_type'', StablehloAttr (ComparisonTypeAttr NOTYPE))] ''compare_type'' = None \<and>
      restored AllGatherOp [(''channel_handle'', StablehloAttr (ChannelHandleAttr 5 1))] ''channel_handle'' =
        Some (StablehloAttr (ChannelHandleAttr 5 0))"
proof -
  let ?compare = "DialectOp CompareOp [0, 0] [(1, RankedTensorTy [2] i1_ty None)]
         [(''comparison_direction'', StablehloAttr (ComparisonDirectionAttr LT)),
          (''compare_type'', StablehloAttr (ComparisonTypeAttr NOTYPE))] []"
  let ?gather = "DialectOp AllGatherOp [0] [(2, RankedTensorTy [4] i64_ty None)]
         [(''all_gather_dim'', IntegerAttr i64_ty (APInt 64 0)),
          (''channel_handle'', StablehloAttr (ChannelHandleAttr 5 1))] []"
  let ?main = "DialectOp FuncOp [] [] [(''sym_name'', StringAttr ''main'' NoneTy)]
         [[DialectBlock [(0, RankedTensorTy [2] i64_ty None)] [?compare, ?gather, DialectOp FuncReturnOp [1, 2] [] [] []]]]"
  have ok: "op_ok sample_lib (OtherOp ''module'') ?main"
    by (simp add: op_attrs_ok_def op_attr_ok_def exploded_def vhlo_only_def collective_def dim_names_def stride_names_def
        hlo_attr_ok_def i64_ok_def)
  have "\<exists>op'. legalize_op ?main = Inr op'"
    by (simp add: convert_types_def convertBuiltinIntegerType_def legalize_attrs_def legalize_attr_def addDefaultAttr_def
        convertSpecial_def convertChannelId_def convertInt_v has_attr_def default_values)
  then obtain op' where op': "legalize_op ?main = Inr op'" by blast
  have parent: "legalize_class (OtherOp ''module'') = OtherOp ''module''" by (simp add: legalize_class_def)
  have "restored CompareOp [(''compare_type'', StablehloAttr (ComparisonTypeAttr NOTYPE))] ''compare_type'' = None"
    "restored AllGatherOp [(''channel_handle'', StablehloAttr (ChannelHandleAttr 5 1))] ''channel_handle'' =
      Some (StablehloAttr (ChannelHandleAttr 5 0))"
    by (simp_all add: restored_def defaulted_def is_default_attr_def default_names hlo_name_def forget_def collective_def)
  then show ?thesis
    using vhlo_program_round_trip [OF sample_lib_ok ok op'] op' unfolding Let_def parent by blast
qed

text \<open>
  C34: The check of a target version leaves the program as it is or refuses it. It is accepted exactly when the
  target is \<open>current\<close> or a version in the form of three decimal numbers of type \<open>int64_t\<close>, which is not after the
  current version, and no attribute and no type of an operand or a result, at any depth, is newer than it. The
  current version accepts every program of the dialect.
\<close>

theorem target_version_check:
  "(VhloToVersionPass s ty op = Inr op' \<longleftrightarrow> op' = op \<and> (\<exists>T.
      (s = ''current'' \<and> T = getCurrentVersion \<or>
       (\<exists>x y z. digits x \<and> digits y \<and> digits z \<and> s = x @ ''.'' @ y @ ''.'' @ z \<and>
          T = Version (int (number_of x)) (int (number_of y)) (int (number_of z)) \<and>
          getMajor T < 2 ^ 63 \<and> getMinor T < 2 ^ 63 \<and> getPatch T < 2 ^ 63)) \<and>
      required_program ty op \<le> T \<and> T \<le> getCurrentVersion)) \<and>
   VhloToVersionPass ''current'' ty op = Inr op"
proof
  have c: "fromString ''current'' \<noteq> Inr (Some T)" for T
    by (simp add: fromString_def extractVersionNumbers_def versionRegex_def is_digit_def)
  have p: "parseTargetVersion s = Inr (Some T) \<longleftrightarrow> s = ''current'' \<and> T = getCurrentVersion \<or> fromString s = Inr (Some T)" for T
    using c by (auto simp: parseTargetVersion_def)
  show "VhloToVersionPass s ty op = Inr op' \<longleftrightarrow> op' = op \<and> (\<exists>T.
      (s = ''current'' \<and> T = getCurrentVersion \<or>
       (\<exists>x y z. digits x \<and> digits y \<and> digits z \<and> s = x @ ''.'' @ y @ ''.'' @ z \<and>
          T = Version (int (number_of x)) (int (number_of y)) (int (number_of z)) \<and>
          getMajor T < 2 ^ 63 \<and> getMinor T < 2 ^ 63 \<and> getPatch T < 2 ^ 63)) \<and>
      required_program ty op \<le> T \<and> T \<le> getCurrentVersion)"
    unfolding pass_Inr p fromString_Some by (rule refl)
  show "VhloToVersionPass ''current'' ty op = Inr op"
    unfolding pass_Inr parseTargetVersion_def using required_program_in_current by auto
qed

end
