(* ===== verification/RngCode.thy ===== *)
theory RngCode
  imports ScalarCode
begin

text \<open>
  \<open>mhlo/utils/mhlo_rng_utils.cc\<close>: the code a random bit generator is lowered to. The scalar code is
  an expression over operations of the \<open>arith\<close> dialect, as in \<open>ScalarCode\<close>; the tensor code is an
  expression \<open>texp\<close> over the operations that move the generated numbers to their places.
\<close>

section \<open>Class \<open>ArithOp\<close>\<close>

text \<open>
  Inside the loop operand 0 is its index and the operands that follow are the elements of the
  stored state.
\<close>

definition constantI :: "int \<Rightarrow> nat \<Rightarrow> bvalue" where
  "constantI val bits = create (Constant (IntAttr val)) (IntegerType Signless bits) []"

definition extendUI :: "nat \<Rightarrow> bvalue \<Rightarrow> bvalue" where
  "extendUI bits val = create (ArithI ExtUI) (IntegerType Signless bits) [val]"

definition truncI :: "nat \<Rightarrow> bvalue \<Rightarrow> bvalue" where
  "truncI bits val =
     (if int_or_float_width (snd val) = bits then val
      else create (ArithI TruncI) (IntegerType Signless bits) [val])"

definition linalgIndex :: "nat \<Rightarrow> bvalue" where
  "linalgIndex index = (Operand index, IndexType)"

definition indexCast :: "nat \<Rightarrow> bvalue \<Rightarrow> bvalue" where
  "indexCast bitwidth val =
     (if IsAnyIntegerType (snd val) then create IndexCast IndexType [val]
      else create IndexCast (IntegerType Signless bitwidth) [val])"

definition plus_op :: "bvalue \<Rightarrow> bvalue \<Rightarrow> bvalue" where
  "plus_op lhs rhs = create_same (ArithI AddI) [lhs, rhs]"

definition or_op :: "bvalue \<Rightarrow> bvalue \<Rightarrow> bvalue" where
  "or_op lhs rhs = create_same (ArithI OrI) [lhs, rhs]"

definition xor_op :: "bvalue \<Rightarrow> bvalue \<Rightarrow> bvalue" where
  "xor_op lhs rhs = create_same (ArithI XOrI) [lhs, rhs]"

definition shl_op :: "bvalue \<Rightarrow> bvalue \<Rightarrow> bvalue" where
  "shl_op lhs rhs = create_same (ArithI ShLI) [lhs, rhs]"

definition shr_op :: "bvalue \<Rightarrow> bvalue \<Rightarrow> bvalue" where
  "shr_op lhs rhs = create_same (ArithI ShRUI) [lhs, rhs]"

definition rotateLeft :: "nat \<Rightarrow> bvalue \<Rightarrow> bvalue" where
  "rotateLeft rotation val =
     (let bits = int_or_float_width (snd val);
          cLeft = constantI (int rotation) bits;
          cRight = constantI (int bits - int rotation) bits;
          rLeft = shl_op val cLeft;
          rRight = shr_op val cRight
      in or_op rLeft rRight)"

definition splitI64 :: "bvalue \<Rightarrow> bvalue \<times> bvalue" where
  "splitI64 i64v =
     (let low = truncI 32 i64v; c32 = constantI 32 64; high = truncI 32 (shr_op i64v c32)
      in (low, high))"

definition fuseI32s :: "bvalue \<Rightarrow> bvalue \<Rightarrow> bvalue" where
  "fuseI32s low high =
     (let c32 = constantI 32 64; high' = shl_op (extendUI 64 high) c32; low' = extendUI 64 low
      in or_op low' high')"

section \<open>ThreeFry\<close>

definition rotations :: "nat list" where
  "rotations = [13, 15, 26, 6, 17, 29, 16, 24]"

definition threefry_mix :: "nat \<Rightarrow> bvalue \<times> bvalue \<Rightarrow> bvalue \<times> bvalue" where
  "threefry_mix rotation x =
     (let x0 = plus_op (fst x) (snd x); x1 = rotateLeft rotation (snd x) in (x0, xor_op x0 x1))"

definition threefry_rounds :: "bvalue list \<Rightarrow> bvalue \<times> bvalue \<Rightarrow> nat \<Rightarrow> bvalue \<times> bvalue" where
  "threefry_rounds ks x i =
     (let rot = (4 * i) mod length rotations;
          k1 = (i + 1) mod length ks;
          k2 = (i + 2) mod length ks;
          x' = foldl (\<lambda>x j. threefry_mix (rotations ! (rot + j)) x) x [0..<4];
          c = constantI (int i + 1) 32
      in (plus_op (fst x') (ks ! k1), plus_op (plus_op (snd x') (ks ! k2)) c))"

definition runThreeFry2xi32 :: "bvalue \<Rightarrow> bvalue \<Rightarrow> bvalue \<Rightarrow> bvalue \<times> bvalue" where
  "runThreeFry2xi32 key0 key1 initialState =
     (let index = plus_op (indexCast 64 (linalgIndex 0)) initialState;
          (input0, input1) = splitI64 index;
          magic = constantI 0x1bd11bda 32;
          key2 = xor_op (xor_op magic key0) key1;
          ks = [key0, key1, key2]
      in foldl (threefry_rounds ks) (plus_op input0 key0, plus_op input1 key1) [0..<5])"

section \<open>The stored state\<close>

text \<open>
  The store is a tensor of rank 1 with a static size; its value is the list of the values of its
  elements, which \<open>tensor.extract\<close> reads and \<open>tensor.insert\<close> replaces at constant indices.
\<close>

definition isInteger :: "ty \<Rightarrow> nat \<Rightarrow> bool" where
  "isInteger type width = (case type of IntegerType _ w \<Rightarrow> w = width | _ \<Rightarrow> False)"

abbreviation i32_type :: ty where "i32_type \<equiv> IntegerType Signless 32"
abbreviation i64_type :: ty where "i64_type \<equiv> IntegerType Signless 64"

definition bitcast_to :: "ty \<Rightarrow> bvalue \<Rightarrow> bvalue" where
  "bitcast_to type val = create Bitcast type [val]"

definition null_value :: "'a res" where
  "null_value = Inl (Fatal ''nullptr'')"

definition extractKey32 :: "ty \<Rightarrow> bvalue list \<Rightarrow> (bvalue \<times> bvalue) res" where
  "extractKey32 storeTy store =
     (if rank storeTy \<noteq> 1 then null_value
      else if shape_of storeTy ! 0 = 4 \<and> isInteger (element_type storeTy) 32 then
        Inr (bitcast_to i32_type (store ! 0), bitcast_to i32_type (store ! 1))
      else if shape_of storeTy ! 0 = 2 \<and> isInteger (element_type storeTy) 64 then
        Inr (splitI64 (bitcast_to i64_type (store ! 0)))
      else null_value)"

text \<open>The words of the state are passed to \<open>fuseI32s\<close> as \<open>high\<close>, \<open>low\<close>, where it expects \<open>low\<close>, \<open>high\<close>.\<close>

definition extractState64 :: "ty \<Rightarrow> bvalue list \<Rightarrow> bvalue res" where
  "extractState64 storeTy store =
     (if rank storeTy \<noteq> 1 then null_value
      else if shape_of storeTy ! 0 = 2 \<and> isInteger (element_type storeTy) 64 then
        Inr (bitcast_to i64_type (store ! 1))
      else if shape_of storeTy ! 0 = 4 \<and> isInteger (element_type storeTy) 32 then
        (let low = store ! 2; high = store ! 3; i64v = fuseI32s high low
         in Inr (bitcast_to i64_type i64v))
      else null_value)"

definition setState64 :: "ty \<Rightarrow> bvalue list \<Rightarrow> bvalue \<Rightarrow> bvalue list res" where
  "setState64 storeTy store state =
     (let storeETy = element_type storeTy in
      if rank storeTy \<noteq> 1 then null_value
      else if shape_of storeTy ! 0 = 2 \<and> isInteger storeETy 64 then
        Inr (store[1 := bitcast_to storeETy state])
      else if shape_of storeTy ! 0 = 4 \<and> isInteger storeETy 32 then
        (let states = splitI64 state;
             state0 = bitcast_to storeETy (fst states);
             state1 = bitcast_to storeETy (snd states)
         in Inr (store[2 := state0, 3 := state1]))
      else null_value)"

section \<open>Tensor code\<close>

text \<open>
  A result of the parallel loop over \<open>count\<close> indices (\<open>linalg.generic\<close>), and the operations that
  reshape, concatenate and slice it. What they compute is said by \<open>texp_at\<close>, the element at an index:
  reshapes keep the row-major order, a concatenation continues with its second operand, a slice
  starts at its offsets and advances by its strides.
\<close>

datatype texp =
    GenericResult int bvalue
  | ExpandShape sizes texp
  | CollapseShape sizes texp
  | MhloConcatenate nat texp texp
  | MhloReshape sizes texp
  | MhloSlice sizes sizes sizes texp

fun texp_shape :: "texp \<Rightarrow> sizes" where
  "texp_shape (GenericResult count v) = [count]"
| "texp_shape (ExpandShape sh t) = sh"
| "texp_shape (CollapseShape sh t) = sh"
| "texp_shape (MhloConcatenate d a b) = (texp_shape a)[d := texp_shape a ! d + texp_shape b ! d]"
| "texp_shape (MhloReshape sh t) = sh"
| "texp_shape (MhloSlice offset limit stride t) =
     map2 (\<lambda>(o1, l) s. (l - o1 + s - 1) div s) (zip offset limit) stride"

fun texp_at :: "dialects \<Rightarrow> scalar list \<Rightarrow> texp \<Rightarrow> sizes \<Rightarrow> scalar res" where
  "texp_at sem store (GenericResult count v) idx =
     eval_sexp sem (ScInt (mk_apint 64 (idx ! 0)) # store) [] (fst v)"
| "texp_at sem store (ExpandShape sh t) idx = texp_at sem store t (unflat (texp_shape t) (flat sh idx))"
| "texp_at sem store (CollapseShape sh t) idx = texp_at sem store t (unflat (texp_shape t) (flat sh idx))"
| "texp_at sem store (MhloConcatenate d a b) idx =
     (if idx ! d < texp_shape a ! d then texp_at sem store a idx
      else texp_at sem store b (idx[d := idx ! d - texp_shape a ! d]))"
| "texp_at sem store (MhloReshape sh t) idx = texp_at sem store t (unflat (texp_shape t) (flat sh idx))"
| "texp_at sem store (MhloSlice offset limit stride t) idx =
     texp_at sem store t (map2 (\<lambda>(o1, s) i. o1 + i * s) (zip offset stride) idx)"

text \<open>
  \<open>getReassociationIndicesForCollapse\<close> is code of MLIR; the argument \<open>reassoc\<close> says for which source
  and target shapes it has a value.
\<close>

definition reshapeToTarget :: "(sizes \<Rightarrow> sizes \<Rightarrow> bool) \<Rightarrow> sizes \<Rightarrow> texp \<Rightarrow> texp" where
  "reshapeToTarget reassoc destTy src =
     (let srcTy = texp_shape src;
          src1 = (if reassoc destTy srcTy then ExpandShape destTy src else src);
          src2 = (if reassoc srcTy destTy then CollapseShape destTy src1 else src1)
      in src2)"

text \<open>The first even dimension, or else the first of the largest.\<close>

fun first_even :: "nat \<Rightarrow> sizes \<Rightarrow> nat option" where
  "first_even i [] = None"
| "first_even i (d # ds) = (if odd d then first_even (Suc i) ds else Some i)"

fun first_max :: "sizes \<Rightarrow> nat \<Rightarrow> nat \<Rightarrow> sizes \<Rightarrow> nat" where
  "first_max sh best i [] = best"
| "first_max sh best i (d # ds) = first_max sh (if sh ! best < d then i else best) (Suc i) ds"

definition threeFry32Shape :: "sizes \<Rightarrow> sizes \<times> nat" where
  "threeFry32Shape shape =
     (if length shape = 0 then (shape, 0)
      else
        let halfDim = (case first_even 0 shape of Some i \<Rightarrow> i | None \<Rightarrow> first_max shape 0 0 shape);
            newShape = shape[halfDim := (shape ! halfDim + 1) div 2]
        in (if halfDim = length newShape - 1 then newShape @ [1] else newShape, halfDim))"

definition generateLinalgThreeFry32 ::
  "(sizes \<Rightarrow> sizes \<Rightarrow> bool) \<Rightarrow> ty \<Rightarrow> ty \<Rightarrow> bvalue list \<Rightarrow> (bvalue list \<times> texp) res" where
  "generateLinalgThreeFry32 reassoc resultTy storeTy store =
     bnd (extractState64 storeTy store) (\<lambda>initialState.
     bnd (extractKey32 storeTy store) (\<lambda>(key0, key1).
     let shape = shape_of resultTy;
         bits = int_or_float_width (element_type resultTy);
         (intermediateType, halfDim) = threeFry32Shape shape;
         count = num_elements intermediateType;
         newState = plus_op initialState (constantI count 64);
         split = runThreeFry2xi32 key0 key1 initialState;
         result0 = GenericResult count (truncI bits (fst split));
         result1 = GenericResult count (truncI bits (snd split))
     in bnd (setState64 storeTy store newState) (\<lambda>store'.
        if num_elements shape = 1 then Inr (store', reshapeToTarget reassoc shape result0)
        else
          let random0 = reshapeToTarget reassoc intermediateType result0;
              random1 = reshapeToTarget reassoc intermediateType result1;
              concatenate = MhloConcatenate (halfDim + 1) random0 random1;
              collapseShape = shape[halfDim := shape ! halfDim + shape ! halfDim mod 2];
              reshape = MhloReshape collapseShape concatenate;
              offset = replicate (length shape) 0;
              stride = replicate (length shape) 1
          in Inr (store', MhloSlice offset shape stride reshape))))"

definition generateLinalgThreeFry64 ::
  "(sizes \<Rightarrow> sizes \<Rightarrow> bool) \<Rightarrow> ty \<Rightarrow> ty \<Rightarrow> bvalue list \<Rightarrow> (bvalue list \<times> texp) res" where
  "generateLinalgThreeFry64 reassoc resultTy storeTy store =
     bnd (extractState64 storeTy store) (\<lambda>initialState.
     bnd (extractKey32 storeTy store) (\<lambda>(key0, key1).
     let shape = shape_of resultTy;
         count = num_elements shape;
         newState = plus_op initialState (constantI count 64);
         split = runThreeFry2xi32 key0 key1 initialState;
         random = GenericResult count (fuseI32s (fst split) (snd split))
     in bnd (setState64 storeTy store newState) (\<lambda>store'.
        Inr (store', reshapeToTarget reassoc shape random))))"

definition generateLinalgThreeFry ::
  "(sizes \<Rightarrow> sizes \<Rightarrow> bool) \<Rightarrow> ty \<Rightarrow> ty \<Rightarrow> bvalue list \<Rightarrow> (bvalue list \<times> texp) res" where
  "generateLinalgThreeFry reassoc resultTy storeTy store =
     (let width = int_or_float_width (element_type resultTy) in
      if width = 64 then generateLinalgThreeFry64 reassoc resultTy storeTy store
      else if width = 32 then generateLinalgThreeFry32 reassoc resultTy storeTy store
      else if width = 16 then generateLinalgThreeFry32 reassoc resultTy storeTy store
      else Inl (Fatal []))"

end
