(* ===== verification/RngLaws.thy ===== *)
theory RngLaws
  imports RngCode ScalarLaws
begin

text \<open>
  The emitted scalar code of the random bit generator on machine words: it computes ThreeFry
  with two 32-bit words and twenty rounds, which for every key is a bijection of the counters;
  and how the state is kept in the store.
\<close>

unbundle bit_operations_syntax

section \<open>ThreeFry on words\<close>

definition tf_mix :: "nat \<Rightarrow> 32 word \<times> 32 word \<Rightarrow> 32 word \<times> 32 word" where
  "tf_mix r x = (fst x + snd x, (fst x + snd x) XOR word_rotl r (snd x))"

definition tf_inject :: "32 word list \<Rightarrow> nat \<Rightarrow> 32 word \<times> 32 word \<Rightarrow> 32 word \<times> 32 word" where
  "tf_inject ks i x = (fst x + ks ! ((i + 1) mod 3), snd x + ks ! ((i + 2) mod 3) + of_nat (i + 1))"

definition tf_rounds :: "32 word list \<Rightarrow> 32 word \<times> 32 word \<Rightarrow> nat \<Rightarrow> 32 word \<times> 32 word" where
  "tf_rounds ks x i =
     tf_inject ks i (foldl (\<lambda>x j. tf_mix (rotations ! ((4 * i) mod 8 + j)) x) x [0..<4])"

definition threefry :: "32 word \<Rightarrow> 32 word \<Rightarrow> 32 word \<times> 32 word \<Rightarrow> 32 word \<times> 32 word" where
  "threefry k0 k1 x =
     (let ks = [k0, k1, (0x1bd11bda XOR k0) XOR k1]
      in foldl (tf_rounds ks) (fst x + k0, snd x + k1) [0..<5])"

lemma xor_cancel: "a XOR b = a XOR c \<longleftrightarrow> b = (c :: 'a::len word)"
  by (metis bit.xor_left_self)

lemma inj_tf_mix: "inj (tf_mix r)"
proof (rule injI)
  fix x y assume "tf_mix r x = tf_mix r y"
  then have s: "fst x + snd x = fst y + snd y" and "word_rotl r (snd x) = word_rotl r (snd y)"
    by (auto simp: tf_mix_def xor_cancel)
  then have "snd x = snd y" by (metis word_rot_lr)
  with s show "x = y" by (simp add: prod_eq_iff)
qed

lemma inj_foldl: "(\<And>i. i \<in> set is \<Longrightarrow> inj (\<lambda>x. f x i)) \<Longrightarrow> inj (\<lambda>x. foldl f x is)"
proof (induction "is")
  case (Cons i js)
  then have "inj ((\<lambda>x. foldl f x js) \<circ> (\<lambda>x. f x i))" by (intro inj_compose) auto
  then show ?case by (simp add: comp_def)
qed (simp add: inj_def)

lemma inj_tf_rounds: "inj (\<lambda>x. tf_rounds ks x i)"
proof -
  have "inj (tf_inject ks i)" by (auto simp: inj_def tf_inject_def prod_eq_iff)
  moreover have "inj (\<lambda>x. foldl (\<lambda>x j. tf_mix (rotations ! ((4 * i) mod 8 + j)) x) x [0..<4])"
    by (rule inj_foldl) (rule inj_tf_mix)
  ultimately show ?thesis unfolding tf_rounds_def by (rule inj_compose [unfolded comp_def])
qed

lemma inj_threefry: "inj (threefry k0 k1)"
proof -
  have "inj (\<lambda>x :: 32 word \<times> 32 word. (fst x + k0, snd x + k1))" by (auto simp: inj_def prod_eq_iff)
  moreover have "inj (\<lambda>x. foldl (tf_rounds ks) x [0..<5])" for ks
    by (rule inj_foldl) (rule inj_tf_rounds)
  ultimately have "inj ((\<lambda>x. foldl (tf_rounds [k0, k1, (0x1bd11bda XOR k0) XOR k1]) x [0..<5]) \<circ>
      (\<lambda>x. (fst x + k0, snd x + k1)))" by (intro inj_compose)
  moreover have "threefry k0 k1 = (\<lambda>x. foldl (tf_rounds [k0, k1, (0x1bd11bda XOR k0) XOR k1]) x [0..<5]) \<circ>
      (\<lambda>x. (fst x + k0, snd x + k1))"
    by (rule ext) (simp add: threefry_def)
  ultimately show ?thesis by simp
qed

lemma bij_threefry: "bij (threefry k0 k1)"
  using inj_threefry finite_UNIV_inj_surj [of "threefry k0 k1"] by (simp add: bij_def)

definition split64 :: "64 word \<Rightarrow> 32 word \<times> 32 word" where
  "split64 v = (ucast v, ucast (drop_bit 32 v))"

definition fuse64 :: "32 word \<Rightarrow> 32 word \<Rightarrow> 64 word" where
  "fuse64 low high = ucast low OR push_bit 32 (ucast high)"

lemma split_fuse: "split64 (fuse64 low high) = (low, high)"
  by (auto simp: split64_def fuse64_def intro!: bit_word_eqI) (auto simp: bit_simps dest: bit_imp_le_length)

lemma fuse_split: "fuse64 (fst (split64 v)) (snd (split64 v)) = v"
  by (auto simp: split64_def fuse64_def intro!: bit_word_eqI) (auto simp: bit_simps)

lemma inj_split64: "inj split64"
  by (metis fuse_split injI)

section \<open>The dialects\<close>

text \<open>
  Besides \<open>arith_ok\<close>: \<open>index_cast\<close> of an index to 64 bits and \<open>bitcast\<close> between integer types of one
  width keep the bits.
\<close>

definition rng_ok :: "dialects \<Rightarrow> bool" where
  "rng_ok sem \<longleftrightarrow> arith_ok sem \<and>
     (\<forall>a. wf_apint a \<and> ap_width a = 64 \<longrightarrow> sem IndexCast (IntegerType Signless 64) [ScInt a] = Inr (ScInt a)) \<and>
     (\<forall>s a. wf_apint a \<longrightarrow> sem Bitcast (IntegerType s (ap_width a)) [ScInt a] = Inr (ScInt a))"

definition wint :: "'a::len word \<Rightarrow> apint" where
  "wint w = APInt LENGTH('a) (uint w)"

definition yw :: "dialects \<Rightarrow> scalar list \<Rightarrow> bvalue \<Rightarrow> 'a::len word \<Rightarrow> bool" where
  "yw sem env v w \<longleftrightarrow> yields sem env [] v (IntegerType Signless LENGTH('a)) (wint w)"

lemma wint_simps [simp]: "ap_width (wint (w :: 'a::len word)) = LENGTH('a)" "uval (wint w) = uint w" "wf_apint (wint w)"
  "same_width (wint w) (wint (v :: 'a word))"
  by (simp_all add: wint_def wf_apint_def same_width_def)

lemma mk_apint_wint: "mk_apint LENGTH('a) i = wint (word_of_int i :: 'a::len word)"
  by (simp add: mk_apint_def wint_def uint_word_of_int)

lemma mk_apint_ucast: "mk_apint LENGTH('b) (uint (a :: 'a::len word)) = wint (ucast a :: 'b::len word)"
  by (simp only: mk_apint_wint ucast_eq)

lemma wint_ops:
  fixes a b :: "'a::len word"
  shows "ap_add (wint a) (wint b) = wint (a + b)"
    and "ap_or (wint a) (wint b) = wint (a OR b)"
    and "ap_xor (wint a) (wint b) = wint (a XOR b)"
    and "n < LENGTH('a) \<Longrightarrow> uint b = int n \<Longrightarrow> ap_shl (wint a) (wint b) = wint (push_bit n a)"
    and "n < LENGTH('a) \<Longrightarrow> uint b = int n \<Longrightarrow> ap_lshr (wint a) (wint b) = wint (drop_bit n a)"
proof -
  show "ap_add (wint a) (wint b) = wint (a + b)"
    by (simp add: ap_add_def mk_apint_wint wi_hom_add [symmetric])
  show "ap_or (wint a) (wint b) = wint (a OR b)"
    by (simp add: ap_or_def mk_apint_wint uint_or [symmetric])
  show "ap_xor (wint a) (wint b) = wint (a XOR b)"
    by (simp add: ap_xor_def mk_apint_wint uint_xor [symmetric])
  assume n: "n < LENGTH('a)" "uint b = int n"
  then have s: "shift_amount (wint a) (wint b) = n" by (simp add: shift_amount_def)
  show "ap_shl (wint a) (wint b) = wint (push_bit n a)"
    by (simp add: ap_shl_def s mk_apint_wint push_bit_eq_mult wi_hom_mult [symmetric] word_of_int_power_hom)
  have "uint (drop_bit n a) = drop_bit n (uint a)" by (simp add: unsigned_drop_bit_eq take_bit_int_eq_self)
  then have "uint a div 2 ^ n = uint (drop_bit n a)" by (simp only: drop_bit_eq_div)
  then show "ap_lshr (wint a) (wint b) = wint (drop_bit n a)"
    by (simp add: ap_lshr_def s mk_apint_wint)
qed

lemma push_drop_rotl:
  fixes a :: "32 word"
  assumes "0 < r" and "r < 32"
  shows "push_bit r a OR drop_bit (32 - r) a = word_rotl r a"
proof (rule bit_word_eqI)
  fix n assume "n < LENGTH(32)"
  then have n: "n < 32" by simp
  have m: "(n + (32 - r)) mod 32 = (if n < r then n + 32 - r else n - r)"
    using n assms by (auto simp: mod_if)
  have b: "bit a (32 - r + n) \<longleftrightarrow> n < r \<and> bit a (n + 32 - r)"
    using n assms bit_imp_le_length [of a "32 - r + n"] by (auto simp: algebra_simps)
  show "bit (push_bit r a OR drop_bit (32 - r) a) n = bit (word_rotl r a) n"
    using n assms m b by (auto simp: bit_simps bit_word_rotl_iff)
qed

section \<open>The emitted operations\<close>

lemma arith:
  assumes ok: "rng_ok sem"
  shows "arith_ok sem" using ok by (simp add: rng_ok_def)

lemma yw_const:
  assumes ok: "rng_ok sem"
  shows "yw sem env (constantI i LENGTH('a)) (word_of_int i :: 'a::len word)"
  using yields_const(1) [OF arith [OF ok], of "LENGTH('a)" env "[]" i]
  by (simp add: yw_def constantI_def getConstantOrSplat_def mk_apint_wint)

lemma yw_plus:
  assumes ok: "rng_ok sem"
  shows "yw sem env x (a :: 'a::len word) \<Longrightarrow> yw sem env y b \<Longrightarrow> yw sem env (plus_op x y) (a + b)"
  unfolding yw_def plus_op_def
  by (rule yields_wrap [OF arith [OF ok], where a = "wint a" and b = "wint b" and f = AddI and fn = ap_add]) (simp_all add: wint_ops)

lemma yw_or:
  assumes ok: "rng_ok sem"
  shows "yw sem env x (a :: 'a::len word) \<Longrightarrow> yw sem env y b \<Longrightarrow> yw sem env (or_op x y) (a OR b)"
  unfolding yw_def or_op_def
  by (rule yields_wrap [OF arith [OF ok], where a = "wint a" and b = "wint b" and f = OrI and fn = ap_or]) (simp_all add: wint_ops)

lemma yw_xor:
  assumes ok: "rng_ok sem"
  shows "yw sem env x (a :: 'a::len word) \<Longrightarrow> yw sem env y b \<Longrightarrow> yw sem env (xor_op x y) (a XOR b)"
  unfolding yw_def xor_op_def
  by (rule yields_wrap [OF arith [OF ok], where a = "wint a" and b = "wint b" and f = XOrI and fn = ap_xor]) (simp_all add: wint_ops)

lemma const_amount:
  assumes "n < LENGTH('a)" "i = int n"
  shows "uint (word_of_int i :: 'a::len word) = int n"
proof -
  have "n < 2 ^ LENGTH('a)" using assms(1) less_exp [of "LENGTH('a)"] by (rule less_trans)
  then show ?thesis using assms(2) by (simp add: unsigned_of_nat take_bit_nat_eq_self)
qed

lemma yw_shift:
  assumes ok: "rng_ok sem" and "yw sem env x (a :: 'a::len word)" "n < LENGTH('a)" "i = int n" "shifting f = Some fn"
    and "fn (wint a) (wint (word_of_int i :: 'a word)) = wint (b :: 'a word)"
  shows "yw sem env (create_same (ArithI f) [x, constantI i LENGTH('a)]) b"
  unfolding yw_def
  by (rule yields_shift(2) [OF arith [OF ok] _ _ _ assms(5), of env "[]" x _ "wint a" _ "IntegerType Signless LENGTH('a)"
        "wint (word_of_int i :: 'a word)"])
    (use assms(2,3,6) yw_const [OF ok, of env i, where 'a = 'a] in \<open>simp_all add: yw_def const_amount [OF assms(3,4)]\<close>)

lemma yw_shl:
  assumes ok: "rng_ok sem" and "yw sem env x (a :: 'a::len word)" "n < LENGTH('a)" "i = int n" "w = LENGTH('a)"
  shows "yw sem env (shl_op x (constantI i w)) (push_bit n a)"
  unfolding shl_op_def assms(5)
  by (rule yw_shift [OF assms(1-4), where fn = ap_shl]) (simp_all add: wint_ops(4) [OF assms(3)] const_amount [OF assms(3,4)])

lemma yw_shr:
  assumes ok: "rng_ok sem" and "yw sem env x (a :: 'a::len word)" "n < LENGTH('a)" "i = int n" "w = LENGTH('a)"
  shows "yw sem env (shr_op x (constantI i w)) (drop_bit n a)"
  unfolding shr_op_def assms(5)
  by (rule yw_shift [OF assms(1-4), where fn = ap_lshr]) (simp_all add: wint_ops(5) [OF assms(3)] const_amount [OF assms(3,4)])

lemma yw_rotate:
  assumes ok: "rng_ok sem" and "yw sem env x (a :: 32 word)" "0 < r" "r < 32"
  shows "yw sem env (rotateLeft r x) (word_rotl r a)"
proof -
  have "snd x = IntegerType Signless 32" using assms(2) by (simp add: yw_def yields_def)
  then have w: "int_or_float_width (snd x) = 32" by simp
  have "push_bit r a OR drop_bit (32 - r) a = word_rotl r a"
    by (rule push_drop_rotl) (use assms in simp_all)
  moreover have "yw sem env (shl_op x (constantI (int r) 32)) (push_bit r a)"
    by (rule yw_shl [OF ok]) (use assms in auto)
  moreover have "yw sem env (shr_op x (constantI (int 32 - int r) 32)) (drop_bit (32 - r) a)"
    by (rule yw_shr [OF ok]) (use assms in auto)
  ultimately show ?thesis unfolding rotateLeft_def w Let_def by (metis yw_or [OF ok])
qed

lemma yw_truncI:
  assumes ok: "rng_ok sem" and "yw sem env x (a :: 64 word)"
  shows "yw sem env (truncI 32 x) (ucast a :: 32 word)"
proof -
  have s: "snd x = IntegerType Signless 64" and e: "eval_sexp sem env [] (fst x) = Inr (ScInt (wint a))"
    using assms by (simp_all add: yw_def yields_def)
  have "sem (ArithI TruncI) (IntegerType Signless 32) [ScInt (wint a)] = Inr (ScInt (wint (ucast a :: 32 word)))"
    using arith_casts(1) [OF arith [OF ok], of "wint a" 32] mk_apint_ucast [where 'b = 32, of a]
    by simp
  then show ?thesis using s e by (simp add: yw_def yields_def truncI_def create_def)
qed

lemma yw_truncI_same: "yw sem env x (a :: 32 word) \<Longrightarrow> yw sem env (truncI 32 x) a"
  by (simp add: yw_def yields_def truncI_def)

lemma yw_extendUI:
  assumes ok: "rng_ok sem" and "yw sem env x (a :: 32 word)"
  shows "yw sem env (extendUI 64 x) (ucast a :: 64 word)"
proof -
  have e: "eval_sexp sem env [] (fst x) = Inr (ScInt (wint a))"
    using assms by (simp_all add: yw_def yields_def)
  have "sem (ArithI ExtUI) (IntegerType Signless 64) [ScInt (wint a)] = Inr (ScInt (wint (ucast a :: 64 word)))"
    using arith_casts(2) [OF arith [OF ok], of "wint a" 64] mk_apint_ucast [where 'b = 64, of a]
    by simp
  then show ?thesis using e by (simp add: yw_def yields_def extendUI_def create_def)
qed

lemma yw_split:
  assumes ok: "rng_ok sem" and "yw sem env x (a :: 64 word)"
  shows "yw sem env (fst (splitI64 x)) (fst (split64 a))" and "yw sem env (snd (splitI64 x)) (snd (split64 a))"
  unfolding splitI64_def split64_def Let_def fst_conv snd_conv
  by (intro yw_truncI yw_shr assms; simp)+

lemma yw_fuse:
  assumes ok: "rng_ok sem" and "yw sem env x a" and "yw sem env y b"
  shows "yw sem env (fuseI32s x y) (fuse64 a b)"
  unfolding fuseI32s_def fuse64_def Let_def
  by (intro yw_or yw_extendUI yw_shl assms) simp_all

lemma yw_index:
  assumes ok: "rng_ok sem" and "env ! 0 = ScInt (mk_apint 64 i)" and "env \<noteq> []"
  shows "yw sem env (indexCast 64 (linalgIndex 0)) (word_of_int i :: 64 word)"
proof -
  have "sem IndexCast (IntegerType Signless 64) [ScInt (wint (word_of_int i :: 64 word))] =
      Inr (ScInt (wint (word_of_int i :: 64 word)))"
    using ok by (simp add: rng_ok_def)
  then show ?thesis using assms mk_apint_wint [where 'a = 64, of i]
    by (simp add: yw_def yields_def indexCast_def linalgIndex_def create_def)
qed

lemma yw_mix:
  assumes ok: "rng_ok sem" and "yw sem env (fst x) (fst a)" and "yw sem env (snd x) (snd a)" and "0 < r" and "r < 32"
  shows "yw sem env (fst (threefry_mix r x)) (fst (tf_mix r a))" and "yw sem env (snd (threefry_mix r x)) (snd (tf_mix r a))"
proof -
  show 1: "yw sem env (fst (threefry_mix r x)) (fst (tf_mix r a))"
    using yw_plus [OF assms(1-3)] by (simp add: threefry_mix_def tf_mix_def Let_def)
  show "yw sem env (snd (threefry_mix r x)) (snd (tf_mix r a))"
    using yw_xor [OF ok 1 yw_rotate [OF ok assms(3-5)]] by (simp add: threefry_mix_def tf_mix_def Let_def)
qed

lemma rotations_ok: "k < 8 \<Longrightarrow> 0 < rotations ! k \<and> rotations ! k < 32"
  by (auto simp: rotations_def less_Suc_eq numeral_eq_Suc)

lemma yw_mixes:
  assumes ok: "rng_ok sem" and "yw sem env (fst x) (fst a)" and "yw sem env (snd x) (snd a)" and "\<forall>j \<in> set js. rot + j < 8"
  shows "yw sem env (fst (foldl (\<lambda>x j. threefry_mix (rotations ! (rot + j)) x) x js))
      (fst (foldl (\<lambda>x j. tf_mix (rotations ! (rot + j)) x) a js)) \<and>
    yw sem env (snd (foldl (\<lambda>x j. threefry_mix (rotations ! (rot + j)) x) x js))
      (snd (foldl (\<lambda>x j. tf_mix (rotations ! (rot + j)) x) a js))"
  using assms(2-4)
proof (induction js arbitrary: x a)
  case (Cons j js)
  then have "0 < rotations ! (rot + j)" "rotations ! (rot + j) < 32" using rotations_ok [of "rot + j"] by auto
  from Cons.IH [OF yw_mix [OF ok Cons.prems(1,2) this]] Cons.prems(3) show ?case by simp
qed simp

lemma yw_rounds:
  assumes ok: "rng_ok sem" and x: "yw sem env (fst x) (fst a)" "yw sem env (snd x) (snd a)"
    and ks: "length ks = 3" "length ws = 3" "\<forall>k < 3. yw sem env (ks ! k) (ws ! k)"
  shows "yw sem env (fst (threefry_rounds ks x i)) (fst (tf_rounds ws a i))"
    and "yw sem env (snd (threefry_rounds ks x i)) (snd (tf_rounds ws a i))"
proof -
  have "(4 * i) mod 8 + j < 8" if "j < 4" for j
  proof -
    have "(4 * i) mod 8 = 4 * (i mod 2)" by presburger
    moreover have "i mod 2 < 2" by simp
    ultimately show ?thesis using that by linarith
  qed
  then have "\<forall>j \<in> set [0..<4]. (4 * i) mod 8 + j < 8" by simp
  note m = yw_mixes [OF ok x this]
  have l: "length rotations = 8" by (simp add: rotations_def)
  have c: "yw sem env (constantI (int i + 1) 32) (of_nat (i + 1) :: 32 word)"
  proof -
    have w: "(word_of_int (int i + 1) :: 32 word) = of_nat (i + 1)" by simp
    have l: "LENGTH(32) = 32" by simp
    show ?thesis using yw_const [OF ok, where 'a = 32, of env "int i + 1"] unfolding w l .
  qed
  show "yw sem env (fst (threefry_rounds ks x i)) (fst (tf_rounds ws a i))"
    unfolding threefry_rounds_def tf_rounds_def tf_inject_def Let_def l ks(1) fst_conv
    by (rule yw_plus [OF ok]) (use m ks in auto)
  show "yw sem env (snd (threefry_rounds ks x i)) (snd (tf_rounds ws a i))"
    unfolding threefry_rounds_def tf_rounds_def tf_inject_def Let_def l ks(1) snd_conv
    by (intro yw_plus [OF ok] c) (use m ks in auto)
qed

lemma yw_all_rounds:
  assumes ok: "rng_ok sem" and "yw sem env (fst x) (fst a)" "yw sem env (snd x) (snd a)"
    and "length ks = 3" "length ws = 3" "\<forall>k < 3. yw sem env (ks ! k) (ws ! k)"
  shows "yw sem env (fst (foldl (threefry_rounds ks) x is)) (fst (foldl (tf_rounds ws) a is)) \<and>
    yw sem env (snd (foldl (threefry_rounds ks) x is)) (snd (foldl (tf_rounds ws) a is))"
  using assms(2,3)
proof (induction "is" arbitrary: x a)
  case (Cons i js)
  then show ?case using yw_rounds [OF ok Cons.prems assms(4-6)] by auto
qed simp

text \<open>The pair of random words at a loop index.\<close>

lemma yw_threefry:
  assumes ok: "rng_ok sem" and "yw sem env key0 k0" and "yw sem env key1 k1" and "yw sem env state s"
    and "env ! 0 = ScInt (mk_apint 64 i)" and "env \<noteq> []"
  shows "yw sem env (fst (runThreeFry2xi32 key0 key1 state)) (fst (threefry k0 k1 (split64 (word_of_int i + s))))"
    and "yw sem env (snd (runThreeFry2xi32 key0 key1 state)) (snd (threefry k0 k1 (split64 (word_of_int i + s))))"
proof -
  define v where "v = plus_op (indexCast 64 (linalgIndex 0)) state"
  define w :: "64 word" where "w = word_of_int i + s"
  have v: "yw sem env v w" unfolding v_def w_def by (intro yw_plus yw_index assms)
  have key2: "yw sem env (xor_op (xor_op (constantI 0x1bd11bda 32) key0) key1) ((0x1bd11bda XOR k0) XOR k1)"
    using yw_const [OF ok, where 'a = 32, of env "0x1bd11bda"] assms(2,3) by (intro yw_xor [OF ok]) simp_all
  let ?ks = "[key0, key1, xor_op (xor_op (constantI 0x1bd11bda 32) key0) key1]"
  let ?ws = "[k0, k1, (0x1bd11bda XOR k0) XOR k1]"
  have ks: "\<forall>k < 3. yw sem env (?ks ! k) (?ws ! k)"
    using assms(2,3) key2 by (auto simp: less_Suc_eq numeral_3_eq_3)
  have x: "yw sem env (plus_op (fst (splitI64 v)) key0) (fst (split64 w) + k0)"
    "yw sem env (plus_op (snd (splitI64 v)) key1) (snd (split64 w) + k1)"
    by (intro yw_plus yw_split v assms)+
  have r: "runThreeFry2xi32 key0 key1 state = foldl (threefry_rounds ?ks)
      (plus_op (fst (splitI64 v)) key0, plus_op (snd (splitI64 v)) key1) [0..<5]"
    by (simp add: runThreeFry2xi32_def v_def case_prod_beta Let_def)
  have t: "threefry k0 k1 (split64 w) = foldl (tf_rounds ?ws) (fst (split64 w) + k0, snd (split64 w) + k1) [0..<5]"
    by (simp add: threefry_def Let_def)
  note a = yw_all_rounds [where x = "(plus_op (fst (splitI64 v)) key0, plus_op (snd (splitI64 v)) key1)"
      and a = "(fst (split64 w) + k0, snd (split64 w) + k1)", unfolded fst_conv snd_conv, OF ok x _ _ ks, of "[0..<5]"]
  show "yw sem env (fst (runThreeFry2xi32 key0 key1 state)) (fst (threefry k0 k1 (split64 (word_of_int i + s))))"
    using a unfolding r w_def [symmetric] t by simp
  show "yw sem env (snd (runThreeFry2xi32 key0 key1 state)) (snd (threefry k0 k1 (split64 (word_of_int i + s))))"
    using a unfolding r w_def [symmetric] t by simp
qed

end
