(* ===== verification/RngState.thy ===== *)
theory RngState
  imports RngLaws
begin

text \<open>
  Where the numbers of the random bit generator go: the position of every element of the result
  among the generated pairs.
\<close>

section \<open>Shapes\<close>

lemma first_even_Some: "first_even k sh = Some i \<Longrightarrow> k \<le> i \<and> i < k + length sh \<and> even (sh ! (i - k))"
proof (induction sh arbitrary: k)
  case (Cons d ds)
  show ?case
  proof (cases "odd d")
    case True
    then have "first_even (Suc k) ds = Some i" using Cons.prems by simp
    note ih = Cons.IH [OF this]
    then have "i - k = Suc (i - Suc k)" by auto
    with ih show ?thesis by auto
  next
    case False
    then show ?thesis using Cons.prems by auto
  qed
qed simp

lemma first_max_less: "best < n \<Longrightarrow> i + length ds \<le> n \<Longrightarrow> first_max sh best i ds < n"
  by (induction sh best i ds rule: first_max.induct) auto

definition half_dim :: "sizes \<Rightarrow> nat" where
  "half_dim sh = snd (threeFry32Shape sh)"

definition pair_shape :: "sizes \<Rightarrow> sizes" where
  "pair_shape sh = fst (threeFry32Shape sh)"

lemma half_dim_less: "sh \<noteq> [] \<Longrightarrow> half_dim sh < length sh"
  using first_max_less [of 0 "length sh" 0 sh sh] first_even_Some [of 0 sh]
  by (auto simp: half_dim_def threeFry32Shape_def Let_def split: option.splits)

lemma pair_shape_eq:
  "sh \<noteq> [] \<Longrightarrow> pair_shape sh = sh[half_dim sh := (sh ! half_dim sh + 1) div 2] @
     (if half_dim sh = length sh - 1 then [1] else [])"
  by (auto simp: half_dim_def pair_shape_def threeFry32Shape_def Let_def)

text \<open>The pair and the half of it an element comes from.\<close>

definition pair_index :: "sizes \<Rightarrow> sizes \<Rightarrow> sizes" where
  "pair_index sh idx = idx[half_dim sh := idx ! half_dim sh div 2] @
     (if half_dim sh = length sh - 1 then [0] else [])"

definition source_counter :: "sizes \<Rightarrow> sizes \<Rightarrow> int" where
  "source_counter sh idx = flat (pair_shape sh) (pair_index sh idx)"

definition source_lane :: "sizes \<Rightarrow> sizes \<Rightarrow> int" where
  "source_lane sh idx = (if sh = [] then 0 else idx ! half_dim sh mod 2)"

text \<open>A shape split at the halved dimension; a last dimension is followed by one of size one.\<close>

lemma split_at_half:
  assumes "sh \<noteq> []" and "inBounds idx sh"
  obtains A d b B I i j J where
    "length A = half_dim sh" "length I = half_dim sh"
    "sh @ (if half_dim sh = length sh - 1 then [1] else []) = A @ d # b # B"
    "idx @ (if half_dim sh = length sh - 1 then [0] else []) = I @ i # j # J"
    "sh ! half_dim sh = d" "idx ! half_dim sh = i"
    "inBounds I A" "0 \<le> i" "i < d" "0 \<le> j" "j < b" "inBounds J B"
proof -
  let ?h = "half_dim sh"
  define sh' where "sh' = sh @ (if ?h = length sh - 1 then [1] else [])"
  define idx' where "idx' = idx @ (if ?h = length sh - 1 then [0] else [])"
  have h: "?h < length sh" by (rule half_dim_less [OF assms(1)])
  have len: "length idx = length sh" using assms(2) by (rule inBounds_length)
  have b: "inBounds idx' sh'" using assms(2) by (auto simp: idx'_def sh'_def inBounds_nth_iff nth_append less_Suc_eq)
  have h': "Suc ?h < length sh'" using h by (auto simp: sh'_def)
  then have len': "Suc ?h < length idx'" using inBounds_length [OF b] by simp
  have s: "sh' = take ?h sh' @ sh' ! ?h # sh' ! Suc ?h # drop (Suc (Suc ?h)) sh'"
    using h' by (metis Cons_nth_drop_Suc Suc_lessD id_take_nth_drop)
  have i: "idx' = take ?h idx' @ idx' ! ?h # idx' ! Suc ?h # drop (Suc (Suc ?h)) idx'"
    using len' by (metis Cons_nth_drop_Suc Suc_lessD id_take_nth_drop)
  have all: "\<forall>k < length sh'. 0 \<le> idx' ! k \<and> idx' ! k < sh' ! k" "length idx' = length sh'"
    using b by (auto simp: inBounds_nth_iff)
  have I: "inBounds (take ?h idx') (take ?h sh')" and J: "inBounds (drop (Suc (Suc ?h)) idx') (drop (Suc (Suc ?h)) sh')"
    using all by (auto simp: inBounds_nth_iff)
  show ?thesis
    by (rule that [of "take ?h sh'" "take ?h idx'" "sh' ! ?h" "sh' ! Suc ?h" "drop (Suc (Suc ?h)) sh'"
          "idx' ! ?h" "idx' ! Suc ?h" "drop (Suc (Suc ?h)) idx'"])
      (use h h' len' all I J s i len in \<open>auto simp: sh'_def [symmetric] idx'_def [symmetric]\<close>,
       auto simp: sh'_def idx'_def nth_append)
qed

lemma num_elements_1 [simp]: "num_elements (sh @ (if c then [1] else [])) = num_elements sh"
  by (simp add: num_elements_append num_elements_def)

lemma flat_1: "length idx = length sh \<Longrightarrow>
    flat (sh @ (if c then [1] else [])) (idx @ (if c then [0] else [])) = flat sh idx"
  by (simp add: flat_append num_elements_def)

lemma list_update_at: "length A = h \<Longrightarrow> (A @ d # R)[h := x] = A @ x # R"
  by (simp add: list_update_append)

text \<open>
  The concatenation along the dimension after the halved one, with the halved dimension doubled, is
  row-major the rounded result shape: element \<open>idx\<close> is read from its lane at its pair.
\<close>

lemma flat_concat:
  assumes "length I = length A"
  shows "flat (A @ 2 * e # b # B) (I @ i # j # J) =
      flat (A @ e # 2 * b # B) (I @ (i div 2) # ((i mod 2) * b + j) # J)"
proof -
  define q r where "q = i div 2" and "r = i mod 2"
  then have "i = 2 * q + r" by simp
  then have "i * (b * num_elements B) = q * (2 * b * num_elements B) + r * b * num_elements B"
    by (simp add: algebra_simps)
  then show ?thesis
    by (simp add: flat_append assms num_elements_append algebra_simps flip: q_def r_def)
qed

lemma threefry_shape: "threeFry32Shape sh = (pair_shape sh, half_dim sh)"
  by (simp add: pair_shape_def half_dim_def)

section \<open>Reshapes\<close>

text \<open>
  What \<open>getReassociationIndicesForCollapse\<close> is relied on for: a shape of two or more dimensions
  collapses to the single dimension of its elements, and one element to no dimension.
\<close>

definition collapses :: "(sizes \<Rightarrow> sizes \<Rightarrow> bool) \<Rightarrow> bool" where
  "collapses reassoc \<longleftrightarrow> reassoc [1] [] \<and>
     (\<forall>sh. 2 \<le> length sh \<and> (\<forall>d \<in> set sh. 0 < d) \<longrightarrow> reassoc sh [num_elements sh])"

lemma reshape_at:
  assumes "collapses reassoc" and "texp_shape src = [num_elements sh]" and "inBounds idx sh"
  shows "texp_shape (reshapeToTarget reassoc sh src) = sh"
    and "texp_at sem st (reshapeToTarget reassoc sh src) idx = texp_at sem st src [flat sh idx]"
proof -
  have pos: "\<forall>d \<in> set sh. 0 < d"
    using assms(3) by (fastforce simp: inBounds_nth_iff in_set_conv_nth)
  have u: "unflat [n] k = [k]" for n k by (simp add: num_elements_def)
  have ff: "unflat sh (flat sh idx) = idx" using assms(3) by (rule unflat_flat)
  consider "sh = []" | d where "sh = [d]" | "2 \<le> length sh"
    by (cases sh; cases "tl sh") auto
  then have "texp_shape (reshapeToTarget reassoc sh src) = sh \<and>
    texp_at sem st (reshapeToTarget reassoc sh src) idx = texp_at sem st src [flat sh idx]"
  proof cases
    case 1
    then show ?thesis using assms(1,2) u by (auto simp: reshapeToTarget_def Let_def collapses_def num_elements_def)
  next
    case 2
    then obtain k where "idx = [k]" using assms(3) by (cases idx) (auto dest: inBounds_length)
    then show ?thesis using 2 assms(2) u by (auto simp: reshapeToTarget_def Let_def num_elements_def)
  next
    case 3
    then have "reassoc sh [num_elements sh]" using assms(1) pos by (auto simp: collapses_def)
    then show ?thesis using assms(2) u ff by (auto simp: reshapeToTarget_def Let_def)
  qed
  then show "texp_shape (reshapeToTarget reassoc sh src) = sh"
    and "texp_at sem st (reshapeToTarget reassoc sh src) idx = texp_at sem st src [flat sh idx]" by auto
qed

section \<open>The element at an index\<close>

lemma inBounds_append: "length p = length a \<Longrightarrow> inBounds (p @ q) (a @ b) \<longleftrightarrow> inBounds p a \<and> inBounds q b"
  by (auto simp: inBounds_def)

lemma layout_at:
  assumes c: "collapses reassoc" and ne: "sh \<noteq> []" and idx: "inBounds idx sh"
    and r: "texp_shape r0 = [num_elements (pair_shape sh)]" "texp_shape r1 = [num_elements (pair_shape sh)]"
  shows "texp_at sem st (MhloSlice (replicate (length sh) 0) sh (replicate (length sh) 1)
      (MhloReshape (sh[half_dim sh := sh ! half_dim sh + sh ! half_dim sh mod 2])
        (MhloConcatenate (half_dim sh + 1) (reshapeToTarget reassoc (pair_shape sh) r0)
          (reshapeToTarget reassoc (pair_shape sh) r1)))) idx =
    texp_at sem st (if source_lane sh idx = 0 then r0 else r1) [source_counter sh idx]"
proof -
  let ?h = "half_dim sh" and ?z = "half_dim sh = length sh - 1"
  obtain A d b B I i j J where A: "length A = ?h" "length I = ?h"
    and sh: "sh @ (if ?z then [1] else []) = A @ d # b # B"
    and ix: "idx @ (if ?z then [0] else []) = I @ i # j # J"
    and at: "sh ! ?h = d" "idx ! ?h = i"
    and bounds: "inBounds I A" "0 \<le> i" "i < d" "0 \<le> j" "j < b" "inBounds J B"
    by (rule split_at_half [OF ne idx]) blast
  have len: "length idx = length sh" using idx by (rule inBounds_length)
  have h: "?h < length sh" by (rule half_dim_less [OF ne])
  have upd: "sh[?h := x] @ (if ?z then [1] else []) = A @ x # b # B" for x
    using arg_cong [where f = "\<lambda>l. l[?h := x]", OF sh] h A by (simp add: list_update_append)
  have updi: "idx[?h := x] @ (if ?z then [0] else []) = I @ x # j # J" for x
    using arg_cong [where f = "\<lambda>l. l[?h := x]", OF ix] h A len by (simp add: list_update_append)
  define e where "e = (d + 1) div 2"
  have e: "i div 2 < e" "d + d mod 2 = 2 * e" unfolding e_def using bounds by presburger+
  have ps: "pair_shape sh = A @ e # b # B" using pair_shape_eq [OF ne] upd [of e] at by (simp add: e_def)
  have pi: "pair_index sh idx = I @ (i div 2) # j # J" using updi [of "i div 2"] at by (simp add: pair_index_def)
  have pb: "inBounds (pair_index sh idx) (pair_shape sh)"
    unfolding ps pi using bounds e A by (simp add: inBounds_append)
  note t0 = reshape_at [OF c r(1) pb, unfolded ps pi] and t1 = reshape_at [OF c r(2) pb, unfolded ps pi]
  let ?C = "A @ e # 2 * b # B" and ?k = "(i mod 2) * b + j"
  have m: "i mod 2 = 0 \<or> i mod 2 = 1" by presburger
  have cb: "inBounds (I @ (i div 2) # ?k # J) ?C"
    using bounds e m A by (auto simp: inBounds_append)
  have cs: "(A @ e # b # B)[?h + 1 := (A @ e # b # B) ! (?h + 1) + (A @ e # b # B) ! (?h + 1)] = ?C"
    using A by (simp add: list_update_append nth_append)
  have slice: "map2 (\<lambda>(o1, s) i. o1 + i * s) (zip (replicate (length sh) 0) (replicate (length sh) 1)) idx = idx"
    using len by (auto intro!: nth_equalityI)
  have "flat (sh[?h := d + d mod 2]) idx = flat (sh[?h := 2 * e] @ (if ?z then [1] else [])) (idx @ (if ?z then [0] else []))"
    using len by (subst flat_1) (simp_all add: e(2))
  also have "\<dots> = flat (A @ 2 * e # b # B) (I @ i # j # J)" by (simp only: upd ix)
  also have "\<dots> = flat ?C (I @ (i div 2) # ?k # J)" using A by (intro flat_concat) simp
  finally have fl: "unflat ?C (flat (sh[?h := d + d mod 2]) idx) = I @ (i div 2) # ?k # J"
    using unflat_flat [OF cb] by simp
  have nth: "(A @ e # b # B) ! Suc ?h = b" "(I @ (i div 2) # ?k # J) ! Suc ?h = ?k"
    "(I @ (i div 2) # ?k # J)[Suc ?h := j] = I @ (i div 2) # j # J"
    using A by (simp_all add: nth_append list_update_append)
  have lane: "source_lane sh idx = i mod 2" "source_counter sh idx = flat (pair_shape sh) (pair_index sh idx)"
    by (simp_all add: source_lane_def source_counter_def at ne)
  show ?thesis
    unfolding texp_at.simps texp_shape.simps slice t0(1) t1(1) at(1) ps cs fl
    using m bounds nth t0(2) t1(2) by (auto simp: lane ps pi)
qed

lemma half_less: "0 \<le> i \<Longrightarrow> i < (d :: int) \<Longrightarrow> 0 \<le> i div 2 \<and> i div 2 < (d + 1) div 2"
  by presburger

lemma pair_inBounds:
  assumes "sh \<noteq> []" and "inBounds idx sh"
  shows "inBounds (pair_index sh idx) (pair_shape sh)"
proof -
  have "inBounds (idx[half_dim sh := idx ! half_dim sh div 2]) (sh[half_dim sh := (sh ! half_dim sh + 1) div 2])"
    using assms(2) half_dim_less [OF assms(1)] half_less
    by (auto simp: inBounds_nth_iff nth_list_update)
  moreover note inBounds_length [OF assms(2)]
  ultimately show ?thesis
    unfolding pair_shape_eq [OF assms(1)] pair_index_def by (simp add: inBounds_append)
qed

lemma source_counter_bounds:
  assumes "sh \<noteq> []" and "inBounds idx sh"
  shows "0 \<le> source_counter sh idx" and "source_counter sh idx < num_elements (pair_shape sh)"
  using flat_bounds [OF pair_inBounds [OF assms]] by (simp_all add: source_counter_def)

lemma source_inj:
  assumes ne: "sh \<noteq> []" and b: "inBounds idx sh" "inBounds idx' sh"
    and c: "source_counter sh idx = source_counter sh idx'" and l: "source_lane sh idx = source_lane sh idx'"
  shows "idx = idx'"
proof -
  let ?h = "half_dim sh"
  have len: "length idx = length sh" "length idx' = length sh" using b by (simp_all add: inBounds_length)
  have h: "?h < length sh" by (rule half_dim_less [OF ne])
  have "pair_index sh idx = pair_index sh idx'"
    using flat_inj [OF pair_inBounds [OF ne b(1)] pair_inBounds [OF ne b(2)]] c by (simp add: source_counter_def)
  then have u: "idx[?h := idx ! ?h div 2] = idx'[?h := idx' ! ?h div 2]" by (simp add: pair_index_def)
  show ?thesis
  proof (rule nth_equalityI)
    fix k assume k: "k < length idx"
    have e: "idx[?h := idx ! ?h div 2] ! k = idx'[?h := idx' ! ?h div 2] ! k" using u by simp
    show "idx ! k = idx' ! k"
    proof (cases "k = ?h")
      case True
      then have "idx ! ?h div 2 = idx' ! ?h div 2" using e h len by simp
      moreover have "idx ! ?h mod 2 = idx' ! ?h mod 2" using l ne by (simp add: source_lane_def)
      ultimately show ?thesis using True by (metis div_mult_mod_eq)
    qed (use e in simp)
  qed (use len in simp)
qed

text \<open>
  What the generated code reads from and writes to the stored state, and the value of every element
  of its result.
\<close>

section \<open>The stored state\<close>

text \<open>
  The elements of a store and the values they have when it holds the key \<open>k0\<close>, \<open>k1\<close> and the counter
  \<open>s\<close> as the code reads them: two 64-bit integers, or four of 32 bits of which the third is the high half
  of the counter.
\<close>

definition stored :: "ty \<Rightarrow> bvalue list" where
  "stored storeTy = map (\<lambda>k. (Operand (Suc k), element_type storeTy)) [0..<nat (num_elements (shape_of storeTy))]"

abbreviation store64 :: ty where "store64 \<equiv> RankedTensorType [2] i64_type NoEncoding"
abbreviation store32 :: ty where "store32 \<equiv> RankedTensorType [4] i32_type NoEncoding"

definition held :: "ty \<Rightarrow> 32 word \<Rightarrow> 32 word \<Rightarrow> 64 word \<Rightarrow> scalar list" where
  "held storeTy k0 k1 s =
     (if storeTy = store64 then [ScInt (wint (fuse64 k0 k1)), ScInt (wint s)]
      else [ScInt (wint k0), ScInt (wint k1), ScInt (wint (snd (split64 s))), ScInt (wint (fst (split64 s)))])"

definition swap_halves :: "64 word \<Rightarrow> 64 word" where
  "swap_halves v = fuse64 (snd (split64 v)) (fst (split64 v))"

lemma split_swap: "split64 (swap_halves v) = (snd (split64 v), fst (split64 v))"
  by (simp add: swap_halves_def split_fuse)

lemma len32: "LENGTH(32) = 32" and len64: "LENGTH(64) = 64"
  by simp_all

text \<open>The code of the result over the key and the counter, and the number of pairs it generates.\<close>

definition pair_count :: "ty \<Rightarrow> sizes \<Rightarrow> int" where
  "pair_count et sh = num_elements (if int_or_float_width et = 64 then sh else pair_shape sh)"

definition result_code :: "(sizes \<Rightarrow> sizes \<Rightarrow> bool) \<Rightarrow> ty \<Rightarrow> sizes \<Rightarrow> bvalue \<Rightarrow> bvalue \<Rightarrow> bvalue \<Rightarrow> texp" where
  "result_code reassoc et sh key0 key1 v = (let w = int_or_float_width et; split = runThreeFry2xi32 key0 key1 v;
          r = (\<lambda>f. GenericResult (pair_count et sh) (truncI w (f split)))
      in if w = 64 then reshapeToTarget reassoc sh (GenericResult (pair_count et sh) (fuseI32s (fst split) (snd split)))
        else if num_elements sh = 1 then reshapeToTarget reassoc sh (r fst)
        else MhloSlice (replicate (length sh) 0) sh (replicate (length sh) 1)
          (MhloReshape (sh[half_dim sh := sh ! half_dim sh + sh ! half_dim sh mod 2])
            (MhloConcatenate (half_dim sh + 1) (reshapeToTarget reassoc (pair_shape sh) (r fst))
              (reshapeToTarget reassoc (pair_shape sh) (r snd)))))"

text \<open>The pair of words of the counter at an index.\<close>

definition random_pair :: "32 word \<Rightarrow> 32 word \<Rightarrow> 64 word \<Rightarrow> int \<Rightarrow> 32 word \<times> 32 word" where
  "random_pair k0 k1 s i = threefry k0 k1 (split64 (word_of_int i + s))"

definition lane :: "int \<Rightarrow> 32 word \<times> 32 word \<Rightarrow> 32 word" where
  "lane l x = (if l = 0 then fst x else snd x)"

lemma random_pair_inj:
  assumes "0 \<le> i" "i < 2 ^ 64" "0 \<le> j" "j < 2 ^ 64" and "random_pair k0 k1 s i = random_pair k0 k1 s j"
  shows "i = j"
proof -
  have "(word_of_int i :: 64 word) = word_of_int j"
    using assms(5) by (simp add: random_pair_def inj_eq [OF inj_threefry] inj_eq [OF inj_split64])
  then have "uint (word_of_int i :: 64 word) = uint (word_of_int j :: 64 word)" by simp
  then show ?thesis using assms(1-4) by (simp add: uint_word_of_int)
qed

lemma fuse64_inj: "fuse64 (fst x) (snd x) = fuse64 (fst y) (snd y) \<Longrightarrow> x = y"
  by (metis split_fuse prod.collapse)

lemma ones: "num_elements sh = 1 \<Longrightarrow> \<forall>d \<in> set sh. 0 < d \<Longrightarrow> d \<in> set sh \<Longrightarrow> d = 1"
proof (induction sh)
  case (Cons a ds)
  then have "a = 1 \<and> num_elements ds = 1" by (auto simp: zmult_eq_1_iff)
  with Cons show ?case by auto
qed simp

text \<open>With one element there is one pair and its first word is taken.\<close>

lemma one_element:
  assumes "num_elements sh = 1" and "inBounds idx sh"
  shows "num_elements (pair_shape sh) = 1" and "flat sh idx = 0" and "source_counter sh idx = 0" and "source_lane sh idx = 0"
proof -
  have pos: "\<forall>d \<in> set sh. 0 < d" using assms(2) by (fastforce simp: inBounds_nth_iff in_set_conv_nth)
  show "flat sh idx = 0" using flat_bounds [OF assms(2)] assms(1) by simp
  have "num_elements (pair_shape sh) = 1 \<and> source_counter sh idx = 0 \<and> source_lane sh idx = 0"
  proof (cases "sh = []")
    case True
    then show ?thesis using assms(2)
      by (auto simp: pair_shape_def threeFry32Shape_def source_counter_def source_lane_def num_elements_def)
  next
    case False
    then have h: "half_dim sh < length sh" by (rule half_dim_less)
    then have d: "sh ! half_dim sh = 1" using ones [OF assms(1) pos] by simp
    then have "sh[half_dim sh := (sh ! half_dim sh + 1) div 2] = sh" by (metis list_update_id one_add_one nonzero_mult_div_cancel_left mult_1_right zero_neq_numeral)
    then have n: "num_elements (pair_shape sh) = 1" using assms(1) by (simp only: pair_shape_eq [OF False] num_elements_1)
    have "idx ! half_dim sh = 0" using assms(2) h d by (force simp: inBounds_nth_iff)
    then show ?thesis using n source_counter_bounds [OF False assms(2)] by (simp add: source_lane_def)
  qed
  then show "num_elements (pair_shape sh) = 1" "source_counter sh idx = 0" "source_lane sh idx = 0" by auto
qed

lemma yw_bitcast:
  assumes ok: "rng_ok sem"
  shows "yw sem env x (a :: 'a::len word) \<Longrightarrow> yw sem env (bitcast_to (IntegerType Signless LENGTH('a)) x) a"
  using ok by (simp add: yw_def yields_def bitcast_to_def create_def rng_ok_def)
    (metis wint_simps(1,3))

lemma yw_operand: "n < length env \<Longrightarrow> env ! n = ScInt (wint (a :: 'a::len word)) \<Longrightarrow>
    yw sem env (Operand n, IntegerType Signless LENGTH('a)) a"
  by (simp add: yw_def yields_def)

lemma stored_elems:
  "stored store64 = [(Operand 1, i64_type), (Operand 2, i64_type)]"
  "stored store32 = [(Operand 1, i32_type), (Operand 2, i32_type), (Operand 3, i32_type), (Operand 4, i32_type)]"
  by (simp_all add: stored_def num_elements_def upt_rec numeral_eq_Suc)

lemma read_state:
  assumes ok: "rng_ok sem" and "storeTy \<in> {store64, store32}"
  obtains v key0 key1 where "extractState64 storeTy (stored storeTy) = Inr v"
    "extractKey32 storeTy (stored storeTy) = Inr (key0, key1)"
    "\<And>x k0 k1 s. yw sem (x # held storeTy k0 k1 s) v s"
    "\<And>x k0 k1 s. yw sem (x # held storeTy k0 k1 s) key0 k0"
    "\<And>x k0 k1 s. yw sem (x # held storeTy k0 k1 s) key1 k1"
proof (cases "storeTy = store64")
  case True
  let ?k = "splitI64 (bitcast_to i64_type (Operand 1, i64_type))"
  have w: "yw sem (x # held storeTy k0 k1 s) (bitcast_to i64_type (Operand 1, i64_type)) (fuse64 k0 k1)"
    "yw sem (x # held storeTy k0 k1 s) (bitcast_to i64_type (Operand 2, i64_type)) s" for x k0 k1 s
    using yw_bitcast [OF ok, where 'a = 64, unfolded len64] yw_operand [where 'a = 64, unfolded len64]
    by (simp_all add: held_def True)
  show ?thesis
    by (rule that [of "bitcast_to i64_type (Operand 2, i64_type)" "fst ?k" "snd ?k"])
      (use True w yw_split [OF ok w(1)] in \<open>auto simp: extractState64_def extractKey32_def stored_elems isInteger_def rank_def split_fuse\<close>)
next
  case False
  then have t: "storeTy = store32" using assms by simp
  have w: "yw sem (x # held storeTy k0 k1 s) (Operand 1, i32_type) k0"
    "yw sem (x # held storeTy k0 k1 s) (Operand 2, i32_type) k1"
    "yw sem (x # held storeTy k0 k1 s) (Operand 3, i32_type) (snd (split64 s))"
    "yw sem (x # held storeTy k0 k1 s) (Operand 4, i32_type) (fst (split64 s))" for x k0 k1 s
    using yw_operand [where 'a = 32, unfolded len32] by (simp_all add: held_def t)
  have v: "yw sem (x # held storeTy k0 k1 s) (bitcast_to i64_type (fuseI32s (Operand 4, i32_type) (Operand 3, i32_type))) s"
    for x k0 k1 s
    using yw_bitcast [OF ok, where 'a = 64, unfolded len64, OF yw_fuse [OF ok w(4,3)]] by (simp add: fuse_split)
  show ?thesis
    by (rule that [of "bitcast_to i64_type (fuseI32s (Operand 4, i32_type) (Operand 3, i32_type))"
          "bitcast_to i32_type (Operand 1, i32_type)" "bitcast_to i32_type (Operand 2, i32_type)"])
      (use t v w yw_bitcast [OF ok, where 'a = 32, unfolded len32] in
        \<open>auto simp: extractState64_def extractKey32_def stored_elems isInteger_def rank_def Let_def\<close>)
qed

lemma upd_23: "[a, b, c, d][2 := x, 3 := y] = [a, b, x, y]"
  by (simp add: numeral_eq_Suc)

lemma write_state:
  assumes ok: "rng_ok sem" and "storeTy \<in> {store64, store32}" and "\<And>x. yw sem (x # held storeTy k0 k1 s) v (n :: 64 word)"
  obtains store' where "setState64 storeTy (stored storeTy) v = Inr store'"
    "\<And>x. map (\<lambda>v. eval_sexp sem (x # held storeTy k0 k1 s) [] (fst v)) store' =
       map Inr (held storeTy k0 k1 (if storeTy = store64 then n else swap_halves n))"
proof (cases "storeTy = store64")
  case True
  let ?v = "bitcast_to i64_type v"
  have "yw sem (x # held storeTy k0 k1 s) ?v n" for x
    using yw_bitcast [OF ok, where 'a = 64, unfolded len64, OF assms(3)] .
  then show ?thesis
    by (intro that [of "[(Operand 1, i64_type), ?v]"])
      (simp_all add: True setState64_def stored_elems isInteger_def rank_def Let_def held_def yw_def yields_def)
next
  case False
  then have t: "storeTy = store32" using assms(2) by simp
  let ?v0 = "bitcast_to i32_type (fst (splitI64 v))" and ?v1 = "bitcast_to i32_type (snd (splitI64 v))"
  have "yw sem (x # held storeTy k0 k1 s) ?v0 (fst (split64 n))" "yw sem (x # held storeTy k0 k1 s) ?v1 (snd (split64 n))" for x
    using yw_bitcast [OF ok, where 'a = 32, unfolded len32, OF yw_split(1) [OF ok assms(3)]]
      yw_bitcast [OF ok, where 'a = 32, unfolded len32, OF yw_split(2) [OF ok assms(3)]] .
  then show ?thesis
    by (intro that [of "[(Operand 1, i32_type), (Operand 2, i32_type), ?v0, ?v1]"])
      (simp_all add: t setState64_def stored_elems isInteger_def rank_def Let_def held_def yw_def yields_def
        split_swap upd_23)
qed

section \<open>The elements\<close>

lemma trunc_value:
  assumes ok: "rng_ok sem" and "yw sem env x (w :: 32 word)" and "n = 16 \<or> n = 32"
  shows "eval_sexp sem env [] (fst (truncI n x)) = Inr (ScInt (mk_apint n (uint w)))"
proof -
  have s: "snd x = i32_type" and e: "eval_sexp sem env [] (fst x) = Inr (ScInt (wint w))"
    using assms(2) by (simp_all add: yw_def yields_def)
  show ?thesis
  proof (cases "n = 32")
    case True
    have "mk_apint LENGTH(32) (uint w) = wint w" by (simp only: mk_apint_wint word_of_int_uint)
    then show ?thesis using True s e by (simp add: truncI_def)
  next
    case False
    then have "n = 16" using assms(3) by simp
    then have "sem (ArithI TruncI) (IntegerType Signless n) [ScInt (wint w)] = Inr (ScInt (mk_apint n (uint w)))"
      using arith_casts(1) [OF arith [OF ok], of "wint w" n] by simp
    then show ?thesis using False s e by (simp add: truncI_def create_def)
  qed
qed

lemma pair_words:
  assumes ok: "rng_ok sem" and "\<And>x. yw sem (x # ws) key0 k0" "\<And>x. yw sem (x # ws) key1 k1" "\<And>x. yw sem (x # ws) v s"
  shows "yw sem (ScInt (mk_apint 64 i) # ws) (fst (runThreeFry2xi32 key0 key1 v)) (fst (random_pair k0 k1 s i))"
    and "yw sem (ScInt (mk_apint 64 i) # ws) (snd (runThreeFry2xi32 key0 key1 v)) (snd (random_pair k0 k1 s i))"
  unfolding random_pair_def by (rule yw_threefry [OF assms]; simp)+

lemma counter_value:
  assumes ok: "rng_ok sem" and "\<And>x. yw sem (x # ws) v (s :: 64 word)"
  shows "yw sem (x # ws) (plus_op v (constantI n 64)) (s + word_of_int n)"
  by (rule yw_plus [OF assms]) (rule yw_const [OF ok, where 'a = 64, unfolded len64])

lemma generate_code:
  assumes ok: "rng_ok sem" and "storeTy \<in> {store64, store32}" and "int_or_float_width et \<in> {16, 32, 64}"
  obtains v key0 key1 store' t where
    "generateLinalgThreeFry reassoc (RankedTensorType sh et enc) storeTy (stored storeTy) = Inr (store', t)"
    "\<And>x k0 k1 s. yw sem (x # held storeTy k0 k1 s) v s"
    "\<And>x k0 k1 s. yw sem (x # held storeTy k0 k1 s) key0 k0"
    "\<And>x k0 k1 s. yw sem (x # held storeTy k0 k1 s) key1 k1"
    "setState64 storeTy (stored storeTy) (plus_op v (constantI (pair_count et sh) 64)) = Inr store'"
    "t = result_code reassoc et sh key0 key1 v"
proof -
  obtain v key0 key1 where r: "extractState64 storeTy (stored storeTy) = Inr v"
    "extractKey32 storeTy (stored storeTy) = Inr (key0, key1)"
    and yw: "\<And>x k0 k1 s. yw sem (x # held storeTy k0 k1 s) v s"
    "\<And>x k0 k1 s. yw sem (x # held storeTy k0 k1 s) key0 k0"
    "\<And>x k0 k1 s. yw sem (x # held storeTy k0 k1 s) key1 k1"
    by (rule read_state [OF ok assms(2)]) blast
  obtain store' where w: "setState64 storeTy (stored storeTy) (plus_op v (constantI (pair_count et sh) 64)) = Inr store'"
    by (rule write_state [OF ok assms(2) counter_value [OF ok yw(1)]]) blast
  show ?thesis
    by (rule that [OF _ yw w refl])
      (use assms(3) r w in \<open>auto simp: generateLinalgThreeFry_def generateLinalgThreeFry32_def
        generateLinalgThreeFry64_def result_code_def threefry_shape pair_count_def Let_def\<close>)
qed

lemma elements_32:
  assumes ok: "rng_ok sem" and "collapses reassoc" and "storeTy \<in> {store64, store32}" and "int_or_float_width et = w" and "w = 16 \<or> w = 32"
  obtains store' t where
    "generateLinalgThreeFry reassoc (RankedTensorType sh et enc) storeTy (stored storeTy) = Inr (store', t)"
    "\<And>idx k0 k1 s. inBounds idx sh \<Longrightarrow> texp_at sem (held storeTy k0 k1 s) t idx =
      Inr (ScInt (mk_apint w (uint (lane (source_lane sh idx) (random_pair k0 k1 s (source_counter sh idx))))))"
proof -
  have w: "int_or_float_width et \<in> {16, 32, 64}" using assms(4,5) by auto
  obtain v key0 key1 store' t where
    g: "generateLinalgThreeFry reassoc (RankedTensorType sh et enc) storeTy (stored storeTy) = Inr (store', t)" and
    yw: "\<And>x k0 k1 s. yw sem (x # held storeTy k0 k1 s) v s"
      "\<And>x k0 k1 s. yw sem (x # held storeTy k0 k1 s) key0 k0"
      "\<And>x k0 k1 s. yw sem (x # held storeTy k0 k1 s) key1 k1" and
    t: "t = result_code reassoc et sh key0 key1 v"
    by (rule generate_code [OF ok assms(3) w]) blast
  define r where "r f = GenericResult (pair_count et sh) (truncI w (f (runThreeFry2xi32 key0 key1 v)))"
    for f :: "bvalue \<times> bvalue \<Rightarrow> bvalue"
  have n: "pair_count et sh = num_elements (pair_shape sh)" using assms(4,5) by (auto simp: pair_count_def)
  have at: "texp_at sem (held storeTy k0 k1 s) (if l = 0 then r fst else r snd) [i] =
      Inr (ScInt (mk_apint w (uint (lane l (random_pair k0 k1 s i)))))" for k0 k1 s i l
    using trunc_value [OF ok pair_words(1) [OF ok yw(2,3,1)] assms(5)] trunc_value [OF ok pair_words(2) [OF ok yw(2,3,1)] assms(5)]
    by (simp add: r_def lane_def)
  have sh: "texp_shape (r f) = [num_elements (pair_shape sh)]" for f by (simp add: r_def n)
  have "texp_at sem (held storeTy k0 k1 s) t idx =
      Inr (ScInt (mk_apint w (uint (lane (source_lane sh idx) (random_pair k0 k1 s (source_counter sh idx))))))"
    if idx: "inBounds idx sh" for idx k0 k1 s
  proof (cases "num_elements sh = 1")
    case True
    note one = one_element [OF True idx]
    have "t = reshapeToTarget reassoc sh (r fst)" using assms(4,5) True by (auto simp: t result_code_def r_def Let_def)
    moreover have "texp_shape (r fst) = [num_elements sh]" by (simp add: sh one(1) True)
    ultimately show ?thesis
      using reshape_at(2) [OF assms(2) _ idx, of "r fst" sem "held storeTy k0 k1 s"] at [of k0 k1 s 0 0] one by simp
  next
    case False
    then have ne: "sh \<noteq> []" by (auto simp: num_elements_def)
    have "t = MhloSlice (replicate (length sh) 0) sh (replicate (length sh) 1)
          (MhloReshape (sh[half_dim sh := sh ! half_dim sh + sh ! half_dim sh mod 2])
            (MhloConcatenate (half_dim sh + 1) (reshapeToTarget reassoc (pair_shape sh) (r fst))
              (reshapeToTarget reassoc (pair_shape sh) (r snd))))"
      using assms(4,5) False by (auto simp: t result_code_def r_def Let_def)
    then show ?thesis using layout_at [OF assms(2) ne idx sh sh] at by simp
  qed
  then show ?thesis using g that by blast
qed

lemma elements_64:
  assumes ok: "rng_ok sem" and "collapses reassoc" and "storeTy \<in> {store64, store32}" and "int_or_float_width et = 64"
  obtains store' t where
    "generateLinalgThreeFry reassoc (RankedTensorType sh et enc) storeTy (stored storeTy) = Inr (store', t)"
    "\<And>idx k0 k1 s. inBounds idx sh \<Longrightarrow> texp_at sem (held storeTy k0 k1 s) t idx =
      Inr (ScInt (wint (fuse64 (fst (random_pair k0 k1 s (flat sh idx))) (snd (random_pair k0 k1 s (flat sh idx))))))"
proof -
  have w: "int_or_float_width et \<in> {16, 32, 64}" using assms(4) by auto
  obtain v key0 key1 store' t where
    g: "generateLinalgThreeFry reassoc (RankedTensorType sh et enc) storeTy (stored storeTy) = Inr (store', t)" and
    yw: "\<And>x k0 k1 s. yw sem (x # held storeTy k0 k1 s) v s"
      "\<And>x k0 k1 s. yw sem (x # held storeTy k0 k1 s) key0 k0"
      "\<And>x k0 k1 s. yw sem (x # held storeTy k0 k1 s) key1 k1" and
    t: "t = result_code reassoc et sh key0 key1 v"
    by (rule generate_code [OF ok assms(3) w]) blast
  define r where "r = GenericResult (num_elements sh)
    (fuseI32s (fst (runThreeFry2xi32 key0 key1 v)) (snd (runThreeFry2xi32 key0 key1 v)))"
  have t: "t = reshapeToTarget reassoc sh r" by (simp add: t result_code_def assms(4) r_def pair_count_def Let_def)
  have at: "texp_at sem (held storeTy k0 k1 s) r [i] =
      Inr (ScInt (wint (fuse64 (fst (random_pair k0 k1 s i)) (snd (random_pair k0 k1 s i)))))" for k0 k1 s i
  proof -
    have "yw sem (ScInt (mk_apint 64 i) # held storeTy k0 k1 s)
        (fuseI32s (fst (runThreeFry2xi32 key0 key1 v)) (snd (runThreeFry2xi32 key0 key1 v)))
        (fuse64 (fst (random_pair k0 k1 s i)) (snd (random_pair k0 k1 s i)))"
      by (rule yw_fuse [OF ok]; rule pair_words [OF ok yw(2,3,1)])
    then show ?thesis by (simp add: r_def yw_def yields_def)
  qed
  show ?thesis
    by (rule that [OF g]) (simp add: t reshape_at(2) [OF assms(2)] r_def [THEN arg_cong [where f = texp_shape]] at)
qed

lemma state_written:
  assumes ok: "rng_ok sem" and "storeTy \<in> {store64, store32}" and "int_or_float_width et \<in> {16, 32, 64}"
  obtains store' t where
    "generateLinalgThreeFry reassoc (RankedTensorType sh et enc) storeTy (stored storeTy) = Inr (store', t)"
    "\<And>x k0 k1 s. map (\<lambda>v. eval_sexp sem (x # held storeTy k0 k1 s) [] (fst v)) store' =
       map Inr (held storeTy k0 k1 (if storeTy = store64 then s + word_of_int (pair_count et sh)
         else swap_halves (s + word_of_int (pair_count et sh))))"
proof -
  obtain v key0 key1 store' t where
    g: "generateLinalgThreeFry reassoc (RankedTensorType sh et enc) storeTy (stored storeTy) = Inr (store', t)" and
    yw: "\<And>x k0 k1 s. yw sem (x # held storeTy k0 k1 s) v s" and
    w: "setState64 storeTy (stored storeTy) (plus_op v (constantI (pair_count et sh) 64)) = Inr store'"
    by (rule generate_code [OF assms]) blast
  have "map (\<lambda>v. eval_sexp sem (x # held storeTy k0 k1 s) [] (fst v)) store' =
       map Inr (held storeTy k0 k1 (if storeTy = store64 then s + word_of_int (pair_count et sh)
         else swap_halves (s + word_of_int (pair_count et sh))))" for x k0 k1 s
    by (rule write_state [OF ok assms(2) counter_value [OF ok yw [of _ k0 k1 s], where n = "pair_count et sh"]])
      (use w in simp)
  then show ?thesis using g that by blast
qed

end
