(* ===== verification/RngProperties.thy ===== *)
theory RngProperties
  imports RngState ScalarProperties
begin

text \<open>
  The properties of the code a random bit generator is lowered to, with a dialect for the witnesses.
\<close>

section \<open>A dialect\<close>

fun sample_casts :: "std_op \<Rightarrow> ty \<Rightarrow> scalar list \<Rightarrow> scalar res option" where
  "sample_casts IndexCast t [ScInt a] = Some (Inr (ScInt a))"
| "sample_casts Bitcast (IntegerType s w) [ScInt a] = Some (Inr (ScInt a))"
| "sample_casts _ _ _ = None"

definition sample_rng :: dialects where
  "sample_rng oper t vs = (case sample_casts oper t vs of Some r \<Rightarrow> r | None \<Rightarrow> sample_dialects oper t vs)"

lemma sample_casts_none: "oper \<noteq> IndexCast \<Longrightarrow> oper \<noteq> Bitcast \<Longrightarrow> sample_casts oper t vs = None"
  by (cases "(oper, t, vs)" rule: sample_casts.cases) simp_all

lemma sample_rng_ok: "rng_ok sample_rng"
proof -
  have e: "oper \<noteq> IndexCast \<Longrightarrow> oper \<noteq> Bitcast \<Longrightarrow> sample_rng oper t vs = sample_dialects oper t vs" for oper t vs
    by (simp add: sample_rng_def sample_casts_none)
  have b: "sample_rng Bitcast (IntegerType s w) [ScFloat f] = sample_dialects Bitcast (IntegerType s w) [ScFloat f]"
    "sample_rng Bitcast (FloatType sm) [ScInt a] = sample_dialects Bitcast (FloatType sm) [ScInt a]" for s w f sm a
    by (simp_all add: sample_rng_def)
  have "arith_ok sample_rng" using sample_dialects_ok unfolding arith_ok_def by (simp add: e b)
  then show ?thesis by (simp add: rng_ok_def sample_rng_def)
qed

definition sample_reassoc :: "sizes \<Rightarrow> sizes \<Rightarrow> bool" where
  "sample_reassoc src target \<longleftrightarrow> length target < length src"

lemma sample_reassoc_ok: "collapses sample_reassoc"
  by (simp add: collapses_def sample_reassoc_def)

lemma zero_pair: "random_pair 0 0 0 0 = (0x6b200159, 0x99ba4efe)"
proof -
  have "split64 (word_of_int 0 + 0) = (0, 0)" by (simp add: split64_def)
  moreover have "threefry 0 0 (0, 0) = (0x6b200159, 0x99ba4efe)" by code_simp
  ultimately show ?thesis by (simp add: random_pair_def)
qed

section \<open>The generated numbers\<close>

text \<open>
  C17: The code generated for a result with 16- or 32-bit elements computes ThreeFry: the element at an
  index is a truncated word of the pair that the twenty rounds make of the key and of the counter of that
  pair, added to the counter in the store. No two elements use the same word of the same pair, and the
  counters used are below the number of pairs the counter in the store advances by.
\<close>

theorem threefry_elements:
  assumes "rng_ok sem" and "collapses reassoc" and "storeTy \<in> {store64, store32}"
    and "int_or_float_width et = w" and "w = 16 \<or> w = 32"
  shows "\<exists>store' t. generateLinalgThreeFry reassoc (RankedTensorType sh et enc) storeTy (stored storeTy) = Inr (store', t) \<and>
    (\<forall>idx k0 k1 s. inBounds idx sh \<longrightarrow> texp_at sem (held storeTy k0 k1 s) t idx =
       Inr (ScInt (mk_apint w (uint (lane (source_lane sh idx) (random_pair k0 k1 s (source_counter sh idx))))))) \<and>
    inj_on (\<lambda>idx. (source_counter sh idx, source_lane sh idx)) {idx. inBounds idx sh} \<and>
    (\<forall>idx. inBounds idx sh \<longrightarrow> 0 \<le> source_counter sh idx \<and> source_counter sh idx < pair_count et sh)"
proof -
  obtain store' t where
    "generateLinalgThreeFry reassoc (RankedTensorType sh et enc) storeTy (stored storeTy) = Inr (store', t)"
    "\<And>idx k0 k1 s. inBounds idx sh \<Longrightarrow> texp_at sem (held storeTy k0 k1 s) t idx =
      Inr (ScInt (mk_apint w (uint (lane (source_lane sh idx) (random_pair k0 k1 s (source_counter sh idx))))))"
    by (rule elements_32 [OF assms]) blast
  moreover have "inj_on (\<lambda>idx. (source_counter sh idx, source_lane sh idx)) {idx. inBounds idx sh}"
  proof (cases "sh = []")
    case False
    show ?thesis by (rule inj_onI) (use source_inj [OF False] in simp)
  qed (simp add: inj_on_def inBounds_def)
  moreover have "pair_count et sh = num_elements (pair_shape sh)" using assms(4,5) by (auto simp: pair_count_def)
  moreover have "0 \<le> source_counter sh idx \<and> source_counter sh idx < num_elements (pair_shape sh)"
    if "inBounds idx sh" for idx
  proof (cases "sh = []")
    case True
    then have "num_elements sh = 1" by (simp add: num_elements_def)
    then show ?thesis using one_element [OF _ that] by simp
  qed (use source_counter_bounds that in blast)
  ultimately show ?thesis by auto
qed

theorem threefry_elements_witness:
  "\<exists>store' t. generateLinalgThreeFry sample_reassoc (RankedTensorType [2] i32_type NoEncoding) store64 (stored store64) = Inr (store', t) \<and>
    texp_at sample_rng (held store64 0 0 0) t [1] = Inr (ScInt (mk_apint 32 0x99ba4efe))"
proof -
  have b: "inBounds [1] [2]" by simp
  have "source_counter [2] [1] = 0" "source_lane [2] [1] = 1" by code_simp+
  moreover have "uint (0x99ba4efe :: 32 word) = 0x99ba4efe" by simp
  ultimately show ?thesis
    using threefry_elements [OF sample_rng_ok sample_reassoc_ok, of store64 i32_type 32 "[2]" NoEncoding] b
    by (auto simp: lane_def zero_pair)
qed

text \<open>
  C26: For 64-bit elements the code fuses the two words of one pair for each element, with the row-major
  position of the element as its counter. A result of at most two to the power of 64 elements holds no
  number twice.
\<close>

theorem threefry_64_distinct:
  assumes "rng_ok sem" and "collapses reassoc" and "storeTy \<in> {store64, store32}"
    and "int_or_float_width et = 64"
  shows "\<exists>store' t. generateLinalgThreeFry reassoc (RankedTensorType sh et enc) storeTy (stored storeTy) = Inr (store', t) \<and>
    (\<forall>idx k0 k1 s. inBounds idx sh \<longrightarrow> texp_at sem (held storeTy k0 k1 s) t idx =
       Inr (ScInt (wint (fuse64 (fst (random_pair k0 k1 s (flat sh idx))) (snd (random_pair k0 k1 s (flat sh idx))))))) \<and>
    (\<forall>k0 k1 s. num_elements sh \<le> 2 ^ 64 \<longrightarrow>
       inj_on (texp_at sem (held storeTy k0 k1 s) t) {idx. inBounds idx sh})"
proof -
  obtain store' t where
    g: "generateLinalgThreeFry reassoc (RankedTensorType sh et enc) storeTy (stored storeTy) = Inr (store', t)" and
    at: "\<And>idx k0 k1 s. inBounds idx sh \<Longrightarrow> texp_at sem (held storeTy k0 k1 s) t idx =
      Inr (ScInt (wint (fuse64 (fst (random_pair k0 k1 s (flat sh idx))) (snd (random_pair k0 k1 s (flat sh idx))))))"
    by (rule elements_64 [OF assms]) blast
  have "idx = idx'" if n: "num_elements sh \<le> 2 ^ 64" and b: "inBounds idx sh" "inBounds idx' sh"
    and eq: "texp_at sem (held storeTy k0 k1 s) t idx = texp_at sem (held storeTy k0 k1 s) t idx'" for idx idx' k0 k1 s
  proof -
    have "random_pair k0 k1 s (flat sh idx) = random_pair k0 k1 s (flat sh idx')"
      using eq by (intro fuse64_inj) (simp add: at b wint_def word_uint_eq_iff)
    then have "flat sh idx = flat sh idx'"
      using flat_bounds [OF b(1)] flat_bounds [OF b(2)] n by (intro random_pair_inj [of _ _ k0 k1 s]) simp_all
    then show ?thesis using b by (intro flat_inj)
  qed
  then show ?thesis using g at by (auto intro!: inj_onI)
qed

theorem threefry_64_distinct_witness:
  "\<exists>store' t. generateLinalgThreeFry sample_reassoc (RankedTensorType [1, 3] i64_type NoEncoding) store32 (stored store32) = Inr (store', t) \<and>
    texp_at sample_rng (held store32 0 0 0) t [0, 0] = Inr (ScInt (wint (fuse64 0x6b200159 0x99ba4efe)))"
proof -
  have "inBounds [0, 0] [1, 3]" by simp
  moreover have "flat [1, 3] [0, 0] = 0" by code_simp
  ultimately show ?thesis
    using threefry_64_distinct [OF sample_rng_ok sample_reassoc_ok, of store32 i64_type "[1, 3]" NoEncoding]
    by (fastforce simp: zero_pair)
qed

section \<open>The state\<close>



end
